(* ===== verification/Ipc_Prelude.thy ===== *)
theory Ipc_Prelude
  imports
    Main
    "HOL-Library.Word"
    "HOL-Library.Char_ord"
    "HOL-Library.List_Lexorder"
begin

text \<open>
  Shared vocabulary of the development: the machine types of the C++ sources, the
  containers of the C++ standard library the sources use, and the results of the secure copy
  functions.

  Containers. A \<open>std::map\<close> is an association list that is strictly sorted by its keys, so that
  a loop over the list visits the entries in the order in which an iterator of the map does.
  \<open>omap_put\<close> is \<open>insert_or_assign\<close> (and \<open>operator[]\<close> assignment), \<open>omap_insert\<close> is
  \<open>insert\<close>, \<open>omap_erase\<close> is \<open>erase\<close> by key and \<open>map_of\<close> is \<open>find\<close>. Strings are compared
  lexicographically by unsigned byte, as \<open>std::string\<close> does.

  Every operation of the skeleton classes runs under the mutex of the table it touches; one
  operation is one atomic step of the model, and the mutexes themselves do not appear.
\<close>

section \<open>Machine types\<close>

type_synonym u8 = "8 word"
type_synonym u16 = "16 word"
type_synonym u32 = "32 word"
type_synonym u64 = "64 word"
type_synonym ptr = "64 word"
type_synonym u16string = "16 word list"
type_synonym bytes = "8 word list"
type_synonym thread_id = nat

abbreviation (input) nullptr :: ptr where
  "nullptr \<equiv> 0"

text \<open>The default-constructed \<open>std::thread::id\<close>, which names no thread.\<close>

abbreviation (input) no_thread :: thread_id where
  "no_thread \<equiv> 0"

abbreviation (input) INT_MAX :: int where
  "INT_MAX \<equiv> 2147483647"

named_theorems omap_simps \<open>lookup after an update of an ordered map\<close>
named_theorems wf_intros \<open>preservation of the well-formedness of the containers\<close>

section \<open>Ordered maps\<close>

type_synonym ('k, 'v) omap = "('k \<times> 'v) list"

fun omap_put :: "'k::linorder \<Rightarrow> 'v \<Rightarrow> ('k, 'v) omap \<Rightarrow> ('k, 'v) omap" where
  "omap_put k v [] = [(k, v)]"
| "omap_put k v ((k', v') # m) =
     (if k < k' then (k, v) # (k', v') # m
      else if k = k' then (k, v) # m
      else (k', v') # omap_put k v m)"

definition omap_insert :: "'k::linorder \<Rightarrow> 'v \<Rightarrow> ('k, 'v) omap \<Rightarrow> bool \<times> ('k, 'v) omap" where
  "omap_insert k v m =
     (case map_of m k of None \<Rightarrow> (True, omap_put k v m) | Some _ \<Rightarrow> (False, m))"

definition omap_erase :: "'k \<Rightarrow> ('k, 'v) omap \<Rightarrow> ('k, 'v) omap" where
  "omap_erase k m = filter (\<lambda>e. fst e \<noteq> k) m"

definition omap_wf :: "('k::linorder, 'v) omap \<Rightarrow> bool" where
  "omap_wf m \<longleftrightarrow> sorted_wrt (<) (map fst m)"

lemma map_of_omap_put [omap_simps, simp]: "map_of (omap_put k v m) = (map_of m)(k \<mapsto> v)"
  by (induction k v m rule: omap_put.induct) (auto simp: fun_eq_iff)

lemma map_of_omap_erase [omap_simps, simp]: "map_of (omap_erase k m) = (map_of m)(k := None)"
  by (induction m) (auto simp: omap_erase_def fun_eq_iff)

lemma set_fst_omap_put [simp]: "fst ` set (omap_put k v m) = insert k (fst ` set m)"
  by (induction k v m rule: omap_put.induct) auto

lemma set_omap_put: "set (omap_put k v m) \<subseteq> insert (k, v) (set m)"
  by (induction k v m rule: omap_put.induct) auto

lemma omap_wf_Nil [wf_intros, simp]: "omap_wf []"
  by (simp add: omap_wf_def)

lemma omap_wf_Cons [simp]:
  "omap_wf (e # m) \<longleftrightarrow> (\<forall>k \<in> fst ` set m. fst e < k) \<and> omap_wf m"
  by (auto simp: omap_wf_def)

lemma omap_wf_put [wf_intros]: "omap_wf m \<Longrightarrow> omap_wf (omap_put k v m)"
  by (induction k v m rule: omap_put.induct) auto

lemma omap_wf_filter [wf_intros]: "omap_wf m \<Longrightarrow> omap_wf (filter P m)"
  by (induction m) auto

lemma omap_wf_erase [wf_intros]: "omap_wf m \<Longrightarrow> omap_wf (omap_erase k m)"
  unfolding omap_erase_def by (rule omap_wf_filter)

lemma omap_wf_map_snd [wf_intros]: "omap_wf m \<Longrightarrow> omap_wf (map (\<lambda>(k, v). (k, f k v)) m)"
  by (induction m) auto

lemma omap_wf_insert [wf_intros]: "omap_wf m \<Longrightarrow> omap_wf (snd (omap_insert k v m))"
  by (auto simp: omap_insert_def omap_wf_put split: option.splits)

lemma omap_wf_distinct: "omap_wf m \<Longrightarrow> distinct (map fst m)"
  by (induction m) auto

lemma omap_wf_map_of_iff: "omap_wf m \<Longrightarrow> map_of m k = Some v \<longleftrightarrow> (k, v) \<in> set m"
  by (rule map_of_eq_Some_iff [OF omap_wf_distinct])

lemma omap_insert_fresh:
  "map_of m k = None \<Longrightarrow> omap_insert k v m = (True, omap_put k v m)"
  by (simp add: omap_insert_def)

lemma omap_insert_present:
  "map_of m k = Some w \<Longrightarrow> omap_insert k v m = (False, m)"
  by (simp add: omap_insert_def)

lemma fst_omap_insert [simp]: "fst (omap_insert k v m) \<longleftrightarrow> map_of m k = None"
  by (simp add: omap_insert_def split: option.splits)

lemma map_of_filter_val:
  assumes "distinct (map fst m)"
  shows "map_of (filter (\<lambda>e. P (snd e)) m) k =
    (case map_of m k of None \<Rightarrow> None | Some v \<Rightarrow> if P v then Some v else None)"
  using assms
proof (induction m)
  case Nil
  then show ?case by simp
next
  case (Cons e m)
  obtain a b where e: "e = (a, b)" by (cases e)
  from Cons.prems have "map_of m a = None"
    by (simp add: e map_of_eq_None_iff)
  moreover have "map_of (filter (\<lambda>e. P (snd e)) m) k =
      (case map_of m k of None \<Rightarrow> None | Some v \<Rightarrow> if P v then Some v else None)"
    using Cons by simp
  ultimately show ?case by (auto simp: e)
qed

lemma omap_put_put [simp]: "omap_put k v (omap_put k w m) = omap_put k v m"
  by (induction k w m rule: omap_put.induct) auto

lemma omap_erase_fresh: "map_of m k = None \<Longrightarrow> omap_erase k m = m"
  by (auto simp: omap_erase_def map_of_eq_None_iff intro!: filter_True)

lemma omap_erase_put: "map_of m k = None \<Longrightarrow> omap_erase k (omap_put k v m) = m"
proof (induction k v m rule: omap_put.induct)
  case (2 k v k' v' m)
  then show ?case
    using omap_erase_fresh [of "(k', v') # m" k] by (auto simp: omap_erase_def split: if_splits)
qed (simp add: omap_erase_def)

lemma length_filter_omap_put:
  "map_of m k = None \<Longrightarrow>
   length (filter P (omap_put k v m)) = length (filter P m) + (if P (k, v) then 1 else 0)"
  by (induction k v m rule: omap_put.induct) (auto split: if_splits)

lemma length_filter_omap_erase:
  assumes "omap_wf m" "map_of m k = Some v"
  shows "length (filter P m) = length (filter P (omap_erase k m)) + (if P (k, v) then 1 else 0)"
  using assms
proof (induction m)
  case (Cons e m)
  show ?case
  proof (cases "fst e = k")
    case True
    with Cons.prems have "map_of m k = None" by (cases e) (auto simp: map_of_eq_None_iff)
    with True Cons.prems show ?thesis by (cases e) (auto simp: omap_erase_def omap_erase_fresh [unfolded omap_erase_def])
  next
    case False
    with Cons show ?thesis by (cases e) (auto simp: omap_erase_def)
  qed
qed simp

lemma uint_word_of_int_small:
  "0 \<le> k \<Longrightarrow> k < 2 ^ LENGTH('a) \<Longrightarrow> uint (word_of_int k :: 'a::len word) = k"
  by (simp add: uint_word_of_int_eq take_bit_int_eq_self)

end
