(* ===== verification/Buffer_Object.thy ===== *)
theory Buffer_Object
  imports Ipc_Prelude
begin

text \<open>
  \<open>BufferObject\<close> (\<open>framework/source/buffer_object.cpp\<close>): the growable send and receive buffers
  of a databus session, and its two clients on the send side, \<open>MoveTransData2Buffer\<close>
  (\<open>dbinder_base_invoker_object.h\<close>), which queues a transaction, and
  \<open>DBinderDatabusInvoker::SendData\<close>, which hands the queued bytes to the socket.

  A \<open>chan\<close> holds the four fields the class keeps per direction: the write and the read cursor,
  the array (\<open>None\<close> for a null pointer) and its size. The class keeps these fields twice and so
  does \<open>buffer_object\<close>; code that the class has in two copies, differing in nothing but the
  direction, is written once on a \<open>chan\<close>. \<open>ssize_t\<close> is 64 bit wide; the values that occur stay
  below \<open>2 ^ 33\<close> in magnitude under the invariant, so they are \<open>int\<close>s. \<open>uint32_t\<close> arguments are
  words, and casts from \<open>ssize_t\<close> to \<open>uint32_t\<close> are \<open>word_of_int\<close>.

  The allocator and the bounds-checking C library are code outside the repository: they are the
  components of the parameter \<open>libc\<close>, and \<open>libc_ok\<close> says what their documentation promises.
\<close>

section \<open>Constants and environment\<close>

abbreviation (input) SOCKET_BUFF_RESERVED_SIZE :: int where
  "SOCKET_BUFF_RESERVED_SIZE \<equiv> 256"

abbreviation (input) SOCKET_BUFF_SIZE_USER_S :: u32 where
  "SOCKET_BUFF_SIZE_USER_S \<equiv> 4096"

abbreviation (input) SOCKET_BUFF_SIZE_USER_HUGE :: u32 where
  "SOCKET_BUFF_SIZE_USER_HUGE \<equiv> 1048576"

abbreviation (input) EOK :: int where
  "EOK \<equiv> 0"

abbreviation (input) SECUREC_MEM_MAX_LEN :: nat where
  "SECUREC_MEM_MAX_LEN \<equiv> 2147483647"

text \<open>
  \<open>new_char n\<close> is \<open>new (std::nothrow) char[n]\<close>: \<open>None\<close> when memory is short, otherwise an array
  of any content. \<open>memcpy_s dst off dm src n\<close> copies \<open>n\<close> bytes of \<open>src\<close> to \<open>dst + off\<close>, where
  \<open>dm\<close> bytes are writable; \<open>memmove_s b dm off n\<close> copies \<open>n\<close> bytes from \<open>b + off\<close> to \<open>b\<close>. Both
  return an error code and what is then in the destination array.
\<close>

record libc =
  new_char :: "nat \<Rightarrow> bytes option"
  memcpy_s :: "bytes \<Rightarrow> nat \<Rightarrow> nat \<Rightarrow> bytes \<Rightarrow> nat \<Rightarrow> int \<times> bytes"
  memmove_s :: "bytes option \<Rightarrow> nat \<Rightarrow> int \<Rightarrow> nat \<Rightarrow> int \<times> bytes option"

definition libc_ok :: "libc \<Rightarrow> bool" where
  "libc_ok L \<longleftrightarrow>
     (\<forall>n bs. new_char L n = Some bs \<longrightarrow> length bs = n) \<and>
     (\<forall>dst off dm src n. 0 < dm \<and> n \<le> dm \<and> dm \<le> SECUREC_MEM_MAX_LEN \<and>
        off + dm \<le> length dst \<and> n \<le> length src \<longrightarrow>
        memcpy_s L dst off dm src n = (EOK, take off dst @ take n src @ drop (off + n) dst)) \<and>
     (\<forall>b dm off n. 0 < dm \<and> n \<le> dm \<and> dm \<le> SECUREC_MEM_MAX_LEN \<and> dm \<le> length b \<and>
        0 \<le> off \<and> nat off + n \<le> length b \<longrightarrow>
        memmove_s L (Some b) dm off n = (EOK, Some (take n (drop (nat off) b) @ drop n b)))"

text \<open>An environment whose calls all succeed: memory is zeroed, copies are copies.\<close>

definition std_libc :: libc where
  "std_libc = \<lparr>
     new_char = (\<lambda>n. Some (replicate n 0)),
     memcpy_s = (\<lambda>dst off dm src n. (EOK, take off dst @ take n src @ drop (off + n) dst)),
     memmove_s = (\<lambda>b dm off n. (EOK, map_option (\<lambda>b. take n (drop (nat off) b) @ drop n b) b)) \<rparr>"

section \<open>State\<close>

record chan =
  cursorW :: int
  cursorR :: int
  cbuf :: "bytes option"
  csize :: int

record buffer_object =
  recv :: chan
  send :: chan
  sendLocked :: bool
  recvLocked :: bool

definition chan_init :: chan where
  "chan_init = \<lparr>cursorW = 0, cursorR = 0, cbuf = None, csize = 0\<rparr>"

definition BufferObject :: buffer_object where
  "BufferObject = \<lparr>recv = chan_init, send = chan_init, sendLocked = False, recvLocked = False\<rparr>"

definition chan_reset :: "chan \<Rightarrow> chan" where
  "chan_reset c = c\<lparr>cursorW := 0, cursorR := 0\<rparr>"

definition on_send :: "(chan \<Rightarrow> 'a \<times> chan) \<Rightarrow> buffer_object \<Rightarrow> 'a \<times> buffer_object" where
  "on_send f b = (case f (send b) of (r, c) \<Rightarrow> (r, b\<lparr>send := c\<rparr>))"

definition on_recv :: "(chan \<Rightarrow> 'a \<times> chan) \<Rightarrow> buffer_object \<Rightarrow> 'a \<times> buffer_object" where
  "on_recv f b = (case f (recv b) of (r, c) \<Rightarrow> (r, b\<lparr>recv := c\<rparr>))"

section \<open>Size classes\<close>

definition GetNeedBufferSize :: "u32 \<Rightarrow> u32" where
  "GetNeedBufferSize sz =
     (if sz \<le> 4096 then 4096
      else if sz \<le> 8192 then 8192
      else if sz \<le> 16384 then 16384
      else if sz \<le> 32768 then 32768
      else if sz \<le> 65536 then 65536
      else if sz \<le> 131072 then 131072
      else if sz \<le> 262144 then 262144
      else if sz \<le> 524288 then 524288
      else if sz \<le> 1048576 then 1048576
      else 0)"

definition GetProgressiveBufferSize :: "u32 \<Rightarrow> u32" where
  "GetProgressiveBufferSize currentSize =
     (if currentSize < 4096 then 4096
      else if currentSize < 8192 then 8192
      else if currentSize < 16384 then 16384
      else if currentSize < 32768 then 32768
      else if currentSize < 65536 then 65536
      else if currentSize < 131072 then 131072
      else if currentSize < 262144 then 262144
      else if currentSize < 524288 then 524288
      else if currentSize < 1048576 then 1048576
      else 0)"

definition GetExpandedBufferSize :: "u32 \<Rightarrow> u32 \<Rightarrow> u32" where
  "GetExpandedBufferSize currentBuffSize totalNeedSize =
     (let alignedNeed = GetNeedBufferSize totalNeedSize in
      if alignedNeed = 0 then 0
      else if alignedNeed > currentBuffSize then alignedNeed
      else if alignedNeed = currentBuffSize then GetProgressiveBufferSize currentBuffSize
      else currentBuffSize)"

section \<open>Growing\<close>

text \<open>Allocate, copy the old array, swap: the same statements in every function that grows.\<close>

definition chan_grow :: "libc \<Rightarrow> u32 \<Rightarrow> chan \<Rightarrow> bool \<times> chan" where
  "chan_grow L n c =
     (case new_char L (unat n) of
        None \<Rightarrow> (False, c)
      | Some newBuffer \<Rightarrow>
          (case cbuf c of
             Some old \<Rightarrow>
               if csize c > 0 then
                 (case memcpy_s L newBuffer 0 (unat n) old (nat (csize c)) of (result, newBuffer') \<Rightarrow>
                    if result \<noteq> EOK then (False, c)
                    else (True, c\<lparr>cbuf := Some newBuffer', csize := uint n\<rparr>))
               else (True, c\<lparr>cbuf := Some newBuffer, csize := uint n\<rparr>)
           | None \<Rightarrow> (True, c\<lparr>cbuf := Some newBuffer, csize := uint n\<rparr>)))"

definition expand_send :: "libc \<Rightarrow> u32 \<Rightarrow> chan \<Rightarrow> bool \<times> chan" where
  "expand_send L sz c =
     (let needSize = GetNeedBufferSize sz in
      if needSize = 0 then (True, c)
      else if needSize > word_of_int (csize c) then chan_grow L needSize c
      else (True, c))"

definition expand_recv :: "libc \<Rightarrow> u32 \<Rightarrow> chan \<Rightarrow> bool \<times> chan" where
  "expand_recv L sz c =
     (if sz = 0 then (False, chan_reset c)
      else if uint sz \<le> csize c then (True, c)
      else (case chan_grow L sz c of
              (True, c') \<Rightarrow> (True, c')
            | (False, c') \<Rightarrow> (False, chan_reset c')))"

definition ExpandSendBuffer :: "libc \<Rightarrow> u32 \<Rightarrow> buffer_object \<Rightarrow> bool \<times> buffer_object" where
  "ExpandSendBuffer L sz = on_send (expand_send L sz)"

definition ExpandReceiveBuffer :: "libc \<Rightarrow> u32 \<Rightarrow> buffer_object \<Rightarrow> bool \<times> buffer_object" where
  "ExpandReceiveBuffer L sz = on_recv (expand_recv L sz)"

section \<open>Compaction\<close>

text \<open>Move the unread bytes to the front of the array.\<close>

definition chan_memmove :: "libc \<Rightarrow> chan \<Rightarrow> int \<times> chan" where
  "chan_memmove L c =
     (let moveLen = cursorW c - cursorR c in
      case memmove_s L (cbuf c) (nat moveLen) (cursorR c) (nat moveLen) of
        (result, b) \<Rightarrow> (result, c\<lparr>cbuf := b\<rparr>))"

definition memmove_if_insufficient :: "libc \<Rightarrow> u32 \<Rightarrow> chan \<Rightarrow> bool \<times> chan" where
  "memmove_if_insufficient L userDataSize c =
     (let (result, c1) =
            (if csize c - cursorW c \<le> uint userDataSize then
               (case chan_memmove L c of (result, c') \<Rightarrow>
                  if result \<noteq> EOK then (False, chan_reset c')
                  else (True, c'\<lparr>cursorW := cursorW c - cursorR c, cursorR := 0\<rparr>))
             else (True, c))
      in if \<not> result then (False, c1)
         else if csize c1 - cursorW c1 \<le> uint userDataSize then (False, chan_reset c1)
         else (True, c1))"

definition try_memmove :: "libc \<Rightarrow> chan \<Rightarrow> bool \<times> chan" where
  "try_memmove L c =
     (let moveLen = cursorW c - cursorR c; tailSpace = csize c - cursorW c in
      if tailSpace < SOCKET_BUFF_RESERVED_SIZE \<and> moveLen < cursorR c \<and> moveLen > 0 then
        (case chan_memmove L c of (result, c') \<Rightarrow>
           if result \<noteq> EOK then (False, chan_reset c')
           else (True, c'\<lparr>cursorW := moveLen, cursorR := 0\<rparr>))
      else (True, c))"

definition MemmoveSendBufferIfInsufficient ::
    "libc \<Rightarrow> u32 \<Rightarrow> buffer_object \<Rightarrow> bool \<times> buffer_object" where
  "MemmoveSendBufferIfInsufficient L userDataSize = on_send (memmove_if_insufficient L userDataSize)"

definition MemmoveReceiveBufferIfInsufficient ::
    "libc \<Rightarrow> u32 \<Rightarrow> buffer_object \<Rightarrow> bool \<times> buffer_object" where
  "MemmoveReceiveBufferIfInsufficient L userDataSize =
     on_recv (memmove_if_insufficient L userDataSize)"

definition TryMemmoveSendBuffer :: "libc \<Rightarrow> buffer_object \<Rightarrow> bool \<times> buffer_object" where
  "TryMemmoveSendBuffer L = on_send (try_memmove L)"

definition TryMemmoveReceiveBuffer :: "libc \<Rightarrow> buffer_object \<Rightarrow> bool \<times> buffer_object" where
  "TryMemmoveReceiveBuffer L = on_recv (try_memmove L)"

section \<open>Making room under the lock\<close>

text \<open>
  The two \<open>TryExpand...BufferLocked\<close> functions differ in the \<open>Expand...Buffer\<close> they call, the
  argument \<open>expand\<close>.
\<close>

definition try_expand ::
    "libc \<Rightarrow> (u32 \<Rightarrow> chan \<Rightarrow> bool \<times> chan) \<Rightarrow> u32 \<Rightarrow> chan \<Rightarrow> bool \<times> chan" where
  "try_expand L expand userDataSize c =
     (let usedSpace = cursorW c - cursorR c;
          totalNeed = usedSpace + uint userDataSize + SOCKET_BUFF_RESERVED_SIZE in
      if usedSpace < 0 then (False, chan_reset c)
      else if usedSpace > uint SOCKET_BUFF_SIZE_USER_HUGE - uint userDataSize
                - SOCKET_BUFF_RESERVED_SIZE then (False, chan_reset c)
      else if totalNeed \<le> 0 \<or> totalNeed > uint SOCKET_BUFF_SIZE_USER_HUGE
        then (False, chan_reset c)
      else
        (let nextSize = GetExpandedBufferSize (word_of_int (csize c)) (word_of_int totalNeed) in
         if nextSize = 0 then (False, chan_reset c)
         else (case expand nextSize c of
                 (False, c') \<Rightarrow> (False, chan_reset c')
               | (True, c') \<Rightarrow> memmove_if_insufficient L userDataSize c')))"

definition TryExpandSendBufferLocked ::
    "libc \<Rightarrow> u32 \<Rightarrow> buffer_object \<Rightarrow> bool \<times> buffer_object" where
  "TryExpandSendBufferLocked L userDataSize = on_send (try_expand L (expand_send L) userDataSize)"

definition TryExpandReceiveBufferLocked ::
    "libc \<Rightarrow> u32 \<Rightarrow> buffer_object \<Rightarrow> bool \<times> buffer_object" where
  "TryExpandReceiveBufferLocked L userDataSize =
     on_recv (try_expand L (expand_recv L) userDataSize)"

text \<open>The result is the buffer pointer; \<open>None\<close> stands for \<open>nullptr\<close>.\<close>

definition update_locked ::
    "libc \<Rightarrow> (u32 \<Rightarrow> chan \<Rightarrow> bool \<times> chan) \<Rightarrow> u32 \<Rightarrow> chan \<Rightarrow> bytes option \<times> chan" where
  "update_locked L expand userDataSize c =
     (if cursorW c \<le> cursorR c then (cbuf c, chan_reset c)
      else
        (let (ok, c1) =
               (if csize c - cursorW c \<le> uint userDataSize
                then try_expand L expand userDataSize c else (True, c))
         in if \<not> ok then (None, c1)
            else (case try_memmove L c1 of
                    (False, c2) \<Rightarrow> (None, c2)
                  | (True, c2) \<Rightarrow> (cbuf c2, c2))))"

definition UpdateSendBufferLocked ::
    "libc \<Rightarrow> u32 \<Rightarrow> buffer_object \<Rightarrow> bytes option \<times> buffer_object" where
  "UpdateSendBufferLocked L userDataSize = on_send (update_locked L (expand_send L) userDataSize)"

definition UpdateReceiveBufferLocked ::
    "libc \<Rightarrow> u32 \<Rightarrow> buffer_object \<Rightarrow> bytes option \<times> buffer_object" where
  "UpdateReceiveBufferLocked L userDataSize =
     on_recv (update_locked L (expand_recv L) userDataSize)"

definition shrink :: "libc \<Rightarrow> chan \<Rightarrow> chan" where
  "shrink L c =
     (if csize c > uint SOCKET_BUFF_SIZE_USER_S \<and> cursorW c = cursorR c then
        (case new_char L (unat SOCKET_BUFF_SIZE_USER_S) of
           Some newBuffer \<Rightarrow> c\<lparr>cbuf := Some newBuffer, csize := uint SOCKET_BUFF_SIZE_USER_S,
             cursorW := 0, cursorR := 0\<rparr>
         | None \<Rightarrow> c)
      else c)"

definition ShrinkSendBufferIfNeeded :: "libc \<Rightarrow> buffer_object \<Rightarrow> buffer_object" where
  "ShrinkSendBufferIfNeeded L b = b\<lparr>send := shrink L (send b)\<rparr>"

definition ShrinkReceiveBufferIfNeeded :: "libc \<Rightarrow> buffer_object \<Rightarrow> buffer_object" where
  "ShrinkReceiveBufferIfNeeded L b = b\<lparr>recv := shrink L (recv b)\<rparr>"

section \<open>Cursors and sizes\<close>

definition set_write_cursor_ex :: "int \<Rightarrow> chan \<Rightarrow> bool \<times> chan" where
  "set_write_cursor_ex w c =
     (if w < 0 then (False, c)
      else if csize c > 0 \<and> w > csize c then (False, c)
      else (True, c\<lparr>cursorW := w\<rparr>))"

definition set_read_cursor_ex :: "int \<Rightarrow> chan \<Rightarrow> bool \<times> chan" where
  "set_read_cursor_ex r c =
     (if r < 0 then (False, c)
      else if csize c > 0 \<and> r > csize c then (False, c)
      else (True, c\<lparr>cursorR := r\<rparr>))"

definition SetSendBufferWriteCursorEx :: "int \<Rightarrow> buffer_object \<Rightarrow> bool \<times> buffer_object" where
  "SetSendBufferWriteCursorEx w = on_send (set_write_cursor_ex w)"

definition SetSendBufferReadCursorEx :: "int \<Rightarrow> buffer_object \<Rightarrow> bool \<times> buffer_object" where
  "SetSendBufferReadCursorEx r = on_send (set_read_cursor_ex r)"

definition SetReceiveBufferWriteCursorEx :: "int \<Rightarrow> buffer_object \<Rightarrow> bool \<times> buffer_object" where
  "SetReceiveBufferWriteCursorEx w = on_recv (set_write_cursor_ex w)"

definition SetReceiveBufferReadCursorEx :: "int \<Rightarrow> buffer_object \<Rightarrow> bool \<times> buffer_object" where
  "SetReceiveBufferReadCursorEx r = on_recv (set_read_cursor_ex r)"

definition GetSendBufferWriteCursor :: "buffer_object \<Rightarrow> int" where
  "GetSendBufferWriteCursor b = cursorW (send b)"

definition GetSendBufferReadCursor :: "buffer_object \<Rightarrow> int" where
  "GetSendBufferReadCursor b = cursorR (send b)"

definition GetReceiveBufferWriteCursor :: "buffer_object \<Rightarrow> int" where
  "GetReceiveBufferWriteCursor b = cursorW (recv b)"

definition GetReceiveBufferReadCursor :: "buffer_object \<Rightarrow> int" where
  "GetReceiveBufferReadCursor b = cursorR (recv b)"

definition GetSendBufferSizeEx :: "buffer_object \<Rightarrow> int" where
  "GetSendBufferSizeEx b = csize (send b)"

definition GetRecvBufferSizeEx :: "buffer_object \<Rightarrow> int" where
  "GetRecvBufferSizeEx b = csize (recv b)"

definition GetSendBufferSize :: "buffer_object \<Rightarrow> u32" where
  "GetSendBufferSize b = word_of_int (csize (send b))"

definition GetRecvBufferSize :: "buffer_object \<Rightarrow> u32" where
  "GetRecvBufferSize b = word_of_int (csize (recv b))"

section \<open>Acquiring a buffer\<close>

text \<open>
  \<open>SendBufferContext\<close> and \<open>ReceiveBufferContext\<close>: the pointer, the size, and whether the moved
  \<open>BufferLockGuard\<close> still owns the mutex. A call on a buffer whose mutex is taken waits: \<open>None\<close>.
\<close>

record buffer_context =
  ctx_buffer :: "bytes option"
  ctx_size :: int
  ctx_locked :: bool

definition no_buffer :: buffer_context where
  "no_buffer = \<lparr>ctx_buffer = None, ctx_size = 0, ctx_locked = False\<rparr>"

definition AcquireSendBuffer ::
    "libc \<Rightarrow> u32 \<Rightarrow> buffer_object \<Rightarrow> (buffer_context \<times> buffer_object) option" where
  "AcquireSendBuffer L sz b =
     (if sendLocked b then None
      else
        (let needSize = GetNeedBufferSize sz in
         if needSize = 0 then Some (no_buffer, b)
         else (case ExpandSendBuffer L needSize b of
                 (False, b') \<Rightarrow> Some (no_buffer, b')
               | (True, b') \<Rightarrow>
                   Some (\<lparr>ctx_buffer = cbuf (send b'), ctx_size = csize (send b'),
                     ctx_locked = True\<rparr>, b'\<lparr>sendLocked := True\<rparr>))))"

definition AcquireReceiveBuffer ::
    "libc \<Rightarrow> u32 \<Rightarrow> buffer_object \<Rightarrow> (buffer_context \<times> buffer_object) option" where
  "AcquireReceiveBuffer L sz b =
     (if recvLocked b then None
      else
        (let needSize = GetNeedBufferSize sz in
         if needSize = 0 then Some (no_buffer, b)
         else (case ExpandReceiveBuffer L needSize b of
                 (False, b') \<Rightarrow> Some (no_buffer, b')
               | (True, b') \<Rightarrow>
                   Some (\<lparr>ctx_buffer = cbuf (recv b'), ctx_size = csize (recv b'),
                     ctx_locked = True\<rparr>, b'\<lparr>recvLocked := True\<rparr>))))"

text \<open>The destructor of the guard inside a context.\<close>

definition send_guard_drop :: "buffer_context \<Rightarrow> buffer_object \<Rightarrow> buffer_object" where
  "send_guard_drop ctx b = (if ctx_locked ctx then b\<lparr>sendLocked := False\<rparr> else b)"

definition recv_guard_drop :: "buffer_context \<Rightarrow> buffer_object \<Rightarrow> buffer_object" where
  "recv_guard_drop ctx b = (if ctx_locked ctx then b\<lparr>recvLocked := False\<rparr> else b)"

section \<open>The deprecated interface\<close>

definition UpdateReceiveBuffer :: "libc \<Rightarrow> buffer_object \<Rightarrow> buffer_object" where
  "UpdateReceiveBuffer L b =
     (let c = recv b in
      if cursorW c \<le> cursorR c then b\<lparr>recv := chan_reset c\<rparr>
      else if csize c - cursorW c < SOCKET_BUFF_RESERVED_SIZE \<and>
              cursorW c - cursorR c < cursorR c then
        (case chan_memmove L c of (result, c') \<Rightarrow>
           b\<lparr>recv := c'\<lparr>cursorW := (if result \<noteq> EOK then 0 else cursorW c - cursorR c),
             cursorR := 0\<rparr>\<rparr>)
      else b)"

definition UpdateSendBuffer :: "libc \<Rightarrow> u32 \<Rightarrow> buffer_object \<Rightarrow> buffer_object" where
  "UpdateSendBuffer L userDataSize b =
     (if cursorW (send b) \<le> cursorR (send b) then b\<lparr>send := chan_reset (send b)\<rparr>
      else
        (let b1 = (if csize (send b) - cursorW (send b) \<le> uint userDataSize
                   then snd (ExpandSendBuffer L
                     (word_of_int (csize (send b)) + word_of_int (csize (send b))) b)
                   else b);
             c = send b1 in
         if csize c - cursorW c < SOCKET_BUFF_RESERVED_SIZE \<and>
            cursorW c - cursorR c < cursorR c then
           (case chan_memmove L c of (result, c') \<Rightarrow>
              b1\<lparr>send := c'\<lparr>cursorW := (if result \<noteq> EOK then 0 else cursorW c - cursorR c),
                cursorR := 0\<rparr>\<rparr>)
         else b1))"

definition GetSendBufferAndLock ::
    "libc \<Rightarrow> u32 \<Rightarrow> buffer_object \<Rightarrow> (bytes option \<times> buffer_object) option" where
  "GetSendBufferAndLock L sz b =
     (if GetNeedBufferSize sz = 0 then Some (None, b)
      else if sendLocked b then None
      else (case ExpandSendBuffer L sz b of
              (False, b') \<Rightarrow> Some (None, b')
            | (True, b') \<Rightarrow> Some (cbuf (send b'), b'\<lparr>sendLocked := True\<rparr>)))"

definition GetReceiveBufferAndLock ::
    "libc \<Rightarrow> u32 \<Rightarrow> buffer_object \<Rightarrow> (bytes option \<times> buffer_object) option" where
  "GetReceiveBufferAndLock L sz b =
     (let needSize = GetNeedBufferSize sz in
      if needSize = 0 then Some (None, b)
      else if recvLocked b then None
      else if needSize > word_of_int (csize (recv b)) then
        (case chan_grow L needSize (recv b) of
           (False, c) \<Rightarrow> Some (None, b\<lparr>recv := c\<rparr>)
         | (True, c) \<Rightarrow> Some (cbuf c, b\<lparr>recv := c, recvLocked := True\<rparr>))
      else Some (cbuf (recv b), b\<lparr>recvLocked := True\<rparr>))"

definition ReleaseSendBufferLock :: "buffer_object \<Rightarrow> buffer_object" where
  "ReleaseSendBufferLock b = b\<lparr>sendLocked := False\<rparr>"

definition ReleaseReceiveBufferLock :: "buffer_object \<Rightarrow> buffer_object" where
  "ReleaseReceiveBufferLock b = b\<lparr>recvLocked := False\<rparr>"

definition SetReceiveBufferWriteCursor :: "int \<Rightarrow> buffer_object \<Rightarrow> buffer_object" where
  "SetReceiveBufferWriteCursor w b = (if w < 0 then b else b\<lparr>recv := (recv b)\<lparr>cursorW := w\<rparr>\<rparr>)"

definition SetReceiveBufferReadCursor :: "int \<Rightarrow> buffer_object \<Rightarrow> buffer_object" where
  "SetReceiveBufferReadCursor r b = b\<lparr>recv := (recv b)\<lparr>cursorR := r\<rparr>\<rparr>"

definition SetSendBufferWriteCursor :: "int \<Rightarrow> buffer_object \<Rightarrow> buffer_object" where
  "SetSendBufferWriteCursor w b = (if w < 0 then b else b\<lparr>send := (send b)\<lparr>cursorW := w\<rparr>\<rparr>)"

definition SetSendBufferReadCursor :: "int \<Rightarrow> buffer_object \<Rightarrow> buffer_object" where
  "SetSendBufferReadCursor r b = b\<lparr>send := (send b)\<lparr>cursorR := r\<rparr>\<rparr>"

section \<open>The clients of the send side\<close>

text \<open>
  \<open>MoveTransData2Buffer\<close>: the transaction is the struct at \<open>transData\<close>, whose memory is \<open>mem\<close>
  and whose field \<open>sizeOfSelf\<close> says how much of it to send; \<open>None\<close> for a null pointer. The guard of
  the acquired context is dropped on every return.
\<close>

definition MoveTransData2Buffer ::
    "libc \<Rightarrow> (u32 \<times> bytes) option \<Rightarrow> buffer_object \<Rightarrow> (bool \<times> buffer_object) option" where
  "MoveTransData2Buffer L transData b =
     (case transData of None \<Rightarrow> Some (False, b)
      | Some (sendSize, mem) \<Rightarrow>
        (case AcquireSendBuffer L sendSize b of None \<Rightarrow> None
         | Some (ctx, b1) \<Rightarrow>
             if ctx_buffer ctx = None then Some (False, send_guard_drop ctx b1)
             else (case UpdateSendBufferLocked L sendSize b1 of
                (None, b2) \<Rightarrow> Some (False, send_guard_drop ctx b2)
              | (Some sendBuffer, b2) \<Rightarrow>
                  (let writeCursor = GetSendBufferWriteCursor b2;
                       readCursor = GetSendBufferReadCursor b2;
                       bufferSize = GetSendBufferSizeEx b2 in
                   if writeCursor < 0 \<or> readCursor < 0 \<or> writeCursor > bufferSize \<or>
                      sendSize > word_of_int (bufferSize - writeCursor)
                   then Some (False, send_guard_drop ctx b2)
                   else (case memcpy_s L sendBuffer (nat writeCursor)
                                (nat (bufferSize - writeCursor)) mem (unat sendSize) of
                      (result, sendBuffer') \<Rightarrow>
                        (let b3 = b2\<lparr>send := (send b2)\<lparr>cbuf := Some sendBuffer'\<rparr>\<rparr> in
                         if result \<noteq> EOK then Some (False, send_guard_drop ctx b3)
                         else
                           (let b4 = snd (SetSendBufferWriteCursorEx
                                       (writeCursor + uint sendSize) b3);
                                b5 = snd (SetSendBufferReadCursorEx readCursor b4)
                            in Some (True, send_guard_drop ctx b5))))))))"

abbreviation (input) RPC_DATABUS_INVOKER_INVALID_DATA_ERR :: int where
  "RPC_DATABUS_INVOKER_INVALID_DATA_ERR \<equiv> 601"

text \<open>
  \<open>SendData\<close>: \<open>send_bytes\<close> is the softbus call, a return code for the bytes it is given; the
  model also returns the bytes that were handed over, if the call was made.
\<close>

definition SendData ::
    "libc \<Rightarrow> (bytes \<Rightarrow> int) \<Rightarrow> buffer_object \<Rightarrow> (int \<times> bytes option \<times> buffer_object) option" where
  "SendData L send_bytes b =
     (case AcquireSendBuffer L 4096 b of None \<Rightarrow> None
      | Some (ctx, b1) \<Rightarrow>
          if ctx_buffer ctx = None
          then Some (- RPC_DATABUS_INVOKER_INVALID_DATA_ERR, None, send_guard_drop ctx b1)
          else (case UpdateSendBufferLocked L 0 b1 of
             (None, b2) \<Rightarrow>
               Some (- RPC_DATABUS_INVOKER_INVALID_DATA_ERR, None, send_guard_drop ctx b2)
           | (Some sendBuffer, b2) \<Rightarrow>
               (let writeCursor = GetSendBufferWriteCursor b2;
                    readCursor = GetSendBufferReadCursor b2;
                    sendBuffSize = GetSendBufferSizeEx b2;
                    sz = writeCursor - readCursor in
                if readCursor < 0 \<or> writeCursor < 0 \<or> readCursor > sendBuffSize \<or>
                   writeCursor < readCursor
                then Some (- RPC_DATABUS_INVOKER_INVALID_DATA_ERR, None, send_guard_drop ctx b2)
                else if writeCursor = readCursor then Some (0, None, send_guard_drop ctx b2)
                else
                  (let data = take (nat sz) (drop (nat readCursor) sendBuffer);
                       ret = send_bytes data in
                   if ret \<noteq> 0 then Some (ret, Some data, send_guard_drop ctx b2)
                   else (case SetSendBufferReadCursorEx (readCursor + sz) b2 of
                           (False, b3) \<Rightarrow> Some (- RPC_DATABUS_INVOKER_INVALID_DATA_ERR, Some data,
                                             send_guard_drop ctx b3)
                         | (True, b3) \<Rightarrow> Some (ret, Some data, send_guard_drop ctx b3))))))"

end
