(* ===== verification/Buffer_Object_Proofs.thy ===== *)
theory Buffer_Object_Proofs
  imports Buffer_Object
begin

text \<open>
  Correctness of \<open>BufferObject\<close>. \<open>chan_inv\<close> is the invariant of one direction (cursors inside the
  array, the array as long as its recorded size, the size one of the nine size classes or 0);
  \<open>pending\<close> abstracts a direction to the bytes written and not yet read. Growing and compacting
  keep \<open>pending\<close>; making room either keeps it and leaves the room asked for, or fails and resets
  both cursors.
\<close>

section \<open>Invariant and abstraction\<close>

definition size_classes :: "int set" where
  "size_classes = {0, 4096, 8192, 16384, 32768, 65536, 131072, 262144, 524288, 1048576}"

definition buf_shape :: "chan \<Rightarrow> bool" where
  "buf_shape c \<longleftrightarrow> (case cbuf c of None \<Rightarrow> csize c = 0
     | Some b \<Rightarrow> int (length b) = csize c \<and> 0 < csize c)"

definition chan_inv :: "chan \<Rightarrow> bool" where
  "chan_inv c \<longleftrightarrow> 0 \<le> cursorR c \<and> cursorR c \<le> csize c \<and> 0 \<le> cursorW c \<and> cursorW c \<le> csize c \<and>
     csize c \<in> size_classes \<and> buf_shape c"

definition pending :: "chan \<Rightarrow> bytes" where
  "pending c = (case cbuf c of None \<Rightarrow> []
     | Some b \<Rightarrow> take (nat (cursorW c - cursorR c)) (drop (nat (cursorR c)) b))"

definition same_data :: "chan \<Rightarrow> chan \<Rightarrow> bool" where
  "same_data c c' \<longleftrightarrow> cursorW c' = cursorW c \<and> cursorR c' = cursorR c \<and> pending c' = pending c"

definition never_oom :: "libc \<Rightarrow> bool" where
  "never_oom L \<longleftrightarrow> (\<forall>k. new_char L k \<noteq> None)"

lemma never_oomD: "new_char L n = None \<Longrightarrow> \<not> never_oom L"
  by (auto simp: never_oom_def)

named_theorems chan_intros \<open>preservation of the invariant of a direction\<close>

section \<open>Size classes\<close>

lemma need_in_classes: "uint (GetNeedBufferSize s) \<in> size_classes"
  by (simp add: GetNeedBufferSize_def size_classes_def)

lemma need_zero_iff: "GetNeedBufferSize s = 0 \<longleftrightarrow> uint s > 1048576"
  by (auto simp: GetNeedBufferSize_def word_le_def)

lemma need_ge: "GetNeedBufferSize s \<noteq> 0 \<Longrightarrow> s \<le> GetNeedBufferSize s"
  by (auto simp: GetNeedBufferSize_def split: if_splits)

lemma need_least:
  "\<lbrakk>GetNeedBufferSize s \<noteq> 0; k \<in> size_classes; uint s \<le> k; k \<noteq> 0\<rbrakk> \<Longrightarrow> uint (GetNeedBufferSize s) \<le> k"
  by (auto simp: GetNeedBufferSize_def size_classes_def word_le_def split: if_splits)

lemma need_idem: "GetNeedBufferSize s \<noteq> 0 \<Longrightarrow> GetNeedBufferSize (GetNeedBufferSize s) = GetNeedBufferSize s"
  by (simp add: GetNeedBufferSize_def split: if_splits)

lemma size_classes_bounds: "k \<in> size_classes \<Longrightarrow> 0 \<le> k \<and> k \<le> 1048576"
  by (auto simp: size_classes_def)

lemma uint_word_of_size: "k \<in> size_classes \<Longrightarrow> uint (word_of_int k :: u32) = k"
  by (auto simp: size_classes_def)

lemma class_need:
  assumes "uint n \<in> size_classes" "n \<noteq> 0"
  shows "GetNeedBufferSize n = n"
proof -
  obtain k where k: "n = word_of_int k" "k \<in> size_classes" "k \<noteq> 0"
    using assms by (metis uint_0_iff word_of_int_uint)
  from k(2,3) have "GetNeedBufferSize (word_of_int k) = word_of_int k"
    unfolding size_classes_def
    by (elim insertE emptyE) (simp_all add: GetNeedBufferSize_def)
  with k(1) show ?thesis by simp
qed

lemma expanded_in_classes:
  "cur \<in> size_classes \<Longrightarrow> uint (GetExpandedBufferSize (word_of_int cur) need) \<in> size_classes"
  using need_in_classes [of need] uint_word_of_size [of cur]
  by (simp add: GetExpandedBufferSize_def Let_def GetProgressiveBufferSize_def)
    (simp add: size_classes_def)

text \<open>
  The next size is never below what is needed, nor below the current size. It is larger than the
  current size unless the need is a smaller class, and it is 0 only if the need is above the
  largest class or the largest class is needed and already in use.
\<close>

lemma progressive_gt:
  "GetProgressiveBufferSize s \<noteq> 0 \<Longrightarrow> s < GetProgressiveBufferSize s"
  by (auto simp: GetProgressiveBufferSize_def split: if_splits)

lemma expanded_ge:
  assumes "GetExpandedBufferSize cur need \<noteq> 0"
  shows "need \<le> GetExpandedBufferSize cur need \<and> cur \<le> GetExpandedBufferSize cur need"
proof -
  let ?a = "GetNeedBufferSize need"
  have a: "?a \<noteq> 0" "need \<le> ?a"
    using assms need_ge by (auto simp: GetExpandedBufferSize_def Let_def split: if_splits)
  consider "?a > cur" | "?a = cur" | "?a < cur" by fastforce
  then show ?thesis
  proof cases
    case 1
    with a show ?thesis by (simp add: GetExpandedBufferSize_def)
  next
    case 2
    with a assms progressive_gt [of cur] show ?thesis
      by (auto simp: GetExpandedBufferSize_def)
  next
    case 3
    with a show ?thesis by (auto simp: GetExpandedBufferSize_def Let_def)
  qed
qed

lemma expanded_zero_iff:
  assumes "uint need \<le> 1048576" "cur \<in> size_classes"
  shows "GetExpandedBufferSize (word_of_int cur) need = 0 \<longleftrightarrow>
    cur = 1048576 \<and> uint need > 524288"
proof -
  have "GetNeedBufferSize need \<noteq> 0"
    using assms(1) by (simp add: need_zero_iff)
  then show ?thesis
    using assms(2) unfolding size_classes_def
    by (elim insertE emptyE)
      (auto simp: GetExpandedBufferSize_def Let_def GetProgressiveBufferSize_def
        GetNeedBufferSize_def word_le_def not_le split: if_splits)
qed

section \<open>What the C library does\<close>

lemma libc_new: "libc_ok L \<Longrightarrow> new_char L n = Some bs \<Longrightarrow> length bs = n"
  by (simp add: libc_ok_def)

lemma libc_memcpy:
  "\<lbrakk>libc_ok L; 0 < dm; n \<le> dm; dm \<le> SECUREC_MEM_MAX_LEN; off + dm \<le> length dst; n \<le> length src\<rbrakk> \<Longrightarrow>
   memcpy_s L dst off dm src n = (EOK, take off dst @ take n src @ drop (off + n) dst)"
  unfolding libc_ok_def by blast

lemma libc_memmove:
  assumes "libc_ok L" "0 < n" "n \<le> SECUREC_MEM_MAX_LEN" "0 \<le> off" "nat off + n \<le> length b"
  shows "memmove_s L (Some b) n off n = (EOK, Some (take n (drop (nat off) b) @ drop n b))"
  using assms(1) [unfolded libc_ok_def, THEN conjunct2, THEN conjunct2, rule_format, of n n b off]
    assms(2-5) by simp

lemma std_libc_ok: "libc_ok std_libc"
  by (auto simp: libc_ok_def std_libc_def)

section \<open>One direction\<close>

lemma chan_inv_init [chan_intros]: "chan_inv chan_init"
  by (simp add: chan_inv_def chan_init_def buf_shape_def size_classes_def)

lemma chan_inv_reset [chan_intros]: "chan_inv c \<Longrightarrow> chan_inv (chan_reset c)"
  by (auto simp: chan_inv_def chan_reset_def buf_shape_def split: option.splits)

lemma pending_reset [simp]: "pending (chan_reset c) = []"
  by (simp add: pending_def chan_reset_def split: option.splits)

lemma chan_reset_simps [simp]:
  "cursorW (chan_reset c) = 0" "cursorR (chan_reset c) = 0" "csize (chan_reset c) = csize c"
  "cbuf (chan_reset c) = cbuf c"
  by (simp_all add: chan_reset_def)

lemma chan_inv_bounds:
  assumes "chan_inv c"
  shows "0 \<le> cursorR c" "cursorR c \<le> csize c" "0 \<le> cursorW c" "cursorW c \<le> csize c"
    "0 \<le> csize c" "csize c \<le> 1048576"
  using assms size_classes_bounds by (auto simp: chan_inv_def)

lemma chan_inv_cursors [chan_intros]:
  "\<lbrakk>chan_inv c; 0 \<le> w; w \<le> csize c; 0 \<le> r; r \<le> csize c\<rbrakk> \<Longrightarrow>
   chan_inv (c\<lparr>cursorW := w, cursorR := r\<rparr>)"
  by (simp add: chan_inv_def buf_shape_def split: option.splits)

lemma length_pending:
  assumes "chan_inv c"
  shows "int (length (pending c)) = max 0 (cursorW c - cursorR c)"
proof (cases "cbuf c")
  case None
  with assms show ?thesis by (simp add: pending_def chan_inv_def buf_shape_def)
next
  case (Some b)
  with assms have "int (length b) = csize c" by (simp add: chan_inv_def buf_shape_def)
  with chan_inv_bounds [OF assms] Some show ?thesis by (simp add: pending_def)
qed

lemma pending_nil: "cursorW c \<le> cursorR c \<Longrightarrow> pending c = []"
  by (simp add: pending_def split: option.splits)

lemma chan_inv_buf: "chan_inv c \<Longrightarrow> 0 < csize c \<Longrightarrow> \<exists>b. cbuf c = Some b \<and> int (length b) = csize c"
  by (auto simp: chan_inv_def buf_shape_def split: option.splits)

lemma chan_grow_spec:
  assumes L: "libc_ok L" and c: "chan_inv c" and n: "uint n \<in> size_classes" "csize c < uint n"
  shows "chan_grow L n c = (ok, c') \<Longrightarrow>
    (if ok then chan_inv c' \<and> same_data c c' \<and> csize c' = uint n \<and> cbuf c' \<noteq> None
     else c' = c \<and> new_char L (unat n) = None)"
proof (cases "new_char L (unat n)")
  case None
  then show "chan_grow L n c = (ok, c') \<Longrightarrow> ?thesis" by (auto simp: chan_grow_def)
next
  case (Some nb)
  assume eq: "chan_grow L n c = (ok, c')"
  have nb: "length nb = unat n" using L Some by (rule libc_new)
  note bounds = chan_inv_bounds [OF c]
  have un: "uint n = int (unat n)" by simp
  have n0: "0 < unat n" using n(2) bounds un by linarith
  have nmax: "unat n \<le> 1048576" using size_classes_bounds [OF n(1)] un by linarith
  show ?thesis
  proof (cases "cbuf c")
    case None
    then have z: "csize c = 0" "cursorW c = 0" "cursorR c = 0"
      using c bounds by (auto simp: chan_inv_def buf_shape_def)
    with eq Some None n0 n show ?thesis
      by (auto simp: chan_grow_def chan_inv_def same_data_def pending_def buf_shape_def nb)
  next
    case buf: (Some old)
    then have old: "int (length old) = csize c" "0 < csize c"
      using c by (auto simp: chan_inv_def buf_shape_def)
    have le: "length old < unat n" using old n(2) un by linarith
    have "nat (csize c) = length old" using old(1) by linarith
    then have "memcpy_s L nb 0 (unat n) old (nat (csize c)) = (EOK, old @ drop (length old) nb)"
      using libc_memcpy [OF L n0, of "length old" 0 nb old] le nmax nb by simp
    with eq Some buf old have c': "ok" "c' = c\<lparr>cbuf := Some (old @ drop (length old) nb), csize := uint n\<rparr>"
      by (auto simp: chan_grow_def)
    have "pending c' = pending c"
      using bounds old by (auto simp: c' pending_def buf)
    with c' le bounds n n0 nb old show ?thesis
      by (auto simp: chan_inv_def same_data_def buf_shape_def)
  qed
qed

text \<open>Both ways of growing, called with a size class, keep the data or fail without an effect on it.\<close>

definition expands :: "libc \<Rightarrow> (u32 \<Rightarrow> chan \<Rightarrow> bool \<times> chan) \<Rightarrow> bool" where
  "expands L expand \<longleftrightarrow>
     (\<forall>n c ok c'. chan_inv c \<and> uint n \<in> size_classes \<and> n \<noteq> 0 \<and> expand n c = (ok, c') \<longrightarrow>
        (if ok then chan_inv c' \<and> same_data c c' \<and> csize c' = max (csize c) (uint n)
         else (c' = c \<or> c' = chan_reset c) \<and> \<not> never_oom L))"

lemma expands_send: "libc_ok L \<Longrightarrow> expands L (expand_send L)"
  unfolding expands_def
proof (intro allI impI, elim conjE)
  fix n c ok c'
  assume L: "libc_ok L" and c: "chan_inv c" and n: "uint n \<in> size_classes" "n \<noteq> 0"
    and eq: "expand_send L n c = (ok, c')"
  have sz: "uint (word_of_int (csize c) :: u32) = csize c"
    using c by (auto simp: chan_inv_def uint_word_of_size)
  show "if ok then chan_inv c' \<and> same_data c c' \<and> csize c' = max (csize c) (uint n)
      else (c' = c \<or> c' = chan_reset c) \<and> \<not> never_oom L"
  proof (cases "csize c < uint n")
    case True
    then have "chan_grow L n c = (ok, c')"
      using eq class_need [OF n] n(2) sz by (simp add: expand_send_def word_less_def)
    from chan_grow_spec [OF L c n(1) True this] True show ?thesis by (auto dest: never_oomD)
  next
    case False
    then have "ok" "c' = c"
      using eq class_need [OF n] n(2) sz by (auto simp: expand_send_def word_less_def)
    with c False show ?thesis by (simp add: same_data_def)
  qed
qed

lemma expands_recv: "libc_ok L \<Longrightarrow> expands L (expand_recv L)"
  unfolding expands_def
proof (intro allI impI, elim conjE)
  fix n c ok c'
  assume L: "libc_ok L" and c: "chan_inv c" and n: "uint n \<in> size_classes" "n \<noteq> 0"
    and eq: "expand_recv L n c = (ok, c')"
  show "if ok then chan_inv c' \<and> same_data c c' \<and> csize c' = max (csize c) (uint n)
      else (c' = c \<or> c' = chan_reset c) \<and> \<not> never_oom L"
  proof (cases "csize c < uint n")
    case True
    obtain ok1 c1 where g: "chan_grow L n c = (ok1, c1)" by fastforce
    then have "ok = ok1" "c' = (if ok1 then c1 else chan_reset c1)"
      using eq n(2) True by (auto simp: expand_recv_def split: bool.splits)
    with chan_grow_spec [OF L c n(1) True g] True show ?thesis by (auto dest: never_oomD)
  next
    case False
    then have "ok" "c' = c"
      using eq n(2) by (auto simp: expand_recv_def)
    with c False show ?thesis by (simp add: same_data_def)
  qed
qed

lemma chan_memmove_spec:
  assumes L: "libc_ok L" and c: "chan_inv c" and lt: "cursorR c < cursorW c"
  obtains b where
    "chan_memmove L c = (EOK, c\<lparr>cbuf := Some b\<rparr>)"
    "chan_inv (c\<lparr>cbuf := Some b, cursorW := cursorW c - cursorR c, cursorR := 0\<rparr>)"
    "pending (c\<lparr>cbuf := Some b, cursorW := cursorW c - cursorR c, cursorR := 0\<rparr>) = pending c"
proof -
  note bounds = chan_inv_bounds [OF c]
  from lt bounds have pos: "0 < csize c" by linarith
  then obtain a where a: "cbuf c = Some a" "int (length a) = csize c"
    using chan_inv_buf [OF c] by blast
  let ?n = "nat (cursorW c - cursorR c)"
  have le: "nat (cursorR c) + ?n \<le> length a" "0 < ?n" "?n \<le> SECUREC_MEM_MAX_LEN"
    using bounds lt a by linarith+
  let ?b = "take ?n (drop (nat (cursorR c)) a) @ drop ?n a"
  have mv: "chan_memmove L c = (EOK, c\<lparr>cbuf := Some ?b\<rparr>)"
    using libc_memmove [OF L le(2,3) bounds(1) le(1)] a by (simp add: chan_memmove_def Let_def)
  have len: "length ?b = length a" using le by simp
  have inv: "chan_inv (c\<lparr>cbuf := Some ?b, cursorW := cursorW c - cursorR c, cursorR := 0\<rparr>)"
    using c len a pos bounds lt by (simp add: chan_inv_def buf_shape_def)
  have "pending (c\<lparr>cbuf := Some ?b, cursorW := cursorW c - cursorR c, cursorR := 0\<rparr>) = pending c"
    using le a by (simp add: pending_def)
  with mv inv show ?thesis by (rule that)
qed

text \<open>\<open>room n c\<close>: after the write cursor there is space for \<open>n\<close> bytes and one more.\<close>

definition room :: "u32 \<Rightarrow> chan \<Rightarrow> bool" where
  "room n c \<longleftrightarrow> uint n < csize c - cursorW c"

definition dropped :: "chan \<Rightarrow> bool" where
  "dropped c \<longleftrightarrow> cursorW c = 0 \<and> cursorR c = 0"

lemma dropped_reset [simp]: "dropped (chan_reset c)"
  by (simp add: dropped_def)

lemma dropped_pending: "dropped c \<Longrightarrow> pending c = []"
  by (simp add: dropped_def pending_nil)

lemma try_memmove_spec:
  assumes "libc_ok L" "chan_inv c"
  obtains c' where "try_memmove L c = (True, c')" "chan_inv c'" "pending c' = pending c"
    "csize c' = csize c" "cursorW c' \<le> cursorW c"
    "cursorR c \<le> cursorW c \<longrightarrow> cursorR c' \<le> cursorW c'"
proof (cases "csize c - cursorW c < SOCKET_BUFF_RESERVED_SIZE \<and>
    cursorW c - cursorR c < cursorR c \<and> cursorW c - cursorR c > 0")
  case True
  then obtain b where "chan_memmove L c = (EOK, c\<lparr>cbuf := Some b\<rparr>)"
    "chan_inv (c\<lparr>cbuf := Some b, cursorW := cursorW c - cursorR c, cursorR := 0\<rparr>)"
    "pending (c\<lparr>cbuf := Some b, cursorW := cursorW c - cursorR c, cursorR := 0\<rparr>) = pending c"
    using chan_memmove_spec [OF assms] by auto
  with True chan_inv_bounds [OF assms(2)] show ?thesis
    by (intro that [of "c\<lparr>cbuf := Some b, cursorW := cursorW c - cursorR c, cursorR := 0\<rparr>"])
      (auto simp: try_memmove_def Let_def)
next
  case False
  with assms show ?thesis by (intro that [of c]) (auto simp: try_memmove_def Let_def)
qed

lemma memmove_if_insufficient_spec:
  assumes "libc_ok L" "chan_inv c" "cursorR c < cursorW c"
  obtains ok c' where "memmove_if_insufficient L n c = (ok, c')" "chan_inv c'" "csize c' = csize c"
    "ok \<longleftrightarrow> uint n < csize c - (cursorW c - cursorR c)"
    "ok \<longrightarrow> pending c' = pending c \<and> room n c' \<and> cursorR c' \<le> cursorW c'" "\<not> ok \<longrightarrow> dropped c'"
proof (cases "csize c - cursorW c \<le> uint n")
  case True
  obtain b where b: "chan_memmove L c = (EOK, c\<lparr>cbuf := Some b\<rparr>)"
    "chan_inv (c\<lparr>cbuf := Some b, cursorW := cursorW c - cursorR c, cursorR := 0\<rparr>)"
    "pending (c\<lparr>cbuf := Some b, cursorW := cursorW c - cursorR c, cursorR := 0\<rparr>) = pending c"
    using chan_memmove_spec [OF assms] by blast
  let ?c = "c\<lparr>cbuf := Some b, cursorW := cursorW c - cursorR c, cursorR := 0\<rparr>"
  show ?thesis
  proof (cases "csize c - (cursorW c - cursorR c) \<le> uint n")
    case insufficient: True
    with True b chan_inv_reset [OF b(2)] show ?thesis
      by (intro that [of False "chan_reset ?c"])
        (auto simp: memmove_if_insufficient_def Let_def)
  next
    case False
    with True b assms(3) show ?thesis
      by (intro that [of True ?c]) (auto simp: memmove_if_insufficient_def Let_def room_def)
  qed
next
  case False
  with assms chan_inv_bounds [OF assms(2)] show ?thesis
    by (intro that [of True c]) (auto simp: memmove_if_insufficient_def Let_def room_def)
qed

text \<open>What the code tests before it allocates.\<close>

definition expandable :: "u32 \<Rightarrow> chan \<Rightarrow> bool" where
  "expandable n c \<longleftrightarrow>
     (let totalNeed = cursorW c - cursorR c + uint n + SOCKET_BUFF_RESERVED_SIZE in
      totalNeed \<le> 1048576 \<and> \<not> (csize c = 1048576 \<and> totalNeed > 524288))"

lemma try_expand_guards:
  fixes n :: u32
  assumes c: "chan_inv c" and lt: "cursorR c < cursorW c"
  defines "need \<equiv> cursorW c - cursorR c + uint n + SOCKET_BUFF_RESERVED_SIZE"
  defines "nextSize \<equiv> GetExpandedBufferSize (word_of_int (csize c)) (word_of_int need)"
  shows "try_expand L ex n c =
      (if expandable n c
       then (case ex nextSize c of (False, c') \<Rightarrow> (False, chan_reset c')
             | (True, c') \<Rightarrow> memmove_if_insufficient L n c')
       else (False, chan_reset c))"
    and "expandable n c \<Longrightarrow> nextSize \<noteq> 0 \<and> uint nextSize \<in> size_classes \<and> need \<le> uint nextSize"
proof -
  have pos: "0 < need"
    using lt uint_ge_0 [of n] unfolding need_def by linarith
  have cls: "csize c \<in> size_classes" using c by (simp add: chan_inv_def)
  have small: "uint (word_of_int need :: u32) = need" if "need \<le> 1048576"
    using that pos by (simp add: uint_word_of_int_eq take_bit_int_eq_self)
  have zero: "nextSize = 0 \<longleftrightarrow> csize c = 1048576 \<and> need > 524288" if "need \<le> 1048576"
    using expanded_zero_iff [OF _ cls, of "word_of_int need"] small [OF that] that
    by (simp add: nextSize_def)
  show "try_expand L ex n c =
      (if expandable n c
       then (case ex nextSize c of (False, c') \<Rightarrow> (False, chan_reset c')
             | (True, c') \<Rightarrow> memmove_if_insufficient L n c')
       else (False, chan_reset c))"
  proof -
    have g: "(cursorW c - cursorR c > uint (1048576 :: u32) - uint n - 256) = (need > 1048576)"
      unfolding need_def by auto
    show ?thesis
      unfolding try_expand_def expandable_def Let_def g need_def [symmetric] nextSize_def [symmetric]
      using lt pos zero by auto
  qed
  assume "expandable n c"
  then have ok: "need \<le> 1048576" "nextSize \<noteq> 0"
    using zero by (auto simp: expandable_def need_def Let_def)
  with expanded_ge [of "word_of_int (csize c)" "word_of_int need"] small
  have "need \<le> uint nextSize"
    by (simp add: nextSize_def word_le_def)
  with ok expanded_in_classes [OF cls, of "word_of_int need"]
  show "nextSize \<noteq> 0 \<and> uint nextSize \<in> size_classes \<and> need \<le> uint nextSize"
    by (simp add: nextSize_def)
qed

lemma try_expand_spec:
  assumes L: "libc_ok L" "expands L ex" and c: "chan_inv c" and lt: "cursorR c < cursorW c"
  obtains ok c' where "try_expand L ex n c = (ok, c')" "chan_inv c'"
    "ok \<longrightarrow> expandable n c \<and> pending c' = pending c \<and> room n c' \<and> cursorR c' \<le> cursorW c'"
    "\<not> ok \<longrightarrow> dropped c'" "csize c \<le> csize c'"
    "expandable n c \<longrightarrow> never_oom L \<longrightarrow> ok"
proof (cases "expandable n c")
  case False
  with try_expand_guards(1) [OF c lt, of L ex n] chan_inv_reset [OF c] show ?thesis
    by (intro that [of False "chan_reset c"]) auto
next
  case True
  define need where "need = cursorW c - cursorR c + uint n + SOCKET_BUFF_RESERVED_SIZE"
  define m where "m = GetExpandedBufferSize (word_of_int (csize c)) (word_of_int need)"
  note guards = try_expand_guards [OF c lt, where n = n, folded need_def, folded m_def]
  from guards(2) True have m: "m \<noteq> 0" "uint m \<in> size_classes" "need \<le> uint m" by auto
  obtain ok1 c1 where ex: "ex m c = (ok1, c1)" by fastforce
  with L(2) c m have sp: "if ok1 then chan_inv c1 \<and> same_data c c1 \<and> csize c1 = max (csize c) (uint m)
      else (c1 = c \<or> c1 = chan_reset c) \<and> \<not> never_oom L"
    unfolding expands_def by blast
  show ?thesis
  proof (cases ok1)
    case ok1: False
    with sp c have "chan_inv (chan_reset c1)" "csize c1 = csize c" "\<not> never_oom L"
      by (auto intro: chan_intros)
    with ok1 True guards(1) ex show ?thesis
      by (intro that [of False "chan_reset c1"]) auto
  next
    case ok1: True
    with sp have c1: "chan_inv c1" "cursorW c1 = cursorW c" "cursorR c1 = cursorR c"
      "pending c1 = pending c" "csize c1 = max (csize c) (uint m)"
      by (auto simp: same_data_def)
    obtain ok2 c2 where mv: "memmove_if_insufficient L n c1 = (ok2, c2)" "chan_inv c2"
      "csize c2 = csize c1"
      "ok2 \<longleftrightarrow> uint n < csize c1 - (cursorW c1 - cursorR c1)"
      "ok2 \<longrightarrow> pending c2 = pending c1 \<and> room n c2 \<and> cursorR c2 \<le> cursorW c2"
      using memmove_if_insufficient_spec [OF L(1) c1(1), of n] c1(2,3) lt by metis
    have "ok2" using mv(4) m(3) c1 by (simp add: need_def)
    with mv ok1 True guards(1) ex c1(4,5) show ?thesis
      by (intro that [of True c2]) auto
  qed
qed

text \<open>
  \<open>Update...BufferLocked\<close>: with unread bytes in the array, either there is room for \<open>n\<close> more
  bytes afterwards and the unread bytes are the same, or a null pointer is returned and the
  unread bytes are gone.
\<close>

lemma update_locked_spec:
  assumes L: "libc_ok L" "expands L ex" and c: "chan_inv c" and pos: "0 < csize c"
  obtains r c' where "update_locked L ex n c = (r, c')" "chan_inv c'" "0 < csize c'"
    "r \<noteq> None \<longrightarrow> r = cbuf c' \<and> pending c' = pending c \<and> cursorR c' \<le> cursorW c' \<and>
      (room n c' \<or> cursorW c \<le> cursorR c)"
    "r = None \<longrightarrow> dropped c' \<and> cursorR c < cursorW c"
    "cursorW c \<le> cursorR c \<longrightarrow> dropped c' \<and> csize c' = csize c"
    "uint n < csize c - cursorW c \<or> expandable n c \<longrightarrow> never_oom L \<longrightarrow> r \<noteq> None"
    "cursorR c < cursorW c \<and> r \<noteq> None \<longrightarrow> uint n < csize c - cursorW c \<or> expandable n c"
proof (cases "cursorW c \<le> cursorR c")
  case True
  obtain b where "cbuf c = Some b" using chan_inv_buf [OF c pos] by blast
  with True chan_inv_reset [OF c] pos pending_nil [OF True] show ?thesis
    by (intro that [of "cbuf c" "chan_reset c"]) (auto simp: update_locked_def)
next
  case False
  then have lt: "cursorR c < cursorW c" by simp
  obtain ok c1 where e: "(if csize c - cursorW c \<le> uint n then try_expand L ex n c else (True, c)) = (ok, c1)"
    "chan_inv c1" "csize c \<le> csize c1"
    "ok \<longrightarrow> pending c1 = pending c \<and> room n c1 \<and> cursorR c1 \<le> cursorW c1" "\<not> ok \<longrightarrow> dropped c1"
    "uint n < csize c - cursorW c \<or> expandable n c \<longrightarrow> never_oom L \<longrightarrow> ok"
    "ok \<longrightarrow> uint n < csize c - cursorW c \<or> expandable n c"
  proof (cases "csize c - cursorW c \<le> uint n")
    case True
    obtain ok c1 where "try_expand L ex n c = (ok, c1)" "chan_inv c1"
      "ok \<longrightarrow> expandable n c \<and> pending c1 = pending c \<and> room n c1 \<and> cursorR c1 \<le> cursorW c1"
      "\<not> ok \<longrightarrow> dropped c1" "csize c \<le> csize c1"
      "expandable n c \<longrightarrow> never_oom L \<longrightarrow> ok"
      using try_expand_spec [OF L c lt, of n] by blast
    with True show ?thesis by (intro that [of ok c1]) auto
  next
    case False
    with c lt show ?thesis by (intro that [of True c]) (auto simp: room_def)
  qed
  show ?thesis
  proof (cases ok)
    case ok: False
    with e lt pos show ?thesis
      by (intro that [of None c1]) (auto simp: update_locked_def)
  next
    case ok: True
    obtain c2 where c2: "try_memmove L c1 = (True, c2)" "chan_inv c2" "pending c2 = pending c1"
      "csize c2 = csize c1" "cursorW c2 \<le> cursorW c1"
      "cursorR c1 \<le> cursorW c1 \<longrightarrow> cursorR c2 \<le> cursorW c2"
      using try_memmove_spec [OF L(1) e(2)] by blast
    from c2(4) e(3) pos have pos2: "0 < csize c2" by simp
    then obtain b where b: "cbuf c2 = Some b" using chan_inv_buf [OF c2(2)] by blast
    have upd: "update_locked L ex n c = (cbuf c2, c2)"
      using lt e(1) ok c2(1) by (simp add: update_locked_def)
    have "room n c2" using e(4) ok c2(4,5) by (simp add: room_def)
    with upd c2 e(4,7) ok pos2 b lt show ?thesis
      by (intro that [of "cbuf c2" c2]) auto
  qed
qed

section \<open>The object\<close>

definition buffer_inv :: "buffer_object \<Rightarrow> bool" where
  "buffer_inv b \<longleftrightarrow> chan_inv (send b) \<and> chan_inv (recv b) \<and>
     (sendLocked b \<longrightarrow> 0 < csize (send b)) \<and> (recvLocked b \<longrightarrow> 0 < csize (recv b))"

lemma acquire_send_spec:
  assumes L: "libc_ok L" and inv: "chan_inv (send b)" and free: "\<not> sendLocked b"
  obtains ctx b1 where "AcquireSendBuffer L n b = Some (ctx, b1)" "recv b1 = recv b"
    "recvLocked b1 = recvLocked b" "chan_inv (send b1)"
    "ctx_buffer ctx = None \<longleftrightarrow> \<not> ctx_locked ctx"
    "\<not> ctx_locked ctx \<longrightarrow> b1 = b"
    "ctx_locked ctx \<longrightarrow> sendLocked b1 \<and> same_data (send b) (send b1) \<and> uint n \<le> csize (send b1) \<and>
       0 < csize (send b1) \<and> csize (send b) \<le> csize (send b1)"
    "uint n \<le> 1048576 \<longrightarrow> never_oom L \<longrightarrow> ctx_locked ctx"
proof (cases "GetNeedBufferSize n = 0")
  case True
  with free inv show ?thesis
    by (intro that [of no_buffer b]) (auto simp: AcquireSendBuffer_def no_buffer_def need_zero_iff)
next
  case False
  let ?m = "GetNeedBufferSize n"
  obtain ok c where ex: "expand_send L ?m (send b) = (ok, c)" by fastforce
  have sp: "if ok then chan_inv c \<and> same_data (send b) c \<and> csize c = max (csize (send b)) (uint ?m)
      else (c = send b \<or> c = chan_reset (send b)) \<and> \<not> never_oom L"
    using expands_send [OF L] inv need_in_classes [of n] False ex unfolding expands_def by blast
  have keep: "\<not> ok \<Longrightarrow> c = send b"
    using ex by (auto simp: expand_send_def chan_grow_def Let_def split: if_splits option.splits prod.splits)
  have le: "uint n \<le> uint ?m" "0 < uint ?m"
    using need_ge [OF False] False by (simp_all add: word_le_def word_neq_0_conv word_less_def)
  show ?thesis
  proof (cases ok)
    case ok: True
    with sp le have c: "chan_inv c" "same_data (send b) c" "csize c = max (csize (send b)) (uint ?m)"
      by auto
    have "0 < csize c" using c(3) le(2) by (simp add: less_max_iff_disj)
    then obtain a where "cbuf c = Some a" using chan_inv_buf [OF c(1)] by blast
    with ok c le ex free False show ?thesis
      by (intro that [of "\<lparr>ctx_buffer = cbuf c, ctx_size = csize c, ctx_locked = True\<rparr>"
            "b\<lparr>send := c, sendLocked := True\<rparr>"])
        (auto simp: AcquireSendBuffer_def ExpandSendBuffer_def on_send_def)
  next
    case nok: False
    with sp keep ex free False inv show ?thesis
      by (intro that [of no_buffer b])
        (auto simp: AcquireSendBuffer_def ExpandSendBuffer_def on_send_def no_buffer_def)
  qed
qed

end
