(* ===== verification/Send_Queue.thy ===== *)
theory Send_Queue
  imports Buffer_Object_Proofs "HOL-Library.Sublist"
begin

text \<open>
  The send side of a session as a queue of bytes. The contract \<open>byte_queue\<close> is what the sender
  and the socket writer rely on: an accepted message is appended to the queued bytes, a flush
  hands over exactly the queued bytes, and where an operation cannot keep the queue it empties
  it. The interpretation discharges it for \<open>MoveTransData2Buffer\<close> and \<open>SendData\<close> on
  \<open>BufferObject\<close>; the history theorems follow for any order of calls.
\<close>

datatype 'm queue_event = Put 'm | Flush

record ('s) queue_run =
  q_state :: 's
  q_accepted :: bytes
  q_delivered :: bytes

fun q_step ::
    "('m \<Rightarrow> bytes) \<Rightarrow> ('m \<Rightarrow> 's \<Rightarrow> bool \<times> 's) \<Rightarrow> ('s \<Rightarrow> bytes option \<times> 's) \<Rightarrow>
     'm queue_event \<Rightarrow> 's queue_run \<Rightarrow> 's queue_run" where
  "q_step msg put flush (Put m) r =
     (case put m (q_state r) of (ok, s) \<Rightarrow>
        r\<lparr>q_state := s, q_accepted := q_accepted r @ (if ok then msg m else [])\<rparr>)"
| "q_step msg put flush Flush r =
     (case flush (q_state r) of (d, s) \<Rightarrow>
        r\<lparr>q_state := s, q_delivered := q_delivered r @ (case d of None \<Rightarrow> [] | Some x \<Rightarrow> x)\<rparr>)"

text \<open>No event of the run threw queued bytes away.\<close>

fun lossless ::
    "('s \<Rightarrow> bytes) \<Rightarrow> ('m \<Rightarrow> 's \<Rightarrow> bool \<times> 's) \<Rightarrow> ('s \<Rightarrow> bytes option \<times> 's) \<Rightarrow>
     'm queue_event \<Rightarrow> 's \<Rightarrow> bool" where
  "lossless content put flush (Put m) s \<longleftrightarrow>
     fst (put m s) \<or> content (snd (put m s)) = content s"
| "lossless content put flush Flush s \<longleftrightarrow>
     fst (flush s) \<noteq> None \<or> content (snd (flush s)) = content s"

fun lossless_run ::
    "('m \<Rightarrow> bytes) \<Rightarrow> ('s \<Rightarrow> bytes) \<Rightarrow> ('m \<Rightarrow> 's \<Rightarrow> bool \<times> 's) \<Rightarrow> ('s \<Rightarrow> bytes option \<times> 's) \<Rightarrow>
     'm queue_event list \<Rightarrow> 's queue_run \<Rightarrow> bool" where
  "lossless_run msg content put flush [] r = True"
| "lossless_run msg content put flush (e # es) r =
     (lossless content put flush e (q_state r) \<and>
      lossless_run msg content put flush es (q_step msg put flush e r))"

definition event_valid :: "('m \<Rightarrow> bool) \<Rightarrow> 'm queue_event \<Rightarrow> bool" where
  "event_valid valid e = (case e of Put m \<Rightarrow> valid m | Flush \<Rightarrow> True)"

lemma subseq_append_left: "subseq (xs @ ys) zs \<Longrightarrow> subseq xs zs"
  using subseq_order.trans [OF prefix_imp_subseq [OF prefixI]] by blast

locale byte_queue =
  fixes inv :: "'s \<Rightarrow> bool"
    and content :: "'s \<Rightarrow> bytes"
    and valid :: "'m \<Rightarrow> bool"
    and msg :: "'m \<Rightarrow> bytes"
    and put :: "'m \<Rightarrow> 's \<Rightarrow> bool \<times> 's"
    and flush :: "'s \<Rightarrow> bytes option \<times> 's"
  assumes put_inv: "inv s \<Longrightarrow> valid m \<Longrightarrow> inv (snd (put m s))"
    and put_ok: "inv s \<Longrightarrow> valid m \<Longrightarrow> fst (put m s) \<Longrightarrow> content (snd (put m s)) = content s @ msg m"
    and put_fail: "inv s \<Longrightarrow> valid m \<Longrightarrow> \<not> fst (put m s) \<Longrightarrow>
      content (snd (put m s)) = content s \<or> content (snd (put m s)) = []"
    and flush_inv: "inv s \<Longrightarrow> inv (snd (flush s))"
    and flush_some: "inv s \<Longrightarrow> fst (flush s) = Some d \<Longrightarrow> d = content s \<and> content (snd (flush s)) = []"
    and flush_none: "inv s \<Longrightarrow> fst (flush s) = None \<Longrightarrow>
      content (snd (flush s)) = content s \<or> content (snd (flush s)) = []"
begin

lemma q_step_inv:
  "inv (q_state r) \<Longrightarrow> event_valid valid e \<Longrightarrow> inv (q_state (q_step msg put flush e r))"
  using put_inv [of "q_state r"] flush_inv [of "q_state r"]
  by (cases e) (auto simp: event_valid_def case_prod_unfold)

lemma q_step_subseq:
  assumes "inv (q_state r)" "event_valid valid e"
    and sub: "subseq (q_delivered r @ content (q_state r)) (q_accepted r)"
  defines "r' \<equiv> q_step msg put flush e r"
  shows "subseq (q_delivered r' @ content (q_state r')) (q_accepted r')"
proof (cases e)
  case (Put m)
  obtain ok s where p: "put m (q_state r) = (ok, s)" by fastforce
  show ?thesis
    using assms Put p put_ok [of "q_state r" m] put_fail [of "q_state r" m] subseq_append_left [OF sub]
    by (cases ok) (auto simp: event_valid_def intro: list_emb_append_mono simp flip: append_assoc)
next
  case Flush
  obtain d s where f: "flush (q_state r) = (d, s)" by fastforce
  show ?thesis
    using assms Flush f flush_some [of "q_state r"] flush_none [of "q_state r"] subseq_append_left [OF sub]
    by (cases d) auto
qed

lemma q_step_exact:
  assumes "inv (q_state r)" "event_valid valid e" "lossless content put flush e (q_state r)"
    and "q_delivered r @ content (q_state r) = q_accepted r"
  defines "r' \<equiv> q_step msg put flush e r"
  shows "q_delivered r' @ content (q_state r') = q_accepted r'"
proof (cases e)
  case (Put m)
  obtain ok s where p: "put m (q_state r) = (ok, s)" by fastforce
  show ?thesis
    using assms Put p put_ok [of "q_state r" m]
    by (cases ok) (auto simp: event_valid_def simp flip: append_assoc)
next
  case Flush
  obtain d s where f: "flush (q_state r) = (d, s)" by fastforce
  show ?thesis
    using assms Flush f flush_some [of "q_state r"]
    by (cases d) auto
qed

theorem history_subseq:
  assumes "inv (q_state r)" "\<forall>e \<in> set es. event_valid valid e"
    and "subseq (q_delivered r @ content (q_state r)) (q_accepted r)"
  shows "inv (q_state (fold (q_step msg put flush) es r)) \<and>
    subseq (q_delivered (fold (q_step msg put flush) es r) @
            content (q_state (fold (q_step msg put flush) es r)))
      (q_accepted (fold (q_step msg put flush) es r))"
  using assms
proof (induction es arbitrary: r)
  case (Cons e es)
  then show ?case using q_step_inv q_step_subseq by simp
qed simp

theorem history_exact:
  assumes "inv (q_state r)" "\<forall>e \<in> set es. event_valid valid e"
    and "lossless_run msg content put flush es r"
    and "q_delivered r @ content (q_state r) = q_accepted r"
  shows "q_delivered (fold (q_step msg put flush) es r) @
      content (q_state (fold (q_step msg put flush) es r)) =
    q_accepted (fold (q_step msg put flush) es r)"
  using assms
proof (induction es arbitrary: r)
  case (Cons e es)
  then show ?case using q_step_inv q_step_exact by simp
qed simp

end

section \<open>The buffer implements the queue\<close>

definition send_inv :: "libc \<Rightarrow> buffer_object \<Rightarrow> bool" where
  "send_inv L b \<longleftrightarrow> libc_ok L \<and> chan_inv (send b) \<and> \<not> sendLocked b"

text \<open>A transaction: \<open>sizeOfSelf\<close> and the memory of the struct, at least that long.\<close>

definition tr_valid :: "u32 \<times> bytes \<Rightarrow> bool" where
  "tr_valid t \<longleftrightarrow> unat (fst t) \<le> length (snd t)"

definition tr_bytes :: "u32 \<times> bytes \<Rightarrow> bytes" where
  "tr_bytes t = take (unat (fst t)) (snd t)"

definition queue_put :: "libc \<Rightarrow> u32 \<times> bytes \<Rightarrow> buffer_object \<Rightarrow> bool \<times> buffer_object" where
  "queue_put L t b = (case MoveTransData2Buffer L (Some t) b of None \<Rightarrow> (False, b) | Some r \<Rightarrow> r)"

text \<open>The bytes a call of \<open>SendData\<close> delivered: those it handed over with success.\<close>

definition queue_flush ::
    "libc \<Rightarrow> (bytes \<Rightarrow> int) \<Rightarrow> buffer_object \<Rightarrow> bytes option \<times> buffer_object" where
  "queue_flush L send_bytes b = (case SendData L send_bytes b of None \<Rightarrow> (None, b)
     | Some (ret, d, b') \<Rightarrow> (if ret = 0 then d else None, b'))"

lemma take_drop_overwrite:
  assumes "r \<le> w" "w + length m \<le> length a"
  shows "take (w - r + length m) (drop r (take w a @ m @ drop (w + length m) a)) =
    take (w - r) (drop r a) @ m"
proof -
  have "drop r (take w a @ m @ drop (w + length m) a) =
      take (w - r) (drop r a) @ m @ drop (w + length m) a"
    using assms by (simp add: drop_take)
  then show ?thesis using assms by simp
qed

text \<open>Copying behind the unread bytes appends to them.\<close>

lemma append_at_cursor:
  assumes c: "chan_inv c" and R: "cursorR c \<le> cursorW c" and buf: "cbuf c = Some a"
    and fit: "int (length m) \<le> csize c - cursorW c" and len: "int (length a) = csize c"
  defines "c' \<equiv> c\<lparr>cbuf := Some (take (nat (cursorW c)) a @ m @ drop (nat (cursorW c) + length m) a),
    cursorW := cursorW c + int (length m)\<rparr>"
  shows "chan_inv c'" "pending c' = pending c @ m"
proof -
  note b = chan_inv_bounds [OF c]
  have w: "nat (cursorW c) + length m \<le> length a" using fit len b by linarith
  then have l: "length (take (nat (cursorW c)) a @ m @ drop (nat (cursorW c) + length m) a) = length a"
    by simp
  show "chan_inv c'"
    using c b fit l len R unfolding c'_def by (auto simp: chan_inv_def buf_shape_def buf)
  have e: "nat (cursorW c + int (length m) - cursorR c) = nat (cursorW c) - nat (cursorR c) + length m"
    "nat (cursorW c) - nat (cursorR c) = nat (cursorW c - cursorR c)" "nat (cursorR c) \<le> nat (cursorW c)"
    using R b by auto
  have "pending c' = take (nat (cursorW c + int (length m) - cursorR c)) (drop (nat (cursorR c))
      (take (nat (cursorW c)) a @ m @ drop (nat (cursorW c) + length m) a))"
    unfolding c'_def pending_def by simp
  also have "\<dots> = take (nat (cursorW c) - nat (cursorR c)) (drop (nat (cursorR c)) a) @ m"
    unfolding e(1) by (rule take_drop_overwrite [OF e(3) w])
  also have "\<dots> = pending c @ m"
    unfolding e(2) by (simp add: pending_def buf)
  finally show "pending c' = pending c @ m" .
qed

text \<open>The copying half of \<open>MoveTransData2Buffer\<close>, once there is space for the transaction.\<close>

lemma MoveTransData2Buffer_copies:
  assumes L: "libc_ok L" and t: "unat n \<le> length mem"
    and acq: "AcquireSendBuffer L n b = Some (ctx, b1)" "ctx_buffer ctx \<noteq> None"
    and upd: "UpdateSendBufferLocked L n b1 = (Some sb, b1\<lparr>send := c\<rparr>)"
    and c: "chan_inv c" "cbuf c = Some sb" "cursorR c \<le> cursorW c"
    and fit: "uint n \<le> csize c - cursorW c" "cursorW c < csize c"
  shows "\<exists>c'. MoveTransData2Buffer L (Some (n, mem)) b = Some (True, send_guard_drop ctx (b1\<lparr>send := c'\<rparr>)) \<and>
    chan_inv c' \<and> pending c' = pending c @ take (unat n) mem"
proof -
  note bd = chan_inv_bounds [OF c(1)]
  have sb: "int (length sb) = csize c" using c by (simp add: chan_inv_def buf_shape_def)
  have un: "int (unat n) = uint n" by simp
  have cast: "\<not> word_of_int (csize c - cursorW c) < n"
  proof -
    have "uint (word_of_int (csize c - cursorW c) :: u32) = csize c - cursorW c"
      using fit(2) bd by (intro uint_word_of_int_small) simp_all
    then show ?thesis unfolding word_less_def using fit(1) by simp
  qed
  let ?m = "take (unat n) mem"
  have lm: "length ?m = unat n" using t by simp
  have cp: "memcpy_s L sb (nat (cursorW c)) (nat (csize c - cursorW c)) mem (unat n) =
      (EOK, take (nat (cursorW c)) sb @ ?m @ drop (nat (cursorW c) + unat n) sb)"
  proof (rule libc_memcpy [OF L])
    show "0 < nat (csize c - cursorW c)" using fit(2) by simp
    show "unat n \<le> nat (csize c - cursorW c)" using fit(1) un by linarith
    show "nat (csize c - cursorW c) \<le> SECUREC_MEM_MAX_LEN" using bd by simp
    show "nat (cursorW c) + nat (csize c - cursorW c) \<le> length sb" using bd sb by simp
  qed (rule t)
  let ?c = "c\<lparr>cbuf := Some (take (nat (cursorW c)) sb @ ?m @ drop (nat (cursorW c) + unat n) sb),
    cursorW := cursorW c + uint n\<rparr>"
  have nonneg: "\<not> cursorW c + uint n < 0" "\<not> csize c < cursorW c + uint n"
    using bd fit(1) uint_ge_0 [of n] by linarith+
  have move: "MoveTransData2Buffer L (Some (n, mem)) b = Some (True, send_guard_drop ctx (b1\<lparr>send := ?c\<rparr>))"
    using acq upd cast cp fit bd nonneg
    by (simp add: MoveTransData2Buffer_def Let_def GetSendBufferWriteCursor_def
        GetSendBufferReadCursor_def GetSendBufferSizeEx_def SetSendBufferWriteCursorEx_def
        SetSendBufferReadCursorEx_def set_write_cursor_ex_def set_read_cursor_ex_def on_send_def)
  have "int (length ?m) \<le> csize c - cursorW c" using fit(1) lm un by linarith
  from append_at_cursor [OF c(1,3,2) this sb] move show ?thesis
    unfolding lm un by blast
qed

lemma MoveTransData2Buffer_spec:
  assumes inv: "send_inv L b" and t: "tr_valid t"
  obtains ok b' where "MoveTransData2Buffer L (Some t) b = Some (ok, b')" "send_inv L b'"
    "recv b' = recv b" "recvLocked b' = recvLocked b"
    "ok \<longrightarrow> pending (send b') = pending (send b) @ tr_bytes t"
    "\<not> ok \<longrightarrow> send b' = send b \<or> pending (send b) \<noteq> [] \<and> dropped (send b')"
    "uint (fst t) \<le> 1048576 \<longrightarrow> never_oom L \<longrightarrow>
      cursorW (send b) \<le> cursorR (send b) \<or> uint (fst t) < csize (send b) - cursorW (send b) \<or>
      cursorW (send b) - cursorR (send b) + uint (fst t) + 256 \<le> 524288 \<longrightarrow> ok"
proof -
  obtain n mem where tn: "t = (n, mem)" by (cases t)
  from inv have L: "libc_ok L" and c: "chan_inv (send b)" and free: "\<not> sendLocked b"
    by (auto simp: send_inv_def)
  obtain ctx b1 where a: "AcquireSendBuffer L n b = Some (ctx, b1)" "recv b1 = recv b"
    "recvLocked b1 = recvLocked b" "chan_inv (send b1)" "ctx_buffer ctx = None \<longleftrightarrow> \<not> ctx_locked ctx"
    "\<not> ctx_locked ctx \<longrightarrow> b1 = b"
    "ctx_locked ctx \<longrightarrow> sendLocked b1 \<and> same_data (send b) (send b1) \<and> uint n \<le> csize (send b1) \<and>
       0 < csize (send b1) \<and> csize (send b) \<le> csize (send b1)"
    "uint n \<le> 1048576 \<longrightarrow> never_oom L \<longrightarrow> ctx_locked ctx"
    by (rule acquire_send_spec [OF L c free, of n]) (rule that; assumption)
  show ?thesis
  proof (cases "ctx_locked ctx")
    case False
    with a inv show ?thesis
      by (intro that [of False b]) (auto simp: MoveTransData2Buffer_def tn send_guard_drop_def)
  next
    case True
    with a have b1: "sendLocked b1" "same_data (send b) (send b1)" "uint n \<le> csize (send b1)"
      "0 < csize (send b1)" "csize (send b) \<le> csize (send b1)" by auto
    obtain r c' where u: "update_locked L (expand_send L) n (send b1) = (r, c')" "chan_inv c'" "0 < csize c'"
      "r \<noteq> None \<longrightarrow> r = cbuf c' \<and> pending c' = pending (send b1) \<and> cursorR c' \<le> cursorW c' \<and>
        (room n c' \<or> cursorW (send b1) \<le> cursorR (send b1))"
      "r = None \<longrightarrow> dropped c' \<and> cursorR (send b1) < cursorW (send b1)"
      "cursorW (send b1) \<le> cursorR (send b1) \<longrightarrow> dropped c' \<and> csize c' = csize (send b1)"
      "uint n < csize (send b1) - cursorW (send b1) \<or> expandable n (send b1) \<longrightarrow>
        never_oom L \<longrightarrow> r \<noteq> None"
      by (rule update_locked_spec [OF L expands_send [OF L] a(4) b1(4), of n]) (rule that; assumption)
    have U: "UpdateSendBufferLocked L n b1 = (r, b1\<lparr>send := c'\<rparr>)"
      using u(1) by (simp add: UpdateSendBufferLocked_def on_send_def)
    have total: "r \<noteq> None" if "never_oom L"
      "cursorW (send b) \<le> cursorR (send b) \<or> uint n < csize (send b) - cursorW (send b) \<or>
       cursorW (send b) - cursorR (send b) + uint n + 256 \<le> 524288"
      using that u(5,7) b1 by (cases r) (auto simp: same_data_def expandable_def Let_def)
    show ?thesis
    proof (cases r)
      case None
      with u(5) have d: "dropped c'" "cursorR (send b) < cursorW (send b)"
        using b1(2) by (simp_all add: same_data_def)
      have "pending (send b) \<noteq> []"
        using length_pending [OF c] d(2) by auto
      moreover have "MoveTransData2Buffer L (Some t) b = Some (False, send_guard_drop ctx (b1\<lparr>send := c'\<rparr>))"
        using a(1,5) None U True by (auto simp: MoveTransData2Buffer_def tn)
      ultimately show ?thesis
        using a(2,3) d True u(2) total L None
        by (intro that [of False "send_guard_drop ctx (b1\<lparr>send := c'\<rparr>)"])
          (auto simp: tn send_guard_drop_def send_inv_def)
    next
      case (Some sb)
      with u have c': "cbuf c' = Some sb" "pending c' = pending (send b)" "cursorR c' \<le> cursorW c'"
        "room n c' \<or> dropped c' \<and> csize c' = csize (send b1)"
        using b1(2) by (auto simp: same_data_def)
      then have fit: "uint n \<le> csize c' - cursorW c'" "cursorW c' < csize c'"
        using b1(3) u(3) uint_ge_0 [of n] unfolding room_def dropped_def by (elim disjE conjE; linarith)+
      from MoveTransData2Buffer_copies [OF L _ a(1) _ _ u(2) c'(1,3) fit] t a(5) True U Some
      obtain c2 where "MoveTransData2Buffer L (Some (n, mem)) b =
          Some (True, send_guard_drop ctx (b1\<lparr>send := c2\<rparr>))" "chan_inv c2"
        "pending c2 = pending c' @ take (unat n) mem"
        by (auto simp: tr_valid_def tn)
      with a(2,3) True c'(2) L show ?thesis
        by (intro that [of True "send_guard_drop ctx (b1\<lparr>send := c2\<rparr>)"])
          (simp_all add: tn tr_bytes_def send_guard_drop_def send_inv_def)
    qed
  qed
qed

text \<open>
  \<open>SendData\<close>: what is handed to the socket is what is queued; after a success nothing is queued,
  after a refusal by the socket everything still is.
\<close>

lemma SendData_spec:
  assumes inv: "send_inv L b"
  obtains ret d b' where "SendData L sb b = Some (ret, d, b')" "send_inv L b'" "recv b' = recv b"
    "ret = 0 \<and> d \<noteq> None \<longrightarrow> d = Some (pending (send b)) \<and> pending (send b') = []"
    "ret = 0 \<and> d = None \<longrightarrow> pending (send b) = [] \<and> pending (send b') = []"
    "ret \<noteq> 0 \<and> d \<noteq> None \<longrightarrow> pending (send b') = pending (send b) \<and> ret = sb (pending (send b))"
    "ret \<noteq> 0 \<and> d = None \<longrightarrow> send b' = send b \<or> pending (send b) \<noteq> [] \<and> dropped (send b')"
    "never_oom L \<and> pending (send b) \<noteq> [] \<and> length (pending (send b)) \<le> 524032 \<longrightarrow>
      ret = sb (pending (send b)) \<and> d = Some (pending (send b))"
proof -
  from inv have L: "libc_ok L" and c: "chan_inv (send b)" and free: "\<not> sendLocked b"
    by (auto simp: send_inv_def)
  obtain ctx b1 where a: "AcquireSendBuffer L 4096 b = Some (ctx, b1)" "recv b1 = recv b"
    "chan_inv (send b1)" "ctx_buffer ctx = None \<longleftrightarrow> \<not> ctx_locked ctx"
    "\<not> ctx_locked ctx \<longrightarrow> b1 = b"
    "ctx_locked ctx \<longrightarrow> sendLocked b1 \<and> same_data (send b) (send b1) \<and> uint (4096 :: u32) \<le> csize (send b1) \<and>
       0 < csize (send b1) \<and> csize (send b) \<le> csize (send b1)"
    "uint (4096 :: u32) \<le> 1048576 \<longrightarrow> never_oom L \<longrightarrow> ctx_locked ctx"
    by (rule acquire_send_spec [OF L c free, of 4096]) (rule that; assumption)
  show ?thesis
  proof (cases "ctx_locked ctx")
    case False
    with a inv show ?thesis
      by (intro that [of "- 601" None b]) (auto simp: SendData_def send_guard_drop_def)
  next
    case True
    with a have b1: "same_data (send b) (send b1)" "0 < csize (send b1)" by auto
    obtain r c' where u: "update_locked L (expand_send L) 0 (send b1) = (r, c')" "chan_inv c'"
      "r \<noteq> None \<longrightarrow> r = cbuf c' \<and> pending c' = pending (send b1) \<and> cursorR c' \<le> cursorW c' \<and>
        (room 0 c' \<or> cursorW (send b1) \<le> cursorR (send b1))"
      "r = None \<longrightarrow> dropped c' \<and> cursorR (send b1) < cursorW (send b1)"
      "uint (0 :: u32) < csize (send b1) - cursorW (send b1) \<or> expandable 0 (send b1) \<longrightarrow> never_oom L \<longrightarrow> r \<noteq> None"
      by (rule update_locked_spec [OF L expands_send [OF L] a(3) b1(2), of 0]) (rule that; assumption)
    have U: "UpdateSendBufferLocked L 0 b1 = (r, b1\<lparr>send := c'\<rparr>)"
      using u(1) by (simp add: UpdateSendBufferLocked_def on_send_def)
    let ?b = "send_guard_drop ctx (b1\<lparr>send := c'\<rparr>)"
    have inv': "send_inv L ?b" "recv ?b = recv b" "send ?b = c'"
      using True L u(2) a(2) by (simp_all add: send_guard_drop_def send_inv_def)
    have total: "r \<noteq> None" if "never_oom L" "length (pending (send b)) \<le> 524032"
      using that u(4,5) b1(1) length_pending [OF c]
      by (cases r) (auto simp: same_data_def expandable_def Let_def)
    show ?thesis
    proof (cases r)
      case None
      with u(4) have "dropped c'" "cursorR (send b) < cursorW (send b)"
        using b1(1) by (simp_all add: same_data_def)
      moreover from this(2) have "pending (send b) \<noteq> []"
        using length_pending [OF c] by auto
      moreover have "SendData L sb b = Some (- 601, None, ?b)"
        using a(1,4) True U None by (auto simp: SendData_def)
      ultimately show ?thesis using inv' total None by (intro that [of "- 601" None ?b]) auto
    next
      case (Some buf)
      with u(3) b1(1) have c': "pending c' = pending (send b)" "cursorR c' \<le> cursorW c'" "cbuf c' = Some buf"
        by (simp_all add: same_data_def)
      note bd = chan_inv_bounds [OF u(2)]
      have pend: "take (nat (cursorW c' - cursorR c')) (drop (nat (cursorR c')) buf) = pending (send b)"
        using c' by (simp add: pending_def)
      have red: "SendData L sb b =
        (if cursorW c' = cursorR c' then Some (0, None, ?b)
         else if sb (pending (send b)) \<noteq> 0 then Some (sb (pending (send b)), Some (pending (send b)), ?b)
         else Some (0, Some (pending (send b)),
           send_guard_drop ctx (b1\<lparr>send := c'\<lparr>cursorR := cursorW c'\<rparr>\<rparr>)))"
        using a(1,4) True U Some c'(2) bd pend
        by (simp add: SendData_def Let_def GetSendBufferWriteCursor_def GetSendBufferReadCursor_def
            GetSendBufferSizeEx_def SetSendBufferReadCursorEx_def set_read_cursor_ex_def on_send_def)
      consider "cursorW c' = cursorR c'" | "cursorW c' \<noteq> cursorR c'" "sb (pending (send b)) \<noteq> 0"
        | "cursorW c' \<noteq> cursorR c'" "sb (pending (send b)) = 0" by blast
      then show ?thesis
      proof cases
        case 1
        with red inv' c'(1) pending_nil [of c'] show ?thesis
          by (intro that [of 0 None ?b]) simp_all
      next
        case 2
        with red inv' c'(1) show ?thesis
          by (intro that [of "sb (pending (send b))" "Some (pending (send b))" ?b]) simp_all
      next
        case 3
        let ?c = "c'\<lparr>cursorR := cursorW c'\<rparr>"
        have "chan_inv ?c"
          using u(2) bd by (simp add: chan_inv_def buf_shape_def c'(3))
        with 3 red True L a(2) show ?thesis
          by (intro that [of 0 "Some (pending (send b))" "send_guard_drop ctx (b1\<lparr>send := ?c\<rparr>)"])
            (simp_all add: send_guard_drop_def send_inv_def pending_nil)
      qed
    qed
  qed
qed

interpretation sq: byte_queue "send_inv L" "\<lambda>b. pending (send b)" tr_valid tr_bytes "queue_put L"
  "queue_flush L sb" for L sb
proof unfold_locales
  fix s m
  assume "send_inv L s" "tr_valid m"
  then obtain ok b' where p: "MoveTransData2Buffer L (Some m) s = Some (ok, b')" "send_inv L b'"
    "ok \<longrightarrow> pending (send b') = pending (send s) @ tr_bytes m"
    "\<not> ok \<longrightarrow> send b' = send s \<or> pending (send s) \<noteq> [] \<and> dropped (send b')"
    by (rule MoveTransData2Buffer_spec) (rule that; assumption)
  then have q: "queue_put L m s = (ok, b')" by (simp add: queue_put_def)
  show "send_inv L (snd (queue_put L m s))" using p q by simp
  show "fst (queue_put L m s) \<Longrightarrow>
      pending (send (snd (queue_put L m s))) = pending (send s) @ tr_bytes m" using p q by simp
  show "\<not> fst (queue_put L m s) \<Longrightarrow> pending (send (snd (queue_put L m s))) = pending (send s) \<or>
      pending (send (snd (queue_put L m s))) = []" using p q dropped_pending by auto
next
  fix s
  assume "send_inv L s"
  then obtain ret d b' where f: "SendData L sb s = Some (ret, d, b')" "send_inv L b'"
    "ret = 0 \<and> d \<noteq> None \<longrightarrow> d = Some (pending (send s)) \<and> pending (send b') = []"
    "ret = 0 \<and> d = None \<longrightarrow> pending (send s) = [] \<and> pending (send b') = []"
    "ret \<noteq> 0 \<and> d \<noteq> None \<longrightarrow> pending (send b') = pending (send s) \<and> ret = sb (pending (send s))"
    "ret \<noteq> 0 \<and> d = None \<longrightarrow> send b' = send s \<or> pending (send s) \<noteq> [] \<and> dropped (send b')"
    by (rule SendData_spec [of L s sb]) (rule that; assumption)
  then have q: "queue_flush L sb s = (if ret = 0 then d else None, b')" by (simp add: queue_flush_def)
  show "send_inv L (snd (queue_flush L sb s))" using f q by simp
  show "d' = pending (send s) \<and> pending (send (snd (queue_flush L sb s))) = []"
    if "fst (queue_flush L sb s) = Some d'" for d'
    using that f(3) q by (auto split: if_splits)
  show "pending (send (snd (queue_flush L sb s))) = pending (send s) \<or>
      pending (send (snd (queue_flush L sb s))) = []" if "fst (queue_flush L sb s) = None"
    using that f q dropped_pending by (cases "ret = 0"; cases d) auto
qed

end
