(* ===== verification/Buffer_Protocol.thy ===== *)
theory Buffer_Protocol
  imports Send_Queue
begin

text \<open>
  The calling protocol of \<open>BufferObject\<close> as a step relation: the notes in \<open>buffer_object.h\<close> allow
  the cursor setters, the updates and the shrinking only to a caller that holds the lock of the
  direction, taken by \<open>AcquireSendBuffer\<close> or \<open>AcquireReceiveBuffer\<close>. Under that protocol the
  cursors stay inside the arrays, whatever the order of the calls and whatever the memory
  allocator answers. The section ends with the properties of the whole component.
\<close>

inductive buf_step :: "libc \<Rightarrow> buffer_object \<Rightarrow> buffer_object \<Rightarrow> bool" for L where
  acquire_send: "AcquireSendBuffer L n b = Some (ctx, b') \<Longrightarrow> buf_step L b b'"
| acquire_recv: "AcquireReceiveBuffer L n b = Some (ctx, b') \<Longrightarrow> buf_step L b b'"
| write_send: "sendLocked b \<Longrightarrow> buf_step L b (snd (SetSendBufferWriteCursorEx w b))"
| write_recv: "recvLocked b \<Longrightarrow> buf_step L b (snd (SetReceiveBufferWriteCursorEx w b))"
| read_send: "sendLocked b \<Longrightarrow> buf_step L b (snd (SetSendBufferReadCursorEx w b))"
| read_recv: "recvLocked b \<Longrightarrow> buf_step L b (snd (SetReceiveBufferReadCursorEx w b))"
| update_send: "sendLocked b \<Longrightarrow> buf_step L b (snd (UpdateSendBufferLocked L n b))"
| update_recv: "recvLocked b \<Longrightarrow> buf_step L b (snd (UpdateReceiveBufferLocked L n b))"
| shrink_send: "sendLocked b \<Longrightarrow> buf_step L b (ShrinkSendBufferIfNeeded L b)"
| shrink_recv: "recvLocked b \<Longrightarrow> buf_step L b (ShrinkReceiveBufferIfNeeded L b)"
| fill_send: "sendLocked b \<Longrightarrow> cbuf (send b) = Some a \<Longrightarrow> length a' = length a \<Longrightarrow>
    buf_step L b (b\<lparr>send := (send b)\<lparr>cbuf := Some a'\<rparr>\<rparr>)"
| fill_recv: "recvLocked b \<Longrightarrow> cbuf (recv b) = Some a \<Longrightarrow> length a' = length a \<Longrightarrow>
    buf_step L b (b\<lparr>recv := (recv b)\<lparr>cbuf := Some a'\<rparr>\<rparr>)"
| release_send: "sendLocked b \<Longrightarrow> buf_step L b (send_guard_drop \<lparr>ctx_buffer = x, ctx_size = y, ctx_locked = True\<rparr> b)"
| release_recv: "recvLocked b \<Longrightarrow> buf_step L b (recv_guard_drop \<lparr>ctx_buffer = x, ctx_size = y, ctx_locked = True\<rparr> b)"

inductive buf_reachable :: "libc \<Rightarrow> buffer_object \<Rightarrow> bool" for L where
  created: "buf_reachable L BufferObject"
| stepped: "buf_reachable L b \<Longrightarrow> buf_step L b b' \<Longrightarrow> buf_reachable L b'"

section \<open>Every step keeps the invariant\<close>

lemma set_write_cursor_ex_inv:
  "chan_inv c \<Longrightarrow> 0 < csize c \<Longrightarrow> chan_inv (snd (set_write_cursor_ex w c)) \<and>
   0 < csize (snd (set_write_cursor_ex w c))"
  by (auto simp: set_write_cursor_ex_def chan_inv_def buf_shape_def split: option.splits)

lemma set_read_cursor_ex_inv:
  "chan_inv c \<Longrightarrow> 0 < csize c \<Longrightarrow> chan_inv (snd (set_read_cursor_ex r c)) \<and>
   0 < csize (snd (set_read_cursor_ex r c))"
  by (auto simp: set_read_cursor_ex_def chan_inv_def buf_shape_def split: option.splits)

lemma shrink_inv:
  assumes "libc_ok L" "chan_inv c" "0 < csize c"
  shows "chan_inv (shrink L c) \<and> 0 < csize (shrink L c)"
proof (cases "csize c > 4096 \<and> cursorW c = cursorR c")
  case True
  then show ?thesis
    using assms libc_new [OF assms(1), of 4096]
    by (auto simp: shrink_def chan_inv_def buf_shape_def size_classes_def split: option.splits)
next
  case False
  with assms show ?thesis by (auto simp: shrink_def)
qed

lemma update_locked_inv:
  assumes "libc_ok L" "expands L ex" "chan_inv c" "0 < csize c"
  shows "chan_inv (snd (update_locked L ex n c)) \<and> 0 < csize (snd (update_locked L ex n c))"
proof -
  obtain r c' where "update_locked L ex n c = (r, c')" "chan_inv c'" "0 < csize c'"
    by (rule update_locked_spec [OF assms, of n]) (rule that; assumption)
  then show ?thesis by simp
qed

lemma fill_inv: "chan_inv c \<Longrightarrow> cbuf c = Some a \<Longrightarrow> length a' = length a \<Longrightarrow> chan_inv (c\<lparr>cbuf := Some a'\<rparr>)"
  by (simp add: chan_inv_def buf_shape_def)

lemma acquire_recv_inv:
  assumes L: "libc_ok L" and inv: "chan_inv (recv b)" and a: "AcquireReceiveBuffer L n b = Some (ctx, b')"
  shows "chan_inv (recv b') \<and> send b' = send b \<and> sendLocked b' = sendLocked b \<and>
    (recvLocked b' \<longrightarrow> 0 < csize (recv b'))"
proof (cases "GetNeedBufferSize n = 0")
  case True
  with a inv show ?thesis by (auto simp: AcquireReceiveBuffer_def split: if_splits)
next
  case False
  let ?m = "GetNeedBufferSize n"
  obtain ok c where ex: "expand_recv L ?m (recv b) = (ok, c)" by fastforce
  have "if ok then chan_inv c \<and> same_data (recv b) c \<and> csize c = max (csize (recv b)) (uint ?m)
      else (c = recv b \<or> c = chan_reset (recv b)) \<and> \<not> never_oom L"
    using expands_recv [OF L] inv need_in_classes [of n] False ex unfolding expands_def by blast
  moreover have "0 < uint ?m" using False by (simp add: word_neq_0_conv word_less_def)
  ultimately show ?thesis
    using a ex False inv
    by (cases ok) (auto simp: AcquireReceiveBuffer_def ExpandReceiveBuffer_def on_recv_def
        less_max_iff_disj intro: chan_intros split: if_splits)
qed

lemma acquire_send_inv:
  assumes L: "libc_ok L" and inv: "chan_inv (send b)" and a: "AcquireSendBuffer L n b = Some (ctx, b')"
  shows "chan_inv (send b') \<and> recv b' = recv b \<and> recvLocked b' = recvLocked b \<and>
    (sendLocked b' \<longrightarrow> 0 < csize (send b'))"
proof -
  have free: "\<not> sendLocked b" using a by (auto simp: AcquireSendBuffer_def)
  show ?thesis
    by (rule acquire_send_spec [OF L inv free, of n]) (use a free in auto)
qed

lemma buf_step_inv:
  assumes "buf_step L b b'" "libc_ok L" "buffer_inv b"
  shows "buffer_inv b'"
  using assms
proof (induction rule: buf_step.induct)
  case (acquire_send n b ctx b')
  then show ?case using acquire_send_inv [of L b n ctx b'] by (simp add: buffer_inv_def)
next
  case (acquire_recv n b ctx b')
  then show ?case using acquire_recv_inv [of L b n ctx b'] by (simp add: buffer_inv_def)
next
  case (write_send b w)
  then show ?case using set_write_cursor_ex_inv [of "send b" w]
    by (simp add: buffer_inv_def SetSendBufferWriteCursorEx_def on_send_def case_prod_unfold)
next
  case (write_recv b w)
  then show ?case using set_write_cursor_ex_inv [of "recv b" w]
    by (simp add: buffer_inv_def SetReceiveBufferWriteCursorEx_def on_recv_def case_prod_unfold)
next
  case (read_send b w)
  then show ?case using set_read_cursor_ex_inv [of "send b" w]
    by (simp add: buffer_inv_def SetSendBufferReadCursorEx_def on_send_def case_prod_unfold)
next
  case (read_recv b w)
  then show ?case using set_read_cursor_ex_inv [of "recv b" w]
    by (simp add: buffer_inv_def SetReceiveBufferReadCursorEx_def on_recv_def case_prod_unfold)
next
  case (update_send b n)
  then show ?case using update_locked_inv [of L "expand_send L" "send b" n] expands_send
    by (simp add: buffer_inv_def UpdateSendBufferLocked_def on_send_def case_prod_unfold)
next
  case (update_recv b n)
  then show ?case using update_locked_inv [of L "expand_recv L" "recv b" n] expands_recv
    by (simp add: buffer_inv_def UpdateReceiveBufferLocked_def on_recv_def case_prod_unfold)
next
  case (shrink_send b)
  then show ?case using shrink_inv [of L "send b"]
    by (simp add: buffer_inv_def ShrinkSendBufferIfNeeded_def)
next
  case (shrink_recv b)
  then show ?case using shrink_inv [of L "recv b"]
    by (simp add: buffer_inv_def ShrinkReceiveBufferIfNeeded_def)
next
  case (fill_send b a a')
  then show ?case using fill_inv [of "send b" a a'] by (simp add: buffer_inv_def)
next
  case (fill_recv b a a')
  then show ?case using fill_inv [of "recv b" a a'] by (simp add: buffer_inv_def)
next
  case (release_send b x y)
  then show ?case by (simp add: buffer_inv_def send_guard_drop_def)
next
  case (release_recv b x y)
  then show ?case by (simp add: buffer_inv_def recv_guard_drop_def)
qed

lemma buf_reachable_inv: "buf_reachable L b \<Longrightarrow> libc_ok L \<Longrightarrow> buffer_inv b"
proof (induction rule: buf_reachable.induct)
  case created
  show ?case by (simp add: buffer_inv_def BufferObject_def chan_inv_init)
next
  case (stepped b b')
  then show ?case by (blast intro: buf_step_inv)
qed

section \<open>The lock is released on every path\<close>

lemma acquire_send_shape:
  "AcquireSendBuffer L n b = Some (ctx, b1) \<Longrightarrow> \<not> sendLocked b \<Longrightarrow> sendLocked b1 \<longleftrightarrow> ctx_locked ctx"
  by (auto simp: AcquireSendBuffer_def ExpandSendBuffer_def on_send_def no_buffer_def Let_def
      split: if_splits prod.splits bool.splits)

lemma send_ops_keep_lock [simp]:
  "sendLocked (snd (UpdateSendBufferLocked L n b)) = sendLocked b"
  "sendLocked (snd (SetSendBufferWriteCursorEx w b)) = sendLocked b"
  "sendLocked (snd (SetSendBufferReadCursorEx w b)) = sendLocked b"
  by (simp_all add: UpdateSendBufferLocked_def SetSendBufferWriteCursorEx_def
      SetSendBufferReadCursorEx_def on_send_def case_prod_unfold)

lemma guard_drop_free: "sendLocked b \<longleftrightarrow> ctx_locked ctx \<Longrightarrow> \<not> sendLocked (send_guard_drop ctx b)"
  by (simp add: send_guard_drop_def)

lemma acquire_send_returns:
  assumes "\<not> sendLocked b"
  obtains ctx b1 where "AcquireSendBuffer L n b = Some (ctx, b1)" "sendLocked b1 \<longleftrightarrow> ctx_locked ctx"
proof -
  obtain ctx b1 where a: "AcquireSendBuffer L n b = Some (ctx, b1)"
    using assms by (cases "AcquireSendBuffer L n b")
      (auto simp: AcquireSendBuffer_def Let_def split: prod.splits bool.splits if_splits)
  from that [OF a acquire_send_shape [OF a assms]] show ?thesis .
qed

lemma MoveTransData2Buffer_unlocks:
  assumes "\<not> sendLocked b"
  shows "\<exists>ok b'. MoveTransData2Buffer L t b = Some (ok, b') \<and> \<not> sendLocked b'"
proof (cases t)
  case None
  with assms show ?thesis by (auto simp: MoveTransData2Buffer_def)
next
  case (Some nm)
  obtain n mem where nm: "nm = (n, mem)" by (cases nm)
  obtain ctx b1 where a: "AcquireSendBuffer L n b = Some (ctx, b1)" "sendLocked b1 \<longleftrightarrow> ctx_locked ctx"
    using assms by (rule acquire_send_returns)
  obtain r b2 where u: "UpdateSendBufferLocked L n b1 = (r, b2)" by fastforce
  with a send_ops_keep_lock(1) [of L n b1] have l2: "sendLocked b2 \<longleftrightarrow> ctx_locked ctx" by simp
  show ?thesis
    using a(1) u guard_drop_free [OF a(2)] guard_drop_free [OF l2]
    by (auto simp: MoveTransData2Buffer_def Some nm Let_def l2 guard_drop_free
        split: option.splits prod.splits)
qed

lemma SendData_unlocks:
  assumes "\<not> sendLocked b"
  shows "\<exists>ret d b'. SendData L sb b = Some (ret, d, b') \<and> \<not> sendLocked b'"
proof -
  obtain ctx b1 where a: "AcquireSendBuffer L 4096 b = Some (ctx, b1)" "sendLocked b1 \<longleftrightarrow> ctx_locked ctx"
    using assms by (rule acquire_send_returns)
  obtain r b2 where u: "UpdateSendBufferLocked L 0 b1 = (r, b2)" by fastforce
  with a send_ops_keep_lock(1) [of L 0 b1] have l2: "sendLocked b2 \<longleftrightarrow> ctx_locked ctx" by simp
  obtain ok b3 where s: "SetSendBufferReadCursorEx (GetSendBufferWriteCursor b2) b2 = (ok, b3)" by fastforce
  with l2 send_ops_keep_lock(3) [of "GetSendBufferWriteCursor b2" b2]
  have l3: "sendLocked b3 \<longleftrightarrow> ctx_locked ctx" by simp
  show ?thesis
    using a(1) u s guard_drop_free [OF a(2)] guard_drop_free [OF l2] guard_drop_free [OF l3]
    by (auto simp: SendData_def Let_def split: option.splits prod.splits bool.splits)
qed

section \<open>Properties\<close>

definition session_run ::
    "libc \<Rightarrow> (bytes \<Rightarrow> int) \<Rightarrow> (u32 \<times> bytes) queue_event list \<Rightarrow> buffer_object queue_run" where
  "session_run L sb es = fold (q_step tr_bytes (queue_put L) (queue_flush L sb)) es
     \<lparr>q_state = BufferObject, q_accepted = [], q_delivered = []\<rparr>"

lemma fresh_send_inv: "libc_ok L \<Longrightarrow> send_inv L BufferObject"
  by (simp add: send_inv_def BufferObject_def chan_inv_init)

lemma fresh_pending [simp]: "pending (send BufferObject) = []"
  by (simp add: BufferObject_def pending_def chan_init_def)



text \<open>
  C8. Under the calling protocol of the header (cursor setters, updates and shrinking only with
  the lock of the direction held), both cursors of both directions lie inside the array, the
  array is as long as the recorded size, and the size is 0 or one of the nine size classes, at
  most 1 MiB.
\<close>

theorem buffer_cursors_in_bounds:
  assumes "libc_ok L" "buf_reachable L b" "c = send b \<or> c = recv b"
  shows "0 \<le> cursorR c \<and> cursorR c \<le> csize c \<and> 0 \<le> cursorW c \<and> cursorW c \<le> csize c \<and>
    csize c \<in> size_classes \<and> (case cbuf c of None \<Rightarrow> csize c = 0 | Some a \<Rightarrow> int (length a) = csize c)"
proof -
  have "chan_inv c" using buf_reachable_inv [OF assms(2,1)] assms(3) by (auto simp: buffer_inv_def)
  then show ?thesis by (auto simp: chan_inv_def buf_shape_def split: option.splits)
qed

theorem buffer_cursors_in_bounds_witness:
  "\<exists>b. buf_reachable std_libc b \<and> sendLocked b \<and> 0 \<le> cursorW (send b) \<and> cursorW (send b) \<le> csize (send b)"
proof -
  obtain ctx b where a: "AcquireSendBuffer std_libc 10 BufferObject = Some (ctx, b)" "ctx_locked ctx"
    "sendLocked b"
    by (rule acquire_send_spec [OF std_libc_ok, of BufferObject 10])
      (auto simp: BufferObject_def chan_inv_init never_oom_def std_libc_def)
  have "buf_reachable std_libc b"
    using buf_reachable.stepped [OF buf_reachable.created buf_step.acquire_send [OF a(1)]] .
  with a(3) buffer_cursors_in_bounds [OF std_libc_ok this, of "send b"] show ?thesis by blast
qed

text \<open>
  \<open>UpdateSendBufferLocked\<close> on a buffer with unread bytes: if it returns a pointer, the unread
  bytes are unchanged and there is room for \<open>userDataSize\<close> more bytes; otherwise both cursors are
  0. While memory lasts, it returns a pointer exactly if there was room already or the unread
  bytes, the new bytes and the 256 reserved ones need at most 1 MiB, and at most 512 KiB if the
  buffer has its largest size already.
\<close>

theorem update_send_buffer_contract:
  assumes "libc_ok L" "chan_inv (send b)" "cursorR (send b) < cursorW (send b)"
  shows "(case UpdateSendBufferLocked L n b of
      (Some a, b') \<Rightarrow> cbuf (send b') = Some a \<and> pending (send b') = pending (send b) \<and>
        uint n < csize (send b') - cursorW (send b') \<and> chan_inv (send b')
    | (None, b') \<Rightarrow> cursorW (send b') = 0 \<and> cursorR (send b') = 0 \<and> chan_inv (send b')) \<and>
    (never_oom L \<longrightarrow> (fst (UpdateSendBufferLocked L n b) \<noteq> None \<longleftrightarrow>
      uint n < csize (send b) - cursorW (send b) \<or> expandable n (send b)))"
proof -
  have pos: "0 < csize (send b)"
    using assms(3) chan_inv_bounds [OF assms(2)] by linarith
  obtain r c' where u: "update_locked L (expand_send L) n (send b) = (r, c')" "chan_inv c'"
    "r \<noteq> None \<longrightarrow> r = cbuf c' \<and> pending c' = pending (send b) \<and> cursorR c' \<le> cursorW c' \<and>
      (room n c' \<or> cursorW (send b) \<le> cursorR (send b))"
    "r = None \<longrightarrow> dropped c' \<and> cursorR (send b) < cursorW (send b)"
    "uint n < csize (send b) - cursorW (send b) \<or> expandable n (send b) \<longrightarrow> never_oom L \<longrightarrow> r \<noteq> None"
    "cursorR (send b) < cursorW (send b) \<and> r \<noteq> None \<longrightarrow>
      uint n < csize (send b) - cursorW (send b) \<or> expandable n (send b)"
    by (rule update_locked_spec [OF assms(1) expands_send [OF assms(1)] assms(2) pos, of n])
      (rule that; assumption)
  have U: "UpdateSendBufferLocked L n b = (r, b\<lparr>send := c'\<rparr>)"
    using u(1) by (simp add: UpdateSendBufferLocked_def on_send_def)
  show ?thesis
  proof (cases r)
    case None
    with u assms(3) show ?thesis by (auto simp: U dropped_def)
  next
    case (Some a)
    with u(3) have "cbuf c' = Some a" by simp
    with u(2,3,6) Some assms(3) show ?thesis by (auto simp: U room_def)
  qed
qed

definition full_chan :: chan where
  "full_chan = \<lparr>cursorW = 1048000, cursorR = 900000, cbuf = Some (replicate 1048576 0), csize = 1048576\<rparr>"

lemma full_chan_inv: "chan_inv full_chan"
  by (simp add: full_chan_def chan_inv_def buf_shape_def size_classes_def)

theorem update_send_buffer_contract_witness:
  "fst (UpdateSendBufferLocked std_libc 1000 (BufferObject\<lparr>send := full_chan\<rparr>)) \<noteq> None"
  using update_send_buffer_contract [OF std_libc_ok, of "BufferObject\<lparr>send := full_chan\<rparr>" 1000]
    full_chan_inv
  by (simp add: full_chan_def never_oom_def std_libc_def expandable_def)

text \<open>
  A send buffer that has reached its largest size, with unread bytes and no room at the end:
  whenever the unread bytes, the new bytes and the reserve need more than 512 KiB, the update
  fails and the unread bytes are dropped, although moving them to the front of the array would
  make the room asked for.
\<close>

theorem full_send_buffer_drops_pending:
  assumes "libc_ok L" "chan_inv (send b)" "csize (send b) = 1048576"
    and "cursorR (send b) < cursorW (send b)" "1048576 - cursorW (send b) \<le> uint n"
    and "524288 < cursorW (send b) - cursorR (send b) + uint n + 256"
    and "cursorW (send b) - cursorR (send b) + uint n < 1048576"
  shows "fst (UpdateSendBufferLocked L n b) = None \<and> pending (send b) \<noteq> [] \<and>
    pending (send (snd (UpdateSendBufferLocked L n b))) = [] \<and>
    uint n < csize (send b) - int (length (pending (send b)))"
proof -
  have ex: "\<not> expandable n (send b)" using assms(3,6) by (auto simp: expandable_def Let_def)
  have "try_expand L (expand_send L) n (send b) = (False, chan_reset (send b))"
    using try_expand_guards(1) [OF assms(2,4), of L "expand_send L" n] ex by simp
  then have U: "UpdateSendBufferLocked L n b = (None, b\<lparr>send := chan_reset (send b)\<rparr>)"
    using assms(3-5) by (simp add: UpdateSendBufferLocked_def on_send_def update_locked_def)
  have len: "int (length (pending (send b))) = cursorW (send b) - cursorR (send b)"
    using length_pending [OF assms(2)] assms(4) by simp
  with assms(4) have "pending (send b) \<noteq> []" by auto
  with U len assms(3,7) show ?thesis by simp
qed

theorem full_send_buffer_drops_pending_witness:
  "fst (UpdateSendBufferLocked std_libc 600000 (BufferObject\<lparr>send := full_chan\<rparr>)) = None \<and>
   pending full_chan \<noteq> []"
  using full_send_buffer_drops_pending [OF std_libc_ok, of "BufferObject\<lparr>send := full_chan\<rparr>" 600000]
    full_chan_inv
  by (simp add: full_chan_def)

text \<open>
  \<open>GetNeedBufferSize\<close>: requests above 1 MiB get 0; any other request gets the smallest size
  class that holds it.
\<close>

theorem need_buffer_size_least:
  "(GetNeedBufferSize s = 0 \<longleftrightarrow> uint s > 1048576) \<and>
   (uint s \<le> 1048576 \<longrightarrow> uint (GetNeedBufferSize s) \<in> size_classes \<and> s \<le> GetNeedBufferSize s \<and>
      (\<forall>k \<in> size_classes. 0 < k \<and> uint s \<le> k \<longrightarrow> uint (GetNeedBufferSize s) \<le> k))"
  using need_zero_iff [of s] need_in_classes [of s] need_ge [of s] need_least [of s] by auto

theorem need_buffer_size_least_witness:
  "uint (5000 :: u32) \<le> 1048576 \<and> 5000 \<le> GetNeedBufferSize 5000 \<and> uint (GetNeedBufferSize 5000) \<le> 8192"
  using need_buffer_size_least [of 5000] by (simp add: size_classes_def)

text \<open>
  Whatever the C library answers, \<open>MoveTransData2Buffer\<close> and \<open>SendData\<close> called with the send
  lock free return, and the lock is free again on every path.
\<close>

theorem send_lock_released:
  assumes "\<not> sendLocked b"
  shows "(\<exists>ok b'. MoveTransData2Buffer L t b = Some (ok, b') \<and> \<not> sendLocked b') \<and>
    (\<exists>ret d b'. SendData L sb b = Some (ret, d, b') \<and> \<not> sendLocked b')"
  using MoveTransData2Buffer_unlocks [OF assms] SendData_unlocks [OF assms] by blast

theorem send_lock_released_witness:
  "\<not> sendLocked BufferObject \<and>
   (\<exists>ret d b'. SendData std_libc (\<lambda>_. 0) BufferObject = Some (ret, d, b') \<and> \<not> sendLocked b')"
proof -
  have h: "\<not> sendLocked BufferObject" by (simp add: BufferObject_def)
  show ?thesis using h send_lock_released [OF h, where L = std_libc and sb = "\<lambda>_. 0"] by blast
qed

text \<open>
  While no array is allocated, the checked setters accept every non-negative cursor: the
  bound is tested only when the size is positive.
\<close>

theorem unallocated_cursor_unchecked:
  assumes "0 \<le> w" "csize (send b) = 0"
  shows "SetSendBufferWriteCursorEx w b = (True, b\<lparr>send := (send b)\<lparr>cursorW := w\<rparr>\<rparr>) \<and>
    SetSendBufferReadCursorEx w b = (True, b\<lparr>send := (send b)\<lparr>cursorR := w\<rparr>\<rparr>)"
  using assms by (simp add: SetSendBufferWriteCursorEx_def SetSendBufferReadCursorEx_def on_send_def
      set_write_cursor_ex_def set_read_cursor_ex_def)

theorem unallocated_cursor_unchecked_witness:
  "cursorW (send (snd (SetSendBufferWriteCursorEx 5000000 BufferObject))) = 5000000 \<and>
   csize (send BufferObject) = 0"
proof -
  have h: "csize (send BufferObject) = 0" by (simp add: BufferObject_def chan_init_def)
  show ?thesis using h unallocated_cursor_unchecked [of 5000000 BufferObject, OF _ h] by simp
qed

end
