(* ===== verification/Ipc_Strings.thy ===== *)
theory Ipc_Strings
  imports Ipc_Prelude
begin

text \<open>
  Decimal text: \<open>std::to_string\<close> on signed and unsigned integers, and the fixed-width
  \<open>"%011u"\<close> of \<open>IPCProcessSkeleton::UIntToString\<close>. The tables of the process skeleton are keyed
  by concatenations of such texts, so what matters is that the texts determine the numbers.
\<close>

definition digit_char :: "nat \<Rightarrow> char" where
  "digit_char d = char_of (48 + d)"

fun nat_str :: "nat \<Rightarrow> string" where
  "nat_str n = (if n < 10 then [digit_char n] else nat_str (n div 10) @ [digit_char (n mod 10)])"

declare nat_str.simps [simp del]

definition int_str :: "int \<Rightarrow> string" where
  "int_str i = (if i < 0 then CHR ''-'' # nat_str (nat (- i)) else nat_str (nat i))"

text \<open>\<open>isdigit\<close> in the C locale, and the value of a digit.\<close>

definition is_digit :: "char \<Rightarrow> bool" where
  "is_digit c \<longleftrightarrow> 48 \<le> (of_char c :: nat) \<and> (of_char c :: nat) \<le> 57"

definition digit_val :: "char \<Rightarrow> nat" where
  "digit_val c = of_char c - 48"

text \<open>The value of a digit string, most significant digit first.\<close>

definition str_nat :: "string \<Rightarrow> nat" where
  "str_nat s = foldl (\<lambda>acc c. 10 * acc + digit_val c) 0 s"

text \<open>\<open>"%011u"\<close>: at least eleven characters, zeros on the left.\<close>

definition pad11 :: "nat \<Rightarrow> string" where
  "pad11 n = replicate (11 - length (nat_str n)) (digit_char 0) @ nat_str n"

lemma digit_val_digit_char [simp]: "d < 10 \<Longrightarrow> digit_val (digit_char d) = d"
  by (simp add: digit_val_def digit_char_def)

lemma is_digit_digit_char [simp]: "d < 10 \<Longrightarrow> is_digit (digit_char d)"
  by (simp add: is_digit_def digit_char_def)

lemma is_digit_special [simp]:
  "\<not> is_digit (CHR ''_'')" "\<not> is_digit (CHR ''-'')" "\<not> is_digit (CHR ''.'')"
  by (simp_all add: is_digit_def)

lemma str_nat_snoc: "str_nat (s @ [c]) = 10 * str_nat s + digit_val c"
  by (simp add: str_nat_def)

lemma str_nat_nat_str [simp]: "str_nat (nat_str n) = n"
proof (induction n rule: nat_str.induct)
  case (1 n)
  show ?case
  proof (cases "n < 10")
    case True
    then show ?thesis by (simp add: nat_str.simps [of n] str_nat_def)
  next
    case False
    with 1 have "str_nat (nat_str (n div 10)) = n div 10" by simp
    with False show ?thesis by (simp add: nat_str.simps [of n] str_nat_snoc)
  qed
qed

lemma nat_str_inj [simp]: "nat_str m = nat_str n \<longleftrightarrow> m = n"
  by (metis str_nat_nat_str)

lemma nat_str_digits: "c \<in> set (nat_str n) \<Longrightarrow> is_digit c"
proof (induction n rule: nat_str.induct)
  case (1 n)
  then show ?case by (cases "n < 10") (auto simp: nat_str.simps [of n])
qed

lemma nat_str_nonempty [simp]: "nat_str n \<noteq> []"
  by (subst nat_str.simps) simp

lemma nat_str_not_in:
  "CHR ''_'' \<notin> set (nat_str n)" "CHR ''-'' \<notin> set (nat_str n)" "CHR ''.'' \<notin> set (nat_str n)"
  using nat_str_digits is_digit_special by blast+

lemma nat_str_neq_minus [simp]: "nat_str n \<noteq> CHR ''-'' # s"
  using nat_str_not_in(2) [of n] by (cases "nat_str n") auto

lemma int_str_inj [simp]: "int_str i = int_str j \<longleftrightarrow> i = j"
proof
  assume eq: "int_str i = int_str j"
  show "i = j"
  proof (cases "(i < 0) = (j < 0)")
    case True
    with eq show ?thesis by (auto simp: int_str_def split: if_splits)
  next
    case False
    with eq show ?thesis
      using nat_str_neq_minus by (auto simp: int_str_def split: if_splits dest: sym)
  qed
qed simp

lemma int_str_nonempty [simp]: "int_str i \<noteq> []"
  by (simp add: int_str_def)

lemma int_str_no_underscore: "CHR ''_'' \<notin> set (int_str i)"
  using nat_str_not_in(1) by (auto simp: int_str_def)

text \<open>A separator that occurs in neither part makes the concatenation unambiguous.\<close>

lemma separated_inj:
  assumes "c \<notin> set a" "c \<notin> set a'" "a @ c # b = a' @ c # b'"
  shows "a = a' \<and> b = b'"
  using assms
proof (induction a arbitrary: a')
  case Nil
  then show ?case by (cases a') auto
next
  case (Cons x a)
  then show ?case by (cases a') auto
qed

text \<open>The same with the separator's last occurrence: here the second parts are free of it.\<close>

lemma last_separated_inj:
  assumes "c \<notin> set b" "c \<notin> set b'" "a @ c # b = a' @ c # b'"
  shows "a = a' \<and> b = b'"
proof -
  from assms(3) have "rev b @ c # rev a = rev b' @ c # rev a'"
    by (metis append.assoc append_Cons append_Nil rev.simps(2) rev_append)
  with assms(1,2) have "rev b = rev b' \<and> rev a = rev a'"
    by (intro separated_inj) simp_all
  then show ?thesis by simp
qed

lemma length_nat_str_le: "n < 10 ^ Suc k \<Longrightarrow> length (nat_str n) \<le> Suc k"
proof (induction k arbitrary: n)
  case 0
  then show ?case by (simp add: nat_str.simps [of n])
next
  case (Suc k)
  show ?case
  proof (cases "n < 10")
    case True
    then show ?thesis by (simp add: nat_str.simps [of n])
  next
    case False
    from Suc.prems have "n div 10 < 10 ^ Suc k" by (simp add: less_mult_imp_div_less)
    with Suc.IH [of "n div 10"] False show ?thesis by (simp add: nat_str.simps [of n])
  qed
qed

lemma length_pad11: "n < 2 ^ 32 \<Longrightarrow> length (pad11 n) = 11"
  using length_nat_str_le [of n 9] by (simp add: pad11_def)

lemma str_nat_replicate_zero: "str_nat (replicate k (digit_char 0) @ s) = str_nat s"
proof -
  have "foldl (\<lambda>acc c. 10 * acc + digit_val c) 0 (replicate k (digit_char 0)) = 0"
    by (induction k) simp_all
  then show ?thesis by (simp add: str_nat_def)
qed

lemma pad11_inj [simp]: "pad11 m = pad11 n \<longleftrightarrow> m = n"
  by (metis pad11_def str_nat_replicate_zero str_nat_nat_str)

end
