(* ===== verification/Keyed_Table.thy ===== *)
theory Keyed_Table
  imports Ipc_Prelude
begin

text \<open>
  The contract shared by the tables of the process skeletons. Each of them is guarded by the
  exit flag of its singleton (\<open>CHECK_INSTANCE_EXIT\<close>) and offers an operation that adds an entry
  under a key, one that removes the entry of a key, and queries. \<open>keyed_table\<close> states what
  removing and an exiting instance do; \<open>insert_table\<close> adds the law of tables filled with
  \<open>std::map::insert\<close> (a present entry is kept and the caller is told), \<open>assign_table\<close> that of
  tables filled with \<open>insert_or_assign\<close> (the entry is replaced).

  The clients' reasoning is done once here: the whole history of a table is the history of a
  partial map, whatever the order in which the calls come.
\<close>

datatype ('k, 'v) table_op = Add 'k 'v | Remove 'k

fun insert_spec :: "('k, 'v) table_op \<Rightarrow> ('k \<rightharpoonup> 'v) \<Rightarrow> ('k \<rightharpoonup> 'v)" where
  "insert_spec (Add k v) m = (case m k of None \<Rightarrow> m(k \<mapsto> v) | Some _ \<Rightarrow> m)"
| "insert_spec (Remove k) m = m(k := None)"

fun assign_spec :: "('k, 'v) table_op \<Rightarrow> ('k \<rightharpoonup> 'v) \<Rightarrow> ('k \<rightharpoonup> 'v)" where
  "assign_spec (Add k v) m = m(k \<mapsto> v)"
| "assign_spec (Remove k) m = m(k := None)"

fun table_step ::
    "('k \<Rightarrow> 'v \<Rightarrow> 's \<Rightarrow> bool \<times> 's) \<Rightarrow> ('k \<Rightarrow> 's \<Rightarrow> 's) \<Rightarrow> ('k, 'v) table_op \<Rightarrow> 's \<Rightarrow> 's" where
  "table_step add rem (Add k v) s = snd (add k v s)"
| "table_step add rem (Remove k) s = rem k s"

locale keyed_table =
  fixes view :: "'s \<Rightarrow> 'k \<rightharpoonup> 'v"
    and live :: "'s \<Rightarrow> bool"
    and add :: "'k \<Rightarrow> 'v \<Rightarrow> 's \<Rightarrow> bool \<times> 's"
    and rem :: "'k \<Rightarrow> 's \<Rightarrow> 's"
  assumes live_add: "live (snd (add k v s)) = live s"
    and live_rem: "live (rem k s) = live s"
    and exiting_add: "\<not> live s \<Longrightarrow> add k v s = (False, s)"
    and exiting_rem: "\<not> live s \<Longrightarrow> rem k s = s"
    and view_rem: "live s \<Longrightarrow> view (rem k s) = (view s)(k := None)"
begin

lemma live_step: "live (table_step add rem c s) = live s"
  by (cases c) (simp_all add: live_add live_rem)

lemma live_run: "live (fold (table_step add rem) cs s) = live s"
  by (induction cs arbitrary: s) (simp_all add: live_step)

lemma exiting_run: "\<not> live s \<Longrightarrow> fold (table_step add rem) cs s = s"
proof (induction cs)
  case (Cons c cs)
  then show ?case by (cases c) (simp_all add: exiting_add exiting_rem)
qed simp

end

locale insert_table = keyed_table +
  assumes add_fresh: "live s \<Longrightarrow> view s k = None \<Longrightarrow>
      fst (add k v s) \<and> view (snd (add k v s)) = (view s)(k \<mapsto> v)"
    and add_present: "live s \<Longrightarrow> view s k = Some w \<Longrightarrow>
      \<not> fst (add k v s) \<and> view (snd (add k v s)) = view s"
begin

lemma view_step: "live s \<Longrightarrow> view (table_step add rem c s) = insert_spec c (view s)"
  by (cases c) (auto simp: view_rem add_fresh add_present split: option.splits)

theorem run_refines:
  "live s \<Longrightarrow> view (fold (table_step add rem) cs s) = fold insert_spec cs (view s)"
  by (induction cs arbitrary: s) (simp_all add: view_step live_step)

lemma add_result: "live s \<Longrightarrow> fst (add k v s) \<longleftrightarrow> view s k = None"
  by (cases "view s k") (auto simp: add_fresh add_present)

lemma add_remove: "live s \<Longrightarrow> view s k = None \<Longrightarrow> view (rem k (snd (add k v s))) = view s"
  by (auto simp: view_rem live_add add_fresh fun_eq_iff)

lemma second_add_kept:
  "live s \<Longrightarrow> view s k = None \<Longrightarrow>
   \<not> fst (add k w (snd (add k v s))) \<and> view (snd (add k w (snd (add k v s)))) k = Some v"
  by (auto simp: add_result live_add add_fresh add_present)

end

locale assign_table = keyed_table +
  assumes view_add: "live s \<Longrightarrow> view (snd (add k v s)) = (view s)(k \<mapsto> v)"
begin

lemma view_step: "live s \<Longrightarrow> view (table_step add rem c s) = assign_spec c (view s)"
  by (cases c) (simp_all add: view_rem view_add)

theorem run_refines:
  "live s \<Longrightarrow> view (fold (table_step add rem) cs s) = fold assign_spec cs (view s)"
  by (induction cs arbitrary: s) (simp_all add: view_step live_step)

lemma last_add_wins:
  "live s \<Longrightarrow> view (snd (add k w (snd (add k v s)))) k = Some w"
  by (simp add: view_add live_add)

lemma add_remove: "live s \<Longrightarrow> view s k = None \<Longrightarrow> view (rem k (snd (add k v s))) = view s"
  by (auto simp: view_rem live_add view_add fun_eq_iff)

end

end
