(* ===== verification/Process_Skeleton.thy ===== *)
theory Process_Skeleton
  imports Ipc_Strings Keyed_Table
begin

text \<open>
  \<open>ProcessSkeleton\<close> (\<open>framework/source/process_skeleton.cpp\<close>): the process-wide singleton that
  records remote objects by descriptor, the objects that are still valid, the caller of each
  thread, the number of proxies and the number of running IPC threads, and a set of text and
  logging helpers.

  Containers that the code never iterates over are partial maps. A \<open>wptr\<close> in \<open>objects_\<close> is the
  address it refers to. What the code asks of an object is a parameter: whether it is a proxy
  (\<open>IsProxyObject\<close>) and whether \<open>AttemptIncStrong\<close> of the reference-counting library succeeds.
  \<open>objMutex_\<close> is a flag, since two functions expose it to callers; a call that has to wait for it
  yields \<open>None\<close>.
\<close>

section \<open>State\<close>

record InvokerProcInfo =
  ipi_pid :: int
  ipi_realPid :: int
  ipi_uid :: int
  ipi_tokenId :: u64
  ipi_firstTokenId :: u64
  ipi_sid :: string
  ipi_invoker :: u32

record process_skeleton =
  ps_exitFlag :: bool
  registryObject :: ptr
  isSamgr :: bool
  objMutex :: bool
  objects :: "u16string \<rightharpoonup> ptr"
  isContainStub :: "ptr \<rightharpoonup> bool"
  validObjectRecord :: "ptr \<rightharpoonup> u16string"
  ipcProxyLimitNum :: u64
  proxyObjectCountNum :: u64
  ipcProxyCallback :: bool
  invokerProcInfo :: "string \<rightharpoonup> InvokerProcInfo"
  stopThreadFlag :: bool
  runningChildThreadNum :: u64

definition ProcessSkeleton_init :: process_skeleton where
  "ProcessSkeleton_init = \<lparr>
     ps_exitFlag = False, registryObject = nullptr, isSamgr = False, objMutex = False,
     objects = Map.empty, isContainStub = Map.empty, validObjectRecord = Map.empty,
     ipcProxyLimitNum = 20000, proxyObjectCountNum = 0, ipcProxyCallback = False,
     invokerProcInfo = Map.empty, stopThreadFlag = False, runningChildThreadNum = 0 \<rparr>"

definition ProcessSkeleton_destroy :: "process_skeleton \<Rightarrow> process_skeleton" where
  "ProcessSkeleton_destroy s = s\<lparr>ps_exitFlag := True, objects := Map.empty, isContainStub := Map.empty,
     validObjectRecord := Map.empty, invokerProcInfo := Map.empty\<rparr>"

section \<open>Registry object\<close>

definition GetRegistryObject :: "process_skeleton \<Rightarrow> ptr" where
  "GetRegistryObject s = (if ps_exitFlag s then nullptr else registryObject s)"

definition SetRegistryObject :: "ptr \<Rightarrow> process_skeleton \<Rightarrow> process_skeleton" where
  "SetRegistryObject object s = (if ps_exitFlag s then s else s\<lparr>registryObject := object\<rparr>)"

definition SetSamgrFlag :: "bool \<Rightarrow> process_skeleton \<Rightarrow> process_skeleton" where
  "SetSamgrFlag flag s = (if ps_exitFlag s then s else s\<lparr>isSamgr := flag\<rparr>)"

definition GetSamgrFlag :: "process_skeleton \<Rightarrow> bool" where
  "GetSamgrFlag s = (if ps_exitFlag s then False else isSamgr s)"

section \<open>Objects by descriptor\<close>

definition IsContainsObject :: "ptr \<Rightarrow> process_skeleton \<Rightarrow> bool" where
  "IsContainsObject object s =
     (if ps_exitFlag s then False
      else if object = nullptr then False
      else (case isContainStub s object of Some v \<Rightarrow> v | None \<Rightarrow> False))"

definition DetachObject ::
    "(ptr \<Rightarrow> bool) \<Rightarrow> ptr \<Rightarrow> u16string \<Rightarrow> process_skeleton \<Rightarrow> (bool \<times> process_skeleton) option" where
  "DetachObject isProxy object descriptor s =
     (if ps_exitFlag s then Some (False, s)
      else if objMutex s then None
      else
        (let s1 = s\<lparr>isContainStub := (isContainStub s)(object := None)\<rparr> in
         case objects s1 descriptor of
           None \<Rightarrow> Some (False, s1)
         | Some recorded \<Rightarrow>
             (let s2 = (if isProxy object
                        then s1\<lparr>proxyObjectCountNum := proxyObjectCountNum s1 - 1\<rparr> else s1) in
              if isProxy object \<and> recorded \<noteq> object then Some (True, s2)
              else Some (True, s2\<lparr>objects := (objects s2)(descriptor := None)\<rparr>))))"

text \<open>
  The list returned by \<open>AttachObject\<close> holds the arguments of the calls it makes to the callback of
  \<open>SetIPCProxyLimit\<close>.
\<close>

definition AttachObject ::
    "(ptr \<Rightarrow> bool) \<Rightarrow> ptr \<Rightarrow> u16string \<Rightarrow> bool \<Rightarrow> process_skeleton \<Rightarrow>
     (bool \<times> u64 list \<times> process_skeleton) option" where
  "AttachObject isProxy object descriptor lockFlag s =
     (if ps_exitFlag s then Some (False, [], s)
      else if lockFlag \<and> objMutex s then None
      else
        (let s1 = s\<lparr>isContainStub := (case isContainStub s object of
                      None \<Rightarrow> (isContainStub s)(object \<mapsto> True) | Some _ \<Rightarrow> isContainStub s)\<rparr> in
         if descriptor = [] then Some (False, [], s1)
         else
           (let num = proxyObjectCountNum s1 + 1;
                s2 = (if isProxy object then s1\<lparr>proxyObjectCountNum := num\<rparr> else s1);
                calls = (if isProxy object \<and> ipcProxyLimitNum s1 > 0 \<and> num > ipcProxyLimitNum s1 \<and>
                            ipcProxyCallback s1 then [num] else [])
            in Some (True, calls, s2\<lparr>objects := (objects s2)(descriptor \<mapsto> object)\<rparr>))))"

definition IsValidObject :: "ptr \<Rightarrow> process_skeleton \<Rightarrow> u16string option" where
  "IsValidObject object s =
     (if ps_exitFlag s then None
      else if object = nullptr then None
      else validObjectRecord s object)"

definition QueryObject ::
    "(ptr \<Rightarrow> bool) \<Rightarrow> u16string \<Rightarrow> bool \<Rightarrow> process_skeleton \<Rightarrow> ptr option" where
  "QueryObject attemptIncStrong descriptor lockFlag s =
     (if descriptor = [] then Some nullptr
      else if ps_exitFlag s then Some nullptr
      else if lockFlag \<and> objMutex s then None
      else
        (let remoteObject = (case objects s descriptor of Some p \<Rightarrow> p | None \<Rightarrow> nullptr) in
         if remoteObject = nullptr then Some nullptr
         else if IsValidObject remoteObject s = None then Some nullptr
         else if \<not> attemptIncStrong remoteObject then Some nullptr
         else Some remoteObject))"

definition LockObjectMutex :: "process_skeleton \<Rightarrow> (bool \<times> process_skeleton) option" where
  "LockObjectMutex s =
     (if ps_exitFlag s then Some (False, s)
      else if objMutex s then None
      else Some (True, s\<lparr>objMutex := True\<rparr>))"

definition UnlockObjectMutex :: "process_skeleton \<Rightarrow> bool \<times> process_skeleton" where
  "UnlockObjectMutex s = (if ps_exitFlag s then (False, s) else (True, s\<lparr>objMutex := False\<rparr>))"

definition SetIPCProxyLimit :: "u64 \<Rightarrow> bool \<Rightarrow> process_skeleton \<Rightarrow> bool \<times> process_skeleton" where
  "SetIPCProxyLimit num callback s =
     (if ps_exitFlag s then (False, s)
      else (True, s\<lparr>ipcProxyLimitNum := num, ipcProxyCallback := callback\<rparr>))"

section \<open>Valid objects\<close>

definition AttachValidObject :: "ptr \<Rightarrow> u16string \<Rightarrow> process_skeleton \<Rightarrow> bool \<times> process_skeleton" where
  "AttachValidObject object desc s =
     (if ps_exitFlag s then (False, s)
      else (validObjectRecord s object = None,
            s\<lparr>validObjectRecord := (validObjectRecord s)(object \<mapsto> desc)\<rparr>))"

definition DetachValidObject :: "ptr \<Rightarrow> process_skeleton \<Rightarrow> bool \<times> process_skeleton" where
  "DetachValidObject object s =
     (if ps_exitFlag s then (False, s)
      else (case validObjectRecord s object of
              Some _ \<Rightarrow> (True, s\<lparr>validObjectRecord := (validObjectRecord s)(object := None)\<rparr>)
            | None \<Rightarrow> (False, s)))"

section \<open>The caller of a thread\<close>

text \<open>\<open>std::to_string(gettid()) + "_" + std::to_string(isLocal)\<close>\<close>

definition invoker_key :: "int \<times> bool \<Rightarrow> string" where
  "invoker_key k = int_str (fst k) @ CHR ''_'' # int_str (if snd k then 1 else 0)"

definition AttachInvokerProcInfo ::
    "int \<times> bool \<Rightarrow> InvokerProcInfo \<Rightarrow> process_skeleton \<Rightarrow> bool \<times> process_skeleton" where
  "AttachInvokerProcInfo k invokeInfo s =
     (if ps_exitFlag s then (False, s)
      else (invokerProcInfo s (invoker_key k) = None,
            s\<lparr>invokerProcInfo := (invokerProcInfo s)(invoker_key k \<mapsto> invokeInfo)\<rparr>))"

definition QueryInvokerProcInfo :: "int \<times> bool \<Rightarrow> process_skeleton \<Rightarrow> InvokerProcInfo option" where
  "QueryInvokerProcInfo k s =
     (if ps_exitFlag s then None else invokerProcInfo s (invoker_key k))"

definition DetachInvokerProcInfo :: "int \<times> bool \<Rightarrow> process_skeleton \<Rightarrow> bool \<times> process_skeleton" where
  "DetachInvokerProcInfo k s =
     (if ps_exitFlag s then (False, s)
      else (case invokerProcInfo s (invoker_key k) of
              Some _ \<Rightarrow> (True, s\<lparr>invokerProcInfo := (invokerProcInfo s)(invoker_key k := None)\<rparr>)
            | None \<Rightarrow> (False, s)))"

section \<open>Child threads\<close>

definition GetThreadStopFlag :: "process_skeleton \<Rightarrow> bool" where
  "GetThreadStopFlag s = (if ps_exitFlag s then False else stopThreadFlag s)"

definition IncreaseThreadCount :: "process_skeleton \<Rightarrow> process_skeleton" where
  "IncreaseThreadCount s =
     (if ps_exitFlag s then s else s\<lparr>runningChildThreadNum := runningChildThreadNum s + 1\<rparr>)"

text \<open>The flag says whether the waiter of \<open>NotifyChildThreadStop\<close> is notified.\<close>

definition DecreaseThreadCount :: "process_skeleton \<Rightarrow> bool \<times> process_skeleton" where
  "DecreaseThreadCount s =
     (if ps_exitFlag s then (False, s)
      else if runningChildThreadNum s > 0 then
        (runningChildThreadNum s - 1 = 0,
         s\<lparr>runningChildThreadNum := runningChildThreadNum s - 1\<rparr>)
      else (False, s))"

section \<open>Logging and text\<close>

text \<open>\<open>IsPrint\<close> returns the decision and the new \<open>lastErr\<close> and \<open>lastErrCnt\<close>.\<close>

definition IsPrint :: "int \<Rightarrow> int \<Rightarrow> int \<Rightarrow> bool \<times> int \<times> int" where
  "IsPrint err lastErr lastErrCnt =
     (if err = lastErr then
        (let cnt = (if lastErrCnt \<ge> INT_MAX then 0 else lastErrCnt) + 1
         in (cnt mod 100 = 0, lastErr, cnt))
      else (True, err, 0))"

text \<open>\<open>find_last_of\<close> of one character: the part from the last occurrence on.\<close>

definition ConvertToSecureDesc :: "string \<Rightarrow> string" where
  "ConvertToSecureDesc str =
     (if CHR ''.'' \<in> set str
      then CHR ''*'' # CHR ''.'' # rev (takeWhile (\<lambda>c. c \<noteq> CHR ''.'') (rev str))
      else str)"

definition ConvertAddr :: "ptr \<Rightarrow> u32" where
  "ConvertAddr p = (if p = nullptr then 0 else ucast (and p 0xffffffff))"

datatype std_exception = OutOfRange

text \<open>\<open>None\<close> is the result false; \<open>substr\<close> throws when the offset is behind the end.\<close>

definition GetSubStr :: "string \<Rightarrow> u64 \<Rightarrow> u64 \<Rightarrow> std_exception + string option" where
  "GetSubStr str offset len =
     (if str = [] \<or> of_nat (length str) < offset + len then Inr None
      else if length str < unat offset then Inl OutOfRange
      else Inr (Some (take (unat len) (drop (unat offset) str))))"

definition IsNumStr :: "string \<Rightarrow> bool" where
  "IsNumStr str = (if str = [] then False else list_all is_digit str)"

text \<open>
  The parts of \<open>strtoull\<close> and \<open>strtoll\<close> in base 10 on the characters before the first null: white
  space, an optional sign, the digits, and what follows them. Without digits nothing is consumed.
\<close>

definition is_space :: "char \<Rightarrow> bool" where
  "is_space c \<longleftrightarrow> of_char c = (32 :: nat) \<or> 9 \<le> (of_char c :: nat) \<and> (of_char c :: nat) \<le> 13"

definition c_str :: "string \<Rightarrow> string" where
  "c_str s = takeWhile (\<lambda>c. of_char c \<noteq> (0 :: nat)) s"

definition scan_integer :: "string \<Rightarrow> bool \<times> string \<times> string" where
  "scan_integer s =
     (let t = dropWhile is_space s;
          neg = (case t of c # _ \<Rightarrow> c = CHR ''-'' | [] \<Rightarrow> False);
          u = (case t of c # r \<Rightarrow> if c = CHR ''-'' \<or> c = CHR ''+'' then r else t | [] \<Rightarrow> [])
      in (neg, takeWhile is_digit u, dropWhile is_digit u))"

definition StrToUint64 :: "string \<Rightarrow> u64 option" where
  "StrToUint64 str =
     (if str = [] then None
      else (case scan_integer (c_str str) of (neg, ds, rest) \<Rightarrow>
        if ds \<noteq> [] \<and> str_nat ds > 18446744073709551615 then None
        else if ds = [] \<or> rest \<noteq> [] then None
        else Some (if neg then - of_nat (str_nat ds) else of_nat (str_nat ds))))"

definition StrToInt32 :: "string \<Rightarrow> int option" where
  "StrToInt32 str =
     (if str = [] then None
      else (case scan_integer (c_str str) of (neg, ds, rest) \<Rightarrow>
        (let v = (if neg then - int (str_nat ds) else int (str_nat ds)) in
         if ds \<noteq> [] \<and> (v < - 9223372036854775808 \<or> v > 9223372036854775807) then None
         else if ds = [] \<or> rest \<noteq> [] then None
         else if v < - 2147483648 \<or> v > 2147483647 then None
         else Some v)))"

definition hexTable :: "nat \<Rightarrow> char" where
  "hexTable d = ''0123456789ABCDEF'' ! d"

fun hex_loop :: "bytes \<Rightarrow> string" where
  "hex_loop [] = []"
| "hex_loop (b # bs) =
     hexTable (unat (and (drop_bit 4 b) 15)) # hexTable (unat (and b 15)) # hex_loop bs"

text \<open>\<open>None\<close> for a null \<open>data\<close> pointer.\<close>

definition ConvertBytesToHexString :: "bytes option \<Rightarrow> string" where
  "ConvertBytesToHexString data = (case data of None \<Rightarrow> [] | Some bs \<Rightarrow> hex_loop bs)"

end
