(* ===== verification/Thread_Pool.thy ===== *)
theory Thread_Pool
  imports Process_Skeleton "HOL-Library.Signed_Division"
begin

text \<open>
  The work threads of a process: \<open>IPCWorkThreadPool\<close> (\<open>ipc_thread_pool.cpp\<close>) and \<open>IPCWorkThread\<close>
  (\<open>ipc_workthread.cpp\<close>).

  The pool keeps one budget of threads for the binder protocol and one for the socket protocol.
  Its \<open>unordered_map\<close> of threads is an association list (no operation depends on the order), the
  sequence number a 32-bit word that wraps as \<open>std::atomic<int>\<close> does, the other counters are
  integers. The operating system is the parameter \<open>thread_env\<close>: whether the allocations,
  \<open>pthread_create\<close> and \<open>pthread_detach\<close> succeed. \<open>ProcessSkeleton::GetInstance()\<close> is an optional
  value, \<open>None\<close> for the null pointer. The calls of the invoker that a thread makes while it runs
  and when it is stopped are values (\<open>invoker_call\<close>).
\<close>

section \<open>State\<close>

abbreviation (input) IF_PROT_DEFAULT :: int where
  "IF_PROT_DEFAULT \<equiv> 0"

abbreviation (input) IF_PROT_DATABUS :: int where
  "IF_PROT_DATABUS \<equiv> 1"

abbreviation (input) IF_PROT_ERROR :: int where
  "IF_PROT_ERROR \<equiv> 2"

abbreviation (input) IDLE_SPAWN_ACTIVE_NUM :: int where
  "IDLE_SPAWN_ACTIVE_NUM \<equiv> 1"

abbreviation (input) PROTO_NUM :: int where
  "PROTO_NUM \<equiv> 2"

abbreviation (input) SPAWN_PASSIVE :: int where
  "SPAWN_PASSIVE \<equiv> 0"

abbreviation (input) SPAWN_ACTIVE :: int where
  "SPAWN_ACTIVE \<equiv> 1"

abbreviation (input) PROCESS_PASSIVE :: int where
  "PROCESS_PASSIVE \<equiv> 2"

abbreviation (input) PROCESS_ACTIVE :: int where
  "PROCESS_ACTIVE \<equiv> 3"

record work_thread =
  wt_proto :: int
  wt_policy :: int

definition IPCWorkThread :: work_thread where
  "IPCWorkThread = \<lparr>wt_proto = IF_PROT_DEFAULT, wt_policy = SPAWN_PASSIVE\<rparr>"

record thread_pool =
  tp_exitFlag :: bool
  threads :: "(string, work_thread) omap"
  threadSequence :: u32
  maxThreadNum :: int
  idleThreadNum :: int
  idleSocketThreadNum :: int

record thread_env =
  env_new_thread :: bool
  env_new_param :: bool
  env_pthread_create :: bool
  env_pthread_detach :: bool

datatype invoker_call = CallJoinThread bool | CallJoinProcessThread bool | CallStopWorkThread int

section \<open>A work thread\<close>

definition MakeBasicThreadName :: "int \<Rightarrow> int \<Rightarrow> string" where
  "MakeBasicThreadName proto threadIndex =
     (if proto = IF_PROT_DATABUS then ''OS_RPC_'' @ int_str threadIndex
      else ''OS_IPC_'' @ int_str threadIndex)"

definition JoinThread :: "bool \<Rightarrow> int \<Rightarrow> invoker_call option" where
  "JoinThread invoker policy =
     (if \<not> invoker then None
      else if policy = SPAWN_PASSIVE then Some (CallJoinThread False)
      else if policy = SPAWN_ACTIVE then Some (CallJoinThread True)
      else if policy = PROCESS_PASSIVE then Some (CallJoinProcessThread False)
      else if policy = PROCESS_ACTIVE then Some (CallJoinProcessThread True)
      else None)"

definition Start ::
    "thread_env \<Rightarrow> int \<Rightarrow> int \<Rightarrow> process_skeleton option \<Rightarrow> work_thread \<Rightarrow>
     bool \<times> process_skeleton option \<times> work_thread" where
  "Start E policy proto process t =
     (case process of
        None \<Rightarrow> (False, None, t)
      | Some ps \<Rightarrow>
          if GetThreadStopFlag ps then (False, Some ps, t)
          else if \<not> env_new_param E then (False, Some ps, t)
          else
            (let t' = t\<lparr>wt_policy := policy, wt_proto := proto\<rparr> in
             if \<not> env_pthread_create E then (False, Some ps, t')
             else if \<not> env_pthread_detach E then (False, Some (IncreaseThreadCount ps), t')
             else (True, Some (IncreaseThreadCount ps), t')))"

section \<open>The pool\<close>

definition IPCWorkThreadPool :: "int \<Rightarrow> thread_pool" where
  "IPCWorkThreadPool n = \<lparr>tp_exitFlag = False, threads = [], threadSequence = 0,
     maxThreadNum = n + n, idleThreadNum = n + IDLE_SPAWN_ACTIVE_NUM, idleSocketThreadNum = n\<rparr>"

text \<open>The calls are those of \<open>StopWorkThread\<close> on the threads of the pool.\<close>

definition StopAllThreads :: "thread_pool \<Rightarrow> invoker_call list \<times> thread_pool" where
  "StopAllThreads p =
     (map (\<lambda>(n, t). CallStopWorkThread (wt_proto t)) (threads p), p\<lparr>threads := []\<rparr>)"

definition IPCWorkThreadPool_destroy :: "thread_pool \<Rightarrow> invoker_call list \<times> thread_pool" where
  "IPCWorkThreadPool_destroy p = StopAllThreads (p\<lparr>tp_exitFlag := True\<rparr>)"

definition MakeThreadName :: "int \<Rightarrow> int \<Rightarrow> thread_pool \<Rightarrow> string \<times> int \<times> thread_pool" where
  "MakeThreadName proto threadIndex p =
     (if tp_exitFlag p then ([], threadIndex, p)
      else (let sequence = sint (threadSequence p) in
        (MakeBasicThreadName proto sequence, sequence,
         p\<lparr>threadSequence := threadSequence p + 1\<rparr>)))"

definition SpawnThread ::
    "thread_env \<Rightarrow> int \<Rightarrow> int \<Rightarrow> process_skeleton option \<Rightarrow> thread_pool \<Rightarrow>
     bool \<times> process_skeleton option \<times> thread_pool" where
  "SpawnThread E policy proto process p =
     (if tp_exitFlag p then (False, process, p)
      else if proto = IF_PROT_DEFAULT \<and> idleThreadNum p \<le> 0 \<or>
              proto = IF_PROT_DATABUS \<and> idleSocketThreadNum p \<le> 0 then (False, process, p)
      else (case MakeThreadName proto 0 p of (threadName, threadIndex, p1) \<Rightarrow>
        if map_of (threads p1) threadName \<noteq> None then (False, process, p1)
        else if \<not> env_new_thread E then (False, process, p1)
        else
          (let p2 = p1\<lparr>threads := omap_put threadName IPCWorkThread (threads p1)\<rparr> in
           if proto = IF_PROT_DEFAULT \<or> proto = IF_PROT_DATABUS then
             (let p3 = (if proto = IF_PROT_DEFAULT
                        then p2\<lparr>idleThreadNum := idleThreadNum p2 - 1\<rparr>
                        else p2\<lparr>idleSocketThreadNum := idleSocketThreadNum p2 - 1\<rparr>) in
              case Start E policy proto process IPCWorkThread of (ok, process', t) \<Rightarrow>
                (ok, process', p3\<lparr>threads := omap_put threadName t (threads p3)\<rparr>))
           else (False, process, p2))))"

text \<open>
  No null pointer is ever stored in \<open>threads_\<close>, so the test for one has no counterpart.
\<close>

definition RemoveThread :: "string \<Rightarrow> thread_pool \<Rightarrow> bool \<times> thread_pool" where
  "RemoveThread threadName p =
     (if tp_exitFlag p then (False, p)
      else (case map_of (threads p) threadName of
          Some workThread \<Rightarrow>
            (let p1 = (if wt_proto workThread = IF_PROT_DEFAULT
                       then p\<lparr>idleThreadNum := idleThreadNum p + 1\<rparr>
                       else if wt_proto workThread = IF_PROT_DATABUS
                       then p\<lparr>idleSocketThreadNum := idleSocketThreadNum p + 1\<rparr>
                       else p)
             in (True, p1\<lparr>threads := omap_erase threadName (threads p1)\<rparr>))
        | None \<Rightarrow> (False, p)))"

definition GetSocketIdleThreadNum :: "thread_pool \<Rightarrow> int" where
  "GetSocketIdleThreadNum p = (if tp_exitFlag p then 0 else idleSocketThreadNum p)"

definition GetSocketTotalThreadNum :: "thread_pool \<Rightarrow> int" where
  "GetSocketTotalThreadNum p = (if tp_exitFlag p then 0 else maxThreadNum p sdiv PROTO_NUM)"

definition GetMaxThreadNum :: "thread_pool \<Rightarrow> int" where
  "GetMaxThreadNum p =
     (if tp_exitFlag p then 0 else maxThreadNum p sdiv PROTO_NUM + IDLE_SPAWN_ACTIVE_NUM)"

definition UpdateMaxThreadNum :: "int \<Rightarrow> thread_pool \<Rightarrow> thread_pool" where
  "UpdateMaxThreadNum n p =
     (if tp_exitFlag p then p
      else
        (let totalNum = n + n in
         if totalNum \<le> maxThreadNum p then p
         else
           (let diff = totalNum - maxThreadNum p in
            p\<lparr>maxThreadNum := totalNum,
              idleThreadNum := idleThreadNum p + diff sdiv PROTO_NUM,
              idleSocketThreadNum := idleSocketThreadNum p + diff sdiv PROTO_NUM\<rparr>)))"

end
