(* ===== verification/Skeleton_State.thy ===== *)
theory Skeleton_State
  imports Thread_Pool Buffer_Object
begin

text \<open>
  The state of \<open>IPCProcessSkeleton\<close> (\<open>ipc_process_skeleton.h\<close>) and the objects its tables share:
  sessions (\<open>dbinder_session_object.cpp\<close>), authorisations (\<open>comm_auth_info.cpp\<close>), the messages and
  locks that threads wait on.

  Sessions, messages and thread locks are held by \<open>shared_ptr\<close> in several tables and by callers,
  and changed through them; they live in heaps from addresses to records, and the tables hold
  addresses, 0 for null. A reference-counted object cannot dangle, so the heaps are total.
  Authorisations are only reachable from their list and are values.
\<close>

section \<open>Sessions\<close>

abbreviation (input) SOCKET_ID_INVALID :: int where
  "SOCKET_ID_INVALID \<equiv> - 1"

record session_object =
  socket :: int
  buff :: "buffer_object option"
  serviceName :: string
  serverDeviceId :: string
  so_stubIndex :: u64
  so_proxy :: ptr
  so_tokenId :: u32
  so_pid :: int
  so_uid :: int

definition DBinderSessionObject :: "string \<Rightarrow> string \<Rightarrow> u64 \<Rightarrow> ptr \<Rightarrow> u32 \<Rightarrow> session_object" where
  "DBinderSessionObject name deviceId idx p tid = \<lparr>
     socket = SOCKET_ID_INVALID, buff = None, serviceName = name, serverDeviceId = deviceId,
     so_stubIndex = idx, so_proxy = p, so_tokenId = tid, so_pid = 0, so_uid = 0\<rparr>"

text \<open>The result tells which socket is shut down; \<open>listener\<close> is whether the singleton exists.\<close>

definition CloseDatabusSession :: "bool \<Rightarrow> session_object \<Rightarrow> int option \<times> session_object" where
  "CloseDatabusSession listener o1 =
     (if \<not> listener then (None, o1)
      else (Some (socket o1), o1\<lparr>socket := SOCKET_ID_INVALID\<rparr>))"

definition GetSessionBuff :: "session_object \<Rightarrow> buffer_object \<times> session_object" where
  "GetSessionBuff o1 =
     (case buff o1 of
        Some b \<Rightarrow> (b, o1)
      | None \<Rightarrow> (BufferObject, o1\<lparr>buff := Some BufferObject\<rparr>))"

definition SetServiceName :: "string \<Rightarrow> session_object \<Rightarrow> session_object" where
  "SetServiceName n o1 = o1\<lparr>serviceName := n\<rparr>"

definition SetDeviceId :: "string \<Rightarrow> session_object \<Rightarrow> session_object" where
  "SetDeviceId d o1 = o1\<lparr>serverDeviceId := d\<rparr>"

definition SetProxy :: "ptr \<Rightarrow> session_object \<Rightarrow> session_object" where
  "SetProxy p o1 = o1\<lparr>so_proxy := p\<rparr>"

definition SetSocketId :: "int \<Rightarrow> session_object \<Rightarrow> session_object" where
  "SetSocketId i o1 = o1\<lparr>socket := i\<rparr>"

definition SetPeerPid :: "int \<Rightarrow> session_object \<Rightarrow> session_object" where
  "SetPeerPid i o1 = o1\<lparr>so_pid := i\<rparr>"

definition SetPeerUid :: "int \<Rightarrow> session_object \<Rightarrow> session_object" where
  "SetPeerUid i o1 = o1\<lparr>so_uid := i\<rparr>"

section \<open>Authorisations\<close>

record comm_auth =
  ca_stub :: ptr
  remotePid :: int
  remoteUid :: int
  ca_tokenId :: u32
  ca_deviceId :: string
  ca_socketId :: int

definition CommAuthInfo :: "ptr \<Rightarrow> int \<Rightarrow> int \<Rightarrow> u32 \<Rightarrow> string \<Rightarrow> int \<Rightarrow> comm_auth" where
  "CommAuthInfo stub pid uid tid deviceId socketId = \<lparr>ca_stub = stub, remotePid = pid,
     remoteUid = uid, ca_tokenId = tid, ca_deviceId = deviceId, ca_socketId = socketId\<rparr>"

definition SetRemoteSocketId :: "int \<Rightarrow> comm_auth \<Rightarrow> comm_auth" where
  "SetRemoteSocketId i a = a\<lparr>ca_socketId := i\<rparr>"

record AppAuthInfo =
  aa_pid :: u32
  aa_uid :: u32
  aa_tokenId :: u32
  aa_socketId :: int
  aa_stubIndex :: u64
  aa_stub :: ptr
  aa_deviceId :: string

section \<open>Messages that threads wait for\<close>

record ThreadMessageInfo =
  tm_flags :: u32
  tm_bufferSize :: u64
  tm_offsetsSize :: u64
  tm_offsets :: u64
  tm_socketId :: u32
  tm_buffer :: "bytes option"
  tm_ready :: bool

record ThreadProcessInfo =
  tp_listenFd :: int
  tp_packageSize :: u32
  tp_buffer :: "bytes option"

section \<open>The skeleton\<close>

abbreviation (input) DBINDER_HANDLE_BASE :: u32 where
  "DBINDER_HANDLE_BASE \<equiv> 687200000"

abbreviation (input) DBINDER_HANDLE_COUNT :: u32 where
  "DBINDER_HANDLE_COUNT \<equiv> 100000"

record ipc_skeleton =
  exitFlag :: bool
  threadPool :: "thread_pool option"
  numExecuting :: int
  numWaitingForThreads :: int
  numExecutingFullLastTime :: u64
  idleDataThreads :: "thread_id list"
  dataInfoQueue :: "(thread_id, ThreadProcessInfo option list) omap"
  seqNumberToThread :: "(u64, ptr) omap"
  proxyToSession :: "(u32, ptr) omap"
  rawData :: "(string, ptr) omap"
  dbinderSessionObjects :: "(u32, ptr) omap"
  threadLockInfo :: "(thread_id, ptr) omap"
  noticeStub :: "(ptr, ptr) omap"
  stubObjects :: "(u64 \<times> ptr) list"
  appInfoToStubIndex :: "(string, (u64, int) omap) omap"
  commAuth :: "comm_auth list"
  dbinderSentCallback :: "(ptr, ptr) omap"
  seqNumber :: u64
  sessionName :: string
  listenSocketId :: int
  dBinderHandle :: u32
  randNum :: u64
  sessions :: "ptr \<Rightarrow> session_object"
  messages :: "ptr \<Rightarrow> ThreadMessageInfo"
  lockReady :: "ptr \<Rightarrow> bool"

text \<open>The constructor draws \<open>randNum_\<close> from 1 to \<open>DBINDER_HANDLE_COUNT * DBINDER_HANDLE_RANG\<close>.\<close>

definition IPCProcessSkeleton :: "u64 \<Rightarrow> ipc_skeleton" where
  "IPCProcessSkeleton rand = \<lparr>
     exitFlag = False, threadPool = None, numExecuting = 0, numWaitingForThreads = 0,
     numExecutingFullLastTime = 0, idleDataThreads = [], dataInfoQueue = [],
     seqNumberToThread = [], proxyToSession = [], rawData = [], dbinderSessionObjects = [],
     threadLockInfo = [], noticeStub = [], stubObjects = [], appInfoToStubIndex = [],
     commAuth = [], dbinderSentCallback = [], seqNumber = 0, sessionName = [], listenSocketId = 0,
     dBinderHandle = DBINDER_HANDLE_BASE, randNum = rand,
     sessions = (\<lambda>_. DBinderSessionObject [] [] 0 nullptr 0),
     messages = (\<lambda>_. \<lparr>tm_flags = 0, tm_bufferSize = 0, tm_offsetsSize = 0, tm_offsets = 0,
       tm_socketId = 0, tm_buffer = None, tm_ready = False\<rparr>),
     lockReady = (\<lambda>_. False)\<rparr>"

definition ClearDataResource :: "ipc_skeleton \<Rightarrow> ipc_skeleton" where
  "ClearDataResource s = s\<lparr>rawData := [], threadLockInfo := [], seqNumberToThread := [],
     stubObjects := [], proxyToSession := [], dbinderSessionObjects := [], noticeStub := [],
     idleDataThreads := [], dataInfoQueue := [], appInfoToStubIndex := [], commAuth := [],
     dbinderSentCallback := []\<rparr>"

text \<open>The calls of the invoker and the socket that is shut down come with the state.\<close>

definition IPCProcessSkeleton_destroy ::
    "ipc_skeleton \<Rightarrow> invoker_call list \<times> int option \<times> ipc_skeleton" where
  "IPCProcessSkeleton_destroy s =
     (let calls = (case threadPool s of None \<Rightarrow> [] | Some p \<Rightarrow> fst (IPCWorkThreadPool_destroy p));
          s1 = ClearDataResource (s\<lparr>exitFlag := True, threadPool := None\<rparr>)
      in if listenSocketId s1 > 0
         then (calls, Some (listenSocketId s1), s1\<lparr>listenSocketId := 0, sessionName := []\<rparr>)
         else (calls, None, s1))"

end
