(* ===== verification/Session_Tables.thy ===== *)
theory Session_Tables
  imports Skeleton_State
begin

text \<open>
  The session side of \<open>IPCProcessSkeleton\<close> (\<open>ipc_process_skeleton.cpp\<close>): handles of remote
  proxies, sessions of proxies and stubs, indexes of stubs, sequence numbers and the threads that
  wait for replies, the data threads with their locks and queues, raw data, callback stubs and
  the session server, and the counters of executing threads. Each definition is one critical
  section of the function it is named after; functions that wait in the middle are split there.
  Every table operation is guarded by \<open>CHECK_INSTANCE_EXIT\<close>.
\<close>

section \<open>Conversions\<close>

definition ConvertToSecureString :: "string \<Rightarrow> string" where
  "ConvertToSecureString str =
     (let len = length str in
      if len \<le> 4 then ''****'' else take 4 str @ ''****'' @ drop (len - 4) str)"

definition ConvertChannelID2Int :: "64 word \<Rightarrow> u32" where
  "ConvertChannelID2Int databusChannelId =
     (if sint databusChannelId < 0 then 0
      else
        (let channelType = (ucast (and (drop_bit 8 databusChannelId) 0x00000000FF000000) :: u32);
             channelID = (ucast (and databusChannelId 0x0000000000FFFFFF) :: u32)
         in or channelType channelID))"

definition IsHandleMadeByUser :: "u32 \<Rightarrow> bool" where
  "IsHandleMadeByUser handle \<longleftrightarrow>
     handle \<ge> DBINDER_HANDLE_BASE \<and> handle \<le> DBINDER_HANDLE_BASE + DBINDER_HANDLE_COUNT"

section \<open>Handles and sessions of proxies\<close>

text \<open>
  The loop of \<open>GetDBinderIdleHandle\<close>: \<open>count\<close> attempts are left (the loop body runs at least once
  and \<open>count\<close> starts positive). The result is the handle of the last attempt and whether the
  insertion succeeded.
\<close>

fun idle_handle_loop ::
    "nat \<Rightarrow> u32 \<Rightarrow> ptr \<Rightarrow> (u32, ptr) omap \<Rightarrow> u32 \<times> bool \<times> (u32, ptr) omap" where
  "idle_handle_loop 0 tempHandle session m = (tempHandle, False, m)"
| "idle_handle_loop (Suc count) tempHandle session m =
     (let t1 = tempHandle + 1;
          t2 = (if t1 > DBINDER_HANDLE_BASE + DBINDER_HANDLE_COUNT then DBINDER_HANDLE_BASE else t1)
      in case omap_insert t2 session m of
           (True, m') \<Rightarrow> (t2, True, m')
         | (False, m') \<Rightarrow> idle_handle_loop count t2 session m')"

definition GetDBinderIdleHandle :: "ptr \<Rightarrow> ipc_skeleton \<Rightarrow> u32 \<times> ipc_skeleton" where
  "GetDBinderIdleHandle session s =
     (if exitFlag s then (0, s)
      else (case idle_handle_loop (unat DBINDER_HANDLE_COUNT) (dBinderHandle s) session
                   (proxyToSession s) of
        (tempHandle, insertResult, m) \<Rightarrow>
          if \<not> insertResult then (0, s\<lparr>proxyToSession := m\<rparr>)
          else (tempHandle, s\<lparr>proxyToSession := m, dBinderHandle := tempHandle\<rparr>)))"

definition ProxyDetachDBinderSession :: "u32 \<Rightarrow> ptr \<Rightarrow> ipc_skeleton \<Rightarrow> ptr \<times> ipc_skeleton" where
  "ProxyDetachDBinderSession handle proxy s =
     (if exitFlag s then (nullptr, s)
      else (case map_of (proxyToSession s) handle of
          Some p \<Rightarrow>
            if p \<noteq> nullptr \<and> so_proxy (sessions s p) = proxy
            then (p, s\<lparr>proxyToSession := omap_erase handle (proxyToSession s)\<rparr>)
            else (nullptr, s)
        | None \<Rightarrow> (nullptr, s)))"

text \<open>
  The attaching functions log fields of the object and so need one: \<open>None\<close> stands for the crash
  on a null pointer.
\<close>

definition ProxyAttachDBinderSession :: "u32 \<Rightarrow> ptr \<Rightarrow> ipc_skeleton \<Rightarrow> (bool \<times> ipc_skeleton) option" where
  "ProxyAttachDBinderSession handle object s =
     (if exitFlag s then Some (False, s)
      else if object = nullptr then None
      else (case omap_insert handle object (proxyToSession s) of
              (r, m) \<Rightarrow> Some (r, s\<lparr>proxyToSession := m\<rparr>)))"

definition ProxyQueryDBinderSession :: "u32 \<Rightarrow> ipc_skeleton \<Rightarrow> ptr" where
  "ProxyQueryDBinderSession handle s =
     (if exitFlag s then nullptr
      else (case map_of (proxyToSession s) handle of Some p \<Rightarrow> p | None \<Rightarrow> nullptr))"

definition on_session :: "ptr \<Rightarrow> (session_object \<Rightarrow> session_object) \<Rightarrow> ipc_skeleton \<Rightarrow> ipc_skeleton" where
  "on_session p f s = s\<lparr>sessions := (sessions s)(p := f (sessions s p))\<rparr>"

definition ProxyMoveDBinderSession :: "u32 \<Rightarrow> ptr \<Rightarrow> ipc_skeleton \<Rightarrow> bool \<times> ipc_skeleton" where
  "ProxyMoveDBinderSession handle proxy s =
     (if exitFlag s then (False, s)
      else (case map_of (proxyToSession s) handle of
          Some p \<Rightarrow>
            if p = nullptr then (False, s)
            else (True, on_session p (SetProxy proxy) s)
        | None \<Rightarrow> (False, s)))"

fun socket_loop ::
    "(ptr \<Rightarrow> session_object) \<Rightarrow> int \<Rightarrow> (u32, ptr) omap \<Rightarrow> u32 list \<Rightarrow> bool \<times> u32 list" where
  "socket_loop H socketId [] acc = (True, acc)"
| "socket_loop H socketId ((h, p) # m) acc =
     (if p = nullptr then (False, acc)
      else socket_loop H socketId m (if socketId = socket (H p) then acc @ [h] else acc))"

definition QueryProxyBySocketId :: "int \<Rightarrow> u32 list \<Rightarrow> ipc_skeleton \<Rightarrow> bool \<times> u32 list" where
  "QueryProxyBySocketId socketId proxyHandle s =
     (if exitFlag s then (False, proxyHandle)
      else socket_loop (sessions s) socketId (proxyToSession s) proxyHandle)"

fun databus_loop ::
    "(ptr \<Rightarrow> session_object) \<Rightarrow> (session_object \<Rightarrow> bool) \<Rightarrow> (u32, ptr) omap \<Rightarrow> (u32 \<times> ptr) option" where
  "databus_loop H P [] = None"
| "databus_loop H P ((h, p) # m) =
     (if p = nullptr then None else if P (H p) then Some (h, p) else databus_loop H P m)"

definition QueryHandleByDatabusSession ::
    "string \<Rightarrow> string \<Rightarrow> u64 \<Rightarrow> ipc_skeleton \<Rightarrow> u32 \<times> ipc_skeleton" where
  "QueryHandleByDatabusSession name deviceId idx s =
     (if exitFlag s then (0, s)
      else (case databus_loop (sessions s)
                   (\<lambda>x. so_stubIndex x = idx \<and> serverDeviceId x = deviceId \<and> serviceName x = name)
                   (proxyToSession s) of
          Some (h, p) \<Rightarrow> (h, on_session p (SetProxy nullptr) s)
        | None \<Rightarrow> (0, s)))"

definition QuerySessionByInfo :: "string \<Rightarrow> string \<Rightarrow> ipc_skeleton \<Rightarrow> ptr" where
  "QuerySessionByInfo name deviceId s =
     (if exitFlag s then nullptr
      else (case databus_loop (sessions s)
                   (\<lambda>x. serverDeviceId x = deviceId \<and> serviceName x = name) (proxyToSession s) of
          Some (h, p) \<Rightarrow> p
        | None \<Rightarrow> nullptr))"

section \<open>Sessions of stubs\<close>

text \<open>The token of the result is \<open>None\<close> where \<open>tokenId\<close> is left as it was.\<close>

definition StubDetachDBinderSession :: "u32 \<Rightarrow> ipc_skeleton \<Rightarrow> bool \<times> u32 option \<times> ipc_skeleton" where
  "StubDetachDBinderSession handle s =
     (if exitFlag s then (False, None, s)
      else (case map_of (dbinderSessionObjects s) handle of
          Some p \<Rightarrow>
            if p = nullptr then (False, None, s)
            else (True, Some (so_tokenId (sessions s p)),
                  s\<lparr>dbinderSessionObjects := omap_erase handle (dbinderSessionObjects s)\<rparr>)
        | None \<Rightarrow> (False, None, s)))"

definition StubAttachDBinderSession :: "u32 \<Rightarrow> ptr \<Rightarrow> ipc_skeleton \<Rightarrow> (bool \<times> ipc_skeleton) option" where
  "StubAttachDBinderSession handle object s =
     (if exitFlag s then Some (False, s)
      else if object = nullptr then None
      else (case omap_insert handle object (dbinderSessionObjects s) of
              (r, m) \<Rightarrow> Some (r, s\<lparr>dbinderSessionObjects := m\<rparr>)))"

definition StubQueryDBinderSession :: "u32 \<Rightarrow> ipc_skeleton \<Rightarrow> ptr" where
  "StubQueryDBinderSession handle s =
     (if exitFlag s then nullptr
      else (case map_of (dbinderSessionObjects s) handle of Some p \<Rightarrow> p | None \<Rightarrow> nullptr))"

section \<open>Data threads\<close>

definition DetachThreadLockInfo :: "thread_id \<Rightarrow> ipc_skeleton \<Rightarrow> bool \<times> ipc_skeleton" where
  "DetachThreadLockInfo threadId s =
     (if exitFlag s then (False, s)
      else (map_of (threadLockInfo s) threadId \<noteq> None,
            s\<lparr>threadLockInfo := omap_erase threadId (threadLockInfo s)\<rparr>))"

definition AttachThreadLockInfo :: "thread_id \<Rightarrow> ptr \<Rightarrow> ipc_skeleton \<Rightarrow> bool \<times> ipc_skeleton" where
  "AttachThreadLockInfo threadId object s =
     (if exitFlag s then (False, s)
      else (case omap_insert threadId object (threadLockInfo s) of
              (r, m) \<Rightarrow> (r, s\<lparr>threadLockInfo := m\<rparr>)))"

definition QueryThreadLockInfo :: "thread_id \<Rightarrow> ipc_skeleton \<Rightarrow> ptr" where
  "QueryThreadLockInfo threadId s =
     (if exitFlag s then nullptr
      else (case map_of (threadLockInfo s) threadId of Some p \<Rightarrow> p | None \<Rightarrow> nullptr))"

definition AddDataThreadToIdle :: "thread_id \<Rightarrow> ipc_skeleton \<Rightarrow> bool \<times> ipc_skeleton" where
  "AddDataThreadToIdle threadId s =
     (if exitFlag s then (False, s)
      else (True, s\<lparr>idleDataThreads := threadId # idleDataThreads s\<rparr>))"

definition DeleteDataThreadFromIdle :: "thread_id \<Rightarrow> ipc_skeleton \<Rightarrow> bool \<times> ipc_skeleton" where
  "DeleteDataThreadFromIdle threadId s =
     (if exitFlag s then (False, s)
      else (True, s\<lparr>idleDataThreads := remove1 threadId (idleDataThreads s)\<rparr>))"

definition GetIdleDataThread :: "ipc_skeleton \<Rightarrow> thread_id" where
  "GetIdleDataThread s =
     (if exitFlag s then no_thread
      else if idleDataThreads s = [] then no_thread
      else last (idleDataThreads s))"

definition AddDataInfoToThread ::
    "thread_id \<Rightarrow> ThreadProcessInfo option \<Rightarrow> ipc_skeleton \<Rightarrow> ipc_skeleton" where
  "AddDataInfoToThread threadId processInfo s =
     (if exitFlag s then s
      else
        (let q = (case map_of (dataInfoQueue s) threadId of Some q \<Rightarrow> q | None \<Rightarrow> []) in
         s\<lparr>dataInfoQueue := omap_put threadId (q @ [processInfo]) (dataInfoQueue s)\<rparr>))"

text \<open>\<open>operator[]\<close> makes an empty queue for a thread that has none.\<close>

definition PopDataInfoFromThread ::
    "thread_id \<Rightarrow> ipc_skeleton \<Rightarrow> ThreadProcessInfo option \<times> ipc_skeleton" where
  "PopDataInfoFromThread threadId s =
     (if exitFlag s then (None, s)
      else (case (case map_of (dataInfoQueue s) threadId of Some q \<Rightarrow> q | None \<Rightarrow> []) of
          [] \<Rightarrow> (None, s\<lparr>dataInfoQueue := omap_put threadId [] (dataInfoQueue s)\<rparr>)
        | x # q \<Rightarrow> (x, s\<lparr>dataInfoQueue := omap_put threadId q (dataInfoQueue s)\<rparr>)))"

definition WakeUpDataThread :: "thread_id \<Rightarrow> ipc_skeleton \<Rightarrow> ipc_skeleton" where
  "WakeUpDataThread threadId s =
     (if exitFlag s then s
      else if threadId \<noteq> no_thread then
        (let l = QueryThreadLockInfo threadId s in
         if l \<noteq> nullptr then s\<lparr>lockReady := (lockReady s)(l := True)\<rparr> else s)
      else s)"

text \<open>
  \<open>AddDataThreadInWait\<close> up to the wait: \<open>fresh\<close> is the address of the lock it allocates if the
  thread has none. The result is the lock the thread then waits on, 0 if it returns at once.
  \<open>AddDataThreadInWait_resume\<close> is the part after the wait, which ends only when the lock is
  ready: until then it yields \<open>None\<close>.
\<close>

definition AddDataThreadInWait :: "thread_id \<Rightarrow> ptr \<Rightarrow> ipc_skeleton \<Rightarrow> ptr \<times> ipc_skeleton" where
  "AddDataThreadInWait threadId fresh s =
     (if exitFlag s then (nullptr, s)
      else
        (let l = QueryThreadLockInfo threadId s in
         if l \<noteq> nullptr then (l, snd (AddDataThreadToIdle threadId s))
         else (case AttachThreadLockInfo threadId fresh (s\<lparr>lockReady := (lockReady s)(fresh := False)\<rparr>) of
             (False, s1) \<Rightarrow> (nullptr, s1)
           | (True, s1) \<Rightarrow> (fresh, snd (AddDataThreadToIdle threadId s1)))))"

definition AddDataThreadInWait_resume :: "thread_id \<Rightarrow> ptr \<Rightarrow> ipc_skeleton \<Rightarrow> ipc_skeleton option" where
  "AddDataThreadInWait_resume threadId l s =
     (if lockReady s l
      then Some (snd (DeleteDataThreadFromIdle threadId (s\<lparr>lockReady := (lockReady s)(l := False)\<rparr>)))
      else None)"

section \<open>Sequence numbers and waiting senders\<close>

definition GetSeqNumber :: "ipc_skeleton \<Rightarrow> u64 \<times> ipc_skeleton" where
  "GetSeqNumber s =
     (if exitFlag s then (0, s)
      else
        (let s1 = (if seqNumber s = 0xFFFFFFFFFFFFFFFF then s\<lparr>seqNumber := 0\<rparr> else s);
             s2 = s1\<lparr>seqNumber := seqNumber s1 + 1\<rparr>
         in (seqNumber s2, s2)))"

definition QueryThreadBySeqNumber :: "u64 \<Rightarrow> ipc_skeleton \<Rightarrow> ptr" where
  "QueryThreadBySeqNumber seqNum s =
     (if exitFlag s then nullptr
      else (case map_of (seqNumberToThread s) seqNum of Some p \<Rightarrow> p | None \<Rightarrow> nullptr))"

definition EraseThreadBySeqNumber :: "u64 \<Rightarrow> ipc_skeleton \<Rightarrow> ipc_skeleton" where
  "EraseThreadBySeqNumber seqNum s =
     (if exitFlag s then s
      else s\<lparr>seqNumberToThread := omap_erase seqNum (seqNumberToThread s)\<rparr>)"

definition AddThreadBySeqNumber :: "u64 \<Rightarrow> ptr \<Rightarrow> ipc_skeleton \<Rightarrow> bool \<times> ipc_skeleton" where
  "AddThreadBySeqNumber seqNum messageInfo s =
     (if exitFlag s then (False, s)
      else (case omap_insert seqNum messageInfo (seqNumberToThread s) of
              (r, m) \<Rightarrow> (r, s\<lparr>seqNumberToThread := m\<rparr>)))"

definition on_message :: "ptr \<Rightarrow> (ThreadMessageInfo \<Rightarrow> ThreadMessageInfo) \<Rightarrow> ipc_skeleton \<Rightarrow> ipc_skeleton" where
  "on_message p f s = s\<lparr>messages := (messages s)(p := f (messages s p))\<rparr>"

definition WakeUpThreadBySeqNumber :: "u64 \<Rightarrow> u32 \<Rightarrow> ipc_skeleton \<Rightarrow> ipc_skeleton" where
  "WakeUpThreadBySeqNumber seqNum handle s =
     (if exitFlag s then s
      else
        (let m = QueryThreadBySeqNumber seqNum s in
         if m = nullptr then s
         else if handle \<noteq> tm_socketId (messages s m) then s
         else on_message m (\<lambda>x. x\<lparr>tm_ready := True\<rparr>) s))"

text \<open>
  \<open>AddSendThreadInWait\<close> up to the wait tells whether the thread waits. \<open>AddSendThreadInWait_resume\<close>
  is the end of the wait, by the ready flag or by the timeout; \<open>None\<close> while it goes on.
\<close>

definition AddSendThreadInWait :: "u64 \<Rightarrow> ptr \<Rightarrow> ipc_skeleton \<Rightarrow> bool \<times> ipc_skeleton" where
  "AddSendThreadInWait seqNum messageInfo s =
     (if messageInfo = nullptr then (False, s)
      else if exitFlag s then (False, s)
      else AddThreadBySeqNumber seqNum messageInfo s)"

definition AddSendThreadInWait_resume ::
    "ptr \<Rightarrow> bool \<Rightarrow> ipc_skeleton \<Rightarrow> (bool \<times> ipc_skeleton) option" where
  "AddSendThreadInWait_resume messageInfo timeout s =
     (if tm_ready (messages s messageInfo)
      then Some (True, on_message messageInfo (\<lambda>x. x\<lparr>tm_ready := False\<rparr>) s)
      else if timeout then Some (False, on_message messageInfo (\<lambda>x. x\<lparr>tm_ready := False\<rparr>) s)
      else None)"

section \<open>Indexes of stubs\<close>

definition QueryStubByIndex :: "u64 \<Rightarrow> ipc_skeleton \<Rightarrow> ptr" where
  "QueryStubByIndex idx s =
     (if exitFlag s then nullptr
      else if idx = 0 then nullptr
      else (case map_of (stubObjects s) idx of Some p \<Rightarrow> p | None \<Rightarrow> nullptr))"

fun index_loop :: "ptr \<Rightarrow> (u64 \<times> ptr) list \<Rightarrow> u64 option" where
  "index_loop stub [] = None"
| "index_loop stub ((i, p) # m) = (if p = stub then Some i else index_loop stub m)"

definition AddStubByIndex :: "ptr \<Rightarrow> ipc_skeleton \<Rightarrow> u64 \<times> ipc_skeleton" where
  "AddStubByIndex stub s =
     (if exitFlag s then (0, s)
      else (case index_loop stub (stubObjects s) of
          Some i \<Rightarrow> (i, s)
        | None \<Rightarrow>
            (let i = randNum s;
                 s1 = s\<lparr>randNum := randNum s + 1\<rparr>
             in if map_of (stubObjects s1) i = None
                then (i, s1\<lparr>stubObjects := (i, stub) # stubObjects s1\<rparr>)
                else (0, s1))))"

definition QueryStubIndex :: "ptr \<Rightarrow> ipc_skeleton \<Rightarrow> u64" where
  "QueryStubIndex stub s =
     (if exitFlag s then 0
      else (case index_loop stub (stubObjects s) of Some i \<Rightarrow> i | None \<Rightarrow> 0))"

definition EraseStubIndex :: "ptr \<Rightarrow> ipc_skeleton \<Rightarrow> u64 \<times> ipc_skeleton" where
  "EraseStubIndex stub s =
     (if exitFlag s then (0, s)
      else (case index_loop stub (stubObjects s) of
          Some i \<Rightarrow> (i, s\<lparr>stubObjects := filter (\<lambda>e. fst e \<noteq> i) (stubObjects s)\<rparr>)
        | None \<Rightarrow> (0, s)))"

section \<open>Callback stubs\<close>

definition AttachCallbackStub :: "ptr \<Rightarrow> ptr \<Rightarrow> ipc_skeleton \<Rightarrow> bool \<times> ipc_skeleton" where
  "AttachCallbackStub ipcProxy callbackStub s =
     (if exitFlag s then (False, s)
      else (case omap_insert ipcProxy callbackStub (noticeStub s) of
              (r, m) \<Rightarrow> (r, s\<lparr>noticeStub := m\<rparr>)))"

definition DetachCallbackStub :: "ptr \<Rightarrow> ipc_skeleton \<Rightarrow> ptr \<times> ipc_skeleton" where
  "DetachCallbackStub ipcProxy s =
     (if exitFlag s then (nullptr, s)
      else (case map_of (noticeStub s) ipcProxy of
          Some p \<Rightarrow> (p, s\<lparr>noticeStub := omap_erase ipcProxy (noticeStub s)\<rparr>)
        | None \<Rightarrow> (nullptr, s)))"

definition QueryCallbackStub :: "ptr \<Rightarrow> ipc_skeleton \<Rightarrow> ptr" where
  "QueryCallbackStub ipcProxy s =
     (if exitFlag s then nullptr
      else (case map_of (noticeStub s) ipcProxy of Some p \<Rightarrow> p | None \<Rightarrow> nullptr))"

text \<open>The loop does not stop at the first match, so the last one counts.\<close>

definition QueryCallbackProxy :: "ptr \<Rightarrow> ipc_skeleton \<Rightarrow> ptr" where
  "QueryCallbackProxy callbackStub s =
     (if exitFlag s then nullptr
      else fold (\<lambda>(k, v) ret. if v = callbackStub then k else ret) (noticeStub s) nullptr)"

definition AttachDBinderCallbackStub :: "ptr \<Rightarrow> ptr \<Rightarrow> ipc_skeleton \<Rightarrow> bool \<times> ipc_skeleton" where
  "AttachDBinderCallbackStub proxy stub s =
     (if exitFlag s then (False, s)
      else (case omap_insert proxy stub (dbinderSentCallback s) of
              (r, m) \<Rightarrow> (r, s\<lparr>dbinderSentCallback := m\<rparr>)))"

definition DetachDBinderCallbackStubByProxy :: "ptr \<Rightarrow> ipc_skeleton \<Rightarrow> bool \<times> ipc_skeleton" where
  "DetachDBinderCallbackStubByProxy proxy s =
     (if exitFlag s then (False, s)
      else (map_of (dbinderSentCallback s) proxy \<noteq> None,
            s\<lparr>dbinderSentCallback := omap_erase proxy (dbinderSentCallback s)\<rparr>))"

fun remove_first_value :: "'v \<Rightarrow> ('k \<times> 'v) list \<Rightarrow> ('k \<times> 'v) list" where
  "remove_first_value v [] = []"
| "remove_first_value v ((k, w) # m) = (if w = v then m else (k, w) # remove_first_value v m)"

definition DetachDBinderCallbackStub :: "ptr \<Rightarrow> ipc_skeleton \<Rightarrow> ipc_skeleton" where
  "DetachDBinderCallbackStub stub s =
     (if exitFlag s then s
      else s\<lparr>dbinderSentCallback := remove_first_value stub (dbinderSentCallback s)\<rparr>)"

text \<open>\<open>alive\<close> tells which weak references can be promoted.\<close>

definition QueryDBinderCallbackStub :: "(ptr \<Rightarrow> bool) \<Rightarrow> ptr \<Rightarrow> ipc_skeleton \<Rightarrow> ptr" where
  "QueryDBinderCallbackStub alive proxy s =
     (if exitFlag s then nullptr
      else (case map_of (dbinderSentCallback s) proxy of
          Some p \<Rightarrow> if alive p then p else nullptr
        | None \<Rightarrow> nullptr))"

definition QueryDBinderCallbackProxy :: "(ptr \<Rightarrow> bool) \<Rightarrow> ptr \<Rightarrow> ipc_skeleton \<Rightarrow> ptr" where
  "QueryDBinderCallbackProxy alive stub s =
     (if exitFlag s then nullptr
      else (case find (\<lambda>(k, v). v = stub \<and> alive v) (dbinderSentCallback s) of
          Some (k, v) \<Rightarrow> k
        | None \<Rightarrow> nullptr))"

section \<open>Raw data\<close>

definition raw_data_key :: "int \<times> u64 \<Rightarrow> string" where
  "raw_data_key k = int_str (fst k) @ CHR ''_'' # nat_str (unat (snd k))"

definition AttachRawData :: "int \<times> u64 \<Rightarrow> ptr \<Rightarrow> ipc_skeleton \<Rightarrow> bool \<times> ipc_skeleton" where
  "AttachRawData k data s =
     (if exitFlag s then (False, s)
      else (True, s\<lparr>rawData := omap_put (raw_data_key k) data (rawData s)\<rparr>))"

definition DetachRawData :: "int \<times> u64 \<Rightarrow> ipc_skeleton \<Rightarrow> bool \<times> ipc_skeleton" where
  "DetachRawData k s =
     (if exitFlag s then (False, s)
      else (map_of (rawData s) (raw_data_key k) \<noteq> None,
            s\<lparr>rawData := omap_erase (raw_data_key k) (rawData s)\<rparr>))"

definition QueryRawData :: "int \<times> u64 \<Rightarrow> ipc_skeleton \<Rightarrow> ptr" where
  "QueryRawData k s =
     (if exitFlag s then nullptr
      else (case map_of (rawData s) (raw_data_key k) of Some p \<Rightarrow> p | None \<Rightarrow> nullptr))"

end
