(* ===== verification/Object_Lookup.thy ===== *)
theory Object_Lookup
  imports Session_Tables
begin

text \<open>
  The part of \<open>IPCProcessSkeleton\<close> that works on \<open>ProcessSkeleton\<close> and on the thread pool: looking up
  and creating proxies, registering objects, the registry object, the work threads, the counters
  of executing threads and the session server.

  The state pairs the two singletons; \<open>pskel\<close> is \<open>None\<close> where \<open>ProcessSkeleton::GetInstance()\<close> yields
  null. What the code asks of its environment is the parameter \<open>object_env\<close>: the conversion of
  strings by the utility library, properties of existing objects, the answers of the invoker and
  of memory allocation. A result \<open>None\<close> means that the call waits for the object mutex.
\<close>

record process_state =
  ips :: ipc_skeleton
  pskel :: "process_skeleton option"

record object_env =
  str8to16 :: "string \<Rightarrow> u16string"
  is_proxy :: "ptr \<Rightarrow> bool"
  inc_strong :: "ptr \<Rightarrow> bool"
  descriptor_of :: "ptr \<Rightarrow> u16string"
  has_invoker :: bool
  ping_samgr :: bool
  set_registry :: bool
  set_max_threads :: bool
  new_proxy :: "ptr option"
  new_pool :: bool

abbreviation (input) REGISTRY_HANDLE :: int where
  "REGISTRY_HANDLE \<equiv> 0"

section \<open>Objects\<close>

definition MakeHandleDescriptor :: "object_env \<Rightarrow> int \<Rightarrow> u16string" where
  "MakeHandleDescriptor E handle = str8to16 E (''IPCObjectProxy'' @ int_str handle)"

definition ips_IsContainsObject :: "ptr \<Rightarrow> process_state \<Rightarrow> bool" where
  "ips_IsContainsObject object st =
     (if exitFlag (ips st) then False
      else if object = nullptr then False
      else (case pskel st of None \<Rightarrow> False | Some ps \<Rightarrow> IsContainsObject object ps))"

definition ips_DetachObject :: "object_env \<Rightarrow> ptr \<Rightarrow> process_state \<Rightarrow> (bool \<times> process_state) option" where
  "ips_DetachObject E object st =
     (if exitFlag (ips st) then Some (False, st)
      else if object = nullptr then Some (False, st)
      else if descriptor_of E object = [] then Some (False, st)
      else (case pskel st of
          None \<Rightarrow> Some (False, st)
        | Some ps \<Rightarrow> (case DetachObject (is_proxy E) object (descriptor_of E object) ps of
              None \<Rightarrow> None
            | Some (r, ps') \<Rightarrow> Some (r, st\<lparr>pskel := Some ps'\<rparr>))))"

definition ips_AttachObject ::
    "object_env \<Rightarrow> ptr \<Rightarrow> bool \<Rightarrow> process_state \<Rightarrow> (bool \<times> process_state) option" where
  "ips_AttachObject E object lockFlag st =
     (if exitFlag (ips st) then Some (False, st)
      else if object = nullptr then Some (False, st)
      else (case pskel st of
          None \<Rightarrow> Some (False, st)
        | Some ps \<Rightarrow> (case AttachObject (is_proxy E) object (descriptor_of E object) lockFlag ps of
              None \<Rightarrow> None
            | Some (r, calls, ps') \<Rightarrow> Some (r, st\<lparr>pskel := Some ps'\<rparr>))))"

definition ips_QueryObject :: "object_env \<Rightarrow> u16string \<Rightarrow> bool \<Rightarrow> process_state \<Rightarrow> ptr option" where
  "ips_QueryObject E descriptor lockFlag st =
     (if exitFlag (ips st) then Some nullptr
      else if descriptor = [] then Some nullptr
      else (case pskel st of
          None \<Rightarrow> Some nullptr
        | Some ps \<Rightarrow> QueryObject (inc_strong E) descriptor lockFlag ps))"

definition ips_SetIPCProxyLimit :: "u64 \<Rightarrow> bool \<Rightarrow> process_state \<Rightarrow> bool \<times> process_state" where
  "ips_SetIPCProxyLimit num callback st =
     (case pskel st of
        None \<Rightarrow> (False, st)
      | Some ps \<Rightarrow> (case SetIPCProxyLimit num callback ps of (r, ps') \<Rightarrow> (r, st\<lparr>pskel := Some ps'\<rparr>)))"

definition unlock_objects :: "process_state \<Rightarrow> process_state" where
  "unlock_objects st = st\<lparr>pskel := map_option (\<lambda>ps. snd (UnlockObjectMutex ps)) (pskel st)\<rparr>"

text \<open>
  The constructor of \<open>IPCObjectProxy\<close> records the new proxy as valid. A proxy object answers
  \<open>IsProxyObject\<close> with true and has the descriptor it was made with.
\<close>

definition new_proxy_env :: "ptr \<Rightarrow> u16string \<Rightarrow> object_env \<Rightarrow> object_env" where
  "new_proxy_env p d E = E\<lparr>is_proxy := (is_proxy E)(p := True), descriptor_of := (descriptor_of E)(p := d)\<rparr>"

definition construct_proxy :: "ptr \<Rightarrow> u16string \<Rightarrow> process_state \<Rightarrow> process_state" where
  "construct_proxy p d st = st\<lparr>pskel := map_option (\<lambda>ps. snd (AttachValidObject p d ps)) (pskel st)\<rparr>"

definition GetProxyObject ::
    "object_env \<Rightarrow> int \<Rightarrow> process_state \<Rightarrow> (ptr \<times> bool \<times> process_state) option" where
  "GetProxyObject E handle st =
     (let descriptor = MakeHandleDescriptor E handle in
      if exitFlag (ips st) then Some (nullptr, False, st)
      else if descriptor = [] then Some (nullptr, False, st)
      else (case pskel st of
          None \<Rightarrow> Some (nullptr, False, st)
        | Some ps \<Rightarrow>
            (case LockObjectMutex ps of
               None \<Rightarrow> None
             | Some (False, ps1) \<Rightarrow> Some (nullptr, False, st\<lparr>pskel := Some ps1\<rparr>)
             | Some (True, ps1) \<Rightarrow>
                 (let st1 = st\<lparr>pskel := Some ps1\<rparr> in
                  case ips_QueryObject E descriptor False st1 of
                    None \<Rightarrow> None
                  | Some result \<Rightarrow>
                      if result \<noteq> nullptr then Some (result, False, unlock_objects st1)
                      else if handle = REGISTRY_HANDLE \<and> \<not> has_invoker E
                      then Some (nullptr, False, unlock_objects st1)
                      else if handle = REGISTRY_HANDLE \<and> \<not> ping_samgr E
                      then Some (nullptr, False, unlock_objects st1)
                      else (case new_proxy E of
                          None \<Rightarrow> Some (nullptr, False, unlock_objects st1)
                        | Some p \<Rightarrow>
                            (case ips_AttachObject (new_proxy_env p descriptor E) p False
                                    (construct_proxy p descriptor st1) of
                               None \<Rightarrow> None
                             | Some (False, st2) \<Rightarrow> Some (nullptr, False, unlock_objects st2)
                             | Some (True, st2) \<Rightarrow> Some (p, True, unlock_objects st2)))))))"

definition ips_SetRegistryObject :: "object_env \<Rightarrow> ptr \<Rightarrow> process_state \<Rightarrow> bool \<times> process_state" where
  "ips_SetRegistryObject E object st =
     (if exitFlag (ips st) then (False, st)
      else if object = nullptr then (False, st)
      else (case pskel st of
          None \<Rightarrow> (False, st)
        | Some ps \<Rightarrow>
            if \<not> has_invoker E then (False, st)
            else if set_registry E
            then (True, st\<lparr>pskel := Some (SetSamgrFlag True (SetRegistryObject object ps))\<rparr>)
            else (False, st)))"

section \<open>Work threads\<close>

definition SetMaxWorkThread :: "object_env \<Rightarrow> int \<Rightarrow> ipc_skeleton \<Rightarrow> bool \<times> ipc_skeleton" where
  "SetMaxWorkThread E n s =
     (if exitFlag s then (False, s)
      else if n \<le> 0 \<or> n \<ge> 1073741823 then (False, s)
      else (case (case threadPool s of
                    Some p \<Rightarrow> Some p
                  | None \<Rightarrow> if new_pool E then Some (IPCWorkThreadPool n) else None) of
          None \<Rightarrow> (False, s)
        | Some p \<Rightarrow> (has_invoker E \<and> set_max_threads E, s\<lparr>threadPool := Some (UpdateMaxThreadNum n p)\<rparr>)))"

definition ips_SpawnThread :: "thread_env \<Rightarrow> int \<Rightarrow> int \<Rightarrow> process_state \<Rightarrow> bool \<times> process_state" where
  "ips_SpawnThread T policy proto st =
     (if exitFlag (ips st) then (False, st)
      else (case threadPool (ips st) of
          None \<Rightarrow> (False, st)
        | Some p \<Rightarrow> (case SpawnThread T policy proto (pskel st) p of
            (r, ps, p') \<Rightarrow> (r, st\<lparr>ips := (ips st)\<lparr>threadPool := Some p'\<rparr>, pskel := ps\<rparr>))))"

definition OnThreadTerminated :: "string \<Rightarrow> ipc_skeleton \<Rightarrow> bool \<times> ipc_skeleton" where
  "OnThreadTerminated threadName s =
     (if exitFlag s then (False, s)
      else (case threadPool s of
          None \<Rightarrow> (False, s)
        | Some p \<Rightarrow> (case RemoveThread threadName p of (r, p') \<Rightarrow> (r, s\<lparr>threadPool := Some p'\<rparr>))))"

text \<open>
  The body of a work thread, seen from the pool: what it asks of the invoker, and the report of
  its end. A thread that finds the process stopping ends without a report.
\<close>

definition ThreadHandler ::
    "bool \<Rightarrow> int \<Rightarrow> int \<Rightarrow> int \<Rightarrow> process_state \<Rightarrow> invoker_call option \<times> process_state" where
  "ThreadHandler invoker proto policy index st =
     (case pskel st of
        None \<Rightarrow> (None, st)
      | Some ps \<Rightarrow>
          if GetThreadStopFlag ps then (None, st)
          else (JoinThread invoker policy,
            st\<lparr>ips := snd (OnThreadTerminated (MakeBasicThreadName proto index) (ips st))\<rparr>))"

definition ips_GetSocketIdleThreadNum :: "ipc_skeleton \<Rightarrow> int" where
  "ips_GetSocketIdleThreadNum s =
     (if exitFlag s then 0
      else (case threadPool s of Some p \<Rightarrow> GetSocketIdleThreadNum p | None \<Rightarrow> 0))"

definition ips_GetSocketTotalThreadNum :: "ipc_skeleton \<Rightarrow> int" where
  "ips_GetSocketTotalThreadNum s =
     (if exitFlag s then 0
      else (case threadPool s of Some p \<Rightarrow> GetSocketTotalThreadNum p | None \<Rightarrow> 0))"

text \<open>
  \<open>BlockUntilThreadAvailable\<close> up to the loop tells whether the caller waits;
  \<open>BlockUntilThreadAvailable_resume\<close> is the end of the loop, \<open>None\<close> while the threads are all busy.
\<close>

definition BlockUntilThreadAvailable :: "ipc_skeleton \<Rightarrow> bool \<times> ipc_skeleton" where
  "BlockUntilThreadAvailable s =
     (if exitFlag s then (False, s)
      else
        (let s1 = s\<lparr>numWaitingForThreads := numWaitingForThreads s + 1\<rparr> in
         (threadPool s1 \<noteq> None, s1)))"

definition BlockUntilThreadAvailable_resume :: "ipc_skeleton \<Rightarrow> ipc_skeleton option" where
  "BlockUntilThreadAvailable_resume s =
     (case threadPool s of
        None \<Rightarrow> None
      | Some p \<Rightarrow>
          if numExecuting s \<ge> GetMaxThreadNum p then None
          else Some (s\<lparr>numWaitingForThreads := numWaitingForThreads s - 1\<rparr>))"

definition LockForNumExecuting :: "u64 \<Rightarrow> ipc_skeleton \<Rightarrow> ipc_skeleton" where
  "LockForNumExecuting curTime s =
     (if exitFlag s then s
      else
        (let s1 = s\<lparr>numExecuting := numExecuting s + 1\<rparr> in
         case threadPool s1 of
           None \<Rightarrow> s1
         | Some p \<Rightarrow>
             if numExecuting s1 = GetMaxThreadNum p then s1\<lparr>numExecutingFullLastTime := curTime\<rparr> else s1))"

text \<open>The flag tells whether the waiters are notified.\<close>

definition UnlockForNumExecuting :: "ipc_skeleton \<Rightarrow> bool \<times> ipc_skeleton" where
  "UnlockForNumExecuting s =
     (if exitFlag s then (False, s)
      else (case threadPool s of
          None \<Rightarrow> (False, s)
        | Some p \<Rightarrow>
            (let s1 = (if numExecuting s = GetMaxThreadNum p then s\<lparr>numExecutingFullLastTime := 0\<rparr> else s);
                 s2 = s1\<lparr>numExecuting := numExecuting s1 - 1\<rparr>
             in (numWaitingForThreads s2 > 0, s2))))"

section \<open>The session server\<close>

definition GetDatabusName :: "ipc_skeleton \<Rightarrow> string" where
  "GetDatabusName s = (if exitFlag s then [] else sessionName s)"

text \<open>
  \<open>listener\<close> is the socket number that \<open>StartServerListener\<close> answers, \<open>None\<close> if there is no listener.
\<close>

definition CreateSoftbusServer ::
    "thread_env \<Rightarrow> int option \<Rightarrow> string \<Rightarrow> process_state \<Rightarrow> bool \<times> process_state" where
  "CreateSoftbusServer T listener name st =
     (if exitFlag (ips st) then (False, st)
      else if name = [] then (False, st)
      else if name = sessionName (ips st) \<and> listenSocketId (ips st) > 0 then (True, st)
      else (case listener of
          None \<Rightarrow> (False, st)
        | Some socketId \<Rightarrow>
            if socketId \<le> 0 then (False, st)
            else
              (let st1 = (if name \<noteq> sessionName (ips st)
                          then snd (ips_SpawnThread T PROCESS_ACTIVE IF_PROT_DATABUS st) else st)
               in (True, st1\<lparr>ips := (ips st1)\<lparr>listenSocketId := socketId, sessionName := name\<rparr>\<rparr>))))"

text \<open>The text is the session name that is sent to the service manager, if that is there.\<close>

definition RemoveSoftbusServer :: "bool \<Rightarrow> ipc_skeleton \<Rightarrow> bool \<times> string option \<times> ipc_skeleton" where
  "RemoveSoftbusServer samgr s =
     (if exitFlag s then (False, None, s)
      else
        (let s1 = s\<lparr>listenSocketId := 0\<rparr> in
         if \<not> samgr then (False, None, s1)
         else (True, Some (sessionName s1), s1)))"

end
