(* ===== verification/Thread_Pool_Proofs.thy ===== *)
theory Thread_Pool_Proofs
  imports Thread_Pool
begin

text \<open>
  Correctness of the thread pool: the two budgets are conserved in every reachable state, names
  are fresh, and a thread that ends gives its place back.
\<close>

section \<open>Names\<close>

lemma MakeBasicThreadName_inj:
  "MakeBasicThreadName p i = MakeBasicThreadName q j \<longleftrightarrow>
   (p = IF_PROT_DATABUS \<longleftrightarrow> q = IF_PROT_DATABUS) \<and> i = j"
  by (auto simp: MakeBasicThreadName_def)

section \<open>The budgets\<close>

definition running :: "int \<Rightarrow> thread_pool \<Rightarrow> int" where
  "running proto p = int (length (filter (\<lambda>e. wt_proto (snd e) = proto) (threads p)))"

definition pool_inv :: "thread_pool \<Rightarrow> bool" where
  "pool_inv p \<longleftrightarrow> omap_wf (threads p) \<and> \<not> tp_exitFlag p \<and>
     (\<exists>n. 0 \<le> n \<and> n < 1073741823 \<and> maxThreadNum p = n + n \<and>
        idleThreadNum p + running IF_PROT_DEFAULT p = n + 1 \<and>
        idleSocketThreadNum p + running IF_PROT_DATABUS p = n) \<and>
     0 \<le> idleThreadNum p \<and> 0 \<le> idleSocketThreadNum p"

text \<open>The names in use were made with sequence numbers that have been handed out.\<close>

definition names_old :: "thread_pool \<Rightarrow> bool" where
  "names_old p \<longleftrightarrow> (\<forall>name \<in> fst ` set (threads p). \<exists>proto i.
     name = MakeBasicThreadName proto i \<and> 0 \<le> i \<and> i < sint (threadSequence p))"

lemma running_put:
  "map_of (threads p) name = None \<Longrightarrow>
   running q (p\<lparr>threads := omap_put name t (threads p)\<rparr>) =
     running q p + (if wt_proto t = q then 1 else 0)"
  by (simp add: running_def length_filter_omap_put)

lemma running_erase:
  "omap_wf (threads p) \<Longrightarrow> map_of (threads p) name = Some t \<Longrightarrow>
   running q p = running q (p\<lparr>threads := omap_erase name (threads p)\<rparr>) +
     (if wt_proto t = q then 1 else 0)"
  using length_filter_omap_erase [of "threads p" name t "\<lambda>e. wt_proto (snd e) = q"]
  by (simp add: running_def)

lemma running_nonneg: "0 \<le> running q p"
  by (simp add: running_def)

lemma running_cong: "threads p = threads p' \<Longrightarrow> running q p = running q p'"
  by (simp add: running_def)

text \<open>What a call of \<open>SpawnThread\<close> that gets as far as the thread does to the pool.\<close>

definition spawned :: "int \<Rightarrow> string \<Rightarrow> work_thread \<Rightarrow> thread_pool \<Rightarrow> thread_pool" where
  "spawned proto name t p =
     p\<lparr>threadSequence := threadSequence p + 1, threads := omap_put name t (threads p),
       idleThreadNum := idleThreadNum p - (if proto = IF_PROT_DEFAULT then 1 else 0),
       idleSocketThreadNum := idleSocketThreadNum p - (if proto = IF_PROT_DATABUS then 1 else 0)\<rparr>"

lemma SpawnThread_cases:
  assumes "SpawnThread E policy proto (Some ps) p = (ok, process', p')"
    and "\<not> GetThreadStopFlag ps" "env_new_param E" "proto = IF_PROT_DEFAULT \<or> proto = IF_PROT_DATABUS"
  shows "p' = p \<or> p' = p\<lparr>threadSequence := threadSequence p + 1\<rparr> \<or>
    (let name = MakeBasicThreadName proto (sint (threadSequence p)) in
       map_of (threads p) name = None \<and>
       (proto = IF_PROT_DEFAULT \<longrightarrow> 0 < idleThreadNum p) \<and>
       (proto = IF_PROT_DATABUS \<longrightarrow> 0 < idleSocketThreadNum p) \<and>
       p' = spawned proto name \<lparr>wt_proto = proto, wt_policy = policy\<rparr> p)"
  using assms
  by (auto simp: SpawnThread_def MakeThreadName_def Start_def IPCWorkThread_def spawned_def Let_def
      split: if_splits)

lemma pool_inv_sequence: "pool_inv p \<Longrightarrow> pool_inv (p\<lparr>threadSequence := q\<rparr>)"
  by (simp add: pool_inv_def running_def)

lemma pool_inv_spawned:
  assumes "pool_inv p" "map_of (threads p) name = None" "wt_proto t = proto"
    and "proto = IF_PROT_DEFAULT \<and> 0 < idleThreadNum p \<or> proto = IF_PROT_DATABUS \<and> 0 < idleSocketThreadNum p"
  shows "pool_inv (spawned proto name t p)"
proof -
  have "running q (spawned proto name t p) = running q p + (if wt_proto t = q then 1 else 0)" for q
    using assms(2) by (simp add: running_def spawned_def length_filter_omap_put)
  with assms show ?thesis
    by (auto simp: pool_inv_def spawned_def omap_wf_put)
qed

lemma pool_inv_remove:
  assumes "pool_inv p"
  shows "pool_inv (snd (RemoveThread name p))"
proof (cases "map_of (threads p) name")
  case None
  with assms show ?thesis by (simp add: RemoveThread_def pool_inv_def)
next
  case (Some t)
  define p' where "p' = snd (RemoveThread name p)"
  have wf: "omap_wf (threads p)" and live: "\<not> tp_exitFlag p" using assms by (simp_all add: pool_inv_def)
  then have t': "threads p' = omap_erase name (threads p)"
    using Some by (simp add: p'_def RemoveThread_def Let_def)
  then have "running q p = running q p' + (if wt_proto t = q then 1 else 0)" for q
    using running_erase [OF wf Some, of q] running_cong [of p' "p\<lparr>threads := omap_erase name (threads p)\<rparr>" q]
    by simp
  moreover have "idleThreadNum p' = idleThreadNum p + (if wt_proto t = IF_PROT_DEFAULT then 1 else 0)"
    "idleSocketThreadNum p' = idleSocketThreadNum p + (if wt_proto t = IF_PROT_DATABUS then 1 else 0)"
    "maxThreadNum p' = maxThreadNum p" "\<not> tp_exitFlag p'"
    using Some live by (auto simp: p'_def RemoveThread_def Let_def)
  ultimately have "pool_inv p'"
    using assms t' omap_wf_erase [OF wf] by (auto simp: pool_inv_def)
  then show ?thesis by (simp add: p'_def)
qed

lemma half_sdiv [simp]: "(n + n) sdiv PROTO_NUM = (n :: int)"
  by (cases "n = 0") (auto simp: signed_divide_int_def sgn_if)

lemma half_diff_sdiv [simp]: "(n + n - (m + m)) sdiv PROTO_NUM = (n - m :: int)"
  using half_sdiv [of "n - m"] by (simp add: algebra_simps)

lemma pool_inv_update:
  assumes "pool_inv p" "n < 1073741823"
  shows "pool_inv (UpdateMaxThreadNum n p)"
proof -
  obtain m where m: "0 \<le> m" "maxThreadNum p = m + m"
      "idleThreadNum p + running IF_PROT_DEFAULT p = m + 1"
      "idleSocketThreadNum p + running IF_PROT_DATABUS p = m"
    using assms(1) unfolding pool_inv_def by blast
  show ?thesis
  proof (cases "n \<le> m")
    case True
    with m assms show ?thesis by (simp add: UpdateMaxThreadNum_def)
  next
    case False
    with m assms(1) have "UpdateMaxThreadNum n p = p\<lparr>maxThreadNum := n + n,
        idleThreadNum := idleThreadNum p + (n - m), idleSocketThreadNum := idleSocketThreadNum p + (n - m)\<rparr>"
      using half_diff_sdiv [of n m] by (simp add: UpdateMaxThreadNum_def pool_inv_def Let_def)
    moreover have "running q (p\<lparr>maxThreadNum := a, idleThreadNum := b, idleSocketThreadNum := c\<rparr>) =
        running q p" for q a b c
      by (simp add: running_def)
    ultimately show ?thesis
      using False m assms by (simp add: pool_inv_def)
  qed
qed

section \<open>Reachable pools\<close>

text \<open>
  \<open>pool_reachable k p\<close>: the pool \<open>p\<close> results from \<open>k\<close> calls on a new pool. A spawn is one of a
  process that is not stopping and has memory for the thread's parameter block; whether the
  operating system creates and detaches the thread is open.
\<close>

inductive pool_reachable :: "nat \<Rightarrow> thread_pool \<Rightarrow> bool" where
  start: "0 < n \<Longrightarrow> n < 1073741823 \<Longrightarrow> pool_reachable 0 (IPCWorkThreadPool n)"
| spawn: "pool_reachable k p \<Longrightarrow> \<not> GetThreadStopFlag ps \<Longrightarrow> env_new_param E \<Longrightarrow>
    proto = IF_PROT_DEFAULT \<or> proto = IF_PROT_DATABUS \<Longrightarrow>
    SpawnThread E policy proto (Some ps) p = (ok, process', p') \<Longrightarrow> pool_reachable (Suc k) p'"
| remove: "pool_reachable k p \<Longrightarrow> pool_reachable (Suc k) (snd (RemoveThread name p))"
| update: "pool_reachable k p \<Longrightarrow> 0 < n \<Longrightarrow> n < 1073741823 \<Longrightarrow>
    pool_reachable (Suc k) (UpdateMaxThreadNum n p)"

lemma reachable_pool_inv: "pool_reachable k p \<Longrightarrow> pool_inv p"
proof (induction rule: pool_reachable.induct)
  case (start n)
  then show ?case by (simp add: pool_inv_def IPCWorkThreadPool_def running_def)
next
  case (spawn k p ps E proto policy ok process' p')
  show ?case
    using SpawnThread_cases [OF spawn.hyps(5,2,3,4)] spawn.IH spawn.hyps(4)
    by (auto simp: Let_def pool_inv_sequence intro!: pool_inv_spawned)
qed (simp_all add: pool_inv_remove pool_inv_update)

lemma sequence_Suc:
  assumes "unat (q :: u32) \<le> k" "k < 2147483647"
  shows "sint (q + 1) = sint q + 1" "sint q = int (unat q)" "unat (q + 1) = unat q + 1"
proof -
  have "unat q < 2147483647" using assms by simp
  then show a: "unat (q + 1) = unat q + 1" by (simp add: unat_word_ariths)
  have s: "sint r = int (unat r)" if "unat r < 2147483648" for r :: u32
  proof -
    have "int (unat r) < int 2147483648" using that by (simp only: of_nat_less_iff)
    then have "uint r < 2 ^ 31" by simp
    moreover have "- (2 ^ 31) \<le> uint r" by (rule order_trans [OF _ uint_ge_0]) simp
    ultimately show ?thesis by (simp add: sint_uint signed_take_bit_int_eq_self)
  qed
  show "sint q = int (unat q)" using \<open>unat q < 2147483647\<close> by (intro s) simp
  moreover have "sint (q + 1) = int (unat (q + 1))"
    using a \<open>unat q < 2147483647\<close> by (intro s) simp
  ultimately show "sint (q + 1) = sint q + 1" using a by simp
qed

lemma names_old_fresh:
  assumes "names_old p"
  shows "map_of (threads p) (MakeBasicThreadName proto (sint (threadSequence p))) = None"
  using assms by (auto simp: names_old_def map_of_eq_None_iff MakeBasicThreadName_inj)

lemma names_old_subset:
  assumes "names_old p" "set (threads p') \<subseteq> set (threads p)" "threadSequence p' = threadSequence p"
  shows "names_old p'"
proof -
  have "fst ` set (threads p') \<subseteq> fst ` set (threads p)" using assms(2) by (rule image_mono)
  with assms(1) show ?thesis unfolding names_old_def assms(3) by (intro ballI) (drule (1) subsetD, drule (1) bspec)
qed

lemma names_old_mono:
  assumes "names_old p" "fst ` set (threads p') \<subseteq> insert (MakeBasicThreadName proto i) (fst ` set (threads p))"
    and "0 \<le> i" "i < sint (threadSequence p')" "sint (threadSequence p) \<le> sint (threadSequence p')"
  shows "names_old p'"
proof -
  have "\<exists>proto i. name = MakeBasicThreadName proto i \<and> 0 \<le> i \<and> i < sint (threadSequence p')"
    if "name \<in> fst ` set (threads p')" for name
  proof (cases "name = MakeBasicThreadName proto i")
    case True
    with assms(3,4) show ?thesis by blast
  next
    case False
    with that assms(2) have "name \<in> fst ` set (threads p)" by blast
    with assms(1) obtain q j where "name = MakeBasicThreadName q j" "0 \<le> j" "j < sint (threadSequence p)"
      unfolding names_old_def by blast
    with assms(5) show ?thesis by (intro exI [of _ q] exI [of _ j]) simp
  qed
  then show ?thesis by (simp add: names_old_def)
qed

lemma reachable_names:
  "pool_reachable k p \<Longrightarrow> k < 2147483648 \<Longrightarrow> names_old p \<and> unat (threadSequence p) \<le> k"
proof (induction rule: pool_reachable.induct)
  case (start n)
  then show ?case by (simp add: names_old_def IPCWorkThreadPool_def)
next
  case (spawn k p ps E proto policy ok process' p')
  then have IH: "names_old p" "unat (threadSequence p) \<le> k" by simp_all
  note seq = sequence_Suc [OF IH(2)]
  consider "p' = p" | "threadSequence p' = threadSequence p + 1"
      "fst ` set (threads p') \<subseteq>
        insert (MakeBasicThreadName proto (sint (threadSequence p))) (fst ` set (threads p))"
    using SpawnThread_cases [OF spawn.hyps(5,2,3,4)] by (auto simp: Let_def spawned_def subset_insertI)
  then show ?case
  proof cases
    case 1
    with IH show ?thesis by simp
  next
    case 2
    with IH seq spawn.prems show ?thesis
      by (auto intro!: names_old_mono [OF IH(1) 2(2)])
  qed
next
  case (remove k p name)
  have "threadSequence (snd (RemoveThread name p)) = threadSequence p"
    "set (threads (snd (RemoveThread name p))) \<subseteq> set (threads p)"
    by (auto simp: RemoveThread_def Let_def omap_erase_def split: option.splits)
  with remove show ?case by (auto intro: names_old_subset)
next
  case (update k p n)
  then show ?case by (auto simp: UpdateMaxThreadNum_def names_old_def Let_def)
qed

section \<open>Properties\<close>



text \<open>
  As long as a reachable pool has a place for the protocol and has handed out fewer than
  \<open>2 ^ 31\<close> names, \<open>SpawnThread\<close> succeeds when the operating system does: the new thread gets a name
  nobody has, and \<open>RemoveThread\<close> of that name, which the thread calls when it ends, restores all
  threads and counters except the sequence number.
\<close>

theorem spawn_then_remove:
  assumes "pool_reachable k p" "k < 2147483648"
    and "proto = IF_PROT_DEFAULT \<and> 0 < idleThreadNum p \<or> proto = IF_PROT_DATABUS \<and> 0 < idleSocketThreadNum p"
    and "\<not> GetThreadStopFlag ps"
    and "env_new_thread E \<and> env_new_param E \<and> env_pthread_create E \<and> env_pthread_detach E"
  shows "\<exists>name p'. SpawnThread E policy proto (Some ps) p = (True, Some (IncreaseThreadCount ps), p') \<and>
    map_of (threads p) name = None \<and>
    map_of (threads p') name = Some \<lparr>wt_proto = proto, wt_policy = policy\<rparr> \<and>
    RemoveThread name p' = (True, p\<lparr>threadSequence := threadSequence p + 1\<rparr>)"
proof -
  let ?name = "MakeBasicThreadName proto (sint (threadSequence p))"
  have fresh: "map_of (threads p) ?name = None"
    using reachable_names [OF assms(1,2)] by (simp add: names_old_fresh)
  moreover have "\<not> tp_exitFlag p" using reachable_pool_inv [OF assms(1)] by (simp add: pool_inv_def)
  ultimately have "SpawnThread E policy proto (Some ps) p = (True, Some (IncreaseThreadCount ps),
      spawned proto ?name \<lparr>wt_proto = proto, wt_policy = policy\<rparr> p)"
    using assms(3-5) by (auto simp: SpawnThread_def MakeThreadName_def Start_def IPCWorkThread_def spawned_def Let_def)
  moreover have "RemoveThread ?name (spawned proto ?name \<lparr>wt_proto = proto, wt_policy = policy\<rparr> p) =
      (True, p\<lparr>threadSequence := threadSequence p + 1\<rparr>)"
    using fresh \<open>\<not> tp_exitFlag p\<close> assms(3) by (auto simp: RemoveThread_def spawned_def omap_erase_put)
  moreover have "map_of (threads (spawned proto ?name \<lparr>wt_proto = proto, wt_policy = policy\<rparr> p)) ?name =
      Some \<lparr>wt_proto = proto, wt_policy = policy\<rparr>"
    by (simp add: spawned_def)
  ultimately show ?thesis using fresh by blast
qed

definition good_env :: thread_env where
  "good_env = \<lparr>env_new_thread = True, env_new_param = True, env_pthread_create = True,
     env_pthread_detach = True\<rparr>"

theorem spawn_then_remove_witness:
  "\<exists>name p'. SpawnThread good_env SPAWN_ACTIVE IF_PROT_DEFAULT (Some ProcessSkeleton_init) (IPCWorkThreadPool 16) =
      (True, Some (IncreaseThreadCount ProcessSkeleton_init), p') \<and>
    map_of (threads (IPCWorkThreadPool 16)) name = None \<and>
    map_of (threads p') name = Some \<lparr>wt_proto = IF_PROT_DEFAULT, wt_policy = SPAWN_ACTIVE\<rparr> \<and>
    RemoveThread name p' = (True, (IPCWorkThreadPool 16)\<lparr>threadSequence := 1\<rparr>)"
  using spawn_then_remove [OF pool_reachable.start [of 16], of IF_PROT_DEFAULT ProcessSkeleton_init good_env SPAWN_ACTIVE]
  by (simp add: IPCWorkThreadPool_def GetThreadStopFlag_def ProcessSkeleton_init_def good_env_def)

text \<open>
  A socket thread that cannot be started because the process is stopping, or because memory
  for its parameter block is short, stays in the pool: the place it took is not given back, and
  it is recorded with the binder protocol, so that removing it later adds a place to the budget
  of the binder threads and none to that of the socket threads.
\<close>

theorem failed_start_misplaces_slot:
  assumes "\<not> tp_exitFlag p" "0 < idleSocketThreadNum p" "env_new_thread E"
    and "map_of (threads p) (MakeBasicThreadName IF_PROT_DATABUS (sint (threadSequence p))) = None"
    and "GetThreadStopFlag ps \<or> \<not> env_new_param E"
  shows "\<exists>name p'. SpawnThread E policy IF_PROT_DATABUS (Some ps) p = (False, Some ps, p') \<and>
    map_of (threads p) name = None \<and> map_of (threads p') name = Some IPCWorkThread \<and>
    idleSocketThreadNum p' = idleSocketThreadNum p - 1 \<and>
    idleThreadNum (snd (RemoveThread name p')) = idleThreadNum p + 1 \<and>
    idleSocketThreadNum (snd (RemoveThread name p')) = idleSocketThreadNum p - 1"
  using assms
  by (intro exI [of _ "MakeBasicThreadName IF_PROT_DATABUS (sint (threadSequence p))"]
      exI [of _ "spawned IF_PROT_DATABUS (MakeBasicThreadName IF_PROT_DATABUS (sint (threadSequence p))) IPCWorkThread p"])
    (auto simp: SpawnThread_def MakeThreadName_def Start_def spawned_def RemoveThread_def IPCWorkThread_def Let_def)

theorem failed_start_misplaces_slot_witness:
  "\<exists>name p'. SpawnThread (good_env\<lparr>env_new_param := False\<rparr>) PROCESS_PASSIVE IF_PROT_DATABUS
      (Some ProcessSkeleton_init) (IPCWorkThreadPool 16) = (False, Some ProcessSkeleton_init, p') \<and>
    map_of (threads p') name = Some IPCWorkThread \<and> idleSocketThreadNum p' = 15 \<and>
    idleThreadNum (snd (RemoveThread name p')) = 18 \<and>
    idleSocketThreadNum (snd (RemoveThread name p')) = 15"
  using failed_start_misplaces_slot [of "IPCWorkThreadPool 16" "good_env\<lparr>env_new_param := False\<rparr>"
      ProcessSkeleton_init PROCESS_PASSIVE]
  by (auto simp: IPCWorkThreadPool_def good_env_def)

end
