(* ===== verification/Object_Lookup_Proofs.thy ===== *)
theory Object_Lookup_Proofs
  imports Object_Lookup Thread_Pool_Proofs
begin

text \<open>
  Correctness of looking up proxies: the object mutex is released on every path, a proxy is
  created once per handle and found again, and the counters of executing threads are balanced
  while there is a pool.
\<close>

section \<open>The object mutex\<close>

text \<open>
  What a call of \<open>GetProxyObject\<close> leads to when it gets as far as the table: the query, and the
  creation of a proxy.
\<close>

definition found :: "object_env \<Rightarrow> u16string \<Rightarrow> process_skeleton \<Rightarrow> ptr" where
  "found E d ps = (case objects ps d of
     Some p \<Rightarrow> if p \<noteq> nullptr \<and> validObjectRecord ps p \<noteq> None \<and> inc_strong E p then p else nullptr
   | None \<Rightarrow> nullptr)"

definition created :: "ptr \<Rightarrow> u16string \<Rightarrow> process_skeleton \<Rightarrow> process_skeleton" where
  "created p d ps = ps\<lparr>
     validObjectRecord := (validObjectRecord ps)(p \<mapsto> d),
     isContainStub := (case isContainStub ps p of None \<Rightarrow> (isContainStub ps)(p \<mapsto> True) | Some _ \<Rightarrow> isContainStub ps),
     proxyObjectCountNum := proxyObjectCountNum ps + 1,
     objects := (objects ps)(d \<mapsto> p)\<rparr>"

lemma query_unlocked:
  "\<not> exitFlag s \<Longrightarrow> \<not> ps_exitFlag ps \<Longrightarrow> d \<noteq> [] \<Longrightarrow>
   ips_QueryObject E d False \<lparr>ips = s, pskel = Some ps\<rparr> = Some (found E d ps)"
  by (auto simp: ips_QueryObject_def QueryObject_def IsValidObject_def found_def Let_def split: option.splits)

lemma attach_created:
  assumes "\<not> exitFlag s" "\<not> ps_exitFlag ps" "d \<noteq> []" "p \<noteq> nullptr"
  shows "ips_AttachObject (new_proxy_env p d E) p False (construct_proxy p d \<lparr>ips = s, pskel = Some ps\<rparr>) =
    Some (True, \<lparr>ips = s, pskel = Some (created p d ps)\<rparr>)"
  using assms by (simp add: ips_AttachObject_def new_proxy_env_def construct_proxy_def AttachValidObject_def
    AttachObject_def created_def Let_def split: option.splits)

definition creates :: "object_env \<Rightarrow> int \<Rightarrow> bool" where
  "creates E handle \<longleftrightarrow> (handle = REGISTRY_HANDLE \<longrightarrow> has_invoker E \<and> ping_samgr E) \<and> new_proxy E \<noteq> None"

lemma GetProxyObject_spec:
  assumes "\<not> exitFlag s" "\<not> ps_exitFlag ps" "\<not> objMutex ps"
    and "d = MakeHandleDescriptor E handle" "d \<noteq> []" "new_proxy E \<noteq> Some nullptr"
  shows "GetProxyObject E handle \<lparr>ips = s, pskel = Some ps\<rparr> =
    Some (if found E d ps \<noteq> nullptr then (found E d ps, False, \<lparr>ips = s, pskel = Some ps\<rparr>)
          else if creates E handle
          then (the (new_proxy E), True, \<lparr>ips = s, pskel = Some (created (the (new_proxy E)) d ps)\<rparr>)
          else (nullptr, False, \<lparr>ips = s, pskel = Some ps\<rparr>))"
proof -
  let ?ps1 = "ps\<lparr>objMutex := True\<rparr>"
  have lock: "LockObjectMutex ps = Some (True, ?ps1)" using assms(2,3) by (simp add: LockObjectMutex_def)
  have q: "ips_QueryObject E d False \<lparr>ips = s, pskel = Some ?ps1\<rparr> = Some (found E d ps)"
    using query_unlocked [of s ?ps1 d E] assms(1,2,5) by (simp add: found_def cong: option.case_cong)
  have un: "unlock_objects \<lparr>ips = s, pskel = Some ?ps1\<rparr> = \<lparr>ips = s, pskel = Some ps\<rparr>"
    using assms(2,3) by (simp add: unlock_objects_def UnlockObjectMutex_def)
  have un': "unlock_objects \<lparr>ips = s, pskel = Some (created p d ?ps1)\<rparr> = \<lparr>ips = s, pskel = Some (created p d ps)\<rparr>" for p
    using assms(2,3) by (simp add: unlock_objects_def UnlockObjectMutex_def created_def cong: option.case_cong)
  have att: "ips_AttachObject (new_proxy_env p d E) p False (construct_proxy p d \<lparr>ips = s, pskel = Some ?ps1\<rparr>) =
      Some (True, \<lparr>ips = s, pskel = Some (created p d ?ps1)\<rparr>)" if "p \<noteq> nullptr" for p
    using attach_created [of s ?ps1 d p E] assms(1,2,5) that by simp
  show ?thesis
    unfolding GetProxyObject_def Let_def assms(4) [symmetric]
    using assms(1,5,6) lock q un un' att
    by (auto simp: creates_def split: option.splits)
qed

section \<open>Properties\<close>

text \<open>
  \<open>GetProxyObject\<close> in a live process whose object mutex is free returns on every path, and
  the mutex is free again; it changes nothing but the entry of the handle's own descriptor.
\<close>

theorem get_proxy_releases_mutex:
  assumes "\<not> exitFlag s" "\<not> ps_exitFlag ps" "\<not> objMutex ps" "new_proxy E \<noteq> Some nullptr"
  shows "\<exists>p new ps'. GetProxyObject E handle \<lparr>ips = s, pskel = Some ps\<rparr> = Some (p, new, \<lparr>ips = s, pskel = Some ps'\<rparr>) \<and>
    \<not> objMutex ps' \<and> (\<forall>d. d \<noteq> MakeHandleDescriptor E handle \<longrightarrow> objects ps' d = objects ps d) \<and>
    (new \<longleftrightarrow> proxyObjectCountNum ps' \<noteq> proxyObjectCountNum ps)"
proof (cases "MakeHandleDescriptor E handle = []")
  case True
  with assms show ?thesis by (auto simp: GetProxyObject_def)
next
  case False
  show ?thesis
    using GetProxyObject_spec [OF assms(1-3) refl False assms(4)] assms(3)
    by (auto simp: created_def)
qed

text \<open>
  A proxy is made once per handle. When \<open>GetProxyObject\<close> has created a proxy and the proxy is
  still alive, the next call for the same handle returns that proxy and creates none, and a
  call for another handle never returns it in between, as long as the descriptors of different
  handles differ.
\<close>

theorem proxy_created_once:
  assumes "\<not> exitFlag s" "\<not> ps_exitFlag ps" "\<not> objMutex ps" "new_proxy E \<noteq> Some nullptr"
    and "inj (str8to16 E)" "str8to16 E [] = []"
    and "GetProxyObject E handle \<lparr>ips = s, pskel = Some ps\<rparr> = Some (p, True, st1)" "inc_strong E p"
  shows "GetProxyObject E handle st1 = Some (p, False, st1) \<and>
    (\<forall>h. h \<noteq> handle \<and> (\<forall>d. objects ps d \<noteq> Some p) \<and> new_proxy E' \<noteq> Some p \<and> new_proxy E' \<noteq> Some nullptr \<and>
       str8to16 E' = str8to16 E \<longrightarrow>
       (\<exists>q new st2. GetProxyObject E' h st1 = Some (q, new, st2) \<and> q \<noteq> p))"
proof -
  let ?d = "MakeHandleDescriptor E handle"
  have ne: "MakeHandleDescriptor E h \<noteq> []" for h
    using assms(5,6) injD [OF assms(5), of "''IPCObjectProxy'' @ int_str h" "[]"]
    by (auto simp: MakeHandleDescriptor_def)
  have p: "p = the (new_proxy E)" "new_proxy E = Some p" "st1 = \<lparr>ips = s, pskel = Some (created p ?d ps)\<rparr>"
    using GetProxyObject_spec [OF assms(1-3) refl ne assms(4), of handle] assms(7)
    by (auto simp: creates_def split: if_splits)
  then have "p \<noteq> nullptr" using assms(4) by auto
  then have f: "found E ?d (created p ?d ps) = p"
    using assms(8) by (simp add: found_def created_def)
  have live: "\<not> ps_exitFlag (created p ?d ps)" "\<not> objMutex (created p ?d ps)"
    using assms(2,3) by (simp_all add: created_def)
  have "GetProxyObject E handle st1 = Some (p, False, st1)"
    using GetProxyObject_spec [OF assms(1) live refl ne assms(4)] f \<open>p \<noteq> nullptr\<close> p(3) by simp
  moreover have "\<exists>q new st2. GetProxyObject E' h st1 = Some (q, new, st2) \<and> q \<noteq> p"
    if h: "h \<noteq> handle" "\<forall>d. objects ps d \<noteq> Some p" "new_proxy E' \<noteq> Some p" "new_proxy E' \<noteq> Some nullptr"
      "str8to16 E' = str8to16 E" for h
  proof -
    have eq: "MakeHandleDescriptor E' h = MakeHandleDescriptor E h" using h(5) by (simp add: MakeHandleDescriptor_def)
    have ne': "MakeHandleDescriptor E' h \<noteq> []" using ne eq by simp
    have "MakeHandleDescriptor E' h \<noteq> ?d"
      using h(1) assms(5) unfolding eq by (auto simp: MakeHandleDescriptor_def dest: injD)
    then have "found E' (MakeHandleDescriptor E' h) (created p ?d ps) \<noteq> p"
      using h(2) \<open>p \<noteq> nullptr\<close> by (auto simp: found_def created_def split: option.splits)
    moreover have "creates E' h \<Longrightarrow> the (new_proxy E') \<noteq> p" using h(3) by (auto simp: creates_def)
    ultimately show ?thesis
      using GetProxyObject_spec [OF assms(1) live refl ne' h(4)] \<open>p \<noteq> nullptr\<close> p(3) by auto
  qed
  ultimately show ?thesis by blast
qed

definition ascii16 :: "string \<Rightarrow> u16string" where
  "ascii16 s = map (\<lambda>c. of_nat (of_char c)) s"

lemma inj_ascii16: "inj ascii16"
proof -
  have "c = c'" if "(of_nat (of_char c) :: u16) = of_nat (of_char c')" for c c' :: char
  proof -
    have b: "of_char x < (65536 :: nat)" for x :: char by (rule less_trans [of _ 256]) simp_all
    have "unat (of_nat (of_char x) :: u16) = (of_char x :: nat)" for x :: char
      using b [of x] by (simp add: unat_of_nat take_bit_nat_eq_self)
    then have "(of_char c :: nat) = of_char c'" using that by metis
    then show ?thesis by simp
  qed
  then have "inj (\<lambda>c :: char. of_nat (of_char c) :: u16)" by (auto intro: injI)
  then show ?thesis unfolding ascii16_def by (simp add: inj_mapI)
qed

definition example_env :: "ptr option \<Rightarrow> object_env" where
  "example_env p = \<lparr>str8to16 = ascii16, is_proxy = (\<lambda>_. False), inc_strong = (\<lambda>_. True),
     descriptor_of = (\<lambda>_. []), has_invoker = True, ping_samgr = True, set_registry = True,
     set_max_threads = True, new_proxy = p, new_pool = True\<rparr>"

theorem get_proxy_releases_mutex_witness:
  "\<exists>p new ps'. GetProxyObject (example_env (Some 8)) 5
      \<lparr>ips = IPCProcessSkeleton 1, pskel = Some ProcessSkeleton_init\<rparr> =
      Some (p, new, \<lparr>ips = IPCProcessSkeleton 1, pskel = Some ps'\<rparr>) \<and> \<not> objMutex ps'"
  using get_proxy_releases_mutex [of "IPCProcessSkeleton 1" ProcessSkeleton_init "example_env (Some 8)" 5]
  by (auto simp: IPCProcessSkeleton_def ProcessSkeleton_init_def example_env_def)

theorem proxy_created_once_witness:
  "\<exists>st1. GetProxyObject (example_env (Some 8)) 5
      \<lparr>ips = IPCProcessSkeleton 1, pskel = Some ProcessSkeleton_init\<rparr> = Some (8, True, st1) \<and>
    GetProxyObject (example_env (Some 8)) 5 st1 = Some (8, False, st1)"
proof -
  have ne: "MakeHandleDescriptor (example_env (Some 8)) 5 \<noteq> []"
    by (simp add: MakeHandleDescriptor_def example_env_def ascii16_def)
  have "GetProxyObject (example_env (Some 8)) 5 \<lparr>ips = IPCProcessSkeleton 1, pskel = Some ProcessSkeleton_init\<rparr> =
      Some (8, True, \<lparr>ips = IPCProcessSkeleton 1, pskel = Some (created 8
        (MakeHandleDescriptor (example_env (Some 8)) 5) ProcessSkeleton_init)\<rparr>)"
    by (subst GetProxyObject_spec [OF _ _ _ refl ne])
      (simp_all add: IPCProcessSkeleton_def ProcessSkeleton_init_def example_env_def creates_def found_def)
  then show ?thesis
    using proxy_created_once [of "IPCProcessSkeleton 1" ProcessSkeleton_init "example_env (Some 8)" 5 8]
    by (simp add: IPCProcessSkeleton_def ProcessSkeleton_init_def example_env_def inj_ascii16)
      (simp add: ascii16_def)
qed

end
