(* ===== verification/Auth_Tables.thy ===== *)
theory Auth_Tables
  imports Session_Tables
begin

text \<open>
  The authorisation side of \<open>IPCProcessSkeleton\<close>: which remote application may call which stub
  over which socket. \<open>appInfoToStubIndex_\<close> maps the text of device, process, user and token to a
  map from stub indexes to sockets; \<open>commAuth_\<close> is a list of authorisations per stub.

  Overloaded functions get a suffix that tells what they are given. \<open>IsSameRemoteObject\<close> takes
  signed process and user numbers; the fields of \<open>AppAuthInfo\<close> are unsigned and converted.
\<close>

section \<open>Keys and loops\<close>

definition UIntToString :: "u32 \<Rightarrow> string" where
  "UIntToString input = pad11 (unat input)"

definition app_key :: "string \<Rightarrow> u32 \<Rightarrow> u32 \<Rightarrow> u32 \<Rightarrow> string" where
  "app_key deviceId pid uid tokenId =
     deviceId @ UIntToString pid @ UIntToString uid @ UIntToString tokenId"

text \<open>The loops over all applications that remove a stub index or a socket.\<close>

fun erase_stub_loop :: "u64 \<Rightarrow> (string, (u64, int) omap) omap \<Rightarrow> (string, (u64, int) omap) omap" where
  "erase_stub_loop idx [] = []"
| "erase_stub_loop idx ((k, m) # r) =
     (let m' = omap_erase idx m in
      if m' = [] then erase_stub_loop idx r else (k, m') # erase_stub_loop idx r)"

fun erase_socket_loop ::
    "int \<Rightarrow> (string, (u64, int) omap) omap \<Rightarrow> u64 list \<Rightarrow> u64 list \<times> (string, (u64, int) omap) omap" where
  "erase_socket_loop fd [] acc = (acc, [])"
| "erase_socket_loop fd ((k, m) # r) acc =
     (let acc' = acc @ map fst (filter (\<lambda>e. snd e = fd) m);
          m' = filter (\<lambda>e. snd e \<noteq> fd) m
      in case erase_socket_loop fd r acc' of (out, r') \<Rightarrow> (out, if m' = [] then r' else (k, m') # r'))"

definition set_all_sockets :: "int \<Rightarrow> (u64, int) omap \<Rightarrow> (u64, int) omap" where
  "set_all_sockets fd m = map (\<lambda>(i, _). (i, fd)) m"

text \<open>\<open>std::find_if\<close> followed by \<open>erase\<close> or by a change through the iterator.\<close>

fun remove_first :: "('a \<Rightarrow> bool) \<Rightarrow> 'a list \<Rightarrow> 'a list" where
  "remove_first P [] = []"
| "remove_first P (x # xs) = (if P x then xs else x # remove_first P xs)"

fun update_first :: "('a \<Rightarrow> bool) \<Rightarrow> ('a \<Rightarrow> 'a) \<Rightarrow> 'a list \<Rightarrow> 'a list" where
  "update_first P f [] = []"
| "update_first P f (x # xs) = (if P x then f x # xs else x # update_first P f xs)"

section \<open>Stub indexes of applications\<close>

text \<open>What is left of the table when one index of an application has been removed.\<close>

definition erase_index ::
    "string \<Rightarrow> u64 \<Rightarrow> int \<Rightarrow> (string, (u64, int) omap) omap \<Rightarrow> bool \<times> (string, (u64, int) omap) omap" where
  "erase_index appInfo idx fd t =
     (case map_of t appInfo of
        None \<Rightarrow> (False, t)
      | Some indexes \<Rightarrow>
          (let result = (map_of indexes idx = Some fd);
               indexes' = (if result then omap_erase idx indexes else indexes)
           in (result, if indexes' = [] then omap_erase appInfo t else omap_put appInfo indexes' t)))"

definition DetachAppInfoToStubIndex ::
    "u32 \<Rightarrow> u32 \<Rightarrow> u32 \<Rightarrow> string \<Rightarrow> u64 \<Rightarrow> int \<Rightarrow> ipc_skeleton \<Rightarrow> bool \<times> ipc_skeleton" where
  "DetachAppInfoToStubIndex pid uid tokenId deviceId idx listenFd s =
     (if exitFlag s then (False, s)
      else (case erase_index (app_key deviceId pid uid tokenId) idx listenFd (appInfoToStubIndex s) of
              (r, t) \<Rightarrow> (r, s\<lparr>appInfoToStubIndex := t\<rparr>)))"

definition DetachAppInfoToStubIndex_app ::
    "u32 \<Rightarrow> u32 \<Rightarrow> u32 \<Rightarrow> string \<Rightarrow> int \<Rightarrow> ipc_skeleton \<Rightarrow> u64 list \<times> ipc_skeleton" where
  "DetachAppInfoToStubIndex_app pid uid tokenId deviceId listenFd s =
     (if exitFlag s then ([], s)
      else
        (let appInfo = app_key deviceId pid uid tokenId in
         case map_of (appInfoToStubIndex s) appInfo of
           None \<Rightarrow> ([], s)
         | Some m \<Rightarrow>
             (let m' = filter (\<lambda>e. snd e \<noteq> listenFd) m in
              (map fst (filter (\<lambda>e. snd e = listenFd) m),
               s\<lparr>appInfoToStubIndex := (if m' = [] then omap_erase appInfo (appInfoToStubIndex s)
                                       else omap_put appInfo m' (appInfoToStubIndex s))\<rparr>))))"

definition DetachAppInfoToStubIndex_stub :: "u64 \<Rightarrow> ipc_skeleton \<Rightarrow> ipc_skeleton" where
  "DetachAppInfoToStubIndex_stub idx s =
     (if exitFlag s then s
      else s\<lparr>appInfoToStubIndex := erase_stub_loop idx (appInfoToStubIndex s)\<rparr>)"

definition DetachAppInfoToStubIndex_socket :: "int \<Rightarrow> ipc_skeleton \<Rightarrow> u64 list \<times> ipc_skeleton" where
  "DetachAppInfoToStubIndex_socket listenFd s =
     (if exitFlag s then ([], s)
      else (case erase_socket_loop listenFd (appInfoToStubIndex s) [] of
              (out, t) \<Rightarrow> (out, s\<lparr>appInfoToStubIndex := t\<rparr>)))"

definition AttachAppInfoToStubIndex ::
    "u32 \<Rightarrow> u32 \<Rightarrow> u32 \<Rightarrow> string \<Rightarrow> u64 \<Rightarrow> int \<Rightarrow> ipc_skeleton \<Rightarrow> bool \<times> ipc_skeleton" where
  "AttachAppInfoToStubIndex pid uid tokenId deviceId idx listenFd s =
     (if exitFlag s then (False, s)
      else
        (let appInfo = app_key deviceId pid uid tokenId in
         case map_of (appInfoToStubIndex s) appInfo of
           Some m \<Rightarrow> (map_of m idx = None,
             s\<lparr>appInfoToStubIndex := omap_put appInfo (omap_put idx listenFd m) (appInfoToStubIndex s)\<rparr>)
         | None \<Rightarrow> (True,
             s\<lparr>appInfoToStubIndex := omap_put appInfo [(idx, listenFd)] (appInfoToStubIndex s)\<rparr>)))"

definition AttachAppInfoToStubIndex_update ::
    "u32 \<Rightarrow> u32 \<Rightarrow> u32 \<Rightarrow> string \<Rightarrow> int \<Rightarrow> ipc_skeleton \<Rightarrow> bool \<times> ipc_skeleton" where
  "AttachAppInfoToStubIndex_update pid uid tokenId deviceId listenFd s =
     (if exitFlag s then (False, s)
      else
        (let appInfo = app_key deviceId pid uid tokenId in
         case map_of (appInfoToStubIndex s) appInfo of
           Some m \<Rightarrow> (True,
             s\<lparr>appInfoToStubIndex := omap_put appInfo (set_all_sockets listenFd m) (appInfoToStubIndex s)\<rparr>)
         | None \<Rightarrow> (True, s)))"

definition index_allowed :: "string \<Rightarrow> u64 \<Rightarrow> int \<Rightarrow> (string, (u64, int) omap) omap \<Rightarrow> bool" where
  "index_allowed appInfo idx fd t =
     (case map_of t appInfo of
        Some m \<Rightarrow> (case map_of m idx of Some v \<Rightarrow> v = 0 \<or> v = fd | None \<Rightarrow> False)
      | None \<Rightarrow> False)"

definition QueryAppInfoToStubIndex ::
    "u32 \<Rightarrow> u32 \<Rightarrow> u32 \<Rightarrow> string \<Rightarrow> u64 \<Rightarrow> int \<Rightarrow> ipc_skeleton \<Rightarrow> bool" where
  "QueryAppInfoToStubIndex pid uid tokenId deviceId idx listenFd s =
     (if exitFlag s then False
      else index_allowed (app_key deviceId pid uid tokenId) idx listenFd (appInfoToStubIndex s))"

section \<open>Authorisations of stubs\<close>

definition IsSameRemoteObject :: "ptr \<Rightarrow> int \<Rightarrow> int \<Rightarrow> u32 \<Rightarrow> string \<Rightarrow> comm_auth \<Rightarrow> bool" where
  "IsSameRemoteObject stub pid uid tokenId deviceId auth \<longleftrightarrow>
     ca_stub auth = stub \<and> remotePid auth = pid \<and> remoteUid auth = uid \<and>
     ca_tokenId auth = tokenId \<and> ca_deviceId auth = deviceId"

definition IsSameRemoteObject_app :: "int \<Rightarrow> int \<Rightarrow> string \<Rightarrow> comm_auth \<Rightarrow> bool" where
  "IsSameRemoteObject_app pid uid deviceId auth \<longleftrightarrow>
     remotePid auth = pid \<and> remoteUid auth = uid \<and> ca_deviceId auth = deviceId"

definition AttachCommAuthInfo ::
    "ptr \<Rightarrow> int \<Rightarrow> int \<Rightarrow> u32 \<Rightarrow> string \<Rightarrow> ipc_skeleton \<Rightarrow> bool \<times> ipc_skeleton" where
  "AttachCommAuthInfo stub pid uid tokenId deviceId s =
     (if exitFlag s then (False, s)
      else if find (IsSameRemoteObject stub pid uid tokenId deviceId) (commAuth s) \<noteq> None then (False, s)
      else (True, s\<lparr>commAuth := CommAuthInfo stub pid uid tokenId deviceId 0 # commAuth s\<rparr>))"

definition DetachCommAuthInfo ::
    "ptr \<Rightarrow> int \<Rightarrow> int \<Rightarrow> u32 \<Rightarrow> string \<Rightarrow> ipc_skeleton \<Rightarrow> bool \<times> ipc_skeleton" where
  "DetachCommAuthInfo stub pid uid tokenId deviceId s =
     (if exitFlag s then (False, s)
      else if find (IsSameRemoteObject stub pid uid tokenId deviceId) (commAuth s) \<noteq> None
      then (True, s\<lparr>commAuth := remove_first (IsSameRemoteObject stub pid uid tokenId deviceId) (commAuth s)\<rparr>)
      else (False, s))"

definition DetachCommAuthInfoByStub :: "ptr \<Rightarrow> ipc_skeleton \<Rightarrow> ipc_skeleton" where
  "DetachCommAuthInfoByStub stub s =
     (if exitFlag s then s else s\<lparr>commAuth := filter (\<lambda>a. ca_stub a \<noteq> stub) (commAuth s)\<rparr>)"

definition DetachCommAuthInfoBySocketId :: "int \<Rightarrow> ipc_skeleton \<Rightarrow> ipc_skeleton" where
  "DetachCommAuthInfoBySocketId socketId s =
     (if exitFlag s then s else s\<lparr>commAuth := filter (\<lambda>a. ca_socketId a \<noteq> socketId) (commAuth s)\<rparr>)"

text \<open>The token is \<open>None\<close> where the argument is left as it was.\<close>

definition QueryCommAuthInfo :: "int \<Rightarrow> int \<Rightarrow> string \<Rightarrow> ipc_skeleton \<Rightarrow> bool \<times> u32 option" where
  "QueryCommAuthInfo pid uid deviceId s =
     (if exitFlag s then (False, None)
      else (case find (IsSameRemoteObject_app pid uid deviceId) (commAuth s) of
          Some a \<Rightarrow> (True, Some (ca_tokenId a))
        | None \<Rightarrow> (False, Some 0)))"

definition UpdateCommAuthSocketInfo :: "int \<Rightarrow> int \<Rightarrow> string \<Rightarrow> int \<Rightarrow> ipc_skeleton \<Rightarrow> ipc_skeleton" where
  "UpdateCommAuthSocketInfo pid uid deviceId socketId s =
     (if exitFlag s then s
      else s\<lparr>commAuth := update_first (IsSameRemoteObject_app pid uid deviceId)
             (SetRemoteSocketId socketId) (commAuth s)\<rparr>)"

section \<open>Both tables together\<close>

definition aa_key :: "AppAuthInfo \<Rightarrow> string" where
  "aa_key a = app_key (aa_deviceId a) (aa_pid a) (aa_uid a) (aa_tokenId a)"

definition aa_same :: "AppAuthInfo \<Rightarrow> comm_auth \<Rightarrow> bool" where
  "aa_same a = IsSameRemoteObject (aa_stub a) (sint (aa_pid a)) (sint (aa_uid a)) (aa_tokenId a) (aa_deviceId a)"

definition AttachOrUpdateAppAuthInfo :: "AppAuthInfo \<Rightarrow> ipc_skeleton \<Rightarrow> bool \<times> ipc_skeleton" where
  "AttachOrUpdateAppAuthInfo a s =
     (if exitFlag s then (False, s)
      else
        (let t = appInfoToStubIndex s;
             t' = (case map_of t (aa_key a) of
                     Some m \<Rightarrow>
                       if aa_stubIndex a \<noteq> 0
                       then omap_put (aa_key a) (omap_put (aa_stubIndex a) (aa_socketId a) m) t
                       else if aa_socketId a \<noteq> 0
                       then omap_put (aa_key a) (set_all_sockets (aa_socketId a) m) t
                       else t
                   | None \<Rightarrow> omap_put (aa_key a) [(aa_stubIndex a, aa_socketId a)] t);
             s1 = s\<lparr>appInfoToStubIndex := t'\<rparr>
         in if aa_stub a = nullptr then (False, s1)
            else if find (aa_same a) (commAuth s1) \<noteq> None \<and> aa_socketId a \<noteq> 0
            then (False, s1\<lparr>commAuth := update_first (aa_same a) (SetRemoteSocketId (aa_socketId a)) (commAuth s1)\<rparr>)
            else (True, s1\<lparr>commAuth := CommAuthInfo (aa_stub a) (sint (aa_pid a)) (sint (aa_uid a))
                     (aa_tokenId a) (aa_deviceId a) (aa_socketId a) # commAuth s1\<rparr>)))"

definition DetachAppAuthInfo :: "AppAuthInfo \<Rightarrow> ipc_skeleton \<Rightarrow> bool \<times> ipc_skeleton" where
  "DetachAppAuthInfo a s =
     (if exitFlag s then (False, s)
      else (case erase_index (aa_key a) (aa_stubIndex a) (aa_socketId a) (appInfoToStubIndex s) of
        (result, t) \<Rightarrow>
          (let s1 = s\<lparr>appInfoToStubIndex := t\<rparr> in
           if \<not> result then (False, s1)
           else (True, s1\<lparr>commAuth := remove_first (aa_same a) (commAuth s1)\<rparr>))))"

definition DetachAppAuthInfoByStub :: "ptr \<Rightarrow> u64 \<Rightarrow> ipc_skeleton \<Rightarrow> ipc_skeleton" where
  "DetachAppAuthInfoByStub stub idx s =
     (if exitFlag s then s
      else s\<lparr>commAuth := filter (\<lambda>a. ca_stub a \<noteq> stub) (commAuth s),
             appInfoToStubIndex := erase_stub_loop idx (appInfoToStubIndex s)\<rparr>)"

definition DetachAppAuthInfoBySocketId :: "int \<Rightarrow> ipc_skeleton \<Rightarrow> u64 list \<times> ipc_skeleton" where
  "DetachAppAuthInfoBySocketId socketId s =
     (if exitFlag s then ([], s)
      else (case erase_socket_loop socketId (appInfoToStubIndex s) [] of
        (out, t) \<Rightarrow> (out, s\<lparr>commAuth := filter (\<lambda>a. ca_socketId a \<noteq> socketId) (commAuth s),
                          appInfoToStubIndex := t\<rparr>)))"

definition QueryCommAuthInfo_app :: "AppAuthInfo \<Rightarrow> ipc_skeleton \<Rightarrow> bool \<times> AppAuthInfo" where
  "QueryCommAuthInfo_app a s =
     (if exitFlag s then (False, a)
      else (case find (IsSameRemoteObject_app (sint (aa_pid a)) (sint (aa_uid a)) (aa_deviceId a)) (commAuth s) of
          Some c \<Rightarrow> (True, a\<lparr>aa_tokenId := ca_tokenId c\<rparr>)
        | None \<Rightarrow> (False, a)))"

definition QueryAppInfoToStubIndex_app :: "AppAuthInfo \<Rightarrow> ipc_skeleton \<Rightarrow> bool" where
  "QueryAppInfoToStubIndex_app a s =
     (if exitFlag s then False
      else index_allowed (aa_key a) (aa_stubIndex a) (aa_socketId a) (appInfoToStubIndex s))"

end
