(* ===== verification/Auth_Proofs.thy ===== *)
theory Auth_Proofs
  imports Auth_Tables
begin

text \<open>
  Correctness of the authorisation tables: keys of different applications never clash, the table
  never holds an application without stubs, attaching, querying and detaching agree, and closing
  a socket or destroying a stub revokes exactly what it should.
\<close>

section \<open>Keys\<close>

lemma length_UIntToString [simp]: "length (UIntToString n) = 11"
proof -
  have "unat n < 2 ^ 32" using unsigned_less [of n] by simp
  then show ?thesis by (simp add: UIntToString_def length_pad11)
qed

lemma UIntToString_inj [simp]: "UIntToString m = UIntToString n \<longleftrightarrow> m = n"
  by (simp add: UIntToString_def word_unat_eq_iff)

lemma app_key_inj:
  "app_key d p u t = app_key d' p' u' t' \<longleftrightarrow> d = d' \<and> p = p' \<and> u = u' \<and> t = t'"
  unfolding app_key_def by (subst append_eq_append_conv) (auto simp: append_eq_append_conv)

section \<open>The nested map\<close>

definition app_view :: "(string, (u64, int) omap) omap \<Rightarrow> string \<Rightarrow> u64 \<Rightarrow> int option" where
  "app_view t k idx = (case map_of t k of Some m \<Rightarrow> map_of m idx | None \<Rightarrow> None)"

definition auth_wf :: "(string, (u64, int) omap) omap \<Rightarrow> bool" where
  "auth_wf t \<longleftrightarrow> omap_wf t \<and> (\<forall>m \<in> snd ` set t. omap_wf m \<and> m \<noteq> [])"

lemma auth_wfD: "auth_wf t \<Longrightarrow> map_of t k = Some m \<Longrightarrow> omap_wf m \<and> m \<noteq> []"
  by (force simp: auth_wf_def dest: map_of_SomeD)

lemma auth_wf_Nil [wf_intros, simp]: "auth_wf []"
  by (simp add: auth_wf_def)

lemma auth_wf_put [wf_intros]: "auth_wf t \<Longrightarrow> omap_wf m \<Longrightarrow> m \<noteq> [] \<Longrightarrow> auth_wf (omap_put k m t)"
  using set_omap_put [of k m t] by (force simp: auth_wf_def omap_wf_put)

lemma auth_wf_erase [wf_intros]: "auth_wf t \<Longrightarrow> auth_wf (omap_erase k t)"
  by (auto simp: auth_wf_def omap_erase_def omap_wf_filter)

lemma app_view_put: "app_view (omap_put k m t) k' i = (if k' = k then map_of m i else app_view t k' i)"
  by (simp add: app_view_def)

lemma app_view_erase: "app_view (omap_erase k t) k' i = (if k' = k then None else app_view t k' i)"
  by (simp add: app_view_def)

lemma omap_put_neq_Nil [simp]: "omap_put k v m \<noteq> []"
  by (cases m) (auto simp: case_prod_beta split: if_splits)

lemma index_allowed_view:
  "index_allowed k i fd t = (app_view t k i = Some 0 \<or> app_view t k i = Some fd)"
  by (auto simp: index_allowed_def app_view_def split: option.splits)

lemma set_all_sockets_facts:
  "omap_wf m \<Longrightarrow> omap_wf (set_all_sockets fd m)" "set_all_sockets fd m = [] \<longleftrightarrow> m = []"
  "map_of (set_all_sockets fd m) i = map_option (\<lambda>_. fd) (map_of m i)"
proof -
  show "omap_wf m \<Longrightarrow> omap_wf (set_all_sockets fd m)"
    unfolding set_all_sockets_def by (rule omap_wf_map_snd)
  show "map_of (set_all_sockets fd m) i = map_option (\<lambda>_. fd) (map_of m i)"
    unfolding set_all_sockets_def by (induction m) auto
qed (simp add: set_all_sockets_def)

lemma erase_index_spec:
  assumes "auth_wf t" "erase_index k i fd t = (r, t')"
  shows "auth_wf t'" "r \<longleftrightarrow> app_view t k i = Some fd"
    "app_view t' k' j = (if r \<and> k' = k \<and> j = i then None else app_view t k' j)"
proof -
  show "auth_wf t'"
    using assms auth_wfD [OF assms(1), of k]
    by (auto simp: erase_index_def Let_def auth_wf_put auth_wf_erase omap_wf_erase split: option.splits if_splits)
  show r: "r \<longleftrightarrow> app_view t k i = Some fd"
    using assms(2) by (auto simp: erase_index_def app_view_def Let_def split: option.splits if_splits)
  show "app_view t' k' j = (if r \<and> k' = k \<and> j = i then None else app_view t k' j)"
  proof (cases "map_of t k")
    case None
    then show ?thesis using assms(2) by (simp add: erase_index_def)
  next
    case (Some m)
    define m' where "m' = (if map_of m i = Some fd then omap_erase i m else m)"
    have t': "t' = (if m' = [] then omap_erase k t else omap_put k m' t)" "r \<longleftrightarrow> map_of m i = Some fd"
      using assms(2) Some by (auto simp: erase_index_def m'_def Let_def)
    have "app_view t' k' j = (if k' = k then map_of m' j else app_view t k' j)"
      by (simp add: t'(1) app_view_put app_view_erase)
    with Some show ?thesis by (simp add: t'(2) m'_def app_view_def)
  qed
qed

section \<open>The loops\<close>

definition prune ::
    "((u64, int) omap \<Rightarrow> (u64, int) omap) \<Rightarrow> (string, (u64, int) omap) omap \<Rightarrow> (string, (u64, int) omap) omap" where
  "prune f t = filter (\<lambda>e. snd e \<noteq> []) (map (\<lambda>(k, m). (k, f m)) t)"

lemma erase_stub_loop_prune: "erase_stub_loop i t = prune (omap_erase i) t"
  by (induction i t rule: erase_stub_loop.induct) (auto simp: prune_def Let_def)

lemma erase_socket_loop_prune:
  "erase_socket_loop fd t acc =
     (acc @ concat (map (\<lambda>(k, m). map fst (filter (\<lambda>e. snd e = fd) m)) t),
      prune (filter (\<lambda>e. snd e \<noteq> fd)) t)"
  by (induction fd t acc rule: erase_socket_loop.induct) (auto simp: prune_def Let_def)

lemma prune_wf:
  assumes "auth_wf t" "\<And>m. omap_wf m \<Longrightarrow> omap_wf (f m)"
  shows "auth_wf (prune f t)"
  using assms omap_wf_map_snd [of t "\<lambda>_. f"]
  by (auto simp: auth_wf_def prune_def intro!: omap_wf_filter)

lemma app_view_prune:
  assumes "auth_wf t" "\<And>m. omap_wf m \<Longrightarrow> map_of (f m) i = g (map_of m i)" "g None = None"
  shows "app_view (prune f t) k i = g (app_view t k i)"
proof -
  have "distinct (map fst (map (\<lambda>(k, m). (k, f m)) t))"
    using assms(1) omap_wf_distinct [of t] by (simp add: auth_wf_def case_prod_beta' comp_def)
  then have p: "map_of (prune f t) k =
      (case map_option f (map_of t k) of None \<Rightarrow> None | Some m \<Rightarrow> if m \<noteq> [] then Some m else None)"
    unfolding prune_def using map_of_filter_val [of "map (\<lambda>(k, m). (k, f m)) t" "\<lambda>m. m \<noteq> []" k]
    by (simp add: map_of_map)
  show ?thesis
  proof (cases "map_of t k")
    case None
    with p assms(3) show ?thesis by (simp add: app_view_def)
  next
    case (Some m)
    with auth_wfD [OF assms(1)] have "map_of (f m) i = g (map_of m i)" by (intro assms(2)) blast
    with p Some show ?thesis by (cases "f m = []") (simp_all add: app_view_def)
  qed
qed

lemma erase_stub_spec:
  assumes "auth_wf t"
  shows "auth_wf (erase_stub_loop i t)"
    "app_view (erase_stub_loop i t) k j = (if j = i then None else app_view t k j)"
  unfolding erase_stub_loop_prune
  using assms app_view_prune [OF assms, of "omap_erase i" j "\<lambda>v. if j = i then None else v" k]
  by (auto intro: prune_wf omap_wf_erase)

lemma erase_socket_spec:
  assumes "auth_wf t" "erase_socket_loop fd t [] = (out, t')"
  shows "auth_wf t'" "app_view t' k j = (if app_view t k j = Some fd then None else app_view t k j)"
    "set out = {j. \<exists>k. app_view t k j = Some fd}"
proof -
  have t': "t' = prune (filter (\<lambda>e. snd e \<noteq> fd)) t"
    and out: "out = concat (map (\<lambda>(k, m). map fst (filter (\<lambda>e. snd e = fd) m)) t)"
    using assms(2) by (simp_all add: erase_socket_loop_prune)
  show "auth_wf t'" unfolding t' using assms(1) by (rule prune_wf) (rule omap_wf_filter)
  have "map_of (filter (\<lambda>e. snd e \<noteq> fd) m) j =
      (case map_of m j of None \<Rightarrow> None | Some v \<Rightarrow> if v \<noteq> fd then Some v else None)" if "omap_wf m" for m
    using that by (intro map_of_filter_val omap_wf_distinct)
  from app_view_prune [OF assms(1), where f = "filter (\<lambda>e. snd e \<noteq> fd)" and
      g = "\<lambda>x. case x of None \<Rightarrow> None | Some v \<Rightarrow> if v \<noteq> fd then Some v else None", OF this]
  show "app_view t' k j = (if app_view t k j = Some fd then None else app_view t k j)"
    by (auto simp: t' split: option.splits)
  have "j \<in> set out \<longleftrightarrow> (\<exists>k. app_view t k j = Some fd)" for j
  proof -
    have "j \<in> set out \<longleftrightarrow> (\<exists>k m. (k, m) \<in> set t \<and> (j, fd) \<in> set m)" by (force simp: out)
    also have "\<dots> \<longleftrightarrow> (\<exists>k m. map_of t k = Some m \<and> map_of m j = Some fd)"
      using assms(1) auth_wfD [OF assms(1)] by (metis auth_wf_def omap_wf_map_of_iff)
    also have "\<dots> \<longleftrightarrow> (\<exists>k. app_view t k j = Some fd)"
      by (auto simp: app_view_def split: option.splits)
    finally show ?thesis .
  qed
  then show "set out = {j. \<exists>k. app_view t k j = Some fd}" by blast
qed

section \<open>Reachable tables\<close>

text \<open>The states that the operations on authorisations lead to.\<close>

inductive auth_reachable :: "ipc_skeleton \<Rightarrow> bool" where
  start: "auth_reachable (IPCProcessSkeleton r)"
| attach: "auth_reachable s \<Longrightarrow> auth_reachable (snd (AttachOrUpdateAppAuthInfo a s))"
| detach: "auth_reachable s \<Longrightarrow> auth_reachable (snd (DetachAppAuthInfo a s))"
| by_stub: "auth_reachable s \<Longrightarrow> auth_reachable (DetachAppAuthInfoByStub p i s)"
| by_socket: "auth_reachable s \<Longrightarrow> auth_reachable (snd (DetachAppAuthInfoBySocketId fd s))"
| attach_index: "auth_reachable s \<Longrightarrow> auth_reachable (snd (AttachAppInfoToStubIndex p u t d i fd s))"
| update_index: "auth_reachable s \<Longrightarrow> auth_reachable (snd (AttachAppInfoToStubIndex_update p u t d fd s))"
| detach_index: "auth_reachable s \<Longrightarrow> auth_reachable (snd (DetachAppInfoToStubIndex p u t d i fd s))"
| detach_app: "auth_reachable s \<Longrightarrow> auth_reachable (snd (DetachAppInfoToStubIndex_app p u t d fd s))"
| detach_stub: "auth_reachable s \<Longrightarrow> auth_reachable (DetachAppInfoToStubIndex_stub i s)"
| detach_socket: "auth_reachable s \<Longrightarrow> auth_reachable (snd (DetachAppInfoToStubIndex_socket fd s))"
| attach_comm: "auth_reachable s \<Longrightarrow> auth_reachable (snd (AttachCommAuthInfo st pi ui t d s))"
| detach_comm: "auth_reachable s \<Longrightarrow> auth_reachable (snd (DetachCommAuthInfo st pi ui t d s))"
| comm_by_stub: "auth_reachable s \<Longrightarrow> auth_reachable (DetachCommAuthInfoByStub st s)"
| comm_by_socket: "auth_reachable s \<Longrightarrow> auth_reachable (DetachCommAuthInfoBySocketId fd s)"
| comm_update: "auth_reachable s \<Longrightarrow> auth_reachable (UpdateCommAuthSocketInfo pi ui d fd s)"

lemma auth_wf_attach:
  assumes "auth_wf (appInfoToStubIndex s)"
  shows "auth_wf (appInfoToStubIndex (snd (AttachOrUpdateAppAuthInfo a s)))"
proof (cases "map_of (appInfoToStubIndex s) (aa_key a)")
  case None
  with assms show ?thesis by (auto simp: AttachOrUpdateAppAuthInfo_def Let_def auth_wf_put)
next
  case (Some m)
  with auth_wfD [OF assms] have "omap_wf m" "m \<noteq> []" by blast+
  with assms Some show ?thesis
    by (auto simp: AttachOrUpdateAppAuthInfo_def Let_def auth_wf_put omap_wf_put set_all_sockets_facts)
qed

lemma auth_wf_detach:
  assumes "auth_wf (appInfoToStubIndex s)"
  shows "auth_wf (appInfoToStubIndex (snd (DetachAppAuthInfo a s)))"
    "auth_wf (appInfoToStubIndex (snd (DetachAppInfoToStubIndex p u t d i fd s)))"
  using erase_index_spec(1) [OF assms]
  by (auto simp: DetachAppAuthInfo_def DetachAppInfoToStubIndex_def Let_def assms split: prod.splits)

lemma auth_wf_by_socket:
  assumes "auth_wf (appInfoToStubIndex s)"
  shows "auth_wf (appInfoToStubIndex (snd (DetachAppAuthInfoBySocketId fd s)))"
    "auth_wf (appInfoToStubIndex (snd (DetachAppInfoToStubIndex_socket fd s)))"
  using erase_socket_spec(1) [OF assms]
  by (auto simp: DetachAppAuthInfoBySocketId_def DetachAppInfoToStubIndex_socket_def assms split: prod.splits)

lemma auth_wf_index:
  assumes "auth_wf (appInfoToStubIndex s)"
  shows "auth_wf (appInfoToStubIndex (snd (AttachAppInfoToStubIndex p u t d i fd s)))"
    "auth_wf (appInfoToStubIndex (snd (AttachAppInfoToStubIndex_update p u t d fd s)))"
    "auth_wf (appInfoToStubIndex (snd (DetachAppInfoToStubIndex_app p u t d fd s)))"
proof -
  have "omap_wf m \<and> m \<noteq> []" if "map_of (appInfoToStubIndex s) k = Some m" for k m
    using auth_wfD [OF assms that] .
  then show "auth_wf (appInfoToStubIndex (snd (AttachAppInfoToStubIndex p u t d i fd s)))"
    "auth_wf (appInfoToStubIndex (snd (AttachAppInfoToStubIndex_update p u t d fd s)))"
    "auth_wf (appInfoToStubIndex (snd (DetachAppInfoToStubIndex_app p u t d fd s)))"
    using assms by (auto simp: AttachAppInfoToStubIndex_def AttachAppInfoToStubIndex_update_def
      DetachAppInfoToStubIndex_app_def Let_def auth_wf_put auth_wf_erase omap_wf_put omap_wf_filter
      set_all_sockets_facts split: option.splits)
qed

lemma auth_wf_by_stub:
  assumes "auth_wf (appInfoToStubIndex s)"
  shows "auth_wf (appInfoToStubIndex (DetachAppAuthInfoByStub p i s))"
    "auth_wf (appInfoToStubIndex (DetachAppInfoToStubIndex_stub i s))"
  using assms by (simp_all add: DetachAppAuthInfoByStub_def DetachAppInfoToStubIndex_stub_def erase_stub_spec)

lemma auth_wf_comm:
  "appInfoToStubIndex (snd (AttachCommAuthInfo st pi ui t d s)) = appInfoToStubIndex s"
  "appInfoToStubIndex (snd (DetachCommAuthInfo st pi ui t d s)) = appInfoToStubIndex s"
  "appInfoToStubIndex (DetachCommAuthInfoByStub st s) = appInfoToStubIndex s"
  "appInfoToStubIndex (DetachCommAuthInfoBySocketId fd s) = appInfoToStubIndex s"
  "appInfoToStubIndex (UpdateCommAuthSocketInfo pi ui d fd s) = appInfoToStubIndex s"
  by (simp_all add: AttachCommAuthInfo_def DetachCommAuthInfo_def DetachCommAuthInfoByStub_def
    DetachCommAuthInfoBySocketId_def UpdateCommAuthSocketInfo_def)

lemma reachable_auth_wf: "auth_reachable s \<Longrightarrow> auth_wf (appInfoToStubIndex s)"
  by (induction rule: auth_reachable.induct)
    (simp_all add: auth_wf_attach auth_wf_detach auth_wf_by_socket auth_wf_index auth_wf_by_stub auth_wf_comm
      IPCProcessSkeleton_def)

section \<open>Properties\<close>

text \<open>
  C22. Closing a socket revokes exactly what was granted for it: in any reachable state,
  \<open>DetachAppAuthInfoBySocketId\<close> returns the indexes of all stubs that some application could call
  over the socket, removes those grants and all authorisations of the socket, and leaves every
  other grant and authorisation as it was. No application without stubs stays in the table.
\<close>

theorem socket_close_revokes:
  assumes "auth_reachable s" "\<not> exitFlag s" "DetachAppAuthInfoBySocketId fd s = (out, s')"
  shows "set out = {i. \<exists>k. app_view (appInfoToStubIndex s) k i = Some fd} \<and>
    app_view (appInfoToStubIndex s') k i = (if app_view (appInfoToStubIndex s) k i = Some fd then None
      else app_view (appInfoToStubIndex s) k i) \<and>
    commAuth s' = filter (\<lambda>a. ca_socketId a \<noteq> fd) (commAuth s) \<and>
    (\<forall>m \<in> snd ` set (appInfoToStubIndex s'). m \<noteq> [])"
proof -
  obtain t where t: "erase_socket_loop fd (appInfoToStubIndex s) [] = (out, t)"
      "s' = s\<lparr>commAuth := filter (\<lambda>a. ca_socketId a \<noteq> fd) (commAuth s), appInfoToStubIndex := t\<rparr>"
    using assms(2,3) by (auto simp: DetachAppAuthInfoBySocketId_def split: prod.splits)
  note spec = erase_socket_spec [OF reachable_auth_wf [OF assms(1)] t(1)]
  from spec(1) have "\<forall>m \<in> snd ` set t. m \<noteq> []" by (simp add: auth_wf_def)
  with spec(2,3) t(2) show ?thesis by simp
qed

definition example_app :: "int \<Rightarrow> AppAuthInfo" where
  "example_app fd = \<lparr>aa_pid = 10, aa_uid = 20, aa_tokenId = 30, aa_socketId = fd, aa_stubIndex = 7,
     aa_stub = 8, aa_deviceId = ''dev''\<rparr>"

lemma example_app_attached:
  "appInfoToStubIndex (snd (AttachOrUpdateAppAuthInfo (example_app fd) (IPCProcessSkeleton 1))) =
     [(aa_key (example_app fd), [(7, fd)])]"
  "exitFlag (snd (AttachOrUpdateAppAuthInfo (example_app fd) (IPCProcessSkeleton 1))) = False"
  by (simp_all add: AttachOrUpdateAppAuthInfo_def IPCProcessSkeleton_def example_app_def Let_def)

theorem socket_close_revokes_witness:
  "set (fst (DetachAppAuthInfoBySocketId 4 (snd (AttachOrUpdateAppAuthInfo (example_app 4) (IPCProcessSkeleton 1))))) = {7}"
proof -
  let ?s = "snd (AttachOrUpdateAppAuthInfo (example_app 4) (IPCProcessSkeleton 1))"
  have r: "auth_reachable ?s" by (intro auth_reachable.attach auth_reachable.start)
  obtain out s' where "DetachAppAuthInfoBySocketId 4 ?s = (out, s')" by (cases "DetachAppAuthInfoBySocketId 4 ?s")
  with socket_close_revokes [OF r _ this] show ?thesis
    by (auto simp: example_app_attached app_view_def)
qed

text \<open>
  Destroying a stub revokes exactly the grants of its index, for all applications, and the
  authorisations of the stub.
\<close>

theorem stub_destroy_revokes:
  assumes "auth_reachable s" "\<not> exitFlag s"
  shows "app_view (appInfoToStubIndex (DetachAppAuthInfoByStub stub idx s)) k i =
      (if i = idx then None else app_view (appInfoToStubIndex s) k i) \<and>
    commAuth (DetachAppAuthInfoByStub stub idx s) = filter (\<lambda>a. ca_stub a \<noteq> stub) (commAuth s) \<and>
    (\<forall>m \<in> snd ` set (appInfoToStubIndex (DetachAppAuthInfoByStub stub idx s)). m \<noteq> [])"
  using assms erase_stub_spec [OF reachable_auth_wf [OF assms(1)], of idx]
  by (simp add: DetachAppAuthInfoByStub_def auth_wf_def)

theorem stub_destroy_revokes_witness:
  "app_view (appInfoToStubIndex (DetachAppAuthInfoByStub 8 7
     (snd (AttachOrUpdateAppAuthInfo (example_app 4) (IPCProcessSkeleton 1))))) (aa_key (example_app 4)) 7 = None"
  using stub_destroy_revokes [of "snd (AttachOrUpdateAppAuthInfo (example_app 4) (IPCProcessSkeleton 1))" 8 7
      "aa_key (example_app 4)" 7] auth_reachable.attach [OF auth_reachable.start]
  by (simp add: example_app_attached)

text \<open>
  Granting and revoking one stub. After \<open>AttachOrUpdateAppAuthInfo\<close> for a stub index, the query
  for the same application, index and socket succeeds, and the answer for every other
  application, even one whose device name ends in digits, and for every other index is the one
  from before. \<open>DetachAppAuthInfo\<close> then succeeds and only the granted entry is gone.
\<close>

theorem app_auth_roundtrip:
  assumes "auth_reachable s" "\<not> exitFlag s" "aa_stubIndex a \<noteq> 0"
  shows "\<exists>r s1 s2. AttachOrUpdateAppAuthInfo a s = (r, s1) \<and> QueryAppInfoToStubIndex_app a s1 \<and>
    (\<forall>b. (aa_deviceId b, aa_pid b, aa_uid b, aa_tokenId b) \<noteq> (aa_deviceId a, aa_pid a, aa_uid a, aa_tokenId a) \<or>
       aa_stubIndex b \<noteq> aa_stubIndex a \<longrightarrow>
       QueryAppInfoToStubIndex_app b s1 = QueryAppInfoToStubIndex_app b s) \<and>
    DetachAppAuthInfo a s1 = (True, s2) \<and>
    app_view (appInfoToStubIndex s2) k i =
      (if k = aa_key a \<and> i = aa_stubIndex a then None else app_view (appInfoToStubIndex s) k i)"
proof -
  obtain r s1 where s1: "AttachOrUpdateAppAuthInfo a s = (r, s1)" by (cases "AttachOrUpdateAppAuthInfo a s")
  have live: "\<not> exitFlag s1"
    using s1 assms(2) by (auto simp: AttachOrUpdateAppAuthInfo_def Let_def split: if_splits)
  have v: "app_view (appInfoToStubIndex s1) k i =
      (if k = aa_key a \<and> i = aa_stubIndex a then Some (aa_socketId a) else app_view (appInfoToStubIndex s) k i)"
    for k i
    using s1 assms(2,3)
    by (auto simp: AttachOrUpdateAppAuthInfo_def Let_def app_view_put split: if_splits option.splits)
      (auto simp: app_view_def)
  have wf: "auth_wf (appInfoToStubIndex s1)"
    using auth_wf_attach [OF reachable_auth_wf [OF assms(1)], of a] s1 by simp
  obtain res t where e: "erase_index (aa_key a) (aa_stubIndex a) (aa_socketId a) (appInfoToStubIndex s1) = (res, t)"
    by (cases "erase_index (aa_key a) (aa_stubIndex a) (aa_socketId a) (appInfoToStubIndex s1)")
  have res: "res" using erase_index_spec(2) [OF wf e] v by simp
  let ?s2 = "s1\<lparr>appInfoToStubIndex := t, commAuth := remove_first (aa_same a) (commAuth s1)\<rparr>"
  have "DetachAppAuthInfo a s1 = (True, ?s2)" using e res live by (simp add: DetachAppAuthInfo_def)
  moreover have "app_view (appInfoToStubIndex ?s2) k i =
      (if k = aa_key a \<and> i = aa_stubIndex a then None else app_view (appInfoToStubIndex s) k i)"
    using erase_index_spec(3) [OF wf e, of k i] res v by simp
  moreover have "QueryAppInfoToStubIndex_app a s1"
    using live v by (simp add: QueryAppInfoToStubIndex_app_def index_allowed_view)
  moreover have "QueryAppInfoToStubIndex_app b s1 = QueryAppInfoToStubIndex_app b s"
    if "(aa_deviceId b, aa_pid b, aa_uid b, aa_tokenId b) \<noteq> (aa_deviceId a, aa_pid a, aa_uid a, aa_tokenId a) \<or>
       aa_stubIndex b \<noteq> aa_stubIndex a" for b
  proof -
    have "\<not> (aa_key b = aa_key a \<and> aa_stubIndex b = aa_stubIndex a)"
      using that by (auto simp: aa_key_def app_key_inj)
    then show ?thesis
      using live assms(2) by (auto simp: QueryAppInfoToStubIndex_app_def index_allowed_view v)
  qed
  ultimately show ?thesis using s1 by blast
qed

theorem app_auth_roundtrip_witness:
  "\<exists>r s1. AttachOrUpdateAppAuthInfo (example_app 4) (IPCProcessSkeleton 1) = (r, s1) \<and>
    QueryAppInfoToStubIndex_app (example_app 4) s1 \<and>
    \<not> QueryAppInfoToStubIndex_app ((example_app 4)\<lparr>aa_stubIndex := 9\<rparr>) s1"
proof -
  have "\<not> exitFlag (IPCProcessSkeleton 1)" "aa_stubIndex (example_app 4) \<noteq> 0"
    "aa_stubIndex (example_app 4\<lparr>aa_stubIndex := 9\<rparr>) \<noteq> aa_stubIndex (example_app 4)"
    "\<not> QueryAppInfoToStubIndex_app (example_app 4\<lparr>aa_stubIndex := 9\<rparr>) (IPCProcessSkeleton 1)"
    by (simp_all add: IPCProcessSkeleton_def example_app_def QueryAppInfoToStubIndex_app_def index_allowed_def)
  then show ?thesis
    using app_auth_roundtrip [OF auth_reachable.start, of 1 "example_app 4"] by metis
qed

text \<open>
  Granting twice without a socket leaves an authorisation behind. The second
  \<open>AttachOrUpdateAppAuthInfo\<close> for socket 0 adds a second authorisation for the same stub and
  application; \<open>DetachAppAuthInfo\<close> removes one of the two together with the grant of the index;
  a second \<open>DetachAppAuthInfo\<close> finds no grant and stops, and the application is still reported as
  authorised.
\<close>

theorem repeated_grant_survives_detach:
  assumes "\<not> exitFlag s" "aa_stub a \<noteq> nullptr" "aa_socketId a = 0" "aa_stubIndex a \<noteq> 0"
    and "auth_wf (appInfoToStubIndex s)"
  shows "\<exists>s1 s2 s3 s4. AttachOrUpdateAppAuthInfo a s = (True, s1) \<and>
    AttachOrUpdateAppAuthInfo a s1 = (True, s2) \<and> DetachAppAuthInfo a s2 = (True, s3) \<and>
    DetachAppAuthInfo a s3 = (False, s4) \<and> fst (QueryCommAuthInfo_app a s4)"
proof -
  let ?c = "CommAuthInfo (aa_stub a) (sint (aa_pid a)) (sint (aa_uid a)) (aa_tokenId a) (aa_deviceId a) 0"
  have same: "aa_same a ?c" "IsSameRemoteObject_app (sint (aa_pid a)) (sint (aa_uid a)) (aa_deviceId a) ?c"
    by (simp_all add: aa_same_def IsSameRemoteObject_def IsSameRemoteObject_app_def CommAuthInfo_def)
  have att: "\<exists>r'. AttachOrUpdateAppAuthInfo a r = (True, r') \<and> commAuth r' = ?c # commAuth r \<and>
      \<not> exitFlag r' \<and> app_view (appInfoToStubIndex r') (aa_key a) (aa_stubIndex a) = Some 0 \<and>
      auth_wf (appInfoToStubIndex r')" if "\<not> exitFlag r" "auth_wf (appInfoToStubIndex r)" for r
    using that auth_wf_attach [OF that(2), of a] assms(2-4)
    by (auto simp: AttachOrUpdateAppAuthInfo_def Let_def app_view_put split: option.splits)
  obtain s1 where s1: "AttachOrUpdateAppAuthInfo a s = (True, s1)" "commAuth s1 = ?c # commAuth s"
      "\<not> exitFlag s1" "auth_wf (appInfoToStubIndex s1)"
    using att [OF assms(1,5)] by blast
  obtain s2 where s2: "AttachOrUpdateAppAuthInfo a s1 = (True, s2)" "commAuth s2 = ?c # ?c # commAuth s"
      "\<not> exitFlag s2" "app_view (appInfoToStubIndex s2) (aa_key a) (aa_stubIndex a) = Some 0"
      "auth_wf (appInfoToStubIndex s2)"
    using att [OF s1(3,4)] s1(2) by auto
  obtain res t where e: "erase_index (aa_key a) (aa_stubIndex a) (aa_socketId a) (appInfoToStubIndex s2) = (res, t)"
    by (cases "erase_index (aa_key a) (aa_stubIndex a) (aa_socketId a) (appInfoToStubIndex s2)")
  note spec = erase_index_spec [OF s2(5) e]
  have res: res using spec(2) s2(4) assms(3) by simp
  obtain res' t' where e': "erase_index (aa_key a) (aa_stubIndex a) (aa_socketId a) t = (res', t')"
    by (cases "erase_index (aa_key a) (aa_stubIndex a) (aa_socketId a) t")
  have res': "\<not> res'" using erase_index_spec(2) [OF spec(1) e'] spec(3) res by simp
  let ?s3 = "s2\<lparr>appInfoToStubIndex := t, commAuth := ?c # commAuth s\<rparr>"
  let ?s4 = "?s3\<lparr>appInfoToStubIndex := t'\<rparr>"
  have "DetachAppAuthInfo a s2 = (True, ?s3)"
    using e res s2(2,3) same by (simp add: DetachAppAuthInfo_def)
  moreover have "DetachAppAuthInfo a ?s3 = (False, ?s4)"
    using e' res' s2(3) by (simp add: DetachAppAuthInfo_def)
  moreover have "fst (QueryCommAuthInfo_app a ?s4)"
    using s2(3) same by (simp add: QueryCommAuthInfo_app_def)
  ultimately show ?thesis using s1(1) s2(1) by blast
qed

theorem repeated_grant_survives_detach_witness:
  "\<exists>s1 s2 s3 s4. AttachOrUpdateAppAuthInfo (example_app 0) (IPCProcessSkeleton 1) = (True, s1) \<and>
    AttachOrUpdateAppAuthInfo (example_app 0) s1 = (True, s2) \<and> DetachAppAuthInfo (example_app 0) s2 = (True, s3) \<and>
    DetachAppAuthInfo (example_app 0) s3 = (False, s4) \<and> fst (QueryCommAuthInfo_app (example_app 0) s4)"
  using repeated_grant_survives_detach [of "IPCProcessSkeleton 1" "example_app 0"]
  by (simp add: IPCProcessSkeleton_def example_app_def)

end
