(* ===== verification/Byte_Codec.thy ===== *)
theory Byte_Codec
  imports Ipc_Prelude
begin

text \<open>
  Integers as bytes in little-endian order, as the supported targets store them, and fields at an
  offset of a byte string.
\<close>

fun le_nat :: "bytes \<Rightarrow> nat" where
  "le_nat [] = 0"
| "le_nat (b # bs) = unat b + 256 * le_nat bs"

fun le_bytes :: "nat \<Rightarrow> nat \<Rightarrow> bytes" where
  "le_bytes 0 n = []"
| "le_bytes (Suc k) n = of_nat (n mod 256) # le_bytes k (n div 256)"

definition field :: "nat \<Rightarrow> nat \<Rightarrow> bytes \<Rightarrow> nat" where
  "field off n bs = le_nat (take n (drop off bs))"

lemma length_le_bytes [simp]: "length (le_bytes k n) = k"
  by (induction k arbitrary: n) simp_all

lemma le_nat_le_bytes: "le_nat (le_bytes k n) = n mod 256 ^ k"
proof (induction k arbitrary: n)
  case (Suc k)
  have "unat (of_nat (n mod 256) :: u8) = n mod 256"
    by (simp add: unat_of_nat take_bit_nat_eq_self)
  then show ?case using Suc [of "n div 256"] by (simp add: mod_mult2_eq)
qed simp

lemma field_skip: "length a \<le> off \<Longrightarrow> field off n (a @ b) = field (off - length a) n b"
  by (simp add: field_def)

lemma field_here: "n = k \<Longrightarrow> field 0 n (le_bytes k v @ b) = v mod 256 ^ k"
  by (simp add: field_def le_nat_le_bytes)

text \<open>Words of a whole number of bytes are read back.\<close>

definition word_bytes :: "'a::len word \<Rightarrow> bytes" where
  "word_bytes w = le_bytes (LENGTH('a) div 8) (unat w)"

definition bytes_word :: "bytes \<Rightarrow> 'a::len word" where
  "bytes_word bs = of_nat (le_nat bs)"

lemma length_word_bytes [simp]: "length (word_bytes (w :: 'a::len word)) = LENGTH('a) div 8"
  by (simp add: word_bytes_def)

lemma bytes_word_bytes:
  assumes "8 dvd LENGTH('a)"
  shows "bytes_word (word_bytes w) = (w :: 'a::len word)"
proof -
  have "(2 :: nat) ^ (8 * (LENGTH('a) div 8)) = (2 ^ 8) ^ (LENGTH('a) div 8)" by (rule power_mult)
  then have "(256 :: nat) ^ (LENGTH('a) div 8) = 2 ^ LENGTH('a)" using assms by simp
  then show ?thesis
    using unsigned_less [of w] by (simp add: bytes_word_def word_bytes_def le_nat_le_bytes)
qed

end
