(* ===== verification/Databus_Wire.thy ===== *)
theory Databus_Wire
  imports Skeleton_State Byte_Codec
begin

text \<open>
  What goes over a databus socket: transactions with their header (\<open>dbinder_transaction_data\<close> of
  \<open>sys_binder.h\<close>), the checks and the splitting of received bytes into packages
  (\<open>dbinder_databus_invoker.cpp\<close>, \<open>dbinder_base_invoker_interface.h\<close>), the flattened form of a
  session, and the socket names that carry user and process numbers.

  The header is read from the received bytes in the little-endian layout of the supported
  targets; it has 64 bytes, the payload follows. The flattened session is the struct that both
  sides share and is kept as a record with its character arrays. Sizes are numbers: a message
  has at most 128 MiB, so that no 32-bit size wraps.
\<close>

section \<open>Header\<close>

record dbinder_transaction_data =
  sizeOfSelf :: nat
  magic :: nat
  version :: nat
  cmd :: nat
  code :: nat
  flags :: nat
  cookie :: nat
  tr_seqNumber :: nat
  buffer_size :: nat
  offsets_size :: nat
  offsets :: nat

definition header_of :: "bytes \<Rightarrow> dbinder_transaction_data" where
  "header_of bs = \<lparr>sizeOfSelf = field 0 4 bs, magic = field 4 4 bs, version = field 8 4 bs,
     cmd = field 12 4 bs, code = field 16 4 bs, flags = field 20 4 bs, cookie = field 24 8 bs,
     tr_seqNumber = field 32 8 bs, buffer_size = field 40 8 bs, offsets_size = field 48 8 bs,
     offsets = field 56 8 bs\<rparr>"

definition header_bytes :: "dbinder_transaction_data \<Rightarrow> bytes" where
  "header_bytes h = le_bytes 4 (sizeOfSelf h) @ le_bytes 4 (magic h) @ le_bytes 4 (version h) @
     le_bytes 4 (cmd h) @ le_bytes 4 (code h) @ le_bytes 4 (flags h) @ le_bytes 8 (cookie h) @
     le_bytes 8 (tr_seqNumber h) @ le_bytes 8 (buffer_size h) @ le_bytes 8 (offsets_size h) @
     le_bytes 8 (offsets h)"

abbreviation (input) HEADER_SIZE :: nat where
  "HEADER_SIZE \<equiv> 64"

abbreviation (input) SOCKET_MAX_BUFF_SIZE :: nat where
  "SOCKET_MAX_BUFF_SIZE \<equiv> 1048576"

abbreviation (input) MAX_RAWDATA_SIZE :: nat where
  "MAX_RAWDATA_SIZE \<equiv> 134217728"

abbreviation (input) DBINDER_MAGICWORD :: nat where
  "DBINDER_MAGICWORD \<equiv> 0x4442494E"

text \<open>\<open>_IOW('c', 20, __u32)\<close>\<close>

abbreviation (input) BC_SEND_RAWDATA :: nat where
  "BC_SEND_RAWDATA \<equiv> 0x40046314"

text \<open>\<open>sizeof(FlatDBinderSession)\<close> and \<open>sizeof(binder_size_t)\<close>\<close>

abbreviation (input) FLAT_SESSION_LEN :: nat where
  "FLAT_SESSION_LEN \<equiv> 280"

definition TF_STATUS_CODE :: "dbinder_transaction_data \<Rightarrow> bool" where
  "TF_STATUS_CODE tr \<longleftrightarrow> flags tr div 8 mod 2 = 1"

definition CheckTransactionData :: "dbinder_transaction_data \<Rightarrow> bool" where
  "CheckTransactionData tr =
     (if sizeOfSelf tr = 0 \<or> sizeOfSelf tr > SOCKET_MAX_BUFF_SIZE \<or>
         buffer_size tr > SOCKET_MAX_BUFF_SIZE \<or> buffer_size tr = 0 \<or>
         offsets tr \<noteq> buffer_size tr \<or> sizeOfSelf tr < HEADER_SIZE + buffer_size tr then False
      else if TF_STATUS_CODE tr \<and> offsets tr \<noteq> 8 then False
      else if \<not> TF_STATUS_CODE tr then
        (if offsets_size tr > sizeOfSelf tr - HEADER_SIZE - buffer_size tr then False
         else (sizeOfSelf tr - buffer_size tr - HEADER_SIZE - offsets_size tr) * 8 =
              offsets_size tr * FLAT_SESSION_LEN)
      else True)"

section \<open>Splitting received bytes\<close>

definition HasRawDataPackage :: "bytes \<Rightarrow> nat" where
  "HasRawDataPackage data =
     (if length data < HEADER_SIZE then 0
      else
        (let tr = header_of data in
         if magic tr = DBINDER_MAGICWORD \<and> cmd tr = BC_SEND_RAWDATA \<and> sizeOfSelf tr = length data
         then (if sizeOfSelf tr > MAX_RAWDATA_SIZE then MAX_RAWDATA_SIZE else sizeOfSelf tr)
         else 0))"

definition HasCompletePackage :: "bytes \<Rightarrow> nat \<Rightarrow> nat" where
  "HasCompletePackage data readCursor =
     (if length data \<le> readCursor \<or> length data - readCursor < HEADER_SIZE then 0
      else
        (let tr = header_of (drop readCursor data) in
         if magic tr = DBINDER_MAGICWORD \<and> sizeOfSelf tr \<le> SOCKET_MAX_BUFF_SIZE + HEADER_SIZE \<and>
            length data - readCursor \<ge> sizeOfSelf tr \<and> CheckTransactionData tr
         then sizeOfSelf tr else 0))"

lemma HasCompletePackage_bounds:
  "0 < HasCompletePackage data r \<Longrightarrow>
   HEADER_SIZE < HasCompletePackage data r \<and> r + HasCompletePackage data r \<le> length data"
  by (auto simp: HasCompletePackage_def CheckTransactionData_def Let_def split: if_splits)

text \<open>The loop of \<open>OnMessageAvailable\<close>: the packages that are handed to \<open>StartProcessLoop\<close>, in order.\<close>

function message_loop :: "bytes \<Rightarrow> nat \<Rightarrow> bytes list" where
  "message_loop data readSize =
     (let packageSize = HasCompletePackage data readSize in
      if packageSize > 0 then
        take packageSize (drop readSize data) #
        (if readSize + packageSize + HEADER_SIZE < length data
         then message_loop data (readSize + packageSize) else [])
      else [])"
  by pat_completeness auto
termination
  by (relation "measure (\<lambda>(data, r). length data - r)") (auto dest: HasCompletePackage_bounds)

declare message_loop.simps [simp del]

datatype delivery = RawPackage nat bytes | Packages "bytes list"

text \<open>
  \<open>OnMessageAvailable\<close> up to what it hands on: nothing, one package of raw data with its sequence
  number, or a list of packages. \<open>None\<close> is the null pointer.
\<close>

definition OnMessageAvailable :: "int \<Rightarrow> bytes option \<Rightarrow> delivery option" where
  "OnMessageAvailable socketId data =
     (case data of
        None \<Rightarrow> None
      | Some bs \<Rightarrow>
          if socketId \<le> 0 \<or> length bs > MAX_RAWDATA_SIZE \<or> length bs < HEADER_SIZE then None
          else
            (let packageSize = HasRawDataPackage bs in
             if packageSize > 0 then Some (RawPackage (tr_seqNumber (header_of bs)) (take packageSize bs))
             else Some (Packages (message_loop bs 0))))"

section \<open>Flattened sessions\<close>

abbreviation (input) DEVICEID_LENGTH :: nat where
  "DEVICEID_LENGTH \<equiv> 64"

abbreviation (input) SUPPORT_TOKENID_SERVICENAME_LENGTH :: nat where
  "SUPPORT_TOKENID_SERVICENAME_LENGTH \<equiv> 64"

abbreviation (input) SUPPORT_TOKENID_VERSION_NUM :: u32 where
  "SUPPORT_TOKENID_VERSION_NUM \<equiv> 2"

abbreviation (input) TOKENID_MAGIC :: u32 where
  "TOKENID_MAGIC \<equiv> 0x544F4B49"

record FlatDBinderSession =
  f_stubIndex :: u64
  f_deviceIdLength :: u16
  f_serviceNameLength :: u16
  f_deviceId :: bytes
  f_serviceName :: bytes
  f_version :: u16
  f_magic :: u32
  f_tokenId :: u32

definition zero_flat :: FlatDBinderSession where
  "zero_flat = \<lparr>f_stubIndex = 0, f_deviceIdLength = 0, f_serviceNameLength = 0,
     f_deviceId = replicate (DEVICEID_LENGTH + 1) 0,
     f_serviceName = replicate (SUPPORT_TOKENID_SERVICENAME_LENGTH + 1) 0,
     f_version = 0, f_magic = 0, f_tokenId = 0\<rparr>"

definition str_bytes :: "string \<Rightarrow> bytes" where
  "str_bytes s = map (\<lambda>c. of_nat (of_char c)) s"

definition bytes_str :: "bytes \<Rightarrow> string" where
  "bytes_str bs = map (\<lambda>b. char_of (unat b)) bs"

text \<open>A \<open>std::string\<close> made from a character array ends at the first null.\<close>

definition array_str :: "bytes \<Rightarrow> string" where
  "array_str bs = bytes_str (takeWhile (\<lambda>b. b \<noteq> 0) bs)"

text \<open>
  One of the two texts: its length in 16 bits, and the array after the copy and the terminating
  null; \<open>None\<close> when the length or the copy is refused.
\<close>

definition flatten_text :: "libc \<Rightarrow> nat \<Rightarrow> string \<Rightarrow> bytes \<Rightarrow> (u16 \<times> bytes) option" where
  "flatten_text L bound s arr =
     (let len = (of_nat (length s) :: u16) in
      if len = 0 \<or> unat len > bound then None
      else (case memcpy_s L arr 0 bound (str_bytes s) (unat len) of (err, arr') \<Rightarrow>
        if err \<noteq> 0 then None else Some (len, arr'[unat len := 0])))"

text \<open>The size is 0 when the session cannot be flattened.\<close>

definition FlattenSession :: "libc \<Rightarrow> session_object \<Rightarrow> u32 \<Rightarrow> nat \<times> FlatDBinderSession option" where
  "FlattenSession L o1 binderVersion =
     (let flat = zero_flat\<lparr>f_stubIndex := so_stubIndex o1, f_version := ucast binderVersion,
                  f_magic := TOKENID_MAGIC, f_tokenId := so_tokenId o1\<rparr> in
      case flatten_text L DEVICEID_LENGTH (serverDeviceId o1) (f_deviceId flat) of
        None \<Rightarrow> (0, None)
      | Some (dlen, d) \<Rightarrow>
          (case flatten_text L SUPPORT_TOKENID_SERVICENAME_LENGTH (serviceName o1) (f_serviceName flat) of
             None \<Rightarrow> (0, None)
           | Some (slen, n) \<Rightarrow>
               (FLAT_SESSION_LEN, Some (flat\<lparr>f_deviceIdLength := dlen, f_deviceId := d,
                  f_serviceNameLength := slen, f_serviceName := n\<rparr>))))"

definition UnFlattenSession :: "FlatDBinderSession \<Rightarrow> u32 \<Rightarrow> session_object option" where
  "UnFlattenSession flat binderVersion =
     (if f_stubIndex flat = 0 then None
      else
        (let tokenId = (if binderVersion \<ge> SUPPORT_TOKENID_VERSION_NUM \<and>
                           ucast (f_version flat) \<ge> SUPPORT_TOKENID_VERSION_NUM \<and>
                           f_magic flat = TOKENID_MAGIC
                        then f_tokenId flat else 0);
             d = (f_deviceId flat)[DEVICEID_LENGTH := 0];
             n = (f_serviceName flat)[SUPPORT_TOKENID_SERVICENAME_LENGTH := 0]
         in Some (DBinderSessionObject (array_str n) (array_str d) (f_stubIndex flat) nullptr tokenId)))"

section \<open>Socket names\<close>

text \<open>\<open>std::from_chars\<close> for \<open>int32_t\<close>: an optional minus sign and digits; what follows is ignored.\<close>

definition from_chars_int32 :: "string \<Rightarrow> int option" where
  "from_chars_int32 s =
     (let neg = (case s of c # _ \<Rightarrow> c = CHR ''-'' | [] \<Rightarrow> False);
          ds = takeWhile is_digit (if neg then tl s else s);
          v = (if neg then - int (str_nat ds) else int (str_nat ds))
      in if ds = [] then None
         else if v < - 2147483648 \<or> v > 2147483647 then None
         else Some v)"

text \<open>The result is the pair of process and user number.\<close>

definition GetPidAndUidFromServiceName :: "string \<Rightarrow> (int \<times> int) option" where
  "GetPidAndUidFromServiceName name =
     (if length name \<le> length ''DBinder'' then None
      else
        (let str = drop (length ''DBinder'') name in
         if CHR ''_'' \<notin> set str then None
         else
           (let uidStr = takeWhile (\<lambda>c. c \<noteq> CHR ''_'') str;
                pidStr = drop (length uidStr + 1) str
            in case from_chars_int32 uidStr of
                 None \<Rightarrow> None
               | Some uid \<Rightarrow> (case from_chars_int32 pidStr of
                   None \<Rightarrow> None
                 | Some pid \<Rightarrow> Some (pid, uid)))))"

text \<open>\<open>granted\<close> is the answer of \<open>DBinderGrantPermission\<close>.\<close>

definition CreateSessionName :: "bool \<Rightarrow> int \<Rightarrow> int \<Rightarrow> string" where
  "CreateSessionName granted uid pid =
     (let name = ''DBinder'' @ int_str uid @ ''_'' @ int_str pid in
      if granted then name else [])"

end
