(* ===== verification/Process_Skeleton_Proofs.thy ===== *)
theory Process_Skeleton_Proofs
  imports Process_Skeleton
begin

text \<open>
  Correctness of \<open>ProcessSkeleton\<close>: its two per-key tables meet the contract of assigning tables,
  the descriptor table follows object replacement, the counters behave, and the text helpers
  invert the printing of numbers and bytes.
\<close>

section \<open>The tables\<close>

lemma invoker_key_inj: "invoker_key k = invoker_key k' \<longleftrightarrow> k = k'"
proof
  assume "invoker_key k = invoker_key k'"
  then have "int_str (fst k) = int_str (fst k') \<and>
      int_str (if snd k then 1 else 0) = int_str (if snd k' then 1 else 0)"
    unfolding invoker_key_def by (rule separated_inj [OF int_str_no_underscore int_str_no_underscore])
  then show "k = k'" by (auto simp: prod_eq_iff split: if_splits)
qed simp

interpretation vo: assign_table validObjectRecord "\<lambda>s. \<not> ps_exitFlag s" AttachValidObject
  "\<lambda>k s. snd (DetachValidObject k s)"
  by unfold_locales
    (auto simp: AttachValidObject_def DetachValidObject_def fun_eq_iff split: option.splits)

interpretation ip: assign_table "\<lambda>s k. invokerProcInfo s (invoker_key k)" "\<lambda>s. \<not> ps_exitFlag s"
  AttachInvokerProcInfo "\<lambda>k s. snd (DetachInvokerProcInfo k s)"
  by unfold_locales
    (auto simp: AttachInvokerProcInfo_def DetachInvokerProcInfo_def invoker_key_inj fun_eq_iff
      split: option.splits)

section \<open>Objects by descriptor\<close>

lemma attach_effects:
  assumes "\<not> ps_exitFlag s" "\<not> (lock \<and> objMutex s)" "d \<noteq> []"
  shows "\<exists>calls s'. AttachObject isProxy p d lock s = Some (True, calls, s') \<and>
    objects s' = (objects s)(d \<mapsto> p) \<and> objMutex s' = objMutex s \<and> ps_exitFlag s' = ps_exitFlag s \<and>
    proxyObjectCountNum s' = proxyObjectCountNum s + (if isProxy p then 1 else 0) \<and>
    validObjectRecord s' = validObjectRecord s"
  using assms by (cases "isProxy p") (auto simp: AttachObject_def Let_def)

lemma attach_query:
  assumes "\<not> ps_exitFlag s" "\<not> objMutex s" "d \<noteq> []" "p \<noteq> nullptr"
    and "validObjectRecord s p \<noteq> None" "inc p"
  shows "\<exists>calls s'. AttachObject isProxy p d True s = Some (True, calls, s') \<and>
    QueryObject inc d True s' = Some p"
proof -
  from assms(1-3) have "\<not> (True \<and> objMutex s)" by simp
  from attach_effects [OF assms(1) this assms(3), of isProxy p]
  obtain calls s' where "AttachObject isProxy p d True s = Some (True, calls, s')"
    "objects s' = (objects s)(d \<mapsto> p)" "objMutex s' = objMutex s" "ps_exitFlag s' = ps_exitFlag s"
    "validObjectRecord s' = validObjectRecord s" by blast
  with assms show ?thesis by (auto simp: QueryObject_def IsValidObject_def)
qed

lemma detach_effects:
  assumes "\<not> ps_exitFlag s" "\<not> objMutex s"
  shows "\<exists>r s'. DetachObject isProxy p d s = Some (r, s') \<and> (r \<longleftrightarrow> objects s d \<noteq> None) \<and>
    objects s' = (if isProxy p \<and> objects s d \<noteq> Some p then objects s else (objects s)(d := None)) \<and>
    objMutex s' = objMutex s \<and> ps_exitFlag s' = ps_exitFlag s \<and>
    proxyObjectCountNum s' =
      proxyObjectCountNum s - (if isProxy p \<and> objects s d \<noteq> None then 1 else 0)"
  using assms by (cases "objects s d") (auto simp: DetachObject_def Let_def fun_eq_iff)

section \<open>Counters\<close>

text \<open>\<open>n\<close> further reports of the error that was reported last.\<close>

fun print_run :: "nat \<Rightarrow> int \<Rightarrow> int \<Rightarrow> bool list \<times> int" where
  "print_run 0 err cnt = ([], cnt)"
| "print_run (Suc n) err cnt =
     (case IsPrint err err cnt of (p, _, cnt') \<Rightarrow>
        (case print_run n err cnt' of (ps, c) \<Rightarrow> (p # ps, c)))"

lemma print_run_below:
  "0 \<le> cnt \<Longrightarrow> cnt + int n \<le> INT_MAX \<Longrightarrow>
   print_run n err cnt = (map (\<lambda>i. (cnt + int i + 1) mod 100 = 0) [0..<n], cnt + int n)"
proof (induction n arbitrary: cnt)
  case (Suc n)
  have "map (\<lambda>i. (cnt + int i + 1) mod 100 = 0) [0..<Suc n] =
      ((cnt + 1) mod 100 = 0) # map (\<lambda>i. (cnt + 1 + int i + 1) mod 100 = 0) [0..<n]"
    by (subst upt_conv_Cons) (auto simp: map_Suc_upt [symmetric] algebra_simps simp del: upt_Suc)
  with Suc show ?case by (simp add: IsPrint_def Let_def algebra_simps del: upt_Suc)
qed simp

lemma IsPrint_cnt_bounds:
  "0 \<le> cnt \<Longrightarrow> cnt \<le> INT_MAX \<Longrightarrow> IsPrint err lastErr cnt = (p, e, c) \<Longrightarrow> 0 \<le> c \<and> c \<le> INT_MAX"
  by (auto simp: IsPrint_def Let_def split: if_splits)

section \<open>Text\<close>

lemma nonzero_chars: "is_digit c \<Longrightarrow> of_char c \<noteq> (0 :: nat)"
  by (simp add: is_digit_def)

lemma digit_not_space: "is_digit c \<Longrightarrow> \<not> is_space c"
  by (auto simp: is_digit_def is_space_def)

lemma c_str_nat_str [simp]: "c_str (nat_str n) = nat_str n"
  using nat_str_digits nonzero_chars by (auto simp: c_str_def takeWhile_eq_all_conv)

lemma c_str_minus [simp]: "c_str (CHR ''-'' # nat_str n) = CHR ''-'' # nat_str n"
  using c_str_nat_str by (simp add: c_str_def)

lemma c_str_int_str [simp]: "c_str (int_str i) = int_str i"
  using c_str_nat_str by (simp add: int_str_def c_str_def)

lemma takeWhile_nat_str: "takeWhile is_digit (nat_str n) = nat_str n"
  "dropWhile is_digit (nat_str n) = []"
  using nat_str_digits by (auto simp: takeWhile_eq_all_conv dropWhile_eq_Nil_conv)

lemma scan_digits: "scan_integer (nat_str n) = (False, nat_str n, [])"
proof (cases "nat_str n")
  case (Cons c r)
  then have "is_digit c" using nat_str_digits [of c n] by simp
  moreover from this have "c \<noteq> CHR ''-''" "c \<noteq> CHR ''+''" by (auto simp: is_digit_def)
  ultimately show ?thesis
    using Cons takeWhile_nat_str [of n] digit_not_space by (simp add: scan_integer_def Let_def)
qed simp

lemma scan_minus: "scan_integer (CHR ''-'' # nat_str n) = (True, nat_str n, [])"
  using takeWhile_nat_str [of n] by (simp add: scan_integer_def is_space_def Let_def)

lemma length_hex_loop: "length (hex_loop bs) = 2 * length bs"
  by (induction bs rule: hex_loop.induct) simp_all

lemma hexTable_inj:
  assumes "a < 16" "b < 16" "hexTable a = hexTable b"
  shows "a = b"
proof -
  have "distinct ''0123456789ABCDEF''" by simp
  with assms show ?thesis by (simp add: hexTable_def nth_eq_iff_index_eq)
qed

lemma nibbles_inj:
  fixes a b :: u8
  assumes "and (drop_bit 4 a) 15 = and (drop_bit 4 b) 15" "and a 15 = and b 15"
  shows "a = b"
proof (rule bit_word_eqI)
  fix n assume "n < LENGTH(8)"
  have m: "(15 :: u8) = mask 4" by (simp add: mask_eq_exp_minus_1)
  show "bit a n = bit b n"
  proof (cases "n < 4")
    case True
    have "bit (and a 15) n = bit (and b 15) n" using assms(2) by simp
    with True show ?thesis by (simp add: m bit_simps)
  next
    case False
    have "bit (and (drop_bit 4 a) 15) (n - 4) = bit (and (drop_bit 4 b) 15) (n - 4)"
      using assms(1) by simp
    moreover have "n - 4 < 4" "n - 4 < 8" using False \<open>n < LENGTH(8)\<close> by simp_all
    ultimately show ?thesis using False by (simp add: m bit_simps)
  qed
qed

lemma nibble_bound: "unat (and (x :: u8) 15) < 16"
proof -
  have "and x 15 \<le> 15" by (rule word_and_le1)
  then show ?thesis by (simp add: word_le_nat_alt)
qed

lemma hex_loop_inj: "hex_loop as = hex_loop bs \<longleftrightarrow> as = bs"
proof (induction as arbitrary: bs)
  case Nil
  then show ?case by (cases bs) simp_all
next
  case (Cons a as)
  show ?case
  proof (cases bs)
    case Nil
    then show ?thesis by simp
  next
    case (Cons b bs')
    have "unat (and (drop_bit 4 a) 15) = unat (and (drop_bit 4 b) 15) \<and> unat (and a 15) = unat (and b 15) \<Longrightarrow> a = b"
      using nibbles_inj by (metis word_unat_eq_iff)
    then show ?thesis
      using Cons.IH [of bs'] hexTable_inj [OF nibble_bound nibble_bound] by (auto simp: Cons)
  qed
qed

section \<open>Properties\<close>

text \<open>
  Whatever calls of \<open>AttachInvokerProcInfo\<close> and \<open>DetachInvokerProcInfo\<close> the threads of a live
  process make, and in whatever order, a query returns what a map keyed by the pair of thread
  number and locality holds after the same calls: the textual keys never make two threads share
  an entry, and a later attachment replaces the earlier one.
\<close>

theorem invoker_info_per_thread:
  assumes "\<not> ps_exitFlag s"
  shows "QueryInvokerProcInfo k
      (fold (table_step AttachInvokerProcInfo (\<lambda>k s. snd (DetachInvokerProcInfo k s))) cs s) =
    fold assign_spec cs (\<lambda>k. QueryInvokerProcInfo k s) k"
  using fun_cong [OF ip.run_refines [OF assms, of cs], of k] ip.live_run [of cs s] assms
  by (simp add: QueryInvokerProcInfo_def)

definition example_caller :: "int \<Rightarrow> InvokerProcInfo" where
  "example_caller p = \<lparr>ipi_pid = p, ipi_realPid = p, ipi_uid = 0, ipi_tokenId = 0,
     ipi_firstTokenId = 0, ipi_sid = [], ipi_invoker = 0\<rparr>"

theorem invoker_info_per_thread_witness:
  "QueryInvokerProcInfo (12, True)
     (fold (table_step AttachInvokerProcInfo (\<lambda>k s. snd (DetachInvokerProcInfo k s)))
       [Add (12, True) (example_caller 5), Add (12, False) (example_caller 6),
        Add (1, True) (example_caller 7), Remove (1, True)] ProcessSkeleton_init) =
   Some (example_caller 5)"
  by (subst invoker_info_per_thread) (simp_all add: ProcessSkeleton_init_def QueryInvokerProcInfo_def)

text \<open>
  When a proxy is recorded under a descriptor and a newer object replaces it, the late
  \<open>DetachObject\<close> of the old proxy leaves the record of the new object in place: a query for the
  descriptor still returns the new object, as long as that is valid and can be promoted.
\<close>

theorem late_detach_keeps_replacement:
  assumes "\<not> ps_exitFlag s" "\<not> objMutex s" "d \<noteq> []" "p \<noteq> q" "q \<noteq> nullptr" "isProxy p"
    and "validObjectRecord s q \<noteq> None" "inc q"
  shows "\<exists>c1 s1 c2 s2 s3.
    AttachObject isProxy p d True s = Some (True, c1, s1) \<and>
    AttachObject isProxy q d True s1 = Some (True, c2, s2) \<and>
    DetachObject isProxy p d s2 = Some (True, s3) \<and>
    QueryObject inc d True s3 = Some q \<and> proxyObjectCountNum s3 =
      proxyObjectCountNum s + (if isProxy q then 1 else 0)"
  using assms by (auto simp: AttachObject_def DetachObject_def QueryObject_def IsValidObject_def Let_def
    split: option.splits)

theorem late_detach_keeps_replacement_witness:
  "\<exists>c1 s1 c2 s2 s3.
    AttachObject (\<lambda>_. True) 8 [1] True (ProcessSkeleton_init\<lparr>validObjectRecord := [16 \<mapsto> [1]]\<rparr>) =
      Some (True, c1, s1) \<and>
    AttachObject (\<lambda>_. True) 16 [1] True s1 = Some (True, c2, s2) \<and>
    DetachObject (\<lambda>_. True) 8 [1] s2 = Some (True, s3) \<and>
    QueryObject (\<lambda>_. True) [1] True s3 = Some 16 \<and> proxyObjectCountNum s3 = 1"
  using late_detach_keeps_replacement
    [of "ProcessSkeleton_init\<lparr>validObjectRecord := [16 \<mapsto> [1]]\<rparr>" "[1]" 8 16 "\<lambda>_. True" "\<lambda>_. True"]
  by (simp add: ProcessSkeleton_init_def)

text \<open>
  The proxy counter does not follow the number of proxies when two of them share a
  descriptor. After the second has replaced the first and is detached, the descriptor has no
  record any more; the detachment of the first then reports failure and does not count, so that
  one proxy too many stays counted towards the limit of \<open>SetIPCProxyLimit\<close>.
\<close>

theorem proxy_count_drifts:
  assumes "\<not> ps_exitFlag s" "\<not> objMutex s" "d \<noteq> []" "isProxy p" "isProxy q"
  shows "\<exists>c1 s1 c2 s2 s3 s4.
    AttachObject isProxy p d True s = Some (True, c1, s1) \<and>
    AttachObject isProxy q d True s1 = Some (True, c2, s2) \<and>
    DetachObject isProxy q d s2 = Some (True, s3) \<and>
    DetachObject isProxy p d s3 = Some (False, s4) \<and>
    objects s4 d = None \<and> proxyObjectCountNum s4 = proxyObjectCountNum s + 1"
  using assms by (auto simp: AttachObject_def DetachObject_def Let_def split: option.splits)

theorem proxy_count_drifts_witness:
  "\<exists>c1 s1 c2 s2 s3 s4.
    AttachObject (\<lambda>_. True) 8 [1] True ProcessSkeleton_init = Some (True, c1, s1) \<and>
    AttachObject (\<lambda>_. True) 16 [1] True s1 = Some (True, c2, s2) \<and>
    DetachObject (\<lambda>_. True) 16 [1] s2 = Some (True, s3) \<and>
    DetachObject (\<lambda>_. True) 8 [1] s3 = Some (False, s4) \<and>
    objects s4 [1] = None \<and> proxyObjectCountNum s4 = 1"
  using proxy_count_drifts [of ProcessSkeleton_init "[1]" "\<lambda>_. True" 8 16]
  by (simp add: ProcessSkeleton_init_def)

text \<open>
  Reading back a printed number. \<open>StrToInt32\<close> returns every printed integer in the range of
  \<open>int32_t\<close> and refuses every other one, those beyond \<open>long long\<close> included; \<open>StrToUint64\<close>
  returns every printed number below \<open>2 ^ 64\<close>, refuses every larger one, and accepts a minus sign,
  for which it returns the negated value modulo \<open>2 ^ 64\<close>.
\<close>

theorem str_to_number_reads_back:
  "StrToInt32 (int_str i) = (if - 2147483648 \<le> i \<and> i \<le> 2147483647 then Some i else None) \<and>
   StrToUint64 (nat_str n) = (if n < 18446744073709551616 then Some (of_nat n) else None) \<and>
   StrToUint64 (CHR ''-'' # nat_str n) =
     (if n < 18446744073709551616 then Some (- of_nat n) else None)"
  by (auto simp: StrToInt32_def StrToUint64_def int_str_def scan_digits scan_minus str_nat_nat_str Let_def)

text \<open>
  \<open>ConvertBytesToHexString\<close> prints two characters per byte and loses nothing: two byte
  strings with the same print are equal.
\<close>

theorem hex_string_faithful:
  "length (ConvertBytesToHexString (Some as)) = 2 * length as \<and>
   (ConvertBytesToHexString (Some as) = ConvertBytesToHexString (Some bs)) = (as = bs)"
  by (simp add: ConvertBytesToHexString_def length_hex_loop hex_loop_inj)

text \<open>
  \<open>GetSubStr\<close> returns exactly the requested part of a non-empty string when it lies inside,
  and false when it does not, provided that offset and length do not wrap; when their sum wraps,
  the bound check passes and the call of \<open>substr\<close> throws.
\<close>

theorem get_sub_str_contract:
  assumes "str \<noteq> []" "length str < 18446744073709551616"
  shows "(unat off + unat len < 18446744073709551616 \<longrightarrow> GetSubStr str off len =
       Inr (if unat off + unat len \<le> length str
            then Some (take (unat len) (drop (unat off) str)) else None)) \<and>
    (unat off + unat len \<ge> 18446744073709551616 \<longrightarrow>
       unat off + unat len - 18446744073709551616 \<le> length str \<longrightarrow> length str < unat off \<longrightarrow>
       GetSubStr str off len = Inl OutOfRange)"
proof -
  have bounds: "unat off < 18446744073709551616" "unat len < 18446744073709551616"
    using unsigned_less [of off] unsigned_less [of len] by simp_all
  have l: "unat (of_nat (length str) :: u64) = length str"
    using assms(2) by (simp add: unat_of_nat take_bit_nat_eq_self)
  have "unat off + unat len < 18446744073709551616 \<Longrightarrow> unat (off + len) = unat off + unat len"
    by (simp add: unat_word_ariths)
  moreover have "unat off + unat len \<ge> 18446744073709551616 \<Longrightarrow>
      unat (off + len) = unat off + unat len - 18446744073709551616"
    using bounds
    by (simp add: unat_word_ariths le_mod_geq)
  ultimately show ?thesis
    using assms by (auto simp: GetSubStr_def word_less_nat_alt l)
qed

theorem get_sub_str_contract_witness:
  "GetSubStr ''abcdef'' 2 3 = Inr (Some ''cde'') \<and>
   GetSubStr ''abcdef'' 18446744073709551615 1 = Inl OutOfRange"
  using get_sub_str_contract [of "''abcdef''" 2 3]
    get_sub_str_contract [of "''abcdef''" 18446744073709551615 1]
  by simp

text \<open>
  Log throttling: after an error that differs from the last one has been printed, of the
  next \<open>n\<close> reports of the same error exactly every hundredth is printed, as long as the counter
  stays in the range of \<open>int\<close>; and at the end of the range the counter starts again at one,
  without leaving the range.
\<close>

theorem print_every_hundredth:
  assumes "err \<noteq> lastErr" "int n \<le> INT_MAX"
  shows "\<exists>c. IsPrint err lastErr cnt = (True, err, c) \<and>
    fst (print_run n err c) = map (\<lambda>i. (i + 1) mod 100 = 0) [0..<n] \<and>
    IsPrint err err INT_MAX = (False, err, 1)"
proof -
  have "(int i + 1) mod 100 = 0 \<longleftrightarrow> (i + 1) mod 100 = 0" for i :: nat
    by presburger
  then show ?thesis
    using assms print_run_below [of 0 n err] by (simp add: IsPrint_def del: upt_Suc)
qed

theorem print_every_hundredth_witness:
  "fst (print_run 3 5 0) = [False, False, False]"
  using print_every_hundredth [of 5 0 3 0] by (auto simp: IsPrint_def upt_rec)

end
