(* ===== verification/Databus_Wire_Proofs.thy ===== *)
theory Databus_Wire_Proofs
  imports Databus_Wire Process_Skeleton_Proofs
begin

text \<open>
  Correctness of the wire format: headers, flattened sessions and socket names are read back as
  they were written, and a stream of packages is split into exactly these packages.
\<close>

section \<open>Headers\<close>

definition header_ok :: "dbinder_transaction_data \<Rightarrow> bool" where
  "header_ok h \<longleftrightarrow> sizeOfSelf h < 2 ^ 32 \<and> magic h < 2 ^ 32 \<and> version h < 2 ^ 32 \<and> cmd h < 2 ^ 32 \<and>
     code h < 2 ^ 32 \<and> flags h < 2 ^ 32 \<and> cookie h < 2 ^ 64 \<and> tr_seqNumber h < 2 ^ 64 \<and>
     buffer_size h < 2 ^ 64 \<and> offsets_size h < 2 ^ 64 \<and> offsets h < 2 ^ 64"

lemma header_roundtrip: "header_ok h \<Longrightarrow> header_of (header_bytes h @ rest) = h"
  by (cases h) (simp add: header_ok_def header_of_def header_bytes_def field_skip field_here)

lemma length_header_bytes [simp]: "length (header_bytes h) = HEADER_SIZE"
  by (simp add: header_bytes_def)

lemma header_of_append: "HEADER_SIZE \<le> length p \<Longrightarrow> header_of (p @ rest) = header_of p"
  by (simp add: header_of_def field_def)

section \<open>Splitting\<close>

definition valid_package :: "bytes \<Rightarrow> bool" where
  "valid_package p \<longleftrightarrow> HEADER_SIZE \<le> length p \<and> magic (header_of p) = DBINDER_MAGICWORD \<and>
     sizeOfSelf (header_of p) = length p \<and> CheckTransactionData (header_of p)"

lemma CheckTransactionData_size:
  "CheckTransactionData tr \<Longrightarrow> HEADER_SIZE < sizeOfSelf tr \<and> sizeOfSelf tr \<le> SOCKET_MAX_BUFF_SIZE"
  by (auto simp: CheckTransactionData_def split: if_splits)

lemma valid_package_length: "valid_package p \<Longrightarrow> HEADER_SIZE < length p \<and> length p \<le> SOCKET_MAX_BUFF_SIZE"
  using CheckTransactionData_size [of "header_of p"] by (simp add: valid_package_def)

lemma complete_package:
  assumes "drop r data = p @ rest" "valid_package p"
  shows "HasCompletePackage data r = length p"
proof -
  have "length data - r = length p + length rest" using arg_cong [OF assms(1), of length] by simp
  moreover have "r < length data"
    using calculation valid_package_length [OF assms(2)] by linarith
  ultimately show ?thesis
    using assms valid_package_length [OF assms(2)] header_of_append [of p rest]
    by (simp add: HasCompletePackage_def valid_package_def Let_def)
qed

lemma no_package_drop: "HasCompletePackage data r = HasCompletePackage (drop r data) 0"
  by (auto simp: HasCompletePackage_def Let_def)

lemma message_loop_split:
  assumes "drop r data = concat ps @ tail" "\<forall>p \<in> set ps. valid_package p" "HasCompletePackage tail 0 = 0"
  shows "message_loop data r = ps"
  using assms
proof (induction ps arbitrary: r)
  case Nil
  then have "HasCompletePackage data r = 0" using no_package_drop [of data r] by simp
  then show ?case by (simp add: message_loop.simps [of data r])
next
  case (Cons p ps)
  have p: "HasCompletePackage data r = length p" "0 < length p"
    using complete_package [of r data p "concat ps @ tail"] Cons.prems valid_package_length [of p] by auto
  have rest: "drop (r + length p) data = concat ps @ tail"
    using Cons.prems(1) by (metis append.assoc append_eq_conv_conj concat.simps(2) drop_drop add.commute)
  have IH: "message_loop data (r + length p) = ps" using Cons rest by simp
  have "take (length p) (drop r data) = p" using Cons.prems(1) by simp
  moreover have "ps = []" if "\<not> r + length p + HEADER_SIZE < length data"
  proof (rule ccontr)
    assume "ps \<noteq> []"
    then obtain q qs where "ps = q # qs" by (cases ps) auto
    with rest Cons.prems(2) valid_package_length [of q] have "HEADER_SIZE < length (drop (r + length p) data)" by simp
    with that show False by simp
  qed
  ultimately show ?case
    using p IH by (subst message_loop.simps) (auto simp: Let_def)
qed

section \<open>Texts\<close>

lemma unat_of_char: "unat (of_nat (of_char c) :: u8) = of_char c"
proof -
  have "of_char c < (256 :: nat)" by simp
  then show ?thesis by (simp add: unat_of_nat take_bit_nat_eq_self)
qed

lemma bytes_str_bytes [simp]: "bytes_str (str_bytes s) = s"
  by (simp add: bytes_str_def str_bytes_def unat_of_char comp_def)

lemma str_bytes_nonzero: "0 \<in> set (str_bytes s) \<longleftrightarrow> CHR 0x00 \<in> set s"
proof -
  have "(of_nat (of_char c) :: u8) = 0 \<longleftrightarrow> c = CHR 0x00" for c
  proof -
    have "(of_nat (of_char c) :: u8) = 0 \<longleftrightarrow> of_char c = (0 :: nat)"
      by (metis unat_of_char unat_eq_zero)
    also have "\<dots> \<longleftrightarrow> of_char c = (of_char (CHR 0x00) :: nat)" by simp
    also have "\<dots> \<longleftrightarrow> c = CHR 0x00" by (rule of_char_eq_iff)
    finally show ?thesis .
  qed
  then show ?thesis by (force simp: str_bytes_def)
qed

lemma flatten_text_spec:
  assumes "libc_ok L" "bound = 64" "arr = replicate 65 0"
  shows "(flatten_text L bound s arr \<noteq> None) = (0 < length s mod 65536 \<and> length s mod 65536 \<le> 64)"
    and "0 < length s \<and> length s \<le> 64 \<Longrightarrow>
      flatten_text L bound s arr = Some (of_nat (length s), str_bytes s @ replicate (65 - length s) 0)"
proof -
  let ?n = "unat (of_nat (length s) :: u16)"
  have n: "?n = length s mod 65536" by (simp add: unat_of_nat take_bit_eq_mod)
  have z: "(of_nat (length s) :: u16) = 0 \<longleftrightarrow> ?n = 0" by (simp add: unat_eq_zero)
  have le: "?n \<le> length s" unfolding n by simp
  have cp: "memcpy_s L arr 0 64 (str_bytes s) ?n = (EOK, take ?n (str_bytes s) @ replicate (65 - ?n) 0)"
    if "?n \<le> 64"
  proof -
    have "memcpy_s L arr 0 64 (str_bytes s) ?n =
        (EOK, take 0 arr @ take ?n (str_bytes s) @ drop (0 + ?n) arr)"
      using assms(1,3) that le unfolding libc_ok_def by (simp add: str_bytes_def)
    then show ?thesis by (simp add: assms(3))
  qed
  show "(flatten_text L bound s arr \<noteq> None) = (0 < length s mod 65536 \<and> length s mod 65536 \<le> 64)"
    using cp z n assms(2) by (auto simp: flatten_text_def Let_def)
  assume b: "0 < length s \<and> length s \<le> 64"
  then have "?n = length s" unfolding n by simp
  moreover have "(str_bytes s @ replicate (65 - length s) 0)[length s := 0] = str_bytes s @ replicate (65 - length s) 0"
    using b by (cases "65 - length s") (simp_all add: list_update_append str_bytes_def)
  ultimately show "flatten_text L bound s arr = Some (of_nat (length s), str_bytes s @ replicate (65 - length s) 0)"
    using cp z b assms(2) by (simp add: flatten_text_def Let_def str_bytes_def)
qed

lemma array_str_padded:
  assumes "CHR 0x00 \<notin> set s" "length s \<le> 64"
  shows "array_str ((str_bytes s @ replicate (65 - length s) 0)[64 := 0]) = s"
proof -
  have l: "length (str_bytes s) = length s" by (simp add: str_bytes_def)
  have "(str_bytes s @ replicate (65 - length s) 0)[64 := 0] = str_bytes s @ replicate (65 - length s) 0"
    using assms(2) by (intro nth_equalityI) (auto simp: nth_append l nth_list_update)
  moreover have "takeWhile (\<lambda>b. b \<noteq> 0) (str_bytes s @ replicate k 0) = str_bytes s" for k
    using assms(1) str_bytes_nonzero [of s] by (cases k) (auto simp: takeWhile_append2 takeWhile_append)
  ultimately show ?thesis by (simp add: array_str_def)
qed

lemma from_chars_int_str:
  "from_chars_int32 (int_str i) = (if - 2147483648 \<le> i \<and> i \<le> 2147483647 then Some i else None)"
proof (cases "i < 0")
  case True
  then show ?thesis
    by (auto simp: from_chars_int32_def int_str_def Let_def takeWhile_nat_str)
next
  case False
  obtain c r where c: "nat_str (nat i) = c # r" by (cases "nat_str (nat i)") auto
  then have "c \<noteq> CHR ''-''" using nat_str_digits [of c "nat i"] by (auto simp: is_digit_def)
  moreover have d: "takeWhile is_digit (c # r) = c # r"
    using c takeWhile_nat_str [of "nat i"] by (simp del: takeWhile.simps)
  moreover have "str_nat (c # r) = nat i" using c str_nat_nat_str [of "nat i"] by simp
  ultimately show ?thesis
    using False unfolding from_chars_int32_def int_str_def Let_def by (simp add: c d del: takeWhile.simps)
qed

lemma flatten_unflatten:
  assumes "libc_ok L" "so_stubIndex s \<noteq> 0" "CHR 0x00 \<notin> set (serverDeviceId s)" "CHR 0x00 \<notin> set (serviceName s)"
    and "2 \<le> v" "v < 65536" "0 < length (serverDeviceId s)" "length (serverDeviceId s) \<le> 64"
    and "0 < length (serviceName s)" "length (serviceName s) \<le> 64"
  shows "\<exists>flat. FlattenSession L s v = (FLAT_SESSION_LEN, Some flat) \<and> UnFlattenSession flat v =
    Some (DBinderSessionObject (serviceName s) (serverDeviceId s) (so_stubIndex s) nullptr (so_tokenId s))"
proof -
  note val = flatten_text_spec(2) [OF assms(1) refl refl]
  have z: "f_deviceId zero_flat = replicate 65 0" "f_serviceName zero_flat = replicate 65 0"
    by (simp_all add: zero_flat_def)
  have v: "unat v < 65536" using assms(6) by (simp add: word_less_nat_alt)
  have "ucast (ucast v :: u16) = v"
    using v by (intro word_unat_eq_iff [THEN iffD2])
      (simp add: unsigned_ucast_eq unsigned_take_bit_eq take_bit_nat_eq_self)
  then have ver: "(SUPPORT_TOKENID_VERSION_NUM \<le> ucast (ucast v :: u16)) = (SUPPORT_TOKENID_VERSION_NUM \<le> v)" by simp
  show ?thesis
    using val [of "serverDeviceId s"] val [of "serviceName s"] assms(2-5,7-10)
    by (auto simp: FlattenSession_def UnFlattenSession_def Let_def z ver array_str_padded)
qed

lemma flatten_accepts:
  assumes "libc_ok L"
  shows "fst (FlattenSession L s v) \<noteq> 0 \<longleftrightarrow>
    length (serverDeviceId s) mod 65536 \<in> {1..64} \<and> length (serviceName s) mod 65536 \<in> {1..64}"
proof -
  note acc = flatten_text_spec(1) [OF assms refl refl]
  have z: "f_deviceId zero_flat = replicate 65 0" "f_serviceName zero_flat = replicate 65 0"
    by (simp_all add: zero_flat_def)
  show ?thesis
    using acc [of "serverDeviceId s"] acc [of "serviceName s"]
    by (auto simp: FlattenSession_def Let_def z Suc_le_eq split: option.splits)
qed

section \<open>Properties\<close>

text \<open>
  C26. A received message that consists of valid packages, possibly followed by bytes that do not
  start with a complete valid package, is split into exactly these packages, in order: none is
  lost, split or joined, and nothing of the rest is delivered. Every package has a header, a
  positive payload and at most 1 MiB.
\<close>

theorem message_split_exactly:
  assumes "\<forall>p \<in> set ps. valid_package p" "ps \<noteq> []" "HasCompletePackage tail 0 = 0" "0 < socketId"
    and "length (concat ps @ tail) \<le> MAX_RAWDATA_SIZE" "cmd (header_of (hd ps)) \<noteq> BC_SEND_RAWDATA"
  shows "OnMessageAvailable socketId (Some (concat ps @ tail)) = Some (Packages ps) \<and>
    (\<forall>p \<in> set ps. HEADER_SIZE < length p \<and> length p \<le> SOCKET_MAX_BUFF_SIZE)"
proof -
  obtain p qs where ps: "ps = p # qs" using assms(2) by (cases ps) auto
  have p: "HEADER_SIZE < length p" using assms(1) valid_package_length [of p] by (simp add: ps)
  then have "header_of (concat ps @ tail) = header_of p"
    using header_of_append [of p "concat qs @ tail"] by (simp add: ps)
  then have "HasRawDataPackage (concat ps @ tail) = 0"
    using assms(6) by (simp add: HasRawDataPackage_def Let_def ps)
  moreover have "message_loop (concat ps @ tail) 0 = ps"
    using assms(1,3) by (intro message_loop_split) simp_all
  moreover have "HEADER_SIZE \<le> length (concat ps @ tail)" using p by (simp add: ps)
  ultimately have "OnMessageAvailable socketId (Some (concat ps @ tail)) = Some (Packages ps)"
    using assms(4,5) by (simp add: OnMessageAvailable_def)
  then show ?thesis using assms(1) valid_package_length by simp
qed

definition example_header :: dbinder_transaction_data where
  "example_header = \<lparr>sizeOfSelf = 65, magic = DBINDER_MAGICWORD, version = 2, cmd = 0, code = 1, flags = 0,
     cookie = 3, tr_seqNumber = 4, buffer_size = 1, offsets_size = 0, offsets = 1\<rparr>"

lemma example_package:
  "valid_package (header_bytes example_header @ [7])"
  "header_of (header_bytes example_header @ [7]) = example_header"
proof -
  have "header_ok example_header" by (simp add: header_ok_def example_header_def)
  then show h: "header_of (header_bytes example_header @ [7]) = example_header" by (rule header_roundtrip)
  show "valid_package (header_bytes example_header @ [7])"
    unfolding valid_package_def h
    by (simp add: example_header_def CheckTransactionData_def TF_STATUS_CODE_def)
qed

theorem message_split_exactly_witness:
  "OnMessageAvailable 3 (Some ((header_bytes example_header @ [7]) @ (header_bytes example_header @ [7]) @ [1, 2])) =
     Some (Packages [header_bytes example_header @ [7], header_bytes example_header @ [7]])"
  using message_split_exactly [of "[header_bytes example_header @ [7], header_bytes example_header @ [7]]" "[1, 2]" 3]
    example_package
  by (simp add: HasCompletePackage_def example_header_def)

text \<open>
  Flattening a session and unflattening it on the other side restores stub index, service
  name, device and token, when both texts have 1 to 64 characters and no null and the peer is new
  enough for tokens. A text is accepted exactly if its length modulo 65536 is between 1 and 64, so
  that longer texts are refused except around multiples of 65536.
\<close>

theorem session_flatten_roundtrip:
  assumes "libc_ok L" "so_stubIndex s \<noteq> 0" "CHR 0x00 \<notin> set (serverDeviceId s)" "CHR 0x00 \<notin> set (serviceName s)"
    and "2 \<le> v" "v < 65536"
  shows "(0 < length (serverDeviceId s) \<and> length (serverDeviceId s) \<le> 64 \<and>
      0 < length (serviceName s) \<and> length (serviceName s) \<le> 64 \<longrightarrow>
      (\<exists>flat. FlattenSession L s v = (FLAT_SESSION_LEN, Some flat) \<and>
        UnFlattenSession flat v =
          Some (DBinderSessionObject (serviceName s) (serverDeviceId s) (so_stubIndex s) nullptr (so_tokenId s)))) \<and>
    (fst (FlattenSession L s v) \<noteq> 0 \<longleftrightarrow>
      length (serverDeviceId s) mod 65536 \<in> {1..64} \<and> length (serviceName s) mod 65536 \<in> {1..64})"
  using flatten_unflatten [OF assms] flatten_accepts [OF assms(1), of s v] by simp

theorem session_flatten_roundtrip_witness:
  "\<exists>flat. FlattenSession std_libc (DBinderSessionObject ''DBinder1_2'' ''dev'' 7 8 9) 2 = (FLAT_SESSION_LEN, Some flat) \<and>
    UnFlattenSession flat 2 = Some (DBinderSessionObject ''DBinder1_2'' ''dev'' 7 nullptr 9)"
proof -
  have "libc_ok std_libc" by (auto simp: libc_ok_def std_libc_def)
  then show ?thesis
    using session_flatten_roundtrip [of std_libc "DBinderSessionObject ''DBinder1_2'' ''dev'' 7 8 9" 2]
    by (simp add: DBinderSessionObject_def)
qed

text \<open>
  The socket name made for a user and a process gives back both numbers, for all values of
  \<open>int32_t\<close>; names with numbers out of that range are refused.
\<close>

theorem socket_name_roundtrip:
  "GetPidAndUidFromServiceName (CreateSessionName True uid pid) =
     (if - 2147483648 \<le> uid \<and> uid \<le> 2147483647 \<and> - 2147483648 \<le> pid \<and> pid \<le> 2147483647
      then Some (pid, uid) else None)"
proof -
  let ?str = "int_str uid @ CHR ''_'' # int_str pid"
  have "takeWhile (\<lambda>c. c \<noteq> CHR ''_'') ?str = int_str uid"
    using int_str_no_underscore [of uid] by (subst takeWhile_append2) auto
  then show ?thesis
    by (simp add: GetPidAndUidFromServiceName_def CreateSessionName_def Let_def from_chars_int_str)
qed

end
