(* ===== verification/Databus_Invoker.thy ===== *)
theory Databus_Invoker
  imports Auth_Tables Object_Lookup Databus_Wire
begin

text \<open>
  The databus invoker (\<open>dbinder_databus_invoker.cpp\<close>): the identity of the caller that a thread
  serves, connections that come and go, the sessions that stand for local stubs on other devices,
  and the check of a caller before a stub is called.

  Every thread has its own invoker, the record \<open>databus_invoker\<close>. The state of the process is
  \<open>None\<close> where \<open>IPCProcessSkeleton::GetCurrent()\<close> yields null. Objects that a function allocates get
  their address as a parameter. The identity of the own process, the name of the device and the
  sockets that the listener opens are parameters.
\<close>

record databus_invoker =
  stopWorkThread :: bool
  callerPid :: int
  callerUid :: int
  callerDeviceID :: string
  callerTokenID :: u64
  firstTokenID :: u64
  inv_seqNumber :: u64
  clientFd :: int
  inv_status :: u32

record local_env =
  getpid :: int
  getuid :: int
  GetLocalDeviceID :: string
  GetSelfTokenID :: u64

definition DBinderDatabusInvoker :: "local_env \<Rightarrow> databus_invoker" where
  "DBinderDatabusInvoker L = \<lparr>stopWorkThread = False, callerPid = getpid L, callerUid = getuid L,
     callerDeviceID = [], callerTokenID = 0, firstTokenID = 0, inv_seqNumber = 0, clientFd = 0,
     inv_status = 0\<rparr>"

abbreviation (input) RPC_DATABUS_INVOKER_INVALID_STUB_INDEX :: int where
  "RPC_DATABUS_INVOKER_INVALID_STUB_INDEX \<equiv> 603"

section \<open>Setters\<close>

definition StopWorkThread_databus :: "databus_invoker \<Rightarrow> databus_invoker" where
  "StopWorkThread_databus i = i\<lparr>stopWorkThread := True\<rparr>"

definition SetSeqNum :: "u64 \<Rightarrow> databus_invoker \<Rightarrow> databus_invoker" where
  "SetSeqNum seq i = i\<lparr>inv_seqNumber := seq\<rparr>"

definition SetClientFd :: "int \<Rightarrow> databus_invoker \<Rightarrow> databus_invoker" where
  "SetClientFd fd i = i\<lparr>clientFd := fd\<rparr>"

definition SetStatus :: "u32 \<Rightarrow> databus_invoker \<Rightarrow> databus_invoker" where
  "SetStatus status i = i\<lparr>inv_status := status\<rparr>"

definition SetCallerPid :: "int \<Rightarrow> databus_invoker \<Rightarrow> databus_invoker" where
  "SetCallerPid pid i = i\<lparr>callerPid := pid\<rparr>"

definition SetCallerUid :: "int \<Rightarrow> databus_invoker \<Rightarrow> databus_invoker" where
  "SetCallerUid uid i = i\<lparr>callerUid := uid\<rparr>"

definition SetCallerDeviceID :: "string \<Rightarrow> databus_invoker \<Rightarrow> databus_invoker" where
  "SetCallerDeviceID d i = i\<lparr>callerDeviceID := d\<rparr>"

definition SetCallerTokenID :: "u32 \<Rightarrow> databus_invoker \<Rightarrow> databus_invoker" where
  "SetCallerTokenID tid i = i\<lparr>callerTokenID := ucast tid, firstTokenID := ucast tid\<rparr>"

record DBinderCallerInfo =
  ci_callerPid :: int
  ci_callerUid :: int
  ci_clientFd :: int
  ci_callerTokenID :: u64
  ci_firstTokenID :: u64
  ci_callerDeviceID :: string

definition SetCallerInfo :: "DBinderCallerInfo \<Rightarrow> databus_invoker \<Rightarrow> databus_invoker" where
  "SetCallerInfo c i = i\<lparr>callerPid := ci_callerPid c, callerUid := ci_callerUid c,
     callerDeviceID := ci_callerDeviceID c, clientFd := ci_clientFd c,
     callerTokenID := ci_callerTokenID c, firstTokenID := ci_firstTokenID c\<rparr>"

definition GetCallerInfo :: "databus_invoker \<Rightarrow> DBinderCallerInfo" where
  "GetCallerInfo i = \<lparr>ci_callerPid = callerPid i, ci_callerUid = callerUid i,
     ci_clientFd = clientFd i, ci_callerTokenID = callerTokenID i,
     ci_firstTokenID = firstTokenID i, ci_callerDeviceID = callerDeviceID i\<rparr>"

section \<open>Sessions of the process\<close>

definition QueryClientSessionObject :: "u32 \<Rightarrow> process_state option \<Rightarrow> ptr" where
  "QueryClientSessionObject databusHandle cur =
     (case cur of None \<Rightarrow> nullptr | Some st \<Rightarrow> StubQueryDBinderSession databusHandle (ips st))"

definition QueryServerSessionObject :: "u32 \<Rightarrow> process_state option \<Rightarrow> ptr" where
  "QueryServerSessionObject handle cur =
     (case cur of None \<Rightarrow> nullptr | Some st \<Rightarrow> ProxyQueryDBinderSession handle (ips st))"

definition QueryServerSessionObjectBySocketId :: "u32 \<Rightarrow> process_state option \<Rightarrow> bool" where
  "QueryServerSessionObjectBySocketId socketId cur =
     (case cur of
        None \<Rightarrow> False
      | Some st \<Rightarrow> (case QueryProxyBySocketId (sint socketId) [] (ips st) of
            (ok, hs) \<Rightarrow> ok \<and> hs \<noteq> []))"

definition QueryHandleBySession ::
    "session_object \<Rightarrow> process_state option \<Rightarrow> u32 \<times> process_state option" where
  "QueryHandleBySession o1 cur =
     (case cur of
        None \<Rightarrow> (0, None)
      | Some st \<Rightarrow>
          (case QueryHandleByDatabusSession (serviceName o1) (serverDeviceId o1) (so_stubIndex o1) (ips st) of
             (h, s) \<Rightarrow> (h, Some (st\<lparr>ips := s\<rparr>))))"

section \<open>Connections\<close>

definition new_connection_session :: "int \<Rightarrow> int \<Rightarrow> int \<Rightarrow> string \<Rightarrow> string \<Rightarrow> u32 \<Rightarrow> session_object" where
  "new_connection_session socketId peerPid peerUid peerName networkId peerTokenId =
     SetPeerUid peerUid (SetPeerPid peerPid (SetSocketId socketId
       (DBinderSessionObject peerName networkId 0 nullptr peerTokenId)))"

definition OnReceiveNewConnection ::
    "ptr \<Rightarrow> int \<Rightarrow> int \<Rightarrow> int \<Rightarrow> string \<Rightarrow> string \<Rightarrow> process_state option \<Rightarrow> bool \<times> process_state option" where
  "OnReceiveNewConnection fresh socketId peerPid peerUid peerName networkId cur =
     (case cur of
        None \<Rightarrow> (False, None)
      | Some st \<Rightarrow>
          (let a = \<lparr>aa_pid = word_of_int peerPid, aa_uid = word_of_int peerUid, aa_tokenId = 0,
                    aa_socketId = socketId, aa_stubIndex = 0, aa_stub = nullptr, aa_deviceId = networkId\<rparr>;
               fd = word_of_int socketId
           in case QueryCommAuthInfo_app a (ips st) of
                (False, a') \<Rightarrow> (False, Some st)
              | (True, a') \<Rightarrow>
                  (let s1 = snd (snd (StubDetachDBinderSession fd (ips st)));
                       s2 = s1\<lparr>sessions := (sessions s1)(fresh :=
                              new_connection_session socketId peerPid peerUid peerName networkId (aa_tokenId a'))\<rparr>
                   in case StubAttachDBinderSession fd fresh s2 of
                        None \<Rightarrow> (False, Some (st\<lparr>ips := s2\<rparr>))
                      | Some (False, s3) \<Rightarrow> (False, Some (st\<lparr>ips := s3\<rparr>))
                      | Some (True, s3) \<Rightarrow>
                          (True, Some (st\<lparr>ips := snd (AttachOrUpdateAppAuthInfo a' s3)\<rparr>)))))"

text \<open>The list holds the stubs that lose a reference, in order.\<close>

definition OnDatabusSessionServerSideClosed ::
    "int \<Rightarrow> process_state option \<Rightarrow> ptr list \<times> process_state option" where
  "OnDatabusSessionServerSideClosed socketId cur =
     (case cur of
        None \<Rightarrow> ([], None)
      | Some st \<Rightarrow>
          (let s1 = snd (snd (StubDetachDBinderSession (word_of_int socketId) (ips st)))
           in case DetachAppAuthInfoBySocketId socketId s1 of
                (stubIndexs, s2) \<Rightarrow>
                  (filter (\<lambda>p. p \<noteq> nullptr) (map (\<lambda>i. QueryStubByIndex i s2) stubIndexs),
                   Some (st\<lparr>ips := s2\<rparr>))))"

definition CreateProcessThread :: "thread_env \<Rightarrow> process_state option \<Rightarrow> bool \<times> process_state option" where
  "CreateProcessThread T cur =
     (case cur of
        None \<Rightarrow> (False, None)
      | Some st \<Rightarrow>
          if ips_GetSocketIdleThreadNum (ips st) > 0
          then (True, Some (snd (ips_SpawnThread T PROCESS_PASSIVE IF_PROT_DATABUS st)))
          else (False, Some st))"

text \<open>
  The result tells which content the raw data object gets, \<open>None\<close> if it is not attached. \<open>data\<close> are
  the \<open>dataSize\<close> received bytes.
\<close>

definition OnRawDataAvailable ::
    "libc \<Rightarrow> ptr \<Rightarrow> int \<Rightarrow> u64 \<Rightarrow> bytes \<Rightarrow> process_state option \<Rightarrow> bytes option \<times> process_state option" where
  "OnRawDataAvailable L fresh socketId seqNum data cur =
     (case cur of
        None \<Rightarrow> (None, None)
      | Some st \<Rightarrow>
          if length data < HEADER_SIZE then (None, Some st)
          else
            (let rawDataSize = length data - HEADER_SIZE in
             if rawDataSize > 0 \<and> rawDataSize \<le> MAX_RAWDATA_SIZE - HEADER_SIZE then
               (case memcpy_s L (replicate rawDataSize 0) 0 rawDataSize (drop HEADER_SIZE data) rawDataSize of
                  (err, content) \<Rightarrow>
                    if err \<noteq> EOK then (None, Some st)
                    else (case AttachRawData (socketId, seqNum) fresh (ips st) of
                        (False, s) \<Rightarrow> (None, Some (st\<lparr>ips := s\<rparr>))
                      | (True, s) \<Rightarrow> (Some content, Some (st\<lparr>ips := s\<rparr>))))
             else (None, Some st)))"

text \<open>\<open>CreateClientSocket\<close> is the answer of the listener, \<open>None\<close> if there is none.\<close>

definition UpdateClientSession ::
    "(string \<Rightarrow> string \<Rightarrow> string \<Rightarrow> int) option \<Rightarrow> session_object \<Rightarrow> process_state option \<Rightarrow>
     bool \<times> session_object" where
  "UpdateClientSession CreateClientSocket o1 cur =
     (case cur of
        None \<Rightarrow> (False, o1)
      | Some st \<Rightarrow>
          (let ownName = GetDatabusName (ips st) in
           if ownName = [] then (False, o1)
           else (case CreateClientSocket of
               None \<Rightarrow> (False, o1)
             | Some create \<Rightarrow>
                 (case GetPidAndUidFromServiceName (serviceName o1) of
                    None \<Rightarrow> (False, o1)
                  | Some (peerPid, peerUid) \<Rightarrow>
                      (let socketId = create ownName (serviceName o1) (serverDeviceId o1) in
                       if socketId \<le> 0 then (False, o1)
                       else (True, SetPeerUid peerUid (SetPeerPid peerPid (SetSocketId socketId o1))))))))"

section \<open>The caller of a stub\<close>

definition caller_app :: "session_object \<Rightarrow> int \<Rightarrow> u64 \<Rightarrow> AppAuthInfo" where
  "caller_app o1 socketId idx = \<lparr>aa_pid = word_of_int (so_pid o1), aa_uid = word_of_int (so_uid o1),
     aa_tokenId = so_tokenId o1, aa_socketId = socketId, aa_stubIndex = idx, aa_stub = nullptr,
     aa_deviceId = serverDeviceId o1\<rparr>"

definition CheckAndSetCallerInfo ::
    "int \<Rightarrow> u64 \<Rightarrow> process_state option \<Rightarrow> databus_invoker \<Rightarrow> int \<times> databus_invoker" where
  "CheckAndSetCallerInfo socketId idx cur i =
     (let p = QueryClientSessionObject (word_of_int socketId) cur in
      if p = nullptr then (RPC_DATABUS_INVOKER_INVALID_DATA_ERR, i)
      else (case cur of
          None \<Rightarrow> (RPC_DATABUS_INVOKER_INVALID_DATA_ERR, i)
        | Some st \<Rightarrow>
            (let o1 = sessions (ips st) p in
             if so_uid o1 < 0 \<or> length (serverDeviceId o1) > DEVICEID_LENGTH
             then (RPC_DATABUS_INVOKER_INVALID_DATA_ERR, i)
             else if \<not> QueryAppInfoToStubIndex_app (caller_app o1 socketId idx) (ips st)
             then (RPC_DATABUS_INVOKER_INVALID_STUB_INDEX, i)
             else (0, SetCallerInfo \<lparr>ci_callerPid = so_pid o1, ci_callerUid = so_uid o1,
                        ci_clientFd = socketId, ci_callerTokenID = ucast (so_tokenId o1),
                        ci_firstTokenID = ucast (so_tokenId o1),
                        ci_callerDeviceID = serverDeviceId o1\<rparr> i))))"

section \<open>Local stubs on other devices\<close>

definition MakeStubIndexByRemoteObject ::
    "ptr \<Rightarrow> process_state option \<Rightarrow> u64 \<times> process_state option" where
  "MakeStubIndexByRemoteObject stubObject cur =
     (case cur of
        None \<Rightarrow> (0, None)
      | Some st \<Rightarrow>
          if \<not> ips_IsContainsObject stubObject st then (0, Some st)
          else (case AddStubByIndex stubObject (ips st) of (idx, s) \<Rightarrow> (idx, Some (st\<lparr>ips := s\<rparr>))))"

definition MakeDefaultServerSessionObject ::
    "local_env \<Rightarrow> u64 \<Rightarrow> session_object \<Rightarrow> process_state option \<Rightarrow> session_object option" where
  "MakeDefaultServerSessionObject L idx o1 cur =
     (case cur of
        None \<Rightarrow> None
      | Some st \<Rightarrow>
          (let name = GetDatabusName (ips st); deviceId = GetLocalDeviceID L in
           if name = [] \<or> deviceId = [] then None
           else Some (DBinderSessionObject name deviceId idx nullptr (so_tokenId o1))))"

text \<open>The first flag is the result, the second tells whether the stub gets a reference.\<close>

definition ConnectRemoteObject2Session ::
    "ptr \<Rightarrow> u64 \<Rightarrow> session_object option \<Rightarrow> process_state option \<Rightarrow> bool \<times> bool \<times> process_state option" where
  "ConnectRemoteObject2Session stubObject idx sessionObject cur =
     (case sessionObject of
        None \<Rightarrow> (False, False, cur)
      | Some o1 \<Rightarrow>
          (case cur of
             None \<Rightarrow> (False, False, None)
           | Some st \<Rightarrow>
               (let a = (caller_app o1 0 idx)\<lparr>aa_stub := stubObject\<rparr>
                in case AttachOrUpdateAppAuthInfo a (ips st) of
                     (inc, s) \<Rightarrow> (True, inc, Some (st\<lparr>ips := s\<rparr>)))))"

text \<open>The result is the session, whether the stub got a reference, and the new state.\<close>

definition CreateServerSessionObject ::
    "local_env \<Rightarrow> ptr \<Rightarrow> session_object option \<Rightarrow> process_state option \<Rightarrow>
     session_object option \<times> bool \<times> process_state option" where
  "CreateServerSessionObject L stubObject sessionObject cur =
     (if stubObject = nullptr then (None, False, cur)
      else (case MakeStubIndexByRemoteObject stubObject cur of
          (idx, cur1) \<Rightarrow>
            if idx = 0 then (None, False, cur1)
            else (case ConnectRemoteObject2Session stubObject idx sessionObject cur1 of
                (False, inc, cur2) \<Rightarrow> (None, inc, cur2)
              | (True, inc, cur2) \<Rightarrow>
                  (case sessionObject of
                     None \<Rightarrow> (None, inc, cur2)
                   | Some o1 \<Rightarrow> (MakeDefaultServerSessionObject L idx o1 cur2, inc, cur2)))))"

section \<open>Identities as text\<close>

abbreviation (input) ACCESS_TOKEN_MAX_LEN :: nat where
  "ACCESS_TOKEN_MAX_LEN \<equiv> 20"

text \<open>
  \<open>"%020" PRIu64\<close>. The 21 characters of the buffer hold every 64-bit number, so that \<open>sprintf_s\<close> does
  not fail.
\<close>

definition pad20 :: "nat \<Rightarrow> string" where
  "pad20 n = replicate (ACCESS_TOKEN_MAX_LEN - length (nat_str n)) (digit_char 0) @ nat_str n"

definition caller_token :: "databus_invoker \<Rightarrow> u64" where
  "caller_token i = or (push_bit 32 (word_of_int (callerUid i))) (word_of_int (callerPid i))"

definition ResetCallingIdentity :: "local_env \<Rightarrow> databus_invoker \<Rightarrow> string \<times> databus_invoker" where
  "ResetCallingIdentity L i =
     (pad20 (unat (callerTokenID i)) @ callerDeviceID i @ nat_str (unat (caller_token i)),
      i\<lparr>callerUid := getuid L, callerPid := getpid L, callerDeviceID := GetLocalDeviceID L,
        callerTokenID := GetSelfTokenID L\<rparr>)"

text \<open>
  The calls of \<open>GetSubStr\<close>: with the bounds tested before them the sum of offset and length cannot
  wrap, so that no exception is thrown.
\<close>

definition sub_str :: "string \<Rightarrow> nat \<Rightarrow> nat \<Rightarrow> string option" where
  "sub_str str offset len =
     (case GetSubStr str (of_nat offset) (of_nat len) of Inr r \<Rightarrow> r | Inl e \<Rightarrow> None)"

definition SetCallingIdentity :: "string \<Rightarrow> databus_invoker \<Rightarrow> bool \<times> databus_invoker" where
  "SetCallingIdentity identity i =
     (if identity = [] \<or> length identity \<le> DEVICEID_LENGTH then (False, i)
      else (case sub_str identity 0 ACCESS_TOKEN_MAX_LEN of
          None \<Rightarrow> (False, i)
        | Some tokenIdStr \<Rightarrow> (case StrToUint64 tokenIdStr of
            None \<Rightarrow> (False, i)
          | Some tokenId \<Rightarrow> (case sub_str identity ACCESS_TOKEN_MAX_LEN DEVICEID_LENGTH of
              None \<Rightarrow> (False, i)
            | Some deviceId \<Rightarrow>
                (let offset = ACCESS_TOKEN_MAX_LEN + DEVICEID_LENGTH in
                 if length identity \<le> offset then (False, i)
                 else (case sub_str identity offset (length identity - offset) of
                     None \<Rightarrow> (False, i)
                   | Some tokenStr \<Rightarrow> (case StrToUint64 tokenStr of
                       None \<Rightarrow> (False, i)
                     | Some t \<Rightarrow>
                         (True, i\<lparr>callerUid := sint (ucast (drop_bit 32 t) :: u32),
                                  callerPid := sint (ucast t :: u32), callerDeviceID := deviceId,
                                  callerTokenID := tokenId\<rparr>))))))))"

end
