(* ===== verification/Databus_Invoker_Proofs.thy ===== *)
theory Databus_Invoker_Proofs
  imports Databus_Invoker Auth_Proofs Process_Skeleton_Proofs
begin

text \<open>
  Correctness of the databus invoker: who may call a stub over a socket, what closing a socket
  changes, and the text form of a caller's identity.
\<close>

section \<open>Identities\<close>

lemma length_pad20: "n < 18446744073709551616 \<Longrightarrow> length (pad20 n) = 20"
  using length_nat_str_le [of n 19] by (simp add: pad20_def)

lemma scan_pad20: "scan_integer (c_str (pad20 n)) = (False, pad20 n, [])"
proof -
  have d: "is_digit c" if "c \<in> set (pad20 n)" for c
    using that nat_str_digits [of c n] by (auto simp: pad20_def)
  then have "c_str (pad20 n) = pad20 n"
    unfolding c_str_def using nonzero_chars by (intro takeWhile_eq_all_conv [THEN iffD2]) blast
  moreover obtain c r where c: "pad20 n = c # r" by (cases "pad20 n") (auto simp: pad20_def)
  moreover have "\<not> is_space c" "c \<noteq> CHR ''-''" "c \<noteq> CHR ''+''"
    using d [of c] c digit_not_space by (auto simp: is_digit_def)
  moreover have "takeWhile is_digit (pad20 n) = pad20 n" "dropWhile is_digit (pad20 n) = []"
    using d by (auto simp: takeWhile_eq_all_conv)
  ultimately show ?thesis by (simp add: scan_integer_def Let_def)
qed

lemma StrToUint64_pad20: "n < 18446744073709551616 \<Longrightarrow> StrToUint64 (pad20 n) = Some (of_nat n)"
proof -
  assume n: "n < 18446744073709551616"
  have "pad20 n \<noteq> []" by (simp add: pad20_def)
  moreover have "str_nat (pad20 n) = n" by (simp add: pad20_def str_nat_replicate_zero)
  ultimately show ?thesis using n by (simp add: StrToUint64_def scan_pad20)
qed

lemma StrToUint64_nat_str: "n < 18446744073709551616 \<Longrightarrow> StrToUint64 (nat_str n) = Some (of_nat n)"
  by (simp add: StrToUint64_def scan_digits)

lemma sub_str_take_drop:
  assumes "str \<noteq> []" "length str < 18446744073709551616" "off + len \<le> length str"
  shows "sub_str str off len = Some (take len (drop off str))"
proof -
  have u: "unat (of_nat k :: u64) = k" if "k \<le> length str" for k
    using that assms(2) by (simp add: unat_of_nat take_bit_nat_eq_self)
  have "(of_nat off :: u64) + of_nat len = of_nat (off + len)" by simp
  then have "\<not> (of_nat (length str) :: u64) < of_nat off + of_nat len"
    using u [of "off + len"] u [of "length str"] assms(3) by (simp add: word_less_nat_alt del: of_nat_add)
  then show ?thesis using assms u [of off] u [of len] by (simp add: sub_str_def GetSubStr_def)
qed

lemma sint_u32: "- 2147483648 \<le> i \<Longrightarrow> i \<le> 2147483647 \<Longrightarrow> sint (word_of_int i :: u32) = i"
  by (simp add: sint_sbintrunc' signed_take_bit_int_eq_self)

lemma token_parts:
  assumes "0 \<le> pid" "pid \<le> 2147483647" "- 2147483648 \<le> uid" "uid \<le> 2147483647"
  shows "sint (ucast (drop_bit 32 (or (push_bit 32 (word_of_int uid)) (word_of_int pid) :: u64)) :: u32) = uid"
    "sint (ucast (or (push_bit 32 (word_of_int uid)) (word_of_int pid) :: u64) :: u32) = pid"
proof -
  let ?t = "or (push_bit 32 (word_of_int uid)) (word_of_int pid) :: u64"
  have hi: "\<not> bit pid n" if "31 \<le> n" for n
  proof -
    have "pid div 2 ^ n = 0"
      using assms(1,2) power_increasing [OF that, of "2 :: int"] by (intro div_pos_pos_trivial) simp_all
    then show ?thesis by (simp add: bit_iff_odd)
  qed
  have "ucast (drop_bit 32 ?t) = (word_of_int uid :: u32)"
    by (rule bit_word_eqI) (auto simp: bit_simps hi)
  then show "sint (ucast (drop_bit 32 ?t) :: u32) = uid"
    using sint_u32 [OF assms(3,4)] by (simp only:)
  have "ucast ?t = (word_of_int pid :: u32)" by (rule bit_word_eqI) (auto simp: bit_simps)
  then show "sint (ucast ?t :: u32) = pid"
    using sint_u32 [of pid] assms(1,2) by simp
qed

section \<open>Properties\<close>

text \<open>
  \<open>SetCallingIdentity\<close> applied to what \<open>ResetCallingIdentity\<close> returned restores the caller: user,
  process, device and token, if the device has its full 64 characters and the process number is
  not negative. With a device name so short that name and printed token have at most 64
  characters together, as for a local caller without device name, it returns false and changes
  nothing, so that the identity is not restored.
\<close>

theorem calling_identity_roundtrip:
  assumes "ResetCallingIdentity L i = (identity, i')"
    and "0 \<le> callerPid i" "callerPid i \<le> 2147483647" "- 2147483648 \<le> callerUid i" "callerUid i \<le> 2147483647"
  shows "(length (callerDeviceID i) = 64 \<longrightarrow> SetCallingIdentity identity i' = (True, i)) \<and>
    (length (callerDeviceID i) + length (nat_str (unat (caller_token i))) \<le> 64 \<longrightarrow>
       SetCallingIdentity identity i' = (False, i'))"
proof -
  let ?t = "nat_str (unat (caller_token i))" and ?d = "callerDeviceID i" and ?p = "pad20 (unat (callerTokenID i))"
  have id: "identity = ?p @ ?d @ ?t" and i': "i' = i\<lparr>callerUid := getuid L, callerPid := getpid L,
      callerDeviceID := GetLocalDeviceID L, callerTokenID := GetSelfTokenID L\<rparr>"
    using assms(1) by (simp_all add: ResetCallingIdentity_def)
  have u: "unat (w :: u64) < 18446744073709551616" for w using unsigned_less [of w] by simp
  have p: "length ?p = 20" by (rule length_pad20 [OF u])
  have t: "0 < length ?t" "length ?t \<le> 20" using length_nat_str_le [of "unat (caller_token i)" 19] u [of "caller_token i"] by simp_all
  have ne: "identity \<noteq> []" using t(1) id by auto
  show ?thesis
  proof (intro conjI impI)
    assume d: "length ?d = 64"
    have len: "length identity = 84 + length ?t" using p d id by simp
    then have ss: "sub_str identity off n = Some (take n (drop off identity))" if "off + n \<le> length identity" for off n
      using t(2) that by (intro sub_str_take_drop ne) simp_all
    have parts: "take 20 identity = ?p" "take 64 (drop 20 identity) = ?d" "drop 84 identity = ?t"
      using p d by (simp_all add: id)
    have "sub_str identity 0 20 = Some ?p" "sub_str identity 20 64 = Some ?d"
      "sub_str identity 84 (length identity - 84) = Some ?t"
      using ss [of 0 20] ss [of 20 64] ss [of 84 "length ?t"] len parts by simp_all
    then show "SetCallingIdentity identity i' = (True, i)"
      using ne len t(1) StrToUint64_pad20 [OF u, of "callerTokenID i"] StrToUint64_nat_str [OF u, of "caller_token i"]
        token_parts [OF assms(2-5)]
      by (simp add: SetCallingIdentity_def i' caller_token_def)
  next
    assume "length ?d + length ?t \<le> 64"
    then have "length identity \<le> 84" using p id by simp
    then show "SetCallingIdentity identity i' = (False, i')"
      by (auto simp: SetCallingIdentity_def Let_def split: option.splits)
  qed
qed

definition example_local :: local_env where
  "example_local = \<lparr>getpid = 100, getuid = 5523, GetLocalDeviceID = replicate 64 (CHR ''b''), GetSelfTokenID = 9\<rparr>"

definition example_invoker :: databus_invoker where
  "example_invoker = (DBinderDatabusInvoker example_local)\<lparr>callerPid := 42, callerUid := - 7,
     callerDeviceID := replicate 64 (CHR ''a''), callerTokenID := 77\<rparr>"

theorem calling_identity_roundtrip_witness:
  "SetCallingIdentity (fst (ResetCallingIdentity example_local example_invoker))
     (snd (ResetCallingIdentity example_local example_invoker)) = (True, example_invoker)"
  using calling_identity_roundtrip [of example_local example_invoker
      "fst (ResetCallingIdentity example_local example_invoker)"
      "snd (ResetCallingIdentity example_local example_invoker)"]
  by (simp add: example_invoker_def DBinderDatabusInvoker_def)

section \<open>Connections\<close>

lemma stub_detach_effect:
  fixes s h
  defines "s1 \<equiv> snd (snd (StubDetachDBinderSession h s))"
  shows "exitFlag s1 = exitFlag s" "sessions s1 = sessions s" "appInfoToStubIndex s1 = appInfoToStubIndex s"
    "commAuth s1 = commAuth s" "QueryStubByIndex i s1 = QueryStubByIndex i s"
    "StubQueryDBinderSession k s1 = (if k = h then nullptr else StubQueryDBinderSession k s)"
    "map_of (dbinderSessionObjects s) h \<noteq> Some nullptr \<Longrightarrow> \<not> exitFlag s \<Longrightarrow>
      map_of (dbinderSessionObjects s1) h = None"
  unfolding s1_def by (auto simp: StubDetachDBinderSession_def QueryStubByIndex_def StubQueryDBinderSession_def
    split: option.splits)

lemma closed_state:
  assumes "OnDatabusSessionServerSideClosed fd (Some st) = (refs, st')" "\<not> exitFlag (ips st)"
    and "erase_socket_loop fd (appInfoToStubIndex (ips st)) [] = (out, t)"
  obtains st1 where "st' = Some st1" "\<not> exitFlag (ips st1)" "sessions (ips st1) = sessions (ips st)"
    "appInfoToStubIndex (ips st1) = t"
    "\<And>h. StubQueryDBinderSession h (ips st1) =
       (if h = word_of_int fd then nullptr else StubQueryDBinderSession h (ips st))"
    "refs = filter (\<lambda>p. p \<noteq> nullptr) (map (\<lambda>i. QueryStubByIndex i (ips st)) out)"
proof -
  let ?s1 = "snd (snd (StubDetachDBinderSession (word_of_int fd) (ips st)))"
  let ?s2 = "?s1\<lparr>commAuth := filter (\<lambda>a. ca_socketId a \<noteq> fd) (commAuth ?s1), appInfoToStubIndex := t\<rparr>"
  note d = stub_detach_effect [where h = "word_of_int fd" and s = "ips st"]
  have q: "QueryStubByIndex i ?s2 = QueryStubByIndex i ?s1" "StubQueryDBinderSession h ?s2 = StubQueryDBinderSession h ?s1"
    for i h by (simp_all add: QueryStubByIndex_def StubQueryDBinderSession_def)
  have "DetachAppAuthInfoBySocketId fd ?s1 = (out, ?s2)"
    using assms(2,3) d(1,3) by (simp add: DetachAppAuthInfoBySocketId_def)
  then have "st' = Some (st\<lparr>ips := ?s2\<rparr>)"
      "refs = filter (\<lambda>p. p \<noteq> nullptr) (map (\<lambda>i. QueryStubByIndex i (ips st)) out)"
    using assms(1) d(5) q(1) by (simp_all add: OnDatabusSessionServerSideClosed_def)
  then show ?thesis using that [of "st\<lparr>ips := ?s2\<rparr>"] q(2) d(1,2,6) assms(2) by simp
qed

text \<open>
  Closing a server-side socket ends the rights that depend on it, and no others. Afterwards every
  transaction that comes over the socket is refused, for every stub index, while the check of a
  caller on any other socket has the same outcome as before. The stubs that lose a reference are
  the registered ones that some application had been granted over the socket.
\<close>

theorem closed_socket_refused:
  assumes "auth_wf (appInfoToStubIndex (ips st))" "OnDatabusSessionServerSideClosed fd (Some st) = (refs, st')"
    and "fd \<noteq> 0" "fd' \<noteq> fd" "fd \<in> {- 2147483648..2147483647}" "fd' \<in> {- 2147483648..2147483647}"
  shows "CheckAndSetCallerInfo fd idx st' i = (RPC_DATABUS_INVOKER_INVALID_DATA_ERR, i) \<and>
    CheckAndSetCallerInfo fd' idx st' i = CheckAndSetCallerInfo fd' idx (Some st) i \<and>
    set refs = {p. p \<noteq> nullptr \<and> (\<exists>k j. app_view (appInfoToStubIndex (ips st)) k j = Some fd \<and>
      QueryStubByIndex j (ips st) = p)}"
proof -
  obtain out t where e: "erase_socket_loop fd (appInfoToStubIndex (ips st)) [] = (out, t)"
    by (cases "erase_socket_loop fd (appInfoToStubIndex (ips st)) []")
  note spec = erase_socket_spec [OF assms(1) e]
  have ne: "(word_of_int fd' :: u32) \<noteq> word_of_int fd"
    using sint_u32 [of fd] sint_u32 [of fd'] assms(4-6) by (metis atLeastAtMost_iff)
  show ?thesis
  proof (cases "exitFlag (ips st)")
    case True
    then have "st' = Some st \<and> refs = []"
      using assms(2) by (simp add: OnDatabusSessionServerSideClosed_def StubDetachDBinderSession_def
        DetachAppAuthInfoBySocketId_def)
    with True show ?thesis
      by (auto simp: CheckAndSetCallerInfo_def QueryClientSessionObject_def StubQueryDBinderSession_def QueryStubByIndex_def)
  next
    case False
    obtain st1 where st1: "st' = Some st1" "\<not> exitFlag (ips st1)" "sessions (ips st1) = sessions (ips st)"
        "appInfoToStubIndex (ips st1) = t"
        "\<And>h. StubQueryDBinderSession h (ips st1) =
          (if h = word_of_int fd then nullptr else StubQueryDBinderSession h (ips st))"
        "refs = filter (\<lambda>p. p \<noteq> nullptr) (map (\<lambda>i. QueryStubByIndex i (ips st)) out)"
      using closed_state [OF assms(2) False e] by blast
    have "QueryAppInfoToStubIndex_app (caller_app o1 fd' idx) (ips st1) =
        QueryAppInfoToStubIndex_app (caller_app o1 fd' idx) (ips st)" for o1
      using False st1(2) assms(3,4)
      by (auto simp: QueryAppInfoToStubIndex_app_def index_allowed_view st1(4) spec(2) caller_app_def)
    with ne have "CheckAndSetCallerInfo fd' idx st' i = CheckAndSetCallerInfo fd' idx (Some st) i"
      by (simp add: CheckAndSetCallerInfo_def QueryClientSessionObject_def st1(1,3,5) Let_def)
    moreover have "CheckAndSetCallerInfo fd idx st' i = (RPC_DATABUS_INVOKER_INVALID_DATA_ERR, i)"
      by (simp add: CheckAndSetCallerInfo_def QueryClientSessionObject_def st1(1,5))
    ultimately show ?thesis using spec(3) st1(6) by auto
  qed
qed

definition example_session :: session_object where
  "example_session = SetPeerUid 20 (SetPeerPid 10 (DBinderSessionObject ''DBinder20_10'' ''dev'' 7 nullptr 30))"

definition example_state :: process_state where
  "example_state = \<lparr>ips = IPCProcessSkeleton 1, pskel = None\<rparr>"

theorem closed_socket_refused_witness:
  "CheckAndSetCallerInfo 4 7 (snd (OnDatabusSessionServerSideClosed 4 (Some example_state))) example_invoker =
     (RPC_DATABUS_INVOKER_INVALID_DATA_ERR, example_invoker)"
  using closed_socket_refused [of example_state 4 "fst (OnDatabusSessionServerSideClosed 4 (Some example_state))"
      "snd (OnDatabusSessionServerSideClosed 4 (Some example_state))" 5 7 example_invoker]
  by (simp add: example_state_def IPCProcessSkeleton_def)

lemma grant_effect:
  assumes "\<not> exitFlag (ips st)" "stub \<noteq> nullptr" "idx \<noteq> 0"
    and "- 2147483648 \<le> so_uid o1" "so_uid o1 \<le> 2147483647" "- 2147483648 \<le> so_pid o1" "so_pid o1 \<le> 2147483647"
    and "ConnectRemoteObject2Session stub idx (Some o1) (Some st) = (ok, inc, st1)"
  obtains s1 rest where "ok" "st1 = Some (st\<lparr>ips := s1\<rparr>)" "\<not> exitFlag s1"
    "dbinderSessionObjects s1 = dbinderSessionObjects (ips st)"
    "commAuth s1 = CommAuthInfo stub (so_pid o1) (so_uid o1) (so_tokenId o1) (serverDeviceId o1) 0 # rest"
    "app_view (appInfoToStubIndex s1) (aa_key (caller_app o1 fd j)) idx = Some 0"
proof -
  let ?a = "(caller_app o1 0 idx)\<lparr>aa_stub := stub\<rparr>"
  obtain s1 where s1: "AttachOrUpdateAppAuthInfo ?a (ips st) = (inc, s1)" "ok" "st1 = Some (st\<lparr>ips := s1\<rparr>)"
    using assms(8) by (auto simp: ConnectRemoteObject2Session_def split: prod.splits)
  have "aa_key (caller_app o1 fd j) = aa_key ?a" by (simp add: aa_key_def caller_app_def)
  then have "app_view (appInfoToStubIndex s1) (aa_key (caller_app o1 fd j)) idx = Some 0"
    using s1(1) assms(1-3)
    by (auto simp: AttachOrUpdateAppAuthInfo_def Let_def app_view_put caller_app_def split: if_splits option.splits)
  moreover have "\<not> exitFlag s1" "dbinderSessionObjects s1 = dbinderSessionObjects (ips st)"
    "\<exists>rest. commAuth s1 = CommAuthInfo stub (so_pid o1) (so_uid o1) (so_tokenId o1) (serverDeviceId o1) 0 # rest"
    using s1(1) assms(1,2) sint_u32 [OF assms(4,5)] sint_u32 [OF assms(6,7)]
    by (auto simp: AttachOrUpdateAppAuthInfo_def Let_def caller_app_def)
  ultimately show ?thesis using that s1(2,3) by blast
qed

lemma connect_effect:
  assumes "\<not> exitFlag (ips st)" "fresh \<noteq> nullptr" "fd \<noteq> 0"
    and "map_of (dbinderSessionObjects (ips st)) (word_of_int fd) \<noteq> Some nullptr"
    and "QueryCommAuthInfo_app \<lparr>aa_pid = word_of_int pid, aa_uid = word_of_int uid, aa_tokenId = 0,
      aa_socketId = fd, aa_stubIndex = 0, aa_stub = nullptr, aa_deviceId = dev\<rparr> (ips st) = (True, b)"
    and "aa_stubIndex b = 0" "aa_socketId b = fd" "aa_stub b = nullptr"
    and "app_view (appInfoToStubIndex (ips st)) (aa_key b) idx = Some v"
  shows "\<exists>s4. OnReceiveNewConnection fresh fd pid uid name dev (Some st) = (True, Some (st\<lparr>ips := s4\<rparr>)) \<and>
    \<not> exitFlag s4 \<and> StubQueryDBinderSession (word_of_int fd) s4 = fresh \<and>
    sessions s4 fresh = new_connection_session fd pid uid name dev (aa_tokenId b) \<and>
    app_view (appInfoToStubIndex s4) (aa_key b) idx = Some fd"
proof -
  let ?h = "word_of_int fd :: u32"
  let ?s1 = "snd (snd (StubDetachDBinderSession ?h (ips st)))"
  let ?s2 = "?s1\<lparr>sessions := (sessions ?s1)(fresh := new_connection_session fd pid uid name dev (aa_tokenId b))\<rparr>"
  let ?s3 = "?s2\<lparr>dbinderSessionObjects := omap_put ?h fresh (dbinderSessionObjects ?s2)\<rparr>"
  let ?s4 = "snd (AttachOrUpdateAppAuthInfo b ?s3)"
  note d = stub_detach_effect [where h = ?h and s = "ips st"]
  have "StubAttachDBinderSession ?h fresh ?s2 = Some (True, ?s3)"
    using assms(1,2,4) d(1) d(7) by (simp add: StubAttachDBinderSession_def omap_insert_fresh)
  then have c: "OnReceiveNewConnection fresh fd pid uid name dev (Some st) = (True, Some (st\<lparr>ips := ?s4\<rparr>))"
    using assms(5) by (simp add: OnReceiveNewConnection_def Let_def)
  obtain m where m: "map_of (appInfoToStubIndex (ips st)) (aa_key b) = Some m" "map_of m idx = Some v"
    using assms(9) by (auto simp: app_view_def split: option.splits)
  have s4: "?s4 = ?s3\<lparr>appInfoToStubIndex :=
      omap_put (aa_key b) (set_all_sockets fd m) (appInfoToStubIndex ?s3)\<rparr>"
    using assms(1,3,6-8) d(1,3) m(1) by (simp add: AttachOrUpdateAppAuthInfo_def Let_def)
  show ?thesis
    using c assms(1) d(1) m(2) unfolding s4
    by (intro exI) (auto simp: StubQueryDBinderSession_def app_view_put set_all_sockets_facts)
qed

text \<open>
  From the grant of a stub to the call. When a stub with its index is sent to an application of
  another device and the application then connects with the same user, process and device, the
  connection is accepted, and a transaction for the index over the new socket passes the check:
  the invoker then has the process, user, device and token that the stub was granted to. The
  grant is bound to this socket: over any other socket the application cannot use the index.
\<close>

theorem grant_connect_call:
  assumes "\<not> exitFlag (ips st)" "stub \<noteq> nullptr" "fresh \<noteq> nullptr" "idx \<noteq> 0" "fd \<noteq> 0"
    and "0 \<le> so_uid o1" "so_uid o1 \<le> 2147483647" "- 2147483648 \<le> so_pid o1" "so_pid o1 \<le> 2147483647"
    and "length (serverDeviceId o1) \<le> 64"
    and "map_of (dbinderSessionObjects (ips st)) (word_of_int fd) \<noteq> Some nullptr"
    and "ConnectRemoteObject2Session stub idx (Some o1) (Some st) = (ok, inc, st1)"
    and "OnReceiveNewConnection fresh fd (so_pid o1) (so_uid o1) name (serverDeviceId o1) st1 = (r, st2)"
  shows "ok \<and> r \<and>
    CheckAndSetCallerInfo fd idx st2 i = (0, i\<lparr>callerPid := so_pid o1, callerUid := so_uid o1,
      callerDeviceID := serverDeviceId o1, clientFd := fd, callerTokenID := ucast (so_tokenId o1),
      firstTokenID := ucast (so_tokenId o1)\<rparr>) \<and>
    (\<forall>fd'. fd' \<noteq> fd \<longrightarrow> \<not> QueryAppInfoToStubIndex_app (caller_app o1 fd' idx) (ips (the st2)))"
proof -
  obtain s1 rest where s1: "ok" "st1 = Some (st\<lparr>ips := s1\<rparr>)" "\<not> exitFlag s1"
      "dbinderSessionObjects s1 = dbinderSessionObjects (ips st)"
      "commAuth s1 = CommAuthInfo stub (so_pid o1) (so_uid o1) (so_tokenId o1) (serverDeviceId o1) 0 # rest"
      "app_view (appInfoToStubIndex s1) (aa_key (caller_app o1 fd 0)) idx = Some 0"
    using grant_effect [OF assms(1,2,4) _ assms(7-9,12), of fd 0] assms(6) by auto
  let ?b = "caller_app o1 fd 0"
  have q: "QueryCommAuthInfo_app \<lparr>aa_pid = word_of_int (so_pid o1), aa_uid = word_of_int (so_uid o1), aa_tokenId = 0,
      aa_socketId = fd, aa_stubIndex = 0, aa_stub = nullptr, aa_deviceId = serverDeviceId o1\<rparr> s1 = (True, ?b)"
    using s1(3,5) sint_u32 [of "so_pid o1"] sint_u32 [of "so_uid o1"] assms(6-9)
    by (simp add: QueryCommAuthInfo_app_def caller_app_def IsSameRemoteObject_app_def CommAuthInfo_def)
  have "\<exists>s4. OnReceiveNewConnection fresh fd (so_pid o1) (so_uid o1) name (serverDeviceId o1) (Some (st\<lparr>ips := s1\<rparr>)) =
        (True, Some (st\<lparr>ips := s1\<rparr>\<lparr>ips := s4\<rparr>)) \<and>
      \<not> exitFlag s4 \<and> StubQueryDBinderSession (word_of_int fd) s4 = fresh \<and>
      sessions s4 fresh = new_connection_session fd (so_pid o1) (so_uid o1) name (serverDeviceId o1) (aa_tokenId ?b) \<and>
      app_view (appInfoToStubIndex s4) (aa_key ?b) idx = Some fd"
    by (rule connect_effect) (use q s1 assms(3,5,11) in \<open>simp_all add: caller_app_def\<close>)
  then obtain s4 where s4: "OnReceiveNewConnection fresh fd (so_pid o1) (so_uid o1) name (serverDeviceId o1) st1 =
        (True, Some (st\<lparr>ips := s4\<rparr>))"
      "\<not> exitFlag s4" "StubQueryDBinderSession (word_of_int fd) s4 = fresh"
      "sessions s4 fresh = new_connection_session fd (so_pid o1) (so_uid o1) name (serverDeviceId o1) (so_tokenId o1)"
      "app_view (appInfoToStubIndex s4) (aa_key ?b) idx = Some fd"
    using s1(2) by (auto simp: caller_app_def)
  have "new_connection_session fd (so_pid o1) (so_uid o1) name (serverDeviceId o1) (so_tokenId o1) =
      (DBinderSessionObject name (serverDeviceId o1) 0 nullptr (so_tokenId o1))
        \<lparr>socket := fd, so_pid := so_pid o1, so_uid := so_uid o1\<rparr>"
    by (simp add: new_connection_session_def SetPeerUid_def SetPeerPid_def SetSocketId_def)
  then have f: "so_pid (sessions s4 fresh) = so_pid o1" "so_uid (sessions s4 fresh) = so_uid o1"
      "so_tokenId (sessions s4 fresh) = so_tokenId o1" "serverDeviceId (sessions s4 fresh) = serverDeviceId o1"
    using s4(4) by (simp_all add: DBinderSessionObject_def)
  have k: "caller_app (sessions s4 fresh) g j = caller_app o1 g j" "aa_key (caller_app o1 g j) = aa_key ?b" for g j
    by (simp_all add: caller_app_def aa_key_def f)
  have allow: "QueryAppInfoToStubIndex_app (caller_app o1 g idx) s4 \<longleftrightarrow> g = fd" for g
  proof -
    have "aa_stubIndex (caller_app o1 g idx) = idx" "aa_socketId (caller_app o1 g idx) = g"
      by (simp_all add: caller_app_def)
    then show ?thesis
      using s4(2,5) assms(5) unfolding QueryAppInfoToStubIndex_app_def index_allowed_view k(2) [of g idx] by auto
  qed
  have "CheckAndSetCallerInfo fd idx st2 i = (0, i\<lparr>callerPid := so_pid o1, callerUid := so_uid o1,
      callerDeviceID := serverDeviceId o1, clientFd := fd, callerTokenID := ucast (so_tokenId o1),
      firstTokenID := ucast (so_tokenId o1)\<rparr>)"
    using s4(1,3) assms(3,6,10,13) allow [of fd]
    by (simp add: CheckAndSetCallerInfo_def QueryClientSessionObject_def Let_def f k(1) SetCallerInfo_def)
  then show ?thesis using s1(1) s4(1) assms(13) allow by simp
qed

theorem grant_connect_call_witness:
  "\<exists>ok inc st1 r st2. ConnectRemoteObject2Session 8 7 (Some example_session) (Some example_state) = (ok, inc, st1) \<and>
     OnReceiveNewConnection 64 4 10 20 ''DBinder20_10'' ''dev'' st1 = (r, st2) \<and>
     fst (CheckAndSetCallerInfo 4 7 st2 example_invoker) = 0"
proof -
  obtain ok inc st1 where 1: "ConnectRemoteObject2Session 8 7 (Some example_session) (Some example_state) = (ok, inc, st1)"
    by (cases "ConnectRemoteObject2Session 8 7 (Some example_session) (Some example_state)")
  obtain r st2 where 2: "OnReceiveNewConnection 64 4 10 20 ''DBinder20_10'' ''dev'' st1 = (r, st2)"
    by (cases "OnReceiveNewConnection 64 4 10 20 ''DBinder20_10'' ''dev'' st1")
  have f: "so_pid example_session = 10" "so_uid example_session = 20" "serverDeviceId example_session = ''dev''"
    by (simp_all add: example_session_def SetPeerUid_def SetPeerPid_def DBinderSessionObject_def)
  have "fst (CheckAndSetCallerInfo 4 7 st2 example_invoker) = 0"
    using grant_connect_call [of example_state 8 64 7 4 example_session ok inc st1 "''DBinder20_10''" r st2 example_invoker] 1 2 f
    by (simp add: example_state_def IPCProcessSkeleton_def)
  with 1 2 show ?thesis by blast
qed

end
