(* ===== verification/Object_Translation.thy ===== *)
theory Object_Translation
  imports Databus_Invoker
begin

text \<open>
  Remote objects inside a message (\<open>dbinder_base_invoker_object.h\<close>). A sender replaces every stub or
  proxy in the message by a session that the other device can connect to; the receiver replaces
  every session by a handle of its own.

  The message is a record: the size of its buffer, what the bytes at an offset read as (a
  \<open>flat_binder_object\<close>), the list of offsets, and the slots of flattened sessions behind the
  offsets. An object is only written at an offset that passed \<open>IsValidRemoteObjectOffset\<close>, and later
  offsets lie behind the object, so that objects at different offsets do not share bytes. Buffers
  have at most 1 MiB, so that sums of offsets and sizes do not wrap.

  Parameters: the requests to other processes that \<open>AuthSession2Proxy\<close> and \<open>NewSessionOfBinderProxy\<close>
  make, the sockets of the listener, and the addresses of new sessions.
\<close>

record flat_binder_object =
  hdr_type :: u32
  fb_flags :: u32
  fb_binder :: u64
  fb_cookie :: u64

abbreviation (input) BINDER_TYPE_BINDER :: u32 where "BINDER_TYPE_BINDER \<equiv> 0x73622A85"
abbreviation (input) BINDER_TYPE_HANDLE :: u32 where "BINDER_TYPE_HANDLE \<equiv> 0x73682A85"
abbreviation (input) BINDER_TYPE_FD :: u32 where "BINDER_TYPE_FD \<equiv> 0x66642A85"
abbreviation (input) BINDER_TYPE_PTR :: u32 where "BINDER_TYPE_PTR \<equiv> 0x70742A85"
abbreviation (input) BINDER_TYPE_REMOTE_HANDLE :: u32 where "BINDER_TYPE_REMOTE_HANDLE \<equiv> 0x72682A85"
abbreviation (input) BINDER_TYPE_FDR :: u32 where "BINDER_TYPE_FDR \<equiv> 0x66647285"
abbreviation (input) BINDER_TYPE_INVALID_HANDLE :: u32 where "BINDER_TYPE_INVALID_HANDLE \<equiv> 0x72686585"
abbreviation (input) BINDER_TYPE_INVALID_BINDER :: u32 where "BINDER_TYPE_INVALID_BINDER \<equiv> 0x72626585"
abbreviation (input) BINDER_TYPE_INVALID_TYPE :: u32 where "BINDER_TYPE_INVALID_TYPE \<equiv> 0x72746585"

abbreviation (input) COOKIE_BINDER :: u64 where "COOKIE_BINDER \<equiv> 0"
abbreviation (input) COOKIE_DATABUS :: u64 where "COOKIE_DATABUS \<equiv> 1"
abbreviation (input) COOKIE_ERROR :: u64 where "COOKIE_ERROR \<equiv> 2"

text \<open>The field \<open>handle\<close> is the lower half of the union with \<open>binder\<close>.\<close>

definition fb_handle :: "flat_binder_object \<Rightarrow> u32" where
  "fb_handle ob = ucast (fb_binder ob)"

definition set_handle :: "u32 \<Rightarrow> flat_binder_object \<Rightarrow> flat_binder_object" where
  "set_handle h ob = ob\<lparr>fb_binder := or (push_bit 32 (drop_bit 32 (fb_binder ob))) (ucast h)\<rparr>"

record message =
  msg_size :: nat
  msg_obj :: "nat \<Rightarrow> flat_binder_object"
  msg_offsets :: "nat list"
  msg_flat :: "nat \<Rightarrow> FlatDBinderSession"

definition put_obj :: "nat \<Rightarrow> flat_binder_object \<Rightarrow> message \<Rightarrow> message" where
  "put_obj off ob m = m\<lparr>msg_obj := (msg_obj m)(off := ob)\<rparr>"

definition put_flat :: "nat \<Rightarrow> FlatDBinderSession \<Rightarrow> message \<Rightarrow> message" where
  "put_flat k f m = m\<lparr>msg_flat := (msg_flat m)(k := f)\<rparr>"

section \<open>Offsets\<close>

definition GetRemoteObjectSize :: "u32 \<Rightarrow> nat" where
  "GetRemoteObjectSize t =
     (case map_of [(BINDER_TYPE_BINDER, 24), (BINDER_TYPE_HANDLE, 24), (BINDER_TYPE_FD, 24),
        (BINDER_TYPE_PTR, 40), (BINDER_TYPE_REMOTE_HANDLE, 24), (BINDER_TYPE_FDR, 24)] t of
        Some n \<Rightarrow> n | None \<Rightarrow> 0)"

text \<open>The previous offset and object size come in one pair; the result is the next pair.\<close>

definition IsValidRemoteObjectOffset :: "message \<Rightarrow> nat \<Rightarrow> nat \<Rightarrow> nat \<times> nat \<Rightarrow> (nat \<times> nat) option" where
  "IsValidRemoteObjectOffset m off offsetIdx prev =
     (if off \<ge> msg_size m \<or> off + 4 \<ge> msg_size m \<or>
         offsetIdx > 0 \<and> (fst prev \<ge> off \<or> fst prev + snd prev > off) then None
      else
        (let sz = GetRemoteObjectSize (hdr_type (msg_obj m off)) in
         if sz = 0 \<or> off + sz > msg_size m then None else Some (off, sz)))"

section \<open>Sending\<close>

record remote_proxy =
  rp_proto :: int
  rp_sessionName :: string
  rp_listen :: "session_object \<Rightarrow> (u64 \<times> string \<times> string \<times> u32) option"

record send_env =
  se_libc :: libc
  se_local :: local_env
  se_auth :: "u32 \<Rightarrow> session_object \<Rightarrow> bool"
  se_find :: "u32 \<Rightarrow> remote_proxy option"

definition GetSessionForProxy :: "remote_proxy \<Rightarrow> session_object \<Rightarrow> session_object option" where
  "GetSessionForProxy p session =
     (if rp_sessionName p = [] then None
      else (case rp_listen p session of
          None \<Rightarrow> None
        | Some (idx, serverName, deviceId, peerTokenId) \<Rightarrow>
            if idx = 0 then None
            else Some (DBinderSessionObject serverName deviceId idx nullptr peerTokenId)))"

definition NewSessionOfBinderProxy ::
    "send_env \<Rightarrow> u32 \<Rightarrow> session_object option \<Rightarrow> process_state option \<Rightarrow> session_object option" where
  "NewSessionOfBinderProxy E handle session cur =
     (case session of
        None \<Rightarrow> None
      | Some o1 \<Rightarrow> (case cur of
          None \<Rightarrow> None
        | Some st \<Rightarrow> (case se_find E handle of
            None \<Rightarrow> None
          | Some p \<Rightarrow> if rp_proto p \<noteq> IF_PROT_DEFAULT then None else GetSessionForProxy p o1)))"

definition QuerySessionOfBinderProxy ::
    "send_env \<Rightarrow> u32 \<Rightarrow> session_object \<Rightarrow> process_state option \<Rightarrow> session_object option" where
  "QuerySessionOfBinderProxy E handle session cur =
     (if \<not> se_auth E handle session then None
      else
        (let p = QueryServerSessionObject handle cur in
         if p = nullptr then None
         else (case cur of None \<Rightarrow> None | Some st \<Rightarrow> Some (sessions (ips st) p))))"

text \<open>
  The results: the flattened session (\<open>None\<close> for size 0), the object, whether the stub got a
  reference, and the state.
\<close>

definition TranslateBinderType ::
    "send_env \<Rightarrow> flat_binder_object \<Rightarrow> session_object \<Rightarrow> process_state option \<Rightarrow>
     FlatDBinderSession option \<times> flat_binder_object \<times> bool \<times> process_state option" where
  "TranslateBinderType E ob session cur =
     (case CreateServerSessionObject (se_local E) (fb_cookie ob) (Some session) cur of
        (None, inc, cur') \<Rightarrow> (None, ob, inc, cur')
      | (Some o1, inc, cur') \<Rightarrow>
          (snd (FlattenSession (se_libc E) o1 SUPPORT_TOKENID_VERSION_NUM),
           ob\<lparr>hdr_type := BINDER_TYPE_REMOTE_HANDLE, fb_cookie := COOKIE_DATABUS, fb_binder := 0\<rparr>,
           inc, cur'))"

definition TranslateHandleType ::
    "send_env \<Rightarrow> flat_binder_object \<Rightarrow> session_object \<Rightarrow> process_state option \<Rightarrow>
     FlatDBinderSession option \<times> flat_binder_object" where
  "TranslateHandleType E ob session cur =
     (case (case cur of
              None \<Rightarrow> None
            | Some st \<Rightarrow>
                if fb_cookie ob = COOKIE_DATABUS then QuerySessionOfBinderProxy E (fb_handle ob) session cur
                else if fb_cookie ob = COOKIE_BINDER
                then NewSessionOfBinderProxy E (fb_handle ob) (Some session) cur
                else None) of
        None \<Rightarrow> (None, ob)
      | Some o1 \<Rightarrow> (snd (FlattenSession (se_libc E) o1 SUPPORT_TOKENID_VERSION_NUM),
                    ob\<lparr>hdr_type := BINDER_TYPE_REMOTE_HANDLE\<rparr>))"

text \<open>
  The loop of \<open>IRemoteObjectTranslateWhenSend\<close>: \<open>written\<close> counts the sessions written so far. The list
  in the result holds the stubs that got a reference.
\<close>

fun send_loop ::
    "send_env \<Rightarrow> session_object \<Rightarrow> nat list \<Rightarrow> nat \<Rightarrow> nat \<times> nat \<Rightarrow> nat \<Rightarrow> message \<Rightarrow> process_state option \<Rightarrow>
     bool \<times> message \<times> ptr list \<times> process_state option" where
  "send_loop E session [] i prev written m cur = (True, m, [], cur)"
| "send_loop E session (off # offs) i prev written m cur =
     (case IsValidRemoteObjectOffset m off i prev of
        None \<Rightarrow> (False, m, [], cur)
      | Some prev' \<Rightarrow>
          (let ob = msg_obj m off in
           if hdr_type ob = BINDER_TYPE_BINDER then
             (case TranslateBinderType E ob session cur of
                (None, ob', inc, cur') \<Rightarrow> (False, put_obj off ob' m, if inc then [fb_cookie ob] else [], cur')
              | (Some f, ob', inc, cur') \<Rightarrow>
                  (case send_loop E session offs (i + 1) prev' (written + 1) (put_flat written f (put_obj off ob' m)) cur' of
                     (ok, m', refs, cur'') \<Rightarrow> (ok, m', (if inc then [fb_cookie ob] else []) @ refs, cur'')))
           else if hdr_type ob = BINDER_TYPE_HANDLE then
             (case TranslateHandleType E ob session cur of
                (None, ob') \<Rightarrow> (False, put_obj off ob' m, [], cur)
              | (Some f, ob') \<Rightarrow>
                  send_loop E session offs (i + 1) prev' (written + 1) (put_flat written f (put_obj off ob' m)) cur)
           else if hdr_type ob = BINDER_TYPE_FD then
             send_loop E session offs (i + 1) prev' written
               (put_obj off (set_handle (- 1) (ob\<lparr>hdr_type := BINDER_TYPE_FDR\<rparr>)) m) cur
           else (False, put_obj off (ob\<lparr>hdr_type := BINDER_TYPE_INVALID_TYPE\<rparr>) m, [], cur)))"

definition IRemoteObjectTranslateWhenSend ::
    "send_env \<Rightarrow> session_object \<Rightarrow> message \<Rightarrow> process_state option \<Rightarrow>
     bool \<times> message \<times> ptr list \<times> process_state option" where
  "IRemoteObjectTranslateWhenSend E session m cur =
     (if msg_size m = 0 then (False, m, [], cur)
      else send_loop E session (msg_offsets m) 0 (0, 0) 0 m cur)"

section \<open>Receiving\<close>

record receive_env =
  re_create :: "(string \<Rightarrow> string \<Rightarrow> string \<Rightarrow> int) option"
  re_fresh :: "nat \<Rightarrow> ptr"
  re_restore :: "ptr \<Rightarrow> bool"

definition MakeRemoteHandle ::
    "receive_env \<Rightarrow> ptr \<Rightarrow> session_object \<Rightarrow> process_state option \<Rightarrow> u32 \<times> process_state option" where
  "MakeRemoteHandle E fresh session cur =
     (case cur of
        None \<Rightarrow> (0, None)
      | Some st \<Rightarrow>
          (case UpdateClientSession (re_create E) session cur of
             (False, o1) \<Rightarrow> (0, Some st)
           | (True, o1) \<Rightarrow>
               (case GetDBinderIdleHandle fresh ((ips st)\<lparr>sessions := (sessions (ips st))(fresh := o1)\<rparr>) of
                  (handle, s) \<Rightarrow>
                    if handle = 0 \<and> QuerySessionByInfo (serviceName o1) (serverDeviceId o1) s = nullptr
                    then (0, Some (st\<lparr>ips := s\<lparr>sessions :=
                            (sessions s)(fresh := snd (CloseDatabusSession (re_create E \<noteq> None) o1))\<rparr>\<rparr>))
                    else (handle, Some (st\<lparr>ips := s\<rparr>)))))"

definition TranslateRemoteHandleType ::
    "receive_env \<Rightarrow> ptr \<Rightarrow> flat_binder_object \<Rightarrow> FlatDBinderSession \<Rightarrow> u32 \<Rightarrow> process_state option \<Rightarrow>
     bool \<times> flat_binder_object \<times> process_state option" where
  "TranslateRemoteHandleType E fresh ob flat binderVersion cur =
     (case (if fb_cookie ob = COOKIE_DATABUS \<or> fb_cookie ob = COOKIE_BINDER
            then UnFlattenSession flat binderVersion else None) of
        None \<Rightarrow> (False, ob, cur)
      | Some o1 \<Rightarrow>
          (case QueryHandleBySession o1 cur of
             (h, cur1) \<Rightarrow>
               (case (if h = 0 then MakeRemoteHandle E fresh o1 cur1 else (h, cur1)) of
                  (h', cur2) \<Rightarrow>
                    if h' = 0 then (False, ob, cur2)
                    else (True, set_handle h' (ob\<lparr>hdr_type := BINDER_TYPE_HANDLE\<rparr>), cur2))))"

text \<open>The second result is the raw data object that the parcel takes over, 0 if none.\<close>

definition TranslateRawData ::
    "receive_env \<Rightarrow> u32 \<Rightarrow> u64 \<Rightarrow> process_state option \<Rightarrow> bool \<times> ptr \<times> process_state option" where
  "TranslateRawData E socketId seqNum cur =
     (if socketId = 0 then (True, nullptr, cur)
      else (case cur of
          None \<Rightarrow> (False, nullptr, None)
        | Some st \<Rightarrow>
            (let p = QueryRawData (sint socketId, seqNum) (ips st) in
             if p = nullptr then (False, nullptr, Some st)
             else
               (let cur' = Some (st\<lparr>ips := snd (DetachRawData (sint socketId, seqNum) (ips st))\<rparr>)
                in if re_restore E p then (True, p, cur') else (False, nullptr, cur')))))"

fun rcv_loop ::
    "receive_env \<Rightarrow> u32 \<Rightarrow> u64 \<Rightarrow> nat list \<Rightarrow> nat \<Rightarrow> nat \<times> nat \<Rightarrow> message \<Rightarrow> process_state option \<Rightarrow>
     bool \<times> message \<times> process_state option" where
  "rcv_loop E socketId seqNum [] i prev m cur = (True, m, cur)"
| "rcv_loop E socketId seqNum (off # offs) i prev m cur =
     (case IsValidRemoteObjectOffset m off i prev of
        None \<Rightarrow> (False, m, cur)
      | Some prev' \<Rightarrow>
          (let ob = msg_obj m off in
           if hdr_type ob = BINDER_TYPE_BINDER then
             (False, put_obj off (ob\<lparr>hdr_type := BINDER_TYPE_INVALID_BINDER, fb_cookie := COOKIE_ERROR,
                fb_binder := 0\<rparr>) m, cur)
           else if hdr_type ob = BINDER_TYPE_HANDLE then
             (False, put_obj off (ob\<lparr>hdr_type := BINDER_TYPE_INVALID_HANDLE, fb_cookie := COOKIE_ERROR,
                fb_binder := 0\<rparr>) m, cur)
           else if hdr_type ob = BINDER_TYPE_REMOTE_HANDLE then
             (case TranslateRemoteHandleType E (re_fresh E i) ob (msg_flat m i) SUPPORT_TOKENID_VERSION_NUM cur of
                (ok, ob', cur') \<Rightarrow> rcv_loop E socketId seqNum offs (i + 1) prev' (put_obj off ob' m) cur')
           else if hdr_type ob = BINDER_TYPE_FD then
             (False, put_obj off (set_handle (- 1) (ob\<lparr>hdr_type := BINDER_TYPE_FDR\<rparr>)) m, cur)
           else if hdr_type ob = BINDER_TYPE_FDR then
             rcv_loop E socketId seqNum offs (i + 1) prev' (put_obj off (set_handle (- 1) ob) m)
               (snd (snd (TranslateRawData E socketId seqNum cur)))
           else (False, put_obj off (ob\<lparr>hdr_type := BINDER_TYPE_INVALID_TYPE\<rparr>) m, cur)))"

definition IRemoteObjectTranslateWhenRcv ::
    "receive_env \<Rightarrow> u32 \<Rightarrow> u64 \<Rightarrow> message \<Rightarrow> process_state option \<Rightarrow> bool \<times> message \<times> process_state option" where
  "IRemoteObjectTranslateWhenRcv E socketId seqNum m cur =
     (if msg_size m = 0 then (False, m, cur)
      else rcv_loop E socketId seqNum (msg_offsets m) 0 (0, 0) m cur)"

end
