(* ===== verification/Session_Proofs.thy ===== *)
theory Session_Proofs
  imports Session_Tables
begin

text \<open>
  Correctness of the session tables: handles and indexes are handed out once, sequence numbers
  do not repeat, the keyed tables behave as maps, ownership of a session moves with its proxy, and
  queued data and wake-ups reach the thread they are meant for.
\<close>

section \<open>The keyed tables\<close>

lemma omap_insert_view:
  "map_of m k = None \<Longrightarrow> map_of (snd (omap_insert k v m)) = (map_of m)(k \<mapsto> v)"
  "map_of m k = Some w \<Longrightarrow> map_of (snd (omap_insert k v m)) = map_of m"
  by (simp_all add: omap_insert_def)

lemmas insert_table_simps = omap_insert_view split_beta fun_eq_iff

interpretation tl: insert_table "\<lambda>s. map_of (threadLockInfo s)" "\<lambda>s. \<not> exitFlag s"
  AttachThreadLockInfo "\<lambda>k s. snd (DetachThreadLockInfo k s)"
  by unfold_locales (auto simp: AttachThreadLockInfo_def DetachThreadLockInfo_def insert_table_simps)

interpretation ws: insert_table "\<lambda>s. map_of (seqNumberToThread s)" "\<lambda>s. \<not> exitFlag s"
  AddThreadBySeqNumber EraseThreadBySeqNumber
  by unfold_locales (auto simp: AddThreadBySeqNumber_def EraseThreadBySeqNumber_def insert_table_simps)

interpretation cb: insert_table "\<lambda>s. map_of (noticeStub s)" "\<lambda>s. \<not> exitFlag s"
  AttachCallbackStub "\<lambda>k s. snd (DetachCallbackStub k s)"
  by unfold_locales
    (auto simp: AttachCallbackStub_def DetachCallbackStub_def insert_table_simps split: option.splits)

interpretation dc: insert_table "\<lambda>s. map_of (dbinderSentCallback s)" "\<lambda>s. \<not> exitFlag s"
  AttachDBinderCallbackStub "\<lambda>k s. snd (DetachDBinderCallbackStubByProxy k s)"
  by unfold_locales
    (auto simp: AttachDBinderCallbackStub_def DetachDBinderCallbackStubByProxy_def insert_table_simps)

lemma raw_data_key_inj: "raw_data_key k = raw_data_key k' \<longleftrightarrow> k = k'"
proof
  assume "raw_data_key k = raw_data_key k'"
  then have "int_str (fst k) = int_str (fst k') \<and> nat_str (unat (snd k)) = nat_str (unat (snd k'))"
    unfolding raw_data_key_def by (rule separated_inj [OF int_str_no_underscore int_str_no_underscore])
  then show "k = k'" by (simp add: prod_eq_iff word_unat_eq_iff)
qed simp

interpretation rd: assign_table "\<lambda>s k. map_of (rawData s) (raw_data_key k)" "\<lambda>s. \<not> exitFlag s"
  AttachRawData "\<lambda>k s. snd (DetachRawData k s)"
  by unfold_locales (auto simp: AttachRawData_def DetachRawData_def raw_data_key_inj fun_eq_iff)

section \<open>Idle handles\<close>

text \<open>The handles of the range in the order in which they are tried, and the one after a handle.\<close>

definition handle_at :: "nat \<Rightarrow> u32" where
  "handle_at k = DBINDER_HANDLE_BASE + of_nat (k mod 100001)"

lemma unat_handle_at: "unat (handle_at k) = 687200000 + k mod 100001"
proof -
  have "k mod 100001 < 100001" by simp
  then have "unat (of_nat (k mod 100001) :: u32) = k mod 100001"
    by (simp add: unat_of_nat take_bit_nat_eq_self)
  then show ?thesis
    using \<open>k mod 100001 < 100001\<close> unfolding handle_at_def by (simp add: unat_word_ariths)
qed

lemma handle_at_made_by_user: "IsHandleMadeByUser (handle_at k)"
proof -
  have "k mod 100001 < 100001" by simp
  then have "k mod 100001 \<le> 100000" by linarith
  then show ?thesis by (simp add: IsHandleMadeByUser_def word_le_nat_alt unat_handle_at)
qed

lemma handle_at_surj:
  assumes "IsHandleMadeByUser h"
  obtains k where "k < 100001" "h = handle_at k"
proof
  have "687200000 \<le> unat h" "unat h \<le> 687300000"
    using assms by (simp_all add: IsHandleMadeByUser_def word_le_nat_alt)
  then show "unat h - 687200000 < 100001" by simp
  then have "unat (handle_at (unat h - 687200000)) = unat h"
    using \<open>687200000 \<le> unat h\<close> by (simp add: unat_handle_at)
  then show "h = handle_at (unat h - 687200000)" by (simp add: word_unat_eq_iff)
qed

lemma handle_at_eq_iff: "handle_at j = handle_at k \<longleftrightarrow> j mod 100001 = k mod 100001"
  by (metis add_left_cancel unat_handle_at word_unat_eq_iff)

lemma next_handle:
  "(if handle_at k + 1 > DBINDER_HANDLE_BASE + DBINDER_HANDLE_COUNT then DBINDER_HANDLE_BASE
    else handle_at k + 1) = handle_at (Suc k)"
proof -
  have b: "k mod 100001 < 100001" by simp
  have u: "unat (handle_at k + 1) = 687200001 + k mod 100001"
    using b by (simp add: unat_word_ariths unat_handle_at)
  show ?thesis
  proof (cases "k mod 100001 = 100000")
    case True
    then have "Suc k mod 100001 = 0" by (simp add: mod_Suc)
    moreover have "handle_at k + 1 > DBINDER_HANDLE_BASE + DBINDER_HANDLE_COUNT"
      using u True by (simp add: word_less_nat_alt)
    ultimately show ?thesis by (simp add: handle_at_def)
  next
    case False
    then have m: "Suc k mod 100001 = Suc (k mod 100001)" by (simp add: mod_Suc)
    have "\<not> handle_at k + 1 > DBINDER_HANDLE_BASE + DBINDER_HANDLE_COUNT"
      using u b False by (simp add: word_less_nat_alt)
    moreover have "handle_at k + 1 = handle_at (Suc k)"
      unfolding word_unat_eq_iff u unat_handle_at m by simp
    ultimately show ?thesis by simp
  qed
qed

lemma idle_handle_loop_spec:
  "idle_handle_loop n (handle_at k) p m =
     (case find (\<lambda>i. map_of m (handle_at i) = None) [Suc k..<Suc k + n] of
        Some i \<Rightarrow> (handle_at i, True, omap_put (handle_at i) p m)
      | None \<Rightarrow> (handle_at (k + n), False, m))"
proof (induction n arbitrary: k)
  case (Suc n)
  have "[Suc k..<Suc k + Suc n] = Suc k # [Suc (Suc k)..<Suc (Suc k) + n]"
    by (simp add: upt_conv_Cons del: upt_Suc)
  moreover have "idle_handle_loop (Suc n) (handle_at k) p m =
      (if map_of m (handle_at (Suc k)) = None
       then (handle_at (Suc k), True, omap_put (handle_at (Suc k)) p m)
       else idle_handle_loop n (handle_at (Suc k)) p m)"
    unfolding idle_handle_loop.simps Let_def next_handle by (auto simp: omap_insert_def)
  ultimately show ?case
    using Suc.IH [of "Suc k"] by (simp del: upt_Suc idle_handle_loop.simps split: option.splits)
qed simp

lemma find_upt_Some:
  assumes "find P [a..<b] = Some i"
  shows "a \<le> i \<and> i < b \<and> P i"
  using assms by (auto simp: find_Some_iff)

lemma handle_window:
  assumes "k < 100001"
  shows "(\<forall>i \<in> {Suc k..<Suc k + 100000}. Q (handle_at i)) \<longleftrightarrow>
    (\<forall>h. IsHandleMadeByUser h \<and> h \<noteq> handle_at k \<longrightarrow> Q h)"
proof
  assume all: "\<forall>i \<in> {Suc k..<Suc k + 100000}. Q (handle_at i)"
  show "\<forall>h. IsHandleMadeByUser h \<and> h \<noteq> handle_at k \<longrightarrow> Q h"
  proof (intro allI impI)
    fix h assume h: "IsHandleMadeByUser h \<and> h \<noteq> handle_at k"
    obtain j where j: "j < 100001" "h = handle_at j" using handle_at_surj h by blast
    with h have "j \<noteq> k" by auto
    define i where "i = (if k < j then j else j + 100001)"
    have "i \<in> {Suc k..<Suc k + 100000}" using j(1) \<open>j \<noteq> k\<close> assms by (auto simp: i_def)
    moreover have "handle_at i = h" by (simp add: i_def j(2) handle_at_eq_iff)
    ultimately show "Q h" using all by auto
  qed
next
  assume all: "\<forall>h. IsHandleMadeByUser h \<and> h \<noteq> handle_at k \<longrightarrow> Q h"
  show "\<forall>i \<in> {Suc k..<Suc k + 100000}. Q (handle_at i)"
  proof
    fix i assume i: "i \<in> {Suc k..<Suc k + 100000}"
    have "i mod 100001 \<noteq> k mod 100001"
    proof
      assume "i mod 100001 = k mod 100001"
      then have "100001 dvd i - k" using i by (intro mod_eq_dvd_iff_nat [THEN iffD1]) simp_all
      moreover have "0 < i - k" "i - k < 100001" using i by auto
      ultimately show False using dvd_imp_le [of 100001 "i - k"] by simp
    qed
    then show "Q (handle_at i)" using all handle_at_made_by_user by (simp add: handle_at_eq_iff)
  qed
qed

lemma GetDBinderIdleHandle_free:
  assumes "\<not> exitFlag s" "dBinderHandle s = handle_at k"
    and "find (\<lambda>i. map_of (proxyToSession s) (handle_at i) = None) [Suc k..<Suc k + 100000] = Some i"
  shows "GetDBinderIdleHandle p s = (handle_at i,
    s\<lparr>proxyToSession := omap_put (handle_at i) p (proxyToSession s), dBinderHandle := handle_at i\<rparr>)"
  using assms idle_handle_loop_spec [of 100000 k p "proxyToSession s"]
  by (simp add: GetDBinderIdleHandle_def)

lemma GetDBinderIdleHandle_full:
  assumes "\<not> exitFlag s" "dBinderHandle s = handle_at k"
    and "find (\<lambda>i. map_of (proxyToSession s) (handle_at i) = None) [Suc k..<Suc k + 100000] = None"
  shows "GetDBinderIdleHandle p s = (0, s)"
  using assms idle_handle_loop_spec [of 100000 k p "proxyToSession s"]
  by (simp add: GetDBinderIdleHandle_def)

section \<open>Sequence numbers\<close>

fun seq_run :: "nat \<Rightarrow> ipc_skeleton \<Rightarrow> u64 list" where
  "seq_run 0 s = []"
| "seq_run (Suc n) s = (case GetSeqNumber s of (q, s') \<Rightarrow> q # seq_run n s')"

abbreviation (input) seq_period :: nat where
  "seq_period \<equiv> 18446744073709551615"

lemma GetSeqNumber_unat:
  assumes "\<not> exitFlag s"
  shows "\<exists>s'. GetSeqNumber s = (seqNumber s', s') \<and> \<not> exitFlag s' \<and>
    unat (seqNumber s') = 1 + unat (seqNumber s) mod seq_period"
proof (cases "seqNumber s = 0xFFFFFFFFFFFFFFFF")
  case True
  with assms show ?thesis by (simp add: GetSeqNumber_def)
next
  case False
  have "unat (seqNumber s) < 18446744073709551616" using unsigned_less [of "seqNumber s"] by simp
  moreover have "unat (seqNumber s) \<noteq> seq_period"
    using False by (simp add: word_unat_eq_iff)
  ultimately have "unat (seqNumber s) < seq_period" by simp
  with False assms show ?thesis by (simp add: GetSeqNumber_def Let_def unat_word_ariths)
qed

lemma seq_run_unat:
  "\<not> exitFlag s \<Longrightarrow>
   map unat (seq_run n s) = map (\<lambda>i. 1 + (unat (seqNumber s) + i) mod seq_period) [0..<n]"
proof (induction n arbitrary: s)
  case (Suc n)
  obtain s' where s': "GetSeqNumber s = (seqNumber s', s')" "\<not> exitFlag s'"
      "unat (seqNumber s') = 1 + unat (seqNumber s) mod seq_period"
    using GetSeqNumber_unat [OF Suc.prems] by blast
  have "(1 + unat (seqNumber s) mod seq_period + i) mod seq_period =
      (unat (seqNumber s) + Suc i) mod seq_period" for i
    using mod_add_right_eq [of "1 + i" "unat (seqNumber s)" seq_period] by (simp add: add_ac)
  then have "map unat (seq_run n s') = map (\<lambda>i. 1 + (unat (seqNumber s) + Suc i) mod seq_period) [0..<n]"
    unfolding Suc.IH [OF s'(2)] s'(3) by simp
  moreover have "[0..<Suc n] = 0 # map Suc [0..<n]"
    by (simp add: map_Suc_upt upt_conv_Cons del: upt_Suc)
  ultimately show ?case
    using s'(1,3) by (simp add: o_def del: upt_Suc)
qed simp

lemma mod_add_inj:
  fixes a :: nat
  assumes "(a + i) mod M = (a + j) mod M" "i < M" "j < M"
  shows "i = j"
proof -
  have *: "j' = i'" if "(a + i') mod M = (a + j') mod M" "j' < M" "i' \<le> j'" for i' j'
  proof -
    have "M dvd (a + j') - (a + i')"
      using that(1,3) by (intro mod_eq_dvd_iff_nat [THEN iffD1]) simp_all
    then have d: "M dvd j' - i'" by simp
    show ?thesis
    proof (rule ccontr)
      assume "j' \<noteq> i'"
      then have "M \<le> j' - i'" using that(3) by (intro dvd_imp_le [OF d]) simp
      with that(2,3) \<open>j' \<noteq> i'\<close> show False by linarith
    qed
  qed
  show ?thesis
  proof (cases "i \<le> j")
    case True
    show ?thesis by (rule * [OF assms(1,3) True, symmetric])
  next
    case False
    then have "j \<le> i" by simp
    show ?thesis by (rule * [OF assms(1) [symmetric] assms(2) \<open>j \<le> i\<close>])
  qed
qed

lemma inj_on_cyclic: "n \<le> M \<Longrightarrow> inj_on (\<lambda>i. 1 + ((a :: nat) + i) mod M) (set [0..<n])"
  by (rule inj_onI) (auto dest: mod_add_inj)

lemma seq_run_distinct:
  assumes "\<not> exitFlag s" "n \<le> seq_period"
  shows "distinct (seq_run n s)" "0 \<notin> set (seq_run n s)"
proof -
  have "distinct (map unat (seq_run n s))"
    unfolding seq_run_unat [OF assms(1)] distinct_map
    using inj_on_cyclic [OF assms(2)] by simp
  then show "distinct (seq_run n s)" by (simp add: distinct_map)
  have "0 \<notin> set (map unat (seq_run n s))" unfolding seq_run_unat [OF assms(1)] by auto
  then show "0 \<notin> set (seq_run n s)" by (force simp: image_iff)
qed

section \<open>Indexes of stubs\<close>

definition stub_inv :: "ipc_skeleton \<Rightarrow> bool" where
  "stub_inv s \<longleftrightarrow> \<not> exitFlag s \<and> distinct (map fst (stubObjects s)) \<and> distinct (map snd (stubObjects s)) \<and>
     (\<forall>i \<in> fst ` set (stubObjects s). 0 < i \<and> i < randNum s) \<and> 0 < randNum s"

lemma index_loop_Some: "index_loop p m = Some i \<Longrightarrow> (i, p) \<in> set m"
  by (induction p m rule: index_loop.induct) (auto split: if_splits)

lemma index_loop_None: "index_loop p m = None \<longleftrightarrow> p \<notin> snd ` set m"
  by (induction p m rule: index_loop.induct) auto

lemma index_loop_eq:
  "distinct (map snd m) \<Longrightarrow> (i, p) \<in> set m \<Longrightarrow> index_loop p m = Some i"
  by (induction p m rule: index_loop.induct) (force split: if_splits)+

lemma index_loop_filter:
  assumes "distinct (map fst m)" "distinct (map snd m)" "(i, p) \<in> set m"
  shows "index_loop q (filter (\<lambda>e. fst e \<noteq> i) m) = (if q = p then None else index_loop q m)"
  using assms
proof (induction m)
  case (Cons e m)
  show ?case
  proof (cases "e = (i, p)")
    case True
    have "filter (\<lambda>e. fst e \<noteq> i) m = m"
      using Cons.prems(1) True by (intro filter_True) force
    then show ?thesis using True Cons.prems(2) by (auto simp: index_loop_None)
  next
    case False
    then have m: "(i, p) \<in> set m" using Cons.prems(3) by auto
    then have "i \<in> fst ` set m" "p \<in> snd ` set m" by force+
    then have "fst e \<noteq> i" "snd e \<noteq> p" using Cons.prems(1,2) by auto
    then show ?thesis using Cons.IH m Cons.prems by (cases e) auto
  qed
qed simp

text \<open>The stub tables that \<open>k\<close> registrations and removals lead to.\<close>

inductive stub_reachable :: "nat \<Rightarrow> ipc_skeleton \<Rightarrow> bool" where
  start: "0 < r \<Longrightarrow> r \<le> 10000000 \<Longrightarrow> stub_reachable 0 (IPCProcessSkeleton r)"
| add: "stub_reachable k s \<Longrightarrow> stub_reachable (Suc k) (snd (AddStubByIndex p s))"
| erase: "stub_reachable k s \<Longrightarrow> stub_reachable (Suc k) (snd (EraseStubIndex p s))"

lemma stub_inv_new_index:
  "stub_inv s \<Longrightarrow> map_of (stubObjects s) (randNum s) = None"
  by (force simp: stub_inv_def map_of_eq_None_iff)

lemma stub_inv_add:
  assumes "stub_inv s" "randNum s < randNum s + 1"
  shows "stub_inv (snd (AddStubByIndex p s))"
proof (cases "index_loop p (stubObjects s)")
  case None
  have new: "map_of (stubObjects s) (randNum s) = None" by (rule stub_inv_new_index [OF assms(1)])
  then have "snd (AddStubByIndex p s) =
      s\<lparr>randNum := randNum s + 1, stubObjects := (randNum s, p) # stubObjects s\<rparr>"
    using None assms(1) by (simp add: AddStubByIndex_def Let_def stub_inv_def)
  moreover have "0 < i \<and> i < randNum s + 1" if "i \<in> fst ` set (stubObjects s)" for i
    using that assms by (auto simp: stub_inv_def intro: less_trans)
  moreover have "0 < randNum s + 1" using assms(2) by (rule le_less_trans [rotated]) simp
  moreover have "p \<notin> snd ` set (stubObjects s)" "randNum s \<notin> fst ` set (stubObjects s)"
    using None new by (simp_all add: index_loop_None map_of_eq_None_iff)
  ultimately show ?thesis
    using assms by (simp add: stub_inv_def)
next
  case (Some i)
  with assms show ?thesis by (simp add: AddStubByIndex_def stub_inv_def)
qed

lemma stub_inv_erase: "stub_inv s \<Longrightarrow> stub_inv (snd (EraseStubIndex p s))"
  by (auto simp: EraseStubIndex_def stub_inv_def distinct_map_filter split: option.splits)

lemma reachable_stub_inv:
  "stub_reachable k s \<Longrightarrow> k \<le> 9223372036854775808 \<Longrightarrow> stub_inv s \<and> unat (randNum s) \<le> 10000000 + k"
proof (induction rule: stub_reachable.induct)
  case (start r)
  then show ?case by (auto simp: stub_inv_def IPCProcessSkeleton_def word_le_nat_alt)
next
  case (add k s p)
  then have IH: "stub_inv s" "unat (randNum s) \<le> 10000000 + k" by simp_all
  then have u: "unat (randNum s + 1) = unat (randNum s) + 1"
    using add.prems by (simp add: unat_word_ariths)
  then have "randNum s < randNum s + 1" by (simp add: word_less_nat_alt)
  then have "stub_inv (snd (AddStubByIndex p s))" using stub_inv_add IH(1) by simp
  moreover have "unat (randNum (snd (AddStubByIndex p s))) \<le> 10000000 + Suc k"
    using IH(2) u by (auto simp: AddStubByIndex_def Let_def split: option.splits)
  ultimately show ?case by simp
next
  case (erase k s p)
  then have "stub_inv s" "unat (randNum s) \<le> 10000000 + k" by simp_all
  moreover have "randNum (snd (EraseStubIndex p s)) = randNum s"
    by (auto simp: EraseStubIndex_def split: option.splits)
  ultimately show ?case by (simp add: stub_inv_erase)
qed

section \<open>Data queues\<close>

datatype queue_call = AddData thread_id "ThreadProcessInfo option" | PopData thread_id

definition data_queue :: "ipc_skeleton \<Rightarrow> thread_id \<Rightarrow> ThreadProcessInfo option list" where
  "data_queue s t = (case map_of (dataInfoQueue s) t of Some q \<Rightarrow> q | None \<Rightarrow> [])"

text \<open>A run of calls; the list holds the threads that popped from a non-empty queue and what they got.\<close>

fun queue_calls ::
    "queue_call list \<Rightarrow> ipc_skeleton \<Rightarrow> (thread_id \<times> ThreadProcessInfo option) list \<times> ipc_skeleton" where
  "queue_calls [] s = ([], s)"
| "queue_calls (AddData t x # cs) s = queue_calls cs (AddDataInfoToThread t x s)"
| "queue_calls (PopData t # cs) s =
     (case PopDataInfoFromThread t s of (x, s') \<Rightarrow>
        (case queue_calls cs s' of (out, s'') \<Rightarrow>
           (if data_queue s t = [] then out else (t, x) # out, s'')))"

fun added_to :: "thread_id \<Rightarrow> queue_call list \<Rightarrow> ThreadProcessInfo option list" where
  "added_to t [] = []"
| "added_to t (AddData t' x # cs) = (if t' = t then x # added_to t cs else added_to t cs)"
| "added_to t (PopData t' # cs) = added_to t cs"

definition popped_by :: "thread_id \<Rightarrow> (thread_id \<times> ThreadProcessInfo option) list \<Rightarrow> ThreadProcessInfo option list" where
  "popped_by t out = map snd (filter (\<lambda>e. fst e = t) out)"

lemma data_queue_add:
  "\<not> exitFlag s \<Longrightarrow> data_queue (AddDataInfoToThread t x s) t' = data_queue s t' @ (if t' = t then [x] else [])"
  "exitFlag (AddDataInfoToThread t x s) = exitFlag s"
  by (auto simp: data_queue_def AddDataInfoToThread_def Let_def)

lemma data_queue_pop:
  assumes "\<not> exitFlag s"
  shows "\<exists>s'. PopDataInfoFromThread t s =
      (if data_queue s t = [] then None else hd (data_queue s t), s') \<and> \<not> exitFlag s' \<and>
    (\<forall>t'. data_queue s' t' = (if t' = t then tl (data_queue s t) else data_queue s t'))"
  using assms by (auto simp: PopDataInfoFromThread_def data_queue_def split: list.splits option.splits)

lemma queue_calls_fifo:
  "\<not> exitFlag s \<Longrightarrow> queue_calls cs s = (out, s') \<Longrightarrow>
   popped_by t out @ data_queue s' t = data_queue s t @ added_to t cs"
proof (induction cs arbitrary: s out)
  case Nil
  then show ?case by (simp add: popped_by_def)
next
  case (Cons c cs)
  show ?case
  proof (cases c)
    case (AddData t' x)
    with Cons.prems show ?thesis
      using Cons.IH [of "AddDataInfoToThread t' x s" out] by (simp add: data_queue_add)
  next
    case (PopData t')
    obtain s1 where s1: "PopDataInfoFromThread t' s =
        (if data_queue s t' = [] then None else hd (data_queue s t'), s1)" "\<not> exitFlag s1"
        "data_queue s1 t = (if t = t' then tl (data_queue s t') else data_queue s t)"
      using data_queue_pop [OF Cons.prems(1)] by blast
    obtain out1 s2 where r: "queue_calls cs s1 = (out1, s2)" by (cases "queue_calls cs s1")
    have o: "s' = s2" "out = (if data_queue s t' = [] then out1 else (t', hd (data_queue s t')) # out1)"
      using Cons.prems(2) s1(1) r by (auto simp: PopData split: if_splits)
    have "popped_by t out1 @ data_queue s2 t = data_queue s1 t @ added_to t cs"
      using Cons.IH [OF s1(2)] r o(1) by simp
    with s1(3) o show ?thesis by (cases "data_queue s t'") (auto simp: popped_by_def PopData)
  qed
qed

section \<open>Sessions\<close>

lemma session_tables_wf:
  "omap_wf (proxyToSession s) \<Longrightarrow> omap_wf (proxyToSession (snd (GetDBinderIdleHandle p s)))"
  "omap_wf (proxyToSession s) \<Longrightarrow> omap_wf (proxyToSession (snd (ProxyDetachDBinderSession h p s)))"
  "omap_wf (proxyToSession s) \<Longrightarrow> ProxyAttachDBinderSession h p s = Some (r, s') \<Longrightarrow> omap_wf (proxyToSession s')"
  "proxyToSession (snd (ProxyMoveDBinderSession h p s)) = proxyToSession s"
  "proxyToSession (snd (QueryHandleByDatabusSession n d i s)) = proxyToSession s"
proof -
  have "omap_wf m \<Longrightarrow> omap_wf (snd (snd (idle_handle_loop n t p m)))" for n t m
    by (induction n arbitrary: t m) (auto simp: Let_def omap_insert_def omap_wf_put split: option.splits)
  then show "omap_wf (proxyToSession s) \<Longrightarrow> omap_wf (proxyToSession (snd (GetDBinderIdleHandle p s)))"
    by (simp add: GetDBinderIdleHandle_def split_beta)
qed (auto simp: ProxyDetachDBinderSession_def ProxyAttachDBinderSession_def ProxyMoveDBinderSession_def
    QueryHandleByDatabusSession_def on_session_def omap_wf_erase omap_insert_def omap_wf_put
    split: option.splits if_splits)

lemma databus_loop_Some:
  "databus_loop H P m = Some (h, p) \<Longrightarrow> p \<noteq> nullptr \<and> P (H p) \<and> (h, p) \<in> set m"
  by (induction H P m rule: databus_loop.induct) (auto split: if_splits)

lemma idle_handle_spec:
  assumes "\<not> exitFlag s" "IsHandleMadeByUser (dBinderHandle s)"
  shows "\<exists>h s'. GetDBinderIdleHandle p s = (h, s') \<and>
    (h = 0 \<longleftrightarrow> (\<forall>g. IsHandleMadeByUser g \<and> g \<noteq> dBinderHandle s \<longrightarrow> map_of (proxyToSession s) g \<noteq> None)) \<and>
    (h = 0 \<longrightarrow> s' = s) \<and>
    (h \<noteq> 0 \<longrightarrow> IsHandleMadeByUser h \<and> map_of (proxyToSession s) h = None \<and>
       s' = s\<lparr>proxyToSession := omap_put h p (proxyToSession s), dBinderHandle := h\<rparr>)"
proof -
  obtain k where k: "k < 100001" "dBinderHandle s = handle_at k" using handle_at_surj [OF assms(2)] by blast
  note window = handle_window [OF k(1), of "\<lambda>h. map_of (proxyToSession s) h \<noteq> None"]
  have nz: "handle_at i \<noteq> 0" for i using unat_handle_at [of i] by fastforce
  show ?thesis
  proof (cases "find (\<lambda>i. map_of (proxyToSession s) (handle_at i) = None) [Suc k..<Suc k + 100000]")
    case None
    then have "\<forall>i \<in> {Suc k..<Suc k + 100000}. map_of (proxyToSession s) (handle_at i) \<noteq> None"
      by (auto simp: find_None_iff)
    with window show ?thesis
      using GetDBinderIdleHandle_full [OF assms(1) k(2) None] k(2) by simp
  next
    case (Some i)
    note i = find_upt_Some [OF Some]
    then have "\<not> (\<forall>i \<in> {Suc k..<Suc k + 100000}. map_of (proxyToSession s) (handle_at i) \<noteq> None)" by force
    with window show ?thesis
      using GetDBinderIdleHandle_free [OF assms(1) k(2) Some] i k(2) nz handle_at_made_by_user by simp
  qed
qed

section \<open>Properties\<close>

text \<open>
  \<open>GetDBinderIdleHandle\<close> always ends, and returns 0 exactly if every handle of the range but the
  one handed out last is in use; nothing changes then. Otherwise the handle is one of the range
  that was not in use, it now stands for the session, and no other entry of the table changes.
\<close>

theorem idle_handle_fresh:
  assumes "\<not> exitFlag s" "IsHandleMadeByUser (dBinderHandle s)"
  shows "\<exists>h s'. GetDBinderIdleHandle p s = (h, s') \<and>
    (h = 0 \<longleftrightarrow> (\<forall>g. IsHandleMadeByUser g \<and> g \<noteq> dBinderHandle s \<longrightarrow> map_of (proxyToSession s) g \<noteq> None)) \<and>
    (h = 0 \<longrightarrow> s' = s) \<and>
    (h \<noteq> 0 \<longrightarrow> IsHandleMadeByUser h \<and> map_of (proxyToSession s) h = None \<and>
       s' = s\<lparr>proxyToSession := omap_put h p (proxyToSession s), dBinderHandle := h\<rparr>)"
  using assms by (rule idle_handle_spec)

theorem idle_handle_fresh_witness:
  "\<exists>h s'. GetDBinderIdleHandle 8 (IPCProcessSkeleton 1) = (h, s') \<and> h \<noteq> 0 \<and> IsHandleMadeByUser h \<and>
    proxyToSession s' = [(h, 8)]"
proof -
  have "IsHandleMadeByUser 687200001" "(687200001 :: u32) \<noteq> DBINDER_HANDLE_BASE"
    by (simp_all add: IsHandleMadeByUser_def)
  then show ?thesis
    using idle_handle_fresh [of "IPCProcessSkeleton 1" 8]
    by (auto simp: IPCProcessSkeleton_def IsHandleMadeByUser_def)
qed

text \<open>
  Registering a stub returns an index that is not 0 and leads back to the stub, in both
  directions, and leaves the indexes of all other stubs alone; a stub that is registered already
  keeps its index, any other gets one that was never in use before. Removing the stub afterwards
  returns the same index and undoes both directions.
\<close>

theorem stub_index_roundtrip:
  assumes "stub_reachable k s" "k \<le> 9223372036854775808"
  shows "\<exists>i s' s''. AddStubByIndex p s = (i, s') \<and> i \<noteq> 0 \<and>
    QueryStubByIndex i s' = p \<and> QueryStubIndex p s' = i \<and>
    (\<forall>q. q \<noteq> p \<longrightarrow> QueryStubIndex q s' = QueryStubIndex q s) \<and>
    i = (if QueryStubIndex p s = 0 then randNum s else QueryStubIndex p s) \<and>
    EraseStubIndex p s' = (i, s'') \<and> QueryStubByIndex i s'' = nullptr \<and>
    (\<forall>q. QueryStubIndex q s'' = (if q = p then 0 else QueryStubIndex q s))"
proof -
  have inv: "stub_inv s" using reachable_stub_inv [OF assms] by simp
  then have d: "\<not> exitFlag s" "distinct (map fst (stubObjects s))" "distinct (map snd (stubObjects s))"
    and pos: "\<And>i q. (i, q) \<in> set (stubObjects s) \<Longrightarrow> i \<noteq> 0" "randNum s \<noteq> 0"
    by (force simp: stub_inv_def)+
  show ?thesis
  proof (cases "index_loop p (stubObjects s)")
    case (Some i)
    note mem = index_loop_Some [OF Some]
    then have "map_of (stubObjects s) i = Some p" using d(2) by (simp add: map_of_eq_Some_iff)
    moreover have "map_of (filter (\<lambda>e. fst e \<noteq> i) (stubObjects s)) i = None"
      by (auto simp: map_of_eq_None_iff)
    ultimately show ?thesis
      using Some d(1) pos(1) [OF mem] index_loop_filter [OF d(2,3) mem]
      by (simp add: AddStubByIndex_def QueryStubByIndex_def QueryStubIndex_def EraseStubIndex_def)
  next
    case None
    have new: "map_of (stubObjects s) (randNum s) = None" by (rule stub_inv_new_index [OF inv])
    then have "filter (\<lambda>e. fst e \<noteq> randNum s) (stubObjects s) = stubObjects s"
      by (intro filter_True) (force simp: map_of_eq_None_iff)
    then show ?thesis
      using None new d(1) pos(2)
      by (auto simp: AddStubByIndex_def QueryStubByIndex_def QueryStubIndex_def EraseStubIndex_def Let_def)
  qed
qed

theorem stub_index_roundtrip_witness:
  "\<exists>i s' s''. AddStubByIndex 16 (IPCProcessSkeleton 7) = (i, s') \<and> i = 7 \<and> QueryStubByIndex 7 s' = 16 \<and>
    EraseStubIndex 16 s' = (7, s'') \<and> QueryStubByIndex 7 s'' = nullptr"
  using stub_index_roundtrip [OF stub_reachable.start [of 7], of 16]
  by (auto simp: QueryStubIndex_def IPCProcessSkeleton_def)

text \<open>
  Fewer than \<open>2 ^ 64\<close> successive calls of \<open>GetSeqNumber\<close> in a live process return pairwise
  different numbers, wherever the counter starts and although it wraps, and never 0.
\<close>

theorem seq_numbers_distinct:
  assumes "\<not> exitFlag s" "n \<le> 18446744073709551615"
  shows "distinct (seq_run n s) \<and> 0 \<notin> set (seq_run n s) \<and> length (seq_run n s) = n"
  using seq_run_distinct [OF assms] arg_cong [OF seq_run_unat [OF assms(1), of n], of length] by simp

theorem seq_numbers_distinct_witness:
  "distinct (seq_run 3 ((IPCProcessSkeleton 1)\<lparr>seqNumber := 0xFFFFFFFFFFFFFFFE\<rparr>))"
  using seq_numbers_distinct [of "(IPCProcessSkeleton 1)\<lparr>seqNumber := 0xFFFFFFFFFFFFFFFE\<rparr>" 3]
  by (simp add: IPCProcessSkeleton_def)

text \<open>
  Ownership of a session follows its proxy. After \<open>QueryHandleByDatabusSession\<close> has found the
  handle of a session, no proxy that still refers to it can detach it; after
  \<open>ProxyMoveDBinderSession\<close> to a new proxy, the old one still cannot, and the new one detaches the
  session and removes the handle. The session found is the one asked for.
\<close>

theorem session_ownership_moves:
  assumes "omap_wf (proxyToSession s)" "QueryHandleByDatabusSession name deviceId idx s = (h, s1)"
    and "h \<noteq> 0" "a \<noteq> nullptr" "a \<noteq> b"
  shows "\<exists>p s2 s3. map_of (proxyToSession s) h = Some p \<and>
    so_stubIndex (sessions s p) = idx \<and> serverDeviceId (sessions s p) = deviceId \<and>
    serviceName (sessions s p) = name \<and>
    ProxyDetachDBinderSession h a s1 = (nullptr, s1) \<and>
    ProxyMoveDBinderSession h b s1 = (True, s2) \<and>
    ProxyDetachDBinderSession h a s2 = (nullptr, s2) \<and>
    ProxyDetachDBinderSession h b s2 = (p, s3) \<and> ProxyQueryDBinderSession h s3 = nullptr"
proof -
  let ?P = "\<lambda>x. so_stubIndex x = idx \<and> serverDeviceId x = deviceId \<and> serviceName x = name"
  have live: "\<not> exitFlag s" using assms(2,3) by (auto simp: QueryHandleByDatabusSession_def)
  obtain p where p: "databus_loop (sessions s) ?P (proxyToSession s) = Some (h, p)"
      "s1 = on_session p (SetProxy nullptr) s"
    using assms(2,3) live by (auto simp: QueryHandleByDatabusSession_def split: option.splits)
  note found = databus_loop_Some [OF p(1)]
  then have "map_of (proxyToSession s) h = Some p" using assms(1) by (simp add: omap_wf_map_of_iff)
  with found live assms(4,5) p(2) show ?thesis
    by (auto simp: ProxyDetachDBinderSession_def ProxyMoveDBinderSession_def ProxyQueryDBinderSession_def
      on_session_def SetProxy_def)
qed

theorem session_ownership_moves_witness:
  "\<exists>p s2 s3. ProxyMoveDBinderSession 5 24 ((IPCProcessSkeleton 1)\<lparr>proxyToSession := [(5, 8)],
      sessions := (\<lambda>_. DBinderSessionObject ''svc'' ''dev'' 3 nullptr 0)\<rparr>) = (True, s2) \<and>
    ProxyDetachDBinderSession 5 16 s2 = (nullptr, s2) \<and> ProxyDetachDBinderSession 5 24 s2 = (p, s3)"
  using session_ownership_moves [of "(IPCProcessSkeleton 1)\<lparr>proxyToSession := [(5, 8)],
      sessions := (\<lambda>_. DBinderSessionObject ''svc'' ''dev'' 3 nullptr 0)\<rparr>" "''svc''" "''dev''" 3 5 _ 16 24]
  by (auto simp: QueryHandleByDatabusSession_def IPCProcessSkeleton_def DBinderSessionObject_def
    on_session_def SetProxy_def fun_upd_idem)

text \<open>
  The data queues are first in, first out for every thread separately: whatever the order of
  the calls of all threads, what a thread has popped followed by what is still queued for it is
  what was queued before followed by what was added for it.
\<close>

theorem data_queue_per_thread_fifo:
  assumes "\<not> exitFlag s" "queue_calls cs s = (out, s')"
  shows "popped_by t out @ data_queue s' t = data_queue s t @ added_to t cs"
  using assms by (rule queue_calls_fifo)

theorem data_queue_per_thread_fifo_witness:
  "popped_by 1 (fst (queue_calls [AddData 1 None, AddData 2 None, PopData 1] (IPCProcessSkeleton 1))) = [None]"
  using data_queue_per_thread_fifo [of "IPCProcessSkeleton 1" "[AddData 1 None, AddData 2 None, PopData 1]"
      "fst (queue_calls [AddData 1 None, AddData 2 None, PopData 1] (IPCProcessSkeleton 1))"
      "snd (queue_calls [AddData 1 None, AddData 2 None, PopData 1] (IPCProcessSkeleton 1))" 1]
  by (simp add: IPCProcessSkeleton_def data_queue_def AddDataInfoToThread_def PopDataInfoFromThread_def)

text \<open>
  C30. A sender that waits for the reply with its sequence number is woken by \<open>WakeUpThreadBySeqNumber\<close>
  with the socket the request went out on, even if that call comes before it starts to wait, and
  by no other socket and no other sequence number: then it still waits, or ends with a timeout. In
  every case the flag is reset for the next use.
\<close>

theorem reply_wakes_its_sender:
  assumes "AddSendThreadInWait n m s = (True, s1)" "\<not> tm_ready (messages s m)"
    and "\<forall>k q. map_of (seqNumberToThread s) k = Some q \<longrightarrow> q \<noteq> m"
  shows "AddSendThreadInWait_resume m timeout (WakeUpThreadBySeqNumber n' h s1) =
    (if n' = n \<and> h = tm_socketId (messages s m) then Some (True, s1)
     else if timeout then Some (False, (WakeUpThreadBySeqNumber n' h s1)) else None)"
proof -
  have live: "\<not> exitFlag s" and m: "m \<noteq> nullptr"
    and s1: "s1 = s\<lparr>seqNumberToThread := omap_put n m (seqNumberToThread s)\<rparr>"
    using assms(1) by (auto simp: AddSendThreadInWait_def AddThreadBySeqNumber_def omap_insert_def
      split: if_splits option.splits)
  have reset: "on_message m (\<lambda>x. x\<lparr>tm_ready := False\<rparr>) r = r" if "\<not> tm_ready (messages r m)" for r
    using that by (cases "messages r m") (simp add: on_message_def fun_upd_idem)
  show ?thesis
    using assms(2,3) live m reset
    by (auto simp: s1 AddSendThreadInWait_resume_def WakeUpThreadBySeqNumber_def QueryThreadBySeqNumber_def
      on_message_def Let_def fun_upd_idem_iff split: option.splits)
qed

theorem reply_wakes_its_sender_witness:
  "fst (AddSendThreadInWait 9 16 (IPCProcessSkeleton 1)) \<and>
   AddSendThreadInWait_resume 16 False (WakeUpThreadBySeqNumber 9 0 (snd (AddSendThreadInWait 9 16 (IPCProcessSkeleton 1)))) =
     Some (True, snd (AddSendThreadInWait 9 16 (IPCProcessSkeleton 1))) \<and>
   AddSendThreadInWait_resume 16 False (WakeUpThreadBySeqNumber 9 4 (snd (AddSendThreadInWait 9 16 (IPCProcessSkeleton 1)))) = None"
  using reply_wakes_its_sender [of 9 16 "IPCProcessSkeleton 1" "snd (AddSendThreadInWait 9 16 (IPCProcessSkeleton 1))" False 9 0]
    reply_wakes_its_sender [of 9 16 "IPCProcessSkeleton 1" "snd (AddSendThreadInWait 9 16 (IPCProcessSkeleton 1))" False 9 4]
  by (simp add: IPCProcessSkeleton_def AddSendThreadInWait_def AddThreadBySeqNumber_def omap_insert_def)

text \<open>
  The keyed tables of a live skeleton are maps. Over any sequence of calls, a query for raw
  data returns what the last attachment for the pair of socket and sequence number left (the text
  keys of different pairs never clash); a query for a waiting sender, a thread lock or a callback
  stub returns the first attachment that was not removed, since later ones are refused.
\<close>

theorem keyed_tables_refine_maps:
  assumes "\<not> exitFlag s"
  shows "QueryRawData k (fold (table_step AttachRawData (\<lambda>k s. snd (DetachRawData k s))) cs s) =
      (case fold assign_spec cs (\<lambda>k. map_of (rawData s) (raw_data_key k)) k of Some p \<Rightarrow> p | None \<Rightarrow> nullptr) \<and>
    QueryThreadBySeqNumber n (fold (table_step AddThreadBySeqNumber EraseThreadBySeqNumber) ms s) =
      (case fold insert_spec ms (map_of (seqNumberToThread s)) n of Some p \<Rightarrow> p | None \<Rightarrow> nullptr) \<and>
    QueryThreadLockInfo t (fold (table_step AttachThreadLockInfo (\<lambda>k s. snd (DetachThreadLockInfo k s))) ls s) =
      (case fold insert_spec ls (map_of (threadLockInfo s)) t of Some p \<Rightarrow> p | None \<Rightarrow> nullptr) \<and>
    QueryCallbackStub p (fold (table_step AttachCallbackStub (\<lambda>k s. snd (DetachCallbackStub k s))) bs s) =
      (case fold insert_spec bs (map_of (noticeStub s)) p of Some p \<Rightarrow> p | None \<Rightarrow> nullptr)"
  using fun_cong [OF rd.run_refines [OF assms, of cs], of k] rd.live_run [of cs s]
    fun_cong [OF ws.run_refines [OF assms, of ms], of n] ws.live_run [of ms s]
    fun_cong [OF tl.run_refines [OF assms, of ls], of t] tl.live_run [of ls s]
    fun_cong [OF cb.run_refines [OF assms, of bs], of p] cb.live_run [of bs s] assms
  by (simp add: QueryRawData_def QueryThreadBySeqNumber_def QueryThreadLockInfo_def QueryCallbackStub_def)

theorem keyed_tables_refine_maps_witness:
  "QueryRawData (1, 23) (fold (table_step AttachRawData (\<lambda>k s. snd (DetachRawData k s)))
     [Add (1, 23) 8, Add (12, 3) 16, Add (1, 23) 24, Remove (12, 3)] (IPCProcessSkeleton 1)) = 24"
  using keyed_tables_refine_maps [of "IPCProcessSkeleton 1" "(1, 23)"
      "[Add (1, 23) 8, Add (12, 3) 16, Add (1, 23) 24, Remove (12, 3)]"]
  by (simp add: IPCProcessSkeleton_def)

end
