(* ===== verification/Object_Translation_Proofs.thy ===== *)
theory Object_Translation_Proofs
  imports Object_Translation Databus_Wire_Proofs Session_Proofs Buffer_Object_Proofs
begin

text \<open>
  What the translation of remote objects guarantees: no address of a stub leaves the device, nothing
  a peer sends is taken for a local object or descriptor, and where the two directions disagree.
\<close>

section \<open>Offsets\<close>

lemma valid_offset:
  "IsValidRemoteObjectOffset m off i prev = Some prev' \<Longrightarrow>
   fst prev' = off \<and> (0 < i \<longrightarrow> fst prev < off) \<and> off + 4 < msg_size m"
  by (auto simp: IsValidRemoteObjectOffset_def Let_def split: if_splits)

lemma put_obj_other [simp]:
  "msg_obj (put_obj off ob m) o1 = (if o1 = off then ob else msg_obj m o1)" "msg_obj (put_flat k f m) = msg_obj m"
  "msg_flat (put_obj off ob m) = msg_flat m" "msg_flat (put_flat k f m) = (msg_flat m)(k := f)"
  "msg_size (put_obj off ob m) = msg_size m" "msg_size (put_flat k f m) = msg_size m"
  "msg_offsets (put_obj off ob m) = msg_offsets m" "msg_offsets (put_flat k f m) = msg_offsets m"
  by (simp_all add: put_obj_def put_flat_def)

section \<open>Sending\<close>

text \<open>What an object may look like when the message leaves: \<open>ob\<close> before, \<open>ob'\<close> after.\<close>

definition sent_obj :: "flat_binder_object \<Rightarrow> flat_binder_object \<Rightarrow> bool" where
  "sent_obj ob ob' \<longleftrightarrow>
     (hdr_type ob = BINDER_TYPE_BINDER \<longrightarrow>
        hdr_type ob' = BINDER_TYPE_REMOTE_HANDLE \<and> fb_binder ob' = 0 \<and> fb_cookie ob' = COOKIE_DATABUS) \<and>
     (hdr_type ob = BINDER_TYPE_HANDLE \<longrightarrow> hdr_type ob' = BINDER_TYPE_REMOTE_HANDLE) \<and>
     (hdr_type ob = BINDER_TYPE_FD \<longrightarrow> hdr_type ob' = BINDER_TYPE_FDR \<and> fb_handle ob' = - 1) \<and>
     hdr_type ob \<in> {BINDER_TYPE_BINDER, BINDER_TYPE_HANDLE, BINDER_TYPE_FD}"

lemma fb_handle_set [simp]: "fb_handle (set_handle h ob) = h" "hdr_type (set_handle h ob) = hdr_type ob"
  "fb_cookie (set_handle h ob) = fb_cookie ob"
proof -
  show "fb_handle (set_handle h ob) = h"
    by (rule bit_word_eqI) (auto simp: fb_handle_def set_handle_def bit_simps)
qed (simp_all add: set_handle_def)

definition pass :: "(flat_binder_object \<Rightarrow> flat_binder_object \<Rightarrow> bool) \<Rightarrow> nat list \<Rightarrow> nat \<Rightarrow> nat \<times> nat \<Rightarrow> message \<Rightarrow> message \<Rightarrow> bool" where
  "pass R offs i prev m m' \<longleftrightarrow>
     (\<forall>off \<in> set offs. (0 < i \<longrightarrow> fst prev < off) \<and> R (msg_obj m off) (msg_obj m' off)) \<and>
     (\<forall>o1. o1 \<notin> set offs \<longrightarrow> msg_obj m' o1 = msg_obj m o1)"

lemma pass_Cons:
  assumes "pass R offs (i + 1) prev' m1 m'" "IsValidRemoteObjectOffset m off i prev = Some prev'"
    and "\<And>o1. msg_obj m1 o1 = (if o1 = off then ob' else msg_obj m o1)" "R (msg_obj m off) ob'"
  shows "pass R (off # offs) i prev m m'"
proof -
  note v = valid_offset [OF assms(2)]
  have later: "off < o1" if "o1 \<in> set offs" for o1 using assms(1) v that by (simp add: pass_def)
  then have "off \<notin> set offs" by blast
  then have "R (msg_obj m off) (msg_obj m' off)" using assms(1,3,4) by (simp add: pass_def)
  moreover have "R (msg_obj m o1) (msg_obj m' o1)" if "o1 \<in> set offs" for o1
  proof -
    have "R (msg_obj m1 o1) (msg_obj m' o1)" using assms(1) that by (simp add: pass_def)
    then show ?thesis using assms(3) later [OF that] by simp
  qed
  moreover have "0 < i \<longrightarrow> fst prev < o1" if "o1 \<in> set (off # offs)" for o1 using later v that by fastforce
  ultimately show ?thesis using assms(1,3) by (auto simp: pass_def)
qed

lemma send_loop_objects:
  assumes "send_loop E session offs i prev w m cur = (True, m', refs, cur')"
  shows "pass sent_obj offs i prev m m'"
  using assms
proof (induction offs arbitrary: i prev w m cur refs)
  case (Cons off offs)
  obtain prev' where v: "IsValidRemoteObjectOffset m off i prev = Some prev'" using Cons.prems by (auto split: option.splits)
  let ?ob = "msg_obj m off"
  consider (stub) f ob' inc cur1 refs1 where "hdr_type ?ob = BINDER_TYPE_BINDER" "TranslateBinderType E ?ob session cur = (Some f, ob', inc, cur1)"
      "send_loop E session offs (i + 1) prev' (w + 1) (put_flat w f (put_obj off ob' m)) cur1 = (True, m', refs1, cur')"
    | (proxy) f ob' refs1 where "hdr_type ?ob = BINDER_TYPE_HANDLE" "TranslateHandleType E ?ob session cur = (Some f, ob')"
      "send_loop E session offs (i + 1) prev' (w + 1) (put_flat w f (put_obj off ob' m)) cur = (True, m', refs1, cur')"
    | (fd) refs1 where "hdr_type ?ob = BINDER_TYPE_FD"
      "send_loop E session offs (i + 1) prev' w (put_obj off (set_handle (- 1) (?ob\<lparr>hdr_type := BINDER_TYPE_FDR\<rparr>)) m) cur = (True, m', refs1, cur')"
    using Cons.prems v by (auto simp: Let_def split: if_splits prod.splits option.splits)
  then show ?case
  proof cases
    case stub
    have "sent_obj ?ob ob'"
      using stub(1,2) by (auto simp: TranslateBinderType_def sent_obj_def split: prod.splits option.splits)
    then show ?thesis by (intro pass_Cons [OF Cons.IH [OF stub(3)] v]) simp_all
  next
    case proxy
    have "sent_obj ?ob ob'"
      using proxy(1,2) by (auto simp: TranslateHandleType_def sent_obj_def split: option.splits)
    then show ?thesis by (intro pass_Cons [OF Cons.IH [OF proxy(3)] v]) simp_all
  next
    case fd
    have "sent_obj ?ob (set_handle (- 1) (?ob\<lparr>hdr_type := BINDER_TYPE_FDR\<rparr>))" using fd(1) by (simp add: sent_obj_def)
    then show ?thesis by (intro pass_Cons [OF Cons.IH [OF fd(2)] v]) simp_all
  qed
qed (simp add: pass_def)

text \<open>
  No address leaves the device. When the translation of an outgoing message succeeds, every
  stub in it has become a remote handle without the address of the stub, every proxy a remote
  handle, and every file descriptor the mark of one; the message has no other kind of object, and
  nothing outside the objects has changed.
\<close>

theorem stub_addresses_stay:
  assumes "IRemoteObjectTranslateWhenSend E session m cur = (True, m', refs, cur')"
  shows "(\<forall>off \<in> set (msg_offsets m). sent_obj (msg_obj m off) (msg_obj m' off)) \<and>
    (\<forall>o1. o1 \<notin> set (msg_offsets m) \<longrightarrow> msg_obj m' o1 = msg_obj m o1)"
  using assms send_loop_objects [of E session "msg_offsets m" 0 "(0, 0)" 0 m cur m' refs cur']
  by (auto simp: IRemoteObjectTranslateWhenSend_def pass_def split: if_splits)

section \<open>What the receiver can name\<close>

definition extends :: "process_state \<Rightarrow> process_state \<Rightarrow> bool" where
  "extends st st' \<longleftrightarrow> exitFlag (ips st') = exitFlag (ips st) \<and> sessionName (ips st') = sessionName (ips st) \<and>
     distinct (map fst (stubObjects (ips st'))) \<and>
     (\<forall>i p. map_of (stubObjects (ips st)) i = Some p \<longrightarrow> map_of (stubObjects (ips st')) i = Some p)"

lemma attach_keeps:
  "AttachOrUpdateAppAuthInfo a s = (inc, s') \<Longrightarrow>
   exitFlag s' = exitFlag s \<and> sessionName s' = sessionName s \<and> stubObjects s' = stubObjects s"
  by (auto simp: AttachOrUpdateAppAuthInfo_def Let_def split: if_splits option.splits prod.splits)

lemma key_of_pair: "(a, b) \<in> S \<Longrightarrow> a \<in> fst ` S"
  by force

lemma add_stub_keeps:
  assumes "AddStubByIndex p s = (idx, s')" "idx \<noteq> 0" "distinct (map fst (stubObjects s))"
  shows "\<not> exitFlag s \<and> exitFlag s' = exitFlag s \<and> sessionName s' = sessionName s \<and> distinct (map fst (stubObjects s')) \<and>
    map_of (stubObjects s') idx = Some p \<and> (\<forall>i q. map_of (stubObjects s) i = Some q \<longrightarrow> map_of (stubObjects s') i = Some q)"
  using assms index_loop_Some [of p "stubObjects s" idx]
  by (auto simp: AddStubByIndex_def Let_def map_of_eq_None_iff dest: key_of_pair split: if_splits option.splits)

lemma translate_stub:
  assumes "TranslateBinderType E ob session (Some st) = (Some f, ob', inc, cur1)" "distinct (map fst (stubObjects (ips st)))"
  shows "\<exists>st1 idx. cur1 = Some st1 \<and> extends st st1 \<and> idx \<noteq> 0 \<and> \<not> exitFlag (ips st1) \<and>
    map_of (stubObjects (ips st1)) idx = Some (fb_cookie ob) \<and> GetDatabusName (ips st1) \<noteq> [] \<and> GetLocalDeviceID (se_local E) \<noteq> [] \<and>
    snd (FlattenSession (se_libc E) (DBinderSessionObject (GetDatabusName (ips st1)) (GetLocalDeviceID (se_local E)) idx nullptr
      (so_tokenId session)) SUPPORT_TOKENID_VERSION_NUM) = Some f"
proof -
  obtain o1 where c: "CreateServerSessionObject (se_local E) (fb_cookie ob) (Some session) (Some st) = (Some o1, inc, cur1)"
    and f: "snd (FlattenSession (se_libc E) o1 SUPPORT_TOKENID_VERSION_NUM) = Some f"
    using assms(1) by (auto simp: TranslateBinderType_def split: prod.splits option.splits)
  obtain idx s1 s2 where a: "AddStubByIndex (fb_cookie ob) (ips st) = (idx, s1)" "idx \<noteq> 0"
      "AttachOrUpdateAppAuthInfo ((caller_app session 0 idx)\<lparr>aa_stub := fb_cookie ob\<rparr>) s1 = (inc, s2)" "cur1 = Some (st\<lparr>ips := s2\<rparr>)"
      "MakeDefaultServerSessionObject (se_local E) idx session cur1 = Some o1"
    using c by (auto simp: CreateServerSessionObject_def MakeStubIndexByRemoteObject_def ConnectRemoteObject2Session_def Let_def
        split: if_splits prod.splits)
  note k = attach_keeps [OF a(3)] add_stub_keeps [OF a(1,2) assms(2)]
  have "o1 = DBinderSessionObject (GetDatabusName s2) (GetLocalDeviceID (se_local E)) idx nullptr (so_tokenId session)"
    "GetDatabusName s2 \<noteq> []" "GetLocalDeviceID (se_local E) \<noteq> []"
    using a(4,5) by (auto simp: MakeDefaultServerSessionObject_def Let_def split: if_splits)
  then show ?thesis using a(2,4) k f by (intro exI [of _ "st\<lparr>ips := s2\<rparr>"] exI [of _ idx]) (simp add: extends_def)
qed

definition announces :: "send_env \<Rightarrow> process_state \<Rightarrow> FlatDBinderSession \<Rightarrow> ptr \<Rightarrow> bool" where
  "announces E st flat p \<longleftrightarrow>
     (\<exists>o1. UnFlattenSession flat SUPPORT_TOKENID_VERSION_NUM = Some o1 \<and> serviceName o1 = GetDatabusName (ips st) \<and>
        serverDeviceId o1 = GetLocalDeviceID (se_local E) \<and> QueryStubByIndex (so_stubIndex o1) (ips st) = p)"

definition names_ok :: "send_env \<Rightarrow> process_state \<Rightarrow> bool" where
  "names_ok E st \<longleftrightarrow> libc_ok (se_libc E) \<and>
     length (sessionName (ips st)) \<le> 64 \<and> CHR 0x00 \<notin> set (sessionName (ips st)) \<and>
     length (GetLocalDeviceID (se_local E)) \<le> 64 \<and> CHR 0x00 \<notin> set (GetLocalDeviceID (se_local E))"

lemma extends_trans: "extends a b \<Longrightarrow> extends b c \<Longrightarrow> extends a c"
  unfolding extends_def by presburger

lemma announces_extends:
  assumes "announces E st flat p" "p \<noteq> nullptr" "extends st st'"
  shows "announces E st' flat p"
proof -
  obtain o1 where o1: "UnFlattenSession flat SUPPORT_TOKENID_VERSION_NUM = Some o1" "serviceName o1 = GetDatabusName (ips st)"
      "serverDeviceId o1 = GetLocalDeviceID (se_local E)" "QueryStubByIndex (so_stubIndex o1) (ips st) = p"
    using assms(1) by (auto simp: announces_def)
  then have "\<not> exitFlag (ips st)" "so_stubIndex o1 \<noteq> 0" "map_of (stubObjects (ips st)) (so_stubIndex o1) = Some p"
    using assms(2) by (auto simp: QueryStubByIndex_def split: if_splits option.splits)
  moreover from this have "map_of (stubObjects (ips st')) (so_stubIndex o1) = Some p"
    using assms(3) unfolding extends_def by blast
  ultimately show ?thesis
    using o1 assms(3) by (simp add: announces_def QueryStubByIndex_def GetDatabusName_def extends_def del: map_of_eq_Some_iff)
qed

lemma stub_announced:
  assumes "TranslateBinderType E ob session (Some st) = (Some f, ob', inc, Some st1)" "distinct (map fst (stubObjects (ips st)))"
    and "names_ok E st"
  shows "extends st st1 \<and> announces E st1 f (fb_cookie ob) \<and> fb_cookie ob \<noteq> nullptr"
proof -
  obtain idx where i: "extends st st1" "idx \<noteq> 0" "\<not> exitFlag (ips st1)" "map_of (stubObjects (ips st1)) idx = Some (fb_cookie ob)"
      "GetDatabusName (ips st1) \<noteq> []" "GetLocalDeviceID (se_local E) \<noteq> []"
      "snd (FlattenSession (se_libc E) (DBinderSessionObject (GetDatabusName (ips st1)) (GetLocalDeviceID (se_local E)) idx nullptr
        (so_tokenId session)) SUPPORT_TOKENID_VERSION_NUM) = Some f"
    using translate_stub [OF assms(1,2)] by auto
  let ?o = "DBinderSessionObject (GetDatabusName (ips st1)) (GetLocalDeviceID (se_local E)) idx nullptr (so_tokenId session)"
  have n: "GetDatabusName (ips st1) = sessionName (ips st)" using i(1,3) by (simp add: GetDatabusName_def extends_def)
  have "\<exists>flat. FlattenSession (se_libc E) ?o SUPPORT_TOKENID_VERSION_NUM = (FLAT_SESSION_LEN, Some flat) \<and>
      UnFlattenSession flat SUPPORT_TOKENID_VERSION_NUM = Some (DBinderSessionObject (serviceName ?o) (serverDeviceId ?o) (so_stubIndex ?o) nullptr (so_tokenId ?o))"
    by (rule flatten_unflatten) (use assms(3) i n in \<open>simp_all add: names_ok_def DBinderSessionObject_def\<close>)
  then have "UnFlattenSession f SUPPORT_TOKENID_VERSION_NUM = Some ?o" using i(7) by (auto simp: DBinderSessionObject_def)
  moreover have "fb_cookie ob \<noteq> nullptr"
    using assms(1) by (auto simp: TranslateBinderType_def CreateServerSessionObject_def)
  ultimately show ?thesis using i by (auto simp: announces_def QueryStubByIndex_def DBinderSessionObject_def)
qed

lemma send_loop_slots:
  assumes "send_loop E session offs i prev w m (Some st) = (True, m', refs, cur')"
    and "\<forall>off \<in> set offs. hdr_type (msg_obj m off) = BINDER_TYPE_BINDER"
    and "distinct (map fst (stubObjects (ips st)))" "names_ok E st"
  shows "\<exists>st'. cur' = Some st' \<and> extends st st' \<and> (\<forall>k < w. msg_flat m' k = msg_flat m k) \<and>
    (\<forall>k < length offs. announces E st' (msg_flat m' (w + k)) (fb_cookie (msg_obj m (offs ! k))))"
  using assms
proof (induction offs arbitrary: i prev w m st refs)
  case (Cons off offs)
  obtain prev' where v: "IsValidRemoteObjectOffset m off i prev = Some prev'" using Cons.prems(1) by (auto split: option.splits)
  have b: "hdr_type (msg_obj m off) = BINDER_TYPE_BINDER" using Cons.prems(2) by simp
  let ?m1 = "\<lambda>f ob'. put_flat w f (put_obj off ob' m)"
  obtain f ob' inc cur1 refs1 where t: "TranslateBinderType E (msg_obj m off) session (Some st) = (Some f, ob', inc, cur1)"
      and l: "send_loop E session offs (i + 1) prev' (w + 1) (?m1 f ob') cur1 = (True, m', refs1, cur')"
    using Cons.prems(1) v b by (auto simp: Let_def split: prod.splits option.splits)
  obtain st1 where st1: "cur1 = Some st1" using translate_stub [OF t Cons.prems(3)] by blast
  note a = stub_announced [OF t [unfolded st1] Cons.prems(3,4)]
  have later: "\<forall>o1 \<in> set offs. off < o1"
    using send_loop_objects [OF l] valid_offset [OF v] by (simp add: pass_def)
  then have same: "msg_obj (?m1 f ob') o1 = msg_obj m o1" if "o1 \<in> set offs" for o1 using that by auto
  have "\<forall>o1 \<in> set offs. hdr_type (msg_obj (?m1 f ob') o1) = BINDER_TYPE_BINDER" using same Cons.prems(2) by simp
  moreover have "distinct (map fst (stubObjects (ips st1)))" "names_ok E st1"
    using a Cons.prems(4) by (simp_all add: extends_def names_ok_def)
  ultimately obtain st' where st': "cur' = Some st'" "extends st1 st'" "\<forall>k < w + 1. msg_flat m' k = msg_flat (?m1 f ob') k"
      "\<forall>k < length offs. announces E st' (msg_flat m' (w + 1 + k)) (fb_cookie (msg_obj (?m1 f ob') (offs ! k)))"
    using Cons.IH [OF l [unfolded st1]] by blast
  have "announces E st' (msg_flat m' (w + k)) (fb_cookie (msg_obj m ((off # offs) ! k)))" if "k < length (off # offs)" for k
  proof (cases k)
    case 0
    have "msg_flat m' w = f" using st'(3) by simp
    then show ?thesis using announces_extends [of E st1 f _ st'] a st'(2) 0 by simp
  next
    case (Suc j)
    then show ?thesis using st'(4) same that by (simp add: nth_mem)
  qed
  moreover have "extends st st'" using a st'(2) extends_trans by blast
  ultimately show ?case using st'(1,3) by auto
qed (auto simp: extends_def)

text \<open>
  C24. The stubs of a message reach the other side. When a message whose objects are all local stubs
  has been translated, its \<open>i\<close>-th session slot, read as the receiver reads it, names the session of
  this process on this device and an index that leads, in the table of this process, to the
  \<open>i\<close>-th stub of the message.
\<close>

theorem sent_stubs_announced:
  assumes "IRemoteObjectTranslateWhenSend E session m (Some st) = (True, m', refs, cur')"
    and "\<forall>off \<in> set (msg_offsets m). hdr_type (msg_obj m off) = BINDER_TYPE_BINDER"
    and "distinct (map fst (stubObjects (ips st)))" "names_ok E st" "i < length (msg_offsets m)"
  shows "\<exists>st' o1. cur' = Some st' \<and> UnFlattenSession (msg_flat m' i) SUPPORT_TOKENID_VERSION_NUM = Some o1 \<and>
    serviceName o1 = GetDatabusName (ips st') \<and> serverDeviceId o1 = GetLocalDeviceID (se_local E) \<and>
    QueryStubByIndex (so_stubIndex o1) (ips st') = fb_cookie (msg_obj m (msg_offsets m ! i))"
proof -
  have "send_loop E session (msg_offsets m) 0 (0, 0) 0 m (Some st) = (True, m', refs, cur')"
    using assms(1) by (simp add: IRemoteObjectTranslateWhenSend_def split: if_splits)
  then obtain st' where "cur' = Some st'" "\<forall>k < length (msg_offsets m). announces E st' (msg_flat m' (0 + k)) (fb_cookie (msg_obj m (msg_offsets m ! k)))"
    using send_loop_slots assms(2-4) by blast
  then show ?thesis using assms(5) by (auto simp: announces_def)
qed

section \<open>Receiving\<close>

definition received_obj :: "flat_binder_object \<Rightarrow> flat_binder_object \<Rightarrow> bool" where
  "received_obj ob ob' \<longleftrightarrow>
     hdr_type ob = BINDER_TYPE_REMOTE_HANDLE \<and> (hdr_type ob' = BINDER_TYPE_HANDLE \<and> fb_handle ob' \<noteq> 0 \<or> ob' = ob) \<or>
     hdr_type ob = BINDER_TYPE_FDR \<and> hdr_type ob' = BINDER_TYPE_FDR \<and> fb_handle ob' = - 1"

lemma translate_remote_handle:
  "TranslateRemoteHandleType E fresh ob flat v cur = (ok, ob', cur') \<Longrightarrow>
   if ok then hdr_type ob' = BINDER_TYPE_HANDLE \<and> fb_handle ob' \<noteq> 0 else ob' = ob"
  by (auto simp: TranslateRemoteHandleType_def split: option.splits prod.splits if_splits)

lemma rcv_loop_objects:
  assumes "rcv_loop E socketId sn offs i prev m cur = (True, m', cur')"
  shows "pass received_obj offs i prev m m'"
  using assms
proof (induction offs arbitrary: i prev m cur)
  case (Cons off offs)
  obtain prev' where v: "IsValidRemoteObjectOffset m off i prev = Some prev'" using Cons.prems by (auto split: option.splits)
  let ?ob = "msg_obj m off"
  consider (session) ok ob' cur1 where "hdr_type ?ob = BINDER_TYPE_REMOTE_HANDLE"
      "TranslateRemoteHandleType E (re_fresh E i) ?ob (msg_flat m i) SUPPORT_TOKENID_VERSION_NUM cur = (ok, ob', cur1)"
      "rcv_loop E socketId sn offs (i + 1) prev' (put_obj off ob' m) cur1 = (True, m', cur')"
    | (fd) cur1 where "hdr_type ?ob = BINDER_TYPE_FDR"
      "rcv_loop E socketId sn offs (i + 1) prev' (put_obj off (set_handle (- 1) ?ob) m) cur1 = (True, m', cur')"
    using Cons.prems v by (auto simp: Let_def split: if_splits prod.splits)
  then show ?case
  proof cases
    case session
    have "received_obj ?ob ob'" using translate_remote_handle [OF session(2)] session(1) by (auto simp: received_obj_def split: if_splits)
    then show ?thesis by (intro pass_Cons [OF Cons.IH [OF session(3)] v]) simp_all
  next
    case fd
    have "received_obj ?ob (set_handle (- 1) ?ob)" using fd(1) by (simp add: received_obj_def)
    then show ?thesis by (intro pass_Cons [OF Cons.IH [OF fd(2)] v]) simp_all
  qed
qed (simp add: pass_def)

text \<open>
  C35. What a peer sends cannot pass for something local. A message with an object that names a stub
  by address, a handle of this process, a file descriptor or an unknown type is refused; in an
  accepted message every object is a session that got a handle, a session that could not be taken
  over and stays marked as remote, or the mark of a descriptor with the number -1.
\<close>

theorem foreign_objects_checked:
  assumes "IRemoteObjectTranslateWhenRcv E socketId sn m cur = (ok, m', cur')"
  shows "(ok \<longrightarrow> (\<forall>off \<in> set (msg_offsets m). received_obj (msg_obj m off) (msg_obj m' off))) \<and>
    ((\<exists>off \<in> set (msg_offsets m). hdr_type (msg_obj m off) \<notin> {BINDER_TYPE_REMOTE_HANDLE, BINDER_TYPE_FDR}) \<longrightarrow> \<not> ok)"
proof -
  have "\<forall>off \<in> set (msg_offsets m). received_obj (msg_obj m off) (msg_obj m' off)" if ok
    using assms that rcv_loop_objects [of E socketId sn "msg_offsets m" 0 "(0, 0)" m cur m' cur']
    by (auto simp: IRemoteObjectTranslateWhenRcv_def pass_def split: if_splits)
  then show ?thesis by (auto simp: received_obj_def)
qed

text \<open>
  Sessions behind a file descriptor are lost. The sender writes sessions one behind the other
  and skips descriptors, the receiver takes the session of the \<open>i\<close>-th object from the \<open>i\<close>-th place:
  after a message with a descriptor and then a proxy has been sent, the place where the
  receiver looks for the session of the proxy still holds what it held before. If that is not a
  session, the receiver accepts the message and the proxy arrives without a handle.
\<close>

theorem session_behind_descriptor_lost:
  assumes "msg_offsets m = [a, b]" "IsValidRemoteObjectOffset m a 0 (0, 0) = Some (a, 24)" "IsValidRemoteObjectOffset m b 1 (a, 24) = Some (b, 24)"
    and "hdr_type (msg_obj m a) = BINDER_TYPE_FD" "hdr_type (msg_obj m b) = BINDER_TYPE_HANDLE"
    and "TranslateHandleType E (msg_obj m b) session cur = (Some f, ob')" "UnFlattenSession (msg_flat m 1) SUPPORT_TOKENID_VERSION_NUM = None"
  shows "\<exists>m'. IRemoteObjectTranslateWhenSend E session m cur = (True, m', [], cur) \<and> msg_flat m' 0 = f \<and>
    (\<exists>m'' c. IRemoteObjectTranslateWhenRcv R socketId sn m' rcur = (True, m'', c) \<and>
       hdr_type (msg_obj m'' b) = BINDER_TYPE_REMOTE_HANDLE)"
proof -
  have ab: "a < b" "a + 24 \<le> msg_size m" "a + 24 \<le> b" "b + 24 \<le> msg_size m" "a + 4 < msg_size m" "b + 4 < msg_size m"
    using assms(2,3) by (auto simp: IsValidRemoteObjectOffset_def Let_def split: if_splits)
  have ob': "hdr_type ob' = BINDER_TYPE_REMOTE_HANDLE"
    using assms(6) by (auto simp: TranslateHandleType_def split: option.splits)
  let ?m1 = "put_obj a (set_handle (- 1) ((msg_obj m a)\<lparr>hdr_type := BINDER_TYPE_FDR\<rparr>)) m"
  let ?m2 = "put_flat 0 f (put_obj b ob' ?m1)"
  have t: "hdr_type (msg_obj ?m1 b) = BINDER_TYPE_HANDLE" "msg_obj ?m1 b = msg_obj m b" "hdr_type (msg_obj ?m2 a) = BINDER_TYPE_FDR"
    "hdr_type (msg_obj ?m2 b) = BINDER_TYPE_REMOTE_HANDLE" "msg_obj ?m2 b = ob'"
    using ab assms(5) ob' by simp_all
  have v: "IsValidRemoteObjectOffset ?m1 b 1 (a, 24) = Some (b, 24)" "IsValidRemoteObjectOffset ?m2 a 0 (0, 0) = Some (a, 24)"
    using ab t by (simp_all add: IsValidRemoteObjectOffset_def GetRemoteObjectSize_def Let_def)
  have send: "IRemoteObjectTranslateWhenSend E session m cur = (True, ?m2, [], cur)"
    using assms(1,2,4,6) v(1) t(1,2) ab by (simp add: IRemoteObjectTranslateWhenSend_def Let_def)
  let ?m3 = "put_obj a (set_handle (- 1) (msg_obj ?m2 a)) ?m2"
  have v3: "IsValidRemoteObjectOffset ?m3 b 1 (a, 24) = Some (b, 24)"
    using ab t by (simp add: IsValidRemoteObjectOffset_def GetRemoteObjectSize_def Let_def)
  have "TranslateRemoteHandleType R fr ob' (msg_flat m 1) SUPPORT_TOKENID_VERSION_NUM c = (False, ob', c)" for fr c
    using assms(7) by (simp add: TranslateRemoteHandleType_def)
  then have "\<exists>m'' c. IRemoteObjectTranslateWhenRcv R socketId sn ?m2 rcur = (True, m'', c) \<and> hdr_type (msg_obj m'' b) = BINDER_TYPE_REMOTE_HANDLE"
    using v(2) v3 t ab assms(1) by (simp add: IRemoteObjectTranslateWhenRcv_def Let_def)
  then show ?thesis using send by auto
qed

section \<open>Examples\<close>

definition example_send :: send_env where
  "example_send = \<lparr>se_libc = std_libc,
     se_local = \<lparr>getpid = 100, getuid = 5523, GetLocalDeviceID = ''dev'', GetSelfTokenID = 9\<rparr>,
     se_auth = (\<lambda>h o1. True),
     se_find = (\<lambda>h. Some \<lparr>rp_proto = IF_PROT_DEFAULT, rp_sessionName = ''peer'',
       rp_listen = (\<lambda>o1. Some (5, ''DBinder20_10'', ''dev'', 0))\<rparr>)\<rparr>"

definition example_sender :: process_state where
  "example_sender = \<lparr>ips = (IPCProcessSkeleton 1)\<lparr>sessionName := ''DBinder9_9''\<rparr>,
     pskel = Some (ProcessSkeleton_init\<lparr>objects := [[120] \<mapsto> 16], isContainStub := [16 \<mapsto> True], validObjectRecord := [16 \<mapsto> [120]]\<rparr>)\<rparr>"

definition example_peer :: session_object where
  "example_peer = DBinderSessionObject ''DBinder20_10'' ''peer'' 7 nullptr 30"

definition one_stub :: message where
  "one_stub = \<lparr>msg_size = 64, msg_obj = (\<lambda>o1. \<lparr>hdr_type = BINDER_TYPE_BINDER, fb_flags = 0, fb_binder = 8, fb_cookie = 16\<rparr>),
     msg_offsets = [8], msg_flat = (\<lambda>k. zero_flat)\<rparr>"

lemma one_stub_sent: "fst (IRemoteObjectTranslateWhenSend example_send example_peer one_stub (Some example_sender)) = True"
proof -
  let ?o = "DBinderSessionObject ''DBinder9_9'' ''dev'' 1 nullptr 30"
  have c: "fst (CreateServerSessionObject (se_local example_send) 16 (Some example_peer) (Some example_sender)) = Some ?o"
    by (simp add: CreateServerSessionObject_def MakeStubIndexByRemoteObject_def ConnectRemoteObject2Session_def
      MakeDefaultServerSessionObject_def ips_IsContainsObject_def IsContainsObject_def AddStubByIndex_def
      AttachOrUpdateAppAuthInfo_def GetDatabusName_def example_send_def example_sender_def example_peer_def
      IPCProcessSkeleton_def ProcessSkeleton_init_def DBinderSessionObject_def caller_app_def Let_def)
  have "\<exists>flat. FlattenSession std_libc ?o SUPPORT_TOKENID_VERSION_NUM = (FLAT_SESSION_LEN, Some flat) \<and>
      UnFlattenSession flat SUPPORT_TOKENID_VERSION_NUM = Some (DBinderSessionObject (serviceName ?o) (serverDeviceId ?o) (so_stubIndex ?o) nullptr (so_tokenId ?o))"
    by (rule flatten_unflatten) (simp_all add: std_libc_ok DBinderSessionObject_def)
  then obtain flat where "snd (FlattenSession std_libc ?o SUPPORT_TOKENID_VERSION_NUM) = Some flat" by auto
  moreover obtain inc c1 where "CreateServerSessionObject (se_local example_send) 16 (Some example_peer) (Some example_sender) = (Some ?o, inc, c1)"
    using c by (cases "CreateServerSessionObject (se_local example_send) 16 (Some example_peer) (Some example_sender)") simp
  ultimately have "fst (TranslateBinderType example_send (msg_obj one_stub 8) example_peer (Some example_sender)) = Some flat"
    by (simp add: TranslateBinderType_def one_stub_def example_send_def)
  moreover have "IsValidRemoteObjectOffset one_stub 8 0 (0, 0) = Some (8, 24)"
    by (simp add: IsValidRemoteObjectOffset_def one_stub_def GetRemoteObjectSize_def)
  ultimately show ?thesis
    by (cases "TranslateBinderType example_send (msg_obj one_stub 8) example_peer (Some example_sender)")
      (simp add: IRemoteObjectTranslateWhenSend_def one_stub_def Let_def)
qed

lemma one_stub_result:
  obtains m' refs cur' where "IRemoteObjectTranslateWhenSend example_send example_peer one_stub (Some example_sender) = (True, m', refs, cur')"
  using one_stub_sent by (cases "IRemoteObjectTranslateWhenSend example_send example_peer one_stub (Some example_sender)") simp

theorem stub_addresses_stay_witness:
  "\<exists>m' refs cur'. IRemoteObjectTranslateWhenSend example_send example_peer one_stub (Some example_sender) = (True, m', refs, cur') \<and>
     sent_obj (msg_obj one_stub 8) (msg_obj m' 8)"
proof -
  obtain m' refs cur' where r: "IRemoteObjectTranslateWhenSend example_send example_peer one_stub (Some example_sender) = (True, m', refs, cur')"
    by (rule one_stub_result)
  then have "sent_obj (msg_obj one_stub 8) (msg_obj m' 8)" using stub_addresses_stay [OF r] by (simp add: one_stub_def)
  with r show ?thesis by blast
qed

theorem sent_stubs_announced_witness:
  "\<exists>m' refs st' o1. IRemoteObjectTranslateWhenSend example_send example_peer one_stub (Some example_sender) = (True, m', refs, Some st') \<and>
     UnFlattenSession (msg_flat m' 0) SUPPORT_TOKENID_VERSION_NUM = Some o1 \<and> QueryStubByIndex (so_stubIndex o1) (ips st') = 16"
proof -
  obtain m' refs cur' where r: "IRemoteObjectTranslateWhenSend example_send example_peer one_stub (Some example_sender) = (True, m', refs, cur')"
    by (rule one_stub_result)
  have "\<forall>off \<in> set (msg_offsets one_stub). hdr_type (msg_obj one_stub off) = BINDER_TYPE_BINDER" by (simp add: one_stub_def)
  moreover have "distinct (map fst (stubObjects (ips example_sender)))" "names_ok example_send example_sender"
    by (simp_all add: example_sender_def IPCProcessSkeleton_def names_ok_def example_send_def std_libc_ok)
  moreover have "0 < length (msg_offsets one_stub)" by (simp add: one_stub_def)
  ultimately obtain st' o1 where "cur' = Some st'" "UnFlattenSession (msg_flat m' 0) SUPPORT_TOKENID_VERSION_NUM = Some o1"
      "QueryStubByIndex (so_stubIndex o1) (ips st') = fb_cookie (msg_obj one_stub (msg_offsets one_stub ! 0))"
    using sent_stubs_announced [OF r] by blast
  then show ?thesis using r by (auto simp: one_stub_def)
qed

definition example_receive :: receive_env where
  "example_receive = \<lparr>re_create = None, re_fresh = (\<lambda>k. 64), re_restore = (\<lambda>p. True)\<rparr>"

theorem foreign_objects_checked_witness:
  "\<exists>ok m' cur'. IRemoteObjectTranslateWhenRcv example_receive 4 1 one_stub (Some example_sender) = (ok, m', cur') \<and> \<not> ok"
proof -
  obtain ok m' cur' where r: "IRemoteObjectTranslateWhenRcv example_receive 4 1 one_stub (Some example_sender) = (ok, m', cur')"
    by (cases "IRemoteObjectTranslateWhenRcv example_receive 4 1 one_stub (Some example_sender)")
  have "\<exists>off \<in> set (msg_offsets one_stub). hdr_type (msg_obj one_stub off) \<notin> {BINDER_TYPE_REMOTE_HANDLE, BINDER_TYPE_FDR}"
    by (simp add: one_stub_def)
  then have "\<not> ok" using foreign_objects_checked [OF r] by blast
  with r show ?thesis by blast
qed

definition fd_and_proxy :: message where
  "fd_and_proxy = \<lparr>msg_size = 64,
     msg_obj = (\<lambda>o1. \<lparr>hdr_type = (if o1 = 0 then BINDER_TYPE_FD else BINDER_TYPE_HANDLE), fb_flags = 0, fb_binder = 3, fb_cookie = COOKIE_BINDER\<rparr>),
     msg_offsets = [0, 24], msg_flat = (\<lambda>k. zero_flat)\<rparr>"

theorem session_behind_descriptor_lost_witness:
  "\<exists>m' m'' c. IRemoteObjectTranslateWhenSend example_send example_peer fd_and_proxy (Some example_sender) = (True, m', [], Some example_sender) \<and>
     IRemoteObjectTranslateWhenRcv example_receive 4 1 m' None = (True, m'', c) \<and> hdr_type (msg_obj m'' 24) = BINDER_TYPE_REMOTE_HANDLE"
proof -
  let ?o = "DBinderSessionObject ''DBinder20_10'' ''dev'' 5 nullptr 0"
  have "\<exists>flat. FlattenSession std_libc ?o SUPPORT_TOKENID_VERSION_NUM = (FLAT_SESSION_LEN, Some flat) \<and>
      UnFlattenSession flat SUPPORT_TOKENID_VERSION_NUM = Some (DBinderSessionObject (serviceName ?o) (serverDeviceId ?o) (so_stubIndex ?o) nullptr (so_tokenId ?o))"
    by (rule flatten_unflatten) (simp_all add: std_libc_ok DBinderSessionObject_def)
  then obtain flat where "snd (FlattenSession std_libc ?o SUPPORT_TOKENID_VERSION_NUM) = Some flat" by auto
  then have t: "\<exists>ob'. TranslateHandleType example_send (msg_obj fd_and_proxy 24) example_peer (Some example_sender) = (Some flat, ob')"
    by (simp add: TranslateHandleType_def fd_and_proxy_def NewSessionOfBinderProxy_def GetSessionForProxy_def example_send_def)
  have "UnFlattenSession (msg_flat fd_and_proxy 1) SUPPORT_TOKENID_VERSION_NUM = None"
    by (simp add: fd_and_proxy_def UnFlattenSession_def zero_flat_def)
  moreover have "IsValidRemoteObjectOffset fd_and_proxy 0 0 (0, 0) = Some (0, 24)" "IsValidRemoteObjectOffset fd_and_proxy 24 1 (0, 24) = Some (24, 24)"
    by (simp_all add: IsValidRemoteObjectOffset_def fd_and_proxy_def GetRemoteObjectSize_def)
  moreover have "msg_offsets fd_and_proxy = [0, 24]" "hdr_type (msg_obj fd_and_proxy 0) = BINDER_TYPE_FD"
    "hdr_type (msg_obj fd_and_proxy 24) = BINDER_TYPE_HANDLE" by (simp_all add: fd_and_proxy_def)
  ultimately show ?thesis using t session_behind_descriptor_lost [of fd_and_proxy 0 24] by metis
qed

end
