(* ===== verification/Databus_Process.thy ===== *)
theory Databus_Process
  imports Object_Translation "HOL-Library.Monad_Syntax"
begin

text \<open>
  Transactions of the databus invoker from the call to the reply: writing a transaction into the
  buffer of a session, the wait of the sender, the dispatch of received packages, the call of the
  stub and the delivery of a reply (\<open>dbinder_base_invoker_process.h\<close>,
  \<open>dbinder_base_invoker_interface.h\<close>, \<open>dbinder_base_invoker_object.h\<close>).

  The state of a thread is the record \<open>inv_state\<close>: its invoker, the process (\<open>None\<close> where
  \<open>IPCProcessSkeleton::GetCurrent()\<close> yields null), and what it handed out so far, the bytes that the
  socket library took and the stubs that got a reference. The result \<open>None\<close> of an operation means
  that the thread waits for the lock of a send buffer. \<open>send_rest\<close> names what an operation leaves to
  a later step: the wait of a sender is the border between \<open>SendRequest\<close> and \<open>SendRequest_resume\<close>.

  Parameters, the record \<open>process_env\<close>: the C library, the socket library, the bytes that a message
  stands for and the message that received bytes stand for, allocation, and the stubs, which are
  code of the application. A stub may do anything to the process and, through the calling identity,
  to the invoker of the thread.
\<close>

abbreviation (input) BC_TRANSACTION :: nat where "BC_TRANSACTION \<equiv> 0x40406300"
abbreviation (input) BC_REPLY :: nat where "BC_REPLY \<equiv> 0x40406301"

abbreviation (input) RPC_BASE_INVOKER_INVALID_REPLY_ERR :: int where
  "RPC_BASE_INVOKER_INVALID_REPLY_ERR \<equiv> 501"
abbreviation (input) RPC_BASE_INVOKER_WAIT_REPLY_ERR :: int where
  "RPC_BASE_INVOKER_WAIT_REPLY_ERR \<equiv> 502"
abbreviation (input) RPC_BASE_INVOKER_CURRENT_NULL_ERR :: int where
  "RPC_BASE_INVOKER_CURRENT_NULL_ERR \<equiv> 503"
abbreviation (input) RPC_BASE_INVOKER_INVALID_DATA_ERR :: int where
  "RPC_BASE_INVOKER_INVALID_DATA_ERR \<equiv> 504"
abbreviation (input) RPC_BASE_INVOKER_WRITE_TRANS_ERR :: int where
  "RPC_BASE_INVOKER_WRITE_TRANS_ERR \<equiv> 505"
abbreviation (input) RPC_BASE_INVOKER_SEND_REPLY_ERR :: int where
  "RPC_BASE_INVOKER_SEND_REPLY_ERR \<equiv> 506"
abbreviation (input) RPC_BASE_INVOKER_TRANSLATE_ERR :: int where
  "RPC_BASE_INVOKER_TRANSLATE_ERR \<equiv> 507"
abbreviation (input) RPC_BASE_INVOKER_STUBINDEX_ERR :: int where
  "RPC_BASE_INVOKER_STUBINDEX_ERR \<equiv> 508"
abbreviation (input) RPC_BASE_INVOKER_MALLOC_ERR :: int where
  "RPC_BASE_INVOKER_MALLOC_ERR \<equiv> 509"
abbreviation (input) ERR_UNKNOWN_REASON :: int where "ERR_UNKNOWN_REASON \<equiv> 8"
abbreviation (input) ERR_ALLOC_MEMORY :: int where "ERR_ALLOC_MEMORY \<equiv> 11"

abbreviation (input) ACTIVE_INVOKER :: u32 where "ACTIVE_INVOKER \<equiv> 1"
abbreviation (input) REPLY_RETRY_COUNT :: nat where "REPLY_RETRY_COUNT \<equiv> 5"

section \<open>State and environment\<close>

text \<open>An outgoing parcel: its message, and its raw data, \<open>None\<close> if there is none.\<close>

record parcel =
  par_msg :: message
  par_raw :: "bytes option"

definition empty_message :: message where
  "empty_message = \<lparr>msg_size = 0, msg_obj = (\<lambda>_. \<lparr>hdr_type = 0, fb_flags = 0, fb_binder = 0, fb_cookie = 0\<rparr>),
     msg_offsets = [], msg_flat = (\<lambda>_. zero_flat)\<rparr>"

definition empty_parcel :: parcel where
  "empty_parcel = \<lparr>par_msg = empty_message, par_raw = None\<rparr>"

record inv_state =
  i_inv :: databus_invoker
  i_cur :: "process_state option"
  i_wire :: "(int \<times> bytes) list"
  i_refs :: "ptr list"

text \<open>
  \<open>pn_payload m\<close> are the bytes behind the header for the message \<open>m\<close>; \<open>pn_view\<close> reads bytes with
  the size of the data, the place and the size of the offsets. \<open>pn_stub\<close> is the call of a stub; its
  result says whether the parcel of the request holds raw data afterwards.
\<close>

record process_env =
  pn_libc :: libc
  pn_bytes :: "int \<Rightarrow> bytes \<Rightarrow> int"
  pn_payload :: "message \<Rightarrow> bytes"
  pn_view :: "bytes \<Rightarrow> nat \<Rightarrow> nat \<Rightarrow> nat \<Rightarrow> message"
  pn_snd :: send_env
  pn_rcv :: receive_env
  pn_allocator :: bool
  pn_SetAllocator :: bool
  pn_fresh :: "inv_state \<Rightarrow> ptr"
  pn_stub :: "ptr \<Rightarrow> nat \<Rightarrow> message \<Rightarrow> nat \<Rightarrow> inv_state \<Rightarrow> int \<times> parcel \<times> bool \<times> inv_state"

definition on_inv :: "(databus_invoker \<Rightarrow> databus_invoker) \<Rightarrow> inv_state \<Rightarrow> inv_state" where
  "on_inv f s = s\<lparr>i_inv := f (i_inv s)\<rparr>"

definition on_ips :: "(ipc_skeleton \<Rightarrow> ipc_skeleton) \<Rightarrow> inv_state \<Rightarrow> inv_state" where
  "on_ips f s = s\<lparr>i_cur := map_option (\<lambda>st. st\<lparr>ips := f (ips st)\<rparr>) (i_cur s)\<rparr>"

definition put_session :: "ptr \<Rightarrow> session_object \<Rightarrow> inv_state \<Rightarrow> inv_state" where
  "put_session p ob = on_ips (\<lambda>k. k\<lparr>sessions := (sessions k)(p := ob)\<rparr>)"

definition put_wire :: "process_env \<Rightarrow> int \<Rightarrow> bytes option \<Rightarrow> inv_state \<Rightarrow> inv_state" where
  "put_wire E socketId d s =
     (case d of
        None \<Rightarrow> s
      | Some bs \<Rightarrow> if pn_bytes E socketId bs = 0 then s\<lparr>i_wire := i_wire s @ [(socketId, bs)]\<rparr> else s)"

section \<open>Sending bytes\<close>

definition OnSendMessage :: "process_env \<Rightarrow> ptr \<Rightarrow> inv_state \<Rightarrow> (int \<times> inv_state) option" where
  "OnSendMessage E p s =
     (case i_cur s of
        None \<Rightarrow> Some (- RPC_DATABUS_INVOKER_INVALID_DATA_ERR, s)
      | Some st \<Rightarrow>
          (let o1 = sessions (ips st) p in
           if p = nullptr \<or> socket o1 \<le> 0 then Some (- RPC_DATABUS_INVOKER_INVALID_DATA_ERR, s)
           else (case GetSessionBuff o1 of (b, o2) \<Rightarrow> do {
               (ret, d, b') \<leftarrow> SendData (pn_libc E) (pn_bytes E (socket o1)) b;
               Some (ret, put_wire E (socket o1) d (put_session p (o2\<lparr>buff := Some b'\<rparr>) s))
             })))"

definition OnSendRawData :: "process_env \<Rightarrow> session_object \<Rightarrow> bytes \<Rightarrow> inv_state \<Rightarrow> int \<times> inv_state" where
  "OnSendRawData E o1 data s =
     (if socket o1 \<le> 0 then (- RPC_DATABUS_INVOKER_INVALID_DATA_ERR, s)
      else (pn_bytes E (socket o1) data, put_wire E (socket o1) (Some data) s))"

definition FlushCommands_databus :: "process_env \<Rightarrow> u32 option \<Rightarrow> inv_state \<Rightarrow> (int \<times> inv_state) option" where
  "FlushCommands_databus E handle s =
     (case handle of
        None \<Rightarrow> Some (RPC_DATABUS_INVOKER_INVALID_DATA_ERR, s)
      | Some h \<Rightarrow>
          (let p = QueryServerSessionObject h (i_cur s) in
           if p = nullptr then Some (RPC_DATABUS_INVOKER_INVALID_DATA_ERR, s)
           else do { (_, s') \<leftarrow> OnSendMessage E p s; Some (0, s') }))"

text \<open>\<open>MoveTransData2Buffer\<close> on the buffer of a session.\<close>

definition queue_transaction ::
    "process_env \<Rightarrow> ptr \<Rightarrow> u32 \<times> bytes \<Rightarrow> inv_state \<Rightarrow> (bool \<times> inv_state) option" where
  "queue_transaction E p t s =
     (case i_cur s of
        None \<Rightarrow> Some (False, s)
      | Some st \<Rightarrow>
          (case GetSessionBuff (sessions (ips st) p) of (b, o2) \<Rightarrow> do {
             (ok, b') \<leftarrow> MoveTransData2Buffer (pn_libc E) (Some t) b;
             Some (ok, put_session p (o2\<lparr>buff := Some b'\<rparr>) s)
           }))"

section \<open>Making a transaction\<close>

definition GetSessionObject :: "u32 \<Rightarrow> u32 \<Rightarrow> process_state option \<Rightarrow> ptr" where
  "GetSessionObject handle socketId cur =
     (if handle \<noteq> 0 then QueryServerSessionObject handle cur
      else QueryClientSessionObject socketId cur)"

definition GetUniqueSeqNumber :: "nat \<Rightarrow> inv_state \<Rightarrow> u64 \<times> inv_state" where
  "GetUniqueSeqNumber c s =
     (case i_cur s of
        None \<Rightarrow> (0, s)
      | Some st \<Rightarrow>
          if c = BC_TRANSACTION then
            (case GetSeqNumber (ips st) of
               (n, k) \<Rightarrow> (n, on_inv (SetSeqNum n) (on_ips (\<lambda>_. k) s)))
          else if c = BC_REPLY then (inv_seqNumber (i_inv s), s)
          else (0, s))"

definition ConstructTransData :: "nat \<Rightarrow> u64 \<Rightarrow> nat \<Rightarrow> nat \<Rightarrow> nat \<Rightarrow> dbinder_transaction_data" where
  "ConstructTransData totalSize seqNum c cd fl = \<lparr>sizeOfSelf = totalSize mod 2 ^ 32,
     magic = DBINDER_MAGICWORD, version = unat SUPPORT_TOKENID_VERSION_NUM, cmd = c, code = cd,
     flags = fl, cookie = 0, tr_seqNumber = unat seqNum, buffer_size = 0, offsets_size = 0, offsets = 0\<rparr>"

definition ProcessRawData ::
    "process_env \<Rightarrow> session_object \<Rightarrow> bytes option \<Rightarrow> u64 \<Rightarrow> inv_state \<Rightarrow> bool \<times> inv_state" where
  "ProcessRawData E o1 raw seqNum s =
     (case raw of
        None \<Rightarrow> (True, s)
      | Some bs \<Rightarrow>
          if bs = [] then (True, s)
          else
            (let n = length bs in
             case memcpy_s (pn_libc E) (replicate n 0) 0 n bs n of (result, copied) \<Rightarrow>
               if result \<noteq> 0 then (False, s)
               else (case OnSendRawData E o1
                       (header_bytes (ConstructTransData (HEADER_SIZE + n) seqNum BC_SEND_RAWDATA 0 0) @ copied) s of
                   (ret, s') \<Rightarrow> (ret = 0, s'))))"

text \<open>
  The loop of \<open>RemoveDBinderPtrData\<close> over the indexes; behind the offsets the memory is zero. The
  body takes the 40 bytes of a \<open>binder_buffer_object\<close> out of the data and one entry out of the offsets.
\<close>

definition offset_at :: "message \<Rightarrow> nat \<Rightarrow> nat" where
  "offset_at m i = (if i < length (msg_offsets m) then msg_offsets m ! i else 0)"

definition remove_ptr :: "nat \<Rightarrow> message \<Rightarrow> message" where
  "remove_ptr i m =
     (let del = offset_at m i in m\<lparr>msg_size := msg_size m - 40,
        msg_obj := (\<lambda>off. if off < del then msg_obj m off else msg_obj m (off + 40)),
        msg_offsets := map (\<lambda>j. if j < i then offset_at m j else unat (of_nat (offset_at m (j + 1)) - 40 :: u64))
          [0 ..< length (msg_offsets m) - 1]\<rparr>)"

definition cut_header :: "message \<Rightarrow> dbinder_transaction_data \<Rightarrow> dbinder_transaction_data" where
  "cut_header m tr = tr\<lparr>offsets_size := 8 * length (msg_offsets m), buffer_size := msg_size m,
     offsets := msg_size m, sizeOfSelf := sizeOfSelf tr - (8 + 40 + FLAT_SESSION_LEN)\<rparr>"

fun remove_ptr_loop ::
    "process_env \<Rightarrow> nat list \<Rightarrow> dbinder_transaction_data \<Rightarrow> message \<Rightarrow> bool \<times> dbinder_transaction_data \<times> message" where
  "remove_ptr_loop E [] tr m = (True, tr, m)"
| "remove_ptr_loop E (i # is) tr m =
     (if hdr_type (msg_obj m (offset_at m i)) = BINDER_TYPE_PTR then
        (let del = offset_at m i;
             removeSize = msg_size m + 8 * (length (msg_offsets m) - 1) - del - 40
         in if fst (memmove_s (pn_libc E) (Some (drop del (pn_payload E m))) removeSize 40 removeSize) \<noteq> EOK
            then (False, tr, m)
            else remove_ptr_loop E is (cut_header (remove_ptr i m) tr) (remove_ptr i m))
      else remove_ptr_loop E is tr m)"

definition RemoveDBinderPtrData ::
    "process_env \<Rightarrow> dbinder_transaction_data \<Rightarrow> message \<Rightarrow> bool \<times> dbinder_transaction_data \<times> message" where
  "RemoveDBinderPtrData E tr m = remove_ptr_loop E [0 ..< offsets_size tr div 8] tr m"

definition set_status_flag :: "nat \<Rightarrow> nat" where
  "set_status_flag f = or f 8"

text \<open>The result is \<open>None\<close> where the code returns false; the references come with the state.\<close>

definition MoveMessageParcel2TransData ::
    "process_env \<Rightarrow> message \<Rightarrow> session_object \<Rightarrow> dbinder_transaction_data \<Rightarrow> int \<Rightarrow> inv_state \<Rightarrow>
     (dbinder_transaction_data \<times> message) option \<times> inv_state" where
  "MoveMessageParcel2TransData E m o1 tr status s =
     (if msg_size m > 0 then
        (let useSize = sizeOfSelf tr - HEADER_SIZE;
             n = 8 * length (msg_offsets m);
             r1 = fst (memcpy_s (pn_libc E) (replicate useSize 0) 0 useSize (pn_payload E m) (msg_size m));
             r2 = (if n > 0 then fst (memcpy_s (pn_libc E) (replicate useSize 0) (msg_size m)
                     (useSize - msg_size m) (drop (msg_size m) (pn_payload E m)) n) else 0);
             tr1 = tr\<lparr>buffer_size := msg_size m, offsets_size := n, offsets := msg_size m\<rparr>
         in if r1 + r2 \<noteq> 0 then (None, s)
            else (case RemoveDBinderPtrData E tr1 m of
                (False, tr2, m2) \<Rightarrow> (None, s)
              | (True, tr2, m2) \<Rightarrow>
                  if \<not> CheckTransactionData tr2 then (None, s)
                  else (case IRemoteObjectTranslateWhenSend (pn_snd E) o1 m2 (i_cur s) of
                      (ok, m3, rs, cur') \<Rightarrow>
                        (if ok then Some (tr2, m3) else None, s\<lparr>i_cur := cur', i_refs := i_refs s @ rs\<rparr>))))
      else (Some (tr\<lparr>flags := set_status_flag (flags tr), buffer_size := 8,
                     offsets_size := nat (status mod 2 ^ 64), offsets := 8\<rparr>, m), s))"

definition ProcessNormalData ::
    "process_env \<Rightarrow> session_object \<Rightarrow> message \<Rightarrow> u32 \<Rightarrow> u64 \<Rightarrow> nat \<Rightarrow> nat \<Rightarrow> nat \<Rightarrow> int \<Rightarrow> inv_state \<Rightarrow>
     (dbinder_transaction_data \<times> message) option \<times> inv_state" where
  "ProcessNormalData E o1 m handle seqNum c cd fl status s =
     (let n = length (msg_offsets m);
          sendSize = ((if msg_size m > 0 then msg_size m else 8) + HEADER_SIZE + n * FLAT_SESSION_LEN + n * 8) mod 2 ^ 32;
          tr = ConstructTransData sendSize seqNum c cd fl
      in MoveMessageParcel2TransData E m o1
           (tr\<lparr>cookie := if handle = 0 then 0 else unat (so_stubIndex o1)\<rparr>) status s)"

text \<open>
  The memory of a transaction: the header and \<open>sizeOfSelf\<close> minus 64 bytes behind it, zero where
  nothing was written.
\<close>

definition transaction_bytes :: "process_env \<Rightarrow> dbinder_transaction_data \<Rightarrow> message \<Rightarrow> bytes" where
  "transaction_bytes E tr m =
     header_bytes tr @ take (sizeOfSelf tr - HEADER_SIZE)
       ((if msg_size m > 0 then pn_payload E m else []) @ replicate (sizeOfSelf tr) 0)"

text \<open>The result is the session (0 where the code returns null) and the sequence number.\<close>

definition WriteTransaction ::
    "process_env \<Rightarrow> nat \<Rightarrow> nat \<Rightarrow> u32 \<Rightarrow> u32 \<Rightarrow> nat \<Rightarrow> parcel \<Rightarrow> int \<Rightarrow> inv_state \<Rightarrow>
     (ptr \<times> u64 \<times> inv_state) option" where
  "WriteTransaction E c fl handle socketId cd data status s =
     (let p = GetSessionObject handle socketId (i_cur s) in
      case i_cur s of
        None \<Rightarrow> Some (nullptr, 0, s)
      | Some st \<Rightarrow>
          if p = nullptr then Some (nullptr, 0, s)
          else
            (let o1 = sessions (ips st) p in
             case GetUniqueSeqNumber c s of (seqNum, s1) \<Rightarrow>
               if seqNum = 0 then Some (nullptr, 0, s1)
               else (case ProcessRawData E o1 (par_raw data) seqNum s1 of
                   (False, s2) \<Rightarrow> Some (nullptr, seqNum, s2)
                 | (True, s2) \<Rightarrow>
                     (case ProcessNormalData E o1 (par_msg data) handle seqNum c cd fl status s2 of
                        (None, s3) \<Rightarrow> Some (nullptr, seqNum, s3)
                      | (Some (tr, m), s3) \<Rightarrow> do {
                          (ok, s4) \<leftarrow> queue_transaction E p (of_nat (sizeOfSelf tr), transaction_bytes E tr m) s3;
                          Some (if ok then p else nullptr, seqNum, s4)
                        }))))"

section \<open>Waiting for a reply\<close>

definition MakeThreadMessageInfo :: "u32 \<Rightarrow> ThreadMessageInfo" where
  "MakeThreadMessageInfo socketId = \<lparr>tm_flags = 0, tm_bufferSize = 0, tm_offsetsSize = 0, tm_offsets = 0,
     tm_socketId = socketId, tm_buffer = None, tm_ready = False\<rparr>"

text \<open>
  \<open>HandleReply\<close> for a parcel that is not null; the second result is the message that the parcel takes
  over.
\<close>

definition HandleReply ::
    "process_env \<Rightarrow> u64 \<Rightarrow> ptr \<Rightarrow> inv_state \<Rightarrow> int \<times> message option \<times> inv_state" where
  "HandleReply E seqNum messageInfo s =
     (case i_cur s of
        None \<Rightarrow> (RPC_BASE_INVOKER_INVALID_REPLY_ERR, None, s)
      | Some st \<Rightarrow>
          (let info = messages (ips st) messageInfo in
           if messageInfo = nullptr then (RPC_BASE_INVOKER_INVALID_REPLY_ERR, None, s)
           else if bit (tm_flags info) 3 then (sint (ucast (tm_offsetsSize info) :: u32), None, s)
           else (case tm_buffer info of
               None \<Rightarrow> (RPC_BASE_INVOKER_INVALID_REPLY_ERR, None, s)
             | Some bs \<Rightarrow>
                 (case IRemoteObjectTranslateWhenRcv (pn_rcv E) (tm_socketId info) seqNum
                         (pn_view E bs (unat (tm_bufferSize info)) (unat (tm_offsets info)) (unat (tm_offsetsSize info)))
                         (i_cur s) of
                    (ok, m, cur') \<Rightarrow>
                      (let s' = s\<lparr>i_cur := cur'\<rparr> in
                       if \<not> ok \<or> \<not> pn_allocator E \<or> \<not> pn_SetAllocator E
                       then (RPC_BASE_INVOKER_INVALID_REPLY_ERR, None, s')
                       else (0, Some m, s'))))))"

text \<open>
  What is left of a call: nothing but its result, or the wait for the reply with a number at the
  message of an address.
\<close>

datatype send_rest = Finished int | Waits u64 ptr

definition WaitForReply ::
    "process_env \<Rightarrow> u64 \<Rightarrow> bool \<Rightarrow> u32 \<Rightarrow> inv_state \<Rightarrow> send_rest \<times> inv_state" where
  "WaitForReply E seqNum wantsReply handle s =
     (if \<not> wantsReply then (Finished 0, s)
      else (case i_cur s of
          None \<Rightarrow> (Finished RPC_BASE_INVOKER_WAIT_REPLY_ERR, s)
        | Some st \<Rightarrow>
            (let p = pn_fresh E s in
             case AddSendThreadInWait seqNum p (on_message p (\<lambda>_. MakeThreadMessageInfo handle) (ips st)) of
               (True, k) \<Rightarrow> (Waits seqNum p, on_ips (\<lambda>_. k) s)
             | (False, k) \<Rightarrow>
                 (Finished RPC_BASE_INVOKER_WAIT_REPLY_ERR, on_ips (\<lambda>_. EraseThreadBySeqNumber seqNum k) s))))"

definition WaitForReply_resume ::
    "process_env \<Rightarrow> u64 \<Rightarrow> ptr \<Rightarrow> bool \<Rightarrow> inv_state \<Rightarrow> (int \<times> message option \<times> inv_state) option" where
  "WaitForReply_resume E seqNum p timeout s =
     (case i_cur s of
        None \<Rightarrow> None
      | Some st \<Rightarrow> do {
          (woken, k) \<leftarrow> AddSendThreadInWait_resume p timeout (ips st);
          let s1 = on_ips (\<lambda>_. k) s;
          if \<not> woken
          then Some (RPC_BASE_INVOKER_WAIT_REPLY_ERR, None, on_ips (EraseThreadBySeqNumber seqNum) s1)
          else (case HandleReply E seqNum p s1 of
              (err, m, s2) \<Rightarrow> Some (err, m,
                 on_ips (on_message p (\<lambda>x. x\<lparr>tm_buffer := None, tm_ready := False\<rparr>))
                   (on_ips (EraseThreadBySeqNumber seqNum) s2)))
        })"

definition SendOrWaitForCompletion ::
    "process_env \<Rightarrow> u64 \<Rightarrow> ptr \<Rightarrow> bool \<Rightarrow> inv_state \<Rightarrow> (send_rest \<times> inv_state) option" where
  "SendOrWaitForCompletion E seqNum p wantsReply s =
     (if seqNum = 0 \<or> p = nullptr then Some (Finished RPC_BASE_INVOKER_INVALID_DATA_ERR, s)
      else do {
        (result, s1) \<leftarrow> OnSendMessage E p s;
        Some (if result \<noteq> 0 then (Finished RPC_BASE_INVOKER_INVALID_DATA_ERR, s1)
          else WaitForReply E seqNum wantsReply
                 (case i_cur s1 of None \<Rightarrow> 0 | Some st \<Rightarrow> word_of_int (socket (sessions (ips st) p))) s1)
      })"

text \<open>\<open>SendRequest\<close> up to the wait; the parcel is rewound to its old position at every return.\<close>

definition SendRequest_databus ::
    "process_env \<Rightarrow> u32 \<Rightarrow> nat \<Rightarrow> parcel \<Rightarrow> nat \<Rightarrow> inv_state \<Rightarrow> (send_rest \<times> inv_state) option" where
  "SendRequest_databus E handle cd data fl s = do {
     (p, seqNum, s1) \<leftarrow> WriteTransaction E BC_TRANSACTION fl handle 0 cd data 0 s;
     if p = nullptr then Some (Finished RPC_BASE_INVOKER_WRITE_TRANS_ERR, s1)
     else SendOrWaitForCompletion E seqNum p (even fl) s1
   }"

section \<open>Replies\<close>

definition SendReply :: "process_env \<Rightarrow> parcel \<Rightarrow> nat \<Rightarrow> int \<Rightarrow> inv_state \<Rightarrow> (int \<times> inv_state) option" where
  "SendReply E reply fl result s = do {
     (p, seqNum, s1) \<leftarrow> WriteTransaction E BC_REPLY fl 0 (word_of_int (clientFd (i_inv s))) 0 reply result s;
     if p = nullptr then Some (RPC_BASE_INVOKER_SEND_REPLY_ERR, s1)
     else do { (_, s2) \<leftarrow> SendOrWaitForCompletion E seqNum p False s1; Some (0, s2) }
   }"

definition SendReplyWithSeqNum ::
    "process_env \<Rightarrow> u64 \<Rightarrow> parcel \<Rightarrow> nat \<Rightarrow> int \<Rightarrow> inv_state \<Rightarrow> inv_state option" where
  "SendReplyWithSeqNum E seqNum reply fl result s =
     (if even fl then do {
        (_, s1) \<leftarrow> SendReply E reply 0 result (on_inv (SetSeqNum seqNum) s);
        Some (on_inv (SetSeqNum (inv_seqNumber (i_inv s))) s1)
      } else Some s)"

definition StartLoopFailSendReply :: "process_env \<Rightarrow> bytes \<Rightarrow> int \<Rightarrow> inv_state \<Rightarrow> inv_state option" where
  "StartLoopFailSendReply E buffer result s =
     (let tr = header_of buffer
      in SendReplyWithSeqNum E (of_nat (tr_seqNumber tr)) empty_parcel (flags tr) result s)"

section \<open>Received transactions\<close>

definition TargetStubSendRequest ::
    "process_env \<Rightarrow> dbinder_transaction_data \<Rightarrow> int \<Rightarrow> u64 \<Rightarrow> message \<Rightarrow> inv_state \<Rightarrow> int \<times> parcel \<times> inv_state" where
  "TargetStubSendRequest E tr listenFd seqNum data s =
     (case i_cur s of
        None \<Rightarrow> (RPC_BASE_INVOKER_CURRENT_NULL_ERR, empty_parcel, s)
      | Some st \<Rightarrow>
          (let stub = QueryStubByIndex (of_nat (cookie tr)) (ips st) in
           if stub = nullptr then (RPC_BASE_INVOKER_STUBINDEX_ERR, empty_parcel, s)
           else (case pn_stub E stub (code tr) data (flags tr) s of
               (err, reply, raw, s1) \<Rightarrow>
                 (err, reply, if raw then on_ips (\<lambda>k. snd (DetachRawData (listenFd, seqNum) k)) s1 else s1))))"

definition ProcessTransaction ::
    "process_env \<Rightarrow> dbinder_transaction_data \<Rightarrow> bytes \<Rightarrow> int \<Rightarrow> inv_state \<Rightarrow> inv_state option" where
  "ProcessTransaction E tr payload listenFd s =
     (let seqNum = of_nat (tr_seqNumber tr);
          m = pn_view E payload (buffer_size tr) (offsets tr) (offsets_size tr)
      in case IRemoteObjectTranslateWhenRcv (pn_rcv E) (word_of_int listenFd) seqNum m (i_cur s) of
           (ok, m1, cur1) \<Rightarrow>
             (let s1 = s\<lparr>i_cur := cur1\<rparr> in
              if \<not> ok then SendReplyWithSeqNum E seqNum empty_parcel (flags tr) RPC_BASE_INVOKER_TRANSLATE_ERR s1
              else
                (let oldStatus = inv_status (i_inv s1); oldCallerInfo = GetCallerInfo (i_inv s1)
                 in case CheckAndSetCallerInfo listenFd (of_nat (cookie tr)) (i_cur s1) (i_inv s1) of
                      (ret, i2) \<Rightarrow>
                        (let s2 = s1\<lparr>i_inv := i2\<rparr> in
                         if ret \<noteq> 0 then SendReplyWithSeqNum E seqNum empty_parcel (flags tr) ret s2
                         else if \<not> pn_allocator E then
                           map_option (on_inv (SetCallerInfo oldCallerInfo))
                             (SendReplyWithSeqNum E seqNum empty_parcel (flags tr) ERR_ALLOC_MEMORY s2)
                         else if \<not> pn_SetAllocator E then
                           map_option (on_inv (SetCallerInfo oldCallerInfo))
                             (SendReplyWithSeqNum E seqNum empty_parcel (flags tr) ERR_UNKNOWN_REASON s2)
                         else
                           (case TargetStubSendRequest E tr listenFd seqNum m1 (on_inv (SetStatus ACTIVE_INVOKER) s2) of
                              (err, reply, s3) \<Rightarrow>
                                map_option (on_inv (\<lambda>i. SetCallerInfo oldCallerInfo (SetStatus oldStatus i)))
                                  (SendReplyWithSeqNum E seqNum reply (flags tr) err s3))))))"

text \<open>
  \<open>ProcessReply\<close> asks at most five times for the waiting sender, with pauses in which other threads
  run; \<open>tries\<close> are the answers it can get, the last of them at the state it goes on with.
\<close>

fun reply_lookup :: "nat \<Rightarrow> ptr list \<Rightarrow> ptr" where
  "reply_lookup n [] = nullptr"
| "reply_lookup n (p # ps) =
     (if p \<noteq> nullptr then p else if n + 1 = REPLY_RETRY_COUNT then nullptr else reply_lookup (n + 1) ps)"

definition ProcessReply ::
    "process_env \<Rightarrow> dbinder_transaction_data \<Rightarrow> bytes \<Rightarrow> int \<Rightarrow> ptr list \<Rightarrow> inv_state \<Rightarrow> inv_state" where
  "ProcessReply E tr payload listenFd tries s =
     (case i_cur s of
        None \<Rightarrow> s
      | Some st \<Rightarrow>
          (let seqNum = of_nat (tr_seqNumber tr); fd = word_of_int listenFd;
               p = reply_lookup 0 tries; n = sizeOfSelf tr - HEADER_SIZE
           in if p = nullptr then s
              else (case new_char (pn_libc E) n of
                  None \<Rightarrow> on_ips (\<lambda>k. WakeUpThreadBySeqNumber seqNum fd
                            (on_message p (\<lambda>x. x\<lparr>tm_buffer := None\<rparr>) k)) s
                | Some a \<Rightarrow>
                    (case memcpy_s (pn_libc E) a 0 n payload n of (result, copied) \<Rightarrow>
                       if result \<noteq> 0 then on_ips (\<lambda>k. WakeUpThreadBySeqNumber seqNum fd
                            (on_message p (\<lambda>x. x\<lparr>tm_buffer := None\<rparr>) k)) s
                       else on_ips (\<lambda>k. WakeUpThreadBySeqNumber seqNum fd
                            (on_message p (\<lambda>x. x\<lparr>tm_buffer := Some copied, tm_flags := of_nat (flags tr),
                               tm_bufferSize := of_nat (buffer_size tr), tm_offsetsSize := of_nat (offsets_size tr),
                               tm_offsets := of_nat (offsets tr), tm_socketId := fd\<rparr>) k)) s))))"

definition OnTransaction ::
    "process_env \<Rightarrow> ThreadProcessInfo option \<Rightarrow> ptr list \<Rightarrow> inv_state \<Rightarrow> inv_state option" where
  "OnTransaction E processInfo tries s =
     (case processInfo of
        None \<Rightarrow> Some s
      | Some info \<Rightarrow>
          (case tp_buffer info of
             None \<Rightarrow> Some s
           | Some package \<Rightarrow>
               (let tr = header_of package; payload = drop HEADER_SIZE package in
                if tp_listenFd info < 0 \<or> sizeOfSelf tr < HEADER_SIZE then Some s
                else if cmd tr = BC_TRANSACTION then ProcessTransaction E tr payload (tp_listenFd info) s
                else if cmd tr = BC_REPLY then Some (ProcessReply E tr payload (tp_listenFd info) tries s)
                else Some s)))"

text \<open>
  One round of the inner loop of \<open>JoinProcessThread\<close>: the thread takes a package from its queue and
  processes it. The flag is false when the queue is empty and the thread waits again.
\<close>

definition JoinProcessThread_round ::
    "process_env \<Rightarrow> thread_id \<Rightarrow> ptr list \<Rightarrow> inv_state \<Rightarrow> (bool \<times> inv_state) option" where
  "JoinProcessThread_round E threadId tries s =
     (case i_cur s of
        None \<Rightarrow> Some (False, s)
      | Some st \<Rightarrow>
          (case PopDataInfoFromThread threadId (ips st) of
             (None, k) \<Rightarrow> Some (False, on_ips (\<lambda>_. k) s)
           | (Some info, k) \<Rightarrow>
               map_option (Pair True) (OnTransaction E (Some info) tries (on_ips (\<lambda>_. k) s))))"

section \<open>Dispatch\<close>

definition CheckMessageVaildity :: "int \<Rightarrow> nat \<Rightarrow> process_state option \<Rightarrow> bool" where
  "CheckMessageVaildity socketId c cur \<longleftrightarrow>
     c = BC_TRANSACTION \<and> QueryClientSessionObject (word_of_int socketId) cur \<noteq> nullptr \<or>
     c = BC_REPLY \<and> QueryServerSessionObjectBySocketId (word_of_int socketId) cur"

definition MakeThreadProcessInfo :: "libc \<Rightarrow> int \<Rightarrow> bytes option \<Rightarrow> u32 \<Rightarrow> ThreadProcessInfo option" where
  "MakeThreadProcessInfo L socketId inBuffer sz =
     (case inBuffer of
        None \<Rightarrow> None
      | Some bs \<Rightarrow>
          if unat sz < HEADER_SIZE \<or> unat sz > SOCKET_MAX_BUFF_SIZE then None
          else (case new_char L (unat sz) of
              None \<Rightarrow> None
            | Some a \<Rightarrow>
                (case memcpy_s L a 0 (unat sz) bs (unat sz) of
                   (result, copied) \<Rightarrow>
                     if result \<noteq> 0 then None
                     else Some \<lparr>tp_listenFd = socketId, tp_packageSize = sz, tp_buffer = Some copied\<rparr>)))"

text \<open>
  \<open>StartProcessLoop\<close> up to the loop that waits for an idle thread: the result is the package that is
  still to be handed over, \<open>None\<close> if it is dropped. \<open>StartProcessLoop_resume\<close> is one look for an idle
  thread; \<open>None\<close> while there is none.
\<close>

definition StartProcessLoop ::
    "process_env \<Rightarrow> thread_env \<Rightarrow> int \<Rightarrow> bytes \<Rightarrow> inv_state \<Rightarrow> (ThreadProcessInfo option \<times> inv_state) option" where
  "StartProcessLoop E T socketId buffer s =
     (case i_cur s of
        None \<Rightarrow> map_option (Pair None) (StartLoopFailSendReply E buffer RPC_BASE_INVOKER_CURRENT_NULL_ERR s)
      | Some st \<Rightarrow>
          (case MakeThreadProcessInfo (pn_libc E) socketId (Some buffer) (of_nat (length buffer)) of
             None \<Rightarrow> map_option (Pair None) (StartLoopFailSendReply E buffer RPC_BASE_INVOKER_MALLOC_ERR s)
           | Some info \<Rightarrow>
               if \<not> CheckMessageVaildity socketId (cmd (header_of buffer)) (i_cur s) then Some (None, s)
               else if GetIdleDataThread (ips st) = no_thread
               then Some (Some info, s\<lparr>i_cur := snd (CreateProcessThread T (i_cur s))\<rparr>)
               else Some (Some info, s)))"

definition StartProcessLoop_resume :: "ThreadProcessInfo \<Rightarrow> inv_state \<Rightarrow> inv_state option" where
  "StartProcessLoop_resume info s =
     (case i_cur s of
        None \<Rightarrow> None
      | Some st \<Rightarrow>
          (let t = GetIdleDataThread (ips st) in
           if t = no_thread then None
           else Some (on_ips (\<lambda>k. WakeUpDataThread t (AddDataInfoToThread t (Some info) k)) s)))"

end
