(* ===== verification/Databus_Process_Proofs.thy ===== *)
theory Databus_Process_Proofs
  imports Databus_Process Buffer_Protocol Databus_Wire_Proofs Databus_Invoker_Proofs
begin

text \<open>
  Correctness of transactions over the databus: the invoker of a thread is restored after every
  transaction, a reply of a stub arrives at the sender that waits for it, and what the checks on a
  received package guarantee.
\<close>

section \<open>What sending keeps\<close>

lemma i_inv_keep [simp]:
  "i_inv (on_ips f s) = i_inv s" "i_inv (put_session p ob s) = i_inv s" "i_inv (put_wire E fd d s) = i_inv s"
  by (simp_all add: on_ips_def put_session_def put_wire_def split: option.splits)

lemma OnSendMessage_inv: "OnSendMessage E p s = Some (r, s') \<Longrightarrow> i_inv s' = i_inv s"
  by (auto simp: OnSendMessage_def Let_def split: option.splits if_splits prod.splits Option.bind_splits)

lemma queue_transaction_inv: "queue_transaction E p t s = Some (r, s') \<Longrightarrow> i_inv s' = i_inv s"
  by (auto simp: queue_transaction_def split: option.splits if_splits prod.splits Option.bind_splits)

lemma ProcessRawData_inv: "ProcessRawData E o1 raw n s = (r, s') \<Longrightarrow> i_inv s' = i_inv s"
  by (auto simp: ProcessRawData_def OnSendRawData_def Let_def split: option.splits if_splits prod.splits)

lemma ProcessNormalData_inv: "ProcessNormalData E o1 m h n c cd fl status s = (r, s') \<Longrightarrow> i_inv s' = i_inv s"
  by (auto simp: ProcessNormalData_def MoveMessageParcel2TransData_def Let_def
      split: if_splits prod.splits bool.splits)

lemma WriteTransaction_reply_inv:
  "WriteTransaction E BC_REPLY fl h fd cd data status s = Some (p, n, s') \<Longrightarrow> i_inv s' = i_inv s"
  by (auto simp: WriteTransaction_def GetUniqueSeqNumber_def Let_def
      dest!: queue_transaction_inv ProcessRawData_inv ProcessNormalData_inv
      split: option.splits if_splits prod.splits bool.splits Option.bind_splits)

lemma WaitForReply_inv: "WaitForReply E n w h s = (r, s') \<Longrightarrow> i_inv s' = i_inv s"
  by (auto simp: WaitForReply_def Let_def split: option.splits if_splits prod.splits bool.splits)

lemma SendOrWaitForCompletion_inv:
  "SendOrWaitForCompletion E n p w s = Some (r, s') \<Longrightarrow> i_inv s' = i_inv s"
  by (auto simp: SendOrWaitForCompletion_def dest!: OnSendMessage_inv WaitForReply_inv
      split: if_splits Option.bind_splits)

lemma SendReply_inv: "SendReply E reply fl result s = Some (r, s') \<Longrightarrow> i_inv s' = i_inv s"
  by (auto simp: SendReply_def dest!: WriteTransaction_reply_inv SendOrWaitForCompletion_inv
      split: if_splits Option.bind_splits)

lemma SendReplyWithSeqNum_inv: "SendReplyWithSeqNum E n reply fl result s = Some s' \<Longrightarrow> i_inv s' = i_inv s"
  by (auto simp: SendReplyWithSeqNum_def on_inv_def SetSeqNum_def dest!: SendReply_inv
      split: if_splits Option.bind_splits)

lemma caller_info_simps [simp]:
  "GetCallerInfo (SetCallerInfo c i) = c" "inv_status (SetCallerInfo c i) = inv_status i"
  "GetCallerInfo (SetStatus st i) = GetCallerInfo i" "inv_status (SetStatus st i) = st"
  by (simp_all add: GetCallerInfo_def SetCallerInfo_def SetStatus_def)

lemma CheckAndSetCallerInfo_inv:
  "CheckAndSetCallerInfo fd idx cur i = (ret, i') \<Longrightarrow> inv_status i' = inv_status i \<and> (ret \<noteq> 0 \<longrightarrow> i' = i)"
  by (auto simp: CheckAndSetCallerInfo_def Let_def split: option.splits if_splits)

section \<open>Transmission\<close>

definition session_buffer :: "process_state \<Rightarrow> ptr \<Rightarrow> buffer_object" where
  "session_buffer st p = fst (GetSessionBuff (sessions (ips st) p))"

text \<open>A session with a socket and an idle, empty send buffer.\<close>

definition session_ready :: "process_env \<Rightarrow> ptr \<Rightarrow> process_state \<Rightarrow> bool" where
  "session_ready E p st \<longleftrightarrow> p \<noteq> nullptr \<and> 0 < socket (sessions (ips st) p) \<and>
     send_inv (pn_libc E) (session_buffer st p) \<and> pending (send (session_buffer st p)) = []"

lemma GetSessionBuff_put:
  "GetSessionBuff (snd (GetSessionBuff o1)\<lparr>buff := Some b\<rparr>) = (b, snd (GetSessionBuff o1)\<lparr>buff := Some b\<rparr>)"
  "socket (snd (GetSessionBuff o1)\<lparr>buff := Some b\<rparr>) = socket o1"
  by (simp_all add: GetSessionBuff_def split: option.splits)

lemma put_session_cur:
  "i_cur s = Some st \<Longrightarrow> i_cur (put_session p ob s) =
     Some (st\<lparr>ips := (ips st)\<lparr>sessions := (sessions (ips st))(p := ob)\<rparr>\<rparr>)"
  by (simp add: put_session_def on_ips_def)

lemma i_wire_keep [simp]:
  "i_wire (on_ips f s) = i_wire s" "i_wire (put_session p ob s) = i_wire s" "i_wire (on_inv g s) = i_wire s"
  by (simp_all add: on_ips_def put_session_def on_inv_def)

lemma transmit:
  assumes s: "i_cur s = Some st" "session_ready E p st" "never_oom (pn_libc E)"
    and bs: "bs \<noteq> []" "length bs \<le> 524032" "pn_bytes E (socket (sessions (ips st) p)) bs = 0"
  obtains s1 s2 where "queue_transaction E p (of_nat (length bs), bs) s = Some (True, s1)"
    "OnSendMessage E p s1 = Some (0, s2)" "i_wire s2 = i_wire s @ [(socket (sessions (ips st) p), bs)]"
proof -
  let ?L = "pn_libc E" and ?o = "sessions (ips st) p" and ?n = "of_nat (length bs) :: u32"
  let ?b = "session_buffer st p" and ?o2 = "snd (GetSessionBuff ?o)"
  have n: "unat ?n = length bs"
    using bs(2) by (simp add: unat_of_nat take_bit_nat_eq_self)
  then have un: "uint ?n = int (length bs)" by (metis uint_nat)
  have inv: "send_inv ?L ?b" "pending (send ?b) = []" "p \<noteq> nullptr" "0 < socket ?o"
    using s(2) by (simp_all add: session_ready_def)
  have t: "tr_valid (?n, bs)" "tr_bytes (?n, bs) = bs" using n by (simp_all add: tr_valid_def tr_bytes_def)
  have "cursorW (send ?b) \<le> cursorR (send ?b)"
    using inv(1,2) length_pending [of "send ?b"] by (simp add: send_inv_def)
  moreover obtain ok b1 where m: "MoveTransData2Buffer ?L (Some (?n, bs)) ?b = Some (ok, b1)" "send_inv ?L b1"
    "ok \<longrightarrow> pending (send b1) = pending (send ?b) @ tr_bytes (?n, bs)"
    "uint (fst (?n, bs)) \<le> 1048576 \<longrightarrow> never_oom ?L \<longrightarrow>
      cursorW (send ?b) \<le> cursorR (send ?b) \<or> uint (fst (?n, bs)) < csize (send ?b) - cursorW (send ?b) \<or>
      cursorW (send ?b) - cursorR (send ?b) + uint (fst (?n, bs)) + 256 \<le> 524288 \<longrightarrow> ok"
    by (rule MoveTransData2Buffer_spec [OF inv(1) t(1)]) (rule that; assumption)
  ultimately have ok using s(3) un bs(2) by simp
  with m inv(2) t(2) have b1: "MoveTransData2Buffer ?L (Some (?n, bs)) ?b = Some (True, b1)" "send_inv ?L b1"
    "pending (send b1) = bs" by simp_all
  obtain ret d b2 where b2: "SendData ?L (pn_bytes E (socket ?o)) b1 = Some (ret, d, b2)"
    "never_oom ?L \<and> pending (send b1) \<noteq> [] \<and> length (pending (send b1)) \<le> 524032 \<longrightarrow>
      ret = pn_bytes E (socket ?o) (pending (send b1)) \<and> d = Some (pending (send b1))"
    by (rule SendData_spec [OF b1(2)]) (rule that; assumption)
  have r: "ret = 0" "d = Some bs" using b2(2) s(3) b1(3) bs by simp_all
  let ?s1 = "put_session p (?o2\<lparr>buff := Some b1\<rparr>) s"
  have q: "queue_transaction E p (?n, bs) s = Some (True, ?s1)"
    using s(1) b1(1) by (simp add: queue_transaction_def session_buffer_def split_beta)
  have m: "OnSendMessage E p ?s1 = Some (0, put_wire E (socket ?o) (Some bs)
      (put_session p (?o2\<lparr>buff := Some b2\<rparr>) ?s1))"
    using inv(3,4) b2(1) r
    by (simp add: OnSendMessage_def put_session_cur [OF s(1)] GetSessionBuff_put)
  show ?thesis by (rule that [OF q m]) (simp add: put_wire_def bs(3))
qed

section \<open>Replies\<close>

text \<open>The header of the reply that carries a parcel without objects, or only a status.\<close>

definition reply_header :: "u64 \<Rightarrow> message \<Rightarrow> int \<Rightarrow> dbinder_transaction_data" where
  "reply_header seqNum m result =
     (let tr = ConstructTransData (HEADER_SIZE + (if msg_size m > 0 then msg_size m else 8)) seqNum BC_REPLY 0 0
      in if msg_size m > 0 then tr\<lparr>buffer_size := msg_size m, offsets := msg_size m\<rparr>
         else tr\<lparr>flags := 8, buffer_size := 8, offsets_size := nat (result mod 2 ^ 64), offsets := 8\<rparr>)"

text \<open>A parcel with at most half a megabyte of data, no objects and no raw data.\<close>

definition plain_parcel :: "process_env \<Rightarrow> parcel \<Rightarrow> bool" where
  "plain_parcel E q \<longleftrightarrow> msg_offsets (par_msg q) = [] \<and> par_raw q = None \<and> msg_size (par_msg q) \<le> 523968 \<and>
     (msg_size (par_msg q) > 0 \<longrightarrow> length (pn_payload E (par_msg q)) = msg_size (par_msg q))"

lemma set_status_flag_0: "set_status_flag 0 = 8"
  by (simp add: set_status_flag_def)

lemma plain_normal_data:
  assumes q: "plain_parcel E q" and L: "libc_ok (pn_libc E)"
  shows "ProcessNormalData E o1 (par_msg q) 0 n BC_REPLY 0 0 result s =
    (Some (reply_header n (par_msg q) result, par_msg q), s)"
proof (cases "msg_size (par_msg q) > 0")
  case False
  then show ?thesis using q
    by (simp add: ProcessNormalData_def MoveMessageParcel2TransData_def reply_header_def plain_parcel_def
        set_status_flag_0 ConstructTransData_def)
next
  case True
  let ?m = "par_msg q"
  have k: "msg_offsets ?m = []" "msg_size ?m \<le> 523968" "length (pn_payload E ?m) = msg_size ?m"
    using q True by (simp_all add: plain_parcel_def)
  have "memcpy_s (pn_libc E) (replicate (msg_size ?m) 0) 0 (msg_size ?m) (pn_payload E ?m) (msg_size ?m) =
      (EOK, pn_payload E ?m)"
    using libc_memcpy [OF L, of "msg_size ?m" "msg_size ?m" 0 "replicate (msg_size ?m) 0" "pn_payload E ?m"] True k
    by simp
  then show ?thesis using True k
    by (simp add: ProcessNormalData_def MoveMessageParcel2TransData_def reply_header_def Let_def
        ConstructTransData_def RemoveDBinderPtrData_def CheckTransactionData_def TF_STATUS_CODE_def
        IRemoteObjectTranslateWhenSend_def)
qed

definition reply_package :: "process_env \<Rightarrow> u64 \<Rightarrow> parcel \<Rightarrow> int \<Rightarrow> bytes" where
  "reply_package E seqNum q result = transaction_bytes E (reply_header seqNum (par_msg q) result) (par_msg q)"

lemma reply_header_fields:
  assumes "msg_size m \<le> 523968"
  shows "sizeOfSelf (reply_header n m r) = HEADER_SIZE + (if msg_size m > 0 then msg_size m else 8)"
    "magic (reply_header n m r) = DBINDER_MAGICWORD" "cmd (reply_header n m r) = BC_REPLY"
    "tr_seqNumber (reply_header n m r) = unat n"
    "flags (reply_header n m r) = (if msg_size m > 0 then 0 else 8)"
    "buffer_size (reply_header n m r) = (if msg_size m > 0 then msg_size m else 8)"
    "offsets (reply_header n m r) = (if msg_size m > 0 then msg_size m else 8)"
    "offsets_size (reply_header n m r) = (if msg_size m > 0 then 0 else nat (r mod 2 ^ 64))"
    "header_ok (reply_header n m r)" "CheckTransactionData (reply_header n m r)"
proof -
  have n: "unat n < 2 ^ 64" using unsigned_less [of n] by simp
  have r: "nat (r mod 2 ^ 64) < 2 ^ 64" by (simp add: nat_less_iff)
  show "header_ok (reply_header n m r)"
    using assms n r by (simp add: reply_header_def ConstructTransData_def header_ok_def Let_def)
  show "CheckTransactionData (reply_header n m r)"
    using assms by (simp add: reply_header_def ConstructTransData_def CheckTransactionData_def
        TF_STATUS_CODE_def Let_def)
qed (use assms in \<open>simp_all add: reply_header_def ConstructTransData_def Let_def\<close>)

lemma reply_package_parts:
  assumes "plain_parcel E q"
  shows "header_of (reply_package E n q r) = reply_header n (par_msg q) r"
    "length (reply_package E n q r) = sizeOfSelf (reply_header n (par_msg q) r)"
    "drop HEADER_SIZE (reply_package E n q r) =
       (if msg_size (par_msg q) > 0 then pn_payload E (par_msg q) else replicate 8 0)"
    "valid_package (reply_package E n q r)"
proof -
  have sz: "msg_size (par_msg q) \<le> 523968" using assms by (simp add: plain_parcel_def)
  note f = reply_header_fields [OF sz]
  show h: "header_of (reply_package E n q r) = reply_header n (par_msg q) r"
    by (simp add: reply_package_def transaction_bytes_def header_roundtrip f)
  show l: "length (reply_package E n q r) = sizeOfSelf (reply_header n (par_msg q) r)"
    by (simp add: reply_package_def transaction_bytes_def f)
  show "drop HEADER_SIZE (reply_package E n q r) =
       (if msg_size (par_msg q) > 0 then pn_payload E (par_msg q) else replicate 8 0)"
    using assms by (simp add: reply_package_def transaction_bytes_def f plain_parcel_def)
  show "valid_package (reply_package E n q r)"
    using f h l by (simp add: valid_package_def)
qed

lemma SendReply_sends:
  assumes s: "i_cur s = Some st" "never_oom (pn_libc E)"
    and fd: "QueryClientSessionObject (word_of_int (clientFd (i_inv s))) (i_cur s) = p" "session_ready E p st"
    and n: "inv_seqNumber (i_inv s) \<noteq> 0" and q: "plain_parcel E q"
    and ok: "pn_bytes E (socket (sessions (ips st) p)) (reply_package E (inv_seqNumber (i_inv s)) q result) = 0"
  shows "\<exists>s'. SendReply E q 0 result s = Some (0, s') \<and>
    i_wire s' = i_wire s @ [(socket (sessions (ips st) p), reply_package E (inv_seqNumber (i_inv s)) q result)]"
proof -
  let ?n = "inv_seqNumber (i_inv s)"
  let ?pkg = "reply_package E ?n q result"
  have L: "libc_ok (pn_libc E)" and p: "p \<noteq> nullptr"
    using fd(2) by (simp_all add: session_ready_def send_inv_def)
  have sz: "msg_size (par_msg q) \<le> 523968" using q by (simp add: plain_parcel_def)
  have len: "length ?pkg = sizeOfSelf (reply_header ?n (par_msg q) result)"
    by (rule reply_package_parts(2) [OF q])
  moreover have "sizeOfSelf (reply_header ?n (par_msg q) result) \<le> 524032"
    using sz by (simp add: reply_header_fields(1) [OF sz])
  moreover have "?pkg \<noteq> []" using len by (auto simp: reply_header_fields(1) [OF sz])
  ultimately have bound: "?pkg \<noteq> []" "length ?pkg \<le> 524032" by simp_all
  obtain s1 s2 where t0: "queue_transaction E p (of_nat (length ?pkg), ?pkg) s = Some (True, s1)"
    and t: "OnSendMessage E p s1 = Some (0, s2)" "i_wire s2 = i_wire s @ [(socket (sessions (ips st) p), ?pkg)]"
    by (rule transmit [OF s(1) fd(2) s(2) bound ok])
  note t0 = t0 [unfolded len]
  have "WriteTransaction E BC_REPLY 0 0 (word_of_int (clientFd (i_inv s))) 0 q result s = Some (p, ?n, s1)"
    using s(1) fd(1) p n t0 q
    by (simp add: WriteTransaction_def GetSessionObject_def GetUniqueSeqNumber_def ProcessRawData_def
        plain_normal_data [OF q L] plain_parcel_def reply_package_def)
  moreover have "SendOrWaitForCompletion E ?n p False s1 = Some (Finished 0, s2)"
    using n p t(1) by (simp add: SendOrWaitForCompletion_def WaitForReply_def)
  ultimately show ?thesis using p t(2) by (simp add: SendReply_def)
qed

section \<open>Properties\<close>

text \<open>
  Whatever a stub does to the calling identity of its thread, and on every other way through
  \<open>ProcessTransaction\<close>, the thread has its old caller (process, user, device, tokens, socket) and its
  old status again when the function returns.
\<close>

theorem transaction_restores_caller:
  assumes "ProcessTransaction E tr payload listenFd s = Some s'"
  shows "GetCallerInfo (i_inv s') = GetCallerInfo (i_inv s) \<and> inv_status (i_inv s') = inv_status (i_inv s)"
proof -
  obtain ok m1 cur1 where r: "IRemoteObjectTranslateWhenRcv (pn_rcv E) (word_of_int listenFd) (of_nat (tr_seqNumber tr))
      (pn_view E payload (buffer_size tr) (offsets tr) (offsets_size tr)) (i_cur s) = (ok, m1, cur1)"
    by (metis prod_cases3)
  obtain ret i2 where c: "CheckAndSetCallerInfo listenFd (of_nat (cookie tr)) cur1 (i_inv s) = (ret, i2)"
    by (metis surj_pair)
  note k = CheckAndSetCallerInfo_inv [OF c]
  show ?thesis
    using assms r c k
    by (auto simp: ProcessTransaction_def Let_def on_inv_def dest!: SendReplyWithSeqNum_inv
        split: if_splits prod.splits)
qed

text \<open>
  C9. A synchronous call that passes the checks is answered exactly once. Whatever the stub returned,
  the socket of the caller gets one complete package behind what the stub itself sent; it is a
  reply, carries the sequence number of the request, and holds the data of the reply parcel or,
  if that is empty, the result of the stub as status.
\<close>

theorem call_answered_once:
  assumes "IRemoteObjectTranslateWhenRcv (pn_rcv E) (word_of_int fd) (of_nat (tr_seqNumber tr))
      (pn_view E payload (buffer_size tr) (offsets tr) (offsets_size tr)) (i_cur s) = (True, m1, cur1)"
    and "CheckAndSetCallerInfo fd (of_nat (cookie tr)) cur1 (i_inv s) = (0, i2)"
    and "pn_allocator E" "pn_SetAllocator E" "never_oom (pn_libc E)"
    and "even (flags tr)" "0 < tr_seqNumber tr" "tr_seqNumber tr < 2 ^ 64"
    and "TargetStubSendRequest E tr fd (of_nat (tr_seqNumber tr)) m1
      (on_inv (SetStatus ACTIVE_INVOKER) (s\<lparr>i_cur := cur1, i_inv := i2\<rparr>)) = (err, reply, s3)"
    and "clientFd (i_inv s3) = clientFd i2" "plain_parcel E reply"
    and "i_cur s3 = Some st" "QueryClientSessionObject (word_of_int fd) (Some st) = p" "session_ready E p st"
    and "\<And>bs. pn_bytes E (socket (sessions (ips st) p)) bs = 0"
  shows "\<exists>s' pkg. ProcessTransaction E tr payload fd s = Some s' \<and>
    i_wire s' = i_wire s3 @ [(socket (sessions (ips st) p), pkg)] \<and> valid_package pkg \<and>
    cmd (header_of pkg) = BC_REPLY \<and> tr_seqNumber (header_of pkg) = tr_seqNumber tr \<and>
    (if msg_size (par_msg reply) > 0
     then \<not> TF_STATUS_CODE (header_of pkg) \<and> drop HEADER_SIZE pkg = pn_payload E (par_msg reply)
     else TF_STATUS_CODE (header_of pkg) \<and> offsets_size (header_of pkg) = nat (err mod 2 ^ 64))"
proof -
  let ?n = "of_nat (tr_seqNumber tr) :: u64"
  let ?s = "on_inv (SetSeqNum ?n) s3"
  let ?pkg = "reply_package E ?n reply err"
  have n: "unat ?n = tr_seqNumber tr" using assms(8) by (simp add: unat_of_nat take_bit_nat_eq_self)
  have "clientFd i2 = fd"
    using assms(2) by (auto simp: CheckAndSetCallerInfo_def Let_def SetCallerInfo_def split: option.splits if_splits)
  then have c: "i_cur ?s = Some st" "inv_seqNumber (i_inv ?s) = ?n" "clientFd (i_inv ?s) = fd"
    using assms(10,12) by (simp_all add: on_inv_def SetSeqNum_def)
  have "?n \<noteq> 0" using n assms(7) by auto
  then obtain s4 where s4: "SendReply E reply 0 err ?s = Some (0, s4)"
    "i_wire s4 = i_wire s3 @ [(socket (sessions (ips st) p), ?pkg)]"
    using SendReply_sends [OF c(1) assms(5) _ assms(14) _ assms(11) assms(15), of err] c assms(13) by auto
  let ?s' = "on_inv (\<lambda>i. SetCallerInfo (GetCallerInfo (i_inv s)) (SetStatus (inv_status (i_inv s)) i))
    (on_inv (SetSeqNum (inv_seqNumber (i_inv s3))) s4)"
  have "ProcessTransaction E tr payload fd s = Some ?s'"
    using assms(1-4,6,9) s4(1) by (simp add: ProcessTransaction_def Let_def SendReplyWithSeqNum_def)
  moreover have "i_wire ?s' = i_wire s3 @ [(socket (sessions (ips st) p), ?pkg)]" using s4(2) by simp
  moreover have sz: "msg_size (par_msg reply) \<le> 523968" using assms(11) by (simp add: plain_parcel_def)
  ultimately show ?thesis
    using reply_package_parts [OF assms(11)] n
    by (intro exI [of _ ?s'] exI [of _ ?pkg])
      (simp add: reply_header_fields [OF sz] TF_STATUS_CODE_def)
qed

section \<open>Delivery of a reply\<close>

lemma header_of_bounds: "flags (header_of bs) < 2 ^ 32" "tr_seqNumber (header_of bs) < 2 ^ 64"
  "buffer_size (header_of bs) < 2 ^ 64" "offsets_size (header_of bs) < 2 ^ 64" "offsets (header_of bs) < 2 ^ 64"
proof -
  have b: "le_nat xs < 256 ^ length xs" for xs
  proof (induction xs)
    case (Cons x xs)
    have "unat x < 256" using unsigned_less [of x] by simp
    with Cons show ?case by simp
  qed simp
  have f: "field off k xs < 256 ^ k" for off k xs
  proof -
    have "field off k xs < 256 ^ length (take k (drop off xs))" unfolding field_def by (rule b)
    also have "\<dots> \<le> 256 ^ k" by (rule power_increasing) simp_all
    finally show ?thesis .
  qed
  show "flags (header_of bs) < 2 ^ 32" using f [of 20 4 bs] by (simp add: header_of_def)
  show "tr_seqNumber (header_of bs) < 2 ^ 64" using f [of 32 8 bs] by (simp add: header_of_def)
  show "buffer_size (header_of bs) < 2 ^ 64" using f [of 40 8 bs] by (simp add: header_of_def)
  show "offsets_size (header_of bs) < 2 ^ 64" using f [of 48 8 bs] by (simp add: header_of_def)
  show "offsets (header_of bs) < 2 ^ 64" using f [of 56 8 bs] by (simp add: header_of_def)
qed

lemma status_flag_bit: "bit (of_nat (flags tr) :: u32) 3 \<longleftrightarrow> TF_STATUS_CODE tr"
proof -
  have "bit (of_nat (flags tr) :: u32) 3 \<longleftrightarrow> bit (flags tr) 3"
    unfolding bit_of_nat_iff by simp
  also have "\<dots> \<longleftrightarrow> TF_STATUS_CODE tr"
    unfolding TF_STATUS_CODE_def bit_iff_odd by (simp add: odd_iff_mod_2_eq_one)
  finally show ?thesis .
qed

lemma on_ips_cur: "i_cur s = Some st \<Longrightarrow> i_cur (on_ips f s) = Some (st\<lparr>ips := f (ips st)\<rparr>)"
  by (simp add: on_ips_def)

text \<open>What \<open>ProcessReply\<close> stores for the waiting sender before it wakes it.\<close>

definition delivered_reply :: "dbinder_transaction_data \<Rightarrow> bytes \<Rightarrow> int \<Rightarrow> ThreadMessageInfo \<Rightarrow> ThreadMessageInfo" where
  "delivered_reply tr payload fd x = x\<lparr>tm_buffer := Some payload, tm_flags := of_nat (flags tr),
     tm_bufferSize := of_nat (buffer_size tr), tm_offsetsSize := of_nat (offsets_size tr),
     tm_offsets := of_nat (offsets tr), tm_socketId := word_of_int fd, tm_ready := True\<rparr>"

lemma ProcessReply_delivers:
  assumes L: "libc_ok (pn_libc E)" "never_oom (pn_libc E)" and v: "valid_package pkg"
    and s: "i_cur s = Some st" "\<not> exitFlag (ips st)" "p \<noteq> nullptr"
      "QueryThreadBySeqNumber (of_nat (tr_seqNumber (header_of pkg))) (ips st) = p"
  shows "ProcessReply E (header_of pkg) (drop HEADER_SIZE pkg) fd [p] s =
    on_ips (on_message p (delivered_reply (header_of pkg) (drop HEADER_SIZE pkg) fd)) s"
proof -
  let ?tr = "header_of pkg" and ?d = "drop HEADER_SIZE pkg"
  have sz: "sizeOfSelf ?tr = length pkg" "HEADER_SIZE < length pkg" "length pkg \<le> SOCKET_MAX_BUFF_SIZE"
    using v valid_package_length [OF v] by (simp_all add: valid_package_def)
  obtain a where a: "new_char (pn_libc E) (length pkg - 64) = Some a"
    using L(2) by (auto simp: never_oom_def)
  then have "length a = length pkg - 64" using L(1) by (auto simp: libc_ok_def)
  then have cp: "memcpy_s (pn_libc E) a 0 (length pkg - 64) ?d (length pkg - 64) = (EOK, ?d)"
    using libc_memcpy [OF L(1), of "length pkg - 64" "length pkg - 64" 0 a ?d] sz by simp
  have look: "QueryThreadBySeqNumber n (on_message q f k) = QueryThreadBySeqNumber n k" for n q f k
    by (simp add: QueryThreadBySeqNumber_def on_message_def)
  let ?f = "\<lambda>x. x\<lparr>tm_buffer := Some ?d, tm_flags := of_nat (flags ?tr), tm_bufferSize := of_nat (buffer_size ?tr),
    tm_offsetsSize := of_nat (offsets_size ?tr), tm_offsets := of_nat (offsets ?tr), tm_socketId := word_of_int fd\<rparr>"
  have r: "ProcessReply E ?tr ?d fd [p] s =
      on_ips (\<lambda>k. WakeUpThreadBySeqNumber (of_nat (tr_seqNumber ?tr)) (word_of_int fd) (on_message p ?f k)) s"
    unfolding ProcessReply_def sz(1) Let_def using s(1,3) a cp by simp
  have "tm_socketId (messages (on_message p ?f (ips st)) p) = word_of_int fd" "exitFlag (on_message p ?f (ips st)) = exitFlag (ips st)"
    by (simp_all add: on_message_def)
  then have "WakeUpThreadBySeqNumber (of_nat (tr_seqNumber ?tr)) (word_of_int fd) (on_message p ?f (ips st)) =
      on_message p (\<lambda>x. x\<lparr>tm_ready := True\<rparr>) (on_message p ?f (ips st))"
    unfolding WakeUpThreadBySeqNumber_def look s(4) using s(2,3) by simp
  also have "\<dots> = on_message p (delivered_reply ?tr ?d fd) (ips st)"
    by (simp add: on_message_def delivered_reply_def)
  finally show ?thesis unfolding r on_ips_def s(1) by simp
qed

lemma resume_delivered:
  assumes s: "i_cur s = Some st" "p \<noteq> nullptr" "\<not> exitFlag (ips st)" and E: "pn_allocator E" "pn_SetAllocator E"
    and tr: "buffer_size tr < 2 ^ 64" "offsets_size tr < 2 ^ 64" "offsets tr < 2 ^ 64"
    and v: "\<And>a b c d. msg_offsets (pn_view E a b c d) = [] \<and> 0 < msg_size (pn_view E a b c d)"
  shows "\<exists>s2. WaitForReply_resume E n p False (on_ips (on_message p (delivered_reply tr payload fd)) s) = Some
        (if TF_STATUS_CODE tr then (sint (of_nat (offsets_size tr) :: u32), None, s2)
         else (0, Some (pn_view E payload (buffer_size tr) (offsets tr) (offsets_size tr)), s2)) \<and>
      (\<forall>st2. i_cur s2 = Some st2 \<longrightarrow> QueryThreadBySeqNumber n (ips st2) = nullptr)"
proof -
  let ?k = "on_message p (delivered_reply tr payload fd) (ips st)"
  let ?k' = "on_message p (\<lambda>x. x\<lparr>tm_ready := False\<rparr>) ?k"
  let ?s' = "s\<lparr>i_cur := Some (st\<lparr>ips := ?k'\<rparr>)\<rparr>"
  let ?r = "if TF_STATUS_CODE tr then (sint (of_nat (offsets_size tr) :: u32), None)
         else (0, Some (pn_view E payload (buffer_size tr) (offsets tr) (offsets_size tr)))"
  have u: "unat (of_nat x :: u64) = x" if "x < 2 ^ 64" for x
    using that by (simp add: unat_of_nat take_bit_nat_eq_self)
  have v': "msg_offsets (pn_view E a b c d) = []" "msg_size (pn_view E a b c d) \<noteq> 0" for a b c d
    using v [of a b c d] by simp_all
  have c: "ucast (of_nat x :: u64) = (of_nat x :: u32)" for x
    by (rule bit_word_eqI) (simp add: bit_simps)
  have ready: "AddSendThreadInWait_resume p False ?k = Some (True, ?k')"
    by (simp add: AddSendThreadInWait_resume_def) (simp add: on_message_def delivered_reply_def)
  have info: "messages ?k' p = (delivered_reply tr payload fd (messages (ips st) p))\<lparr>tm_ready := False\<rparr>"
    by (simp add: on_message_def)
  have h: "HandleReply E n p ?s' = (fst ?r, snd ?r, ?s')"
    using s(2) E u [OF tr(1)] u [OF tr(2)] u [OF tr(3)]
    by (simp add: HandleReply_def info Let_def)
      (simp add: delivered_reply_def status_flag_bit c v' IRemoteObjectTranslateWhenRcv_def)
  have gone: "QueryThreadBySeqNumber n (on_message p f (EraseThreadBySeqNumber n k)) = nullptr" for f k
    by (simp add: QueryThreadBySeqNumber_def on_message_def EraseThreadBySeqNumber_def)
  let ?s2 = "on_ips (on_message p (\<lambda>x. x\<lparr>tm_buffer := None, tm_ready := False\<rparr>))
      (on_ips (EraseThreadBySeqNumber n) ?s')"
  have "on_ips (\<lambda>_. ?k') (on_ips (on_message p (delivered_reply tr payload fd)) s) = ?s'"
    by (simp add: on_ips_def s(1))
  moreover have "ips (st\<lparr>ips := x\<rparr>) = x" for x by simp
  ultimately have "WaitForReply_resume E n p False (on_ips (on_message p (delivered_reply tr payload fd)) s) =
      Some (fst ?r, snd ?r, ?s2)"
    by (simp only: WaitForReply_resume_def on_ips_cur [OF s(1)] option.case ready h
        bind.bind_lunit Let_def prod.case if_False simp_thms)
  moreover have "\<forall>st2. i_cur ?s2 = Some st2 \<longrightarrow> QueryThreadBySeqNumber n (ips st2) = nullptr"
    by (auto simp: on_ips_def gone)
  ultimately show ?thesis by auto
qed


section \<open>An example\<close>

text \<open>
  A process with the stub 8 of index 7, a connection over socket 4 that may use it, and a stub that
  resets the calling identity and returns 41.
\<close>

definition demo_session :: session_object where
  "demo_session = new_connection_session 4 10 20 ''DBinder20_10'' ''dev'' 30"

definition demo_state :: process_state where
  "demo_state = \<lparr>ips = (IPCProcessSkeleton 1)\<lparr>dbinderSessionObjects := [(4, 64)], stubObjects := [(7, 8)],
     sessions := (\<lambda>_. demo_session), seqNumberToThread := [(3, 80)],
     appInfoToStubIndex := [(aa_key (caller_app demo_session 4 7), [(7, 4)])]\<rparr>, pskel = None\<rparr>"

definition demo_env :: process_env where
  "demo_env = \<lparr>pn_libc = std_libc, pn_bytes = (\<lambda>_ _. 0), pn_payload = (\<lambda>m. replicate (msg_size m) 0),
     pn_view = (\<lambda>_ _ _ _. empty_message\<lparr>msg_size := 8\<rparr>),
     pn_snd = \<lparr>se_libc = std_libc, se_local = example_local, se_auth = (\<lambda>_ _. False), se_find = (\<lambda>_. None)\<rparr>,
     pn_rcv = \<lparr>re_create = None, re_fresh = (\<lambda>_. 0), re_restore = (\<lambda>_. False)\<rparr>,
     pn_allocator = True, pn_SetAllocator = True, pn_fresh = (\<lambda>_. 80),
     pn_stub = (\<lambda>_ _ _ _ s. (41, empty_parcel, False, on_inv (\<lambda>i. snd (ResetCallingIdentity example_local i)) s))\<rparr>"

definition demo_thread :: inv_state where
  "demo_thread = \<lparr>i_inv = DBinderDatabusInvoker example_local, i_cur = Some demo_state, i_wire = [], i_refs = []\<rparr>"

definition demo_request :: dbinder_transaction_data where
  "demo_request = \<lparr>sizeOfSelf = 72, magic = DBINDER_MAGICWORD, version = 2, cmd = BC_TRANSACTION, code = 1, flags = 0,
     cookie = 7, tr_seqNumber = 3, buffer_size = 8, offsets_size = 0, offsets = 8\<rparr>"

lemmas demo_defs = demo_state_def demo_env_def demo_thread_def demo_request_def IPCProcessSkeleton_def

lemma demo_session_facts: "socket demo_session = 4" "so_uid demo_session = 20" "serverDeviceId demo_session = ''dev''"
  "buff demo_session = None"
  by (simp_all add: demo_session_def new_connection_session_def SetPeerUid_def SetPeerPid_def SetSocketId_def
      DBinderSessionObject_def)

lemma demo_check:
  "\<exists>i2. CheckAndSetCallerInfo 4 7 (Some demo_state) i = (0, i2) \<and> clientFd i2 = 4"
  by (simp add: CheckAndSetCallerInfo_def QueryClientSessionObject_def StubQueryDBinderSession_def
      QueryAppInfoToStubIndex_app_def index_allowed_def demo_defs demo_session_facts SetCallerInfo_def)
    (simp add: caller_app_def)

lemma demo_ready: "session_ready demo_env 64 demo_state" "never_oom (pn_libc demo_env)" "libc_ok (pn_libc demo_env)"
  using std_libc_ok fresh_send_inv [OF std_libc_ok]
  by (simp_all add: session_ready_def session_buffer_def GetSessionBuff_def demo_defs demo_session_facts
      never_oom_def std_libc_def)

lemma demo_stub_call:
  assumes "CheckAndSetCallerInfo 4 7 (Some demo_state) (i_inv demo_thread) = (0, i2)"
  shows "IRemoteObjectTranslateWhenRcv (pn_rcv demo_env) (word_of_int 4) (of_nat (tr_seqNumber demo_request))
      (pn_view demo_env [] (buffer_size demo_request) (offsets demo_request) (offsets_size demo_request)) (i_cur demo_thread) =
      (True, empty_message\<lparr>msg_size := 8\<rparr>, Some demo_state)"
    "TargetStubSendRequest demo_env (demo_request\<lparr>flags := f\<rparr>) 4 n m (on_inv g (demo_thread\<lparr>i_cur := Some demo_state, i_inv := i2\<rparr>)) =
      (41, empty_parcel, on_inv (\<lambda>i. snd (ResetCallingIdentity example_local (g i))) (demo_thread\<lparr>i_inv := i2\<rparr>))"
  by (simp_all add: demo_defs IRemoteObjectTranslateWhenRcv_def empty_message_def TargetStubSendRequest_def
      QueryStubByIndex_def on_inv_def)

lemma empty_parcel_plain: "plain_parcel E empty_parcel"
  by (simp add: plain_parcel_def empty_parcel_def empty_message_def)

theorem transaction_restores_caller_witness:
  "\<exists>s'. ProcessTransaction demo_env (demo_request\<lparr>flags := 1\<rparr>) [] 4 demo_thread = Some s' \<and>
     GetCallerInfo (i_inv s') = GetCallerInfo (i_inv demo_thread)"
proof -
  obtain i2 where i2: "CheckAndSetCallerInfo 4 7 (Some demo_state) (i_inv demo_thread) = (0, i2)"
    using demo_check by blast
  have "\<exists>s'. ProcessTransaction demo_env (demo_request\<lparr>flags := 1\<rparr>) [] 4 demo_thread = Some s'"
    using demo_stub_call [OF i2] i2
    by (simp add: ProcessTransaction_def Let_def SendReplyWithSeqNum_def demo_request_def)
  then obtain s' where "ProcessTransaction demo_env (demo_request\<lparr>flags := 1\<rparr>) [] 4 demo_thread = Some s'" by blast
  with transaction_restores_caller [OF this] show ?thesis by blast
qed

theorem call_answered_once_witness:
  "\<exists>s' pkg. ProcessTransaction demo_env demo_request [] 4 demo_thread = Some s' \<and> i_wire s' = [(4, pkg)] \<and>
     tr_seqNumber (header_of pkg) = 3 \<and> TF_STATUS_CODE (header_of pkg) \<and> offsets_size (header_of pkg) = 41"
proof -
  obtain i2 where i2: "CheckAndSetCallerInfo 4 7 (Some demo_state) (i_inv demo_thread) = (0, i2)" "clientFd i2 = 4"
    using demo_check by blast
  let ?g = "SetStatus ACTIVE_INVOKER"
  let ?s3 = "on_inv (\<lambda>i. snd (ResetCallingIdentity example_local (?g i))) (demo_thread\<lparr>i_inv := i2\<rparr>)"
  have fl: "demo_request\<lparr>flags := 0\<rparr> = demo_request" by (simp add: demo_request_def)
  have q: "cookie demo_request = 7" "flags demo_request = 0" "tr_seqNumber demo_request = 3"
    by (simp_all add: demo_request_def)
  have w: "i_wire ?s3 = []" "socket (sessions (ips demo_state) 64) = 4" "msg_size (par_msg empty_parcel) = 0"
    by (simp_all add: demo_thread_def demo_state_def demo_session_facts empty_parcel_def empty_message_def)
  have "\<exists>s' pkg. ProcessTransaction demo_env demo_request [] 4 demo_thread = Some s' \<and>
      i_wire s' = i_wire ?s3 @ [(socket (sessions (ips demo_state) 64), pkg)] \<and> valid_package pkg \<and>
      cmd (header_of pkg) = BC_REPLY \<and> tr_seqNumber (header_of pkg) = tr_seqNumber demo_request \<and>
      (if msg_size (par_msg empty_parcel) > 0
       then \<not> TF_STATUS_CODE (header_of pkg) \<and> drop HEADER_SIZE pkg = pn_payload demo_env (par_msg empty_parcel)
       else TF_STATUS_CODE (header_of pkg) \<and> offsets_size (header_of pkg) = nat (41 mod 2 ^ 64))"
  proof (rule call_answered_once [OF demo_stub_call(1) [OF i2(1)]])
    show "CheckAndSetCallerInfo 4 (of_nat (cookie demo_request)) (Some demo_state) (i_inv demo_thread) = (0, i2)"
      using i2(1) q by simp
    show "TargetStubSendRequest demo_env demo_request 4 (of_nat (tr_seqNumber demo_request)) (empty_message\<lparr>msg_size := 8\<rparr>)
        (on_inv ?g (demo_thread\<lparr>i_cur := Some demo_state, i_inv := i2\<rparr>)) = (41, empty_parcel, ?s3)"
      using demo_stub_call(2) [OF i2(1), of 0] unfolding fl by simp
    show "clientFd (i_inv ?s3) = clientFd i2" "i_cur ?s3 = Some demo_state"
      by (simp_all add: on_inv_def ResetCallingIdentity_def SetStatus_def demo_thread_def)
    show "QueryClientSessionObject (word_of_int 4) (Some demo_state) = 64"
      by (simp add: QueryClientSessionObject_def StubQueryDBinderSession_def demo_defs)
  qed (use demo_ready q empty_parcel_plain in \<open>simp_all add: demo_env_def\<close>)
  then show ?thesis using w q by auto
qed


section \<open>Refused calls\<close>

lemma SendReply_no_session:
  assumes "QueryClientSessionObject (word_of_int (clientFd (i_inv s))) (i_cur s) = nullptr"
  shows "SendReply E q fl result s = Some (RPC_BASE_INVOKER_SEND_REPLY_ERR, s)"
  using assms by (simp add: SendReply_def WriteTransaction_def GetSessionObject_def split: option.splits)

text \<open>
  A caller without the right to a stub gets no answer. When the check of the caller fails, the
  error reply is addressed with the socket that the thread served before, since the check stores
  the new one only when it succeeds. For a thread that serves no call (no session at its stored
  socket), nothing is sent, although the session of the caller exists; the state stays as it was, and
  the caller waits until its time is over.
\<close>

theorem refused_call_unanswered:
  assumes "IRemoteObjectTranslateWhenRcv (pn_rcv E) (word_of_int fd) (of_nat (tr_seqNumber tr))
      (pn_view E payload (buffer_size tr) (offsets tr) (offsets_size tr)) (i_cur s) = (True, m1, cur1)"
    and "CheckAndSetCallerInfo fd (of_nat (cookie tr)) cur1 (i_inv s) = (ret, i2)" "ret \<noteq> 0"
    and "QueryClientSessionObject (word_of_int (clientFd (i_inv s))) cur1 = nullptr"
  shows "ProcessTransaction E tr payload fd s = Some (s\<lparr>i_cur := cur1\<rparr>)"
proof -
  let ?s1 = "s\<lparr>i_cur := cur1\<rparr>"
  have i2: "i2 = i_inv s" using CheckAndSetCallerInfo_inv [OF assms(2)] assms(3) by simp
  have "clientFd (i_inv (on_inv (SetSeqNum n) ?s1)) = clientFd (i_inv s)" "i_cur (on_inv (SetSeqNum n) ?s1) = cur1" for n
    by (simp_all add: on_inv_def SetSeqNum_def)
  then have "SendReply E empty_parcel 0 ret (on_inv (SetSeqNum n) ?s1) =
      Some (RPC_BASE_INVOKER_SEND_REPLY_ERR, on_inv (SetSeqNum n) ?s1)" for n
    using assms(4) by (intro SendReply_no_session) simp
  moreover have "on_inv (SetSeqNum (inv_seqNumber (i_inv s))) (on_inv (SetSeqNum n) ?s1) = ?s1" for n
    by (simp add: on_inv_def SetSeqNum_def)
  ultimately have "SendReplyWithSeqNum E n empty_parcel f ret ?s1 = Some ?s1" for n f
    by (simp add: SendReplyWithSeqNum_def)
  moreover have "?s1\<lparr>i_inv := i_inv s\<rparr> = ?s1" by simp
  ultimately show ?thesis using assms(1-3) by (simp add: ProcessTransaction_def Let_def i2)
qed

theorem refused_call_unanswered_witness:
  "QueryClientSessionObject 4 (i_cur demo_thread) = 64 \<and>
   ProcessTransaction demo_env (demo_request\<lparr>cookie := 6\<rparr>) [] 4 demo_thread = Some demo_thread"
proof -
  have 1: "IRemoteObjectTranslateWhenRcv (pn_rcv demo_env) (word_of_int 4) (of_nat (tr_seqNumber (demo_request\<lparr>cookie := 6\<rparr>)))
      (pn_view demo_env [] (buffer_size (demo_request\<lparr>cookie := 6\<rparr>)) (offsets (demo_request\<lparr>cookie := 6\<rparr>))
        (offsets_size (demo_request\<lparr>cookie := 6\<rparr>))) (i_cur demo_thread) =
      (True, empty_message\<lparr>msg_size := 8\<rparr>, Some demo_state)"
    by (simp add: demo_env_def demo_thread_def IRemoteObjectTranslateWhenRcv_def empty_message_def)
  have 2: "CheckAndSetCallerInfo 4 (of_nat (cookie (demo_request\<lparr>cookie := 6\<rparr>))) (Some demo_state) (i_inv demo_thread) =
      (RPC_DATABUS_INVOKER_INVALID_STUB_INDEX, i_inv demo_thread)"
    by (simp add: CheckAndSetCallerInfo_def QueryClientSessionObject_def StubQueryDBinderSession_def
        QueryAppInfoToStubIndex_app_def index_allowed_def demo_defs demo_session_facts)
      (simp add: caller_app_def aa_key_def)
  have 3: "QueryClientSessionObject (word_of_int (clientFd (i_inv demo_thread))) (Some demo_state) = nullptr"
    "QueryClientSessionObject 4 (i_cur demo_thread) = 64"
    by (simp_all add: QueryClientSessionObject_def StubQueryDBinderSession_def demo_defs DBinderDatabusInvoker_def)
  have "demo_thread\<lparr>i_cur := Some demo_state\<rparr> = demo_thread" by (simp add: demo_thread_def)
  then show ?thesis using refused_call_unanswered [OF 1 2 _ 3(1)] 3(2) by simp
qed

section \<open>Tables of a package\<close>

text \<open>
  C32. In a package that passes \<open>CheckTransactionData\<close> and carries no status, the offsets of the
  objects and one flattened session for each of them lie inside the package. The check leaves
  \<open>offsets_size\<close> open when the status flag is set, where it holds the status: a transaction with
  that flag passes the check with any value, and \<open>ProcessTransaction\<close>, which does not look at the flag
  before it translates the objects, reads offsets behind the end of the package.
\<close>

theorem package_tables_checked:
  "(CheckTransactionData tr \<and> \<not> TF_STATUS_CODE tr \<longrightarrow>
      HEADER_SIZE + offsets tr + offsets_size tr + offsets_size tr div 8 * FLAT_SESSION_LEN \<le> sizeOfSelf tr) \<and>
   (CheckTransactionData tr \<and> TF_STATUS_CODE tr \<longrightarrow> CheckTransactionData (tr\<lparr>offsets_size := n\<rparr>)) \<and>
   (sizeOfSelf tr = 72 \<and> 8 \<le> n \<and> CheckTransactionData tr \<and> TF_STATUS_CODE tr \<longrightarrow>
      sizeOfSelf tr < HEADER_SIZE + offsets (tr\<lparr>offsets_size := n\<rparr>) + 8 * (n div 8))"
proof -
  have 1: "HEADER_SIZE + offsets tr + offsets_size tr + offsets_size tr div 8 * FLAT_SESSION_LEN \<le> sizeOfSelf tr"
    if c: "CheckTransactionData tr" "\<not> TF_STATUS_CODE tr"
  proof -
    define k where "k = sizeOfSelf tr - buffer_size tr - HEADER_SIZE - offsets_size tr"
    have "k * 8 = offsets_size tr * 280"
      using c unfolding CheckTransactionData_def k_def by metis
    moreover have "\<not> sizeOfSelf tr - HEADER_SIZE - buffer_size tr < offsets_size tr"
      "\<not> offsets tr \<noteq> buffer_size tr" "\<not> sizeOfSelf tr < HEADER_SIZE + buffer_size tr"
      using c unfolding CheckTransactionData_def by metis+
    moreover from calculation(1) have "offsets_size tr div 8 * 280 \<le> k"
      using div_times_less_eq_dividend [of "offsets_size tr" 8] by linarith
    ultimately show ?thesis unfolding k_def by linarith
  qed
  have 2: "CheckTransactionData (tr\<lparr>offsets_size := n\<rparr>)" if "CheckTransactionData tr" "TF_STATUS_CODE tr"
    using that by (simp add: CheckTransactionData_def TF_STATUS_CODE_def split: if_splits)
  have 3: "sizeOfSelf tr < HEADER_SIZE + offsets (tr\<lparr>offsets_size := n\<rparr>) + 8 * (n div 8)"
    if "sizeOfSelf tr = 72" "8 \<le> n" "CheckTransactionData tr" "TF_STATUS_CODE tr"
    using that by (auto simp: CheckTransactionData_def split: if_splits)
  show ?thesis using 1 2 3 by blast
qed

theorem package_tables_checked_witness:
  "CheckTransactionData (demo_request\<lparr>flags := 8, offsets_size := 8000\<rparr>) \<and>
   CheckTransactionData (demo_request\<lparr>sizeOfSelf := 360, offsets_size := 8\<rparr>)"
  using package_tables_checked [of "demo_request\<lparr>flags := 8\<rparr>" 8000]
  by (simp add: demo_request_def CheckTransactionData_def TF_STATUS_CODE_def)

section \<open>Pointer objects\<close>

lemma memmove_payload:
  assumes "libc_ok L" "0 < n" "n \<le> SECUREC_MEM_MAX_LEN" "40 + n \<le> length b"
  shows "fst (memmove_s L (Some b) n 40 n) = EOK"
  using libc_memmove [OF assms(1-3), of 40 b] assms(4) by simp

text \<open>One step of the loop at a pointer object whose removal succeeds.\<close>

lemma remove_ptr_step:
  assumes "libc_ok (pn_libc E)" "hdr_type (msg_obj m (offset_at m i)) = BINDER_TYPE_PTR"
    and "offset_at m i + 40 \<le> msg_size m" "0 < msg_size m - offset_at m i - 40 + (length (msg_offsets m) - 1)"
    and "msg_size m + 8 * length (msg_offsets m) \<le> SECUREC_MEM_MAX_LEN"
    and "msg_size m + 8 * length (msg_offsets m) \<le> length (pn_payload E m)"
  shows "remove_ptr_loop E (i # is) tr m = remove_ptr_loop E is (cut_header (remove_ptr i m) tr) (remove_ptr i m)"
proof -
  have "fst (memmove_s (pn_libc E) (Some (drop (offset_at m i) (pn_payload E m)))
      (msg_size m + 8 * (length (msg_offsets m) - 1) - offset_at m i - 40) 40
      (msg_size m + 8 * (length (msg_offsets m) - 1) - offset_at m i - 40)) = EOK"
    using assms by (intro memmove_payload) simp_all
  then show ?thesis using assms(2) by simp
qed

text \<open>
  \<open>RemoveDBinderPtrData\<close> misses the second of two neighbouring pointer objects: after a removal it
  still advances to the next index, whose object has moved to the index before. In a message of a
  descriptor and two such objects one stays, and the translation refuses to send the message, which
  it accepts when there is only one pointer object.
\<close>

theorem adjacent_pointer_kept:
  assumes "libc_ok (pn_libc E)" "24 \<le> b" "b + 80 < msg_size m" "msg_size m \<le> SOCKET_MAX_BUFF_SIZE"
    and "\<And>m'. msg_size m' + 8 * length (msg_offsets m') \<le> length (pn_payload E m')"
    and "hdr_type (msg_obj m 0) = BINDER_TYPE_FD" "hdr_type (msg_obj m b) = BINDER_TYPE_PTR"
      "hdr_type (msg_obj m (b + 40)) = BINDER_TYPE_PTR"
  shows "(\<exists>tr' m'. RemoveDBinderPtrData E (tr\<lparr>offsets_size := 24\<rparr>) (m\<lparr>msg_offsets := [0, b, b + 40]\<rparr>) = (True, tr', m') \<and>
      hdr_type (msg_obj m' b) = BINDER_TYPE_PTR \<and> b \<in> set (msg_offsets m') \<and>
      \<not> fst (IRemoteObjectTranslateWhenSend (pn_snd E) o1 m' cur)) \<and>
    (\<exists>tr' m'. RemoveDBinderPtrData E (tr\<lparr>offsets_size := 16\<rparr>) (m\<lparr>msg_offsets := [0, b]\<rparr>) = (True, tr', m') \<and>
      msg_offsets m' = [0] \<and> fst (IRemoteObjectTranslateWhenSend (pn_snd E) o1 m' cur))"
proof -
  let ?m3 = "m\<lparr>msg_offsets := [0, b, b + 40]\<rparr>" and ?m2 = "m\<lparr>msg_offsets := [0, b]\<rparr>"
  let ?r3 = "remove_ptr 1 ?m3" and ?r2 = "remove_ptr 1 ?m2"
  have fd: "hdr_type (msg_obj m 0) \<noteq> BINDER_TYPE_PTR" using assms(6) by simp
  have shape: "msg_offsets ?r3 = [0, b]" "msg_offsets ?r2 = [0]" "msg_size ?r3 = msg_size m - 40" "msg_size ?r2 = msg_size m - 40"
    "msg_obj ?r3 0 = msg_obj m 0" "msg_obj ?r2 0 = msg_obj m 0" "msg_obj ?r3 b = msg_obj m (b + 40)"
    using assms(2-4) by (simp_all add: remove_ptr_def offset_at_def Let_def upt_rec unat_of_nat take_bit_nat_eq_self)
  have off: "offset_at ?m3 0 = 0" "offset_at ?m3 1 = b" "offset_at ?m2 0 = 0" "offset_at ?m2 1 = b" "offset_at ?r3 2 = 0"
    unfolding offset_at_def shape by simp_all
  have s3: "remove_ptr_loop E [1, 2] t ?m3 = (True, cut_header ?r3 t, ?r3)" for t
  proof -
    have "remove_ptr_loop E (1 # [2]) t ?m3 = remove_ptr_loop E [2] (cut_header ?r3 t) ?r3"
      using assms(1-4,7) assms(5) [of ?m3] off by (intro remove_ptr_step) simp_all
    also have "\<dots> = (True, cut_header ?r3 t, ?r3)" using off(5) shape(5) fd by simp
    finally show ?thesis .
  qed
  have s2: "remove_ptr_loop E [1] t ?m2 = (True, cut_header ?r2 t, ?r2)" for t
  proof -
    have "remove_ptr_loop E (1 # []) t ?m2 = remove_ptr_loop E [] (cut_header ?r2 t) ?r2"
      using assms(1-4,7) assms(5) [of ?m2] off by (intro remove_ptr_step) simp_all
    then show ?thesis by simp
  qed
  have l3: "\<exists>t. RemoveDBinderPtrData E (tr\<lparr>offsets_size := 24\<rparr>) ?m3 = (True, t, ?r3)"
    using off(1) fd s3 by (simp add: RemoveDBinderPtrData_def upt_rec numeral_2_eq_2)
  have l2: "\<exists>t. RemoveDBinderPtrData E (tr\<lparr>offsets_size := 16\<rparr>) ?m2 = (True, t, ?r2)"
    using off(3) fd s2 by (simp add: RemoveDBinderPtrData_def upt_rec)
  have t3: "\<not> fst (IRemoteObjectTranslateWhenSend (pn_snd E) o1 ?r3 cur)"
    using assms(2,3,6,8) shape
    by (simp add: IRemoteObjectTranslateWhenSend_def IsValidRemoteObjectOffset_def GetRemoteObjectSize_def put_obj_def
        Let_def)
  have t2: "fst (IRemoteObjectTranslateWhenSend (pn_snd E) o1 ?r2 cur)"
    using assms(2,3,6) shape
    by (simp add: IRemoteObjectTranslateWhenSend_def IsValidRemoteObjectOffset_def GetRemoteObjectSize_def put_obj_def
        Let_def)
  show ?thesis using l3 l2 t3 t2 shape assms(8) by auto
qed

definition demo_message :: message where
  "demo_message = empty_message\<lparr>msg_size := 105, msg_obj := (\<lambda>off. \<lparr>hdr_type =
     (if off = 0 then BINDER_TYPE_FD else BINDER_TYPE_PTR), fb_flags = 0, fb_binder = 0, fb_cookie = 0\<rparr>)\<rparr>"

theorem adjacent_pointer_kept_witness:
  "\<exists>tr' m'. RemoveDBinderPtrData (demo_env\<lparr>pn_payload := \<lambda>m. replicate (msg_size m + 8 * length (msg_offsets m)) 0\<rparr>)
       (demo_request\<lparr>offsets_size := 24\<rparr>) (demo_message\<lparr>msg_offsets := [0, 24, 24 + 40]\<rparr>) = (True, tr', m') \<and>
     hdr_type (msg_obj m' 24) = BINDER_TYPE_PTR"
  using adjacent_pointer_kept [of "demo_env\<lparr>pn_payload := \<lambda>m. replicate (msg_size m + 8 * length (msg_offsets m)) 0\<rparr>"
      24 demo_message demo_request demo_session None] demo_ready(3)
  by (auto simp: demo_message_def)

end
