(* ===== verification/Binder_Invoker.thy ===== *)
theory Binder_Invoker
  imports Databus_Invoker "HOL-Library.Monad_Syntax"
begin

text \<open>
  The invoker of the binder driver (\<open>binder_invoker.cpp\<close>, \<open>binder_connector.cpp\<close>): the two command
  streams between a thread and the driver, the wait for a completion, the commands of the driver,
  calls of stubs, deferred releases of references, and the identity of the caller as text.

  A thread has one \<open>binder_invoker\<close>. The streams \<open>input_\<close> and \<open>output_\<close> are the bytes not read yet and
  the bytes not taken by the driver yet. The class \<open>Parcel\<close> belongs to another repository; what the
  code asks of it is the parameter \<open>parcel_lib\<close>, and \<open>parcel_ok\<close> is what its documentation promises. The
  driver is the list of its coming answers, one for each \<open>ioctl\<close> with \<open>BINDER_WRITE_READ\<close>; whatever
  the driver does in a run is such a list. A call that waits in the driver has the result \<open>None\<close>.
  References are counted per \<open>RefCounter\<close>. The stubs, the death recipients and requests to other
  processes are parameters that may change the whole state.

  The optional features of the build (freezing, user numbers, memory usage, the single-library
  configuration) are off. Tracing, logging and statistics are left out.
\<close>

section \<open>Streams\<close>

record parcel_lib =
  pl_write :: "bytes \<Rightarrow> bytes \<Rightarrow> bytes option"
  pl_rewind :: "nat \<Rightarrow> bytes \<Rightarrow> bytes option"
  pl_u32 :: "bytes \<Rightarrow> u32 \<times> bytes"
  pl_pointer :: "bytes \<Rightarrow> ptr \<times> bytes"
  pl_buffer :: "nat \<Rightarrow> bytes \<Rightarrow> bytes option \<times> bytes"

definition parcel_ok :: "parcel_lib \<Rightarrow> bool" where
  "parcel_ok P \<longleftrightarrow>
     (\<forall>p bs. pl_write P p bs = None \<or> pl_write P p bs = Some (p @ bs)) \<and>
     (\<forall>n p. n \<le> length p \<longrightarrow> pl_rewind P n p = Some (take n p)) \<and>
     (\<forall>p. pl_u32 P p = (if length p < 4 then (0, p) else (bytes_word (take 4 p), drop 4 p))) \<and>
     (\<forall>p. pl_pointer P p = (if length p < 8 then (0, p) else (bytes_word (take 8 p), drop 8 p))) \<and>
     (\<forall>n p. pl_buffer P n p = (if length p < n then (None, p) else (Some (take n p), drop n p)))"

text \<open>A library with as much memory as is asked for.\<close>

definition std_parcel :: parcel_lib where
  "std_parcel = \<lparr>
     pl_write = (\<lambda>p bs. Some (p @ bs)),
     pl_rewind = (\<lambda>n p. if n \<le> length p then Some (take n p) else None),
     pl_u32 = (\<lambda>p. if length p < 4 then (0, p) else (bytes_word (take 4 p), drop 4 p)),
     pl_pointer = (\<lambda>p. if length p < 8 then (0, p) else (bytes_word (take 8 p), drop 8 p)),
     pl_buffer = (\<lambda>n p. if length p < n then (None, p) else (Some (take n p), drop n p))\<rparr>"

text \<open>Several writes in a row up to the first that fails.\<close>

fun write_chunks :: "parcel_lib \<Rightarrow> bytes list \<Rightarrow> bytes \<Rightarrow> bool \<times> bytes" where
  "write_chunks P [] p = (True, p)"
| "write_chunks P (c # cs) p =
     (case pl_write P p c of None \<Rightarrow> (False, p) | Some p' \<Rightarrow> write_chunks P cs p')"

text \<open>\<open>if (!output_.RewindWrite(rewindPos)) output_.FlushBuffer();\<close>\<close>

definition rewind_or_flush :: "parcel_lib \<Rightarrow> nat \<Rightarrow> bytes \<Rightarrow> bytes" where
  "rewind_or_flush P pos p = (case pl_rewind P pos p of Some p' \<Rightarrow> p' | None \<Rightarrow> [])"

text \<open>A command word and its payload; after a failure behind the command word the stream is rewound.\<close>

definition put_command :: "parcel_lib \<Rightarrow> u32 \<Rightarrow> bytes list \<Rightarrow> bytes \<Rightarrow> bool \<times> bytes" where
  "put_command P c chunks p =
     (case pl_write P p (word_bytes c) of
        None \<Rightarrow> (False, p)
      | Some p1 \<Rightarrow>
          (case write_chunks P chunks p1 of
             (True, p2) \<Rightarrow> (True, p2)
           | (False, p2) \<Rightarrow> (False, rewind_or_flush P (length p) p2)))"

section \<open>Protocol\<close>

abbreviation (input) BC_TRANSACTION_b :: u32 where "BC_TRANSACTION_b \<equiv> 0x40406300"
abbreviation (input) BC_REPLY_b :: u32 where "BC_REPLY_b \<equiv> 0x40406301"
abbreviation (input) BC_ACQUIRE_RESULT :: u32 where "BC_ACQUIRE_RESULT \<equiv> 0x40046302"
abbreviation (input) BC_FREE_BUFFER :: u32 where "BC_FREE_BUFFER \<equiv> 0x40086303"
abbreviation (input) BC_ACQUIRE :: u32 where "BC_ACQUIRE \<equiv> 0x40046305"
abbreviation (input) BC_RELEASE :: u32 where "BC_RELEASE \<equiv> 0x40046306"
abbreviation (input) BC_INCREFS_DONE :: u32 where "BC_INCREFS_DONE \<equiv> 0x40106308"
abbreviation (input) BC_ACQUIRE_DONE :: u32 where "BC_ACQUIRE_DONE \<equiv> 0x40106309"
abbreviation (input) BC_REGISTER_LOOPER :: u32 where "BC_REGISTER_LOOPER \<equiv> 0x630B"
abbreviation (input) BC_ENTER_LOOPER :: u32 where "BC_ENTER_LOOPER \<equiv> 0x630C"
abbreviation (input) BC_EXIT_LOOPER :: u32 where "BC_EXIT_LOOPER \<equiv> 0x630D"
abbreviation (input) BC_REQUEST_DEATH_NOTIFICATION :: u32 where "BC_REQUEST_DEATH_NOTIFICATION \<equiv> 0x400C630E"
abbreviation (input) BC_CLEAR_DEATH_NOTIFICATION :: u32 where "BC_CLEAR_DEATH_NOTIFICATION \<equiv> 0x400C630F"
abbreviation (input) BC_DEAD_BINDER_DONE :: u32 where "BC_DEAD_BINDER_DONE \<equiv> 0x40086310"
abbreviation (input) BC_TRANSACTION_SG :: u32 where "BC_TRANSACTION_SG \<equiv> 0x40486311"
abbreviation (input) BC_REPLY_SG :: u32 where "BC_REPLY_SG \<equiv> 0x40486312"
abbreviation (input) BC_REQUEST_REFRESH_NOTIFICATION :: u32 where "BC_REQUEST_REFRESH_NOTIFICATION \<equiv> 0x400C6380"
abbreviation (input) BC_CLEAR_REFRESH_NOTIFICATION :: u32 where "BC_CLEAR_REFRESH_NOTIFICATION \<equiv> 0x400C6381"
abbreviation (input) BC_REFRESH_BINDER_DONE :: u32 where "BC_REFRESH_BINDER_DONE \<equiv> 0x40086382"

abbreviation (input) BR_ERROR :: u32 where "BR_ERROR \<equiv> 0x80047200"
abbreviation (input) BR_OK :: u32 where "BR_OK \<equiv> 0x7201"
abbreviation (input) BR_TRANSACTION_SEC_CTX :: u32 where "BR_TRANSACTION_SEC_CTX \<equiv> 0x80487202"
abbreviation (input) BR_TRANSACTION :: u32 where "BR_TRANSACTION \<equiv> 0x80407202"
abbreviation (input) BR_REPLY :: u32 where "BR_REPLY \<equiv> 0x80407203"
abbreviation (input) BR_DEAD_REPLY :: u32 where "BR_DEAD_REPLY \<equiv> 0x7205"
abbreviation (input) BR_TRANSACTION_COMPLETE :: u32 where "BR_TRANSACTION_COMPLETE \<equiv> 0x7206"
abbreviation (input) BR_INCREFS :: u32 where "BR_INCREFS \<equiv> 0x80107207"
abbreviation (input) BR_ACQUIRE :: u32 where "BR_ACQUIRE \<equiv> 0x80107208"
abbreviation (input) BR_RELEASE :: u32 where "BR_RELEASE \<equiv> 0x80107209"
abbreviation (input) BR_DECREFS :: u32 where "BR_DECREFS \<equiv> 0x8010720A"
abbreviation (input) BR_ATTEMPT_ACQUIRE :: u32 where "BR_ATTEMPT_ACQUIRE \<equiv> 0x8018720B"
abbreviation (input) BR_NOOP :: u32 where "BR_NOOP \<equiv> 0x720C"
abbreviation (input) BR_SPAWN_LOOPER :: u32 where "BR_SPAWN_LOOPER \<equiv> 0x720D"
abbreviation (input) BR_FINISHED :: u32 where "BR_FINISHED \<equiv> 0x720E"
abbreviation (input) BR_DEAD_BINDER :: u32 where "BR_DEAD_BINDER \<equiv> 0x8008720F"
abbreviation (input) BR_CLEAR_DEATH_NOTIFICATION_DONE :: u32 where "BR_CLEAR_DEATH_NOTIFICATION_DONE \<equiv> 0x80087210"
abbreviation (input) BR_FAILED_REPLY :: u32 where "BR_FAILED_REPLY \<equiv> 0x7211"
abbreviation (input) BR_REFRESH_BINDER :: u32 where "BR_REFRESH_BINDER \<equiv> 0x80087264"
abbreviation (input) BR_CLEAR_REFRESH_NOTIFICATION_DONE :: u32 where "BR_CLEAR_REFRESH_NOTIFICATION_DONE \<equiv> 0x80087265"

abbreviation (input) IPC_INVOKER_WRITE_TRANS_ERR :: int where "IPC_INVOKER_WRITE_TRANS_ERR \<equiv> 401"
abbreviation (input) IPC_INVOKER_CONNECT_ERR :: int where "IPC_INVOKER_CONNECT_ERR \<equiv> 403"
abbreviation (input) IPC_INVOKER_ON_TRANSACT_ERR :: int where "IPC_INVOKER_ON_TRANSACT_ERR \<equiv> 404"
abbreviation (input) IPC_INVOKER_INVALID_DATA_ERR :: int where "IPC_INVOKER_INVALID_DATA_ERR \<equiv> 405"
abbreviation (input) IPC_INVOKER_INVALID_REPLY_ERR :: int where "IPC_INVOKER_INVALID_REPLY_ERR \<equiv> 406"
abbreviation (input) IPC_TRANSLATE_DBINDER_STUB_ERR :: int where "IPC_TRANSLATE_DBINDER_STUB_ERR \<equiv> 407"
abbreviation (input) ERR_NULL_OBJECT :: int where "ERR_NULL_OBJECT \<equiv> 7"
abbreviation (input) EINTR :: int where "EINTR \<equiv> 4"
abbreviation (input) EBADF :: int where "EBADF \<equiv> 9"
abbreviation (input) ECONNREFUSED :: int where "ECONNREFUSED \<equiv> 111"

text \<open>The size of the payload that the macros \<open>_IOW\<close> and \<open>_IOR\<close> put into a command word.\<close>

definition ioc_size :: "u32 \<Rightarrow> nat" where
  "ioc_size c = unat (take_bit 14 (drop_bit 16 c))"

record binder_tr_data =
  bt_target :: ptr
  bt_cookie :: ptr
  bt_code :: u32
  bt_flags :: u32
  bt_sender_pid :: u32
  bt_sender_euid :: u32
  bt_data_size :: u64
  bt_offsets_size :: u64
  bt_buffer :: ptr
  bt_offsets :: ptr

definition btr_bytes :: "binder_tr_data \<Rightarrow> bytes" where
  "btr_bytes t = word_bytes (bt_target t) @ word_bytes (bt_cookie t) @ word_bytes (bt_code t) @
     word_bytes (bt_flags t) @ word_bytes (bt_sender_pid t) @ word_bytes (bt_sender_euid t) @
     word_bytes (bt_data_size t) @ word_bytes (bt_offsets_size t) @ word_bytes (bt_buffer t) @
     word_bytes (bt_offsets t)"

definition btr_of :: "bytes \<Rightarrow> binder_tr_data" where
  "btr_of b = \<lparr>bt_target = bytes_word (take 8 b), bt_cookie = bytes_word (take 8 (drop 8 b)),
     bt_code = bytes_word (take 4 (drop 16 b)), bt_flags = bytes_word (take 4 (drop 20 b)),
     bt_sender_pid = bytes_word (take 4 (drop 24 b)), bt_sender_euid = bytes_word (take 4 (drop 28 b)),
     bt_data_size = bytes_word (take 8 (drop 32 b)), bt_offsets_size = bytes_word (take 8 (drop 40 b)),
     bt_buffer = bytes_word (take 8 (drop 48 b)), bt_offsets = bytes_word (take 8 (drop 56 b))\<rparr>"

section \<open>State\<close>

record binder_invoker =
  isMainWorkThread :: bool
  bi_stopWorkThread :: bool
  bi_callerPid :: int
  bi_callerRealPid :: int
  bi_callerUid :: int
  bi_callerTokenID :: u64
  bi_firstTokenID :: u64
  bi_callerSid :: string
  bi_input :: bytes
  bi_output :: bytes
  bi_status :: u32
  bi_invokerInfo :: InvokerProcInfo
  bi_sendNestCount :: int
  bi_sendRequestCount :: int
  bi_decStrongRefs :: "ptr list"
  bi_decWeakRefs :: "ptr list"
  bi_isFirstInvoke :: int

text \<open>
  An answer of the driver: the result, the bytes it took, the bytes it gave, and whether the driver
  is closed afterwards (another thread may do so).
\<close>

record drv_answer =
  da_error :: int
  da_consumed :: nat
  da_read :: bytes
  da_closed :: bool

record binder_state =
  bs_inv :: binder_invoker
  bs_ips :: "ipc_skeleton option"
  bs_ps :: "process_skeleton option"
  bs_strong :: "ptr \<Rightarrow> int"
  bs_weak :: "ptr \<Rightarrow> int"
  bs_alive :: bool
  bs_script :: "drv_answer list"
  bs_written :: "bytes list"

record out_object =
  oo_offset :: nat
  oo_type :: u32
  oo_length :: nat
  oo_handle :: u32
  oo_cookie :: u64

record out_parcel =
  op_size :: nat
  op_data :: ptr
  op_objs :: "out_object list"
  op_offsets :: ptr

definition empty_out :: out_parcel where
  "empty_out = \<lparr>op_size = 0, op_data = nullptr, op_objs = [], op_offsets = nullptr\<rparr>"

record binder_env =
  be_parcel :: parcel_lib
  be_local :: local_env
  be_getprocpid :: int
  be_thread :: int
  be_invoker :: u32
  be_IsRealPidSupported :: bool
  be_IsAccessTokenSupported :: bool
  be_IsRefreshSupported :: bool
  be_sender_info :: "binder_tr_data \<Rightarrow> (u64 \<times> u64 \<times> int) option"
  be_access_token :: "binder_tr_data \<Rightarrow> (u64 \<times> u64) option"
  be_self_token :: u64
  be_refs_of :: "ptr \<Rightarrow> ptr"
  be_attempt :: "ptr \<Rightarrow> binder_state \<Rightarrow> bool"
  be_status_at :: "ptr \<Rightarrow> int"
  be_status_addr :: "int \<Rightarrow> ptr"
  be_text_at :: "ptr \<Rightarrow> string"
  be_allocator :: bool
  be_owns_buffer :: "binder_tr_data \<Rightarrow> bool"
  be_SetAllocator :: bool
  be_stub :: "ptr \<Rightarrow> u32 \<Rightarrow> binder_tr_data \<Rightarrow> u32 \<Rightarrow> binder_state \<Rightarrow> int \<times> out_parcel \<times> binder_state"
  be_SendObituary :: "ptr \<Rightarrow> binder_state \<Rightarrow> binder_state"
  be_SendRefreshObituary :: "ptr \<Rightarrow> binder_state \<Rightarrow> binder_state"
  be_comm_auth :: "u32 \<Rightarrow> out_object \<Rightarrow> binder_state \<Rightarrow> bool \<times> binder_state"
  be_peer :: "u32 \<Rightarrow> binder_state \<Rightarrow> (u32 \<times> u32) option \<times> binder_state"
  be_GetAndSaveDBinderData :: "ptr \<Rightarrow> int \<Rightarrow> int \<Rightarrow> binder_state \<Rightarrow> int \<times> binder_state"
  be_pad :: "out_parcel \<Rightarrow> out_parcel option"
  be_threads :: thread_env
  be_time :: u64
  be_ERR_DEAD_OBJECT :: int
  be_ERR_TIMED_OUT :: int

definition on_binv :: "(binder_invoker \<Rightarrow> binder_invoker) \<Rightarrow> binder_state \<Rightarrow> binder_state" where
  "on_binv f s = s\<lparr>bs_inv := f (bs_inv s)\<rparr>"

definition set_output :: "bytes \<Rightarrow> binder_state \<Rightarrow> binder_state" where
  "set_output p = on_binv (\<lambda>i. i\<lparr>bi_output := p\<rparr>)"

definition set_input :: "bytes \<Rightarrow> binder_state \<Rightarrow> binder_state" where
  "set_input p = on_binv (\<lambda>i. i\<lparr>bi_input := p\<rparr>)"

definition out_command :: "binder_env \<Rightarrow> u32 \<Rightarrow> bytes list \<Rightarrow> binder_state \<Rightarrow> bool \<times> binder_state" where
  "out_command E c chunks s =
     (case put_command (be_parcel E) c chunks (bi_output (bs_inv s)) of (ok, p) \<Rightarrow> (ok, set_output p s))"

definition ReadUint32_in :: "binder_env \<Rightarrow> binder_state \<Rightarrow> u32 \<times> binder_state" where
  "ReadUint32_in E s = (case pl_u32 (be_parcel E) (bi_input (bs_inv s)) of (v, p) \<Rightarrow> (v, set_input p s))"

definition ReadPointer_in :: "binder_env \<Rightarrow> binder_state \<Rightarrow> ptr \<times> binder_state" where
  "ReadPointer_in E s = (case pl_pointer (be_parcel E) (bi_input (bs_inv s)) of (v, p) \<Rightarrow> (v, set_input p s))"

definition ReadBuffer_in :: "binder_env \<Rightarrow> nat \<Rightarrow> binder_state \<Rightarrow> bytes option \<times> binder_state" where
  "ReadBuffer_in E n s = (case pl_buffer (be_parcel E) n (bi_input (bs_inv s)) of (v, p) \<Rightarrow> (v, set_input p s))"

definition add_strong :: "int \<Rightarrow> ptr \<Rightarrow> binder_state \<Rightarrow> binder_state" where
  "add_strong d r s = s\<lparr>bs_strong := (bs_strong s)(r := bs_strong s r + d)\<rparr>"

definition add_weak :: "int \<Rightarrow> ptr \<Rightarrow> binder_state \<Rightarrow> binder_state" where
  "add_weak d r s = s\<lparr>bs_weak := (bs_weak s)(r := bs_weak s r + d)\<rparr>"

text \<open>\<open>(current != nullptr) && !current->IsValidObject(obj, desc)\<close>\<close>

definition known_invalid :: "ptr \<Rightarrow> binder_state \<Rightarrow> bool" where
  "known_invalid p s \<longleftrightarrow> (case bs_ps s of None \<Rightarrow> False | Some ps \<Rightarrow> IsValidObject p ps = None)"

section \<open>The driver\<close>

text \<open>\<open>WriteBinder\<close> repeats the call as long as it is interrupted.\<close>

fun WriteBinder :: "drv_answer list \<Rightarrow> (drv_answer \<times> drv_answer list) option" where
  "WriteBinder [] = None"
| "WriteBinder (a # as) = (if da_error a = - EINTR \<and> \<not> da_closed a then WriteBinder as
     else if da_error a = - EINTR then Some (a\<lparr>da_error := - EBADF\<rparr>, as) else Some (a, as))"

definition UpdateConsumedData :: "binder_env \<Rightarrow> nat \<Rightarrow> bytes \<Rightarrow> binder_state \<Rightarrow> binder_state" where
  "UpdateConsumedData E write_consumed rd s =
     (let out = bi_output (bs_inv s); P = be_parcel E;
          s1 = (if write_consumed > 0 then
                  (if write_consumed < length out then
                     (let temp = (case pl_write P [] (drop write_consumed out) of Some t \<Rightarrow> t | None \<Rightarrow> [])
                      in set_output (case pl_write P [] temp of Some t \<Rightarrow> t | None \<Rightarrow> []) s)
                   else set_output [] (on_binv (\<lambda>i. i\<lparr>bi_sendNestCount := 0\<rparr>) s))
                else s)
      in if rd \<noteq> [] then set_input rd s1 else s1)"

abbreviation (input) IPC_DEFAULT_PARCEL_SIZE :: nat where "IPC_DEFAULT_PARCEL_SIZE \<equiv> 256"

definition TransactWithDriver :: "binder_env \<Rightarrow> bool \<Rightarrow> binder_state \<Rightarrow> (int \<times> binder_state) option" where
  "TransactWithDriver E doRead s =
     (if \<not> bs_alive s then Some (IPC_INVOKER_CONNECT_ERR, s)
      else
        (let needRead = (bi_input (bs_inv s) = []);
             out = bi_output (bs_inv s);
             outAvail = (if \<not> doRead \<or> needRead then length out else 0);
             read_size = (if doRead \<and> needRead then IPC_DEFAULT_PARCEL_SIZE else 0)
         in if outAvail = 0 \<and> read_size = 0 then Some (0, s)
            else do {
              (a, rest) \<leftarrow> WriteBinder (bs_script s);
              let consumed = min (da_consumed a) outAvail;
              let s1 = s\<lparr>bs_script := rest, bs_alive := \<not> da_closed a,
                         bs_written := bs_written s @ [take consumed out]\<rparr>;
              Some (da_error a, UpdateConsumedData E consumed (take read_size (da_read a)) s1)
            }))"

definition FlushCommands_binder :: "binder_env \<Rightarrow> binder_state \<Rightarrow> (int \<times> binder_state) option" where
  "FlushCommands_binder E s =
     (if \<not> bs_alive s then Some (IPC_INVOKER_CONNECT_ERR, s)
      else do {
        (error, s1) \<leftarrow> TransactWithDriver E False s;
        if bi_output (bs_inv s1) \<noteq> [] then TransactWithDriver E False s1 else Some (error, s1)
      })"

section \<open>Commands to the driver\<close>

definition AcquireHandle_binder :: "binder_env \<Rightarrow> u32 \<Rightarrow> binder_state \<Rightarrow> (bool \<times> binder_state) option" where
  "AcquireHandle_binder E handle s =
     (case out_command E BC_ACQUIRE [word_bytes handle] s of
        (False, s1) \<Rightarrow> Some (False, s1)
      | (True, s1) \<Rightarrow> if handle \<noteq> 0 then do { (_, s2) \<leftarrow> FlushCommands_binder E s1; Some (True, s2) }
                     else Some (True, s1))"

definition ReleaseHandle_binder :: "binder_env \<Rightarrow> u32 \<Rightarrow> binder_state \<Rightarrow> (bool \<times> binder_state) option" where
  "ReleaseHandle_binder E handle s =
     (case out_command E BC_RELEASE [word_bytes handle] s of
        (False, s1) \<Rightarrow> Some (False, s1)
      | (True, s1) \<Rightarrow> do { (_, s2) \<leftarrow> FlushCommands_binder E s1; Some (True, s2) })"

definition AddRecipient :: "binder_env \<Rightarrow> u32 \<Rightarrow> ptr \<Rightarrow> u32 \<Rightarrow> binder_state \<Rightarrow> (bool \<times> binder_state) option" where
  "AddRecipient E handle proxy command_id s =
     (case out_command E command_id [word_bytes handle, word_bytes proxy] s of
        (False, s1) \<Rightarrow> Some (False, s1)
      | (True, s1) \<Rightarrow> do {
          (error, s2) \<leftarrow> FlushCommands_binder E s1;
          Some (error = 0, if error = 0 \<and> proxy \<noteq> nullptr then add_strong 1 (be_refs_of E proxy) s2 else s2)
        })"

definition RemoveRecipient :: "binder_env \<Rightarrow> u32 \<Rightarrow> ptr \<Rightarrow> u32 \<Rightarrow> binder_state \<Rightarrow> (bool \<times> binder_state) option" where
  "RemoveRecipient E handle proxy command_id s =
     (case out_command E command_id [word_bytes handle, word_bytes proxy] s of
        (False, s1) \<Rightarrow> Some (False, s1)
      | (True, s1) \<Rightarrow> do { (error, s2) \<leftarrow> FlushCommands_binder E s1; Some (error = 0, s2) })"

definition AddDeathRecipient_binder :: "binder_env \<Rightarrow> u32 \<Rightarrow> ptr \<Rightarrow> binder_state \<Rightarrow> (bool \<times> binder_state) option" where
  "AddDeathRecipient_binder E handle proxy = AddRecipient E handle proxy BC_REQUEST_DEATH_NOTIFICATION"

definition RemoveDeathRecipient_binder :: "binder_env \<Rightarrow> u32 \<Rightarrow> ptr \<Rightarrow> binder_state \<Rightarrow> (bool \<times> binder_state) option" where
  "RemoveDeathRecipient_binder E handle proxy = RemoveRecipient E handle proxy BC_CLEAR_DEATH_NOTIFICATION"

definition AddRefreshRecipient :: "binder_env \<Rightarrow> u32 \<Rightarrow> ptr \<Rightarrow> binder_state \<Rightarrow> (bool \<times> binder_state) option" where
  "AddRefreshRecipient E handle proxy s =
     (if \<not> be_IsRefreshSupported E then Some (False, s)
      else AddRecipient E handle proxy BC_REQUEST_REFRESH_NOTIFICATION s)"

definition RemoveRefreshRecipient :: "binder_env \<Rightarrow> u32 \<Rightarrow> ptr \<Rightarrow> binder_state \<Rightarrow> (bool \<times> binder_state) option" where
  "RemoveRefreshRecipient E handle proxy s =
     (if \<not> be_IsRefreshSupported E then Some (False, s)
      else RemoveRecipient E handle proxy BC_CLEAR_REFRESH_NOTIFICATION s)"

definition FreeBuffer_binder :: "binder_env \<Rightarrow> ptr \<Rightarrow> binder_state \<Rightarrow> binder_state option" where
  "FreeBuffer_binder E data s =
     (case pl_write (be_parcel E) (bi_output (bs_inv s)) (word_bytes BC_FREE_BUFFER) of
        None \<Rightarrow> Some s
      | Some _ \<Rightarrow>
          map_option snd (FlushCommands_binder E (snd (out_command E BC_FREE_BUFFER [word_bytes data] s))))"

end
