(* ===== verification/Binder_Commands.thy ===== *)
theory Binder_Commands
  imports Binder_Invoker
begin

text \<open>
  What the driver asks of a thread (\<open>binder_invoker.cpp\<close>): references to stubs, death reports,
  transactions for stubs, and the end of a call. The wait for a completion handles such commands
  itself, a transaction sends its reply with another wait, so that the two functions call each
  other; \<open>wait_loop\<close> counts the rounds, over all nested waits, with a number that the caller gives,
  and has the result \<open>None\<close> when it is used up.
\<close>

section \<open>References and reports\<close>

definition AttemptIncStrongRef :: "binder_env \<Rightarrow> ptr \<Rightarrow> binder_state \<Rightarrow> bool \<times> binder_state" where
  "AttemptIncStrongRef E r s = (if be_attempt E r s then (True, add_strong 1 r s) else (False, s))"

definition OnAcquireObject :: "binder_env \<Rightarrow> u32 \<Rightarrow> binder_state \<Rightarrow> binder_state" where
  "OnAcquireObject E c s =
     (case ReadPointer_in E s of (refs, s1) \<Rightarrow> case ReadPointer_in E s1 of (obj, s2) \<Rightarrow>
        if obj = nullptr \<or> refs = nullptr then s2
        else if known_invalid obj s2 then s2
        else if bs_strong s2 (be_refs_of E obj) \<le> 0 then s2
        else
          (let s3 = (if c = BR_ACQUIRE then add_strong 1 (be_refs_of E obj) s2 else add_weak 1 refs s2);
               pos = length (bi_output (bs_inv s3))
           in case write_chunks (be_parcel E)
                  [word_bytes (if c = BR_ACQUIRE then BC_ACQUIRE_DONE else BC_INCREFS_DONE :: u32),
                   word_bytes refs, word_bytes obj] (bi_output (bs_inv s3)) of
                (True, p) \<Rightarrow> set_output p s3
              | (False, p) \<Rightarrow> set_output (rewind_or_flush (be_parcel E) pos p) s3))"

definition OnReleaseObject :: "binder_env \<Rightarrow> u32 \<Rightarrow> binder_state \<Rightarrow> binder_state" where
  "OnReleaseObject E c s =
     (case ReadPointer_in E s of (refs, s1) \<Rightarrow> case ReadPointer_in E s1 of (obj, s2) \<Rightarrow>
        if refs = nullptr \<or> obj = nullptr then s2
        else if c = BR_RELEASE then on_binv (\<lambda>i. i\<lparr>bi_decStrongRefs := bi_decStrongRefs i @ [obj]\<rparr>) s2
        else on_binv (\<lambda>i. i\<lparr>bi_decWeakRefs := bi_decWeakRefs i @ [refs]\<rparr>) s2)"

fun dec_strong_loop :: "binder_env \<Rightarrow> process_skeleton \<Rightarrow> ptr list \<Rightarrow> binder_state \<Rightarrow> binder_state" where
  "dec_strong_loop E ps [] s = s"
| "dec_strong_loop E ps (obj # objs) s =
     dec_strong_loop E ps objs
       (if IsValidObject obj ps = None then s else add_strong (- 1) (be_refs_of E obj) s)"

definition ProcDeferredDecRefs :: "binder_env \<Rightarrow> binder_state \<Rightarrow> binder_state" where
  "ProcDeferredDecRefs E s =
     (if bi_input (bs_inv s) \<noteq> [] then s
      else
        (let s1 = on_binv (\<lambda>i. i\<lparr>bi_decWeakRefs := []\<rparr>)
                    (foldl (\<lambda>t r. add_weak (- 1) r t) s (bi_decWeakRefs (bs_inv s)))
         in case bs_ps s1 of
              None \<Rightarrow> s1
            | Some ps \<Rightarrow> on_binv (\<lambda>i. i\<lparr>bi_decStrongRefs := []\<rparr>)
                           (dec_strong_loop E ps (bi_decStrongRefs (bs_inv s1)) s1)))"

definition OnAttemptAcquire :: "binder_env \<Rightarrow> binder_state \<Rightarrow> binder_state" where
  "OnAttemptAcquire E s =
     (case ReadPointer_in E s of (refs, s1) \<Rightarrow> case ReadPointer_in E s1 of (obj, s2) \<Rightarrow>
        (case (if refs \<noteq> nullptr \<and> obj = nullptr then AttemptIncStrongRef E refs s2 else (False, s2)) of
           (success, s3) \<Rightarrow>
             snd (out_command E BC_ACQUIRE_RESULT [word_bytes (if success then 1 else 0 :: u32)] s3)))"

text \<open>The common body of \<open>OnBinderDied\<close> and \<open>OnBinderRefreshed\<close>.\<close>

definition on_report ::
    "binder_env \<Rightarrow> (ptr \<Rightarrow> binder_state \<Rightarrow> binder_state) \<Rightarrow> u32 \<Rightarrow> binder_state \<Rightarrow> binder_state" where
  "on_report E notify done s =
     (case ReadPointer_in E s of (proxy, s1) \<Rightarrow>
        if proxy = nullptr then s1
        else
          (let r = be_refs_of E proxy;
               s2 = (if known_invalid proxy s1 then s1
                     else if bs_strong s1 r \<le> 0 then s1
                     else (case AttemptIncStrongRef E r s1 of
                         (True, t) \<Rightarrow> add_strong (- 1) r (notify proxy t)
                       | (False, t) \<Rightarrow> t))
           in snd (out_command E done [word_bytes proxy] s2)))"

definition OnBinderDied :: "binder_env \<Rightarrow> binder_state \<Rightarrow> binder_state" where
  "OnBinderDied E = on_report E (be_SendObituary E) BC_DEAD_BINDER_DONE"

definition OnBinderRefreshed :: "binder_env \<Rightarrow> binder_state \<Rightarrow> binder_state" where
  "OnBinderRefreshed E = on_report E (be_SendRefreshObituary E) BC_REFRESH_BINDER_DONE"

definition OnRemoveRecipientDone :: "binder_env \<Rightarrow> binder_state \<Rightarrow> binder_state" where
  "OnRemoveRecipientDone E s =
     (case ReadPointer_in E s of (proxy, s1) \<Rightarrow>
        if proxy \<noteq> nullptr \<and> \<not> known_invalid proxy s1 then add_strong (- 1) (be_refs_of E proxy) s1 else s1)"

definition OnSpawnThread :: "binder_env \<Rightarrow> binder_state \<Rightarrow> binder_state" where
  "OnSpawnThread E s =
     (case bs_ips s of
        None \<Rightarrow> s
      | Some k \<Rightarrow>
          (let st = snd (ips_SpawnThread (be_threads E) SPAWN_PASSIVE IF_PROT_DEFAULT \<lparr>ips = k, pskel = bs_ps s\<rparr>)
           in s\<lparr>bs_ips := Some (ips st), bs_ps := pskel st\<rparr>))"

section \<open>Writing a transaction\<close>

definition WriteTransaction_binder ::
    "binder_env \<Rightarrow> u32 \<Rightarrow> u32 \<Rightarrow> u32 \<Rightarrow> u32 \<Rightarrow> out_parcel \<Rightarrow> int option \<Rightarrow> nat \<Rightarrow> binder_state \<Rightarrow> bool \<times> binder_state" where
  "WriteTransaction_binder E c fl handle cd data status sgSize s =
     (let t0 = \<lparr>bt_target = ucast handle, bt_cookie = 0, bt_code = cd, bt_flags = or fl 0x10, bt_sender_pid = 0,
                bt_sender_euid = 0, bt_data_size = 0, bt_offsets_size = 0, bt_buffer = 0, bt_offsets = 0\<rparr>;
          t = (if op_size data > 0 then
                 t0\<lparr>bt_data_size := of_nat (op_size data), bt_buffer := op_data data,
                    bt_offsets_size := of_nat (length (op_objs data)) * 8, bt_offsets := op_offsets data\<rparr>
               else (case status of
                   None \<Rightarrow> t0
                 | Some v \<Rightarrow> t0\<lparr>bt_flags := or (bt_flags t0) 0x08, bt_data_size := 4, bt_buffer := be_status_addr E v\<rparr>));
          sg = (if sgSize > 0 then word_bytes (of_nat (if op_size data > 0 then sgSize else 0) :: u64) else [])
      in case pl_write (be_parcel E) (bi_output (bs_inv s)) (word_bytes c) of
           None \<Rightarrow> (False, s)
         | Some p \<Rightarrow>
             (case pl_write (be_parcel E) p (btr_bytes t @ sg) of
                None \<Rightarrow> (False, on_binv (\<lambda>i. i\<lparr>bi_sendNestCount := bi_sendNestCount i + 1\<rparr>) (set_output p s))
              | Some p' \<Rightarrow> (True, on_binv (\<lambda>i. i\<lparr>bi_sendNestCount := bi_sendNestCount i + 1\<rparr>) (set_output p' s))))"

fun TranslateDBinderProxy :: "binder_env \<Rightarrow> u32 \<Rightarrow> out_object list \<Rightarrow> binder_state \<Rightarrow> bool \<times> binder_state" where
  "TranslateDBinderProxy E handle [] s = (True, s)"
| "TranslateDBinderProxy E handle (ob # obs) s =
     (if oo_type ob = 0x73682A85 \<and> oo_cookie ob = 1 \<and> oo_handle ob < DBINDER_HANDLE_BASE then
        (case be_comm_auth E handle ob s of
           (False, s1) \<Rightarrow> (False, s1)
         | (True, s1) \<Rightarrow> TranslateDBinderProxy E handle obs s1)
      else TranslateDBinderProxy E handle obs s)"

abbreviation (input) NEGOTIATION_SIZE :: nat where "NEGOTIATION_SIZE \<equiv> 416"

definition GetCallerPid_binder :: "binder_env \<Rightarrow> binder_state \<Rightarrow> int" where
  "GetCallerPid_binder E s =
     (let i = bs_inv s in
      if bi_status i = 0 \<and> getpid (be_local E) \<noteq> ipi_pid (bi_invokerInfo i) then ipi_pid (bi_invokerInfo i)
      else bi_callerPid i)"

definition GetCallerUid_binder :: "binder_env \<Rightarrow> binder_state \<Rightarrow> int" where
  "GetCallerUid_binder E s =
     (let i = bs_inv s in
      if bi_status i = 0 \<and> getpid (be_local E) \<noteq> ipi_pid (bi_invokerInfo i) then ipi_uid (bi_invokerInfo i)
      else bi_callerUid i)"

text \<open>The user number \<open>uid_t\<close> is unsigned. \<open>None\<close> is failure.\<close>

definition GetDBinderCallingPidUid ::
    "binder_env \<Rightarrow> u32 \<Rightarrow> bool \<Rightarrow> int \<times> int \<Rightarrow> binder_state \<Rightarrow> (int \<times> int) option \<times> binder_state" where
  "GetDBinderCallingPidUid E handle isReply pu s =
     (if fst pu \<noteq> - 1 then (Some pu, s)
      else if isReply then (Some (GetCallerPid_binder E s, GetCallerUid_binder E s), s)
      else (case be_peer E handle s of
          (None, s1) \<Rightarrow> (None, s1)
        | (Some (p, u), s1) \<Rightarrow> if uint p > 2147483647 then (None, s1) else (Some (uint p, uint u), s1)))"

text \<open>The loop of \<open>TranslateDBinderStub\<close>: the object behind a pointer object is taken with it.\<close>

fun stub_loop ::
    "binder_env \<Rightarrow> u32 \<Rightarrow> bool \<Rightarrow> nat \<Rightarrow> out_object list \<Rightarrow> int \<times> int \<Rightarrow> nat \<Rightarrow> binder_state \<Rightarrow> bool \<times> nat \<times> binder_state" where
  "stub_loop E handle isReply totalSize [] pu acc s = (True, acc, s)"
| "stub_loop E handle isReply totalSize (ob # obs) pu acc s =
     (if oo_type ob = 0x70742A85 \<and> oo_length ob = NEGOTIATION_SIZE then
        (case obs of
           [] \<Rightarrow> (True, acc + NEGOTIATION_SIZE, s)
         | ob2 # obs2 \<Rightarrow>
             if oo_offset ob2 + 24 > totalSize then (True, acc + NEGOTIATION_SIZE, s)
             else if oo_type ob2 \<noteq> 0x73622A85 then (False, acc + NEGOTIATION_SIZE, s)
             else (case GetDBinderCallingPidUid E handle isReply pu s of
                 (None, s1) \<Rightarrow> (False, acc + NEGOTIATION_SIZE, s1)
               | (Some (p, u), s1) \<Rightarrow>
                   (case be_GetAndSaveDBinderData E (oo_cookie ob2) p u s1 of
                      (err, s2) \<Rightarrow>
                        if err \<noteq> 0 then (False, acc + NEGOTIATION_SIZE, s2)
                        else stub_loop E handle isReply totalSize obs2 (p, u) (acc + NEGOTIATION_SIZE) s2)))
      else stub_loop E handle isReply totalSize obs pu acc s)"

definition TranslateDBinderStub ::
    "binder_env \<Rightarrow> u32 \<Rightarrow> out_parcel \<Rightarrow> bool \<Rightarrow> binder_state \<Rightarrow> bool \<times> nat \<times> binder_state" where
  "TranslateDBinderStub E handle data isReply s = stub_loop E handle isReply (op_size data) (op_objs data) (- 1, - 1) 0 s"

text \<open>Padding of a parcel with negotiation data to eight bytes; \<open>None\<close> if the write fails.\<close>

definition pad_parcel :: "binder_env \<Rightarrow> nat \<Rightarrow> out_parcel \<Rightarrow> out_parcel option" where
  "pad_parcel E sgSize data = (if sgSize > 0 \<and> op_size data mod 8 \<noteq> 0 then be_pad E data else Some data)"

section \<open>Transactions for stubs\<close>

definition GetSelfTokenID_binder :: "binder_env \<Rightarrow> binder_state \<Rightarrow> u64" where
  "GetSelfTokenID_binder E s =
     (if \<not> bs_alive s then 0
      else if be_self_token E = 0 then word_of_int (getuid (be_local E)) else be_self_token E)"

definition caller_proc_info :: "binder_invoker \<Rightarrow> u32 \<Rightarrow> InvokerProcInfo" where
  "caller_proc_info i a = \<lparr>ipi_pid = bi_callerPid i, ipi_realPid = bi_callerRealPid i, ipi_uid = bi_callerUid i,
     ipi_tokenId = bi_callerTokenID i, ipi_firstTokenId = bi_firstTokenID i, ipi_sid = bi_callerSid i,
     ipi_invoker = a\<rparr>"

definition RestoreInvokerProcInfo :: "InvokerProcInfo \<Rightarrow> binder_invoker \<Rightarrow> binder_invoker" where
  "RestoreInvokerProcInfo info i = i\<lparr>bi_callerPid := ipi_pid info, bi_callerRealPid := ipi_realPid info,
     bi_callerUid := ipi_uid info, bi_callerTokenID := ipi_tokenId info,
     bi_firstTokenID := ipi_firstTokenId info, bi_callerSid := ipi_sid info\<rparr>"

definition AttachInvokerProcInfoWrapper :: "binder_env \<Rightarrow> binder_state \<Rightarrow> binder_state" where
  "AttachInvokerProcInfoWrapper E s =
     s\<lparr>bs_ps := map_option (\<lambda>ps. snd (AttachInvokerProcInfo (be_thread E, True)
        (caller_proc_info (bs_inv s) (be_invoker E)) ps)) (bs_ps s)\<rparr>"

definition GetAccessToken :: "binder_env \<Rightarrow> binder_tr_data \<Rightarrow> binder_invoker \<Rightarrow> binder_invoker" where
  "GetAccessToken E t i =
     (case be_access_token E t of
        None \<Rightarrow> i\<lparr>bi_callerTokenID := 0, bi_firstTokenID := 0\<rparr>
      | Some (a, b) \<Rightarrow> i\<lparr>bi_callerTokenID := a, bi_firstTokenID := b\<rparr>)"

definition GetSenderInfo :: "binder_env \<Rightarrow> binder_tr_data \<Rightarrow> binder_invoker \<Rightarrow> binder_invoker" where
  "GetSenderInfo E t i =
     (case be_sender_info E t of
        None \<Rightarrow> i\<lparr>bi_callerTokenID := 0, bi_firstTokenID := 0, bi_callerRealPid := 0\<rparr>
      | Some (a, b, p) \<Rightarrow> i\<lparr>bi_callerTokenID := a, bi_firstTokenID := b, bi_callerRealPid := p\<rparr>)"

definition SamgrServiceSendRequest ::
    "binder_env \<Rightarrow> binder_tr_data \<Rightarrow> u32 \<Rightarrow> binder_state \<Rightarrow> int \<times> out_parcel \<times> binder_state" where
  "SamgrServiceSendRequest E t fl s =
     (case bs_ips s of
        None \<Rightarrow> (ERR_NULL_OBJECT, empty_out, s)
      | Some _ \<Rightarrow>
          (let target = (case bs_ps s of None \<Rightarrow> nullptr | Some ps \<Rightarrow> GetRegistryObject ps) in
           if target = nullptr then (be_ERR_DEAD_OBJECT E, empty_out, s)
           else be_stub E target (bt_code t) t fl s))"

definition GeneralServiceSendRequest ::
    "binder_env \<Rightarrow> binder_tr_data \<Rightarrow> u32 \<Rightarrow> binder_state \<Rightarrow> int \<times> out_parcel \<times> binder_state" where
  "GeneralServiceSendRequest E t fl s =
     (if bt_target t = nullptr \<or> bt_cookie t = nullptr then (be_ERR_DEAD_OBJECT E, empty_out, s)
      else (case AttemptIncStrongRef E (bt_target t) s of
          (False, s1) \<Rightarrow> (be_ERR_DEAD_OBJECT E, empty_out, s1)
        | (True, s1) \<Rightarrow>
            if known_invalid (bt_cookie t) s1 then (be_ERR_DEAD_OBJECT E, empty_out, s1)
            else if bs_strong s1 (be_refs_of E (bt_cookie t)) > 0 then
              (case be_stub E (bt_cookie t) (bt_code t) t fl s1 of
                 (err, reply, s2) \<Rightarrow> (err, reply, add_strong (- 1) (be_refs_of E (bt_cookie t)) s2))
            else (be_ERR_DEAD_OBJECT E, empty_out, s1)))"

text \<open>The flags handed to the stub are those of the transaction without \<open>TF_ACCEPT_FDS\<close>.\<close>

definition flag_value :: "binder_tr_data \<Rightarrow> u32" where
  "flag_value t = and (bt_flags t) (not 0x10)"

definition TargetStubSendRequest_binder ::
    "binder_env \<Rightarrow> binder_tr_data \<Rightarrow> binder_state \<Rightarrow> int \<times> out_parcel \<times> binder_state" where
  "TargetStubSendRequest_binder E t s =
     (if bt_target t \<noteq> 0 then GeneralServiceSendRequest E t (flag_value t) s
      else SamgrServiceSendRequest E t (flag_value t) s)"

text \<open>\<open>wait\<close> is \<open>WaitForCompletion\<close> without a reply parcel: its result and the state.\<close>

definition SendReply_binder ::
    "binder_env \<Rightarrow> (binder_state \<Rightarrow> (int \<times> binder_state) option) \<Rightarrow> out_parcel \<Rightarrow> u32 \<Rightarrow> int \<Rightarrow> binder_state \<Rightarrow>
     (int \<times> binder_state) option" where
  "SendReply_binder E wait reply fl result s =
     (case TranslateDBinderStub E (- 1) reply True s of
        (False, sg, s1) \<Rightarrow> Some (IPC_TRANSLATE_DBINDER_STUB_ERR, s1)
      | (True, sg, s1) \<Rightarrow>
          (case pad_parcel E sg reply of
             None \<Rightarrow> Some (IPC_INVOKER_WRITE_TRANS_ERR, s1)
           | Some reply' \<Rightarrow>
               (case WriteTransaction_binder E (if sg > 0 then BC_REPLY_SG else BC_REPLY_b) fl (- 1) 0 reply' (Some result) sg s1 of
                  (ok, s2) \<Rightarrow>
                    (let error = (if ok then 1 else 0 :: int) in
                     if error < 0 then Some (error, s2) else wait s2))))"

definition take_caller :: "binder_env \<Rightarrow> binder_tr_data \<Rightarrow> ptr \<Rightarrow> binder_invoker \<Rightarrow> binder_invoker" where
  "take_caller E t secctx i =
     (let i1 = i\<lparr>bi_callerSid := if secctx \<noteq> 0 then be_text_at E secctx else [],
                 bi_callerPid := sint (bt_sender_pid t), bi_callerUid := sint (bt_sender_euid t),
                 bi_callerRealPid := sint (bt_sender_pid t)\<rparr>
      in if be_IsRealPidSupported E then GetSenderInfo E t i1
         else if be_IsAccessTokenSupported E then GetAccessToken E t i1 else i1)"

text \<open>
  The end of the parcel with the data of a transaction. Whether its destructor hands the buffer to
  the allocator, whose \<open>Dealloc\<close> frees it, is up to the class \<open>Parcel\<close>.
\<close>

definition Dealloc_request :: "binder_env \<Rightarrow> binder_tr_data \<Rightarrow> binder_state \<Rightarrow> binder_state option" where
  "Dealloc_request E t s = (if be_owns_buffer E t then FreeBuffer_binder E (bt_buffer t) s else Some s)"

definition Transaction ::
    "binder_env \<Rightarrow> (binder_state \<Rightarrow> (int \<times> binder_state) option) \<Rightarrow> binder_tr_data \<Rightarrow> ptr \<Rightarrow> binder_state \<Rightarrow>
     binder_state option" where
  "Transaction E wait t secctx s =
     (if \<not> be_allocator E then Some s
      else if bt_offsets_size t > 0 \<and> bt_offsets t = 0 then Dealloc_request E t s
      else
        (let old = caller_proc_info (bs_inv s) 0; oldStatus = bi_status (bs_inv s);
             s1 = AttachInvokerProcInfoWrapper E (on_binv (take_caller E t secctx) s);
             s2 = on_binv (\<lambda>i. i\<lparr>bi_status := 1\<rparr>) s1
         in case TargetStubSendRequest_binder E t s2 of
              (err, reply, s3) \<Rightarrow> do {
                s4 \<leftarrow> (if \<not> bit (flag_value t) 0 then map_option snd (SendReply_binder E wait reply 0 err s3) else Some s3);
                Dealloc_request E t (on_binv (\<lambda>i. i\<lparr>bi_status := oldStatus\<rparr>)
                  (AttachInvokerProcInfoWrapper E (on_binv (RestoreInvokerProcInfo old) s4)))
              }))"

definition OnTransaction_binder ::
    "binder_env \<Rightarrow> (binder_state \<Rightarrow> (int \<times> binder_state) option) \<Rightarrow> u32 \<Rightarrow> binder_state \<Rightarrow> (int \<times> binder_state) option" where
  "OnTransaction_binder E wait c s =
     (let isSecctx = (c = BR_TRANSACTION_SEC_CTX) in
      case ReadBuffer_in E (if isSecctx then 72 else 64) s of
        (None, s1) \<Rightarrow> Some (IPC_INVOKER_INVALID_DATA_ERR, s1)
      | (Some b, s1) \<Rightarrow>
          map_option (Pair 0) (Transaction E wait (btr_of b) (if isSecctx then bytes_word (take 8 (drop 64 b)) else 0) s1))"

section \<open>The commands\<close>

definition HandleCommandsInner ::
    "binder_env \<Rightarrow> (binder_state \<Rightarrow> (int \<times> binder_state) option) \<Rightarrow> u32 \<Rightarrow> binder_state \<Rightarrow> (int \<times> binder_state) option" where
  "HandleCommandsInner E wait c s =
     (if c = BR_ERROR then (case ReadUint32_in E s of (v, s1) \<Rightarrow> Some (sint v, s1))
      else if c = BR_ACQUIRE \<or> c = BR_INCREFS then Some (0, OnAcquireObject E c s)
      else if c = BR_RELEASE \<or> c = BR_DECREFS then Some (0, OnReleaseObject E c s)
      else if c = BR_ATTEMPT_ACQUIRE then Some (0, OnAttemptAcquire E s)
      else if c = BR_TRANSACTION_SEC_CTX \<or> c = BR_TRANSACTION then OnTransaction_binder E wait c s
      else if c = BR_SPAWN_LOOPER then Some (0, OnSpawnThread E s)
      else if c = BR_FINISHED then Some (- be_ERR_TIMED_OUT E, s)
      else if c = BR_DEAD_BINDER then Some (0, OnBinderDied E s)
      else if c = BR_REFRESH_BINDER then Some (0, OnBinderRefreshed E s)
      else if c = BR_OK \<or> c = BR_NOOP then Some (0, s)
      else if c = BR_CLEAR_DEATH_NOTIFICATION_DONE then Some (0, OnRemoveRecipientDone E s)
      else if c = BR_CLEAR_REFRESH_NOTIFICATION_DONE then Some (0, OnRemoveRecipientDone E s)
      else Some (IPC_INVOKER_ON_TRANSACT_ERR, s))"

text \<open>The results: the error, whether it is the status of a stub, and the reply.\<close>

definition HandleReply_binder ::
    "binder_env \<Rightarrow> bool \<Rightarrow> binder_state \<Rightarrow> (int \<times> bool \<times> binder_tr_data option \<times> binder_state) option" where
  "HandleReply_binder E wantsReply s =
     (case ReadBuffer_in E 64 s of
        (None, s1) \<Rightarrow> Some (IPC_INVOKER_INVALID_DATA_ERR, False, None, s1)
      | (Some b, s1) \<Rightarrow>
          (let t = btr_of b in
           if \<not> wantsReply then do {
             s2 \<leftarrow> FreeBuffer_binder E (bt_buffer t) s1;
             Some (IPC_INVOKER_INVALID_REPLY_ERR, False, None, s2) }
           else if bit (bt_flags t) 3 then do {
             s2 \<leftarrow> FreeBuffer_binder E (bt_buffer t) s1;
             Some (be_status_at E (bt_buffer t), True, None, s2) }
           else if \<not> be_allocator E \<or> \<not> be_SetAllocator E then do {
             s2 \<leftarrow> FreeBuffer_binder E (bt_buffer t) s1;
             Some (IPC_INVOKER_INVALID_DATA_ERR, False, None, s2) }
           else Some (0, False, Some t, s1)))"

text \<open>The results: whether the loop goes on, the error, the reply.\<close>

definition DealWithCmd ::
    "binder_env \<Rightarrow> (binder_state \<Rightarrow> (int \<times> binder_state) option) \<Rightarrow> bool \<Rightarrow> int \<Rightarrow> u32 \<Rightarrow> binder_state \<Rightarrow>
     (bool \<times> int \<times> binder_tr_data option \<times> binder_state) option" where
  "DealWithCmd E wait wantsReply error c s =
     (if c = BR_TRANSACTION_COMPLETE then Some (wantsReply, error, None, s)
      else if c = BR_DEAD_REPLY \<or> c = BR_FAILED_REPLY then Some (False, sint c, None, s)
      else if c = BR_REPLY then do {
        (err, isStubRet, reply, s1) \<leftarrow> HandleReply_binder E wantsReply s;
        Some (if isStubRet \<or> err \<noteq> IPC_INVOKER_INVALID_REPLY_ERR then (False, err, reply, s1) else (True, 0, None, s1))
      }
      else do {
        (err, s1) \<leftarrow> HandleCommandsInner E wait c s;
        Some (err = 0, err, None, s1)
      })"

primrec wait_loop ::
    "nat \<Rightarrow> binder_env \<Rightarrow> bool \<Rightarrow> binder_state \<Rightarrow> (int \<times> binder_tr_data option \<times> binder_state) option" where
  "wait_loop 0 E wantsReply s = None"
| "wait_loop (Suc n) E wantsReply s = do {
     (error, s1) \<leftarrow> TransactWithDriver E True s;
     if error < 0 then Some (error, None, s1)
     else if bi_input (bs_inv s1) = [] then wait_loop n E wantsReply s1
     else (case ReadUint32_in E s1 of (c, s2) \<Rightarrow> do {
         (continueLoop, err, reply, s3) \<leftarrow>
           DealWithCmd E (\<lambda>t. if \<not> bs_alive t then Some (IPC_INVOKER_CONNECT_ERR, t)
             else map_option (\<lambda>(e, _, t'). (e, t')) (wait_loop n E False t)) wantsReply error c s2;
         if continueLoop then wait_loop n E wantsReply s3 else Some (err, reply, s3)
       })
   }"

definition WaitForCompletion ::
    "nat \<Rightarrow> binder_env \<Rightarrow> bool \<Rightarrow> binder_state \<Rightarrow> (int \<times> binder_tr_data option \<times> binder_state) option" where
  "WaitForCompletion n E wantsReply s =
     (if \<not> bs_alive s then Some (IPC_INVOKER_CONNECT_ERR, None, s) else wait_loop n E wantsReply s)"

definition SendRequest_binder ::
    "nat \<Rightarrow> binder_env \<Rightarrow> u32 \<Rightarrow> u32 \<Rightarrow> out_parcel \<Rightarrow> u32 \<Rightarrow> binder_state \<Rightarrow>
     (int \<times> binder_tr_data option \<times> binder_state) option" where
  "SendRequest_binder n E handle cd data fl s =
     (case TranslateDBinderProxy E handle (op_objs data) s of
        (False, s1) \<Rightarrow> Some (IPC_INVOKER_WRITE_TRANS_ERR, None, s1)
      | (True, s1) \<Rightarrow>
          (case TranslateDBinderStub E handle data False s1 of
             (False, sg, s2) \<Rightarrow> Some (IPC_TRANSLATE_DBINDER_STUB_ERR, None, s2)
           | (True, sg, s2) \<Rightarrow>
               (case pad_parcel E sg data of
                  None \<Rightarrow> Some (IPC_INVOKER_WRITE_TRANS_ERR, None, s2)
                | Some data' \<Rightarrow>
                    (case WriteTransaction_binder E (if sg > 0 then BC_TRANSACTION_SG else BC_TRANSACTION_b) fl handle cd data' None sg s2 of
                       (False, s3) \<Rightarrow> Some (IPC_INVOKER_WRITE_TRANS_ERR, None, s3)
                     | (True, s3) \<Rightarrow> do {
                         (err, reply, s4) \<leftarrow> WaitForCompletion n E (\<not> bit fl 0)
                           (on_binv (\<lambda>i. i\<lparr>bi_sendRequestCount := bi_sendRequestCount i + 1\<rparr>) s3);
                         Some (err, reply, on_binv (\<lambda>i. i\<lparr>bi_sendRequestCount := bi_sendRequestCount i - 1\<rparr>) s4)
                       }))))"

end
