(* ===== verification/Binder_Thread.thy ===== *)
theory Binder_Thread
  imports Binder_Commands Object_Translation
begin

text \<open>
  The rest of \<open>binder_invoker.cpp\<close>: the life of a work thread, the caller that a service sees, its
  text form, and remote objects and descriptors in a parcel.
\<close>

section \<open>The life of a thread\<close>

definition BinderInvoker :: "binder_env \<Rightarrow> binder_invoker" where
  "BinderInvoker E =
     (let pid = getpid (be_local E); uid = getuid (be_local E) in
      \<lparr>isMainWorkThread = False, bi_stopWorkThread = False, bi_callerPid = pid,
       bi_callerRealPid = be_getprocpid E, bi_callerUid = uid, bi_callerTokenID = 0, bi_firstTokenID = 0,
       bi_callerSid = [], bi_input = [], bi_output = [], bi_status = 0,
       bi_invokerInfo = \<lparr>ipi_pid = pid, ipi_realPid = be_getprocpid E, ipi_uid = uid, ipi_tokenId = 0,
         ipi_firstTokenId = 0, ipi_sid = [], ipi_invoker = be_invoker E\<rparr>,
       bi_sendNestCount = 0, bi_sendRequestCount = 0, bi_decStrongRefs = [], bi_decWeakRefs = [],
       bi_isFirstInvoke = 0\<rparr>)"

definition BinderInvoker_destroy :: "binder_env \<Rightarrow> binder_state \<Rightarrow> binder_state option" where
  "BinderInvoker_destroy E s =
     (let s1 = s\<lparr>bs_ps := map_option (\<lambda>ps. snd (DetachInvokerProcInfo (be_thread E, True) ps)) (bs_ps s)\<rparr>
      in map_option snd (FlushCommands_binder E (ProcDeferredDecRefs E s1)))"

definition IsProcessExiting :: "binder_state \<Rightarrow> bool" where
  "IsProcessExiting s \<longleftrightarrow> (case bs_ps s of None \<Rightarrow> True | Some ps \<Rightarrow> GetThreadStopFlag ps)"

text \<open>
  One round of \<open>StartWorkLoop\<close>: the flag tells whether the loop goes on. \<open>n\<close> bounds the rounds of the
  waits inside.
\<close>

definition work_round :: "nat \<Rightarrow> binder_env \<Rightarrow> binder_state \<Rightarrow> (bool \<times> binder_state) option" where
  "work_round n E s =
     (if IsProcessExiting s then Some (False, s)
      else do {
        (error, s1) \<leftarrow> TransactWithDriver E True s;
        let again = (\<lambda>t. error \<noteq> - ECONNREFUSED \<and> error \<noteq> - EBADF \<and> \<not> bi_stopWorkThread (bs_inv t));
        if error < 0 \<and> error \<noteq> - ECONNREFUSED \<and> error \<noteq> - EBADF then Some (False, s1)
        else if bi_input (bs_inv s1) = [] then Some (again s1, s1)
        else (case ReadUint32_in E s1 of (c, s2) \<Rightarrow> do {
            (userError, s3) \<leftarrow> HandleCommandsInner E
              (\<lambda>t. map_option (\<lambda>(e, _, t'). (e, t')) (WaitForCompletion n E False t)) c
              (s2\<lparr>bs_ips := map_option (LockForNumExecuting (be_time E)) (bs_ips s2)\<rparr>);
            let s4 = s3\<lparr>bs_ips := map_option (\<lambda>k. snd (UnlockForNumExecuting k)) (bs_ips s3)\<rparr>;
            let s5 = (if c = BR_TRANSACTION \<or> c = BR_TRANSACTION_SEC_CTX
                      then on_binv (\<lambda>i. i\<lparr>bi_isFirstInvoke := 2\<rparr>) s4 else s4);
            if userError = - be_ERR_TIMED_OUT E \<and> \<not> isMainWorkThread (bs_inv s5) then Some (False, s5)
            else if userError = IPC_INVOKER_INVALID_DATA_ERR \<and> \<not> isMainWorkThread (bs_inv s5) then Some (False, s5)
            else (let s6 = ProcDeferredDecRefs E s5 in Some (again s6, s6))
          })
      })"

primrec work_loop :: "nat \<Rightarrow> binder_env \<Rightarrow> binder_state \<Rightarrow> binder_state option" where
  "work_loop 0 E s = None"
| "work_loop (Suc n) E s = do {
     (more, s1) \<leftarrow> work_round n E s;
     if more then work_loop n E s1 else Some s1
   }"

definition StartWorkLoop :: "nat \<Rightarrow> binder_env \<Rightarrow> binder_state \<Rightarrow> binder_state option" where
  "StartWorkLoop n E s =
     (if \<not> bs_alive s then Some s else work_loop n E (on_binv (\<lambda>i. i\<lparr>bi_isFirstInvoke := 1\<rparr>) s))"

text \<open>A single word that is written without looking at the result.\<close>

definition put_word :: "binder_env \<Rightarrow> u32 \<Rightarrow> binder_state \<Rightarrow> binder_state" where
  "put_word E c s = snd (out_command E c [] s)"

definition JoinThread_binder :: "nat \<Rightarrow> binder_env \<Rightarrow> bool \<Rightarrow> binder_state \<Rightarrow> binder_state option" where
  "JoinThread_binder n E initiative s = do {
     s1 \<leftarrow> StartWorkLoop n E (put_word E (if initiative then BC_ENTER_LOOPER else BC_REGISTER_LOOPER)
             (on_binv (\<lambda>i. i\<lparr>isMainWorkThread := initiative\<rparr>) s));
     map_option snd (FlushCommands_binder E (put_word E BC_EXIT_LOOPER s1))
   }"

definition StopWorkThread_binder :: "binder_invoker \<Rightarrow> binder_invoker" where
  "StopWorkThread_binder i = i\<lparr>bi_stopWorkThread := True\<rparr>"

text \<open>\<open>PING_TRANSACTION\<close>; the option is \<open>TF_IMAGE\<close>.\<close>

definition PingService :: "nat \<Rightarrow> binder_env \<Rightarrow> u32 \<Rightarrow> binder_state \<Rightarrow> (bool \<times> binder_state) option" where
  "PingService n E handle s =
     map_option (\<lambda>(err, _, s'). (err = 0, s')) (SendRequest_binder n E handle 0x5F504E47 empty_out 0x200000 s)"

section \<open>The caller\<close>

text \<open>A thread that serves no call itself looks at the caller of another invoker of the thread.\<close>

definition uses_other_info :: "binder_env \<Rightarrow> binder_invoker \<Rightarrow> bool" where
  "uses_other_info E i \<longleftrightarrow> bi_status i = 0 \<and> getpid (be_local E) \<noteq> ipi_pid (bi_invokerInfo i)"

definition GetCallerSid :: "binder_env \<Rightarrow> binder_invoker \<Rightarrow> string" where
  "GetCallerSid E i = (if uses_other_info E i then ipi_sid (bi_invokerInfo i) else bi_callerSid i)"

definition GetCallerRealPid :: "binder_env \<Rightarrow> binder_invoker \<Rightarrow> int" where
  "GetCallerRealPid E i = (if uses_other_info E i then ipi_realPid (bi_invokerInfo i) else bi_callerRealPid i)"

definition GetCallerTokenID_binder :: "binder_env \<Rightarrow> binder_invoker \<Rightarrow> u64" where
  "GetCallerTokenID_binder E i =
     (if uses_other_info E i
      then (if ipi_tokenId (bi_invokerInfo i) = 0 then word_of_int (ipi_uid (bi_invokerInfo i))
            else ipi_tokenId (bi_invokerInfo i))
      else if bi_callerTokenID i = 0 then word_of_int (bi_callerUid i) else bi_callerTokenID i)"

definition GetFirstCallerTokenID :: "binder_env \<Rightarrow> binder_invoker \<Rightarrow> u64" where
  "GetFirstCallerTokenID E i = (if uses_other_info E i then ipi_firstTokenId (bi_invokerInfo i) else bi_firstTokenID i)"

text \<open>\<open>QueryInvokerProcInfo\<close> writes its answer into the member.\<close>

definition GetStatus :: "binder_env \<Rightarrow> binder_state \<Rightarrow> u32 \<times> binder_state" where
  "GetStatus E s =
     (if bi_status (bs_inv s) \<noteq> 1 then
        (case bs_ps s of
           None \<Rightarrow> (bi_status (bs_inv s), s)
         | Some ps \<Rightarrow>
             (case QueryInvokerProcInfo (be_thread E, True) ps of
                None \<Rightarrow> (0, s)
              | Some info \<Rightarrow>
                  (if getpid (be_local E) \<noteq> ipi_pid info then 1 else 0, on_binv (\<lambda>i. i\<lparr>bi_invokerInfo := info\<rparr>) s)))
      else (bi_status (bs_inv s), s))"

section \<open>Identities as text\<close>

text \<open>\<open>"%020d"\<close>: a minus sign counts as one of the 20 characters.\<close>

definition pad20_int :: "int \<Rightarrow> string" where
  "pad20_int n = (if n < 0 then CHR ''-'' # replicate (19 - length (nat_str (nat (- n)))) (digit_char 0) @ nat_str (nat (- n))
     else pad20 (nat n))"

definition ResetCallingIdentity_binder :: "binder_env \<Rightarrow> binder_state \<Rightarrow> string \<times> binder_state" where
  "ResetCallingIdentity_binder E s =
     (let i = bs_inv s; info = (if uses_other_info E i then bi_invokerInfo i else caller_proc_info i 0);
          pidUid = or (push_bit 32 (word_of_int (ipi_uid info))) (word_of_int (ipi_pid info)) :: u64
      in (ipi_sid info @ CHR ''<'' # pad20 (unat (ipi_tokenId info)) @ pad20_int (ipi_realPid info) @ nat_str (unat pidUid),
          on_binv (\<lambda>i. i\<lparr>bi_callerUid := getuid (be_local E), bi_callerPid := getpid (be_local E),
            bi_callerRealPid := be_getprocpid E, bi_callerTokenID := GetSelfTokenID_binder E s, bi_callerSid := []\<rparr>) s))"

definition GetUint64ValueByStrSlice :: "string \<Rightarrow> nat \<Rightarrow> nat \<Rightarrow> u64 option" where
  "GetUint64ValueByStrSlice str offset len =
     (if length str < offset + len then None
      else (case sub_str str offset len of None \<Rightarrow> None | Some t \<Rightarrow> StrToUint64 t))"

definition GetCallerRealPidByStr :: "string \<Rightarrow> nat \<Rightarrow> nat \<Rightarrow> int option" where
  "GetCallerRealPidByStr str offset len =
     (if length str < offset + len then None
      else (case sub_str str offset len of
          None \<Rightarrow> None
        | Some t \<Rightarrow> (case StrToInt32 t of None \<Rightarrow> None | Some p \<Rightarrow> if p < 0 then None else Some p)))"

definition GetCallerPidAndUidByStr :: "string \<Rightarrow> nat \<Rightarrow> (int \<times> int) option" where
  "GetCallerPidAndUidByStr str offset =
     (if length str \<le> offset then None
      else (case GetUint64ValueByStrSlice str offset (length str - offset) of
          None \<Rightarrow> None
        | Some v \<Rightarrow>
            (let p = sint (ucast v :: u32); u = sint (ucast (drop_bit 32 v) :: u32)
             in if p < 0 \<or> u < 0 then None else Some (p, u))))"

definition SetCallingIdentity_binder :: "string \<Rightarrow> binder_invoker \<Rightarrow> bool \<times> binder_invoker" where
  "SetCallingIdentity_binder identity i =
     (if identity = [] \<or> length identity \<le> ACCESS_TOKEN_MAX_LEN then (False, i)
      else if CHR ''<'' \<notin> set identity then (False, i)
      else
        (let pos = length (takeWhile (\<lambda>c. c \<noteq> CHR ''<'') identity) in
         case sub_str identity 0 pos of
           None \<Rightarrow> (False, i)
         | Some sid \<Rightarrow> (case GetUint64ValueByStrSlice identity (pos + 1) ACCESS_TOKEN_MAX_LEN of
             None \<Rightarrow> (False, i)
           | Some tokenId \<Rightarrow> (case GetCallerRealPidByStr identity (pos + 1 + ACCESS_TOKEN_MAX_LEN) ACCESS_TOKEN_MAX_LEN of
               None \<Rightarrow> (False, i)
             | Some realPid \<Rightarrow> (case GetCallerPidAndUidByStr identity (pos + 1 + ACCESS_TOKEN_MAX_LEN * 2) of
                 None \<Rightarrow> (False, i)
               | Some (pid, uid) \<Rightarrow>
                   (True, i\<lparr>bi_callerSid := sid, bi_callerTokenID := tokenId, bi_callerRealPid := realPid,
                           bi_callerPid := pid, bi_callerUid := uid\<rparr>))))))"

section \<open>Objects in a parcel\<close>

definition flat_bytes :: "flat_binder_object \<Rightarrow> bytes" where
  "flat_bytes f = word_bytes (hdr_type f) @ word_bytes (fb_flags f) @ word_bytes (fb_binder f) @ word_bytes (fb_cookie f)"

definition flat_of :: "bytes \<Rightarrow> flat_binder_object" where
  "flat_of b = \<lparr>hdr_type = bytes_word (take 4 b), fb_flags = bytes_word (take 4 (drop 4 b)),
     fb_binder = bytes_word (take 8 (drop 8 b)), fb_cookie = bytes_word (take 8 (drop 16 b))\<rparr>"

text \<open>What the code asks of an object: a proxy with its handle and protocol, or a stub.\<close>

datatype remote_object = ProxyObject u32 int | StubObject ptr bool ptr

definition flatten_object :: "remote_object \<Rightarrow> flat_binder_object" where
  "flatten_object ob =
     (case ob of
        ProxyObject handle proto \<Rightarrow>
          \<lparr>hdr_type = BINDER_TYPE_HANDLE, fb_flags = 0x17F, fb_binder = ucast handle, fb_cookie = word_of_int proto\<rparr>
      | StubObject addr sid refs \<Rightarrow>
          \<lparr>hdr_type = BINDER_TYPE_BINDER, fb_flags = (if sid then 0x117F else 0x17F), fb_binder = refs, fb_cookie = addr\<rparr>)"

definition FlattenObject :: "parcel_lib \<Rightarrow> remote_object option \<Rightarrow> bytes \<Rightarrow> bool \<times> bytes" where
  "FlattenObject P ob p =
     (case ob of
        None \<Rightarrow> (False, p)
      | Some r \<Rightarrow> (case pl_write P p (flat_bytes (flatten_object r)) of None \<Rightarrow> (False, p) | Some p' \<Rightarrow> (True, p')))"

text \<open>
  The header, flags, length and address of a \<open>binder_buffer_object\<close>. The result is the address of the
  negotiation data, \<open>None\<close> where the function returns false, and what is then left to read.
\<close>

definition UnFlattenDBinderObject :: "parcel_lib \<Rightarrow> bytes \<Rightarrow> ptr option \<times> bytes" where
  "UnFlattenDBinderObject P p =
     (case pl_buffer P 4 p of
        (None, p1) \<Rightarrow> (None, p1)
      | (Some h, p1) \<Rightarrow>
          if bytes_word h \<noteq> BINDER_TYPE_PTR then (None, p)
          else (case pl_buffer P 40 p of
              (None, p2) \<Rightarrow> (None, p2)
            | (Some b, p2) \<Rightarrow>
                if \<not> bit (bytes_word (take 4 (drop 4 b)) :: u32) 31 \<or> bytes_word (take 8 (drop 16 b)) \<noteq> (416 :: u64)
                then (None, p)
                else if bytes_word (take 8 (drop 8 b)) = (0 :: ptr) then (None, p)
                else (Some (bytes_word (take 8 (drop 8 b))), p2)))"

text \<open>\<open>find\<close> is \<open>FindOrNewObject\<close> with the handle and the negotiation data; \<open>CheckOffsets\<close> is a parameter.\<close>

definition UnflattenObject ::
    "parcel_lib \<Rightarrow> (bytes \<Rightarrow> bool) \<Rightarrow> (u32 \<Rightarrow> ptr option \<Rightarrow> ptr) \<Rightarrow> process_state option \<Rightarrow> bytes \<Rightarrow> ptr \<times> bytes" where
  "UnflattenObject P check find_object cur p =
     (case UnFlattenDBinderObject P p of (dbinder, p1) \<Rightarrow>
        if \<not> check p1 then (nullptr, p1)
        else (case pl_buffer P 24 p1 of
            (None, p2) \<Rightarrow> (nullptr, p2)
          | (Some b, p2) \<Rightarrow>
              (case cur of
                 None \<Rightarrow> (nullptr, p2)
               | Some st \<Rightarrow>
                   (let f = flat_of b in
                    if hdr_type f = BINDER_TYPE_BINDER
                    then (if ips_IsContainsObject (fb_cookie f) st then (fb_cookie f, p2) else (nullptr, p2))
                    else if hdr_type f = BINDER_TYPE_HANDLE then (find_object (fb_handle f) dbinder, p2)
                    else (nullptr, p2)))))"

definition WriteFileDescriptor_binder :: "parcel_lib \<Rightarrow> int \<Rightarrow> bool \<Rightarrow> bytes \<Rightarrow> bool \<times> bytes" where
  "WriteFileDescriptor_binder P fd takeOwnership p =
     (case pl_write P p (flat_bytes \<lparr>hdr_type = BINDER_TYPE_FD, fb_flags = 0x17F,
             fb_binder = ucast (word_of_int fd :: u32), fb_cookie = (if takeOwnership then 1 else 0)\<rparr>) of
        None \<Rightarrow> (False, p) | Some p' \<Rightarrow> (True, p'))"

definition ReadFileDescriptor_binder :: "parcel_lib \<Rightarrow> bytes \<Rightarrow> int \<times> bytes" where
  "ReadFileDescriptor_binder P p =
     (case pl_buffer P 24 p of
        (None, p1) \<Rightarrow> (- 1, p1)
      | (Some b, p1) \<Rightarrow>
          (let f = flat_of b in
           (if hdr_type f = BINDER_TYPE_FD \<or> hdr_type f = BINDER_TYPE_FDR then sint (fb_handle f) else - 1, p1)))"

end
