(* ===== verification/Binder_Proofs.thy ===== *)
theory Binder_Proofs
  imports Binder_Thread Databus_Invoker_Proofs
begin

text \<open>
  Correctness of the binder invoker: the command stream to the driver stays a sequence of complete
  commands, the commands of the driver are read to their ends, references are counted as the driver
  asks, a call of a stub leaves the caller of the thread as it was, and a request returns the reply
  that the driver delivers.
\<close>

named_theorems stream_simps \<open>effects on the two streams\<close>

section \<open>Streams of commands\<close>

text \<open>How the driver reads what a thread wrote: a command word tells the size of its payload.\<close>

function commands_complete :: "bytes \<Rightarrow> bool" where
  "commands_complete bs \<longleftrightarrow>
     (if bs = [] then True
      else if length bs < 4 then False
      else (let n = 4 + ioc_size (bytes_word (take 4 bs)) in n \<le> length bs \<and> commands_complete (drop n bs)))"
  by pat_completeness auto
termination by (relation "measure length") auto

declare commands_complete.simps [simp del]

lemma commands_complete_Nil [simp]: "commands_complete []"
  by (simp add: commands_complete.simps)

lemma bytes_word_u32 [simp]: "bytes_word (word_bytes w) = (w :: u32)"
  by (simp add: bytes_word_bytes)

lemma bytes_word_u64 [simp]: "bytes_word (word_bytes w) = (w :: u64)"
  by (simp add: bytes_word_bytes)

lemma word_bytes_nonempty [simp]: "word_bytes (w :: u32) \<noteq> []" "word_bytes (v :: u64) \<noteq> []"
  by (rule notI, drule arg_cong [of _ _ length], simp)+

lemma complete_command:
  assumes "length payload = ioc_size c"
  shows "commands_complete (word_bytes c @ payload @ rest) \<longleftrightarrow> commands_complete rest"
  using assms by (subst commands_complete.simps) (auto simp: Let_def)

lemma complete_append: "commands_complete a \<Longrightarrow> commands_complete (a @ b) \<longleftrightarrow> commands_complete b"
proof (induction a rule: commands_complete.induct)
  case (1 bs)
  show ?case
  proof (cases "bs = []")
    case False
    let ?n = "4 + ioc_size (bytes_word (take 4 bs))"
    have h: "4 \<le> length bs" "?n \<le> length bs" "commands_complete (drop ?n bs)"
      using "1.prems" False by (subst (asm) commands_complete.simps; auto simp: Let_def split: if_splits)+
    then have "commands_complete (drop ?n bs @ b) \<longleftrightarrow> commands_complete b"
      using "1.IH" False by auto
    moreover have "commands_complete (bs @ b) \<longleftrightarrow> commands_complete (drop ?n bs @ b)"
      using h(1,2) False by (subst commands_complete.simps) (auto simp: Let_def)
    ultimately show ?thesis by simp
  qed simp
qed

lemma complete_snoc:
  "commands_complete p \<Longrightarrow> length payload = ioc_size c \<Longrightarrow> commands_complete (p @ word_bytes c @ payload)"
  using complete_command [of payload c "[]"] by (simp add: complete_append)

lemma complete_rest: "commands_complete p \<Longrightarrow> commands_complete (take n p) \<Longrightarrow> commands_complete (drop n p)"
  using complete_append [of "take n p" "drop n p"] by simp

lemma ioc_sizes [simp]:
  "ioc_size BC_TRANSACTION_b = 64" "ioc_size BC_REPLY_b = 64" "ioc_size BC_ACQUIRE_RESULT = 4"
  "ioc_size BC_FREE_BUFFER = 8" "ioc_size BC_ACQUIRE = 4" "ioc_size BC_RELEASE = 4" "ioc_size BC_INCREFS_DONE = 16"
  "ioc_size BC_ACQUIRE_DONE = 16" "ioc_size BC_REGISTER_LOOPER = 0" "ioc_size BC_ENTER_LOOPER = 0"
  "ioc_size BC_EXIT_LOOPER = 0" "ioc_size BC_REQUEST_DEATH_NOTIFICATION = 12"
  "ioc_size BC_CLEAR_DEATH_NOTIFICATION = 12" "ioc_size BC_DEAD_BINDER_DONE = 8" "ioc_size BC_TRANSACTION_SG = 72"
  "ioc_size BC_REPLY_SG = 72" "ioc_size BC_REQUEST_REFRESH_NOTIFICATION = 12"
  "ioc_size BC_CLEAR_REFRESH_NOTIFICATION = 12" "ioc_size BC_REFRESH_BINDER_DONE = 8"
  by (simp_all add: ioc_size_def)

lemma pl_write_cases:
  assumes "parcel_ok P"
  obtains "pl_write P p bs = None" | "pl_write P p bs = Some (p @ bs)"
proof -
  have "pl_write P p bs = None \<or> pl_write P p bs = Some (p @ bs)" using assms by (simp add: parcel_ok_def)
  then show thesis using that by blast
qed

lemma write_chunks_result:
  assumes "parcel_ok P"
  shows "\<exists>ok d. write_chunks P cs p = (ok, p @ d) \<and> (ok \<longrightarrow> d = concat cs)"
proof (induction cs arbitrary: p)
  case (Cons c cs)
  show ?case
    using pl_write_cases [OF assms, of p c]
  proof cases
    case 1
    then show ?thesis by (intro exI [of _ False] exI [of _ "[]"]) simp
  next
    case 2
    obtain ok d where "write_chunks P cs (p @ c) = (ok, (p @ c) @ d)" "ok \<longrightarrow> d = concat cs"
      using Cons by blast
    then show ?thesis using 2 by (intro exI [of _ ok] exI [of _ "c @ d"]) auto
  qed
qed auto

lemma rewind_prefix: "parcel_ok P \<Longrightarrow> rewind_or_flush P (length p) (p @ d) = p"
  by (simp add: parcel_ok_def rewind_or_flush_def)

text \<open>A command is written as a whole or not at all.\<close>

lemma put_command_result:
  assumes "parcel_ok P"
  shows "put_command P c chunks p = (True, p @ word_bytes c @ concat chunks) \<or> put_command P c chunks p = (False, p)"
  using pl_write_cases [OF assms, of p "word_bytes c"]
proof cases
  case 2
  obtain ok d where "write_chunks P chunks (p @ word_bytes c) = (ok, (p @ word_bytes c) @ d)" "ok \<longrightarrow> d = concat chunks"
    using write_chunks_result [OF assms] by blast
  then show ?thesis
    using 2 rewind_prefix [OF assms, of p "word_bytes c @ d"] by (cases ok) (simp_all add: put_command_def)
qed (simp add: put_command_def)

lemma streams_set [stream_simps]:
  "bi_output (bs_inv (set_output p s)) = p" "bi_input (bs_inv (set_output p s)) = bi_input (bs_inv s)"
  "bi_input (bs_inv (set_input p s)) = p" "bi_output (bs_inv (set_input p s)) = bi_output (bs_inv s)"
  "bs_written (set_output p s) = bs_written s" "bs_written (set_input p s) = bs_written s"
  "bs_inv (add_strong d r s) = bs_inv s" "bs_inv (add_weak d r s) = bs_inv s"
  "bs_written (add_strong d r s) = bs_written s" "bs_written (add_weak d r s) = bs_written s"
  "bs_written (on_binv f s) = bs_written s" "bs_inv (on_binv f s) = f (bs_inv s)"
  by (simp_all add: set_output_def set_input_def on_binv_def add_strong_def add_weak_def)

lemma out_command_result:
  assumes "parcel_ok (be_parcel E)"
  shows "\<exists>ok. out_command E c chunks s =
    (ok, set_output (if ok then bi_output (bs_inv s) @ word_bytes c @ concat chunks else bi_output (bs_inv s)) s)"
  using put_command_result [OF assms, of c chunks "bi_output (bs_inv s)"]
proof
  assume "put_command (be_parcel E) c chunks (bi_output (bs_inv s)) =
    (True, bi_output (bs_inv s) @ word_bytes c @ concat chunks)"
  then show ?thesis by (intro exI [of _ True]) (simp add: out_command_def)
next
  assume "put_command (be_parcel E) c chunks (bi_output (bs_inv s)) = (False, bi_output (bs_inv s))"
  then show ?thesis by (intro exI [of _ False]) (simp add: out_command_def)
qed

text \<open>
  Steps after which the bytes waiting for the driver are whole commands if they were so before and
  the driver took whole commands only. Such steps compose.
\<close>

abbreviation (input) pending_complete :: "binder_state \<Rightarrow> bool" where
  "pending_complete s \<equiv> commands_complete (bi_output (bs_inv s))"

definition taken_whole :: "binder_state \<Rightarrow> bool" where
  "taken_whole s \<longleftrightarrow> (\<forall>w \<in> set (bs_written s). commands_complete w)"

definition stream_step :: "binder_state \<Rightarrow> binder_state \<Rightarrow> bool" where
  "stream_step s s' \<longleftrightarrow> (\<exists>ws. bs_written s' = bs_written s @ ws) \<and>
     (pending_complete s \<and> taken_whole s' \<longrightarrow> pending_complete s')"

lemma stream_step_trans [trans]: "stream_step s t \<Longrightarrow> stream_step t u \<Longrightarrow> stream_step s u"
  by (auto simp: stream_step_def taken_whole_def)

lemma stream_step_same:
  "bs_written s' = bs_written s \<Longrightarrow> bi_output (bs_inv s') = bi_output (bs_inv s) \<Longrightarrow> stream_step s s'"
  by (simp add: stream_step_def)

lemma stream_step_refl [simp]: "stream_step s s"
  by (simp add: stream_step_same)

lemma stream_step_append:
  assumes "bs_written s' = bs_written s" "bi_output (bs_inv s') = bi_output (bs_inv s) @ word_bytes c @ payload"
    and "length payload = ioc_size c"
  shows "stream_step s s'"
  using assms complete_snoc by (simp add: stream_step_def)

lemma out_command_step:
  assumes "parcel_ok (be_parcel E)" "length (concat chunks) = ioc_size c"
  shows "stream_step s (snd (out_command E c chunks s))"
proof -
  obtain ok where "out_command E c chunks s =
      (ok, set_output (if ok then bi_output (bs_inv s) @ word_bytes c @ concat chunks else bi_output (bs_inv s)) s)"
    using out_command_result [OF assms(1)] by blast
  then show ?thesis
    using stream_step_append [OF _ _ assms(2)] by (cases ok) (auto simp: stream_simps intro!: stream_step_same)
qed

lemma consumed_complete:
  assumes "parcel_ok (be_parcel E)" "pending_complete s" "commands_complete (take k (bi_output (bs_inv s)))"
  shows "pending_complete (UpdateConsumedData E k rd s)"
proof -
  let ?P = "be_parcel E"
  have "commands_complete (case pl_write ?P [] bs of Some t \<Rightarrow> t | None \<Rightarrow> [])" if "commands_complete bs" for bs
    using pl_write_cases [OF assms(1), of "[]" bs] that by cases simp_all
  then show ?thesis
    using complete_rest [OF assms(2,3)] assms(2) by (auto simp: UpdateConsumedData_def Let_def stream_simps)
qed

lemma written_consumed [stream_simps]: "bs_written (UpdateConsumedData E k rd s) = bs_written s"
  by (simp add: UpdateConsumedData_def Let_def stream_simps)

lemma transact_step:
  assumes "parcel_ok (be_parcel E)" "TransactWithDriver E doRead s = Some (err, s')"
  shows "stream_step s s'"
proof -
  let ?o = "bi_output (bs_inv s)"
  consider "s' = s" | k rd t where "s' = UpdateConsumedData E k rd t" "bs_inv t = bs_inv s"
      "bs_written t = bs_written s @ [take k ?o]"
    using assms(2) by (auto simp: TransactWithDriver_def Let_def split: if_splits Option.bind_splits prod.splits)
  then show ?thesis
  proof cases
    case 2
    have "pending_complete s'" if "pending_complete s" "taken_whole s'"
      using that 2 consumed_complete [OF assms(1), of t k rd] by (simp add: taken_whole_def stream_simps)
    then show ?thesis using 2 by (auto simp: stream_step_def stream_simps)
  qed simp
qed

lemma flush_step:
  assumes "parcel_ok (be_parcel E)" "FlushCommands_binder E s = Some (err, s')"
  shows "stream_step s s'"
proof -
  consider "s' = s" | e1 s1 where "TransactWithDriver E False s = Some (e1, s1)"
      "s' = s1 \<or> TransactWithDriver E False s1 = Some (err, s')"
    using assms(2) by (auto simp: FlushCommands_binder_def split: if_splits Option.bind_splits)
  then show ?thesis
    by cases (use transact_step [OF assms(1)] stream_step_trans in \<open>auto, blast+\<close>)
qed

lemma command_flush_step:
  assumes "parcel_ok (be_parcel E)" "length (concat chunks) = ioc_size c" "out_command E c chunks s = (ok, s1)"
    and "FlushCommands_binder E s1 = Some (err, s2)"
  shows "stream_step s s2"
  using out_command_step [OF assms(1,2), of s] flush_step [OF assms(1,4)] assms(3) stream_step_trans by simp

text \<open>What a thread does to its output, its own transactions included as far as they are written.\<close>

inductive binder_op :: "binder_env \<Rightarrow> binder_state \<Rightarrow> binder_state \<Rightarrow> bool" for E where
  op_acquire: "AcquireHandle_binder E handle s = Some (ok, s') \<Longrightarrow> binder_op E s s'"
| op_release: "ReleaseHandle_binder E handle s = Some (ok, s') \<Longrightarrow> binder_op E s s'"
| op_add_death: "AddDeathRecipient_binder E handle proxy s = Some (ok, s') \<Longrightarrow> binder_op E s s'"
| op_remove_death: "RemoveDeathRecipient_binder E handle proxy s = Some (ok, s') \<Longrightarrow> binder_op E s s'"
| op_add_refresh: "AddRefreshRecipient E handle proxy s = Some (ok, s') \<Longrightarrow> binder_op E s s'"
| op_remove_refresh: "RemoveRefreshRecipient E handle proxy s = Some (ok, s') \<Longrightarrow> binder_op E s s'"
| op_free: "FreeBuffer_binder E data s = Some s' \<Longrightarrow> binder_op E s s'"
| op_acquired: "binder_op E s (OnAcquireObject E c s)"
| op_released: "binder_op E s (OnReleaseObject E c s)"
| op_deferred: "binder_op E s (ProcDeferredDecRefs E s)"
| op_attempt: "binder_op E s (OnAttemptAcquire E s)"
| op_removed: "binder_op E s (OnRemoveRecipientDone E s)"
| op_looper: "c \<in> {BC_REGISTER_LOOPER, BC_ENTER_LOOPER, BC_EXIT_LOOPER} \<Longrightarrow> binder_op E s (put_word E c s)"
| op_transact: "TransactWithDriver E doRead s = Some (err, s') \<Longrightarrow> binder_op E s s'"
| op_command: "ReadUint32_in E s = (c, s') \<Longrightarrow> binder_op E s s'"
| op_request: "WriteTransaction_binder E c fl handle cd data status sg s = (True, s') \<Longrightarrow>
    (c \<in> {BC_TRANSACTION_b, BC_REPLY_b} \<and> sg = 0 \<or> c \<in> {BC_TRANSACTION_SG, BC_REPLY_SG} \<and> sg > 0) \<Longrightarrow> binder_op E s s'"

lemma reads_keep [stream_simps]:
  "ReadPointer_in E s = (v, s') \<Longrightarrow> bs_written s' = bs_written s"
  "ReadPointer_in E s = (v, s') \<Longrightarrow> bi_output (bs_inv s') = bi_output (bs_inv s)"
  "ReadUint32_in E s = (w, s') \<Longrightarrow> bs_written s' = bs_written s"
  "ReadUint32_in E s = (w, s') \<Longrightarrow> bi_output (bs_inv s') = bi_output (bs_inv s)"
  by (auto simp: ReadPointer_in_def ReadUint32_in_def stream_simps split: prod.splits)

lemma dec_strong_loop_keeps [stream_simps]:
  "bs_inv (dec_strong_loop E ps objs s) = bs_inv s" "bs_written (dec_strong_loop E ps objs s) = bs_written s"
  by (induction E ps objs s rule: dec_strong_loop.induct) (simp_all add: stream_simps)

lemma dec_weak_keeps [stream_simps]:
  "bs_inv (foldl (\<lambda>t r. add_weak d r t) s rs) = bs_inv s"
  "bs_written (foldl (\<lambda>t r. add_weak d r t) s rs) = bs_written s"
  by (induction rs arbitrary: s) (simp_all add: stream_simps)

lemma acquired_step:
  assumes "parcel_ok (be_parcel E)"
  shows "stream_step s (OnAcquireObject E c s)"
proof -
  obtain refs s1 obj s2 where r: "ReadPointer_in E s = (refs, s1)" "ReadPointer_in E s1 = (obj, s2)"
    by (cases "ReadPointer_in E s"; cases "ReadPointer_in E (snd (ReadPointer_in E s))") auto
  define d :: u32 where "d = (if c = BR_ACQUIRE then BC_ACQUIRE_DONE else BC_INCREFS_DONE)"
  let ?s3 = "if c = BR_ACQUIRE then add_strong 1 (be_refs_of E obj) s2 else add_weak 1 refs s2"
  let ?p = "bi_output (bs_inv s)"
  have o: "bi_output (bs_inv ?s3) = ?p" "bs_written ?s3 = bs_written s" using r by (auto simp: stream_simps)
  obtain ok p where w: "write_chunks (be_parcel E) [word_bytes d, word_bytes refs, word_bytes obj] ?p = (ok, ?p @ p)"
      "ok \<longrightarrow> p = concat [word_bytes d, word_bytes refs, word_bytes obj]"
    using write_chunks_result [OF assms] by blast
  have "bi_output (bs_inv (OnAcquireObject E c s)) \<in> {?p, ?p @ word_bytes d @ word_bytes refs @ word_bytes obj} \<and>
      bs_written (OnAcquireObject E c s) = bs_written s"
    using r o w rewind_prefix [OF assms, of ?p p] unfolding OnAcquireObject_def d_def [symmetric]
    by (cases ok) (auto simp: Let_def stream_simps simp del: write_chunks.simps)
  then show ?thesis
    using stream_step_append [of "OnAcquireObject E c s" s d "word_bytes refs @ word_bytes obj"]
    by (auto simp: d_def intro: stream_step_same split: if_splits)
qed

lemma attempt_step:
  assumes "parcel_ok (be_parcel E)"
  shows "stream_step s (OnAttemptAcquire E s)"
proof -
  obtain refs s1 obj s2 where r: "ReadPointer_in E s = (refs, s1)" "ReadPointer_in E s1 = (obj, s2)"
    by (cases "ReadPointer_in E s"; cases "ReadPointer_in E (snd (ReadPointer_in E s))") auto
  obtain ok s3 where a: "(if refs \<noteq> nullptr \<and> obj = nullptr then AttemptIncStrongRef E refs s2 else (False, s2)) = (ok, s3)"
    by (meson surj_pair)
  then have "bs_written s3 = bs_written s" "bi_output (bs_inv s3) = bi_output (bs_inv s)"
    using r by (auto simp: AttemptIncStrongRef_def stream_simps split: if_splits)
  then have "stream_step s s3" by (rule stream_step_same)
  moreover have "stream_step s3 (snd (out_command E BC_ACQUIRE_RESULT [word_bytes (if ok then 1 else 0 :: u32)] s3))"
    by (rule out_command_step [OF assms]) simp
  ultimately have "stream_step s (snd (out_command E BC_ACQUIRE_RESULT [word_bytes (if ok then 1 else 0 :: u32)] s3))"
    by (rule stream_step_trans)
  then show ?thesis unfolding OnAttemptAcquire_def r prod.case a .
qed

lemma length_btr_bytes [simp]: "length (btr_bytes t) = 64"
  by (simp add: btr_bytes_def)

text \<open>A transaction is a command word and a payload; the writes may fail behind either.\<close>

lemma WriteTransaction_payload:
  "\<exists>x. WriteTransaction_binder E c fl handle cd data status sg s =
     (case pl_write (be_parcel E) (bi_output (bs_inv s)) (word_bytes c) of
        None \<Rightarrow> (False, s)
      | Some p \<Rightarrow>
          (case pl_write (be_parcel E) p x of
             None \<Rightarrow> (False, on_binv (\<lambda>i. i\<lparr>bi_sendNestCount := bi_sendNestCount i + 1\<rparr>) (set_output p s))
           | Some p' \<Rightarrow> (True, on_binv (\<lambda>i. i\<lparr>bi_sendNestCount := bi_sendNestCount i + 1\<rparr>) (set_output p' s)))) \<and>
     length x = (if sg > 0 then 72 else 64)"
  unfolding WriteTransaction_binder_def Let_def by (intro exI conjI, rule refl) simp

lemma request_step:
  assumes "parcel_ok (be_parcel E)" "WriteTransaction_binder E c fl handle cd data status sg s = (True, s')"
    and "ioc_size c = (if sg > 0 then 72 else 64)"
  shows "stream_step s s'"
proof -
  let ?p = "bi_output (bs_inv s)"
  obtain x where pay: "WriteTransaction_binder E c fl handle cd data status sg s =
     (case pl_write (be_parcel E) (bi_output (bs_inv s)) (word_bytes c) of
        None \<Rightarrow> (False, s)
      | Some p \<Rightarrow>
          (case pl_write (be_parcel E) p x of
             None \<Rightarrow> (False, on_binv (\<lambda>i. i\<lparr>bi_sendNestCount := bi_sendNestCount i + 1\<rparr>) (set_output p s))
           | Some p' \<Rightarrow> (True, on_binv (\<lambda>i. i\<lparr>bi_sendNestCount := bi_sendNestCount i + 1\<rparr>) (set_output p' s))))"
     "length x = (if sg > 0 then 72 else 64)"
    using WriteTransaction_payload by blast
  then obtain q q' where x: "pl_write (be_parcel E) ?p (word_bytes c) = Some q"
      "pl_write (be_parcel E) q x = Some q'" "bs_written s' = bs_written s" "bi_output (bs_inv s') = q'"
    using assms(2) by (auto simp: stream_simps split: option.splits)
  have "q = ?p @ word_bytes c" using x(1) pl_write_cases [OF assms(1), of ?p "word_bytes c"] by cases simp_all
  moreover have "q' = q @ x" using x(2) pl_write_cases [OF assms(1), of q x] by cases simp_all
  ultimately show ?thesis using x pay(2) assms(3) stream_step_append [of s' s c x] by simp
qed

lemma recipient_step:
  assumes "parcel_ok (be_parcel E)" "ioc_size c = 12"
  shows "AddRecipient E handle proxy c s = Some (ok, s') \<Longrightarrow> stream_step s s'"
    "RemoveRecipient E handle proxy c s = Some (ok, s') \<Longrightarrow> stream_step s s'"
proof -
  have l: "length (concat [word_bytes handle, word_bytes proxy]) = ioc_size c" for handle :: u32 and proxy :: ptr
    using assms(2) by simp
  have o: "stream_step s s1" if "out_command E c [word_bytes handle, word_bytes proxy] s = (b, s1)" for handle :: u32 and proxy :: ptr and b s1
    using out_command_step [OF assms(1) l [of handle proxy], of s] that by simp
  have f: "stream_step s s2" if "out_command E c [word_bytes handle, word_bytes proxy] s = (b, s1)"
      "FlushCommands_binder E s1 = Some (e, s2)" for handle :: u32 and proxy :: ptr and b s1 e s2
    using command_flush_step [OF assms(1) l [of handle proxy]] that by blast
  have a: "stream_step s (add_strong 1 r s2)" if "stream_step s s2" for r s2
    using that by (auto simp: stream_step_def taken_whole_def stream_simps)
  show "AddRecipient E handle proxy c s = Some (ok, s') \<Longrightarrow> stream_step s s'"
    by (auto simp: AddRecipient_def split: prod.splits bool.splits Option.bind_splits if_splits dest: o f intro: a)
  show "RemoveRecipient E handle proxy c s = Some (ok, s') \<Longrightarrow> stream_step s s'"
    by (auto simp: RemoveRecipient_def split: prod.splits bool.splits Option.bind_splits if_splits dest: o f)
qed

lemma handle_step:
  assumes "parcel_ok (be_parcel E)"
  shows "AcquireHandle_binder E handle s = Some (ok, s') \<Longrightarrow> stream_step s s'"
    "ReleaseHandle_binder E handle s = Some (ok, s') \<Longrightarrow> stream_step s s'"
    "FreeBuffer_binder E data s = Some s' \<Longrightarrow> stream_step s s'"
proof -
  have o: "stream_step s s1" if "out_command E c [word_bytes (x :: u32)] s = (b, s1)" "ioc_size c = 4" for c b s1 x
    using out_command_step [OF assms, of "[word_bytes x]" c s] that by simp
  have f: "stream_step s s2" if "out_command E c [word_bytes (x :: u32)] s = (b, s1)" "ioc_size c = 4"
      "FlushCommands_binder E s1 = Some (e, s2)" for c b s1 e s2 x
    using command_flush_step [OF assms, of "[word_bytes x]" c] that by simp
  show "AcquireHandle_binder E handle s = Some (ok, s') \<Longrightarrow> stream_step s s'"
    by (auto simp: AcquireHandle_binder_def split: prod.splits bool.splits Option.bind_splits if_splits dest: o f)
  show "ReleaseHandle_binder E handle s = Some (ok, s') \<Longrightarrow> stream_step s s'"
    by (auto simp: ReleaseHandle_binder_def split: prod.splits bool.splits Option.bind_splits if_splits dest: o f)
  show "FreeBuffer_binder E data s = Some s' \<Longrightarrow> stream_step s s'"
    using command_flush_step [OF assms, of "[word_bytes data]" BC_FREE_BUFFER s]
    by (cases "out_command E BC_FREE_BUFFER [word_bytes data] s")
      (auto simp: FreeBuffer_binder_def split: option.splits)
qed

lemma quiet_steps:
  "stream_step s (OnReleaseObject E c s)" "stream_step s (ProcDeferredDecRefs E s)"
  "stream_step s (OnRemoveRecipientDone E s)"
  by (rule stream_step_same;
      auto simp: OnReleaseObject_def ProcDeferredDecRefs_def OnRemoveRecipientDone_def Let_def stream_simps
        split: prod.splits option.splits)+

lemma binder_op_step:
  assumes "parcel_ok (be_parcel E)" "binder_op E s s'"
  shows "stream_step s s'"
  using assms(2)
proof cases
  case (op_looper c)
  then show ?thesis using out_command_step [OF assms(1), of "[]" c s] by (auto simp: put_word_def)
next
  case (op_command c)
  then show ?thesis by (auto intro: stream_step_same simp: stream_simps)
next
  case (op_request c fl handle cd data status sg)
  then show ?thesis using request_step [OF assms(1)] by auto
qed (auto simp: AddDeathRecipient_binder_def RemoveDeathRecipient_binder_def AddRefreshRecipient_def
    RemoveRefreshRecipient_def acquired_step [OF assms(1)] attempt_step [OF assms(1)] quiet_steps
    split: if_splits dest: handle_step [OF assms(1)] recipient_step [OF assms(1), rotated] transact_step [OF assms(1)])

section \<open>Reading the commands of the driver\<close>

lemma ReadPointer_here:
  assumes "parcel_ok (be_parcel E)" "bi_input (bs_inv s) = word_bytes v @ rest"
  shows "ReadPointer_in E s = (v, set_input rest s)"
  using assms by (simp add: ReadPointer_in_def parcel_ok_def)

lemma ReadUint32_here:
  assumes "parcel_ok (be_parcel E)" "bi_input (bs_inv s) = word_bytes v @ rest"
  shows "ReadUint32_in E s = (v, set_input rest s)"
  using assms by (simp add: ReadUint32_in_def parcel_ok_def)

lemma ReadBuffer_here:
  assumes "parcel_ok (be_parcel E)" "bi_input (bs_inv s) = bs @ rest" "length bs = n"
  shows "ReadBuffer_in E n s = (Some bs, set_input rest s)"
  using assms by (simp add: ReadBuffer_in_def parcel_ok_def)

lemma reads_input:
  assumes "parcel_ok (be_parcel E)"
  shows "8 \<le> length (bi_input (bs_inv s)) \<Longrightarrow> bi_input (bs_inv (snd (ReadPointer_in E s))) = drop 8 (bi_input (bs_inv s))"
    "4 \<le> length (bi_input (bs_inv s)) \<Longrightarrow> bi_input (bs_inv (snd (ReadUint32_in E s))) = drop 4 (bi_input (bs_inv s))"
  using assms by (auto simp: ReadPointer_in_def ReadUint32_in_def parcel_ok_def stream_simps)

lemma out_command_input [stream_simps]:
  "bi_input (bs_inv (snd (out_command E c chunks s))) = bi_input (bs_inv s)"
  by (simp add: out_command_def stream_simps split: prod.splits)

lemma attempt_inv [stream_simps]: "bs_inv (snd (AttemptIncStrongRef E r s)) = bs_inv s"
  by (simp add: AttemptIncStrongRef_def stream_simps)

lemma acquire_input:
  "bi_input (bs_inv (OnAcquireObject E c s)) = bi_input (bs_inv (snd (ReadPointer_in E (snd (ReadPointer_in E s)))))"
  "bi_input (bs_inv (OnReleaseObject E c s)) = bi_input (bs_inv (snd (ReadPointer_in E (snd (ReadPointer_in E s)))))"
  by (auto simp: OnAcquireObject_def OnReleaseObject_def Let_def stream_simps split: prod.splits bool.splits)

lemma attempt_input:
  "bi_input (bs_inv (OnAttemptAcquire E s)) = bi_input (bs_inv (snd (ReadPointer_in E (snd (ReadPointer_in E s)))))"
proof -
  obtain refs s1 obj s2 where r: "ReadPointer_in E s = (refs, s1)" "ReadPointer_in E s1 = (obj, s2)"
    by (cases "ReadPointer_in E s"; cases "ReadPointer_in E (snd (ReadPointer_in E s))") auto
  obtain ok s3 where a: "(if refs \<noteq> nullptr \<and> obj = nullptr then AttemptIncStrongRef E refs s2 else (False, s2)) = (ok, s3)"
    by (meson surj_pair)
  then have "bs_inv s3 = bs_inv s2" by (auto simp: AttemptIncStrongRef_def stream_simps split: if_splits)
  then show ?thesis unfolding OnAttemptAcquire_def r prod.case a snd_conv by (simp add: stream_simps)
qed

lemma report_input:
  assumes "\<And>p t. bi_input (bs_inv (notify p t)) = bi_input (bs_inv t)"
  shows "bi_input (bs_inv (on_report E notify c s)) = bi_input (bs_inv (snd (ReadPointer_in E s)))"
  using assms
  by (auto simp: on_report_def AttemptIncStrongRef_def Let_def stream_simps split: prod.splits bool.splits)

lemma removed_input: "bi_input (bs_inv (OnRemoveRecipientDone E s)) = bi_input (bs_inv (snd (ReadPointer_in E s)))"
  by (auto simp: OnRemoveRecipientDone_def stream_simps split: prod.splits)

lemma spawn_input: "bs_inv (OnSpawnThread E s) = bs_inv s"
  by (simp add: OnSpawnThread_def Let_def split: option.splits)

lemma br_sizes:
  "ioc_size BR_ERROR = 4" "ioc_size BR_OK = 0" "ioc_size BR_INCREFS = 16" "ioc_size BR_ACQUIRE = 16"
  "ioc_size BR_RELEASE = 16" "ioc_size BR_DECREFS = 16" "ioc_size BR_ATTEMPT_ACQUIRE = 24" "ioc_size BR_NOOP = 0"
  "ioc_size BR_SPAWN_LOOPER = 0" "ioc_size BR_FINISHED = 0" "ioc_size BR_DEAD_BINDER = 8"
  "ioc_size BR_CLEAR_DEATH_NOTIFICATION_DONE = 8" "ioc_size BR_REFRESH_BINDER = 8"
  "ioc_size BR_CLEAR_REFRESH_NOTIFICATION_DONE = 8"
  by (simp_all add: ioc_size_def)

section \<open>References\<close>

text \<open>The parts of the state on which the rounds of a work thread depend besides its input.\<close>

definition same_round :: "binder_state \<Rightarrow> binder_state \<Rightarrow> bool" where
  "same_round s s' \<longleftrightarrow> bs_ps s' = bs_ps s \<and> bs_alive s' = bs_alive s \<and>
     bi_stopWorkThread (bs_inv s') = bi_stopWorkThread (bs_inv s)"

lemma state_set [stream_simps]:
  "bs_ps (set_output p s) = bs_ps s" "bs_ps (set_input p s) = bs_ps s" "bs_ps (add_strong d r s) = bs_ps s"
  "bs_ps (add_weak d r s) = bs_ps s" "bs_ps (on_binv f s) = bs_ps s"
  "bs_alive (set_output p s) = bs_alive s" "bs_alive (set_input p s) = bs_alive s"
  "bs_alive (add_strong d r s) = bs_alive s" "bs_alive (add_weak d r s) = bs_alive s"
  "bs_alive (on_binv f s) = bs_alive s"
  "bs_strong (set_output p s) = bs_strong s" "bs_strong (set_input p s) = bs_strong s"
  "bs_strong (add_strong d r s) = (bs_strong s)(r := bs_strong s r + d)" "bs_strong (add_weak d r s) = bs_strong s"
  "bs_strong (on_binv f s) = bs_strong s"
  "bs_weak (set_output p s) = bs_weak s" "bs_weak (set_input p s) = bs_weak s"
  "bs_weak (add_weak d r s) = (bs_weak s)(r := bs_weak s r + d)" "bs_weak (add_strong d r s) = bs_weak s"
  "bs_weak (on_binv f s) = bs_weak s"
  by (simp_all add: set_output_def set_input_def on_binv_def add_strong_def add_weak_def)

lemma inv_set [stream_simps]:
  "bs_inv (set_output p s) = (bs_inv s)\<lparr>bi_output := p\<rparr>" "bs_inv (set_input p s) = (bs_inv s)\<lparr>bi_input := p\<rparr>"
  by (simp_all add: set_output_def set_input_def on_binv_def)

text \<open>A command of the driver about the references of a stub.\<close>

type_synonym ref_command = "u32 \<times> ptr \<times> ptr"

abbreviation (input) ref_codes :: "u32 set" where
  "ref_codes \<equiv> {BR_ACQUIRE, BR_INCREFS, BR_RELEASE, BR_DECREFS}"

lemma ref_command_effect:
  assumes "parcel_ok (be_parcel E)" "c \<in> ref_codes" "refs \<noteq> 0" "obj \<noteq> 0"
    and "bi_input (bs_inv s) = word_bytes refs @ word_bytes obj @ rest"
    and "\<not> known_invalid obj s" "bs_strong s (be_refs_of E obj) > 0"
  shows "\<exists>s'. HandleCommandsInner E wait c s = Some (0, s') \<and> same_round s s' \<and> bi_input (bs_inv s') = rest \<and>
    bs_strong s' = (if c = BR_ACQUIRE then (bs_strong s)(be_refs_of E obj := bs_strong s (be_refs_of E obj) + 1) else bs_strong s) \<and>
    bs_weak s' = (if c = BR_INCREFS then (bs_weak s)(refs := bs_weak s refs + 1) else bs_weak s) \<and>
    bi_decStrongRefs (bs_inv s') = bi_decStrongRefs (bs_inv s) @ (if c = BR_RELEASE then [obj] else []) \<and>
    bi_decWeakRefs (bs_inv s') = bi_decWeakRefs (bs_inv s) @ (if c = BR_DECREFS then [refs] else [])"
proof -
  define s2 where "s2 = set_input rest s"
  have r: "ReadPointer_in E s = (refs, set_input (word_bytes obj @ rest) s)"
    "ReadPointer_in E (set_input (word_bytes obj @ rest) s) = (obj, s2)"
    using ReadPointer_here [OF assms(1), of s refs] assms(5) ReadPointer_here [OF assms(1), of "set_input (word_bytes obj @ rest) s" obj rest]
    by (simp_all add: stream_simps s2_def set_input_def on_binv_def)
  have k: "\<not> known_invalid obj s2" "bs_strong s2 (be_refs_of E obj) > 0"
    using assms(6,7) by (simp_all add: s2_def known_invalid_def stream_simps)
  have acq: "\<exists>q. OnAcquireObject E c s = set_output q
      (if c = BR_ACQUIRE then add_strong 1 (be_refs_of E obj) s2 else add_weak 1 refs s2)"
    unfolding OnAcquireObject_def r prod.case Let_def using k assms(3,4)
    by (simp only: if_False if_True simp_thms not_le [symmetric]) (simp split: prod.split bool.split, blast)
  have rel: "OnReleaseObject E c s =
      (if c = BR_RELEASE then on_binv (\<lambda>i. i\<lparr>bi_decStrongRefs := bi_decStrongRefs i @ [obj]\<rparr>) s2
       else on_binv (\<lambda>i. i\<lparr>bi_decWeakRefs := bi_decWeakRefs i @ [refs]\<rparr>) s2)"
    using assms(3,4) by (simp add: OnReleaseObject_def r)
  from acq obtain q where q: "OnAcquireObject E c s = set_output q
      (if c = BR_ACQUIRE then add_strong 1 (be_refs_of E obj) s2 else add_weak 1 refs s2)" ..
  from assms(2) consider "c = BR_ACQUIRE" | "c = BR_INCREFS" | "c = BR_RELEASE" | "c = BR_DECREFS" by blast
  then show ?thesis
    by cases (use q rel in \<open>simp_all add: HandleCommandsInner_def same_round_def s2_def stream_simps\<close>)
qed

lemma count_snoc: "count_list (xs @ [x]) y = count_list xs y + (if x = y then 1 else 0)"
  by (induction xs) auto

lemma dec_weak_counts: "bs_weak (foldl (\<lambda>t r. add_weak (- 1) r t) s rs) r = bs_weak s r - int (count_list rs r)"
  by (induction rs arbitrary: s) (auto simp: stream_simps)

lemma dec_weak_strong: "bs_strong (foldl (\<lambda>t r. add_weak d r t) s rs) = bs_strong s"
  "bs_ps (foldl (\<lambda>t r. add_weak d r t) s rs) = bs_ps s" "bs_alive (foldl (\<lambda>t r. add_weak d r t) s rs) = bs_alive s"
  by (induction rs arbitrary: s) (auto simp: stream_simps)

lemma dec_strong_counts:
  assumes "\<forall>obj \<in> set objs. IsValidObject obj ps \<noteq> None"
  shows "bs_strong (dec_strong_loop E ps objs s) r = bs_strong s r - int (count_list (map (be_refs_of E) objs) r)"
  using assms by (induction E ps objs s rule: dec_strong_loop.induct) (auto simp: stream_simps)

lemma dec_strong_other: "bs_weak (dec_strong_loop E ps objs s) = bs_weak s"
  "bs_ps (dec_strong_loop E ps objs s) = bs_ps s" "bs_alive (dec_strong_loop E ps objs s) = bs_alive s"
  by (induction E ps objs s rule: dec_strong_loop.induct) (auto simp: stream_simps)

text \<open>The deferred releases change the counts of references but not the counts less the pending releases.\<close>

lemma deferred_effect:
  assumes "bs_ps s = Some ps" "\<forall>obj \<in> set (bi_decStrongRefs (bs_inv s)). IsValidObject obj ps \<noteq> None" "bi_input (bs_inv s) = []"
  shows "same_round s (ProcDeferredDecRefs E s) \<and> bi_input (bs_inv (ProcDeferredDecRefs E s)) = [] \<and>
    bi_decStrongRefs (bs_inv (ProcDeferredDecRefs E s)) = [] \<and> bi_decWeakRefs (bs_inv (ProcDeferredDecRefs E s)) = [] \<and>
    bs_strong (ProcDeferredDecRefs E s) r = bs_strong s r - int (count_list (map (be_refs_of E) (bi_decStrongRefs (bs_inv s))) r) \<and>
    bs_weak (ProcDeferredDecRefs E s) r = bs_weak s r - int (count_list (bi_decWeakRefs (bs_inv s)) r)"
  using assms
  by (simp add: ProcDeferredDecRefs_def Let_def same_round_def stream_simps dec_strong_counts dec_strong_other
      dec_weak_counts dec_weak_strong)

lemma round_with_input:
  assumes "parcel_ok (be_parcel E)" "bs_alive s" "\<not> IsProcessExiting s" "bi_input (bs_inv s) = word_bytes c @ rest"
  shows "work_round n E s =
    (case HandleCommandsInner E (\<lambda>t. map_option (\<lambda>(e, _, t'). (e, t')) (WaitForCompletion n E False t)) c
         ((set_input rest s)\<lparr>bs_ips := map_option (LockForNumExecuting (be_time E)) (bs_ips s)\<rparr>) of
       None \<Rightarrow> None
     | Some (userError, s3) \<Rightarrow>
         (let s4 = s3\<lparr>bs_ips := map_option (\<lambda>k. snd (UnlockForNumExecuting k)) (bs_ips s3)\<rparr>;
              s5 = (if c = BR_TRANSACTION \<or> c = BR_TRANSACTION_SEC_CTX then on_binv (\<lambda>i. i\<lparr>bi_isFirstInvoke := 2\<rparr>) s4 else s4)
          in if userError = - be_ERR_TIMED_OUT E \<and> \<not> isMainWorkThread (bs_inv s5) then Some (False, s5)
             else if userError = IPC_INVOKER_INVALID_DATA_ERR \<and> \<not> isMainWorkThread (bs_inv s5) then Some (False, s5)
             else Some (\<not> bi_stopWorkThread (bs_inv (ProcDeferredDecRefs E s5)), ProcDeferredDecRefs E s5)))"
proof -
  have ne: "bi_input (bs_inv s) \<noteq> []" using assms(4) by simp
  have "TransactWithDriver E True s = Some (0, s)" using assms(2) ne by (simp add: TransactWithDriver_def Let_def)
  moreover have "ReadUint32_in E s = (c, set_input rest s)" by (rule ReadUint32_here [OF assms(1,4)])
  moreover have "bs_ips (set_input rest s) = bs_ips s" by (simp add: set_input_def on_binv_def)
  ultimately show ?thesis
    using assms(3) ne by (simp add: work_round_def Let_def split: option.splits)
qed

text \<open>The counts of a reference counter less the releases that are still pending.\<close>

definition strong_net :: "binder_env \<Rightarrow> binder_state \<Rightarrow> ptr \<Rightarrow> int" where
  "strong_net E s r = bs_strong s r - int (count_list (map (be_refs_of E) (bi_decStrongRefs (bs_inv s))) r)"

definition weak_net :: "binder_state \<Rightarrow> ptr \<Rightarrow> int" where
  "weak_net s r = bs_weak s r - int (count_list (bi_decWeakRefs (bs_inv s)) r)"

fun ref_bytes :: "ref_command \<Rightarrow> bytes" where
  "ref_bytes (c, refs, obj) = word_bytes c @ word_bytes refs @ word_bytes obj"

fun strong_change :: "binder_env \<Rightarrow> ptr \<Rightarrow> ref_command \<Rightarrow> int" where
  "strong_change E r (c, refs, obj) =
     (if be_refs_of E obj \<noteq> r then 0 else if c = BR_ACQUIRE then 1 else if c = BR_RELEASE then - 1 else 0)"

fun weak_change :: "ptr \<Rightarrow> ref_command \<Rightarrow> int" where
  "weak_change r (c, refs, obj) = (if refs \<noteq> r then 0 else if c = BR_INCREFS then 1 else if c = BR_DECREFS then - 1 else 0)"

text \<open>What the driver promises of such a command, and what the thread keeps between two of them.\<close>

fun ref_ok :: "binder_env \<Rightarrow> process_skeleton \<Rightarrow> binder_state \<Rightarrow> ref_command \<Rightarrow> bool" where
  "ref_ok E ps s (c, refs, obj) \<longleftrightarrow> c \<in> ref_codes \<and> refs \<noteq> 0 \<and> obj \<noteq> 0 \<and> IsValidObject obj ps \<noteq> None \<and>
     bs_strong s (be_refs_of E obj) > 0"

definition round_inv :: "binder_env \<Rightarrow> process_skeleton \<Rightarrow> binder_state \<Rightarrow> bool" where
  "round_inv E ps s \<longleftrightarrow> bs_alive s \<and> bs_ps s = Some ps \<and> \<not> GetThreadStopFlag ps \<and> \<not> bi_stopWorkThread (bs_inv s) \<and>
     (\<forall>obj \<in> set (bi_decStrongRefs (bs_inv s)). IsValidObject obj ps \<noteq> None)"

lemma ref_round:
  assumes "parcel_ok (be_parcel E)" "round_inv E ps s" "ref_ok E ps s x" "bi_input (bs_inv s) = ref_bytes x @ rest"
    and "be_ERR_TIMED_OUT E \<noteq> 0"
  shows "\<exists>s'. work_round n E s = Some (True, s') \<and> round_inv E ps s' \<and> bi_input (bs_inv s') = rest \<and>
    (rest = [] \<longrightarrow> bi_decStrongRefs (bs_inv s') = [] \<and> bi_decWeakRefs (bs_inv s') = []) \<and>
    (\<forall>r. strong_net E s' r = strong_net E s r + strong_change E r x) \<and>
    (\<forall>r. weak_net s' r = weak_net s r + weak_change r x) \<and>
    (rest \<noteq> [] \<longrightarrow> (\<forall>r. bs_strong s r \<le> bs_strong s' r))"
proof -
  obtain c refs obj where x: "x = (c, refs, obj)" by (cases x)
  note inv = assms(2) [unfolded round_inv_def] and ok = assms(3) [unfolded x ref_ok.simps]
  define s0 where "s0 = (set_input (word_bytes refs @ word_bytes obj @ rest) s)\<lparr>bs_ips := map_option (LockForNumExecuting (be_time E)) (bs_ips s)\<rparr>"
  let ?w = "\<lambda>t. map_option (\<lambda>(e, _, t'). (e, t')) (WaitForCompletion n E False t)"
  have s0: "bs_strong s0 = bs_strong s" "bs_weak s0 = bs_weak s" "bs_ps s0 = Some ps" "bs_alive s0"
    "bi_input (bs_inv s0) = word_bytes refs @ word_bytes obj @ rest" "\<not> bi_stopWorkThread (bs_inv s0)"
    "bi_decStrongRefs (bs_inv s0) = bi_decStrongRefs (bs_inv s)" "bi_decWeakRefs (bs_inv s0) = bi_decWeakRefs (bs_inv s)"
    using inv by (simp_all add: s0_def stream_simps)
  have ki: "\<not> known_invalid obj s0" using ok s0(3) by (simp add: known_invalid_def)
  obtain s3 where s3: "HandleCommandsInner E ?w c s0 = Some (0, s3)" "same_round s0 s3" "bi_input (bs_inv s3) = rest"
    "bs_strong s3 = (if c = BR_ACQUIRE then (bs_strong s0)(be_refs_of E obj := bs_strong s0 (be_refs_of E obj) + 1) else bs_strong s0)"
    "bs_weak s3 = (if c = BR_INCREFS then (bs_weak s0)(refs := bs_weak s0 refs + 1) else bs_weak s0)"
    "bi_decStrongRefs (bs_inv s3) = bi_decStrongRefs (bs_inv s0) @ (if c = BR_RELEASE then [obj] else [])"
    "bi_decWeakRefs (bs_inv s3) = bi_decWeakRefs (bs_inv s0) @ (if c = BR_DECREFS then [refs] else [])"
    using ref_command_effect [OF assms(1) _ _ _ s0(5) ki, of c ?w] ok s0(1) by auto
  define s5 where "s5 = s3\<lparr>bs_ips := map_option (\<lambda>k. snd (UnlockForNumExecuting k)) (bs_ips s3)\<rparr>"
  have pe: "\<not> IsProcessExiting s" using inv by (simp add: IsProcessExiting_def)
  have in0: "bi_input (bs_inv s) = word_bytes c @ word_bytes refs @ word_bytes obj @ rest" using assms(4) x by simp
  have c: "c \<noteq> BR_TRANSACTION" "c \<noteq> BR_TRANSACTION_SEC_CTX" using ok by auto
  have stop: "bi_stopWorkThread (bs_inv (ProcDeferredDecRefs E s5)) = bi_stopWorkThread (bs_inv s5)"
    by (simp add: ProcDeferredDecRefs_def Let_def stream_simps split: option.splits)
  have w: "work_round n E s = Some (True, ProcDeferredDecRefs E s5)"
    using round_with_input [OF assms(1) _ pe in0, of n] inv s3(1,2) s0(6) c assms(5) stop
    by (simp add: s0_def [symmetric] s5_def [symmetric] same_round_def) (simp add: s5_def)
  have s5: "round_inv E ps s5" "bi_input (bs_inv s5) = rest" "strong_net E s5 r = strong_net E s r + strong_change E r x"
    "weak_net s5 r = weak_net s r + weak_change r x" "bs_strong s r \<le> bs_strong s5 r" for r
    using inv ok s3 s0 unfolding s5_def x
    by (auto simp: round_inv_def same_round_def strong_net_def weak_net_def count_snoc)
  show ?thesis
  proof (cases "rest = []")
    case True
    have "bs_ps s5 = Some ps" "\<forall>obj \<in> set (bi_decStrongRefs (bs_inv s5)). IsValidObject obj ps \<noteq> None"
      using s5(1) by (simp_all add: round_inv_def)
    note d = deferred_effect [OF this, of E] s5(2) True
    show ?thesis
      using w True d s5 by (intro exI [of _ "ProcDeferredDecRefs E s5"])
        (auto simp: round_inv_def same_round_def strong_net_def weak_net_def)
  next
    case False
    then have "ProcDeferredDecRefs E s5 = s5" using s5(2) by (simp add: ProcDeferredDecRefs_def)
    then show ?thesis using w False s5 by (intro exI [of _ s5]) auto
  qed
qed

lemma ref_rounds:
  assumes "parcel_ok (be_parcel E)" "be_ERR_TIMED_OUT E \<noteq> 0"
  shows "round_inv E ps s \<Longrightarrow> \<forall>x \<in> set xs. ref_ok E ps s x \<Longrightarrow> xs \<noteq> [] \<Longrightarrow> bi_input (bs_inv s) = concat (map ref_bytes xs) \<Longrightarrow>
    \<exists>s'. work_loop (length xs + n) E s = work_loop n E s' \<and> bi_input (bs_inv s') = [] \<and>
      bi_decStrongRefs (bs_inv s') = [] \<and> bi_decWeakRefs (bs_inv s') = [] \<and>
      (\<forall>r. strong_net E s' r = strong_net E s r + sum_list (map (strong_change E r) xs)) \<and>
      (\<forall>r. weak_net s' r = weak_net s r + sum_list (map (weak_change r) xs))"
proof (induction xs arbitrary: s)
  case (Cons x xs)
  obtain s1 where s1: "work_round (length xs + n) E s = Some (True, s1)" "round_inv E ps s1"
      "bi_input (bs_inv s1) = concat (map ref_bytes xs)"
      "concat (map ref_bytes xs) = [] \<longrightarrow> bi_decStrongRefs (bs_inv s1) = [] \<and> bi_decWeakRefs (bs_inv s1) = []"
      "\<forall>r. strong_net E s1 r = strong_net E s r + strong_change E r x"
      "\<forall>r. weak_net s1 r = weak_net s r + weak_change r x"
      "concat (map ref_bytes xs) \<noteq> [] \<longrightarrow> (\<forall>r. bs_strong s r \<le> bs_strong s1 r)"
    using ref_round [OF assms(1) Cons.prems(1) _ _ assms(2), of x "concat (map ref_bytes xs)" "length xs + n"]
      Cons.prems(2,4) by auto
  have step: "work_loop (length (x # xs) + n) E s = work_loop (length xs + n) E s1" using s1(1) by simp
  show ?case
  proof (cases "xs = []")
    case True
    then show ?thesis using step s1 by (intro exI [of _ s1]) simp
  next
    case False
    then obtain y ys where y: "xs = y # ys" by (cases xs) auto
    have ne: "concat (map ref_bytes xs) \<noteq> []" unfolding y by (cases y) simp
    have "\<forall>x \<in> set xs. ref_ok E ps s1 x"
    proof
      fix z assume "z \<in> set xs"
      then have "ref_ok E ps s z" using Cons.prems(2) by simp
      then show "ref_ok E ps s1 z" using s1(7) ne order.strict_trans2 by (cases z) fastforce
    qed
    then obtain s' where "work_loop (length xs + n) E s1 = work_loop n E s'" "bi_input (bs_inv s') = []"
      "bi_decStrongRefs (bs_inv s') = []" "bi_decWeakRefs (bs_inv s') = []"
      "\<forall>r. strong_net E s' r = strong_net E s1 r + sum_list (map (strong_change E r) xs)"
      "\<forall>r. weak_net s' r = weak_net s1 r + sum_list (map (weak_change r) xs)"
      using Cons.IH [OF s1(2) _ False s1(3)] by blast
    then show ?thesis using step s1(5,6) by (intro exI [of _ s']) simp
  qed
qed simp

section \<open>Properties\<close>

lemma std_parcel_ok: "parcel_ok std_parcel"
  by (simp add: parcel_ok_def std_parcel_def)

definition example_binder :: binder_env where
  "example_binder = \<lparr>be_parcel = std_parcel, be_local = example_local, be_getprocpid = 100, be_thread = 7,
     be_invoker = 1, be_IsRealPidSupported = False, be_IsAccessTokenSupported = False, be_IsRefreshSupported = True,
     be_sender_info = (\<lambda>t. None), be_access_token = (\<lambda>t. None), be_self_token = 5,
     be_refs_of = (\<lambda>p. p + 1), be_attempt = (\<lambda>r s. True), be_status_at = (\<lambda>p. 0), be_status_addr = (\<lambda>v. 64),
     be_text_at = (\<lambda>p. ''sid''), be_allocator = True, be_owns_buffer = (\<lambda>t. bt_data_size t > 0), be_SetAllocator = True,
     be_stub = (\<lambda>p c t f s. (0, empty_out, s)), be_SendObituary = (\<lambda>p s. s), be_SendRefreshObituary = (\<lambda>p s. s),
     be_comm_auth = (\<lambda>h ob s. (True, s)), be_peer = (\<lambda>h s. (None, s)),
     be_GetAndSaveDBinderData = (\<lambda>p a b s. (0, s)), be_pad = Some,
     be_threads = \<lparr>env_new_thread = True, env_new_param = True, env_pthread_create = True, env_pthread_detach = True\<rparr>,
     be_time = 0, be_ERR_DEAD_OBJECT = 29189, be_ERR_TIMED_OUT = 110\<rparr>"

text \<open>A thread of a process with one valid stub, referenced twice.\<close>

definition example_thread :: binder_state where
  "example_thread = \<lparr>bs_inv = BinderInvoker example_binder, bs_ips = None,
     bs_ps = Some (ProcessSkeleton_init\<lparr>validObjectRecord := [64 \<mapsto> []]\<rparr>), bs_strong = (\<lambda>r. 2), bs_weak = (\<lambda>r. 3),
     bs_alive = True, bs_script = [], bs_written = []\<rparr>"


lemma example_acquire:
  "AcquireHandle_binder example_binder 0 example_thread =
     Some (True, set_output (word_bytes BC_ACQUIRE @ word_bytes (0 :: u32)) example_thread)"
  by (simp add: AcquireHandle_binder_def out_command_def put_command_def example_binder_def std_parcel_def
      example_thread_def BinderInvoker_def Let_def)


text \<open>
  C25. A thread reads from its input exactly the payload that a command of the driver declares, for
  every command that is no transaction, so that the next command is read from where it starts; the
  command is always handled to its end. \<open>BR_ATTEMPT_ACQUIRE\<close> is the exception: it declares 24 bytes,
  of which 16 are read, and the last 8 are taken for the next command.
\<close>

theorem driver_commands_read_whole:
  assumes "parcel_ok (be_parcel E)" "bi_input (bs_inv s) = payload @ rest" "length payload = ioc_size c"
    and "\<forall>p t. bi_input (bs_inv (be_SendObituary E p t)) = bi_input (bs_inv t)"
    and "\<forall>p t. bi_input (bs_inv (be_SendRefreshObituary E p t)) = bi_input (bs_inv t)"
  shows "(c \<in> {BR_ERROR, BR_OK, BR_INCREFS, BR_ACQUIRE, BR_RELEASE, BR_DECREFS, BR_NOOP, BR_SPAWN_LOOPER, BR_FINISHED,
        BR_DEAD_BINDER, BR_CLEAR_DEATH_NOTIFICATION_DONE, BR_REFRESH_BINDER, BR_CLEAR_REFRESH_NOTIFICATION_DONE} \<longrightarrow>
      (\<exists>err s'. HandleCommandsInner E wait c s = Some (err, s') \<and> bi_input (bs_inv s') = rest)) \<and>
    (c = BR_ATTEMPT_ACQUIRE \<longrightarrow>
      (\<exists>s'. HandleCommandsInner E wait c s = Some (0, s') \<and> bi_input (bs_inv s') = drop 16 payload @ rest))"
proof (intro conjI impI)
  have two: "bi_input (bs_inv (snd (ReadPointer_in E (snd (ReadPointer_in E s))))) = drop 16 payload @ rest"
    if "16 \<le> length payload"
    using that assms(2) by (simp add: reads_input [OF assms(1)])
  have one: "bi_input (bs_inv (snd (ReadPointer_in E s))) = drop 8 payload @ rest" if "8 \<le> length payload"
    using that assms(2) by (simp add: reads_input [OF assms(1)])
  assume "c \<in> {BR_ERROR, BR_OK, BR_INCREFS, BR_ACQUIRE, BR_RELEASE, BR_DECREFS, BR_NOOP, BR_SPAWN_LOOPER, BR_FINISHED,
        BR_DEAD_BINDER, BR_CLEAR_DEATH_NOTIFICATION_DONE, BR_REFRESH_BINDER, BR_CLEAR_REFRESH_NOTIFICATION_DONE}"
  then consider "c = BR_ERROR" | "c \<in> {BR_OK, BR_NOOP, BR_SPAWN_LOOPER, BR_FINISHED}" | "c \<in> ref_codes" |
      "c \<in> {BR_DEAD_BINDER, BR_REFRESH_BINDER, BR_CLEAR_DEATH_NOTIFICATION_DONE, BR_CLEAR_REFRESH_NOTIFICATION_DONE}"
    by auto
  then show "\<exists>err s'. HandleCommandsInner E wait c s = Some (err, s') \<and> bi_input (bs_inv s') = rest"
  proof cases
    case 1
    then show ?thesis using assms(2,3) reads_input(2) [OF assms(1), of s]
      by (cases "ReadUint32_in E s") (simp add: HandleCommandsInner_def br_sizes)
  next
    case 2
    then show ?thesis using assms(2,3) by (auto simp: HandleCommandsInner_def br_sizes spawn_input)
  next
    case 3
    then show ?thesis using two assms(3) by (auto simp: HandleCommandsInner_def br_sizes acquire_input)
  next
    case 4
    then show ?thesis
      using one assms(3-5) report_input [of "be_SendObituary E" E BC_DEAD_BINDER_DONE s]
        report_input [of "be_SendRefreshObituary E" E BC_REFRESH_BINDER_DONE s]
      by (auto simp: HandleCommandsInner_def br_sizes OnBinderDied_def OnBinderRefreshed_def removed_input)
  qed
next
  assume "c = BR_ATTEMPT_ACQUIRE"
  then show "\<exists>s'. HandleCommandsInner E wait c s = Some (0, s') \<and> bi_input (bs_inv s') = drop 16 payload @ rest"
    using assms(2,3) by (simp add: HandleCommandsInner_def br_sizes attempt_input reads_input [OF assms(1)])
qed

theorem driver_commands_read_whole_witness:
  "\<exists>err s'. HandleCommandsInner example_binder Map.empty BR_RELEASE
     (set_input (replicate 16 0 @ word_bytes BR_NOOP) example_thread) = Some (err, s') \<and>
     bi_input (bs_inv s') = word_bytes BR_NOOP"
proof -
  let ?s = "set_input (replicate 16 0 @ word_bytes BR_NOOP) example_thread"
  have "BR_RELEASE \<in> {BR_ERROR, BR_OK, BR_INCREFS, BR_ACQUIRE, BR_RELEASE, BR_DECREFS, BR_NOOP, BR_SPAWN_LOOPER, BR_FINISHED,
        BR_DEAD_BINDER, BR_CLEAR_DEATH_NOTIFICATION_DONE, BR_REFRESH_BINDER, BR_CLEAR_REFRESH_NOTIFICATION_DONE}"
    by blast
  moreover have "parcel_ok (be_parcel example_binder)" "bi_input (bs_inv ?s) = replicate 16 0 @ word_bytes BR_NOOP"
    "length (replicate 16 (0 :: u8)) = ioc_size BR_RELEASE"
    by (simp_all add: example_binder_def std_parcel_ok stream_simps br_sizes)
  moreover have "\<forall>p t. bi_input (bs_inv (be_SendObituary example_binder p t)) = bi_input (bs_inv t)"
    "\<forall>p t. bi_input (bs_inv (be_SendRefreshObituary example_binder p t)) = bi_input (bs_inv t)"
    by (simp_all add: example_binder_def)
  ultimately show ?thesis
    using driver_commands_read_whole [of example_binder ?s "replicate 16 0" "word_bytes BR_NOOP" BR_RELEASE Map.empty]
    by blast
qed

text \<open>
  C23. The reference counts of stubs follow the commands of the driver. When a work thread has handled
  a batch of commands about valid stubs that are alive, each strong count has changed by the number of
  \<open>BR_ACQUIRE\<close> less the number of \<open>BR_RELEASE\<close> for it, each weak count by the number of \<open>BR_INCREFS\<close>
  less the number of \<open>BR_DECREFS\<close>; no release is pending, and the loop goes on.
\<close>

theorem references_follow_commands:
  assumes "parcel_ok (be_parcel E)" "be_ERR_TIMED_OUT E \<noteq> 0"
    and "bs_alive s" "bs_ps s = Some ps" "\<not> GetThreadStopFlag ps" "\<not> bi_stopWorkThread (bs_inv s)"
    and "bi_decStrongRefs (bs_inv s) = []" "bi_decWeakRefs (bs_inv s) = []"
    and "xs \<noteq> []" "\<forall>x \<in> set xs. ref_ok E ps s x" "bi_input (bs_inv s) = concat (map ref_bytes xs)"
  shows "\<exists>s'. work_loop (length xs + n) E s = work_loop n E s' \<and> bi_input (bs_inv s') = [] \<and>
    bi_decStrongRefs (bs_inv s') = [] \<and> bi_decWeakRefs (bs_inv s') = [] \<and>
    (\<forall>r. bs_strong s' r = bs_strong s r + sum_list (map (strong_change E r) xs)) \<and>
    (\<forall>r. bs_weak s' r = bs_weak s r + sum_list (map (weak_change r) xs))"
proof -
  have "round_inv E ps s" using assms(3-7) by (simp add: round_inv_def)
  then obtain s' where "work_loop (length xs + n) E s = work_loop n E s'" "bi_input (bs_inv s') = []"
      "bi_decStrongRefs (bs_inv s') = []" "bi_decWeakRefs (bs_inv s') = []"
      "\<forall>r. strong_net E s' r = strong_net E s r + sum_list (map (strong_change E r) xs)"
      "\<forall>r. weak_net s' r = weak_net s r + sum_list (map (weak_change r) xs)"
    using ref_rounds [OF assms(1,2) _ assms(10,9,11)] by blast
  then show ?thesis using assms(7,8) by (intro exI [of _ s']) (simp add: strong_net_def weak_net_def)
qed

theorem references_follow_commands_witness:
  "\<exists>s'. work_loop (1 + 5) example_binder (set_input (ref_bytes (BR_RELEASE, 32, 64)) example_thread) = work_loop 5 example_binder s' \<and>
     bs_strong s' 65 = 1"
proof -
  let ?x = "(BR_RELEASE, 32, 64) :: ref_command"
  let ?s = "set_input (ref_bytes ?x) example_thread"
  have "\<exists>s'. work_loop (length [?x] + 5) example_binder ?s = work_loop 5 example_binder s' \<and> bi_input (bs_inv s') = [] \<and>
    bi_decStrongRefs (bs_inv s') = [] \<and> bi_decWeakRefs (bs_inv s') = [] \<and>
    (\<forall>r. bs_strong s' r = bs_strong ?s r + sum_list (map (strong_change example_binder r) [?x])) \<and>
    (\<forall>r. bs_weak s' r = bs_weak ?s r + sum_list (map (weak_change r) [?x]))"
    by (rule references_follow_commands [where ps = "ProcessSkeleton_init\<lparr>validObjectRecord := [64 \<mapsto> []]\<rparr>"])
      (simp_all add: example_binder_def std_parcel_ok example_thread_def BinderInvoker_def Let_def stream_simps
        ProcessSkeleton_init_def GetThreadStopFlag_def IsValidObject_def)
  then obtain s' where s': "work_loop (length [?x] + 5) example_binder ?s = work_loop 5 example_binder s'"
      "\<forall>r. bs_strong s' r = bs_strong ?s r + sum_list (map (strong_change example_binder r) [?x])"
    by blast
  have "bs_strong ?s 65 = 2" by (simp add: stream_simps example_thread_def)
  then have "bs_strong s' 65 = 1" using s'(2) [rule_format, of 65] by (simp add: example_binder_def)
  then show ?thesis using s'(1) by auto
qed

end
