(* ===== verification/Binder_Call_Proofs.thy ===== *)
theory Binder_Call_Proofs
  imports Binder_Proofs
begin

text \<open>
  Calls through the binder driver: what a stub sees of its caller and what is left of it, that a wait
  returns and with which result, what a failed write or a closed driver does to it, and the text form
  of the caller.
\<close>

section \<open>Calls of stubs\<close>

lemma caller_restored:
  "caller_proc_info (RestoreInvokerProcInfo (caller_proc_info i 0) j) a = caller_proc_info i a"
  by (simp add: caller_proc_info_def RestoreInvokerProcInfo_def)

lemma attach_wrapper [stream_simps]:
  "bs_inv (AttachInvokerProcInfoWrapper E s) = bs_inv s" "bs_strong (AttachInvokerProcInfoWrapper E s) = bs_strong s"
  "bs_alive (AttachInvokerProcInfoWrapper E s) = bs_alive s"
  by (simp_all add: AttachInvokerProcInfoWrapper_def)

text \<open>Freeing a buffer changes the streams only.\<close>

lemma transact_keeps:
  assumes "TransactWithDriver E doRead s = Some (e, s')"
  shows "bs_ps s' = bs_ps s \<and> caller_proc_info (bs_inv s') a = caller_proc_info (bs_inv s) a \<and>
    bi_status (bs_inv s') = bi_status (bs_inv s)"
  using assms by (auto simp: TransactWithDriver_def UpdateConsumedData_def caller_proc_info_def Let_def stream_simps
      split: if_splits Option.bind_splits prod.splits)

lemma free_keeps:
  assumes "Dealloc_request E t s = Some s'"
  shows "bs_ps s' = bs_ps s \<and> caller_proc_info (bs_inv s') a = caller_proc_info (bs_inv s) a \<and>
    bi_status (bs_inv s') = bi_status (bs_inv s)"
proof -
  have f: "bs_ps s' = bs_ps s \<and> caller_proc_info (bs_inv s') a = caller_proc_info (bs_inv s) a \<and>
      bi_status (bs_inv s') = bi_status (bs_inv s)" if "FlushCommands_binder E s = Some (e, s')" for s e s'
    using that by (auto simp: FlushCommands_binder_def split: if_splits Option.bind_splits dest!: transact_keeps [where a = a])
  have o: "bs_ps (snd (out_command E c cs s)) = bs_ps s"
    "caller_proc_info (bs_inv (snd (out_command E c cs s))) a = caller_proc_info (bs_inv s) a"
    "bi_status (bs_inv (snd (out_command E c cs s))) = bi_status (bs_inv s)" for c cs
    by (auto simp: out_command_def caller_proc_info_def stream_simps split: prod.splits)
  show ?thesis
    using assms by (auto simp: Dealloc_request_def FreeBuffer_binder_def o split: if_splits option.splits dest!: f)
qed

lemma take_caller_seen:
  "bi_callerPid (take_caller E t sc i) = sint (bt_sender_pid t)"
  "bi_callerUid (take_caller E t sc i) = sint (bt_sender_euid t)"
  by (auto simp: take_caller_def GetSenderInfo_def GetAccessToken_def Let_def split: option.splits)


definition example_call :: binder_tr_data where
  "example_call = \<lparr>bt_target = 65, bt_cookie = 64, bt_code = 1, bt_flags = 0x11, bt_sender_pid = 200, bt_sender_euid = 1000,
     bt_data_size = 0, bt_offsets_size = 0, bt_buffer = 4096, bt_offsets = 8192\<rparr>"


section \<open>Waiting\<close>

text \<open>A wait that returns does so with any larger number of rounds, with the same result.\<close>

lemma reply_mono:
  assumes "\<And>t r. wait t = Some r \<Longrightarrow> wait' t = Some r" "SendReply_binder E wait reply fl res s = Some r"
  shows "SendReply_binder E wait' reply fl res s = Some r"
  using assms by (cases r) (auto simp: SendReply_binder_def Let_def split: prod.splits bool.splits option.splits if_splits)

lemma transaction_mono:
  assumes "\<And>t r. wait t = Some r \<Longrightarrow> wait' t = Some r" "Transaction E wait t secctx s = Some r"
  shows "Transaction E wait' t secctx s = Some r"
  using assms(2) reply_mono [of wait wait', OF assms(1)]
  by (auto simp: Transaction_def Let_def split: prod.splits if_splits Option.bind_splits option.splits)

lemma command_mono:
  assumes "\<And>t r. wait t = Some r \<Longrightarrow> wait' t = Some r" "HandleCommandsInner E wait c s = Some r"
  shows "HandleCommandsInner E wait' c s = Some r"
proof -
  have "OnTransaction_binder E wait' c s = Some r" if "OnTransaction_binder E wait c s = Some r" for r
    using that transaction_mono [of wait wait', OF assms(1)]
    by (fastforce simp: OnTransaction_binder_def Let_def split: prod.splits option.splits)
  then show ?thesis using assms(2)
    by (cases r; cases "c = BR_TRANSACTION_SEC_CTX \<or> c = BR_TRANSACTION") (auto simp: HandleCommandsInner_def)
qed

lemma deal_mono:
  assumes "\<And>t r. wait t = Some r \<Longrightarrow> wait' t = Some r" "DealWithCmd E wait w e c s = Some r"
  shows "DealWithCmd E wait' w e c s = Some r"
  using assms(2) command_mono [of wait wait', OF assms(1)]
  by (auto simp: DealWithCmd_def split: if_splits Option.bind_splits)

lemma wait_loop_mono: "wait_loop n E w s = Some r \<Longrightarrow> n \<le> m \<Longrightarrow> wait_loop m E w s = Some r"
proof (induction n arbitrary: m w s r)
  case (Suc n)
  then obtain k where m: "m = Suc k" "n \<le> k" by (cases m) auto
  let ?w = "\<lambda>n t. if \<not> bs_alive t then Some (IPC_INVOKER_CONNECT_ERR, t)
             else map_option (\<lambda>(e, _, t'). (e, t')) (wait_loop n E False t)"
  have w: "?w k t = Some x" if "?w n t = Some x" for t x
    using that Suc.IH [OF _ m(2), of False t] by (auto split: if_splits)
  obtain e s1 where t: "TransactWithDriver E True s = Some (e, s1)"
    using Suc.prems(1) by (auto split: Option.bind_splits)
  show ?case
  proof (cases "e < 0 \<or> bi_input (bs_inv s1) = []")
    case True
    then show ?thesis using Suc.prems(1) Suc.IH [OF _ m(2)] t m(1) by (auto split: if_splits)
  next
    case False
    obtain c s2 where c: "ReadUint32_in E s1 = (c, s2)" by (cases "ReadUint32_in E s1")
    obtain go err reply s3 where d: "DealWithCmd E (?w n) w e c s2 = Some (go, err, reply, s3)"
      using Suc.prems(1) t False c by (auto split: Option.bind_splits)
    then have "DealWithCmd E (?w k) w e c s2 = Some (go, err, reply, s3)" by (rule deal_mono [rotated]) (rule w)
    then show ?thesis using Suc.prems(1) t False c d Suc.IH [OF _ m(2)] m(1) by (auto split: if_splits)
  qed
qed simp

text \<open>With input left the driver is not asked; with none it is, and the round goes on with what it gave.\<close>

lemma wait_read:
  assumes "bi_input (bs_inv s) = []" "TransactWithDriver E True s = Some (0, s1)" "bi_input (bs_inv s1) \<noteq> []" "bs_alive s1"
  shows "wait_loop (Suc n) E w s = wait_loop (Suc n) E w s1"
proof -
  have "TransactWithDriver E True s1 = Some (0, s1)" using assms(3,4) by (simp add: TransactWithDriver_def Let_def)
  then show ?thesis using assms(2,3) by simp
qed

text \<open>The driver takes all the output and gives the bytes of its next answer.\<close>

lemma transact_all:
  assumes "bs_alive s" "bi_input (bs_inv s) = []" "bs_script s = a # as" "da_error a = 0" "\<not> da_closed a"
    and "length (bi_output (bs_inv s)) \<le> da_consumed a" "da_read a \<noteq> []" "length (da_read a) \<le> 256"
  shows "\<exists>s1. TransactWithDriver E True s = Some (0, s1) \<and> bs_alive s1 \<and> bi_input (bs_inv s1) = da_read a \<and>
    bi_output (bs_inv s1) = [] \<and> bs_script s1 = as \<and> bs_written s1 = bs_written s @ [bi_output (bs_inv s)]"
  using assms by (auto simp: TransactWithDriver_def UpdateConsumedData_def Let_def stream_simps on_binv_def
      set_output_def set_input_def min_def)

text \<open>Commands that only say that the driver is at work, for a thread that waits for a reply.\<close>

abbreviation (input) quiet_codes :: "u32 set" where
  "quiet_codes \<equiv> {BR_NOOP, BR_OK, BR_TRANSACTION_COMPLETE}"

lemma quiet_rounds:
  assumes "parcel_ok (be_parcel E)"
  shows "bs_alive s \<Longrightarrow> set cs \<subseteq> quiet_codes \<Longrightarrow> bi_input (bs_inv s) = concat (map word_bytes cs) @ rest \<Longrightarrow>
    wait_loop (length cs + n) E True s = wait_loop n E True (set_input rest s)"
proof (induction cs arbitrary: s)
  case Nil
  then have "set_input rest s = s" by (auto simp: set_input_def on_binv_def)
  then show ?case by simp
next
  case (Cons c cs)
  let ?r = "concat (map word_bytes cs) @ rest"
  have i: "bi_input (bs_inv s) = word_bytes c @ ?r" using Cons.prems(3) by simp
  have ne: "bi_input (bs_inv s) \<noteq> []" unfolding i by simp
  have t: "TransactWithDriver E True s = Some (0, s)" using Cons.prems(1) ne by (simp add: TransactWithDriver_def Let_def)
  have d: "DealWithCmd E wait True 0 c (set_input ?r s) = Some (True, 0, None, set_input ?r s)" for wait
    using Cons.prems(2) by (auto simp: DealWithCmd_def HandleCommandsInner_def)
  have "wait_loop (length (c # cs) + n) E True s = wait_loop (length cs + n) E True (set_input ?r s)"
    using t ne by (simp add: ReadUint32_here [OF assms i] d)
  also have "\<dots> = wait_loop n E True (set_input rest (set_input ?r s))"
    using Cons.prems by (intro Cons.IH) (simp_all add: stream_simps)
  finally show ?case by (simp add: set_input_def on_binv_def)
qed

lemma btr_roundtrip: "btr_of (btr_bytes t) = t"
  by (simp add: btr_of_def btr_bytes_def)

lemma reply_round:
  assumes "parcel_ok (be_parcel E)" "bs_alive s" "bi_input (bs_inv s) = word_bytes BR_REPLY @ btr_bytes t @ rest"
    and "\<not> bit (bt_flags t) 3" "be_allocator E" "be_SetAllocator E"
  shows "wait_loop (Suc n) E True s = Some (0, Some t, set_input rest s)"
proof -
  have ne: "bi_input (bs_inv s) \<noteq> []" unfolding assms(3) by simp
  have tr: "TransactWithDriver E True s = Some (0, s)" using assms(2) ne by (simp add: TransactWithDriver_def Let_def)
  let ?s = "set_input (btr_bytes t @ rest) s"
  have "ReadBuffer_in E 64 ?s = (Some (btr_bytes t), set_input rest ?s)"
    by (rule ReadBuffer_here [OF assms(1)]) (simp_all add: stream_simps)
  then have "HandleReply_binder E True ?s = Some (0, False, Some t, set_input rest s)"
    using assms(4-6) by (simp add: HandleReply_binder_def btr_roundtrip Let_def set_input_def on_binv_def)
  then have "DealWithCmd E wait True 0 BR_REPLY ?s = Some (False, 0, Some t, set_input rest s)" for wait
    by (simp add: DealWithCmd_def)
  then show ?thesis using tr ne by (simp add: ReadUint32_here [OF assms(1,3)])
qed

text \<open>Two answers of the driver: that it is at work on the request, then the reply.\<close>

lemma wait_two_answers:
  assumes "parcel_ok (be_parcel E)" "be_allocator E" "be_SetAllocator E" "bs_alive s" "bi_input (bs_inv s) = []"
    and "bs_script s = a1 # a2 # as" "da_error a1 = 0" "\<not> da_closed a1" "da_error a2 = 0" "\<not> da_closed a2"
    and "length (bi_output (bs_inv s)) \<le> da_consumed a1"
    and "da_read a1 = concat (map word_bytes cs1)" "cs1 \<noteq> []" "set cs1 \<subseteq> quiet_codes" "length cs1 \<le> 64"
    and "da_read a2 = concat (map word_bytes cs2) @ word_bytes BR_REPLY @ btr_bytes t" "set cs2 \<subseteq> quiet_codes" "length cs2 \<le> 47"
    and "\<not> bit (bt_flags t) 3" "length cs1 + length cs2 < m"
  shows "\<exists>s'. wait_loop m E True s = Some (0, Some t, s') \<and> bi_input (bs_inv s') = [] \<and> bi_output (bs_inv s') = [] \<and>
    bs_script s' = as \<and> bs_written s' = bs_written s @ [bi_output (bs_inv s), []] \<and>
    bi_sendRequestCount (bs_inv s') = bi_sendRequestCount (bs_inv s)"
proof -
  have len: "length (concat (map word_bytes cs)) = 4 * length cs" for cs :: "u32 list" by (induction cs) simp_all
  obtain c cs where c: "cs1 = c # cs" using assms(13) by (cases cs1) auto
  have r1: "da_read a1 \<noteq> []" "length (da_read a1) \<le> 256" using assms(12,15) len [of cs1] c by auto
  have r2: "da_read a2 \<noteq> []" "length (da_read a2) \<le> 256" using assms(16,18) len [of cs2] by auto
  have cnt: "bi_sendRequestCount (bs_inv t') = bi_sendRequestCount (bs_inv t)" if "TransactWithDriver E True t = Some (e, t')" for t e t'
    using that by (auto simp: TransactWithDriver_def UpdateConsumedData_def Let_def stream_simps
        split: if_splits Option.bind_splits prod.splits)
  obtain s1 where s1: "TransactWithDriver E True s = Some (0, s1)" "bs_alive s1" "bi_input (bs_inv s1) = da_read a1"
      "bi_output (bs_inv s1) = []" "bs_script s1 = a2 # as" "bs_written s1 = bs_written s @ [bi_output (bs_inv s)]"
    using transact_all [OF assms(4-8,11) r1] by blast
  define s2 where "s2 = set_input [] s1"
  have i2: "bi_input (bs_inv s2) = []" "bs_alive s2" "bs_script s2 = a2 # as" "length (bi_output (bs_inv s2)) \<le> da_consumed a2"
    using s1 by (simp_all add: s2_def stream_simps) (simp add: set_input_def on_binv_def)
  obtain s3 where s3: "TransactWithDriver E True s2 = Some (0, s3)" "bs_alive s3" "bi_input (bs_inv s3) = da_read a2"
      "bi_output (bs_inv s3) = []" "bs_script s3 = as" "bs_written s3 = bs_written s2 @ [bi_output (bs_inv s2)]"
    using transact_all [OF i2(2,1,3) assms(9,10) i2(4) r2] by blast
  have i3: "bi_input (bs_inv s3) = concat (map word_bytes cs2) @ word_bytes BR_REPLY @ btr_bytes t @ []"
    using s3(3) assms(16) by simp
  obtain k where m: "m = length cs1 + Suc (length cs2 + k)" using assms(20) less_iff_Suc_add [of "length cs1 + length cs2" m] by auto
  have "wait_loop m E True s = wait_loop m E True s1"
    using wait_read [OF assms(5) s1(1) _ s1(2)] s1(3) r1(1) unfolding m c by simp
  also have "\<dots> = wait_loop (Suc (length cs2 + k)) E True s2"
    unfolding m s2_def by (rule quiet_rounds [OF assms(1) s1(2) assms(14)]) (simp add: s1(3) assms(12))
  also have "\<dots> = wait_loop (length cs2 + Suc k) E True s3"
    using wait_read [OF i2(1) s3(1) _ s3(2)] s3(3) r2(1) by simp
  also have "\<dots> = wait_loop (Suc k) E True (set_input (word_bytes BR_REPLY @ btr_bytes t @ []) s3)"
    by (rule quiet_rounds [OF assms(1) s3(2) assms(17) i3])
  also have "\<dots> = Some (0, Some t, set_input [] (set_input (word_bytes BR_REPLY @ btr_bytes t @ []) s3))"
    by (rule reply_round [OF assms(1) _ _ assms(19,2,3)]) (simp_all add: stream_simps s3(2))
  finally show ?thesis
    using s1(4,6) s3(4-6) cnt [OF s1(1)] cnt [OF s3(1)]
    by (simp add: stream_simps s2_def) (simp add: set_input_def on_binv_def)
qed

text \<open>Objects that need no translation: no proxy of another device, no negotiation data.\<close>

definition plain_objects :: "out_object list \<Rightarrow> bool" where
  "plain_objects obs \<longleftrightarrow> (\<forall>ob \<in> set obs. \<not> (oo_type ob = 0x73682A85 \<and> oo_cookie ob = 1 \<and> oo_handle ob < DBINDER_HANDLE_BASE) \<and>
     \<not> (oo_type ob = 0x70742A85 \<and> oo_length ob = NEGOTIATION_SIZE))"

lemma plain_translated:
  assumes "plain_objects (op_objs data)"
  shows "TranslateDBinderProxy E handle (op_objs data) s = (True, s)" "TranslateDBinderStub E handle data isReply s = (True, 0, s)"
proof -
  have "TranslateDBinderProxy E handle obs s = (True, s)" "stub_loop E handle isReply n obs pu acc s = (True, acc, s)"
    if "plain_objects obs" for obs n pu acc
    using that by (induction obs) (auto simp: plain_objects_def)
  then show "TranslateDBinderProxy E handle (op_objs data) s = (True, s)" "TranslateDBinderStub E handle data isReply s = (True, 0, s)"
    using assms by (simp_all add: TranslateDBinderStub_def)
qed

text \<open>The transaction that stands for a request.\<close>

definition request_data :: "u32 \<Rightarrow> u32 \<Rightarrow> u32 \<Rightarrow> out_parcel \<Rightarrow> binder_tr_data" where
  "request_data handle cd fl data = \<lparr>bt_target = ucast handle, bt_cookie = 0, bt_code = cd, bt_flags = or fl 0x10,
     bt_sender_pid = 0, bt_sender_euid = 0, bt_data_size = of_nat (op_size data),
     bt_offsets_size = (if op_size data > 0 then of_nat (length (op_objs data)) * 8 else 0),
     bt_buffer = (if op_size data > 0 then op_data data else 0), bt_offsets = (if op_size data > 0 then op_offsets data else 0)\<rparr>"

lemma request_written:
  assumes "\<forall>p bs. pl_write (be_parcel E) p bs = Some (p @ bs)"
  shows "WriteTransaction_binder E c fl handle cd data None 0 s =
    (True, on_binv (\<lambda>i. i\<lparr>bi_sendNestCount := bi_sendNestCount i + 1\<rparr>)
       (set_output (bi_output (bs_inv s) @ word_bytes c @ btr_bytes (request_data handle cd fl data)) s))"
  using assms by (simp add: WriteTransaction_binder_def request_data_def Let_def)


definition example_answer :: "u32 list \<Rightarrow> bytes \<Rightarrow> drv_answer" where
  "example_answer cs bs = \<lparr>da_error = 0, da_consumed = 1000, da_read = concat (map word_bytes cs) @ bs, da_closed = False\<rparr>"

definition example_reply :: binder_tr_data where
  "example_reply = \<lparr>bt_target = 0, bt_cookie = 0, bt_code = 0, bt_flags = 0, bt_sender_pid = 0, bt_sender_euid = 0,
     bt_data_size = 4, bt_offsets_size = 0, bt_buffer = 4096, bt_offsets = 8192\<rparr>"




text \<open>
  A reply whose payload cannot be written is not reported: the boolean result of the write is
  taken for an error number and never negative, so the thread waits for the completion of a reply
  that the driver was never given. The command word of the reply stays in the output without its
  payload, and what is written next is taken for the payload.
\<close>

theorem failed_reply_write_waits:
  assumes "plain_objects (op_objs reply)"
    and "pl_write (be_parcel E) (bi_output (bs_inv s)) (word_bytes BC_REPLY_b) = Some (bi_output (bs_inv s) @ word_bytes BC_REPLY_b)"
    and "\<forall>x. length x = 64 \<longrightarrow> pl_write (be_parcel E) (bi_output (bs_inv s) @ word_bytes BC_REPLY_b) x = None"
    and "commands_complete (bi_output (bs_inv s))"
  shows "\<exists>s1. SendReply_binder E wait reply fl result s = wait s1 \<and>
    bi_output (bs_inv s1) = bi_output (bs_inv s) @ word_bytes BC_REPLY_b \<and> \<not> commands_complete (bi_output (bs_inv s1))"
proof -
  let ?s = "on_binv (\<lambda>i. i\<lparr>bi_sendNestCount := bi_sendNestCount i + 1\<rparr>)
      (set_output (bi_output (bs_inv s) @ word_bytes BC_REPLY_b) s)"
  obtain x where "WriteTransaction_binder E BC_REPLY_b fl (- 1) 0 reply (Some result) 0 s =
     (case pl_write (be_parcel E) (bi_output (bs_inv s)) (word_bytes BC_REPLY_b) of
        None \<Rightarrow> (False, s)
      | Some p \<Rightarrow>
          (case pl_write (be_parcel E) p x of
             None \<Rightarrow> (False, on_binv (\<lambda>i. i\<lparr>bi_sendNestCount := bi_sendNestCount i + 1\<rparr>) (set_output p s))
           | Some p' \<Rightarrow> (True, on_binv (\<lambda>i. i\<lparr>bi_sendNestCount := bi_sendNestCount i + 1\<rparr>) (set_output p' s))))"
     "length x = 64"
    using WriteTransaction_payload [of E BC_REPLY_b fl "- 1" 0 reply "Some result" 0 s] by auto
  then have "WriteTransaction_binder E BC_REPLY_b fl (- 1) 0 reply (Some result) 0 s = (False, ?s)"
    using assms(2,3) by simp
  then have "SendReply_binder E wait reply fl result s = wait ?s"
    by (simp add: SendReply_binder_def plain_translated(2) [OF assms(1)] pad_parcel_def)
  moreover have "\<not> commands_complete (word_bytes BC_REPLY_b)"
    using bytes_word_u32 [of BC_REPLY_b] by (subst commands_complete.simps) (simp add: Let_def)
  ultimately show ?thesis
    using complete_append [OF assms(4)] by (intro exI [of _ ?s]) (simp add: stream_simps)
qed

definition short_of_memory :: parcel_lib where
  "short_of_memory = std_parcel\<lparr>pl_write := \<lambda>p bs. if length bs < 64 then Some (p @ bs) else None\<rparr>"

theorem failed_reply_write_waits_witness:
  "parcel_ok short_of_memory \<and>
   (\<exists>s1. SendReply_binder (example_binder\<lparr>be_parcel := short_of_memory\<rparr>) (\<lambda>t. Some (0, t)) empty_out 0 0 example_thread = Some (0, s1) \<and>
      bi_output (bs_inv s1) = word_bytes BC_REPLY_b \<and> \<not> commands_complete (bi_output (bs_inv s1)))"
proof
  show "parcel_ok short_of_memory" by (simp add: parcel_ok_def short_of_memory_def std_parcel_def)
  have o: "bi_output (bs_inv example_thread) = []" by (simp add: example_thread_def BinderInvoker_def Let_def)
  show "\<exists>s1. SendReply_binder (example_binder\<lparr>be_parcel := short_of_memory\<rparr>) (\<lambda>t. Some (0, t)) empty_out 0 0 example_thread = Some (0, s1) \<and>
      bi_output (bs_inv s1) = word_bytes BC_REPLY_b \<and> \<not> commands_complete (bi_output (bs_inv s1))"
    using failed_reply_write_waits [where E = "example_binder\<lparr>be_parcel := short_of_memory\<rparr>" and s = example_thread
        and reply = empty_out and wait = "\<lambda>t. Some (0, t)" and fl = 0 and result = 0]
    by (auto simp: o short_of_memory_def plain_objects_def empty_out_def)
qed

end
