(* ===== verification/Binder_Identity_Proofs.thy ===== *)
theory Binder_Identity_Proofs
  imports Binder_Call_Proofs
begin

text \<open>
  What the binder invoker writes and reads back: the identity of a caller as text, remote objects and
  file descriptors in a parcel.
\<close>

section \<open>Identities\<close>

lemma u64_bound: "unat (w :: u64) < 18446744073709551616"
  using unsigned_less [of w] by simp

lemma StrToInt32_pad20: "n \<le> 2147483647 \<Longrightarrow> StrToInt32 (pad20 n) = Some (int n)"
proof -
  assume n: "n \<le> 2147483647"
  have "pad20 n \<noteq> []" by (simp add: pad20_def)
  moreover have "str_nat (pad20 n) = n" by (simp add: pad20_def str_nat_replicate_zero)
  ultimately show ?thesis using n by (simp add: StrToInt32_def scan_pad20 Let_def)
qed

text \<open>
  C29. \<open>SetCallingIdentity\<close> applied to what \<open>ResetCallingIdentity\<close> returned restores the whole invoker:
  security context, token, process, real process and user, if none of the three numbers is negative
  and the context has no \<open><\<close>. In between, the thread has the identity of its own process. With a user
  number that does not fit into 31 bits, \<open>SetCallingIdentity\<close> returns false and changes nothing.
\<close>

theorem binder_identity_roundtrip:
  assumes "ResetCallingIdentity_binder E s = (identity, s')" "\<not> uses_other_info E (bs_inv s)"
    and "CHR ''<'' \<notin> set (bi_callerSid (bs_inv s))" "length (bi_callerSid (bs_inv s)) < 4294967296"
    and "0 \<le> bi_callerPid (bs_inv s)" "bi_callerPid (bs_inv s) \<le> 2147483647"
    and "0 \<le> bi_callerRealPid (bs_inv s)" "bi_callerRealPid (bs_inv s) \<le> 2147483647"
    and "- 2147483648 \<le> bi_callerUid (bs_inv s)" "bi_callerUid (bs_inv s) \<le> 2147483647"
  shows "bi_callerPid (bs_inv s') = getpid (be_local E) \<and> bi_callerUid (bs_inv s') = getuid (be_local E) \<and>
    (0 \<le> bi_callerUid (bs_inv s) \<longrightarrow> SetCallingIdentity_binder identity (bs_inv s') = (True, bs_inv s)) \<and>
    (bi_callerUid (bs_inv s) < 0 \<longrightarrow> SetCallingIdentity_binder identity (bs_inv s') = (False, bs_inv s'))"
proof -
  let ?i = "bs_inv s"
  define w where "w = (or (push_bit 32 (word_of_int (bi_callerUid ?i))) (word_of_int (bi_callerPid ?i)) :: u64)"
  let ?sid = "bi_callerSid ?i" and ?t = "pad20 (unat (bi_callerTokenID ?i))" and ?r = "pad20 (nat (bi_callerRealPid ?i))"
    and ?p = "nat_str (unat w)"
  have id: "identity = ?sid @ CHR ''<'' # ?t @ ?r @ ?p" and s': "bs_inv s' = ?i\<lparr>bi_callerUid := getuid (be_local E),
      bi_callerPid := getpid (be_local E), bi_callerRealPid := be_getprocpid E,
      bi_callerTokenID := GetSelfTokenID_binder E s, bi_callerSid := []\<rparr>"
    using assms(1,2,7) by (auto simp: ResetCallingIdentity_binder_def Let_def caller_proc_info_def pad20_int_def w_def stream_simps)
  have l: "length ?t = 20" "length ?r = 20" "0 < length ?p" "length ?p \<le> 20"
    using length_pad20 [OF u64_bound] length_pad20 [of "nat (bi_callerRealPid ?i)"] assms(8)
      length_nat_str_le [of "unat w" 19] u64_bound [of w] by simp_all
  have len: "length identity = length ?sid + 41 + length ?p" using l by (simp add: id)
  have ne: "identity \<noteq> []" by (simp add: id)
  have pos: "length (takeWhile (\<lambda>c. c \<noteq> CHR ''<'') identity) = length ?sid"
  proof -
    have "takeWhile (\<lambda>c. c \<noteq> CHR ''<'') ?sid = ?sid" using assms(3) by (auto simp: takeWhile_eq_all_conv)
    then show ?thesis using assms(3) by (simp add: id takeWhile_append)
  qed
  have ss: "sub_str identity off n = Some (take n (drop off identity))" if "off + n \<le> length identity" for off n
    using that len l(4) assms(4) by (intro sub_str_take_drop ne) simp_all
  have parts: "sub_str identity 0 (length ?sid) = Some ?sid" "sub_str identity (length ?sid + 1) 20 = Some ?t"
    "sub_str identity (length ?sid + 21) 20 = Some ?r" "sub_str identity (length ?sid + 41) (length ?p) = Some ?p"
    using ss [of 0 "length ?sid"] ss [of "length ?sid + 1" 20] ss [of "length ?sid + 21" 20] ss [of "length ?sid + 41" "length ?p"] l len
    by (simp_all add: id)
  have nums: "StrToUint64 ?t = Some (bi_callerTokenID ?i)" "StrToUint64 ?p = Some w" "StrToInt32 ?r = Some (bi_callerRealPid ?i)"
    using StrToUint64_pad20 [OF u64_bound] StrToUint64_nat_str [OF u64_bound] StrToInt32_pad20 [of "nat (bi_callerRealPid ?i)"] assms(7,8)
    by simp_all
  have v: "GetUint64ValueByStrSlice identity (length ?sid + 1) 20 = Some (bi_callerTokenID ?i)"
    "GetCallerRealPidByStr identity (length ?sid + 21) 20 = Some (bi_callerRealPid ?i)"
    "GetUint64ValueByStrSlice identity (length ?sid + 41) (length identity - (length ?sid + 41)) = Some w"
    using parts nums len assms(7) by (simp_all add: GetUint64ValueByStrSlice_def GetCallerRealPidByStr_def)
  have pu: "GetCallerPidAndUidByStr identity (length ?sid + 41) =
      (if bi_callerUid ?i < 0 then None else Some (bi_callerPid ?i, bi_callerUid ?i))"
    using v(3) len l(3) token_parts [OF assms(5,6,9,10)] assms(5)
    by (simp add: GetCallerPidAndUidByStr_def w_def [symmetric] Let_def)
  have off: "length ?sid + 1 + 20 = length ?sid + 21" "length ?sid + 1 + 20 * 2 = length ?sid + 41" by simp_all
  have c: "(identity = [] \<or> length identity \<le> 20) = False" "(CHR ''<'' \<notin> set identity) = False"
    using len by (simp_all add: id)
  have "SetCallingIdentity_binder identity (bs_inv s') =
      (if bi_callerUid ?i < 0 then (False, bs_inv s') else (True, bs_inv s))"
    unfolding SetCallingIdentity_binder_def Let_def pos c if_False parts(1) option.case v(1) off v(2) pu by (simp add: s')
  then show ?thesis by (simp add: s')
qed

theorem binder_identity_roundtrip_witness:
  "SetCallingIdentity_binder (fst (ResetCallingIdentity_binder example_binder example_thread))
     (bs_inv (snd (ResetCallingIdentity_binder example_binder example_thread))) = (True, bs_inv example_thread)"
  using binder_identity_roundtrip [of example_binder example_thread
      "fst (ResetCallingIdentity_binder example_binder example_thread)" "snd (ResetCallingIdentity_binder example_binder example_thread)"]
  by (simp add: uses_other_info_def example_thread_def BinderInvoker_def example_binder_def example_local_def Let_def)

section \<open>Objects and descriptors\<close>

lemma flat_roundtrip: "flat_of (flat_bytes f @ rest) = f"
  by (simp add: flat_of_def flat_bytes_def)

lemma handle_back [simp]: "ucast (ucast h :: u64) = (h :: u32)"
  by (rule bit_word_eqI) (simp add: bit_simps)

lemma length_flat_bytes [simp]: "length (flat_bytes f) = 24"
  by (simp add: flat_bytes_def)

lemma no_negotiation:
  assumes "parcel_ok P" "hdr_type f \<noteq> BINDER_TYPE_PTR"
  shows "UnFlattenDBinderObject P (flat_bytes f @ rest) = (None, flat_bytes f @ rest)"
proof -
  have "take 4 (flat_bytes f @ rest) = word_bytes (hdr_type f)" by (simp add: flat_bytes_def)
  then show ?thesis using assms by (simp add: UnFlattenDBinderObject_def parcel_ok_def)
qed

lemma unflatten_flat:
  assumes "parcel_ok P" "hdr_type f \<noteq> BINDER_TYPE_PTR" "check (flat_bytes f @ rest)"
  shows "UnflattenObject P check find_object (Some st) (flat_bytes f @ rest) =
    (if hdr_type f = BINDER_TYPE_BINDER then (if ips_IsContainsObject (fb_cookie f) st then fb_cookie f else nullptr)
     else if hdr_type f = BINDER_TYPE_HANDLE then find_object (fb_handle f) None else nullptr, rest)"
proof -
  have "pl_buffer P 24 (flat_bytes f @ rest) = (Some (flat_bytes f), rest)" using assms(1) by (simp add: parcel_ok_def)
  then show ?thesis
    using assms(3) flat_roundtrip [of f "[]"] by (simp add: UnflattenObject_def no_negotiation [OF assms(1,2)] Let_def)
qed

text \<open>
  C33. What is written into a parcel for an object or a descriptor is 24 bytes, and reading them takes
  exactly these bytes: a stub comes back as its address if the process still knows it and as null
  otherwise, a proxy comes back as the object for its handle, and a descriptor as its number. An
  object read as a descriptor gives -1, a descriptor read as an object gives null.
\<close>

theorem parcel_objects_roundtrip:
  assumes "parcel_ok P" "\<forall>p. check p" "- 2147483648 \<le> fd" "fd \<le> 2147483647"
  shows "(\<forall>q. FlattenObject P (Some ob) p = (True, q) \<longrightarrow> (\<exists>bs. q = p @ bs \<and> length bs = 24 \<and>
      UnflattenObject P check find_object (Some st) (bs @ rest) =
        (case ob of ProxyObject handle proto \<Rightarrow> find_object handle None
         | StubObject addr sid refs \<Rightarrow> if ips_IsContainsObject addr st then addr else nullptr, rest) \<and>
      ReadFileDescriptor_binder P (bs @ rest) = (- 1, rest))) \<and>
    (\<forall>q. WriteFileDescriptor_binder P fd own p = (True, q) \<longrightarrow> (\<exists>bs. q = p @ bs \<and> length bs = 24 \<and>
      ReadFileDescriptor_binder P (bs @ rest) = (fd, rest) \<and>
      UnflattenObject P check find_object (Some st) (bs @ rest) = (nullptr, rest)))"
proof (intro conjI allI impI)
  have rd: "ReadFileDescriptor_binder P (flat_bytes f @ rest) =
      (if hdr_type f = BINDER_TYPE_FD \<or> hdr_type f = BINDER_TYPE_FDR then sint (fb_handle f) else - 1, rest)" for f
    using assms(1) flat_roundtrip [of f "[]"] by (simp add: ReadFileDescriptor_binder_def parcel_ok_def Let_def)
  have wr: "q = p @ bs" if "pl_write P p bs = Some q" for bs q
    using that pl_write_cases [OF assms(1), of p bs] by cases simp_all
  note un = unflatten_flat [OF assms(1) _ assms(2) [rule_format]]
  fix q
  { assume "FlattenObject P (Some ob) p = (True, q)"
    then have q: "q = p @ flat_bytes (flatten_object ob)" using wr by (simp add: FlattenObject_def split: option.splits)
    show "\<exists>bs. q = p @ bs \<and> length bs = 24 \<and> UnflattenObject P check find_object (Some st) (bs @ rest) =
        (case ob of ProxyObject handle proto \<Rightarrow> find_object handle None
         | StubObject addr sid refs \<Rightarrow> if ips_IsContainsObject addr st then addr else nullptr, rest) \<and>
      ReadFileDescriptor_binder P (bs @ rest) = (- 1, rest)"
      by (intro exI [of _ "flat_bytes (flatten_object ob)"] conjI q length_flat_bytes; cases ob)
        (simp_all add: un rd flatten_object_def fb_handle_def) }
  { assume "WriteFileDescriptor_binder P fd own p = (True, q)"
    then have q: "q = p @ flat_bytes \<lparr>hdr_type = BINDER_TYPE_FD, fb_flags = 0x17F,
        fb_binder = ucast (word_of_int fd :: u32), fb_cookie = (if own then 1 else 0)\<rparr>" (is "_ = _ @ flat_bytes ?f")
      using wr by (auto simp: WriteFileDescriptor_binder_def split: option.splits)
    have "sint (fb_handle ?f) = fd" using sint_u32 [OF assms(3,4)] by (simp add: fb_handle_def)
    then show "\<exists>bs. q = p @ bs \<and> length bs = 24 \<and> ReadFileDescriptor_binder P (bs @ rest) = (fd, rest) \<and>
      UnflattenObject P check find_object (Some st) (bs @ rest) = (nullptr, rest)"
      by (intro exI [of _ "flat_bytes ?f"] conjI q length_flat_bytes) (simp_all add: un rd) }
qed

theorem parcel_objects_roundtrip_witness:
  "\<exists>bs. WriteFileDescriptor_binder std_parcel 5 True [] = (True, bs) \<and> ReadFileDescriptor_binder std_parcel bs = (5, [])"
proof -
  obtain q where q: "WriteFileDescriptor_binder std_parcel 5 True [] = (True, q)"
    by (simp add: WriteFileDescriptor_binder_def std_parcel_def)
  then show ?thesis
    using parcel_objects_roundtrip [OF std_parcel_ok, of "\<lambda>p. True" 5 "ProxyObject 0 0" "[]" undefined undefined "[]" True] by simp
qed

end
