(* ===== verification/Object_Proxy.thy ===== *)
theory Object_Proxy
  imports Databus_Invoker
begin

text \<open>
  \<open>IPCObjectProxy\<close> (\<open>ipc_object_proxy.cpp\<close>): requests to a remote object, its initialisation for
  objects of other devices, the recipients of its death and refresh reports, and its release.

  The state is the proxy, the process it lives in and the calls it made to the invokers and to
  recipients, in their order. What the code asks of others is the parameter \<open>proxy_env\<close>: the answers of
  the invokers (\<open>IRemoteInvoker\<close>), which may depend on all calls so far, the reply parcels, of which
  only their reading functions are used, the recipients, which may change the whole state, and the
  dynamic linker. An argument of a request is what the code writes into the parcel. A result \<open>None\<close>
  means that the call waits for another thread.
\<close>

section \<open>State\<close>

abbreviation (input) DUMP_TRANSACTION :: u32 where "DUMP_TRANSACTION \<equiv> 0x5F444D50"
abbreviation (input) INTERFACE_TRANSACTION :: u32 where "INTERFACE_TRANSACTION \<equiv> 0x5F4E5446"
abbreviation (input) SYNCHRONIZE_REFERENCE :: u32 where "SYNCHRONIZE_REFERENCE \<equiv> 0x5F535943"
abbreviation (input) INVOKE_LISTEN_THREAD :: u32 where "INVOKE_LISTEN_THREAD \<equiv> 0x5F494C54"
abbreviation (input) GET_PROTO_INFO :: u32 where "GET_PROTO_INFO \<equiv> 0x5F475249"
abbreviation (input) GET_SESSION_NAME :: u32 where "GET_SESSION_NAME \<equiv> 0x5F47534E"
abbreviation (input) GET_SESSION_NAME_PID_UID :: u32 where "GET_SESSION_NAME_PID_UID \<equiv> 0x5F475350"
abbreviation (input) GET_GRANTED_SESSION_NAME :: u32 where "GET_GRANTED_SESSION_NAME \<equiv> 0x5F474753"
abbreviation (input) REMOVE_SESSION_NAME :: u32 where "REMOVE_SESSION_NAME \<equiv> 0x5F52534E"
abbreviation (input) CLEAR_DBINDER_SERVICE_STATE :: u32 where "CLEAR_DBINDER_SERVICE_STATE \<equiv> 0x5F444353"
abbreviation (input) DBINDER_OBITUARY_TRANSACTION :: u32 where "DBINDER_OBITUARY_TRANSACTION \<equiv> 0x5F444F54"
abbreviation (input) DBINDER_INCREFS_TRANSACTION :: u32 where "DBINDER_INCREFS_TRANSACTION \<equiv> 0x5F444954"
abbreviation (input) DBINDER_DECREFS_TRANSACTION :: u32 where "DBINDER_DECREFS_TRANSACTION \<equiv> 0x5F444454"
abbreviation (input) MAX_TRANSACTION_ID :: u32 where "MAX_TRANSACTION_ID \<equiv> 0xFFFFFF"

abbreviation (input) IPC_PROXY_TRANSACTION_ERR :: int where "IPC_PROXY_TRANSACTION_ERR \<equiv> 203"
abbreviation (input) IPC_PROXY_INVALID_CODE_ERR :: int where "IPC_PROXY_INVALID_CODE_ERR \<equiv> 204"
abbreviation (input) IPC_PROXY_WRITE_PARCEL_ERR :: int where "IPC_PROXY_WRITE_PARCEL_ERR \<equiv> 205"
abbreviation (input) PROXY_NULL_OBJECT :: int where "PROXY_NULL_OBJECT \<equiv> 7"
abbreviation (input) EBADMSG :: int where "EBADMSG \<equiv> 74"
abbreviation (input) INVALID_HANDLE_VALUE :: u32 where "INVALID_HANDLE_VALUE \<equiv> 0xFFFFFFFF"

record recipient_info =
  ri_recipient :: ptr
  ri_soFuncAddr :: ptr
  ri_soPath :: string

record negotiation_data =
  nd_proto :: u32
  nd_tokenid :: u32
  nd_stub_index :: u64
  nd_target_name :: string
  nd_local_name :: string
  nd_target_device :: string
  nd_local_device :: string
  nd_desc :: u16string

record DBinderNegotiationData =
  dn_peerPid :: int
  dn_peerUid :: int
  dn_peerTokenId :: u32
  dn_stubIndex :: u64
  dn_peerServiceName :: string
  dn_peerDeviceId :: string
  dn_localServiceName :: string
  dn_localDeviceId :: string

record ipc_proxy =
  px_this :: ptr
  px_handle :: u32
  px_proto :: int
  px_initState :: int
  px_isRemoteDead :: bool
  px_remoteDescriptor :: string
  px_interfaceDesc :: u16string
  px_lastErr :: int
  px_lastErrCnt :: int
  px_dbinderData :: "negotiation_data option"
  px_recipients :: "recipient_info list"
  px_refreshRecipients :: "recipient_info list"

datatype arg = ArgU16 u16 | ArgU32 u32 | ArgU64 u64 | ArgI32 int | ArgString string | ArgString16 u16string | ArgObject ptr
  | ArgFd int | ArgString16s "u16string list" | ArgUser ptr

text \<open>
  The calls with their results. A request has its target (the default invoker or the invoker of the
  protocol), the handle, the code, the arguments and whether it is asynchronous.
\<close>

datatype proxy_call =
    InvAcquireHandle u32
  | InvReleaseHandle u32
  | InvAddDeath u32 bool
  | InvRemoveDeath u32 bool
  | InvAddRefresh u32 bool
  | InvRemoveRefresh u32 bool
  | InvSendRequest bool u32 u32 "arg list" bool
  | OnRemoteDied ptr
  | OnRemoteRefreshed ptr
  | ShutdownSocket int

record proxy_world =
  pw_px :: ipc_proxy
  pw_cur :: "process_state option"
  pw_calls :: "proxy_call list"
  pw_sendRequestCount :: int

record 'r proxy_env =
  pe_default_invoker :: bool
  pe_remote_invoker :: "int \<Rightarrow> bool"
  pe_AddDeathRecipient :: "proxy_call list \<Rightarrow> bool"
  pe_RemoveDeathRecipient :: "proxy_call list \<Rightarrow> bool"
  pe_AddRefreshRecipient :: "proxy_call list \<Rightarrow> bool"
  pe_RemoveRefreshRecipient :: "proxy_call list \<Rightarrow> bool"
  pe_send :: "proxy_call list \<Rightarrow> process_state option \<Rightarrow> int \<times> 'r \<times> process_state option"
  pe_empty :: 'r
  pe_ReadUint32 :: "'r \<Rightarrow> u32 \<times> 'r"
  pe_ReadUint64 :: "'r \<Rightarrow> u64 \<times> 'r"
  pe_ReadInt32 :: "'r \<Rightarrow> int \<times> 'r"
  pe_ReadString :: "'r \<Rightarrow> string \<times> 'r"
  pe_ReadString16 :: "'r \<Rightarrow> u16string \<times> 'r"
  pe_write :: "arg \<Rightarrow> bool"
  pe_Str16ToStr8 :: "u16string \<Rightarrow> string"
  pe_dladdr :: "ptr \<Rightarrow> proxy_call list \<Rightarrow> string option"
  pe_first_vfunc :: "ptr \<Rightarrow> ptr"
  pe_OnRemoteDied :: "ptr \<Rightarrow> proxy_world \<Rightarrow> proxy_world"
  pe_OnRemoteRefreshed :: "ptr \<Rightarrow> proxy_world \<Rightarrow> proxy_world"
  pe_objects :: object_env
  pe_threads :: thread_env
  pe_StartServerListener :: "int option"
  pe_CreateClientSocket :: "(string \<Rightarrow> string \<Rightarrow> string \<Rightarrow> int) option"
  pe_socket_listener :: bool
  pe_new_info :: bool
  pe_new_stub :: "ptr option"
  pe_new_session :: "ptr option"
  pe_new_data :: bool
  pe_getpid :: u32
  pe_ERR_DEAD_OBJECT :: int

definition on_px :: "(ipc_proxy \<Rightarrow> ipc_proxy) \<Rightarrow> proxy_world \<Rightarrow> proxy_world" where
  "on_px f w = w\<lparr>pw_px := f (pw_px w)\<rparr>"

definition log_call :: "proxy_call \<Rightarrow> proxy_world \<Rightarrow> proxy_world" where
  "log_call c w = w\<lparr>pw_calls := pw_calls w @ [c]\<rparr>"

definition set_ips :: "process_state \<Rightarrow> ipc_skeleton \<Rightarrow> proxy_world \<Rightarrow> proxy_world" where
  "set_ips st k w = w\<lparr>pw_cur := Some (st\<lparr>ips := k\<rparr>)\<rparr>"

definition IPCObjectProxy :: "ptr \<Rightarrow> u32 \<Rightarrow> u16string \<Rightarrow> int \<Rightarrow> process_state option \<Rightarrow> ipc_proxy \<times> process_state option" where
  "IPCObjectProxy this handle descriptor proto cur =
     (\<lparr>px_this = this, px_handle = handle, px_proto = proto, px_initState = 0, px_isRemoteDead = False,
       px_remoteDescriptor = [], px_interfaceDesc = [], px_lastErr = 0, px_lastErrCnt = 0, px_dbinderData = None,
       px_recipients = [], px_refreshRecipients = []\<rparr>,
      map_option (construct_proxy this descriptor) cur)"

definition IPCObjectProxy_destroy :: "proxy_world \<Rightarrow> proxy_world" where
  "IPCObjectProxy_destroy w =
     (case pw_cur w of
        None \<Rightarrow> w
      | Some st \<Rightarrow>
          (case pskel st of
             None \<Rightarrow> w
           | Some ps \<Rightarrow>
               on_px (\<lambda>p. p\<lparr>px_recipients := []\<rparr>)
                 (w\<lparr>pw_cur := Some (st\<lparr>pskel := Some (snd (DetachValidObject (px_this (pw_px w)) ps))\<rparr>)\<rparr>)))"

section \<open>Requests\<close>

definition SetObjectDied :: "bool \<Rightarrow> proxy_world \<Rightarrow> proxy_world" where
  "SetObjectDied isDied = on_px (\<lambda>p. p\<lparr>px_isRemoteDead := isDied\<rparr>)"

definition IsObjectDead :: "proxy_world \<Rightarrow> bool" where
  "IsObjectDead w = px_isRemoteDead (pw_px w)"

definition SetProto :: "int \<Rightarrow> proxy_world \<Rightarrow> proxy_world" where
  "SetProto proto = on_px (\<lambda>p. p\<lparr>px_proto := proto\<rparr>)"

definition set_descriptor :: "'r proxy_env \<Rightarrow> u16string \<Rightarrow> proxy_world \<Rightarrow> proxy_world" where
  "set_descriptor E d = on_px (\<lambda>p. p\<lparr>px_remoteDescriptor := ConvertToSecureDesc (pe_Str16ToStr8 E d)\<rparr>)"

definition GetDescriptor :: "'r proxy_env \<Rightarrow> u16string \<Rightarrow> proxy_world \<Rightarrow> string \<times> proxy_world" where
  "GetDescriptor E token w =
     (let w1 = (if px_remoteDescriptor (pw_px w) = [] then set_descriptor E token w else w)
      in (px_remoteDescriptor (pw_px w1), w1))"

definition SendRequestInner ::
    "'r proxy_env \<Rightarrow> bool \<Rightarrow> u32 \<Rightarrow> u16string \<Rightarrow> arg list \<Rightarrow> bool \<Rightarrow> proxy_world \<Rightarrow> int \<times> 'r \<times> proxy_world" where
  "SendRequestInner E isLocal cd token args async w =
     (if IsObjectDead w then (pe_ERR_DEAD_OBJECT E, pe_empty E, w)
      else if \<not> (if isLocal then pe_default_invoker E else pe_remote_invoker E (px_proto (pw_px w)))
      then (PROXY_NULL_OBJECT, pe_empty E, w)
      else
        (let w1 = log_call (InvSendRequest isLocal (px_handle (pw_px w)) cd args async)
                    (w\<lparr>pw_sendRequestCount := pw_sendRequestCount w + 1\<rparr>)
         in case pe_send E (pw_calls w1) (pw_cur w1) of
              (status, reply, cur) \<Rightarrow>
                (let w2 = w1\<lparr>pw_cur := cur\<rparr>;
                     w3 = (if status = pe_ERR_DEAD_OBJECT E then SetObjectDied True w2 else w2);
                     w4 = snd (GetDescriptor E token (w3\<lparr>pw_sendRequestCount := pw_sendRequestCount w3 - 1\<rparr>));
                     w5 = (if status \<noteq> 0 then
                             (case IsPrint status (px_lastErr (pw_px w4)) (px_lastErrCnt (pw_px w4)) of
                                (_, e, n) \<Rightarrow> on_px (\<lambda>p. p\<lparr>px_lastErr := e, px_lastErrCnt := n\<rparr>) w4)
                           else w4)
                 in (status, reply, w5))))"

definition SendRequest_proxy ::
    "'r proxy_env \<Rightarrow> u32 \<Rightarrow> u16string \<Rightarrow> arg list \<Rightarrow> bool \<Rightarrow> proxy_world \<Rightarrow> int \<times> 'r \<times> proxy_world" where
  "SendRequest_proxy E cd token args async w =
     (if cd \<noteq> DUMP_TRANSACTION \<and> cd > MAX_TRANSACTION_ID then (IPC_PROXY_INVALID_CODE_ERR, pe_empty E, w)
      else SendRequestInner E False cd token args async (snd (GetDescriptor E token w)))"

definition SendLocalRequest ::
    "'r proxy_env \<Rightarrow> u32 \<Rightarrow> arg list \<Rightarrow> bool \<Rightarrow> proxy_world \<Rightarrow> int \<times> 'r \<times> proxy_world" where
  "SendLocalRequest E cd args async w = SendRequestInner E True cd [] args async w"

text \<open>Writes whose results the code does not look at.\<close>

definition written :: "'r proxy_env \<Rightarrow> arg list \<Rightarrow> arg list" where
  "written E args = filter (pe_write E) args"

definition GetObjectRefCount :: "'r proxy_env \<Rightarrow> proxy_world \<Rightarrow> int \<times> proxy_world" where
  "GetObjectRefCount E w =
     (case SendRequestInner E False SYNCHRONIZE_REFERENCE [] [] False w of
        (err, reply, w1) \<Rightarrow> (if err = 0 then fst (pe_ReadInt32 E reply) else 0, w1))"

definition Dump :: "'r proxy_env \<Rightarrow> int \<Rightarrow> u16string list \<Rightarrow> proxy_world \<Rightarrow> int \<times> proxy_world" where
  "Dump E fd args w =
     (case SendRequestInner E False DUMP_TRANSACTION [] (written E [ArgFd fd, ArgString16s args]) False w of
        (err, _, w1) \<Rightarrow> (err, w1))"

definition GetInterfaceDescriptor :: "'r proxy_env \<Rightarrow> proxy_world \<Rightarrow> u16string \<times> proxy_world" where
  "GetInterfaceDescriptor E w =
     (if px_interfaceDesc (pw_px w) \<noteq> [] then (px_interfaceDesc (pw_px w), w)
      else if px_handle (pw_px w) = 0 then ([], w)
      else (case SendRequestInner E False INTERFACE_TRANSACTION [] [] False w of
          (err, reply, w1) \<Rightarrow>
            if err \<noteq> 0 then ([], w1)
            else (let d = fst (pe_ReadString16 E reply) in (d, on_px (\<lambda>p. p\<lparr>px_interfaceDesc := d\<rparr>) w1))))"

definition GetSessionName :: "'r proxy_env \<Rightarrow> proxy_world \<Rightarrow> string \<times> proxy_world" where
  "GetSessionName E w =
     (case SendRequestInner E False GET_SESSION_NAME [] [] False w of
        (err, reply, w1) \<Rightarrow> (if err \<noteq> 0 then [] else fst (pe_ReadString E reply), w1))"

text \<open>The end that \<open>GetGrantedSessionName\<close> and \<open>GetSessionNameForPidUid\<close> share.\<close>

definition databus_name :: "'r proxy_env \<Rightarrow> int \<times> 'r \<times> proxy_world \<Rightarrow> string \<times> proxy_world" where
  "databus_name E r =
     (case r of (err, reply, w1) \<Rightarrow>
        if err \<noteq> 0 then ([], w1)
        else (case pe_ReadUint32 E reply of (proto, reply1) \<Rightarrow>
            (if uint proto \<noteq> IF_PROT_DATABUS then [] else fst (pe_ReadString E reply1), w1)))"

definition GetGrantedSessionName :: "'r proxy_env \<Rightarrow> proxy_world \<Rightarrow> string \<times> proxy_world" where
  "GetGrantedSessionName E w = databus_name E (SendRequestInner E False GET_GRANTED_SESSION_NAME [] [] False w)"

definition GetSessionNameForPidUid :: "'r proxy_env \<Rightarrow> u32 \<Rightarrow> u32 \<Rightarrow> proxy_world \<Rightarrow> string \<times> proxy_world" where
  "GetSessionNameForPidUid E uid pid w =
     (if pid = pe_getpid E then ([], w)
      else if \<not> pe_write E (ArgU32 pid) \<or> \<not> pe_write E (ArgU32 uid) then ([], w)
      else databus_name E (SendRequestInner E False GET_SESSION_NAME_PID_UID [] [ArgU32 pid, ArgU32 uid] False w))"

definition RemoveSessionName :: "'r proxy_env \<Rightarrow> string \<Rightarrow> proxy_world \<Rightarrow> int \<times> proxy_world" where
  "RemoveSessionName E name w =
     (if \<not> pe_write E (ArgString name) then (IPC_PROXY_WRITE_PARCEL_ERR, w)
      else (case SendRequestInner E False REMOVE_SESSION_NAME [] [ArgString name] True w of (err, _, w1) \<Rightarrow> (err, w1)))"

definition NoticeServiceDie :: "'r proxy_env \<Rightarrow> proxy_world \<Rightarrow> int \<times> proxy_world" where
  "NoticeServiceDie E w =
     (case SendLocalRequest E DBINDER_OBITUARY_TRANSACTION (written E [ArgI32 2]) True w of
        (err, reply, w1) \<Rightarrow>
          (if err \<noteq> 0 \<or> fst (pe_ReadInt32 E reply) \<noteq> 0 then IPC_PROXY_TRANSACTION_ERR else 0, w1))"

definition InvokeListenThread :: "'r proxy_env \<Rightarrow> arg list \<Rightarrow> proxy_world \<Rightarrow> int \<times> 'r \<times> proxy_world" where
  "InvokeListenThread E args w = SendRequestInner E False INVOKE_LISTEN_THREAD [] args False w"

definition IncRefToRemote :: "'r proxy_env \<Rightarrow> proxy_world \<Rightarrow> int \<times> proxy_world" where
  "IncRefToRemote E w =
     (case SendRequestInner E False DBINDER_INCREFS_TRANSACTION [] [] False w of (err, _, w1) \<Rightarrow> (err, w1))"

definition ClearDBinderServiceState :: "'r proxy_env \<Rightarrow> proxy_world \<Rightarrow> int \<times> proxy_world" where
  "ClearDBinderServiceState E w =
     (case SendRequestInner E True CLEAR_DBINDER_SERVICE_STATE [] [] False (SetObjectDied False w) of
        (err, _, w1) \<Rightarrow> (err, SetObjectDied (IsObjectDead w) w1))"

section \<open>Sessions with other devices\<close>

definition CheckHaveSession :: "proxy_world \<Rightarrow> bool \<times> proxy_world" where
  "CheckHaveSession w =
     (case pw_cur w of
        None \<Rightarrow> (False, w)
      | Some st \<Rightarrow>
          (case ProxyMoveDBinderSession (px_handle (pw_px w)) (px_this (pw_px w)) (ips st) of
             (r, k) \<Rightarrow> (r, set_ips st k w)))"

definition MakeDBinderTransSession :: "'r proxy_env \<Rightarrow> DBinderNegotiationData \<Rightarrow> proxy_world \<Rightarrow> bool \<times> proxy_world" where
  "MakeDBinderTransSession E d w =
     (if \<not> pe_remote_invoker E IF_PROT_DATABUS then (False, w)
      else (case pw_cur w of
          None \<Rightarrow> (False, w)
        | Some st \<Rightarrow>
            if dn_peerServiceName d = [] then (False, w)
            else (case pe_new_session E of
                None \<Rightarrow> (False, w)
              | Some p \<Rightarrow>
                  (let o1 = SetPeerUid (dn_peerUid d) (SetPeerPid (dn_peerPid d)
                         (DBinderSessionObject (dn_peerServiceName d) (dn_peerDeviceId d) (dn_stubIndex d)
                            (px_this (pw_px w)) (dn_peerTokenId d)))
                   in case CreateSoftbusServer (pe_threads E) (pe_StartServerListener E) (dn_localServiceName d) st of
                        (False, st1) \<Rightarrow> (False, w\<lparr>pw_cur := Some st1\<rparr>)
                      | (True, st1) \<Rightarrow>
                          (case UpdateClientSession (pe_CreateClientSocket E) o1 (Some st1) of
                             (False, _) \<Rightarrow> (False, w\<lparr>pw_cur := Some st1\<rparr>)
                           | (True, o2) \<Rightarrow>
                               (case ProxyAttachDBinderSession (px_handle (pw_px w)) p (on_session p (\<lambda>_. o2) (ips st1)) of
                                  None \<Rightarrow> (False, w\<lparr>pw_cur := Some st1\<rparr>)
                                | Some (True, k) \<Rightarrow> (True, set_ips st1 k w)
                                | Some (False, k) \<Rightarrow>
                                    if QuerySessionByInfo (dn_peerServiceName d) (dn_peerDeviceId d) k = nullptr
                                    then (case CloseDatabusSession (pe_socket_listener E) o2 of
                                        (s, o3) \<Rightarrow>
                                          (False, (case s of None \<Rightarrow> id | Some i \<Rightarrow> log_call (ShutdownSocket i))
                                             (set_ips st1 (on_session p (\<lambda>_. o3) k) w)))
                                    else (True, set_ips st1 k w)))))))"

text \<open>\<open>None\<close> is \<open>ERR_INVALID_DATA\<close>.\<close>

definition GetDBinderNegotiationData_reply :: "'r proxy_env \<Rightarrow> 'r \<Rightarrow> DBinderNegotiationData option \<times> 'r" where
  "GetDBinderNegotiationData_reply E r0 =
     (case pe_ReadUint64 E r0 of (idx, r1) \<Rightarrow> case pe_ReadString E r1 of (peerName, r2) \<Rightarrow>
      case pe_ReadString E r2 of (peerDevice, r3) \<Rightarrow> case pe_ReadString E r3 of (localDevice, r4) \<Rightarrow>
      case pe_ReadString E r4 of (localName, r5) \<Rightarrow> case pe_ReadUint32 E r5 of (tokenId, r6) \<Rightarrow>
        (if peerName = [] \<or> peerDevice = [] \<or> localDevice = [] \<or> localName = [] then None
         else (case GetPidAndUidFromServiceName peerName of
             None \<Rightarrow> None
           | Some (pid, uid) \<Rightarrow>
               Some \<lparr>dn_peerPid = pid, dn_peerUid = uid, dn_peerTokenId = tokenId, dn_stubIndex = idx,
                 dn_peerServiceName = peerName, dn_peerDeviceId = peerDevice, dn_localServiceName = localName,
                 dn_localDeviceId = localDevice\<rparr>), r6))"

definition UpdateDatabusClientSession_reply :: "'r proxy_env \<Rightarrow> 'r \<Rightarrow> proxy_world \<Rightarrow> bool \<times> 'r \<times> proxy_world" where
  "UpdateDatabusClientSession_reply E r w =
     (case GetDBinderNegotiationData_reply E r of
        (None, r1) \<Rightarrow> (False, r1, w)
      | (Some d, r1) \<Rightarrow> (case MakeDBinderTransSession E d w of (ok, w1) \<Rightarrow> (ok, r1, w1)))"

definition GetDBinderNegotiationData :: "proxy_world \<Rightarrow> DBinderNegotiationData option" where
  "GetDBinderNegotiationData w =
     (case px_dbinderData (pw_px w) of
        None \<Rightarrow> None
      | Some n \<Rightarrow>
          (case GetPidAndUidFromServiceName (nd_target_name n) of
             None \<Rightarrow> None
           | Some (pid, uid) \<Rightarrow>
               Some \<lparr>dn_peerPid = pid, dn_peerUid = uid, dn_peerTokenId = nd_tokenid n, dn_stubIndex = nd_stub_index n,
                 dn_peerServiceName = nd_target_name n, dn_peerDeviceId = nd_target_device n,
                 dn_localServiceName = nd_local_name n, dn_localDeviceId = nd_local_device n\<rparr>))"

definition UpdateDatabusClientSession :: "'r proxy_env \<Rightarrow> proxy_world \<Rightarrow> bool \<times> proxy_world" where
  "UpdateDatabusClientSession E w =
     (case GetDBinderNegotiationData w of None \<Rightarrow> (False, w) | Some d \<Rightarrow> MakeDBinderTransSession E d w)"

definition UpdateProto :: "'r proxy_env \<Rightarrow> negotiation_data option \<Rightarrow> proxy_world \<Rightarrow> bool \<times> proxy_world" where
  "UpdateProto E data w =
     (case data of
        Some n \<Rightarrow>
          if uint (nd_proto n) = IF_PROT_DATABUS then
            (if \<not> pe_new_data E then
               (False, SetProto IF_PROT_ERROR (SetObjectDied True (on_px (\<lambda>p. p\<lparr>px_dbinderData := None\<rparr>) w)))
             else (case UpdateDatabusClientSession E (on_px (\<lambda>p. p\<lparr>px_dbinderData := Some n\<rparr>) w) of
                 (False, w1) \<Rightarrow>
                   (False, on_px (\<lambda>p. p\<lparr>px_dbinderData := None\<rparr>) (SetProto IF_PROT_ERROR (SetObjectDied True w1)))
               | (True, w1) \<Rightarrow> (True, set_descriptor E (nd_desc n) (SetProto IF_PROT_DATABUS w1))))
          else (case CheckHaveSession w of (r, w1) \<Rightarrow> (True, if r then SetProto IF_PROT_DATABUS w1 else w1))
      | None \<Rightarrow> (case CheckHaveSession w of (r, w1) \<Rightarrow> (True, if r then SetProto IF_PROT_DATABUS w1 else w1)))"

definition GetProtoInfo :: "'r proxy_env \<Rightarrow> proxy_world \<Rightarrow> int \<times> proxy_world" where
  "GetProtoInfo E w =
     (case CheckHaveSession w of
        (True, w1) \<Rightarrow> (IF_PROT_DATABUS, w1)
      | (False, w1) \<Rightarrow>
          if px_handle (pw_px w1) \<ge> DBINDER_HANDLE_BASE then (IF_PROT_ERROR, w1)
          else (case SendRequestInner E True GET_PROTO_INFO [] [] False w1 of
              (err, reply, w2) \<Rightarrow>
                if err \<noteq> 0 \<and> err \<noteq> - EBADMSG then (IF_PROT_ERROR, w2)
                else (case pe_ReadUint32 E reply of (proto, r1) \<Rightarrow>
                    if uint proto = IF_PROT_DEFAULT
                    then (IF_PROT_DEFAULT, set_descriptor E (fst (pe_ReadString16 E r1)) w2)
                    else if uint proto = IF_PROT_DATABUS
                    then (case UpdateDatabusClientSession_reply E r1 w2 of
                        (True, r2, w3) \<Rightarrow> (IF_PROT_DATABUS, set_descriptor E (fst (pe_ReadString16 E r2)) w3)
                      | (False, r2, w3) \<Rightarrow> (IF_PROT_ERROR, w3))
                    else (IF_PROT_ERROR, w2))))"

definition UpdateProto_query :: "'r proxy_env \<Rightarrow> proxy_world \<Rightarrow> int \<times> proxy_world" where
  "UpdateProto_query E w = (case GetProtoInfo E w of (proto, w1) \<Rightarrow> (proto, SetProto proto w1))"

text \<open>
  The three states of the initialisation are 0 (not yet), 1 (a thread is at it) and 2 (done). The
  last part is common to all ways that do not return early.
\<close>

definition init_tail :: "'r proxy_env \<Rightarrow> proxy_world \<Rightarrow> proxy_world" where
  "init_tail E w =
     (if px_proto (pw_px w) = IF_PROT_DATABUS then
        (case IncRefToRemote E w of
           (err, w1) \<Rightarrow> if err \<noteq> 0 then SetObjectDied True (SetProto IF_PROT_ERROR w1) else w1)
      else w)"

definition set_init :: "int \<Rightarrow> proxy_world \<Rightarrow> proxy_world" where
  "set_init v = on_px (\<lambda>p. p\<lparr>px_initState := v\<rparr>)"

definition WaitForInit :: "'r proxy_env \<Rightarrow> negotiation_data option \<Rightarrow> proxy_world \<Rightarrow> proxy_world option" where
  "WaitForInit E data w =
     (let w1 = (if IsObjectDead w then set_init 0 (SetObjectDied False w) else w) in
      if px_initState (pw_px w1) = 0 then
        (case UpdateProto E data (set_init 1 w1) of
           (True, w2) \<Rightarrow> Some (init_tail E (set_init 2 w2))
         | (False, w2) \<Rightarrow> Some (set_init 0 w2))
      else if px_initState (pw_px w1) = 1 then None
      else
        (if px_proto (pw_px w1) = IF_PROT_DATABUS then
           (case CheckHaveSession w1 of
              (True, w2) \<Rightarrow> Some (init_tail E w2)
            | (False, w2) \<Rightarrow> Some (init_tail E (SetObjectDied True (SetProto IF_PROT_ERROR w2))))
         else Some (init_tail E w1)))"

text \<open>The thread that waited goes on when the state is no longer 1.\<close>

definition WaitForInit_resume :: "'r proxy_env \<Rightarrow> proxy_world \<Rightarrow> proxy_world option" where
  "WaitForInit_resume E w =
     (if px_initState (pw_px w) = 1 then None
      else if px_initState (pw_px w) \<noteq> 2 then Some w
      else Some (init_tail E w))"

section \<open>Recipients\<close>

text \<open>\<open>dladdr\<close> without an answer gives the empty path.\<close>

definition GetNewSoPath :: "'r proxy_env \<Rightarrow> ptr \<Rightarrow> proxy_world \<Rightarrow> string" where
  "GetNewSoPath E addr w =
     (if addr = nullptr then [] else (case pe_dladdr E addr (pw_calls w) of None \<Rightarrow> [] | Some path \<Rightarrow> path))"

definition DeathRecipientAddrInfo :: "'r proxy_env \<Rightarrow> ptr \<Rightarrow> proxy_world \<Rightarrow> recipient_info" where
  "DeathRecipientAddrInfo E recipient w =
     (if recipient = nullptr then \<lparr>ri_recipient = recipient, ri_soFuncAddr = nullptr, ri_soPath = []\<rparr>
      else \<lparr>ri_recipient = recipient, ri_soFuncAddr = pe_first_vfunc E recipient,
            ri_soPath = GetNewSoPath E (pe_first_vfunc E recipient) w\<rparr>)"

definition IsDlclosed :: "'r proxy_env \<Rightarrow> recipient_info \<Rightarrow> proxy_world \<Rightarrow> bool" where
  "IsDlclosed E info w =
     (let p = GetNewSoPath E (ri_soFuncAddr info) w in p = [] \<or> p \<noteq> ri_soPath info)"

text \<open>The calls to the default invoker; the handle is the one the proxy has at that time.\<close>

definition inv_add_death :: "'r proxy_env \<Rightarrow> proxy_world \<Rightarrow> bool \<times> proxy_world" where
  "inv_add_death E w =
     (let r = pe_AddDeathRecipient E (pw_calls w) in (r, log_call (InvAddDeath (px_handle (pw_px w)) r) w))"

definition inv_remove_death :: "'r proxy_env \<Rightarrow> proxy_world \<Rightarrow> bool \<times> proxy_world" where
  "inv_remove_death E w =
     (let r = pe_RemoveDeathRecipient E (pw_calls w) in (r, log_call (InvRemoveDeath (px_handle (pw_px w)) r) w))"

definition inv_add_refresh :: "'r proxy_env \<Rightarrow> proxy_world \<Rightarrow> bool \<times> proxy_world" where
  "inv_add_refresh E w =
     (let r = pe_AddRefreshRecipient E (pw_calls w) in (r, log_call (InvAddRefresh (px_handle (pw_px w)) r) w))"

definition inv_remove_refresh :: "'r proxy_env \<Rightarrow> proxy_world \<Rightarrow> bool \<times> proxy_world" where
  "inv_remove_refresh E w =
     (let r = pe_RemoveRefreshRecipient E (pw_calls w) in (r, log_call (InvRemoveRefresh (px_handle (pw_px w)) r) w))"

definition AddDbinderDeathRecipient :: "'r proxy_env \<Rightarrow> proxy_world \<Rightarrow> bool \<times> proxy_world" where
  "AddDbinderDeathRecipient E w =
     (case pw_cur w of
        None \<Rightarrow> (False, w)
      | Some st \<Rightarrow>
          if QueryCallbackStub (px_this (pw_px w)) (ips st) \<noteq> nullptr then (True, w)
          else (case pe_new_stub E of
              None \<Rightarrow> (False, w)
            | Some stub \<Rightarrow>
                (case AttachCallbackStub (px_this (pw_px w)) stub (ips st) of
                   (False, k) \<Rightarrow> (False, set_ips st k w)
                 | (True, k) \<Rightarrow>
                     (case SendLocalRequest E DBINDER_OBITUARY_TRANSACTION (written E [ArgI32 0, ArgObject stub]) False (set_ips st k w) of
                        (err, _, w1) \<Rightarrow>
                          if err \<noteq> 0 then
                            (False, w1\<lparr>pw_cur := map_option (\<lambda>st1. st1\<lparr>ips := snd (DetachCallbackStub (px_this (pw_px w1)) (ips st1))\<rparr>)
                                      (pw_cur w1)\<rparr>)
                          else (True, w1)))))"

definition RemoveDbinderDeathRecipient :: "'r proxy_env \<Rightarrow> proxy_world \<Rightarrow> bool \<times> proxy_world" where
  "RemoveDbinderDeathRecipient E w =
     (case pw_cur w of
        None \<Rightarrow> (False, w)
      | Some st \<Rightarrow>
          (case DetachCallbackStub (px_this (pw_px w)) (ips st) of
             (stub, k) \<Rightarrow>
               if stub = nullptr then (False, set_ips st k w)
               else (case SendLocalRequest E DBINDER_OBITUARY_TRANSACTION (written E [ArgI32 1, ArgObject stub]) False (set_ips st k w) of
                   (err, _, w1) \<Rightarrow> (err = 0, w1))))"

abbreviation (input) over_databus :: "proxy_world \<Rightarrow> bool" where
  "over_databus w \<equiv> px_proto (pw_px w) = IF_PROT_DATABUS \<or> px_proto (pw_px w) = IF_PROT_ERROR"

definition RegisterBinderDeathRecipient :: "'r proxy_env \<Rightarrow> proxy_world \<Rightarrow> bool \<times> proxy_world" where
  "RegisterBinderDeathRecipient E w =
     (if \<not> pe_default_invoker E then (False, w)
      else (case inv_add_death E w of
          (False, w1) \<Rightarrow> (False, w1)
        | (True, w1) \<Rightarrow>
            if px_proto (pw_px w1) = IF_PROT_DATABUS then
              (case AddDbinderDeathRecipient E w1 of
                 (True, w2) \<Rightarrow> (True, w2)
               | (False, w2) \<Rightarrow> (False, snd (inv_remove_death E w2)))
            else (True, w1)))"

definition UnRegisterBinderDeathRecipient :: "'r proxy_env \<Rightarrow> proxy_world \<Rightarrow> bool \<times> proxy_world" where
  "UnRegisterBinderDeathRecipient E w =
     (if \<not> pe_default_invoker E then (False, w)
      else (case inv_remove_death E w of
          (status, w1) \<Rightarrow>
            if over_databus w1 then
              (case RemoveDbinderDeathRecipient E w1 of (dbinderStatus, w2) \<Rightarrow> (status \<and> dbinderStatus, w2))
            else (status, w1)))"

definition AddDeathRecipient :: "'r proxy_env \<Rightarrow> ptr \<Rightarrow> proxy_world \<Rightarrow> bool \<times> proxy_world" where
  "AddDeathRecipient E recipient w =
     (if recipient = nullptr then (False, w)
      else if IsObjectDead w then (False, w)
      else if \<not> pe_new_info E \<or> ri_soPath (DeathRecipientAddrInfo E recipient w) = [] then (False, w)
      else
        (let w1 = on_px (\<lambda>p. p\<lparr>px_recipients := px_recipients p @ [DeathRecipientAddrInfo E recipient w]\<rparr>) w in
         if length (px_recipients (pw_px w1)) > 1 \<or> px_handle (pw_px w1) \<ge> DBINDER_HANDLE_BASE then (True, w1)
         else (case RegisterBinderDeathRecipient E w1 of
             (True, w2) \<Rightarrow> (True, w2)
           | (False, w2) \<Rightarrow> (False, on_px (\<lambda>p. p\<lparr>px_recipients := butlast (px_recipients p)\<rparr>) w2))))"

definition has_recipient :: "ptr \<Rightarrow> recipient_info list \<Rightarrow> bool" where
  "has_recipient r infos \<longleftrightarrow> (\<exists>i \<in> set infos. ri_recipient i = r)"

definition RemoveDeathRecipient :: "'r proxy_env \<Rightarrow> ptr \<Rightarrow> proxy_world \<Rightarrow> bool \<times> proxy_world" where
  "RemoveDeathRecipient E recipient w =
     (if recipient = nullptr then (False, w)
      else if IsObjectDead w then (False, w)
      else
        (let erased = has_recipient recipient (px_recipients (pw_px w));
             w1 = on_px (\<lambda>p. p\<lparr>px_recipients := remove_first (\<lambda>i. ri_recipient i = recipient) (px_recipients p)\<rparr>) w
         in if px_handle (pw_px w1) \<ge> DBINDER_HANDLE_BASE \<and> erased then (True, w1)
            else
              (case (if erased \<and> px_recipients (pw_px w1) = [] then UnRegisterBinderDeathRecipient E w1 else (True, w1)) of
                 (False, w2) \<Rightarrow> (False, w2)
               | (True, w2) \<Rightarrow> (if px_refreshRecipients (pw_px w2) \<noteq> [] then False else erased, w2))))"

fun died_loop :: "'r proxy_env \<Rightarrow> recipient_info list \<Rightarrow> proxy_world \<Rightarrow> proxy_world" where
  "died_loop E [] w = w"
| "died_loop E (i # is) w =
     died_loop E is
       (if IsDlclosed E i w then w
        else if ri_recipient i \<noteq> nullptr
        then pe_OnRemoteDied E (ri_recipient i) (log_call (OnRemoteDied (ri_recipient i)) w) else w)"

definition ClearRefreshRecipients :: "'r proxy_env \<Rightarrow> proxy_world \<Rightarrow> proxy_world" where
  "ClearRefreshRecipients E w =
     (if px_refreshRecipients (pw_px w) = [] then w
      else
        (let w1 = on_px (\<lambda>p. p\<lparr>px_refreshRecipients := []\<rparr>) w in
         if px_handle (pw_px w1) \<ge> DBINDER_HANDLE_BASE then w1
         else if pe_default_invoker E then snd (inv_remove_refresh E w1) else w1))"

definition SendObituary_proxy :: "'r proxy_env \<Rightarrow> proxy_world \<Rightarrow> proxy_world" where
  "SendObituary_proxy E w =
     (let toBeReport = px_recipients (pw_px w);
          w1 = on_px (\<lambda>p. p\<lparr>px_recipients := []\<rparr>) w;
          w2 = (if px_handle (pw_px w1) < DBINDER_HANDLE_BASE \<and> over_databus w1
                then snd (RemoveDbinderDeathRecipient E w1) else w1);
          w3 = ClearRefreshRecipients E (SetObjectDied True w2);
          w4 = (if toBeReport \<noteq> [] \<and> px_handle (pw_px w3) < DBINDER_HANDLE_BASE \<and> pe_default_invoker E
                then snd (inv_remove_death E w3) else w3)
      in died_loop E toBeReport w4)"

definition ClearDeathRecipients :: "'r proxy_env \<Rightarrow> proxy_world \<Rightarrow> proxy_world" where
  "ClearDeathRecipients E w =
     (if px_recipients (pw_px w) = [] then w
      else
        (let w1 = on_px (\<lambda>p. p\<lparr>px_recipients := []\<rparr>) w in
         if px_handle (pw_px w1) \<ge> DBINDER_HANDLE_BASE then w1
         else
           (let w2 = (if pe_default_invoker E then snd (inv_remove_death E w1) else w1)
            in if over_databus w2 then snd (RemoveDbinderDeathRecipient E w2) else w2)))"

definition AddRefreshRecipient_proxy :: "'r proxy_env \<Rightarrow> ptr \<Rightarrow> proxy_world \<Rightarrow> bool \<times> proxy_world" where
  "AddRefreshRecipient_proxy E recipient w =
     (if recipient = nullptr then (False, w)
      else if px_recipients (pw_px w) = [] then (False, w)
      else if IsObjectDead w then (False, w)
      else if \<not> pe_new_info E \<or> ri_soPath (DeathRecipientAddrInfo E recipient w) = [] then (False, w)
      else
        (let w1 = on_px (\<lambda>p. p\<lparr>px_refreshRecipients := px_refreshRecipients p @ [DeathRecipientAddrInfo E recipient w]\<rparr>) w in
         if length (px_refreshRecipients (pw_px w1)) > 1 \<or> px_handle (pw_px w1) \<ge> DBINDER_HANDLE_BASE then (True, w1)
         else (case (if pe_default_invoker E then inv_add_refresh E w1 else (False, w1)) of
             (True, w2) \<Rightarrow> (True, w2)
           | (False, w2) \<Rightarrow> (False, on_px (\<lambda>p. p\<lparr>px_refreshRecipients := butlast (px_refreshRecipients p)\<rparr>) w2))))"

definition RemoveRefreshRecipient_proxy :: "'r proxy_env \<Rightarrow> ptr \<Rightarrow> proxy_world \<Rightarrow> bool \<times> proxy_world" where
  "RemoveRefreshRecipient_proxy E recipient w =
     (if recipient = nullptr then (False, w)
      else if IsObjectDead w then (False, w)
      else
        (let erased = has_recipient recipient (px_refreshRecipients (pw_px w));
             w1 = on_px (\<lambda>p. p\<lparr>px_refreshRecipients := remove_first (\<lambda>i. ri_recipient i = recipient) (px_refreshRecipients p)\<rparr>) w
         in if px_handle (pw_px w1) \<ge> DBINDER_HANDLE_BASE \<and> erased then (True, w1)
            else
              (case (if erased \<and> px_refreshRecipients (pw_px w1) = []
                     then (if pe_default_invoker E then inv_remove_refresh E w1 else (False, w1)) else (True, w1)) of
                 (False, w2) \<Rightarrow> (False, w2)
               | (True, w2) \<Rightarrow> (erased, w2))))"

fun refreshed_loop :: "'r proxy_env \<Rightarrow> recipient_info list \<Rightarrow> proxy_world \<Rightarrow> proxy_world" where
  "refreshed_loop E [] w = w"
| "refreshed_loop E (i # is) w =
     refreshed_loop E is
       (if IsDlclosed E i w then w
        else if ri_recipient i \<noteq> nullptr
        then pe_OnRemoteRefreshed E (ri_recipient i) (log_call (OnRemoteRefreshed (ri_recipient i)) w) else w)"

definition SendRefreshObituary_proxy :: "'r proxy_env \<Rightarrow> proxy_world \<Rightarrow> proxy_world" where
  "SendRefreshObituary_proxy E w = refreshed_loop E (px_refreshRecipients (pw_px w)) w"

section \<open>References\<close>

definition OnFirstStrongRef_proxy :: "'r proxy_env \<Rightarrow> proxy_world \<Rightarrow> proxy_world" where
  "OnFirstStrongRef_proxy E w =
     (if pe_default_invoker E then log_call (InvAcquireHandle (px_handle (pw_px w))) w else w)"

definition ReleaseDatabusProto :: "'r proxy_env \<Rightarrow> proxy_world \<Rightarrow> proxy_world" where
  "ReleaseDatabusProto E w =
     (if px_handle (pw_px w) = 0 then w
      else (case SendRequestInner E False DBINDER_DECREFS_TRANSACTION [] [] True w of
          (err, _, w1) \<Rightarrow>
            (case pw_cur w1 of
               None \<Rightarrow> w1
             | Some st \<Rightarrow>
                 (case ProxyDetachDBinderSession (px_handle (pw_px w1)) (px_this (pw_px w1)) (ips st) of
                    (p, k) \<Rightarrow>
                      (let w2 = (if p \<noteq> nullptr \<and>
                                    QuerySessionByInfo (serviceName (sessions k p)) (serverDeviceId (sessions k p)) k = nullptr
                                 then (case CloseDatabusSession (pe_socket_listener E) (sessions k p) of
                                     (s, o1) \<Rightarrow> (case s of None \<Rightarrow> id | Some i \<Rightarrow> log_call (ShutdownSocket i))
                                       (set_ips st (on_session p (\<lambda>_. o1) k) w1))
                                 else set_ips st k w1)
                       in snd (ClearDBinderServiceState E w2))))))"

definition ReleaseProto :: "'r proxy_env \<Rightarrow> proxy_world \<Rightarrow> proxy_world" where
  "ReleaseProto E w = (if over_databus w then ReleaseDatabusProto E w else w)"

definition OnLastStrongRef :: "'r proxy_env \<Rightarrow> proxy_world \<Rightarrow> proxy_world option" where
  "OnLastStrongRef E w =
     (case pw_cur w of
        None \<Rightarrow> Some w
      | Some _ \<Rightarrow>
          (let w1 = ClearDeathRecipients E (ClearRefreshRecipients E (ReleaseProto E w));
               w2 = (if pe_default_invoker E \<and> px_handle (pw_px w1) \<noteq> INVALID_HANDLE_VALUE
                     then on_px (\<lambda>p. p\<lparr>px_handle := INVALID_HANDLE_VALUE\<rparr>)
                            (log_call (InvReleaseHandle (px_handle (pw_px w1))) w1)
                     else w1)
           in case pw_cur w2 of
                None \<Rightarrow> Some w2
              | Some st \<Rightarrow>
                  (case ips_DetachObject (pe_objects E) (px_this (pw_px w2)) st of
                     None \<Rightarrow> None
                   | Some (_, st1) \<Rightarrow> Some (w2\<lparr>pw_cur := Some st1\<rparr>))))"

end
