(* ===== verification/Object_Proxy_Proofs.thy ===== *)
theory Object_Proxy_Proofs
  imports Object_Proxy
begin

text \<open>
  Correctness of proxies: the registrations with the driver follow the recipients, a death report
  calls each recipient once, and the release of a proxy withdraws everything before its handle.
\<close>

named_theorems view_simps \<open>operations that leave recipients and registrations alone\<close>

section \<open>Registrations\<close>

text \<open>How many registrations of a kind the driver has: successful additions less removals.\<close>

fun death_change :: "proxy_call \<Rightarrow> int" where
  "death_change (InvAddDeath h True) = 1"
| "death_change (InvRemoveDeath h True) = - 1"
| "death_change _ = 0"

fun refresh_change :: "proxy_call \<Rightarrow> int" where
  "refresh_change (InvAddRefresh h True) = 1"
| "refresh_change (InvRemoveRefresh h True) = - 1"
| "refresh_change _ = 0"

definition death_registrations :: "proxy_world \<Rightarrow> int" where
  "death_registrations w = sum_list (map death_change (pw_calls w))"

definition refresh_registrations :: "proxy_world \<Rightarrow> int" where
  "refresh_registrations w = sum_list (map refresh_change (pw_calls w))"

fun released_handle :: "proxy_call \<Rightarrow> u32 list" where
  "released_handle (InvReleaseHandle h) = [h]"
| "released_handle _ = []"

definition released :: "proxy_world \<Rightarrow> u32 list" where
  "released w = concat (map released_handle (pw_calls w))"

fun died_recipient :: "proxy_call \<Rightarrow> ptr list" where
  "died_recipient (OnRemoteDied r) = [r]"
| "died_recipient _ = []"

definition notified :: "proxy_world \<Rightarrow> ptr list" where
  "notified w = concat (map died_recipient (pw_calls w))"

text \<open>What the requests and the sessions of a proxy leave alone.\<close>

definition recipient_view :: "proxy_world \<Rightarrow> ptr \<times> u32 \<times> recipient_info list \<times> recipient_info list \<times> int \<times> int \<times> u32 list \<times> ptr list" where
  "recipient_view w = (px_this (pw_px w), px_handle (pw_px w), px_recipients (pw_px w), px_refreshRecipients (pw_px w),
     death_registrations w, refresh_registrations w, released w, notified w)"

lemma view_px [view_simps]:
  "recipient_view (SetObjectDied b w) = recipient_view w" "recipient_view (SetProto i w) = recipient_view w"
  "recipient_view (set_descriptor E d w) = recipient_view w" "recipient_view (set_init v w) = recipient_view w"
  "recipient_view (set_ips st k w) = recipient_view w" "recipient_view (w\<lparr>pw_cur := c\<rparr>) = recipient_view w"
  "recipient_view (w\<lparr>pw_sendRequestCount := n\<rparr>) = recipient_view w"
  by (simp_all add: recipient_view_def SetObjectDied_def SetProto_def set_descriptor_def set_init_def set_ips_def on_px_def
      death_registrations_def refresh_registrations_def released_def notified_def)

lemma view_log [view_simps]:
  "recipient_view (log_call (InvSendRequest l h c as b) w) = recipient_view w"
  "recipient_view (log_call (ShutdownSocket i) w) = recipient_view w"
  by (simp_all add: recipient_view_def log_call_def death_registrations_def refresh_registrations_def released_def notified_def)

lemma view_on_px:
  assumes "px_this (f (pw_px w)) = px_this (pw_px w)" "px_handle (f (pw_px w)) = px_handle (pw_px w)"
    "px_recipients (f (pw_px w)) = px_recipients (pw_px w)" "px_refreshRecipients (f (pw_px w)) = px_refreshRecipients (pw_px w)"
  shows "recipient_view (on_px f w) = recipient_view w"
  using assms by (simp add: recipient_view_def on_px_def death_registrations_def refresh_registrations_def released_def notified_def)

lemma view_descriptor [view_simps]: "recipient_view (snd (GetDescriptor E token w)) = recipient_view w"
  by (simp add: GetDescriptor_def Let_def view_simps)

lemma view_send [view_simps]: "recipient_view (snd (snd (SendRequestInner E l c token args b w))) = recipient_view w"
  by (auto simp: SendRequestInner_def Let_def view_simps view_on_px split: prod.split)

lemma view_send_eq: "SendRequestInner E l c token args b w = (err, r, w') \<Longrightarrow> recipient_view w' = recipient_view w"
  using view_send [of E l c token args b w] by simp

lemma view_local_eq: "SendLocalRequest E c args b w = (err, r, w') \<Longrightarrow> recipient_view w' = recipient_view w"
  unfolding SendLocalRequest_def by (rule view_send_eq)

lemma view_session [view_simps]: "recipient_view (snd (CheckHaveSession w)) = recipient_view w"
  by (auto simp: CheckHaveSession_def view_simps split: option.split prod.split)

lemma view_make [view_simps]: "recipient_view (snd (MakeDBinderTransSession E d w)) = recipient_view w"
  by (auto simp: MakeDBinderTransSession_def Let_def view_simps split: option.split prod.split bool.split)

lemma view_make_eq: "MakeDBinderTransSession E d w = (b, w') \<Longrightarrow> recipient_view w' = recipient_view w"
  using view_make [of E d w] by simp

lemma view_check_eq: "CheckHaveSession w = (b, w') \<Longrightarrow> recipient_view w' = recipient_view w"
  using view_session [of w] by simp

lemma view_databus [view_simps]:
  "recipient_view (snd (UpdateDatabusClientSession E w)) = recipient_view w"
  "recipient_view (snd (snd (UpdateDatabusClientSession_reply E r w))) = recipient_view w"
  by (auto simp: UpdateDatabusClientSession_def UpdateDatabusClientSession_reply_def view_simps
      split: option.split prod.split dest: view_make_eq)

lemma view_databus_eq:
  "UpdateDatabusClientSession E w = (b, w') \<Longrightarrow> recipient_view w' = recipient_view w"
  "UpdateDatabusClientSession_reply E r w = (b, r', w') \<Longrightarrow> recipient_view w' = recipient_view w"
  by (metis snd_conv view_databus(1), metis snd_conv view_databus(2))

lemma view_data [view_simps]: "recipient_view (on_px (\<lambda>p. p\<lparr>px_dbinderData := x\<rparr>) w) = recipient_view w"
  by (rule view_on_px) simp_all

lemma view_proto [view_simps]:
  "recipient_view (snd (UpdateProto E data w)) = recipient_view w"
  "recipient_view (snd (GetProtoInfo E w)) = recipient_view w"
  by (auto simp: UpdateProto_def GetProtoInfo_def view_simps split: option.split prod.split bool.split
      dest!: view_check_eq view_databus_eq view_send_eq)

lemma view_proto_eq: "UpdateProto E data w = (b, w') \<Longrightarrow> recipient_view w' = recipient_view w"
  using view_proto(1) [of E data w] by simp

lemma view_info_eq: "GetProtoInfo E w = (proto, w') \<Longrightarrow> recipient_view w' = recipient_view w"
  using view_proto(2) [of E w] by simp

lemma view_tail [view_simps]: "recipient_view (init_tail E w) = recipient_view w"
  by (auto simp: init_tail_def IncRefToRemote_def view_simps split: prod.split dest!: view_send_eq)

lemma view_init: "WaitForInit E data w = Some w' \<Longrightarrow> recipient_view w' = recipient_view w"
  by (auto simp: WaitForInit_def Let_def view_simps split: prod.splits bool.splits if_splits dest!: view_proto_eq view_check_eq)

lemma view_clear_state [view_simps]: "recipient_view (snd (ClearDBinderServiceState E w)) = recipient_view w"
  by (auto simp: ClearDBinderServiceState_def view_simps split: prod.split dest!: view_send_eq)

lemma view_release [view_simps]: "recipient_view (ReleaseProto E w) = recipient_view w"
  by (auto simp: ReleaseProto_def ReleaseDatabusProto_def Let_def view_simps split: prod.split option.split dest!: view_send_eq)

lemma view_dbinder [view_simps]:
  "recipient_view (snd (AddDbinderDeathRecipient E w)) = recipient_view w"
  "recipient_view (snd (RemoveDbinderDeathRecipient E w)) = recipient_view w"
  by (auto simp: AddDbinderDeathRecipient_def RemoveDbinderDeathRecipient_def view_simps
      split: option.split prod.split bool.split dest!: view_local_eq)

lemma view_dbinder_eq:
  "AddDbinderDeathRecipient E w = (b, w') \<Longrightarrow> recipient_view w' = recipient_view w"
  "RemoveDbinderDeathRecipient E w = (b, w') \<Longrightarrow> recipient_view w' = recipient_view w"
  by (metis snd_conv view_dbinder(1), metis snd_conv view_dbinder(2))

lemma log_counts [simp]:
  "pw_px (log_call c w) = pw_px w" "death_registrations (log_call c w) = death_registrations w + death_change c"
  "refresh_registrations (log_call c w) = refresh_registrations w + refresh_change c"
  "released (log_call c w) = released w @ released_handle c" "notified (log_call c w) = notified w @ died_recipient c"
  by (simp_all add: log_call_def death_registrations_def refresh_registrations_def released_def notified_def)

lemma px_counts [simp]:
  "pw_px (on_px f w) = f (pw_px w)" "death_registrations (on_px f w) = death_registrations w"
  "refresh_registrations (on_px f w) = refresh_registrations w" "released (on_px f w) = released w"
  "notified (on_px f w) = notified w"
  by (simp_all add: on_px_def death_registrations_def refresh_registrations_def released_def notified_def)

lemma died_counts [simp]:
  "death_registrations (SetObjectDied b w) = death_registrations w" "refresh_registrations (SetObjectDied b w) = refresh_registrations w"
  "released (SetObjectDied b w) = released w" "notified (SetObjectDied b w) = notified w"
  "pw_px (SetObjectDied b w) = (pw_px w)\<lparr>px_isRemoteDead := b\<rparr>"
  by (simp_all add: SetObjectDied_def)

lemma view_parts:
  assumes "recipient_view w' = recipient_view w"
  shows "px_this (pw_px w') = px_this (pw_px w)" "px_handle (pw_px w') = px_handle (pw_px w)"
    "px_recipients (pw_px w') = px_recipients (pw_px w)" "px_refreshRecipients (pw_px w') = px_refreshRecipients (pw_px w)"
    "death_registrations w' = death_registrations w" "refresh_registrations w' = refresh_registrations w"
    "released w' = released w" "notified w' = notified w"
  using assms by (simp_all add: recipient_view_def)

text \<open>The driver has one registration of a kind if the proxy has recipients of it, and none otherwise.\<close>

definition registrations_match :: "proxy_world \<Rightarrow> bool" where
  "registrations_match w \<longleftrightarrow>
     death_registrations w = (if px_handle (pw_px w) < DBINDER_HANDLE_BASE \<and> px_recipients (pw_px w) \<noteq> [] then 1 else 0) \<and>
     refresh_registrations w = (if px_handle (pw_px w) < DBINDER_HANDLE_BASE \<and> px_refreshRecipients (pw_px w) \<noteq> [] then 1 else 0)"

lemma match_view: "recipient_view w' = recipient_view w \<Longrightarrow> registrations_match w' \<longleftrightarrow> registrations_match w"
  by (simp add: registrations_match_def recipient_view_def)

text \<open>An invoker that is there and withdraws what it is asked to.\<close>

definition reliable_invoker :: "'r proxy_env \<Rightarrow> bool" where
  "reliable_invoker E \<longleftrightarrow> pe_default_invoker E \<and> (\<forall>cs. pe_RemoveDeathRecipient E cs) \<and> (\<forall>cs. pe_RemoveRefreshRecipient E cs)"

lemma reliable_calls:
  assumes "reliable_invoker E"
  shows "inv_remove_death E w = (True, log_call (InvRemoveDeath (px_handle (pw_px w)) True) w)"
    "inv_remove_refresh E w = (True, log_call (InvRemoveRefresh (px_handle (pw_px w)) True) w)" "pe_default_invoker E"
  using assms by (simp_all add: reliable_invoker_def inv_remove_death_def inv_remove_refresh_def)

lemma register_effect:
  assumes "reliable_invoker E" "RegisterBinderDeathRecipient E w = (ok, w')"
  shows "px_handle (pw_px w') = px_handle (pw_px w) \<and> px_recipients (pw_px w') = px_recipients (pw_px w) \<and>
    px_refreshRecipients (pw_px w') = px_refreshRecipients (pw_px w) \<and> px_this (pw_px w') = px_this (pw_px w) \<and>
    death_registrations w' = death_registrations w + (if ok then 1 else 0) \<and> refresh_registrations w' = refresh_registrations w \<and>
    released w' = released w \<and> notified w' = notified w"
proof -
  obtain r where a: "inv_add_death E w = (r, log_call (InvAddDeath (px_handle (pw_px w)) r) w)"
    by (simp add: inv_add_death_def Let_def)
  obtain b w2 where d: "AddDbinderDeathRecipient E (log_call (InvAddDeath (px_handle (pw_px w)) r) w) = (b, w2)" by (meson surj_pair)
  note v = view_parts [OF view_dbinder_eq(1) [OF d]]
  show ?thesis
    using assms(2) a d v reliable_calls [OF assms(1)]
    by (cases r; cases b) (auto simp: RegisterBinderDeathRecipient_def split: if_splits)
qed

lemma unregister_effect:
  assumes "reliable_invoker E" "UnRegisterBinderDeathRecipient E w = (ok, w')"
  shows "px_handle (pw_px w') = px_handle (pw_px w) \<and> px_recipients (pw_px w') = px_recipients (pw_px w) \<and>
    px_refreshRecipients (pw_px w') = px_refreshRecipients (pw_px w) \<and>
    death_registrations w' = death_registrations w - 1 \<and> refresh_registrations w' = refresh_registrations w"
proof -
  let ?w = "log_call (InvRemoveDeath (px_handle (pw_px w)) True) w"
  obtain b w2 where d: "RemoveDbinderDeathRecipient E ?w = (b, w2)" by (meson surj_pair)
  note v = view_parts [OF view_dbinder_eq(2) [OF d]]
  show ?thesis
    using assms(2) d v reliable_calls [OF assms(1)]
    by (auto simp: UnRegisterBinderDeathRecipient_def split: if_splits)
qed

lemma remove_first_none: "\<not> has_recipient r xs \<Longrightarrow> remove_first (\<lambda>i. ri_recipient i = r) xs = xs"
  by (induction xs) (auto simp: has_recipient_def)

lemma add_death_match:
  assumes "reliable_invoker E" "AddDeathRecipient E recipient w = (ok, w')" "registrations_match w"
  shows "registrations_match w'"
proof -
  define w1 where "w1 = on_px (\<lambda>p. p\<lparr>px_recipients := px_recipients p @ [DeathRecipientAddrInfo E recipient w]\<rparr>) w"
  obtain b w2 where r: "RegisterBinderDeathRecipient E w1 = (b, w2)" by (meson surj_pair)
  note e = register_effect [OF assms(1) r]
  have p: "px_handle (pw_px w1) = px_handle (pw_px w)" "px_refreshRecipients (pw_px w1) = px_refreshRecipients (pw_px w)"
    "px_recipients (pw_px w1) = px_recipients (pw_px w) @ [DeathRecipientAddrInfo E recipient w]"
    "death_registrations w1 = death_registrations w" "refresh_registrations w1 = refresh_registrations w"
    by (simp_all add: w1_def)
  let ?n = "length (px_recipients (pw_px w1)) > 1 \<or> px_handle (pw_px w1) \<ge> DBINDER_HANDLE_BASE"
  from assms(2) consider "w' = w" | "w' = w1" ?n | "\<not> ?n" "b" "w' = w2"
    | "\<not> ?n" "\<not> b" "w' = on_px (\<lambda>p. p\<lparr>px_recipients := butlast (px_recipients p)\<rparr>) w2"
    unfolding AddDeathRecipient_def Let_def w1_def [symmetric] r by (auto split: if_splits bool.splits)
  then show ?thesis
    by cases (use assms(3) e p in \<open>auto simp: registrations_match_def\<close>)
qed

lemma remove_death_match:
  assumes "reliable_invoker E" "RemoveDeathRecipient E recipient w = (ok, w')" "registrations_match w"
  shows "registrations_match w'"
proof -
  define w1 where "w1 = on_px (\<lambda>p. p\<lparr>px_recipients := remove_first (\<lambda>i. ri_recipient i = recipient) (px_recipients p)\<rparr>) w"
  obtain b w2 where r: "UnRegisterBinderDeathRecipient E w1 = (b, w2)" by (meson surj_pair)
  have ne: "px_recipients (pw_px w) \<noteq> []" if "has_recipient recipient (px_recipients (pw_px w))"
    using that by (auto simp: has_recipient_def)
  have keep: "px_recipients (pw_px w1) = px_recipients (pw_px w)" if "\<not> has_recipient recipient (px_recipients (pw_px w))"
    using that by (simp add: w1_def remove_first_none)
  have p: "px_handle (pw_px w1) = px_handle (pw_px w)" "px_refreshRecipients (pw_px w1) = px_refreshRecipients (pw_px w)"
    "death_registrations w1 = death_registrations w" "refresh_registrations w1 = refresh_registrations w"
    by (simp_all add: w1_def)
  note e = unregister_effect [OF assms(1) r]
  show ?thesis
    using assms(2,3) r e ne keep p
    by (cases b) (auto simp: RemoveDeathRecipient_def Let_def w1_def [symmetric] registrations_match_def split: if_splits prod.splits bool.splits)
qed

lemma refresh_match:
  assumes "reliable_invoker E" "registrations_match w"
  shows "AddRefreshRecipient_proxy E recipient w = (ok, w') \<Longrightarrow> registrations_match w'"
    "RemoveRefreshRecipient_proxy E recipient w = (ok, w') \<Longrightarrow> registrations_match w'"
    "registrations_match (ClearRefreshRecipients E w)"
proof -
  show "AddRefreshRecipient_proxy E recipient w = (ok, w') \<Longrightarrow> registrations_match w'"
    using assms(2) reliable_calls(3) [OF assms(1)]
    by (auto simp: AddRefreshRecipient_proxy_def inv_add_refresh_def Let_def registrations_match_def split: if_splits bool.splits)
  show "registrations_match w'" if rm: "RemoveRefreshRecipient_proxy E recipient w = (ok, w')"
  proof -
    let ?h = "has_recipient recipient (px_refreshRecipients (pw_px w))"
    define w1 where "w1 = on_px (\<lambda>p. p\<lparr>px_refreshRecipients := remove_first (\<lambda>i. ri_recipient i = recipient) (px_refreshRecipients p)\<rparr>) w"
    have p: "px_handle (pw_px w1) = px_handle (pw_px w)" "px_recipients (pw_px w1) = px_recipients (pw_px w)"
      "death_registrations w1 = death_registrations w" "refresh_registrations w1 = refresh_registrations w"
      by (simp_all add: w1_def)
    have ne: "?h \<longrightarrow> px_refreshRecipients (pw_px w) \<noteq> []" by (auto simp: has_recipient_def)
    have keep: "\<not> ?h \<longrightarrow> px_refreshRecipients (pw_px w1) = px_refreshRecipients (pw_px w)"
      by (simp add: w1_def remove_first_none)
    from rm consider "w' = w" | "w' = w1" "\<not> ?h \<or> px_refreshRecipients (pw_px w1) \<noteq> [] \<or> px_handle (pw_px w1) \<ge> DBINDER_HANDLE_BASE"
      | "w' = log_call (InvRemoveRefresh (px_handle (pw_px w1)) True) w1" ?h "px_refreshRecipients (pw_px w1) = []"
          "\<not> px_handle (pw_px w1) \<ge> DBINDER_HANDLE_BASE"
      unfolding RemoveRefreshRecipient_proxy_def Let_def w1_def [symmetric]
      using reliable_calls [OF assms(1)] by (auto split: if_splits bool.splits)
    then show ?thesis
      by cases (use assms(2) p ne keep in \<open>auto simp: registrations_match_def\<close>)
  qed
  show "registrations_match (ClearRefreshRecipients E w)"
    using assms(2) reliable_calls [OF assms(1)]
    by (auto simp: ClearRefreshRecipients_def Let_def registrations_match_def split: if_splits)
qed

text \<open>What the operations of a proxy may do in any order; recipients act through them as well.\<close>

inductive proxy_op :: "'r proxy_env \<Rightarrow> proxy_world \<Rightarrow> proxy_world \<Rightarrow> bool" for E where
  op_request: "SendRequest_proxy E cd token args async w = (err, r, w') \<Longrightarrow> proxy_op E w w'"
| op_internal: "SendRequestInner E l cd token args async w = (err, r, w') \<Longrightarrow> proxy_op E w w'"
| op_init: "WaitForInit E data w = Some w' \<Longrightarrow> proxy_op E w w'"
| op_query_proto: "UpdateProto_query E w = (proto, w') \<Longrightarrow> proxy_op E w w'"
| op_clear_state: "ClearDBinderServiceState E w = (err, w') \<Longrightarrow> proxy_op E w w'"
| op_first: "proxy_op E w (OnFirstStrongRef_proxy E w)"
| op_add_death: "AddDeathRecipient E recipient w = (ok, w') \<Longrightarrow> proxy_op E w w'"
| op_remove_death: "RemoveDeathRecipient E recipient w = (ok, w') \<Longrightarrow> proxy_op E w w'"
| op_add_refresh: "AddRefreshRecipient_proxy E recipient w = (ok, w') \<Longrightarrow> proxy_op E w w'"
| op_remove_refresh: "RemoveRefreshRecipient_proxy E recipient w = (ok, w') \<Longrightarrow> proxy_op E w w'"
| op_died: "proxy_op E w (SendObituary_proxy E w)"
| op_refreshed: "proxy_op E w (SendRefreshObituary_proxy E w)"
| op_last: "OnLastStrongRef E w = Some w' \<Longrightarrow> proxy_op E w w'"

definition orderly_recipients :: "'r proxy_env \<Rightarrow> bool" where
  "orderly_recipients E \<longleftrightarrow> (\<forall>r w. registrations_match w \<longrightarrow>
     registrations_match (pe_OnRemoteDied E r w) \<and> registrations_match (pe_OnRemoteRefreshed E r w))"

lemma match_log:
  "registrations_match w \<Longrightarrow> death_change c = 0 \<Longrightarrow> refresh_change c = 0 \<Longrightarrow> registrations_match (log_call c w)"
  by (simp add: registrations_match_def)

lemma loops_match:
  assumes "orderly_recipients E"
  shows "registrations_match w \<Longrightarrow> registrations_match (died_loop E is w)"
    "registrations_match w \<Longrightarrow> registrations_match (refreshed_loop E is w)"
  using assms by (induction "is" arbitrary: w) (auto simp: orderly_recipients_def match_log)

lemma clear_death_match:
  assumes "reliable_invoker E" "registrations_match w"
  shows "registrations_match (ClearDeathRecipients E w) \<and> px_recipients (pw_px (ClearDeathRecipients E w)) = [] \<and>
    px_refreshRecipients (pw_px (ClearDeathRecipients E w)) = px_refreshRecipients (pw_px w) \<and>
    px_handle (pw_px (ClearDeathRecipients E w)) = px_handle (pw_px w) \<and>
    released (ClearDeathRecipients E w) = released w"
proof (cases "px_recipients (pw_px w) = [] \<or> px_handle (pw_px w) \<ge> DBINDER_HANDLE_BASE")
  case True
  then show ?thesis using assms(2) by (auto simp: ClearDeathRecipients_def Let_def registrations_match_def)
next
  case False
  let ?w1 = "on_px (\<lambda>p. p\<lparr>px_recipients := []\<rparr>) w"
  let ?w2 = "log_call (InvRemoveDeath (px_handle (pw_px w)) True) ?w1"
  have c: "ClearDeathRecipients E w = (if over_databus ?w2 then snd (RemoveDbinderDeathRecipient E ?w2) else ?w2)"
    using False reliable_calls [OF assms(1)] by (simp add: ClearDeathRecipients_def Let_def)
  have v: "recipient_view (ClearDeathRecipients E w) = recipient_view ?w2" unfolding c by (simp add: view_simps)
  have "registrations_match ?w2" using assms(2) False by (auto simp: registrations_match_def)
  then show ?thesis using match_view [OF v] view_parts [OF v] by simp
qed

lemma obituary_match:
  assumes "reliable_invoker E" "orderly_recipients E" "registrations_match w"
  shows "registrations_match (SendObituary_proxy E w)"
proof -
  let ?w1 = "on_px (\<lambda>p. p\<lparr>px_recipients := []\<rparr>) w"
  define w2 where "w2 = SetObjectDied True (if px_handle (pw_px ?w1) < DBINDER_HANDLE_BASE \<and> over_databus ?w1
      then snd (RemoveDbinderDeathRecipient E ?w1) else ?w1)"
  have v: "recipient_view w2 = recipient_view ?w1" by (simp add: w2_def view_simps)
  note p = view_parts [OF v]
  define w3 where "w3 = ClearRefreshRecipients E w2"
  have w3: "px_handle (pw_px w3) = px_handle (pw_px w)" "px_recipients (pw_px w3) = []" "px_refreshRecipients (pw_px w3) = []"
    "death_registrations w3 = death_registrations w" "refresh_registrations w3 = 0"
    using p assms(3) reliable_calls [OF assms(1)]
    by (auto simp: w3_def ClearRefreshRecipients_def Let_def registrations_match_def split: if_splits)
  let ?w4 = "if px_recipients (pw_px w) \<noteq> [] \<and> px_handle (pw_px w3) < DBINDER_HANDLE_BASE \<and> pe_default_invoker E
      then snd (inv_remove_death E w3) else w3"
  have "registrations_match ?w4"
    using w3 assms(3) reliable_calls [OF assms(1)] by (auto simp: registrations_match_def split: if_splits)
  moreover have "SendObituary_proxy E w = died_loop E (px_recipients (pw_px w)) ?w4"
    unfolding SendObituary_proxy_def Let_def w3_def w2_def by simp
  ultimately show ?thesis using loops_match(1) [OF assms(2)] by simp
qed

lemma clear_refresh_effect:
  assumes "reliable_invoker E"
  shows "px_refreshRecipients (pw_px (ClearRefreshRecipients E w)) = []"
    "px_handle (pw_px (ClearRefreshRecipients E w)) = px_handle (pw_px w)"
    "released (ClearRefreshRecipients E w) = released w"
  using reliable_calls [OF assms] by (auto simp: ClearRefreshRecipients_def Let_def)

lemma last_effect:
  assumes "reliable_invoker E" "registrations_match w" "OnLastStrongRef E w = Some w'" "pw_cur w \<noteq> None"
  shows "registrations_match w' \<and> px_handle (pw_px w') = INVALID_HANDLE_VALUE \<and>
    px_recipients (pw_px w') = [] \<and> px_refreshRecipients (pw_px w') = [] \<and>
    released w' = released w @ (if px_handle (pw_px w) = INVALID_HANDLE_VALUE then [] else [px_handle (pw_px w)])"
proof -
  define w1 where "w1 = ClearDeathRecipients E (ClearRefreshRecipients E (ReleaseProto E w))"
  have v: "recipient_view (ReleaseProto E w) = recipient_view w" by (simp add: view_simps)
  have m: "registrations_match (ClearRefreshRecipients E (ReleaseProto E w))"
    using refresh_match(3) [OF assms(1)] match_view [OF v] assms(2) by blast
  have w1: "registrations_match w1" "px_recipients (pw_px w1) = []" "px_refreshRecipients (pw_px w1) = []"
    "px_handle (pw_px w1) = px_handle (pw_px w)" "released w1 = released w"
    using clear_death_match [OF assms(1) m] clear_refresh_effect [OF assms(1), of "ReleaseProto E w"] view_parts [OF v]
    by (simp_all add: w1_def)
  define w2 where "w2 = (if pe_default_invoker E \<and> px_handle (pw_px w1) \<noteq> INVALID_HANDLE_VALUE
      then on_px (\<lambda>p. p\<lparr>px_handle := INVALID_HANDLE_VALUE\<rparr>) (log_call (InvReleaseHandle (px_handle (pw_px w1))) w1) else w1)"
  have w2: "registrations_match w2" "px_recipients (pw_px w2) = []" "px_refreshRecipients (pw_px w2) = []"
    "px_handle (pw_px w2) = INVALID_HANDLE_VALUE"
    "released w2 = released w @ (if px_handle (pw_px w) = INVALID_HANDLE_VALUE then [] else [px_handle (pw_px w)])"
    using w1 reliable_calls(3) [OF assms(1)] by (auto simp: w2_def registrations_match_def)
  have "w' = w2 \<or> (\<exists>c. w' = w2\<lparr>pw_cur := c\<rparr>)"
    using assms(3,4) unfolding OnLastStrongRef_def Let_def w1_def [symmetric] w2_def [symmetric]
    by (auto split: option.splits)
  then have "recipient_view w' = recipient_view w2" using view_px(6) by blast
  then show ?thesis using w2 match_view view_parts by metis
qed

section \<open>Initialisation\<close>

lemma px_small [simp]:
  "pw_px (SetProto i w) = (pw_px w)\<lparr>px_proto := i\<rparr>" "pw_px (set_init v w) = (pw_px w)\<lparr>px_initState := v\<rparr>"
  "pw_px (set_ips st k w) = pw_px w" "pw_cur (set_ips st k w) = Some (st\<lparr>ips := k\<rparr>)" "pw_cur (on_px f w) = pw_cur w"
  "pw_cur (SetObjectDied b w) = pw_cur w" "pw_cur (SetProto i w) = pw_cur w" "pw_cur (set_init v w) = pw_cur w"
  "pw_cur (log_call c w) = pw_cur w" "pw_calls (log_call c w) = pw_calls w @ [c]" "pw_calls (on_px f w) = pw_calls w"
  "pw_calls (SetObjectDied b w) = pw_calls w"
  by (simp_all add: SetProto_def set_init_def set_ips_def on_px_def SetObjectDied_def log_call_def)

lemma descriptor_px [simp]:
  "px_proto (pw_px (snd (GetDescriptor E t w))) = px_proto (pw_px w)"
  "px_initState (pw_px (snd (GetDescriptor E t w))) = px_initState (pw_px w)"
  "px_isRemoteDead (pw_px (snd (GetDescriptor E t w))) = px_isRemoteDead (pw_px w)"
  "pw_cur (snd (GetDescriptor E t w)) = pw_cur w" "pw_calls (snd (GetDescriptor E t w)) = pw_calls w"
  by (simp_all add: GetDescriptor_def Let_def set_descriptor_def)

lemma send_effect:
  assumes "SendRequestInner E l cd token args async w = (err, r, w')" "\<not> IsObjectDead w"
    and "if l then pe_default_invoker E else pe_remote_invoker E (px_proto (pw_px w))"
  shows "px_proto (pw_px w') = px_proto (pw_px w) \<and> px_initState (pw_px w') = px_initState (pw_px w) \<and>
    (IsObjectDead w' \<longleftrightarrow> err = pe_ERR_DEAD_OBJECT E) \<and>
    pw_calls w' = pw_calls w @ [InvSendRequest l (px_handle (pw_px w)) cd args async] \<and>
    pw_cur w' = snd (snd (pe_send E (pw_calls w') (pw_cur w)))"
  using assms by (auto simp: SendRequestInner_def IsObjectDead_def Let_def split: prod.splits if_splits)

lemma make_session_effect:
  assumes "MakeDBinderTransSession E d w = (True, w')"
  shows "pw_px w' = pw_px w \<and> pe_remote_invoker E IF_PROT_DATABUS \<and>
    (\<exists>st p. pw_cur w' = Some st \<and> map_of (proxyToSession (ips st)) (px_handle (pw_px w)) = Some p)"
  using assms
  by (auto simp: MakeDBinderTransSession_def ProxyAttachDBinderSession_def omap_insert_def QuerySessionByInfo_def Let_def
      split: if_splits option.splits prod.splits bool.splits)

lemma make_session_fails: "MakeDBinderTransSession E d w = (False, w') \<Longrightarrow> pw_px w' = pw_px w"
  by (auto simp: MakeDBinderTransSession_def Let_def split: if_splits option.splits prod.splits bool.splits)

text \<open>A proxy that is connected to an object of another device.\<close>

definition connected :: "proxy_world \<Rightarrow> bool" where
  "connected w \<longleftrightarrow> px_proto (pw_px w) = IF_PROT_DATABUS \<and> \<not> IsObjectDead w \<and> px_initState (pw_px w) = 2 \<and>
     (\<exists>st p. pw_cur w = Some st \<and> map_of (proxyToSession (ips st)) (px_handle (pw_px w)) = Some p) \<and>
     pw_calls w \<noteq> [] \<and> last (pw_calls w) = InvSendRequest False (px_handle (pw_px w)) DBINDER_INCREFS_TRANSACTION [] False"

lemma tail_connects:
  assumes "px_proto (pw_px w) = IF_PROT_DATABUS" "\<not> IsObjectDead w" "px_initState (pw_px w) = 2" "pe_remote_invoker E IF_PROT_DATABUS"
    and "\<exists>st p. pw_cur w = Some st \<and> map_of (proxyToSession (ips st)) (px_handle (pw_px w)) = Some p"
    and "\<forall>cs cur. snd (snd (pe_send E cs cur)) = cur" "pe_ERR_DEAD_OBJECT E \<noteq> 0"
  shows "connected (init_tail E w) \<or> px_proto (pw_px (init_tail E w)) = IF_PROT_ERROR \<and> IsObjectDead (init_tail E w)"
proof -
  obtain err r w1 where q: "SendRequestInner E False DBINDER_INCREFS_TRANSACTION [] [] False w = (err, r, w1)" by (metis prod_cases3)
  have inv: "if False then pe_default_invoker E else pe_remote_invoker E (px_proto (pw_px w))" using assms(1,4) by simp
  note e = send_effect [OF q assms(2) inv]
  have h: "px_handle (pw_px w1) = px_handle (pw_px w)" using view_parts [OF view_send_eq [OF q]] by simp
  have t: "init_tail E w = (if err \<noteq> 0 then SetObjectDied True (SetProto IF_PROT_ERROR w1) else w1)"
    using assms(1) by (simp add: init_tail_def IncRefToRemote_def q)
  show ?thesis
  proof (cases "err = 0")
    case True
    then have "connected w1" using e h assms(1,3,5,6,7) by (simp add: connected_def)
    then show ?thesis using True t by simp
  qed (simp add: t IsObjectDead_def)
qed

section \<open>Properties\<close>

lemma proxy_op_match:
  assumes "reliable_invoker E" "orderly_recipients E" "proxy_op E w1 w2" and m: "registrations_match w1"
  shows "registrations_match w2"
  using assms(3)
proof cases
  case (op_request cd token args async err r)
  then have "recipient_view w2 = recipient_view w1"
    by (auto simp: SendRequest_proxy_def view_simps split: if_splits dest!: view_send_eq)
  then show ?thesis using m match_view by blast
next
  case (op_internal l cd token args async err r)
  show ?thesis using m match_view [OF view_send_eq [OF op_internal]] by blast
next
  case (op_init data)
  then show ?thesis using m match_view view_init by blast
next
  case (op_query_proto proto)
  then have "recipient_view w2 = recipient_view w1"
    by (auto simp: UpdateProto_query_def view_simps split: prod.splits dest!: view_info_eq)
  then show ?thesis using m match_view by blast
next
  case (op_clear_state err)
  then have "recipient_view w2 = recipient_view w1" using view_clear_state [of E w1] by simp
  then show ?thesis using m match_view by blast
next
  case op_first
  then show ?thesis using m by (auto simp: OnFirstStrongRef_proxy_def match_log)
next
  case (op_last)
  show ?thesis
  proof (cases "pw_cur w1")
    case None
    then show ?thesis using op_last m by (simp add: OnLastStrongRef_def)
  qed (use op_last last_effect [OF assms(1) m] in simp)
next
  case (op_add_death recipient ok)
  show ?thesis by (rule add_death_match [OF assms(1) op_add_death m])
next
  case (op_remove_death recipient ok)
  show ?thesis by (rule remove_death_match [OF assms(1) op_remove_death m])
next
  case (op_add_refresh recipient ok)
  show ?thesis by (rule refresh_match(1) [OF assms(1) m op_add_refresh])
next
  case (op_remove_refresh recipient ok)
  show ?thesis by (rule refresh_match(2) [OF assms(1) m op_remove_refresh])
next
  case op_died
  show ?thesis unfolding op_died by (rule obituary_match [OF assms(1,2) m])
next
  case op_refreshed
  show ?thesis unfolding op_refreshed SendRefreshObituary_proxy_def by (rule loops_match(2) [OF assms(2) m])
qed

text \<open>
  C15. The registrations of a proxy with the driver follow its recipients. Through any sequence of
  requests, initialisations, registrations, removals, reports and releases the driver has exactly
  one registration for death reports if the proxy has a recipient for them, and none otherwise, and
  likewise for refresh reports; for a proxy of another device it has none. The invoker may refuse
  to register, but has to withdraw what it is asked to, and recipients act on the proxy through its
  operations only.
\<close>

theorem proxy_registrations_match:
  assumes "reliable_invoker E" "orderly_recipients E" "(proxy_op E)\<^sup>*\<^sup>* w w'" "registrations_match w"
  shows "registrations_match w'"
  using assms(3,4) by (induction rule: rtranclp_induct) (auto intro: proxy_op_match [OF assms(1,2)])

text \<open>
  C21. A report of the death of the remote object calls every recipient once, in the order in which they
  were added, whatever was registered before; afterwards the proxy has no recipients, a second
  report calls nobody, and every request is refused as dead without a call to an invoker. (Here no
  recipient changes the proxy and no library of a recipient has been unloaded.)
\<close>

theorem obituary_notifies_each_once:
  assumes "\<forall>r w. pw_px (pe_OnRemoteDied E r w) = pw_px w \<and> notified (pe_OnRemoteDied E r w) = notified w"
    and "\<forall>i \<in> set (px_recipients (pw_px w)). ri_recipient i \<noteq> nullptr \<and> (\<forall>w'. \<not> IsDlclosed E i w')"
  shows "notified (SendObituary_proxy E w) = notified w @ map ri_recipient (px_recipients (pw_px w)) \<and>
    notified (SendObituary_proxy E (SendObituary_proxy E w)) = notified (SendObituary_proxy E w) \<and>
    (\<exists>r. SendRequestInner E l cd token args async (SendObituary_proxy E w) = (pe_ERR_DEAD_OBJECT E, r, SendObituary_proxy E w))"
proof -
  have loop: "notified (died_loop E is t) = notified t @ map ri_recipient is \<and> pw_px (died_loop E is t) = pw_px t"
    if "\<forall>i \<in> set is. ri_recipient i \<noteq> nullptr \<and> (\<forall>w'. \<not> IsDlclosed E i w')" for "is" t
    using that assms(1) by (induction "is" arbitrary: t) auto
  have body: "\<exists>w4. SendObituary_proxy E t = died_loop E (px_recipients (pw_px t)) w4 \<and> notified w4 = notified t \<and>
      px_recipients (pw_px w4) = [] \<and> px_isRemoteDead (pw_px w4)" for t
  proof -
    let ?t1 = "on_px (\<lambda>p. p\<lparr>px_recipients := []\<rparr>) t"
    define t2 where "t2 = (if px_handle (pw_px ?t1) < DBINDER_HANDLE_BASE \<and> over_databus ?t1
        then snd (RemoveDbinderDeathRecipient E ?t1) else ?t1)"
    have "recipient_view t2 = recipient_view ?t1" by (simp add: t2_def view_simps)
    note p = view_parts [OF this]
    define t3 where "t3 = ClearRefreshRecipients E (SetObjectDied True t2)"
    have t3: "notified t3 = notified t" "px_recipients (pw_px t3) = []" "px_isRemoteDead (pw_px t3)"
      using p by (auto simp: t3_def ClearRefreshRecipients_def inv_remove_refresh_def Let_def)
    let ?t4 = "if px_recipients (pw_px t) \<noteq> [] \<and> px_handle (pw_px t3) < DBINDER_HANDLE_BASE \<and> pe_default_invoker E
        then snd (inv_remove_death E t3) else t3"
    have "SendObituary_proxy E t = died_loop E (px_recipients (pw_px t)) ?t4"
      unfolding SendObituary_proxy_def Let_def t3_def t2_def by simp
    then show ?thesis using t3 by (intro exI [of _ ?t4]) (auto simp: inv_remove_death_def Let_def)
  qed
  obtain w4 where w4: "SendObituary_proxy E w = died_loop E (px_recipients (pw_px w)) w4" "notified w4 = notified w"
      "px_recipients (pw_px w4) = []" "px_isRemoteDead (pw_px w4)"
    using body by blast
  note l = loop [OF assms(2), of w4]
  have e: "px_recipients (pw_px (SendObituary_proxy E w)) = []" using l w4 by simp
  obtain w5 where "SendObituary_proxy E (SendObituary_proxy E w) = died_loop E [] w5" "notified w5 = notified (SendObituary_proxy E w)"
    using body [of "SendObituary_proxy E w"] e by auto
  moreover have "IsObjectDead (SendObituary_proxy E w)" using l w4 by (simp add: IsObjectDead_def)
  ultimately show ?thesis using l w4 by (simp add: SendRequestInner_def)
qed

text \<open>
  C27. The release of a proxy by its last reference withdraws its registrations and gives its handle
  back exactly once: no recipients are left, the driver has no registration of the proxy, the handle
  is the invalid one, and a second release gives nothing back.
\<close>

theorem last_reference_releases_once:
  assumes "reliable_invoker E" "registrations_match w" "OnLastStrongRef E w = Some w'" "pw_cur w \<noteq> None"
    and "px_handle (pw_px w) \<noteq> INVALID_HANDLE_VALUE"
  shows "released w' = released w @ [px_handle (pw_px w)] \<and> death_registrations w' = 0 \<and> refresh_registrations w' = 0 \<and>
    px_recipients (pw_px w') = [] \<and> px_refreshRecipients (pw_px w') = [] \<and>
    (\<forall>w''. OnLastStrongRef E w' = Some w'' \<longrightarrow> released w'' = released w')"
proof -
  note e = last_effect [OF assms(1-4)]
  have "released w'' = released w'" if "OnLastStrongRef E w' = Some w''" for w''
  proof (cases "pw_cur w'")
    case None
    then show ?thesis using that by (simp add: OnLastStrongRef_def)
  qed (use that e last_effect [OF assms(1), of w' w''] in simp)
  then show ?thesis using e assms(5) by (auto simp: registrations_match_def)
qed

text \<open>
  A death recipient cannot be removed properly while there are refresh recipients: \<open>RemoveDeathRecipient\<close>
  takes it off the list and, if it was the last one, withdraws the registration with the driver, but
  reports failure. The refresh recipients stay registered although the proxy refuses to add one without
  a death recipient.
\<close>

theorem removal_with_refresh_misreported:
  assumes "reliable_invoker E" "registrations_match w" "recipient \<noteq> nullptr" "\<not> IsObjectDead w"
    and "px_handle (pw_px w) < DBINDER_HANDLE_BASE" "px_proto (pw_px w) = IF_PROT_DEFAULT"
    and "map ri_recipient (px_recipients (pw_px w)) = [recipient]" "px_refreshRecipients (pw_px w) \<noteq> []"
  shows "\<exists>w'. RemoveDeathRecipient E recipient w = (False, w') \<and> px_recipients (pw_px w') = [] \<and>
    death_registrations w' = 0 \<and> px_refreshRecipients (pw_px w') = px_refreshRecipients (pw_px w) \<and> refresh_registrations w' = 1 \<and>
    (\<forall>r. fst (AddRefreshRecipient_proxy E r w') = False)"
proof -
  obtain i where i: "px_recipients (pw_px w) = [i]" "ri_recipient i = recipient" using assms(7) by (cases "px_recipients (pw_px w)") auto
  let ?w1 = "on_px (\<lambda>p. p\<lparr>px_recipients := remove_first (\<lambda>i. ri_recipient i = recipient) (px_recipients p)\<rparr>) w"
  let ?w2 = "log_call (InvRemoveDeath (px_handle (pw_px w)) True) ?w1"
  have "RemoveDeathRecipient E recipient w = (False, ?w2)"
    using assms i reliable_calls [OF assms(1)]
    by (simp add: RemoveDeathRecipient_def has_recipient_def UnRegisterBinderDeathRecipient_def Let_def)
  then show ?thesis
    using assms(2,5,8) i by (intro exI [of _ ?w2]) (auto simp: registrations_match_def AddRefreshRecipient_proxy_def)
qed

text \<open>
  The initialisation of a proxy with the data of another device is all or nothing: afterwards the
  proxy is connected, that is it has the protocol of the bus, a session for its handle, and its last
  call was the successful request for a reference to the remote stub, or it is dead with the protocol
  of an error, refuses every request, and the next initialisation begins anew. It never waits for
  itself.
\<close>

theorem initialisation_all_or_nothing:
  assumes "\<not> IsObjectDead w" "px_initState (pw_px w) = 0" "uint (nd_proto n) = IF_PROT_DATABUS"
    and "\<forall>cs cur. snd (snd (pe_send E cs cur)) = cur" "pe_ERR_DEAD_OBJECT E \<noteq> 0"
  shows "\<exists>w'. WaitForInit E (Some n) w = Some w' \<and>
    (connected w' \<or>
     px_proto (pw_px w') = IF_PROT_ERROR \<and> IsObjectDead w' \<and>
     (\<exists>r. SendRequestInner E l cd token args async w' = (pe_ERR_DEAD_OBJECT E, r, w')) \<and>
     WaitForInit E data w' = WaitForInit E data (set_init 0 (SetObjectDied False w')))"
proof -
  have dead: "(\<exists>r. SendRequestInner E l cd token args async w' = (pe_ERR_DEAD_OBJECT E, r, w')) \<and>
      WaitForInit E data w' = WaitForInit E data (set_init 0 (SetObjectDied False w'))" if "IsObjectDead w'" for w'
    using that by (simp add: SendRequestInner_def WaitForInit_def Let_def IsObjectDead_def)
  let ?w1 = "on_px (\<lambda>p. p\<lparr>px_dbinderData := Some n\<rparr>) (set_init 1 w)"
  have start: "WaitForInit E (Some n) w =
      (case UpdateProto E (Some n) (set_init 1 w) of (True, w2) \<Rightarrow> Some (init_tail E (set_init 2 w2)) | (False, w2) \<Rightarrow> Some (set_init 0 w2))"
    using assms(1,2) by (simp add: WaitForInit_def Let_def)
  show ?thesis
  proof (cases "pe_new_data E \<and> (\<exists>w2. UpdateDatabusClientSession E ?w1 = (True, w2))")
    case True
    then obtain w2 where u: "UpdateDatabusClientSession E ?w1 = (True, w2)" by blast
    then obtain d where "MakeDBinderTransSession E d ?w1 = (True, w2)"
      by (auto simp: UpdateDatabusClientSession_def split: option.splits)
    note m = make_session_effect [OF this]
    define w3 where "w3 = set_init 2 (set_descriptor E (nd_desc n) (SetProto IF_PROT_DATABUS w2))"
    have w': "WaitForInit E (Some n) w = Some (init_tail E w3)" using start u True assms(3) by (simp add: UpdateProto_def w3_def)
    have "connected (init_tail E w3) \<or> px_proto (pw_px (init_tail E w3)) = IF_PROT_ERROR \<and> IsObjectDead (init_tail E w3)"
      using m assms(1,4,5) by (intro tail_connects) (auto simp: w3_def set_descriptor_def IsObjectDead_def)
    then show ?thesis using w' dead by blast
  next
    case False
    obtain b w1 where u: "UpdateDatabusClientSession E ?w1 = (b, w1)" by (meson surj_pair)
    define w2 where "w2 = snd (UpdateProto E (Some n) (set_init 1 w))"
    have "UpdateProto E (Some n) (set_init 1 w) = (False, w2) \<and> IsObjectDead w2 \<and> px_proto (pw_px w2) = IF_PROT_ERROR"
      using False u assms(3) by (cases "pe_new_data E"; cases b) (simp_all add: w2_def UpdateProto_def IsObjectDead_def)
    then show ?thesis using start dead [of "set_init 0 w2"] by (auto simp: IsObjectDead_def)
  qed
qed

definition example_proxy_env :: "unit proxy_env" where
  "example_proxy_env = \<lparr>pe_default_invoker = True, pe_remote_invoker = (\<lambda>p. True), pe_AddDeathRecipient = (\<lambda>cs. True),
     pe_RemoveDeathRecipient = (\<lambda>cs. True), pe_AddRefreshRecipient = (\<lambda>cs. True), pe_RemoveRefreshRecipient = (\<lambda>cs. True),
     pe_send = (\<lambda>cs cur. (0, (), cur)), pe_empty = (), pe_ReadUint32 = (\<lambda>r. (0, r)), pe_ReadUint64 = (\<lambda>r. (0, r)),
     pe_ReadInt32 = (\<lambda>r. (0, r)), pe_ReadString = (\<lambda>r. ([], r)), pe_ReadString16 = (\<lambda>r. ([], r)), pe_write = (\<lambda>a. True),
     pe_Str16ToStr8 = (\<lambda>s. []), pe_dladdr = (\<lambda>a cs. Some ''lib''), pe_first_vfunc = (\<lambda>p. p), pe_OnRemoteDied = (\<lambda>r w. w),
     pe_OnRemoteRefreshed = (\<lambda>r w. w),
     pe_objects = \<lparr>str8to16 = (\<lambda>s. []), is_proxy = (\<lambda>p. True), inc_strong = (\<lambda>p. True), descriptor_of = (\<lambda>p. []),
       has_invoker = True, ping_samgr = True, set_registry = True, set_max_threads = True, new_proxy = None, new_pool = True\<rparr>,
     pe_threads = \<lparr>env_new_thread = True, env_new_param = True, env_pthread_create = True, env_pthread_detach = True\<rparr>,
     pe_StartServerListener = None, pe_CreateClientSocket = None, pe_socket_listener = True, pe_new_info = True,
     pe_new_stub = None, pe_new_session = None, pe_new_data = True, pe_getpid = 100, pe_ERR_DEAD_OBJECT = 29189\<rparr>"

definition example_info :: "ptr \<Rightarrow> recipient_info" where
  "example_info r = \<lparr>ri_recipient = r, ri_soFuncAddr = r, ri_soPath = ''lib''\<rparr>"

definition example_world :: "recipient_info list \<Rightarrow> recipient_info list \<Rightarrow> proxy_call list \<Rightarrow> proxy_world" where
  "example_world ds rs cs = \<lparr>pw_px = (fst (IPCObjectProxy 64 3 [] IF_PROT_DEFAULT None))\<lparr>px_recipients := ds, px_refreshRecipients := rs\<rparr>,
     pw_cur = Some \<lparr>ips = IPCProcessSkeleton 0, pskel = None\<rparr>, pw_calls = cs, pw_sendRequestCount = 0\<rparr>"

lemma example_reliable: "reliable_invoker example_proxy_env" "orderly_recipients example_proxy_env"
  by (simp_all add: reliable_invoker_def orderly_recipients_def example_proxy_env_def)

lemma example_match:
  "registrations_match (example_world [] [] [])"
  "registrations_match (example_world [example_info 8] [] [InvAddDeath 3 True])"
  "registrations_match (example_world [example_info 8] [example_info 16] [InvAddDeath 3 True, InvAddRefresh 3 True])"
  by (simp_all add: registrations_match_def example_world_def IPCObjectProxy_def death_registrations_def refresh_registrations_def)

theorem proxy_registrations_match_witness:
  "registrations_match (snd (AddDeathRecipient example_proxy_env 8 (example_world [] [] [])))"
proof (rule proxy_registrations_match [OF example_reliable _ example_match(1)])
  show "(proxy_op example_proxy_env)\<^sup>*\<^sup>* (example_world [] [] []) (snd (AddDeathRecipient example_proxy_env 8 (example_world [] [] [])))"
    by (rule r_into_rtranclp, rule op_add_death [where recipient = 8]) (rule surjective_pairing)
qed

theorem obituary_notifies_each_once_witness:
  "notified (SendObituary_proxy example_proxy_env (example_world [example_info 8, example_info 16] [] [InvAddDeath 3 True])) = [8, 16]"
  using obituary_notifies_each_once [of example_proxy_env "example_world [example_info 8, example_info 16] [] [InvAddDeath 3 True]"]
  by (simp add: example_proxy_env_def IsDlclosed_def GetNewSoPath_def example_world_def example_info_def IPCObjectProxy_def notified_def)

theorem last_reference_releases_once_witness:
  "\<exists>w'. OnLastStrongRef example_proxy_env (example_world [example_info 8] [] [InvAddDeath 3 True]) = Some w' \<and> released w' = [3]"
proof -
  let ?w = "example_world [example_info 8] [] [InvAddDeath 3 True]"
  have "\<exists>w'. OnLastStrongRef example_proxy_env ?w = Some w'"
    by (auto simp: OnLastStrongRef_def ips_DetachObject_def example_proxy_env_def Let_def split: option.split)
  then obtain w' where w': "OnLastStrongRef example_proxy_env ?w = Some w'" by blast
  have "pw_cur ?w \<noteq> None" "px_handle (pw_px ?w) = 3" "released ?w = []"
    by (simp_all add: example_world_def IPCObjectProxy_def released_def)
  then show ?thesis using last_reference_releases_once [OF example_reliable(1) example_match(2) w'] w' by auto
qed

theorem removal_with_refresh_misreported_witness:
  "\<exists>w'. RemoveDeathRecipient example_proxy_env 8
      (example_world [example_info 8] [example_info 16] [InvAddDeath 3 True, InvAddRefresh 3 True]) = (False, w') \<and>
    px_recipients (pw_px w') = []"
  using removal_with_refresh_misreported [OF example_reliable(1) example_match(3), of 8]
  by (auto simp: example_world_def IPCObjectProxy_def example_info_def IsObjectDead_def)

theorem initialisation_all_or_nothing_witness:
  "\<exists>w'. WaitForInit example_proxy_env (Some \<lparr>nd_proto = 1, nd_tokenid = 0, nd_stub_index = 1, nd_target_name = [], nd_local_name = [],
      nd_target_device = [], nd_local_device = [], nd_desc = []\<rparr>) (example_world [] [] []) = Some w'"
  using initialisation_all_or_nothing [of "example_world [] [] []" "\<lparr>nd_proto = 1, nd_tokenid = 0, nd_stub_index = 1, nd_target_name = [],
      nd_local_name = [], nd_target_device = [], nd_local_device = [], nd_desc = []\<rparr>" example_proxy_env True 0 "[]" "[]" True None]
  by (auto simp: example_world_def IPCObjectProxy_def IsObjectDead_def example_proxy_env_def)

end
