(* ===== verification/Object_Stub.thy ===== *)
theory Object_Stub
  imports Object_Proxy
begin

text \<open>
  \<open>IPCObjectStub\<close> (\<open>ipc_object_stub.cpp\<close>) with the functions of \<open>IPCSkeleton\<close> (\<open>ipc_skeleton.cpp\<close>) that
  tell who calls: the requests that every stub answers, the authorisations that it gives and takes
  back, and what happens with its first and its last reference.

  The state is the stub, the process and the numbers of strong references of all objects; the
  answers written into the reply and the calls to others are kept in their order. The parameter
  \<open>stub_env\<close> has the invokers of the thread, the message, of which only its reading functions are used,
  the permission service of the softbus, the registry, and the service that overrides
  \<open>OnRemoteRequest\<close>, which may change the whole state. The mutex of a serial stub orders the requests;
  one request is one step. Times that are only logged and the statistics are left out.
\<close>

section \<open>State\<close>

abbreviation (input) PING_TRANSACTION :: u32 where "PING_TRANSACTION \<equiv> 0x5F504E47"
abbreviation (input) GET_PID_UID :: u32 where "GET_PID_UID \<equiv> 0x5F475055"
abbreviation (input) DBINDER_ADD_COMMAUTH :: u32 where "DBINDER_ADD_COMMAUTH \<equiv> 0x5F444143"

abbreviation (input) IPC_STUB_WRITE_PARCEL_ERR :: int where "IPC_STUB_WRITE_PARCEL_ERR \<equiv> 301"
abbreviation (input) IPC_STUB_INVOKE_THREAD_ERR :: int where "IPC_STUB_INVOKE_THREAD_ERR \<equiv> 302"
abbreviation (input) IPC_STUB_INVALID_DATA_ERR :: int where "IPC_STUB_INVALID_DATA_ERR \<equiv> 303"
abbreviation (input) IPC_STUB_CURRENT_NULL_ERR :: int where "IPC_STUB_CURRENT_NULL_ERR \<equiv> 304"
abbreviation (input) IPC_STUB_UNKNOW_TRANS_ERR :: int where "IPC_STUB_UNKNOW_TRANS_ERR \<equiv> 305"
abbreviation (input) IPC_STUB_CREATE_BUS_SERVER_ERR :: int where "IPC_STUB_CREATE_BUS_SERVER_ERR \<equiv> 306"
abbreviation (input) IPC_STUB_REMOVE_SESSION_NAME_ERR :: int where "IPC_STUB_REMOVE_SESSION_NAME_ERR \<equiv> 307"
abbreviation (input) BINDER_CALLBACK_STUBINDEX_ERR :: int where "BINDER_CALLBACK_STUBINDEX_ERR \<equiv> 908"

abbreviation (input) ALLOWED_UID :: int where "ALLOWED_UID \<equiv> 10000"
abbreviation (input) SHELL_UID :: int where "SHELL_UID \<equiv> 2000"
abbreviation (input) HIDUMPER_SERVICE_UID :: int where "HIDUMPER_SERVICE_UID \<equiv> 1212"

text \<open>The invoker that is active in a thread: whether it serves the own device, and its caller.\<close>

record active_invoker =
  ai_local :: bool
  ai_pid :: int
  ai_uid :: int

datatype stub_call =
    StubDump int "u16string list"
  | CloseFd int
  | ProxySendObituary ptr
  | GrantPermission int int
  | RemovePermission string

record stub_world =
  sw_this :: ptr
  sw_descriptor :: u16string
  sw_lastRequestTime :: u64
  sw_requestSidFlag :: bool
  sw_cur :: "process_state option"
  sw_strong :: "ptr \<Rightarrow> int"
  sw_reply :: "arg list"
  sw_calls :: "stub_call list"

record 'd stub_env =
  se_active :: "active_invoker option"
  se_databus :: "databus_invoker option"
  se_getpid :: int
  se_getuid :: int
  se_self_token :: u64
  se_ReadUint32 :: "'d \<Rightarrow> u32 \<times> 'd"
  se_ReadUint64 :: "'d \<Rightarrow> u64 \<times> 'd"
  se_ReadInt32 :: "'d \<Rightarrow> int \<times> 'd"
  se_ReadString :: "'d \<Rightarrow> string \<times> 'd"
  se_ReadFileDescriptor :: "'d \<Rightarrow> int \<times> 'd"
  se_ReadString16Vector :: "'d \<Rightarrow> u16string list option"
  se_write :: "arg \<Rightarrow> bool"
  se_threads :: thread_env
  se_objects :: object_env
  se_StartServerListener :: "int option"
  se_GrantPermission :: "int \<Rightarrow> int \<Rightarrow> bool"
  se_RemovePermission :: "string \<Rightarrow> bool"
  se_samgr :: "(bool \<times> string) option"
  se_Dump :: "int \<Rightarrow> u16string list \<Rightarrow> int"
  se_service :: "(u32 \<Rightarrow> 'd \<Rightarrow> stub_world \<Rightarrow> int \<times> stub_world) option"
  se_now :: u64
  se_selinux :: bool

definition log_stub :: "stub_call \<Rightarrow> stub_world \<Rightarrow> stub_world" where
  "log_stub c w = w\<lparr>sw_calls := sw_calls w @ [c]\<rparr>"

definition set_stub_ips :: "process_state \<Rightarrow> ipc_skeleton \<Rightarrow> stub_world \<Rightarrow> stub_world" where
  "set_stub_ips st k w = w\<lparr>sw_cur := Some (st\<lparr>ips := k\<rparr>)\<rparr>"

definition IncStrongRef :: "stub_world \<Rightarrow> stub_world" where
  "IncStrongRef w = w\<lparr>sw_strong := (sw_strong w)(sw_this w := sw_strong w (sw_this w) + 1)\<rparr>"

definition DecStrongRef :: "stub_world \<Rightarrow> stub_world" where
  "DecStrongRef w = w\<lparr>sw_strong := (sw_strong w)(sw_this w := sw_strong w (sw_this w) - 1)\<rparr>"

text \<open>The writes of a chain with \<open>||\<close>: up to the first that fails.\<close>

fun write_reply :: "'d stub_env \<Rightarrow> arg list \<Rightarrow> stub_world \<Rightarrow> bool \<times> stub_world" where
  "write_reply E [] w = (True, w)"
| "write_reply E (a # as) w =
     (if se_write E a then write_reply E as (w\<lparr>sw_reply := sw_reply w @ [a]\<rparr>) else (False, w))"

section \<open>Callers\<close>

definition IsLocalCalling :: "'d stub_env \<Rightarrow> bool" where
  "IsLocalCalling E = (case se_active E of None \<Rightarrow> True | Some i \<Rightarrow> ai_local i)"

definition GetCallingPid :: "'d stub_env \<Rightarrow> int" where
  "GetCallingPid E =
     (if \<not> IsLocalCalling E then - 1 else (case se_active E of None \<Rightarrow> se_getpid E | Some i \<Rightarrow> ai_pid i))"

definition GetCallingUid :: "'d stub_env \<Rightarrow> int" where
  "GetCallingUid E =
     (if \<not> IsLocalCalling E then - 1 else (case se_active E of None \<Rightarrow> se_getuid E | Some i \<Rightarrow> ai_uid i))"

definition IsSamgrCall :: "stub_world \<Rightarrow> bool" where
  "IsSamgrCall w = (case sw_cur w of
     None \<Rightarrow> False | Some st \<Rightarrow> (case pskel st of None \<Rightarrow> False | Some ps \<Rightarrow> GetSamgrFlag ps))"

definition IsDeviceIdIllegal :: "string \<Rightarrow> bool" where
  "IsDeviceIdIllegal d \<longleftrightarrow> d = [] \<or> length d > DEVICEID_LENGTH"

section \<open>Life of a stub\<close>

definition SetRequestSidFlag :: "'d stub_env \<Rightarrow> bool \<Rightarrow> stub_world \<Rightarrow> stub_world" where
  "SetRequestSidFlag E flag w = (if se_selinux E then w\<lparr>sw_requestSidFlag := flag\<rparr> else w)"

definition IPCObjectStub :: "'d stub_env \<Rightarrow> ptr \<Rightarrow> u16string \<Rightarrow> process_state option \<Rightarrow> (ptr \<Rightarrow> int) \<Rightarrow> stub_world" where
  "IPCObjectStub E this descriptor cur strong =
     (let w = \<lparr>sw_this = this, sw_descriptor = descriptor, sw_lastRequestTime = se_now E, sw_requestSidFlag = False,
               sw_cur = cur, sw_strong = strong, sw_reply = [], sw_calls = []\<rparr>
      in case cur of
           None \<Rightarrow> w
         | Some st \<Rightarrow>
             (case pskel st of
                None \<Rightarrow> w
              | Some ps \<Rightarrow>
                  (let w1 = (if GetSamgrFlag ps then SetRequestSidFlag E True w else w)
                   in w1\<lparr>sw_cur := Some (st\<lparr>pskel := Some (snd (AttachValidObject this descriptor ps))\<rparr>)\<rparr>)))"

definition IPCObjectStub_destroy :: "stub_world \<Rightarrow> stub_world" where
  "IPCObjectStub_destroy w =
     w\<lparr>sw_cur := map_option (\<lambda>st. st\<lparr>pskel := map_option (\<lambda>ps. snd (DetachValidObject (sw_this w) ps)) (pskel st)\<rparr>) (sw_cur w)\<rparr>"

definition OnFirstStrongRef_stub :: "'d stub_env \<Rightarrow> stub_world \<Rightarrow> stub_world option" where
  "OnFirstStrongRef_stub E w =
     (case sw_cur w of
        None \<Rightarrow> Some w
      | Some st \<Rightarrow>
          (case ips_AttachObject (se_objects E) (sw_this w) True st of
             None \<Rightarrow> None
           | Some (_, st1) \<Rightarrow> Some (w\<lparr>sw_cur := Some st1\<rparr>)))"

definition OnLastStrongRef_stub :: "'d stub_env \<Rightarrow> stub_world \<Rightarrow> stub_world option" where
  "OnLastStrongRef_stub E w =
     (case sw_cur w of
        None \<Rightarrow> Some w
      | Some st \<Rightarrow>
          (case ips_DetachObject (se_objects E) (sw_this w) st of
             None \<Rightarrow> None
           | Some (_, st1) \<Rightarrow>
               (case EraseStubIndex (sw_this w) (ips st1) of
                  (stubIndex, k) \<Rightarrow> Some (set_stub_ips st1 (DetachAppAuthInfoByStub (sw_this w) stubIndex k) w))))"

section \<open>Requests that every stub answers\<close>

definition DBinderPingTransaction :: "'d stub_env \<Rightarrow> stub_world \<Rightarrow> int \<times> stub_world" where
  "DBinderPingTransaction E w =
     (case write_reply E [ArgI32 0] w of (ok, w1) \<Rightarrow> (if ok then 0 else IPC_STUB_WRITE_PARCEL_ERR, w1))"

definition DBinderSearchDescriptor :: "'d stub_env \<Rightarrow> stub_world \<Rightarrow> int \<times> stub_world" where
  "DBinderSearchDescriptor E w =
     (case write_reply E [ArgString16 (sw_descriptor w)] w of
        (ok, w1) \<Rightarrow> (if ok then 0 else IPC_STUB_WRITE_PARCEL_ERR, w1))"

definition DBinderSearchRefCount :: "'d stub_env \<Rightarrow> stub_world \<Rightarrow> int \<times> stub_world" where
  "DBinderSearchRefCount E w =
     (let refCount = sw_strong w (sw_this w);
          n = (if IsLocalCalling E then refCount - 1 else refCount)
      in (0, snd (write_reply E [ArgI32 n] w)))"

definition OnRemoteDump :: "'d stub_env \<Rightarrow> 'd \<Rightarrow> stub_world \<Rightarrow> int \<times> stub_world" where
  "OnRemoteDump E data w =
     (case se_ReadFileDescriptor E data of (fd, data1) \<Rightarrow>
        if fd \<noteq> - 1 then
          (case se_ReadString16Vector E data1 of
             Some args \<Rightarrow> (se_Dump E fd args, log_stub (CloseFd fd) (log_stub (StubDump fd args) w))
           | None \<Rightarrow> (0, log_stub (CloseFd fd) w))
        else (IPC_STUB_INVALID_DATA_ERR, w))"

definition DBinderDumpTransaction :: "'d stub_env \<Rightarrow> 'd \<Rightarrow> stub_world \<Rightarrow> int \<times> stub_world" where
  "DBinderDumpTransaction E data w =
     (let uid = GetCallingUid E in
      if \<not> IsLocalCalling E \<or> (uid \<noteq> 0 \<and> uid \<noteq> SHELL_UID \<and> uid \<noteq> HIDUMPER_SERVICE_UID) then (0, w)
      else OnRemoteDump E data w)"

definition ProcessProto :: "'d stub_env \<Rightarrow> stub_world \<Rightarrow> int \<times> stub_world" where
  "ProcessProto E w =
     (case write_reply E [ArgU32 (word_of_int IF_PROT_DEFAULT), ArgString16 (sw_descriptor w)] w of
        (ok, w1) \<Rightarrow> (if ok then 0 else IPC_STUB_WRITE_PARCEL_ERR, w1))"

section \<open>Authorisations\<close>

definition attach_auth :: "AppAuthInfo \<Rightarrow> process_state \<Rightarrow> stub_world \<Rightarrow> stub_world" where
  "attach_auth a st w =
     (case AttachOrUpdateAppAuthInfo a (ips st) of
        (inc, k) \<Rightarrow> (if inc then IncStrongRef else id) (set_stub_ips st k w))"

definition InvokerDataBusThread :: "'d stub_env \<Rightarrow> 'd \<Rightarrow> stub_world \<Rightarrow> int \<times> stub_world" where
  "InvokerDataBusThread E d0 w =
     (case se_ReadString E d0 of (deviceId, d1) \<Rightarrow> case se_ReadUint32 E d1 of (pid, d2) \<Rightarrow>
      case se_ReadUint32 E d2 of (uid, d3) \<Rightarrow> case se_ReadString E d3 of (remoteDeviceId, d4) \<Rightarrow>
      case se_ReadString E d4 of (name, d5) \<Rightarrow> case se_ReadUint32 E d5 of (tokenId, _) \<Rightarrow>
        if IsDeviceIdIllegal deviceId \<or> IsDeviceIdIllegal remoteDeviceId \<or> name = []
        then (IPC_STUB_INVALID_DATA_ERR, w)
        else (case sw_cur w of
            None \<Rightarrow> (IPC_STUB_CURRENT_NULL_ERR, w)
          | Some st \<Rightarrow>
              (case CreateSoftbusServer (se_threads E) (se_StartServerListener E) name st of
                 (False, st1) \<Rightarrow> (IPC_STUB_CREATE_BUS_SERVER_ERR, w\<lparr>sw_cur := Some st1\<rparr>)
               | (True, st1) \<Rightarrow>
                   (case AddStubByIndex (sw_this w) (ips st1) of (stubIndex, k) \<Rightarrow>
                      (let w1 = set_stub_ips st1 k w in
                       if stubIndex = 0 then (IPC_STUB_INVALID_DATA_ERR, w1)
                       else (case write_reply E [ArgU64 stubIndex, ArgString name, ArgString deviceId,
                                     ArgU32 (ucast (se_self_token E))] w1 of
                           (False, w2) \<Rightarrow> (IPC_STUB_INVALID_DATA_ERR, w2)
                         | (True, w2) \<Rightarrow>
                             (0, attach_auth \<lparr>aa_pid = pid, aa_uid = uid, aa_tokenId = tokenId, aa_socketId = 0,
                                   aa_stubIndex = stubIndex, aa_stub = sw_this w, aa_deviceId = remoteDeviceId\<rparr>
                                   (st1\<lparr>ips := k\<rparr>) w2)))))))"

definition InvokerThread :: "'d stub_env \<Rightarrow> 'd \<Rightarrow> stub_world \<Rightarrow> int \<times> stub_world" where
  "InvokerThread E d0 w =
     (case se_ReadUint32 E d0 of (t, d1) \<Rightarrow>
        if t = 0 then (case InvokerDataBusThread E d1 w of
            (r, w1) \<Rightarrow> (if r \<noteq> 0 then IPC_STUB_INVOKE_THREAD_ERR else 0, w1))
        else (IPC_STUB_INVALID_DATA_ERR, w))"

definition DBinderInvokeListenThread :: "'d stub_env \<Rightarrow> 'd \<Rightarrow> stub_world \<Rightarrow> int \<times> stub_world" where
  "DBinderInvokeListenThread E data w =
     (if \<not> IsLocalCalling E \<or> GetCallingUid E \<ge> ALLOWED_UID then (IPC_STUB_INVALID_DATA_ERR, w)
      else InvokerThread E data w)"

text \<open>The application that calls over the databus, with the index of this stub.\<close>

definition databus_caller :: "databus_invoker \<Rightarrow> ptr \<Rightarrow> u64 \<Rightarrow> AppAuthInfo" where
  "databus_caller i stub stubIndex = \<lparr>aa_pid = word_of_int (callerPid i), aa_uid = word_of_int (callerUid i),
     aa_tokenId = ucast (callerTokenID i), aa_socketId = clientFd i, aa_stubIndex = stubIndex, aa_stub = stub,
     aa_deviceId = callerDeviceID i\<rparr>"

definition DBinderIncRefsTransaction :: "'d stub_env \<Rightarrow> stub_world \<Rightarrow> int \<times> stub_world" where
  "DBinderIncRefsTransaction E w =
     (if IsLocalCalling E then (IPC_STUB_INVALID_DATA_ERR, w)
      else (case se_databus E of
          None \<Rightarrow> (IPC_STUB_INVALID_DATA_ERR, w)
        | Some i \<Rightarrow>
            (case sw_cur w of
               None \<Rightarrow> (IPC_STUB_INVALID_DATA_ERR, w)
             | Some st \<Rightarrow>
                 (0, set_stub_ips st (snd (AttachOrUpdateAppAuthInfo
                        (databus_caller i nullptr (QueryStubIndex (sw_this w) (ips st))) (ips st))) w))))"

definition DBinderDecRefsTransaction :: "'d stub_env \<Rightarrow> stub_world \<Rightarrow> int \<times> stub_world" where
  "DBinderDecRefsTransaction E w =
     (if IsLocalCalling E then (IPC_STUB_INVALID_DATA_ERR, w)
      else (case se_databus E of
          None \<Rightarrow> (IPC_STUB_INVALID_DATA_ERR, w)
        | Some i \<Rightarrow>
            (case sw_cur w of
               None \<Rightarrow> (IPC_STUB_INVALID_DATA_ERR, w)
             | Some st \<Rightarrow>
                 (case DetachAppAuthInfo (databus_caller i (sw_this w) (QueryStubIndex (sw_this w) (ips st))) (ips st) of
                    (r, k) \<Rightarrow> (0, (if r then DecStrongRef else id) (set_stub_ips st k w))))))"

definition AddAuthInfo :: "'d stub_env \<Rightarrow> 'd \<Rightarrow> stub_world \<Rightarrow> int \<times> stub_world" where
  "AddAuthInfo E d0 w =
     (case se_ReadUint32 E d0 of (pid, d1) \<Rightarrow> case se_ReadUint32 E d1 of (uid, d2) \<Rightarrow>
      case se_ReadString E d2 of (deviceId, d3) \<Rightarrow> case se_ReadUint64 E d3 of (idx, d4) \<Rightarrow>
      case se_ReadUint32 E d4 of (tokenId, _) \<Rightarrow>
        if IsDeviceIdIllegal deviceId then (IPC_STUB_INVALID_DATA_ERR, w)
        else (case sw_cur w of
            None \<Rightarrow> (IPC_STUB_CURRENT_NULL_ERR, w)
          | Some st \<Rightarrow>
              (let stubIndex = (if idx = 0 then QueryStubIndex (sw_this w) (ips st) else idx) in
               if stubIndex = 0 then (BINDER_CALLBACK_STUBINDEX_ERR, w)
               else (0, attach_auth \<lparr>aa_pid = pid, aa_uid = uid, aa_tokenId = tokenId, aa_socketId = 0,
                           aa_stubIndex = stubIndex, aa_stub = sw_this w, aa_deviceId = deviceId\<rparr> st w))))"

definition DBinderAddCommAuth :: "'d stub_env \<Rightarrow> 'd \<Rightarrow> stub_world \<Rightarrow> int \<times> stub_world" where
  "DBinderAddCommAuth E data w =
     (if IsLocalCalling E then (IPC_STUB_INVALID_DATA_ERR, w)
      else (case se_databus E of
          None \<Rightarrow> (IPC_STUB_INVALID_DATA_ERR, w)
        | Some i \<Rightarrow>
            if uint (word_of_int (callerUid i) :: u32) \<ge> ALLOWED_UID then (IPC_STUB_INVALID_DATA_ERR, w)
            else AddAuthInfo E data w))"

section \<open>Session names\<close>

text \<open>
  The registry is \<open>None\<close> where it cannot be had; otherwise it tells whether it is a proxy and which
  name it grants.
\<close>

definition GetSessionName_stub :: "'d stub_env \<Rightarrow> stub_world \<Rightarrow> string" where
  "GetSessionName_stub E w =
     (case sw_cur w of
        None \<Rightarrow> []
      | Some st \<Rightarrow>
          if exitFlag (ips st) then []
          else (case se_samgr E of None \<Rightarrow> [] | Some (isProxy, name) \<Rightarrow> if \<not> isProxy then [] else name))"

definition DBinderGetSessionName :: "'d stub_env \<Rightarrow> stub_world \<Rightarrow> int \<times> stub_world" where
  "DBinderGetSessionName E w =
     (if \<not> IsLocalCalling E then (IPC_STUB_INVALID_DATA_ERR, w)
      else
        (let name = GetSessionName_stub E w in
         if name = [] then (IPC_STUB_CREATE_BUS_SERVER_ERR, w)
         else (case write_reply E [ArgString name] w of
             (ok, w1) \<Rightarrow> (if ok then 0 else IPC_STUB_INVALID_DATA_ERR, w1))))"

text \<open>The end that both functions that create a name share.\<close>

definition grant_name :: "'d stub_env \<Rightarrow> int \<Rightarrow> int \<Rightarrow> stub_world \<Rightarrow> int \<times> stub_world" where
  "grant_name E uid pid w =
     (let name = CreateSessionName (se_GrantPermission E uid pid) uid pid;
          w1 = log_stub (GrantPermission uid pid) w
      in if name = [] then (IPC_STUB_INVALID_DATA_ERR, w1)
         else (case write_reply E [ArgU32 (word_of_int IF_PROT_DATABUS), ArgString name] w1 of
             (ok, w2) \<Rightarrow> (if ok then 0 else IPC_STUB_INVALID_DATA_ERR, w2)))"

definition GetGrantedSessionName_stub :: "'d stub_env \<Rightarrow> stub_world \<Rightarrow> int \<times> stub_world" where
  "GetGrantedSessionName_stub E w = grant_name E (GetCallingUid E) (GetCallingPid E) w"

definition GetSessionNameForPidUid_stub :: "'d stub_env \<Rightarrow> 'd \<Rightarrow> stub_world \<Rightarrow> int \<times> stub_world" where
  "GetSessionNameForPidUid_stub E d0 w =
     (case se_ReadUint32 E d0 of (pid, d1) \<Rightarrow> case se_ReadUint32 E d1 of (uid, _) \<Rightarrow>
        if pid = word_of_int (GetCallingPid E) then (IPC_STUB_INVALID_DATA_ERR, w)
        else grant_name E (sint uid) (sint pid) w)"

definition RemoveSessionName_stub :: "'d stub_env \<Rightarrow> 'd \<Rightarrow> stub_world \<Rightarrow> int \<times> stub_world" where
  "RemoveSessionName_stub E data w =
     (let name = fst (se_ReadString E data) in
      if name = [] then (IPC_STUB_INVALID_DATA_ERR, w)
      else (if se_RemovePermission E name then 0 else IPC_STUB_REMOVE_SESSION_NAME_ERR,
            log_stub (RemovePermission name) w))"

text \<open>The guard of the requests that only the registry answers, to callers of its own device.\<close>

definition samgr_only :: "'d stub_env \<Rightarrow> (stub_world \<Rightarrow> int \<times> stub_world) \<Rightarrow> stub_world \<Rightarrow> int \<times> stub_world" where
  "samgr_only E f w = (if \<not> IsLocalCalling E \<or> \<not> IsSamgrCall w then (IPC_STUB_INVALID_DATA_ERR, w) else f w)"

definition DBinderGetGrantedSessionName :: "'d stub_env \<Rightarrow> stub_world \<Rightarrow> int \<times> stub_world" where
  "DBinderGetGrantedSessionName E = samgr_only E (GetGrantedSessionName_stub E)"

definition DBinderGetSessionNameForPidUid :: "'d stub_env \<Rightarrow> 'd \<Rightarrow> stub_world \<Rightarrow> int \<times> stub_world" where
  "DBinderGetSessionNameForPidUid E data = samgr_only E (GetSessionNameForPidUid_stub E data)"

definition DBinderGetPidUid :: "'d stub_env \<Rightarrow> stub_world \<Rightarrow> int \<times> stub_world" where
  "DBinderGetPidUid E = samgr_only E (\<lambda>w.
     (case write_reply E [ArgU32 (word_of_int (se_getpid E)), ArgU32 (word_of_int (se_getuid E))] w of
        (ok, w1) \<Rightarrow> (if ok then 0 else IPC_STUB_INVALID_DATA_ERR, w1)))"

definition DBinderRemoveSessionName :: "'d stub_env \<Rightarrow> 'd \<Rightarrow> stub_world \<Rightarrow> int \<times> stub_world" where
  "DBinderRemoveSessionName E data = samgr_only E (RemoveSessionName_stub E data)"

section \<open>Dispatch\<close>

definition NoticeServiceDie_stub :: "stub_world \<Rightarrow> int \<times> stub_world" where
  "NoticeServiceDie_stub w =
     (case sw_cur w of
        None \<Rightarrow> (IPC_STUB_CURRENT_NULL_ERR, w)
      | Some st \<Rightarrow>
          (let p = QueryCallbackProxy (sw_this w) (ips st) in
           if p = nullptr then (IPC_STUB_INVALID_DATA_ERR, w)
           else (0, log_stub (ProxySendObituary p) w)))"

definition OnRemoteRequest :: "'d stub_env \<Rightarrow> u32 \<Rightarrow> 'd \<Rightarrow> stub_world \<Rightarrow> int \<times> stub_world" where
  "OnRemoteRequest E cd data w =
     (case se_service E of
        Some f \<Rightarrow> f cd data w
      | None \<Rightarrow>
          if cd = DBINDER_OBITUARY_TRANSACTION then
            (if fst (se_ReadInt32 E data) = 2 then NoticeServiceDie_stub w else (IPC_STUB_INVALID_DATA_ERR, w))
          else (IPC_STUB_UNKNOW_TRANS_ERR, w))"

definition SendRequestInner_stub :: "'d stub_env \<Rightarrow> u32 \<Rightarrow> 'd \<Rightarrow> stub_world \<Rightarrow> int \<times> stub_world" where
  "SendRequestInner_stub E cd data w = OnRemoteRequest E cd data (w\<lparr>sw_lastRequestTime := se_now E\<rparr>)"

definition SendRequest_stub :: "'d stub_env \<Rightarrow> u32 \<Rightarrow> 'd \<Rightarrow> stub_world \<Rightarrow> int \<times> stub_world" where
  "SendRequest_stub E cd data w =
     (if cd = PING_TRANSACTION then DBinderPingTransaction E w
      else if cd = INTERFACE_TRANSACTION then DBinderSearchDescriptor E w
      else if cd = SYNCHRONIZE_REFERENCE then DBinderSearchRefCount E w
      else if cd = DUMP_TRANSACTION then DBinderDumpTransaction E data w
      else if cd = GET_PROTO_INFO then ProcessProto E w
      else if cd = INVOKE_LISTEN_THREAD then DBinderInvokeListenThread E data w
      else if cd = DBINDER_INCREFS_TRANSACTION then DBinderIncRefsTransaction E w
      else if cd = DBINDER_DECREFS_TRANSACTION then DBinderDecRefsTransaction E w
      else if cd = DBINDER_ADD_COMMAUTH then DBinderAddCommAuth E data w
      else if cd = GET_SESSION_NAME then DBinderGetSessionName E w
      else if cd = GET_GRANTED_SESSION_NAME then DBinderGetGrantedSessionName E w
      else if cd = GET_SESSION_NAME_PID_UID then DBinderGetSessionNameForPidUid E data w
      else if cd = GET_PID_UID then DBinderGetPidUid E w
      else if cd = REMOVE_SESSION_NAME then DBinderRemoveSessionName E data w
      else if cd = CLEAR_DBINDER_SERVICE_STATE then (0, w)
      else SendRequestInner_stub E cd data w)"

end
