(* ===== verification/Object_Stub_Proofs.thy ===== *)
theory Object_Stub_Proofs
  imports Object_Stub Session_Proofs Auth_Proofs Databus_Invoker_Proofs
begin

text \<open>
  Properties of stubs: who may change authorisations, and that a stub which an application of
  another device may call keeps a reference for it, whatever requests, connections and lost
  connections follow each other.
\<close>

section \<open>The number of applications that may call a stub\<close>

definition holders :: "(string, (u64, int) omap) omap \<Rightarrow> u64 \<Rightarrow> string set" where
  "holders t i = {k. app_view t k i \<noteq> None}"

lemma finite_holders [simp]: "finite (holders t i)"
proof (rule finite_subset)
  show "holders t i \<subseteq> fst ` set t"
    by (auto simp: holders_def app_view_def map_of_eq_None_iff split: option.splits dest: map_of_SomeD intro: rev_image_eqI)
qed simp

definition held :: "ipc_skeleton \<Rightarrow> ptr \<Rightarrow> nat" where
  "held s p = (case index_loop p (stubObjects s) of
     None \<Rightarrow> 0 | Some i \<Rightarrow> if i = 0 then 0 else card (holders (appInfoToStubIndex s) i))"

definition stubs_wf :: "ipc_skeleton \<Rightarrow> bool" where
  "stubs_wf s \<longleftrightarrow> auth_wf (appInfoToStubIndex s) \<and> distinct (map fst (stubObjects s)) \<and>
     distinct (map snd (stubObjects s)) \<and>
     (\<forall>i. i \<noteq> 0 \<longrightarrow> i \<notin> fst ` set (stubObjects s) \<longrightarrow> holders (appInfoToStubIndex s) i = {})"

lemma index_loop_iff: "distinct (map snd m) \<Longrightarrow> index_loop p m = Some i \<longleftrightarrow> (i, p) \<in> set m"
  by (auto intro: index_loop_eq dest: index_loop_Some)

text \<open>How the holders change with one entry.\<close>

lemma card_holders_le:
  assumes "\<And>k. app_view t' k i \<noteq> None \<Longrightarrow> k \<noteq> a \<Longrightarrow> app_view t k i \<noteq> None"
  shows "card (holders t' i) \<le> card (holders t i) + 1"
proof -
  have "card (holders t' i) \<le> card (insert a (holders t i))"
    using assms by (intro card_mono) (simp, auto simp: holders_def)
  also have "\<dots> \<le> card (holders t i) + 1" by (simp add: card_insert_if)
  finally show ?thesis .
qed

lemma holders_cong: "(\<And>k. app_view t' k i = None \<longleftrightarrow> app_view t k i = None) \<Longrightarrow> holders t' i = holders t i"
  by (simp add: holders_def)

lemma held_cong:
  assumes "stubObjects s' = stubObjects s"
    "\<And>i. i \<noteq> 0 \<Longrightarrow> i \<in> fst ` set (stubObjects s) \<Longrightarrow> holders (appInfoToStubIndex s') i = holders (appInfoToStubIndex s) i"
  shows "held s' p = held s p"
  using assms(2) index_loop_Some [of p "stubObjects s"] by (force simp: held_def assms(1) split: option.splits)

lemma stubs_wf_cong:
  assumes "stubs_wf s" "stubObjects s' = stubObjects s" "auth_wf (appInfoToStubIndex s')"
    "\<And>i. i \<noteq> 0 \<Longrightarrow> i \<notin> fst ` set (stubObjects s) \<Longrightarrow> holders (appInfoToStubIndex s') i \<subseteq> holders (appInfoToStubIndex s) i"
  shows "stubs_wf s'"
  using assms by (fastforce simp: stubs_wf_def)

lemma query_stub_index:
  assumes "stubs_wf s" "QueryStubByIndex idx s = p" "p \<noteq> nullptr"
  shows "idx \<noteq> 0" "\<not> exitFlag s" "(idx, p) \<in> set (stubObjects s)" "index_loop p (stubObjects s) = Some idx"
    "QueryStubIndex p s = idx"
proof -
  show *: "idx \<noteq> 0" "\<not> exitFlag s" "(idx, p) \<in> set (stubObjects s)"
    using assms(2,3) by (auto simp: QueryStubByIndex_def split: if_splits option.splits dest: map_of_SomeD)
  show **: "index_loop p (stubObjects s) = Some idx"
    using assms(1) *(3) by (simp add: stubs_wf_def index_loop_iff)
  show "QueryStubIndex p s = idx" using * ** by (simp add: QueryStubIndex_def)
qed

section \<open>Changes that keep the references\<close>

text \<open>
  A change keeps the references if no stub gets more holders than it gets references.
\<close>

definition keeps_refs :: "ipc_skeleton \<Rightarrow> (ptr \<Rightarrow> int) \<Rightarrow> ipc_skeleton \<Rightarrow> (ptr \<Rightarrow> int) \<Rightarrow> bool" where
  "keeps_refs s str s' str' \<longleftrightarrow>
     stubs_wf s' \<and> (\<forall>p. int (held s' p) - int (held s p) \<le> str' p - str p)"

lemma keeps_refs_refl: "stubs_wf s \<Longrightarrow> keeps_refs s str s str"
  by (simp add: keeps_refs_def)

lemma keeps_refs_trans:
  "keeps_refs s str s' str' \<Longrightarrow> keeps_refs s' str' s'' str'' \<Longrightarrow> keeps_refs s str s'' str''"
  by (simp add: keeps_refs_def) (smt (verit))

lemma keeps_refs_same_tables:
  assumes "stubs_wf s" "stubObjects s' = stubObjects s" "appInfoToStubIndex s' = appInfoToStubIndex s"
  shows "keeps_refs s str s' str"
  using assms(1) unfolding keeps_refs_def held_def stubs_wf_def assms(2,3) by simp

lemma attach_holders:
  assumes "\<not> exitFlag s"
  shows "j \<noteq> aa_stubIndex a \<Longrightarrow>
      holders (appInfoToStubIndex (snd (AttachOrUpdateAppAuthInfo a s))) j = holders (appInfoToStubIndex s) j"
    "aa_stubIndex a \<noteq> 0 \<Longrightarrow>
      holders (appInfoToStubIndex (snd (AttachOrUpdateAppAuthInfo a s))) (aa_stubIndex a) =
        insert (aa_key a) (holders (appInfoToStubIndex s) (aa_stubIndex a))"
  using assms
  by (auto simp: AttachOrUpdateAppAuthInfo_def Let_def holders_def app_view_put app_view_def set_all_sockets_facts
      split: option.splits if_splits)

lemma attach_stubs [simp]: "stubObjects (snd (AttachOrUpdateAppAuthInfo a s)) = stubObjects s"
  by (simp add: AttachOrUpdateAppAuthInfo_def Let_def)

lemma attach_entry:
  assumes "\<not> exitFlag s" "aa_stubIndex a \<noteq> 0"
  shows "app_view (appInfoToStubIndex (snd (AttachOrUpdateAppAuthInfo a s))) (aa_key a) (aa_stubIndex a) = Some (aa_socketId a)"
    "\<not> exitFlag (snd (AttachOrUpdateAppAuthInfo a s))"
    "aa_stub a \<noteq> nullptr \<Longrightarrow> aa_socketId a = 0 \<Longrightarrow> fst (AttachOrUpdateAppAuthInfo a s)"
  using assms by (simp_all add: AttachOrUpdateAppAuthInfo_def Let_def app_view_put split: option.splits)

lemma attach_exit: "exitFlag s \<Longrightarrow> AttachOrUpdateAppAuthInfo a s = (False, s)"
  by (simp add: AttachOrUpdateAppAuthInfo_def)

lemma keeps_refs_grant:
  assumes wf: "stubs_wf s" and p: "index_loop p (stubObjects s) = Some (aa_stubIndex a)" and "aa_stub a = p"
    "aa_stubIndex a \<noteq> 0" "aa_socketId a = 0" "p \<noteq> nullptr" and r: "AttachOrUpdateAppAuthInfo a s = (inc, s')"
  shows "keeps_refs s str s' (if inc then str(p := str p + 1) else str)"
proof (cases "exitFlag s")
  case True
  with r wf show ?thesis by (simp add: attach_exit keeps_refs_refl)
next
  case False
  let ?i = "aa_stubIndex a"
  from False assms have inc: "inc" by (simp add: AttachOrUpdateAppAuthInfo_def Let_def split: if_splits)
  from r have s': "s' = snd (AttachOrUpdateAppAuthInfo a s)" by simp
  have stubs: "stubObjects s' = stubObjects s" by (simp add: s')
  have in_stubs: "(?i, p) \<in> set (stubObjects s)" by (rule index_loop_Some [OF p])
  have wf': "stubs_wf s'"
  proof (rule stubs_wf_cong [OF wf stubs])
    show "auth_wf (appInfoToStubIndex s')" using wf by (simp add: s' auth_wf_attach stubs_wf_def)
    fix i assume "i \<noteq> 0" "i \<notin> fst ` set (stubObjects s)"
    with in_stubs have "i \<noteq> ?i" by force
    then show "holders (appInfoToStubIndex s') i \<subseteq> holders (appInfoToStubIndex s) i"
      using attach_holders(1) [OF False, of i a] by (simp add: s')
  qed
  have "int (held s' q) - int (held s q) \<le> (str(p := str p + 1)) q - str q" for q
  proof (cases "q = p")
    case True
    have "card (holders (appInfoToStubIndex s') ?i) \<le> card (holders (appInfoToStubIndex s) ?i) + 1"
      using attach_holders(2) [OF False] assms(4) by (simp add: s' card_insert_if)
    with True p assms(4) show ?thesis by (simp add: held_def stubs)
  next
    case neq: False
    have "index_loop q (stubObjects s) \<noteq> Some ?i"
      using wf in_stubs neq by (auto simp: stubs_wf_def dest: index_loop_Some eq_key_imp_eq_value)
    then have "held s' q = held s q"
      using attach_holders(1) [OF False, of _ a] by (auto simp: held_def stubs s' split: option.splits)
    with neq show ?thesis by simp
  qed
  with inc wf' show ?thesis by (simp add: keeps_refs_def)
qed

lemma keeps_refs_update:
  assumes wf: "stubs_wf s"
    and a: "aa_stubIndex a = 0 \<or> aa_key a \<in> holders (appInfoToStubIndex s) (aa_stubIndex a)"
  shows "keeps_refs s str (snd (AttachOrUpdateAppAuthInfo a s)) str"
proof (cases "exitFlag s")
  case True
  with wf show ?thesis by (simp add: attach_exit keeps_refs_refl)
next
  case False
  let ?s = "snd (AttachOrUpdateAppAuthInfo a s)"
  have h: "holders (appInfoToStubIndex ?s) i = holders (appInfoToStubIndex s) i" if "i \<noteq> 0" for i
    using attach_holders(1) [OF False, of i a] attach_holders(2) [OF False, of a] that a
    by (cases "i = aa_stubIndex a") (auto simp: insert_absorb)
  have "stubs_wf ?s"
    using wf by (intro stubs_wf_cong [OF wf]) (simp_all add: auth_wf_attach stubs_wf_def h)
  moreover have "held ?s p = held s p" for p
    by (rule held_cong) (simp_all add: h)
  ultimately show ?thesis by (simp add: keeps_refs_def)
qed

lemma keeps_refs_detach:
  assumes wf: "stubs_wf s" and p: "index_loop p (stubObjects s) = Some (aa_stubIndex a)"
    "aa_stubIndex a \<noteq> 0" and r: "DetachAppAuthInfo a s = (dec, s')"
  shows "keeps_refs s str s' (if dec then str(p := str p - 1) else str)"
proof (cases "exitFlag s")
  case True
  with r wf show ?thesis by (simp add: DetachAppAuthInfo_def keeps_refs_refl)
next
  case False
  let ?i = "aa_stubIndex a"
  obtain t where e: "erase_index (aa_key a) ?i (aa_socketId a) (appInfoToStubIndex s) = (dec, t)"
    and s': "appInfoToStubIndex s' = t" "stubObjects s' = stubObjects s"
    using r False by (auto simp: DetachAppAuthInfo_def Let_def split: prod.splits if_splits)
  have awf: "auth_wf (appInfoToStubIndex s)" using wf by (simp add: stubs_wf_def)
  note spec = erase_index_spec [OF awf e]
  have h: "holders t j = holders (appInfoToStubIndex s) j - (if dec \<and> j = ?i then {aa_key a} else {})" for j
    using spec(3) by (auto simp: holders_def)
  have wf': "stubs_wf s'"
    by (rule stubs_wf_cong [OF wf s'(2)]) (simp_all add: s' spec(1) h)
  have "int (held s' q) - int (held s q) \<le> (if dec then str(p := str p - 1) else str) q - str q" for q
  proof (cases "q = p \<and> dec")
    case True
    then have "aa_key a \<in> holders (appInfoToStubIndex s) ?i" using spec(2) by (auto simp: holders_def)
    then have "card (holders t ?i) = card (holders (appInfoToStubIndex s) ?i) - 1"
      "card (holders (appInfoToStubIndex s) ?i) > 0"
      using True by (auto simp: h card_gt_0_iff)
    with True p show ?thesis by (simp add: held_def s')
  next
    case neq: False
    have "card (holders t j) \<le> card (holders (appInfoToStubIndex s) j)" for j
      by (rule card_mono) (simp_all add: h)
    then have "held s' q \<le> held s q" by (simp add: held_def s' split: option.splits)
    with neq show ?thesis by auto
  qed
  with wf' show ?thesis by (simp add: keeps_refs_def)
qed

lemma keeps_refs_index:
  assumes wf: "stubs_wf s" and r: "AddStubByIndex p s = (i, s')"
  shows "keeps_refs s str s' str" "i \<noteq> 0 \<Longrightarrow> index_loop p (stubObjects s') = Some i"
proof -
  have "keeps_refs s str s' str \<and> (i \<noteq> 0 \<longrightarrow> index_loop p (stubObjects s') = Some i)"
  proof (cases "exitFlag s \<or> index_loop p (stubObjects s) \<noteq> None")
    case True
    with r have "s' = s" "i \<noteq> 0 \<longrightarrow> index_loop p (stubObjects s) = Some i"
      by (auto simp: AddStubByIndex_def split: if_splits)
    with wf show ?thesis by (simp add: keeps_refs_refl)
  next
    case False
    then have none: "index_loop p (stubObjects s) = None" by simp
    show ?thesis
    proof (cases "map_of (stubObjects s) (randNum s)")
      case (Some q)
      with False none r have "i = 0" "s' = s\<lparr>randNum := randNum s + 1\<rparr>"
        by (simp_all add: AddStubByIndex_def Let_def)
      with wf show ?thesis by (simp add: keeps_refs_same_tables)
    next
      case None
      with False none r have i: "i = randNum s"
        and s': "s' = s\<lparr>randNum := randNum s + 1, stubObjects := (i, p) # stubObjects s\<rparr>"
        by (auto simp: AddStubByIndex_def Let_def)
      have "i \<notin> fst ` set (stubObjects s)" using None by (simp add: map_of_eq_None_iff i)
      with wf none have wf': "stubs_wf s'" and "i \<noteq> 0 \<longrightarrow> holders (appInfoToStubIndex s) i = {}"
        by (auto simp: s' stubs_wf_def index_loop_None)
      then have "held s' q = held s q" for q
        using none by (auto simp: held_def s' split: option.splits)
      with wf' show ?thesis by (simp add: keeps_refs_def s')
    qed
  qed
  then show "keeps_refs s str s' str" "i \<noteq> 0 \<Longrightarrow> index_loop p (stubObjects s') = Some i" by simp_all
qed

text \<open>The last reference of a stub takes its index and all its grants.\<close>

lemma keeps_refs_last:
  assumes wf: "stubs_wf s" and r: "EraseStubIndex p s = (i, s')"
  shows "keeps_refs s str (DetachAppAuthInfoByStub p i s') str"
proof (cases "exitFlag s \<or> index_loop p (stubObjects s) = None")
  case True
  let ?s = "DetachAppAuthInfoByStub p i s'"
  from True r have "i = 0" "s' = s" by (auto simp: EraseStubIndex_def split: if_splits)
  then have s: "stubObjects ?s = stubObjects s"
    "auth_wf (appInfoToStubIndex ?s)"
    and h: "j \<noteq> 0 \<Longrightarrow> holders (appInfoToStubIndex ?s) j = holders (appInfoToStubIndex s) j" for j
    using wf by (simp_all add: DetachAppAuthInfoByStub_def stubs_wf_def erase_stub_spec holders_def)
  have "held ?s q = held s q" for q by (rule held_cong) (simp_all add: s h)
  moreover have "stubs_wf ?s" by (rule stubs_wf_cong [OF wf]) (simp_all add: s h)
  ultimately show ?thesis by (simp add: keeps_refs_def)
next
  case False
  let ?s = "DetachAppAuthInfoByStub p i s'"
  from False r have i: "index_loop p (stubObjects s) = Some i"
    and s': "s' = s\<lparr>stubObjects := filter (\<lambda>e. fst e \<noteq> i) (stubObjects s)\<rparr>"
    by (auto simp: EraseStubIndex_def)
  have d: "distinct (map fst (stubObjects s))" "distinct (map snd (stubObjects s))"
    and awf: "auth_wf (appInfoToStubIndex s)" using wf by (simp_all add: stubs_wf_def)
  have s: "stubObjects ?s = filter (\<lambda>e. fst e \<noteq> i) (stubObjects s)"
    "appInfoToStubIndex ?s = erase_stub_loop i (appInfoToStubIndex s)"
    using False by (simp_all add: DetachAppAuthInfoByStub_def s')
  have h: "holders (appInfoToStubIndex ?s) j = (if j = i then {} else holders (appInfoToStubIndex s) j)" for j
    using erase_stub_spec(2) [OF awf] by (simp add: holders_def s)
  have "stubs_wf ?s"
    unfolding stubs_wf_def h
  proof (intro conjI allI impI)
    show "auth_wf (appInfoToStubIndex ?s)" unfolding s by (rule erase_stub_spec(1) [OF awf])
    show "distinct (map fst (stubObjects ?s))" "distinct (map snd (stubObjects ?s))"
      unfolding s by (rule distinct_map_filter [OF d(1)], rule distinct_map_filter [OF d(2)])
    fix j :: u64 assume "j \<noteq> 0" "j \<notin> fst ` set (stubObjects ?s)"
    with wf show "(if j = i then {} else holders (appInfoToStubIndex s) j) = {}"
      by (auto simp: s stubs_wf_def)
  qed
  moreover have "held ?s q \<le> held s q" for q
    using index_loop_filter [OF d index_loop_Some [OF i], of q]
    by (auto simp: held_def s(1) h split: option.splits)
  ultimately show ?thesis by (simp add: keeps_refs_def)
qed

section \<open>A connection that is lost\<close>

lemma count_concat: "count_list (concat xss) x = sum_list (map (\<lambda>xs. count_list xs x) xss)"
  by (induction xss) simp_all

lemma count_keys:
  assumes "omap_wf m"
  shows "count_list (map fst (filter (\<lambda>e. snd e = fd) m)) i = (if map_of m i = Some fd then 1 else 0)"
  using assms
proof (induction m)
  case (Cons e m)
  obtain a b where e: "e = (a, b)" by (cases e)
  have "map_of m a = None" using Cons.prems by (auto simp: e map_of_eq_None_iff)
  with Cons show ?case by (cases "i = a") (auto simp: e)
qed simp

lemma count_socket_loop:
  assumes "auth_wf t"
  shows "count_list (fst (erase_socket_loop fd t [])) i = card {k. app_view t k i = Some fd}"
  using assms
proof (induction t)
  case Nil
  then show ?case by (simp add: app_view_def)
next
  case (Cons e t)
  obtain k m where e: "e = (k, m)" by (cases e)
  have wf: "auth_wf t" "omap_wf m" and k: "map_of t k = None"
    using Cons.prems by (auto simp: e auth_wf_def map_of_eq_None_iff)
  have fin: "finite {k'. app_view t k' i = Some fd}"
    by (rule finite_subset [OF _ finite_holders [of t i]]) (auto simp: holders_def)
  have "{k'. app_view (e # t) k' i = Some fd} =
      {k'. app_view t k' i = Some fd} \<union> (if map_of m i = Some fd then {k} else {})"
    using k by (auto simp: e app_view_def split: if_splits)
  moreover have "k \<notin> {k'. app_view t k' i = Some fd}" using k by (simp add: app_view_def)
  ultimately show ?case
    using Cons.IH [OF wf(1)] count_keys [OF wf(2), of fd i] fin
    by (simp add: erase_socket_loop_prune e)
qed

definition dec_refs :: "ptr list \<Rightarrow> (ptr \<Rightarrow> int) \<Rightarrow> ptr \<Rightarrow> int" where
  "dec_refs ps str = fold (\<lambda>p s. s(p := s p - 1)) ps str"

lemma dec_refs_count: "dec_refs ps str p = str p - int (count_list ps p)"
  unfolding dec_refs_def by (induction ps arbitrary: str) auto

lemma count_stubs:
  assumes "distinct (map fst (stubObjects s))" "distinct (map snd (stubObjects s))" "\<not> exitFlag s" "p \<noteq> nullptr"
  shows "count_list (filter (\<lambda>q. q \<noteq> nullptr) (map (\<lambda>i. QueryStubByIndex i s) is)) p =
    (case index_loop p (stubObjects s) of None \<Rightarrow> 0 | Some i \<Rightarrow> if i = 0 then 0 else count_list is i)"
proof -
  have q: "QueryStubByIndex i s = p \<longleftrightarrow> i \<noteq> 0 \<and> index_loop p (stubObjects s) = Some i" for i
    using assms map_of_eq_Some_iff [OF assms(1), of i p] index_loop_iff [OF assms(2), of p i]
    by (cases "map_of (stubObjects s) i") (auto simp: QueryStubByIndex_def)
  show ?thesis
  proof (induction "is")
    case (Cons i "is")
    have "count_list (filter (\<lambda>q. q \<noteq> nullptr) (map (\<lambda>i. QueryStubByIndex i s) (i # is))) p =
        (if QueryStubByIndex i s = p then 1 else 0) +
        count_list (filter (\<lambda>q. q \<noteq> nullptr) (map (\<lambda>i. QueryStubByIndex i s) is)) p"
      using assms(4) by simp
    with Cons show ?case by (simp add: q split: option.splits)
  qed (simp split: option.splits)
qed

lemma keeps_refs_close:
  assumes wf: "stubs_wf s" and r: "DetachAppAuthInfoBySocketId fd s = (idx, s')"
  shows "keeps_refs s str s' (dec_refs (filter (\<lambda>q. q \<noteq> nullptr) (map (\<lambda>i. QueryStubByIndex i s') idx)) str)"
proof (cases "exitFlag s")
  case True
  with r wf show ?thesis by (simp add: DetachAppAuthInfoBySocketId_def keeps_refs_refl dec_refs_def)
next
  case False
  let ?t = "appInfoToStubIndex s"
  obtain t where e: "erase_socket_loop fd ?t [] = (idx, t)"
    and s': "appInfoToStubIndex s' = t" "stubObjects s' = stubObjects s" "\<not> exitFlag s'"
    using r False by (auto simp: DetachAppAuthInfoBySocketId_def split: prod.splits)
  have awf: "auth_wf ?t" and d: "distinct (map fst (stubObjects s))" "distinct (map snd (stubObjects s))"
    using wf by (simp_all add: stubs_wf_def)
  note spec = erase_socket_spec [OF awf e]
  have h: "holders t i = holders ?t i - {k. app_view ?t k i = Some fd}" for i
    using spec(2) by (auto simp: holders_def)
  have sub: "{k. app_view ?t k i = Some fd} \<subseteq> holders ?t i" for i by (auto simp: holders_def)
  have c: "card (holders t i) + count_list idx i = card (holders ?t i)" for i
    using count_socket_loop [OF awf, of fd i] sub [of i] finite_subset [OF sub finite_holders]
      card_mono [OF finite_holders sub, of i] by (simp add: h e card_Diff_subset)
  have "stubs_wf s'"
    by (rule stubs_wf_cong [OF wf s'(2)]) (simp_all add: s'(1) spec(1) h)
  moreover have "int (held s' p) - int (held s p) \<le>
      dec_refs (filter (\<lambda>q. q \<noteq> nullptr) (map (\<lambda>i. QueryStubByIndex i s') idx)) str p - str p" for p
  proof (cases "p = nullptr")
    case True
    have "count_list (filter (\<lambda>q. q \<noteq> nullptr) xs) nullptr = 0" for xs by (simp add: count_list_0_iff)
    moreover have "held s' p \<le> held s p"
      using c by (auto simp: held_def s' split: option.splits) (metis le_add1)
    ultimately show ?thesis using True by (simp add: dec_refs_count)
  next
    case False
    have "held s' p + (case index_loop p (stubObjects s) of None \<Rightarrow> 0 | Some i \<Rightarrow> if i = 0 then 0 else count_list idx i)
        = held s p"
      using c by (simp add: held_def s' split: option.splits)
    then show ?thesis using count_stubs [of s' p idx] d s' False by (simp add: dec_refs_count)
  qed
  ultimately show ?thesis by (simp add: keeps_refs_def)
qed

section \<open>Requests\<close>

text \<open>A service that leaves the process and the references as they are.\<close>

definition neutral_service :: "'d stub_env \<Rightarrow> bool" where
  "neutral_service E \<longleftrightarrow> (\<forall>f. se_service E = Some f \<longrightarrow>
     (\<forall>cd data w. sw_cur (snd (f cd data w)) = sw_cur w \<and> sw_strong (snd (f cd data w)) = sw_strong w))"

text \<open>The stub index in a request for an authorisation.\<close>

definition auth_index :: "'d stub_env \<Rightarrow> 'd \<Rightarrow> u64" where
  "auth_index E d0 = fst (se_ReadUint64 E (snd (se_ReadString E (snd (se_ReadUint32 E (snd (se_ReadUint32 E d0)))))))"

definition untouched :: "stub_world \<Rightarrow> stub_world \<Rightarrow> bool" where
  "untouched w w' \<longleftrightarrow> sw_this w' = sw_this w \<and> sw_cur w' = sw_cur w \<and> sw_strong w' = sw_strong w"

named_theorems untouched_simps \<open>what leaves process and references alone\<close>

lemma untouched_refl [untouched_simps]: "untouched w w"
  by (simp add: untouched_def)

lemma untouched_log [untouched_simps]: "untouched w (log_stub c w') \<longleftrightarrow> untouched w w'"
  by (simp add: untouched_def log_stub_def)

lemma untouched_write [untouched_simps]: "untouched w (snd (write_reply E as w')) \<longleftrightarrow> untouched w w'"
  by (induction E as w' rule: write_reply.induct) (auto simp: untouched_def)

lemma write_reply_untouched: "write_reply E as w = (ok, w') \<Longrightarrow> untouched w w'"
  using untouched_write [of w E as w] by (simp add: untouched_refl)

lemmas neutral_handlers_def = DBinderPingTransaction_def DBinderSearchDescriptor_def DBinderSearchRefCount_def
  DBinderDumpTransaction_def OnRemoteDump_def ProcessProto_def DBinderGetSessionName_def samgr_only_def
  DBinderGetGrantedSessionName_def DBinderGetSessionNameForPidUid_def DBinderGetPidUid_def
  DBinderRemoveSessionName_def GetGrantedSessionName_stub_def GetSessionNameForPidUid_stub_def
  RemoveSessionName_stub_def grant_name_def

lemma neutral_handlers:
  "untouched w (snd (DBinderPingTransaction E w))" "untouched w (snd (DBinderSearchDescriptor E w))"
  "untouched w (snd (DBinderSearchRefCount E w))" "untouched w (snd (DBinderDumpTransaction E data w))"
  "untouched w (snd (ProcessProto E w))" "untouched w (snd (DBinderGetSessionName E w))"
  "untouched w (snd (DBinderGetGrantedSessionName E w))" "untouched w (snd (DBinderGetSessionNameForPidUid E data w))"
  "untouched w (snd (DBinderGetPidUid E w))" "untouched w (snd (DBinderRemoveSessionName E data w))"
  by (simp_all add: neutral_handlers_def Let_def case_prod_beta untouched_simps del: write_reply.simps split: option.splits)

lemma neutral_inner:
  assumes "neutral_service E"
  shows "sw_cur (snd (SendRequestInner_stub E cd data w)) = sw_cur w"
    "sw_strong (snd (SendRequestInner_stub E cd data w)) = sw_strong w"
  using assms
  by (auto simp: SendRequestInner_stub_def OnRemoteRequest_def neutral_service_def NoticeServiceDie_stub_def
      Let_def log_stub_def split: option.splits)

text \<open>The requests that can change the process or a reference.\<close>

lemma request_cases:
  assumes "neutral_service E"
  shows "(sw_cur (snd (SendRequest_stub E cd data w)) = sw_cur w \<and>
      sw_strong (snd (SendRequest_stub E cd data w)) = sw_strong w) \<or>
    cd = INVOKE_LISTEN_THREAD \<and> SendRequest_stub E cd data w = DBinderInvokeListenThread E data w \<or>
    cd = DBINDER_INCREFS_TRANSACTION \<and> SendRequest_stub E cd data w = DBinderIncRefsTransaction E w \<or>
    cd = DBINDER_DECREFS_TRANSACTION \<and> SendRequest_stub E cd data w = DBinderDecRefsTransaction E w \<or>
    cd = DBINDER_ADD_COMMAUTH \<and> SendRequest_stub E cd data w = DBinderAddCommAuth E data w"
  using neutral_inner [OF assms, of cd data w]
  by (simp add: SendRequest_stub_def neutral_handlers [unfolded untouched_def])

definition request_keeps :: "stub_world \<Rightarrow> stub_world \<Rightarrow> bool" where
  "request_keeps w w' \<longleftrightarrow> (\<forall>st. sw_cur w = Some st \<longrightarrow> stubs_wf (ips st) \<longrightarrow>
     (\<exists>st'. sw_cur w' = Some st' \<and> keeps_refs (ips st) (sw_strong w) (ips st') (sw_strong w')))"

lemma request_keeps_same:
  "sw_cur w' = sw_cur w \<Longrightarrow> sw_strong w' = sw_strong w \<Longrightarrow> request_keeps w w'"
  by (simp add: request_keeps_def keeps_refs_refl)

lemma server_keeps_tables:
  assumes "CreateSoftbusServer T listener name st = (r, st')"
  shows "stubObjects (ips st') = stubObjects (ips st)" "appInfoToStubIndex (ips st') = appInfoToStubIndex (ips st)"
  using assms
  by (auto simp: CreateSoftbusServer_def ips_SpawnThread_def Let_def split: if_splits option.splits prod.splits)

lemma attach_auth_keeps:
  assumes "stubs_wf (ips st)" "index_loop (sw_this w) (stubObjects (ips st)) = Some (aa_stubIndex a)"
    "aa_stub a = sw_this w" "aa_stubIndex a \<noteq> 0" "aa_socketId a = 0" "sw_this w \<noteq> nullptr"
  shows "\<exists>st'. sw_cur (attach_auth a st w) = Some st' \<and>
    keeps_refs (ips st) (sw_strong w) (ips st') (sw_strong (attach_auth a st w))"
proof -
  obtain inc k where r: "AttachOrUpdateAppAuthInfo a (ips st) = (inc, k)" by (meson surj_pair)
  from keeps_refs_grant [OF assms(1-2) assms(3-6) r, of "sw_strong w"] r show ?thesis
    by (cases inc) (simp_all add: attach_auth_def set_stub_ips_def IncStrongRef_def)
qed

lemma listen_thread_keeps:
  assumes "sw_this w \<noteq> nullptr"
  shows "request_keeps w (snd (InvokerDataBusThread E d0 w))"
  unfolding request_keeps_def
proof (intro allI impI)
  fix st assume cur: "sw_cur w = Some st" and wf: "stubs_wf (ips st)"
  define w' where "w' = snd (InvokerDataBusThread E d0 w)"
  let ?P = "\<lambda>w'. \<exists>st'. sw_cur w' = Some st' \<and> keeps_refs (ips st) (sw_strong w) (ips st') (sw_strong w')"
  obtain deviceId d1 pid d2 uid d3 remoteDeviceId d4 name d5 tokenId d6 where
    reads: "se_ReadString E d0 = (deviceId, d1)" "se_ReadUint32 E d1 = (pid, d2)" "se_ReadUint32 E d2 = (uid, d3)"
      "se_ReadString E d3 = (remoteDeviceId, d4)" "se_ReadString E d4 = (name, d5)" "se_ReadUint32 E d5 = (tokenId, d6)"
    by (meson surj_pair)
  obtain r st1 where srv: "CreateSoftbusServer (se_threads E) (se_StartServerListener E) name st = (r, st1)"
    by (meson surj_pair)
  note tables = server_keeps_tables [OF srv]
  have k1: "keeps_refs (ips st) (sw_strong w) (ips st1) (sw_strong w)"
    by (rule keeps_refs_same_tables [OF wf tables])
  then have wf1: "stubs_wf (ips st1)" by (simp add: keeps_refs_def)
  obtain i k where add: "AddStubByIndex (sw_this w) (ips st1) = (i, k)" by (meson surj_pair)
  note idx = keeps_refs_index [OF wf1 add]
  have k2: "keeps_refs (ips st) (sw_strong w) k (sw_strong w)" by (rule keeps_refs_trans [OF k1 idx(1)])
  define w1 where "w1 = set_stub_ips st1 k w"
  obtain ok w2 where wr: "write_reply E [ArgU64 i, ArgString name, ArgString deviceId, ArgU32 (ucast (se_self_token E))] w1 = (ok, w2)"
    by (meson surj_pair)
  have w2: "sw_this w2 = sw_this w" "sw_cur w2 = Some (st1\<lparr>ips := k\<rparr>)" "sw_strong w2 = sw_strong w"
    using write_reply_untouched [OF wr] by (simp_all add: untouched_def w1_def set_stub_ips_def)
  define a where "a = \<lparr>aa_pid = pid, aa_uid = uid, aa_tokenId = tokenId, aa_socketId = 0,
    aa_stubIndex = i, aa_stub = sw_this w, aa_deviceId = remoteDeviceId\<rparr>"
  have grant: "?P (attach_auth a (st1\<lparr>ips := k\<rparr>) w2)" if "i \<noteq> 0"
  proof -
    have "stubs_wf k" using k2 by (simp add: keeps_refs_def)
    with attach_auth_keeps [of "st1\<lparr>ips := k\<rparr>" w2 a] that idx(2) assms obtain st' where
      "sw_cur (attach_auth a (st1\<lparr>ips := k\<rparr>) w2) = Some st'"
      "keeps_refs k (sw_strong w) (ips st') (sw_strong (attach_auth a (st1\<lparr>ips := k\<rparr>) w2))"
      by (auto simp: a_def w2)
    with keeps_refs_trans [OF k2] show ?thesis by blast
  qed
  have "w' \<in> {w, w\<lparr>sw_cur := Some st1\<rparr>, w1, w2} \<or> i \<noteq> 0 \<and> w' = attach_auth a (st1\<lparr>ips := k\<rparr>) w2"
    unfolding w'_def InvokerDataBusThread_def reads prod.case cur option.case srv add Let_def
      w1_def [symmetric] a_def [symmetric] wr
    by (simp split: bool.splits prod.splits)
  moreover have "?P w" "?P (w\<lparr>sw_cur := Some st1\<rparr>)" "?P w1" "?P w2"
    using cur wf k1 k2 by (simp_all add: w1_def set_stub_ips_def w2 keeps_refs_refl)
  ultimately show "?P (snd (InvokerDataBusThread E d0 w))"
    using grant unfolding w'_def [symmetric] by blast
qed

text \<open>
  The invoker of a request has passed the check of its caller for the index of the stub: then the
  stub has this index and the application of the caller may call it.
\<close>

definition checked_caller :: "databus_invoker \<Rightarrow> ptr \<Rightarrow> process_state \<Rightarrow> bool" where
  "checked_caller i p st \<longleftrightarrow> (\<exists>sock idx i0. CheckAndSetCallerInfo sock idx (Some st) i0 = (0, i) \<and>
     QueryStubByIndex idx (ips st) = p)"

lemma checked_caller_holds:
  assumes wf: "stubs_wf (ips st)" and c: "checked_caller i p st" and "p \<noteq> nullptr"
  shows "index_loop p (stubObjects (ips st)) = Some (QueryStubIndex p (ips st))" "QueryStubIndex p (ips st) \<noteq> 0"
    "aa_key (databus_caller i q (QueryStubIndex p (ips st)))
       \<in> holders (appInfoToStubIndex (ips st)) (QueryStubIndex p (ips st))"
proof -
  from c obtain sock idx i0 where chk: "CheckAndSetCallerInfo sock idx (Some st) i0 = (0, i)"
    and q: "QueryStubByIndex idx (ips st) = p" by (auto simp: checked_caller_def)
  note stub = query_stub_index [OF wf q assms(3)]
  show "index_loop p (stubObjects (ips st)) = Some (QueryStubIndex p (ips st))" "QueryStubIndex p (ips st) \<noteq> 0"
    using stub by simp_all
  define o1 where "o1 = sessions (ips st) (QueryClientSessionObject (word_of_int sock) (Some st))"
  have allowed: "QueryAppInfoToStubIndex_app (caller_app o1 sock idx) (ips st)"
    and i: "i = SetCallerInfo \<lparr>ci_callerPid = so_pid o1, ci_callerUid = so_uid o1, ci_clientFd = sock,
      ci_callerTokenID = ucast (so_tokenId o1), ci_firstTokenID = ucast (so_tokenId o1),
      ci_callerDeviceID = serverDeviceId o1\<rparr> i0"
    using chk by (auto simp: CheckAndSetCallerInfo_def Let_def o1_def split: if_splits)
  have "ucast (ucast x :: u64) = x" for x :: u32 by transfer simp
  then have "aa_key (databus_caller i q idx) = aa_key (caller_app o1 sock idx)"
    by (simp add: aa_key_def databus_caller_def caller_app_def i SetCallerInfo_def)
  moreover have "aa_key (caller_app o1 sock idx) \<in> holders (appInfoToStubIndex (ips st)) idx"
    using allowed by (auto simp: QueryAppInfoToStubIndex_app_def index_allowed_view holders_def caller_app_def
        split: if_splits)
  ultimately show "aa_key (databus_caller i q (QueryStubIndex p (ips st)))
       \<in> holders (appInfoToStubIndex (ips st)) (QueryStubIndex p (ips st))"
    by (simp add: stub)
qed

lemma increfs_keeps:
  assumes "sw_this w \<noteq> nullptr" "sw_cur w = Some st" "\<not> IsLocalCalling E \<longrightarrow> se_databus E = Some i \<and> checked_caller i (sw_this w) st"
  shows "request_keeps w (snd (DBinderIncRefsTransaction E w))"
  unfolding request_keeps_def
proof (intro allI impI)
  fix st1 assume "sw_cur w = Some st1" "stubs_wf (ips st1)"
  with assms(2) have wf: "stubs_wf (ips st)" and st1: "st1 = st" by simp_all
  show "\<exists>st'. sw_cur (snd (DBinderIncRefsTransaction E w)) = Some st' \<and>
      keeps_refs (ips st1) (sw_strong w) (ips st') (sw_strong (snd (DBinderIncRefsTransaction E w)))"
  proof (cases "IsLocalCalling E")
    case True
    with assms(2) wf st1 show ?thesis by (simp add: DBinderIncRefsTransaction_def keeps_refs_refl)
  next
    case False
    with assms(3) have i: "se_databus E = Some i" "checked_caller i (sw_this w) st" by simp_all
    note h = checked_caller_holds [OF wf i(2) assms(1)]
    have "keeps_refs (ips st) (sw_strong w)
        (snd (AttachOrUpdateAppAuthInfo (databus_caller i nullptr (QueryStubIndex (sw_this w) (ips st))) (ips st))) (sw_strong w)"
      using h(3) [of nullptr] by (intro keeps_refs_update [OF wf]) (simp add: databus_caller_def)
    with False assms(2) i(1) st1 show ?thesis by (simp add: DBinderIncRefsTransaction_def set_stub_ips_def)
  qed
qed

lemma decrefs_keeps:
  assumes "sw_this w \<noteq> nullptr" "sw_cur w = Some st" "\<not> IsLocalCalling E \<longrightarrow> se_databus E = Some i \<and> checked_caller i (sw_this w) st"
  shows "request_keeps w (snd (DBinderDecRefsTransaction E w))"
  unfolding request_keeps_def
proof (intro allI impI)
  fix st1 assume "sw_cur w = Some st1" "stubs_wf (ips st1)"
  with assms(2) have wf: "stubs_wf (ips st)" and st1: "st1 = st" by simp_all
  show "\<exists>st'. sw_cur (snd (DBinderDecRefsTransaction E w)) = Some st' \<and>
      keeps_refs (ips st1) (sw_strong w) (ips st') (sw_strong (snd (DBinderDecRefsTransaction E w)))"
  proof (cases "IsLocalCalling E")
    case True
    with assms(2) wf st1 show ?thesis by (simp add: DBinderDecRefsTransaction_def keeps_refs_refl)
  next
    case False
    with assms(3) have i: "se_databus E = Some i" "checked_caller i (sw_this w) st" by simp_all
    note h = checked_caller_holds [OF wf i(2) assms(1)]
    let ?a = "databus_caller i (sw_this w) (QueryStubIndex (sw_this w) (ips st))"
    obtain r k where d: "DetachAppAuthInfo ?a (ips st) = (r, k)" by (meson surj_pair)
    have "keeps_refs (ips st) (sw_strong w) k
        (if r then (sw_strong w)(sw_this w := sw_strong w (sw_this w) - 1) else sw_strong w)"
      using h by (intro keeps_refs_detach [OF wf _ _ d]) (simp_all add: databus_caller_def)
    with False assms(2) i(1) st1 d show ?thesis
      by (cases r) (simp_all add: DBinderDecRefsTransaction_def set_stub_ips_def DecStrongRef_def)
  qed
qed

lemma add_auth_keeps:
  assumes "sw_this w \<noteq> nullptr" "sw_cur w = Some st" "\<not> IsLocalCalling E \<longrightarrow> se_databus E = Some i \<and> checked_caller i (sw_this w) st"
    "auth_index E data = 0 \<or> auth_index E data = QueryStubIndex (sw_this w) (ips st)"
  shows "request_keeps w (snd (DBinderAddCommAuth E data w))"
  unfolding request_keeps_def
proof (intro allI impI)
  fix st1 assume "sw_cur w = Some st1" "stubs_wf (ips st1)"
  with assms(2) have wf: "stubs_wf (ips st)" and st1: "st1 = st" by simp_all
  define w' where "w' = snd (DBinderAddCommAuth E data w)"
  let ?i = "QueryStubIndex (sw_this w) (ips st)"
  have "w' = w \<or> (\<exists>a. \<not> IsLocalCalling E \<and> w' = attach_auth a st w \<and> aa_stubIndex a = ?i \<and> aa_stub a = sw_this w \<and> aa_socketId a = 0)"
  proof -
    obtain pid d1 uid d2 deviceId d3 idx d4 tokenId d5 where
      reads: "se_ReadUint32 E data = (pid, d1)" "se_ReadUint32 E d1 = (uid, d2)" "se_ReadString E d2 = (deviceId, d3)"
        "se_ReadUint64 E d3 = (idx, d4)" "se_ReadUint32 E d4 = (tokenId, d5)"
      by (meson surj_pair)
    have "(if idx = 0 then ?i else idx) = ?i" using assms(4) by (auto simp: auth_index_def reads)
    with assms(2) show ?thesis
      unfolding w'_def DBinderAddCommAuth_def AddAuthInfo_def reads prod.case
      by (auto simp: Let_def split: option.splits)
  qed
  then have "\<exists>st'. sw_cur w' = Some st' \<and> keeps_refs (ips st) (sw_strong w) (ips st') (sw_strong w')"
  proof (elim disjE exE conjE)
    fix a assume a: "\<not> IsLocalCalling E" "w' = attach_auth a st w" "aa_stubIndex a = ?i" "aa_stub a = sw_this w" "aa_socketId a = 0"
    with assms(3) have "checked_caller i (sw_this w) st" by simp
    from checked_caller_holds(1,2) [OF wf this assms(1)] a assms(1) wf show ?thesis
      using attach_auth_keeps [of st w a] by simp
  qed (use assms(2) wf in \<open>simp add: keeps_refs_refl\<close>)
  then show "\<exists>st'. sw_cur (snd (DBinderAddCommAuth E data w)) = Some st' \<and>
      keeps_refs (ips st1) (sw_strong w) (ips st') (sw_strong (snd (DBinderAddCommAuth E data w)))"
    unfolding w'_def st1 .
qed

lemma request_keeps_refs:
  assumes "neutral_service E" "sw_this w \<noteq> nullptr" "sw_cur w = Some st"
    "\<not> IsLocalCalling E \<longrightarrow> se_databus E = Some i \<and> checked_caller i (sw_this w) st"
    "cd = DBINDER_ADD_COMMAUTH \<longrightarrow> auth_index E data = 0 \<or> auth_index E data = QueryStubIndex (sw_this w) (ips st)"
  shows "request_keeps w (snd (SendRequest_stub E cd data w))"
  using request_cases [OF assms(1), of cd data w]
proof (elim disjE conjE)
  assume "SendRequest_stub E cd data w = DBinderInvokeListenThread E data w"
  moreover have "request_keeps w (snd (DBinderInvokeListenThread E data w))"
    using listen_thread_keeps [OF assms(2), of E]
    by (simp add: DBinderInvokeListenThread_def InvokerThread_def case_prod_beta request_keeps_same)
  ultimately show ?thesis by simp
next
  assume "SendRequest_stub E cd data w = DBinderIncRefsTransaction E w"
  with increfs_keeps [OF assms(2-4)] show ?thesis by simp
next
  assume "SendRequest_stub E cd data w = DBinderDecRefsTransaction E w"
  with decrefs_keeps [OF assms(2-4)] show ?thesis by simp
next
  assume "cd = DBINDER_ADD_COMMAUTH" "SendRequest_stub E cd data w = DBinderAddCommAuth E data w"
  with add_auth_keeps [OF assms(2-4)] assms(5) show ?thesis by simp
qed (simp add: request_keeps_same)

section \<open>Runs\<close>

text \<open>
  The process with the strong references of all objects; \<open>rs_own\<close> counts those that the service and
  local clients hold, which they take and give back as they like.
\<close>

record ref_state =
  rs_proc :: process_state
  rs_own :: "ptr \<Rightarrow> int"
  rs_strong :: "ptr \<Rightarrow> int"

text \<open>
  One step: a request from another device, after the check of its caller; a request from the own
  device; a connection that another device opens or that is lost; a stub that is sent to another
  device; the service that changes its own references; the last reference of a stub that goes. \<open>Es\<close>
  are the environments that occur.
\<close>

inductive stub_step :: "'d stub_env set \<Rightarrow> ref_state \<Rightarrow> ref_state \<Rightarrow> bool" for Es where
  remote_call: "E \<in> Es \<Longrightarrow> neutral_service E \<Longrightarrow> \<not> IsLocalCalling E \<Longrightarrow> se_databus E = Some i \<Longrightarrow>
    sw_this w \<noteq> nullptr \<Longrightarrow> sw_cur w = Some (rs_proc r) \<Longrightarrow> sw_strong w = rs_strong r \<Longrightarrow>
    CheckAndSetCallerInfo sock idx (Some (rs_proc r)) i0 = (0, i) \<Longrightarrow>
    QueryStubByIndex idx (ips (rs_proc r)) = sw_this w \<Longrightarrow>
    cd = DBINDER_ADD_COMMAUTH \<longrightarrow> auth_index E data = 0 \<or> auth_index E data = idx \<Longrightarrow>
    snd (SendRequest_stub E cd data w) = w' \<Longrightarrow> sw_cur w' = Some st \<Longrightarrow>
    stub_step Es r (r\<lparr>rs_proc := st, rs_strong := sw_strong w'\<rparr>)"
| local_call: "E \<in> Es \<Longrightarrow> neutral_service E \<Longrightarrow> IsLocalCalling E \<Longrightarrow>
    sw_this w \<noteq> nullptr \<Longrightarrow> sw_cur w = Some (rs_proc r) \<Longrightarrow> sw_strong w = rs_strong r \<Longrightarrow>
    snd (SendRequest_stub E cd data w) = w' \<Longrightarrow> sw_cur w' = Some st \<Longrightarrow>
    stub_step Es r (r\<lparr>rs_proc := st, rs_strong := sw_strong w'\<rparr>)"
| connected: "OnReceiveNewConnection fresh socketId pid uid name networkId (Some (rs_proc r)) = (ok, Some st) \<Longrightarrow>
    stub_step Es r (r\<lparr>rs_proc := st\<rparr>)"
| closed: "OnDatabusSessionServerSideClosed socketId (Some (rs_proc r)) = (stubs, Some st) \<Longrightarrow>
    stub_step Es r (r\<lparr>rs_proc := st, rs_strong := dec_refs stubs (rs_strong r)\<rparr>)"
| sent: "CreateServerSessionObject L p so (Some (rs_proc r)) = (result, inc, Some st) \<Longrightarrow>
    stub_step Es r (r\<lparr>rs_proc := st,
      rs_strong := (if inc then (rs_strong r)(p := rs_strong r p + 1) else rs_strong r)\<rparr>)"
| own_reference: "stub_step Es r (r\<lparr>rs_own := (rs_own r)(p := rs_own r p + d), rs_strong := (rs_strong r)(p := rs_strong r p + d)\<rparr>)"
| last_reference: "E \<in> Es \<Longrightarrow> rs_strong r (sw_this w) = 0 \<Longrightarrow> sw_cur w = Some (rs_proc r) \<Longrightarrow>
    OnLastStrongRef_stub E w = Some w' \<Longrightarrow> sw_cur w' = Some st \<Longrightarrow> stub_step Es r (r\<lparr>rs_proc := st\<rparr>)"

text \<open>
  What a table of references promises: no step gives more claims to an object than references. Then
  no run does, and an object that is claimed is referenced.
\<close>

locale reference_ledger =
  fixes ok :: "'s \<Rightarrow> bool" and claims :: "'s \<Rightarrow> 'p \<Rightarrow> int" and refs :: "'s \<Rightarrow> 'p \<Rightarrow> int"
    and step :: "'s \<Rightarrow> 's \<Rightarrow> bool"
  assumes step_ok: "step s s' \<Longrightarrow> ok s \<Longrightarrow> ok s'"
    and step_balance: "step s s' \<Longrightarrow> ok s \<Longrightarrow> claims s' p - claims s p \<le> refs s' p - refs s p"
begin

lemma run_ok: "step\<^sup>*\<^sup>* s s' \<Longrightarrow> ok s \<Longrightarrow> ok s'"
  by (induction rule: rtranclp_induct) (auto intro: step_ok)

lemma run_balance: "step\<^sup>*\<^sup>* s s' \<Longrightarrow> ok s \<Longrightarrow> claims s' p - claims s p \<le> refs s' p - refs s p"
proof (induction rule: rtranclp_induct)
  case (step s1 s2)
  from step.hyps(1) step.prems have "ok s1" by (rule run_ok)
  with step_balance [OF step.hyps(2), of p] step.IH [OF step.prems] show ?case by simp
qed simp

lemma run_covers: "step\<^sup>*\<^sup>* s s' \<Longrightarrow> ok s \<Longrightarrow> claims s p \<le> refs s p \<Longrightarrow> claims s' p \<le> refs s' p"
  using run_balance [of s s' p] by simp

end

abbreviation (input) skel :: "ref_state \<Rightarrow> ipc_skeleton" where
  "skel r \<equiv> ips (rs_proc r)"

lemma connection_keeps:
  assumes "OnReceiveNewConnection fresh socketId pid uid name networkId (Some st) = (ok, Some st')" "stubs_wf (ips st)"
  shows "keeps_refs (ips st) str (ips st') str"
proof -
  have detach: "stubObjects (snd (snd (StubDetachDBinderSession h s))) = stubObjects s"
    "appInfoToStubIndex (snd (snd (StubDetachDBinderSession h s))) = appInfoToStubIndex s" for h s
    by (simp_all add: StubDetachDBinderSession_def Let_def split: option.splits)
  have attach: "StubAttachDBinderSession h p s = Some (b, s') \<Longrightarrow>
    stubObjects s' = stubObjects s \<and> appInfoToStubIndex s' = appInfoToStubIndex s" for h p s b s'
    by (auto simp: StubAttachDBinderSession_def Let_def split: if_splits option.splits prod.splits)
  obtain r a where q: "QueryCommAuthInfo_app \<lparr>aa_pid = word_of_int pid, aa_uid = word_of_int uid, aa_tokenId = 0,
      aa_socketId = socketId, aa_stubIndex = 0, aa_stub = nullptr, aa_deviceId = networkId\<rparr> (ips st) = (r, a)"
    by (meson surj_pair)
  have a: "aa_stubIndex a = 0"
    using q by (auto simp: QueryCommAuthInfo_app_def split: if_splits option.splits)
  show ?thesis
  proof (cases r)
    case False
    with assms q show ?thesis by (auto simp: OnReceiveNewConnection_def Let_def keeps_refs_refl)
  next
    case True
    define s1 where "s1 = snd (snd (StubDetachDBinderSession (word_of_int socketId) (ips st)))"
    define s2 where "s2 = s1\<lparr>sessions := (sessions s1)(fresh :=
      new_connection_session socketId pid uid name networkId (aa_tokenId a))\<rparr>"
    have k2: "keeps_refs (ips st) str s2 str"
      by (rule keeps_refs_same_tables [OF assms(2)]) (simp_all add: s2_def s1_def detach)
    show ?thesis
    proof (cases "StubAttachDBinderSession (word_of_int socketId) fresh s2")
      case None
      with assms(1) q True k2 show ?thesis
        by (auto simp: OnReceiveNewConnection_def Let_def s2_def s1_def)
    next
      case (Some res)
      obtain b s3 where res: "res = (b, s3)" by (meson surj_pair)
      have k3: "keeps_refs (ips st) str s3 str"
        using attach [of _ _ s2 b s3] Some res k2
        by (intro keeps_refs_trans [OF k2] keeps_refs_same_tables) (auto simp: keeps_refs_def)
      then have "keeps_refs (ips st) str (snd (AttachOrUpdateAppAuthInfo a s3)) str"
        using a by (intro keeps_refs_trans [OF k3] keeps_refs_update) (simp_all add: keeps_refs_def)
      with assms(1) q True k3 Some res show ?thesis
        by (auto simp: OnReceiveNewConnection_def Let_def s2_def [symmetric] s1_def [symmetric] split: if_splits bool.splits)
    qed
  qed
qed

lemma closing_keeps:
  assumes "OnDatabusSessionServerSideClosed socketId (Some st) = (stubs, Some st')" "stubs_wf (ips st)"
  shows "keeps_refs (ips st) str (ips st') (dec_refs stubs str)"
proof -
  define s1 where "s1 = snd (snd (StubDetachDBinderSession (word_of_int socketId) (ips st)))"
  obtain idx s2 where d: "DetachAppAuthInfoBySocketId socketId s1 = (idx, s2)" by (meson surj_pair)
  have k: "keeps_refs (ips st) str s1 str"
    by (rule keeps_refs_same_tables [OF assms(2)])
      (simp_all add: s1_def StubDetachDBinderSession_def Let_def split: option.splits)
  then have "stubs_wf s1" by (simp add: keeps_refs_def)
  from keeps_refs_trans [OF k keeps_refs_close [OF this d, of str]] assms(1) d show ?thesis
    by (auto simp: OnDatabusSessionServerSideClosed_def Let_def s1_def [symmetric])
qed

lemma sending_keeps:
  assumes "CreateServerSessionObject L p so (Some st) = (result, inc, Some st')" "stubs_wf (ips st)"
  shows "keeps_refs (ips st) str (ips st') (if inc then str(p := str p + 1) else str)"
proof (cases "p = nullptr \<or> \<not> ips_IsContainsObject p st")
  case True
  with assms show ?thesis
    by (auto simp: CreateServerSessionObject_def MakeStubIndexByRemoteObject_def keeps_refs_refl split: if_splits)
next
  case False
  obtain idx s1 where add: "AddStubByIndex p (ips st) = (idx, s1)" by (meson surj_pair)
  note k = keeps_refs_index [OF assms(2) add]
  have wf1: "stubs_wf s1" using k(1) by (simp add: keeps_refs_def)
  show ?thesis
  proof (cases "idx = 0 \<or> so = None")
    case True
    with False assms(1) add k(1) show ?thesis
      by (auto simp: CreateServerSessionObject_def MakeStubIndexByRemoteObject_def ConnectRemoteObject2Session_def
          split: if_splits)
  next
    case idx: False
    then obtain o1 where so: "so = Some o1" by blast
    let ?a = "(caller_app o1 0 idx)\<lparr>aa_stub := p\<rparr>"
    obtain b s2 where at: "AttachOrUpdateAppAuthInfo ?a s1 = (b, s2)" by (meson surj_pair)
    have "keeps_refs s1 str s2 (if b then str(p := str p + 1) else str)"
      using False idx k(2) by (intro keeps_refs_grant [OF wf1 _ _ _ _ _ at]) (simp_all add: caller_app_def)
    with keeps_refs_trans [OF k(1)] False assms(1) add idx so at show ?thesis
      by (auto simp: CreateServerSessionObject_def MakeStubIndexByRemoteObject_def ConnectRemoteObject2Session_def)
  qed
qed

lemma release_keeps:
  assumes "OnLastStrongRef_stub E w = Some w'" "sw_cur w = Some st" "sw_cur w' = Some st'" "stubs_wf (ips st)"
  shows "keeps_refs (ips st) str (ips st') str"
proof -
  obtain b st1 where d: "ips_DetachObject (se_objects E) (sw_this w) st = Some (b, st1)"
    using assms(1,2) by (auto simp: OnLastStrongRef_stub_def split: option.splits)
  have ips: "ips st1 = ips st"
    using d by (auto simp: ips_DetachObject_def split: if_splits option.splits)
  obtain i k where e: "EraseStubIndex (sw_this w) (ips st) = (i, k)" by (meson surj_pair)
  with assms(1-3) d ips have "ips st' = DetachAppAuthInfoByStub (sw_this w) i k"
    by (auto simp: OnLastStrongRef_stub_def set_stub_ips_def)
  with keeps_refs_last [OF assms(4) e, of str] show ?thesis by simp
qed

lemma step_keeps:
  assumes "stub_step Es r r'" "stubs_wf (skel r)"
  shows "\<exists>str. keeps_refs (skel r) (rs_strong r) (skel r') str \<and>
    (\<forall>p. str p - rs_strong r p + (rs_own r' p - rs_own r p) = rs_strong r' p - rs_strong r p)"
  using assms
proof (induction rule: stub_step.induct)
  case (remote_call E i w r sock idx i0 cd data w' st)
  have "checked_caller i (sw_this w) (rs_proc r)" using remote_call by (auto simp: checked_caller_def)
  moreover have "QueryStubIndex (sw_this w) (skel r) = idx"
    using remote_call query_stub_index(5) [of "skel r" idx] by metis
  ultimately have "request_keeps w w'"
    using request_keeps_refs [of E w "rs_proc r" i cd data] remote_call by auto
  then show ?case using remote_call by (auto simp: request_keeps_def)
next
  case (local_call E w r cd data w' st)
  then have "cd = DBINDER_ADD_COMMAUTH \<Longrightarrow> w' = w"
    by (auto simp: SendRequest_stub_def DBinderAddCommAuth_def)
  then have "request_keeps w w'"
    using request_keeps_refs [of E w "rs_proc r" _ cd data] local_call request_keeps_same [of w w] by fastforce
  then show ?case using local_call by (auto simp: request_keeps_def)
next
  case (last_reference E r w w' st)
  then have "keeps_refs (skel r) (rs_strong r) (ips st) (rs_strong r)"
    by (intro release_keeps [of E w w' "rs_proc r" st]) simp_all
  then show ?case by (intro exI [of _ "rs_strong r"]) simp
next
  case (own_reference r p d)
  then show ?case by (intro exI [of _ "rs_strong r"]) (simp add: keeps_refs_refl)
next
  case (connected fresh socketId pid uid name networkId r ok st)
  from connection_keeps [OF this, of "rs_strong r"] show ?case by (intro exI [of _ "rs_strong r"]) simp
next
  case (closed socketId r stubs st)
  from closing_keeps [OF this, of "rs_strong r"] show ?case by (intro exI [of _ "dec_refs stubs (rs_strong r)"]) simp
next
  case (sent L p so r result inc st)
  from sending_keeps [OF this, of "rs_strong r"] show ?case
    by (intro exI [of _ "if inc then (rs_strong r)(p := rs_strong r p + 1) else rs_strong r"]) simp
qed

text \<open>The claims on a stub: the references of its service, and one for every application that may call it.\<close>

definition ref_claims :: "ref_state \<Rightarrow> ptr \<Rightarrow> int" where
  "ref_claims r p = rs_own r p + int (held (skel r) p)"

interpretation stub_refs: reference_ledger "\<lambda>r. stubs_wf (skel r)" ref_claims rs_strong "stub_step Es" for Es
proof
  fix r r' p
  assume "stub_step Es r r'" "stubs_wf (skel r)"
  from step_keeps [OF this] obtain str where k: "keeps_refs (skel r) (rs_strong r) (skel r') str"
    and b: "str p - rs_strong r p + (rs_own r' p - rs_own r p) = rs_strong r' p - rs_strong r p" by blast
  show "stubs_wf (skel r')" using k by (simp add: keeps_refs_def)
  have "int (held (skel r') p) - int (held (skel r) p) \<le> str p - rs_strong r p"
    using k by (simp add: keeps_refs_def)
  with b show "ref_claims r' p - ref_claims r p \<le> rs_strong r' p - rs_strong r p"
    by (simp add: ref_claims_def)
qed

section \<open>Properties\<close>


definition example_stub_env :: "unit stub_env" where
  "example_stub_env = \<lparr>se_active = None, se_databus = None, se_getpid = 100, se_getuid = 0, se_self_token = 9,
     se_ReadUint32 = (\<lambda>d. (0, d)), se_ReadUint64 = (\<lambda>d. (0, d)), se_ReadInt32 = (\<lambda>d. (0, d)),
     se_ReadString = (\<lambda>d. (''dev'', d)), se_ReadFileDescriptor = (\<lambda>d. (- 1, d)), se_ReadString16Vector = (\<lambda>d. None),
     se_write = (\<lambda>a. True),
     se_threads = \<lparr>env_new_thread = True, env_new_param = True, env_pthread_create = True, env_pthread_detach = True\<rparr>,
     se_objects = \<lparr>str8to16 = (\<lambda>s. []), is_proxy = (\<lambda>p. False), inc_strong = (\<lambda>p. True), descriptor_of = (\<lambda>p. []),
       has_invoker = True, ping_samgr = True, set_registry = True, set_max_threads = True, new_proxy = None, new_pool = True\<rparr>,
     se_StartServerListener = Some 5, se_GrantPermission = (\<lambda>u p. True), se_RemovePermission = (\<lambda>s. True),
     se_samgr = None, se_Dump = (\<lambda>fd as. 0), se_service = None, se_now = 1, se_selinux = False\<rparr>"

definition example_ref_state :: ref_state where
  "example_ref_state = \<lparr>rs_proc = \<lparr>ips = IPCProcessSkeleton 1, pskel = None\<rparr>, rs_own = (\<lambda>p. 1), rs_strong = (\<lambda>p. 1)\<rparr>"

definition example_stub :: stub_world where
  "example_stub = \<lparr>sw_this = 8, sw_descriptor = [], sw_lastRequestTime = 0, sw_requestSidFlag = False,
     sw_cur = Some (rs_proc example_ref_state), sw_strong = rs_strong example_ref_state, sw_reply = [], sw_calls = []\<rparr>"

definition example_app :: AppAuthInfo where
  "example_app = \<lparr>aa_pid = 0, aa_uid = 0, aa_tokenId = 0, aa_socketId = 4, aa_stubIndex = 1, aa_stub = nullptr, aa_deviceId = ''dev''\<rparr>"

lemma example_grant:
  "\<exists>w' st. snd (SendRequest_stub example_stub_env INVOKE_LISTEN_THREAD () example_stub) = w' \<and> sw_cur w' = Some st \<and>
     QueryAppInfoToStubIndex_app example_app (ips st) \<and> QueryStubByIndex 1 (ips st) = 8"
  by (simp add: SendRequest_stub_def DBinderInvokeListenThread_def InvokerThread_def InvokerDataBusThread_def
      example_stub_env_def example_stub_def example_ref_state_def IsLocalCalling_def GetCallingUid_def IsDeviceIdIllegal_def
      CreateSoftbusServer_def ips_SpawnThread_def IPCProcessSkeleton_def AddStubByIndex_def Let_def set_stub_ips_def
      attach_auth_def AttachOrUpdateAppAuthInfo_def IncStrongRef_def QueryAppInfoToStubIndex_app_def index_allowed_def
      example_app_def aa_key_def QueryStubByIndex_def)




lemma add_comm_auth_effect:
  assumes "\<not> IsLocalCalling E" "se_databus E = Some sys" "uint (word_of_int (callerUid sys) :: u32) < 10000"
    and reads: "se_ReadUint32 E data = (pid, d1)" "se_ReadUint32 E d1 = (uid, d2)" "se_ReadString E d2 = (dev, d3)"
      "se_ReadUint64 E d3 = (j, d4)" "se_ReadUint32 E d4 = (tok, d5)"
    and "\<not> IsDeviceIdIllegal dev" "j \<noteq> 0" "sw_cur w = Some st" "\<not> exitFlag (ips st)" "sw_this w \<noteq> nullptr"
  obtains s1 where "snd (SendRequest_stub E DBINDER_ADD_COMMAUTH data w) = IncStrongRef (set_stub_ips st s1 w)"
    "\<not> exitFlag s1" "stubObjects s1 = stubObjects (ips st)"
    "auth_wf (appInfoToStubIndex (ips st)) \<Longrightarrow> auth_wf (appInfoToStubIndex s1)"
    "app_view (appInfoToStubIndex s1) (app_key dev pid uid tok) j = Some 0"
proof -
  define a where "a = \<lparr>aa_pid = pid, aa_uid = uid, aa_tokenId = tok, aa_socketId = 0, aa_stubIndex = j,
    aa_stub = sw_this w, aa_deviceId = dev\<rparr>"
  obtain inc s1 where at: "AttachOrUpdateAppAuthInfo a (ips st) = (inc, s1)" by (meson surj_pair)
  have stubs: "stubObjects s1 = stubObjects (ips st)"
    and wf: "auth_wf (appInfoToStubIndex (ips st)) \<Longrightarrow> auth_wf (appInfoToStubIndex s1)"
    using attach_stubs [of a "ips st"] auth_wf_attach [of "ips st" a] by (simp_all add: at)
  have "aa_key a = app_key dev pid uid tok" by (simp add: a_def aa_key_def)
  with attach_entry [of "ips st" a] assms(10,12,13) at have inc: "inc" and k: "\<not> exitFlag s1"
    and v: "app_view (appInfoToStubIndex s1) (app_key dev pid uid tok) j = Some 0"
    by (simp_all add: a_def)
  have "snd (SendRequest_stub E DBINDER_ADD_COMMAUTH data w) = attach_auth a st w"
    using assms unfolding SendRequest_stub_def DBinderAddCommAuth_def AddAuthInfo_def reads prod.case a_def
    by (simp add: Let_def)
  then have "snd (SendRequest_stub E DBINDER_ADD_COMMAUTH data w) = IncStrongRef (set_stub_ips st s1 w)"
    by (simp add: attach_auth_def at inc)
  from that [OF this k stubs wf v] show ?thesis .
qed

text \<open>
  A request for an authorisation is not checked for the stub it names. Sent to one stub with the
  index of another, it gives the caller's application the right to call the other stub but the
  reference to the first. When the application then connects to the other stub and drops its proxy,
  the other stub loses a reference that was never taken for it.
\<close>

theorem foreign_index_drops_reference:
  assumes "\<not> IsLocalCalling E" "se_databus E = Some sys" "uint (word_of_int (callerUid sys) :: u32) < 10000"
    and reads: "se_ReadUint32 E data = (pid, d1)" "se_ReadUint32 E d1 = (uid, d2)" "se_ReadString E d2 = (dev, d3)"
      "se_ReadUint64 E d3 = (j, d4)" "se_ReadUint32 E d4 = (tok, d5)"
    and "\<not> IsDeviceIdIllegal dev" "j \<noteq> 0" "sw_cur w = Some st" "stubs_wf (ips st)" "sw_this w \<noteq> nullptr"
    and q: "QueryStubByIndex j (ips st) = q" "q \<noteq> nullptr" "q \<noteq> sw_this w"
    and app: "\<not> IsLocalCalling E'" "se_databus E' = Some i" "word_of_int (callerPid i) = pid" "word_of_int (callerUid i) = uid"
      "callerDeviceID i = dev" "ucast (callerTokenID i) = tok"
    and w1: "w1 = snd (SendRequest_stub E DBINDER_ADD_COMMAUTH data w)"
    and w2: "w2 = snd (SendRequest_stub E' DBINDER_INCREFS_TRANSACTION data' (w1\<lparr>sw_this := q\<rparr>))"
    and w3: "w3 = snd (SendRequest_stub E' DBINDER_DECREFS_TRANSACTION data'' w2)"
  shows "sw_strong w3 = (sw_strong w)(sw_this w := sw_strong w (sw_this w) + 1, q := sw_strong w q - 1)"
proof -
  note stub = query_stub_index [OF assms(12) q(1,2)]
  from assms(1-11) stub(2) assms(13) obtain s1 where
    s1: "w1 = IncStrongRef (set_stub_ips st s1 w)" "\<not> exitFlag s1" "stubObjects s1 = stubObjects (ips st)"
      "auth_wf (appInfoToStubIndex s1)" "app_view (appInfoToStubIndex s1) (app_key dev pid uid tok) j = Some 0"
    using assms(12) by (rule_tac add_comm_auth_effect [OF assms(1-11) stub(2) assms(13)]) (auto simp: w1 stubs_wf_def)
  define s2 where "s2 = snd (AttachOrUpdateAppAuthInfo (databus_caller i nullptr j) s1)"
  have idx: "QueryStubIndex q s1 = j" using s1(2,3) stub(4) by (simp add: QueryStubIndex_def)
  have w2': "w2 = (set_stub_ips st s2 w1)\<lparr>sw_this := q\<rparr>"
    using app(1,2) by (simp add: w2 SendRequest_stub_def DBinderIncRefsTransaction_def s1(1) set_stub_ips_def IncStrongRef_def idx s2_def)
  have s2: "\<not> exitFlag s2" "stubObjects s2 = stubObjects s1" "auth_wf (appInfoToStubIndex s2)"
    "app_view (appInfoToStubIndex s2) (app_key dev pid uid tok) j = Some (clientFd i)"
    using s1(2,4,5) app assms(10) attach_entry(1,2) [of s1 "databus_caller i nullptr j"]
    by (simp_all add: s2_def auth_wf_attach databus_caller_def aa_key_def)
  have "QueryStubIndex q s2 = j" using s2(1,2) s1(3) stub(4) by (simp add: QueryStubIndex_def)
  moreover have "fst (DetachAppAuthInfo (databus_caller i q j) s2)"
    using erase_index_spec(2) [OF s2(3), of "app_key dev pid uid tok" j "clientFd i"] s2(1,4) app
    by (auto simp: DetachAppAuthInfo_def Let_def databus_caller_def aa_key_def split: prod.splits)
  ultimately show ?thesis
    using app(1,2) q(3) by (simp add: w3 SendRequest_stub_def DBinderDecRefsTransaction_def w2' set_stub_ips_def
        case_prod_beta DecStrongRef_def s1(1) IncStrongRef_def fun_upd_twist)
qed

definition example_remote_invoker :: databus_invoker where
  "example_remote_invoker = (DBinderDatabusInvoker example_local)\<lparr>callerPid := 0, callerUid := 0, callerDeviceID := ''dev'', clientFd := 4\<rparr>"

definition example_remote_env :: "unit stub_env" where
  "example_remote_env = example_stub_env\<lparr>se_active := Some \<lparr>ai_local = False, ai_pid = 0, ai_uid = 0\<rparr>,
     se_databus := Some example_remote_invoker, se_ReadUint64 := (\<lambda>d. (2, d))\<rparr>"

definition example_two_stubs :: stub_world where
  "example_two_stubs = example_stub\<lparr>sw_cur := Some \<lparr>ips = (IPCProcessSkeleton 3)\<lparr>stubObjects := [(1, 8), (2, 16)]\<rparr>, pskel = None\<rparr>\<rparr>"

theorem foreign_index_drops_reference_witness:
  "sw_strong (snd (SendRequest_stub example_remote_env DBINDER_DECREFS_TRANSACTION ()
     (snd (SendRequest_stub example_remote_env DBINDER_INCREFS_TRANSACTION ()
       (snd (SendRequest_stub example_remote_env DBINDER_ADD_COMMAUTH () example_two_stubs)\<lparr>sw_this := 16\<rparr>))))) 16 = 0"
proof -
  let ?st = "\<lparr>ips = (IPCProcessSkeleton 3)\<lparr>stubObjects := [(1, 8), (2, 16)]\<rparr>, pskel = None\<rparr>"
  have wf: "stubs_wf (ips ?st)"
    by (simp add: stubs_wf_def IPCProcessSkeleton_def holders_def app_view_def)
  have q: "QueryStubByIndex 2 (ips ?st) = 16" by (simp add: QueryStubByIndex_def IPCProcessSkeleton_def)
  have i: "callerPid example_remote_invoker = 0" "callerUid example_remote_invoker = 0"
    "callerDeviceID example_remote_invoker = ''dev''" "callerTokenID example_remote_invoker = 0"
    by (simp_all add: example_remote_invoker_def DBinderDatabusInvoker_def)
  have e: "\<not> IsLocalCalling example_remote_env" "se_databus example_remote_env = Some example_remote_invoker"
    "se_ReadUint32 example_remote_env () = (0, ())" "se_ReadUint64 example_remote_env () = (2, ())"
    "se_ReadString example_remote_env () = (''dev'', ())"
    by (simp_all add: example_remote_env_def example_stub_env_def IsLocalCalling_def)
  have w: "sw_cur example_two_stubs = Some ?st" "sw_this example_two_stubs = 8" "sw_strong example_two_stubs 16 = 1"
    by (simp_all add: example_two_stubs_def example_stub_def example_ref_state_def)
  have "uint (word_of_int (callerUid example_remote_invoker) :: u32) < 10000" "\<not> IsDeviceIdIllegal ''dev''"
    "(2 :: u64) \<noteq> 0" "sw_this example_two_stubs \<noteq> nullptr" "(16 :: ptr) \<noteq> nullptr" "16 \<noteq> sw_this example_two_stubs"
    "word_of_int (callerPid example_remote_invoker) = (0 :: u32)" "word_of_int (callerUid example_remote_invoker) = (0 :: u32)"
    "ucast (callerTokenID example_remote_invoker) = (0 :: u32)"
    by (simp_all add: i w IsDeviceIdIllegal_def)
  note c = this
  show ?thesis
    using foreign_index_drops_reference [OF e(1,2) c(1) e(3,3,5,4,3) c(2,3) w(1) wf c(4) q c(5,6) e(1,2) c(7,8) i(3) c(9) refl refl refl]
    by (simp only: w fun_upd_same)
qed

end
