(* ===== verification/Device_Listener.thy ===== *)
theory Device_Listener
  imports Object_Stub
begin

text \<open>
  The channel between the device services of two devices (\<open>dbinder_remote_listener.cpp\<close>) and the
  message that goes over it (\<open>DHandleEntryTxRx\<close> of \<open>dbinder_service.h\<close>).

  The maps of sockets and of locks are static members and belong to the process; a listener itself
  only has the socket it listens on. The mutexes of the lock map order the attempts to connect to a
  device, and one attempt is one step. The softbus library is the parameter \<open>softbus_env\<close>: its
  answers may depend on what was sent and shut down so far.
\<close>

section \<open>The message\<close>

text \<open>
  Character arrays are byte lists of their fixed length; a text in them ends at the first null. The
  layout is that of a 64-bit target, with the fields at their natural alignment.
\<close>

record DHandleEntryTxRx =
  m_len :: u32
  m_version :: u32
  m_transType :: u32
  m_dBinderCode :: u32
  m_fromPort :: u16
  m_toPort :: u16
  m_stubIndex :: u64
  m_seqNumber :: u32
  m_binderObject :: u64
  m_tokenId :: u32
  m_fromDeviceId :: bytes
  m_toDeviceId :: bytes
  m_stub :: u64
  m_serviceNameLength :: u16
  m_serviceName :: bytes
  m_pid :: u32
  m_uid :: u32

abbreviation (input) ENTRY_SIZE :: nat where "ENTRY_SIZE \<equiv> 408"
abbreviation (input) SERVICENAME_LENGTH :: nat where "SERVICENAME_LENGTH \<equiv> 200"

definition entry_bytes :: "DHandleEntryTxRx \<Rightarrow> bytes" where
  "entry_bytes m = word_bytes (m_len m) @ word_bytes (m_version m) @ word_bytes (m_transType m) @ word_bytes (m_dBinderCode m) @
     word_bytes (m_fromPort m) @ word_bytes (m_toPort m) @ replicate 4 0 @ word_bytes (m_stubIndex m) @
     word_bytes (m_seqNumber m) @ replicate 4 0 @ word_bytes (m_binderObject m) @
     word_bytes (m_tokenId m) @ m_fromDeviceId m @ m_toDeviceId m @ replicate 2 0 @
     word_bytes (m_stub m) @ word_bytes (m_serviceNameLength m) @ m_serviceName m @ replicate 1 0 @
     word_bytes (m_pid m) @ word_bytes (m_uid m) @ replicate 4 0"

definition at_offset :: "nat \<Rightarrow> nat \<Rightarrow> bytes \<Rightarrow> bytes" where
  "at_offset off n bs = take n (drop off bs)"

definition entry_of :: "bytes \<Rightarrow> DHandleEntryTxRx" where
  "entry_of bs = \<lparr>m_len = bytes_word (at_offset 0 4 bs), m_version = bytes_word (at_offset 4 4 bs),
     m_transType = bytes_word (at_offset 8 4 bs), m_dBinderCode = bytes_word (at_offset 12 4 bs),
     m_fromPort = bytes_word (at_offset 16 2 bs), m_toPort = bytes_word (at_offset 18 2 bs),
     m_stubIndex = bytes_word (at_offset 24 8 bs), m_seqNumber = bytes_word (at_offset 32 4 bs),
     m_binderObject = bytes_word (at_offset 40 8 bs), m_tokenId = bytes_word (at_offset 48 4 bs),
     m_fromDeviceId = at_offset 52 65 bs, m_toDeviceId = at_offset 117 65 bs,
     m_stub = bytes_word (at_offset 184 8 bs), m_serviceNameLength = bytes_word (at_offset 192 2 bs),
     m_serviceName = at_offset 194 201 bs, m_pid = bytes_word (at_offset 396 4 bs), m_uid = bytes_word (at_offset 400 4 bs)\<rparr>"

text \<open>A value-initialised message is all zero.\<close>

definition zero_entry :: DHandleEntryTxRx where
  "zero_entry = \<lparr>m_len = 0, m_version = 0, m_transType = 0, m_dBinderCode = 0, m_fromPort = 0, m_toPort = 0,
     m_stubIndex = 0, m_seqNumber = 0, m_binderObject = 0, m_tokenId = 0, m_fromDeviceId = replicate 65 0,
     m_toDeviceId = replicate 65 0, m_stub = 0, m_serviceNameLength = 0, m_serviceName = replicate 201 0,
     m_pid = 0, m_uid = 0\<rparr>"

section \<open>Sockets\<close>

datatype net_event = NetSend int DHandleEntryTxRx bool | NetShutdown int

record listener_state =
  ls_listener :: "int option"
  ls_locks :: "(string, unit) omap"
  ls_clients :: "(string, int) omap"
  ls_servers :: "(string, int) omap"
  ls_events :: "net_event list"

record softbus_env =
  sb_Grant :: "net_event list \<Rightarrow> bool"
  sb_Socket :: "net_event list \<Rightarrow> int"
  sb_Bind :: "int \<Rightarrow> net_event list \<Rightarrow> int"
  sb_Listen :: "int \<Rightarrow> net_event list \<Rightarrow> int"
  sb_SendBytes :: "int \<Rightarrow> net_event list \<Rightarrow> int"
  sb_SOCKET_IN_USE :: int

definition Shutdown :: "int \<Rightarrow> listener_state \<Rightarrow> listener_state" where
  "Shutdown sock n = n\<lparr>ls_events := ls_events n @ [NetShutdown sock]\<rparr>"

definition QueryOrNewDeviceLock :: "string \<Rightarrow> listener_state \<Rightarrow> listener_state" where
  "QueryOrNewDeviceLock networkId n = n\<lparr>ls_locks := snd (omap_insert networkId () (ls_locks n))\<rparr>"

definition ClearDeviceLock :: "listener_state \<Rightarrow> listener_state" where
  "ClearDeviceLock n = n\<lparr>ls_locks := []\<rparr>"

definition EraseDeviceLock :: "string \<Rightarrow> listener_state \<Rightarrow> listener_state" where
  "EraseDeviceLock networkId n = n\<lparr>ls_locks := omap_erase networkId (ls_locks n)\<rparr>"

definition ServerOnBind :: "int \<Rightarrow> string \<Rightarrow> listener_state \<Rightarrow> listener_state" where
  "ServerOnBind sock networkId n = n\<lparr>ls_servers := omap_put networkId sock (ls_servers n)\<rparr>"

definition ServerOnShutdown :: "int \<Rightarrow> listener_state \<Rightarrow> listener_state" where
  "ServerOnShutdown sock n = n\<lparr>ls_servers := remove_first (\<lambda>e. snd e = sock) (ls_servers n)\<rparr>"

text \<open>The result is the device whose connection was lost; the service then wakes who waits for it.\<close>

definition ClientOnShutdown :: "int \<Rightarrow> listener_state \<Rightarrow> string \<times> listener_state" where
  "ClientOnShutdown sock n =
     (case find (\<lambda>e. snd e = sock) (ls_clients n) of
        None \<Rightarrow> ([], n)
      | Some (networkId, _) \<Rightarrow>
          (let n1 = n\<lparr>ls_clients := remove_first (\<lambda>e. snd e = sock) (ls_clients n)\<rparr>
           in (networkId, if networkId \<noteq> [] then EraseDeviceLock networkId n1 else n1)))"

definition CreateClientSocket :: "softbus_env \<Rightarrow> string \<Rightarrow> listener_state \<Rightarrow> int \<times> listener_state" where
  "CreateClientSocket S networkId n0 =
     (let n = QueryOrNewDeviceLock networkId n0 in
      case map_of (ls_clients n) networkId of
        Some sock \<Rightarrow> (sock, n)
      | None \<Rightarrow>
          (let sock = sb_Socket S (ls_events n) in
           if sock \<le> 0 then (SOCKET_ID_INVALID, n)
           else
             (let ret = sb_Bind S sock (ls_events n) in
              if ret \<noteq> 0 \<and> ret \<noteq> sb_SOCKET_IN_USE S
              then (SOCKET_ID_INVALID, EraseDeviceLock networkId (Shutdown sock n))
              else (sock, n\<lparr>ls_clients := omap_put networkId sock (ls_clients n)\<rparr>))))"

definition GetPeerSocketId :: "string \<Rightarrow> listener_state \<Rightarrow> int" where
  "GetPeerSocketId networkId n = (case map_of (ls_servers n) networkId of Some sock \<Rightarrow> sock | None \<Rightarrow> SOCKET_ID_INVALID)"

text \<open>The listener exists when this is called; its socket changes only on success.\<close>

definition StartListener :: "softbus_env \<Rightarrow> listener_state \<Rightarrow> bool \<times> listener_state" where
  "StartListener S n =
     (if \<not> sb_Grant S (ls_events n) then (False, n)
      else
        (let sock = sb_Socket S (ls_events n) in
         if sock \<le> 0 then (False, n)
         else
           (let ret = sb_Listen S sock (ls_events n) in
            if ret \<noteq> 0 \<and> ret \<noteq> sb_SOCKET_IN_USE S then (False, Shutdown sock n)
            else (True, n\<lparr>ls_listener := Some sock\<rparr>))))"

definition StopListener :: "listener_state \<Rightarrow> listener_state" where
  "StopListener n =
     (let n1 = fold (\<lambda>e. Shutdown (snd e)) (ls_clients n) (ClearDeviceLock n);
          n2 = n1\<lparr>ls_clients := []\<rparr>
      in Shutdown (case ls_listener n2 of Some sock \<Rightarrow> sock | None \<Rightarrow> SOCKET_ID_INVALID) n2)"

definition SendBytes :: "softbus_env \<Rightarrow> int \<Rightarrow> DHandleEntryTxRx \<Rightarrow> listener_state \<Rightarrow> bool \<times> listener_state" where
  "SendBytes S sock msg n =
     (let ok = (sb_SendBytes S sock (ls_events n) = 0) in (ok, n\<lparr>ls_events := ls_events n @ [NetSend sock msg ok]\<rparr>))"

definition SendDataToRemote :: "softbus_env \<Rightarrow> string \<Rightarrow> DHandleEntryTxRx \<Rightarrow> listener_state \<Rightarrow> bool \<times> listener_state" where
  "SendDataToRemote S networkId msg n =
     (case CreateClientSocket S networkId n of (sock, n1) \<Rightarrow> if sock \<le> 0 then (False, n1) else SendBytes S sock msg n1)"

definition SendDataReply :: "softbus_env \<Rightarrow> string \<Rightarrow> DHandleEntryTxRx \<Rightarrow> listener_state \<Rightarrow> bool \<times> listener_state" where
  "SendDataReply S networkId msg n =
     (let sock = GetPeerSocketId networkId n in if sock = SOCKET_ID_INVALID then (False, n) else SendBytes S sock msg n)"

definition ShutdownSocket_listener :: "string \<Rightarrow> listener_state \<Rightarrow> bool \<times> listener_state" where
  "ShutdownSocket_listener networkId n0 =
     (let n = EraseDeviceLock networkId n0 in
      case map_of (ls_clients n) networkId of
        Some sock \<Rightarrow> (True, (Shutdown sock n)\<lparr>ls_clients := omap_erase networkId (ls_clients n)\<rparr>)
      | None \<Rightarrow> (False, n))"

text \<open>The message that is handed to the service; a package of another size or length field is dropped.\<close>

definition OnBytesReceived :: "libc \<Rightarrow> bytes option \<Rightarrow> DHandleEntryTxRx option" where
  "OnBytesReceived L data =
     (case data of
        None \<Rightarrow> None
      | Some bs \<Rightarrow>
          if length bs \<noteq> ENTRY_SIZE then None
          else (case memcpy_s L (replicate ENTRY_SIZE 0) 0 ENTRY_SIZE bs ENTRY_SIZE of
              (err, buf) \<Rightarrow>
                if err \<noteq> EOK then None
                else
                  (let msg = entry_of buf in
                   if m_len msg \<noteq> of_nat ENTRY_SIZE then None else Some msg)))"

end
