(* ===== verification/Device_Service.thy ===== *)
theory Device_Service
  imports Device_Listener
begin

text \<open>
  \<open>DBinderService\<close> (\<open>dbinder_service.cpp\<close>), the service of a device that negotiates with the services of
  other devices: a client asks for a system ability of another device, the other device loads it,
  lets its stub listen for the client and answers, and the client keeps the answer as a session. Its
  recipients (\<open>dbinder_death_recipient.cpp\<close>, \<open>dbinder_sa_death_recipient.cpp\<close>) are here as well.

  Stubs, locks and messages are shared objects, and live in heaps by address. A wait for another
  thread is the parameter \<open>de_wait\<close>, which gives the state in which the wait ends, whatever other
  threads did until then; \<open>de_sleep\<close> does the same for a short sleep. Proxies of local system
  abilities, the registry, parcels and memory allocation are parameters too. Reports for operation
  and logs are left out.
\<close>

section \<open>State\<close>

abbreviation (input) MESSAGE_AS_INVOKER :: u32 where "MESSAGE_AS_INVOKER \<equiv> 1"
abbreviation (input) MESSAGE_AS_REPLY :: u32 where "MESSAGE_AS_REPLY \<equiv> 2"
abbreviation (input) MESSAGE_AS_REMOTE_ERROR :: u32 where "MESSAGE_AS_REMOTE_ERROR \<equiv> 4"
abbreviation (input) MESSAGE_AS_REPLY_TOKENID :: u32 where "MESSAGE_AS_REPLY_TOKENID \<equiv> 5"
abbreviation (input) RPC_TOKENID_SUPPORT_VERSION :: u32 where "RPC_TOKENID_SUPPORT_VERSION \<equiv> 2"

abbreviation (input) DBINDER_OK :: u32 where "DBINDER_OK \<equiv> 100"
abbreviation (input) DBINDER_STUB_INVALID :: u32 where "DBINDER_STUB_INVALID \<equiv> 101"
abbreviation (input) DBINDER_SEND_MESSAGE_FAILED :: u32 where "DBINDER_SEND_MESSAGE_FAILED \<equiv> 102"
abbreviation (input) DBINDER_MAKE_THREADLOCK_FAILED :: u32 where "DBINDER_MAKE_THREADLOCK_FAILED \<equiv> 103"
abbreviation (input) DBINDER_WAIT_REPLY_TIMEOUT :: u32 where "DBINDER_WAIT_REPLY_TIMEOUT \<equiv> 104"
abbreviation (input) DBINDER_QUERY_REPLY_SESSION_FAILED :: u32 where "DBINDER_QUERY_REPLY_SESSION_FAILED \<equiv> 105"
abbreviation (input) DBINDER_SA_NOT_FOUND :: u32 where "DBINDER_SA_NOT_FOUND \<equiv> 106"
abbreviation (input) DBINDER_SA_INVOKE_FAILED :: u32 where "DBINDER_SA_INVOKE_FAILED \<equiv> 107"
abbreviation (input) DBINDER_DEVICEID_INVALID :: u32 where "DBINDER_DEVICEID_INVALID \<equiv> 108"
abbreviation (input) DBINDER_SESSION_NAME_NOT_FOUND :: u32 where "DBINDER_SESSION_NAME_NOT_FOUND \<equiv> 109"
abbreviation (input) DBINDER_WRITE_PARCEL_FAILED :: u32 where "DBINDER_WRITE_PARCEL_FAILED \<equiv> 110"
abbreviation (input) DBINDER_INVOKE_STUB_THREAD_FAILED :: u32 where "DBINDER_INVOKE_STUB_THREAD_FAILED \<equiv> 111"
abbreviation (input) DBINDER_SESSION_NAME_INVALID :: u32 where "DBINDER_SESSION_NAME_INVALID \<equiv> 112"
abbreviation (input) DBINDER_SA_NOT_AVAILABLE :: u32 where "DBINDER_SA_NOT_AVAILABLE \<equiv> 113"
abbreviation (input) DBINDER_SAID_INVALID :: u32 where "DBINDER_SAID_INVALID \<equiv> 114"
abbreviation (input) DBINDER_SA_NOT_DISTRUBUTED :: u32 where "DBINDER_SA_NOT_DISTRUBUTED \<equiv> 115"
abbreviation (input) DBINDER_SERVICE_INVALID_DATA_ERR :: int where "DBINDER_SERVICE_INVALID_DATA_ERR \<equiv> 701"
abbreviation (input) DBINDER_SERVICE_NOTICE_DIE_ERR :: int where "DBINDER_SERVICE_NOTICE_DIE_ERR \<equiv> 702"

datatype NegotiationStatus = NEGO_INIT | NEGO_DOING | NEGO_FINISHED

record service_stub =
  ss_descriptor :: u16string
  ss_serviceName :: u16string
  ss_deviceID :: string
  ss_binderObject :: u64
  ss_seqNum :: u32
  ss_peerPid :: u32
  ss_peerUid :: u32
  ss_negoTime :: u64
  ss_isInited :: bool
  ss_negoStatus :: NegotiationStatus
  ss_dbinderData :: "negotiation_data option"

record SessionInfo =
  si_seqNumber :: u32
  si_type :: u32
  si_toPort :: u16
  si_fromPort :: u16
  si_stubIndex :: u64
  si_socketFd :: u32
  si_serviceName :: string
  si_tokenId :: u32
  si_fromDeviceId :: bytes
  si_toDeviceId :: bytes

record lock_info =
  li_networkId :: string
  li_ready :: bool

datatype service_event =
    EvAddDeath ptr ptr
  | EvRemoveDeath ptr ptr
  | EvNoticeDie ptr
  | EvListenThread ptr "arg list"
  | EvLoad string int

record dservice =
  ds_seqNumber :: u32
  ds_stubTagNum :: u64
  ds_tags :: "(u64, ptr) omap"
  ds_stubs :: "ptr list"
  ds_remoteBinders :: "(u16string, u64) omap"
  ds_threadLocks :: "(u32, ptr) omap"
  ds_proxies :: "(int, ptr) omap"
  ds_sessions :: "(ptr, SessionInfo) omap"
  ds_noticeProxy :: "(ptr, ptr) omap"
  ds_deaths :: "(ptr, ptr) omap"
  ds_loadSa :: "ptr list"
  ds_callback :: bool
  ds_mainThreadCreated :: bool
  ds_heap :: "ptr \<Rightarrow> service_stub"
  ds_locks :: "ptr \<Rightarrow> lock_info"
  ds_messages :: "ptr \<Rightarrow> DHandleEntryTxRx"
  ds_net :: listener_state
  ds_events :: "service_event list"

record device_env =
  de_softbus :: softbus_env
  de_libc :: libc
  de_local_id :: string
  de_Str16ToStr8 :: "u16string \<Rightarrow> string"
  de_Str8ToStr16 :: "string \<Rightarrow> u16string"
  de_token :: u32
  de_now :: u64
  de_new_stub :: "dservice \<Rightarrow> ptr"
  de_new_lock :: "dservice \<Rightarrow> ptr"
  de_new_death :: "dservice \<Rightarrow> ptr"
  de_new_data :: bool
  de_refcount :: "ptr \<Rightarrow> dservice \<Rightarrow> int"
  de_GrantPermission :: "int \<Rightarrow> int \<Rightarrow> bool"
  de_IsDistributed :: "u64 \<Rightarrow> bool"
  de_LoadSystemAbility :: "string \<Rightarrow> int \<Rightarrow> bool"
  de_AddDeathRecipient :: "ptr \<Rightarrow> dservice \<Rightarrow> bool"
  de_GetSessionName :: "ptr \<Rightarrow> string"
  de_InvokeListenThread :: "ptr \<Rightarrow> arg list \<Rightarrow> int \<times> u64 \<times> string \<times> string \<times> u32"
  de_write :: "arg \<Rightarrow> bool"
  de_wait :: "ptr \<Rightarrow> dservice \<Rightarrow> dservice"
  de_sleep :: "dservice \<Rightarrow> dservice"

definition on_stub :: "ptr \<Rightarrow> (service_stub \<Rightarrow> service_stub) \<Rightarrow> dservice \<Rightarrow> dservice" where
  "on_stub p f s = s\<lparr>ds_heap := (ds_heap s)(p := f (ds_heap s p))\<rparr>"

definition on_entry :: "ptr \<Rightarrow> (DHandleEntryTxRx \<Rightarrow> DHandleEntryTxRx) \<Rightarrow> dservice \<Rightarrow> dservice" where
  "on_entry p f s = s\<lparr>ds_messages := (ds_messages s)(p := f (ds_messages s p))\<rparr>"

definition log_dev :: "service_event \<Rightarrow> dservice \<Rightarrow> dservice" where
  "log_dev e s = s\<lparr>ds_events := ds_events s @ [e]\<rparr>"

definition DBinderService :: "listener_state \<Rightarrow> dservice" where
  "DBinderService n = \<lparr>ds_seqNumber = 0, ds_stubTagNum = 1, ds_tags = [], ds_stubs = [], ds_remoteBinders = [],
     ds_threadLocks = [], ds_proxies = [], ds_sessions = [], ds_noticeProxy = [], ds_deaths = [], ds_loadSa = [],
     ds_callback = False, ds_mainThreadCreated = False,
     ds_heap = (\<lambda>p. \<lparr>ss_descriptor = [], ss_serviceName = [], ss_deviceID = [], ss_binderObject = 0, ss_seqNum = 0, ss_peerPid = 0,
       ss_peerUid = 0, ss_negoTime = 0, ss_isInited = False, ss_negoStatus = NEGO_INIT, ss_dbinderData = None\<rparr>),
     ds_locks = (\<lambda>p. \<lparr>li_networkId = [], li_ready = False\<rparr>), ds_messages = (\<lambda>p. zero_entry), ds_net = n, ds_events = []\<rparr>"

section \<open>The listener\<close>

definition StopRemoteListener :: "dservice \<Rightarrow> dservice" where
  "StopRemoteListener s =
     (if ls_listener (ds_net s) = None then s else s\<lparr>ds_net := (StopListener (ds_net s))\<lparr>ls_listener := None\<rparr>\<rparr>)"

definition DBinderService_destroy :: "dservice \<Rightarrow> dservice" where
  "DBinderService_destroy s = (StopRemoteListener s)\<lparr>ds_stubs := [], ds_tags := [], ds_remoteBinders := [],
     ds_threadLocks := [], ds_proxies := [], ds_sessions := [], ds_noticeProxy := [], ds_deaths := [], ds_loadSa := [],
     ds_callback := False\<rparr>"

definition StartRemoteListener :: "device_env \<Rightarrow> dservice \<Rightarrow> bool \<times> dservice" where
  "StartRemoteListener E s =
     (if ls_listener (ds_net s) \<noteq> None then (True, s)
      else (case StartListener (de_softbus E) ((ds_net s)\<lparr>ls_listener := Some SOCKET_ID_INVALID\<rparr>) of
          (True, n) \<Rightarrow> (True, s\<lparr>ds_net := n\<rparr>)
        | (False, n) \<Rightarrow> (False, StopRemoteListener (s\<lparr>ds_net := n\<rparr>))))"

definition ReStartRemoteListener :: "device_env \<Rightarrow> dservice \<Rightarrow> bool \<times> dservice" where
  "ReStartRemoteListener E s =
     (if ls_listener (ds_net s) = None then (False, s)
      else (case StartListener (de_softbus E) (ds_net s) of
          (True, n) \<Rightarrow> (True, s\<lparr>ds_net := n\<rparr>)
        | (False, n) \<Rightarrow> (False, StopRemoteListener (s\<lparr>ds_net := n\<rparr>))))"

definition StartDBinderService :: "device_env \<Rightarrow> dservice \<Rightarrow> bool \<times> dservice" where
  "StartDBinderService E s =
     (if ds_mainThreadCreated s then ReStartRemoteListener E s
      else (case StartRemoteListener E s of
          (False, s1) \<Rightarrow> (False, s1)
        | (True, s1) \<Rightarrow> (True, s1\<lparr>ds_mainThreadCreated := True, ds_callback := True\<rparr>)))"

definition GetRemoteListener :: "device_env \<Rightarrow> dservice \<Rightarrow> bool \<times> dservice" where
  "GetRemoteListener E s = (if ls_listener (ds_net s) \<noteq> None then (True, s) else StartRemoteListener E s)"

section \<open>Tables\<close>

definition GetSeqNumber_dev :: "dservice \<Rightarrow> u32 \<times> dservice" where
  "GetSeqNumber_dev s =
     (let n = (if ds_seqNumber s = 0xFFFFFFFF then 0 else ds_seqNumber s) + 1 in (n, s\<lparr>ds_seqNumber := n\<rparr>))"

definition AddStubByTag :: "ptr \<Rightarrow> dservice \<Rightarrow> u64 \<times> dservice" where
  "AddStubByTag stub s =
     (case find (\<lambda>e. snd e = stub) (ds_tags s) of
        Some (tag, _) \<Rightarrow> (tag, s)
      | None \<Rightarrow>
          (let tag = ds_stubTagNum s; s1 = s\<lparr>ds_stubTagNum := tag + 1\<rparr> in
           case omap_insert tag stub (ds_tags s1) of
             (True, m) \<Rightarrow> (tag, s1\<lparr>ds_tags := m\<rparr>)
           | (False, m) \<Rightarrow> (0, s1\<lparr>ds_tags := m\<rparr>)))"

definition QueryStubPtr :: "u64 \<Rightarrow> dservice \<Rightarrow> ptr" where
  "QueryStubPtr tag s = (case map_of (ds_tags s) tag of Some p \<Rightarrow> p | None \<Rightarrow> 0)"

definition HasDBinderStub :: "ptr \<Rightarrow> dservice \<Rightarrow> bool" where
  "HasDBinderStub p s = (find (\<lambda>q. q \<noteq> nullptr \<and> q = p) (ds_stubs s) \<noteq> None)"

definition IsSameStubObject :: "u16string \<Rightarrow> string \<Rightarrow> u32 \<Rightarrow> u32 \<Rightarrow> dservice \<Rightarrow> ptr \<Rightarrow> bool" where
  "IsSameStubObject service device pid uid s p \<longleftrightarrow> p \<noteq> nullptr \<and> ss_serviceName (ds_heap s p) = service \<and>
     ss_deviceID (ds_heap s p) = device \<and> ss_peerPid (ds_heap s p) = pid \<and> ss_peerUid (ds_heap s p) = uid"

definition is_stub_of :: "u16string \<Rightarrow> string \<Rightarrow> dservice \<Rightarrow> ptr \<Rightarrow> bool" where
  "is_stub_of service device s p \<longleftrightarrow> ss_serviceName (ds_heap s p) = service \<and> ss_deviceID (ds_heap s p) = device"

definition FindDBinderStub :: "u16string \<Rightarrow> string \<Rightarrow> dservice \<Rightarrow> ptr list" where
  "FindDBinderStub service device s = filter (is_stub_of service device s) (ds_stubs s)"

definition erase_tag :: "ptr \<Rightarrow> dservice \<Rightarrow> dservice" where
  "erase_tag p s = s\<lparr>ds_tags := remove_first (\<lambda>e. snd e = p) (ds_tags s)\<rparr>"

definition DeleteDBinderStub :: "u16string \<Rightarrow> string \<Rightarrow> u32 \<Rightarrow> u32 \<Rightarrow> dservice \<Rightarrow> bool \<times> dservice" where
  "DeleteDBinderStub service device pid uid s =
     (case find (IsSameStubObject service device pid uid s) (ds_stubs s) of
        None \<Rightarrow> (False, s)
      | Some p \<Rightarrow> (True, erase_tag p (s\<lparr>ds_stubs := remove_first (IsSameStubObject service device pid uid s) (ds_stubs s)\<rparr>)))"

definition DeleteDBinderStub_service :: "u16string \<Rightarrow> string \<Rightarrow> dservice \<Rightarrow> bool \<times> dservice" where
  "DeleteDBinderStub_service service device s =
     (let gone = filter (is_stub_of service device s) (ds_stubs s);
          s1 = fold erase_tag gone s
      in (gone \<noteq> [], s1\<lparr>ds_stubs := filter (\<lambda>p. \<not> is_stub_of service device s p) (ds_stubs s)\<rparr>))"

definition ConvertToSecureDeviceID :: "string \<Rightarrow> string" where
  "ConvertToSecureDeviceID str =
     (if length str \<le> 4 then ''****'' else take 4 str @ ''****'' @ drop (length str - 4) str)"

definition DBinderServiceStub :: "device_env \<Rightarrow> u16string \<Rightarrow> string \<Rightarrow> u64 \<Rightarrow> u32 \<Rightarrow> u32 \<Rightarrow> service_stub" where
  "DBinderServiceStub E service device object pid uid =
     \<lparr>ss_descriptor = de_Str8ToStr16 E (nat_str (unat object) @ ''_'' @ ConvertToSecureDeviceID device @ ''_'' @ nat_str (unat pid)),
      ss_serviceName = service, ss_deviceID = device, ss_binderObject = object, ss_seqNum = 0, ss_peerPid = pid, ss_peerUid = uid,
      ss_negoTime = 0, ss_isInited = False, ss_negoStatus = NEGO_INIT,
      ss_dbinderData = (if de_new_data E then Some \<lparr>nd_proto = 0, nd_tokenid = 0, nd_stub_index = 0, nd_target_name = [],
        nd_local_name = [], nd_target_device = [], nd_local_device = [], nd_desc = []\<rparr> else None)\<rparr>"

text \<open>The flag tells whether the stub is new.\<close>

definition FindOrNewDBinderStub ::
    "device_env \<Rightarrow> u16string \<Rightarrow> string \<Rightarrow> u64 \<Rightarrow> u32 \<Rightarrow> u32 \<Rightarrow> dservice \<Rightarrow> ptr \<times> bool \<times> dservice" where
  "FindOrNewDBinderStub E service device object pid uid s =
     (case find (IsSameStubObject service device pid uid s) (ds_stubs s) of
        Some p \<Rightarrow> (p, False, s)
      | None \<Rightarrow>
          (let p = de_new_stub E s
           in (p, True, s\<lparr>ds_stubs := ds_stubs s @ [p],
                          ds_heap := (ds_heap s)(p := DBinderServiceStub E service device object pid uid)\<rparr>)))"

definition SetNegoStatusAndTime :: "NegotiationStatus \<Rightarrow> u64 \<Rightarrow> ptr \<Rightarrow> dservice \<Rightarrow> dservice" where
  "SetNegoStatusAndTime status time p = on_stub p (\<lambda>x. x\<lparr>ss_negoStatus := status, ss_negoTime := time\<rparr>)"

definition AttachThreadLockInfo_dev :: "u32 \<Rightarrow> string \<Rightarrow> ptr \<Rightarrow> dservice \<Rightarrow> bool \<times> dservice" where
  "AttachThreadLockInfo_dev seq networkId lock s =
     (let s1 = s\<lparr>ds_locks := (ds_locks s)(lock := (ds_locks s lock)\<lparr>li_networkId := networkId\<rparr>)\<rparr>
      in case omap_insert seq lock (ds_threadLocks s1) of (r, m) \<Rightarrow> (r, s1\<lparr>ds_threadLocks := m\<rparr>))"

definition DetachThreadLockInfo_dev :: "u32 \<Rightarrow> dservice \<Rightarrow> dservice" where
  "DetachThreadLockInfo_dev seq s = s\<lparr>ds_threadLocks := omap_erase seq (ds_threadLocks s)\<rparr>"

definition QueryThreadLockInfo_dev :: "u32 \<Rightarrow> dservice \<Rightarrow> ptr option" where
  "QueryThreadLockInfo_dev seq s = map_of (ds_threadLocks s) seq"

definition set_ready :: "bool \<Rightarrow> ptr \<Rightarrow> dservice \<Rightarrow> dservice" where
  "set_ready b lock s = s\<lparr>ds_locks := (ds_locks s)(lock := (ds_locks s lock)\<lparr>li_ready := b\<rparr>)\<rparr>"

definition WakeupThreadByStub :: "u32 \<Rightarrow> dservice \<Rightarrow> dservice" where
  "WakeupThreadByStub seq s = (case QueryThreadLockInfo_dev seq s of None \<Rightarrow> s | Some lock \<Rightarrow> set_ready True lock s)"

definition DetachProxyObject :: "u64 \<Rightarrow> dservice \<Rightarrow> bool \<times> dservice" where
  "DetachProxyObject b s = (map_of (ds_proxies s) (sint (ucast b :: u32)) \<noteq> None,
     s\<lparr>ds_proxies := omap_erase (sint (ucast b :: u32)) (ds_proxies s)\<rparr>)"

definition AttachProxyObject :: "ptr \<Rightarrow> u64 \<Rightarrow> dservice \<Rightarrow> bool \<times> dservice" where
  "AttachProxyObject object b s =
     (case omap_insert (sint (ucast b :: u32)) object (ds_proxies s) of (r, m) \<Rightarrow> (r, s\<lparr>ds_proxies := m\<rparr>))"

definition QueryProxyObject :: "u64 \<Rightarrow> dservice \<Rightarrow> ptr option" where
  "QueryProxyObject b s = map_of (ds_proxies s) (sint (ucast b :: u32))"

definition DetachSessionObject :: "ptr \<Rightarrow> dservice \<Rightarrow> bool \<times> dservice" where
  "DetachSessionObject stub s = (map_of (ds_sessions s) stub \<noteq> None, s\<lparr>ds_sessions := omap_erase stub (ds_sessions s)\<rparr>)"

definition AttachSessionObject :: "SessionInfo \<Rightarrow> ptr \<Rightarrow> dservice \<Rightarrow> bool \<times> dservice" where
  "AttachSessionObject session stub s =
     (case omap_insert stub session (ds_sessions s) of (r, m) \<Rightarrow> (r, s\<lparr>ds_sessions := m\<rparr>))"

definition QuerySessionObject :: "ptr \<Rightarrow> dservice \<Rightarrow> SessionInfo option" where
  "QuerySessionObject stub s = map_of (ds_sessions s) stub"

definition DetachDeathRecipient :: "ptr \<Rightarrow> dservice \<Rightarrow> bool \<times> dservice" where
  "DetachDeathRecipient object s = (map_of (ds_deaths s) object \<noteq> None, s\<lparr>ds_deaths := omap_erase object (ds_deaths s)\<rparr>)"

definition AttachDeathRecipient :: "ptr \<Rightarrow> ptr \<Rightarrow> dservice \<Rightarrow> bool \<times> dservice" where
  "AttachDeathRecipient object death s =
     (case omap_insert object death (ds_deaths s) of (r, m) \<Rightarrow> (r, s\<lparr>ds_deaths := m\<rparr>))"

definition QueryDeathRecipient :: "ptr \<Rightarrow> dservice \<Rightarrow> ptr option" where
  "QueryDeathRecipient object s = map_of (ds_deaths s) object"

definition DetachCallbackProxy :: "ptr \<Rightarrow> dservice \<Rightarrow> bool \<times> dservice" where
  "DetachCallbackProxy object s =
     (map_of (ds_noticeProxy s) object \<noteq> None, s\<lparr>ds_noticeProxy := omap_erase object (ds_noticeProxy s)\<rparr>)"

definition AttachCallbackProxy :: "ptr \<Rightarrow> ptr \<Rightarrow> dservice \<Rightarrow> bool \<times> dservice" where
  "AttachCallbackProxy object dbStub s =
     (case omap_insert object dbStub (ds_noticeProxy s) of (r, m) \<Rightarrow> (r, s\<lparr>ds_noticeProxy := m\<rparr>))"

definition GetRegisterService :: "u64 \<Rightarrow> dservice \<Rightarrow> u16string" where
  "GetRegisterService b s = (case find (\<lambda>e. snd e = b) (ds_remoteBinders s) of Some (name, _) \<Rightarrow> name | None \<Rightarrow> [])"

definition RegisterRemoteProxyInner :: "u16string \<Rightarrow> u64 \<Rightarrow> dservice \<Rightarrow> bool \<times> dservice" where
  "RegisterRemoteProxyInner name b s =
     (case omap_insert name b (omap_erase name (ds_remoteBinders s)) of (r, m) \<Rightarrow> (r, s\<lparr>ds_remoteBinders := m\<rparr>))"

definition RegisterRemoteProxy :: "u16string \<Rightarrow> ptr \<Rightarrow> dservice \<Rightarrow> bool \<times> dservice" where
  "RegisterRemoteProxy name object s =
     (if name = [] \<or> object = nullptr then (False, s) else RegisterRemoteProxyInner name object s)"

definition RegisterRemoteProxy_said :: "u16string \<Rightarrow> int \<Rightarrow> dservice \<Rightarrow> bool \<times> dservice" where
  "RegisterRemoteProxy_said name saId s =
     (if name = [] \<or> saId \<le> 0 then (False, s) else RegisterRemoteProxyInner name (word_of_int saId) s)"

end
