(* ===== verification/Device_Negotiation.thy ===== *)
theory Device_Negotiation
  imports Device_Service
begin

text \<open>
  The negotiation between the device services (\<open>dbinder_service.cpp\<close>): the request for a remote
  system ability with its wait, the loading of the ability on the other device and the answer, the
  session that the answer gives, and the reports that a service or a device is gone.
\<close>

section \<open>A request\<close>

text \<open>\<open>std::from_chars\<close> for \<open>uint64_t\<close>: digits; what follows is ignored.\<close>

definition from_chars_uint64 :: "string \<Rightarrow> u64 option" where
  "from_chars_uint64 s =
     (let ds = takeWhile is_digit s in
      if ds = [] then None else if str_nat ds \<ge> 2 ^ 64 then None else Some (of_nat (str_nat ds)))"

definition CreateMessage :: "device_env \<Rightarrow> ptr \<Rightarrow> u32 \<Rightarrow> u32 \<Rightarrow> u32 \<Rightarrow> dservice \<Rightarrow> DHandleEntryTxRx option \<times> dservice" where
  "CreateMessage E stub seq pid uid s =
     (case from_chars_uint64 (de_Str16ToStr8 E (ss_serviceName (ds_heap s stub))) of
        None \<Rightarrow> (None, s)
      | Some subIndex \<Rightarrow>
          (case AddStubByTag stub s of (tag, s1) \<Rightarrow>
             (Some (zero_entry\<lparr>m_len := of_nat ENTRY_SIZE, m_version := RPC_TOKENID_SUPPORT_VERSION,
                m_dBinderCode := MESSAGE_AS_INVOKER, m_transType := 0, m_fromPort := 0, m_toPort := 0,
                m_stubIndex := subIndex, m_seqNumber := seq, m_binderObject := ss_binderObject (ds_heap s stub),
                m_stub := tag, m_tokenId := de_token E, m_pid := pid, m_uid := uid\<rparr>), s1)))"

definition put_text :: "libc \<Rightarrow> bytes \<Rightarrow> nat \<Rightarrow> string \<Rightarrow> bool \<times> bytes" where
  "put_text L arr maxLen str =
     (case memcpy_s L arr 0 maxLen (str_bytes str) (length str) of (err, arr') \<Rightarrow> (err = EOK, arr'))"

definition CopyDeviceIDsToMessage :: "libc \<Rightarrow> string \<Rightarrow> string \<Rightarrow> DHandleEntryTxRx \<Rightarrow> DHandleEntryTxRx option" where
  "CopyDeviceIDsToMessage L localDevID deviceID m =
     (case put_text L (m_fromDeviceId m) DEVICEID_LENGTH localDevID of
        (False, _) \<Rightarrow> None
      | (True, a) \<Rightarrow>
          (case put_text L (m_toDeviceId m) DEVICEID_LENGTH deviceID of
             (False, _) \<Rightarrow> None
           | (True, b) \<Rightarrow> Some (m\<lparr>m_fromDeviceId := a[length localDevID := 0], m_toDeviceId := b[length deviceID := 0]\<rparr>)))"

definition SendEntryToRemote :: "device_env \<Rightarrow> ptr \<Rightarrow> u32 \<Rightarrow> u32 \<Rightarrow> u32 \<Rightarrow> dservice \<Rightarrow> bool \<times> dservice" where
  "SendEntryToRemote E stub seq pid uid s =
     (let deviceID = ss_deviceID (ds_heap s stub); localDevID = de_local_id E in
      if IsDeviceIdIllegal deviceID \<or> IsDeviceIdIllegal localDevID then (False, s)
      else (case CreateMessage E stub seq pid uid s of
          (None, s1) \<Rightarrow> (False, s1)
        | (Some m, s1) \<Rightarrow>
            (case CopyDeviceIDsToMessage (de_libc E) localDevID deviceID m of
               None \<Rightarrow> (False, s1)
             | Some msg \<Rightarrow>
                 (case GetRemoteListener E s1 of
                    (False, s2) \<Rightarrow> (False, s2)
                  | (True, s2) \<Rightarrow>
                      (case SendDataToRemote (de_softbus E) deviceID msg (ds_net s2) of
                         (r, n) \<Rightarrow> (r, s2\<lparr>ds_net := n\<rparr>))))))"

text \<open>The result is a code and the lock to wait on.\<close>

definition InvokerRemoteDBinderWhenRequest ::
    "device_env \<Rightarrow> ptr \<Rightarrow> u32 \<Rightarrow> u32 \<Rightarrow> u32 \<Rightarrow> dservice \<Rightarrow> u32 \<times> ptr option \<times> dservice" where
  "InvokerRemoteDBinderWhenRequest E stub seq pid uid s =
     (let s1 = SetNegoStatusAndTime NEGO_DOING (de_now E) stub s;
          lock = de_new_lock E s1;
          s2 = s1\<lparr>ds_locks := (ds_locks s1)(lock := \<lparr>li_networkId = [], li_ready = False\<rparr>)\<rparr>
      in case AttachThreadLockInfo_dev seq (ss_deviceID (ds_heap s2 stub)) lock s2 of
           (False, s3) \<Rightarrow> (DBINDER_MAKE_THREADLOCK_FAILED, Some lock, SetNegoStatusAndTime NEGO_INIT 0 stub s3)
         | (True, s3) \<Rightarrow>
             (case SendEntryToRemote E stub seq pid uid s3 of
                (False, s4) \<Rightarrow>
                  (DBINDER_SEND_MESSAGE_FAILED, Some lock, DetachThreadLockInfo_dev seq (SetNegoStatusAndTime NEGO_INIT 0 stub s4))
              | (True, s4) \<Rightarrow> (DBINDER_OK, Some lock, s4)))"

fun wait_rsp :: "device_env \<Rightarrow> ptr \<Rightarrow> u32 \<Rightarrow> nat \<Rightarrow> dservice \<Rightarrow> u32 \<times> ptr option \<times> dservice" where
  "wait_rsp E stub seq 0 s = (DBINDER_MAKE_THREADLOCK_FAILED, None, s)"
| "wait_rsp E stub seq (Suc n) s =
     (if ss_negoStatus (ds_heap s stub) = NEGO_FINISHED then (DBINDER_OK, None, s)
      else (case QueryThreadLockInfo_dev seq s of
          Some lock \<Rightarrow> (DBINDER_OK, Some lock, s)
        | None \<Rightarrow> wait_rsp E stub seq n (de_sleep E s)))"

definition InvokerRemoteDBinderWhenWaitRsp :: "device_env \<Rightarrow> ptr \<Rightarrow> u32 \<Rightarrow> dservice \<Rightarrow> u32 \<times> ptr option \<times> dservice" where
  "InvokerRemoteDBinderWhenWaitRsp E stub seq s = wait_rsp E stub seq 10 s"

text \<open>The part after the wait on the lock.\<close>

definition after_wait :: "device_env \<Rightarrow> ptr \<Rightarrow> u32 \<Rightarrow> ptr \<Rightarrow> dservice \<Rightarrow> u32 \<times> dservice" where
  "after_wait E stub seq lock s =
     (if \<not> li_ready (ds_locks s lock)
      then (DBINDER_WAIT_REPLY_TIMEOUT,
            set_ready False lock (DetachThreadLockInfo_dev seq (SetNegoStatusAndTime NEGO_INIT 0 stub s)))
      else if QuerySessionObject stub s = None
      then (DBINDER_QUERY_REPLY_SESSION_FAILED, SetNegoStatusAndTime NEGO_INIT 0 stub s)
      else (DBINDER_OK, SetNegoStatusAndTime NEGO_FINISHED (de_now E) stub s))"

definition InvokerRemoteDBinder :: "device_env \<Rightarrow> ptr \<Rightarrow> u32 \<Rightarrow> u32 \<Rightarrow> u32 \<Rightarrow> bool \<Rightarrow> dservice \<Rightarrow> u32 \<times> dservice" where
  "InvokerRemoteDBinder E stub seq pid uid isNew s =
     (if stub = nullptr then (DBINDER_STUB_INVALID, s)
      else (case (if isNew \<or> ss_negoStatus (ds_heap s stub) = NEGO_INIT
                  then InvokerRemoteDBinderWhenRequest E stub seq pid uid s
                  else InvokerRemoteDBinderWhenWaitRsp E stub seq s) of
          (result, lock, s1) \<Rightarrow>
            if result \<noteq> DBINDER_OK then (result, s1)
            else (case lock of None \<Rightarrow> (result, s1) | Some l \<Rightarrow> after_wait E stub seq l (de_wait E l s1))))"

definition MakeRemoteBinder :: "device_env \<Rightarrow> u16string \<Rightarrow> string \<Rightarrow> int \<Rightarrow> u32 \<Rightarrow> u32 \<Rightarrow> dservice \<Rightarrow> ptr \<times> dservice" where
  "MakeRemoteBinder E service device binderObject pid uid s =
     (if IsDeviceIdIllegal device \<or> service = [] then (nullptr, s)
      else (case FindOrNewDBinderStub E service device (word_of_int binderObject) pid uid s of
          (stub, isNew, s1) \<Rightarrow>
            if stub = nullptr then (nullptr, s1)
            else
              (case (if isNew
                     then (case GetSeqNumber_dev s1 of (seq, s2) \<Rightarrow> (seq, on_stub stub (\<lambda>x. x\<lparr>ss_seqNum := seq\<rparr>) s2))
                     else (ss_seqNum (ds_heap s1 stub), s1)) of
                 (seq, s2) \<Rightarrow>
                   (case InvokerRemoteDBinder E stub seq pid uid isNew s2 of
                      (ret1, s3) \<Rightarrow>
                        (case (if ret1 = DBINDER_WAIT_REPLY_TIMEOUT then InvokerRemoteDBinder E stub seq pid uid isNew s3
                               else (ret1, s3)) of
                           (ret, s4) \<Rightarrow>
                             if ret \<noteq> DBINDER_OK
                             then (nullptr,
                               if de_refcount E stub s4 \<le> 2
                               then snd (DetachSessionObject stub (snd (DeleteDBinderStub service device pid uid s4)))
                               else s4)
                             else (stub, s4))))))"

section \<open>The other device\<close>

definition CheckSystemAbilityId :: "int \<Rightarrow> bool" where
  "CheckSystemAbilityId saId \<longleftrightarrow> saId \<ge> 1 \<and> saId \<le> 0xFFFFFF"

definition low32 :: "u64 \<Rightarrow> int" where
  "low32 w = sint (ucast w :: u32)"

definition CheckAndAmendSaId :: "DHandleEntryTxRx \<Rightarrow> bool \<times> DHandleEntryTxRx" where
  "CheckAndAmendSaId m =
     (let stubIndex = low32 (m_stubIndex m); binderObject = low32 (m_binderObject m) in
      if CheckSystemAbilityId stubIndex \<and> CheckSystemAbilityId binderObject
      then (True, if stubIndex \<noteq> binderObject then m\<lparr>m_binderObject := m_stubIndex m\<rparr> else m)
      else if CheckSystemAbilityId stubIndex then (True, m\<lparr>m_binderObject := m_stubIndex m\<rparr>)
      else if CheckSystemAbilityId binderObject then (True, m\<lparr>m_stubIndex := m_binderObject m\<rparr>)
      else (False, m))"

definition SendReplyMessageToRemote :: "device_env \<Rightarrow> u32 \<Rightarrow> u32 \<Rightarrow> ptr \<Rightarrow> dservice \<Rightarrow> dservice" where
  "SendReplyMessageToRemote E cd reason p s =
     (case GetRemoteListener E s of
        (False, s1) \<Rightarrow> s1
      | (True, s1) \<Rightarrow>
          (let s2 = on_entry p (\<lambda>m. m\<lparr>m_dBinderCode := cd\<rparr>) s1;
               s3 = (if cd = MESSAGE_AS_REMOTE_ERROR then on_entry p (\<lambda>m. m\<lparr>m_transType := reason\<rparr>) s2 else s2);
               m = ds_messages s3 p
           in s3\<lparr>ds_net := snd (SendDataReply (de_softbus E) (array_str (m_fromDeviceId m)) m (ds_net s3))\<rparr>))"

definition IsSameLoadSaItem :: "string \<Rightarrow> int \<Rightarrow> dservice \<Rightarrow> ptr \<Rightarrow> bool" where
  "IsSameLoadSaItem srcNetworkId saId s p \<longleftrightarrow>
     low32 (m_binderObject (ds_messages s p)) = saId \<and> array_str (m_fromDeviceId (ds_messages s p)) = srcNetworkId"

definition PopLoadSaItem :: "string \<Rightarrow> int \<Rightarrow> dservice \<Rightarrow> ptr option \<times> dservice" where
  "PopLoadSaItem srcNetworkId saId s =
     (case find (IsSameLoadSaItem srcNetworkId saId s) (ds_loadSa s) of
        None \<Rightarrow> (None, s)
      | Some p \<Rightarrow> (Some p, s\<lparr>ds_loadSa := remove_first (IsSameLoadSaItem srcNetworkId saId s) (ds_loadSa s)\<rparr>))"

definition GetDatabusNameByProxy :: "device_env \<Rightarrow> ptr \<Rightarrow> string" where
  "GetDatabusNameByProxy E proxy = (if proxy = nullptr then [] else de_GetSessionName E proxy)"

definition CheckStubIndexAndSessionNameIllegal :: "u64 \<Rightarrow> string \<Rightarrow> bool" where
  "CheckStubIndexAndSessionNameIllegal stubIndex name \<longleftrightarrow> stubIndex = 0 \<or> name = [] \<or> length name > SERVICENAME_LENGTH"

definition SetReplyMessage :: "libc \<Rightarrow> u64 \<Rightarrow> string \<Rightarrow> u32 \<Rightarrow> DHandleEntryTxRx \<Rightarrow> bool \<times> DHandleEntryTxRx" where
  "SetReplyMessage L stubIndex name selfTokenId m =
     (let m1 = m\<lparr>m_dBinderCode := (if m_version m \<ge> RPC_TOKENID_SUPPORT_VERSION then MESSAGE_AS_REPLY_TOKENID else MESSAGE_AS_REPLY),
                 m_version := RPC_TOKENID_SUPPORT_VERSION, m_stubIndex := stubIndex, m_serviceNameLength := of_nat (length name),
                 m_tokenId := selfTokenId\<rparr>;
          n = unat (m_serviceNameLength m1)
      in case memcpy_s L (m_serviceName m1) 0 SERVICENAME_LENGTH (str_bytes name) n of
           (err, a) \<Rightarrow> if err \<noteq> EOK then (False, m1\<lparr>m_serviceName := a\<rparr>) else (True, m1\<lparr>m_serviceName := a[n := 0]\<rparr>))"

definition OnRemoteInvokerDataBusMessage ::
    "device_env \<Rightarrow> ptr \<Rightarrow> ptr \<Rightarrow> string \<Rightarrow> u32 \<Rightarrow> u32 \<Rightarrow> u32 \<Rightarrow> dservice \<Rightarrow> u32 \<times> dservice" where
  "OnRemoteInvokerDataBusMessage E proxy p remoteDeviceId pid uid tokenId s =
     (if IsDeviceIdIllegal remoteDeviceId then (DBINDER_DEVICEID_INVALID, s)
      else
        (let name = GetDatabusNameByProxy E proxy;
             args = [ArgU16 0, ArgString (de_local_id E), ArgU32 pid, ArgU32 uid, ArgString remoteDeviceId, ArgString name, ArgU32 tokenId]
         in if name = [] then (DBINDER_SESSION_NAME_NOT_FOUND, s)
            else if \<not> list_all (de_write E) args then (DBINDER_WRITE_PARCEL_FAILED, s)
            else (case de_InvokeListenThread E proxy args of
                (err, stubIndex, serverName, _, selfTokenId) \<Rightarrow>
                  (let s1 = log_dev (EvListenThread proxy args) s in
                   if err \<noteq> 0 then (DBINDER_INVOKE_STUB_THREAD_FAILED, s1)
                   else if CheckStubIndexAndSessionNameIllegal stubIndex serverName then (DBINDER_SESSION_NAME_INVALID, s1)
                   else (case SetReplyMessage (de_libc E) stubIndex serverName selfTokenId (ds_messages s1 p) of
                       (ok, m) \<Rightarrow> (if ok then 0 else DBINDER_SESSION_NAME_INVALID, on_entry p (\<lambda>_. m) s1))))))"

text \<open>What is done with one request when its system ability has been loaded, or could not be.\<close>

definition load_item :: "device_env \<Rightarrow> ptr \<Rightarrow> ptr \<Rightarrow> dservice \<Rightarrow> dservice" where
  "load_item E object p s =
     (if object = nullptr then SendReplyMessageToRemote E MESSAGE_AS_REMOTE_ERROR DBINDER_SA_NOT_FOUND p s
      else
        (let b = m_binderObject (ds_messages s p);
             death = de_new_death E s;
             known = (QueryProxyObject b s \<noteq> None)
         in if \<not> known \<and> \<not> de_AddDeathRecipient E object s
            then SendReplyMessageToRemote E MESSAGE_AS_REMOTE_ERROR DBINDER_SA_NOT_FOUND p s
            else
              (let s1 = (if known then s else snd (AttachProxyObject object b (log_dev (EvAddDeath object death) s)));
                   m = ds_messages s1 p
               in if m_transType m \<noteq> 0 then SendReplyMessageToRemote E MESSAGE_AS_REMOTE_ERROR DBINDER_SA_INVOKE_FAILED p s1
                  else (case OnRemoteInvokerDataBusMessage E object p (array_str (m_fromDeviceId m)) (m_pid m) (m_uid m)
                               (if m_version m < RPC_TOKENID_SUPPORT_VERSION then 0 else m_tokenId m) s1 of
                      (result, s2) \<Rightarrow>
                        if result \<noteq> 0 then SendReplyMessageToRemote E MESSAGE_AS_REMOTE_ERROR result p s2
                        else SendReplyMessageToRemote E MESSAGE_AS_REPLY 0 p s2))))"

lemma loadSa_listener [simp]:
  "ds_loadSa (snd (GetRemoteListener E s)) = ds_loadSa s"
  by (simp add: GetRemoteListener_def StartRemoteListener_def StopRemoteListener_def split: prod.splits bool.splits)

lemma loadSa_reply [simp]: "ds_loadSa (SendReplyMessageToRemote E cd reason p s) = ds_loadSa s"
  using loadSa_listener [of E s]
  by (cases "GetRemoteListener E s") (auto simp: SendReplyMessageToRemote_def on_entry_def Let_def split: bool.splits)

lemma loadSa_databus [simp]:
  "ds_loadSa (snd (OnRemoteInvokerDataBusMessage E proxy p dev pid uid tok s)) = ds_loadSa s"
  by (simp add: OnRemoteInvokerDataBusMessage_def Let_def on_entry_def log_dev_def split: prod.splits)

lemma loadSa_item [simp]: "ds_loadSa (load_item E object p s) = ds_loadSa s"
  by (simp add: load_item_def Let_def log_dev_def AttachProxyObject_def case_prod_beta)

lemma pop_shrinks: "PopLoadSaItem d i s = (Some p, s1) \<Longrightarrow> length (ds_loadSa s1) < length (ds_loadSa s)"
proof -
  have "find P xs = Some x \<Longrightarrow> length (remove_first P xs) < length xs" for P :: "ptr \<Rightarrow> bool" and xs x
    by (induction xs) (auto split: if_splits)
  then show "PopLoadSaItem d i s = (Some p, s1) \<Longrightarrow> length (ds_loadSa s1) < length (ds_loadSa s)"
    by (auto simp: PopLoadSaItem_def split: option.splits)
qed

function LoadSystemAbilityComplete :: "device_env \<Rightarrow> string \<Rightarrow> int \<Rightarrow> ptr \<Rightarrow> dservice \<Rightarrow> dservice" where
  "LoadSystemAbilityComplete E srcNetworkId saId object s =
     (case PopLoadSaItem srcNetworkId saId s of
        (None, s1) \<Rightarrow> s1
      | (Some p, s1) \<Rightarrow> LoadSystemAbilityComplete E srcNetworkId saId object (load_item E object p s1))"
  by pat_completeness auto
termination
  by (relation "measure (\<lambda>(E, d, i, ob, s). length (ds_loadSa s))") (auto dest: pop_shrinks [OF sym])

declare LoadSystemAbilityComplete.simps [simp del]

definition OnRemoteInvokerMessage :: "device_env \<Rightarrow> ptr \<Rightarrow> dservice \<Rightarrow> bool \<times> dservice" where
  "OnRemoteInvokerMessage E p s =
     (case CheckAndAmendSaId (ds_messages s p) of
        (False, m) \<Rightarrow> (False, SendReplyMessageToRemote E MESSAGE_AS_REMOTE_ERROR DBINDER_SAID_INVALID p (on_entry p (\<lambda>_. m) s))
      | (True, m) \<Rightarrow>
          (let s1 = on_entry p (\<lambda>_. m) s in
           if \<not> de_IsDistributed E (m_binderObject m)
           then (False, SendReplyMessageToRemote E MESSAGE_AS_REMOTE_ERROR DBINDER_SA_NOT_DISTRUBUTED p s1)
           else
             (let from = array_str (m_fromDeviceId m); saId = low32 (m_binderObject m);
                  s2 = log_dev (EvLoad from saId) (s1\<lparr>ds_loadSa := ds_loadSa s1 @ [p]\<rparr>)
              in if \<not> de_LoadSystemAbility E from saId
                 then (False, SendReplyMessageToRemote E MESSAGE_AS_REMOTE_ERROR DBINDER_SA_NOT_AVAILABLE p
                                (snd (PopLoadSaItem from saId s2)))
                 else (True, s2))))"

section \<open>The answer\<close>

definition IsSameSession :: "SessionInfo \<Rightarrow> SessionInfo \<Rightarrow> bool" where
  "IsSameSession old new \<longleftrightarrow> si_stubIndex old = si_stubIndex new \<and> si_toPort old = si_toPort new \<and>
     si_fromPort old = si_fromPort new \<and> si_type old = si_type new \<and> si_serviceName old = si_serviceName new \<and>
     takeWhile (\<lambda>b. b \<noteq> 0) (take DEVICEID_LENGTH (si_fromDeviceId old)) = takeWhile (\<lambda>b. b \<noteq> 0) (take DEVICEID_LENGTH (si_fromDeviceId new)) \<and>
     takeWhile (\<lambda>b. b \<noteq> 0) (take DEVICEID_LENGTH (si_toDeviceId old)) = takeWhile (\<lambda>b. b \<noteq> 0) (take DEVICEID_LENGTH (si_toDeviceId new))"

definition IsInvalidStub :: "DHandleEntryTxRx \<Rightarrow> dservice \<Rightarrow> bool" where
  "IsInvalidStub m s = (\<not> HasDBinderStub (QueryStubPtr (m_stub m) s) s)"

definition IsValidSessionName :: "DHandleEntryTxRx \<Rightarrow> bool" where
  "IsValidSessionName m =
     (if unat (m_serviceNameLength m) > SERVICENAME_LENGTH then False
      else
        (let realLen = length (takeWhile (\<lambda>b. b \<noteq> 0) (take (SERVICENAME_LENGTH + 1) (m_serviceName m)))
         in \<not> (realLen > SERVICENAME_LENGTH \<or> realLen \<noteq> unat (m_serviceNameLength m))))"

definition InitializeSession :: "DHandleEntryTxRx \<Rightarrow> SessionInfo" where
  "InitializeSession m = \<lparr>si_seqNumber = m_seqNumber m, si_type = m_transType m, si_toPort = m_toPort m,
     si_fromPort = m_fromPort m, si_stubIndex = m_stubIndex m, si_socketFd = 0, si_serviceName = array_str (m_serviceName m),
     si_tokenId = (if m_dBinderCode m = MESSAGE_AS_REPLY then 0 else m_tokenId m),
     si_fromDeviceId = m_fromDeviceId m, si_toDeviceId = m_toDeviceId m\<rparr>"

definition MakeSessionByReplyMessage :: "DHandleEntryTxRx \<Rightarrow> dservice \<Rightarrow> dservice" where
  "MakeSessionByReplyMessage m s =
     (if IsInvalidStub m s then s
      else if \<not> IsValidSessionName m then s
      else
        (let session = InitializeSession m; stub = QueryStubPtr (m_stub m) s in
         if si_stubIndex session = 0 then s
         else (case QuerySessionObject stub s of
             None \<Rightarrow> snd (AttachSessionObject session stub s)
           | Some old \<Rightarrow>
               if IsSameSession old session then s
               else if si_seqNumber old \<le> si_seqNumber session
               then snd (AttachSessionObject session stub (snd (DetachSessionObject stub s)))
               else snd (AttachSessionObject session stub s))))"

definition OnRemoteReplyMessage :: "ptr \<Rightarrow> dservice \<Rightarrow> bool \<times> dservice" where
  "OnRemoteReplyMessage p s =
     (let m = ds_messages s p
      in (True, DetachThreadLockInfo_dev (m_seqNumber m) (WakeupThreadByStub (m_seqNumber m) (MakeSessionByReplyMessage m s))))"

definition OnRemoteErrorMessage :: "ptr \<Rightarrow> dservice \<Rightarrow> bool \<times> dservice" where
  "OnRemoteErrorMessage p s =
     (let m = ds_messages s p in (True, DetachThreadLockInfo_dev (m_seqNumber m) (WakeupThreadByStub (m_seqNumber m) s)))"

definition OnRemoteMessageTask :: "device_env \<Rightarrow> ptr \<Rightarrow> dservice \<Rightarrow> bool \<times> dservice" where
  "OnRemoteMessageTask E p s =
     (if p = nullptr then (False, s)
      else
        (let cd = m_dBinderCode (ds_messages s p) in
         if cd = MESSAGE_AS_INVOKER then OnRemoteInvokerMessage E p s
         else if cd = MESSAGE_AS_REPLY \<or> cd = MESSAGE_AS_REPLY_TOKENID then OnRemoteReplyMessage p s
         else if cd = MESSAGE_AS_REMOTE_ERROR then OnRemoteErrorMessage p s
         else (False, s)))"

definition ProcessOnSessionClosed :: "string \<Rightarrow> dservice \<Rightarrow> dservice" where
  "ProcessOnSessionClosed networkId s =
     (let gone = filter (\<lambda>e. li_networkId (ds_locks s (snd e)) = networkId) (ds_threadLocks s)
      in fold (\<lambda>e. set_ready False (snd e)) gone
           (s\<lparr>ds_threadLocks := filter (\<lambda>e. li_networkId (ds_locks s (snd e)) \<noteq> networkId) (ds_threadLocks s)\<rparr>))"

text \<open>\<open>ClientOnShutdown\<close> of the listener together with the call of the service.\<close>

definition client_shutdown :: "int \<Rightarrow> dservice \<Rightarrow> dservice" where
  "client_shutdown sock s =
     (case ClientOnShutdown sock (ds_net s) of
        (networkId, n) \<Rightarrow> (if networkId \<noteq> [] then ProcessOnSessionClosed networkId else id) (s\<lparr>ds_net := n\<rparr>))"

section \<open>Death reports\<close>

definition ProcessCallbackProxyInner :: "ptr \<Rightarrow> dservice \<Rightarrow> dservice" where
  "ProcessCallbackProxyInner proxy s =
     (let s1 = log_dev (EvNoticeDie proxy) s;
          s2 = (case QueryDeathRecipient proxy s1 of None \<Rightarrow> s1 | Some death \<Rightarrow> log_dev (EvRemoveDeath proxy death) s1)
      in snd (DetachDeathRecipient proxy s2))"

definition callback_loop :: "ptr \<Rightarrow> dservice \<Rightarrow> dservice" where
  "callback_loop stub s =
     (let s1 = fold (\<lambda>e. if snd e = stub \<and> stub \<noteq> nullptr \<and> fst e \<noteq> nullptr then ProcessCallbackProxyInner (fst e) else id)
                 (ds_noticeProxy s) s
      in s1\<lparr>ds_noticeProxy := filter (\<lambda>e. snd e \<noteq> stub) (ds_noticeProxy s1)\<rparr>)"

definition ProcessCallbackProxy :: "ptr list \<Rightarrow> dservice \<Rightarrow> dservice" where
  "ProcessCallbackProxy stubs s = fold callback_loop stubs s"

definition NoticeCallbackProxy :: "u16string \<Rightarrow> string \<Rightarrow> dservice \<Rightarrow> bool \<times> dservice" where
  "NoticeCallbackProxy service device s =
     (let stubs = FindDBinderStub service device s in
      if stubs = [] then (True, s)
      else
        (let r1 = fold (\<lambda>p (ok, s1). case DetachSessionObject p s1 of (r, s2) \<Rightarrow> (ok \<and> r, s2)) stubs (True, s) in
         case DeleteDBinderStub_service service device (snd r1) of
           (r, s2) \<Rightarrow> (fst r1 \<and> r, ProcessCallbackProxy stubs s2)))"

definition NoticeServiceDieInner :: "u16string \<Rightarrow> string \<Rightarrow> dservice \<Rightarrow> int \<times> dservice" where
  "NoticeServiceDieInner service device s =
     (if service = [] \<or> IsDeviceIdIllegal device then (DBINDER_SERVICE_INVALID_DATA_ERR, s)
      else (case NoticeCallbackProxy service device s of
          (r, s1) \<Rightarrow> (if r then 0 else DBINDER_SERVICE_NOTICE_DIE_ERR, s1)))"

definition NoticeServiceDie_dev :: "u16string \<Rightarrow> string \<Rightarrow> dservice \<Rightarrow> int \<times> dservice" where
  "NoticeServiceDie_dev service device s = NoticeServiceDieInner service device s"

definition FindServicesByDeviceID :: "string \<Rightarrow> dservice \<Rightarrow> u16string list" where
  "FindServicesByDeviceID device s =
     sort (remdups (map (\<lambda>p. ss_serviceName (ds_heap s p)) (filter (\<lambda>p. ss_deviceID (ds_heap s p) = device) (ds_stubs s))))"

definition NoticeDeviceDie :: "string \<Rightarrow> dservice \<Rightarrow> int \<times> dservice" where
  "NoticeDeviceDie device s =
     (if IsDeviceIdIllegal device then (DBINDER_SERVICE_INVALID_DATA_ERR, s)
      else if ls_listener (ds_net s) = None then (DBINDER_SERVICE_NOTICE_DIE_ERR, s)
      else
        (let s1 = s\<lparr>ds_net := snd (ShutdownSocket_listener device (ds_net s))\<rparr>;
             names = FindServicesByDeviceID device s1
         in fold (\<lambda>name (status, s2). case NoticeServiceDieInner name device s2 of (r, s3) \<Rightarrow> (status + r, s3)) names (0, s1)))"

definition OnRemoteDied_client :: "ptr \<Rightarrow> dservice \<Rightarrow> dservice" where
  "OnRemoteDied_client object s =
     (if object = nullptr then s
      else
        (let s1 = (case QueryDeathRecipient object s of None \<Rightarrow> s | Some death \<Rightarrow> log_dev (EvRemoveDeath object death) s)
         in case DetachDeathRecipient object s1 of
              (False, s2) \<Rightarrow> s2
            | (True, s2) \<Rightarrow> snd (DetachCallbackProxy object s2)))"

definition OnRemoteDied_sa :: "u64 \<Rightarrow> ptr \<Rightarrow> dservice \<Rightarrow> dservice" where
  "OnRemoteDied_sa b remote s = (if remote = nullptr then s else snd (DetachProxyObject b s))"

end
