(* ===== verification/Device_Stub.thy ===== *)
theory Device_Stub
  imports Device_Negotiation
begin

text \<open>
  \<open>DBinderServiceStub\<close> (\<open>dbinder_service_stub.cpp\<close>): the stub that stands for an ability of another
  device. It tells the proxies of local clients how to reach the ability, keeps the proxies that
  want to hear of its death, and fills in the data that travels with the object. The caller, the
  message and the reply are those of \<open>stub_env\<close>; an object that is read from the message is an argument.
\<close>

abbreviation (input) DBINDER_SERVICE_PROCESS_PROTO_ERR :: int where "DBINDER_SERVICE_PROCESS_PROTO_ERR \<equiv> 703"
abbreviation (input) DBINDER_SERVICE_UNKNOW_TRANS_ERR :: int where "DBINDER_SERVICE_UNKNOW_TRANS_ERR \<equiv> 704"
abbreviation (input) DBINDER_SERVICE_ADD_DEATH_ERR :: int where "DBINDER_SERVICE_ADD_DEATH_ERR \<equiv> 705"
abbreviation (input) DBINDER_SERVICE_REMOVE_DEATH_ERR :: int where "DBINDER_SERVICE_REMOVE_DEATH_ERR \<equiv> 706"
abbreviation (input) DBINDER_SERVICE_FILL_DATA_ERR :: int where "DBINDER_SERVICE_FILL_DATA_ERR \<equiv> 708"
abbreviation (input) DBINDER_SERVICE_MALLOC_ERR :: int where "DBINDER_SERVICE_MALLOC_ERR \<equiv> 710"
abbreviation (input) SESSION_NAME_LENGTH :: nat where "SESSION_NAME_LENGTH \<equiv> 64"
abbreviation (input) DBINDER_DESC_LENGTH :: nat where "DBINDER_DESC_LENGTH \<equiv> 64"

definition CreateDatabusName :: "device_env \<Rightarrow> int \<Rightarrow> int \<Rightarrow> string" where
  "CreateDatabusName E uid pid = CreateSessionName (de_GrantPermission E uid pid) uid pid"

text \<open>The answer is what is written into the reply, in order.\<close>

definition ProcessProto_dev :: "device_env \<Rightarrow> 'd stub_env \<Rightarrow> ptr \<Rightarrow> dservice \<Rightarrow> int \<times> arg list" where
  "ProcessProto_dev E C this s =
     (case QuerySessionObject this s of
        None \<Rightarrow> (DBINDER_SERVICE_PROCESS_PROTO_ERR, [])
      | Some session \<Rightarrow>
          (let uid = GetCallingUid C; pid = GetCallingPid C in
           if uid < 0 \<or> pid < 0 then (DBINDER_SERVICE_PROCESS_PROTO_ERR, [])
           else
             (let name = CreateDatabusName E uid pid;
                  args = [ArgU32 (word_of_int IF_PROT_DATABUS), ArgU64 (si_stubIndex session), ArgString (si_serviceName session),
                    ArgString (array_str (si_toDeviceId session)), ArgString (array_str (si_fromDeviceId session)), ArgString name,
                    ArgU32 (si_tokenId session), ArgString16 (ss_descriptor (ds_heap s this))]
              in if name = [] then (DBINDER_SERVICE_PROCESS_PROTO_ERR, [])
                 else if si_type session \<noteq> 0 then (DBINDER_SERVICE_PROCESS_PROTO_ERR, [])
                 else if list_all (se_write C) args then (0, args)
                 else (DBINDER_SERVICE_PROCESS_PROTO_ERR, takeWhile (se_write C) args))))"

definition AddDbinderDeathRecipient_dev :: "device_env \<Rightarrow> ptr \<Rightarrow> ptr \<Rightarrow> dservice \<Rightarrow> int \<times> dservice" where
  "AddDbinderDeathRecipient_dev E object this s =
     (if object = nullptr then (DBINDER_SERVICE_INVALID_DATA_ERR, s)
      else
        (let death = de_new_death E s in
         if \<not> de_AddDeathRecipient E object s then (DBINDER_SERVICE_ADD_DEATH_ERR, s)
         else (case AttachDeathRecipient object death (log_dev (EvAddDeath object death) s) of
             (False, s1) \<Rightarrow> (DBINDER_SERVICE_ADD_DEATH_ERR, s1)
           | (True, s1) \<Rightarrow>
               (case AttachCallbackProxy object this s1 of
                  (r, s2) \<Rightarrow> (if r then 0 else DBINDER_SERVICE_ADD_DEATH_ERR, s2)))))"

definition RemoveDbinderDeathRecipient_dev :: "ptr \<Rightarrow> dservice \<Rightarrow> int \<times> dservice" where
  "RemoveDbinderDeathRecipient_dev object s =
     (if object = nullptr then (DBINDER_SERVICE_REMOVE_DEATH_ERR, s)
      else
        (let s1 = (case QueryDeathRecipient object s of None \<Rightarrow> s | Some death \<Rightarrow> log_dev (EvRemoveDeath object death) s)
         in case DetachDeathRecipient object s1 of
              (False, s2) \<Rightarrow> (DBINDER_SERVICE_REMOVE_DEATH_ERR, s2)
            | (True, s2) \<Rightarrow>
                (case DetachCallbackProxy object s2 of
                   (r, s3) \<Rightarrow> (if r then 0 else DBINDER_SERVICE_REMOVE_DEATH_ERR, s3))))"

definition ProcessDeathRecipient :: "device_env \<Rightarrow> 'd stub_env \<Rightarrow> 'd \<Rightarrow> ptr \<Rightarrow> ptr \<Rightarrow> dservice \<Rightarrow> int \<times> dservice" where
  "ProcessDeathRecipient E C data object this s =
     (let processType = fst (se_ReadInt32 C data) in
      if processType = 0 then AddDbinderDeathRecipient_dev E object this s
      else if processType = 1 then RemoveDbinderDeathRecipient_dev object s
      else (DBINDER_SERVICE_UNKNOW_TRANS_ERR, s))"

definition OnRemoteRequest_dev ::
    "device_env \<Rightarrow> 'd stub_env \<Rightarrow> u32 \<Rightarrow> 'd \<Rightarrow> ptr \<Rightarrow> ptr \<Rightarrow> dservice \<Rightarrow> int \<times> arg list \<times> dservice" where
  "OnRemoteRequest_dev E C cd data object this s =
     (if cd = GET_PROTO_INFO then (case ProcessProto_dev E C this s of (r, reply) \<Rightarrow> (r, reply, s))
      else if cd = DBINDER_OBITUARY_TRANSACTION
      then (case ProcessDeathRecipient E C data object this s of (r, s1) \<Rightarrow> (r, [], s1))
      else (DBINDER_SERVICE_UNKNOW_TRANS_ERR, [], s))"

definition DBinderClearServiceState_dev :: "'d stub_env \<Rightarrow> ptr \<Rightarrow> dservice \<Rightarrow> int \<times> dservice" where
  "DBinderClearServiceState_dev C this s =
     (if \<not> IsLocalCalling C then (IPC_STUB_INVALID_DATA_ERR, s)
      else (0, on_stub this (\<lambda>x. x\<lparr>ss_isInited := False\<rparr>) (SetNegoStatusAndTime NEGO_INIT 0 this s)))"

section \<open>Data that travels with the object\<close>

text \<open>
  \<open>memcpy_s\<close> into a zeroed array of 65 characters with 64 as the limit; a text that is read from the
  array ends at the first null. \<open>None\<close> is a failed copy. The descriptor consists of 16-bit characters,
  and its number of characters is given as the number of bytes to copy: the words of the array are
  the copied bytes in pairs.
\<close>

definition copied_text :: "bytes \<Rightarrow> nat \<Rightarrow> nat \<Rightarrow> string option" where
  "copied_text src n maxLen = (if n > maxLen then None else Some (array_str (take n src @ replicate (maxLen + 1 - n) 0)))"

fun pairs16 :: "bytes \<Rightarrow> u16string" where
  "pairs16 (a # b # r) = (ucast a + 256 * ucast b) # pairs16 r"
| "pairs16 [a] = [ucast a]"
| "pairs16 [] = []"

definition bytes16 :: "u16string \<Rightarrow> bytes" where
  "bytes16 d = concat (map word_bytes d)"

definition copied_desc :: "u16string \<Rightarrow> u16string option" where
  "copied_desc d =
     (if length d > DBINDER_DESC_LENGTH then None
      else Some (takeWhile (\<lambda>w. w \<noteq> 0) (pairs16 (take (length d) (bytes16 d) @ replicate (130 - length d) 0))))"

definition SaveDBinderData :: "string \<Rightarrow> ptr \<Rightarrow> dservice \<Rightarrow> int \<times> dservice" where
  "SaveDBinderData localBusName this s =
     (case QuerySessionObject this s of
        None \<Rightarrow> (DBINDER_SERVICE_FILL_DATA_ERR, s)
      | Some session \<Rightarrow>
          (case ss_dbinderData (ds_heap s this) of
             None \<Rightarrow> (DBINDER_SERVICE_MALLOC_ERR, s)
           | Some _ \<Rightarrow>
               (let tn = copied_text (str_bytes (si_serviceName session)) (length (si_serviceName session)) SESSION_NAME_LENGTH;
                    td = copied_text (si_toDeviceId session) DEVICEID_LENGTH DEVICEID_LENGTH;
                    ld = copied_text (si_fromDeviceId session) DEVICEID_LENGTH DEVICEID_LENGTH;
                    ln = copied_text (str_bytes localBusName) (length localBusName) SESSION_NAME_LENGTH;
                    de = copied_desc (ss_descriptor (ds_heap s this));
                    nd = \<lparr>nd_proto = word_of_int IF_PROT_DATABUS, nd_tokenid = si_tokenId session, nd_stub_index = si_stubIndex session,
                      nd_target_name = (case tn of None \<Rightarrow> [] | Some t \<Rightarrow> t), nd_local_name = (case ln of None \<Rightarrow> [] | Some t \<Rightarrow> t),
                      nd_target_device = (case td of None \<Rightarrow> [] | Some t \<Rightarrow> t), nd_local_device = (case ld of None \<Rightarrow> [] | Some t \<Rightarrow> t),
                      nd_desc = (case de of None \<Rightarrow> [] | Some t \<Rightarrow> t)\<rparr>;
                    s1 = on_stub this (\<lambda>x. x\<lparr>ss_dbinderData := Some nd\<rparr>) s
                in if tn = None \<or> td = None \<or> ld = None \<or> ln = None \<or> de = None then (DBINDER_SERVICE_FILL_DATA_ERR, s1)
                   else (0, on_stub this (\<lambda>x. x\<lparr>ss_isInited := True\<rparr>) s1))))"

definition CheckSessionObjectValidity :: "ptr \<Rightarrow> dservice \<Rightarrow> bool" where
  "CheckSessionObjectValidity this s = (case QuerySessionObject this s of None \<Rightarrow> False | Some session \<Rightarrow> si_type session = 0)"

definition GetAndSaveDBinderData :: "device_env \<Rightarrow> int \<Rightarrow> int \<Rightarrow> ptr \<Rightarrow> dservice \<Rightarrow> int \<times> dservice" where
  "GetAndSaveDBinderData E pid uid this s =
     (if ss_isInited (ds_heap s this) then (0, s)
      else if pid < 0 then (DBINDER_SERVICE_FILL_DATA_ERR, s)
      else if \<not> CheckSessionObjectValidity this s then (DBINDER_SERVICE_FILL_DATA_ERR, s)
      else
        (let name = CreateDatabusName E uid pid in
         if name = [] then (DBINDER_SERVICE_FILL_DATA_ERR, s) else SaveDBinderData name this s))"

end
