(* ===== verification/Device_Proofs.thy ===== *)
theory Device_Proofs
  imports Device_Stub Databus_Wire_Proofs Buffer_Object_Proofs
begin

text \<open>
  Proofs about the negotiation of the device services: messages survive their byte form, a request
  that can be served gives the client a session for the stub that asked, every pending request is
  answered once and in order, and what goes wrong with tokens and with refused loads.
\<close>

section \<open>Messages as bytes\<close>

definition entry_wf :: "DHandleEntryTxRx \<Rightarrow> bool" where
  "entry_wf m \<longleftrightarrow> length (m_fromDeviceId m) = 65 \<and> length (m_toDeviceId m) = 65 \<and> length (m_serviceName m) = 201"

lemma at_offset_skip: "length xs \<le> off \<Longrightarrow> at_offset off n (xs @ ys) = at_offset (off - length xs) n ys"
  by (simp add: at_offset_def)

lemma at_offset_here: "length xs = n \<Longrightarrow> at_offset 0 n (xs @ ys) = xs"
  by (simp add: at_offset_def)

lemma at_offset_Cons: "0 < off \<Longrightarrow> at_offset off n (x # xs) = at_offset (off - 1) n xs"
  by (simp add: at_offset_def drop_Cons')

lemma entry_bytes_length: "entry_wf m \<Longrightarrow> length (entry_bytes m) = ENTRY_SIZE"
  by (simp add: entry_bytes_def entry_wf_def)

lemma entry_of_entry_bytes: "entry_wf m \<Longrightarrow> entry_of (entry_bytes m) = m"
  by (cases m) (simp add: entry_of_def entry_bytes_def entry_wf_def at_offset_skip at_offset_here at_offset_Cons bytes_word_bytes)

lemma received_entry:
  assumes "libc_ok L" "entry_wf m" "m_len m = of_nat ENTRY_SIZE"
  shows "OnBytesReceived L (Some (entry_bytes m)) = Some m"
proof -
  have l: "length (entry_bytes m) = ENTRY_SIZE" using assms(2) by (rule entry_bytes_length)
  have "memcpy_s L (replicate ENTRY_SIZE 0) 0 ENTRY_SIZE (entry_bytes m) ENTRY_SIZE =
      (EOK, take 0 (replicate ENTRY_SIZE 0) @ take ENTRY_SIZE (entry_bytes m) @ drop (0 + ENTRY_SIZE) (replicate ENTRY_SIZE 0))"
    using assms(1) l unfolding libc_ok_def by simp
  then show ?thesis using assms l by (simp add: OnBytesReceived_def entry_of_entry_bytes Let_def)
qed

section \<open>An answer\<close>

text \<open>What a successful answer to a request is, apart from the code.\<close>

definition answer :: "u64 \<Rightarrow> string \<Rightarrow> u32 \<Rightarrow> u32 \<Rightarrow> DHandleEntryTxRx \<Rightarrow> DHandleEntryTxRx" where
  "answer idx name tok cd m = m\<lparr>m_dBinderCode := cd, m_version := RPC_TOKENID_SUPPORT_VERSION, m_stubIndex := idx,
     m_serviceNameLength := of_nat (length name), m_tokenId := tok,
     m_serviceName := str_bytes name @ 0 # drop (length name + 1) (m_serviceName m)\<rparr>"

lemma length_str_bytes [simp]: "length (str_bytes s) = length s"
  by (simp add: str_bytes_def)

lemma unat_of_name: "length name \<le> 200 \<Longrightarrow> unat (of_nat (length name) :: u16) = length name"
  by (simp add: unat_of_nat take_bit_nat_eq_self)

lemma SetReplyMessage_ok:
  assumes "libc_ok L" "length name \<le> SERVICENAME_LENGTH" "length (m_serviceName m) = 201"
  shows "SetReplyMessage L idx name tok m =
    (True, answer idx name tok (if m_version m \<ge> RPC_TOKENID_SUPPORT_VERSION then MESSAGE_AS_REPLY_TOKENID else MESSAGE_AS_REPLY) m)"
proof -
  let ?n = "length name" and ?a = "m_serviceName m"
  have cp: "memcpy_s L ?a 0 SERVICENAME_LENGTH (str_bytes name) ?n = (EOK, take 0 ?a @ take ?n (str_bytes name) @ drop (0 + ?n) ?a)"
    using assms unfolding libc_ok_def by simp
  have "drop ?n ?a = ?a ! ?n # drop (?n + 1) ?a" using assms(2,3) by (simp add: Cons_nth_drop_Suc)
  then have "(str_bytes name @ drop ?n ?a)[?n := 0] = str_bytes name @ 0 # drop (?n + 1) ?a"
    by (simp add: list_update_append)
  then show ?thesis using cp unat_of_name [of name] assms(2) by (simp add: SetReplyMessage_def Let_def answer_def)
qed

lemma answer_wf: "\<lbrakk>entry_wf m; length name \<le> 200\<rbrakk> \<Longrightarrow> entry_wf (answer idx name tok cd m)"
  by (simp add: entry_wf_def answer_def)

lemma takeWhile_text:
  "CHR 0x00 \<notin> set name \<Longrightarrow> takeWhile (\<lambda>b. b \<noteq> 0) (str_bytes name @ 0 # r) = str_bytes name"
  using str_bytes_nonzero [of name] by (subst takeWhile_append2) auto

lemma answer_name:
  assumes "CHR 0x00 \<notin> set name" "length name \<le> 200" "length (m_serviceName m) = 201"
  shows "array_str (m_serviceName (answer idx name tok cd m)) = name" and "IsValidSessionName (answer idx name tok cd m)"
proof -
  have "take 201 (m_serviceName (answer idx name tok cd m)) = m_serviceName (answer idx name tok cd m)"
    using assms by (simp add: answer_def)
  then show "IsValidSessionName (answer idx name tok cd m)"
    using assms takeWhile_text [of name] unat_of_name [of name] by (simp add: IsValidSessionName_def Let_def answer_def)
  show "array_str (m_serviceName (answer idx name tok cd m)) = name"
    using assms takeWhile_text [of name] by (simp add: array_str_def answer_def)
qed

section \<open>Answers that are sent\<close>

text \<open>What of a message tells which request it is, and is never changed by an answer.\<close>

definition request_key :: "DHandleEntryTxRx \<Rightarrow> u64 \<times> bytes \<times> bytes \<times> u32 \<times> u64" where
  "request_key m = (m_binderObject m, m_fromDeviceId m, m_toDeviceId m, m_seqNumber m, m_stub m)"

definition coded :: "u32 \<Rightarrow> u32 \<Rightarrow> DHandleEntryTxRx \<Rightarrow> DHandleEntryTxRx" where
  "coded cd reason m = (if cd = MESSAGE_AS_REMOTE_ERROR then m\<lparr>m_dBinderCode := cd, m_transType := reason\<rparr> else m\<lparr>m_dBinderCode := cd\<rparr>)"

lemma coded_simps [simp]: "request_key (coded cd reason m) = request_key m" "m_dBinderCode (coded cd reason m) = cd"
  "m_fromDeviceId (coded cd reason m) = m_fromDeviceId m"
  by (simp_all add: coded_def request_key_def)

lemma listener_running: "ls_listener (ds_net s) \<noteq> None \<Longrightarrow> GetRemoteListener E s = (True, s)"
  by (simp add: GetRemoteListener_def)

lemma reply_sent:
  assumes "ls_listener (ds_net s) \<noteq> None" "GetPeerSocketId (array_str (m_fromDeviceId (ds_messages s p))) (ds_net s) = sock"
    "sock \<noteq> SOCKET_ID_INVALID"
  shows "SendReplyMessageToRemote E cd reason p s =
    s\<lparr>ds_messages := (ds_messages s)(p := coded cd reason (ds_messages s p)),
      ds_net := (ds_net s)\<lparr>ls_events := ls_events (ds_net s) @
        [NetSend sock (coded cd reason (ds_messages s p)) (sb_SendBytes (de_softbus E) sock (ls_events (ds_net s)) = 0)]\<rparr>\<rparr>"
  using assms listener_running [OF assms(1), of E]
  by (simp add: SendReplyMessageToRemote_def on_entry_def SendDataReply_def SendBytes_def coded_def Let_def)

lemma SetReplyMessage_key: "request_key (snd (SetReplyMessage L idx name tok m)) = request_key m"
  by (simp add: SetReplyMessage_def request_key_def Let_def split: prod.splits)

lemma databus_frame:
  assumes "OnRemoteInvokerDataBusMessage E proxy p dev pid uid tok s = (r, s')"
  shows "ds_net s' = ds_net s \<and> (\<forall>q. request_key (ds_messages s' q) = request_key (ds_messages s q))"
  using assms SetReplyMessage_key
  by (auto simp: OnRemoteInvokerDataBusMessage_def Let_def log_dev_def on_entry_def split: if_splits prod.splits)
     (metis snd_conv)+

text \<open>Whatever becomes of a request, the last thing done for it is one answer.\<close>

lemma load_item_answers:
  "\<exists>cd reason s'. load_item E object p s = SendReplyMessageToRemote E cd reason p s' \<and> cd \<in> {MESSAGE_AS_REPLY, MESSAGE_AS_REMOTE_ERROR} \<and>
     ds_net s' = ds_net s \<and> (\<forall>q. request_key (ds_messages s' q) = request_key (ds_messages s q))"
proof -
  define b where "b = m_binderObject (ds_messages s p)"
  define s1 where "s1 = (if QueryProxyObject b s \<noteq> None then s
    else snd (AttachProxyObject object b (log_dev (EvAddDeath object (de_new_death E s)) s)))"
  define tok where "tok = (if m_version (ds_messages s1 p) < RPC_TOKENID_SUPPORT_VERSION then 0 else m_tokenId (ds_messages s1 p))"
  let ?m = "ds_messages s1 p"
  obtain r s2 where d: "OnRemoteInvokerDataBusMessage E object p (array_str (m_fromDeviceId ?m)) (m_pid ?m) (m_uid ?m) tok s1 = (r, s2)"
    by (meson surj_pair)
  have eq: "load_item E object p s =
    (if object = nullptr \<or> QueryProxyObject b s = None \<and> \<not> de_AddDeathRecipient E object s
     then SendReplyMessageToRemote E MESSAGE_AS_REMOTE_ERROR DBINDER_SA_NOT_FOUND p s
     else if m_transType ?m \<noteq> 0 then SendReplyMessageToRemote E MESSAGE_AS_REMOTE_ERROR DBINDER_SA_INVOKE_FAILED p s1
     else SendReplyMessageToRemote E (if r \<noteq> 0 then MESSAGE_AS_REMOTE_ERROR else MESSAGE_AS_REPLY) r p s2)"
    unfolding load_item_def Let_def b_def [symmetric] s1_def [symmetric] tok_def [symmetric] d by simp
  have s1: "ds_net s1 = ds_net s" "ds_messages s1 = ds_messages s"
    by (simp_all add: s1_def AttachProxyObject_def log_dev_def split: prod.splits)
  have s2: "ds_net s2 = ds_net s" "request_key (ds_messages s2 q) = request_key (ds_messages s q)" for q
    using databus_frame [OF d] s1 by simp_all
  let ?cd = "if r \<noteq> 0 then MESSAGE_AS_REMOTE_ERROR else MESSAGE_AS_REPLY"
  consider "load_item E object p s = SendReplyMessageToRemote E MESSAGE_AS_REMOTE_ERROR DBINDER_SA_NOT_FOUND p s"
    | "load_item E object p s = SendReplyMessageToRemote E MESSAGE_AS_REMOTE_ERROR DBINDER_SA_INVOKE_FAILED p s1"
    | "load_item E object p s = SendReplyMessageToRemote E ?cd r p s2"
    unfolding eq by (meson)
  then show ?thesis
  proof cases
    case 1
    then show ?thesis by blast
  next
    case 2
    then show ?thesis using s1 by (intro exI [of _ MESSAGE_AS_REMOTE_ERROR] exI [of _ DBINDER_SA_INVOKE_FAILED] exI [of _ s1]) simp
  next
    case 3
    then show ?thesis using s2 by (intro exI [of _ ?cd] exI [of _ r] exI [of _ s2]) simp
  qed
qed

lemma request_key_simps:
  assumes "request_key m = request_key m'"
  shows "m_binderObject m = m_binderObject m'" "m_fromDeviceId m = m_fromDeviceId m'" "m_seqNumber m = m_seqNumber m'"
    "m_toDeviceId m = m_toDeviceId m'" "m_stub m = m_stub m'"
  using assms by (simp_all add: request_key_def)

text \<open>To get a listener may close sockets, and does nothing else that others can see.\<close>

definition grows :: "(net_event \<Rightarrow> bool) \<Rightarrow> net_event list \<Rightarrow> net_event list \<Rightarrow> bool" where
  "grows P a b \<longleftrightarrow> (\<exists>new. b = a @ new \<and> list_all P new)"

fun is_shutdown :: "net_event \<Rightarrow> bool" where
  "is_shutdown (NetShutdown _) = True"
| "is_shutdown (NetSend _ _ _) = False"

abbreviation (input) closes :: "net_event list \<Rightarrow> net_event list \<Rightarrow> bool" where
  "closes \<equiv> grows is_shutdown"

lemma grows_refl [simp]: "grows P a a"
  by (simp add: grows_def)

lemma grows_trans: "\<lbrakk>grows P a b; grows P b c\<rbrakk> \<Longrightarrow> grows P a c"
  by (auto simp: grows_def)

lemma grows_mono: "\<lbrakk>grows P a b; \<And>e. P e \<Longrightarrow> Q e\<rbrakk> \<Longrightarrow> grows Q a b"
  unfolding grows_def by (metis list.pred_mono_strong)

lemma grows_snoc [simp]: "grows P a (a @ [e]) \<longleftrightarrow> P e"
  by (simp add: grows_def)

lemma closes_Shutdown [simp]: "closes (ls_events n) (ls_events (Shutdown sock n))"
  by (simp add: Shutdown_def)

lemma closes_fold: "closes (ls_events n) (ls_events (fold (\<lambda>e. Shutdown (snd e)) xs n))"
proof (induction xs arbitrary: n)
  case (Cons x xs)
  then show ?case using grows_trans [OF closes_Shutdown [of n "snd x"]] by simp
qed simp

lemma closes_stop: "closes (ls_events (ds_net t)) (ls_events (ds_net (StopRemoteListener t)))"
  using grows_trans [OF closes_fold [of "ClearDeviceLock (ds_net t)" "ls_clients (ds_net t)"]]
  by (simp add: StopRemoteListener_def StopListener_def Let_def) (simp add: ClearDeviceLock_def Shutdown_def grows_def)

lemma listener_keeps:
  assumes "GetRemoteListener E s = (r, s')"
  shows "ds_messages s' = ds_messages s" and "closes (ls_events (ds_net s)) (ls_events (ds_net s'))"
proof -
  obtain ok n where st: "StartListener (de_softbus E) ((ds_net s)\<lparr>ls_listener := Some SOCKET_ID_INVALID\<rparr>) = (ok, n)" by (meson surj_pair)
  have n: "closes (ls_events (ds_net s)) (ls_events n)"
    using st by (auto simp: StartListener_def Shutdown_def grows_def Let_def split: if_splits)
  have s': "s' = (if ls_listener (ds_net s) \<noteq> None then s else if ok then s\<lparr>ds_net := n\<rparr> else StopRemoteListener (s\<lparr>ds_net := n\<rparr>))"
    using assms st by (auto simp: GetRemoteListener_def StartRemoteListener_def split: bool.splits if_splits)
  show "ds_messages s' = ds_messages s" unfolding s' by (simp add: StopRemoteListener_def)
  show "closes (ls_events (ds_net s)) (ls_events (ds_net s'))"
    unfolding s' using n grows_trans [OF n] closes_stop [of "s\<lparr>ds_net := n\<rparr>"] by simp
qed

section \<open>The loop over pending requests\<close>

fun plain_answer :: "net_event \<Rightarrow> bool" where
  "plain_answer (NetSend _ m _) \<longleftrightarrow> m_dBinderCode m \<in> {MESSAGE_AS_REPLY, MESSAGE_AS_REMOTE_ERROR}"
| "plain_answer (NetShutdown _) \<longleftrightarrow> True"

lemma reply_events:
  assumes "cd \<in> {MESSAGE_AS_REPLY, MESSAGE_AS_REMOTE_ERROR}"
  shows "grows plain_answer (ls_events (ds_net s)) (ls_events (ds_net (SendReplyMessageToRemote E cd reason p s)))"
proof -
  obtain r s1 where g: "GetRemoteListener E s = (r, s1)" by (meson surj_pair)
  have c: "grows plain_answer (ls_events (ds_net s)) (ls_events (ds_net s1))"
    by (rule grows_mono [OF listener_keeps(2) [OF g]]) (metis is_shutdown.elims(2) plain_answer.simps(2))
  have "r \<Longrightarrow> grows plain_answer (ls_events (ds_net s1)) (ls_events (ds_net (SendReplyMessageToRemote E cd reason p s)))"
    using assms g by (auto simp: SendReplyMessageToRemote_def SendDataReply_def SendBytes_def on_entry_def Let_def)
  then show ?thesis using c grows_trans [OF c] g by (cases r) (simp_all add: SendReplyMessageToRemote_def)
qed

lemma load_item_events: "grows plain_answer (ls_events (ds_net s)) (ls_events (ds_net (load_item E object p s)))"
proof -
  obtain cd reason s' where "load_item E object p s = SendReplyMessageToRemote E cd reason p s'"
      "cd \<in> {MESSAGE_AS_REPLY, MESSAGE_AS_REMOTE_ERROR}" "ds_net s' = ds_net s" using load_item_answers [of E object p s] by blast
  then show ?thesis using reply_events [of cd s' E reason p] by simp
qed

lemma PopLoadSaItem_cases:
  obtains "PopLoadSaItem d i s = (None, s)" "filter (IsSameLoadSaItem d i s) (ds_loadSa s) = []"
  | p s1 where "PopLoadSaItem d i s = (Some p, s1)" "s1 = s\<lparr>ds_loadSa := remove_first (IsSameLoadSaItem d i s) (ds_loadSa s)\<rparr>"
      "IsSameLoadSaItem d i s p"
      "filter (IsSameLoadSaItem d i s) (ds_loadSa s) = p # filter (IsSameLoadSaItem d i s) (ds_loadSa s1)"
      "filter (\<lambda>q. \<not> IsSameLoadSaItem d i s q) (ds_loadSa s) = filter (\<lambda>q. \<not> IsSameLoadSaItem d i s q) (ds_loadSa s1)"
proof (cases "find (IsSameLoadSaItem d i s) (ds_loadSa s)")
  case None
  then have "filter (IsSameLoadSaItem d i s) (ds_loadSa s) = []" by (simp add: find_None_iff filter_empty_conv)
  then show ?thesis using that(1) None by (simp add: PopLoadSaItem_def)
next
  case (Some p)
  have "find P xs = Some p \<Longrightarrow> P p \<and> filter P xs = p # filter P (remove_first P xs) \<and>
      filter (\<lambda>q. \<not> P q) xs = filter (\<lambda>q. \<not> P q) (remove_first P xs)" for P and xs :: "ptr list"
    by (induction xs) (auto split: if_splits)
  from this [OF Some] that(2) Some show ?thesis by (auto simp: PopLoadSaItem_def)
qed

lemma load_complete_events:
  "grows plain_answer (ls_events (ds_net s)) (ls_events (ds_net (LoadSystemAbilityComplete E d i object s)))"
proof (induction E d i object s rule: LoadSystemAbilityComplete.induct)
  case (1 E d i object s)
  show ?case
  proof (cases rule: PopLoadSaItem_cases [of d i s])
    case 1
    then show ?thesis by (simp add: LoadSystemAbilityComplete.simps)
  next
    case (2 p s1)
    have "grows plain_answer (ls_events (ds_net s)) (ls_events (ds_net (load_item E object p s1)))"
      using load_item_events [of s1 E object p] 2(2) by simp
    then show ?thesis
      using 1 [OF 2(1) [symmetric] refl] 2(1) by (subst LoadSystemAbilityComplete.simps) (simp add: grows_trans)
  qed
qed

text \<open>A request gets its answer on the socket of the device that sent it.\<close>

definition answered :: "int \<Rightarrow> DHandleEntryTxRx \<Rightarrow> net_event \<Rightarrow> bool" where
  "answered sock m e \<longleftrightarrow> (\<exists>r ok. e = NetSend sock r ok \<and> request_key r = request_key m \<and> plain_answer e)"

lemma load_item_one_answer:
  assumes "ls_listener (ds_net s) \<noteq> None" "GetPeerSocketId (array_str (m_fromDeviceId (ds_messages s p))) (ds_net s) = sock"
    "sock \<noteq> SOCKET_ID_INVALID"
  shows "\<exists>e. ds_net (load_item E object p s) = (ds_net s)\<lparr>ls_events := ls_events (ds_net s) @ [e]\<rparr> \<and> answered sock (ds_messages s p) e"
    and "request_key (ds_messages (load_item E object p s) q) = request_key (ds_messages s q)"
proof -
  obtain cd reason s' where f: "load_item E object p s = SendReplyMessageToRemote E cd reason p s'"
      "cd \<in> {MESSAGE_AS_REPLY, MESSAGE_AS_REMOTE_ERROR}" "ds_net s' = ds_net s"
      "\<forall>q. request_key (ds_messages s' q) = request_key (ds_messages s q)" using load_item_answers [of E object p s] by blast
  have k: "m_fromDeviceId (ds_messages s' p) = m_fromDeviceId (ds_messages s p)"
    by (rule request_key_simps(2)) (simp add: f(4))
  have eq: "load_item E object p s = s'\<lparr>ds_messages := (ds_messages s')(p := coded cd reason (ds_messages s' p)),
      ds_net := (ds_net s')\<lparr>ls_events := ls_events (ds_net s') @
        [NetSend sock (coded cd reason (ds_messages s' p)) (sb_SendBytes (de_softbus E) sock (ls_events (ds_net s')) = 0)]\<rparr>\<rparr>"
    unfolding f(1) by (rule reply_sent) (use assms f(3) k in simp_all)
  show "\<exists>e. ds_net (load_item E object p s) = (ds_net s)\<lparr>ls_events := ls_events (ds_net s) @ [e]\<rparr> \<and> answered sock (ds_messages s p) e"
    unfolding eq using f by (auto simp: answered_def)
  show "request_key (ds_messages (load_item E object p s) q) = request_key (ds_messages s q)"
    unfolding eq using f(4) by simp
qed

lemma same_item_keys:
  "(\<And>q. request_key (ds_messages t q) = request_key (ds_messages s q)) \<Longrightarrow> IsSameLoadSaItem d i t = IsSameLoadSaItem d i s"
  by (auto simp: IsSameLoadSaItem_def request_key_def fun_eq_iff)

lemma answered_keys:
  "request_key m = request_key m' \<Longrightarrow> answered sock m = answered sock m'"
  by (simp add: answered_def fun_eq_iff)

text \<open>
  C10. When a system ability has been loaded, or could not be, every request of that device for it is
  answered exactly once: the loop ends with none of them pending and all others still pending, and
  what it sends is one answer per request, in the order of their arrival, on the socket of the
  device, with the sequence number and the stub tag of the request.
\<close>

theorem loads_answered_once:
  assumes "ls_listener (ds_net s) \<noteq> None" "GetPeerSocketId d (ds_net s) = sock" "sock \<noteq> SOCKET_ID_INVALID"
  shows "ds_loadSa (LoadSystemAbilityComplete E d i object s) = filter (\<lambda>p. \<not> IsSameLoadSaItem d i s p) (ds_loadSa s) \<and>
    (\<exists>sent. ls_events (ds_net (LoadSystemAbilityComplete E d i object s)) = ls_events (ds_net s) @ sent \<and>
       list_all2 (\<lambda>p. answered sock (ds_messages s p)) (filter (IsSameLoadSaItem d i s) (ds_loadSa s)) sent)"
  using assms
proof (induction E d i object s rule: LoadSystemAbilityComplete.induct)
  case (1 E d i object s)
  show ?case
  proof (cases rule: PopLoadSaItem_cases [of d i s])
    case 1
    then have "LoadSystemAbilityComplete E d i object s = s" by (simp add: LoadSystemAbilityComplete.simps)
    moreover have "filter (\<lambda>p. \<not> IsSameLoadSaItem d i s p) (ds_loadSa s) = ds_loadSa s"
      using 1(2) by (simp add: filter_empty_conv)
    ultimately show ?thesis using 1(2) by simp
  next
    case (2 p s1)
    let ?t = "load_item E object p s1"
    have d: "array_str (m_fromDeviceId (ds_messages s1 p)) = d" using 2(2,3) by (simp add: IsSameLoadSaItem_def)
    have n: "ds_net s1 = ds_net s" "ds_messages s1 = ds_messages s" using 2(2) by simp_all
    obtain e where e: "ds_net ?t = (ds_net s)\<lparr>ls_events := ls_events (ds_net s) @ [e]\<rparr>" "answered sock (ds_messages s p) e"
      using load_item_one_answer(1) [of s1 p sock E object] d n 1(2-4) by auto
    have k: "request_key (ds_messages ?t q) = request_key (ds_messages s q)" for q
      using load_item_one_answer(2) [of s1 p sock E object q] d n 1(2-4) by auto
    note same = same_item_keys [of ?t s d i, OF k]
    have "GetPeerSocketId d (ds_net ?t) = sock" using e(1) 1(3) by (simp add: GetPeerSocketId_def)
    moreover have "LoadSystemAbilityComplete E d i object s = LoadSystemAbilityComplete E d i object ?t"
      by (subst LoadSystemAbilityComplete.simps) (simp add: 2(1))
    moreover have "ls_listener (ds_net ?t) \<noteq> None" using e(1) 1(2) by simp
    ultimately obtain sent where "ds_loadSa (LoadSystemAbilityComplete E d i object s) = filter (\<lambda>p. \<not> IsSameLoadSaItem d i s p) (ds_loadSa s1)"
      "ls_events (ds_net (LoadSystemAbilityComplete E d i object s)) = ls_events (ds_net s) @ e # sent"
      "list_all2 (\<lambda>p. answered sock (ds_messages s p)) (filter (IsSameLoadSaItem d i s) (ds_loadSa s1)) sent"
      using 1(1) [OF 2(1) [symmetric] refl] 1(4) unfolding same answered_keys [OF k] by (auto simp: e(1))
    then show ?thesis using e(2) unfolding 2(4,5) by (intro conjI exI [of _ "e # sent"]) simp_all
  qed
qed

section \<open>From a request to a session\<close>

text \<open>What the stub of an ability is asked, and when a request can be served.\<close>

definition listen_args :: "device_env \<Rightarrow> ptr \<Rightarrow> DHandleEntryTxRx \<Rightarrow> arg list" where
  "listen_args E object m = [ArgU16 0, ArgString (de_local_id E), ArgU32 (m_pid m), ArgU32 (m_uid m),
     ArgString (array_str (m_fromDeviceId m)), ArgString (de_GetSessionName E object),
     ArgU32 (if m_version m < RPC_TOKENID_SUPPORT_VERSION then 0 else m_tokenId m)]"

definition servable :: "device_env \<Rightarrow> ptr \<Rightarrow> DHandleEntryTxRx \<Rightarrow> dservice \<Rightarrow> u64 \<Rightarrow> string \<Rightarrow> u32 \<Rightarrow> bool" where
  "servable E object m s idx name tok \<longleftrightarrow> object \<noteq> nullptr \<and> (QueryProxyObject (m_binderObject m) s \<noteq> None \<or> de_AddDeathRecipient E object s) \<and>
     m_transType m = 0 \<and> \<not> IsDeviceIdIllegal (array_str (m_fromDeviceId m)) \<and> de_GetSessionName E object \<noteq> [] \<and>
     list_all (de_write E) (listen_args E object m) \<and>
     (\<exists>dev. de_InvokeListenThread E object (listen_args E object m) = (0, idx, name, dev, tok)) \<and>
     \<not> CheckStubIndexAndSessionNameIllegal idx name \<and> CHR 0x00 \<notin> set name"

lemma databus_success:
  assumes "libc_ok (de_libc E)" "ds_messages s p = m" "servable E object m t idx name tok" "length (m_serviceName m) = 201"
  shows "\<exists>s'. OnRemoteInvokerDataBusMessage E object p (array_str (m_fromDeviceId m)) (m_pid m) (m_uid m)
      (if m_version m < RPC_TOKENID_SUPPORT_VERSION then 0 else m_tokenId m) s = (0, s') \<and> ds_net s' = ds_net s \<and>
      (\<exists>cd. ds_messages s' p = answer idx name tok cd m)"
proof -
  obtain dev where i: "de_InvokeListenThread E object (listen_args E object m) = (0, idx, name, dev, tok)"
    using assms(3) by (auto simp: servable_def)
  let ?cd = "if m_version m \<ge> RPC_TOKENID_SUPPORT_VERSION then MESSAGE_AS_REPLY_TOKENID else MESSAGE_AS_REPLY"
  have n: "length name \<le> SERVICENAME_LENGTH" using assms(3) by (simp add: servable_def CheckStubIndexAndSessionNameIllegal_def)
  note set = SetReplyMessage_ok [OF assms(1) n assms(4), of idx tok]
  have "OnRemoteInvokerDataBusMessage E object p (array_str (m_fromDeviceId m)) (m_pid m) (m_uid m)
      (if m_version m < RPC_TOKENID_SUPPORT_VERSION then 0 else m_tokenId m) s =
      (0, on_entry p (\<lambda>_. answer idx name tok ?cd m) (log_dev (EvListenThread object (listen_args E object m)) s))"
    using assms(2,3) i unfolding servable_def OnRemoteInvokerDataBusMessage_def Let_def GetDatabusNameByProxy_def listen_args_def
    by (simp only: if_False if_True prod.case simp_thms) (simp add: log_dev_def set)
  then show ?thesis by (auto simp: on_entry_def log_dev_def)
qed

lemma answer_coded [simp]: "coded MESSAGE_AS_REPLY r (answer idx name tok cd m) = answer idx name tok MESSAGE_AS_REPLY m"
  by (simp add: coded_def answer_def)

lemma load_item_success:
  assumes "libc_ok (de_libc E)" "ds_messages s p = m" "servable E object m s idx name tok" "length (m_serviceName m) = 201"
    "ls_listener (ds_net s) \<noteq> None" "GetPeerSocketId (array_str (m_fromDeviceId m)) (ds_net s) = sock" "sock \<noteq> SOCKET_ID_INVALID"
  shows "ls_events (ds_net (load_item E object p s)) = ls_events (ds_net s) @
    [NetSend sock (answer idx name tok MESSAGE_AS_REPLY m) (sb_SendBytes (de_softbus E) sock (ls_events (ds_net s)) = 0)]"
proof -
  define s1 where "s1 = (if QueryProxyObject (m_binderObject m) s \<noteq> None then s
    else snd (AttachProxyObject object (m_binderObject m) (log_dev (EvAddDeath object (de_new_death E s)) s)))"
  have s1: "ds_net s1 = ds_net s" "ds_messages s1 = ds_messages s"
    by (simp_all add: s1_def AttachProxyObject_def log_dev_def split: prod.splits)
  have m1: "ds_messages s1 p = m" using s1 assms(2) by simp
  obtain s2 cd where d: "OnRemoteInvokerDataBusMessage E object p (array_str (m_fromDeviceId m)) (m_pid m) (m_uid m)
      (if m_version m < RPC_TOKENID_SUPPORT_VERSION then 0 else m_tokenId m) s1 = (0, s2)" "ds_net s2 = ds_net s"
      "ds_messages s2 p = answer idx name tok cd m"
    using databus_success [OF assms(1) m1 assms(3,4)] s1(1) by auto
  have "load_item E object p s = SendReplyMessageToRemote E MESSAGE_AS_REPLY 0 p s2"
    unfolding load_item_def Let_def assms(2) s1_def [symmetric] m1 d(1) using assms(3) by (auto simp: servable_def)
  also have "ls_events (ds_net \<dots>) = ls_events (ds_net s) @
      [NetSend sock (answer idx name tok MESSAGE_AS_REPLY m) (sb_SendBytes (de_softbus E) sock (ls_events (ds_net s)) = 0)]"
    by (subst reply_sent [where sock = sock]) (use assms(5-7) d in \<open>simp_all add: answer_def coded_def\<close>)
  finally show ?thesis .
qed

lemma amend_keeps:
  assumes "CheckAndAmendSaId m = (True, m')"
  shows "m' = m\<lparr>m_binderObject := m_binderObject m', m_stubIndex := m_stubIndex m'\<rparr>"
  using assms by (cases m) (auto simp: CheckAndAmendSaId_def Let_def split: if_splits)

lemma serve_request:
  assumes "p \<noteq> nullptr" "m_dBinderCode (ds_messages s p) = MESSAGE_AS_INVOKER" "CheckAndAmendSaId (ds_messages s p) = (True, m')"
    "de_IsDistributed E (m_binderObject m')" "de_LoadSystemAbility E (array_str (m_fromDeviceId m')) (low32 (m_binderObject m'))"
    "ds_loadSa s = []"
  defines "s1 \<equiv> snd (OnRemoteMessageTask E p s)"
  shows "ds_net s1 = ds_net s" "ds_messages s1 p = m'"
    "LoadSystemAbilityComplete E (array_str (m_fromDeviceId m')) (low32 (m_binderObject m')) object s1 = load_item E object p (s1\<lparr>ds_loadSa := []\<rparr>)"
proof -
  have s1: "s1 = log_dev (EvLoad (array_str (m_fromDeviceId m')) (low32 (m_binderObject m'))) ((on_entry p (\<lambda>_. m') s)\<lparr>ds_loadSa := [p]\<rparr>)"
    using assms by (simp add: OnRemoteMessageTask_def OnRemoteInvokerMessage_def Let_def on_entry_def)
  show "ds_net s1 = ds_net s" and m: "ds_messages s1 p = m'" by (simp_all add: s1 log_dev_def on_entry_def)
  have l: "ds_loadSa s1 = [p]" by (simp add: s1 log_dev_def)
  have none: "PopLoadSaItem d i t = (None, t)" if "ds_loadSa t = []" for d i t using that by (simp add: PopLoadSaItem_def)
  have "PopLoadSaItem (array_str (m_fromDeviceId m')) (low32 (m_binderObject m')) s1 = (Some p, s1\<lparr>ds_loadSa := []\<rparr>)"
    using l m by (simp add: PopLoadSaItem_def IsSameLoadSaItem_def)
  then show "LoadSystemAbilityComplete E (array_str (m_fromDeviceId m')) (low32 (m_binderObject m')) object s1 = load_item E object p (s1\<lparr>ds_loadSa := []\<rparr>)"
    by (subst LoadSystemAbilityComplete.simps) (simp add: LoadSystemAbilityComplete.simps [of E _ _ object "load_item E object p _"] none)
qed

lemma take_answer:
  fixes C :: device_env
  assumes "q \<noteq> nullptr" "ds_messages c q = answer idx name tok MESSAGE_AS_REPLY m" "length (m_serviceName m) = 201"
    "\<not> CheckStubIndexAndSessionNameIllegal idx name" "CHR 0x00 \<notin> set name"
    "QueryStubPtr (m_stub m) c = stub" "stub \<in> set (ds_stubs c)" "stub \<noteq> nullptr" "QuerySessionObject stub c = None"
    "QueryThreadLockInfo_dev (m_seqNumber m) c = Some lock"
  defines "c' \<equiv> snd (OnRemoteMessageTask C q c)"
  shows "QuerySessionObject stub c' = Some (InitializeSession (answer idx name tok MESSAGE_AS_REPLY m))"
    "li_ready (ds_locks c' lock)"
proof -
  let ?a = "answer idx name tok MESSAGE_AS_REPLY m"
  have a: "m_stub ?a = m_stub m" "m_seqNumber ?a = m_seqNumber m" "m_dBinderCode ?a = MESSAGE_AS_REPLY" "m_stubIndex ?a = idx"
    by (simp_all add: answer_def)
  have "find (\<lambda>x. x \<noteq> nullptr \<and> x = stub) (ds_stubs c) \<noteq> None"
    using assms(7,8) unfolding find_None_iff by blast
  then have "\<not> IsInvalidStub ?a c" using assms(6) a(1) by (simp add: IsInvalidStub_def HasDBinderStub_def)
  moreover have "IsValidSessionName ?a"
    using assms(3-5) by (intro answer_name) (simp_all add: CheckStubIndexAndSessionNameIllegal_def)
  moreover have "si_stubIndex (InitializeSession ?a) \<noteq> 0"
    using assms(4) a(4) by (simp add: InitializeSession_def CheckStubIndexAndSessionNameIllegal_def)
  ultimately have mk: "MakeSessionByReplyMessage ?a c = c\<lparr>ds_sessions := omap_put stub (InitializeSession ?a) (ds_sessions c)\<rparr>"
    using assms(6,9) a(1) by (simp add: MakeSessionByReplyMessage_def Let_def AttachSessionObject_def QuerySessionObject_def omap_insert_fresh)
  have c': "c' = DetachThreadLockInfo_dev (m_seqNumber m) (set_ready True lock (MakeSessionByReplyMessage ?a c))"
    using assms(1,2,10) a(2,3) mk
    by (simp add: c'_def OnRemoteMessageTask_def OnRemoteReplyMessage_def Let_def WakeupThreadByStub_def QueryThreadLockInfo_dev_def)
  show "QuerySessionObject stub c' = Some (InitializeSession ?a)" "li_ready (ds_locks c' lock)"
    unfolding c' mk by (simp_all add: DetachThreadLockInfo_dev_def set_ready_def QuerySessionObject_def)
qed

text \<open>
  C6. A negotiation that nothing refuses succeeds: the other device takes the request, and when the
  ability has been loaded its answer goes out on the socket of the asking device; the bytes of the
  answer are accepted and read back as they were, and the answer gives the stub that asked a session
  with the index and the session name that the ability's stub handed out, and releases the waiting
  thread with success.
\<close>

theorem negotiation_gives_session:
  assumes server: "libc_ok (de_libc E)" "p \<noteq> nullptr" "ds_messages s p = m" "entry_wf m" "m_len m = of_nat ENTRY_SIZE"
      "m_dBinderCode m = MESSAGE_AS_INVOKER" "CheckAndAmendSaId m = (True, m')" "de_IsDistributed E (m_binderObject m')"
      "de_LoadSystemAbility E (array_str (m_fromDeviceId m')) (low32 (m_binderObject m'))" "ds_loadSa s = []"
      "s1 = snd (OnRemoteMessageTask E p s)" "servable E object m' (s1\<lparr>ds_loadSa := []\<rparr>) idx name tok"
      "ls_listener (ds_net s) \<noteq> None" "GetPeerSocketId (array_str (m_fromDeviceId m')) (ds_net s) = sock" "sock \<noteq> SOCKET_ID_INVALID"
      "s2 = LoadSystemAbilityComplete E (array_str (m_fromDeviceId m')) (low32 (m_binderObject m')) object s1"
    and client: "libc_ok L" "q \<noteq> nullptr" "QueryStubPtr (m_stub m) c = stub" "stub \<in> set (ds_stubs c)" "stub \<noteq> nullptr"
      "QuerySessionObject stub c = None" "QueryThreadLockInfo_dev (m_seqNumber m) c = Some lock"
  shows "\<exists>r ok session c'. ls_events (ds_net s2) = ls_events (ds_net s) @ [NetSend sock r ok] \<and>
    OnBytesReceived L (Some (entry_bytes r)) = Some r \<and> c' = snd (OnRemoteMessageTask C q (on_entry q (\<lambda>_. r) c)) \<and>
    QuerySessionObject stub c' = Some session \<and> si_stubIndex session = idx \<and> si_serviceName session = name \<and>
    si_fromDeviceId session = m_fromDeviceId m \<and> si_toDeviceId session = m_toDeviceId m \<and>
    fst (after_wait C stub (m_seqNumber m) lock c') = DBINDER_OK"
proof -
  note m' = amend_keeps [OF server(7)]
  have keys: "m_stub m' = m_stub m" "m_seqNumber m' = m_seqNumber m" "m_fromDeviceId m' = m_fromDeviceId m" "m_toDeviceId m' = m_toDeviceId m"
    "m_len m' = m_len m" "m_serviceName m' = m_serviceName m" by (subst m', simp)+
  have wf: "entry_wf m'" "length (m_serviceName m') = 201" using server(4) keys by (simp_all add: entry_wf_def)
  have legal: "\<not> CheckStubIndexAndSessionNameIllegal idx name" "CHR 0x00 \<notin> set name" using server(12) by (simp_all add: servable_def)
  then have short: "length name \<le> 200" by (simp add: CheckStubIndexAndSessionNameIllegal_def)
  let ?r = "answer idx name tok MESSAGE_AS_REPLY m'"
  note s1 = serve_request [of p s m' E, unfolded server(3), OF server(2,6,7,8,9,10), folded server(11)]
  have sent: "ls_events (ds_net s2) = ls_events (ds_net s) @ [NetSend sock ?r (sb_SendBytes (de_softbus E) sock (ls_events (ds_net s)) = 0)]"
    unfolding server(16) s1(3)
    using load_item_success [OF server(1) _ server(12) wf(2), of p sock] s1(1,2) server(13,14,15) by simp
  have rcv: "OnBytesReceived L (Some (entry_bytes ?r)) = Some ?r"
    using answer_wf [OF wf(1) short] server(5) keys(5) by (intro received_entry client(1)) (simp_all add: answer_def)
  let ?c = "on_entry q (\<lambda>_. ?r) c"
  have "QueryStubPtr (m_stub m') ?c = stub" "stub \<in> set (ds_stubs ?c)" "QuerySessionObject stub ?c = None"
    "QueryThreadLockInfo_dev (m_seqNumber m') ?c = Some lock" "ds_messages ?c q = ?r"
    using client keys by (simp_all add: on_entry_def QueryStubPtr_def QuerySessionObject_def QueryThreadLockInfo_dev_def)
  note t = take_answer [OF client(2) this(5) wf(2) legal this(1,2) client(5) this(3,4), of C]
  have "fst (after_wait C stub (m_seqNumber m) lock (snd (OnRemoteMessageTask C q ?c))) = DBINDER_OK"
    using t by (simp add: after_wait_def)
  moreover have "si_serviceName (InitializeSession ?r) = name" "si_stubIndex (InitializeSession ?r) = idx"
    "si_fromDeviceId (InitializeSession ?r) = m_fromDeviceId m" "si_toDeviceId (InitializeSession ?r) = m_toDeviceId m"
    using answer_name(1) [OF legal(2) short wf(2)] keys by (simp_all add: InitializeSession_def answer_def)
  ultimately show ?thesis using sent rcv t(1) by blast
qed

text \<open>A device on which everything succeeds, and a request of a device \<open>aa\<close> to it.\<close>

definition demo_env :: device_env where
  "demo_env = \<lparr>de_softbus = \<lparr>sb_Grant = (\<lambda>_. True), sb_Socket = (\<lambda>_. 7), sb_Bind = (\<lambda>_ _. 0), sb_Listen = (\<lambda>_ _. 0),
       sb_SendBytes = (\<lambda>_ _. 0), sb_SOCKET_IN_USE = - 426442703\<rparr>,
     de_libc = std_libc, de_local_id = ''bb'', de_Str16ToStr8 = map (\<lambda>w. char_of (unat w)), de_Str8ToStr16 = map (\<lambda>c. of_nat (of_char c)),
     de_token = 77, de_now = 1, de_new_stub = (\<lambda>s. 50), de_new_lock = (\<lambda>s. 60), de_new_death = (\<lambda>s. 70), de_new_data = True,
     de_refcount = (\<lambda>_ _. 2), de_GrantPermission = (\<lambda>_ _. True), de_IsDistributed = (\<lambda>_. True), de_LoadSystemAbility = (\<lambda>_ _. True),
     de_AddDeathRecipient = (\<lambda>_ _. True), de_GetSessionName = (\<lambda>_. ''DBinder1_2''),
     de_InvokeListenThread = (\<lambda>_ _. (0, 5, ''DBinder1_2'', ''aa'', 88)), de_write = (\<lambda>_. True), de_wait = (\<lambda>_ s. s), de_sleep = (\<lambda>s. s)\<rparr>"

definition demo_request :: DHandleEntryTxRx where
  "demo_request = zero_entry\<lparr>m_len := of_nat ENTRY_SIZE, m_version := RPC_TOKENID_SUPPORT_VERSION, m_dBinderCode := MESSAGE_AS_INVOKER,
     m_stubIndex := 100, m_binderObject := 100, m_seqNumber := 1, m_stub := 1, m_tokenId := 77, m_pid := 3, m_uid := 4,
     m_fromDeviceId := str_bytes ''aa'' @ 0 # replicate 62 0, m_toDeviceId := str_bytes ''bb'' @ 0 # replicate 62 0\<rparr>"

definition demo_server :: dservice where
  "demo_server = (DBinderService \<lparr>ls_listener = Some 5, ls_locks = [], ls_clients = [], ls_servers = [(''aa'', 6)], ls_events = []\<rparr>)
     \<lparr>ds_messages := (\<lambda>_. demo_request)\<rparr>"

definition demo_client :: dservice where
  "demo_client = (DBinderService \<lparr>ls_listener = Some 5, ls_locks = [], ls_clients = [], ls_servers = [], ls_events = []\<rparr>)
     \<lparr>ds_stubs := [50], ds_tags := [(1, 50)], ds_threadLocks := [(1, 60)]\<rparr>"

lemma demo_request_simps [simp]:
  "entry_wf demo_request" "m_len demo_request = of_nat ENTRY_SIZE" "m_dBinderCode demo_request = MESSAGE_AS_INVOKER" "m_transType demo_request = 0"
  "m_stub demo_request = 1" "m_seqNumber demo_request = 1" "m_binderObject demo_request = 100" "array_str (m_fromDeviceId demo_request) = ''aa''"
  "CheckAndAmendSaId demo_request = (True, demo_request)" "low32 100 = 100" "m_version demo_request = RPC_TOKENID_SUPPORT_VERSION"
proof -
  show l: "low32 100 = 100" by (simp add: low32_def)
  show "CheckAndAmendSaId demo_request = (True, demo_request)"
    using l by (simp add: CheckAndAmendSaId_def CheckSystemAbilityId_def Let_def demo_request_def)
  show "array_str (m_fromDeviceId demo_request) = ''aa''"
    using takeWhile_text [of "''aa''" "replicate 62 0"] by (simp add: demo_request_def array_str_def)
qed (simp_all add: demo_request_def entry_wf_def zero_entry_def)

lemma demo_server_simps [simp]:
  "ds_messages demo_server = (\<lambda>_. demo_request)" "ds_loadSa demo_server = []" "ls_listener (ds_net demo_server) = Some 5"
  "GetPeerSocketId ''aa'' (ds_net demo_server) = 6" "ls_events (ds_net demo_server) = []"
  by (simp_all add: demo_server_def DBinderService_def GetPeerSocketId_def)

lemma demo_client_simps [simp]:
  "QueryStubPtr 1 demo_client = 50" "ds_stubs demo_client = [50]" "QuerySessionObject 50 demo_client = None"
  "QueryThreadLockInfo_dev 1 demo_client = Some 60"
  by (simp_all add: demo_client_def DBinderService_def QueryStubPtr_def QuerySessionObject_def QueryThreadLockInfo_dev_def)

lemma demo_servable: "servable demo_env 9 demo_request t 5 ''DBinder1_2'' 88"
  by (simp add: servable_def demo_env_def listen_args_def IsDeviceIdIllegal_def CheckStubIndexAndSessionNameIllegal_def)

lemma demo_env_simps [simp]: "de_libc demo_env = std_libc" "de_IsDistributed demo_env = (\<lambda>_. True)" "de_LoadSystemAbility demo_env = (\<lambda>_ _. True)"
  by (simp_all add: demo_env_def)

theorem negotiation_gives_session_witness:
  "\<exists>r ok session c'. ls_events (ds_net (LoadSystemAbilityComplete demo_env ''aa'' 100 9 (snd (OnRemoteMessageTask demo_env 1 demo_server)))) =
      [NetSend 6 r ok] \<and>
    OnBytesReceived std_libc (Some (entry_bytes r)) = Some r \<and> c' = snd (OnRemoteMessageTask demo_env 2 (on_entry 2 (\<lambda>_. r) demo_client)) \<and>
    QuerySessionObject 50 c' = Some session \<and> si_stubIndex session = 5 \<and> si_serviceName session = ''DBinder1_2'' \<and>
    si_fromDeviceId session = m_fromDeviceId demo_request \<and> si_toDeviceId session = m_toDeviceId demo_request \<and>
    fst (after_wait demo_env 50 1 60 c') = DBINDER_OK"
  using negotiation_gives_session [of demo_env 1 demo_server demo_request demo_request _ 9 5 "''DBinder1_2''" 88 6 _ std_libc 2 demo_client 50 60 demo_env,
    OF _ _ _ _ _ _ _ _ _ _ refl demo_servable _ _ _ refl]
  by (simp add: std_libc_ok)

theorem loads_answered_once_witness:
  "ds_loadSa (LoadSystemAbilityComplete demo_env ''aa'' 100 9 (demo_server\<lparr>ds_loadSa := [1, 2]\<rparr>)) = [] \<and>
   (\<exists>sent. ls_events (ds_net (LoadSystemAbilityComplete demo_env ''aa'' 100 9 (demo_server\<lparr>ds_loadSa := [1, 2]\<rparr>))) = sent \<and>
      list_all2 (\<lambda>p. answered 6 demo_request) [1, 2 :: ptr] sent)"
proof -
  have "IsSameLoadSaItem ''aa'' 100 (demo_server\<lparr>ds_loadSa := [1, 2]\<rparr>) = (\<lambda>_. True)"
    by (simp add: IsSameLoadSaItem_def fun_eq_iff)
  then show ?thesis
    using loads_answered_once [of "demo_server\<lparr>ds_loadSa := [1, 2]\<rparr>" "''aa''" 6 demo_env 100 9] by simp
qed

section \<open>What goes wrong\<close>

lemma reply_session_token:
  assumes "m_dBinderCode (ds_messages c q) = MESSAGE_AS_REPLY"
  shows "QuerySessionObject stub (snd (OnRemoteMessageTask C q c)) \<in>
    {QuerySessionObject stub c, None} \<union> Some ` {session. si_tokenId session = 0}"
proof -
  let ?m = "ds_messages c q" and ?Ok = "\<lambda>d. QuerySessionObject stub d \<in> {QuerySessionObject stub c, None} \<union> Some ` {session. si_tokenId session = 0}"
  have t: "si_tokenId (InitializeSession ?m) = 0" using assms by (simp add: InitializeSession_def)
  have att: "?Ok d \<Longrightarrow> ?Ok (snd (AttachSessionObject (InitializeSession ?m) st d))" for d st
    using t by (auto simp: AttachSessionObject_def QuerySessionObject_def omap_insert_def split: option.splits)
  have det: "?Ok d \<Longrightarrow> ?Ok (snd (DetachSessionObject st d))" for d st
    by (auto simp: DetachSessionObject_def QuerySessionObject_def)
  have "?Ok (MakeSessionByReplyMessage ?m c)"
    using att [of c] att [OF det, of c] by (simp add: MakeSessionByReplyMessage_def Let_def split: option.splits)
  moreover have "QuerySessionObject stub (DetachThreadLockInfo_dev k (WakeupThreadByStub k d)) = QuerySessionObject stub d" for k d
    by (simp add: QuerySessionObject_def DetachThreadLockInfo_dev_def WakeupThreadByStub_def set_ready_def split: option.splits)
  ultimately show ?thesis using assms by (simp add: OnRemoteMessageTask_def OnRemoteReplyMessage_def Let_def)
qed

text \<open>
  C39. The token of the other device never arrives. An answer is prepared as one that carries a token
  when the request came from a service that supports tokens, but the code is overwritten when it is
  sent: whatever the loop over pending requests sends is a plain answer or an error, and the service
  that gets a plain answer takes the token for a random value and clears it.
\<close>

theorem token_never_arrives:
  assumes "ls_events (ds_net (LoadSystemAbilityComplete E d i object s)) = ls_events (ds_net s) @ sent" "NetSend sock m ok \<in> set sent"
    "ds_messages c q = m" "QuerySessionObject stub c = None" "QuerySessionObject stub (snd (OnRemoteMessageTask C q c)) = Some session"
  shows "m_dBinderCode m \<noteq> MESSAGE_AS_REPLY_TOKENID \<and> si_tokenId session = 0"
proof -
  have "list_all plain_answer sent"
    using load_complete_events [of s E d i object] assms(1) by (auto simp: grows_def)
  then have cd: "m_dBinderCode m \<in> {MESSAGE_AS_REPLY, MESSAGE_AS_REMOTE_ERROR}"
    using assms(2) by (auto simp: list_all_iff)
  have "m_dBinderCode m \<noteq> MESSAGE_AS_REMOTE_ERROR"
    using assms(3-5) by (auto simp: OnRemoteMessageTask_def OnRemoteErrorMessage_def QuerySessionObject_def Let_def
      DetachThreadLockInfo_dev_def WakeupThreadByStub_def set_ready_def split: option.splits if_splits)
  with cd show ?thesis using reply_session_token [of c q stub C] assms(3-5) by auto
qed

lemma demo_sent:
  "ls_events (ds_net (LoadSystemAbilityComplete demo_env ''aa'' 100 9 (snd (OnRemoteMessageTask demo_env 1 demo_server)))) =
     [NetSend 6 (answer 5 ''DBinder1_2'' 88 MESSAGE_AS_REPLY demo_request) True]"
proof -
  note s1 = serve_request(1,2) [of 1 demo_server demo_request demo_env, simplified] serve_request(3) [of 1 demo_server demo_request demo_env 9, simplified]
  have "ls_events (ds_net (load_item demo_env 9 1 ((snd (OnRemoteMessageTask demo_env 1 demo_server))\<lparr>ds_loadSa := []\<rparr>))) =
      ls_events (ds_net ((snd (OnRemoteMessageTask demo_env 1 demo_server))\<lparr>ds_loadSa := []\<rparr>)) @
      [NetSend 6 (answer 5 ''DBinder1_2'' 88 MESSAGE_AS_REPLY demo_request)
         (sb_SendBytes (de_softbus demo_env) 6 (ls_events (ds_net ((snd (OnRemoteMessageTask demo_env 1 demo_server))\<lparr>ds_loadSa := []\<rparr>))) = 0)]"
    by (rule load_item_success [OF _ _ demo_servable]) (use s1 entry_wf_def [of demo_request] in \<open>simp_all add: std_libc_ok\<close>)
  then show ?thesis using s1 by (simp add: demo_env_def)
qed

theorem token_never_arrives_witness:
  "m_dBinderCode (answer 5 ''DBinder1_2'' 88 MESSAGE_AS_REPLY demo_request) \<noteq> MESSAGE_AS_REPLY_TOKENID \<and>
   si_tokenId (InitializeSession (answer 5 ''DBinder1_2'' 88 MESSAGE_AS_REPLY demo_request)) = 0"
proof -
  let ?a = "answer 5 ''DBinder1_2'' 88 MESSAGE_AS_REPLY demo_request" and ?s = "snd (OnRemoteMessageTask demo_env 1 demo_server)"
  let ?c = "on_entry 2 (\<lambda>_. ?a) demo_client"
  have c: "ds_messages ?c 2 = ?a" "ds_stubs ?c = [50]" "QueryStubPtr 1 ?c = 50" "QuerySessionObject 50 ?c = None" "QueryThreadLockInfo_dev 1 ?c = Some 60"
    using demo_client_simps by (simp_all add: on_entry_def QueryStubPtr_def QuerySessionObject_def QueryThreadLockInfo_dev_def)
  have "length (m_serviceName demo_request) = 201" using demo_request_simps(1) by (simp add: entry_wf_def)
  then have "QuerySessionObject 50 (snd (OnRemoteMessageTask demo_env 2 ?c)) = Some (InitializeSession ?a)"
    using c by (intro take_answer(1) [where lock = 60]) (simp_all add: CheckStubIndexAndSessionNameIllegal_def)
  moreover have "ls_events (ds_net ?s) = []" using serve_request(1) [of 1 demo_server demo_request demo_env] by simp
  ultimately show ?thesis
    using token_never_arrives [of demo_env "''aa''" 100 9 ?s "[NetSend 6 ?a True]" 6 ?a True ?c 2 50 demo_env] demo_sent c by simp
qed



section \<open>The descriptor that travels\<close>

lemma ascii_bytes:
  assumes "0 < unat (c :: u16)" "unat c < 256"
  obtains lo :: u8 where "word_bytes c = [lo, 0]" "lo \<noteq> 0" "ucast lo = c"
proof -
  have b: "word_bytes c = [ucast c, 0]" using assms(2) by (simp add: word_bytes_def numeral_2_eq_2)
  have u: "unat (ucast c :: u8) = unat c" using assms(2) by (simp add: unsigned_ucast_eq take_bit_nat_eq_self)
  have "unat (ucast (ucast c :: u8) :: u16) = unat c" using assms(2) by (simp add: unsigned_ucast_eq unsigned_take_bit_eq take_bit_nat_eq_self)
  then have "ucast (ucast c :: u8) = c" by (simp add: word_unat_eq_iff)
  moreover have "(ucast c :: u8) \<noteq> 0" using u assms(1) by (metis less_irrefl unat_0)
  ultimately show ?thesis using that b by blast
qed

lemma pairs16_zeros: "takeWhile (\<lambda>w. w \<noteq> 0) (pairs16 (replicate k 0)) = []"
  by (cases k; cases "k - 1") auto

lemma pairs16_ascii:
  assumes "\<forall>c \<in> set d. 0 < unat c \<and> unat c < 256" "n \<le> 2 * length d"
  shows "takeWhile (\<lambda>w. w \<noteq> 0) (pairs16 (take n (bytes16 d) @ replicate k 0)) = take ((n + 1) div 2) d"
  using assms
proof (induction d arbitrary: n)
  case Nil
  then show ?case by (simp add: bytes16_def pairs16_zeros)
next
  case (Cons c d)
  obtain lo where lo: "word_bytes c = [lo, 0]" "lo \<noteq> 0" "ucast lo = c" using ascii_bytes [of c] Cons.prems(1) by auto
  have c: "c \<noteq> 0" using Cons.prems(1) by auto
  have b: "bytes16 (c # d) = lo # 0 # bytes16 d" by (simp add: bytes16_def lo(1))
  consider "n = 0" | "n = 1" | j where "n = Suc (Suc j)" by (metis One_nat_def not0_implies_Suc)
  then show ?case
  proof cases
    case 1
    then show ?thesis by (simp add: pairs16_zeros)
  next
    case 2
    then show ?thesis using lo c pairs16_zeros [of "k - 1"] by (cases k) (simp_all add: b)
  next
    case (3 j)
    have "takeWhile (\<lambda>w. w \<noteq> 0) (pairs16 (take j (bytes16 d) @ replicate k 0)) = take ((j + 1) div 2) d"
      using Cons.IH [of j] Cons.prems 3 by simp
    then show ?thesis using 3 lo c by (simp add: b)
  qed
qed

text \<open>
  The data that travels with a stub of another device has only half of its descriptor. The number
  of characters of the descriptor is used as the number of bytes to copy, and a character takes two:
  of the descriptors that stubs have, which are plain characters, the first half arrives.
\<close>

theorem descriptor_halved:
  assumes "SaveDBinderData name this s = (0, t)" "ss_descriptor (ds_heap s this) = d" "\<forall>c \<in> set d. 0 < unat c \<and> unat c < 256"
  shows "\<exists>nd. ss_dbinderData (ds_heap t this) = Some nd \<and> nd_desc nd = take ((length d + 1) div 2) d"
proof -
  obtain session nd0 where q: "QuerySessionObject this s = Some session" "ss_dbinderData (ds_heap s this) = Some nd0"
    using assms(1) by (auto simp: SaveDBinderData_def split: option.splits)
  define de where "de = copied_desc d"
  have "de \<noteq> None" using assms(1,2) q by (auto simp: SaveDBinderData_def Let_def de_def split: if_splits)
  then have "de = Some (take ((length d + 1) div 2) d)"
    using pairs16_ascii [OF assms(3), of "length d"] by (auto simp: de_def copied_desc_def split: if_splits)
  then show ?thesis using assms(1,2) q by (auto simp: SaveDBinderData_def Let_def on_stub_def de_def split: if_splits)
qed

theorem descriptor_halved_witness:
  "\<exists>nd. ss_dbinderData (ds_heap (snd (SaveDBinderData ''DBinder1_2'' 50 (demo_client\<lparr>ds_heap := (\<lambda>p. (DBinderServiceStub demo_env [49] ''bb'' 100 3 4)
      \<lparr>ss_descriptor := [0x31, 0x30, 0x30, 0x5F]\<rparr>), ds_sessions := [(50, InitializeSession demo_request)]\<rparr>))) 50) = Some nd \<and>
    nd_desc nd = [0x31, 0x30]"
proof -
  let ?s = "demo_client\<lparr>ds_heap := (\<lambda>p. (DBinderServiceStub demo_env [49] ''bb'' 100 3 4)\<lparr>ss_descriptor := [0x31, 0x30, 0x30, 0x5F]\<rparr>),
      ds_sessions := [(50, InitializeSession demo_request)]\<rparr>"
  have "fst (SaveDBinderData ''DBinder1_2'' 50 ?s) = 0"
    by (simp add: SaveDBinderData_def QuerySessionObject_def DBinderServiceStub_def demo_env_def copied_text_def copied_desc_def Let_def
      InitializeSession_def demo_request_def zero_entry_def array_str_def bytes_str_def)
  then have "SaveDBinderData ''DBinder1_2'' 50 ?s = (0, snd (SaveDBinderData ''DBinder1_2'' 50 ?s))" by (metis prod.collapse)
  from descriptor_halved [OF this refl] show ?thesis by simp
qed

end
