(* ===== verification/Device_Registry.thy ===== *)
theory Device_Registry
  imports Device_Proofs "HOL-Library.Multiset"
begin

text \<open>
  The tables of the device service: an invariant that every operation keeps, whatever the order in
  which threads perform them, and what is left of the tables when a service or a device is gone.
\<close>

section \<open>The invariant\<close>

text \<open>
  Registered stubs are different objects for different services, devices and callers; a stub whose
  negotiation is finished has a session, and every session has an index; the proxies that want to
  hear of a death are exactly those whose own death is watched; a stub has at most one tag.
\<close>

definition stub_key :: "dservice \<Rightarrow> ptr \<Rightarrow> u16string \<times> string \<times> u32 \<times> u32" where
  "stub_key s p = (ss_serviceName (ds_heap s p), ss_deviceID (ds_heap s p), ss_peerPid (ds_heap s p), ss_peerUid (ds_heap s p))"

definition stubs_ok :: "dservice \<Rightarrow> bool" where
  "stubs_ok s \<longleftrightarrow> distinct (ds_stubs s) \<and> nullptr \<notin> set (ds_stubs s) \<and> inj_on (stub_key s) (set (ds_stubs s)) \<and>
     (\<forall>p \<in> set (ds_stubs s). ss_serviceName (ds_heap s p) \<noteq> [] \<and> \<not> IsDeviceIdIllegal (ss_deviceID (ds_heap s p)))"

definition finished_ok :: "dservice \<Rightarrow> bool" where
  "finished_ok s \<longleftrightarrow> (\<forall>p \<in> set (ds_stubs s). ss_negoStatus (ds_heap s p) = NEGO_FINISHED \<longrightarrow> QuerySessionObject p s \<noteq> None) \<and>
     (\<forall>p session. QuerySessionObject p s = Some session \<longrightarrow> si_stubIndex session \<noteq> 0)"

definition callbacks_ok :: "dservice \<Rightarrow> bool" where
  "callbacks_ok s \<longleftrightarrow> omap_wf (ds_noticeProxy s) \<and> dom (map_of (ds_noticeProxy s)) = dom (map_of (ds_deaths s)) \<and>
     (\<forall>e \<in> set (ds_noticeProxy s). fst e \<noteq> nullptr \<and> snd e \<noteq> nullptr)"

definition tags_ok :: "dservice \<Rightarrow> bool" where
  "tags_ok s \<longleftrightarrow> distinct (map snd (ds_tags s))"

definition device_ok :: "dservice \<Rightarrow> bool" where
  "device_ok s \<longleftrightarrow> stubs_ok s \<and> finished_ok s \<and> callbacks_ok s \<and> tags_ok s"

text \<open>An operation that leaves these parts of the state alone keeps the invariant.\<close>

definition same_tables :: "dservice \<Rightarrow> dservice \<Rightarrow> bool" where
  "same_tables s t \<longleftrightarrow> ds_stubs t = ds_stubs s \<and> ds_sessions t = ds_sessions s \<and> ds_noticeProxy t = ds_noticeProxy s \<and>
     ds_deaths t = ds_deaths s \<and> ds_tags t = ds_tags s \<and>
     (\<forall>p. stub_key t p = stub_key s p \<and> ss_negoStatus (ds_heap t p) = ss_negoStatus (ds_heap s p))"

lemma device_ok_same:
  assumes "device_ok s" "same_tables s t"
  shows "device_ok t"
proof -
  have k: "stub_key t = stub_key s" using assms(2) by (simp add: same_tables_def fun_eq_iff)
  have "ss_serviceName (ds_heap t p) = ss_serviceName (ds_heap s p)" "ss_deviceID (ds_heap t p) = ss_deviceID (ds_heap s p)" for p
    using fun_cong [OF k, of p] by (simp_all add: stub_key_def)
  then show ?thesis using assms k
    by (simp add: device_ok_def stubs_ok_def finished_ok_def callbacks_ok_def tags_ok_def same_tables_def QuerySessionObject_def)
qed

lemma same_tables_refl [simp]: "same_tables s s"
  by (simp add: same_tables_def)

lemma same_tables_trans: "\<lbrakk>same_tables s t; same_tables t u\<rbrakk> \<Longrightarrow> same_tables s u"
  by (simp add: same_tables_def)

lemma same_tables_fields [simp]:
  "same_tables s (s\<lparr>ds_net := n\<rparr>)" "same_tables s (s\<lparr>ds_messages := ms\<rparr>)" "same_tables s (s\<lparr>ds_events := ev\<rparr>)"
  "same_tables s (s\<lparr>ds_loadSa := xs\<rparr>)" "same_tables s (s\<lparr>ds_proxies := pr\<rparr>)" "same_tables s (s\<lparr>ds_threadLocks := tls\<rparr>)"
  "same_tables s (s\<lparr>ds_locks := lk\<rparr>)" "same_tables s (s\<lparr>ds_remoteBinders := rb\<rparr>)" "same_tables s (s\<lparr>ds_seqNumber := n'\<rparr>)"
  "same_tables s (s\<lparr>ds_mainThreadCreated := b, ds_callback := b'\<rparr>)" "same_tables s (on_entry q f s)" "same_tables s (log_dev e s)"
  by (simp_all add: same_tables_def stub_key_def on_entry_def log_dev_def)

section \<open>When a service or a device is gone\<close>

text \<open>
  The tables without some stubs, all at once: their sessions go, the proxies that wanted to hear of
  their death are told and forgotten.
\<close>

definition tables :: "dservice \<Rightarrow> ptr list \<times> (ptr, SessionInfo) omap \<times> (ptr, ptr) omap \<times> (ptr, ptr) omap" where
  "tables s = (ds_stubs s, ds_sessions s, ds_noticeProxy s, ds_deaths s)"

definition without_stubs ::
    "(ptr \<Rightarrow> bool) \<Rightarrow> dservice \<Rightarrow> ptr list \<times> (ptr, SessionInfo) omap \<times> (ptr, ptr) omap \<times> (ptr, ptr) omap" where
  "without_stubs G s = (filter (\<lambda>p. \<not> G p) (ds_stubs s), filter (\<lambda>e. \<not> G (fst e)) (ds_sessions s),
     filter (\<lambda>e. \<not> G (snd e)) (ds_noticeProxy s), filter (\<lambda>e. \<not> (\<exists>d \<in> set (ds_noticeProxy s). fst d = fst e \<and> G (snd d))) (ds_deaths s))"

fun told :: "service_event list \<Rightarrow> ptr list" where
  "told (EvNoticeDie p # es) = p # told es"
| "told (_ # es) = told es"
| "told [] = []"

lemma told_append [simp]: "told (xs @ ys) = told xs @ told ys"
  by (induction xs rule: told.induct) simp_all

lemma tell_one:
  "\<exists>ev. ProcessCallbackProxyInner proxy s = s\<lparr>ds_events := ds_events s @ ev, ds_deaths := omap_erase proxy (ds_deaths s)\<rparr> \<and> told ev = [proxy]"
  by (auto simp: ProcessCallbackProxyInner_def log_dev_def DetachDeathRecipient_def Let_def split: option.splits)

lemma tell_all:
  assumes "\<forall>e \<in> set xs. fst e \<noteq> nullptr" "stub \<noteq> nullptr"
  shows "\<exists>ev. fold (\<lambda>e. if snd e = stub \<and> stub \<noteq> nullptr \<and> fst e \<noteq> nullptr then ProcessCallbackProxyInner (fst e) else id) xs s =
      s\<lparr>ds_events := ds_events s @ ev, ds_deaths := filter (\<lambda>e. \<not> (\<exists>d \<in> set xs. fst d = fst e \<and> snd d = stub)) (ds_deaths s)\<rparr> \<and>
    told ev = map fst (filter (\<lambda>e. snd e = stub) xs)"
  using assms(1)
proof (induction xs arbitrary: s)
  case Nil
  then show ?case by (intro exI [of _ "[]"]) simp
next
  case (Cons x xs)
  obtain ev where ev: "ProcessCallbackProxyInner (fst x) s = s\<lparr>ds_events := ds_events s @ ev, ds_deaths := omap_erase (fst x) (ds_deaths s)\<rparr>" "told ev = [fst x]"
    using tell_one by blast
  define t where "t = (if snd x = stub then ProcessCallbackProxyInner (fst x) s else s)"
  obtain ev' where ev': "fold (\<lambda>e. if snd e = stub \<and> stub \<noteq> nullptr \<and> fst e \<noteq> nullptr then ProcessCallbackProxyInner (fst e) else id) xs t =
      t\<lparr>ds_events := ds_events t @ ev', ds_deaths := filter (\<lambda>e. \<not> (\<exists>d \<in> set xs. fst d = fst e \<and> snd d = stub)) (ds_deaths t)\<rparr>"
      "told ev' = map fst (filter (\<lambda>e. snd e = stub) xs)" using Cons by auto
  have "(if snd x = stub \<and> stub \<noteq> nullptr \<and> fst x \<noteq> nullptr then ProcessCallbackProxyInner (fst x) else id) s = t"
    using Cons.prems assms(2) by (simp add: t_def)
  then have f: "fold (\<lambda>e. if snd e = stub \<and> stub \<noteq> nullptr \<and> fst e \<noteq> nullptr then ProcessCallbackProxyInner (fst e) else id) (x # xs) s =
      t\<lparr>ds_events := ds_events t @ ev', ds_deaths := filter (\<lambda>e. \<not> (\<exists>d \<in> set xs. fst d = fst e \<and> snd d = stub)) (ds_deaths t)\<rparr>"
    using ev'(1) by simp
  have d: "filter (\<lambda>e. \<not> (\<exists>d \<in> set xs. fst d = fst e \<and> snd d = stub)) (ds_deaths t) =
      filter (\<lambda>e. \<not> (\<exists>d \<in> set (x # xs). fst d = fst e \<and> snd d = stub)) (ds_deaths s)"
    unfolding t_def ev(1) by (auto simp: omap_erase_def intro!: filter_cong)
  show ?case unfolding f d
    by (intro exI [of _ "(if snd x = stub then ev else []) @ ev'"]) (simp add: t_def ev ev'(2))
qed

lemma callback_loop_spec:
  assumes "callbacks_ok s" "stub \<noteq> nullptr"
  shows "\<exists>ev. callback_loop stub s = s\<lparr>ds_events := ds_events s @ ev,
      ds_deaths := filter (\<lambda>e. \<not> (\<exists>d \<in> set (ds_noticeProxy s). fst d = fst e \<and> snd d = stub)) (ds_deaths s),
      ds_noticeProxy := filter (\<lambda>e. snd e \<noteq> stub) (ds_noticeProxy s)\<rparr> \<and>
    told ev = map fst (filter (\<lambda>e. snd e = stub) (ds_noticeProxy s))"
proof -
  have "\<forall>e \<in> set (ds_noticeProxy s). fst e \<noteq> nullptr" using assms(1) by (simp add: callbacks_ok_def)
  from tell_all [OF this assms(2), of s] obtain ev where
    "fold (\<lambda>e. if snd e = stub \<and> stub \<noteq> nullptr \<and> fst e \<noteq> nullptr then ProcessCallbackProxyInner (fst e) else id) (ds_noticeProxy s) s =
      s\<lparr>ds_events := ds_events s @ ev, ds_deaths := filter (\<lambda>e. \<not> (\<exists>d \<in> set (ds_noticeProxy s). fst d = fst e \<and> snd d = stub)) (ds_deaths s)\<rparr>"
    "told ev = map fst (filter (\<lambda>e. snd e = stub) (ds_noticeProxy s))" by blast
  then show ?thesis unfolding callback_loop_def Let_def by (intro exI [of _ ev]) simp
qed

lemma callbacks_ok_filter:
  assumes "callbacks_ok s" "ds_noticeProxy t = filter (\<lambda>e. \<not> G (snd e)) (ds_noticeProxy s)"
    "ds_deaths t = filter (\<lambda>e. \<not> (\<exists>d \<in> set (ds_noticeProxy s). fst d = fst e \<and> G (snd d))) (ds_deaths s)"
  shows "callbacks_ok t"
proof -
  have keys: "fst ` set (ds_noticeProxy s) = fst ` set (ds_deaths s)" and wf: "omap_wf (ds_noticeProxy s)"
    using assms(1) by (auto simp: callbacks_ok_def dom_map_of_conv_image_fst)
  have uniq: "v = v'" if "(k, v) \<in> set (ds_noticeProxy s)" "(k, v') \<in> set (ds_noticeProxy s)" for k v v'
    using that wf by (metis omap_wf_map_of_iff option.inject)
  have "fst ` set (ds_noticeProxy t) = fst ` set (ds_deaths t)"
  proof (intro equalityI subsetI)
    fix k assume "k \<in> fst ` set (ds_noticeProxy t)"
    then obtain v where v: "(k, v) \<in> set (ds_noticeProxy s)" "\<not> G v" unfolding assms(2) by auto
    have "k \<in> fst ` set (ds_noticeProxy s)" using v(1) by (rule rev_image_eqI) simp
    then obtain d where d: "(k, d) \<in> set (ds_deaths s)" unfolding keys by auto
    have "\<not> (\<exists>d \<in> set (ds_noticeProxy s). fst d = k \<and> G (snd d))" using v uniq [OF v(1)] by (metis prod.collapse)
    then have "(k, d) \<in> set (ds_deaths t)" unfolding assms(3) using d by simp
    then show "k \<in> fst ` set (ds_deaths t)" by (rule rev_image_eqI) simp
  next
    fix k assume "k \<in> fst ` set (ds_deaths t)"
    then have k: "k \<in> fst ` set (ds_deaths s)" "\<not> (\<exists>d \<in> set (ds_noticeProxy s). fst d = k \<and> G (snd d))" unfolding assms(3) by auto
    then have "k \<in> fst ` set (ds_noticeProxy s)" unfolding keys by simp
    then show "k \<in> fst ` set (ds_noticeProxy t)" using k(2) unfolding assms(2) by force
  qed
  then show ?thesis using assms(1) wf unfolding callbacks_ok_def dom_map_of_conv_image_fst
    by (auto simp: assms(2) omap_wf_filter)
qed

lemma ProcessCallbackProxy_spec:
  assumes "callbacks_ok s" "nullptr \<notin> set stubs"
  shows "\<exists>ev. ProcessCallbackProxy stubs s = s\<lparr>ds_events := ds_events s @ ev,
      ds_deaths := filter (\<lambda>e. \<not> (\<exists>d \<in> set (ds_noticeProxy s). fst d = fst e \<and> snd d \<in> set stubs)) (ds_deaths s),
      ds_noticeProxy := filter (\<lambda>e. snd e \<notin> set stubs) (ds_noticeProxy s)\<rparr> \<and>
    mset (told ev) = mset (map fst (filter (\<lambda>e. snd e \<in> set stubs) (ds_noticeProxy s)))"
  using assms
proof (induction stubs arbitrary: s)
  case Nil
  then show ?case by (intro exI [of _ "[]"]) (simp add: ProcessCallbackProxy_def)
next
  case (Cons x xs)
  obtain ev where ev: "callback_loop x s = s\<lparr>ds_events := ds_events s @ ev,
      ds_deaths := filter (\<lambda>e. \<not> (\<exists>d \<in> set (ds_noticeProxy s). fst d = fst e \<and> snd d = x)) (ds_deaths s),
      ds_noticeProxy := filter (\<lambda>e. snd e \<noteq> x) (ds_noticeProxy s)\<rparr>" "told ev = map fst (filter (\<lambda>e. snd e = x) (ds_noticeProxy s))"
    using callback_loop_spec [OF Cons.prems(1), of x] Cons.prems(2) by auto
  define t where "t = callback_loop x s"
  have n: "ds_noticeProxy t = filter (\<lambda>e. \<not> snd e = x) (ds_noticeProxy s)"
    and d: "ds_deaths t = filter (\<lambda>e. \<not> (\<exists>d \<in> set (ds_noticeProxy s). fst d = fst e \<and> snd d = x)) (ds_deaths s)"
    unfolding t_def ev(1) by simp_all
  have ok: "callbacks_ok t" by (rule callbacks_ok_filter [OF Cons.prems(1) n d])
  obtain ev' where ev': "ProcessCallbackProxy xs t = t\<lparr>ds_events := ds_events t @ ev',
      ds_deaths := filter (\<lambda>e. \<not> (\<exists>d \<in> set (ds_noticeProxy t). fst d = fst e \<and> snd d \<in> set xs)) (ds_deaths t),
      ds_noticeProxy := filter (\<lambda>e. snd e \<notin> set xs) (ds_noticeProxy t)\<rparr>"
      "mset (told ev') = mset (map fst (filter (\<lambda>e. snd e \<in> set xs) (ds_noticeProxy t)))"
    using Cons.IH [OF ok] Cons.prems(2) by auto
  have "ProcessCallbackProxy (x # xs) s = ProcessCallbackProxy xs t" by (simp add: ProcessCallbackProxy_def t_def)
  moreover have "filter (\<lambda>e. \<not> (\<exists>d \<in> set (ds_noticeProxy t). fst d = fst e \<and> snd d \<in> set xs)) (ds_deaths t) =
      filter (\<lambda>e. \<not> (\<exists>d \<in> set (ds_noticeProxy s). fst d = fst e \<and> snd d \<in> set (x # xs))) (ds_deaths s)"
    unfolding n d filter_filter by (rule filter_cong [OF refl]) force
  moreover have "filter (\<lambda>e. snd e \<notin> set xs) (ds_noticeProxy t) = filter (\<lambda>e. snd e \<notin> set (x # xs)) (ds_noticeProxy s)"
    unfolding n by (auto intro!: filter_cong)
  ultimately have "ProcessCallbackProxy (x # xs) s = s\<lparr>ds_events := ds_events s @ (ev @ ev'),
      ds_deaths := filter (\<lambda>e. \<not> (\<exists>d \<in> set (ds_noticeProxy s). fst d = fst e \<and> snd d \<in> set (x # xs))) (ds_deaths s),
      ds_noticeProxy := filter (\<lambda>e. snd e \<notin> set (x # xs)) (ds_noticeProxy s)\<rparr>"
    unfolding ev'(1) unfolding t_def ev(1) by simp
  moreover have "mset (map fst (filter (\<lambda>e. snd e = x) ys)) + mset (map fst (filter (\<lambda>e. snd e \<in> set xs) (filter (\<lambda>e. \<not> snd e = x) ys))) =
      mset (map fst (filter (\<lambda>e. snd e \<in> set (x # xs)) ys))" for ys :: "(ptr \<times> ptr) list"
    unfolding filter_filter by (induction ys) (auto simp del: mset_map mset_filter)
  then have "mset (told (ev @ ev')) = mset (map fst (filter (\<lambda>e. snd e \<in> set (x # xs)) (ds_noticeProxy s)))"
    unfolding told_append mset_append ev(2) ev'(2) n .
  ultimately show ?case by blast
qed

definition registered_for :: "u16string \<Rightarrow> string \<Rightarrow> dservice \<Rightarrow> ptr \<Rightarrow> bool" where
  "registered_for service device s p \<longleftrightarrow> p \<in> set (ds_stubs s) \<and> is_stub_of service device s p"

lemma detach_all:
  "snd (fold (\<lambda>p (ok, s1). case DetachSessionObject p s1 of (r, s2) \<Rightarrow> (ok \<and> r, s2)) stubs (b, s)) =
     s\<lparr>ds_sessions := filter (\<lambda>e. fst e \<notin> set stubs) (ds_sessions s)\<rparr>"
proof (induction stubs arbitrary: b s)
  case (Cons x xs)
  obtain r s2 where d: "DetachSessionObject x s = (r, s2)" by (meson surj_pair)
  then have "s2 = s\<lparr>ds_sessions := omap_erase x (ds_sessions s)\<rparr>" by (auto simp: DetachSessionObject_def)
  then show ?case using Cons [of "b \<and> r" s2] d by (simp add: omap_erase_def)
qed simp

lemma erase_tags: "fold erase_tag stubs s = s\<lparr>ds_tags := fold (\<lambda>p. remove_first (\<lambda>e. snd e = p)) stubs (ds_tags s)\<rparr>"
  by (induction stubs arbitrary: s) (simp_all add: erase_tag_def)

lemma distinct_remove_first: "distinct (map snd xs) \<Longrightarrow> distinct (map snd (remove_first P xs))"
proof -
  have "set (remove_first P zs) \<subseteq> set zs" for zs :: "('b \<times> 'a) list" by (induction zs) auto
  then show "distinct (map snd xs) \<Longrightarrow> distinct (map snd (remove_first P xs))" by (induction xs) auto
qed

lemma distinct_erase_tags: "distinct (map snd (m :: (u64, ptr) omap)) \<Longrightarrow> distinct (map snd (fold (\<lambda>p. remove_first (\<lambda>e. snd e = p)) stubs m))"
  by (induction stubs arbitrary: m) (simp_all add: distinct_remove_first)

lemma NoticeCallbackProxy_spec:
  fixes service :: u16string and device :: string
  assumes "callbacks_ok s" "nullptr \<notin> set (ds_stubs s)"
  defines "t \<equiv> snd (NoticeCallbackProxy service device s)" and "G \<equiv> registered_for service device s"
  shows "tables t = without_stubs G s" "ds_heap t = ds_heap s" "ds_net t = ds_net s"
    "mset (told (ds_events t)) = mset (told (ds_events s)) + mset (map fst (filter (\<lambda>e. G (snd e)) (ds_noticeProxy s)))"
    "tags_ok s \<Longrightarrow> tags_ok t"
proof -
  define stubs where "stubs = FindDBinderStub service device s"
  have mem: "p \<in> set stubs \<longleftrightarrow> G p" for p by (auto simp: stubs_def G_def FindDBinderStub_def registered_for_def)
  have "tables t = without_stubs G s \<and> ds_heap t = ds_heap s \<and> ds_net t = ds_net s \<and>
    mset (told (ds_events t)) = mset (told (ds_events s)) + mset (map fst (filter (\<lambda>e. G (snd e)) (ds_noticeProxy s))) \<and> (tags_ok s \<longrightarrow> tags_ok t)"
  proof (cases "stubs = []")
    case True
    then have "\<not> G p" for p using mem [of p] by simp
    moreover have "t = s" using True by (simp add: t_def NoticeCallbackProxy_def stubs_def Let_def)
    ultimately show ?thesis by (simp add: tables_def without_stubs_def)
  next
    case False
    define r1 where "r1 = fold (\<lambda>p (ok, s1). case DetachSessionObject p s1 of (r, s2) \<Rightarrow> (ok \<and> r, s2)) stubs (True, s)"
    have r1: "snd r1 = s\<lparr>ds_sessions := filter (\<lambda>e. fst e \<notin> set stubs) (ds_sessions s)\<rparr>" unfolding r1_def by (rule detach_all)
    define s2 where "s2 = snd (DeleteDBinderStub_service service device (snd r1))"
    have keep: "is_stub_of service device (snd r1) = is_stub_of service device s" unfolding r1 by (simp add: is_stub_of_def fun_eq_iff)
    have gone: "filter (is_stub_of service device (snd r1)) (ds_stubs (snd r1)) = stubs"
      unfolding keep by (simp add: r1 stubs_def FindDBinderStub_def)
    have s2: "s2 = (fold erase_tag stubs (snd r1))\<lparr>ds_stubs := filter (\<lambda>p. \<not> is_stub_of service device s p) (ds_stubs s)\<rparr>"
      unfolding s2_def DeleteDBinderStub_service_def Let_def gone unfolding keep by (simp add: r1)
    have s2': "ds_noticeProxy s2 = ds_noticeProxy s" "ds_deaths s2 = ds_deaths s" "ds_events s2 = ds_events s" "ds_heap s2 = ds_heap s"
      "ds_net s2 = ds_net s" "ds_sessions s2 = filter (\<lambda>e. fst e \<notin> set stubs) (ds_sessions s)"
      "ds_stubs s2 = filter (\<lambda>p. \<not> is_stub_of service device s p) (ds_stubs s)"
      "ds_tags s2 = fold (\<lambda>p. remove_first (\<lambda>e. snd e = p)) stubs (ds_tags s)"
      unfolding s2 erase_tags r1 by simp_all
    have "callbacks_ok s2" using assms(1) s2' by (simp add: callbacks_ok_def)
    moreover have "nullptr \<notin> set stubs" using assms(2) by (simp add: stubs_def FindDBinderStub_def)
    ultimately obtain ev where ev: "ProcessCallbackProxy stubs s2 = s2\<lparr>ds_events := ds_events s2 @ ev,
        ds_deaths := filter (\<lambda>e. \<not> (\<exists>d \<in> set (ds_noticeProxy s2). fst d = fst e \<and> snd d \<in> set stubs)) (ds_deaths s2),
        ds_noticeProxy := filter (\<lambda>e. snd e \<notin> set stubs) (ds_noticeProxy s2)\<rparr>"
      "mset (told ev) = mset (map fst (filter (\<lambda>e. snd e \<in> set stubs) (ds_noticeProxy s2)))" using ProcessCallbackProxy_spec by blast
    have t: "t = ProcessCallbackProxy stubs s2"
      using False unfolding t_def NoticeCallbackProxy_def Let_def stubs_def [symmetric] r1_def [symmetric] s2_def by (simp add: case_prod_beta)
    have "filter (\<lambda>p. \<not> is_stub_of service device s p) (ds_stubs s) = filter (\<lambda>p. \<not> G p) (ds_stubs s)"
      by (rule filter_cong) (simp_all add: G_def registered_for_def)
    then show ?thesis unfolding t ev(1) using ev(2) s2' mem distinct_erase_tags
      by (simp add: tables_def without_stubs_def tags_ok_def)
  qed
  then show "tables t = without_stubs G s" "ds_heap t = ds_heap s" "ds_net t = ds_net s"
    "mset (told (ds_events t)) = mset (told (ds_events s)) + mset (map fst (filter (\<lambda>e. G (snd e)) (ds_noticeProxy s)))"
    "tags_ok s \<Longrightarrow> tags_ok t" by blast+
qed

lemma map_of_filter_key: "map_of (filter (\<lambda>e. P (fst e)) m) k = (if P k then map_of m k else None)"
  by (induction m) auto

lemma device_ok_without:
  assumes "device_ok s" "tables t = without_stubs G s" "ds_heap t = ds_heap s" "tags_ok s \<Longrightarrow> tags_ok t"
  shows "device_ok t"
proof -
  have f: "ds_stubs t = filter (\<lambda>p. \<not> G p) (ds_stubs s)" "ds_sessions t = filter (\<lambda>e. \<not> G (fst e)) (ds_sessions s)"
    "ds_noticeProxy t = filter (\<lambda>e. \<not> G (snd e)) (ds_noticeProxy s)"
    "ds_deaths t = filter (\<lambda>e. \<not> (\<exists>d \<in> set (ds_noticeProxy s). fst d = fst e \<and> G (snd d))) (ds_deaths s)"
    using assms(2) by (simp_all add: tables_def without_stubs_def)
  have q: "QuerySessionObject p t = (if G p then None else QuerySessionObject p s)" for p
    unfolding QuerySessionObject_def f(2) map_of_filter_key [of "\<lambda>k. \<not> G k"] by simp
  have "stub_key t = stub_key s" by (simp add: stub_key_def assms(3) fun_eq_iff)
  then have "stubs_ok t" using assms(1) by (auto simp: device_ok_def stubs_ok_def f(1) assms(3) intro: inj_on_subset)
  moreover have "finished_ok t" using assms(1) by (auto simp: device_ok_def finished_ok_def q f(1) assms(3) split: if_splits)
  moreover have "callbacks_ok t" using callbacks_ok_filter [OF _ f(3,4)] assms(1) by (simp add: device_ok_def)
  ultimately show ?thesis using assms(1,4) by (simp add: device_ok_def)
qed

lemma without_stubs_compose:
  assumes "tables t = without_stubs G s"
  shows "without_stubs H t = without_stubs (\<lambda>p. G p \<or> H p) s"
    and "filter (\<lambda>e. H (snd e)) (ds_noticeProxy t) = filter (\<lambda>e. \<not> G (snd e) \<and> H (snd e)) (ds_noticeProxy s)"
proof -
  have f: "ds_stubs t = filter (\<lambda>p. \<not> G p) (ds_stubs s)" "ds_sessions t = filter (\<lambda>e. \<not> G (fst e)) (ds_sessions s)"
    "ds_noticeProxy t = filter (\<lambda>e. \<not> G (snd e)) (ds_noticeProxy s)"
    "ds_deaths t = filter (\<lambda>e. \<not> (\<exists>d \<in> set (ds_noticeProxy s). fst d = fst e \<and> G (snd d))) (ds_deaths s)"
    using assms by (simp_all add: tables_def without_stubs_def)
  have "filter (\<lambda>e. \<not> (\<exists>d \<in> set (ds_noticeProxy t). fst d = fst e \<and> H (snd d))) (ds_deaths t) =
      filter (\<lambda>e. \<not> (\<exists>d \<in> set (ds_noticeProxy s). fst d = fst e \<and> (G (snd d) \<or> H (snd d)))) (ds_deaths s)"
    unfolding f(3,4) filter_filter by (rule filter_cong [OF refl]) force
  then show "without_stubs H t = without_stubs (\<lambda>p. G p \<or> H p) s" by (simp add: without_stubs_def f(1,2,3))
  show "filter (\<lambda>e. H (snd e)) (ds_noticeProxy t) = filter (\<lambda>e. \<not> G (snd e) \<and> H (snd e)) (ds_noticeProxy s)"
    by (simp add: f(3))
qed

lemma without_stubs_cong: "(\<And>p. G p = H p) \<Longrightarrow> without_stubs G s = without_stubs H s"
  by (simp add: without_stubs_def)

lemma device_loop:
  fixes st :: int
  assumes "device_ok s" "[] \<notin> set names" "\<not> IsDeviceIdIllegal device"
  defines "t \<equiv> snd (fold (\<lambda>name (status, s2). case NoticeServiceDieInner name device s2 of (r, s3) \<Rightarrow> (status + r, s3)) names (st, s))"
    and "G \<equiv> \<lambda>p. p \<in> set (ds_stubs s) \<and> ss_deviceID (ds_heap s p) = device \<and> ss_serviceName (ds_heap s p) \<in> set names"
  shows "tables t = without_stubs G s \<and> ds_heap t = ds_heap s \<and> device_ok t \<and>
    mset (told (ds_events t)) = mset (told (ds_events s)) + mset (map fst (filter (\<lambda>e. G (snd e)) (ds_noticeProxy s)))"
  using assms(1,2) unfolding t_def G_def
proof (induction names arbitrary: s st)
  case Nil
  then show ?case by (simp add: tables_def without_stubs_def)
next
  case (Cons n ns)
  define s1 where "s1 = snd (NoticeCallbackProxy n device s)"
  let ?G = "registered_for n device s"
  let ?H = "\<lambda>p. p \<in> set (ds_stubs s1) \<and> ss_deviceID (ds_heap s1 p) = device \<and> ss_serviceName (ds_heap s1 p) \<in> set ns"
  let ?F = "\<lambda>p. p \<in> set (ds_stubs s) \<and> ss_deviceID (ds_heap s p) = device \<and> ss_serviceName (ds_heap s p) \<in> set (n # ns)"
  have "callbacks_ok s" "nullptr \<notin> set (ds_stubs s)" using Cons.prems(1) by (simp_all add: device_ok_def stubs_ok_def)
  note s1 = NoticeCallbackProxy_spec [OF this, of n device, folded s1_def]
  have ok: "device_ok s1" by (rule device_ok_without [OF Cons.prems(1) s1(1,2,5)])
  have "snd (NoticeServiceDieInner n device s) = s1"
    using Cons.prems(2) assms(3) by (auto simp: NoticeServiceDieInner_def s1_def case_prod_beta)
  then obtain r where r: "NoticeServiceDieInner n device s = (r, s1)" by (metis prod.collapse)
  define t where "t = snd (fold (\<lambda>name (status, s2). case NoticeServiceDieInner name device s2 of (r, s3) \<Rightarrow> (status + r, s3)) (n # ns) (st, s))"
  have "t = snd (fold (\<lambda>name (status, s2). case NoticeServiceDieInner name device s2 of (r, s3) \<Rightarrow> (status + r, s3)) ns (st + r, s1))"
    by (simp add: t_def r)
  from Cons.IH [OF ok, of "st + r", folded this] Cons.prems(2) have IH: "tables t = without_stubs ?H s1" "ds_heap t = ds_heap s1" "device_ok t"
      "mset (told (ds_events t)) = mset (told (ds_events s1)) + mset (map fst (filter (\<lambda>e. ?H (snd e)) (ds_noticeProxy s1)))"
    by simp_all
  have st1: "ds_stubs s1 = filter (\<lambda>p. \<not> ?G p) (ds_stubs s)" using s1(1) by (simp add: tables_def without_stubs_def)
  have split: "(?G p \<or> ?H p) = ?F p" for p by (auto simp: st1 s1(2) registered_for_def is_stub_of_def)
  have "(\<not> ?G p \<and> ?H p) = (\<not> ?G p \<and> ?F p)" for p using split [of p] by blast
  then have sum: "mset (map fst (filter (\<lambda>e. ?G (snd e)) ys)) + mset (map fst (filter (\<lambda>e. \<not> ?G (snd e) \<and> ?H (snd e)) ys)) =
      mset (map fst (filter (\<lambda>e. ?F (snd e)) ys))" for ys :: "(ptr \<times> ptr) list"
    using split by (induction ys) (auto simp del: mset_map mset_filter simp: registered_for_def is_stub_of_def)
  have "mset (told (ds_events t)) = mset (told (ds_events s)) + mset (map fst (filter (\<lambda>e. ?F (snd e)) (ds_noticeProxy s)))"
    unfolding IH(4) s1(4) without_stubs_compose(2) [OF s1(1), of ?H] add.assoc sum ..
  moreover have "tables t = without_stubs ?F s"
    unfolding IH(1) without_stubs_compose(1) [OF s1(1), of ?H] by (rule without_stubs_cong) (rule split)
  ultimately show ?case unfolding t_def [symmetric] using IH(2,3) s1(2) by simp
qed

definition of_device :: "string \<Rightarrow> dservice \<Rightarrow> ptr \<Rightarrow> bool" where
  "of_device device s p \<longleftrightarrow> p \<in> set (ds_stubs s) \<and> ss_deviceID (ds_heap s p) = device"

text \<open>
  C11. The report that a device is gone, which is worked off service by service, does what removing all
  its stubs at once does: no stub of the device is left and no session of one, the proxies that
  wanted to hear of their deaths are forgotten together with the watches on them and each of them has
  been told exactly once, while everything that belongs to other devices is as before.
\<close>

theorem device_death_equals_removal:
  assumes "device_ok s" "\<not> IsDeviceIdIllegal device" "ls_listener (ds_net s) \<noteq> None" "snd (NoticeDeviceDie device s) = t"
  shows "tables t = without_stubs (of_device device s) s \<and> device_ok t \<and>
    mset (told (ds_events t)) = mset (told (ds_events s)) + mset (map fst (filter (\<lambda>e. of_device device s (snd e)) (ds_noticeProxy s)))"
proof -
  define s1 where "s1 = s\<lparr>ds_net := snd (ShutdownSocket_listener device (ds_net s))\<rparr>"
  let ?names = "FindServicesByDeviceID device s1"
  have ok: "device_ok s1" using device_ok_same [OF assms(1)] by (simp add: s1_def)
  have names: "set ?names = (\<lambda>p. ss_serviceName (ds_heap s p)) ` {p \<in> set (ds_stubs s). ss_deviceID (ds_heap s p) = device}"
    by (auto simp: FindServicesByDeviceID_def s1_def)
  have ne: "[] \<notin> set ?names" using assms(1) unfolding names by (auto simp: device_ok_def stubs_ok_def)
  have "t = snd (fold (\<lambda>name (status, s2). case NoticeServiceDieInner name device s2 of (r, s3) \<Rightarrow> (status + r, s3)) ?names (0, s1))"
    using assms(2-4) by (cases "ls_listener (ds_net s)") (auto simp: NoticeDeviceDie_def s1_def Let_def)
  note l = device_loop [OF ok ne assms(2), of 0, folded this]
  have "(p \<in> set (ds_stubs s1) \<and> ss_deviceID (ds_heap s1 p) = device \<and> ss_serviceName (ds_heap s1 p) \<in> set ?names) = of_device device s p" for p
    unfolding names by (auto simp: of_device_def s1_def)
  note l = l [unfolded this]
  have "without_stubs (of_device device s) s1 = without_stubs (of_device device s) s" by (simp add: without_stubs_def s1_def)
  then show ?thesis using l by (simp add: s1_def)
qed


theorem device_death_equals_removal_witness:
  "tables (snd (NoticeDeviceDie ''bb'' (demo_client\<lparr>ds_noticeProxy := [(7, 50)], ds_deaths := [(7, 70)],
      ds_heap := (\<lambda>p. DBinderServiceStub demo_env [49] ''bb'' 100 3 4)\<rparr>))) = ([], [], [], []) \<and>
   mset (told (ds_events (snd (NoticeDeviceDie ''bb'' (demo_client\<lparr>ds_noticeProxy := [(7, 50)], ds_deaths := [(7, 70)],
      ds_heap := (\<lambda>p. DBinderServiceStub demo_env [49] ''bb'' 100 3 4)\<rparr>))))) = {#7#}"
proof -
  let ?s = "demo_client\<lparr>ds_noticeProxy := [(7, 50)], ds_deaths := [(7, 70)], ds_heap := (\<lambda>p. DBinderServiceStub demo_env [49] ''bb'' 100 3 4)\<rparr>"
  have "device_ok ?s"
    by (simp add: device_ok_def stubs_ok_def finished_ok_def callbacks_ok_def tags_ok_def demo_client_def DBinderService_def
      DBinderServiceStub_def QuerySessionObject_def IsDeviceIdIllegal_def)
  moreover have "ls_listener (ds_net ?s) \<noteq> None" "ds_sessions ?s = []" "ds_events ?s = []" "of_device ''bb'' ?s 50"
    by (simp_all add: demo_client_def DBinderService_def of_device_def DBinderServiceStub_def)
  ultimately show ?thesis
    using device_death_equals_removal [of ?s "''bb''", OF _ _ _ refl] by (simp add: without_stubs_def IsDeviceIdIllegal_def)
qed

section \<open>Interleaved operations\<close>

text \<open>
  Every rule is a section of an operation that runs without a wait; threads may perform them in any
  order. \<open>MakeRemoteBinder\<close> is made of \<open>find_stub\<close>, \<open>number\<close>, \<open>request\<close>, \<open>waited\<close> and \<open>give_up\<close>, between which
  other threads run. A new stub is an object of its own; a stub that is given up is the one that was
  looked up under the name, device and caller with which it is removed.
\<close>

inductive device_step :: "device_env \<Rightarrow> 'd stub_env \<Rightarrow> dservice \<Rightarrow> dservice \<Rightarrow> bool" for E :: device_env and C :: "'d stub_env" where
  find_stub: "\<lbrakk>service \<noteq> []; \<not> IsDeviceIdIllegal device; FindOrNewDBinderStub E service device object pid uid s = (stub, isNew, t);
     isNew \<Longrightarrow> stub \<noteq> nullptr \<and> stub \<notin> set (ds_stubs s)\<rbrakk> \<Longrightarrow> device_step E C s t"
| number: "GetSeqNumber_dev s = (seq, t) \<Longrightarrow> device_step E C s (on_stub stub (\<lambda>x. x\<lparr>ss_seqNum := seq\<rparr>) t)"
| request: "\<lbrakk>stub \<noteq> nullptr; InvokerRemoteDBinderWhenRequest E stub seq pid uid s = (r, lock, t)\<rbrakk> \<Longrightarrow> device_step E C s t"
| waited: "after_wait E stub seq lock s = (r, t) \<Longrightarrow> device_step E C s t"
| give_up: "\<lbrakk>stub \<in> set (ds_stubs s) \<Longrightarrow> IsSameStubObject service device pid uid s stub\<rbrakk> \<Longrightarrow>
     device_step E C s (snd (DetachSessionObject stub (snd (DeleteDBinderStub service device pid uid s))))"
| message: "device_step E C s (snd (OnRemoteMessageTask E q (on_entry q (\<lambda>_. m) s)))"
| loaded: "device_step E C s (LoadSystemAbilityComplete E networkId saId object s)"
| closed: "device_step E C s (client_shutdown sock s)"
| peer_bound: "device_step E C s (s\<lparr>ds_net := ServerOnBind sock networkId (ds_net s)\<rparr>)"
| peer_closed: "device_step E C s (s\<lparr>ds_net := ServerOnShutdown sock (ds_net s)\<rparr>)"
| service_gone: "device_step E C s (snd (NoticeServiceDie_dev service device s))"
| device_gone: "device_step E C s (snd (NoticeDeviceDie device s))"
| client_gone: "device_step E C s (OnRemoteDied_client object s)"
| ability_gone: "device_step E C s (OnRemoteDied_sa b remote s)"
| watch: "this \<noteq> nullptr \<Longrightarrow> device_step E C s (snd (ProcessDeathRecipient E C data object this s))"
| cleared: "device_step E C s (snd (DBinderClearServiceState_dev C this s))"
| filled: "device_step E C s (snd (GetAndSaveDBinderData E pid uid this s))"
| announced: "device_step E C s (snd (RegisterRemoteProxy service object s))"
| announced_id: "device_step E C s (snd (RegisterRemoteProxy_said service saId s))"
| started: "device_step E C s (snd (StartDBinderService E s))"

inductive reachable_device :: "device_env \<Rightarrow> 'd stub_env \<Rightarrow> dservice \<Rightarrow> bool" for E :: device_env and C :: "'d stub_env" where
  init: "reachable_device E C (DBinderService n)"
| step: "\<lbrakk>reachable_device E C s; device_step E C s t\<rbrakk> \<Longrightarrow> reachable_device E C t"

end
