(* ===== verification/Device_Invariant.thy ===== *)
theory Device_Invariant
  imports Device_Registry
begin

text \<open>
  Every operation of the device service keeps the invariant of its tables, so that it holds in every
  state that threads can reach; and what this gives for a stub that \<open>MakeRemoteBinder\<close> returns.
\<close>

section \<open>Stubs and their status\<close>

lemma device_okD:
  "device_ok s \<Longrightarrow> stubs_ok s" "device_ok s \<Longrightarrow> finished_ok s" "device_ok s \<Longrightarrow> callbacks_ok s" "device_ok s \<Longrightarrow> tags_ok s"
  by (simp_all add: device_ok_def)

text \<open>What keeps the parts of the invariant that are about stubs, when their status changes.\<close>

lemma device_ok_status:
  assumes "device_ok s" "ds_stubs t = ds_stubs s" "ds_sessions t = ds_sessions s" "ds_noticeProxy t = ds_noticeProxy s"
    "ds_deaths t = ds_deaths s" "tags_ok t" "\<And>p. stub_key t p = stub_key s p"
    "\<And>p. ss_negoStatus (ds_heap t p) = NEGO_FINISHED \<Longrightarrow> ss_negoStatus (ds_heap s p) = NEGO_FINISHED \<or> QuerySessionObject p s \<noteq> None"
  shows "device_ok t"
proof -
  have k: "stub_key t = stub_key s" using assms(7) by (simp add: fun_eq_iff)
  have id: "ss_serviceName (ds_heap t p) = ss_serviceName (ds_heap s p)" "ss_deviceID (ds_heap t p) = ss_deviceID (ds_heap s p)" for p
    using assms(7) [of p] by (simp_all add: stub_key_def)
  have q: "QuerySessionObject p t = QuerySessionObject p s" for p using assms(3) by (simp add: QuerySessionObject_def)
  have "stubs_ok t" using device_okD(1) [OF assms(1)] k id assms(2) by (simp add: stubs_ok_def)
  moreover have "finished_ok t"
    using device_okD(2) [OF assms(1)] assms(2,8) q unfolding finished_ok_def by metis
  moreover have "callbacks_ok t" using device_okD(3) [OF assms(1)] assms(4,5) by (simp add: callbacks_ok_def)
  ultimately show ?thesis using assms(6) by (simp add: device_ok_def)
qed

lemma device_ok_on_stub:
  assumes "device_ok s" "\<And>x. ss_serviceName (f x) = ss_serviceName x \<and> ss_deviceID (f x) = ss_deviceID x \<and> ss_peerPid (f x) = ss_peerPid x \<and> ss_peerUid (f x) = ss_peerUid x"
    "\<And>x. ss_negoStatus (f x) = NEGO_FINISHED \<Longrightarrow> ss_negoStatus x = NEGO_FINISHED \<or> QuerySessionObject p s \<noteq> None"
  shows "device_ok (on_stub p f s)"
  by (rule device_ok_status [OF assms(1)])
     (use assms device_okD(4) [OF assms(1)] in \<open>auto simp: on_stub_def stub_key_def tags_ok_def split: if_splits\<close>)

lemma device_ok_nego:
  assumes "device_ok s" "st = NEGO_FINISHED \<Longrightarrow> QuerySessionObject p s \<noteq> None"
  shows "device_ok (SetNegoStatusAndTime st time p s)"
  unfolding SetNegoStatusAndTime_def by (rule device_ok_on_stub) (use assms in auto)

lemma device_ok_find_stub:
  assumes "device_ok s" "service \<noteq> []" "\<not> IsDeviceIdIllegal device"
    "FindOrNewDBinderStub E service device object pid uid s = (stub, isNew, t)" "isNew \<Longrightarrow> stub \<noteq> nullptr \<and> stub \<notin> set (ds_stubs s)"
  shows "device_ok t"
proof (cases "find (IsSameStubObject service device pid uid s) (ds_stubs s)")
  case (Some p)
  then show ?thesis using assms(1,4) by (auto simp: FindOrNewDBinderStub_def)
next
  case None
  let ?x = "DBinderServiceStub E service device object pid uid"
  have t: "t = s\<lparr>ds_stubs := ds_stubs s @ [stub], ds_heap := (ds_heap s)(stub := ?x)\<rparr>" and "isNew"
    using None assms(4) by (auto simp: FindOrNewDBinderStub_def Let_def)
  then have fresh: "stub \<noteq> nullptr" "stub \<notin> set (ds_stubs s)" using assms(5) by auto
  have x: "ss_serviceName ?x = service" "ss_deviceID ?x = device" "ss_peerPid ?x = pid" "ss_peerUid ?x = uid" "ss_negoStatus ?x = NEGO_INIT"
    by (simp_all add: DBinderServiceStub_def)
  have heap: "ds_heap t p = ds_heap s p" if "p \<in> set (ds_stubs s)" for p using that fresh by (auto simp: t)
  have key: "stub_key t p = stub_key s p" "stub_key s p \<noteq> stub_key t stub" if "p \<in> set (ds_stubs s)" for p
    using that heap [OF that] None x device_okD(1) [OF assms(1)] fresh
    by (auto simp: t stub_key_def find_None_iff IsSameStubObject_def stubs_ok_def)
  have "inj_on (stub_key t) (set (ds_stubs s))"
    using device_okD(1) [OF assms(1)] key(1) by (simp add: stubs_ok_def inj_on_def)
  moreover have "stub_key t stub \<notin> stub_key t ` (set (ds_stubs s) - {stub})" using key by (metis DiffD1 imageE)
  moreover have "set (ds_stubs t) = insert stub (set (ds_stubs s))" by (simp add: t)
  ultimately have "inj_on (stub_key t) (set (ds_stubs t))" by simp
  then have "stubs_ok t"
    using device_okD(1) [OF assms(1)] fresh x assms(2,3) by (auto simp: t stubs_ok_def)
  moreover have "finished_ok t" using device_okD(2) [OF assms(1)] fresh x by (auto simp: t finished_ok_def QuerySessionObject_def)
  ultimately show ?thesis using device_okD(3,4) [OF assms(1)] by (simp add: device_ok_def callbacks_ok_def tags_ok_def t)
qed

section \<open>Requests\<close>

lemma mset_omap_put: "map_of m k = None \<Longrightarrow> mset (omap_put k v m) = add_mset (k, v) (mset m)"
  by (induction k v m rule: omap_put.induct) (auto split: if_splits)

lemma AddStubByTag_spec:
  assumes "AddStubByTag stub s = (tag, t)" "tags_ok s"
  shows "tags_ok t" "same_tables (s\<lparr>ds_tags := ds_tags t\<rparr>) t"
proof -
  have "tags_ok t \<and> same_tables (s\<lparr>ds_tags := ds_tags t\<rparr>) t"
  proof (cases "find (\<lambda>e. snd e = stub) (ds_tags s)")
    case (Some e)
    then show ?thesis using assms by (auto simp: AddStubByTag_def split: prod.splits)
  next
    case None
    then have "stub \<notin> snd ` set (ds_tags s)" by (auto simp: find_None_iff)
    moreover have "distinct (map snd (omap_put k stub m)) \<longleftrightarrow> stub \<notin> snd ` set m \<and> distinct (map snd m)" if "map_of m k = None" for k and m :: "(u64, ptr) omap"
      using mset_eq_imp_distinct_iff [of "map snd (omap_put k stub m)" "stub # map snd m"] mset_omap_put [OF that, of stub] by simp
    ultimately show ?thesis using assms None
      by (auto simp: AddStubByTag_def Let_def omap_insert_def tags_ok_def same_tables_def stub_key_def split: option.splits)
  qed
  then show "tags_ok t" "same_tables (s\<lparr>ds_tags := ds_tags t\<rparr>) t" by simp_all
qed

lemma same_tables_listener: "GetRemoteListener E s = (r, t) \<Longrightarrow> same_tables s t"
  by (auto simp: GetRemoteListener_def StartRemoteListener_def StopRemoteListener_def split: if_splits prod.splits bool.splits)

lemma device_ok_send:
  assumes "device_ok s" "SendEntryToRemote E stub seq pid uid s = (r, t)"
  shows "device_ok t"
proof -
  obtain om s1 where c: "CreateMessage E stub seq pid uid s = (om, s1)" by (meson surj_pair)
  obtain b s2 where g: "GetRemoteListener E s1 = (b, s2)" by (meson surj_pair)
  have s1: "device_ok s1"
  proof (cases "from_chars_uint64 (de_Str16ToStr8 E (ss_serviceName (ds_heap s stub)))")
    case None
    then show ?thesis using c assms(1) by (simp add: CreateMessage_def)
  next
    case (Some n)
    then obtain tag where a: "AddStubByTag stub s = (tag, s1)" using c by (auto simp: CreateMessage_def split: prod.splits)
    note ts = AddStubByTag_spec [OF a device_okD(4) [OF assms(1)]]
    have "device_ok (s\<lparr>ds_tags := ds_tags s1\<rparr>)"
      by (rule device_ok_status [OF assms(1)]) (use ts(1) in \<open>auto simp: stub_key_def tags_ok_def\<close>)
    then show ?thesis using ts(2) by (rule device_ok_same)
  qed
  have s2: "device_ok s2" by (rule device_ok_same [OF s1 same_tables_listener [OF g]])
  have "t = s \<or> t = s1 \<or> t = s2 \<or> (\<exists>n. t = s2\<lparr>ds_net := n\<rparr>)"
    using assms(2) c g by (auto simp: SendEntryToRemote_def Let_def split: if_splits option.splits prod.splits bool.splits)
  then show ?thesis using assms(1) s1 s2 device_ok_same [OF s2] by auto
qed

lemma device_ok_request:
  assumes "device_ok s" "InvokerRemoteDBinderWhenRequest E stub seq pid uid s = (r, l, t)"
  shows "device_ok t"
proof -
  define s1 where "s1 = SetNegoStatusAndTime NEGO_DOING (de_now E) stub s"
  define s2 where "s2 = s1\<lparr>ds_locks := (ds_locks s1)(de_new_lock E s1 := \<lparr>li_networkId = [], li_ready = False\<rparr>)\<rparr>"
  obtain b s3 where a: "AttachThreadLockInfo_dev seq (ss_deviceID (ds_heap s2 stub)) (de_new_lock E s1) s2 = (b, s3)" by (meson surj_pair)
  obtain b' s4 where d: "SendEntryToRemote E stub seq pid uid s3 = (b', s4)" by (meson surj_pair)
  have "device_ok s2" unfolding s2_def s1_def by (rule device_ok_same [OF device_ok_nego [OF assms(1), where st = NEGO_DOING and p = stub and time = "de_now E"]]) simp_all
  moreover have "same_tables s2 s3" using a by (auto simp: AttachThreadLockInfo_dev_def same_tables_def stub_key_def Let_def split: prod.splits)
  ultimately have s3: "device_ok s3" by (rule device_ok_same)
  have s4: "device_ok s4" by (rule device_ok_send [OF s3 d])
  have det: "same_tables u (DetachThreadLockInfo_dev seq u)" for u by (simp add: DetachThreadLockInfo_dev_def)
  have "t = (if \<not> b then SetNegoStatusAndTime NEGO_INIT 0 stub s3
      else if \<not> b' then DetachThreadLockInfo_dev seq (SetNegoStatusAndTime NEGO_INIT 0 stub s4) else s4)"
    using assms(2) a d unfolding InvokerRemoteDBinderWhenRequest_def Let_def s1_def [symmetric] s2_def [symmetric]
    by (auto split: bool.splits)
  then show ?thesis using device_ok_nego [OF s3, of NEGO_INIT] device_ok_same [OF device_ok_nego [OF s4, of NEGO_INIT] det] s4 by simp
qed

lemma device_ok_after_wait:
  assumes "device_ok s" "after_wait E stub seq lock s = (r, t)"
  shows "device_ok t"
proof -
  have "same_tables u (set_ready False lock (DetachThreadLockInfo_dev seq u))" for u
    by (simp add: same_tables_def set_ready_def DetachThreadLockInfo_dev_def stub_key_def)
  then have "device_ok (set_ready False lock (DetachThreadLockInfo_dev seq (SetNegoStatusAndTime NEGO_INIT 0 stub s)))"
    using device_ok_same device_ok_nego [OF assms(1), of NEGO_INIT] by blast
  then show ?thesis using assms device_ok_nego [OF assms(1)] by (auto simp: after_wait_def split: if_splits)
qed

lemma device_ok_give_up:
  assumes "device_ok s" "stub \<in> set (ds_stubs s) \<Longrightarrow> IsSameStubObject service device pid uid s stub"
  shows "device_ok (snd (DetachSessionObject stub (snd (DeleteDBinderStub service device pid uid s))))"
proof -
  let ?P = "IsSameStubObject service device pid uid s" and ?t = "snd (DetachSessionObject stub (snd (DeleteDBinderStub service device pid uid s)))"
  have uniq: "p = q" if "p \<in> set (ds_stubs s)" "q \<in> set (ds_stubs s)" "?P p" "?P q" for p q
    using that device_okD(1) [OF assms(1)] by (auto simp: stubs_ok_def IsSameStubObject_def inj_on_def stub_key_def)
  have rf: "distinct xs \<Longrightarrow> (\<And>p q. p \<in> set xs \<Longrightarrow> q \<in> set xs \<Longrightarrow> P p \<Longrightarrow> P q \<Longrightarrow> p = q) \<Longrightarrow> remove_first P xs = filter (\<lambda>p. \<not> P p) xs" for P and xs :: "ptr list"
    by (induction xs) (auto simp: filter_id_conv intro!: filter_True [symmetric])
  have f: "ds_stubs ?t = filter (\<lambda>p. \<not> ?P p) (ds_stubs s)" "ds_sessions ?t = omap_erase stub (ds_sessions s)"
    "ds_noticeProxy ?t = ds_noticeProxy s" "ds_deaths ?t = ds_deaths s" "ds_heap ?t = ds_heap s"
    using rf [of "ds_stubs s" ?P] uniq device_okD(1) [OF assms(1)]
    by (auto simp: DetachSessionObject_def DeleteDBinderStub_def erase_tag_def stubs_ok_def find_None_iff split: option.splits)
  have q: "QuerySessionObject p ?t = (if p = stub then None else QuerySessionObject p s)" for p by (simp add: QuerySessionObject_def f(2))
  have "stub_key ?t = stub_key s" by (simp add: stub_key_def f(5) fun_eq_iff)
  then have "stubs_ok ?t" using device_okD(1) [OF assms(1)] by (auto simp: stubs_ok_def f(1,5) intro: inj_on_subset)
  moreover have "finished_ok ?t" using device_okD(2) [OF assms(1)] assms(2) by (auto simp: finished_ok_def f(1,5) q split: if_splits)
  moreover have "callbacks_ok ?t" using device_okD(3) [OF assms(1)] by (simp add: callbacks_ok_def f(3,4))
  moreover have "tags_ok ?t" using device_okD(4) [OF assms(1)]
    by (auto simp: tags_ok_def DetachSessionObject_def DeleteDBinderStub_def erase_tag_def distinct_remove_first split: option.splits)
  ultimately show ?thesis by (simp add: device_ok_def)
qed

section \<open>Messages\<close>

lemma device_ok_sessions:
  assumes "device_ok s" "ds_stubs t = ds_stubs s" "ds_heap t = ds_heap s" "ds_noticeProxy t = ds_noticeProxy s" "ds_deaths t = ds_deaths s" "ds_tags t = ds_tags s"
    "\<And>p. QuerySessionObject p t = QuerySessionObject p s \<or> (\<exists>session. QuerySessionObject p t = Some session \<and> si_stubIndex session \<noteq> 0)"
  shows "device_ok t"
proof -
  have "stub_key t = stub_key s" by (simp add: stub_key_def assms(3) fun_eq_iff)
  then have "stubs_ok t" using device_okD(1) [OF assms(1)] assms(2,3) by (simp add: stubs_ok_def)
  moreover have "finished_ok t" using device_okD(2) [OF assms(1)] assms(2,3,7) unfolding finished_ok_def by (metis option.distinct(1) option.inject)
  ultimately show ?thesis using device_okD(3,4) [OF assms(1)] assms(4-6) by (simp add: device_ok_def callbacks_ok_def tags_ok_def)
qed

lemma device_ok_make_session:
  assumes "device_ok s"
  shows "device_ok (MakeSessionByReplyMessage m s)"
proof (rule device_ok_sessions [OF assms])
  fix p
  show "QuerySessionObject p (MakeSessionByReplyMessage m s) = QuerySessionObject p s \<or>
      (\<exists>session. QuerySessionObject p (MakeSessionByReplyMessage m s) = Some session \<and> si_stubIndex session \<noteq> 0)"
    by (auto simp: MakeSessionByReplyMessage_def AttachSessionObject_def DetachSessionObject_def QuerySessionObject_def omap_insert_def Let_def
      split: option.splits if_splits)
qed (auto simp: MakeSessionByReplyMessage_def AttachSessionObject_def DetachSessionObject_def Let_def split: option.splits prod.splits)

lemma same_tables_wake: "same_tables s (DetachThreadLockInfo_dev seq (WakeupThreadByStub seq' s))"
  by (auto simp: DetachThreadLockInfo_dev_def WakeupThreadByStub_def set_ready_def same_tables_def stub_key_def split: option.splits)

lemma same_tables_reply: "same_tables s (SendReplyMessageToRemote E cd reason p s)"
proof -
  obtain r s1 where g: "GetRemoteListener E s = (r, s1)" by (meson surj_pair)
  note s1 = same_tables_listener [OF g]
  have "r \<Longrightarrow> same_tables s1 (SendReplyMessageToRemote E cd reason p s)"
    using g by (simp add: SendReplyMessageToRemote_def on_entry_def Let_def same_tables_def stub_key_def)
  then show ?thesis using s1 same_tables_trans [OF s1] g by (cases r) (simp_all add: SendReplyMessageToRemote_def)
qed

lemma same_tables_invoker: "same_tables s (snd (OnRemoteInvokerMessage E p s))"
proof -
  obtain b m where c: "CheckAndAmendSaId (ds_messages s p) = (b, m)" by (meson surj_pair)
  let ?s1 = "on_entry p (\<lambda>_. m) s"
  let ?from = "array_str (m_fromDeviceId m)" and ?id = "low32 (m_binderObject m)"
  let ?s2 = "log_dev (EvLoad ?from ?id) (?s1\<lparr>ds_loadSa := ds_loadSa ?s1 @ [p]\<rparr>)"
  have s2: "same_tables s ?s2" "same_tables s (snd (PopLoadSaItem ?from ?id ?s2))"
    by (auto simp: same_tables_def stub_key_def log_dev_def on_entry_def PopLoadSaItem_def split: option.splits)
  have "snd (OnRemoteInvokerMessage E p s) =
    (if \<not> b then SendReplyMessageToRemote E MESSAGE_AS_REMOTE_ERROR DBINDER_SAID_INVALID p ?s1
     else if \<not> de_IsDistributed E (m_binderObject m) then SendReplyMessageToRemote E MESSAGE_AS_REMOTE_ERROR DBINDER_SA_NOT_DISTRUBUTED p ?s1
     else if \<not> de_LoadSystemAbility E ?from ?id
     then SendReplyMessageToRemote E MESSAGE_AS_REMOTE_ERROR DBINDER_SA_NOT_AVAILABLE p (snd (PopLoadSaItem ?from ?id ?s2)) else ?s2)"
    unfolding OnRemoteInvokerMessage_def c Let_def by (cases b) simp_all
  then show ?thesis
    using same_tables_trans [OF same_tables_fields(11) [of s p "\<lambda>_. m"] same_tables_reply] same_tables_trans [OF s2(2) same_tables_reply] s2(1) by simp
qed

lemma device_ok_message:
  assumes "device_ok s"
  shows "device_ok (snd (OnRemoteMessageTask E q s))"
proof -
  have "device_ok (snd (OnRemoteReplyMessage q s))"
    unfolding OnRemoteReplyMessage_def Let_def snd_conv by (rule device_ok_same [OF device_ok_make_session [OF assms] same_tables_wake])
  moreover have "device_ok (snd (OnRemoteErrorMessage q s))"
    unfolding OnRemoteErrorMessage_def Let_def snd_conv by (rule device_ok_same [OF assms same_tables_wake])
  moreover have "device_ok (snd (OnRemoteInvokerMessage E q s))" by (rule device_ok_same [OF assms same_tables_invoker])
  ultimately show ?thesis using assms by (simp add: OnRemoteMessageTask_def Let_def)
qed

lemma same_tables_load_item: "same_tables s (load_item E object p s)"
proof -
  define s1 where "s1 = (if QueryProxyObject (m_binderObject (ds_messages s p)) s \<noteq> None then s
    else snd (AttachProxyObject object (m_binderObject (ds_messages s p)) (log_dev (EvAddDeath object (de_new_death E s)) s)))"
  have s1: "same_tables s s1"
    by (auto simp: s1_def AttachProxyObject_def same_tables_def stub_key_def log_dev_def split: prod.splits)
  have db: "same_tables u (snd (OnRemoteInvokerDataBusMessage E object p d pi ui tk u))" for d pi ui tk u
    by (auto simp: OnRemoteInvokerDataBusMessage_def Let_def same_tables_def stub_key_def log_dev_def on_entry_def split: prod.splits)
  note st = same_tables_trans [OF s1] and r = same_tables_reply
  show ?thesis unfolding load_item_def Let_def s1_def [symmetric]
    using r st [OF r] st [OF same_tables_trans [OF db r]] by (auto simp: case_prod_beta)
qed

lemma same_tables_loaded: "same_tables s (LoadSystemAbilityComplete E d i object s)"
proof (induction E d i object s rule: LoadSystemAbilityComplete.induct)
  case (1 E d i object s)
  show ?case
  proof (cases rule: PopLoadSaItem_cases [of d i s])
    case 1
    then show ?thesis by (simp add: LoadSystemAbilityComplete.simps)
  next
    case (2 p s1)
    have "same_tables s s1" using 2(2) by simp
    then have "same_tables s (load_item E object p s1)" by (rule same_tables_trans [OF _ same_tables_load_item])
    then show ?thesis
      using 1 [OF 2(1) [symmetric] refl] 2(1) same_tables_trans by (subst LoadSystemAbilityComplete.simps) simp
  qed
qed

section \<open>Callbacks and deaths\<close>

lemma device_ok_callbacks:
  assumes "device_ok s" "ds_stubs t = ds_stubs s" "ds_heap t = ds_heap s" "ds_sessions t = ds_sessions s" "ds_tags t = ds_tags s" "callbacks_ok t"
  shows "device_ok t"
proof -
  have "stub_key t = stub_key s" by (simp add: stub_key_def assms(3) fun_eq_iff)
  then show ?thesis using assms by (simp add: device_ok_def stubs_ok_def finished_ok_def tags_ok_def QuerySessionObject_def)
qed

lemma callbacks_added:
  assumes "callbacks_ok s" "object \<noteq> nullptr" "this \<noteq> nullptr" "map_of (ds_deaths s) object = None"
    "ds_noticeProxy t = omap_put object this (ds_noticeProxy s)" "ds_deaths t = omap_put object death (ds_deaths s)"
  shows "callbacks_ok t"
proof -
  have "\<forall>e \<in> set (omap_put object this (ds_noticeProxy s)). fst e \<noteq> nullptr \<and> snd e \<noteq> nullptr"
    using assms(1-3) set_omap_put [of object this "ds_noticeProxy s"] by (auto simp: callbacks_ok_def)
  then show ?thesis using assms(1,5,6) by (auto simp: callbacks_ok_def omap_wf_put)
qed

lemma callbacks_removed:
  assumes "callbacks_ok s" "ds_noticeProxy t = omap_erase object (ds_noticeProxy s)" "ds_deaths t = omap_erase object (ds_deaths s)"
  shows "callbacks_ok t"
proof -
  have "set (omap_erase object (ds_noticeProxy s)) \<subseteq> set (ds_noticeProxy s)" by (auto simp: omap_erase_def)
  then show ?thesis using assms(1) unfolding callbacks_ok_def assms(2,3) by (auto simp: omap_wf_erase)
qed

lemma forget_both:
  assumes "callbacks_ok s"
  shows "(fst (DetachDeathRecipient object s) \<longleftrightarrow> map_of (ds_noticeProxy s) object \<noteq> None)"
    "\<not> fst (DetachDeathRecipient object s) \<Longrightarrow> snd (DetachDeathRecipient object s) = s"
    "callbacks_ok (snd (DetachCallbackProxy object (snd (DetachDeathRecipient object s))))"
proof -
  have "map_of (ds_deaths s) object \<noteq> None \<longleftrightarrow> object \<in> dom (map_of (ds_noticeProxy s))" using assms by (auto simp: callbacks_ok_def)
  then show "fst (DetachDeathRecipient object s) \<longleftrightarrow> map_of (ds_noticeProxy s) object \<noteq> None"
    by (auto simp: DetachDeathRecipient_def)
  show "\<not> fst (DetachDeathRecipient object s) \<Longrightarrow> snd (DetachDeathRecipient object s) = s"
    by (simp add: DetachDeathRecipient_def omap_erase_fresh)
  show "callbacks_ok (snd (DetachCallbackProxy object (snd (DetachDeathRecipient object s))))"
    by (rule callbacks_removed [OF assms]) (simp_all add: DetachDeathRecipient_def DetachCallbackProxy_def)
qed

lemma device_ok_forget:
  assumes "device_ok s"
  shows "device_ok (snd (DetachCallbackProxy object (snd (DetachDeathRecipient object s))))"
  by (rule device_ok_callbacks [OF assms])
     (use forget_both(3) [OF device_okD(3) [OF assms], of object] in \<open>auto simp: DetachDeathRecipient_def DetachCallbackProxy_def\<close>)

lemma device_ok_add_recipient:
  assumes "device_ok s" "this \<noteq> nullptr"
  shows "device_ok (snd (AddDbinderDeathRecipient_dev E object this s))"
proof (cases "object = nullptr \<or> \<not> de_AddDeathRecipient E object s")
  case True
  then show ?thesis using assms by (auto simp: AddDbinderDeathRecipient_dev_def Let_def)
next
  case False
  define s1 where "s1 = log_dev (EvAddDeath object (de_new_death E s)) s"
  have s1: "device_ok s1" using device_ok_same [OF assms(1)] by (simp add: s1_def)
  show ?thesis
  proof (cases "map_of (ds_deaths s1) object")
    case (Some d)
    then have "snd (AddDbinderDeathRecipient_dev E object this s) = s1"
      using False by (simp add: AddDbinderDeathRecipient_dev_def Let_def s1_def AttachDeathRecipient_def omap_insert_present)
    then show ?thesis using s1 by simp
  next
    case None
    then have "map_of (ds_noticeProxy s1) object = None"
      using device_okD(3) [OF s1] unfolding callbacks_ok_def by (metis domIff)
    then have t: "snd (AddDbinderDeathRecipient_dev E object this s) = s1\<lparr>ds_deaths := omap_put object (de_new_death E s) (ds_deaths s1),
        ds_noticeProxy := omap_put object this (ds_noticeProxy s1)\<rparr>"
      using False None by (simp add: AddDbinderDeathRecipient_dev_def Let_def s1_def [symmetric] AttachDeathRecipient_def AttachCallbackProxy_def omap_insert_fresh)
    show ?thesis unfolding t
      by (rule device_ok_callbacks [OF s1]) (use callbacks_added [OF device_okD(3) [OF s1] _ assms(2) None] False in auto)
  qed
qed

lemma device_ok_remove_recipient:
  assumes "device_ok s"
  shows "device_ok (snd (RemoveDbinderDeathRecipient_dev object s))" "device_ok (OnRemoteDied_client object s)"
proof -
  define s1 where "s1 = (case QueryDeathRecipient object s of None \<Rightarrow> s | Some death \<Rightarrow> log_dev (EvRemoveDeath object death) s)"
  have s1: "device_ok s1" using assms device_ok_same [OF assms] by (simp add: s1_def split: option.splits)
  obtain b s2 where d: "DetachDeathRecipient object s1 = (b, s2)" by (meson surj_pair)
  have s2: "\<not> b \<Longrightarrow> s2 = s1" "device_ok (snd (DetachCallbackProxy object s2))"
    using forget_both(2) [OF device_okD(3) [OF s1], of object] device_ok_forget [OF s1, of object] d by simp_all
  show "device_ok (snd (RemoveDbinderDeathRecipient_dev object s))"
    unfolding RemoveDbinderDeathRecipient_dev_def Let_def s1_def [symmetric] d using assms s1 s2 by (auto simp: case_prod_beta split: bool.splits)
  show "device_ok (OnRemoteDied_client object s)"
    unfolding OnRemoteDied_client_def Let_def s1_def [symmetric] d using assms s1 s2 by (auto split: bool.splits)
qed

lemma device_ok_service_gone:
  assumes "device_ok s"
  shows "device_ok (snd (NoticeServiceDieInner service device s))"
proof -
  note s1 = NoticeCallbackProxy_spec [of s service device]
  have "callbacks_ok s" "nullptr \<notin> set (ds_stubs s)" using assms by (simp_all add: device_ok_def stubs_ok_def)
  then have "device_ok (snd (NoticeCallbackProxy service device s))" using device_ok_without [OF assms] s1 by blast
  then show ?thesis using assms by (simp add: NoticeServiceDieInner_def case_prod_beta)
qed

lemma device_ok_device_gone:
  assumes "device_ok s"
  shows "device_ok (snd (NoticeDeviceDie device s))"
proof -
  let ?s1 = "s\<lparr>ds_net := snd (ShutdownSocket_listener device (ds_net s))\<rparr>"
  have "device_ok u \<Longrightarrow> device_ok (snd (fold (\<lambda>name (status, s2). case NoticeServiceDieInner name device s2 of (r, s3) \<Rightarrow> (status + r, s3)) names (st, u)))" for names st u
  proof (induction names arbitrary: st u)
    case (Cons n ns)
    obtain r s1 where r: "NoticeServiceDieInner n device u = (r, s1)" by (meson surj_pair)
    have "device_ok s1" using device_ok_service_gone [OF Cons.prems, of n device] r by simp
    then show ?case using Cons.IH [of s1 "st + r"] r by simp
  qed simp
  moreover have "device_ok ?s1" using device_ok_same [OF assms] by simp
  ultimately show ?thesis using assms by (simp add: NoticeDeviceDie_def Let_def)
qed

section \<open>Reachable states\<close>

lemma same_tables_closed: "same_tables s (client_shutdown sock s)"
proof -
  have ready: "same_tables u (fold (\<lambda>e. set_ready False (snd e)) xs u)" for xs :: "(u32 \<times> ptr) list" and u
  proof (induction xs arbitrary: u)
    case (Cons x xs)
    have "same_tables u (set_ready False (snd x) u)" by (simp add: set_ready_def)
    from same_tables_trans [OF this Cons.IH] show ?case by simp
  qed simp
  have "same_tables u (ProcessOnSessionClosed networkId u)" for networkId u
    unfolding ProcessOnSessionClosed_def Let_def by (rule same_tables_trans [OF _ ready]) simp
  then show ?thesis
    by (auto simp: client_shutdown_def split: prod.splits intro: same_tables_trans [OF same_tables_fields(1)])
qed

lemma same_tables_started: "same_tables s (snd (StartDBinderService E s))"
  by (auto simp: StartDBinderService_def ReStartRemoteListener_def StartRemoteListener_def StopRemoteListener_def same_tables_def stub_key_def
    split: if_splits prod.splits bool.splits)

lemma device_ok_filled:
  assumes "device_ok s"
  shows "device_ok (snd (GetAndSaveDBinderData E pid uid this s))"
proof -
  have "device_ok (snd (SaveDBinderData name this s))" for name
    unfolding SaveDBinderData_def Let_def using assms
    by (auto split: option.splits if_splits intro!: device_ok_on_stub)
  then show ?thesis using assms by (simp add: GetAndSaveDBinderData_def Let_def)
qed

lemma device_ok_step:
  assumes "device_step E C s t" "device_ok s"
  shows "device_ok t"
  using assms
proof (cases rule: device_step.cases)
  case (find_stub service device object pid uid stub isNew)
  then show ?thesis using device_ok_find_stub [OF assms(2)] by metis
next
  case (number seq u stub)
  have "device_ok u" using number(2) device_ok_same [OF assms(2)] by (auto simp: GetSeqNumber_dev_def Let_def)
  then show ?thesis unfolding number(1) by (rule device_ok_on_stub) simp_all
next
  case (request stub seq pid uid r lock)
  then show ?thesis using device_ok_request [OF assms(2)] by metis
next
  case (waited stub seq lock r)
  then show ?thesis using device_ok_after_wait [OF assms(2)] by metis
next
  case (give_up stub service device pid uid)
  then show ?thesis using device_ok_give_up [OF assms(2)] by blast
next
  case (message q m)
  then show ?thesis using device_ok_message [OF device_ok_same [OF assms(2) same_tables_fields(11)]] by simp
next
  case (watch this data object)
  then show ?thesis using device_ok_add_recipient [OF assms(2)] device_ok_remove_recipient(1) [OF assms(2)] assms(2)
    by (simp add: ProcessDeathRecipient_def Let_def)
next
  case (cleared this)
  have "device_ok (on_stub this (\<lambda>x. x\<lparr>ss_isInited := False\<rparr>) (SetNegoStatusAndTime NEGO_INIT 0 this s))"
    by (rule device_ok_on_stub [OF device_ok_nego [OF assms(2), of NEGO_INIT]]) simp_all
  then show ?thesis using cleared assms(2) by (simp add: DBinderClearServiceState_dev_def)
next
  case (announced service object)
  have "same_tables s t" unfolding announced by (auto simp: RegisterRemoteProxy_def RegisterRemoteProxyInner_def split: prod.splits)
  then show ?thesis by (rule device_ok_same [OF assms(2)])
next
  case (announced_id service saId)
  have "same_tables s t" unfolding announced_id by (auto simp: RegisterRemoteProxy_said_def RegisterRemoteProxyInner_def split: prod.splits)
  then show ?thesis by (rule device_ok_same [OF assms(2)])
next
  case (ability_gone b remote)
  have "same_tables s t" unfolding ability_gone by (simp add: OnRemoteDied_sa_def DetachProxyObject_def)
  then show ?thesis by (rule device_ok_same [OF assms(2)])
qed (use device_ok_same [OF assms(2)] same_tables_loaded same_tables_closed same_tables_started device_ok_service_gone [OF assms(2)]
    device_ok_device_gone [OF assms(2)] device_ok_remove_recipient(2) [OF assms(2)] device_ok_filled [OF assms(2)] in
    \<open>simp_all add: NoticeServiceDie_dev_def\<close>)

lemma reachable_device_ok: "reachable_device E C s \<Longrightarrow> device_ok s"
proof (induction rule: reachable_device.induct)
  case (init n)
  show ?case by (simp add: DBinderService_def device_ok_def stubs_ok_def finished_ok_def callbacks_ok_def tags_ok_def QuerySessionObject_def)
next
  case (step s t)
  then show ?case using device_ok_step by blast
qed

text \<open>A run: a stub is made, asks, gets its answer and finishes.\<close>

definition demo_found :: dservice where
  "demo_found = snd (snd (FindOrNewDBinderStub demo_env [0x31, 0x30, 0x30] ''bb'' 100 3 4
     (DBinderService \<lparr>ls_listener = Some 5, ls_locks = [], ls_clients = [(''bb'', 8)], ls_servers = [], ls_events = []\<rparr>)))"

definition demo_asked :: dservice where
  "demo_asked = snd (snd (InvokerRemoteDBinderWhenRequest (demo_env\<lparr>de_local_id := ''aa''\<rparr>) 50 1 3 4 demo_found))"

definition demo_told :: dservice where
  "demo_told = snd (OnRemoteMessageTask demo_env 2 (on_entry 2 (\<lambda>_. answer 5 ''DBinder1_2'' 88 MESSAGE_AS_REPLY demo_request) demo_asked))"

lemma demo_texts: "from_chars_uint64 ''100'' = Some 100" "de_Str16ToStr8 demo_env [0x31, 0x30, 0x30] = ''100''"
  by (simp_all add: from_chars_uint64_def is_digit_def str_nat_def digit_val_def char_of_def bit_iff_odd demo_env_def Let_def)

lemma demo_asked_simps: "QueryStubPtr 1 demo_asked = 50" "ds_stubs demo_asked = [50]" "map_of (ds_sessions demo_asked) 50 = None"
  "map_of (ds_threadLocks demo_asked) 1 = Some 60" "IsSameStubObject [0x31, 0x30, 0x30] ''bb'' 3 4 demo_asked 50"
proof -
  let ?E = "demo_env\<lparr>de_local_id := ''aa''\<rparr>"
  define s3 where "s3 = snd (AttachThreadLockInfo_dev 1 ''bb'' 60 ((SetNegoStatusAndTime NEGO_DOING 1 50 demo_found)\<lparr>ds_locks :=
     (ds_locks (SetNegoStatusAndTime NEGO_DOING 1 50 demo_found))(60 := \<lparr>li_networkId = [], li_ready = False\<rparr>)\<rparr>))"
  have f: "ds_stubs demo_found = [50]" "ds_tags demo_found = []" "ds_sessions demo_found = []" "ds_threadLocks demo_found = []" "ds_stubTagNum demo_found = 1"
    "ss_serviceName (ds_heap demo_found 50) = [0x31, 0x30, 0x30]" "ss_deviceID (ds_heap demo_found 50) = ''bb''" "ls_listener (ds_net demo_found) = Some 5"
    "ls_clients (ds_net demo_found) = [(''bb'', 8)]" "ss_peerPid (ds_heap demo_found 50) = 3" "ss_peerUid (ds_heap demo_found 50) = 4"
    by (simp_all add: demo_found_def FindOrNewDBinderStub_def DBinderService_def Let_def demo_env_def DBinderServiceStub_def)
  have s3: "ds_stubs s3 = [50]" "ds_tags s3 = []" "ds_sessions s3 = []" "ds_threadLocks s3 = [(1, 60)]" "ds_stubTagNum s3 = 1"
    "ss_serviceName (ds_heap s3 50) = [0x31, 0x30, 0x30]" "ss_deviceID (ds_heap s3 50) = ''bb''" "ls_listener (ds_net s3) = Some 5"
    "ls_clients (ds_net s3) = [(''bb'', 8)]" "ss_peerPid (ds_heap s3 50) = 3" "ss_peerUid (ds_heap s3 50) = 4"
    by (simp_all add: s3_def AttachThreadLockInfo_dev_def SetNegoStatusAndTime_def on_stub_def omap_insert_def f Let_def)
  obtain m where c: "CreateMessage ?E 50 1 3 4 s3 = (Some m, s3\<lparr>ds_stubTagNum := 2, ds_tags := [(1, 50)]\<rparr>)" "m_fromDeviceId m = replicate 65 0" "m_toDeviceId m = replicate 65 0"
    using s3 demo_texts by (simp add: CreateMessage_def AddStubByTag_def omap_insert_def Let_def zero_entry_def)
  obtain m' where m': "CopyDeviceIDsToMessage std_libc ''aa'' ''bb'' m = Some m'"
    by (simp add: CopyDeviceIDsToMessage_def put_text_def std_libc_def)
  have "SendEntryToRemote ?E 50 1 3 4 s3 = (True, s3\<lparr>ds_stubTagNum := 2, ds_tags := [(1, 50)],
      ds_net := (ds_net s3)\<lparr>ls_locks := snd (omap_insert ''bb'' () (ls_locks (ds_net s3))), ls_events := ls_events (ds_net s3) @ [NetSend 8 m' True]\<rparr>\<rparr>)"
    using s3 c m' by (simp add: SendEntryToRemote_def IsDeviceIdIllegal_def Let_def GetRemoteListener_def SendDataToRemote_def CreateClientSocket_def
      QueryOrNewDeviceLock_def SendBytes_def demo_env_def)
  moreover have "demo_asked = snd (SendEntryToRemote ?E 50 1 3 4 s3)"
    using calculation f unfolding demo_asked_def InvokerRemoteDBinderWhenRequest_def Let_def
    by (simp add: s3_def AttachThreadLockInfo_dev_def SetNegoStatusAndTime_def on_stub_def omap_insert_def demo_env_def Let_def)
  ultimately have e: "demo_asked = s3\<lparr>ds_stubTagNum := 2, ds_tags := [(1, 50)],
      ds_net := (ds_net s3)\<lparr>ls_locks := snd (omap_insert ''bb'' () (ls_locks (ds_net s3))), ls_events := ls_events (ds_net s3) @ [NetSend 8 m' True]\<rparr>\<rparr>"
    by simp
  show "QueryStubPtr 1 demo_asked = 50" "ds_stubs demo_asked = [50]" "map_of (ds_sessions demo_asked) 50 = None"
    "map_of (ds_threadLocks demo_asked) 1 = Some 60" "IsSameStubObject [0x31, 0x30, 0x30] ''bb'' 3 4 demo_asked 50"
    unfolding e using s3 by (simp_all add: QueryStubPtr_def IsSameStubObject_def)
qed

definition demo_finished :: dservice where
  "demo_finished = snd (after_wait demo_env 50 1 60 demo_told)"

lemma demo_told_simps: "QuerySessionObject 50 demo_told = Some (InitializeSession (answer 5 ''DBinder1_2'' 88 MESSAGE_AS_REPLY demo_request))"
  "li_ready (ds_locks demo_told 60)"
proof -
  let ?a = "answer 5 ''DBinder1_2'' 88 MESSAGE_AS_REPLY demo_request"
  let ?c = "on_entry 2 (\<lambda>_. ?a) demo_asked"
  have "ds_messages ?c 2 = ?a" "ds_stubs ?c = [50]" "QueryStubPtr 1 ?c = 50" "QuerySessionObject 50 ?c = None" "QueryThreadLockInfo_dev 1 ?c = Some 60"
    using demo_asked_simps by (simp_all add: on_entry_def QueryStubPtr_def QuerySessionObject_def QueryThreadLockInfo_dev_def)
  moreover have "length (m_serviceName demo_request) = 201" using demo_request_simps(1) by (simp add: entry_wf_def)
  ultimately show "QuerySessionObject 50 demo_told = Some (InitializeSession ?a)" "li_ready (ds_locks demo_told 60)"
    using take_answer [of 2 ?c 5 "''DBinder1_2''" 88 demo_request 50 60 demo_env]
    by (simp_all add: CheckStubIndexAndSessionNameIllegal_def demo_told_def)
qed

lemma demo_reachable: "reachable_device (demo_env\<lparr>de_local_id := ''aa''\<rparr>) C demo_finished"
proof -
  let ?E = "demo_env\<lparr>de_local_id := ''aa''\<rparr>"
  let ?s0 = "DBinderService \<lparr>ls_listener = Some 5, ls_locks = [], ls_clients = [(''bb'', 8)], ls_servers = [], ls_events = []\<rparr>"
  have "FindOrNewDBinderStub ?E [0x31, 0x30, 0x30] ''bb'' 100 3 4 ?s0 = (50, True, demo_found)"
    by (simp add: demo_found_def FindOrNewDBinderStub_def DBinderService_def Let_def demo_env_def DBinderServiceStub_def)
  moreover have "ds_stubs ?s0 = []" by (simp add: DBinderService_def)
  ultimately have st1: "device_step ?E C ?s0 demo_found"
    by (intro device_step.find_stub [where service = "[0x31, 0x30, 0x30]" and device = "''bb''" and object = 100 and pid = 3 and uid = 4 and stub = 50 and isNew = True])
       (simp_all add: IsDeviceIdIllegal_def)
  obtain r l where "InvokerRemoteDBinderWhenRequest ?E 50 1 3 4 demo_found = (r, l, demo_asked)"
    unfolding demo_asked_def by (metis prod.collapse)
  then have st2: "device_step ?E C demo_found demo_asked" by (rule device_step.request [rotated]) simp
  have "OnRemoteMessageTask ?E q u = OnRemoteMessageTask demo_env q u" if "m_dBinderCode (ds_messages u q) \<noteq> MESSAGE_AS_INVOKER" for q u
    using that by (simp add: OnRemoteMessageTask_def Let_def)
  then have st3: "device_step ?E C demo_asked demo_told"
    using device_step.message [of ?E C demo_asked 2 "answer 5 ''DBinder1_2'' 88 MESSAGE_AS_REPLY demo_request"]
    by (simp add: demo_told_def on_entry_def answer_def)
  have "after_wait ?E 50 1 60 demo_told = after_wait demo_env 50 1 60 demo_told" by (simp add: after_wait_def demo_env_def)
  then have st4: "device_step ?E C demo_told demo_finished"
    by (intro device_step.waited [where stub = 50 and seq = 1 and lock = 60]) (simp add: demo_finished_def prod_eq_iff)
  show ?thesis
    by (rule reachable_device.step [OF reachable_device.step [OF reachable_device.step [OF reachable_device.step [OF reachable_device.init st1] st2] st3] st4])
qed



section \<open>Stubs that are returned\<close>

lemma wait_rsp_finished: "wait_rsp E stub seq n s = (DBINDER_OK, None, t) \<Longrightarrow> ss_negoStatus (ds_heap t stub) = NEGO_FINISHED"
  by (induction E stub seq n s rule: wait_rsp.induct) (auto split: if_splits option.splits)

lemma request_has_lock: "InvokerRemoteDBinderWhenRequest E stub seq pid uid s = (r, l, t) \<Longrightarrow> l \<noteq> None"
  by (auto simp: InvokerRemoteDBinderWhenRequest_def Let_def split: prod.splits bool.splits)

lemma after_wait_finished:
  "after_wait E stub seq lock s = (DBINDER_OK, t) \<Longrightarrow> ss_negoStatus (ds_heap t stub) = NEGO_FINISHED"
  by (auto simp: after_wait_def SetNegoStatusAndTime_def on_stub_def split: if_splits)

lemma invoker_finished:
  assumes "InvokerRemoteDBinder E stub seq pid uid isNew s = (DBINDER_OK, t)"
  shows "ss_negoStatus (ds_heap t stub) = NEGO_FINISHED"
proof -
  let ?ask = "isNew \<or> ss_negoStatus (ds_heap s stub) = NEGO_INIT"
  obtain r l s1 where q: "(if ?ask then InvokerRemoteDBinderWhenRequest E stub seq pid uid s else InvokerRemoteDBinderWhenWaitRsp E stub seq s) = (r, l, s1)"
    by (metis prod.collapse)
  have "stub \<noteq> nullptr" using assms by (auto simp: InvokerRemoteDBinder_def)
  then have t: "r = DBINDER_OK \<and> (case l of None \<Rightarrow> t = s1 | Some k \<Rightarrow> after_wait E stub seq k (de_wait E k s1) = (DBINDER_OK, t))"
    using assms q unfolding InvokerRemoteDBinder_def by (auto split: if_splits option.splits)
  show ?thesis
  proof (cases l)
    case None
    then have "\<not> ?ask" using q request_has_lock [of E stub seq pid uid s r l s1] by (auto split: if_splits)
    then have "wait_rsp E stub seq 10 s = (DBINDER_OK, None, t)" using q t None by (simp add: InvokerRemoteDBinderWhenWaitRsp_def)
    then show ?thesis by (rule wait_rsp_finished)
  next
    case (Some k)
    then show ?thesis using t after_wait_finished by fastforce
  qed
qed

text \<open>
  C12. A caller that gets a stub for an ability of another device can use it: when \<open>MakeRemoteBinder\<close>
  returns a stub, whatever other threads did while it waited, its negotiation is finished, and if the
  stub is still registered it has a session with the index of the other device's stub.
\<close>

theorem returned_stub_has_session:
  assumes "MakeRemoteBinder E service device object pid uid s = (p, t)" "p \<noteq> nullptr" "reachable_device E C t"
  shows "ss_negoStatus (ds_heap t p) = NEGO_FINISHED \<and>
    (p \<in> set (ds_stubs t) \<longrightarrow> (\<exists>session. QuerySessionObject p t = Some session \<and> si_stubIndex session \<noteq> 0))"
proof -
  have "ss_negoStatus (ds_heap t p) = NEGO_FINISHED"
    using assms(1,2) invoker_finished unfolding MakeRemoteBinder_def
    by (auto split: if_splits prod.splits)
  moreover have "finished_ok t" using reachable_device_ok [OF assms(3)] by (rule device_okD(2))
  ultimately show ?thesis unfolding finished_ok_def by fastforce
qed

lemma reply_frame:
  assumes "m_dBinderCode (ds_messages s q) = MESSAGE_AS_REPLY"
  shows "ds_heap (snd (OnRemoteMessageTask E q s)) = ds_heap s" "ds_stubs (snd (OnRemoteMessageTask E q s)) = ds_stubs s"
proof -
  have wake: "ds_heap (DetachThreadLockInfo_dev k (WakeupThreadByStub k u)) = ds_heap u" "ds_stubs (DetachThreadLockInfo_dev k (WakeupThreadByStub k u)) = ds_stubs u" for k u
    by (simp_all add: DetachThreadLockInfo_dev_def WakeupThreadByStub_def set_ready_def split: option.splits)
  have mk: "ds_heap (MakeSessionByReplyMessage m u) = ds_heap u" "ds_stubs (MakeSessionByReplyMessage m u) = ds_stubs u" for m u
    by (auto simp: MakeSessionByReplyMessage_def AttachSessionObject_def DetachSessionObject_def Let_def split: option.splits prod.splits)
  show "ds_heap (snd (OnRemoteMessageTask E q s)) = ds_heap s" "ds_stubs (snd (OnRemoteMessageTask E q s)) = ds_stubs s"
    using assms wake mk by (simp_all add: OnRemoteMessageTask_def OnRemoteReplyMessage_def Let_def)
qed

theorem returned_stub_has_session_witness:
  "ss_negoStatus (ds_heap demo_finished 50) = NEGO_FINISHED \<and>
    (\<exists>session. QuerySessionObject 50 demo_finished = Some session \<and> si_stubIndex session \<noteq> 0)"
proof -
  let ?E = "demo_env\<lparr>de_local_id := ''aa''\<rparr>"
  have told: "ds_heap demo_told = ds_heap demo_asked" "ds_stubs demo_told = [50]"
    using reply_frame [of "on_entry 2 (\<lambda>_. answer 5 ''DBinder1_2'' 88 MESSAGE_AS_REPLY demo_request) demo_asked" 2 demo_env] demo_asked_simps(2)
    by (simp_all add: demo_told_def on_entry_def answer_def)
  have f: "demo_finished = SetNegoStatusAndTime NEGO_FINISHED 1 50 demo_told"
    using demo_told_simps by (simp add: demo_finished_def after_wait_def demo_env_def)
  have fin: "ss_negoStatus (ds_heap demo_finished 50) = NEGO_FINISHED" "ds_stubs demo_finished = [50]"
    using told by (simp_all add: f SetNegoStatusAndTime_def on_stub_def)
  have "IsSameStubObject [0x31, 0x30, 0x30] ''bb'' 3 4 demo_finished 50"
    using demo_asked_simps(5) told(1) by (simp add: f IsSameStubObject_def SetNegoStatusAndTime_def on_stub_def)
  then have "FindOrNewDBinderStub ?E [0x31, 0x30, 0x30] ''bb'' 100 3 4 demo_finished = (50, False, demo_finished)"
    using fin by (simp add: FindOrNewDBinderStub_def)
  moreover have "InvokerRemoteDBinder ?E 50 seq 3 4 False demo_finished = (DBINDER_OK, demo_finished)" for seq
    using fin(1) wait_rsp.simps(2) [of ?E 50 seq 9 demo_finished] by (simp add: InvokerRemoteDBinder_def InvokerRemoteDBinderWhenWaitRsp_def)
  ultimately have "MakeRemoteBinder ?E [0x31, 0x30, 0x30] ''bb'' 100 3 4 demo_finished = (50, demo_finished)"
    by (simp add: MakeRemoteBinder_def IsDeviceIdIllegal_def)
  from returned_stub_has_session [OF this _ demo_reachable] fin(2) show ?thesis by simp
qed

end
