(* ===== verification/Payload_Statistics.thy ===== *)
theory Payload_Statistics
  imports Ipc_Strings
begin

text \<open>
  The statistics of requests (\<open>ipc_payload_statistics_impl.cpp\<close>): per process, and per interface and
  code in it, how many requests there were and what they cost. Counters are 64-bit words, costs of a
  request 32-bit words. The conversion of a decimal number to 16-bit characters belongs to another
  library and is the parameter \<open>S8\<close>. The facade \<open>ipc_payload_statistics.cpp\<close> only calls these operations.
\<close>

section \<open>Operations\<close>

record IPCInterfaceInfo =
  ii_desc :: u16string
  ii_code :: int

record IPCPayloadCost =
  pc_totalCost :: u64
  pc_maxCost :: u32
  pc_minCost :: u32
  pc_averCost :: u32

record IPCPayloadInfo =
  pi_interface :: IPCInterfaceInfo
  pi_cost :: IPCPayloadCost
  pi_count :: u64

record payload_stat =
  ps_stat :: "(int, (u16string, IPCPayloadInfo) omap) omap"
  ps_flag :: bool

definition IPCPayloadStatisticsImpl :: payload_stat where
  "IPCPayloadStatisticsImpl = \<lparr>ps_stat = [], ps_flag = False\<rparr>"

definition GetTotalCount :: "payload_stat \<Rightarrow> u64" where
  "GetTotalCount s = fold (\<lambda>p n. fold (\<lambda>e n. n + pi_count (snd e)) (snd p) n) (ps_stat s) 0"

definition GetTotalCost :: "payload_stat \<Rightarrow> u64" where
  "GetTotalCost s = fold (\<lambda>p n. fold (\<lambda>e n. n + pc_totalCost (pi_cost (snd e))) (snd p) n) (ps_stat s) 0"

definition GetPids :: "payload_stat \<Rightarrow> int list" where
  "GetPids s = map fst (ps_stat s)"

definition GetCount :: "int \<Rightarrow> payload_stat \<Rightarrow> u64" where
  "GetCount pid s = (case map_of (ps_stat s) pid of None \<Rightarrow> 0 | Some m \<Rightarrow> fold (\<lambda>e n. n + pi_count (snd e)) m 0)"

definition GetCost :: "int \<Rightarrow> payload_stat \<Rightarrow> u64" where
  "GetCost pid s = (case map_of (ps_stat s) pid of None \<Rightarrow> 0 | Some m \<Rightarrow> fold (\<lambda>e n. n + pc_totalCost (pi_cost (snd e))) m 0)"

definition GetDescriptorCodes :: "int \<Rightarrow> payload_stat \<Rightarrow> IPCInterfaceInfo list" where
  "GetDescriptorCodes pid s = (case map_of (ps_stat s) pid of None \<Rightarrow> [] | Some m \<Rightarrow> map (\<lambda>e. pi_interface (snd e)) m)"

definition GetPayloadInfo :: "int \<Rightarrow> u16string \<Rightarrow> int \<Rightarrow> payload_stat \<Rightarrow> IPCPayloadInfo option" where
  "GetPayloadInfo pid desc cd s =
     (case map_of (ps_stat s) pid of
        None \<Rightarrow> None
      | Some m \<Rightarrow> map_option snd (find (\<lambda>e. cd = ii_code (pi_interface (snd e)) \<and> desc = ii_desc (pi_interface (snd e))) m))"

definition GetDescriptorCodeCount :: "int \<Rightarrow> u16string \<Rightarrow> int \<Rightarrow> payload_stat \<Rightarrow> u64" where
  "GetDescriptorCodeCount pid desc cd s = (case GetPayloadInfo pid desc cd s of None \<Rightarrow> 0 | Some i \<Rightarrow> pi_count i)"

definition GetDescriptorCodeCost :: "int \<Rightarrow> u16string \<Rightarrow> int \<Rightarrow> payload_stat \<Rightarrow> IPCPayloadCost" where
  "GetDescriptorCodeCost pid desc cd s =
     (let zero = \<lparr>pc_totalCost = 0, pc_maxCost = 0, pc_minCost = 0, pc_averCost = 0\<rparr> in
      case GetPayloadInfo pid desc cd s of
        None \<Rightarrow> zero
      | Some i \<Rightarrow> if pi_count i = 0 then zero
                  else (pi_cost i)\<lparr>pc_averCost := ucast (pc_totalCost (pi_cost i) div pi_count i)\<rparr>)"

definition StartStatistics :: "payload_stat \<Rightarrow> payload_stat" where
  "StartStatistics s = (if ps_flag s then s else s\<lparr>ps_stat := [], ps_flag := True\<rparr>)"

definition StopStatistics :: "payload_stat \<Rightarrow> payload_stat" where
  "StopStatistics s = (if ps_flag s then s\<lparr>ps_flag := False\<rparr> else s)"

definition ClearStatisticsData :: "payload_stat \<Rightarrow> payload_stat" where
  "ClearStatisticsData s = s\<lparr>ps_stat := []\<rparr>"

definition desc_key :: "(string \<Rightarrow> u16string) \<Rightarrow> u16string \<Rightarrow> int \<Rightarrow> u16string" where
  "desc_key S8 desc cd = desc @ [0x5F] @ S8 (int_str cd)"

text \<open>What a further request changes in an entry.\<close>

definition add_cost :: "u32 \<Rightarrow> IPCPayloadInfo \<Rightarrow> IPCPayloadInfo" where
  "add_cost cost i =
     (let c = pi_cost i
      in i\<lparr>pi_count := pi_count i + 1,
           pi_cost := c\<lparr>pc_totalCost := pc_totalCost c + ucast cost, pc_maxCost := (if pc_maxCost c < cost then cost else pc_maxCost c),
             pc_minCost := (if pc_minCost c > cost then cost else pc_minCost c)\<rparr>\<rparr>)"

definition UpdatePayloadInfo ::
    "(string \<Rightarrow> u16string) \<Rightarrow> int \<Rightarrow> u16string \<Rightarrow> int \<Rightarrow> u32 \<Rightarrow> payload_stat \<Rightarrow> bool \<times> payload_stat" where
  "UpdatePayloadInfo S8 pid desc cd cost s =
     (if cost = 0 \<or> \<not> ps_flag s then (False, s)
      else
        (let key = desc_key S8 desc cd;
             info = \<lparr>pi_interface = \<lparr>ii_desc = desc, ii_code = cd\<rparr>,
               pi_cost = \<lparr>pc_totalCost = ucast cost, pc_maxCost = cost, pc_minCost = cost, pc_averCost = 0\<rparr>, pi_count = 1\<rparr>
         in case map_of (ps_stat s) pid of
              None \<Rightarrow> (True, s\<lparr>ps_stat := omap_put pid [(key, info)] (ps_stat s)\<rparr>)
            | Some m \<Rightarrow>
                (case map_of m key of
                   None \<Rightarrow> (True, s\<lparr>ps_stat := omap_put pid (omap_put key info m) (ps_stat s)\<rparr>)
                 | Some i \<Rightarrow> (True, s\<lparr>ps_stat := omap_put pid (omap_put key (add_cost cost i) m) (ps_stat s)\<rparr>))))"

section \<open>Keys\<close>

text \<open>What is relied on of the conversion: plain characters keep their codes.\<close>

definition widens :: "(string \<Rightarrow> u16string) \<Rightarrow> bool" where
  "widens S8 \<longleftrightarrow> (\<forall>s. list_all (\<lambda>c. of_char c < (128 :: nat)) s \<longrightarrow> S8 s = map (\<lambda>c. of_nat (of_char c)) s)"

lemma int_str_chars: "c \<in> set (int_str i) \<Longrightarrow> of_char c < (128 :: nat) \<and> c \<noteq> CHR ''_''"
  using nat_str_digits [of c "nat i"] nat_str_digits [of c "nat (- i)"]
  by (auto simp: int_str_def is_digit_def split: if_splits)

lemma wide_inj: "of_char c < (128 :: nat) \<Longrightarrow> of_char d < (128 :: nat) \<Longrightarrow> (of_nat (of_char c) :: u16) = of_nat (of_char d) \<Longrightarrow> c = d"
proof -
  assume a: "of_char c < (128 :: nat)" "of_char d < (128 :: nat)" "(of_nat (of_char c) :: u16) = of_nat (of_char d)"
  have "unat (of_nat (of_char c) :: u16) = of_char c" using a(1) by (simp add: unat_of_nat take_bit_nat_eq_self)
  moreover have "unat (of_nat (of_char d) :: u16) = of_char d" using a(2) by (simp add: unat_of_nat take_bit_nat_eq_self)
  ultimately have "(of_char c :: nat) = of_char d" using a(3) by metis
  then show "c = d" by simp
qed

lemma desc_key_inj:
  assumes "widens S8" "desc_key S8 d c = desc_key S8 d' c'"
  shows "d = d' \<and> c = c'"
proof -
  let ?w = "map (\<lambda>c. of_nat (of_char c) :: u16)"
  have w: "S8 (int_str i) = ?w (int_str i)" for i
    using assms(1) int_str_chars [of _ i] by (simp add: widens_def list_all_iff)
  have no: "0x5F \<notin> set (?w (int_str i))" for i
  proof
    assume "0x5F \<in> set (?w (int_str i))"
    then obtain x where x: "0x5F = (of_nat (of_char x) :: u16)" "x \<in> set (int_str i)" unfolding set_map by (rule imageE)
    have "(of_nat (of_char x) :: u16) = of_nat (of_char (CHR ''_''))" unfolding x(1) [symmetric] by simp
    then show False using wide_inj [of x "CHR ''_''"] int_str_chars [OF x(2)] by simp
  qed
  have "d = d' \<and> ?w (int_str c) = ?w (int_str c')"
    by (rule last_separated_inj [OF no no]) (use assms(2) in \<open>simp add: desc_key_def w\<close>)
  moreover have "inj_on (\<lambda>c. of_nat (of_char c) :: u16) (set (int_str c) \<union> set (int_str c'))"
    using int_str_chars wide_inj by (intro inj_onI) blast
  ultimately show ?thesis using map_inj_on [of "\<lambda>c. of_nat (of_char c) :: u16" "int_str c" "int_str c'"] by simp
qed

section \<open>What the counters mean\<close>

text \<open>
  The samples of an interface are the costs reported for it, without the zeros; an entry of the
  table is a summary of them.
\<close>

record sample =
  sm_pid :: int
  sm_desc :: u16string
  sm_code :: int
  sm_cost :: u32

definition costs_of :: "sample list \<Rightarrow> int \<Rightarrow> u16string \<Rightarrow> int \<Rightarrow> u32 list" where
  "costs_of ss pid d c = map sm_cost (filter (\<lambda>x. sm_pid x = pid \<and> sm_desc x = d \<and> sm_code x = c \<and> sm_cost x \<noteq> 0) ss)"

definition summary :: "u16string \<Rightarrow> int \<Rightarrow> u32 list \<Rightarrow> IPCPayloadInfo" where
  "summary d c xs = \<lparr>pi_interface = \<lparr>ii_desc = d, ii_code = c\<rparr>,
     pi_cost = \<lparr>pc_totalCost = sum_list (map ucast xs), pc_maxCost = Max (set xs), pc_minCost = Min (set xs), pc_averCost = 0\<rparr>,
     pi_count = of_nat (length xs)\<rparr>"

definition report :: "(string \<Rightarrow> u16string) \<Rightarrow> sample \<Rightarrow> payload_stat \<Rightarrow> payload_stat" where
  "report S8 x s = snd (UpdatePayloadInfo S8 (sm_pid x) (sm_desc x) (sm_code x) (sm_cost x) s)"

definition stat_entry :: "payload_stat \<Rightarrow> int \<Rightarrow> u16string \<Rightarrow> IPCPayloadInfo option" where
  "stat_entry s pid k = (case map_of (ps_stat s) pid of None \<Rightarrow> None | Some m \<Rightarrow> map_of m k)"

definition stat_inv :: "(string \<Rightarrow> u16string) \<Rightarrow> sample list \<Rightarrow> payload_stat \<Rightarrow> bool" where
  "stat_inv S8 ss s \<longleftrightarrow> ps_flag s \<and> omap_wf (ps_stat s) \<and> (\<forall>m \<in> snd ` set (ps_stat s). omap_wf m) \<and>
     (\<forall>pid k i. stat_entry s pid k = Some i \<longrightarrow> k = desc_key S8 (ii_desc (pi_interface i)) (ii_code (pi_interface i))) \<and>
     (\<forall>pid d c. stat_entry s pid (desc_key S8 d c) =
        (if costs_of ss pid d c = [] then None else Some (summary d c (costs_of ss pid d c))))"

lemma stat_invD:
  assumes "stat_inv S8 ss s"
  shows "ps_flag s" "omap_wf (ps_stat s)" "\<forall>m \<in> snd ` set (ps_stat s). omap_wf m"
    "stat_entry s pid (desc_key S8 d c) = (if costs_of ss pid d c = [] then None else Some (summary d c (costs_of ss pid d c)))"
  using assms unfolding stat_inv_def by blast+

lemma summary_snoc: "xs \<noteq> [] \<Longrightarrow> add_cost x (summary d c xs) = summary d c (xs @ [x])"
proof -
  have "(if m < x then x else m) = max x m" "(if x < m then x else m) = min x m" for m by (auto simp: max_def min_def)
  then show "xs \<noteq> [] \<Longrightarrow> add_cost x (summary d c xs) = summary d c (xs @ [x])"
    by (simp add: add_cost_def summary_def Let_def del: Max_less_iff Min_gr_iff)
qed

lemma costs_of_snoc:
  "costs_of (ss @ [x]) pid d c = costs_of ss pid d c @
     (if sm_pid x = pid \<and> sm_desc x = d \<and> sm_code x = c \<and> sm_cost x \<noteq> 0 then [sm_cost x] else [])"
  by (simp add: costs_of_def)

text \<open>A report changes one entry.\<close>

definition noted :: "u16string \<Rightarrow> int \<Rightarrow> u32 \<Rightarrow> IPCPayloadInfo option \<Rightarrow> IPCPayloadInfo" where
  "noted d c cost old = (case old of None \<Rightarrow> summary d c [cost] | Some i \<Rightarrow> add_cost cost i)"

lemma report_form:
  fixes S8 :: "string \<Rightarrow> u16string"
  assumes "ps_flag s" "sm_cost x \<noteq> 0"
  defines "m \<equiv> (case map_of (ps_stat s) (sm_pid x) of None \<Rightarrow> [] | Some m \<Rightarrow> m)"
    and "k \<equiv> desc_key S8 (sm_desc x) (sm_code x)"
  shows "report S8 x s = s\<lparr>ps_stat := omap_put (sm_pid x) (omap_put k (noted (sm_desc x) (sm_code x) (sm_cost x) (map_of m k)) m) (ps_stat s)\<rparr>"
  using assms(1,2) by (auto simp: report_def UpdatePayloadInfo_def noted_def summary_def Let_def m_def k_def split: option.splits)

lemma report_entry:
  assumes "ps_flag s" "sm_cost x \<noteq> 0"
  shows "stat_entry (report S8 x s) pid k =
      (if pid = sm_pid x \<and> k = desc_key S8 (sm_desc x) (sm_code x)
       then Some (noted (sm_desc x) (sm_code x) (sm_cost x) (stat_entry s pid k)) else stat_entry s pid k)"
    and "ps_flag (report S8 x s)"
  unfolding report_form [OF assms] using assms(1) by (auto simp: stat_entry_def split: option.splits)

lemma report_wf:
  assumes "ps_flag s" "sm_cost x \<noteq> 0" "omap_wf (ps_stat s)" "\<forall>m \<in> snd ` set (ps_stat s). omap_wf m"
  shows "omap_wf (ps_stat (report S8 x s))" "\<forall>m \<in> snd ` set (ps_stat (report S8 x s)). omap_wf m"
proof -
  have old: "omap_wf (case map_of (ps_stat s) pid of None \<Rightarrow> [] | Some m \<Rightarrow> m)" for pid
    using assms(4) by (fastforce split: option.splits dest: map_of_SomeD)
  have put: "\<forall>m \<in> snd ` set (omap_put pid m' (ps_stat s)). omap_wf m" if "omap_wf m'" for pid m'
    using assms(4) that set_omap_put [of pid m' "ps_stat s"] by auto
  show "omap_wf (ps_stat (report S8 x s))" unfolding report_form [OF assms(1,2)] using omap_wf_put [OF assms(3)] by simp
  show "\<forall>m \<in> snd ` set (ps_stat (report S8 x s)). omap_wf m"
    unfolding report_form [OF assms(1,2)] using put [OF omap_wf_put [OF old]] by simp
qed

lemma stat_inv_report:
  assumes "widens S8" "stat_inv S8 ss s"
  shows "stat_inv S8 (ss @ [x]) (report S8 x s)"
proof (cases "sm_cost x = 0")
  case True
  then have "report S8 x s = s" by (simp add: report_def UpdatePayloadInfo_def)
  then show ?thesis using assms(2) True by (simp add: stat_inv_def costs_of_snoc)
next
  case False
  let ?k = "desc_key S8 (sm_desc x) (sm_code x)" and ?t = "report S8 x s"
  note fl = stat_invD(1) [OF assms(2)] and ent = stat_invD(4) [OF assms(2)]
  note e = report_entry(1) [OF fl False, of S8]
  have new: "stat_entry ?t pid (desc_key S8 d c) =
      (if costs_of (ss @ [x]) pid d c = [] then None else Some (summary d c (costs_of (ss @ [x]) pid d c)))" for pid d c
  proof (cases "pid = sm_pid x \<and> desc_key S8 d c = ?k")
    case True
    then have dc: "pid = sm_pid x" "d = sm_desc x" "c = sm_code x" using desc_key_inj [OF assms(1)] by auto
    then show ?thesis using e [of pid ?k] ent [of pid d c] False
      by (simp add: costs_of_snoc summary_snoc noted_def)
  next
    case f: False
    then have "stat_entry ?t pid (desc_key S8 d c) = stat_entry s pid (desc_key S8 d c)" unfolding e by (simp only: if_False)
    moreover have "costs_of (ss @ [x]) pid d c = costs_of ss pid d c" using f by (auto simp: costs_of_snoc)
    ultimately show ?thesis unfolding ent by simp
  qed
  have key: "k = desc_key S8 (ii_desc (pi_interface i)) (ii_code (pi_interface i))" if "stat_entry ?t pid k = Some i" for pid k i
  proof (cases "pid = sm_pid x \<and> k = ?k")
    case True
    then show ?thesis using that new [of pid "sm_desc x" "sm_code x"] by (auto simp: summary_def split: if_splits)
  next
    case False
    then have "stat_entry s pid k = Some i" using that unfolding e by (simp only: if_False)
    then show ?thesis using assms(2) unfolding stat_inv_def by blast
  qed
  show ?thesis unfolding stat_inv_def
  proof (intro conjI allI impI)
    show "ps_flag ?t" by (rule report_entry(2) [OF fl False])
    show "omap_wf (ps_stat ?t)" "\<forall>m \<in> snd ` set (ps_stat ?t). omap_wf m" by (rule report_wf [OF fl False stat_invD(2,3) [OF assms(2)]])+
  qed (rule key, assumption, rule new)
qed

text \<open>Totals: with words as counters, the sum over a table changes by what the changed entry changes.\<close>

lemma sum_omap_put:
  fixes f :: "'k::linorder \<times> 'v \<Rightarrow> 'a::ab_group_add"
  assumes "omap_wf m"
  shows "sum_list (map f (omap_put k v m)) = sum_list (map f m) + f (k, v) - (case map_of m k of None \<Rightarrow> 0 | Some w \<Rightarrow> f (k, w))"
  using assms
proof (induction k v m rule: omap_put.induct)
  case (2 k v k' v' m)
  have "map_of m k = None" if "k < k'" using that 2(2) by (fastforce simp: map_of_eq_None_iff)
  then show ?case using 2 by (auto simp: algebra_simps split: option.splits)
qed simp

lemma fold_plus: "fold (\<lambda>e n. n + f e) xs (a :: 'a::comm_monoid_add) = a + sum_list (map f xs)"
  by (induction xs arbitrary: a) (simp_all add: ac_simps)

lemma total_forms:
  "GetTotalCount s = sum_list (map (\<lambda>p. sum_list (map (\<lambda>e. pi_count (snd e)) (snd p))) (ps_stat s))"
  "GetTotalCost s = sum_list (map (\<lambda>p. sum_list (map (\<lambda>e. pc_totalCost (pi_cost (snd e))) (snd p))) (ps_stat s))"
  by (simp_all add: GetTotalCount_def GetTotalCost_def fold_plus)

lemma report_totals:
  assumes "ps_flag s" "sm_cost x \<noteq> 0" "omap_wf (ps_stat s)" "\<forall>m \<in> snd ` set (ps_stat s). omap_wf m"
  shows "GetTotalCount (report S8 x s) = GetTotalCount s + 1" "GetTotalCost (report S8 x s) = GetTotalCost s + ucast (sm_cost x)"
proof -
  define m where "m = (case map_of (ps_stat s) (sm_pid x) of None \<Rightarrow> [] | Some m \<Rightarrow> m)"
  have wf: "omap_wf m" using assms(4) by (fastforce simp: m_def split: option.splits dest: map_of_SomeD)
  let ?k = "desc_key S8 (sm_desc x) (sm_code x)"
  have gen: "sum_list (map (\<lambda>p. sum_list (map g (snd p))) (ps_stat (report S8 x s))) = sum_list (map (\<lambda>p. sum_list (map g (snd p))) (ps_stat s)) + d"
    if "\<And>i. g (?k, noted (sm_desc x) (sm_code x) (sm_cost x) (Some i)) = g (?k, i) + d" "g (?k, noted (sm_desc x) (sm_code x) (sm_cost x) None) = d"
    for g :: "u16string \<times> IPCPayloadInfo \<Rightarrow> u64" and d
  proof -
    have "sum_list (map g (omap_put ?k (noted (sm_desc x) (sm_code x) (sm_cost x) (map_of m ?k)) m)) = sum_list (map g m) + d"
      using sum_omap_put [OF wf, of g ?k] that by (cases "map_of m ?k") simp_all
    then show ?thesis unfolding report_form [OF assms(1,2)] m_def [symmetric]
      using sum_omap_put [OF assms(3), of "\<lambda>p. sum_list (map g (snd p))" "sm_pid x"] by (simp add: m_def split: option.splits)
  qed
  show "GetTotalCount (report S8 x s) = GetTotalCount s + 1"
    unfolding total_forms by (rule gen) (simp_all add: noted_def add_cost_def summary_def Let_def)
  show "GetTotalCost (report S8 x s) = GetTotalCost s + ucast (sm_cost x)"
    unfolding total_forms by (rule gen) (simp_all add: noted_def add_cost_def summary_def Let_def)
qed

section \<open>Properties\<close>

abbreviation (input) "statistics_of S8 ss \<equiv> fold (report S8) ss (StartStatistics IPCPayloadStatisticsImpl)"

lemma statistics_inv:
  assumes "widens S8"
  shows "stat_inv S8 ss (statistics_of S8 ss) \<and> GetTotalCount (statistics_of S8 ss) = of_nat (length (filter (\<lambda>x. sm_cost x \<noteq> 0) ss)) \<and>
    GetTotalCost (statistics_of S8 ss) = sum_list (map (\<lambda>x. ucast (sm_cost x)) ss)"
proof (induction ss rule: rev_induct)
  case Nil
  show ?case
    by (simp add: stat_inv_def StartStatistics_def IPCPayloadStatisticsImpl_def costs_of_def stat_entry_def GetTotalCount_def GetTotalCost_def)
next
  case (snoc x ss)
  let ?s = "statistics_of S8 ss"
  have inv: "stat_inv S8 ss ?s" using snoc by simp
  show ?case
  proof (cases "sm_cost x = 0")
    case True
    then have "report S8 x ?s = ?s" by (simp add: report_def UpdatePayloadInfo_def)
    then show ?thesis using snoc True stat_inv_report [OF assms inv, of x] by simp
  next
    case False
    then show ?thesis using snoc stat_inv_report [OF assms inv, of x] report_totals [OF stat_invD(1) [OF inv] False stat_invD(2,3) [OF inv], of S8] by (simp add: add.commute)
  qed
qed

lemma find_by_interface:
  assumes "stat_inv S8 ss s"
  shows "GetPayloadInfo pid d c s = (if costs_of ss pid d c = [] then None else Some (summary d c (costs_of ss pid d c)))"
proof (cases "map_of (ps_stat s) pid")
  case None
  then have "stat_entry s pid (desc_key S8 d c) = None" by (simp add: stat_entry_def)
  then have "costs_of ss pid d c = []" using assms unfolding stat_inv_def by (metis option.distinct(1))
  then show ?thesis using None by (simp add: GetPayloadInfo_def)
next
  case (Some m)
  let ?P = "\<lambda>e. c = ii_code (pi_interface (snd e)) \<and> d = ii_desc (pi_interface (snd e))" and ?k = "desc_key S8 d c"
  have wf: "omap_wf m" using assms Some by (fastforce simp: stat_inv_def dest: map_of_SomeD)
  have ent: "stat_entry s pid k = map_of m k" for k using Some by (simp add: stat_entry_def)
  have own: "?P e \<longleftrightarrow> fst e = ?k" if "e \<in> set m" for e
  proof
    have e: "map_of m (fst e) = Some (snd e)" using that omap_wf_map_of_iff [OF wf] by simp
    then have "fst e = desc_key S8 (ii_desc (pi_interface (snd e))) (ii_code (pi_interface (snd e)))"
      using assms ent unfolding stat_inv_def by metis
    then show "?P e \<Longrightarrow> fst e = ?k" by simp
    assume k: "fst e = ?k"
    then have "stat_entry s pid ?k = Some (snd e)" using e ent by simp
    then have "snd e = summary d c (costs_of ss pid d c)" using assms unfolding stat_inv_def by (metis option.distinct(1) option.inject)
    then show "?P e" by (simp add: summary_def)
  qed
  have "find ?P m = find (\<lambda>e. fst e = ?k) m" by (rule find_cong [OF refl own])
  also have "map_option snd \<dots> = map_of m ?k" by (induction m) auto
  also have "\<dots> = stat_entry s pid ?k" by (simp add: ent)
  finally show ?thesis using Some unfolding GetPayloadInfo_def stat_invD(4) [OF assms] by simp
qed

text \<open>
  C31. The statistics say what was reported: after any reports since the start, in any order and from
  any processes, the entry of an interface and code is the number of its requests that took time,
  with the sum, the greatest and the least of their costs, entries of different interfaces are never
  mixed up, and the totals are those of all reports. (Sums are sums of words.)
\<close>

theorem statistics_summarise_reports:
  assumes "widens S8"
  shows "GetPayloadInfo pid d c (statistics_of S8 ss) = (if costs_of ss pid d c = [] then None else Some (summary d c (costs_of ss pid d c))) \<and>
    GetTotalCount (statistics_of S8 ss) = of_nat (length (filter (\<lambda>x. sm_cost x \<noteq> 0) ss)) \<and>
    GetTotalCost (statistics_of S8 ss) = sum_list (map (\<lambda>x. ucast (sm_cost x)) ss)"
  using statistics_inv [OF assms, of ss] find_by_interface by blast

theorem statistics_summarise_reports_witness:
  "GetTotalCount (fold (report (map (\<lambda>c. of_nat (of_char c)))) [\<lparr>sm_pid = 1, sm_desc = [65], sm_code = 2, sm_cost = 7\<rparr>,
     \<lparr>sm_pid = 1, sm_desc = [65], sm_code = 2, sm_cost = 5\<rparr>] (StartStatistics IPCPayloadStatisticsImpl)) = 2"
proof -
  have "widens (map (\<lambda>c. of_nat (of_char c)))" by (simp add: widens_def)
  from statistics_summarise_reports [OF this, of 1 "[65]" 2 "[\<lparr>sm_pid = 1, sm_desc = [65], sm_code = 2, sm_cost = 7\<rparr>,
     \<lparr>sm_pid = 1, sm_desc = [65], sm_code = 2, sm_cost = 5\<rparr>]"] show ?thesis by simp
qed

lemma word_sum: "sum_list (map (ucast :: u32 \<Rightarrow> u64) xs) = of_nat (sum_list (map unat xs))"
  by (induction xs) simp_all

lemma sum_bound: "sum_list (map unat (xs :: u32 list)) \<le> length xs * (2 ^ 32 - 1)"
proof (induction xs)
  case (Cons x xs)
  have "unat x < 2 ^ LENGTH(32)" by (rule unsigned_less)
  then have "unat x \<le> 2 ^ 32 - 1" by simp
  then show ?case using Cons by simp
qed simp

text \<open>
  As long as an interface has fewer than \<open>2\<^sup>3\<^sup>2\<close> requests nothing wraps around: the reported number and
  total cost are the true ones, and the average is the true average, rounded down.
\<close>

theorem statistics_exact:
  assumes "widens S8" "costs_of ss pid d c = xs" "xs \<noteq> []" "length xs < 2 ^ 32"
  shows "unat (GetDescriptorCodeCount pid d c (statistics_of S8 ss)) = length xs \<and>
    unat (pc_totalCost (GetDescriptorCodeCost pid d c (statistics_of S8 ss))) = sum_list (map unat xs) \<and>
    unat (pc_averCost (GetDescriptorCodeCost pid d c (statistics_of S8 ss))) = sum_list (map unat xs) div length xs"
proof -
  let ?n = "length xs" and ?t = "sum_list (map unat xs)"
  have i: "GetPayloadInfo pid d c (statistics_of S8 ss) = Some (summary d c xs)"
    using find_by_interface [of S8 ss "statistics_of S8 ss" pid d c] statistics_inv [OF assms(1), of ss] assms(2,3) by simp
  have "?n * (2 ^ 32 - 1) < 2 ^ 32 * 2 ^ 32" using assms(4) by (intro mult_strict_mono') simp_all
  then have t: "?t < 2 ^ 64" using sum_bound [of xs] by simp
  have u: "unat (of_nat ?n :: u64) = ?n" "unat (of_nat ?t :: u64) = ?t" using t assms(4) by (simp_all add: unat_of_nat take_bit_nat_eq_self)
  have "?t div ?n \<le> 2 ^ 32 - 1" using div_le_mono [OF sum_bound [of xs], of ?n] assms(3) by simp
  moreover have "unat (of_nat ?t div of_nat ?n :: u64) = ?t div ?n" using u by (simp add: unat_div_distrib)
  ultimately have "unat (ucast (of_nat ?t div of_nat ?n :: u64) :: u32) = ?t div ?n"
    by (simp add: unsigned_ucast_eq take_bit_nat_eq_self)
  moreover have "(of_nat ?n :: u64) \<noteq> 0" using u(1) assms(3) by (metis length_greater_0_conv less_irrefl unat_0)
  ultimately show ?thesis using i u by (simp add: GetDescriptorCodeCount_def GetDescriptorCodeCost_def summary_def word_sum Let_def)
qed

theorem statistics_exact_witness:
  "unat (pc_averCost (GetDescriptorCodeCost 1 [65] 2 (fold (report (map (\<lambda>c. of_nat (of_char c)))) [\<lparr>sm_pid = 1, sm_desc = [65], sm_code = 2, sm_cost = 7\<rparr>,
     \<lparr>sm_pid = 1, sm_desc = [65], sm_code = 2, sm_cost = 5\<rparr>] (StartStatistics IPCPayloadStatisticsImpl)))) = 6"
proof -
  let ?ss = "[\<lparr>sm_pid = 1, sm_desc = [65], sm_code = 2, sm_cost = 7\<rparr>, \<lparr>sm_pid = 1, sm_desc = [65], sm_code = 2, sm_cost = 5\<rparr>]"
  have "widens (map (\<lambda>c. of_nat (of_char c)))" by (simp add: widens_def)
  moreover have "costs_of ?ss 1 [65] 2 = [7, 5]" by (simp add: costs_of_def)
  ultimately show ?thesis using statistics_exact [of _ ?ss 1 "[65]" 2 "[7, 5]"] by (simp add: numeral_2_eq_2 [symmetric])
qed

end
