(* ===== verification/Message_Parcel.thy ===== *)
theory Message_Parcel
  imports Binder_Thread
begin

text \<open>
  \<open>message_parcel.cpp\<close>: remote objects, file descriptors, interface tokens and raw data in a
  parcel, and the release of what the parcel owns.

  The base class \<open>Parcel\<close> is part of another repository. Its state is the type \<open>'p\<close> and its
  operations are the parameter \<open>parcel_ops\<close>; writing through a pointer into its buffer is \<open>po_SetData\<close>.
  Descriptors and shared memory are part of the state: a descriptor refers to a file, a file that is
  shared memory has bytes, and a page of the address space shows a page of a file. An address of a
  mapping is the number of its first page, 0 is null. Which new descriptor or page the system gives,
  and whether it refuses, is the parameter \<open>os_env\<close>. A pointer to bytes that is returned to the
  caller is given as these bytes. An access outside of the buffer sets \<open>w_fault\<close>.
\<close>

section \<open>State\<close>

record 'p parcel_ops =
  po_WriteInt32 :: "int \<Rightarrow> 'p \<Rightarrow> bool \<times> 'p"
  po_ReadInt32 :: "'p \<Rightarrow> int \<times> 'p"
  po_WriteString16 :: "u16string \<Rightarrow> 'p \<Rightarrow> bool \<times> 'p"
  po_ReadString16 :: "'p \<Rightarrow> u16string \<times> 'p"
  po_WriteUnpadBuffer :: "bytes \<Rightarrow> 'p \<Rightarrow> bool \<times> 'p"
  po_ReadUnpadBuffer :: "nat \<Rightarrow> 'p \<Rightarrow> bytes option \<times> 'p"
  po_WriteBuffer :: "bytes \<Rightarrow> 'p \<Rightarrow> bool \<times> 'p"
  po_WriteDescriptor :: "int \<Rightarrow> 'p \<Rightarrow> bool \<times> 'p"
  po_ReadDescriptor :: "'p \<Rightarrow> int option \<times> 'p"
  po_WriteObject :: "ptr \<Rightarrow> 'p \<Rightarrow> bool \<times> 'p"
  po_ReadObject :: "'p \<Rightarrow> ptr \<times> 'p"
  po_GetWritePosition :: "'p \<Rightarrow> nat"
  po_RewindWrite :: "nat \<Rightarrow> 'p \<Rightarrow> bool \<times> 'p"
  po_FlushBuffer :: "'p \<Rightarrow> 'p"
  po_WriteObjectOffset :: "u64 \<Rightarrow> 'p \<Rightarrow> bool \<times> 'p"
  po_EnsureObjectsCapacity :: "'p \<Rightarrow> bool \<times> 'p"
  po_GetData :: "'p \<Rightarrow> bytes option"
  po_GetDataSize :: "'p \<Rightarrow> nat"
  po_SetData :: "bytes \<Rightarrow> 'p \<Rightarrow> 'p"
  po_GetObjectOffsets :: "'p \<Rightarrow> u64 list option"
  po_GetOffsetsSize :: "'p \<Rightarrow> nat"

record 'p message_parcel =
  mp_base :: 'p
  holders :: "ptr list"
  writeRawDataFd :: int
  readRawDataFd :: int
  kernelMappedWrite :: nat
  kernelMappedRead :: nat
  mp_rawData :: "bytes option"
  rawDataSize :: nat
  interfaceToken :: u16string
  isOwner :: bool

definition MessageParcel :: "'p \<Rightarrow> 'p message_parcel" where
  "MessageParcel base = \<lparr>mp_base = base, holders = [], writeRawDataFd = - 1, readRawDataFd = - 1, kernelMappedWrite = 0,
     kernelMappedRead = 0, mp_rawData = None, rawDataSize = 0, interfaceToken = [], isOwner = True\<rparr>"

definition MessageParcel_allocator :: "'p \<Rightarrow> 'p message_parcel" where
  "MessageParcel_allocator base = (MessageParcel base)\<lparr>isOwner := False\<rparr>"

abbreviation (input) MAX_RAWDATA_SIZE :: nat where "MAX_RAWDATA_SIZE \<equiv> 128 * 1024 * 1024"
abbreviation (input) MIN_RAWDATA_SIZE :: nat where "MIN_RAWDATA_SIZE \<equiv> 32 * 1024"

text \<open>The fields of a callback stub.\<close>

record DBinderCallbackStub =
  cs_serviceName :: string
  cs_deviceID :: string
  cs_localDeviceID :: string
  cs_stubIndex :: u64
  cs_handle :: u32
  cs_tokenId :: u32

record parcel_world =
  w_fds :: "int \<rightharpoonup> nat"
  w_shm :: "nat \<rightharpoonup> bytes"
  w_pages :: "nat \<rightharpoonup> nat \<times> nat"
  w_files :: nat
  w_badclose :: "int list"
  w_fault :: bool
  w_cur :: "process_state option"
  w_refs :: "ptr list"
  w_stubs :: "ptr \<rightharpoonup> DBinderCallbackStub"

record os_env =
  os_newfd :: "parcel_world \<Rightarrow> int"
  os_mmap :: "nat \<Rightarrow> parcel_world \<Rightarrow> nat"
  os_setprot :: "int \<Rightarrow> parcel_world \<Rightarrow> int"
  os_alloc :: "parcel_world \<Rightarrow> bool"
  os_libc :: libc

text \<open>What the code asks of remote objects.\<close>

record holder_env =
  he_attempt :: "ptr \<Rightarrow> bool"
  he_isProxy :: "ptr \<Rightarrow> bool"
  he_handle :: "ptr \<Rightarrow> u32"
  he_alive :: "ptr \<Rightarrow> bool"
  he_local :: string
  he_newStub :: ptr
  he_objects :: object_env

section \<open>System calls\<close>

definition sys_dup :: "os_env \<Rightarrow> int \<Rightarrow> parcel_world \<Rightarrow> int \<times> parcel_world" where
  "sys_dup Y fd w =
     (case w_fds w fd of
        None \<Rightarrow> (- 1, w)
      | Some f \<Rightarrow> (let n = os_newfd Y w in if n < 0 then (- 1, w) else (n, w\<lparr>w_fds := (w_fds w)(n \<mapsto> f)\<rparr>)))"

definition sys_close :: "int \<Rightarrow> parcel_world \<Rightarrow> parcel_world" where
  "sys_close fd w =
     (if w_fds w fd = None then w\<lparr>w_badclose := fd # w_badclose w\<rparr> else w\<lparr>w_fds := (w_fds w)(fd := None)\<rparr>)"

definition AshmemCreate :: "os_env \<Rightarrow> nat \<Rightarrow> parcel_world \<Rightarrow> int \<times> parcel_world" where
  "AshmemCreate Y n w =
     (let fd = os_newfd Y w
      in if fd < 0 then (- 1, w)
         else (fd, w\<lparr>w_fds := (w_fds w)(fd \<mapsto> w_files w), w_shm := (w_shm w)(w_files w \<mapsto> replicate n 0),
                 w_files := w_files w + 1\<rparr>))"

definition AshmemGetSize :: "int \<Rightarrow> parcel_world \<Rightarrow> int" where
  "AshmemGetSize fd w =
     (case w_fds w fd of None \<Rightarrow> - 1 | Some f \<Rightarrow> (case w_shm w f of None \<Rightarrow> - 1 | Some b \<Rightarrow> int (length b)))"

definition page_count :: "nat \<Rightarrow> nat" where
  "page_count n = (n + 4095) div 4096"

text \<open>\<open>MAP_FAILED\<close> is 0 here.\<close>

definition sys_mmap :: "os_env \<Rightarrow> nat \<Rightarrow> int \<Rightarrow> parcel_world \<Rightarrow> nat \<times> parcel_world" where
  "sys_mmap Y n fd w =
     (case w_fds w fd of
        None \<Rightarrow> (0, w)
      | Some f \<Rightarrow>
          (let a = os_mmap Y n w
           in if a = 0 then (0, w)
              else (a, w\<lparr>w_pages := (\<lambda>p. if a \<le> p \<and> p < a + page_count n then Some (f, p - a) else w_pages w p)\<rparr>)))"

definition sys_munmap :: "nat \<Rightarrow> nat \<Rightarrow> parcel_world \<Rightarrow> parcel_world" where
  "sys_munmap a n w = w\<lparr>w_pages := (\<lambda>p. if a \<le> p \<and> p < a + page_count n then None else w_pages w p)\<rparr>"

text \<open>The file that is mapped from its start at an address, and the bytes seen there.\<close>

definition mapped_bytes :: "nat \<Rightarrow> nat \<Rightarrow> parcel_world \<Rightarrow> bytes option" where
  "mapped_bytes a n w =
     (case w_pages w a of None \<Rightarrow> None | Some (f, i) \<Rightarrow> map_option (\<lambda>b. take n (drop (4096 * i) b)) (w_shm w f))"

definition copy_to_mapping :: "os_env \<Rightarrow> nat \<Rightarrow> bytes \<Rightarrow> parcel_world \<Rightarrow> int \<times> parcel_world" where
  "copy_to_mapping Y a bs w =
     (case w_pages w a of
        None \<Rightarrow> (- 1, w\<lparr>w_fault := True\<rparr>)
      | Some (f, i) \<Rightarrow>
          (case w_shm w f of
             None \<Rightarrow> (- 1, w\<lparr>w_fault := True\<rparr>)
           | Some old \<Rightarrow> (case memcpy_s (os_libc Y) old (4096 * i) (length bs) bs (length bs) of
                (r, new) \<Rightarrow> (r, w\<lparr>w_shm := (w_shm w)(f \<mapsto> new)\<rparr>))))"

section \<open>Flattened objects in the buffer\<close>

text \<open>
  One round of the loops over the table of objects: \<open>Inl False\<close> for a break, \<open>Inl True\<close> for an access
  outside of the buffer. The sum of an offset and the size of an object is a 64-bit number.
\<close>

definition flat_at :: "'p parcel_ops \<Rightarrow> 'p \<Rightarrow> nat \<Rightarrow> bool + flat_binder_object" where
  "flat_at P p i =
     (case po_GetObjectOffsets P p of
        None \<Rightarrow> Inl False
      | Some offs \<Rightarrow>
          if i \<ge> length offs then Inl True
          else if unat (offs ! i + 24) > po_GetDataSize P p then Inl False
          else (case po_GetData P p of
                  None \<Rightarrow> Inl False
                | Some d \<Rightarrow> if unat (offs ! i) + 24 > length d then Inl True else Inr (flat_of (drop (unat (offs ! i)) d))))"

fun clear_loop :: "'p parcel_ops \<Rightarrow> 'p \<Rightarrow> nat list \<Rightarrow> parcel_world \<Rightarrow> parcel_world" where
  "clear_loop P p [] w = w"
| "clear_loop P p (i # is) w =
     (case flat_at P p i of
        Inl fault \<Rightarrow> (if fault then w\<lparr>w_fault := True\<rparr> else w)
      | Inr f \<Rightarrow> clear_loop P p is
          (if hdr_type f = BINDER_TYPE_FD \<and> fb_handle f > 0 then sys_close (sint (fb_handle f)) w else w))"

definition ClearFileDescriptor :: "'p parcel_ops \<Rightarrow> 'p \<Rightarrow> parcel_world \<Rightarrow> parcel_world" where
  "ClearFileDescriptor P p w = clear_loop P p [0..<po_GetOffsetsSize P p] w"

fun contain_loop :: "'p parcel_ops \<Rightarrow> 'p \<Rightarrow> nat list \<Rightarrow> bool" where
  "contain_loop P p [] = False"
| "contain_loop P p (i # is) =
     (case flat_at P p i of Inl _ \<Rightarrow> False | Inr f \<Rightarrow> if hdr_type f = BINDER_TYPE_FD then True else contain_loop P p is)"

definition ContainFileDescriptors :: "'p parcel_ops \<Rightarrow> 'p message_parcel \<Rightarrow> bool" where
  "ContainFileDescriptors P m = contain_loop P (mp_base m) [0..<po_GetOffsetsSize P (mp_base m)]"

definition destroy_MessageParcel :: "'p parcel_ops \<Rightarrow> 'p message_parcel \<Rightarrow> parcel_world \<Rightarrow> parcel_world" where
  "destroy_MessageParcel P m w =
     (let w1 = (if kernelMappedWrite m \<noteq> 0 then sys_munmap (kernelMappedWrite m) (rawDataSize m) w else w);
          w2 = (if kernelMappedRead m \<noteq> 0 then sys_munmap (kernelMappedRead m) (rawDataSize m) w1 else w1);
          w3 = (if readRawDataFd m > 0 then sys_close (readRawDataFd m) w2 else w2);
          w4 = (if writeRawDataFd m > 0 then sys_close (writeRawDataFd m) w3 else w3)
      in ClearFileDescriptor P (mp_base m) w4)"

section \<open>Remote objects\<close>

text \<open>
  The end of \<open>WriteRemoteObject\<close>. A written buffer object of the size of the negotiation data (416
  bytes) is followed by the flattened object, whose offset is recorded too. The type and the length
  are the first and the fourth field of the buffer object.
\<close>

definition UpdateDBinderDataOffset :: "'p parcel_ops \<Rightarrow> nat \<Rightarrow> 'p message_parcel \<Rightarrow> parcel_world \<Rightarrow> bool \<times> 'p message_parcel \<times> parcel_world" where
  "UpdateDBinderDataOffset P off m w =
     (let cur = po_GetWritePosition P (mp_base m);
          d = (case po_GetData P (mp_base m) of None \<Rightarrow> [] | Some d \<Rightarrow> drop off d)
      in if length d < 4 then (True, m, w\<lparr>w_fault := True\<rparr>)
         else if bytes_word (take 4 d) \<noteq> BINDER_TYPE_PTR then (True, m, w)
         else if length d < 24 then (True, m, w\<lparr>w_fault := True\<rparr>)
         else if bytes_word (take 8 (drop 16 d)) \<noteq> (416 :: u64) then (True, m, w)
         else (case po_WriteObjectOffset P (of_nat (off + 40)) (mp_base m) of
             (True, b) \<Rightarrow> (True, m\<lparr>mp_base := b\<rparr>, w)
           | (False, b) \<Rightarrow> (False, m\<lparr>mp_base := snd (po_RewindWrite P cur b)\<rparr>, w)))"

definition write_object :: "'p parcel_ops \<Rightarrow> ptr \<Rightarrow> 'p message_parcel \<Rightarrow> parcel_world \<Rightarrow> bool \<times> 'p message_parcel \<times> parcel_world" where
  "write_object P object m w =
     (let off = po_GetWritePosition P (mp_base m)
      in case po_WriteObject P object (mp_base m) of
           (False, b) \<Rightarrow> (False, m\<lparr>mp_base := b\<rparr>, w)
         | (True, b) \<Rightarrow>
             (case UpdateDBinderDataOffset P off (m\<lparr>mp_base := b\<rparr>) w of
                (True, m1, w1) \<Rightarrow> (True, m1, w1)
              | (False, m1, w1) \<Rightarrow> (False, m1\<lparr>mp_base := snd (po_RewindWrite P off (mp_base m1))\<rparr>, w1)))"

text \<open>\<open>WriteRemoteObject\<close> for an object that is no proxy, as every callback stub.\<close>

definition write_stub :: "'p parcel_ops \<Rightarrow> holder_env \<Rightarrow> ptr \<Rightarrow> 'p message_parcel \<Rightarrow> parcel_world \<Rightarrow> bool \<times> 'p message_parcel \<times> parcel_world" where
  "write_stub P H object m w =
     (if object = nullptr then (False, m, w)
      else if \<not> he_attempt H object then (False, m, w)
      else write_object P object (m\<lparr>holders := holders m @ [object]\<rparr>) w)"

definition WriteDBinderProxy :: "'p parcel_ops \<Rightarrow> holder_env \<Rightarrow> ptr \<Rightarrow> u32 \<Rightarrow> 'p message_parcel \<Rightarrow> parcel_world \<Rightarrow>
    bool \<times> 'p message_parcel \<times> parcel_world" where
  "WriteDBinderProxy P H object handle m w =
     (case w_cur w of
        None \<Rightarrow> (False, m, w)
      | Some st \<Rightarrow>
          (let so = ProxyQueryDBinderSession handle (ips st) in
           if so = nullptr then (False, m, w)
           else
             (let peer = sessions (ips st) so; fake = QueryDBinderCallbackStub (he_alive H) object (ips st) in
              if fake \<noteq> nullptr then write_stub P H fake m w
              else
                (let new = he_newStub H in
                 if new = nullptr then (False, m, w)
                 else
                   (let w1 = w\<lparr>w_stubs := (w_stubs w)(new \<mapsto> \<lparr>cs_serviceName = serviceName peer, cs_deviceID = serverDeviceId peer,
                          cs_localDeviceID = he_local H, cs_stubIndex = so_stubIndex peer, cs_handle = handle, cs_tokenId = so_tokenId peer\<rparr>)\<rparr>
                    in case AttachDBinderCallbackStub object new (ips st) of
                         (False, s') \<Rightarrow> (False, m, w\<lparr>w_cur := Some (st\<lparr>ips := DetachDBinderCallbackStub new s'\<rparr>)\<rparr>)
                       | (True, s') \<Rightarrow> write_stub P H new m (w1\<lparr>w_cur := Some (st\<lparr>ips := s'\<rparr>)\<rparr>))))))"

definition WriteRemoteObject_mp :: "'p parcel_ops \<Rightarrow> holder_env \<Rightarrow> ptr \<Rightarrow> 'p message_parcel \<Rightarrow> parcel_world \<Rightarrow>
    bool \<times> 'p message_parcel \<times> parcel_world" where
  "WriteRemoteObject_mp P H object m w =
     (if object = nullptr then (False, m, w)
      else if \<not> he_attempt H object then (False, m, w)
      else
        (let m1 = m\<lparr>holders := holders m @ [object]\<rparr> in
         if he_isProxy H object \<and> IsHandleMadeByUser (he_handle H object)
         then WriteDBinderProxy P H object (he_handle H object) m1 w
         else write_object P object m1 w))"

definition ReadRemoteObject_mp :: "'p parcel_ops \<Rightarrow> holder_env \<Rightarrow> 'p message_parcel \<Rightarrow> parcel_world \<Rightarrow> ptr \<times> 'p message_parcel" where
  "ReadRemoteObject_mp P H m w =
     (case po_ReadObject P (mp_base m) of (temp, b) \<Rightarrow>
        let m1 = m\<lparr>mp_base := b\<rparr> in
        if temp \<noteq> nullptr \<and> \<not> he_isProxy H temp
        then (case w_cur w of
                None \<Rightarrow> (temp, m1)
              | Some st \<Rightarrow> (let q = QueryDBinderCallbackProxy (he_alive H) temp (ips st) in (if q \<noteq> nullptr then q else temp, m1)))
        else (temp, m1))"

section \<open>File descriptors\<close>

definition WriteFileDescriptor_mp :: "'p parcel_ops \<Rightarrow> os_env \<Rightarrow> int \<Rightarrow> 'p message_parcel \<Rightarrow> parcel_world \<Rightarrow>
    bool \<times> 'p message_parcel \<times> parcel_world" where
  "WriteFileDescriptor_mp P Y fd m w =
     (if fd < 0 then (False, m, w)
      else (case sys_dup Y fd w of (dupFd, w1) \<Rightarrow>
        if dupFd < 0 then (False, m, w1)
        else if \<not> os_alloc Y w1 then (False, m, sys_close dupFd w1)
        else (case po_WriteDescriptor P dupFd (mp_base m) of
            (False, b) \<Rightarrow> (False, m\<lparr>mp_base := b\<rparr>, sys_close dupFd w1)
          | (True, b) \<Rightarrow> (True, m\<lparr>mp_base := b\<rparr>, w1))))"

definition ReadFileDescriptor_mp :: "'p parcel_ops \<Rightarrow> os_env \<Rightarrow> 'p message_parcel \<Rightarrow> parcel_world \<Rightarrow>
    int \<times> 'p message_parcel \<times> parcel_world" where
  "ReadFileDescriptor_mp P Y m w =
     (case po_ReadDescriptor P (mp_base m) of
        (None, b) \<Rightarrow> (- 1, m\<lparr>mp_base := b\<rparr>, w)
      | (Some fd, b) \<Rightarrow>
          if fd < 0 then (- 1, m\<lparr>mp_base := b\<rparr>, w)
          else (case sys_dup Y fd w of (dupFd, w1) \<Rightarrow> (dupFd, m\<lparr>mp_base := b\<rparr>, w1)))"

section \<open>Interface tokens and exceptions\<close>

definition WriteInterfaceToken_mp :: "'p parcel_ops \<Rightarrow> u16string \<Rightarrow> 'p message_parcel \<Rightarrow> bool \<times> 'p message_parcel" where
  "WriteInterfaceToken_mp P name m =
     (let pos = po_GetWritePosition P (mp_base m) in
      case po_WriteInt32 P 0x100 (mp_base m) of
        (False, b) \<Rightarrow> (False, m\<lparr>mp_base := b\<rparr>)
      | (True, b) \<Rightarrow>
          (case po_WriteInt32 P 0 b of
             (False, b1) \<Rightarrow> (False, m\<lparr>mp_base := (case po_RewindWrite P pos b1 of (True, b2) \<Rightarrow> b2 | (False, b2) \<Rightarrow> po_FlushBuffer P b2)\<rparr>)
           | (True, b1) \<Rightarrow> (case po_WriteString16 P name b1 of (r, b2) \<Rightarrow> (r, m\<lparr>interfaceToken := name, mp_base := b2\<rparr>))))"

definition ReadInterfaceToken_mp :: "'p parcel_ops \<Rightarrow> 'p message_parcel \<Rightarrow> u16string \<times> 'p message_parcel" where
  "ReadInterfaceToken_mp P m =
     (let b1 = snd (po_ReadInt32 P (mp_base m)); b2 = snd (po_ReadInt32 P b1)
      in case po_ReadString16 P b2 of (t, b3) \<Rightarrow> (t, m\<lparr>interfaceToken := t, mp_base := b3\<rparr>))"

definition WriteNoException :: "'p parcel_ops \<Rightarrow> 'p message_parcel \<Rightarrow> 'p message_parcel" where
  "WriteNoException P m = m\<lparr>mp_base := snd (po_WriteInt32 P 0 (mp_base m))\<rparr>"

definition ReadException :: "'p parcel_ops \<Rightarrow> 'p message_parcel \<Rightarrow> int \<times> 'p message_parcel" where
  "ReadException P m =
     (case po_ReadInt32 P (mp_base m) of (e, b) \<Rightarrow> (e, m\<lparr>mp_base := (if e \<noteq> 0 then snd (po_ReadString16 P b) else b)\<rparr>))"

section \<open>Raw data\<close>

text \<open>The data is given as its bytes; \<open>None\<close> is the null pointer.\<close>

definition share_raw_data :: "'p parcel_ops \<Rightarrow> os_env \<Rightarrow> bytes \<Rightarrow> int \<Rightarrow> 'p message_parcel \<Rightarrow> parcel_world \<Rightarrow>
    bool \<times> 'p message_parcel \<times> parcel_world" where
  "share_raw_data P Y d fd m w =
     (if os_setprot Y fd w < 0 then (False, m, w)
      else (case sys_mmap Y (length d) fd w of (a, w1) \<Rightarrow>
        if a = 0 then (False, m, w1)
        else (case WriteFileDescriptor_mp P Y fd m w1 of
            (False, m1, w2) \<Rightarrow> (False, m1, sys_munmap a (length d) w2)
          | (True, m1, w2) \<Rightarrow>
              (case copy_to_mapping Y a d w2 of (r, w3) \<Rightarrow>
                 if r \<noteq> EOK then (False, m1, sys_munmap a (length d) w3)
                 else (True, m1\<lparr>kernelMappedWrite := a, rawDataSize := length d\<rparr>, w3)))))"

definition WriteRawData_mp :: "'p parcel_ops \<Rightarrow> os_env \<Rightarrow> bytes option \<Rightarrow> 'p message_parcel \<Rightarrow> parcel_world \<Rightarrow>
    bool \<times> 'p message_parcel \<times> parcel_world" where
  "WriteRawData_mp P Y dat m w =
     (case dat of
        None \<Rightarrow> (False, m, w)
      | Some d \<Rightarrow>
          if length d > MAX_RAWDATA_SIZE \<or> length d = 0 then (False, m, w)
          else if kernelMappedWrite m \<noteq> 0 then (False, m, w)
          else (case po_WriteInt32 P (int (length d)) (mp_base m) of
              (False, b) \<Rightarrow> (False, m\<lparr>mp_base := b\<rparr>, w)
            | (True, b) \<Rightarrow>
                if length d \<le> MIN_RAWDATA_SIZE
                then (case po_WriteUnpadBuffer P d b of (r, b1) \<Rightarrow> (r, m\<lparr>mp_base := b1, rawDataSize := length d\<rparr>, w))
                else (case AshmemCreate Y (length d) w of (fd, w1) \<Rightarrow>
                  if fd < 0 then (False, m\<lparr>mp_base := b\<rparr>, w1)
                  else share_raw_data P Y d fd (m\<lparr>mp_base := b, writeRawDataFd := fd\<rparr>) w1)))"

definition RestoreRawData :: "bytes option \<Rightarrow> nat \<Rightarrow> 'p message_parcel \<Rightarrow> bool \<times> 'p message_parcel" where
  "RestoreRawData d n m =
     (if mp_rawData m \<noteq> None \<or> d = None then (False, m)
      else (True, m\<lparr>mp_rawData := d, rawDataSize := n, writeRawDataFd := 0\<rparr>))"

definition ReadRawDataInner :: "'p parcel_ops \<Rightarrow> os_env \<Rightarrow> nat \<Rightarrow> 'p message_parcel \<Rightarrow> parcel_world \<Rightarrow>
    bytes option \<times> 'p message_parcel \<times> parcel_world" where
  "ReadRawDataInner P Y n m w =
     (if mp_rawData m \<noteq> None \<and> writeRawDataFd m = 0
      then (case ReadFileDescriptor_mp P Y m w of (fd, m1, w1) \<Rightarrow>
          if fd \<ge> 0 then (None, m1, sys_close fd w1)
          else if rawDataSize m1 \<noteq> n then (None, m1, w1)
          else (mp_rawData m1, m1, w1))
      else (case ReadFileDescriptor_mp P Y m w of (fd, m1, w1) \<Rightarrow>
          if fd < 0 then (None, m1, w1)
          else
            (let m2 = m1\<lparr>readRawDataFd := fd\<rparr>; sz = AshmemGetSize fd w1
             in if sz < 0 \<or> nat sz < n then (None, m2, w1)
                else (case sys_mmap Y n fd w1 of (a, w2) \<Rightarrow>
                  if a = 0 then (None, m2, w2)
                  else (mapped_bytes a n w2, m2\<lparr>kernelMappedRead := a, rawDataSize := n\<rparr>, w2)))))"

definition ReadRawData_mp :: "'p parcel_ops \<Rightarrow> os_env \<Rightarrow> nat \<Rightarrow> 'p message_parcel \<Rightarrow> parcel_world \<Rightarrow>
    bytes option \<times> 'p message_parcel \<times> parcel_world" where
  "ReadRawData_mp P Y n m w =
     (if n = 0 then (None, m, w)
      else (case po_ReadInt32 P (mp_base m) of (i, b) \<Rightarrow>
        let m1 = m\<lparr>mp_base := b\<rparr> in
        if unat (word_of_int i :: u64) \<noteq> n then (None, m1, w)
        else if n \<le> MIN_RAWDATA_SIZE
        then (case po_ReadUnpadBuffer P n b of (r, b1) \<Rightarrow> (r, m1\<lparr>mp_base := b1, rawDataSize := n\<rparr>, w))
        else ReadRawDataInner P Y n m1 w))"

definition GetRawData :: "'p message_parcel \<Rightarrow> parcel_world \<Rightarrow> bytes option" where
  "GetRawData m w =
     (if mp_rawData m \<noteq> None then mp_rawData m
      else if kernelMappedWrite m \<noteq> 0 then mapped_bytes (kernelMappedWrite m) (rawDataSize m) w
      else if kernelMappedRead m \<noteq> 0 then mapped_bytes (kernelMappedRead m) (rawDataSize m) w
      else None)"

text \<open>Shared memory objects, given by their descriptor and size.\<close>

definition WriteAshmem :: "'p parcel_ops \<Rightarrow> os_env \<Rightarrow> int \<times> int \<Rightarrow> 'p message_parcel \<Rightarrow> parcel_world \<Rightarrow>
    bool \<times> 'p message_parcel \<times> parcel_world" where
  "WriteAshmem P Y ash m w =
     (if fst ash < 0 \<or> snd ash \<le> 0 then (False, m, w)
      else (case WriteFileDescriptor_mp P Y (fst ash) m w of
          (False, m1, w1) \<Rightarrow> (False, m1, w1)
        | (True, m1, w1) \<Rightarrow> (case po_WriteInt32 P (snd ash) (mp_base m1) of (r, b) \<Rightarrow> (r, m1\<lparr>mp_base := b\<rparr>, w1))))"

definition ReadAshmem :: "'p parcel_ops \<Rightarrow> os_env \<Rightarrow> 'p message_parcel \<Rightarrow> parcel_world \<Rightarrow>
    (int \<times> int) option \<times> 'p message_parcel \<times> parcel_world" where
  "ReadAshmem P Y m w =
     (case ReadFileDescriptor_mp P Y m w of (fd, m1, w1) \<Rightarrow>
        if fd < 0 then (None, m1, w1)
        else (case po_ReadInt32 P (mp_base m1) of (n, b) \<Rightarrow>
            let m2 = m1\<lparr>mp_base := b\<rparr> in
            if n \<le> 0 then (None, m2, sys_close fd w1)
            else if os_alloc Y w1 then (Some (fd, n), m2, w1) else (None, m2, w1)))"

section \<open>Appending a parcel\<close>

text \<open>
  A flattened object of a copied message gets its own reference or descriptor. A wait for the mutex
  of the objects is left out: \<open>None\<close> of the query is treated like an unknown object.
\<close>

definition AcquireObject :: "holder_env \<Rightarrow> os_env \<Rightarrow> flat_binder_object \<Rightarrow> parcel_world \<Rightarrow> flat_binder_object \<times> parcel_world" where
  "AcquireObject H Y f w =
     (if hdr_type f = BINDER_TYPE_BINDER
      then (f, if fb_binder f \<noteq> 0 \<and> fb_cookie f \<noteq> 0 then w\<lparr>w_refs := fb_cookie f # w_refs w\<rparr> else w)
      else if hdr_type f = BINDER_TYPE_HANDLE
      then (f, case w_cur w of
                 None \<Rightarrow> w
               | Some st \<Rightarrow>
                   (case ips_QueryObject (he_objects H) (MakeHandleDescriptor (he_objects H) (sint (fb_handle f))) True st of
                      Some ob \<Rightarrow> if ob \<noteq> nullptr then w\<lparr>w_refs := ob # w_refs w\<rparr> else w
                    | None \<Rightarrow> w))
      else if hdr_type f = BINDER_TYPE_FD
      then (case sys_dup Y (sint (fb_handle f)) w of (n, w1) \<Rightarrow> ((set_handle (word_of_int n) f)\<lparr>fb_cookie := 1\<rparr>, w1))
      else (f, w))"

fun append_loop :: "'p parcel_ops \<Rightarrow> holder_env \<Rightarrow> os_env \<Rightarrow> nat \<Rightarrow> u64 list \<Rightarrow> 'p message_parcel \<Rightarrow> parcel_world \<Rightarrow>
    bool \<times> 'p message_parcel \<times> parcel_world" where
  "append_loop P H Y old [] m w = (True, m, w)"
| "append_loop P H Y old (o1 # os) m w =
     (case po_EnsureObjectsCapacity P (mp_base m) of
        (False, b) \<Rightarrow> (False, m\<lparr>mp_base := b\<rparr>, w)
      | (True, b) \<Rightarrow>
          (let off = of_nat old + o1 in
           case po_WriteObjectOffset P off b of
             (False, b1) \<Rightarrow> (False, m\<lparr>mp_base := b1\<rparr>, w)
           | (True, b1) \<Rightarrow>
               (case po_GetData P b1 of
                  None \<Rightarrow> (False, m\<lparr>mp_base := b1\<rparr>, w\<lparr>w_fault := True\<rparr>)
                | Some d \<Rightarrow>
                    if unat off + 24 > length d then (False, m\<lparr>mp_base := b1\<rparr>, w\<lparr>w_fault := True\<rparr>)
                    else
                      (case AcquireObject H Y (flat_of (drop (unat off) d)) w of (f, w1) \<Rightarrow>
                         append_loop P H Y old os
                           (m\<lparr>mp_base := po_SetData P (take (unat off) d @ flat_bytes f @ drop (unat off + 24) d) b1\<rparr>) w1))))"

definition Append :: "'p parcel_ops \<Rightarrow> holder_env \<Rightarrow> os_env \<Rightarrow> 'p message_parcel \<Rightarrow> 'p message_parcel \<Rightarrow> parcel_world \<Rightarrow>
    bool \<times> 'p message_parcel \<times> parcel_world" where
  "Append P H Y dat m w =
     (if po_GetDataSize P (mp_base dat) = 0 then (True, m, w)
      else
        (let old = po_GetWritePosition P (mp_base m) in
         case po_WriteBuffer P (case po_GetData P (mp_base dat) of None \<Rightarrow> [] | Some d \<Rightarrow> take (po_GetDataSize P (mp_base dat)) d) (mp_base m) of
           (False, b) \<Rightarrow> (False, m\<lparr>mp_base := b\<rparr>, w)
         | (True, b) \<Rightarrow>
             if po_GetOffsetsSize P (mp_base dat) = 0 then (True, m\<lparr>mp_base := b\<rparr>, w)
             else (case po_GetObjectOffsets P (mp_base dat) of
                     None \<Rightarrow> (False, m\<lparr>mp_base := b\<rparr>, w)
                   | Some offs \<Rightarrow> append_loop P H Y old (take (po_GetOffsetsSize P (mp_base dat)) offs) (m\<lparr>mp_base := b\<rparr>) w)))"

end
