(* ===== verification/Parcel_Proofs.thy ===== *)
theory Parcel_Proofs
  imports Message_Parcel Binder_Identity_Proofs Object_Translation_Proofs
begin

text \<open>
  What a \<open>MessageParcel\<close> owns and that it is given back: descriptors in the buffer, the two
  descriptors and the two mappings of raw data.
\<close>

section \<open>What is relied on of the base class\<close>

text \<open>
  A well-formed buffer has its bytes up to the write position, and its objects lie inside, one
  behind the other. Values are written behind the last byte. The flattened descriptor is the one
  that the invoker writes (\<open>WriteFileDescriptor_binder\<close>).
\<close>

definition table_ok :: "bytes \<Rightarrow> u64 list \<Rightarrow> bool" where
  "table_ok d offs \<longleftrightarrow> length d < 2 ^ 63 \<and> (\<forall>x \<in> set offs. unat x + 24 \<le> length d) \<and>
     sorted_wrt (\<lambda>x y. unat x + 24 \<le> unat y) offs"

definition layout :: "'p parcel_ops \<Rightarrow> 'p \<Rightarrow> bytes \<Rightarrow> u64 list \<Rightarrow> bool" where
  "layout P p d offs \<longleftrightarrow> po_GetData P p = (if d = [] then None else Some d) \<and> po_GetDataSize P p = length d \<and>
     po_GetWritePosition P p = length d \<and> po_GetObjectOffsets P p = (if offs = [] then None else Some offs) \<and>
     po_GetOffsetsSize P p = length offs \<and> table_ok d offs"

definition fd_object :: "int \<Rightarrow> flat_binder_object" where
  "fd_object fd = \<lparr>hdr_type = BINDER_TYPE_FD, fb_flags = 0x17F, fb_binder = ucast (word_of_int fd :: u32), fb_cookie = 0\<rparr>"

definition writes_value :: "'p parcel_ops \<Rightarrow> ('p \<Rightarrow> bool \<times> 'p) \<Rightarrow> bool" where
  "writes_value P f \<longleftrightarrow> (\<forall>p d offs. layout P p d offs \<longrightarrow> (\<exists>bs. layout P (snd (f p)) (d @ bs) offs))"

definition only_reads :: "'p parcel_ops \<Rightarrow> ('p \<Rightarrow> 'p) \<Rightarrow> bool" where
  "only_reads P f \<longleftrightarrow> (\<forall>p d offs. layout P p d offs \<longrightarrow> layout P (f p) d offs)"

definition writes_descriptor :: "'p parcel_ops \<Rightarrow> bool" where
  "writes_descriptor P \<longleftrightarrow> (\<forall>p d offs fd r p'. layout P p d offs \<and> po_WriteDescriptor P fd p = (r, p') \<longrightarrow>
     (if r then layout P p' (d @ flat_bytes (fd_object fd)) (offs @ [of_nat (length d)]) else \<exists>bs. layout P p' (d @ bs) offs))"

definition writes_buffer :: "'p parcel_ops \<Rightarrow> bool" where
  "writes_buffer P \<longleftrightarrow> (\<forall>p d offs bs r p'. layout P p d offs \<and> po_WriteBuffer P bs p = (r, p') \<longrightarrow>
     (if r then \<exists>pad. layout P p' (d @ bs @ pad) offs else layout P p' d offs))"

definition writes_offset :: "'p parcel_ops \<Rightarrow> bool" where
  "writes_offset P \<longleftrightarrow> (\<forall>p d offs x r p'. layout P p d offs \<and> table_ok d (offs @ [x]) \<and> po_WriteObjectOffset P x p = (r, p') \<longrightarrow>
     layout P p' d (if r then offs @ [x] else offs))"

definition writes_through :: "'p parcel_ops \<Rightarrow> bool" where
  "writes_through P \<longleftrightarrow> (\<forall>p d offs d'. layout P p d offs \<and> length d' = length d \<longrightarrow> layout P (po_SetData P d' p) d' offs)"

definition parcel_layout :: "'p parcel_ops \<Rightarrow> bool" where
  "parcel_layout P \<longleftrightarrow>
     (\<forall>i. writes_value P (po_WriteInt32 P i)) \<and> (\<forall>s. writes_value P (po_WriteString16 P s)) \<and>
     (\<forall>bs. writes_value P (po_WriteUnpadBuffer P bs)) \<and>
     writes_descriptor P \<and> writes_buffer P \<and> writes_offset P \<and> writes_through P \<and>
     only_reads P (\<lambda>p. snd (po_EnsureObjectsCapacity P p)) \<and> only_reads P (\<lambda>p. snd (po_ReadInt32 P p)) \<and>
     only_reads P (\<lambda>p. snd (po_ReadString16 P p)) \<and> (\<forall>n. only_reads P (\<lambda>p. snd (po_ReadUnpadBuffer P n p))) \<and>
     only_reads P (\<lambda>p. snd (po_ReadDescriptor P p))"

text \<open>The laws for a call with a given result.\<close>

lemma parcel_layoutD:
  assumes "parcel_layout P" "layout P p d offs"
  shows "po_WriteInt32 P i p = (r, p') \<Longrightarrow> \<exists>bs. layout P p' (d @ bs) offs"
    and "po_WriteString16 P s p = (r, p') \<Longrightarrow> \<exists>bs. layout P p' (d @ bs) offs"
    and "po_WriteUnpadBuffer P u p = (r, p') \<Longrightarrow> \<exists>bs. layout P p' (d @ bs) offs"
    and "po_WriteDescriptor P fd p = (r, p') \<Longrightarrow>
       if r then layout P p' (d @ flat_bytes (fd_object fd)) (offs @ [of_nat (length d)]) else \<exists>bs. layout P p' (d @ bs) offs"
    and "po_ReadInt32 P p = (i', p') \<Longrightarrow> layout P p' d offs"
    and "po_ReadString16 P p = (s', p') \<Longrightarrow> layout P p' d offs"
    and "po_ReadUnpadBuffer P n p = (u', p') \<Longrightarrow> layout P p' d offs"
    and "po_ReadDescriptor P p = (fd', p') \<Longrightarrow> layout P p' d offs"
  using assms unfolding parcel_layout_def writes_value_def only_reads_def writes_descriptor_def by (metis snd_conv)+

text \<open>The system never gives a descriptor or page that is in use; 0 is in use as the standard input.\<close>

definition os_ok :: "os_env \<Rightarrow> bool" where
  "os_ok Y \<longleftrightarrow> (\<forall>w. os_newfd Y w \<noteq> 0 \<and> os_newfd Y w < 2 ^ 31 \<and> (os_newfd Y w > 0 \<longrightarrow> w_fds w (os_newfd Y w) = None)) \<and>
     (\<forall>n w p. os_mmap Y n w \<noteq> 0 \<and> os_mmap Y n w \<le> p \<and> p < os_mmap Y n w + page_count n \<longrightarrow> w_pages w p = None)"

section \<open>Descriptors in the buffer\<close>

definition descriptors :: "bytes \<Rightarrow> u64 list \<Rightarrow> int list" where
  "descriptors d offs = map (\<lambda>f. sint (fb_handle f))
     (filter (\<lambda>f. hdr_type f = BINDER_TYPE_FD \<and> fb_handle f > 0) (map (\<lambda>x. flat_of (drop (unat x) d)) offs))"

lemma flat_of_take: "flat_of (take 24 b) = flat_of b"
  by (simp add: flat_of_def drop_take min_def)

lemma flat_of_inside: "n + 24 \<le> length d \<Longrightarrow> flat_of (drop n (d @ bs)) = flat_of (drop n d)"
  using flat_of_take [of "drop n (d @ bs)"] flat_of_take [of "drop n d"] by simp

lemma unat_plus_24: "unat (x :: u64) + 24 \<le> length d \<Longrightarrow> length d < 2 ^ 63 \<Longrightarrow> unat (x + 24) = unat x + 24"
  by (subst unat_word_ariths) simp

lemma descriptors_append: "table_ok d offs \<Longrightarrow> descriptors (d @ bs) offs = descriptors d offs"
  unfolding descriptors_def
  by (intro arg_cong [where f = "\<lambda>l. map _ (filter _ l)"]) (auto simp: table_ok_def flat_of_inside simp del: drop_append)

lemma flat_at_layout:
  assumes "layout P p d offs" "i < length offs"
  shows "flat_at P p i = Inr (flat_of (drop (unat (offs ! i)) d))"
proof -
  have x: "unat (offs ! i) + 24 \<le> length d" "length d < 2 ^ 63" using assms by (auto simp: layout_def table_ok_def)
  then show ?thesis using assms unat_plus_24 [OF x] by (auto simp: layout_def flat_at_def)
qed

lemma clear_loop_closes:
  assumes "layout P p d offs" "\<forall>i \<in> set is. i < length offs"
  shows "clear_loop P p is w = fold sys_close (descriptors d (map ((!) offs) is)) w"
  using assms(2)
proof (induction "is" arbitrary: w)
  case (Cons i "is")
  then show ?case using flat_at_layout [OF assms(1), of i] by (simp add: descriptors_def)
qed (simp add: descriptors_def)

lemma ClearFileDescriptor_closes:
  assumes "layout P p d offs"
  shows "ClearFileDescriptor P p w = fold sys_close (descriptors d offs) w"
proof -
  have "po_GetOffsetsSize P p = length offs" using assms by (simp add: layout_def)
  then show ?thesis using clear_loop_closes [OF assms, of "[0..<length offs]" w] by (simp add: ClearFileDescriptor_def map_nth)
qed

lemma descriptor_of_fd: "0 < fd \<Longrightarrow> fd < 2 ^ 31 \<Longrightarrow> fb_handle (fd_object fd) > 0 \<and> sint (fb_handle (fd_object fd)) = fd"
proof -
  assume a: "0 < fd" "fd < 2 ^ 31"
  have h: "fb_handle (fd_object fd) = word_of_int fd" by (simp add: fb_handle_def fd_object_def)
  have s: "sint (word_of_int fd :: u32) = fd" using a by (simp add: sint_sbintrunc' signed_take_bit_int_eq_self)
  then show "fb_handle (fd_object fd) > 0 \<and> sint (fb_handle (fd_object fd)) = fd" unfolding h using a(1) by (metis less_irrefl signed_0 word_neq_0_conv)
qed

lemma descriptors_written:
  assumes "0 < fd" "fd < 2 ^ 31" "table_ok d offs"
  shows "descriptors (d @ flat_bytes (fd_object fd)) (offs @ [of_nat (length d)]) = descriptors d offs @ [fd]"
proof -
  have u: "unat (of_nat (length d) :: u64) = length d" using assms(3) by (simp add: table_ok_def unat_of_nat take_bit_nat_eq_self)
  have "flat_of (flat_bytes (fd_object fd)) = fd_object fd" using flat_roundtrip [of "fd_object fd" "[]"] by simp
  then show ?thesis using descriptor_of_fd [OF assms(1,2)] descriptors_append [OF assms(3)] u
    unfolding descriptors_def by (simp add: fd_object_def)
qed

section \<open>Ownership\<close>

text \<open>
  The descriptors \<open>l\<close> are open and belong to the parcel, all others are as outside of it (\<open>F\<close>). The
  pages of the parcel are those of its two mappings, all others are as outside of it (\<open>G\<close>).
\<close>

definition fds_owned :: "(int \<rightharpoonup> nat) \<Rightarrow> int list \<Rightarrow> parcel_world \<Rightarrow> bool" where
  "fds_owned F l w \<longleftrightarrow> distinct l \<and> (\<forall>x \<in> set l. 0 < x \<and> F x = None \<and> w_fds w x \<noteq> None) \<and> (\<forall>x. x \<notin> set l \<longrightarrow> w_fds w x = F x)"

definition owned :: "'p message_parcel \<Rightarrow> bytes \<Rightarrow> u64 list \<Rightarrow> int list" where
  "owned m d offs = (if readRawDataFd m > 0 then [readRawDataFd m] else []) @
     (if writeRawDataFd m > 0 then [writeRawDataFd m] else []) @ descriptors d offs"

lemma owned_fields [simp]:
  "owned (m\<lparr>mp_base := b\<rparr>) = owned m" "owned (m\<lparr>kernelMappedWrite := a\<rparr>) = owned m" "owned (m\<lparr>kernelMappedRead := a\<rparr>) = owned m"
  "owned (m\<lparr>rawDataSize := n\<rparr>) = owned m" "owned (m\<lparr>mp_rawData := x\<rparr>) = owned m" "owned (m\<lparr>interfaceToken := t\<rparr>) = owned m"
  by (simp_all add: owned_def fun_eq_iff)

definition in_map :: "'p message_parcel \<Rightarrow> nat \<Rightarrow> bool" where
  "in_map m p \<longleftrightarrow> kernelMappedWrite m \<noteq> 0 \<and> kernelMappedWrite m \<le> p \<and> p < kernelMappedWrite m + page_count (rawDataSize m) \<or>
     kernelMappedRead m \<noteq> 0 \<and> kernelMappedRead m \<le> p \<and> p < kernelMappedRead m + page_count (rawDataSize m)"

definition pages_owned :: "(nat \<rightharpoonup> nat \<times> nat) \<Rightarrow> 'p message_parcel \<Rightarrow> parcel_world \<Rightarrow> bool" where
  "pages_owned G m w \<longleftrightarrow> (\<forall>p. if in_map m p then G p = None else w_pages w p = G p)"

definition calm :: "parcel_world \<Rightarrow> bool" where
  "calm w \<longleftrightarrow> w_badclose w = [] \<and> \<not> w_fault w"

definition owns :: "'p parcel_ops \<Rightarrow> (int \<rightharpoonup> nat) \<Rightarrow> (nat \<rightharpoonup> nat \<times> nat) \<Rightarrow> 'p message_parcel \<Rightarrow> parcel_world \<Rightarrow> bool" where
  "owns P F G m w \<longleftrightarrow> (\<exists>d offs. layout P (mp_base m) d offs \<and> fds_owned F (owned m d offs) w) \<and> pages_owned G m w \<and> calm w"

lemma closing_all:
  assumes "fds_owned F (l @ l') w" "calm w"
  shows "fds_owned F l' (fold sys_close l w) \<and> calm (fold sys_close l w) \<and> w_pages (fold sys_close l w) = w_pages w"
  using assms
proof (induction l arbitrary: w)
  case (Cons x l)
  have "fds_owned F (l @ l') (sys_close x w) \<and> calm (sys_close x w) \<and> w_pages (sys_close x w) = w_pages w"
    using Cons.prems by (auto simp: fds_owned_def sys_close_def calm_def)
  then show ?case using Cons.IH [of "sys_close x w"] by simp
qed simp

lemma destroy_gives_back:
  assumes "owns P F G m w"
  shows "w_fds (destroy_MessageParcel P m w) = F \<and> w_pages (destroy_MessageParcel P m w) = G \<and> calm (destroy_MessageParcel P m w)"
proof -
  obtain d offs where l: "layout P (mp_base m) d offs" "fds_owned F (owned m d offs) w" using assms by (auto simp: owns_def)
  let ?w1 = "if kernelMappedWrite m \<noteq> 0 then sys_munmap (kernelMappedWrite m) (rawDataSize m) w else w"
  let ?w2 = "if kernelMappedRead m \<noteq> 0 then sys_munmap (kernelMappedRead m) (rawDataSize m) ?w1 else ?w1"
  have same: "w_fds ?w2 = w_fds w" "calm ?w2 = calm w" by (simp_all add: sys_munmap_def calm_def)
  have "w_pages ?w2 p = G p" for p
    using assms by (auto simp: owns_def pages_owned_def in_map_def sys_munmap_def split: if_splits)
  then have g: "w_pages ?w2 = G" by (rule ext)
  have "destroy_MessageParcel P m w = fold sys_close (owned m d offs) ?w2"
    unfolding destroy_MessageParcel_def Let_def ClearFileDescriptor_closes [OF l(1)] owned_def by simp
  moreover have "fds_owned F (owned m d offs @ []) ?w2" using l(2) unfolding fds_owned_def same by simp
  moreover have "calm ?w2" using assms same by (simp add: owns_def)
  ultimately show ?thesis using closing_all [of F "owned m d offs" "[]" ?w2] g by (auto simp: fds_owned_def)
qed

lemma fds_owned_open:
  "fds_owned F l w \<Longrightarrow> 0 < x \<Longrightarrow> w_fds w x = None \<Longrightarrow> fds_owned F (l @ [x]) (w\<lparr>w_fds := (w_fds w)(x \<mapsto> f)\<rparr>)"
  by (auto simp: fds_owned_def)

lemma fds_owned_perm: "fds_owned F l w \<Longrightarrow> set l' = set l \<Longrightarrow> distinct l' \<Longrightarrow> fds_owned F l' w"
  by (simp add: fds_owned_def)

lemma owned_raw:
  assumes "0 < fd"
  shows "\<not> writeRawDataFd m > 0 \<Longrightarrow> set (owned (m\<lparr>writeRawDataFd := fd\<rparr>) d offs) = set (owned m d offs @ [fd])"
    and "\<not> readRawDataFd m > 0 \<Longrightarrow> set (owned (m\<lparr>readRawDataFd := fd\<rparr>) d offs) = set (owned m d offs @ [fd])"
    and "\<not> writeRawDataFd m > 0 \<Longrightarrow> distinct (owned m d offs @ [fd]) \<Longrightarrow> distinct (owned (m\<lparr>writeRawDataFd := fd\<rparr>) d offs)"
    and "\<not> readRawDataFd m > 0 \<Longrightarrow> distinct (owned m d offs @ [fd]) \<Longrightarrow> distinct (owned (m\<lparr>readRawDataFd := fd\<rparr>) d offs)"
  using assms by (auto simp: owned_def)

lemma fds_owned_raw:
  assumes "fds_owned F (owned m d offs @ [fd]) w" "0 < fd"
  shows "\<not> writeRawDataFd m > 0 \<Longrightarrow> fds_owned F (owned (m\<lparr>writeRawDataFd := fd\<rparr>) d offs) w"
    and "\<not> readRawDataFd m > 0 \<Longrightarrow> fds_owned F (owned (m\<lparr>readRawDataFd := fd\<rparr>) d offs) w"
proof -
  have "distinct (owned m d offs @ [fd])" using assms(1) by (simp add: fds_owned_def)
  then show "\<not> writeRawDataFd m > 0 \<Longrightarrow> fds_owned F (owned (m\<lparr>writeRawDataFd := fd\<rparr>) d offs) w"
      "\<not> readRawDataFd m > 0 \<Longrightarrow> fds_owned F (owned (m\<lparr>readRawDataFd := fd\<rparr>) d offs) w"
    using fds_owned_perm [OF assms(1)] owned_raw [OF assms(2)] by blast+
qed

lemma fds_owned_cong: "w_fds w' = w_fds w \<Longrightarrow> fds_owned F l w' = fds_owned F l w"
  by (simp add: fds_owned_def)

lemma newfd_fresh:
  assumes "os_ok Y" "\<not> os_newfd Y w < 0"
  shows "0 < os_newfd Y w" "os_newfd Y w < 2 ^ 31" "w_fds w (os_newfd Y w) = None"
  using assms by (auto simp: os_ok_def) (metis linorder_neqE_linordered_idom)+

text \<open>What opening a descriptor and writing it into the buffer does.\<close>

lemma dup_cases:
  assumes "os_ok Y" "sys_dup Y fd w = (n, w')"
  shows "n < 0 \<and> w' = w \<or>
    0 < n \<and> n < 2 ^ 31 \<and> w_fds w n = None \<and> (\<exists>f. w_fds w fd = Some f \<and> w' = w\<lparr>w_fds := (w_fds w)(n \<mapsto> f)\<rparr>)"
  using assms(2) newfd_fresh [OF assms(1), of w] by (auto simp: sys_dup_def Let_def split: option.splits if_splits)

lemma open_close: "w_fds w n = None \<Longrightarrow> sys_close n (w\<lparr>w_fds := (w_fds w)(n \<mapsto> f)\<rparr>) = w"
  by (cases w) (simp add: sys_close_def fun_upd_idem)

lemma write_fd_spec:
  assumes "os_ok Y" "parcel_layout P" "layout P (mp_base m) d offs" "WriteFileDescriptor_mp P Y fd m w = (r, m', w')"
  obtains (failed) b bs where "m' = m\<lparr>mp_base := b\<rparr>" "\<not> r" "layout P b (d @ bs) offs" "w' = w"
  | (sent) b n f where "m' = m\<lparr>mp_base := b\<rparr>" "r" "layout P b (d @ flat_bytes (fd_object n)) (offs @ [of_nat (length d)])"
      "0 < n" "n < 2 ^ 31" "w_fds w n = None" "w_fds w fd = Some f" "w' = w\<lparr>w_fds := (w_fds w)(n \<mapsto> f)\<rparr>"
proof -
  obtain n w1 where n: "sys_dup Y fd w = (n, w1)" by (meson surj_pair)
  obtain r1 b where b: "po_WriteDescriptor P n (mp_base m) = (r1, b)" by (meson surj_pair)
  note lb = parcel_layoutD(4) [OF assms(2,3) b]
  have m: "m\<lparr>mp_base := mp_base m\<rparr> = m" by simp
  have fail: thesis if "(r, m', w') = (False, m, w)"
    using that assms(3) m by (intro failed [of "mp_base m" "[]"]) simp_all
  show thesis
  proof (cases "fd < 0 \<or> n < 0")
    case True
    then show thesis using fail assms(4) n dup_cases [OF assms(1) n] by (auto simp: WriteFileDescriptor_mp_def split: if_splits)
  next
    case False
    then obtain f where f: "0 < n" "n < 2 ^ 31" "w_fds w n = None" "w_fds w fd = Some f" "w1 = w\<lparr>w_fds := (w_fds w)(n \<mapsto> f)\<rparr>"
      using dup_cases [OF assms(1) n] by auto
    have cl: "sys_close n w1 = w" unfolding f(5) by (rule open_close [OF f(3)])
    show thesis
    proof (cases "os_alloc Y w1")
      case False
      then show thesis using fail assms(4) n \<open>\<not> (fd < 0 \<or> n < 0)\<close> cl by (simp add: WriteFileDescriptor_mp_def)
    next
      case True
      then have e: "(r, m', w') = (r1, m\<lparr>mp_base := b\<rparr>, if r1 then w1 else w)"
        using assms(4) n b \<open>\<not> (fd < 0 \<or> n < 0)\<close> cl by (cases r1) (simp_all add: WriteFileDescriptor_mp_def)
      show thesis
      proof (cases r1)
        case True
        then show thesis using e lb f by (intro sent [of b n f]) simp_all
      next
        case False
        then obtain bs where "layout P b (d @ bs) offs" using lb by auto
        then show thesis using e False by (intro failed [of b bs]) simp_all
      qed
    qed
  qed
qed

section \<open>Operations keep the ownership\<close>

lemma layout_table: "layout P p d offs \<Longrightarrow> table_ok d offs"
  by (simp add: layout_def)

lemma layout_unique: "layout P p d offs \<Longrightarrow> layout P p d' offs' \<Longrightarrow> d' = d \<and> offs' = offs"
  by (auto simp: layout_def split: if_splits)

lemma ownsI: "layout P (mp_base m) d offs \<Longrightarrow> fds_owned F (owned m d offs) w \<Longrightarrow> pages_owned G m w \<Longrightarrow> calm w \<Longrightarrow> owns P F G m w"
  by (auto simp: owns_def)

lemma owns_base:
  assumes "owns P F G m w" "layout P (mp_base m) d offs" "layout P b (d @ bs) offs"
  shows "owns P F G (m\<lparr>mp_base := b\<rparr>) w"
proof (rule ownsI [where d = "d @ bs" and offs = offs])
  have "fds_owned F (owned m d offs) w" using assms(1,2) layout_unique by (fastforce simp: owns_def)
  moreover have "owned (m\<lparr>mp_base := b\<rparr>) (d @ bs) offs = owned m d offs"
    using descriptors_append [OF layout_table [OF assms(2)]] by (simp add: owned_def)
  ultimately show "fds_owned F (owned (m\<lparr>mp_base := b\<rparr>) (d @ bs) offs) w" by simp
qed (use assms in \<open>auto simp: owns_def pages_owned_def in_map_def\<close>)

lemma owns_layout:
  assumes "owns P F G m w"
  obtains d offs where "layout P (mp_base m) d offs" "fds_owned F (owned m d offs) w" "pages_owned G m w" "calm w"
  using assms by (auto simp: owns_def)

lemma owns_write:
  assumes "parcel_layout P" "owns P F G m w"
    "po_WriteInt32 P i (mp_base m) = (r, b) \<or> po_WriteString16 P s (mp_base m) = (r, b) \<or> po_WriteUnpadBuffer P u (mp_base m) = (r, b)"
  shows "owns P F G (m\<lparr>mp_base := b\<rparr>) w"
proof -
  obtain d offs where l: "layout P (mp_base m) d offs" using owns_layout [OF assms(2)] .
  then obtain bs where "layout P b (d @ bs) offs" using parcel_layoutD(1-3) [OF assms(1) l] assms(3) by blast
  then show ?thesis by (rule owns_base [OF assms(2) l])
qed

lemma owns_read:
  assumes "parcel_layout P" "owns P F G m w"
    "po_ReadInt32 P (mp_base m) = (i, b) \<or> po_ReadString16 P (mp_base m) = (s, b) \<or> po_ReadUnpadBuffer P n (mp_base m) = (u, b) \<or>
     po_ReadDescriptor P (mp_base m) = (fd, b)"
  shows "owns P F G (m\<lparr>mp_base := b\<rparr>) w"
proof -
  obtain d offs where l: "layout P (mp_base m) d offs" using owns_layout [OF assms(2)] .
  then have "layout P b (d @ []) offs" using parcel_layoutD(5-8) [OF assms(1) l] assms(3) by auto
  then show ?thesis by (rule owns_base [OF assms(2) l])
qed

lemma owns_write_fd:
  assumes "os_ok Y" "parcel_layout P" "owns P F G m w" "WriteFileDescriptor_mp P Y fd m w = (r, m', w')"
  shows "owns P F G m' w' \<and> (\<exists>b. m' = m\<lparr>mp_base := b\<rparr>) \<and> w_pages w' = w_pages w"
proof -
  obtain d offs where l: "layout P (mp_base m) d offs" "fds_owned F (owned m d offs) w" "pages_owned G m w" "calm w"
    using owns_layout [OF assms(3)] .
  from assms(1,2) l(1) assms(4) show ?thesis
  proof (cases rule: write_fd_spec)
    case (failed b bs)
    then show ?thesis using owns_base [OF assms(3) l(1), of b bs] by auto
  next
    case (sent b n f)
    have o: "owned m' (d @ flat_bytes (fd_object n)) (offs @ [of_nat (length d)]) = owned m d offs @ [n]"
      using sent descriptors_written [OF sent(4,5) layout_table [OF l(1)]] by (simp add: owned_def)
    have "owns P F G m' w'"
    proof (rule ownsI [of P m' "d @ flat_bytes (fd_object n)" "offs @ [of_nat (length d)]"])
      show "fds_owned F (owned m' (d @ flat_bytes (fd_object n)) (offs @ [of_nat (length d)])) w'"
        unfolding o sent(8) by (rule fds_owned_open [OF l(2) sent(4,6)])
    qed (use sent l(3,4) in \<open>simp_all add: pages_owned_def in_map_def calm_def\<close>)
    then show ?thesis using sent by auto
  qed
qed

text \<open>Raw data. No mapping exists yet.\<close>

definition raw_free :: "'p message_parcel \<Rightarrow> bool" where
  "raw_free m \<longleftrightarrow> kernelMappedWrite m = 0 \<and> kernelMappedRead m = 0"

lemma pages_free: "raw_free m \<Longrightarrow> pages_owned G m w \<longleftrightarrow> w_pages w = G"
  by (auto simp: raw_free_def pages_owned_def in_map_def)

lemma owns_cong: "w_fds w' = w_fds w \<Longrightarrow> w_pages w' = w_pages w \<Longrightarrow> calm w' = calm w \<Longrightarrow> owns P F G m w' = owns P F G m w"
  by (simp add: owns_def fds_owned_def pages_owned_def)

lemma owns_size: "raw_free m \<Longrightarrow> owns P F G (m\<lparr>rawDataSize := n\<rparr>) w = owns P F G m w"
  by (simp add: owns_def pages_free raw_free_def owned_def)

lemma mmap_cases:
  assumes "os_ok Y" "sys_mmap Y n fd w = (a, w1)"
  shows "a = 0 \<and> w1 = w \<or>
    a \<noteq> 0 \<and> (\<forall>p. a \<le> p \<and> p < a + page_count n \<longrightarrow> w_pages w p = None) \<and>
    (\<exists>f. w_fds w fd = Some f \<and> w1 = w\<lparr>w_pages := (\<lambda>p. if a \<le> p \<and> p < a + page_count n then Some (f, p - a) else w_pages w p)\<rparr>)"
  using assms by (auto simp: sys_mmap_def os_ok_def Let_def split: option.splits if_splits)

lemma munmap_restores:
  assumes "\<forall>p. a \<le> p \<and> p < a + page_count n \<longrightarrow> G p = None" "\<forall>p. \<not> (a \<le> p \<and> p < a + page_count n) \<longrightarrow> w_pages w p = G p"
  shows "w_pages (sys_munmap a n w) = G"
  using assms by (auto simp: sys_munmap_def)

lemma copy_frame: "copy_to_mapping Y a d w = (r, w') \<Longrightarrow> w_fds w' = w_fds w \<and> w_pages w' = w_pages w \<and> w_badclose w' = w_badclose w"
  by (auto simp: copy_to_mapping_def split: option.splits prod.splits)

lemma owns_pages:
  assumes "owns P F G1 m w" "raw_free m" "w_fds w' = w_fds w" "calm w' = calm w" "w_pages w' = G"
  shows "owns P F G m w'"
  using assms by (auto simp: owns_def fds_owned_def pages_free)

definition overlay :: "nat \<Rightarrow> nat \<Rightarrow> (nat \<rightharpoonup> nat \<times> nat) \<Rightarrow> (nat \<rightharpoonup> nat \<times> nat) \<Rightarrow> bool" where
  "overlay a n G G1 \<longleftrightarrow> a \<noteq> 0 \<and> (\<forall>p. if a \<le> p \<and> p < a + page_count n then G p = None else G1 p = G p)"

lemma owns_mapped:
  assumes "owns P F G1 m w" "raw_free m" "overlay a n G G1"
  shows "owns P F G (m\<lparr>kernelMappedWrite := a, rawDataSize := n\<rparr>) w" "owns P F G (m\<lparr>kernelMappedRead := a, rawDataSize := n\<rparr>) w"
proof -
  obtain d offs where l: "layout P (mp_base m) d offs" "fds_owned F (owned m d offs) w" "w_pages w = G1" "calm w"
    using assms(1,2) pages_free by (metis owns_def)
  have p: "pages_owned G (m\<lparr>kernelMappedWrite := a, rawDataSize := n\<rparr>) w" "pages_owned G (m\<lparr>kernelMappedRead := a, rawDataSize := n\<rparr>) w"
    using assms(2,3) l(3) by (simp_all add: pages_owned_def in_map_def raw_free_def overlay_def)
  show "owns P F G (m\<lparr>kernelMappedWrite := a, rawDataSize := n\<rparr>) w"
    by (rule ownsI [of _ _ d offs]) (use l p in simp_all)
  show "owns P F G (m\<lparr>kernelMappedRead := a, rawDataSize := n\<rparr>) w"
    by (rule ownsI [of _ _ d offs]) (use l p in simp_all)
qed

lemma page_count_pos: "0 < n \<Longrightarrow> 0 < page_count n"
  by (simp add: page_count_def)

lemma mmap_overlay:
  assumes "os_ok Y" "sys_mmap Y n fd w = (a, w1)" "a \<noteq> 0" "0 < n"
  obtains f where "w_fds w fd = Some f" "overlay a n (w_pages w) (w_pages w1)" "w_pages w1 a = Some (f, 0)"
    "w_fds w1 = w_fds w" "w_shm w1 = w_shm w" "calm w1 = calm w"
proof -
  note page_count_pos [OF assms(4)]
  then show thesis using mmap_cases [OF assms(1,2)] assms(3) that by (auto simp: overlay_def calm_def)
qed

lemma munmap_overlay: "overlay a n G (w_pages w) \<Longrightarrow> w_pages (sys_munmap a n w) = G"
  by (intro munmap_restores) (auto simp: overlay_def split: if_splits)

lemma copy_calm:
  assumes "w_pages w a = Some (f, 0)" "w_shm w f = Some c" "copy_to_mapping Y a d w = (r, w')"
  shows "calm w' = calm w"
  using assms by (auto simp: copy_to_mapping_def calm_def split: prod.splits)

lemma write_fd_shm:
  assumes "os_ok Y" "parcel_layout P" "owns P F G m w" "WriteFileDescriptor_mp P Y fd m w = (r, m', w')"
  shows "w_shm w' = w_shm w"
proof -
  obtain d offs where l: "layout P (mp_base m) d offs" using owns_layout [OF assms(3)] .
  from assms(1,2) l assms(4) show ?thesis by (cases rule: write_fd_spec) auto
qed

lemma owns_share:
  assumes "os_ok Y" "parcel_layout P" "owns P F G m w" "raw_free m" "0 < length d"
    "w_fds w fd = Some f" "w_shm w f = Some c" "share_raw_data P Y d fd m w = (r, m', w')"
  shows "owns P F G m' w'"
proof -
  obtain a w1 where a: "sys_mmap Y (length d) fd w = (a, w1)" by (meson surj_pair)
  obtain r2 m1 w2 where x: "WriteFileDescriptor_mp P Y fd m w1 = (r2, m1, w2)" by (metis surj_pair)
  obtain r3 w3 where c: "copy_to_mapping Y a d w2 = (r3, w3)" by (meson surj_pair)
  have G: "w_pages w = G" using assms(3,4) by (simp add: owns_def pages_free)
  show ?thesis
  proof (cases "os_setprot Y fd w < 0 \<or> a = 0")
    case True
    then show ?thesis using assms(3,8) a mmap_cases [OF assms(1) a] by (auto simp: share_raw_data_def split: if_splits)
  next
    case False
    obtain f' where m: "w_fds w fd = Some f'" "overlay a (length d) G (w_pages w1)" "w_pages w1 a = Some (f', 0)"
      "w_fds w1 = w_fds w" "w_shm w1 = w_shm w" "calm w1 = calm w"
      using mmap_overlay [OF assms(1) a _ assms(5)] False unfolding G by auto
    have o1: "owns P F (w_pages w1) m w1" by (rule owns_pages [OF assms(3,4) m(4,6) refl])
    obtain b where o2: "owns P F (w_pages w1) m1 w2" "m1 = m\<lparr>mp_base := b\<rparr>" "w_pages w2 = w_pages w1"
      using owns_write_fd [OF assms(1,2) o1 x] by blast
    have rf: "raw_free m1" using assms(4) o2(2) by (simp add: raw_free_def)
    have shm: "w_shm w2 f' = Some c" using write_fd_shm [OF assms(1,2) o1 x] m(1,5) assms(6,7) by simp
    have c3: "w_fds w3 = w_fds w2" "w_pages w3 = w_pages w2" "calm w3 = calm w2"
      using copy_frame [OF c] copy_calm [OF _ shm c] m(3) o2(3) by simp_all
    have unmap: "owns P F G m1 (sys_munmap a (length d) v)" if "w_fds v = w_fds w2" "w_pages v = w_pages w2" "calm v = calm w2" for v
      by (rule owns_pages [OF o2(1) rf]) (use that m(2) o2(3) munmap_overlay in \<open>auto simp: sys_munmap_def calm_def\<close>)
    have "owns P F (w_pages w1) m1 w3" using o2(1) c3 owns_cong by metis
    then have "owns P F G (m1\<lparr>kernelMappedWrite := a, rawDataSize := length d\<rparr>) w3" by (rule owns_mapped(1) [OF _ rf m(2)])
    then show ?thesis using assms(8) a x c False unmap c3
      by (cases r2; cases "r3 = 0") (auto simp: share_raw_data_def)
  qed
qed

lemma owns_write_raw:
  assumes "os_ok Y" "parcel_layout P" "owns P F G m w" "WriteRawData_mp P Y dat m w = (r, m', w')"
    and guard: "\<And>d. dat = Some d \<Longrightarrow> kernelMappedWrite m = 0 \<Longrightarrow>
      raw_free m \<and> (writeRawDataFd m > 0 \<longrightarrow> length d \<le> MIN_RAWDATA_SIZE)"
  shows "owns P F G m' w'"
proof (cases "dat = None \<or> length (the dat) > MAX_RAWDATA_SIZE \<or> length (the dat) = 0 \<or> kernelMappedWrite m \<noteq> 0")
  case True
  then have "m' = m" "w' = w" using assms(4) by (auto simp: WriteRawData_mp_def split: option.splits if_splits)
  then show ?thesis using assms(3) by simp
next
  case False
  then obtain d where d: "dat = Some d" "0 < length d" "length d \<le> MAX_RAWDATA_SIZE" "kernelMappedWrite m = 0" by auto
  then have g: "raw_free m" "writeRawDataFd m > 0 \<longrightarrow> length d \<le> MIN_RAWDATA_SIZE" using guard by auto
  obtain r1 b where b: "po_WriteInt32 P (int (length d)) (mp_base m) = (r1, b)" by (meson surj_pair)
  obtain r2 b2 where b2: "po_WriteUnpadBuffer P d b = (r2, b2)" by (meson surj_pair)
  obtain fd w1 where c: "AshmemCreate Y (length d) w = (fd, w1)" by (meson surj_pair)
  have o1: "owns P F G (m\<lparr>mp_base := b\<rparr>) w" by (rule owns_write [OF assms(2,3) disjI1 [OF b]])
  have e: "WriteRawData_mp P Y dat m w =
      (if \<not> r1 then (False, m\<lparr>mp_base := b\<rparr>, w)
       else if length d \<le> MIN_RAWDATA_SIZE then (r2, m\<lparr>mp_base := b2, rawDataSize := length d\<rparr>, w)
       else if fd < 0 then (False, m\<lparr>mp_base := b\<rparr>, w1)
       else share_raw_data P Y d fd (m\<lparr>mp_base := b, writeRawDataFd := fd\<rparr>) w1)"
    using d b b2 c by (cases r1) (simp_all add: WriteRawData_mp_def)
  have small: "owns P F G (m\<lparr>mp_base := b2, rawDataSize := length d\<rparr>) w"
    using owns_write [OF assms(2) o1, of 0 r2 b2 "[]" d] b2 owns_size [of "m\<lparr>mp_base := b2\<rparr>" P F G "length d" w] g(1)
    by (simp add: raw_free_def)
  have large: "owns P F G m' w'" if l: "\<not> length d \<le> MIN_RAWDATA_SIZE" "\<not> fd < 0" "share_raw_data P Y d fd (m\<lparr>mp_base := b, writeRawDataFd := fd\<rparr>) w1 = (r, m', w')"
  proof -
    let ?m = "m\<lparr>mp_base := b, writeRawDataFd := fd\<rparr>"
    have fd: "fd = os_newfd Y w" "w1 = w\<lparr>w_fds := (w_fds w)(fd \<mapsto> w_files w), w_shm := (w_shm w)(w_files w \<mapsto> replicate (length d) 0), w_files := w_files w + 1\<rparr>"
      using c l(2) by (auto simp: AshmemCreate_def Let_def split: if_splits)
    have n: "0 < fd" "w_fds w fd = None" using newfd_fresh [OF assms(1), of w] l(2) fd(1) by auto
    obtain dd offs where o: "layout P b dd offs" "fds_owned F (owned (m\<lparr>mp_base := b\<rparr>) dd offs) w" "pages_owned G (m\<lparr>mp_base := b\<rparr>) w" "calm w"
      using owns_layout [OF o1] by auto
    have "fds_owned F (owned (m\<lparr>mp_base := b\<rparr>) dd offs @ [fd]) w1"
      using fds_owned_open [OF o(2) n, of "w_files w"] fd(2) by (simp add: fds_owned_def)
    then have "fds_owned F (owned (m\<lparr>mp_base := b, writeRawDataFd := fd\<rparr>) dd offs) w1"
      by (rule fds_owned_raw(1) [OF _ n(1)]) (use g(2) l(1) in simp)
    then have "owns P F G ?m w1"
      using o(1,3,4) fd(2) g(1) by (intro ownsI [of P ?m dd offs]) (simp_all add: pages_free raw_free_def calm_def)
    from owns_share [OF assms(1,2) this _ d(2) _ _ l(3)] show ?thesis using g(1) fd(2) by (simp add: raw_free_def)
  qed
  have f: "fd < 0 \<Longrightarrow> w1 = w" using c by (auto simp: AshmemCreate_def Let_def split: if_splits)
  consider "\<not> r1" | "r1" "length d \<le> MIN_RAWDATA_SIZE" | "r1" "\<not> length d \<le> MIN_RAWDATA_SIZE" "fd < 0"
    | "r1" "\<not> length d \<le> MIN_RAWDATA_SIZE" "\<not> fd < 0" by blast
  then show ?thesis
  proof cases
    case 4
    then have "share_raw_data P Y d fd (m\<lparr>mp_base := b, writeRawDataFd := fd\<rparr>) w1 = (r, m', w')" using assms(4) unfolding e by simp
    then show ?thesis by (rule large [OF 4(2,3)])
  qed (use assms(4) o1 small f in \<open>simp_all add: e\<close>)
qed

lemma owns_lend:
  assumes "owns P F G m w" "w_fds w x = None"
  shows "owns P (F(x \<mapsto> f)) G m (w\<lparr>w_fds := (w_fds w)(x \<mapsto> f)\<rparr>)"
proof -
  obtain d offs where l: "layout P (mp_base m) d offs" "fds_owned F (owned m d offs) w" "pages_owned G m w" "calm w" using owns_layout [OF assms(1)] .
  then have "x \<notin> set (owned m d offs)" using assms(2) by (auto simp: fds_owned_def)
  then show ?thesis using l by (intro ownsI [of _ _ d offs]) (auto simp: fds_owned_def pages_owned_def calm_def)
qed

lemma owns_read_fd:
  assumes "os_ok Y" "parcel_layout P" "owns P F G m w" "ReadFileDescriptor_mp P Y m w = (fd, m', w')"
  obtains b where "m' = m\<lparr>mp_base := b\<rparr>" "owns P F G m' w" "fd < 0" "w' = w"
  | b f where "m' = m\<lparr>mp_base := b\<rparr>" "owns P F G m' w" "0 < fd" "w_fds w fd = None" "w' = w\<lparr>w_fds := (w_fds w)(fd \<mapsto> f)\<rparr>"
proof -
  obtain x b where b: "po_ReadDescriptor P (mp_base m) = (x, b)" by (meson surj_pair)
  obtain n w1 where n: "sys_dup Y (the x) w = (n, w1)" by (meson surj_pair)
  have o: "owns P F G (m\<lparr>mp_base := b\<rparr>) w" using owns_read [OF assms(2,3)] b by blast
  have "m' = m\<lparr>mp_base := b\<rparr> \<and> (fd < 0 \<and> w' = w \<or> fd = n \<and> w' = w1)"
    using assms(4) b n by (auto simp: ReadFileDescriptor_mp_def split: option.splits if_splits)
  then show thesis using dup_cases [OF assms(1) n] that o by auto
qed

lemma owns_read_raw_inner:
  assumes "os_ok Y" "parcel_layout P" "owns P F G m w" "ReadRawDataInner P Y n m w = (r, m', w')" "raw_free m" "\<not> readRawDataFd m > 0" "0 < n"
  shows "owns P F G m' w'"
proof -
  obtain fd m1 w1 where x: "ReadFileDescriptor_mp P Y m w = (fd, m1, w1)" by (metis surj_pair)
  obtain a w2 where a: "sys_mmap Y n fd w1 = (a, w2)" by (meson surj_pair)
  let ?m2 = "m1\<lparr>readRawDataFd := fd\<rparr>"
  from assms(1-3) x show ?thesis
  proof (cases rule: owns_read_fd)
    case (1 b)
    then show ?thesis using assms(4) x by (auto simp: ReadRawDataInner_def split: if_splits)
  next
    case (2 b f)
    have cl: "sys_close fd w1 = w" unfolding 2(5) by (rule open_close [OF 2(4)])
    obtain d offs where l: "layout P (mp_base m1) d offs" "fds_owned F (owned m1 d offs) w" "pages_owned G m1 w" "calm w"
      using owns_layout [OF 2(2)] .
    have rf: "raw_free m1" "raw_free ?m2" using assms(5) 2(1) by (simp_all add: raw_free_def)
    have "fds_owned F (owned ?m2 d offs) w1"
      by (rule fds_owned_raw(2) [OF _ 2(3)]) (use fds_owned_open [OF l(2) 2(3,4), of f] 2(1,5) assms(6) in simp_all)
    then have o2: "owns P F G ?m2 w1" using l rf 2(5) by (intro ownsI [of _ _ d offs]) (simp_all add: pages_free calm_def)
    have G: "w_pages w1 = G" using o2 rf by (simp add: owns_def pages_free)
    have o3: "owns P F G (?m2\<lparr>kernelMappedRead := a, rawDataSize := n\<rparr>) w2" if nz: "a \<noteq> 0"
    proof -
      have g: "overlay a n G (w_pages w2)" "w_fds w2 = w_fds w1" "calm w2 = calm w1"
        by (rule mmap_overlay [OF assms(1) a nz assms(7)]; use G in simp)+
      have "owns P F (w_pages w2) ?m2 w2" by (rule owns_pages [OF o2 rf(2) g(2,3) refl])
      then show ?thesis by (rule owns_mapped(2) [OF _ rf(2) g(1)])
    qed
    have z: "a = 0 \<Longrightarrow> w2 = w1" using mmap_cases [OF assms(1) a] by auto
    have "(m', w') = (m1, w) \<or> (m', w') = (?m2, w1) \<or> a \<noteq> 0 \<and> (m', w') = (?m2\<lparr>kernelMappedRead := a, rawDataSize := n\<rparr>, w2)"
      using assms(4) x a cl 2(3) z by (auto simp: ReadRawDataInner_def Let_def split: if_splits)
    then show ?thesis using 2(2) o2 o3 by auto
  qed
qed

lemma owns_read_raw:
  assumes "os_ok Y" "parcel_layout P" "owns P F G m w" "ReadRawData_mp P Y n m w = (r, m', w')"
    "raw_free m" "readRawDataFd m > 0 \<longrightarrow> n \<le> MIN_RAWDATA_SIZE"
  shows "owns P F G m' w'"
proof -
  obtain i b where b: "po_ReadInt32 P (mp_base m) = (i, b)" by (meson surj_pair)
  obtain u b1 where u: "po_ReadUnpadBuffer P n b = (u, b1)" by (meson surj_pair)
  let ?m1 = "m\<lparr>mp_base := b\<rparr>"
  have o1: "owns P F G ?m1 w" using owns_read [OF assms(2,3)] b by blast
  have o2: "owns P F G (m\<lparr>mp_base := b1\<rparr>) w" using owns_read [OF assms(2) o1, of _ b1 _ n u] u by auto
  have o3: "owns P F G (m\<lparr>mp_base := b1, rawDataSize := n\<rparr>) w" using owns_size [of "m\<lparr>mp_base := b1\<rparr>"] o2 assms(5) by (simp add: raw_free_def)
  consider "(m', w') = (m, w)" | "(m', w') = (?m1, w)" | "(m', w') = (m\<lparr>mp_base := b1, rawDataSize := n\<rparr>, w)"
    | "ReadRawDataInner P Y n ?m1 w = (r, m', w')" "\<not> n \<le> MIN_RAWDATA_SIZE"
    using assms(4) b u by (auto simp: ReadRawData_mp_def Let_def split: if_splits)
  then show ?thesis
  proof cases
    case 4
    then show ?thesis using owns_read_raw_inner [OF assms(1,2) o1 4(1)] assms(5,6) by (simp add: raw_free_def)
  qed (use assms(3) o1 o3 in simp_all)
qed

lemma owns_restore:
  assumes "owns P F G m w" "raw_free m" "\<not> writeRawDataFd m > 0" "RestoreRawData d n m = (r, m')"
  shows "owns P F G m' w"
proof -
  have "owns P F G (m\<lparr>mp_rawData := d, rawDataSize := n, writeRawDataFd := 0\<rparr>) w"
  proof -
    obtain x offs where l: "layout P (mp_base m) x offs" "fds_owned F (owned m x offs) w" "pages_owned G m w" "calm w" using owns_layout [OF assms(1)] .
    moreover have "owned (m\<lparr>mp_rawData := d, rawDataSize := n, writeRawDataFd := 0\<rparr>) x offs = owned m x offs"
      using assms(3) by (simp add: owned_def)
    ultimately show ?thesis using assms(2) by (intro ownsI [of _ _ x offs]) (simp_all add: pages_free raw_free_def)
  qed
  then show ?thesis using assms(1,4) by (auto simp: RestoreRawData_def split: if_splits)
qed

section \<open>Everything is given back\<close>

text \<open>
  Runs of operations on a parcel, new or received, that holds the bytes \<open>d\<close> with the objects \<open>offs\<close>.
  Descriptors that are read belong to the caller (\<open>lent\<close>). Raw data is written or read only while no
  raw data is mapped, and shared memory for it is asked for at most once in each direction.
\<close>

inductive parcel_run :: "'p parcel_ops \<Rightarrow> os_env \<Rightarrow> bytes \<Rightarrow> u64 list \<Rightarrow> parcel_world \<Rightarrow> (int \<rightharpoonup> nat) \<Rightarrow> 'p message_parcel \<Rightarrow> parcel_world \<Rightarrow> bool"
  for P :: "'p parcel_ops" and Y d offs w0 where
  created: "layout P base d offs \<Longrightarrow> parcel_run P Y d offs w0 (\<lambda>x. None) (MessageParcel base) w0"
| write_int: "parcel_run P Y d offs w0 L m w \<Longrightarrow> po_WriteInt32 P i (mp_base m) = (r, b) \<Longrightarrow>
    parcel_run P Y d offs w0 L (m\<lparr>mp_base := b\<rparr>) w"
| write_string: "parcel_run P Y d offs w0 L m w \<Longrightarrow> po_WriteString16 P s (mp_base m) = (r, b) \<Longrightarrow>
    parcel_run P Y d offs w0 L (m\<lparr>mp_base := b\<rparr>) w"
| write_fd: "parcel_run P Y d offs w0 L m w \<Longrightarrow> WriteFileDescriptor_mp P Y fd m w = (r, m', w') \<Longrightarrow> parcel_run P Y d offs w0 L m' w'"
| write_ashmem: "parcel_run P Y d offs w0 L m w \<Longrightarrow> WriteAshmem P Y ash m w = (r, m', w') \<Longrightarrow> parcel_run P Y d offs w0 L m' w'"
| write_raw: "parcel_run P Y d offs w0 L m w \<Longrightarrow> kernelMappedRead m = 0 \<Longrightarrow>
    kernelMappedWrite m \<noteq> 0 \<or> \<not> writeRawDataFd m > 0 \<or> (\<exists>x. dat = Some x \<and> length x \<le> MIN_RAWDATA_SIZE) \<Longrightarrow>
    WriteRawData_mp P Y dat m w = (r, m', w') \<Longrightarrow> parcel_run P Y d offs w0 L m' w'"
| restore_raw: "parcel_run P Y d offs w0 L m w \<Longrightarrow> raw_free m \<Longrightarrow> \<not> writeRawDataFd m > 0 \<Longrightarrow>
    RestoreRawData x n m = (r, m') \<Longrightarrow> parcel_run P Y d offs w0 L m' w"
| read_int: "parcel_run P Y d offs w0 L m w \<Longrightarrow> po_ReadInt32 P (mp_base m) = (i, b) \<Longrightarrow> parcel_run P Y d offs w0 L (m\<lparr>mp_base := b\<rparr>) w"
| read_string: "parcel_run P Y d offs w0 L m w \<Longrightarrow> po_ReadString16 P (mp_base m) = (s, b) \<Longrightarrow> parcel_run P Y d offs w0 L (m\<lparr>mp_base := b\<rparr>) w"
| read_fd: "parcel_run P Y d offs w0 L m w \<Longrightarrow> ReadFileDescriptor_mp P Y m w = (fd, m', w') \<Longrightarrow>
    parcel_run P Y d offs w0 (if fd < 0 then L else L(fd := w_fds w' fd)) m' w'"
| read_raw: "parcel_run P Y d offs w0 L m w \<Longrightarrow> raw_free m \<Longrightarrow> readRawDataFd m > 0 \<longrightarrow> n \<le> MIN_RAWDATA_SIZE \<Longrightarrow>
    ReadRawData_mp P Y n m w = (r, m', w') \<Longrightarrow> parcel_run P Y d offs w0 L m' w'"

definition others :: "bytes \<Rightarrow> u64 list \<Rightarrow> parcel_world \<Rightarrow> (int \<rightharpoonup> nat)" where
  "others d offs w = (\<lambda>x. if x \<in> set (descriptors d offs) then None else w_fds w x)"

definition starts_well :: "bytes \<Rightarrow> u64 list \<Rightarrow> parcel_world \<Rightarrow> bool" where
  "starts_well d offs w \<longleftrightarrow> calm w \<and> distinct (descriptors d offs) \<and> (\<forall>x \<in> set (descriptors d offs). 0 < x \<and> w_fds w x \<noteq> None)"

lemma run_owns:
  assumes "parcel_run P Y d offs w0 L m w" "os_ok Y" "parcel_layout P" "starts_well d offs w0"
  shows "owns P (others d offs w0 ++ L) (w_pages w0) m w"
  using assms(1)
proof induction
  case (created base)
  then show ?case using assms(4)
    by (intro ownsI [of _ _ d offs])
      (auto simp: MessageParcel_def owned_def fds_owned_def starts_well_def others_def pages_owned_def in_map_def map_add_def)
next
  case (write_int L m w i r b)
  then show ?case using owns_write [OF assms(3)] by blast
next
  case (write_string L m w s r b)
  then show ?case using owns_write [OF assms(3)] by blast
next
  case (write_fd L m w fd r m' w')
  then show ?case using owns_write_fd [OF assms(2,3)] by blast
next
  case (write_ashmem L m w ash r m' w')
  obtain r1 m1 w1 where a: "WriteFileDescriptor_mp P Y (fst ash) m w = (r1, m1, w1)" by (metis surj_pair)
  obtain r2 b where b: "po_WriteInt32 P (snd ash) (mp_base m1) = (r2, b)" by (meson surj_pair)
  note o1 = conjunct1 [OF owns_write_fd [OF assms(2,3) write_ashmem.IH a]]
  have "owns P (others d offs w0 ++ L) (w_pages w0) (m1\<lparr>mp_base := b\<rparr>) w1" by (rule owns_write [OF assms(3) o1 disjI1 [OF b]])
  then show ?case using write_ashmem.hyps(2) a b o1 write_ashmem.IH by (auto simp: WriteAshmem_def split: if_splits bool.splits)
next
  case (write_raw L m w dat r m' w')
  show ?case by (rule owns_write_raw [OF assms(2,3) write_raw.IH write_raw.hyps(4)]) (use write_raw.hyps(2,3) in \<open>auto simp: raw_free_def\<close>)
next
  case (restore_raw L m w x n r m')
  then show ?case using owns_restore by blast
next
  case (read_int L m w i b)
  then show ?case using owns_read [OF assms(3)] by blast
next
  case (read_string L m w s b)
  then show ?case using owns_read [OF assms(3)] by blast
next
  case (read_fd L m w fd m' w')
  from assms(2,3) read_fd.IH read_fd.hyps(2) show ?case
  proof (cases rule: owns_read_fd)
    case (2 b f)
    have e: "(if fd < 0 then L else L(fd := w_fds w' fd)) = L(fd \<mapsto> f)" using 2(3,5) by simp
    show ?thesis unfolding e unfolding map_add_upd 2(5) by (rule owns_lend [OF 2(2,4)])
  qed simp
next
  case (read_raw L m w n r m' w')
  show ?case by (rule owns_read_raw [OF assms(2,3) read_raw.IH read_raw.hyps(4,2,3)])
qed


section \<open>A parcel in memory\<close>

text \<open>
  A base class that keeps its bytes, its table of objects and, in order, what has not been read yet.
\<close>

datatype parcel_item = IntItem int | StringItem u16string | BytesItem bytes | DescriptorItem int | ObjectItem ptr

record simple_parcel =
  sp_data :: bytes
  sp_offs :: "u64 list"
  sp_unread :: "parcel_item list"

definition sp_put :: "parcel_item \<Rightarrow> bytes \<Rightarrow> simple_parcel \<Rightarrow> bool \<times> simple_parcel" where
  "sp_put x bs p =
     (if length (sp_data p @ bs) < 2 ^ 63 then (True, p\<lparr>sp_data := sp_data p @ bs, sp_unread := sp_unread p @ [x]\<rparr>) else (False, p))"

definition sp_put_object :: "parcel_item \<Rightarrow> flat_binder_object \<Rightarrow> simple_parcel \<Rightarrow> bool \<times> simple_parcel" where
  "sp_put_object x f p =
     (case sp_put x (flat_bytes f) p of (r, q) \<Rightarrow> (r, if r then q\<lparr>sp_offs := sp_offs q @ [of_nat (length (sp_data p))]\<rparr> else q))"

definition sp_get :: "(parcel_item \<Rightarrow> 'a option) \<Rightarrow> 'a \<Rightarrow> simple_parcel \<Rightarrow> 'a \<times> simple_parcel" where
  "sp_get g z p = (case sp_unread p of [] \<Rightarrow> (z, p) | x # xs \<Rightarrow> (case g x of None \<Rightarrow> (z, p) | Some v \<Rightarrow> (v, p\<lparr>sp_unread := xs\<rparr>)))"

definition simple_ops :: "simple_parcel parcel_ops" where
  "simple_ops = \<lparr>
     po_WriteInt32 = (\<lambda>i. sp_put (IntItem i) (word_bytes (word_of_int i :: u32))),
     po_ReadInt32 = sp_get (\<lambda>x. case x of IntItem i \<Rightarrow> Some i | _ \<Rightarrow> None) 0,
     po_WriteString16 = (\<lambda>s. sp_put (StringItem s) (concat (map word_bytes s))),
     po_ReadString16 = sp_get (\<lambda>x. case x of StringItem s \<Rightarrow> Some s | _ \<Rightarrow> None) [],
     po_WriteUnpadBuffer = (\<lambda>bs. sp_put (BytesItem bs) bs),
     po_ReadUnpadBuffer = (\<lambda>n. sp_get (\<lambda>x. case x of BytesItem bs \<Rightarrow> if length bs = n then Some (Some bs) else None | _ \<Rightarrow> None) None),
     po_WriteBuffer = (\<lambda>bs. sp_put (BytesItem bs) bs),
     po_WriteDescriptor = (\<lambda>fd. sp_put_object (DescriptorItem fd) (fd_object fd)),
     po_ReadDescriptor = sp_get (\<lambda>x. case x of DescriptorItem fd \<Rightarrow> Some (Some fd) | _ \<Rightarrow> None) None,
     po_WriteObject = (\<lambda>ob. sp_put_object (ObjectItem ob) \<lparr>hdr_type = BINDER_TYPE_BINDER, fb_flags = 0x17F, fb_binder = ob, fb_cookie = ob\<rparr>),
     po_ReadObject = sp_get (\<lambda>x. case x of ObjectItem ob \<Rightarrow> Some ob | _ \<Rightarrow> None) 0,
     po_GetWritePosition = (\<lambda>p. length (sp_data p)),
     po_RewindWrite = (\<lambda>n p. (n \<le> length (sp_data p), p\<lparr>sp_data := take n (sp_data p)\<rparr>)),
     po_FlushBuffer = (\<lambda>p. \<lparr>sp_data = [], sp_offs = [], sp_unread = []\<rparr>),
     po_WriteObjectOffset = (\<lambda>x p. (True, p\<lparr>sp_offs := sp_offs p @ [x]\<rparr>)),
     po_EnsureObjectsCapacity = (\<lambda>p. (True, p)),
     po_GetData = (\<lambda>p. if sp_data p = [] then None else Some (sp_data p)),
     po_GetDataSize = (\<lambda>p. length (sp_data p)),
     po_SetData = (\<lambda>d p. p\<lparr>sp_data := d\<rparr>),
     po_GetObjectOffsets = (\<lambda>p. if sp_offs p = [] then None else Some (sp_offs p)),
     po_GetOffsetsSize = (\<lambda>p. length (sp_offs p))\<rparr>"

abbreviation (input) "empty_parcel \<equiv> \<lparr>sp_data = [], sp_offs = [], sp_unread = []\<rparr>"

lemma simple_layout: "layout simple_ops p d offs \<longleftrightarrow> sp_data p = d \<and> sp_offs p = offs \<and> table_ok d offs"
  by (auto simp: layout_def simple_ops_def)

lemma table_ok_more: "table_ok d offs \<Longrightarrow> length (d @ bs) < 2 ^ 63 \<Longrightarrow> table_ok (d @ bs) offs"
  by (auto simp: table_ok_def)

lemma sp_put_layout: "layout simple_ops p d offs \<Longrightarrow> sp_put x bs p = (r, p') \<Longrightarrow> layout simple_ops p' (if r then d @ bs else d) offs"
  unfolding simple_layout sp_put_def using table_ok_more [of d offs bs] by (auto split: if_splits)

lemma sp_put_object_layout:
  assumes "layout simple_ops p d offs" "sp_put_object x f p = (r, p')"
  shows "if r then layout simple_ops p' (d @ flat_bytes f) (offs @ [of_nat (length d)]) else layout simple_ops p' d offs"
proof -
  obtain r1 q where q: "sp_put x (flat_bytes f) p = (r1, q)" by (meson surj_pair)
  have l: "layout simple_ops q (if r1 then d @ flat_bytes f else d) offs" by (rule sp_put_layout [OF assms(1) q])
  have d: "sp_data p = d" "table_ok d offs" using assms(1) by (simp_all add: simple_layout)
  have "table_ok (d @ flat_bytes f) (offs @ [of_nat (length d)])" if "r1"
  proof -
    have "length d + 24 < 2 ^ 63" using q that d by (auto simp: sp_put_def split: if_splits)
    then have "unat (of_nat (length d) :: u64) = length d" by (simp add: unat_of_nat take_bit_nat_eq_self)
    then show ?thesis using l that d(2) by (auto simp: simple_layout table_ok_def sorted_wrt_append)
  qed
  then show ?thesis using l q assms(2) d by (cases r1) (auto simp: simple_layout sp_put_object_def)
qed

lemma sp_get_layout: "layout simple_ops p d offs \<Longrightarrow> layout simple_ops (snd (sp_get g z p)) d offs"
  by (auto simp: simple_layout sp_get_def split: list.splits option.splits)

lemma sp_get_reads: "only_reads simple_ops (\<lambda>p. snd (sp_get h z p))"
  unfolding only_reads_def by (simp add: sp_get_layout)

lemma simple_parcel_layout: "parcel_layout simple_ops"
proof -
  have w: "writes_value simple_ops (sp_put x bs)" for x bs
    unfolding writes_value_def
  proof (intro allI impI)
    fix p d offs
    assume "layout simple_ops p d offs"
    from sp_put_layout [OF this prod.collapse [symmetric], of x bs]
    show "\<exists>bs'. layout simple_ops (snd (sp_put x bs p)) (d @ bs') offs"
      by (cases "fst (sp_put x bs p)") (auto intro: exI [of _ bs] exI [of _ "[]"])
  qed
  have "writes_descriptor simple_ops" unfolding writes_descriptor_def
  proof (intro allI impI)
    fix p d offs fd r p'
    assume "layout simple_ops p d offs \<and> po_WriteDescriptor simple_ops fd p = (r, p')"
    then have "layout simple_ops p d offs" "sp_put_object (DescriptorItem fd) (fd_object fd) p = (r, p')" by (simp_all add: simple_ops_def)
    from sp_put_object_layout [OF this]
    show "if r then layout simple_ops p' (d @ flat_bytes (fd_object fd)) (offs @ [of_nat (length d)]) else \<exists>bs. layout simple_ops p' (d @ bs) offs"
      by (metis append_Nil2)
  qed
  moreover have "writes_buffer simple_ops" unfolding writes_buffer_def
  proof (intro allI impI)
    fix p d offs bs r p'
    assume "layout simple_ops p d offs \<and> po_WriteBuffer simple_ops bs p = (r, p')"
    then have "layout simple_ops p d offs" "sp_put (BytesItem bs) bs p = (r, p')" by (simp_all add: simple_ops_def)
    from sp_put_layout [OF this]
    show "if r then \<exists>pad. layout simple_ops p' (d @ bs @ pad) offs else layout simple_ops p' d offs" by (metis append_Nil2)
  qed
  moreover have "writes_offset simple_ops" unfolding writes_offset_def simple_layout by (simp add: simple_ops_def)
  moreover have "writes_through simple_ops" unfolding writes_through_def simple_layout by (auto simp: simple_ops_def table_ok_def)
  moreover have "only_reads simple_ops (\<lambda>p. snd (po_EnsureObjectsCapacity simple_ops p))"
    unfolding only_reads_def simple_layout by (simp add: simple_ops_def)
  moreover have "writes_value simple_ops (po_WriteInt32 simple_ops i)" "writes_value simple_ops (po_WriteString16 simple_ops s)"
    "writes_value simple_ops (po_WriteUnpadBuffer simple_ops bs)" for i s bs
    using w by (simp_all add: simple_ops_def)
  moreover have "only_reads simple_ops (\<lambda>p. snd (po_ReadInt32 simple_ops p))" "only_reads simple_ops (\<lambda>p. snd (po_ReadString16 simple_ops p))"
    "only_reads simple_ops (\<lambda>p. snd (po_ReadUnpadBuffer simple_ops n p))" "only_reads simple_ops (\<lambda>p. snd (po_ReadDescriptor simple_ops p))" for n
    using sp_get_reads by (simp_all add: simple_ops_def)
  ultimately show ?thesis unfolding parcel_layout_def by blast
qed

text \<open>A system with a few descriptors and pages.\<close>

definition small_os :: os_env where
  "small_os = \<lparr>os_newfd = (\<lambda>w. case find (\<lambda>x. w_fds w x = None) [5, 6, 7, 8] of None \<Rightarrow> - 1 | Some x \<Rightarrow> x),
     os_mmap = (\<lambda>n w. case find (\<lambda>a. \<forall>p \<in> set [a..<a + page_count n]. w_pages w p = None) [16, 64] of None \<Rightarrow> 0 | Some a \<Rightarrow> a),
     os_setprot = (\<lambda>fd w. 0), os_alloc = (\<lambda>w. True), os_libc = std_libc\<rparr>"

lemma small_os_ok: "os_ok small_os"
  unfolding os_ok_def small_os_def by (auto simp: find_Some_iff split: option.splits)

definition small_world :: parcel_world where
  "small_world = \<lparr>w_fds = [1 \<mapsto> 3], w_shm = (\<lambda>f. None), w_pages = (\<lambda>p. None), w_files = 4, w_badclose = [], w_fault = False,
     w_cur = None, w_refs = [], w_stubs = (\<lambda>x. None)\<rparr>"

text \<open>A parcel into which a descriptor and then raw data is written.\<close>

definition small_fd :: "bool \<times> simple_parcel message_parcel \<times> parcel_world" where
  "small_fd = WriteFileDescriptor_mp simple_ops small_os 1 (MessageParcel empty_parcel) small_world"

definition small_raw :: "nat \<Rightarrow> bool \<times> simple_parcel message_parcel \<times> parcel_world" where
  "small_raw n = WriteRawData_mp simple_ops small_os (Some (replicate n 1)) (fst (snd small_fd)) (snd (snd small_fd))"

lemma small_start: "layout simple_ops empty_parcel [] [] \<and> starts_well [] [] small_world \<and> others [] [] small_world = w_fds small_world"
  by (simp add: simple_layout table_ok_def starts_well_def calm_def descriptors_def others_def small_world_def fun_eq_iff)

lemma small_run: "parcel_run simple_ops small_os [] [] small_world (\<lambda>x. None) (fst (snd (small_raw n))) (snd (snd (small_raw n)))"
proof -
  have c: "parcel_run simple_ops small_os [] [] small_world (\<lambda>x. None) (MessageParcel empty_parcel) small_world"
    using small_start by (intro parcel_run.created) simp
  have f: "parcel_run simple_ops small_os [] [] small_world (\<lambda>x. None) (fst (snd small_fd)) (snd (snd small_fd))"
    by (rule parcel_run.write_fd [OF c, of 1 "fst small_fd"]) (simp add: small_fd_def)
  have k: "kernelMappedRead (fst (snd small_fd)) = 0" "\<not> writeRawDataFd (fst (snd small_fd)) > 0"
    by (simp_all add: small_fd_def WriteFileDescriptor_mp_def MessageParcel_def split: prod.splits bool.splits)
  show ?thesis by (rule parcel_run.write_raw [OF f k(1), of "Some (replicate n 1)" "fst (small_raw n)"]) (use k(2) in \<open>auto simp: small_raw_def\<close>)
qed


end
