(* ===== verification/Parcel_Contents.thy ===== *)
theory Parcel_Contents
  imports Parcel_Proofs
begin

text \<open>
  What is read back from a parcel: raw data, and the proxy of an object of another device. What a
  second attempt to share raw data loses.
\<close>

section \<open>A second attempt\<close>

lemma owns_forget:
  assumes "owns P F G m w" "writeRawDataFd m = fd" "0 < fd"
  shows "owns P (F(fd := w_fds w fd)) G (m\<lparr>writeRawDataFd := - 1\<rparr>) w \<and> F fd = None \<and> w_fds w fd \<noteq> None"
proof -
  let ?m = "m\<lparr>writeRawDataFd := - 1\<rparr>"
  obtain d offs where l: "layout P (mp_base m) d offs" "fds_owned F (owned m d offs) w" "pages_owned G m w" "calm w"
    using owns_layout [OF assms(1)] .
  have s: "set (owned m d offs) = insert fd (set (owned ?m d offs))" "distinct (owned m d offs) \<Longrightarrow> distinct (owned ?m d offs) \<and> fd \<notin> set (owned ?m d offs)"
    using assms(2,3) by (auto simp: owned_def)
  then have "fds_owned (F(fd := w_fds w fd)) (owned ?m d offs) w" using l(2) by (auto simp: fds_owned_def)
  then have "owns P (F(fd := w_fds w fd)) G ?m w"
    using l(1,3,4) by (intro ownsI [of _ _ d offs]) (simp_all add: pages_owned_def in_map_def)
  then show ?thesis using l(2) s by (auto simp: fds_owned_def)
qed

text \<open>
  C38. When sharing raw data fails after the memory was created, its descriptor stays in the parcel
  for the destructor. A second attempt on the same parcel replaces it: whatever the result of
  the attempt, the first descriptor is still open after the parcel is gone, and it is the only one.
\<close>

theorem retried_raw_write_leaks:
  assumes "os_ok Y" "parcel_layout P" "starts_well x offs w0" "parcel_run P Y x offs w0 lent m w"
    "raw_free m" "writeRawDataFd m = fd" "0 < fd" "MIN_RAWDATA_SIZE < length d" "length d \<le> MAX_RAWDATA_SIZE"
    "fst (po_WriteInt32 P (int (length d)) (mp_base m))" "0 < os_newfd Y w" "WriteRawData_mp P Y (Some d) m w = (r, m', w')"
  shows "(others x offs w0 ++ lent) fd = None \<and> w_fds w fd \<noteq> None \<and>
    w_fds (destroy_MessageParcel P m' w') = (others x offs w0 ++ lent)(fd := w_fds w fd)"
proof -
  let ?m = "m\<lparr>writeRawDataFd := - 1\<rparr>"
  obtain b where b: "po_WriteInt32 P (int (length d)) (mp_base m) = (True, b)" using assms(10) by (metis (full_types) prod.collapse)
  obtain n w1 where c: "AshmemCreate Y (length d) w = (n, w1)" by (meson surj_pair)
  have "\<not> n < 0" using c assms(11) by (auto simp: AshmemCreate_def Let_def split: if_splits)
  then have e: "WriteRawData_mp P Y (Some d) m' w = share_raw_data P Y d n (m'\<lparr>mp_base := b, writeRawDataFd := n\<rparr>) w1"
    if "mp_base m' = mp_base m" "kernelMappedWrite m' = 0" for m'
    using assms(8,9) b c that by (auto simp: WriteRawData_mp_def)
  have "WriteRawData_mp P Y (Some d) ?m w = (r, m', w')"
    using assms(12) e [of m] e [of ?m] assms(5) by (simp add: raw_free_def)
  moreover note o = owns_forget [OF run_owns [OF assms(4,1,2,3)] assms(6,7)]
  ultimately have "owns P ((others x offs w0 ++ lent)(fd := w_fds w fd)) (w_pages w0) m' w'"
    by (intro owns_write_raw [OF assms(1,2) conjunct1 [OF o]]) (use assms(5) in \<open>auto simp: raw_free_def\<close>)
  from destroy_gives_back [OF this] o show ?thesis by simp
qed

text \<open>A system that refuses the first mapping.\<close>

definition strict_os :: os_env where
  "strict_os = small_os\<lparr>os_mmap := (\<lambda>n w. 0)\<rparr>"

lemma strict_os_ok: "os_ok strict_os"
  using small_os_ok by (simp add: os_ok_def strict_os_def)

definition refused_raw :: "nat \<Rightarrow> bool \<times> simple_parcel message_parcel \<times> parcel_world" where
  "refused_raw n = WriteRawData_mp simple_ops strict_os (Some (replicate n 1)) (MessageParcel empty_parcel) small_world"

lemma refused_state:
  "fst (snd (refused_raw 40000)) = (MessageParcel (snd (po_WriteInt32 simple_ops 40000 empty_parcel)))\<lparr>writeRawDataFd := 5\<rparr>"
  "os_newfd strict_os (snd (snd (refused_raw 40000))) = 6"
  by (simp_all add: refused_raw_def WriteRawData_mp_def MessageParcel_def simple_ops_def sp_put_def AshmemCreate_def Let_def
      strict_os_def small_os_def small_world_def share_raw_data_def sys_mmap_def)

theorem retried_raw_write_leaks_witness:
  "w_fds (destroy_MessageParcel simple_ops
     (fst (snd (WriteRawData_mp simple_ops strict_os (Some (replicate 50000 1)) (fst (snd (refused_raw 40000))) (snd (snd (refused_raw 40000))))))
     (snd (snd (WriteRawData_mp simple_ops strict_os (Some (replicate 50000 1)) (fst (snd (refused_raw 40000))) (snd (snd (refused_raw 40000))))))) 5 \<noteq> None"
proof -
  have run: "parcel_run simple_ops strict_os [] [] small_world (\<lambda>x. None) (fst (snd (refused_raw 40000))) (snd (snd (refused_raw 40000)))"
  proof -
    have c: "parcel_run simple_ops strict_os [] [] small_world (\<lambda>x. None) (MessageParcel empty_parcel) small_world"
      using small_start by (intro parcel_run.created) simp
    show ?thesis by (rule parcel_run.write_raw [OF c, of "Some (replicate 40000 1)" "fst (refused_raw 40000)"])
      (simp_all add: refused_raw_def MessageParcel_def)
  qed
  let ?m = "fst (snd (refused_raw 40000))" and ?w = "snd (snd (refused_raw 40000))"
  let ?r = "WriteRawData_mp simple_ops strict_os (Some (replicate 50000 1)) ?m ?w"
  have i: "fst (po_WriteInt32 simple_ops (int (length (replicate 50000 (1 :: u8)))) (mp_base ?m))"
    unfolding refused_state by (simp add: MessageParcel_def simple_ops_def sp_put_def)
  have h: "raw_free ?m" "writeRawDataFd ?m = 5" "0 < os_newfd strict_os ?w" using refused_state by (simp_all add: raw_free_def MessageParcel_def)
  have r: "?r = (fst ?r, fst (snd ?r), snd (snd ?r))" by simp
  have "(0 :: int) < 5" "MIN_RAWDATA_SIZE < length (replicate 50000 (1 :: u8))" "length (replicate 50000 (1 :: u8)) \<le> MAX_RAWDATA_SIZE" by simp_all
  from retried_raw_write_leaks [OF strict_os_ok simple_parcel_layout conjunct1 [OF conjunct2 [OF small_start]] run h(1,2) this i h(3) r]
  show ?thesis by (metis fun_upd_same)
qed

section \<open>Raw data is read back\<close>

text \<open>What is relied on of the base class: values are read in the order in which they were written.\<close>

definition appends_item :: "('p \<Rightarrow> parcel_item list) \<Rightarrow> parcel_item \<Rightarrow> ('p \<Rightarrow> bool \<times> 'p) \<Rightarrow> bool" where
  "appends_item unread x f \<longleftrightarrow> (\<forall>p p'. f p = (True, p') \<longrightarrow> unread p' = unread p @ [x])"

definition takes_item :: "('p \<Rightarrow> parcel_item list) \<Rightarrow> parcel_item \<Rightarrow> 'a \<Rightarrow> ('p \<Rightarrow> 'a \<times> 'p) \<Rightarrow> bool" where
  "takes_item unread x v f \<longleftrightarrow> (\<forall>p xs. unread p = x # xs \<longrightarrow> fst (f p) = v \<and> unread (snd (f p)) = xs)"

definition parcel_fifo :: "'p parcel_ops \<Rightarrow> ('p \<Rightarrow> parcel_item list) \<Rightarrow> bool" where
  "parcel_fifo P unread \<longleftrightarrow>
     (\<forall>i. appends_item unread (IntItem i) (po_WriteInt32 P i) \<and> takes_item unread (IntItem i) i (po_ReadInt32 P)) \<and>
     (\<forall>bs. appends_item unread (BytesItem bs) (po_WriteUnpadBuffer P bs) \<and>
        takes_item unread (BytesItem bs) (Some bs) (po_ReadUnpadBuffer P (length bs))) \<and>
     (\<forall>fd. appends_item unread (DescriptorItem fd) (po_WriteDescriptor P fd) \<and>
        takes_item unread (DescriptorItem fd) (Some fd) (po_ReadDescriptor P)) \<and>
     (\<forall>ob. appends_item unread (ObjectItem ob) (po_WriteObject P ob) \<and> takes_item unread (ObjectItem ob) ob (po_ReadObject P)) \<and>
     (\<forall>x p p'. po_WriteObjectOffset P x p = (True, p') \<longrightarrow> unread p' = unread p)"

lemma appendsD: "appends_item unread x f \<Longrightarrow> f p = (True, p') \<Longrightarrow> unread p' = unread p @ [x]"
  by (simp add: appends_item_def)

lemma takesD: "takes_item unread x v f \<Longrightarrow> unread p = x # xs \<Longrightarrow> \<exists>p'. f p = (v, p') \<and> unread p' = xs"
  unfolding takes_item_def by (metis prod.collapse)

lemma parcel_fifoD:
  assumes "parcel_fifo P unread"
  shows "po_WriteInt32 P i p = (True, p') \<Longrightarrow> unread p' = unread p @ [IntItem i]"
    and "po_WriteUnpadBuffer P bs p = (True, p') \<Longrightarrow> unread p' = unread p @ [BytesItem bs]"
    and "po_WriteDescriptor P fd p = (True, p') \<Longrightarrow> unread p' = unread p @ [DescriptorItem fd]"
    and "po_WriteObject P ob p = (True, p') \<Longrightarrow> unread p' = unread p @ [ObjectItem ob]"
    and "unread p = IntItem i # xs \<Longrightarrow> \<exists>p'. po_ReadInt32 P p = (i, p') \<and> unread p' = xs"
    and "unread p = BytesItem bs # xs \<Longrightarrow> \<exists>p'. po_ReadUnpadBuffer P (length bs) p = (Some bs, p') \<and> unread p' = xs"
    and "unread p = DescriptorItem fd # xs \<Longrightarrow> \<exists>p'. po_ReadDescriptor P p = (Some fd, p') \<and> unread p' = xs"
    and "unread p = ObjectItem ob # xs \<Longrightarrow> \<exists>p'. po_ReadObject P p = (ob, p') \<and> unread p' = xs"
    and "po_WriteObjectOffset P x p = (True, p') \<Longrightarrow> unread p' = unread p"
proof -
  have a: "appends_item unread (IntItem i) (po_WriteInt32 P i)" "appends_item unread (BytesItem bs) (po_WriteUnpadBuffer P bs)"
      "appends_item unread (DescriptorItem fd) (po_WriteDescriptor P fd)" "appends_item unread (ObjectItem ob) (po_WriteObject P ob)"
    and t: "takes_item unread (IntItem i) i (po_ReadInt32 P)" "takes_item unread (BytesItem bs) (Some bs) (po_ReadUnpadBuffer P (length bs))"
      "takes_item unread (DescriptorItem fd) (Some fd) (po_ReadDescriptor P)" "takes_item unread (ObjectItem ob) ob (po_ReadObject P)"
    using assms unfolding parcel_fifo_def by simp_all
  show "po_WriteInt32 P i p = (True, p') \<Longrightarrow> unread p' = unread p @ [IntItem i]" by (rule appendsD [OF a(1)])
  show "po_WriteUnpadBuffer P bs p = (True, p') \<Longrightarrow> unread p' = unread p @ [BytesItem bs]" by (rule appendsD [OF a(2)])
  show "po_WriteDescriptor P fd p = (True, p') \<Longrightarrow> unread p' = unread p @ [DescriptorItem fd]" by (rule appendsD [OF a(3)])
  show "po_WriteObject P ob p = (True, p') \<Longrightarrow> unread p' = unread p @ [ObjectItem ob]" by (rule appendsD [OF a(4)])
  show "unread p = IntItem i # xs \<Longrightarrow> \<exists>p'. po_ReadInt32 P p = (i, p') \<and> unread p' = xs" by (rule takesD [OF t(1)])
  show "unread p = BytesItem bs # xs \<Longrightarrow> \<exists>p'. po_ReadUnpadBuffer P (length bs) p = (Some bs, p') \<and> unread p' = xs" by (rule takesD [OF t(2)])
  show "unread p = DescriptorItem fd # xs \<Longrightarrow> \<exists>p'. po_ReadDescriptor P p = (Some fd, p') \<and> unread p' = xs" by (rule takesD [OF t(3)])
  show "unread p = ObjectItem ob # xs \<Longrightarrow> \<exists>p'. po_ReadObject P p = (ob, p') \<and> unread p' = xs" by (rule takesD [OF t(4)])
  show "po_WriteObjectOffset P x p = (True, p') \<Longrightarrow> unread p' = unread p" using assms unfolding parcel_fifo_def by blast
qed

lemma write_fd_item:
  assumes "os_ok Y" "parcel_fifo P unread" "WriteFileDescriptor_mp P Y fd m w = (True, m', w')"
  obtains n f where "unread (mp_base m') = unread (mp_base m) @ [DescriptorItem n]" "0 < n" "w_fds w fd = Some f"
    "w' = w\<lparr>w_fds := (w_fds w)(n \<mapsto> f)\<rparr>"
proof -
  obtain n w1 where n: "sys_dup Y fd w = (n, w1)" by (meson surj_pair)
  obtain r1 b where b: "po_WriteDescriptor P n (mp_base m) = (r1, b)" by (meson surj_pair)
  have "r1 \<and> \<not> n < 0 \<and> m' = m\<lparr>mp_base := b\<rparr> \<and> w' = w1" using assms(3) n b
    by (cases r1) (auto simp: WriteFileDescriptor_mp_def split: if_splits)
  then show thesis using dup_cases [OF assms(1) n] parcel_fifoD(3) [OF assms(2), of n "mp_base m" b] b that by auto
qed

text \<open>A region that was filled through a mapping.\<close>

lemma copy_fills:
  assumes "libc_ok (os_libc Y)" "w_pages w a = Some (f, 0)" "w_shm w f = Some old" "length old = length d" "0 < length d"
    "length d \<le> MAX_RAWDATA_SIZE" "copy_to_mapping Y a d w = (r, w')"
  shows "w_shm w' f = Some d"
proof -
  have "memcpy_s (os_libc Y) old 0 (length d) d (length d) = (EOK, take 0 old @ take (length d) d @ drop (0 + length d) old)"
    using assms(1,4-6) unfolding libc_ok_def by simp
  then show ?thesis using assms(2-4,7) by (auto simp: copy_to_mapping_def)
qed

lemma shared_raw_data:
  assumes "os_ok Y" "libc_ok (os_libc Y)" "parcel_fifo P unread" "MIN_RAWDATA_SIZE < length d" "length d \<le> MAX_RAWDATA_SIZE"
    "WriteRawData_mp P Y (Some d) m w = (True, m', w')"
  obtains n f where "unread (mp_base m') = unread (mp_base m) @ [IntItem (int (length d)), DescriptorItem n]" "0 < n"
    "w_fds w' n = Some f" "w_shm w' f = Some d"
proof -
  obtain r1 b where b: "po_WriteInt32 P (int (length d)) (mp_base m) = (r1, b)" by (meson surj_pair)
  obtain fd w1 where c: "AshmemCreate Y (length d) w = (fd, w1)" by (meson surj_pair)
  let ?m = "m\<lparr>mp_base := b, writeRawDataFd := fd\<rparr>"
  have s: "r1" "\<not> fd < 0" "share_raw_data P Y d fd ?m w1 = (True, m', w')"
    using assms(4-6) b c by (auto simp: WriteRawData_mp_def split: if_splits bool.splits)
  have w1: "w_fds w1 fd = Some (w_files w)" "w_shm w1 (w_files w) = Some (replicate (length d) 0)"
    using c s(2) by (auto simp: AshmemCreate_def Let_def split: if_splits)
  obtain a w2 where a: "sys_mmap Y (length d) fd w1 = (a, w2)" by (meson surj_pair)
  obtain r2 m1 w3 where x: "WriteFileDescriptor_mp P Y fd ?m w2 = (r2, m1, w3)" by (metis surj_pair)
  obtain r3 w4 where y: "copy_to_mapping Y a d w3 = (r3, w4)" by (meson surj_pair)
  have t: "a \<noteq> 0" "r2" "mp_base m' = mp_base m1" "w' = w4"
    using s(3) a x y by (auto simp: share_raw_data_def split: if_splits bool.splits)
  have pos: "0 < length d" using assms(4) by linarith
  obtain f where m: "w_fds w1 fd = Some f" "w_pages w2 a = Some (f, 0)" "w_fds w2 = w_fds w1" "w_shm w2 = w_shm w1"
    by (rule mmap_overlay [OF assms(1) a t(1) pos]) blast
  obtain n g where n: "unread (mp_base m1) = unread b @ [DescriptorItem n]" "0 < n" "w_fds w2 fd = Some g"
    "w3 = w2\<lparr>w_fds := (w_fds w2)(n \<mapsto> g)\<rparr>"
    by (rule write_fd_item [OF assms(1,3), of fd ?m w2 m1 w3]) (use x t(2) in auto)
  have f: "f = w_files w" "g = f" using m w1 n(3) by simp_all
  have "w_shm w4 f = Some d"
    by (rule copy_fills [OF assms(2) _ _ _ pos assms(5) y, of f "replicate (length d) 0"]) (use n(4) m w1 f in simp_all)
  moreover have "w_fds w4 n = Some f" using copy_frame [OF y] n(4) f by simp
  moreover have "unread b = unread (mp_base m) @ [IntItem (int (length d))]" using parcel_fifoD(1) [OF assms(3)] b s(1) by simp
  ultimately show thesis using that n t(3,4) by simp
qed

text \<open>
  C18. Raw data arrives as it was sent, by value if it is small and in shared memory if it is large:
  if writing it succeeded, then reading as many bytes from the delivered parcel gives exactly the
  data, provided that the system grants the reader a descriptor and a mapping.
\<close>

theorem raw_data_roundtrip:
  assumes "os_ok Y" "libc_ok (os_libc Y)" "parcel_fifo P unread" "unread (mp_base m) = []"
    "WriteRawData_mp P Y (Some d) m w = (True, m', w')"
    "0 < os_newfd Y w'" "\<forall>v. w_pages v = w_pages w' \<longrightarrow> os_mmap Y (length d) v \<noteq> 0"
  shows "fst (ReadRawData_mp P Y (length d) (MessageParcel (mp_base m')) w') = Some d"
proof -
  have sz: "0 < length d" "length d \<le> MAX_RAWDATA_SIZE" using assms(5) by (auto simp: WriteRawData_mp_def split: if_splits)
  have u: "unat (word_of_int (int (length d)) :: u64) = length d" using sz(2) by (simp add: unat_of_nat take_bit_nat_eq_self)
  show ?thesis
  proof (cases "length d \<le> MIN_RAWDATA_SIZE")
    case True
    obtain b b1 where b: "po_WriteInt32 P (int (length d)) (mp_base m) = (True, b)" "po_WriteUnpadBuffer P d b = (True, b1)" "mp_base m' = b1"
      using assms(5) sz True by (auto simp: WriteRawData_mp_def split: if_splits bool.splits prod.splits)
    have "unread b1 = [IntItem (int (length d)), BytesItem d]"
      using parcel_fifoD(1) [OF assms(3) b(1)] parcel_fifoD(2) [OF assms(3) b(2)] assms(4) by simp
    then obtain p p1 where "po_ReadInt32 P b1 = (int (length d), p)" "po_ReadUnpadBuffer P (length d) p = (Some d, p1)"
      using parcel_fifoD(5,6) [OF assms(3)] by blast
    then show ?thesis using b(3) u sz(1) True by (simp add: ReadRawData_mp_def MessageParcel_def)
  next
    case False
    then obtain n f where n: "unread (mp_base m') = [IntItem (int (length d)), DescriptorItem n]" "0 < n" "w_fds w' n = Some f" "w_shm w' f = Some d"
      using shared_raw_data [OF assms(1-3) _ sz(2) assms(5)] assms(4) by (metis append_Nil linorder_not_le)
    then obtain p p1 where p: "po_ReadInt32 P (mp_base m') = (int (length d), p)" "po_ReadDescriptor P p = (Some n, p1)"
      using parcel_fifoD(5,7) [OF assms(3)] by blast
    let ?k = "os_newfd Y w'"
    let ?v = "w'\<lparr>w_fds := (w_fds w')(?k \<mapsto> f)\<rparr>"
    have mm: "os_mmap Y (length d) ?v \<noteq> 0" using assms(7) by simp
    show ?thesis using p u sz(1) False n mm assms(6) page_count_pos [OF sz(1)]
      by (simp add: ReadRawData_mp_def ReadRawDataInner_def ReadFileDescriptor_mp_def MessageParcel_def sys_dup_def Let_def
          AshmemGetSize_def sys_mmap_def mapped_bytes_def)
  qed
qed

lemma simple_fifo: "parcel_fifo simple_ops sp_unread"
  unfolding parcel_fifo_def appends_item_def takes_item_def
  by (auto simp: simple_ops_def sp_put_def sp_put_object_def sp_get_def Let_def split: if_splits)

definition sent_raw :: "bool \<times> simple_parcel message_parcel \<times> parcel_world" where
  "sent_raw = WriteRawData_mp simple_ops small_os (Some (replicate 40000 7)) (MessageParcel empty_parcel) small_world"

lemma pages_40000: "page_count 40000 = 10"
  by (simp add: page_count_def)

lemma sent_raw_state:
  "fst sent_raw" "w_pages (snd (snd sent_raw)) = (\<lambda>p. if 16 \<le> p \<and> p < 26 then Some (4, p - 16) else None)"
  "os_newfd small_os (snd (snd sent_raw)) = 7"
  by (simp_all add: sent_raw_def WriteRawData_mp_def MessageParcel_def simple_ops_def sp_put_def sp_put_object_def AshmemCreate_def Let_def
      small_os_def small_world_def share_raw_data_def sys_mmap_def pages_40000 WriteFileDescriptor_mp_def sys_dup_def
      copy_to_mapping_def std_libc_def upt_conv_Cons cong: if_cong)

theorem raw_data_roundtrip_witness:
  "fst (ReadRawData_mp simple_ops small_os 40000 (MessageParcel (mp_base (fst (snd sent_raw)))) (snd (snd sent_raw))) = Some (replicate 40000 7)"
proof -
  have l: "libc_ok (os_libc small_os)" by (simp add: small_os_def std_libc_ok)
  have w: "WriteRawData_mp simple_ops small_os (Some (replicate 40000 7)) (MessageParcel empty_parcel) small_world =
      (True, fst (snd sent_raw), snd (snd sent_raw))"
    using sent_raw_state(1) by (metis prod.collapse sent_raw_def eq_True)
  have m: "os_mmap small_os (length (replicate 40000 (7 :: u8))) v \<noteq> 0" if "w_pages v = w_pages (snd (snd sent_raw))" for v
    using that by (simp add: sent_raw_state small_os_def pages_40000 upt_conv_Cons)
  have "sp_unread (mp_base (MessageParcel empty_parcel)) = []" "0 < os_newfd small_os (snd (snd sent_raw))"
    by (simp_all add: MessageParcel_def sent_raw_state)
  from raw_data_roundtrip [OF small_os_ok l simple_fifo this(1) w this(2)] m show ?thesis by simp
qed

section \<open>Proxies of other devices\<close>

text \<open>A callback stub stands for one proxy; stubs in the table and the next new one are live stubs.\<close>

definition callback_table_ok :: "holder_env \<Rightarrow> ipc_skeleton \<Rightarrow> bool" where
  "callback_table_ok H s \<longleftrightarrow> (\<forall>(k, v) \<in> set (dbinderSentCallback s). \<forall>(k', v') \<in> set (dbinderSentCallback s). v = v' \<longrightarrow> k = k') \<and>
     (\<forall>v \<in> snd ` set (dbinderSentCallback s). he_alive H v \<and> \<not> he_isProxy H v \<and> v \<noteq> he_newStub H) \<and>
     he_alive H (he_newStub H) \<and> \<not> he_isProxy H (he_newStub H)"

lemma query_proxy_found:
  assumes "\<forall>(k, v) \<in> set (dbinderSentCallback s). \<forall>(k', v') \<in> set (dbinderSentCallback s). v = v' \<longrightarrow> k = k'"
    "(ob, stub) \<in> set (dbinderSentCallback s)" "alive stub" "\<not> exitFlag s"
  shows "QueryDBinderCallbackProxy alive stub s = ob"
proof -
  let ?t = "dbinderSentCallback s"
  have "find (\<lambda>(k, v). v = stub \<and> alive v) ?t \<noteq> None" using assms(2,3) by (auto simp: find_None_iff)
  then obtain k v where f: "find (\<lambda>(k, v). v = stub \<and> alive v) ?t = Some (k, v)" by auto
  then have "(k, v) \<in> set ?t" "v = stub" by (auto simp: find_Some_iff) (metis nth_mem)
  then have "k = ob" using assms(1,2) by fastforce
  then show ?thesis using f assms(4) by (simp add: QueryDBinderCallbackProxy_def)
qed

lemma write_object_item:
  assumes "parcel_fifo P unread" "write_object P ob m w = (True, m', w')"
  shows "unread (mp_base m') = unread (mp_base m) @ [ObjectItem ob] \<and> w_cur w' = w_cur w \<and> w_stubs w' = w_stubs w"
proof -
  let ?off = "po_GetWritePosition P (mp_base m)"
  obtain r b where b: "po_WriteObject P ob (mp_base m) = (r, b)" by (meson surj_pair)
  obtain r1 m1 w1 where u: "UpdateDBinderDataOffset P ?off (m\<lparr>mp_base := b\<rparr>) w = (r1, m1, w1)" by (metis surj_pair)
  have r: "r" "r1" "m' = m1" "w' = w1" using assms(2) b u by (auto simp: write_object_def Let_def split: bool.splits)
  have i: "unread b = unread (mp_base m) @ [ObjectItem ob]" using parcel_fifoD(4) [OF assms(1)] b r(1) by simp
  have "unread (mp_base m1) = unread b \<and> w_cur w1 = w_cur w \<and> w_stubs w1 = w_stubs w"
    using u r(2) parcel_fifoD(9) [OF assms(1)]
    by (auto simp: UpdateDBinderDataOffset_def Let_def split: if_splits prod.splits bool.splits)
  then show ?thesis using i r by simp
qed

lemma write_stub_item:
  assumes "parcel_fifo P unread" "write_stub P H ob m w = (True, m', w')"
  shows "ob \<noteq> nullptr \<and> unread (mp_base m') = unread (mp_base m) @ [ObjectItem ob] \<and> w_cur w' = w_cur w \<and> w_stubs w' = w_stubs w"
  using assms(2) write_object_item [OF assms(1), of ob "m\<lparr>holders := holders m @ [ob]\<rparr>" w m' w'] by (auto simp: write_stub_def split: if_splits)

text \<open>The stub that is written in place of a proxy.\<close>

definition session_stub :: "holder_env \<Rightarrow> u32 \<Rightarrow> session_object \<Rightarrow> DBinderCallbackStub" where
  "session_stub H h peer = \<lparr>cs_serviceName = serviceName peer, cs_deviceID = serverDeviceId peer, cs_localDeviceID = he_local H,
     cs_stubIndex = so_stubIndex peer, cs_handle = h, cs_tokenId = so_tokenId peer\<rparr>"

lemma proxy_written:
  assumes "parcel_fifo P unread" "w_cur w = Some st" "callback_table_ok H (ips st)"
    "WriteDBinderProxy P H object h m w = (True, m', w')"
  obtains (again) stub where "unread (mp_base m') = unread (mp_base m) @ [ObjectItem stub]" "stub \<noteq> nullptr" "w_cur w' = Some st"
    "map_of (dbinderSentCallback (ips st)) object = Some stub" "\<not> exitFlag (ips st)"
  | (first) "unread (mp_base m') = unread (mp_base m) @ [ObjectItem (he_newStub H)]" "he_newStub H \<noteq> nullptr"
    "w_cur w' = Some (st\<lparr>ips := (ips st)\<lparr>dbinderSentCallback := omap_put object (he_newStub H) (dbinderSentCallback (ips st))\<rparr>\<rparr>)"
    "map_of (dbinderSentCallback (ips st)) object = None" "\<not> exitFlag (ips st)"
    "w_stubs w' (he_newStub H) = Some (session_stub H h (sessions (ips st) (ProxyQueryDBinderSession h (ips st))))"
proof -
  let ?fake = "QueryDBinderCallbackStub (he_alive H) object (ips st)" and ?new = "he_newStub H" and ?so = "ProxyQueryDBinderSession h (ips st)"
  have so: "?so \<noteq> nullptr" using assms(2,4) by (auto simp: WriteDBinderProxy_def Let_def split: if_splits)
  then have ex: "\<not> exitFlag (ips st)" by (auto simp: ProxyQueryDBinderSession_def)
  show thesis
  proof (cases "?fake = nullptr")
    case False
    then have q: "map_of (dbinderSentCallback (ips st)) object = Some ?fake" using ex by (auto simp: QueryDBinderCallbackStub_def split: option.splits if_splits)
    have "write_stub P H ?fake m w = (True, m', w')" using assms(2,4) so False by (simp add: WriteDBinderProxy_def Let_def)
    from write_stub_item [OF assms(1) this] show thesis using again [of ?fake] q ex assms(2) by simp
  next
    case True
    obtain r s1 where t: "AttachDBinderCallbackStub object ?new (ips st) = (r, s1)" by (meson surj_pair)
    let ?w1 = "w\<lparr>w_stubs := (w_stubs w)(?new \<mapsto> session_stub H h (sessions (ips st) ?so)), w_cur := Some (st\<lparr>ips := s1\<rparr>)\<rparr>"
    have nw: "?new \<noteq> nullptr" using assms(2,4) so True by (auto simp: WriteDBinderProxy_def Let_def)
    have e: "WriteDBinderProxy P H object h m w =
        (if r then write_stub P H ?new m ?w1 else (False, m, w\<lparr>w_cur := Some (st\<lparr>ips := DetachDBinderCallbackStub ?new s1\<rparr>)\<rparr>))"
      using assms(2) so True nw t by (cases r) (simp_all add: WriteDBinderProxy_def Let_def session_stub_def)
    have at: "r" "write_stub P H ?new m ?w1 = (True, m', w')" using assms(4) unfolding e by (simp_all split: if_splits)
    then have n: "map_of (dbinderSentCallback (ips st)) object = None" "s1 = (ips st)\<lparr>dbinderSentCallback := omap_put object ?new (dbinderSentCallback (ips st))\<rparr>"
      using ex t by (auto simp: AttachDBinderCallbackStub_def omap_insert_def split: option.splits)
    from write_stub_item [OF assms(1) at(2)] show thesis using n ex nw by (intro first) simp_all
  qed
qed

lemma table_after_put:
  assumes "\<forall>(k, v) \<in> set t. \<forall>(k', v') \<in> set t. v = v' \<longrightarrow> k = k'" "\<forall>v \<in> snd ` set t. v \<noteq> (new :: ptr)"
  shows "\<forall>(k, v) \<in> set (omap_put ob new t). \<forall>(k', v') \<in> set (omap_put ob new t). v = v' \<longrightarrow> k = k'"
proof -
  have "\<forall>(k, v) \<in> insert (ob, new) (set t). \<forall>(k', v') \<in> insert (ob, new) (set t). v = v' \<longrightarrow> k = k'" using assms by fastforce
  then show ?thesis using set_omap_put [of ob new t] by blast
qed

text \<open>
  C19. The proxy of an object of another device is sent to a process of this device as a callback
  stub, and comes back as the proxy: reading the delivered parcel in this process gives the proxy itself. A proxy
  has one callback stub, which is used again, and a new one knows the session of the proxy.
\<close>

theorem dbinder_proxy_roundtrip:
  assumes "parcel_fifo P unread" "unread (mp_base m) = []" "w_cur w = Some st" "callback_table_ok H (ips st)"
    "he_isProxy H object" "IsHandleMadeByUser (he_handle H object)" "WriteRemoteObject_mp P H object m w = (True, m', w')"
  shows "fst (ReadRemoteObject_mp P H (MessageParcel (mp_base m')) w') = object \<and>
    (case map_of (dbinderSentCallback (ips st)) object of
       Some stub \<Rightarrow> unread (mp_base m') = [ObjectItem stub] \<and> w_cur w' = w_cur w
     | None \<Rightarrow> unread (mp_base m') = [ObjectItem (he_newStub H)] \<and>
         w_stubs w' (he_newStub H) = Some (session_stub H (he_handle H object)
           (sessions (ips st) (ProxyQueryDBinderSession (he_handle H object) (ips st)))))"
proof -
  let ?h = "he_handle H object" and ?m = "m\<lparr>holders := holders m @ [object]\<rparr>"
  have nz: "object \<noteq> nullptr" and wr: "WriteDBinderProxy P H object ?h ?m w = (True, m', w')"
    using assms(5-7) by (auto simp: WriteRemoteObject_mp_def split: if_splits)
  have got: "fst (ReadRemoteObject_mp P H (MessageParcel (mp_base m')) w') = object"
    if u: "unread (mp_base m') = [ObjectItem stub]" "stub \<noteq> nullptr" "w_cur w' = Some st'" "\<not> he_isProxy H stub"
      "QueryDBinderCallbackProxy (he_alive H) stub (ips st') = object" for stub st'
  proof -
    obtain p where "po_ReadObject P (mp_base m') = (stub, p)" using parcel_fifoD(8) [OF assms(1) u(1)] by blast
    then show ?thesis using u nz by (simp add: ReadRemoteObject_mp_def MessageParcel_def Let_def)
  qed
  let ?t = "dbinderSentCallback (ips st)"
  have inj: "\<forall>(k, v) \<in> set ?t. \<forall>(k', v') \<in> set ?t. v = v' \<longrightarrow> k = k'" and new: "he_alive H (he_newStub H)" "\<not> he_isProxy H (he_newStub H)"
    and fresh: "\<forall>v \<in> snd ` set ?t. v \<noteq> he_newStub H" using assms(4) by (auto simp: callback_table_ok_def)
  from assms(1,3,4) wr show ?thesis
  proof (cases rule: proxy_written)
    case (again stub)
    then have i: "(object, stub) \<in> set ?t" by (intro map_of_SomeD)
    then have a: "he_alive H stub" "\<not> he_isProxy H stub" using assms(4) by (force simp: callback_table_ok_def)+
    have "QueryDBinderCallbackProxy (he_alive H) stub (ips st) = object" by (rule query_proxy_found [where alive = "he_alive H", OF inj i a(1) again(5)])
    then show ?thesis using got [OF _ again(2,3) a(2)] again assms(2,3) by simp
  next
    case first
    let ?s = "(ips st)\<lparr>dbinderSentCallback := omap_put object (he_newStub H) ?t\<rparr>"
    have i: "(object, he_newStub H) \<in> set (omap_put object (he_newStub H) ?t)" by (rule map_of_SomeD) simp
    have "QueryDBinderCallbackProxy (he_alive H) (he_newStub H) ?s = object"
      by (rule query_proxy_found [where alive = "he_alive H", OF _ _ new(1)]) (use table_after_put [OF inj fresh, of object] i first(5) in simp_all)
    then show ?thesis using got [OF _ first(2,3) new(2)] first assms(2) by simp
  qed
qed

definition proxy_env :: holder_env where
  "proxy_env = \<lparr>he_attempt = (\<lambda>p. True), he_isProxy = (\<lambda>p. p = 100), he_handle = (\<lambda>p. DBINDER_HANDLE_BASE), he_alive = (\<lambda>p. True),
     he_local = ''A'', he_newStub = 200,
     he_objects = \<lparr>str8to16 = map (\<lambda>c. of_nat (of_char c)), is_proxy = (\<lambda>p. p = 100), inc_strong = (\<lambda>p. True), descriptor_of = (\<lambda>p. []),
       has_invoker = True, ping_samgr = True, set_registry = True, set_max_threads = True, new_proxy = None, new_pool = True\<rparr>\<rparr>"

definition proxy_process :: process_state where
  "proxy_process = \<lparr>ips = (IPCProcessSkeleton 1)\<lparr>proxyToSession := [(DBINDER_HANDLE_BASE, 300)],
     sessions := (\<lambda>p. DBinderSessionObject ''service'' ''B'' 7 0 9)\<rparr>, pskel = None\<rparr>"

definition sent_proxy :: "bool \<times> simple_parcel message_parcel \<times> parcel_world" where
  "sent_proxy = WriteRemoteObject_mp simple_ops proxy_env 100 (MessageParcel empty_parcel) (small_world\<lparr>w_cur := Some proxy_process\<rparr>)"

theorem dbinder_proxy_roundtrip_witness:
  "fst (ReadRemoteObject_mp simple_ops proxy_env (MessageParcel (mp_base (fst (snd sent_proxy)))) (snd (snd sent_proxy))) = 100 \<and>
   w_stubs (snd (snd sent_proxy)) 200 = Some \<lparr>cs_serviceName = ''service'', cs_deviceID = ''B'', cs_localDeviceID = ''A'',
     cs_stubIndex = 7, cs_handle = DBINDER_HANDLE_BASE, cs_tokenId = 9\<rparr>"
proof -
  let ?w = "small_world\<lparr>w_cur := Some proxy_process\<rparr>"
  have h: "he_isProxy proxy_env 100" "IsHandleMadeByUser (he_handle proxy_env 100)" "callback_table_ok proxy_env (ips proxy_process)"
    by (simp_all add: proxy_env_def proxy_process_def IPCProcessSkeleton_def IsHandleMadeByUser_def callback_table_ok_def)
  have "fst sent_proxy"
    by (simp add: sent_proxy_def WriteRemoteObject_mp_def WriteDBinderProxy_def proxy_env_def proxy_process_def IPCProcessSkeleton_def
        IsHandleMadeByUser_def ProxyQueryDBinderSession_def QueryDBinderCallbackStub_def AttachDBinderCallbackStub_def omap_insert_def
        Let_def write_stub_def write_object_def MessageParcel_def simple_ops_def sp_put_object_def sp_put_def UpdateDBinderDataOffset_def
        flat_bytes_def bytes_word_bytes)
  then have w: "WriteRemoteObject_mp simple_ops proxy_env 100 (MessageParcel empty_parcel) ?w = (True, fst (snd sent_proxy), snd (snd sent_proxy))"
    by (metis prod.collapse sent_proxy_def eq_True)
  have u: "sp_unread (mp_base (MessageParcel empty_parcel)) = []" "w_cur ?w = Some proxy_process" by (simp_all add: MessageParcel_def)
  have n: "map_of (dbinderSentCallback (ips proxy_process)) 100 = None" by (simp add: proxy_process_def IPCProcessSkeleton_def)
  from dbinder_proxy_roundtrip [OF simple_fifo u h(3,1,2) w] show ?thesis unfolding n
    by (simp add: session_stub_def proxy_env_def proxy_process_def DBinderSessionObject_def)
qed

end
