(* ===== verification/Parcel_Append.thy ===== *)
theory Parcel_Append
  imports Parcel_Contents
begin

text \<open>
  \<open>Append\<close> copies the bytes of a parcel, descriptors included, and then replaces every copied
  descriptor by a new one. So both parcels can be destroyed, in any order.
\<close>

section \<open>Replacing an object in the buffer\<close>

definition replaced :: "nat \<Rightarrow> flat_binder_object \<Rightarrow> bytes \<Rightarrow> bytes" where
  "replaced n f d = take n d @ flat_bytes f @ drop (n + 24) d"

lemma length_replaced: "n + 24 \<le> length d \<Longrightarrow> length (replaced n f d) = length d"
  by (simp add: replaced_def)

lemma flat_replaced_here: "n + 24 \<le> length d \<Longrightarrow> flat_of (drop n (replaced n f d)) = f"
  using flat_roundtrip [of f "drop (n + 24) d"] by (simp add: replaced_def)

lemma flat_replaced_before:
  assumes "x + 24 \<le> n" "n + 24 \<le> length d"
  shows "flat_of (drop x (replaced n f d)) = flat_of (drop x d)"
proof -
  have "take 24 (drop x (replaced n f d)) = take 24 (drop x d)"
    using assms by (simp add: replaced_def take_drop min_def)
  then show ?thesis by (metis flat_of_take)
qed

definition fd_of :: "flat_binder_object \<Rightarrow> int list" where
  "fd_of f = (if hdr_type f = BINDER_TYPE_FD \<and> fb_handle f > 0 then [sint (fb_handle f)] else [])"

lemma descriptors_replaced:
  assumes "table_ok d (offs @ [x])"
  shows "descriptors (replaced (unat x) f d) (offs @ [x]) = descriptors d offs @ fd_of f"
proof -
  have n: "unat x + 24 \<le> length d" and b: "\<And>y. y \<in> set offs \<Longrightarrow> unat y + 24 \<le> unat x"
    using assms by (auto simp: table_ok_def sorted_wrt_append)
  have m: "map (\<lambda>y. flat_of (drop (unat y) (replaced (unat x) f d))) offs = map (\<lambda>y. flat_of (drop (unat y) d)) offs"
    using flat_replaced_before [OF b n] by simp
  show ?thesis unfolding descriptors_def fd_of_def map_append filter_append m by (simp add: flat_replaced_here [OF n])
qed

lemma table_replaced: "unat x + 24 \<le> length d \<Longrightarrow> table_ok (replaced (unat x) f d) offs = table_ok d offs"
  by (simp add: table_ok_def length_replaced)

section \<open>Acquiring the copied objects\<close>

text \<open>Descriptors of a buffer are open ones, or \<open>-1\<close> where the system gave no copy.\<close>

definition open_fds :: "bytes \<Rightarrow> u64 list \<Rightarrow> int list" where
  "open_fds d offs = filter (\<lambda>x. x \<noteq> - 1) (descriptors d offs)"

definition same_calm :: "parcel_world \<Rightarrow> parcel_world \<Rightarrow> bool" where
  "same_calm w w' \<longleftrightarrow> w_badclose w' = w_badclose w \<and> w_fault w' = w_fault w \<and> w_pages w' = w_pages w"

lemma owned_no_mark:
  assumes "fds_owned F l w"
  shows "- 1 \<notin> set l"
proof
  assume "- 1 \<in> set l"
  then have "0 < (- 1 :: int)" using assms unfolding fds_owned_def by blast
  then show False by simp
qed

lemma fds_owned_insert:
  assumes "fds_owned F (l @ l') w" "0 < x" "w_fds w x = None"
  shows "fds_owned F ((l @ [x]) @ l') (w\<lparr>w_fds := (w_fds w)(x \<mapsto> f)\<rparr>)"
proof -
  note o = fds_owned_open [OF assms, of f]
  have "distinct ((l @ l') @ [x])" using o unfolding fds_owned_def by blast
  then have "distinct ((l @ [x]) @ l')" by auto
  then show ?thesis by (intro fds_owned_perm [OF o]) auto
qed

lemma acquire_owns:
  assumes "os_ok Y" "AcquireObject H Y f w = (f', w')" "fds_owned F (l @ l') w"
  shows "fds_owned F ((l @ filter (\<lambda>x. x \<noteq> - 1) (fd_of f')) @ l') w' \<and> same_calm w w'"
proof (cases "hdr_type f = BINDER_TYPE_FD")
  case True
  obtain n w1 where n: "sys_dup Y (sint (fb_handle f)) w = (n, w1)" by (meson surj_pair)
  have f': "f' = (set_handle (word_of_int n) f)\<lparr>fb_cookie := 1\<rparr>" "w' = w1" using assms(2) n True by (simp_all add: AcquireObject_def)
  have h: "hdr_type f' = BINDER_TYPE_FD" "fb_handle f' = word_of_int n"
    unfolding f' using True fb_handle_set(1) [of "word_of_int n" f] by (simp_all add: set_handle_def fb_handle_def)
  from dup_cases [OF assms(1) n] show ?thesis
  proof
    assume a: "n < 0 \<and> w1 = w"
    then have "n = - 1" using n by (auto simp: sys_dup_def Let_def split: option.splits if_splits)
    then have "filter (\<lambda>x. x \<noteq> - 1) (fd_of f') = []" using h by (simp add: fd_of_def)
    then show ?thesis using a f' assms(3) by (simp add: same_calm_def)
  next
    assume a: "0 < n \<and> n < 2 ^ 31 \<and> w_fds w n = None \<and> (\<exists>g. w_fds w (sint (fb_handle f)) = Some g \<and> w1 = w\<lparr>w_fds := (w_fds w)(n \<mapsto> g)\<rparr>)"
    have "sint (word_of_int n :: u32) = n \<and> (word_of_int n :: u32) > 0" using descriptor_of_fd [of n] a by (simp add: fb_handle_def fd_object_def)
    then have "filter (\<lambda>x. x \<noteq> - 1) (fd_of f') = [n]" using h a by (simp add: fd_of_def)
    then show ?thesis using a f' fds_owned_insert [OF assms(3), of n] by (auto simp: same_calm_def)
  qed
next
  case False
  then have "f' = f" "w_fds w' = w_fds w" "same_calm w w'"
    using assms(2) by (auto simp: AcquireObject_def same_calm_def split: if_splits option.splits)
  then show ?thesis using False assms(3) by (simp add: fd_of_def fds_owned_def)
qed

lemma parcel_layoutD2:
  assumes "parcel_layout P" "layout P p d offs"
  shows "po_EnsureObjectsCapacity P p = (r, p') \<Longrightarrow> layout P p' d offs"
    and "table_ok d (offs @ [x]) \<Longrightarrow> po_WriteObjectOffset P x p = (r, p') \<Longrightarrow> layout P p' d (if r then offs @ [x] else offs)"
    and "length d' = length d \<Longrightarrow> layout P (po_SetData P d' p) d' offs"
    and "po_WriteBuffer P bs p = (r, p') \<Longrightarrow> if r then \<exists>pad. layout P p' (d @ bs @ pad) offs else layout P p' d offs"
proof -
  have l: "only_reads P (\<lambda>p. snd (po_EnsureObjectsCapacity P p))" "writes_offset P" "writes_through P" "writes_buffer P"
    using assms(1) unfolding parcel_layout_def by blast+
  show "po_EnsureObjectsCapacity P p = (r, p') \<Longrightarrow> layout P p' d offs" using l(1) assms(2) unfolding only_reads_def by (metis snd_conv)
  show "table_ok d (offs @ [x]) \<Longrightarrow> po_WriteObjectOffset P x p = (r, p') \<Longrightarrow> layout P p' d (if r then offs @ [x] else offs)"
    using l(2) assms(2) unfolding writes_offset_def by blast
  show "length d' = length d \<Longrightarrow> layout P (po_SetData P d' p) d' offs" using l(3) assms(2) unfolding writes_through_def by blast
  show "po_WriteBuffer P bs p = (r, p') \<Longrightarrow> if r then \<exists>pad. layout P p' (d @ bs @ pad) offs else layout P p' d offs"
    using l(4) assms(2) unfolding writes_buffer_def by blast
qed

lemma append_loop_owns:
  assumes "os_ok Y" "parcel_layout P"
  shows "layout P (mp_base m) d offs \<Longrightarrow> table_ok d (offs @ map (\<lambda>x. of_nat old + x) os) \<Longrightarrow> fds_owned F (open_fds d offs @ L) w \<Longrightarrow>
    append_loop P H Y old os m w = (r, m', w') \<Longrightarrow>
    (\<exists>d' offs'. layout P (mp_base m') d' offs' \<and> fds_owned F (open_fds d' offs' @ L) w') \<and> same_calm w w'"
proof (induction os arbitrary: m d offs w)
  case Nil
  then show ?case by (auto simp: same_calm_def)
next
  case (Cons x os)
  let ?off = "of_nat old + x :: u64"
  obtain r1 b where b: "po_EnsureObjectsCapacity P (mp_base m) = (r1, b)" by (meson surj_pair)
  obtain r2 b1 where b1: "po_WriteObjectOffset P ?off b = (r2, b1)" by (meson surj_pair)
  have t: "table_ok d (offs @ [?off])" using Cons.prems(2) by (auto simp: table_ok_def sorted_wrt_append)
  then have n: "unat ?off + 24 \<le> length d" by (simp add: table_ok_def)
  note l = parcel_layoutD2(1) [OF assms(2) Cons.prems(1) b]
  note l1 = parcel_layoutD2(2) [OF assms(2) l t b1]
  let ?f = "flat_of (drop (unat ?off) d)"
  obtain f w1 where a: "AcquireObject H Y ?f w = (f, w1)" by (meson surj_pair)
  let ?d = "replaced (unat ?off) f d"
  let ?m = "m\<lparr>mp_base := po_SetData P ?d b1\<rparr>"
  show ?case
  proof (cases "r1 \<and> r2")
    case False
    then have "(w' = w) \<and> (mp_base m' = b \<or> \<not> r2 \<and> mp_base m' = b1)" using Cons.prems(4) b b1 by (auto split: bool.splits)
    then have "layout P (mp_base m') d offs" "w' = w" using l l1 by auto
    then show ?thesis using Cons.prems(3) unfolding same_calm_def by metis
  next
    case True
    then have l2: "layout P b1 d (offs @ [?off])" using l1 by simp
    then have "po_GetData P b1 = Some d" using n by (auto simp: layout_def)
    then have rest: "append_loop P H Y old os ?m w1 = (r, m', w')" using Cons.prems(4) b b1 True a n by (simp add: replaced_def Let_def)
    have lm: "layout P (mp_base ?m) ?d (offs @ [?off])"
      using parcel_layoutD2(3) [OF assms(2) l2, of ?d] length_replaced [OF n] by simp
    have tm: "table_ok ?d ((offs @ [?off]) @ map (\<lambda>x. of_nat old + x) os)" using Cons.prems(2) table_replaced [OF n] by simp
    have o: "open_fds ?d (offs @ [?off]) = open_fds d offs @ filter (\<lambda>x. x \<noteq> - 1) (fd_of f)"
      unfolding open_fds_def descriptors_replaced [OF t] by simp
    note ac = acquire_owns [OF assms(1) a Cons.prems(3)]
    have "fds_owned F (open_fds ?d (offs @ [?off]) @ L) w1" unfolding o using ac by blast
    from Cons.IH [OF lm tm this rest] ac show ?thesis by (auto simp: same_calm_def)
  qed
qed

section \<open>Both parcels give back their descriptors\<close>

lemma table_appended:
  assumes "table_ok d offs" "table_ok e os" "length (d @ e @ pad) < 2 ^ 63"
  shows "table_ok (d @ e @ pad) (offs @ map (\<lambda>x. of_nat (length d) + x) os)"
proof -
  have u: "unat (of_nat (length d) + x :: u64) = length d + unat x" if "x \<in> set os" for x
  proof -
    have "unat x + 24 \<le> length e" using that assms(2) by (simp add: table_ok_def)
    then have "length d + unat x < 2 ^ 64" "length d < 2 ^ 64" using assms(3) by simp_all
    then show ?thesis by (simp add: unat_word_ariths unat_of_nat take_bit_nat_eq_self)
  qed
  have "sorted_wrt (\<lambda>x y. unat x + 24 \<le> unat y) (map (\<lambda>x. of_nat (length d) + x) os)"
    using assms(2) u unfolding table_ok_def sorted_wrt_map by (metis (no_types, lifting) add.assoc add_left_mono sorted_wrt_mono_rel)
  then show ?thesis using assms u by (fastforce simp: table_ok_def sorted_wrt_append)
qed

lemma append_owns:
  assumes "os_ok Y" "parcel_layout P" "layout P (mp_base m) d offs" "layout P (mp_base dat) e os"
    "fds_owned F (descriptors d offs @ descriptors e os) w" "Append P H Y dat m w = (r, m', w')"
  obtains (both) d' offs' where "layout P (mp_base m') d' offs'" "fds_owned F (open_fds d' offs' @ descriptors e os) w'" "same_calm w w'"
proof -
  obtain r1 b where b: "po_WriteBuffer P e (mp_base m) = (r1, b)" by (meson surj_pair)
  note lb = parcel_layoutD2(4) [OF assms(2,3) b]
  have dat: "po_GetDataSize P (mp_base dat) = length e" "po_GetData P (mp_base dat) = (if e = [] then None else Some e)"
    "po_GetOffsetsSize P (mp_base dat) = length os" "po_GetObjectOffsets P (mp_base dat) = (if os = [] then None else Some os)"
    and pos: "po_GetWritePosition P (mp_base m) = length d" using assms(3,4) by (simp_all add: layout_def)
  have "- 1 \<notin> set (descriptors d offs)" using owned_no_mark [OF assms(5)] by simp
  then have o: "open_fds d offs = descriptors d offs" by (auto simp: open_fds_def filter_id_conv)
  have keep: thesis if "layout P (mp_base m') (d @ z) offs" "w' = w" for z
    using that assms(5) o descriptors_append [OF layout_table [OF assms(3)], of z]
    by (intro both [of "d @ z" offs]) (simp_all add: open_fds_def same_calm_def)
  show thesis
  proof (cases "e = [] \<or> \<not> r1")
    case True
    then have "w' = w" "mp_base m' = mp_base m \<or> \<not> r1 \<and> mp_base m' = b" using assms(6) b dat by (auto simp: Append_def Let_def split: if_splits bool.splits)
    then show thesis using keep [of "[]"] assms(3) lb by auto
  next
    case False
    then obtain pad where l: "layout P b (d @ e @ pad) offs" using lb by auto
    have A: "Append P H Y dat m w = append_loop P H Y (length d) os (m\<lparr>mp_base := b\<rparr>) w"
      using False b dat pos by (cases "os = []") (auto simp: Append_def Let_def)
    have t: "table_ok (d @ e @ pad) (offs @ map (\<lambda>x. of_nat (length d) + x) os)"
      by (rule table_appended [OF layout_table [OF assms(3)] layout_table [OF assms(4)]]) (use layout_table [OF l] in \<open>simp add: table_ok_def\<close>)
    have f: "fds_owned F (open_fds (d @ e @ pad) offs @ descriptors e os) w"
      using assms(5) o descriptors_append [OF layout_table [OF assms(3)], of "e @ pad"] by (simp add: open_fds_def)
    from append_loop_owns [OF assms(1,2), of "m\<lparr>mp_base := b\<rparr>" "d @ e @ pad" offs "length d" os F "descriptors e os" w H r m' w'] l t f A assms(6)
    show thesis using both by auto
  qed
qed

text \<open>Closing a list that has \<open>-1\<close> among its descriptors.\<close>

lemma closing_open:
  assumes "fds_owned F (filter (\<lambda>x. x \<noteq> - 1) l @ l') w" "F (- 1) = None"
  shows "fds_owned F l' (fold sys_close l w) \<and> set (w_badclose (fold sys_close l w)) \<subseteq> insert (- 1) (set (w_badclose w))"
  using assms(1)
proof (induction l arbitrary: w)
  case (Cons x l)
  show ?case
  proof (cases "x = - 1")
    case True
    have "w_fds w (- 1) = None" using owned_no_mark [OF Cons.prems] Cons.prems assms(2) unfolding fds_owned_def by metis
    then have c: "sys_close x w = w\<lparr>w_badclose := - 1 # w_badclose w\<rparr>" using True by (simp add: sys_close_def)
    have "fds_owned F (filter (\<lambda>x. x \<noteq> - 1) l @ l') (sys_close x w)" using Cons.prems True unfolding c by (simp add: fds_owned_def)
    from Cons.IH [OF this] c show ?thesis by auto
  next
    case False
    have "fds_owned F (filter (\<lambda>x. x \<noteq> - 1) l @ l') (sys_close x w) \<and> w_badclose (sys_close x w) = w_badclose w"
      using Cons.prems False by (auto simp: fds_owned_def sys_close_def)
    with Cons.IH [of "sys_close x w"] show ?thesis by simp
  qed
qed auto

text \<open>
  C17. Appending a parcel to another shares no descriptor: whatever the result of the call, and
  however many of the copies the system refuses, both parcels can afterwards close their descriptors,
  in either order. Then all their descriptors are closed and no other, and nothing is closed twice; only
  the mark of a refused copy is passed to the system.
\<close>

theorem append_shares_no_descriptor:
  assumes "os_ok Y" "parcel_layout P" "layout P (mp_base m) d offs" "layout P (mp_base dat) e os"
    "fds_owned F (descriptors d offs @ descriptors e os) w" "w_badclose w = []" "F (- 1) = None" "Append P H Y dat m w = (r, m', w')"
  shows "w_fds (ClearFileDescriptor P (mp_base dat) (ClearFileDescriptor P (mp_base m') w')) = F \<and>
    w_fds (ClearFileDescriptor P (mp_base m') (ClearFileDescriptor P (mp_base dat) w')) = F \<and>
    set (w_badclose (ClearFileDescriptor P (mp_base dat) (ClearFileDescriptor P (mp_base m') w'))) \<subseteq> {- 1} \<and>
    set (w_badclose (ClearFileDescriptor P (mp_base m') (ClearFileDescriptor P (mp_base dat) w'))) \<subseteq> {- 1}"
proof -
  obtain d' offs' where a: "layout P (mp_base m') d' offs'" "fds_owned F (open_fds d' offs' @ descriptors e os) w'" "same_calm w w'"
    by (rule append_owns [OF assms(1-5,8)])
  have b: "w_badclose w' = []" using a(3) assms(6) by (simp add: same_calm_def)
  have "- 1 \<notin> set (descriptors e os)" using owned_no_mark [OF a(2)] by simp
  then have e: "filter (\<lambda>x. x \<noteq> - 1) (descriptors e os) = descriptors e os" by (auto simp: filter_id_conv)
  have dist: "distinct (open_fds d' offs' @ descriptors e os)" using a(2) unfolding fds_owned_def by blast
  let ?l = "descriptors d' offs'" and ?k = "descriptors e os"
  have o1: "fds_owned F (filter (\<lambda>x. x \<noteq> - 1) (?l @ ?k) @ []) w'" using a(2) e by (simp add: open_fds_def)
  have o2: "fds_owned F (filter (\<lambda>x. x \<noteq> - 1) (?k @ ?l) @ []) w'"
    by (rule fds_owned_perm [OF a(2)]) (use dist e in \<open>auto simp: open_fds_def\<close>)
  note c = ClearFileDescriptor_closes [OF a(1)] ClearFileDescriptor_closes [OF assms(4)]
  show ?thesis unfolding c
    using closing_open [OF o1 assms(7)] closing_open [OF o2 assms(7)] b by (auto simp: fds_owned_def fun_eq_iff)
qed

text \<open>A parcel with a descriptor is appended to an empty one.\<close>

theorem append_shares_no_descriptor_witness:
  "w_fds (ClearFileDescriptor simple_ops (mp_base (fst (snd small_fd)))
     (ClearFileDescriptor simple_ops (mp_base (fst (snd (Append simple_ops proxy_env small_os (fst (snd small_fd)) (MessageParcel empty_parcel) (snd (snd small_fd))))))
       (snd (snd (Append simple_ops proxy_env small_os (fst (snd small_fd)) (MessageParcel empty_parcel) (snd (snd small_fd))))))) = [1 \<mapsto> 3]"
proof -
  let ?r = "Append simple_ops proxy_env small_os (fst (snd small_fd)) (MessageParcel empty_parcel) (snd (snd small_fd))"
  have m: "layout simple_ops (mp_base (MessageParcel empty_parcel)) [] []" using small_start by (simp add: MessageParcel_def)
  have fd: "small_fd = (True, MessageParcel \<lparr>sp_data = flat_bytes (fd_object 5), sp_offs = [0], sp_unread = [DescriptorItem 5]\<rparr>,
      small_world\<lparr>w_fds := [1 \<mapsto> 3, 5 \<mapsto> 3]\<rparr>)"
    by (simp add: small_fd_def WriteFileDescriptor_mp_def sys_dup_def small_os_def small_world_def MessageParcel_def simple_ops_def
        sp_put_object_def sp_put_def Let_def)
  have dat: "layout simple_ops (mp_base (fst (snd small_fd))) (flat_bytes (fd_object 5)) [0]"
    unfolding fd by (simp add: MessageParcel_def simple_layout table_ok_def)
  have ds: "descriptors (flat_bytes (fd_object 5)) [0] = [5]"
    using descriptors_written [of 5 "[]" "[]"] by (simp add: table_ok_def descriptors_def)
  have own: "fds_owned [1 \<mapsto> 3] (descriptors [] [] @ descriptors (flat_bytes (fd_object 5)) [0]) (snd (snd small_fd))"
    unfolding ds fd by (simp add: fds_owned_def descriptors_def)
  have b: "w_badclose (snd (snd small_fd)) = []" "[1 \<mapsto> 3] (- 1 :: int) = (None :: nat option)" unfolding fd by (simp_all add: small_world_def)
  have r: "?r = (fst ?r, fst (snd ?r), snd (snd ?r))" by simp
  from append_shares_no_descriptor [OF small_os_ok simple_parcel_layout m dat own b r] show ?thesis by blast
qed

end
