(* ===== verification/Io_Serializer.thy ===== *)
theory Io_Serializer
  imports Byte_Codec Buffer_Object
begin

unbundle bit_operations_syntax

text \<open>
  The message buffer of the C implementation (\<open>ipc/native/c/manager/src/serializer.c\<close>): an \<open>IpcIo\<close>
  is a cursor over a byte buffer and a cursor over an array of object offsets, with a flag that
  remembers an overflow.

  The record holds the bytes from \<open>bufferBase\<close> on and the cursor as a distance from it; the offsets
  likewise, and whether there are any (\<open>io_hasOffs\<close>: \<open>offsetsCur\<close> is not null). Sizes are 64-bit words, as \<open>size_t\<close> on the targets with 64 bits. A null pointer is
  \<open>None\<close>. Results that the code stores through an out-parameter are part of the result of the
  function, so that the null checks of out-parameters have no counterpart. Pointers into the
  buffer are distances from \<open>bufferBase\<close>. Integers are stored in little-endian order; floating
  point numbers are given by their bits. The secure copy functions and the allocator are
  parameters.
\<close>

section \<open>The buffer\<close>

abbreviation (input) MAX_IO_SIZE :: u64 where "MAX_IO_SIZE \<equiv> 8192"
abbreviation (input) MAX_OBJ_NUM :: u64 where "MAX_OBJ_NUM \<equiv> 32"
abbreviation (input) IPC_IO_INITIALIZED :: u32 where "IPC_IO_INITIALIZED \<equiv> 1"
abbreviation (input) IPC_IO_OVERFLOW :: u32 where "IPC_IO_OVERFLOW \<equiv> 2"

record ipc_io =
  io_mem :: bytes
  io_cur :: nat
  io_left :: u64
  io_offs :: "u64 list"
  io_offCur :: nat
  io_offLeft :: u64
  io_flag :: u32
  io_hasOffs :: bool

record clib =
  c_libc :: libc
  memset_s :: "bytes \<Rightarrow> nat \<Rightarrow> nat \<Rightarrow> u8 \<Rightarrow> nat \<Rightarrow> int \<times> bytes"
  malloc_ok :: "u64 \<Rightarrow> bool"

text \<open>What the documentation of the secure functions promises.\<close>

definition clib_ok :: "clib \<Rightarrow> bool" where
  "clib_ok C \<longleftrightarrow> libc_ok (c_libc C) \<and>
     (\<forall>dst off dm c n. 0 < dm \<and> n \<le> dm \<and> dm \<le> SECUREC_MEM_MAX_LEN \<and> off + dm \<le> length dst \<longrightarrow>
        memset_s C dst off dm c n = (EOK, take off dst @ replicate n c @ drop (off + n) dst))"

text \<open>
  The documentation says nothing of a fill of no bytes other than that a destination of size zero
  may be refused. Code that fills the rest of an exactly full block depends on its success.
\<close>

definition memset_empty_ok :: "clib \<Rightarrow> bool" where
  "memset_empty_ok C \<longleftrightarrow> (\<forall>dst off c. memset_s C dst off 0 c 0 = (EOK, dst))"

definition std_clib :: clib where
  "std_clib = \<lparr>c_libc = std_libc,
     memset_s = (\<lambda>dst off dm c n. (EOK, take off dst @ replicate n c @ drop (off + n) dst)),
     malloc_ok = (\<lambda>n. True)\<rparr>"

definition IPC_IO_ALIGN :: "u64 \<Rightarrow> u64" where
  "IPC_IO_ALIGN sz = (sz + 4 - 1) AND NOT (4 - 1)"

definition set_overflow :: "ipc_io \<Rightarrow> ipc_io" where
  "set_overflow io = io\<lparr>io_flag := io_flag io OR IPC_IO_OVERFLOW\<rparr>"

definition put_at :: "nat \<Rightarrow> bytes \<Rightarrow> bytes \<Rightarrow> bytes" where
  "put_at off bs mem = take off mem @ bs @ drop (off + length bs) mem"

definition io_bytes :: "nat \<Rightarrow> nat \<Rightarrow> ipc_io \<Rightarrow> bytes" where
  "io_bytes p n io = take n (drop p (io_mem io))"

text \<open>\<open>buffer\<close> has at least \<open>bufferSize\<close> bytes.\<close>

definition IpcIoInit :: "bytes option \<Rightarrow> u64 \<Rightarrow> u64 \<Rightarrow> ipc_io option \<Rightarrow> ipc_io option" where
  "IpcIoInit buffer bufferSize maxobjects io =
     (case io of
        None \<Rightarrow> None
      | Some s \<Rightarrow>
          (case buffer of
             None \<Rightarrow> Some s
           | Some buf \<Rightarrow>
               if bufferSize = 0 \<or> bufferSize > MAX_IO_SIZE \<or> maxobjects > MAX_OBJ_NUM then Some s
               else
                 (let objectsSize = maxobjects * 8 in
                  if objectsSize > bufferSize
                  then Some (s\<lparr>io_flag := IPC_IO_OVERFLOW, io_left := 0, io_offLeft := 0\<rparr>)
                  else Some \<lparr>io_mem = take (unat (bufferSize - objectsSize)) (drop (unat objectsSize) buf),
                         io_cur = 0, io_left = bufferSize - objectsSize,
                         io_offs = map (\<lambda>i. bytes_word (take 8 (drop (8 * i) buf))) [0..<unat maxobjects],
                         io_offCur = 0, io_offLeft = maxobjects, io_flag = IPC_IO_INITIALIZED,
                         io_hasOffs = True\<rparr>)))"

definition IpcIoAvailable :: "ipc_io \<Rightarrow> bool" where
  "IpcIoAvailable io \<longleftrightarrow> io_flag io AND IPC_IO_INITIALIZED \<noteq> 0 \<and> io_flag io AND IPC_IO_OVERFLOW = 0"

definition take_space :: "u64 \<Rightarrow> ipc_io \<Rightarrow> nat option \<times> ipc_io" where
  "take_space sz io =
     (Some (io_cur io), io\<lparr>io_cur := io_cur io + unat sz, io_left := io_left io - sz\<rparr>)"

definition IoPush :: "u64 \<Rightarrow> ipc_io \<Rightarrow> nat option \<times> ipc_io" where
  "IoPush size1 io =
     (if \<not> IpcIoAvailable io then (None, set_overflow io)
      else
        (let sz = IPC_IO_ALIGN size1 in
         if sz > io_left io then (None, set_overflow io) else take_space sz io))"

definition IoPop :: "u64 \<Rightarrow> ipc_io \<Rightarrow> nat option \<times> ipc_io" where
  "IoPop size1 io =
     (if \<not> IpcIoAvailable io then (None, set_overflow io)
      else
        (let sz = IPC_IO_ALIGN size1 in
         if io_left io < sz then (None, set_overflow (io\<lparr>io_left := 0\<rparr>)) else take_space sz io))"

definition IoPushUnaligned :: "u64 \<Rightarrow> ipc_io \<Rightarrow> nat option \<times> ipc_io" where
  "IoPushUnaligned size1 io =
     (if \<not> IpcIoAvailable io then (None, set_overflow io)
      else if size1 > io_left io then (None, set_overflow io) else take_space size1 io)"

definition IoPopUnaligned :: "u64 \<Rightarrow> ipc_io \<Rightarrow> nat option \<times> ipc_io" where
  "IoPopUnaligned size1 io =
     (if \<not> IpcIoAvailable io then (None, set_overflow io)
      else if io_left io < size1 then (None, set_overflow (io\<lparr>io_left := 0\<rparr>)) else take_space size1 io)"

text \<open>Null checks: every function returns at once, with false or null, for a null \<open>io\<close>.\<close>

definition write_io :: "(ipc_io \<Rightarrow> bool \<times> ipc_io) \<Rightarrow> ipc_io option \<Rightarrow> bool \<times> ipc_io option" where
  "write_io f io = (case io of None \<Rightarrow> (False, None) | Some s \<Rightarrow> (case f s of (r, s') \<Rightarrow> (r, Some s')))"

definition read_io :: "(ipc_io \<Rightarrow> 'a option \<times> ipc_io) \<Rightarrow> ipc_io option \<Rightarrow> 'a option \<times> ipc_io option" where
  "read_io f io = (case io of None \<Rightarrow> (None, None) | Some s \<Rightarrow> (case f s of (r, s') \<Rightarrow> (r, Some s')))"

section \<open>Appending\<close>

fun append_offsets :: "u64 list \<Rightarrow> u64 \<Rightarrow> ipc_io \<Rightarrow> ipc_io" where
  "append_offsets [] adj dst = dst"
| "append_offsets (v # vs) adj dst =
     append_offsets vs adj (dst\<lparr>io_offLeft := io_offLeft dst - 1,
       io_offs := (io_offs dst)[io_offCur dst := v + adj], io_offCur := io_offCur dst + 1\<rparr>)"

definition IpcIoAppend :: "clib \<Rightarrow> ipc_io option \<Rightarrow> ipc_io option \<Rightarrow> bool \<times> ipc_io option" where
  "IpcIoAppend C dst src =
     (case (dst, src) of
        (Some d, Some s) \<Rightarrow>
          if \<not> IpcIoAvailable d \<or> \<not> IpcIoAvailable s then (False, dst)
          else
            (let used = of_nat (io_cur s) :: u64; usedOffs = of_nat (io_offCur s) :: u64 in
             if used = 0 \<and> usedOffs \<noteq> 0 then (False, dst)
             else if io_left d < used \<or> io_offLeft d < usedOffs then (False, dst)
             else if used > 0 then
               (case IoPush used d of
                  (None, d1) \<Rightarrow> (False, Some d1)
                | (Some p, d1) \<Rightarrow>
                    (let cap = unat (IPC_IO_ALIGN used) in
                     case memset_s C (io_mem d1) p cap 0 cap of (err, mem1) \<Rightarrow>
                       if err \<noteq> EOK then (False, Some (set_overflow (d1\<lparr>io_mem := mem1\<rparr>)))
                       else (case memcpy_s (c_libc C) mem1 p cap (io_mem s) (unat used) of (err2, mem2) \<Rightarrow>
                         if err2 \<noteq> EOK then (False, Some (set_overflow (d1\<lparr>io_mem := mem2\<rparr>)))
                         else (True, Some (append_offsets (take (io_offCur s) (io_offs s)) (of_nat p)
                                       (d1\<lparr>io_mem := mem2\<rparr>))))))
             else (True, dst))
      | _ \<Rightarrow> (False, dst))"

section \<open>Writing numbers\<close>

definition store_at :: "nat option \<times> ipc_io \<Rightarrow> bytes \<Rightarrow> bool \<times> ipc_io" where
  "store_at r bs =
     (case r of
        (None, io) \<Rightarrow> (False, io)
      | (Some p, io) \<Rightarrow> (True, io\<lparr>io_mem := put_at p bs (io_mem io)\<rparr>))"

definition WriteInt32 :: "32 word \<Rightarrow> ipc_io option \<Rightarrow> bool \<times> ipc_io option" where
  "WriteInt32 v = write_io (\<lambda>io. store_at (IoPush 4 io) (word_bytes v))"

definition WriteUint32 :: "u32 \<Rightarrow> ipc_io option \<Rightarrow> bool \<times> ipc_io option" where
  "WriteUint32 v = write_io (\<lambda>io. store_at (IoPush 4 io) (word_bytes v))"

definition WriteBool :: "bool \<Rightarrow> ipc_io option \<Rightarrow> bool \<times> ipc_io option" where
  "WriteBool v io = (case io of None \<Rightarrow> (False, None) | Some s \<Rightarrow> WriteInt32 (of_bool v) io)"

definition WriteBoolUnaligned :: "bool \<Rightarrow> ipc_io option \<Rightarrow> bool \<times> ipc_io option" where
  "WriteBoolUnaligned v = write_io (\<lambda>io. store_at (IoPushUnaligned 1 io) (word_bytes (of_bool v :: u8)))"

definition WritePointer :: "u64 \<Rightarrow> ipc_io option \<Rightarrow> bool \<times> ipc_io option" where
  "WritePointer v = write_io (\<lambda>io. store_at (IoPush 8 io) (word_bytes v))"

definition WriteInt8 :: "8 word \<Rightarrow> ipc_io option \<Rightarrow> bool \<times> ipc_io option" where
  "WriteInt8 v io = (case io of None \<Rightarrow> (False, None) | Some s \<Rightarrow> WriteInt32 (scast v) io)"

definition WriteInt8Unaligned :: "8 word \<Rightarrow> ipc_io option \<Rightarrow> bool \<times> ipc_io option" where
  "WriteInt8Unaligned v = write_io (\<lambda>io. store_at (IoPushUnaligned 1 io) (word_bytes v))"

definition WriteUint8 :: "u8 \<Rightarrow> ipc_io option \<Rightarrow> bool \<times> ipc_io option" where
  "WriteUint8 v io = (case io of None \<Rightarrow> (False, None) | Some s \<Rightarrow> WriteUint32 (ucast v) io)"

definition WriteUint8Unaligned :: "u8 \<Rightarrow> ipc_io option \<Rightarrow> bool \<times> ipc_io option" where
  "WriteUint8Unaligned v = write_io (\<lambda>io. store_at (IoPushUnaligned 1 io) (word_bytes v))"

definition WriteInt16 :: "16 word \<Rightarrow> ipc_io option \<Rightarrow> bool \<times> ipc_io option" where
  "WriteInt16 v io = (case io of None \<Rightarrow> (False, None) | Some s \<Rightarrow> WriteInt32 (scast v) io)"

definition WriteInt16Unaligned :: "16 word \<Rightarrow> ipc_io option \<Rightarrow> bool \<times> ipc_io option" where
  "WriteInt16Unaligned v = write_io (\<lambda>io. store_at (IoPushUnaligned 2 io) (word_bytes v))"

definition WriteUint16 :: "u16 \<Rightarrow> ipc_io option \<Rightarrow> bool \<times> ipc_io option" where
  "WriteUint16 v io = (case io of None \<Rightarrow> (False, None) | Some s \<Rightarrow> WriteUint32 (ucast v) io)"

definition WriteUint16Unaligned :: "u16 \<Rightarrow> ipc_io option \<Rightarrow> bool \<times> ipc_io option" where
  "WriteUint16Unaligned v = write_io (\<lambda>io. store_at (IoPushUnaligned 2 io) (word_bytes v))"

definition WriteInt64 :: "64 word \<Rightarrow> ipc_io option \<Rightarrow> bool \<times> ipc_io option" where
  "WriteInt64 v = write_io (\<lambda>io. store_at (IoPush 8 io) (word_bytes v))"

definition WriteUint64 :: "u64 \<Rightarrow> ipc_io option \<Rightarrow> bool \<times> ipc_io option" where
  "WriteUint64 v = write_io (\<lambda>io. store_at (IoPush 8 io) (word_bytes v))"

definition WriteFloat :: "u32 \<Rightarrow> ipc_io option \<Rightarrow> bool \<times> ipc_io option" where
  "WriteFloat v = write_io (\<lambda>io. store_at (IoPush 4 io) (word_bytes v))"

definition WriteDouble :: "u64 \<Rightarrow> ipc_io option \<Rightarrow> bool \<times> ipc_io option" where
  "WriteDouble v = write_io (\<lambda>io. store_at (IoPush 8 io) (word_bytes v))"

section \<open>Reading numbers\<close>

definition load_at :: "nat option \<times> ipc_io \<Rightarrow> nat \<Rightarrow> bytes option \<times> ipc_io" where
  "load_at r n =
     (case r of (None, io) \<Rightarrow> (None, io) | (Some p, io) \<Rightarrow> (Some (io_bytes p n io), io))"

definition load_word :: "nat option \<times> ipc_io \<Rightarrow> 'a::len word option \<times> ipc_io" where
  "load_word r = (case load_at r (LENGTH('a) div 8) of (v, io) \<Rightarrow> (map_option bytes_word v, io))"

definition load_bool :: "nat option \<times> ipc_io \<Rightarrow> bool option \<times> ipc_io" where
  "load_bool r = (case load_word r of (v, io) \<Rightarrow> (map_option (\<lambda>w :: u8. w \<noteq> 0) v, io))"

definition ReadBool :: "ipc_io option \<Rightarrow> bool option \<times> ipc_io option" where
  "ReadBool = read_io (\<lambda>io. load_bool (IoPop 1 io))"

definition ReadBoolUnaligned :: "ipc_io option \<Rightarrow> bool option \<times> ipc_io option" where
  "ReadBoolUnaligned = read_io (\<lambda>io. load_bool (IoPopUnaligned 1 io))"

definition ReadPointer :: "ipc_io option \<Rightarrow> u64 \<times> ipc_io option" where
  "ReadPointer io =
     (case read_io (\<lambda>io. load_word (IoPop 8 io)) io of (v, io') \<Rightarrow> (case v of Some w \<Rightarrow> w | None \<Rightarrow> 0, io'))"

definition ReadInt8 :: "ipc_io option \<Rightarrow> 8 word option \<times> ipc_io option" where
  "ReadInt8 = read_io (\<lambda>io. load_word (IoPop 1 io))"

definition ReadInt8Unaligned :: "ipc_io option \<Rightarrow> 8 word option \<times> ipc_io option" where
  "ReadInt8Unaligned = read_io (\<lambda>io. load_word (IoPopUnaligned 1 io))"

definition ReadUint8 :: "ipc_io option \<Rightarrow> u8 option \<times> ipc_io option" where
  "ReadUint8 = read_io (\<lambda>io. load_word (IoPop 1 io))"

definition ReadUInt8Unaligned :: "ipc_io option \<Rightarrow> u8 option \<times> ipc_io option" where
  "ReadUInt8Unaligned = read_io (\<lambda>io. load_word (IoPopUnaligned 1 io))"

definition ReadInt16 :: "ipc_io option \<Rightarrow> 16 word option \<times> ipc_io option" where
  "ReadInt16 = read_io (\<lambda>io. load_word (IoPop 2 io))"

definition ReadInt16Unaligned :: "ipc_io option \<Rightarrow> 16 word option \<times> ipc_io option" where
  "ReadInt16Unaligned = read_io (\<lambda>io. load_word (IoPopUnaligned 2 io))"

definition ReadUint16 :: "ipc_io option \<Rightarrow> u16 option \<times> ipc_io option" where
  "ReadUint16 = read_io (\<lambda>io. load_word (IoPop 2 io))"

definition ReadUInt16Unaligned :: "ipc_io option \<Rightarrow> u16 option \<times> ipc_io option" where
  "ReadUInt16Unaligned = read_io (\<lambda>io. load_word (IoPopUnaligned 2 io))"

definition ReadInt32 :: "ipc_io option \<Rightarrow> 32 word option \<times> ipc_io option" where
  "ReadInt32 = read_io (\<lambda>io. load_word (IoPop 4 io))"

definition ReadUint32 :: "ipc_io option \<Rightarrow> u32 option \<times> ipc_io option" where
  "ReadUint32 = read_io (\<lambda>io. load_word (IoPop 4 io))"

definition ReadInt64 :: "ipc_io option \<Rightarrow> 64 word option \<times> ipc_io option" where
  "ReadInt64 = read_io (\<lambda>io. load_word (IoPop 8 io))"

definition ReadUint64 :: "ipc_io option \<Rightarrow> u64 option \<times> ipc_io option" where
  "ReadUint64 = read_io (\<lambda>io. load_word (IoPop 8 io))"

definition ReadFloat :: "ipc_io option \<Rightarrow> u32 option \<times> ipc_io option" where
  "ReadFloat = read_io (\<lambda>io. load_word (IoPop 4 io))"

definition ReadDouble :: "ipc_io option \<Rightarrow> u64 option \<times> ipc_io option" where
  "ReadDouble = read_io (\<lambda>io. load_word (IoPop 8 io))"

end
