(* ===== verification/Io_Sequences.thy ===== *)
theory Io_Sequences
  imports Io_Serializer
begin

text \<open>
  Strings, buffers and vectors in the message buffer of the C implementation (\<open>serializer.c\<close>). The
  caller's arrays are lists, and their length is the size argument; a null pointer is \<open>None\<close>. A C
  string is the list of its bytes, which ends at its first null. Functions that return a pointer
  into the buffer give its distance from \<open>bufferBase\<close>; the second part of their result is what they
  store through the size argument.
\<close>

section \<open>Strings and buffers\<close>

definition zero_copy :: "clib \<Rightarrow> nat \<Rightarrow> nat \<Rightarrow> bytes \<Rightarrow> nat \<Rightarrow> ipc_io \<Rightarrow> bool \<times> ipc_io" where
  "zero_copy C p cap src n io =
     (case memset_s C (io_mem io) p cap 0 cap of (err, mem1) \<Rightarrow>
        if err \<noteq> EOK then (False, set_overflow (io\<lparr>io_mem := mem1\<rparr>))
        else (case memcpy_s (c_libc C) mem1 p cap src n of (err2, mem2) \<Rightarrow>
          if err2 \<noteq> EOK then (False, set_overflow (io\<lparr>io_mem := mem2\<rparr>))
          else (True, io\<lparr>io_mem := mem2\<rparr>)))"

definition WriteString :: "clib \<Rightarrow> bytes option \<Rightarrow> ipc_io option \<Rightarrow> bool \<times> ipc_io option" where
  "WriteString C value1 io =
     (case (io, value1) of
        (Some s, Some v) \<Rightarrow>
          (let len = of_nat (min (unat MAX_IO_SIZE) (length (takeWhile (\<lambda>b. b \<noteq> 0) v))) :: u64 in
           if len = MAX_IO_SIZE then (False, Some (set_overflow s))
           else (case WriteUint32 (ucast len) io of
               (False, io1) \<Rightarrow> (False, io1)
             | (True, io1) \<Rightarrow>
                 write_io (\<lambda>s1. case IoPush (len + 1) s1 of
                     (None, s2) \<Rightarrow> (False, s2)
                   | (Some p, s2) \<Rightarrow>
                       zero_copy C p (unat (IPC_IO_ALIGN (len + 1))) (v @ [0]) (unat (len + 1)) s2) io1))
      | _ \<Rightarrow> (False, io))"

definition ReadString :: "ipc_io option \<Rightarrow> (nat option \<times> u64 option) \<times> ipc_io option" where
  "ReadString io =
     (case io of
        None \<Rightarrow> ((None, None), None)
      | Some s \<Rightarrow>
          (case ReadUint32 io of
             (None, io1) \<Rightarrow> ((None, None), io1)
           | (Some v, io1) \<Rightarrow>
               if (ucast v :: u64) > MAX_IO_SIZE then ((None, None), io1)
               else (case read_io (IoPop (ucast (v + 1))) io1 of (p, io2) \<Rightarrow> ((p, Some (ucast v)), io2))))"

definition copy_fill :: "clib \<Rightarrow> nat \<Rightarrow> nat \<Rightarrow> bytes \<Rightarrow> nat \<Rightarrow> ipc_io \<Rightarrow> bool \<times> ipc_io" where
  "copy_fill C p cap src n io =
     (case memcpy_s (c_libc C) (io_mem io) p cap src n of (err, mem1) \<Rightarrow>
        if err \<noteq> EOK then (False, set_overflow (io\<lparr>io_mem := mem1\<rparr>))
        else (case memset_s C mem1 (p + n) (cap - n) 0 (cap - n) of (err2, mem2) \<Rightarrow>
          if err2 \<noteq> EOK then (False, set_overflow (io\<lparr>io_mem := mem2\<rparr>))
          else (True, io\<lparr>io_mem := mem2\<rparr>)))"

definition WriteBufferAddTerminator ::
    "clib \<Rightarrow> bytes option \<Rightarrow> u64 \<Rightarrow> u64 \<Rightarrow> ipc_io option \<Rightarrow> bool \<times> ipc_io option" where
  "WriteBufferAddTerminator C value1 size1 sizeType io =
     (case (io, value1) of
        (Some s, Some v) \<Rightarrow>
          if size1 < sizeType then (False, io)
          else if size1 > MAX_IO_SIZE then (False, Some (set_overflow s))
          else
            (let cap = IPC_IO_ALIGN size1 in
             write_io (\<lambda>s1. case IoPush cap s1 of
                 (None, s2) \<Rightarrow> (False, s2)
               | (Some p, s2) \<Rightarrow> copy_fill C p (unat cap) v (unat (size1 - sizeType)) s2) io)
      | _ \<Rightarrow> (False, io))"

definition u16_bytes :: "u16 list \<Rightarrow> bytes" where
  "u16_bytes ws = concat (map word_bytes ws)"

definition WriteString16 :: "clib \<Rightarrow> u16 list option \<Rightarrow> ipc_io option \<Rightarrow> bool \<times> ipc_io option" where
  "WriteString16 C value1 io =
     (case (io, value1) of
        (Some s, Some v) \<Rightarrow>
          (let len = of_nat (length v) :: u64 in
           if len = 0 then (False, io)
           else
             (let cap = (len + 1) * 2 in
              if cap > MAX_IO_SIZE then (False, Some (set_overflow s))
              else (case WriteUint32 (ucast len) io of
                  (False, io1) \<Rightarrow> (False, io1)
                | (True, io1) \<Rightarrow> WriteBufferAddTerminator C (Some (u16_bytes v)) cap 2 io1)))
      | _ \<Rightarrow> (False, io))"

definition WriteBuffer :: "clib \<Rightarrow> bytes option \<Rightarrow> ipc_io option \<Rightarrow> bool \<times> ipc_io option" where
  "WriteBuffer C data io =
     (case (io, data) of
        (Some s, Some v) \<Rightarrow>
          (let size1 = of_nat (length v) :: u64 in
           if size1 = 0 then (False, io)
           else if size1 > MAX_IO_SIZE then (False, Some (set_overflow s))
           else
             (let cap = IPC_IO_ALIGN size1 in
              write_io (\<lambda>s1. case IoPush cap s1 of
                  (None, s2) \<Rightarrow> (False, s2)
                | (Some p, s2) \<Rightarrow> copy_fill C p (unat cap) v (unat size1) s2) io))
      | _ \<Rightarrow> (False, io))"

definition WriteInterfaceToken :: "clib \<Rightarrow> u16 list option \<Rightarrow> ipc_io option \<Rightarrow> bool \<times> ipc_io option" where
  "WriteInterfaceToken C name io =
     (case (io, name) of
        (Some s, Some v) \<Rightarrow>
          (let len = of_nat (length v) :: u64 in
           if len = 0 then (False, io)
           else if (len + 1) * 2 > MAX_IO_SIZE then (False, Some (set_overflow s))
           else WriteString16 C name io)
      | _ \<Rightarrow> (False, io))"

definition WriteRawData_c :: "clib \<Rightarrow> bytes option \<Rightarrow> ipc_io option \<Rightarrow> bool \<times> ipc_io option" where
  "WriteRawData_c C data io =
     (case (io, data) of
        (Some s, Some v) \<Rightarrow>
          (let size1 = of_nat (length v) :: u64 in
           if size1 = 0 then (False, io)
           else if size1 > MAX_IO_SIZE then (False, Some (set_overflow s))
           else (case WriteUint32 (ucast size1) io of
               (False, io1) \<Rightarrow> (False, io1)
             | (True, io1) \<Rightarrow> WriteBuffer C data io1))
      | _ \<Rightarrow> (False, io))"

text \<open>\<open>ReadString16\<close> and \<open>ReadInterfaceToken\<close> have the same body.\<close>

definition ReadString16 :: "ipc_io option \<Rightarrow> (nat option \<times> u64) \<times> ipc_io option" where
  "ReadString16 io =
     (case ReadUint32 io of
        (None, io1) \<Rightarrow> ((None, 0), io1)
      | (Some v, io1) \<Rightarrow>
          (let len = ucast v :: u64 in
           if len > MAX_IO_SIZE div 2 - 1 then ((None, len), io1)
           else (case read_io (\<lambda>s. case IoPop ((len + 1) * 2) s of
                     (None, s1) \<Rightarrow> (None, s1)
                   | (Some p, s1) \<Rightarrow>
                       (if bytes_word (io_bytes (p + 2 * unat len) 2 s1) = (0 :: u16) then Some p else None, s1)) io1 of
               (p, io2) \<Rightarrow> ((p, len), io2))))"

definition ReadInterfaceToken :: "ipc_io option \<Rightarrow> (nat option \<times> u64) \<times> ipc_io option" where
  "ReadInterfaceToken io =
     (case ReadUint32 io of
        (None, io1) \<Rightarrow> ((None, 0), io1)
      | (Some v, io1) \<Rightarrow>
          (let len = ucast v :: u64 in
           if len > MAX_IO_SIZE div 2 - 1 then ((None, len), io1)
           else (case read_io (\<lambda>s. case IoPop ((len + 1) * 2) s of
                     (None, s1) \<Rightarrow> (None, s1)
                   | (Some p, s1) \<Rightarrow>
                       (if bytes_word (io_bytes (p + 2 * unat len) 2 s1) = (0 :: u16) then Some p else None, s1)) io1 of
               (p, io2) \<Rightarrow> ((p, len), io2))))"

definition ReadBuffer :: "u64 \<Rightarrow> ipc_io option \<Rightarrow> nat option \<times> ipc_io option" where
  "ReadBuffer size1 io = (if size1 = 0 then (None, io) else read_io (IoPop size1) io)"

definition ReadRawData :: "u64 \<Rightarrow> ipc_io option \<Rightarrow> nat option \<times> ipc_io option" where
  "ReadRawData size1 io =
     (case io of
        None \<Rightarrow> (None, None)
      | Some s \<Rightarrow>
          if size1 = 0 then (None, io)
          else (case ReadUint32 io of (v, io1) \<Rightarrow>
            (let len = (case v of Some w \<Rightarrow> w | None \<Rightarrow> 0) in
             if len \<noteq> ucast size1 then (None, io1) else ReadBuffer (ucast len) io1)))"

section \<open>Vectors\<close>

fun write_each :: "('a \<Rightarrow> ipc_io option \<Rightarrow> bool \<times> ipc_io option) \<Rightarrow> 'a list \<Rightarrow> ipc_io option \<Rightarrow> bool \<times> ipc_io option" where
  "write_each w [] io = (True, io)"
| "write_each w (v # vs) io =
     (case w v io of (False, io1) \<Rightarrow> (False, io1) | (True, io1) \<Rightarrow> write_each w vs io1)"

definition write_vector ::
    "('a list \<Rightarrow> ipc_io option \<Rightarrow> bool \<times> ipc_io option) \<Rightarrow> 'a list option \<Rightarrow> ipc_io option \<Rightarrow> bool \<times> ipc_io option" where
  "write_vector w val1 io =
     (case (io, val1) of
        (Some s, Some vs) \<Rightarrow>
          (let size1 = of_nat (length vs) :: u64 in
           if size1 = 0 then (False, io)
           else (case WriteUint32 (ucast size1) io of
               (False, io1) \<Rightarrow> (False, io1)
             | (True, io1) \<Rightarrow> w vs io1))
      | _ \<Rightarrow> (False, io))"

text \<open>The elements in one piece, without alignment.\<close>

definition write_block :: "clib \<Rightarrow> 'a::len word list \<Rightarrow> ipc_io option \<Rightarrow> bool \<times> ipc_io option" where
  "write_block C vs =
     write_io (\<lambda>s.
       let cap = of_nat (length vs) * of_nat (LENGTH('a) div 8) :: u64 in
       case IoPushUnaligned cap s of
         (None, s1) \<Rightarrow> (False, s1)
       | (Some p, s1) \<Rightarrow>
           (case memcpy_s (c_libc C) (io_mem s1) p (unat cap) (concat (map word_bytes vs)) (unat cap) of (err, mem1) \<Rightarrow>
              if err \<noteq> EOK then (False, set_overflow (s1\<lparr>io_mem := mem1\<rparr>))
              else (True, s1\<lparr>io_mem := mem1\<rparr>)))"

definition WriteBoolVector :: "bool list option \<Rightarrow> ipc_io option \<Rightarrow> bool \<times> ipc_io option" where
  "WriteBoolVector = write_vector (write_each WriteBool)"

definition WriteInt16Vector :: "16 word list option \<Rightarrow> ipc_io option \<Rightarrow> bool \<times> ipc_io option" where
  "WriteInt16Vector = write_vector (write_each WriteInt16)"

definition WriteInt8Vector :: "clib \<Rightarrow> 8 word list option \<Rightarrow> ipc_io option \<Rightarrow> bool \<times> ipc_io option" where
  "WriteInt8Vector C = write_vector (write_block C)"

definition WriteInt32Vector :: "clib \<Rightarrow> 32 word list option \<Rightarrow> ipc_io option \<Rightarrow> bool \<times> ipc_io option" where
  "WriteInt32Vector C = write_vector (write_block C)"

definition WriteInt64Vector :: "clib \<Rightarrow> 64 word list option \<Rightarrow> ipc_io option \<Rightarrow> bool \<times> ipc_io option" where
  "WriteInt64Vector C = write_vector (write_block C)"

definition WriteUInt8Vector :: "clib \<Rightarrow> u8 list option \<Rightarrow> ipc_io option \<Rightarrow> bool \<times> ipc_io option" where
  "WriteUInt8Vector C = write_vector (write_block C)"

definition WriteUInt16Vector :: "clib \<Rightarrow> u16 list option \<Rightarrow> ipc_io option \<Rightarrow> bool \<times> ipc_io option" where
  "WriteUInt16Vector C = write_vector (write_block C)"

definition WriteUInt32Vector :: "clib \<Rightarrow> u32 list option \<Rightarrow> ipc_io option \<Rightarrow> bool \<times> ipc_io option" where
  "WriteUInt32Vector C = write_vector (write_block C)"

definition WriteUInt64Vector :: "clib \<Rightarrow> u64 list option \<Rightarrow> ipc_io option \<Rightarrow> bool \<times> ipc_io option" where
  "WriteUInt64Vector C = write_vector (write_block C)"

definition WriteFloatVector :: "clib \<Rightarrow> u32 list option \<Rightarrow> ipc_io option \<Rightarrow> bool \<times> ipc_io option" where
  "WriteFloatVector C = write_vector (write_block C)"

definition WriteDoubleVector :: "clib \<Rightarrow> u64 list option \<Rightarrow> ipc_io option \<Rightarrow> bool \<times> ipc_io option" where
  "WriteDoubleVector C = write_vector (write_block C)"

text \<open>
  Reading: \<open>bound\<close> is the largest size that is accepted, if the function tests it. The vectors of
  booleans and 16-bit integers are copied into an allocated array.
\<close>

definition read_vector :: "u64 option \<Rightarrow> u64 \<Rightarrow> ipc_io option \<Rightarrow> (nat option \<times> u64) \<times> ipc_io option" where
  "read_vector bound w io =
     (case ReadUint32 io of
        (None, io1) \<Rightarrow> ((None, 0), io1)
      | (Some v, io1) \<Rightarrow>
          (let n = ucast v :: u64 in
           if (case bound of Some b \<Rightarrow> n > b | None \<Rightarrow> False) then ((None, n), io1)
           else (case read_io (IoPopUnaligned (n * w)) io1 of (p, io2) \<Rightarrow> ((p, n), io2))))"

definition ReadInt8Vector :: "ipc_io option \<Rightarrow> (nat option \<times> u64) \<times> ipc_io option" where
  "ReadInt8Vector = read_vector None 1"

definition ReadInt32Vector :: "ipc_io option \<Rightarrow> (nat option \<times> u64) \<times> ipc_io option" where
  "ReadInt32Vector = read_vector (Some (MAX_IO_SIZE div 4)) 4"

definition ReadInt64Vector :: "ipc_io option \<Rightarrow> (nat option \<times> u64) \<times> ipc_io option" where
  "ReadInt64Vector = read_vector (Some (MAX_IO_SIZE div 8)) 8"

definition ReadUInt8Vector :: "ipc_io option \<Rightarrow> (nat option \<times> u64) \<times> ipc_io option" where
  "ReadUInt8Vector = read_vector None 1"

definition ReadUInt16Vector :: "ipc_io option \<Rightarrow> (nat option \<times> u64) \<times> ipc_io option" where
  "ReadUInt16Vector = read_vector (Some (MAX_IO_SIZE div 2)) 2"

definition ReadUInt32Vector :: "ipc_io option \<Rightarrow> (nat option \<times> u64) \<times> ipc_io option" where
  "ReadUInt32Vector = read_vector (Some (MAX_IO_SIZE div 4)) 4"

definition ReadUInt64Vector :: "ipc_io option \<Rightarrow> (nat option \<times> u64) \<times> ipc_io option" where
  "ReadUInt64Vector = read_vector (Some (MAX_IO_SIZE div 8)) 8"

definition ReadFloatVector :: "ipc_io option \<Rightarrow> (nat option \<times> u64) \<times> ipc_io option" where
  "ReadFloatVector = read_vector (Some (MAX_IO_SIZE div 4)) 4"

definition ReadDoubleVector :: "ipc_io option \<Rightarrow> (nat option \<times> u64) \<times> ipc_io option" where
  "ReadDoubleVector = read_vector (Some (MAX_IO_SIZE div 8)) 8"

text \<open>The loop that pops one 32-bit integer per element.\<close>

fun pop_each :: "nat \<Rightarrow> ipc_io option \<Rightarrow> 32 word list option \<times> ipc_io option" where
  "pop_each 0 io = (Some [], io)"
| "pop_each (Suc n) io =
     (case read_io (\<lambda>s. load_word (IoPop 4 s)) io of
        (None, io1) \<Rightarrow> (None, io1)
      | (Some v, io1) \<Rightarrow> (case pop_each n io1 of (vs, io2) \<Rightarrow> (map_option ((#) v) vs, io2)))"

definition read_copied ::
    "clib \<Rightarrow> u64 \<Rightarrow> u64 \<Rightarrow> ipc_io option \<Rightarrow> (32 word list option \<times> u64) \<times> ipc_io option" where
  "read_copied C bound w io =
     (case ReadUint32 io of
        (None, io1) \<Rightarrow> ((None, 0), io1)
      | (Some v, io1) \<Rightarrow>
          (let n = ucast v :: u64 in
           if n > bound then ((None, n), io1)
           else if \<not> malloc_ok C (n * w) then ((None, n), io1)
           else (case pop_each (unat n) io1 of (vs, io2) \<Rightarrow> ((vs, n), io2))))"

definition ReadBoolVector :: "clib \<Rightarrow> ipc_io option \<Rightarrow> (bool list option \<times> u64) \<times> ipc_io option" where
  "ReadBoolVector C io =
     (case read_copied C (MAX_IO_SIZE div 4) 1 io of
        ((vs, n), io1) \<Rightarrow> ((map_option (map (\<lambda>w. w \<noteq> 0)) vs, n), io1))"

definition ReadInt16Vector :: "clib \<Rightarrow> ipc_io option \<Rightarrow> (16 word list option \<times> u64) \<times> ipc_io option" where
  "ReadInt16Vector C io =
     (case read_copied C (MAX_IO_SIZE div 2) 2 io of
        ((vs, n), io1) \<Rightarrow> ((map_option (map ucast) vs, n), io1))"

end
