(* ===== verification/Io_Objects.thy ===== *)
theory Io_Objects
  imports Io_Sequences
begin

text \<open>
  Remote objects and file descriptors in the message buffer of the C implementation
  (\<open>ipc/native/c/ipc/src/linux/serializer_inner.c\<close>), and the exchange of a buffer with the binder
  driver (\<open>ToTransData\<close>, \<open>ToIpcData\<close> of \<open>linux/ipc_invoker.c\<close>). An object takes 24 bytes: its type,
  its flags, the pointer or, in the first four of its eight bytes, the handle, and the cookie.
  \<open>ReadRemoteObject\<close> ends with a call that makes the proxy known to the process; the function that
  the buffer code calls is a parameter, and its effect on the process state is modelled with the
  skeleton of the C implementation.
\<close>

record SvcIdentity =
  svc_handle :: "32 word"
  svc_token :: u64
  svc_cookie :: u64

abbreviation (input) BINDER_TYPE_BINDER_C :: u32 where "BINDER_TYPE_BINDER_C \<equiv> 0x73622a85"
abbreviation (input) BINDER_TYPE_HANDLE_C :: u32 where "BINDER_TYPE_HANDLE_C \<equiv> 0x73682a85"
abbreviation (input) BINDER_TYPE_FD_C :: u32 where "BINDER_TYPE_FD_C \<equiv> 0x66642a85"

abbreviation (input) OBJ_SIZE :: u64 where "OBJ_SIZE \<equiv> 24"
abbreviation (input) OBJ_FLAGS :: u32 where "OBJ_FLAGS \<equiv> 0x17f"

definition IoPushBinderObj :: "ipc_io \<Rightarrow> nat option \<times> ipc_io" where
  "IoPushBinderObj io =
     (if \<not> io_hasOffs io then (None, io)
      else case IoPush OBJ_SIZE io of
        (Some p, io1) \<Rightarrow>
          if io_offLeft io1 \<noteq> 0
          then (Some p, io1\<lparr>io_offLeft := io_offLeft io1 - 1,
                  io_offs := (io_offs io1)[io_offCur io1 := of_nat p], io_offCur := io_offCur io1 + 1\<rparr>)
          else (None, set_overflow io1)
      | (None, io1) \<Rightarrow> (None, set_overflow io1))"

definition put_fields :: "(nat \<times> bytes) list \<Rightarrow> nat \<Rightarrow> ipc_io \<Rightarrow> ipc_io" where
  "put_fields fs p io = io\<lparr>io_mem := foldl (\<lambda>m (o1, bs). put_at (p + o1) bs m) (io_mem io) fs\<rparr>"

definition IpcIoPushObject :: "u64 \<Rightarrow> ipc_io \<Rightarrow> bool \<times> ipc_io" where
  "IpcIoPushObject cookie io =
     (case IoPushBinderObj io of
        (None, io1) \<Rightarrow> (False, io1)
      | (Some p, io1) \<Rightarrow> (True, put_fields [(4, word_bytes OBJ_FLAGS), (0, word_bytes BINDER_TYPE_BINDER_C),
            (8, word_bytes cookie), (16, word_bytes cookie)] p io1))"

definition IpcIoPushRef :: "u32 \<Rightarrow> u64 \<Rightarrow> ipc_io \<Rightarrow> bool \<times> ipc_io" where
  "IpcIoPushRef handle cookie io =
     (case IoPushBinderObj io of
        (None, io1) \<Rightarrow> (False, io1)
      | (Some p, io1) \<Rightarrow> (True, put_fields [(4, word_bytes OBJ_FLAGS), (0, word_bytes BINDER_TYPE_HANDLE_C),
            (8, word_bytes handle), (16, word_bytes cookie)] p io1))"

definition IpcIoPopRef :: "ipc_io \<Rightarrow> nat option \<times> ipc_io" where
  "IpcIoPopRef io =
     (if \<not> io_hasOffs io then (None, io)
      else if io_offLeft io = 0 then (None, set_overflow io)
      else (case IoPop OBJ_SIZE io of
          (Some p, io1) \<Rightarrow> (Some p, io1\<lparr>io_offCur := io_offCur io1 + 1, io_offLeft := io_offLeft io1 - 1\<rparr>)
        | (None, io1) \<Rightarrow> (None, io1)))"

definition WriteRemoteObject :: "SvcIdentity option \<Rightarrow> ipc_io option \<Rightarrow> bool \<times> ipc_io option" where
  "WriteRemoteObject svc io =
     (case svc of
        None \<Rightarrow> (False, io)
      | Some v \<Rightarrow>
          write_io (\<lambda>s. if sint (svc_handle v) \<le> 0 then IpcIoPushObject (svc_cookie v) s
            else IpcIoPushRef (svc_handle v) (svc_cookie v) s) io)"

definition obj_field :: "nat \<Rightarrow> nat \<Rightarrow> ipc_io \<Rightarrow> 'a::len word" where
  "obj_field p o1 io = bytes_word (io_bytes (p + o1) (LENGTH('a) div 8) io)"

text \<open>\<open>svc\<close> is the record of the caller: the handle branch leaves its token as it is.\<close>

definition ReadRemoteObject ::
    "(SvcIdentity \<Rightarrow> SvcIdentity) \<Rightarrow> SvcIdentity option \<Rightarrow> ipc_io option \<Rightarrow> (bool \<times> SvcIdentity option) \<times> ipc_io option" where
  "ReadRemoteObject waitForProxyInit svc io =
     (case (io, svc) of
        (Some s, Some v) \<Rightarrow>
          (case IpcIoPopRef s of
             (None, s1) \<Rightarrow> ((False, svc), Some s1)
           | (Some p, s1) \<Rightarrow>
               if obj_field p 0 s1 = BINDER_TYPE_BINDER_C
               then ((True, Some \<lparr>svc_handle = -1, svc_token = obj_field p 8 s1, svc_cookie = obj_field p 16 s1\<rparr>), Some s1)
               else ((True, Some (waitForProxyInit (v\<lparr>svc_handle := obj_field p 8 s1, svc_cookie := obj_field p 16 s1\<rparr>))), Some s1))
      | _ \<Rightarrow> ((False, svc), io))"

definition WriteFileDescriptor :: "u32 \<Rightarrow> ipc_io option \<Rightarrow> bool \<times> ipc_io option" where
  "WriteFileDescriptor fd =
     write_io (\<lambda>io. case IoPushBinderObj io of
        (None, io1) \<Rightarrow> (False, io1)
      | (Some p, io1) \<Rightarrow> (True, put_fields [(4, word_bytes OBJ_FLAGS), (0, word_bytes BINDER_TYPE_FD_C),
            (8, word_bytes (0 :: u64)), (16, word_bytes (1 :: u64)), (8, word_bytes fd)] p io1))"

definition ReadFileDescriptor :: "ipc_io option \<Rightarrow> 32 word \<times> ipc_io option" where
  "ReadFileDescriptor io =
     (case io of
        None \<Rightarrow> (-1, None)
      | Some s \<Rightarrow>
          (case IpcIoPopRef s of
             (None, s1) \<Rightarrow> (-1, Some s1)
           | (Some p, s1) \<Rightarrow> (if obj_field p 0 s1 = BINDER_TYPE_FD_C then obj_field p 8 s1 else -1, Some s1)))"

section \<open>Transactions\<close>

text \<open>
  The memory behind the two pointers of the record is part of it: \<open>btd_buffer\<close> holds the bytes from
  the buffer pointer on, \<open>btd_offsets\<close> the offsets; a null pointer to the buffer has nothing
  behind it, a null pointer to the offsets is \<open>None\<close>.
\<close>

record binder_transaction_data =
  btd_handle :: u64
  btd_cookie :: u64
  btd_code :: u32
  btd_flags :: u32
  btd_pid :: "32 word"
  btd_euid :: u32
  btd_data_size :: u64
  btd_offsets_size :: u64
  btd_buffer :: bytes
  btd_offsets :: "u64 list option"

definition ToTransData ::
    "32 word \<Rightarrow> u32 \<Rightarrow> u32 \<Rightarrow> u32 \<Rightarrow> u32 \<Rightarrow> ipc_io option \<Rightarrow> binder_transaction_data" where
  "ToTransData pid uid handle code option1 data =
     \<lparr>btd_handle = ucast handle, btd_cookie = 0, btd_code = code, btd_flags = option1, btd_pid = pid, btd_euid = uid,
      btd_data_size = (case data of None \<Rightarrow> 0 | Some d \<Rightarrow> of_nat (io_cur d)),
      btd_offsets_size = IPC_IO_ALIGN (case data of None \<Rightarrow> 0 | Some d \<Rightarrow> of_nat (8 * io_offCur d)),
      btd_buffer = (case data of None \<Rightarrow> [] | Some d \<Rightarrow> io_mem d),
      btd_offsets = (case data of None \<Rightarrow> None | Some d \<Rightarrow> if io_hasOffs d then Some (io_offs d) else None)\<rparr>"

definition ToIpcData :: "binder_transaction_data \<Rightarrow> ipc_io" where
  "ToIpcData tr =
     \<lparr>io_mem = btd_buffer tr, io_cur = 0, io_left = btd_data_size tr,
      io_offs = (case btd_offsets tr of None \<Rightarrow> [] | Some os \<Rightarrow> os), io_offCur = 0, io_offLeft = btd_offsets_size tr div 8, io_flag = IPC_IO_INITIALIZED,
      io_hasOffs = (btd_offsets tr \<noteq> None)\<rparr>"

end
