(* ===== verification/Io_Proofs.thy ===== *)
theory Io_Proofs
  imports Io_Sequences Buffer_Object_Proofs
begin

text \<open>
  Correctness of the message buffer: a well-formed buffer stays so, every writer either appends the
  encoding of its value or sets the overflow flag, every reader finds the value behind its
  encoding. The facts for a single value are the assumptions of the locale \<open>serial_format\<close>, in
  which sequences of values are treated once.
\<close>

section \<open>Space\<close>

definition pad4 :: "nat \<Rightarrow> nat" where
  "pad4 n = (n + 3) div 4 * 4"

lemma pad4_bounds: "n \<le> pad4 n" "pad4 n < n + 4" "pad4 4 = 4" "pad4 8 = 8" "pad4 (pad4 n) = pad4 n"
  by (simp_all add: pad4_def)

lemma and_not_3: "(x :: u64) AND NOT 3 = push_bit 2 (drop_bit 2 x)"
proof -
  have "x AND NOT (mask 2) = push_bit 2 (drop_bit 2 x)"
  proof (rule bit_word_eqI)
    fix n :: nat
    have "Suc (Suc (n - 2)) = n" if "2 \<le> n" using that by simp
    then show "bit (x AND NOT (mask 2)) n = bit (push_bit 2 (drop_bit 2 x)) n" if "n < LENGTH(64)"
      using that by (auto simp: bit_simps)
  qed
  moreover have "(mask 2 :: u64) = 3" by (simp add: mask_eq_exp_minus_1)
  ultimately show ?thesis by simp
qed

lemma IPC_IO_ALIGN_pad4:
  assumes "n < 18446744073709551612"
  shows "unat (IPC_IO_ALIGN (of_nat n)) = pad4 n"
proof -
  have "unat (push_bit 2 (drop_bit 2 x)) = unat x div 4 * 4" for x :: u64
  proof -
    have "unat x < 18446744073709551616" using unsigned_less [of x] by (simp add: less_le_trans)
    then have "unat x div 4 * 4 < 2 ^ 64" by simp
    then show ?thesis
      unfolding unsigned_push_bit_eq unsigned_drop_bit_eq
      by (simp add: drop_bit_eq_div push_bit_eq_mult take_bit_nat_eq_self)
  qed
  moreover have "unat (of_nat n + 4 - 1 :: u64) = n + 3"
  proof -
    have "(of_nat n + 4 - 1 :: u64) = of_nat (n + 3)" by simp
    then show ?thesis using assms by (simp only: unat_of_nat) (simp add: take_bit_nat_eq_self)
  qed
  moreover have "IPC_IO_ALIGN (of_nat n) = push_bit 2 (drop_bit 2 (of_nat n + 4 - 1))"
    using and_not_3 [of "of_nat n + 4 - 1"] by (simp add: IPC_IO_ALIGN_def)
  ultimately show ?thesis by (simp only: pad4_def)
qed

lemma IPC_IO_ALIGN_unat: "unat n < 18446744073709551612 \<Longrightarrow> unat (IPC_IO_ALIGN n) = pad4 (unat n)"
  using IPC_IO_ALIGN_pad4 [of "unat n"] by simp

lemma IPC_IO_ALIGN_word: "IPC_IO_ALIGN x = of_nat (pad4 (unat x))" if "unat x < 18446744073709551612"
  using IPC_IO_ALIGN_pad4 [OF that] by (metis of_nat_unat ucast_id)

definition io_wf :: "ipc_io \<Rightarrow> bool" where
  "io_wf s \<longleftrightarrow> io_cur s + unat (io_left s) = length (io_mem s) \<and> length (io_mem s) \<le> 8192 \<and>
     io_offCur s + unat (io_offLeft s) = length (io_offs s)"

definition advance :: "nat \<Rightarrow> ipc_io \<Rightarrow> ipc_io" where
  "advance n s = s\<lparr>io_cur := io_cur s + n, io_left := io_left s - of_nat n\<rparr>"

definition emit :: "bytes \<Rightarrow> ipc_io \<Rightarrow> ipc_io" where
  "emit bs s = (advance (length bs) s)\<lparr>io_mem := put_at (io_cur s) bs (io_mem s)\<rparr>"

text \<open>A buffer that has overflowed: nothing is taken from it any more.\<close>

definition overflowed :: "ipc_io \<Rightarrow> bool" where
  "overflowed s \<longleftrightarrow> \<not> IpcIoAvailable s"

lemma set_overflow_overflowed [simp]: "overflowed (set_overflow s)"
proof -
  have "(io_flag s OR 2) AND 2 = (2 :: u32)" by (rule bit_word_eqI) (auto simp: bit_simps)
  then show ?thesis by (simp add: overflowed_def set_overflow_def IpcIoAvailable_def)
qed

lemma available_emit [simp]: "IpcIoAvailable (emit bs s) = IpcIoAvailable s" "IpcIoAvailable (advance n s) = IpcIoAvailable s"
  "IpcIoAvailable (s\<lparr>io_mem := m\<rparr>) = IpcIoAvailable s"
  by (simp_all add: emit_def advance_def IpcIoAvailable_def)

lemma unat_left:
  assumes "n \<le> unat (io_left s)"
  shows "unat (io_left s - of_nat n) = unat (io_left s) - n"
proof -
  have "n < 2 ^ LENGTH(64)" using assms unsigned_less [of "io_left s"] by (rule le_less_trans)
  then have "unat (of_nat n :: u64) = n" by (simp add: unat_of_nat take_bit_nat_eq_self)
  then show ?thesis using assms by (simp add: unat_sub word_le_nat_alt)
qed

lemma io_wf_advance: "io_wf s \<Longrightarrow> n \<le> unat (io_left s) \<Longrightarrow> io_wf (advance n s)"
  using unat_left [of n s] by (simp add: io_wf_def advance_def)

lemma length_put_at [simp]: "off + length bs \<le> length m \<Longrightarrow> length (put_at off bs m) = length m"
  by (simp add: put_at_def)

lemma io_wf_emit: "io_wf s \<Longrightarrow> length bs \<le> unat (io_left s) \<Longrightarrow> io_wf (emit bs s)"
  using io_wf_advance [of s "length bs"] by (simp add: io_wf_def emit_def advance_def)

lemma emit_fields:
  assumes "io_wf s" "length bs \<le> unat (io_left s)"
  shows "io_cur (emit bs s) = io_cur s + length bs" "unat (io_left (emit bs s)) = unat (io_left s) - length bs"
    "take (io_cur s + length bs) (io_mem (emit bs s)) = take (io_cur s) (io_mem s) @ bs"
  using assms unat_left [OF assms(2)] by (auto simp: emit_def advance_def put_at_def io_wf_def)

lemma emit_emit:
  assumes "io_wf s" "length a + length b \<le> unat (io_left s)"
  shows "emit b (emit a s) = emit (a @ b) s"
  using assms by (simp add: emit_def advance_def put_at_def io_wf_def add.assoc diff_diff_add ac_simps)

lemma IoPush_room:
  assumes "IpcIoAvailable s" "unat n < 18446744073709551612"
  shows "IoPush n s = (if pad4 (unat n) \<le> unat (io_left s) then (Some (io_cur s), advance (pad4 (unat n)) s)
    else (None, set_overflow s))"
proof -
  have "IPC_IO_ALIGN n = of_nat (pad4 (unat n))" "unat (IPC_IO_ALIGN n) = pad4 (unat n)"
    using IPC_IO_ALIGN_word [OF assms(2)] IPC_IO_ALIGN_pad4 [OF assms(2)] by simp_all
  then show ?thesis
    using assms(1) by (simp add: IoPush_def Let_def take_space_def advance_def word_less_nat_alt)
qed

lemma IoPop_room:
  assumes "IpcIoAvailable s" "unat n < 18446744073709551612" "pad4 (unat n) \<le> unat (io_left s)"
  shows "IoPop n s = (Some (io_cur s), advance (pad4 (unat n)) s)"
proof -
  have "IPC_IO_ALIGN n = of_nat (pad4 (unat n))" "unat (IPC_IO_ALIGN n) = pad4 (unat n)"
    using IPC_IO_ALIGN_word [OF assms(2)] IPC_IO_ALIGN_pad4 [OF assms(2)] by simp_all
  then show ?thesis
    using assms(1,3) by (simp add: IoPop_def Let_def take_space_def advance_def word_less_nat_alt)
qed

lemma IoPushUnaligned_room:
  assumes "IpcIoAvailable s"
  shows "IoPushUnaligned n s = (if unat n \<le> unat (io_left s) then (Some (io_cur s), advance (unat n) s)
    else (None, set_overflow s))"
  using assms by (simp add: IoPushUnaligned_def take_space_def advance_def word_less_nat_alt)

lemma IoPopUnaligned_room:
  assumes "IpcIoAvailable s" "unat n \<le> unat (io_left s)"
  shows "IoPopUnaligned n s = (Some (io_cur s), advance (unat n) s)"
  using assms by (simp add: IoPopUnaligned_def take_space_def advance_def word_less_nat_alt)

section \<open>Writers and readers\<close>

definition emits :: "(ipc_io option \<Rightarrow> bool \<times> ipc_io option) \<Rightarrow> bytes \<Rightarrow> bool" where
  "emits f bs \<longleftrightarrow> (\<forall>s. io_wf s \<and> IpcIoAvailable s \<longrightarrow>
     (if length bs \<le> unat (io_left s) then f (Some s) = (True, Some (emit bs s))
      else \<exists>s'. f (Some s) = (False, Some s') \<and> overflowed s' \<and> io_wf s'))"

definition parses :: "(ipc_io option \<Rightarrow> 'a option \<times> ipc_io option) \<Rightarrow> bytes \<Rightarrow> 'a \<Rightarrow> bool" where
  "parses g bs r \<longleftrightarrow> (\<forall>s rest. io_wf s \<and> IpcIoAvailable s \<and> drop (io_cur s) (io_mem s) = bs @ rest \<longrightarrow>
     g (Some s) = (Some r, Some (advance (length bs) s)))"

lemma io_wf_set_overflow [simp]: "io_wf (set_overflow s) = io_wf s"
  by (simp add: io_wf_def set_overflow_def)

lemma emits_push:
  assumes "length bs = unat n" "pad4 (unat n) = unat n" "unat n < 18446744073709551612"
  shows "emits (write_io (\<lambda>io. store_at (IoPush n io) bs)) bs"
  using assms by (auto simp: emits_def write_io_def store_at_def IoPush_room emit_def advance_def)

lemma emits_unaligned:
  "length bs = unat n \<Longrightarrow> emits (write_io (\<lambda>io. store_at (IoPushUnaligned n io) bs)) bs"
  by (auto simp: emits_def write_io_def store_at_def IoPushUnaligned_room emit_def advance_def)

lemma emits_seq:
  assumes "emits f a" "emits g b" "\<And>io. h io = (case f io of (False, io1) \<Rightarrow> (False, io1) | (True, io1) \<Rightarrow> g io1)"
  shows "emits h (a @ b)"
  unfolding emits_def
proof (intro allI impI)
  fix s assume s: "io_wf s \<and> IpcIoAvailable s"
  show "if length (a @ b) \<le> unat (io_left s) then h (Some s) = (True, Some (emit (a @ b) s))
      else \<exists>s'. h (Some s) = (False, Some s') \<and> overflowed s' \<and> io_wf s'"
  proof (cases "length a \<le> unat (io_left s)")
    case True
    have e: "f (Some s) = (True, Some (emit a s))" using assms(1) s True by (simp add: emits_def)
    have w: "io_wf (emit a s)" "IpcIoAvailable (emit a s)" "unat (io_left (emit a s)) = unat (io_left s) - length a"
      using s True io_wf_emit emit_fields(2) by auto
    show ?thesis
    proof (cases "length (a @ b) \<le> unat (io_left s)")
      case fits: True
      then have "g (Some (emit a s)) = (True, Some (emit b (emit a s)))"
        using assms(2) w by (simp add: emits_def)
      with e fits s show ?thesis by (simp add: assms(3) emit_emit)
    next
      case False
      then have "\<exists>s'. g (Some (emit a s)) = (False, Some s') \<and> overflowed s' \<and> io_wf s'"
        using assms(2) w True unfolding emits_def by force
      with e False show ?thesis by (simp add: assms(3))
    qed
  next
    case False
    then have "\<exists>s'. f (Some s) = (False, Some s') \<and> overflowed s' \<and> io_wf s'"
      using assms(1) s unfolding emits_def by force
    with False show ?thesis by (auto simp: assms(3))
  qed
qed

lemma emits_null:
  assumes "emits f bs" "\<And>s. h (Some s) = f (Some s)"
  shows "emits h bs"
  using assms by (simp add: emits_def)

text \<open>What a reader sees of the bytes it pops.\<close>

lemma pop_front:
  assumes "io_wf s" "drop (io_cur s) (io_mem s) = bs @ rest"
  shows "length bs \<le> unat (io_left s)" "io_bytes (io_cur s) k (advance n s) = take k (bs @ rest)"
    "io_bytes (io_cur s + j) k (advance n s) = take k (drop j (bs @ rest))"
proof -
  have "length (bs @ rest) = unat (io_left s)" using assms by (metis add_diff_cancel_left' io_wf_def length_drop)
  then show "length bs \<le> unat (io_left s)" by simp
  have "io_bytes (io_cur s + j) k (advance n s) = take k (drop j (bs @ rest))" for j
    unfolding assms(2) [symmetric] by (simp add: io_bytes_def advance_def add.commute)
  from this [of 0] this [of j] show "io_bytes (io_cur s) k (advance n s) = take k (bs @ rest)"
    "io_bytes (io_cur s + j) k (advance n s) = take k (drop j (bs @ rest))" by simp_all
qed

lemma parses_pop:
  assumes "length bs = pad4 (unat n)" "unat n < 18446744073709551612" "LENGTH('a) div 8 = unat n"
    and "bytes_word (take (unat n) bs) = (w :: 'a::len word)"
  shows "parses (read_io (\<lambda>io. load_word (IoPop n io))) bs w"
proof -
  have "pad4 (unat n) \<le> unat (io_left s)" if "io_wf s" "drop (io_cur s) (io_mem s) = bs @ rest" for s rest
    using pop_front(1) [OF that] assms(1) by simp
  then show ?thesis
    using assms pad4_bounds(1) [of "unat n"]
    by (auto simp: parses_def read_io_def load_word_def load_at_def IoPop_room pop_front)
qed

lemma parses_unaligned:
  assumes "length bs = unat n" "LENGTH('a) div 8 = unat n" "bytes_word bs = (w :: 'a::len word)"
  shows "parses (read_io (\<lambda>io. load_word (IoPopUnaligned n io))) bs w"
proof -
  have "unat n \<le> unat (io_left s)" if "io_wf s" "drop (io_cur s) (io_mem s) = bs @ rest" for s rest
    using pop_front(1) [OF that] assms(1) by simp
  then show ?thesis
    using assms by (auto simp: parses_def read_io_def load_word_def load_at_def IoPopUnaligned_room pop_front)
qed

lemma parses_map:
  assumes "parses g bs r" "\<And>io. h io = (case g io of (v, io1) \<Rightarrow> (map_option f v, io1))"
  shows "parses h bs (f r)"
  using assms by (simp add: parses_def)

lemma parses_seq:
  assumes "parses f a x" "parses (g x) b r"
    and "\<And>io. h io = (case f io of (None, io1) \<Rightarrow> (None, io1) | (Some v, io1) \<Rightarrow> g v io1)"
  shows "parses h (a @ b) r"
  unfolding parses_def
proof (intro allI impI)
  fix s rest assume s: "io_wf s \<and> IpcIoAvailable s \<and> drop (io_cur s) (io_mem s) = (a @ b) @ rest"
  then have l: "length a + length b \<le> unat (io_left s)" using pop_front(1) [of s "a @ b" rest] by simp
  have "drop (io_cur (advance (length a) s)) (io_mem (advance (length a) s)) = drop (length a) (drop (io_cur s) (io_mem s))"
    by (simp add: advance_def add.commute)
  then have d: "drop (io_cur (advance (length a) s)) (io_mem (advance (length a) s)) = b @ rest" using s by simp
  have "f (Some s) = (Some x, Some (advance (length a) s))" using assms(1) s by (simp add: parses_def)
  moreover have "g x (Some (advance (length a) s)) = (Some r, Some (advance (length b) (advance (length a) s)))"
    using assms(2) s d l io_wf_advance [of s "length a"] by (simp add: parses_def)
  ultimately show "h (Some s) = (Some r, Some (advance (length (a @ b)) s))"
    by (simp add: assms(3) advance_def diff_diff_add add.assoc)
qed

section \<open>Numbers\<close>

lemma take_le_bytes: "k \<le> n \<Longrightarrow> take k (le_bytes n x) = le_bytes k x"
proof (induction k arbitrary: n x)
  case (Suc k)
  then obtain m where "n = Suc m" "k \<le> m" by (auto dest: Suc_le_D)
  then show ?case using Suc.IH by simp
qed simp

lemma bytes_word_front:
  assumes "LENGTH('a) div 8 = k" "8 dvd LENGTH('a)" "k \<le> LENGTH('b) div 8"
  shows "bytes_word (take k (word_bytes (x :: 'b::len word))) = (ucast x :: 'a::len word)"
proof -
  have "8 * k = LENGTH('a)" using assms(1,2) by auto
  moreover have "(2 :: nat) ^ (8 * k) = (2 ^ 8) ^ k" by (rule power_mult)
  ultimately have "(256 :: nat) ^ k = 2 ^ LENGTH('a)" by simp
  then have "bytes_word (take k (word_bytes x)) = (of_nat (unat x mod 2 ^ LENGTH('a)) :: 'a word)"
    using assms(3) by (simp add: bytes_word_def word_bytes_def take_le_bytes le_nat_le_bytes)
  also have "\<dots> = of_nat (unat x)" by (simp only: take_bit_eq_mod [symmetric] word_of_nat_eq_iff) simp
  finally show ?thesis by simp
qed

lemma ucast_scast_up:
  "ucast (scast (v :: 8 word) :: 32 word) = v" "ucast (scast (u :: 16 word) :: 32 word) = u"
  "ucast (ucast (v :: 8 word) :: 32 word) = v" "ucast (ucast (u :: 16 word) :: 32 word) = u"
proof -
  have "min n 7 = n" if "n < 8" for n :: nat using that by simp
  moreover have "min n 15 = n" if "n < 16" for n :: nat using that by simp
  ultimately show "ucast (scast v :: 32 word) = v" "ucast (scast u :: 32 word) = u"
    by (auto intro!: bit_word_eqI simp: bit_simps)
qed (auto intro!: bit_word_eqI simp: bit_simps)

lemma word_roundtrips [simp]:
  "bytes_word (word_bytes (a :: 8 word)) = a" "bytes_word (word_bytes (b :: 16 word)) = b"
  "bytes_word (word_bytes (c :: 32 word)) = c" "bytes_word (word_bytes (d :: 64 word)) = d"
  by (rule bytes_word_bytes; simp)+

lemma emits_numbers:
  "emits (WriteInt32 i) (word_bytes i)" "emits (WriteUint32 i) (word_bytes i)" "emits (WriteFloat i) (word_bytes i)"
  "emits (WriteInt64 l) (word_bytes l)" "emits (WriteUint64 l) (word_bytes l)" "emits (WriteDouble l) (word_bytes l)"
  "emits (WritePointer l) (word_bytes l)" "emits (WriteBoolUnaligned b) (word_bytes (of_bool b :: u8))"
  "emits (WriteInt8Unaligned c) (word_bytes c)" "emits (WriteUint8Unaligned c) (word_bytes c)"
  "emits (WriteInt16Unaligned h) (word_bytes h)" "emits (WriteUint16Unaligned h) (word_bytes h)"
  unfolding WriteInt32_def WriteUint32_def WriteFloat_def WriteInt64_def WriteUint64_def WriteDouble_def
    WritePointer_def WriteBoolUnaligned_def WriteInt8Unaligned_def WriteUint8Unaligned_def
    WriteInt16Unaligned_def WriteUint16Unaligned_def
  by (rule emits_push emits_unaligned; simp add: pad4_bounds)+

lemma emits_small_numbers:
  "emits (WriteBool b) (word_bytes (of_bool b :: u32))"
  "emits (WriteInt8 c) (word_bytes (scast c :: u32))" "emits (WriteUint8 c) (word_bytes (ucast c :: u32))"
  "emits (WriteInt16 h) (word_bytes (scast h :: u32))" "emits (WriteUint16 h) (word_bytes (ucast h :: u32))"
  using emits_numbers(1) [of "of_bool b"] emits_numbers(1) [of "scast c"] emits_numbers(2) [of "ucast c"]
    emits_numbers(1) [of "scast h"] emits_numbers(2) [of "ucast h"]
  by (auto elim!: emits_null simp: WriteBool_def WriteInt8_def WriteUint8_def WriteInt16_def WriteUint16_def)

lemma parses_numbers:
  "parses ReadInt32 (word_bytes i) i" "parses ReadUint32 (word_bytes i) i" "parses ReadFloat (word_bytes i) i"
  "parses ReadInt64 (word_bytes l) l" "parses ReadUint64 (word_bytes l) l" "parses ReadDouble (word_bytes l) l"
  "parses ReadInt8Unaligned (word_bytes c) c" "parses ReadUInt8Unaligned (word_bytes c) c"
  "parses ReadInt16Unaligned (word_bytes h) h" "parses ReadUInt16Unaligned (word_bytes h) h"
  "parses ReadInt8 (word_bytes (scast c :: u32)) c" "parses ReadUint8 (word_bytes (ucast c :: u32)) c"
  "parses ReadInt16 (word_bytes (scast h :: u32)) h" "parses ReadUint16 (word_bytes (ucast h :: u32)) h"
  unfolding ReadInt32_def ReadUint32_def ReadFloat_def ReadInt64_def ReadUint64_def ReadDouble_def
    ReadInt8Unaligned_def ReadUInt8Unaligned_def ReadInt16Unaligned_def ReadUInt16Unaligned_def
    ReadInt8_def ReadUint8_def ReadInt16_def ReadUint16_def
  by (rule parses_pop parses_unaligned; simp add: pad4_def bytes_word_front ucast_scast_up)+

lemma parses_bools: "parses ReadBool (word_bytes (of_bool b :: u32)) b" "parses ReadBoolUnaligned (word_bytes (of_bool b :: u8)) b"
proof -
  have "parses ReadUint8 (word_bytes (of_bool b :: u32)) (of_bool b)"
    using parses_numbers(12) [of 1] parses_numbers(12) [of 0] by (cases b) simp_all
  then have "parses ReadBool (word_bytes (of_bool b :: u32)) ((\<lambda>w :: u8. w \<noteq> 0) (of_bool b))"
    by (rule parses_map)
      (simp add: ReadBool_def ReadUint8_def read_io_def load_bool_def split: option.splits prod.splits)
  then show "parses ReadBool (word_bytes (of_bool b :: u32)) b" by simp
  have "parses ReadBoolUnaligned (word_bytes (of_bool b :: u8)) ((\<lambda>w :: u8. w \<noteq> 0) (of_bool b))"
    by (rule parses_map [OF parses_numbers(8)])
      (simp add: ReadBoolUnaligned_def ReadUInt8Unaligned_def read_io_def load_bool_def split: option.splits prod.splits)
  then show "parses ReadBoolUnaligned (word_bytes (of_bool b :: u8)) b" by simp
qed

section \<open>Blocks\<close>

definition padded :: "bytes \<Rightarrow> bytes" where
  "padded bs = bs @ replicate (pad4 (length bs) - length bs) 0"

lemma length_padded [simp]: "length (padded bs) = pad4 (length bs)"
  using pad4_bounds(1) [of "length bs"] by (simp add: padded_def)

lemma clib_memset:
  "\<lbrakk>clib_ok C; 0 < dm; n \<le> dm; dm \<le> SECUREC_MEM_MAX_LEN; off + dm \<le> length dst\<rbrakk> \<Longrightarrow>
   memset_s C dst off dm c n = (EOK, take off dst @ replicate n c @ drop (off + n) dst)"
  unfolding clib_ok_def by blast

lemma clib_memcpy:
  "\<lbrakk>clib_ok C; 0 < dm; n \<le> dm; dm \<le> SECUREC_MEM_MAX_LEN; off + dm \<le> length dst; n \<le> length src\<rbrakk> \<Longrightarrow>
   memcpy_s (c_libc C) dst off dm src n = (EOK, take off dst @ take n src @ drop (off + n) dst)"
  unfolding clib_ok_def by (blast intro: libc_memcpy)

lemma zero_copy_emit:
  assumes "clib_ok C" "io_wf s" "0 < n" "n \<le> length src" "pad4 n \<le> unat (io_left s)"
  shows "zero_copy C (io_cur s) (pad4 n) src n (advance (pad4 n) s) = (True, emit (padded (take n src)) s)"
  using assms pad4_bounds(1) [of n]
  by (simp add: zero_copy_def clib_memset clib_memcpy io_wf_def emit_def advance_def padded_def put_at_def min_def)

lemma copy_fill_emit:
  assumes "clib_ok C" "io_wf s" "0 < n" "n \<le> length src" "n \<le> cap" "cap \<le> unat (io_left s)"
    and "n < cap \<or> memset_empty_ok C"
  shows "copy_fill C (io_cur s) cap src n (advance cap s) = (True, emit (take n src @ replicate (cap - n) 0) s)"
proof (cases "n < cap")
  case True
  let ?m = "put_at (io_cur s) (take n src) (io_mem s)"
  have l: "io_cur s + cap \<le> length (io_mem s)" "cap \<le> 8192" "length (take n src) = n"
    using assms by (simp_all add: io_wf_def)
  have "memcpy_s (c_libc C) (io_mem s) (io_cur s) cap src n = (EOK, ?m)"
    using assms l True by (simp add: clib_memcpy put_at_def)
  moreover have "memset_s C ?m (io_cur s + n) (cap - n) 0 (cap - n) = (EOK, put_at (io_cur s + n) (replicate (cap - n) 0) ?m)"
    using assms l True by (simp add: clib_memset put_at_def)
  moreover have "put_at (io_cur s + n) (replicate (cap - n) 0) ?m = put_at (io_cur s) (take n src @ replicate (cap - n) 0) (io_mem s)"
    using l True by (simp add: put_at_def add.commute)
  ultimately show ?thesis using l True by (simp add: copy_fill_def emit_def advance_def)
next
  case False
  with assms show ?thesis
    by (simp add: copy_fill_def clib_memcpy memset_empty_ok_def io_wf_def emit_def advance_def put_at_def min_def)
qed

lemma emits_zero_copy:
  assumes "clib_ok C" "unat n = length bs" "0 < length bs" "length bs \<le> 8192"
  shows "emits (write_io (\<lambda>s. case IoPush n s of (None, s2) \<Rightarrow> (False, s2)
    | (Some p, s2) \<Rightarrow> zero_copy C p (unat (IPC_IO_ALIGN n)) bs (unat n) s2)) (padded bs)"
proof -
  have "unat (IPC_IO_ALIGN n) = pad4 (length bs)"
    using IPC_IO_ALIGN_unat [of n] assms by simp
  then show ?thesis
    using assms by (auto simp: emits_def write_io_def IoPush_room zero_copy_emit)
qed

lemma emits_copy_fill:
  assumes "clib_ok C" "unat cap = pad4 m" "n \<le> m" "0 < n" "n \<le> length src" "m \<le> 8192"
    and "n < pad4 m \<or> memset_empty_ok C"
  shows "emits (write_io (\<lambda>s. case IoPush cap s of (None, s2) \<Rightarrow> (False, s2)
    | (Some p, s2) \<Rightarrow> copy_fill C p (unat cap) src n s2)) (take n src @ replicate (pad4 m - n) 0)"
proof -
  have "n \<le> pad4 m" "pad4 m < 8196" using assms pad4_bounds(1,2) [of m] by simp_all
  then show ?thesis
    using assms by (auto simp: emits_def write_io_def IoPush_room copy_fill_emit pad4_bounds)
qed

definition peek :: "nat \<Rightarrow> nat option \<times> ipc_io option \<Rightarrow> bytes option \<times> ipc_io option" where
  "peek k r = (case r of (Some p, Some s) \<Rightarrow> (Some (io_bytes p k s), Some s) | (_, io) \<Rightarrow> (None, io))"

lemma parses_peek:
  assumes "length bs = pad4 (unat n)" "unat n < 18446744073709551612" "k \<le> length bs"
  shows "parses (\<lambda>io. peek k (read_io (IoPop n) io)) bs (take k bs)"
proof -
  have "pad4 (unat n) \<le> unat (io_left s)" if "io_wf s" "drop (io_cur s) (io_mem s) = bs @ rest" for s rest
    using pop_front(1) [OF that] assms(1) by simp
  then show ?thesis
    using assms by (auto simp: parses_def read_io_def peek_def IoPop_room pop_front)
qed

lemma parses_peek_unaligned:
  assumes "length bs = unat n" "k \<le> length bs"
  shows "parses (\<lambda>io. peek k (read_io (IoPopUnaligned n) io)) bs (take k bs)"
proof -
  have "unat n \<le> unat (io_left s)" if "io_wf s" "drop (io_cur s) (io_mem s) = bs @ rest" for s rest
    using pop_front(1) [OF that] assms(1) by simp
  then show ?thesis
    using assms by (auto simp: parses_def read_io_def peek_def IoPopUnaligned_room pop_front)
qed

section \<open>Strings and buffers\<close>

lemma small_u32: "n < 4294967296 \<Longrightarrow> unat (of_nat n :: u32) = n" "n < 4294967296 \<Longrightarrow> unat (of_nat n :: u64) = n"
  "n < 4294967296 \<Longrightarrow> (ucast (of_nat n :: u64) :: u32) = of_nat n"
  "n < 4294967296 \<Longrightarrow> (ucast (of_nat n :: u32) :: u64) = of_nat n"
proof -
  show a: "n < 4294967296 \<Longrightarrow> unat (of_nat n :: u32) = n" "n < 4294967296 \<Longrightarrow> unat (of_nat n :: u64) = n"
    by (simp_all add: unat_of_nat take_bit_nat_eq_self)
  show "n < 4294967296 \<Longrightarrow> (ucast (of_nat n :: u64) :: u32) = of_nat n"
    "n < 4294967296 \<Longrightarrow> (ucast (of_nat n :: u32) :: u64) = of_nat n"
    using a by (metis of_nat_unat)+
qed

lemma unat_up [simp]: "unat (ucast (w :: u32) :: u64) = unat w"
proof -
  have "unat w < 2 ^ LENGTH(32)" by (rule unsigned_less)
  then show ?thesis by (simp add: unsigned_ucast_eq take_bit_nat_eq_self)
qed

definition enc_len :: "'a list \<Rightarrow> bytes" where
  "enc_len xs = word_bytes (of_nat (length xs) :: u32)"

lemma takeWhile_nonzero: "0 \<notin> set v \<Longrightarrow> takeWhile (\<lambda>b. b \<noteq> 0) v = v"
  by (rule takeWhile_eq_all_conv [THEN iffD2]) metis

lemma null_io [simp]: "write_io f None = (False, None)" "read_io g None = (None, None)"
  "WriteUint32 w None = (False, None)" "ReadUint32 None = (None, None)"
  by (simp_all add: write_io_def read_io_def WriteUint32_def ReadUint32_def)

lemma emits_WriteString:
  assumes "clib_ok C" "0 \<notin> set v" "length v < 8192"
  shows "emits (WriteString C (Some v)) (enc_len v @ padded (v @ [0]))"
proof -
  have u: "unat (of_nat (length v) + 1 :: u64) = Suc (length v)"
    using small_u32(2) [of "Suc (length v)"] assms(3) by (simp add: add.commute)
  have n: "(of_nat (length v) :: u64) \<noteq> 8192"
    using small_u32(2) [of "length v"] assms(3) by auto
  show ?thesis
    unfolding enc_len_def
  proof (rule emits_seq [OF emits_numbers(2) emits_zero_copy [OF assms(1), where n = "of_nat (length v) + 1"]])
    show "WriteString C (Some v) io = (case WriteUint32 (of_nat (length v)) io of (False, io1) \<Rightarrow> (False, io1)
      | (True, io1) \<Rightarrow> write_io (\<lambda>s. case IoPush (of_nat (length v) + 1) s of (None, s2) \<Rightarrow> (False, s2)
        | (Some p, s2) \<Rightarrow> zero_copy C p (unat (IPC_IO_ALIGN (of_nat (length v) + 1))) (v @ [0])
            (unat (of_nat (length v) + 1 :: u64)) s2) io1)" for io
      using assms n by (cases io)
        (simp_all add: WriteString_def takeWhile_nonzero small_u32 Let_def min_def)
  qed (use u assms in simp_all)
qed

lemma parses_len: "length xs < 4294967296 \<Longrightarrow> parses ReadUint32 (enc_len xs) (of_nat (length xs))"
  unfolding enc_len_def by (rule parses_numbers)

definition string_at :: "(nat option \<times> u64 option) \<times> ipc_io option \<Rightarrow> bytes option \<times> ipc_io option" where
  "string_at r = (case r of ((p, Some l), io) \<Rightarrow> peek (unat l) (p, io) | ((p, None), io) \<Rightarrow> (None, io))"

lemma parses_ReadString:
  assumes "length v < 8192"
  shows "parses (\<lambda>io. string_at (ReadString io)) (enc_len v @ padded (v @ [0])) v"
proof (rule parses_seq [OF parses_len])
  let ?g = "\<lambda>w :: u32. \<lambda>io. if (ucast w :: u64) > 8192 then (None, io)
      else peek (unat w) (read_io (IoPop (ucast (w + 1))) io)"
  let ?n = "ucast (of_nat (length v) + 1 :: u32) :: u64"
  have u: "unat ?n = Suc (length v)" "unat (of_nat (length v) :: u32) = length v"
    using small_u32(1) [of "Suc (length v)"] small_u32(1) [of "length v"] assms by (simp_all add: add.commute)
  have "parses (\<lambda>io. peek (length v) (read_io (IoPop ?n) io)) (padded (v @ [0])) (take (length v) (padded (v @ [0])))"
    by (rule parses_peek) (use u assms pad4_bounds(1) [of "Suc (length v)"] in simp_all)
  moreover have "take (length v) (padded (v @ [0])) = v" by (simp add: padded_def)
  moreover have "\<not> (ucast (of_nat (length v) :: u32) :: u64) > 8192"
    using u assms by (simp add: word_less_nat_alt)
  ultimately show "parses (?g (of_nat (length v))) (padded (v @ [0])) v" using u by simp
  show "string_at (ReadString io) = (case ReadUint32 io of (None, io1) \<Rightarrow> (None, io1) | (Some w, io1) \<Rightarrow> ?g w io1)" for io
    by (cases io) (auto simp: string_at_def ReadString_def peek_def split: prod.splits option.splits)
qed (use assms in simp)

definition enc_words :: "'a::len word list \<Rightarrow> bytes" where
  "enc_words ws = concat (map word_bytes ws)"

definition words_of :: "nat \<Rightarrow> bytes \<Rightarrow> 'a::len word list" where
  "words_of n bs = map (\<lambda>i. bytes_word (take (LENGTH('a) div 8) (drop (i * (LENGTH('a) div 8)) bs))) [0..<n]"

lemma length_enc_words [simp]: "length (enc_words (ws :: 'a::len word list)) = length ws * (LENGTH('a) div 8)"
  by (induction ws) (simp_all add: enc_words_def)

lemma words_of_Suc:
  "words_of (Suc n) bs = (bytes_word (take (LENGTH('a) div 8) bs) :: 'a::len word) # words_of n (drop (LENGTH('a) div 8) bs)"
proof -
  have "[0..<Suc n] = 0 # map Suc [0..<n]" by (simp add: map_Suc_upt upt_conv_Cons del: upt_Suc)
  then show ?thesis by (simp add: words_of_def comp_def add.commute del: upt_Suc)
qed

lemma words_of_enc: "8 dvd LENGTH('a) \<Longrightarrow> words_of (length ws) (enc_words (ws :: 'a::len word list) @ r) = ws"
proof (induction ws)
  case (Cons a ws)
  then show ?case by (simp add: words_of_Suc enc_words_def bytes_word_bytes)
qed (simp add: words_of_def)

definition vector_at :: "(nat option \<times> u64) \<times> ipc_io option \<Rightarrow> 'a::len word list option \<times> ipc_io option" where
  "vector_at r =
     (case r of ((p, n), io) \<Rightarrow>
        (case peek (unat n * (LENGTH('a) div 8)) (p, io) of (bs, io') \<Rightarrow> (map_option (words_of (unat n)) bs, io')))"

lemma u16_bytes_enc: "u16_bytes v = enc_words v"
  by (simp add: u16_bytes_def enc_words_def)

lemma emits_terminator:
  assumes "clib_ok C" "unat size1 = length bs + unat t" "bs \<noteq> []" "0 < unat t" "unat size1 \<le> 8192"
  shows "emits (WriteBufferAddTerminator C (Some bs) size1 t) (padded (bs @ replicate (unat t) 0))"
proof -
  have c: "unat (IPC_IO_ALIGN size1) = pad4 (unat size1)" using IPC_IO_ALIGN_unat [of size1] assms(5) by simp
  have p: "unat size1 \<le> pad4 (unat size1)" by (rule pad4_bounds)
  have n: "unat (size1 - t) = length bs" using assms(2) by (simp add: unat_sub word_le_nat_alt)
  have "take (unat (size1 - t)) bs @ replicate (pad4 (unat size1) - unat (size1 - t)) 0 = padded (bs @ replicate (unat t) 0)"
    using assms(2) p by (simp add: n padded_def replicate_add [symmetric])
  then have "emits (write_io (\<lambda>s. case IoPush (IPC_IO_ALIGN size1) s of (None, s2) \<Rightarrow> (False, s2)
      | (Some p, s2) \<Rightarrow> copy_fill C p (unat (IPC_IO_ALIGN size1)) bs (unat (size1 - t)) s2)) (padded (bs @ replicate (unat t) 0))"
    using emits_copy_fill [OF assms(1) c, of "unat (size1 - t)" bs] assms p by (simp add: n)
  then show ?thesis
    by (rule emits_null) (use assms in \<open>simp add: WriteBufferAddTerminator_def word_less_nat_alt Let_def\<close>)
qed

lemma unat_size16: "n < 8192 \<Longrightarrow> unat ((of_nat n + 1) * 2 :: u64) = Suc n * 2"
  using small_u32(2) [of "Suc n * 2"] by (simp add: algebra_simps)

lemma emits_WriteString16:
  assumes "clib_ok C" "v \<noteq> []" "Suc (length v) * 2 \<le> 8192"
  shows "emits (WriteString16 C (Some v)) (enc_len v @ padded (enc_words v @ [0, 0]))"
    "emits (WriteInterfaceToken C (Some v)) (enc_len v @ padded (enc_words v @ [0, 0]))"
proof -
  let ?size = "(of_nat (length v) + 1) * 2 :: u64"
  have u: "unat ?size = Suc (length v) * 2" using unat_size16 [of "length v"] assms(3) by simp
  have l: "unat (of_nat (length v) :: u64) = length v" by (rule small_u32) (use assms(3) in simp)
  have c: "(of_nat (length v) :: u64) \<noteq> 0" "\<not> ?size > 8192"
    using u l assms(2,3) by (auto simp: word_less_nat_alt simp del: mult_Suc)
  have "emits (WriteBufferAddTerminator C (Some (enc_words v)) ?size 2) (padded (enc_words v @ [0, 0]))"
  proof -
    have "replicate 2 (0 :: u8) = [0, 0]" by (simp add: numeral_2_eq_2)
    moreover have "enc_words v \<noteq> []" using length_enc_words [of v] assms(2) by (cases "enc_words v") simp_all
    ultimately show ?thesis
      using emits_terminator [OF assms(1), of ?size "enc_words v" 2] u assms(3) by (simp add: algebra_simps)
  qed
  then show s: "emits (WriteString16 C (Some v)) (enc_len v @ padded (enc_words v @ [0, 0]))"
    unfolding enc_len_def
    by (rule emits_seq [OF emits_numbers(2)])
      (use c assms(3) in \<open>simp add: WriteString16_def Let_def u16_bytes_enc small_u32 split: option.splits prod.splits bool.splits\<close>)
  show "emits (WriteInterfaceToken C (Some v)) (enc_len v @ padded (enc_words v @ [0, 0]))"
    by (rule emits_null [OF s]) (use c in \<open>simp add: WriteInterfaceToken_def Let_def\<close>)
qed

text \<open>The part of \<open>ReadString16\<close> behind the length \<open>len\<close>, which pops \<open>n\<close> bytes.\<close>

definition pop16 :: "u64 \<Rightarrow> u64 \<Rightarrow> ipc_io option \<Rightarrow> u16 list option \<times> ipc_io option" where
  "pop16 len n io =
     (if len > 4095 then (None, io)
      else (case read_io (\<lambda>s. case IoPop n s of (None, s1) \<Rightarrow> (None, s1)
          | (Some p, s1) \<Rightarrow> (if bytes_word (io_bytes (p + 2 * unat len) 2 s1) = (0 :: u16) then Some p else None, s1)) io of
        (p, io2) \<Rightarrow> (case peek (unat len * 2) (p, io2) of (bs, io3) \<Rightarrow> (map_option (words_of (unat len)) bs, io3))))"

lemma parses_pop16:
  assumes "unat n = length v * 2 + 2" "unat n \<le> 8192" "unat len = length v"
  shows "parses (pop16 len n) (padded (enc_words v @ [0, 0])) v"
  unfolding parses_def
proof (intro allI impI, elim conjE)
  fix s rest
  assume w: "io_wf s" and a: "IpcIoAvailable s"
    and d: "drop (io_cur s) (io_mem s) = padded (enc_words v @ [0, 0]) @ rest"
  let ?r = "[0, 0] @ replicate (pad4 (length v * 2 + 2) - (length v * 2 + 2)) 0 @ rest"
  have d2: "drop (io_cur s) (io_mem s) = enc_words v @ ?r" using d by (simp add: padded_def)
  have l: "length (padded (enc_words v @ [0, 0])) = pad4 (unat n)" using assms(1) by simp
  have pop: "IoPop n s = (Some (io_cur s), advance (pad4 (unat n)) s)"
    using pop_front(1) [OF w d] l assms(2) by (simp add: IoPop_room [OF a])
  have z: "io_bytes (io_cur s + 2 * length v) 2 (advance k s) = [0, 0]" for k
    using pop_front(3) [OF w d2, of "2 * length v" 2 k] by (simp add: mult.commute)
  have "words_of (length v) (io_bytes (io_cur s) (length v * 2) (advance k s)) = v" for k
    using pop_front(2) [OF w d2, of "length v * 2" k] words_of_enc [of v "[]"] by simp
  then show "pop16 len n (Some s) = (Some v, Some (advance (length (padded (enc_words v @ [0, 0]))) s))"
    using l assms by (simp add: pop16_def read_io_def pop peek_def z word_less_nat_alt bytes_word_def)
qed

lemma parses_ReadString16:
  fixes v :: "u16 list"
  assumes "Suc (length v) * 2 \<le> 8192"
  shows "parses (\<lambda>io. vector_at (ReadString16 io)) (enc_len v @ padded (enc_words v @ [0, 0])) v"
    "parses (\<lambda>io. vector_at (ReadInterfaceToken io)) (enc_len v @ padded (enc_words v @ [0, 0])) v"
proof -
  show r: "parses (\<lambda>io. vector_at (ReadString16 io)) (enc_len v @ padded (enc_words v @ [0, 0])) v"
  proof (rule parses_seq [OF parses_len, where g = "\<lambda>w. pop16 (ucast w) ((ucast w + 1) * 2)"])
    show "parses (pop16 (ucast (of_nat (length v) :: u32)) ((ucast (of_nat (length v) :: u32) + 1) * 2))
        (padded (enc_words v @ [0, 0])) v"
      by (rule parses_pop16) (use unat_size16 [of "length v"] assms in \<open>simp_all add: small_u32\<close>)
    show "vector_at (ReadString16 io) = (case ReadUint32 io of (None, io1) \<Rightarrow> (None, io1)
        | (Some w, io1) \<Rightarrow> pop16 (ucast w) ((ucast w + 1) * 2) io1)" for io
      by (simp add: vector_at_def ReadString16_def pop16_def peek_def Let_def split: prod.splits option.splits)
  qed (use assms in simp)
  have "ReadInterfaceToken = ReadString16" by (rule ext) (simp add: ReadInterfaceToken_def ReadString16_def)
  with r show "parses (\<lambda>io. vector_at (ReadInterfaceToken io)) (enc_len v @ padded (enc_words v @ [0, 0])) v" by simp
qed

lemma emits_WriteBuffer:
  assumes "clib_ok C" "v \<noteq> []" "length v \<le> 8192" "length v mod 4 = 0 \<longrightarrow> memset_empty_ok C"
  shows "emits (WriteBuffer C (Some v)) (padded v)"
proof -
  let ?n = "of_nat (length v) :: u64"
  have u: "unat ?n = length v" by (rule small_u32) (use assms in simp)
  have c: "unat (IPC_IO_ALIGN ?n) = pad4 (length v)" using IPC_IO_ALIGN_unat [of ?n] assms u by simp
  have "length v < pad4 (length v) \<or> memset_empty_ok C" using assms(4) by (auto simp: pad4_def) presburger
  then have "emits (write_io (\<lambda>s. case IoPush (IPC_IO_ALIGN ?n) s of (None, s2) \<Rightarrow> (False, s2)
      | (Some p, s2) \<Rightarrow> copy_fill C p (unat (IPC_IO_ALIGN ?n)) v (unat ?n) s2)) (padded v)"
    using emits_copy_fill [OF assms(1) c, of "unat ?n" v] assms u by (simp add: padded_def)
  then show ?thesis
    by (rule emits_null) (use assms u in \<open>auto simp: WriteBuffer_def word_less_nat_alt Let_def\<close>)
qed

lemma emits_WriteRawData:
  assumes "clib_ok C" "v \<noteq> []" "length v \<le> 8192" "length v mod 4 = 0 \<longrightarrow> memset_empty_ok C"
  shows "emits (WriteRawData_c C (Some v)) (enc_len v @ padded v)"
  unfolding enc_len_def
proof (rule emits_seq [OF emits_numbers(2) emits_WriteBuffer [OF assms]])
  have "unat (of_nat (length v) :: u64) = length v" by (rule small_u32) (use assms in simp)
  moreover from this have "(of_nat (length v) :: u64) \<noteq> 0" using assms(2) by auto
  ultimately show "WriteRawData_c C (Some v) io = (case WriteUint32 (of_nat (length v)) io of (False, io1) \<Rightarrow> (False, io1)
    | (True, io1) \<Rightarrow> WriteBuffer C (Some v) io1)" for io
    using assms by (cases io) (auto simp: WriteRawData_c_def small_u32 word_less_nat_alt Let_def)
qed

lemma parses_ReadBuffer:
  assumes "unat n = length v" "v \<noteq> []" "length v \<le> 8192"
  shows "parses (\<lambda>io. peek (unat n) (ReadBuffer n io)) (padded v) v"
proof -
  have "n \<noteq> 0" using assms by auto
  moreover have "parses (\<lambda>io. peek (unat n) (read_io (IoPop n) io)) (padded v) (take (unat n) (padded v))"
    by (rule parses_peek) (use assms pad4_bounds(1) [of "length v"] in simp_all)
  moreover have "take (unat n) (padded v) = v" using assms(1) by (simp add: padded_def)
  ultimately show ?thesis by (simp add: ReadBuffer_def)
qed

lemma parses_ReadRawData:
  assumes "unat n = length v" "v \<noteq> []" "length v \<le> 8192"
  shows "parses (\<lambda>io. peek (unat n) (ReadRawData n io)) (enc_len v @ padded v) v"
proof (rule parses_seq [OF parses_len, where g = "\<lambda>w io. if w \<noteq> ucast n then (None, io) else peek (unat n) (ReadBuffer (ucast w) io)"])
  have n: "n = of_nat (length v)" using assms(1) by (metis of_nat_unat ucast_id)
  then have n0: "n \<noteq> 0" using assms(1,2) by auto
  from n have "ucast n = (of_nat (length v) :: u32)" "ucast (of_nat (length v) :: u32) = n"
    using assms(3) by (simp_all add: small_u32)
  then show "parses (\<lambda>io. if of_nat (length v) \<noteq> (ucast n :: u32) then (None, io)
      else peek (unat n) (ReadBuffer (ucast (of_nat (length v) :: u32)) io)) (padded v) v"
    using parses_ReadBuffer [OF assms] by simp
  show "peek (unat n) (ReadRawData n io) = (case ReadUint32 io of (None, io1) \<Rightarrow> (None, io1)
      | (Some w, io1) \<Rightarrow> if w \<noteq> ucast n then (None, io1) else peek (unat n) (ReadBuffer (ucast w) io1))" for io
    using n0 by (cases io) (auto simp: ReadRawData_def ReadBuffer_def peek_def Let_def split: prod.splits option.splits)
qed (use assms in simp)

section \<open>Vectors\<close>

lemma emits_nil: "emits (\<lambda>io. (True, io)) []"
  by (simp add: emits_def emit_def advance_def put_at_def)

lemma emits_each: "(\<And>v. v \<in> set vs \<Longrightarrow> emits (w v) (e v)) \<Longrightarrow> emits (write_each w vs) (concat (map e vs))"
proof (induction vs)
  case Nil
  show ?case using emits_nil by (simp add: emits_def)
next
  case (Cons v vs)
  then have "emits (write_each w (v # vs)) (e v @ concat (map e vs))"
    by (intro emits_seq [where f = "w v" and g = "write_each w vs"]) simp_all
  then show ?case by (simp only: list.map concat.simps)
qed

lemma emits_vector:
  assumes "vs \<noteq> []" "length vs \<le> 8192" "emits (w vs) b"
  shows "emits (write_vector w (Some vs)) (enc_len vs @ b)"
  unfolding enc_len_def
proof (rule emits_seq [OF emits_numbers(2) assms(3)])
  have "unat (of_nat (length vs) :: u64) = length vs" by (rule small_u32) (use assms in simp)
  then have "(of_nat (length vs) :: u64) \<noteq> 0" using assms(1) by auto
  then show "write_vector w (Some vs) io = (case WriteUint32 (of_nat (length vs)) io of (False, io1) \<Rightarrow> (False, io1)
    | (True, io1) \<Rightarrow> w vs io1)" for io
    using assms by (cases io) (simp_all add: write_vector_def small_u32 Let_def)
qed

lemma emits_block:
  assumes "clib_ok C" "vs \<noteq> []" "length (enc_words vs) \<le> 8192" "8 \<le> LENGTH('a)"
  shows "emits (write_block C (vs :: 'a::len word list)) (enc_words vs)"
proof -
  let ?cap = "of_nat (length vs) * of_nat (LENGTH('a) div 8) :: u64"
  have "?cap = of_nat (length (enc_words vs))" by simp
  then have u: "unat ?cap = length (enc_words vs)" using small_u32(2) [of "length (enc_words vs)"] assms(3) by (simp only:)
  have "0 < length (enc_words vs)" using assms(2,4) by (simp add: div_greater_zero_iff)
  moreover have "memcpy_s (c_libc C) (io_mem s) (io_cur s) (length (enc_words vs)) (enc_words vs) (length (enc_words vs))
      = (EOK, put_at (io_cur s) (enc_words vs) (io_mem s))"
    if "io_wf s" "length (enc_words vs) \<le> unat (io_left s)" for s
    using that calculation assms by (simp add: clib_memcpy io_wf_def put_at_def del: length_enc_words)
  ultimately show ?thesis
    using u by (auto simp: emits_def write_block_def write_io_def IoPushUnaligned_room enc_words_def [symmetric]
      emit_def advance_def Let_def simp del: length_enc_words)
qed

text \<open>The part of the vector readers behind the number of elements.\<close>

definition pop_vector :: "u64 option \<Rightarrow> u64 \<Rightarrow> u32 \<Rightarrow> ipc_io option \<Rightarrow> 'a::len word list option \<times> ipc_io option" where
  "pop_vector bound k w io =
     (if (case bound of Some b \<Rightarrow> ucast w > b | None \<Rightarrow> False) then (None, io)
      else (case peek (unat w * (LENGTH('a) div 8)) (read_io (IoPopUnaligned (ucast w * k)) io) of
        (bs, io') \<Rightarrow> (map_option (words_of (unat w)) bs, io')))"

lemma parses_pop_vector:
  assumes "LENGTH('a) div 8 = unat k" "8 dvd LENGTH('a)" "length (enc_words vs) \<le> 8192" "length vs \<le> 8192"
    and "case bound of Some b \<Rightarrow> length vs \<le> unat b | None \<Rightarrow> True"
  shows "parses (pop_vector bound k (of_nat (length vs))) (enc_words vs) (vs :: 'a::len word list)"
proof -
  have w: "unat (of_nat (length vs) :: u32) = length vs" by (rule small_u32) (use assms(4) in simp)
  have "ucast (of_nat (length vs) :: u32) * k = of_nat (length (enc_words vs))"
    using assms(1,4) by (simp add: small_u32)
  then have n: "unat (ucast (of_nat (length vs) :: u32) * k) = length (enc_words vs)"
    using small_u32(2) [of "length (enc_words vs)"] assms(3) by (simp only:)
  have "parses (\<lambda>io. peek (length (enc_words vs)) (read_io (IoPopUnaligned (ucast (of_nat (length vs) :: u32) * k)) io))
      (enc_words vs) (take (length (enc_words vs)) (enc_words vs))"
    by (rule parses_peek_unaligned) (use n in simp_all)
  then have "parses (pop_vector bound k (of_nat (length vs)) :: _ \<Rightarrow> 'a word list option \<times> _) (enc_words vs)
      (words_of (length vs) (take (length (enc_words vs)) (enc_words vs)))"
    by (rule parses_map) (use assms(5) w in \<open>auto simp: pop_vector_def word_less_nat_alt split: option.splits\<close>)
  then show ?thesis using words_of_enc [OF assms(2), of vs "[]"] by simp
qed

lemma parses_vector:
  assumes "LENGTH('a) div 8 = unat k" "8 dvd LENGTH('a)" "length (enc_words vs) \<le> 8192" "length vs \<le> 8192"
    and "case bound of Some b \<Rightarrow> length vs \<le> unat b | None \<Rightarrow> True"
  shows "parses (\<lambda>io. vector_at (read_vector bound k io)) (enc_len vs @ enc_words vs) (vs :: 'a::len word list)"
proof (rule parses_seq [OF parses_len, where g = "pop_vector bound k"])
  show "parses (pop_vector bound k (of_nat (length vs))) (enc_words vs) vs" using parses_pop_vector [OF assms] .
  show "vector_at (read_vector bound k io) = (case ReadUint32 io of (None, io1) \<Rightarrow> (None, io1)
      | (Some w, io1) \<Rightarrow> (pop_vector bound k w io1 :: 'a word list option \<times> _))" for io
    by (auto simp: vector_at_def read_vector_def pop_vector_def peek_def Let_def split: prod.splits option.splits)
qed (use assms in simp)

lemma parses_pop_each: "parses (pop_each (length ws)) (concat (map word_bytes ws)) (ws :: 32 word list)"
proof (induction ws)
  case Nil
  show ?case by (simp add: parses_def advance_def)
next
  case (Cons v ws)
  have "parses (\<lambda>io. case pop_each (length ws) io of (vs, io2) \<Rightarrow> (map_option ((#) v) vs, io2)) (concat (map word_bytes ws)) (v # ws)"
    by (rule parses_map [OF Cons.IH]) simp
  then have "parses (pop_each (Suc (length ws))) (word_bytes v @ concat (map word_bytes ws)) (v # ws)"
    by (rule parses_seq [OF parses_numbers(1), where g = "\<lambda>v io. case pop_each (length ws) io of (vs, io2) \<Rightarrow> (map_option ((#) v) vs, io2)"])
      (simp add: ReadInt32_def)
  then show ?case by (simp only: list.map concat.simps list.size add_Suc_right add_0_right)
qed

definition copied_at :: "('a list option \<times> u64) \<times> ipc_io option \<Rightarrow> 'a list option \<times> ipc_io option" where
  "copied_at r = (fst (fst r), snd r)"

lemma parses_copied:
  assumes "length ws \<le> unat bound" "unat bound \<le> 8192" "malloc_ok C (of_nat (length ws) * k)"
  shows "parses (\<lambda>io. copied_at (read_copied C bound k io)) (enc_len ws @ concat (map word_bytes ws)) (ws :: 32 word list)"
proof (rule parses_seq [OF parses_len, where g = "\<lambda>w io. if ucast w > bound \<or> \<not> malloc_ok C (ucast w * k) then (None, io)
      else pop_each (unat w) io"])
  have "unat (of_nat (length ws) :: u32) = length ws" by (rule small_u32) (use assms in simp)
  then show "parses (\<lambda>io. if ucast (of_nat (length ws) :: u32) > bound \<or> \<not> malloc_ok C (ucast (of_nat (length ws) :: u32) * k)
      then (None, io) else pop_each (unat (of_nat (length ws) :: u32)) io) (concat (map word_bytes ws)) ws"
    using assms parses_pop_each [of ws] by (simp add: word_less_nat_alt small_u32)
  show "copied_at (read_copied C bound k io) = (case ReadUint32 io of (None, io1) \<Rightarrow> (None, io1)
      | (Some w, io1) \<Rightarrow> if ucast w > bound \<or> \<not> malloc_ok C (ucast w * k) then (None, io1) else pop_each (unat w) io1)" for io
    by (auto simp: copied_at_def read_copied_def Let_def split: prod.splits option.splits)
qed (use assms in simp)

end
