(* ===== verification/Io_Values.thy ===== *)
theory Io_Values
  imports Io_Objects Io_Proofs
begin

text \<open>
  Sequences of values in the message buffer of the C implementation. \<open>io_value\<close> has a constructor
  for each pair of a writer and a reader of \<open>serializer.c\<close>, \<open>write_value\<close> and \<open>read_value\<close> call
  them, and \<open>enc\<close> is the encoding. The locale \<open>serial_format\<close> states what a writer and a reader
  promise each other for one value; the facts on sequences are proved from that.
\<close>

section \<open>Formats\<close>

fun read_each :: "('t \<Rightarrow> ipc_io option \<Rightarrow> 'v option \<times> ipc_io option) \<Rightarrow> 't list \<Rightarrow> ipc_io option \<Rightarrow> 'v list option \<times> ipc_io option" where
  "read_each r [] io = (Some [], io)"
| "read_each r (t # ts) io =
     (case r t io of
        (None, io1) \<Rightarrow> (None, io1)
      | (Some v, io1) \<Rightarrow> (case read_each r ts io1 of (vs, io2) \<Rightarrow> (map_option ((#) v) vs, io2)))"

locale serial_format =
  fixes write1 :: "'v \<Rightarrow> ipc_io option \<Rightarrow> bool \<times> ipc_io option"
    and enc1 :: "'v \<Rightarrow> bytes"
    and typ1 :: "'v \<Rightarrow> 't"
    and read1 :: "'t \<Rightarrow> ipc_io option \<Rightarrow> 'v option \<times> ipc_io option"
    and ok1 :: "'v \<Rightarrow> bool"
  assumes write1_emits: "ok1 v \<Longrightarrow> emits (write1 v) (enc1 v)"
    and read1_parses: "ok1 v \<Longrightarrow> parses (read1 (typ1 v)) (enc1 v) v"
begin

lemma write_all: "\<forall>v \<in> set vs. ok1 v \<Longrightarrow> emits (write_each write1 vs) (concat (map enc1 vs))"
  by (rule emits_each) (simp add: write1_emits)

lemma read_all: "\<forall>v \<in> set vs. ok1 v \<Longrightarrow> parses (read_each read1 (map typ1 vs)) (concat (map enc1 vs)) vs"
proof (induction vs)
  case Nil
  show ?case by (simp add: parses_def advance_def)
next
  case (Cons v vs)
  let ?g = "\<lambda>v io. case read_each read1 (map typ1 vs) io of (ws, io2) \<Rightarrow> (map_option ((#) v) ws, io2)"
  have "parses (?g v) (concat (map enc1 vs)) (v # vs)"
    by (rule parses_map [OF Cons.IH]) (use Cons.prems in simp_all)
  moreover have "parses (read1 (typ1 v)) (enc1 v) v" using Cons.prems read1_parses by simp
  ultimately have "parses (read_each read1 (typ1 v # map typ1 vs)) (enc1 v @ concat (map enc1 vs)) (v # vs)"
    by (intro parses_seq [where f = "read1 (typ1 v)" and g = ?g and x = v]) simp_all
  then show ?case by (simp only: list.map concat.simps)
qed

text \<open>A buffer that was filled by the writers, handed over up to its cursor, gives back the values.\<close>

lemma write_read:
  assumes "\<forall>v \<in> set vs. ok1 v" "io_wf s" "IpcIoAvailable s" "length (concat (map enc1 vs)) \<le> unat (io_left s)"
    and "io_cur s = 0" "io_wf t" "IpcIoAvailable t" "io_cur t = 0"
    and "write_each write1 vs (Some s) = (ok, Some s')" "io_mem t = take (io_cur s') (io_mem s') @ rest"
  shows "ok \<and> read_each read1 (map typ1 vs) (Some t) = (Some vs, Some (advance (io_cur s') t))"
proof -
  have w: "ok" "s' = emit (concat (map enc1 vs)) s"
    using write_all [OF assms(1)] assms(2-4,9) by (simp_all add: emits_def)
  have "io_mem t = concat (map enc1 vs) @ rest" "io_cur s' = length (concat (map enc1 vs))"
    using emit_fields [OF assms(2,4)] assms(5,10) w(2) by simp_all
  then show ?thesis using read_all [OF assms(1)] assms(6-8) w(1) by (simp add: parses_def)
qed

end

section \<open>Values\<close>

datatype io_value =
      VBool "bool" | VBoolU "bool" | VI8 "8 word" | VI8U "8 word" | VU8 "u8" | VU8U "u8"
    | VI16 "16 word" | VI16U "16 word" | VU16 "u16" | VU16U "u16" | VI32 "32 word" | VU32 "u32"
    | VI64 "64 word" | VU64 "u64" | VFloat "u32" | VDouble "u64" | VStr bytes | VStr16 "u16 list"
    | VToken "u16 list" | VBuf bytes | VRaw bytes | VBools "bool list" | VI16s "16 word list"
    | VI8s "8 word list" | VI32s "32 word list" | VI64s "64 word list" | VU8s "u8 list"
    | VU16s "u16 list" | VU32s "u32 list" | VU64s "u64 list" | VFloats "u32 list"
    | VDoubles "u64 list"

datatype io_type =
      TBool | TBoolU | TI8 | TI8U | TU8 | TU8U | TI16 | TI16U | TU16 | TU16U | TI32 | TU32 | TI64
    | TU64 | TFloat | TDouble | TStr | TStr16 | TToken | TBuf u64 | TRaw u64 | TBools | TI16s
    | TI8s | TI32s | TI64s | TU8s | TU16s | TU32s | TU64s | TFloats | TDoubles

fun write_value :: "clib \<Rightarrow> io_value \<Rightarrow> ipc_io option \<Rightarrow> bool \<times> ipc_io option" where
  "write_value C (VBool v) = WriteBool v"
| "write_value C (VBoolU v) = WriteBoolUnaligned v"
| "write_value C (VI8 v) = WriteInt8 v"
| "write_value C (VI8U v) = WriteInt8Unaligned v"
| "write_value C (VU8 v) = WriteUint8 v"
| "write_value C (VU8U v) = WriteUint8Unaligned v"
| "write_value C (VI16 v) = WriteInt16 v"
| "write_value C (VI16U v) = WriteInt16Unaligned v"
| "write_value C (VU16 v) = WriteUint16 v"
| "write_value C (VU16U v) = WriteUint16Unaligned v"
| "write_value C (VI32 v) = WriteInt32 v"
| "write_value C (VU32 v) = WriteUint32 v"
| "write_value C (VI64 v) = WriteInt64 v"
| "write_value C (VU64 v) = WriteUint64 v"
| "write_value C (VFloat v) = WriteFloat v"
| "write_value C (VDouble v) = WriteDouble v"
| "write_value C (VStr v) = WriteString C (Some v)"
| "write_value C (VStr16 v) = WriteString16 C (Some v)"
| "write_value C (VToken v) = WriteInterfaceToken C (Some v)"
| "write_value C (VBuf v) = WriteBuffer C (Some v)"
| "write_value C (VRaw v) = WriteRawData_c C (Some v)"
| "write_value C (VBools v) = WriteBoolVector (Some v)"
| "write_value C (VI16s v) = WriteInt16Vector (Some v)"
| "write_value C (VI8s v) = WriteInt8Vector C (Some v)"
| "write_value C (VI32s v) = WriteInt32Vector C (Some v)"
| "write_value C (VI64s v) = WriteInt64Vector C (Some v)"
| "write_value C (VU8s v) = WriteUInt8Vector C (Some v)"
| "write_value C (VU16s v) = WriteUInt16Vector C (Some v)"
| "write_value C (VU32s v) = WriteUInt32Vector C (Some v)"
| "write_value C (VU64s v) = WriteUInt64Vector C (Some v)"
| "write_value C (VFloats v) = WriteFloatVector C (Some v)"
| "write_value C (VDoubles v) = WriteDoubleVector C (Some v)"

fun type_of :: "io_value \<Rightarrow> io_type" where
  "type_of (VBool v) = TBool"
| "type_of (VBoolU v) = TBoolU"
| "type_of (VI8 v) = TI8"
| "type_of (VI8U v) = TI8U"
| "type_of (VU8 v) = TU8"
| "type_of (VU8U v) = TU8U"
| "type_of (VI16 v) = TI16"
| "type_of (VI16U v) = TI16U"
| "type_of (VU16 v) = TU16"
| "type_of (VU16U v) = TU16U"
| "type_of (VI32 v) = TI32"
| "type_of (VU32 v) = TU32"
| "type_of (VI64 v) = TI64"
| "type_of (VU64 v) = TU64"
| "type_of (VFloat v) = TFloat"
| "type_of (VDouble v) = TDouble"
| "type_of (VStr v) = TStr"
| "type_of (VStr16 v) = TStr16"
| "type_of (VToken v) = TToken"
| "type_of (VBuf v) = TBuf (of_nat (length v))"
| "type_of (VRaw v) = TRaw (of_nat (length v))"
| "type_of (VBools v) = TBools"
| "type_of (VI16s v) = TI16s"
| "type_of (VI8s v) = TI8s"
| "type_of (VI32s v) = TI32s"
| "type_of (VI64s v) = TI64s"
| "type_of (VU8s v) = TU8s"
| "type_of (VU16s v) = TU16s"
| "type_of (VU32s v) = TU32s"
| "type_of (VU64s v) = TU64s"
| "type_of (VFloats v) = TFloats"
| "type_of (VDoubles v) = TDoubles"

definition as_value :: "('a \<Rightarrow> io_value) \<Rightarrow> 'a option \<times> ipc_io option \<Rightarrow> io_value option \<times> ipc_io option" where
  "as_value f r = (case r of (v, io) \<Rightarrow> (map_option f v, io))"

fun read_value :: "clib \<Rightarrow> io_type \<Rightarrow> ipc_io option \<Rightarrow> io_value option \<times> ipc_io option" where
  "read_value C TBool = as_value VBool \<circ> ReadBool"
| "read_value C TBoolU = as_value VBoolU \<circ> ReadBoolUnaligned"
| "read_value C TI8 = as_value VI8 \<circ> ReadInt8"
| "read_value C TI8U = as_value VI8U \<circ> ReadInt8Unaligned"
| "read_value C TU8 = as_value VU8 \<circ> ReadUint8"
| "read_value C TU8U = as_value VU8U \<circ> ReadUInt8Unaligned"
| "read_value C TI16 = as_value VI16 \<circ> ReadInt16"
| "read_value C TI16U = as_value VI16U \<circ> ReadInt16Unaligned"
| "read_value C TU16 = as_value VU16 \<circ> ReadUint16"
| "read_value C TU16U = as_value VU16U \<circ> ReadUInt16Unaligned"
| "read_value C TI32 = as_value VI32 \<circ> ReadInt32"
| "read_value C TU32 = as_value VU32 \<circ> ReadUint32"
| "read_value C TI64 = as_value VI64 \<circ> ReadInt64"
| "read_value C TU64 = as_value VU64 \<circ> ReadUint64"
| "read_value C TFloat = as_value VFloat \<circ> ReadFloat"
| "read_value C TDouble = as_value VDouble \<circ> ReadDouble"
| "read_value C TStr = as_value VStr \<circ> (\<lambda>io. string_at (ReadString io))"
| "read_value C TStr16 = as_value VStr16 \<circ> (\<lambda>io. vector_at (ReadString16 io))"
| "read_value C TToken = as_value VToken \<circ> (\<lambda>io. vector_at (ReadInterfaceToken io))"
| "read_value C (TBuf n) = as_value VBuf \<circ> (\<lambda>io. peek (unat n) (ReadBuffer n io))"
| "read_value C (TRaw n) = as_value VRaw \<circ> (\<lambda>io. peek (unat n) (ReadRawData n io))"
| "read_value C TBools = as_value VBools \<circ> (\<lambda>io. copied_at (ReadBoolVector C io))"
| "read_value C TI16s = as_value VI16s \<circ> (\<lambda>io. copied_at (ReadInt16Vector C io))"
| "read_value C TI8s = as_value VI8s \<circ> (\<lambda>io. vector_at (ReadInt8Vector io))"
| "read_value C TI32s = as_value VI32s \<circ> (\<lambda>io. vector_at (ReadInt32Vector io))"
| "read_value C TI64s = as_value VI64s \<circ> (\<lambda>io. vector_at (ReadInt64Vector io))"
| "read_value C TU8s = as_value VU8s \<circ> (\<lambda>io. vector_at (ReadUInt8Vector io))"
| "read_value C TU16s = as_value VU16s \<circ> (\<lambda>io. vector_at (ReadUInt16Vector io))"
| "read_value C TU32s = as_value VU32s \<circ> (\<lambda>io. vector_at (ReadUInt32Vector io))"
| "read_value C TU64s = as_value VU64s \<circ> (\<lambda>io. vector_at (ReadUInt64Vector io))"
| "read_value C TFloats = as_value VFloats \<circ> (\<lambda>io. vector_at (ReadFloatVector io))"
| "read_value C TDoubles = as_value VDoubles \<circ> (\<lambda>io. vector_at (ReadDoubleVector io))"

fun enc :: "io_value \<Rightarrow> bytes" where
  "enc (VBool v) = word_bytes (of_bool v :: u32)"
| "enc (VBoolU v) = word_bytes (of_bool v :: u8)"
| "enc (VI8 v) = word_bytes (scast v :: u32)"
| "enc (VI8U v) = word_bytes v"
| "enc (VU8 v) = word_bytes (ucast v :: u32)"
| "enc (VU8U v) = word_bytes v"
| "enc (VI16 v) = word_bytes (scast v :: u32)"
| "enc (VI16U v) = word_bytes v"
| "enc (VU16 v) = word_bytes (ucast v :: u32)"
| "enc (VU16U v) = word_bytes v"
| "enc (VI32 v) = word_bytes v"
| "enc (VU32 v) = word_bytes v"
| "enc (VI64 v) = word_bytes v"
| "enc (VU64 v) = word_bytes v"
| "enc (VFloat v) = word_bytes v"
| "enc (VDouble v) = word_bytes v"
| "enc (VStr v) = enc_len v @ padded (v @ [0])"
| "enc (VStr16 v) = enc_len v @ padded (enc_words v @ [0, 0])"
| "enc (VToken v) = enc_len v @ padded (enc_words v @ [0, 0])"
| "enc (VBuf v) = padded v"
| "enc (VRaw v) = enc_len v @ padded v"
| "enc (VBools v) = enc_len v @ enc_words (map of_bool v :: u32 list)"
| "enc (VI16s v) = enc_len v @ enc_words (map scast v :: u32 list)"
| "enc (VI8s v) = enc_len v @ enc_words v"
| "enc (VI32s v) = enc_len v @ enc_words v"
| "enc (VI64s v) = enc_len v @ enc_words v"
| "enc (VU8s v) = enc_len v @ enc_words v"
| "enc (VU16s v) = enc_len v @ enc_words v"
| "enc (VU32s v) = enc_len v @ enc_words v"
| "enc (VU64s v) = enc_len v @ enc_words v"
| "enc (VFloats v) = enc_len v @ enc_words v"
| "enc (VDoubles v) = enc_len v @ enc_words v"

fun value_ok :: "clib \<Rightarrow> io_value \<Rightarrow> bool" where
  "value_ok C (VStr v) = (0 \<notin> set v \<and> length v < 8192)"
| "value_ok C (VStr16 v) = (v \<noteq> [] \<and> length v < 4096)"
| "value_ok C (VToken v) = (v \<noteq> [] \<and> length v < 4096)"
| "value_ok C (VBuf v) = (v \<noteq> [] \<and> length v \<le> 8192 \<and> (length v mod 4 = 0 \<longrightarrow> memset_empty_ok C))"
| "value_ok C (VRaw v) = (v \<noteq> [] \<and> length v \<le> 8192 \<and> (length v mod 4 = 0 \<longrightarrow> memset_empty_ok C))"
| "value_ok C (VBools v) = (v \<noteq> [] \<and> length v \<le> 2048 \<and> malloc_ok C (of_nat (length v)))"
| "value_ok C (VI16s v) = (v \<noteq> [] \<and> length v \<le> 4096 \<and> malloc_ok C (of_nat (length v) * 2))"
| "value_ok C (VI8s v) = (v \<noteq> [] \<and> length v \<le> 8192)"
| "value_ok C (VI32s v) = (v \<noteq> [] \<and> length v \<le> 2048)"
| "value_ok C (VI64s v) = (v \<noteq> [] \<and> length v \<le> 1024)"
| "value_ok C (VU8s v) = (v \<noteq> [] \<and> length v \<le> 8192)"
| "value_ok C (VU16s v) = (v \<noteq> [] \<and> length v \<le> 4096)"
| "value_ok C (VU32s v) = (v \<noteq> [] \<and> length v \<le> 2048)"
| "value_ok C (VU64s v) = (v \<noteq> [] \<and> length v \<le> 1024)"
| "value_ok C (VFloats v) = (v \<noteq> [] \<and> length v \<le> 2048)"
| "value_ok C (VDoubles v) = (v \<noteq> [] \<and> length v \<le> 1024)"
| "value_ok C _ = True"

section \<open>The values form a format\<close>

lemma emits_each_word:
  assumes "vs \<noteq> []" "length vs \<le> 8192" "\<And>v. emits (w v) (word_bytes (f v :: 'a::len word))"
  shows "emits (write_vector (write_each w) (Some vs)) (enc_len vs @ enc_words (map f vs))"
  by (rule emits_vector) (use assms emits_each [of vs w "\<lambda>v. word_bytes (f v)"] in \<open>simp_all add: enc_words_def comp_def\<close>)

lemma emits_word_vector:
  assumes "clib_ok C" "vs \<noteq> []" "length vs \<le> 8192 div (LENGTH('a) div 8)" "8 \<le> LENGTH('a)"
  shows "emits (write_vector (write_block C) (Some vs)) (enc_len vs @ enc_words (vs :: 'a::len word list))"
proof (rule emits_vector)
  have "length vs * (LENGTH('a) div 8) \<le> 8192 div (LENGTH('a) div 8) * (LENGTH('a) div 8)" using assms(3) by (rule mult_le_mono1)
  then have l: "length vs * (LENGTH('a) div 8) \<le> 8192" using div_times_less_eq_dividend order_trans by blast
  show "emits (write_block C vs) (enc_words vs)" by (rule emits_block) (use assms l in simp_all)
  show "length vs \<le> 8192" using assms(3) div_le_dividend order_trans by blast
qed (rule assms(2))

lemmas vector_writers =
  WriteBoolVector_def WriteInt16Vector_def WriteInt8Vector_def WriteInt32Vector_def WriteInt64Vector_def
  WriteUInt8Vector_def WriteUInt16Vector_def WriteUInt32Vector_def WriteUInt64Vector_def WriteFloatVector_def
  WriteDoubleVector_def

lemmas vector_readers =
  ReadInt8Vector_def ReadInt32Vector_def ReadInt64Vector_def ReadUInt8Vector_def ReadUInt16Vector_def
  ReadUInt32Vector_def ReadUInt64Vector_def ReadFloatVector_def ReadDoubleVector_def

lemma write_value_emits: "clib_ok C \<Longrightarrow> value_ok C v \<Longrightarrow> emits (write_value C v) (enc v)"
  by (cases v) (simp_all add: emits_numbers emits_small_numbers emits_WriteString emits_WriteString16
    emits_WriteBuffer emits_WriteRawData vector_writers emits_each_word emits_word_vector)

lemma parses_as_value: "parses g bs r \<Longrightarrow> parses (as_value f \<circ> g) bs (f r)"
  by (erule parses_map) (simp add: as_value_def)

lemma parses_copied_map:
  assumes "length ws \<le> unat bound" "unat bound \<le> 8192" "malloc_ok C (of_nat (length ws) * k)" "\<And>x. g (f x) = x"
    and "\<And>io. r io = (case read_copied C bound k io of ((vs, n), io1) \<Rightarrow> ((map_option (map g) vs, n), io1))"
  shows "parses (\<lambda>io. copied_at (r io)) (enc_len ws @ enc_words (map f ws)) ws"
proof -
  have "parses (\<lambda>io. copied_at (read_copied C bound k io)) (enc_len ws @ enc_words (map f ws)) (map f ws)"
    using parses_copied [of "map f ws"] assms(1-3) by (simp add: enc_len_def enc_words_def)
  then have "parses (\<lambda>io. copied_at (r io)) (enc_len ws @ enc_words (map f ws)) (map g (map f ws))"
    by (rule parses_map) (simp add: copied_at_def assms(5) split: prod.splits)
  then show ?thesis using assms(4) by (simp add: comp_def)
qed

lemma parses_copied_vectors:
  "length v \<le> 2048 \<Longrightarrow> malloc_ok C (of_nat (length v)) \<Longrightarrow>
     parses (\<lambda>io. copied_at (ReadBoolVector C io)) (enc_len v @ enc_words (map of_bool v :: u32 list)) v"
  "length u \<le> 4096 \<Longrightarrow> malloc_ok C (of_nat (length u) * 2) \<Longrightarrow>
     parses (\<lambda>io. copied_at (ReadInt16Vector C io)) (enc_len u @ enc_words (map scast u :: u32 list)) u"
  by (rule parses_copied_map; simp add: ReadBoolVector_def ReadInt16Vector_def ucast_scast_up)+

lemma parses_word_vectors:
  "length a \<le> 8192 \<Longrightarrow> parses (\<lambda>io. vector_at (ReadInt8Vector io)) (enc_len a @ enc_words a) (a :: 8 word list)"
  "length a \<le> 8192 \<Longrightarrow> parses (\<lambda>io. vector_at (ReadUInt8Vector io)) (enc_len a @ enc_words a) a"
  "length b \<le> 4096 \<Longrightarrow> parses (\<lambda>io. vector_at (ReadUInt16Vector io)) (enc_len b @ enc_words b) (b :: 16 word list)"
  "length c \<le> 2048 \<Longrightarrow> parses (\<lambda>io. vector_at (ReadInt32Vector io)) (enc_len c @ enc_words c) (c :: 32 word list)"
  "length c \<le> 2048 \<Longrightarrow> parses (\<lambda>io. vector_at (ReadUInt32Vector io)) (enc_len c @ enc_words c) c"
  "length c \<le> 2048 \<Longrightarrow> parses (\<lambda>io. vector_at (ReadFloatVector io)) (enc_len c @ enc_words c) c"
  "length d \<le> 1024 \<Longrightarrow> parses (\<lambda>io. vector_at (ReadInt64Vector io)) (enc_len d @ enc_words d) (d :: 64 word list)"
  "length d \<le> 1024 \<Longrightarrow> parses (\<lambda>io. vector_at (ReadUInt64Vector io)) (enc_len d @ enc_words d) d"
  "length d \<le> 1024 \<Longrightarrow> parses (\<lambda>io. vector_at (ReadDoubleVector io)) (enc_len d @ enc_words d) d"
  unfolding vector_readers by (rule parses_vector; simp)+

lemma parses_sized:
  assumes "v \<noteq> []" "length v \<le> 8192"
  shows "parses (\<lambda>io. peek (length v) (ReadBuffer (of_nat (length v)) io)) (padded v) v"
    "parses (\<lambda>io. peek (length v) (ReadRawData (of_nat (length v)) io)) (enc_len v @ padded v) v"
  using parses_ReadBuffer [of "of_nat (length v)" v] parses_ReadRawData [of "of_nat (length v)" v] assms
  by (simp_all add: small_u32)

lemma read_value_parses: "value_ok C v \<Longrightarrow> parses (read_value C (type_of v)) (enc v) v"
  by (cases v) (simp_all add: parses_as_value parses_numbers parses_bools parses_ReadString parses_ReadString16
    parses_sized parses_copied_vectors parses_word_vectors small_u32 del: comp_apply)

interpretation ser: serial_format "write_value C" enc type_of "read_value C" "\<lambda>v. clib_ok C \<and> value_ok C v" for C
  by unfold_locales (simp_all add: write_value_emits read_value_parses)

section \<open>Buffers between processes\<close>

lemma init_wf:
  assumes "n \<noteq> 0" "unat n \<le> 8192" "unat m \<le> 32" "8 * unat m \<le> unat n" "unat n \<le> length buf"
  shows "\<exists>s. IpcIoInit (Some buf) n m (Some io) = Some s \<and> io_wf s \<and> IpcIoAvailable s \<and> io_cur s = 0 \<and>
    unat (io_left s) = unat n - 8 * unat m \<and> io_offCur s = 0 \<and> io_offLeft s = m \<and> io_hasOffs s"
proof -
  have m8: "unat (m * 8) = 8 * unat m"
  proof -
    have "m * 8 = of_nat (8 * unat m)" by simp
    then show ?thesis using small_u32(2) [of "8 * unat m"] assms(3) by (simp only:)
  qed
  have l: "unat (n - m * 8) = unat n - 8 * unat m" using m8 assms(4) by (simp add: unat_sub word_le_nat_alt)
  have "\<not> n > 8192" "\<not> m > 32" "\<not> m * 8 > n" using assms m8 by (simp_all add: word_less_nat_alt)
  then show ?thesis using assms m8 l by (simp add: IpcIoInit_def io_wf_def IpcIoAvailable_def Let_def)
qed

text \<open>
  What the driver does with a transaction that carries no objects: the receiver gets a copy of the
  bytes that the sender announced.
\<close>

definition delivered :: "binder_transaction_data \<Rightarrow> binder_transaction_data \<Rightarrow> bool" where
  "delivered tr tr' \<longleftrightarrow> btd_data_size tr' = btd_data_size tr \<and> btd_offsets_size tr' = btd_offsets_size tr \<and>
     btd_buffer tr' = take (unat (btd_data_size tr)) (btd_buffer tr) \<and>
     (case btd_offsets tr' of None \<Rightarrow> True | Some os \<Rightarrow> 8 * length os = unat (btd_offsets_size tr))"

text \<open>
  C20. Any sequence of numbers, strings, tokens, buffers and vectors that a process writes into a
  fresh buffer with room for their encodings, and sends, is read back unchanged by the process that
  receives the transaction, in the same order and with the matching readers.
\<close>

theorem serialized_values_read_back:
  assumes "clib_ok C" "\<forall>v \<in> set vs. value_ok C v"
    and "n \<noteq> 0" "unat n \<le> 8192" "unat m \<le> 32" "8 * unat m \<le> unat n" "unat n \<le> length buf"
    and "length (concat (map enc vs)) \<le> unat n - 8 * unat m"
  shows "\<exists>s. write_each (write_value C) vs (IpcIoInit (Some buf) n m (Some io)) = (True, Some s) \<and>
    (\<forall>tr. delivered (ToTransData pid uid h code opt (Some s)) tr \<longrightarrow>
       fst (read_each (read_value C) (map type_of vs) (Some (ToIpcData tr))) = Some vs)"
proof -
  let ?v = "\<forall>v \<in> set vs. clib_ok C \<and> value_ok C v"
  obtain s0 where s0: "IpcIoInit (Some buf) n m (Some io) = Some s0" "io_wf s0" "IpcIoAvailable s0" "io_cur s0 = 0"
      "unat (io_left s0) = unat n - 8 * unat m" "io_offCur s0 = 0"
    using init_wf [OF assms(3-7)] by blast
  have v: ?v using assms(1,2) by simp
  define s where "s = emit (concat (map enc vs)) s0"
  have w: "write_each (write_value C) vs (Some s0) = (True, Some s)"
    using ser.write_all [OF v] s0(2,3,5) assms(8) by (simp add: emits_def s_def)
  have "fst (read_each (read_value C) (map type_of vs) (Some (ToIpcData tr))) = Some vs"
    if d: "delivered (ToTransData pid uid h code opt (Some s)) tr" for tr
  proof -
    have l: "length (concat (map enc vs)) \<le> unat (io_left s0)" using assms(8) s0(5) by simp
    have "io_wf s" unfolding s_def using s0(2) l by (rule io_wf_emit)
    then have c: "io_cur s \<le> length (io_mem s)" "length (io_mem s) \<le> 8192" by (auto simp: io_wf_def)
    then have u: "unat (of_nat (io_cur s) :: u64) = io_cur s" by (intro small_u32) simp
    have "io_offCur s = 0" using s0(6) by (simp add: s_def emit_def advance_def)
    then have "io_wf (ToIpcData tr)" "io_mem (ToIpcData tr) = take (io_cur s) (io_mem s) @ []"
      using d c u by (auto simp: delivered_def ToTransData_def ToIpcData_def io_wf_def IPC_IO_ALIGN_def split: option.splits)
    moreover have "IpcIoAvailable (ToIpcData tr)" "io_cur (ToIpcData tr) = 0" by (simp_all add: ToIpcData_def IpcIoAvailable_def)
    ultimately show ?thesis using ser.write_read [OF v s0(2,3) l s0(4) _ _ _ w] by simp
  qed
  then show ?thesis using w s0(1) by auto
qed

lemma std_clib_ok: "clib_ok std_clib" "memset_empty_ok std_clib" "malloc_ok std_clib k"
  using std_libc_ok by (simp_all add: clib_ok_def std_clib_def memset_empty_ok_def)

lemma delivered_copy:
  "length offs * 8 = unat (btd_offsets_size tr) \<Longrightarrow>
   delivered tr (tr\<lparr>btd_buffer := take (unat (btd_data_size tr)) (btd_buffer tr), btd_offsets := Some offs\<rparr>)"
  by (simp add: delivered_def mult.commute)

lemma delivered_null: "\<exists>tr'. delivered tr tr'"
  by (rule exI [of _ "tr\<lparr>btd_buffer := take (unat (btd_data_size tr)) (btd_buffer tr), btd_offsets := None\<rparr>"])
    (simp add: delivered_def)

theorem serialized_values_read_back_witness:
  "\<exists>s tr. write_each (write_value std_clib) [VU32 7, VStr [104, 105], VI16s [1, -1]]
       (IpcIoInit (Some (replicate 64 0)) 64 1 (Some (ToIpcData (ToTransData 1 1 1 1 0 None)))) = (True, Some s) \<and>
     delivered (ToTransData 1 1 1 1 0 (Some s)) tr \<and>
     fst (read_each (read_value std_clib) [TU32, TStr, TI16s] (Some (ToIpcData tr))) = Some [VU32 7, VStr [104, 105], VI16s [1, -1]]"
proof -
  let ?vs = "[VU32 7, VStr [104, 105], VI16s [1, -1]]"
  have "length (concat (map enc ?vs)) \<le> unat (64 :: u64) - 8 * unat (1 :: u64)"
    by (simp add: enc_len_def enc_words_def pad4_def)
  moreover have "\<forall>v \<in> set ?vs. value_ok std_clib v" by (simp add: std_clib_ok)
  ultimately obtain s where s: "write_each (write_value std_clib) ?vs
       (IpcIoInit (Some (replicate 64 0)) 64 1 (Some (ToIpcData (ToTransData 1 1 1 1 0 None)))) = (True, Some s)"
      "\<forall>tr. delivered (ToTransData 1 1 1 1 0 (Some s)) tr \<longrightarrow>
         fst (read_each (read_value std_clib) (map type_of ?vs) (Some (ToIpcData tr))) = Some ?vs"
    using serialized_values_read_back [OF std_clib_ok(1), of ?vs 64 1 "replicate 64 0"
        "ToIpcData (ToTransData 1 1 1 1 0 None)" 1 1 1 1 0] by auto
  obtain tr where "delivered (ToTransData 1 1 1 1 0 (Some s)) tr" using delivered_null by blast
  with s show ?thesis by (intro exI [of _ s] exI [of _ tr]) simp
qed

section \<open>Overflow\<close>

lemma overflowed_take:
  assumes "overflowed s"
  shows "IoPush n s = (None, set_overflow s)" "IoPushUnaligned n s = (None, set_overflow s)"
    "IoPop n s = (None, set_overflow s)" "IoPopUnaligned n s = (None, set_overflow s)"
  using assms by (simp_all add: overflowed_def IoPush_def IoPushUnaligned_def IoPop_def IoPopUnaligned_def)

lemma overflowed_numbers:
  assumes "overflowed s"
  shows "WriteInt32 w (Some s) = (False, Some (set_overflow s))" "WriteUint32 w (Some s) = (False, Some (set_overflow s))"
    "ReadUint32 (Some s) = (None, Some (set_overflow s))"
  using assms by (simp_all add: WriteInt32_def WriteUint32_def ReadUint32_def write_io_def read_io_def store_at_def
    load_word_def load_at_def overflowed_take)

definition refused :: "ipc_io \<Rightarrow> bool \<times> ipc_io option \<Rightarrow> bool" where
  "refused s r \<longleftrightarrow> r = (False, Some s) \<or> r = (False, Some (set_overflow s))"

lemma refused_results: "refused s (False, Some s)" "refused s (False, Some (set_overflow s))"
  by (simp_all add: refused_def)

lemma overflowed_vector: "overflowed s \<Longrightarrow> refused s (write_vector w l (Some s))"
  by (simp add: refused_def write_vector_def overflowed_numbers Let_def split: option.splits)

lemma overflowed_writes: "overflowed s \<Longrightarrow> refused s (write_value C v (Some s))"
  by (cases v) (simp_all add: overflowed_vector vector_writers overflowed_numbers overflowed_take write_io_def store_at_def
    WriteBool_def WriteBoolUnaligned_def WriteInt8_def WriteInt8Unaligned_def WriteUint8_def WriteUint8Unaligned_def
    WriteInt16_def WriteInt16Unaligned_def WriteUint16_def WriteUint16Unaligned_def WriteInt64_def WriteUint64_def
    WriteFloat_def WriteDouble_def WriteString_def WriteString16_def WriteInterfaceToken_def WriteBuffer_def
    WriteRawData_c_def Let_def refused_results)

text \<open>
  Writing a sequence of values either fits, and then appends exactly their encodings behind the
  cursor and nothing else, or fails; after a failure the buffer refuses every further value.
\<close>

theorem writes_fit_or_overflow:
  assumes "clib_ok C" "\<forall>v \<in> set vs. value_ok C v" "io_wf s" "IpcIoAvailable s"
  shows "if length (concat (map enc vs)) \<le> unat (io_left s)
    then write_each (write_value C) vs (Some s) = (True, Some (emit (concat (map enc vs)) s))
    else \<exists>s'. write_each (write_value C) vs (Some s) = (False, Some s') \<and> (\<forall>w. fst (write_value C w (Some s')) = False)"
proof -
  have e: "emits (write_each (write_value C) vs) (concat (map enc vs))" by (rule ser.write_all) (use assms(1,2) in simp)
  show ?thesis
  proof (cases "length (concat (map enc vs)) \<le> unat (io_left s)")
    case True
    with e assms(3,4) show ?thesis by (simp add: emits_def)
  next
    case False
    with e assms(3,4) have "\<exists>s'. write_each (write_value C) vs (Some s) = (False, Some s') \<and> overflowed s' \<and> io_wf s'"
      unfolding emits_def by presburger
    then obtain s' where "write_each (write_value C) vs (Some s) = (False, Some s')" "overflowed s'" by blast
    moreover have "fst (write_value C w (Some s')) = False" for w using overflowed_writes [OF \<open>overflowed s'\<close>, of C w] by (auto simp: refused_def)
    ultimately show ?thesis using False by auto
  qed
qed

theorem writes_fit_or_overflow_witness:
  "(\<exists>s. IpcIoInit (Some (replicate 16 0)) 16 1 (Some (ToIpcData (ToTransData 1 1 1 1 0 None))) = Some s \<and>
     write_each (write_value std_clib) [VU64 1] (Some s) = (True, Some (emit (enc (VU64 1)) s)) \<and>
     (\<exists>s'. write_each (write_value std_clib) [VU64 1, VU8 2] (Some s) = (False, Some s') \<and>
        (\<forall>w. fst (write_value std_clib w (Some s')) = False)))"
proof -
  obtain s where s: "IpcIoInit (Some (replicate 16 0)) 16 1 (Some (ToIpcData (ToTransData 1 1 1 1 0 None))) = Some s"
      "io_wf s" "IpcIoAvailable s" "unat (io_left s) = 8"
    using init_wf [of 16 1 "replicate 16 0" "ToIpcData (ToTransData 1 1 1 1 0 None)"] by auto
  then show ?thesis
    using writes_fit_or_overflow [OF std_clib_ok(1) _ s(2,3), of "[VU64 1]"]
      writes_fit_or_overflow [OF std_clib_ok(1) _ s(2,3), of "[VU64 1, VU8 2]"] by simp
qed

section \<open>Sizes at the end of the range\<close>

lemma align_top: "unat n > 18446744073709551612 \<Longrightarrow> IPC_IO_ALIGN n = 0"
proof -
  assume a: "unat n > 18446744073709551612"
  have "unat n < 2 ^ LENGTH(64)" by (rule unsigned_less)
  then have "unat n = 18446744073709551613 \<or> unat n = 18446744073709551614 \<or> unat n = 18446744073709551615" using a by auto
  then have "n = of_nat 18446744073709551613 \<or> n = of_nat 18446744073709551614 \<or> n = of_nat 18446744073709551615"
    by (metis of_nat_unat ucast_id)
  then show ?thesis by (auto simp: IPC_IO_ALIGN_def)
qed

text \<open>
  The rounding of sizes wraps. A request for more than \<open>2^64 - 4\<close> bytes is rounded to none at
  all: the buffer answers with a pointer to its cursor, reserves nothing and reports no overflow,
  for writing and for reading alike.
\<close>

theorem huge_request_accepted:
  assumes "IpcIoAvailable s" "unat n > 18446744073709551612"
  shows "IoPush n s = (Some (io_cur s), s) \<and> IoPop n s = (Some (io_cur s), s) \<and> ReadBuffer n (Some s) = (Some (io_cur s), Some s)"
proof -
  have "n \<noteq> 0" using assms(2) by auto
  then show ?thesis
    using assms align_top [OF assms(2)]
    by (simp add: IoPush_def IoPop_def ReadBuffer_def read_io_def take_space_def Let_def)
qed

theorem huge_request_accepted_witness:
  "ReadBuffer 18446744073709551615 (Some (ToIpcData (ToTransData 1 1 1 1 0 None))) = (Some 0, Some (ToIpcData (ToTransData 1 1 1 1 0 None)))"
  using huge_request_accepted [of "ToIpcData (ToTransData 1 1 1 1 0 None)" 18446744073709551615]
  by (simp add: ToIpcData_def IpcIoAvailable_def)

end
