(* ===== verification/Io_Objects_Proofs.thy ===== *)
theory Io_Objects_Proofs
  imports Io_Values
begin

text \<open>
  The objects of a message of the C implementation: whatever is written into a buffer, every
  recorded offset is that of a complete object, objects do not overlap, and nothing written later
  changes their type.
\<close>

section \<open>Writing at a place\<close>

lemma put_at_before:
  assumes "q + k \<le> off" "off \<le> length m"
  shows "take k (drop q (put_at off bs m)) = take k (drop q m)"
proof -
  have "take k (drop q (put_at off bs m)) = take k (drop q (take off m))"
    using assms by (simp add: put_at_def)
  also have "\<dots> = take k (drop q m)" using assms by (simp add: drop_take min_def)
  finally show ?thesis .
qed

lemma put_at_here: "off \<le> length m \<Longrightarrow> take (length bs) (drop off (put_at off bs m)) = bs"
  by (simp add: put_at_def)

lemma put_at_prefix: "p \<le> off \<Longrightarrow> off \<le> length m \<Longrightarrow> take p (put_at off bs m) = take p m"
  using put_at_before [of 0 p off m bs] by simp

definition obj_types :: "u32 set" where
  "obj_types = {BINDER_TYPE_BINDER_C, BINDER_TYPE_HANDLE_C, BINDER_TYPE_FD_C}"

definition obj_write :: "(nat \<times> bytes) list \<Rightarrow> bool" where
  "obj_write fs \<longleftrightarrow> (\<exists>t rest. fs = [(4, word_bytes OBJ_FLAGS), (0, word_bytes (t :: u32))] @ rest \<and> t \<in> obj_types \<and>
     (\<forall>(o1, bs) \<in> set rest. 8 \<le> o1 \<and> o1 + length bs \<le> 24))"

lemma foldl_put_at:
  assumes "\<forall>(o1, bs) \<in> set fs. 8 \<le> o1 \<and> o1 + length bs \<le> 24" "p + 24 \<le> length m"
  shows "length (foldl (\<lambda>m (o1, bs). put_at (p + o1) bs m) m fs) = length m \<and>
    take (p + 8) (foldl (\<lambda>m (o1, bs). put_at (p + o1) bs m) m fs) = take (p + 8) m"
  using assms
proof (induction fs arbitrary: m)
  case (Cons f fs)
  obtain o1 bs where f: "f = (o1, bs)" by force
  then have "8 \<le> o1" "o1 + length bs \<le> 24" using Cons.prems(1) by auto
  then have "length (put_at (p + o1) bs m) = length m" "take (p + 8) (put_at (p + o1) bs m) = take (p + 8) m"
    using Cons.prems(2) by (simp_all add: put_at_prefix)
  then show ?case using Cons f by simp
qed simp

lemma put_fields_obj:
  assumes "obj_write fs" "p + 24 \<le> length (io_mem s)"
  shows "\<exists>m. put_fields fs p s = s\<lparr>io_mem := m\<rparr> \<and> length m = length (io_mem s) \<and> take p m = take p (io_mem s) \<and>
    bytes_word (take 4 (drop p m)) \<in> obj_types"
proof -
  obtain t rest where fs: "fs = [(4, word_bytes OBJ_FLAGS), (0, word_bytes t)] @ rest" "t \<in> obj_types"
      "\<forall>(o1, bs) \<in> set rest. 8 \<le> o1 \<and> o1 + length bs \<le> 24"
    using assms(1) unfolding obj_write_def by blast
  let ?m2 = "put_at p (word_bytes t) (put_at (p + 4) (word_bytes OBJ_FLAGS) (io_mem s))"
  let ?m = "foldl (\<lambda>m (o1, bs). put_at (p + o1) bs m) ?m2 rest"
  have l: "length (put_at (p + 4) (word_bytes OBJ_FLAGS) (io_mem s)) = length (io_mem s)" "length ?m2 = length (io_mem s)"
    using assms(2) by simp_all
  have m: "length ?m = length ?m2" "take (p + 8) ?m = take (p + 8) ?m2"
    using foldl_put_at [OF fs(3), of p ?m2] assms(2) l by simp_all
  have "take p ?m = take p (take (p + 8) ?m)" by simp
  also have "\<dots> = take p ?m2" unfolding m by simp
  also have "\<dots> = take p (io_mem s)" using assms(2) l by (simp add: put_at_prefix)
  finally have a: "take p ?m = take p (io_mem s)" .
  have "take 4 (drop p ?m) = take 4 (drop p (take (p + 8) ?m))" by (simp add: drop_take)
  also have "\<dots> = take 4 (drop p ?m2)" unfolding m by (simp add: drop_take)
  also have "\<dots> = word_bytes t" using put_at_here [of p "put_at (p + 4) (word_bytes OBJ_FLAGS) (io_mem s)" "word_bytes t"] assms(2) l by simp
  finally have "bytes_word (take 4 (drop p ?m)) \<in> obj_types" using fs(2) by simp
  then show ?thesis using a m(1) l fs(1) by (intro exI [of _ ?m]) (simp add: put_fields_def)
qed

section \<open>The recorded objects\<close>

definition recorded :: "ipc_io \<Rightarrow> u64 list" where
  "recorded s = take (io_offCur s) (io_offs s)"

definition objs_ok :: "ipc_io \<Rightarrow> bool" where
  "objs_ok s \<longleftrightarrow> length (io_offs s) \<le> 32 \<and> sorted_wrt (\<lambda>a b. unat a + 24 \<le> unat b) (recorded s) \<and>
     (\<forall>o1 \<in> set (recorded s). unat o1 + 24 \<le> io_cur s \<and> bytes_word (io_bytes (unat o1) 4 s) \<in> obj_types)"

definition io_inv :: "ipc_io \<Rightarrow> bool" where
  "io_inv s \<longleftrightarrow> io_wf s \<and> (overflowed s \<or> objs_ok s)"

lemma objs_ok_frame:
  assumes "objs_ok s" "recorded s' = recorded s" "length (io_offs s') = length (io_offs s)" "io_cur s \<le> io_cur s'" "take (io_cur s) (io_mem s') = take (io_cur s) (io_mem s)"
  shows "objs_ok s'"
proof -
  have "io_bytes (unat o1) 4 s' = io_bytes (unat o1) 4 s" if "unat o1 + 24 \<le> io_cur s" for o1 :: u64
  proof -
    have "io_bytes (unat o1) 4 r = take 4 (drop (unat o1) (take (io_cur s) (io_mem r)))" for r
      using that by (simp add: io_bytes_def drop_take min_def)
    then show ?thesis using assms(5) by simp
  qed
  then show ?thesis using assms(1-4) by (fastforce simp: objs_ok_def)
qed

lemma objs_ok_emit:
  assumes "objs_ok s" "io_wf s" "length bs \<le> unat (io_left s)"
  shows "objs_ok (emit bs s)"
proof (rule objs_ok_frame [OF assms(1)])
  have "take (io_cur s) (io_mem (emit bs s)) = take (io_cur s) (take (io_cur s + length bs) (io_mem (emit bs s)))" by simp
  also have "\<dots> = take (io_cur s) (io_mem s)" unfolding emit_fields(3) [OF assms(2,3)] using assms(2) by (simp add: io_wf_def)
  finally show "take (io_cur s) (io_mem (emit bs s)) = take (io_cur s) (io_mem s)" .
qed (simp_all add: recorded_def emit_def advance_def)

lemma available_recorded [simp]:
  "IpcIoAvailable (s\<lparr>io_offLeft := a, io_offs := b, io_offCur := c\<rparr>) = IpcIoAvailable s"
  by (simp add: IpcIoAvailable_def)

lemma io_inv_values:
  assumes "clib_ok C" "value_ok C v" "io_wf s" "IpcIoAvailable s" "objs_ok s" "write_value C v (Some s) = (ok, io)"
  shows "\<exists>s'. io = Some s' \<and> io_inv s'"
proof (cases "length (enc v) \<le> unat (io_left s)")
  case True
  then have "io = Some (emit (enc v) s)" using write_value_emits [OF assms(1,2)] assms(3,4,6) by (simp add: emits_def)
  then show ?thesis using objs_ok_emit [OF assms(5,3) True] io_wf_emit [OF assms(3) True] by (simp add: io_inv_def)
next
  case False
  then have "\<exists>s'. write_value C v (Some s) = (False, Some s') \<and> overflowed s' \<and> io_wf s'"
    using write_value_emits [OF assms(1,2)] assms(3,4) unfolding emits_def by presburger
  then show ?thesis using assms(6) by (auto simp: io_inv_def)
qed

lemma recorded_snoc:
  "io_offCur s < length (io_offs s) \<Longrightarrow>
   recorded (s\<lparr>io_offs := (io_offs s)[io_offCur s := o1], io_offCur := io_offCur s + 1\<rparr>) = recorded s @ [o1]"
  by (simp add: recorded_def take_Suc_conv_app_nth)

definition push_obj :: "(nat \<times> bytes) list \<Rightarrow> ipc_io \<Rightarrow> bool \<times> ipc_io" where
  "push_obj fs s = (case IoPushBinderObj s of (None, s1) \<Rightarrow> (False, s1) | (Some p, s1) \<Rightarrow> (True, put_fields fs p s1))"

definition with_obj :: "ipc_io \<Rightarrow> ipc_io" where
  "with_obj s = (advance 24 s)\<lparr>io_offLeft := io_offLeft s - 1, io_offs := (io_offs s)[io_offCur s := of_nat (io_cur s)],
     io_offCur := io_offCur s + 1\<rparr>"

lemma push_obj_room:
  assumes "IpcIoAvailable s" "io_hasOffs s" "24 \<le> unat (io_left s)" "io_offLeft s \<noteq> 0"
  shows "push_obj fs s = (True, put_fields fs (io_cur s) (with_obj s))"
proof -
  have "IoPush 24 s = (Some (io_cur s), advance 24 s)" using IoPush_room [OF assms(1), of 24] assms(3) by (simp add: pad4_def)
  then show ?thesis using assms(2,4) by (simp add: push_obj_def IoPushBinderObj_def advance_def with_obj_def)
qed

lemma push_obj_added:
  assumes "io_wf s" "IpcIoAvailable s" "objs_ok s" "io_hasOffs s" "24 \<le> unat (io_left s)" "io_offLeft s \<noteq> 0" "obj_write fs"
  shows "io_inv (snd (push_obj fs s))"
proof -
  let ?s1 = "with_obj s"
  have p: "push_obj fs s = (True, put_fields fs (io_cur s) ?s1)" using assms(2,4-6) by (rule push_obj_room)
  have b: "io_cur s + 24 \<le> length (io_mem ?s1)" "length (io_mem s) \<le> 8192" "io_mem ?s1 = io_mem s"
    using assms(1,5) by (simp_all add: io_wf_def with_obj_def advance_def)
  obtain m where m: "put_fields fs (io_cur s) ?s1 = ?s1\<lparr>io_mem := m\<rparr>" "length m = length (io_mem s)"
      "take (io_cur s) m = take (io_cur s) (io_mem s)" "bytes_word (take 4 (drop (io_cur s) m)) \<in> obj_types"
    using put_fields_obj [OF assms(7) b(1)] b(3) by auto
  have u: "unat (of_nat (io_cur s) :: u64) = io_cur s" using b by (intro small_u32) simp
  have o1: "0 < unat (io_offLeft s)" using assms(6) by (simp add: unat_gt_0)
  have ol: "unat (io_offLeft s - 1) = unat (io_offLeft s) - 1" using o1 by (simp add: unat_sub word_le_nat_alt)
  let ?t = "?s1\<lparr>io_mem := m\<rparr>"
  have wf: "io_wf ?t" using io_wf_advance [OF assms(1,5)] m(2) o1 ol by (auto simp: io_wf_def with_obj_def advance_def)
  have r: "recorded ?t = recorded s @ [of_nat (io_cur s)]"
    using assms(1) o1 by (simp add: recorded_def io_wf_def take_Suc_conv_app_nth with_obj_def advance_def)
  have old: "objs_ok (?t\<lparr>io_offs := io_offs s, io_offCur := io_offCur s\<rparr>)"
    by (rule objs_ok_frame [OF assms(3)]) (use m(3) in \<open>simp_all add: recorded_def with_obj_def advance_def\<close>)
  have "objs_ok ?t"
    using old r u m(4) assms(3)
    by (auto simp: objs_ok_def sorted_wrt_append io_bytes_def with_obj_def advance_def recorded_def)
  then show ?thesis using p m(1) wf by (simp add: io_inv_def)
qed

lemma set_overflow_inv: "io_wf s \<Longrightarrow> io_inv (set_overflow s)"
  by (simp add: io_inv_def)

lemma push_obj_inv:
  assumes "io_inv s" "obj_write fs"
  shows "io_inv (snd (push_obj fs s))"
proof (cases "overflowed s")
  case True
  then show ?thesis using assms(1) by (simp add: push_obj_def IoPushBinderObj_def overflowed_take io_inv_def)
next
  case False
  then have s: "io_wf s" "IpcIoAvailable s" "objs_ok s" using assms(1) by (simp_all add: io_inv_def overflowed_def)
  show ?thesis
  proof (cases "io_hasOffs s \<and> 24 \<le> unat (io_left s)")
    case True
    then have "IoPush 24 s = (Some (io_cur s), advance 24 s)" using IoPush_room [OF s(2), of 24] by (simp add: pad4_def)
    then show ?thesis
      using push_obj_added [OF s _ _ _ assms(2)] True io_wf_advance [OF s(1), of 24]
      by (cases "io_offLeft s = 0") (simp_all add: push_obj_def IoPushBinderObj_def advance_def set_overflow_inv)
  next
    case False
    then show ?thesis
      using s assms(1) IoPush_room [OF s(2), of 24] by (auto simp: push_obj_def IoPushBinderObj_def pad4_def set_overflow_inv)
  qed
qed

datatype io_op = OpValue io_value | OpObject SvcIdentity | OpFd u32

fun do_op :: "clib \<Rightarrow> io_op \<Rightarrow> ipc_io option \<Rightarrow> bool \<times> ipc_io option" where
  "do_op C (OpValue v) = write_value C v"
| "do_op C (OpObject svc) = WriteRemoteObject (Some svc)"
| "do_op C (OpFd fd) = WriteFileDescriptor fd"

fun op_ok :: "clib \<Rightarrow> io_op \<Rightarrow> bool" where
  "op_ok C (OpValue v) = value_ok C v"
| "op_ok C _ = True"

text \<open>The writes of a caller, whatever they return.\<close>

definition do_ops :: "clib \<Rightarrow> io_op list \<Rightarrow> ipc_io option \<Rightarrow> ipc_io option" where
  "do_ops C ops io = fold (\<lambda>p io. snd (do_op C p io)) ops io"

lemma obj_writes:
  "obj_write [(4, word_bytes OBJ_FLAGS), (0, word_bytes BINDER_TYPE_BINDER_C), (8, word_bytes (c :: u64)), (16, word_bytes (c :: u64))]"
  "obj_write [(4, word_bytes OBJ_FLAGS), (0, word_bytes BINDER_TYPE_HANDLE_C), (8, word_bytes (h :: u32)), (16, word_bytes (c :: u64))]"
  "obj_write [(4, word_bytes OBJ_FLAGS), (0, word_bytes BINDER_TYPE_FD_C), (8, word_bytes (0 :: u64)),
     (16, word_bytes (1 :: u64)), (8, word_bytes (h :: u32))]"
  unfolding obj_write_def obj_types_def by auto

lemma write_io_inv:
  assumes "io_inv s" "obj_write fs"
  shows "\<exists>s'. snd (write_io (push_obj fs) (Some s)) = Some s' \<and> io_inv s'"
  using push_obj_inv [OF assms] by (cases "push_obj fs s") (simp add: write_io_def)

lemma object_writers:
  "WriteRemoteObject (Some svc) = write_io (push_obj (if sint (svc_handle svc) \<le> 0
     then [(4, word_bytes OBJ_FLAGS), (0, word_bytes BINDER_TYPE_BINDER_C), (8, word_bytes (svc_cookie svc)), (16, word_bytes (svc_cookie svc))]
     else [(4, word_bytes OBJ_FLAGS), (0, word_bytes BINDER_TYPE_HANDLE_C), (8, word_bytes (svc_handle svc)), (16, word_bytes (svc_cookie svc))]))"
  "WriteFileDescriptor fd = write_io (push_obj [(4, word_bytes OBJ_FLAGS), (0, word_bytes BINDER_TYPE_FD_C), (8, word_bytes (0 :: u64)),
     (16, word_bytes (1 :: u64)), (8, word_bytes fd)])"
  by (auto simp: WriteRemoteObject_def WriteFileDescriptor_def IpcIoPushObject_def IpcIoPushRef_def push_obj_def
    write_io_def fun_eq_iff split: option.splits prod.splits)

lemma overflowed_value_inv:
  assumes "overflowed s" "io_wf s"
  shows "\<exists>s'. snd (write_value C v (Some s)) = Some s' \<and> io_inv s'"
  using overflowed_writes [OF assms(1), of C v] assms by (auto simp: io_inv_def refused_def)

lemma do_op_inv:
  assumes "clib_ok C" "op_ok C p" "io_inv s"
  shows "\<exists>s'. snd (do_op C p (Some s)) = Some s' \<and> io_inv s'"
proof (cases p)
  case (OpValue v)
  show ?thesis
  proof (cases "overflowed s")
    case True
    then show ?thesis using overflowed_value_inv assms(3) OpValue by (simp add: io_inv_def)
  next
    case False
    then show ?thesis
      using io_inv_values [OF assms(1), of v s] assms(2,3) OpValue
      by (cases "write_value C v (Some s)") (auto simp: io_inv_def overflowed_def)
  qed
next
  case (OpObject svc)
  then show ?thesis using write_io_inv [OF assms(3)] by (simp add: object_writers obj_writes)
next
  case (OpFd fd)
  then show ?thesis using write_io_inv [OF assms(3)] by (simp add: object_writers obj_writes)
qed

lemma do_ops_inv:
  assumes "clib_ok C" "\<forall>p \<in> set ops. op_ok C p" "io_inv s"
  shows "\<exists>s'. do_ops C ops (Some s) = Some s' \<and> io_inv s'"
  using assms(2,3)
proof (induction ops arbitrary: s)
  case (Cons p ops)
  then show ?case using do_op_inv [OF assms(1), of p s] by (fastforce simp: do_ops_def)
qed (simp add: do_ops_def)



section \<open>Appending one message to another\<close>

lemma append_offsets_effect:
  assumes "io_offCur d + length vs \<le> length (io_offs d)" "io_offCur d + unat (io_offLeft d) = length (io_offs d)"
  shows "recorded (append_offsets vs adj d) = recorded d @ map (\<lambda>v. v + adj) vs \<and>
    (\<exists>os ol. append_offsets vs adj d = d\<lparr>io_offs := os, io_offCur := io_offCur d + length vs, io_offLeft := ol\<rparr> \<and>
       length os = length (io_offs d) \<and> io_offCur d + length vs + unat ol = length os)"
  using assms
proof (induction vs arbitrary: d)
  case Nil
  show ?case
    by (rule conjI, simp add: recorded_def, rule exI [of _ "io_offs d"], rule exI [of _ "io_offLeft d"]) (use Nil in simp)
next
  case (Cons v vs)
  let ?d = "d\<lparr>io_offLeft := io_offLeft d - 1, io_offs := (io_offs d)[io_offCur d := v + adj], io_offCur := io_offCur d + 1\<rparr>"
  have o0: "0 < unat (io_offLeft d)" using Cons.prems by simp
  then have "unat (io_offLeft d - 1) = unat (io_offLeft d) - 1" by (simp add: unat_sub word_le_nat_alt)
  then have pre: "io_offCur ?d + length vs \<le> length (io_offs ?d)" "io_offCur ?d + unat (io_offLeft ?d) = length (io_offs ?d)"
    using Cons.prems o0 by auto
  have r: "recorded ?d = recorded d @ [v + adj]"
    using Cons.prems by (simp add: recorded_def take_Suc_conv_app_nth)
  from Cons.IH [OF pre] obtain os ol' where "recorded (append_offsets vs adj ?d) = recorded ?d @ map (\<lambda>v. v + adj) vs"
      "append_offsets vs adj ?d = ?d\<lparr>io_offs := os, io_offCur := io_offCur ?d + length vs, io_offLeft := ol'\<rparr>"
      "length os = length (io_offs ?d)" "io_offCur ?d + length vs + unat ol' = length os"
    by blast
  with r show ?case by (intro conjI exI [of _ os] exI [of _ ol']) simp_all
qed

lemma append_room:
  assumes "clib_ok C" "io_wf d" "io_wf s" "IpcIoAvailable d" "IpcIoAvailable s" "length (io_offs s) \<le> 32"
    and "0 < io_cur s" "pad4 (io_cur s) \<le> unat (io_left d)" "io_offCur s \<le> unat (io_offLeft d)"
  shows "IpcIoAppend C (Some d) (Some s) =
    (True, Some (append_offsets (recorded s) (of_nat (io_cur d)) (emit (padded (take (io_cur s) (io_mem s))) d)))"
proof -
  have c: "io_cur s \<le> length (io_mem s)" "io_cur s \<le> 8192" "io_offCur s \<le> 32"
    using assms(3,6) by (auto simp: io_wf_def)
  have p: "io_cur s \<le> pad4 (io_cur s)" by (rule pad4_bounds)
  have u: "unat (of_nat (io_cur s) :: u64) = io_cur s" "unat (of_nat (io_offCur s) :: u64) = io_offCur s"
    by (rule small_u32; use c in simp)+
  have al: "unat (IPC_IO_ALIGN (of_nat (io_cur s))) = pad4 (io_cur s)" using IPC_IO_ALIGN_unat [of "of_nat (io_cur s)"] u c by simp
  have pu: "IoPush (of_nat (io_cur s)) d = (Some (io_cur d), advance (pad4 (io_cur s)) d)"
    using IoPush_room [OF assms(4), of "of_nat (io_cur s)"] u c assms(8) by simp
  have "zero_copy C (io_cur d) (pad4 (io_cur s)) (io_mem s) (io_cur s) (advance (pad4 (io_cur s)) d) =
      (True, emit (padded (take (io_cur s) (io_mem s))) d)"
    by (rule zero_copy_emit) (use assms c in simp_all)
  moreover have "(of_nat (io_cur s) :: u64) \<noteq> 0" using u assms(7) by auto
  moreover have "\<not> io_left d < of_nat (io_cur s)" "\<not> io_offLeft d < of_nat (io_offCur s)"
    using u p assms(8,9) by (simp_all add: word_less_nat_alt)
  ultimately show ?thesis
    using assms(4,5) by (auto simp: IpcIoAppend_def zero_copy_def Let_def pu al u recorded_def word_neq_0_conv split: prod.splits if_splits)
qed

lemma io_bytes_front: "q + k \<le> n \<Longrightarrow> io_bytes q k s = take k (drop q (take n (io_mem s)))"
  by (simp add: io_bytes_def drop_take min_def)

lemma objs_ok_append:
  assumes "objs_ok d" "objs_ok s" "io_cur s \<le> length (io_mem s)" "io_cur d \<le> length (io_mem d)"
    and r: "recorded d' = recorded d @ map (\<lambda>o1. o1 + of_nat (io_cur d)) (recorded s)"
    and c: "io_cur d + io_cur s \<le> io_cur d'" "io_cur d' \<le> 8192" "length (io_offs d') \<le> 32"
    and m: "take (io_cur d + io_cur s) (io_mem d') = take (io_cur d) (io_mem d) @ take (io_cur s) (io_mem s)"
  shows "objs_ok d'"
proof -
  have u: "unat (o1 + of_nat (io_cur d)) = unat o1 + io_cur d" if "o1 \<in> set (recorded s)" for o1 :: u64
  proof -
    have "unat o1 + 24 \<le> io_cur s" using assms(2) that by (simp add: objs_ok_def)
    then have "unat o1 + io_cur d < 4294967296" using c by simp
    moreover have "o1 + of_nat (io_cur d) = of_nat (unat o1 + io_cur d)" by simp
    ultimately show ?thesis using small_u32(2) [of "unat o1 + io_cur d"] by (simp only:)
  qed
  have old: "io_bytes (unat o1) 4 d' = io_bytes (unat o1) 4 d" if "o1 \<in> set (recorded d)" for o1
  proof -
    have "unat o1 + 24 \<le> io_cur d" using assms(1) that by (simp add: objs_ok_def)
    moreover have "take (io_cur d) (io_mem d') = take (io_cur d) (take (io_cur d + io_cur s) (io_mem d'))" by simp
    ultimately show ?thesis using m assms(4) io_bytes_front [of "unat o1" 4 "io_cur d"] by simp
  qed
  have new: "io_bytes (unat o1 + io_cur d) 4 d' = io_bytes (unat o1) 4 s" if "o1 \<in> set (recorded s)" for o1
  proof -
    have "unat o1 + 24 \<le> io_cur s" using assms(2) that by (simp add: objs_ok_def)
    then show ?thesis
      using m assms(4) io_bytes_front [of "unat o1 + io_cur d" 4 "io_cur d + io_cur s" d'] io_bytes_front [of "unat o1" 4 "io_cur s" s]
      by simp
  qed
  have "\<forall>o1 \<in> set (recorded d'). unat o1 + 24 \<le> io_cur d' \<and> bytes_word (io_bytes (unat o1) 4 d') \<in> obj_types"
    using assms(1,2) c(1) u old new unfolding r objs_ok_def by fastforce
  moreover have "sorted_wrt (\<lambda>a b. unat a + 24 \<le> unat b) (recorded d')"
    using assms(1,2) u unfolding r objs_ok_def
    by (auto simp: sorted_wrt_append sorted_wrt_map intro: sorted_wrt_mono_rel [rotated])
  ultimately show ?thesis using c(3) by (simp add: objs_ok_def)
qed

text \<open>
  Appending a message. When the target has room for the padded bytes and for the objects of
  the source, the bytes of the source follow those of the target, the offsets of its objects follow
  the recorded ones, each moved by the length of the target, and the object table of the result is
  valid again.
\<close>

theorem append_moves_objects:
  assumes "clib_ok C" "io_wf d" "io_wf s" "IpcIoAvailable d" "IpcIoAvailable s" "objs_ok d" "objs_ok s"
    and "0 < io_cur s" "pad4 (io_cur s) \<le> unat (io_left d)" "io_offCur s \<le> unat (io_offLeft d)"
  shows "\<exists>d'. IpcIoAppend C (Some d) (Some s) = (True, Some d') \<and> io_wf d' \<and> objs_ok d' \<and>
    io_cur d' = io_cur d + pad4 (io_cur s) \<and>
    take (io_cur d + io_cur s) (io_mem d') = take (io_cur d) (io_mem d) @ take (io_cur s) (io_mem s) \<and>
    recorded d' = recorded d @ map (\<lambda>o1. o1 + of_nat (io_cur d)) (recorded s)"
proof -
  let ?b = "padded (take (io_cur s) (io_mem s))"
  let ?e = "emit ?b d"
  have c: "io_cur s \<le> length (io_mem s)" "io_cur d \<le> length (io_mem d)" "io_offCur s \<le> length (io_offs s)" "length (io_offs s) \<le> 32"
    using assms(2,3,7) by (auto simp: io_wf_def objs_ok_def)
  have l: "length ?b = pad4 (io_cur s)" "length (recorded s) = io_offCur s" using c by (simp_all add: recorded_def)
  have e: "io_wf ?e" "io_cur ?e = io_cur d + pad4 (io_cur s)" "take (io_cur d + length ?b) (io_mem ?e) = take (io_cur d) (io_mem d) @ ?b"
    "recorded ?e = recorded d" "io_offCur ?e = io_offCur d" "io_offs ?e = io_offs d"
    using io_wf_emit [OF assms(2), of ?b] emit_fields [OF assms(2), of ?b] l assms(9) by (simp_all add: recorded_def emit_def advance_def)
  from append_offsets_effect [of ?e "recorded s" "of_nat (io_cur d)"] e l assms(10)
  obtain os ol where d': "recorded (append_offsets (recorded s) (of_nat (io_cur d)) ?e) = recorded d @ map (\<lambda>o1. o1 + of_nat (io_cur d)) (recorded s)"
      "append_offsets (recorded s) (of_nat (io_cur d)) ?e = ?e\<lparr>io_offs := os, io_offCur := io_offCur d + io_offCur s, io_offLeft := ol\<rparr>"
      "length os = length (io_offs d)" "io_offCur d + io_offCur s + unat ol = length os"
    using assms(2) by (auto simp: io_wf_def emit_def advance_def)
  let ?d' = "append_offsets (recorded s) (of_nat (io_cur d)) ?e"
  have w: "io_wf ?d'" "io_cur ?d' = io_cur d + pad4 (io_cur s)" using e d'(2-4) by (simp_all add: io_wf_def)
  have "take (io_cur d + io_cur s) (io_mem ?d') = take (io_cur d + io_cur s) (take (io_cur d + length ?b) (io_mem ?d'))"
    using l(1) pad4_bounds(1) [of "io_cur s"] by simp
  also have "\<dots> = take (io_cur d) (io_mem d) @ take (io_cur s) (io_mem s)"
    using e(3) d'(2) c by (simp add: padded_def)
  finally have m: "take (io_cur d + io_cur s) (io_mem ?d') = take (io_cur d) (io_mem d) @ take (io_cur s) (io_mem s)" .
  have "objs_ok ?d'"
    by (rule objs_ok_append [OF assms(6,7) c(1,2) d'(1) _ _ _ m])
      (use w d'(2,3) assms(6) pad4_bounds(1) [of "io_cur s"] in \<open>auto simp: io_wf_def objs_ok_def\<close>)
  then show ?thesis using append_room [OF assms(1-5) c(4) assms(8-10)] w m d'(1) by auto
qed

theorem append_moves_objects_witness:
  "\<exists>d s d'. IpcIoInit (Some (replicate 64 0)) 64 1 (Some (ToIpcData (ToTransData 1 1 1 1 0 None))) = Some d \<and>
     WriteUint32 7 (Some d) = (True, Some s) \<and> IpcIoAppend std_clib (Some d) (Some s) = (True, Some d') \<and> io_cur d' = 4 \<and>
     take 4 (io_mem d') = take 4 (io_mem s)"
proof -
  let ?io = "ToIpcData (ToTransData 1 1 1 1 0 None)"
  obtain d where d: "IpcIoInit (Some (replicate 64 0)) 64 1 (Some ?io) = Some d" "io_wf d" "IpcIoAvailable d"
      "unat (io_left d) = 56" "io_offLeft d = 1" "io_offCur d = 0" "io_cur d = 0"
    using init_wf [of 64 1 "replicate 64 0" ?io] by auto
  let ?s = "emit (word_bytes (7 :: u32)) d"
  have l: "length (word_bytes (7 :: u32)) \<le> unat (io_left d)" using d(4) by simp
  have "WriteUint32 7 (Some d) = (True, Some ?s)" using emits_numbers(2) [of 7] d(2,3) l by (simp add: emits_def)
  moreover have "objs_ok d" "objs_ok ?s"
    using d by (simp_all add: objs_ok_def recorded_def io_wf_def emit_def advance_def)
  moreover have "io_wf ?s" "io_cur ?s = 4" "io_offCur ?s = 0"
    using io_wf_emit [OF d(2) l] d by (simp_all add: emit_def advance_def)
  ultimately show ?thesis
    using append_moves_objects [OF std_clib_ok(1) d(2), of ?s] d by (auto simp: pad4_def)
qed

end
