(* ===== verification/Lite_Skeleton.thy ===== *)
theory Lite_Skeleton
  imports Io_Objects
begin

text \<open>
  The process skeleton of the C implementation: \<open>ipc/native/c/manager/src/ipc_process_skeleton.c\<close>,
  \<open>ipc_thread_pool.c\<close>, \<open>ipc_skeleton.c\<close> and the commands that \<open>ipc/src/linux/ipc_invoker.c\<close> writes to
  the driver on their behalf.

  The globals of the files are one record. Death callbacks are in the list \<open>ls_objects\<close>, each with
  the address it was allocated at; a new one goes to the front. The commands written to the driver
  are kept in \<open>ls_log\<close>, newest first. Signed 32-bit integers are \<open>int\<close>; the counters stay small. A function
  pointer is an address, null is 0. The environment says whether locks and allocations succeed,
  whether the current thread has an invoker, and what the driver answers to each command. The part
  for remote devices, which \<open>GetCurrentSkeleton\<close> starts after the skeleton and whose result it only
  logs, is not in the record. \<open>DeleteHandle\<close> and \<open>FirstAddObject\<close> use the skeleton without a test: it has
  to exist when they are called.
\<close>

section \<open>Types\<close>

abbreviation (input) ERR_NONE :: int where "ERR_NONE \<equiv> 0"
abbreviation (input) ERR_FAILED :: int where "ERR_FAILED \<equiv> - 1"
abbreviation (input) ERR_INVALID_PARAM :: int where "ERR_INVALID_PARAM \<equiv> - 2"
abbreviation (input) ERR_IPC_SKELETON_NOT_INIT :: int where "ERR_IPC_SKELETON_NOT_INIT \<equiv> - 3"
abbreviation (input) ERR_THREAD_INVOKER_NOT_INIT :: int where "ERR_THREAD_INVOKER_NOT_INIT \<equiv> - 4"
abbreviation (input) ERR_DEAD_OBJECT :: int where "ERR_DEAD_OBJECT \<equiv> - 32"
abbreviation (input) MAX_DEATH_CALLBACK_NUM :: nat where "MAX_DEATH_CALLBACK_NUM \<equiv> 4"
abbreviation (input) SET_MAX_THREADS_DEFAULT :: int where "SET_MAX_THREADS_DEFAULT \<equiv> 4"
abbreviation (input) SET_MAX_THREADS_MAX :: int where "SET_MAX_THREADS_MAX \<equiv> 16"
abbreviation (input) IF_PROT_BINDER_C :: int where "IF_PROT_BINDER_C \<equiv> 0"
abbreviation (input) IF_PROT_DATABUS_C :: int where "IF_PROT_DATABUS_C \<equiv> 1"
abbreviation (input) SPAWN_ACTIVE :: int where "SPAWN_ACTIVE \<equiv> 1"

record DeathHandler =
  usedFlag :: bool
  dh_func :: ptr
  dh_args :: ptr

record DeathCallback =
  dc_handler :: "DeathHandler list"
  dc_handle :: int
  deathNum :: int
  isRemoteDead :: bool
  isNewHandler :: bool

record LiteThreadPool =
  lt_maxThreadNum :: int
  lt_idleThreadNum :: int
  lt_idleSocketThreadNum :: int

datatype driver_cmd =
    BC_ACQUIRE int | BC_RELEASE int
  | BC_REQUEST_DEATH_NOTIFICATION int ptr | BC_CLEAR_DEATH_NOTIFICATION int ptr | BC_DEAD_BINDER_DONE ptr
  | BC_FREE_BUFFER ptr | BINDER_SET_MAX_THREADS int | BINDER_SET_CONTEXT_MGR

record lite_state =
  ls_skeleton :: bool
  ls_objects :: "(ptr \<times> DeathCallback) list"
  ls_pool :: LiteThreadPool
  ls_samgr :: SvcIdentity
  ls_log :: "driver_cmd list"

record lite_env =
  le_lock :: bool
  le_calloc :: "ptr option"
  le_invoker :: bool
  le_connector :: bool
  le_ioctl :: "driver_cmd \<Rightarrow> int"
  le_create :: bool

section \<open>Commands to the driver\<close>

definition BinderWrite :: "lite_env \<Rightarrow> driver_cmd \<Rightarrow> lite_state \<Rightarrow> int \<times> lite_state" where
  "BinderWrite E c s =
     (if le_ioctl E c < 0 then (- 36, s\<lparr>ls_log := c # ls_log s\<rparr>) else (ERR_NONE, s\<lparr>ls_log := c # ls_log s\<rparr>))"

definition AcquireHandle :: "lite_env \<Rightarrow> int \<Rightarrow> lite_state \<Rightarrow> int \<times> lite_state" where
  "AcquireHandle E h = BinderWrite E (BC_ACQUIRE h)"

definition ReleaseHandle :: "lite_env \<Rightarrow> int \<Rightarrow> lite_state \<Rightarrow> int \<times> lite_state" where
  "ReleaseHandle E h = BinderWrite E (BC_RELEASE h)"

definition IpcFreeBuffer :: "lite_env \<Rightarrow> ptr \<Rightarrow> lite_state \<Rightarrow> int \<times> lite_state" where
  "IpcFreeBuffer E p s = (if p = nullptr then (ERR_NONE, s) else BinderWrite E (BC_FREE_BUFFER p) s)"

definition IpcAddDeathRecipient :: "lite_env \<Rightarrow> int \<Rightarrow> ptr \<Rightarrow> lite_state \<Rightarrow> int \<times> lite_state" where
  "IpcAddDeathRecipient E h cookie = BinderWrite E (BC_REQUEST_DEATH_NOTIFICATION h cookie)"

definition IpcRemoveDeathRecipient :: "lite_env \<Rightarrow> int \<Rightarrow> ptr \<Rightarrow> lite_state \<Rightarrow> int \<times> lite_state" where
  "IpcRemoveDeathRecipient E h cookie = BinderWrite E (BC_CLEAR_DEATH_NOTIFICATION h cookie)"

definition HandleDeadBinderDone :: "lite_env \<Rightarrow> ptr \<Rightarrow> lite_state \<Rightarrow> lite_state" where
  "HandleDeadBinderDone E cookie s = snd (BinderWrite E (BC_DEAD_BINDER_DONE cookie) s)"

definition IpcSetMaxWorkThread :: "lite_env \<Rightarrow> int \<Rightarrow> lite_state \<Rightarrow> int \<times> lite_state" where
  "IpcSetMaxWorkThread E n s =
     (if \<not> le_connector E then (ERR_FAILED, s)
      else (le_ioctl E (BINDER_SET_MAX_THREADS n), s\<lparr>ls_log := BINDER_SET_MAX_THREADS n # ls_log s\<rparr>))"

definition IpcSetRegistryObject :: "lite_env \<Rightarrow> SvcIdentity \<Rightarrow> lite_state \<Rightarrow> int \<times> lite_state" where
  "IpcSetRegistryObject E target s =
     (if \<not> le_connector E then (ERR_FAILED, s)
      else
        (let s1 = s\<lparr>ls_log := BINDER_SET_CONTEXT_MGR # ls_log s\<rparr> in
         if le_ioctl E BINDER_SET_CONTEXT_MGR = ERR_NONE
         then (ERR_NONE, s1\<lparr>ls_samgr := (ls_samgr s)\<lparr>svc_handle := - 1, svc_cookie := svc_cookie target\<rparr>\<rparr>)
         else (ERR_FAILED, s1)))"

section \<open>The thread pool\<close>

definition InitThreadPool :: "int \<Rightarrow> LiteThreadPool" where
  "InitThreadPool n = \<lparr>lt_maxThreadNum = n + n, lt_idleThreadNum = n, lt_idleSocketThreadNum = n\<rparr>"

definition SpawnNewThread :: "lite_env \<Rightarrow> int \<Rightarrow> LiteThreadPool \<Rightarrow> int \<times> LiteThreadPool" where
  "SpawnNewThread E proto p =
     (if \<not> le_lock E then (ERR_FAILED, p)
      else if \<not> (proto = IF_PROT_BINDER_C \<and> lt_idleThreadNum p > 0) \<and>
              \<not> (proto = IF_PROT_DATABUS_C \<and> lt_idleSocketThreadNum p > 0) then (ERR_INVALID_PARAM, p)
      else if le_calloc E = None then (ERR_FAILED, p)
      else if \<not> le_create E then (ERR_FAILED, p)
      else (ERR_NONE,
        if proto = IF_PROT_BINDER_C then p\<lparr>lt_idleThreadNum := lt_idleThreadNum p - 1\<rparr>
        else if proto = IF_PROT_DATABUS_C then p\<lparr>lt_idleSocketThreadNum := lt_idleSocketThreadNum p - 1\<rparr>
        else p))"

definition UpdateMaxThreadNum_c :: "lite_env \<Rightarrow> int \<Rightarrow> LiteThreadPool \<Rightarrow> LiteThreadPool" where
  "UpdateMaxThreadNum_c E maxThreadNum p =
     (let totalNum = maxThreadNum + maxThreadNum; oldThreadNum = lt_maxThreadNum p in
      if \<not> le_lock E then p
      else if totalNum \<le> oldThreadNum then p
      else
        (let diff = totalNum - oldThreadNum in
         p\<lparr>lt_maxThreadNum := totalNum, lt_idleThreadNum := lt_idleThreadNum p + diff div 2,
           lt_idleSocketThreadNum := lt_idleSocketThreadNum p + diff div 2\<rparr>))"

text \<open>The end of a thread: its place is given back.\<close>

definition ThreadContextDestructor :: "int \<Rightarrow> LiteThreadPool \<Rightarrow> LiteThreadPool" where
  "ThreadContextDestructor proto p =
     (if proto = IF_PROT_BINDER_C then p\<lparr>lt_idleThreadNum := lt_idleThreadNum p + 1\<rparr>
      else if proto = IF_PROT_DATABUS_C then p\<lparr>lt_idleSocketThreadNum := lt_idleSocketThreadNum p + 1\<rparr>
      else p)"

section \<open>The skeleton\<close>

definition IpcProcessSkeleton :: "lite_env \<Rightarrow> lite_state \<Rightarrow> bool \<times> lite_state" where
  "IpcProcessSkeleton E s =
     (if le_calloc E = None then (False, s)
      else if \<not> le_invoker E then (False, s)
      else (case IpcSetMaxWorkThread E SET_MAX_THREADS_DEFAULT s of
          (r, s1) \<Rightarrow>
            if r \<noteq> ERR_NONE then (False, s1)
            else (True, s1\<lparr>ls_pool := snd (SpawnNewThread E IF_PROT_BINDER_C (InitThreadPool SET_MAX_THREADS_DEFAULT)),
                   ls_objects := []\<rparr>)))"

definition GetCurrentSkeleton :: "lite_env \<Rightarrow> lite_state \<Rightarrow> bool \<times> lite_state" where
  "GetCurrentSkeleton E s =
     (if ls_skeleton s then (True, s)
      else if \<not> le_lock E then (False, s)
      else (case IpcProcessSkeleton E s of
          (False, s1) \<Rightarrow> (False, s1)
        | (True, s1) \<Rightarrow> (True, s1\<lparr>ls_skeleton := True\<rparr>)))"

definition SpawnThread_c :: "lite_env \<Rightarrow> int \<Rightarrow> lite_state \<Rightarrow> int \<times> lite_state" where
  "SpawnThread_c E proto s =
     (if \<not> ls_skeleton s then (ERR_IPC_SKELETON_NOT_INIT, s)
      else (case SpawnNewThread E proto (ls_pool s) of (r, p) \<Rightarrow> (r, s\<lparr>ls_pool := p\<rparr>)))"

definition SetMaxWorkThread_c :: "lite_env \<Rightarrow> int \<Rightarrow> lite_state \<Rightarrow> int \<times> lite_state" where
  "SetMaxWorkThread_c E n s =
     (if \<not> ls_skeleton s then (ERR_IPC_SKELETON_NOT_INIT, s)
      else
        (let s1 = s\<lparr>ls_pool := UpdateMaxThreadNum_c E n (ls_pool s)\<rparr> in
         if le_invoker E then IpcSetMaxWorkThread E n s1 else (ERR_THREAD_INVOKER_NOT_INIT, s1)))"

definition SetRegistryObject_c :: "lite_env \<Rightarrow> SvcIdentity \<Rightarrow> lite_state \<Rightarrow> int \<times> lite_state" where
  "SetRegistryObject_c E target s =
     (if le_invoker E then IpcSetRegistryObject E target s else (ERR_THREAD_INVOKER_NOT_INIT, s))"

definition ProcessFreeBuffer :: "lite_env \<Rightarrow> ptr \<Rightarrow> lite_state \<Rightarrow> int \<times> lite_state" where
  "ProcessFreeBuffer E p s =
     (if le_invoker E then IpcFreeBuffer E p s else (ERR_THREAD_INVOKER_NOT_INIT, s))"

section \<open>Handles and death callbacks\<close>

fun delete_node :: "int \<Rightarrow> (ptr \<times> DeathCallback) list \<Rightarrow> bool \<times> (ptr \<times> DeathCallback) list" where
  "delete_node h [] = (False, [])"
| "delete_node h ((a, n) # ns) =
     (if dc_handle n = h then (True, ns) else (case delete_node h ns of (b, ns') \<Rightarrow> (b, (a, n) # ns')))"

definition DeleteHandle :: "lite_env \<Rightarrow> int \<Rightarrow> lite_state \<Rightarrow> int \<times> lite_state" where
  "DeleteHandle E h s =
     (if \<not> le_lock E then (ERR_FAILED, s)
      else (case delete_node h (ls_objects s) of
          (False, ns) \<Rightarrow> (ERR_INVALID_PARAM, s\<lparr>ls_objects := ns\<rparr>)
        | (True, ns) \<Rightarrow>
            (let s1 = s\<lparr>ls_objects := ns\<rparr> in
             (ERR_NONE, if le_invoker E then snd (ReleaseHandle E h s1) else s1))))"

definition new_node :: "int \<Rightarrow> DeathCallback" where
  "new_node h = \<lparr>dc_handler = replicate MAX_DEATH_CALLBACK_NUM \<lparr>usedFlag = False, dh_func = nullptr, dh_args = nullptr\<rparr>,
     dc_handle = h, deathNum = 0, isRemoteDead = False, isNewHandler = True\<rparr>"

definition FirstAddObject :: "lite_env \<Rightarrow> int \<Rightarrow> lite_state \<Rightarrow> bool \<times> lite_state" where
  "FirstAddObject E h s =
     (if \<not> le_lock E then (False, s)
      else if \<exists>e \<in> set (ls_objects s). dc_handle (snd e) = h then (False, s)
      else (case le_calloc E of
          None \<Rightarrow> (False, s)
        | Some a \<Rightarrow> (True, s\<lparr>ls_objects := (a, new_node h) # ls_objects s\<rparr>)))"

definition OnFirstStrongRef :: "lite_env \<Rightarrow> int \<Rightarrow> lite_state \<Rightarrow> lite_state" where
  "OnFirstStrongRef E h s =
     (if h \<le> 0 then s
      else (case FirstAddObject E h s of
          (False, s1) \<Rightarrow> s1
        | (True, s1) \<Rightarrow> if le_invoker E then snd (AcquireHandle E h s1) else s1))"

definition SetDeathHandlerPair :: "nat \<Rightarrow> ptr \<Rightarrow> ptr \<Rightarrow> DeathCallback \<Rightarrow> DeathCallback" where
  "SetDeathHandlerPair index func args node =
     node\<lparr>dc_handler := (dc_handler node)[index := \<lparr>usedFlag = True, dh_func = func, dh_args = args\<rparr>],
       deathNum := deathNum node + 1\<rparr>"

definition CheckParam :: "ptr \<Rightarrow> lite_state \<Rightarrow> int" where
  "CheckParam deathFunc s =
     (if \<not> ls_skeleton s then ERR_IPC_SKELETON_NOT_INIT
      else if deathFunc = nullptr then ERR_INVALID_PARAM else ERR_NONE)"

text \<open>The first slot that is not used.\<close>

fun free_slot :: "DeathHandler list \<Rightarrow> nat option" where
  "free_slot [] = None"
| "free_slot (h # hs) = (if \<not> usedFlag h then Some 0 else map_option Suc (free_slot hs))"

fun update_node :: "int \<Rightarrow> (DeathCallback \<Rightarrow> DeathCallback) \<Rightarrow> (ptr \<times> DeathCallback) list \<Rightarrow> (ptr \<times> DeathCallback) list" where
  "update_node h f [] = []"
| "update_node h f ((a, n) # ns) = (if dc_handle n = h then (a, f n) # ns else (a, n) # update_node h f ns)"

definition find_node :: "int \<Rightarrow> lite_state \<Rightarrow> (ptr \<times> DeathCallback) option" where
  "find_node h s = find (\<lambda>e. dc_handle (snd e) = h) (ls_objects s)"

text \<open>The result has the return code and what is stored in \<open>cbId\<close>, if anything is.\<close>

definition ProcessAddDeathRecipient ::
    "lite_env \<Rightarrow> int \<Rightarrow> ptr \<Rightarrow> ptr \<Rightarrow> lite_state \<Rightarrow> (int \<times> nat option) \<times> lite_state" where
  "ProcessAddDeathRecipient E h deathFunc args s =
     (let ret = CheckParam deathFunc s in
      if ret \<noteq> ERR_NONE then ((ret, None), s)
      else if \<not> le_lock E then ((ERR_FAILED, None), s)
      else (case find_node h s of
          None \<Rightarrow> ((ret, None), s)
        | Some (a, node) \<Rightarrow>
            if isRemoteDead node then ((ERR_DEAD_OBJECT, None), s)
            else if deathNum node = int MAX_DEATH_CALLBACK_NUM then ((ERR_INVALID_PARAM, None), s)
            else
              (let cbId = free_slot (dc_handler node);
                   node1 = (case cbId of None \<Rightarrow> node | Some i \<Rightarrow> SetDeathHandlerPair i deathFunc args node);
                   firstDeathNode = (deathNum node1 = 1 \<and> isNewHandler node1);
                   node2 = (if firstDeathNode then node1\<lparr>isNewHandler := False\<rparr> else node1);
                   s1 = s\<lparr>ls_objects := update_node h (\<lambda>n. node2) (ls_objects s)\<rparr>
               in if \<not> firstDeathNode then ((ERR_NONE, cbId), s1)
                  else if \<not> le_invoker E then ((ERR_INVALID_PARAM, cbId), s1)
                  else (case IpcAddDeathRecipient E h a s1 of (r, s2) \<Rightarrow> ((r, cbId), s2)))))"

definition ProcessRemoveDeathRecipient :: "lite_env \<Rightarrow> int \<Rightarrow> nat \<Rightarrow> lite_state \<Rightarrow> int \<times> lite_state" where
  "ProcessRemoveDeathRecipient E h cbId s =
     (if \<not> ls_skeleton s then (ERR_IPC_SKELETON_NOT_INIT, s)
      else if cbId \<ge> MAX_DEATH_CALLBACK_NUM then (ERR_INVALID_PARAM, s)
      else if \<not> le_lock E then (ERR_FAILED, s)
      else (case find_node h s of
          None \<Rightarrow> (ERR_INVALID_PARAM, s)
        | Some (a, node) \<Rightarrow>
            if isRemoteDead node then (ERR_DEAD_OBJECT, s)
            else if usedFlag (dc_handler node ! cbId)
            then (ERR_NONE, s\<lparr>ls_objects := update_node h (\<lambda>n. node\<lparr>
                    dc_handler := (dc_handler node)[cbId := (dc_handler node ! cbId)\<lparr>usedFlag := False, dh_func := nullptr\<rparr>],
                    deathNum := deathNum node - 1\<rparr>) (ls_objects s)\<rparr>)
            else (ERR_INVALID_PARAM, s)))"

text \<open>
  The local array of \<open>SendObituary\<close> has \<open>deathNum\<close> entries, which are not initialised; the loop fills
  them in the order of the slots. The entries that are then called are the result: \<open>None\<close> is an
  entry that was never filled.
\<close>

fun collect :: "int \<Rightarrow> DeathHandler list \<Rightarrow> (ptr \<times> ptr) list" where
  "collect k [] = []"
| "collect k (h # hs) =
     (if k \<le> 0 then []
      else if usedFlag h \<and> dh_func h \<noteq> nullptr then (dh_func h, dh_args h) # collect (k - 1) hs
      else collect k hs)"

definition update_at :: "ptr \<Rightarrow> (DeathCallback \<Rightarrow> DeathCallback) \<Rightarrow> (ptr \<times> DeathCallback) list \<Rightarrow> (ptr \<times> DeathCallback) list" where
  "update_at a f ns = map (\<lambda>(b, n). (b, if b = a then f n else n)) ns"

definition SendObituary :: "lite_env \<Rightarrow> ptr \<times> DeathCallback \<Rightarrow> lite_state \<Rightarrow> (ptr \<times> ptr) option list \<times> lite_state" where
  "SendObituary E e s =
     (let a = fst e; node = snd e; num = nat (deathNum node);
          s1 = s\<lparr>ls_objects := update_at a (\<lambda>n. n\<lparr>isRemoteDead := True\<rparr>) (ls_objects s)\<rparr>;
          filled = (if num > 0 then collect (deathNum node) (dc_handler node) else []);
          s2 = (if num > 0 \<and> le_invoker E then snd (IpcRemoveDeathRecipient E (dc_handle node) a s1) else s1)
      in (map Some filled @ replicate (num - length filled) None, s2))"

definition HandleDeadBinder :: "lite_env \<Rightarrow> (ptr \<times> DeathCallback) option \<Rightarrow> lite_state \<Rightarrow> (ptr \<times> ptr) option list \<times> lite_state" where
  "HandleDeadBinder E death s =
     (case death of
        None \<Rightarrow> ([], s)
      | Some e \<Rightarrow> (case SendObituary E e s of (calls, s1) \<Rightarrow> (calls, HandleDeadBinderDone E (fst e) s1)))"

definition DeleteAllNode :: "lite_state \<Rightarrow> lite_state" where
  "DeleteAllNode s = (if \<not> ls_skeleton s then s else s\<lparr>ls_objects := []\<rparr>)"

definition ResetIpc :: "lite_state \<Rightarrow> lite_state" where
  "ResetIpc s = DeleteAllNode s"

section \<open>The interface\<close>

definition with_skeleton :: "lite_env \<Rightarrow> (lite_state \<Rightarrow> int \<times> lite_state) \<Rightarrow> lite_state \<Rightarrow> int \<times> lite_state" where
  "with_skeleton E f s =
     (case GetCurrentSkeleton E s of (False, s1) \<Rightarrow> (ERR_IPC_SKELETON_NOT_INIT, s1) | (True, s1) \<Rightarrow> f s1)"

definition SetMaxWorkThreadNum :: "lite_env \<Rightarrow> int \<Rightarrow> lite_state \<Rightarrow> int \<times> lite_state" where
  "SetMaxWorkThreadNum E n =
     with_skeleton E (\<lambda>s. if n < SET_MAX_THREADS_DEFAULT \<or> n > SET_MAX_THREADS_MAX then (ERR_INVALID_PARAM, s)
       else SetMaxWorkThread_c E n s)"

definition SetContextObject :: "lite_env \<Rightarrow> SvcIdentity \<Rightarrow> lite_state \<Rightarrow> int \<times> lite_state" where
  "SetContextObject E target =
     with_skeleton E (\<lambda>s. if svc_cookie target = 0 then (ERR_INVALID_PARAM, s) else SetRegistryObject_c E target s)"

definition AddDeathRecipient_c ::
    "lite_env \<Rightarrow> SvcIdentity \<Rightarrow> ptr \<Rightarrow> ptr \<Rightarrow> lite_state \<Rightarrow> (int \<times> nat option) \<times> lite_state" where
  "AddDeathRecipient_c E target deathFunc args s =
     (case GetCurrentSkeleton E s of
        (False, s1) \<Rightarrow> ((ERR_IPC_SKELETON_NOT_INIT, None), s1)
      | (True, s1) \<Rightarrow>
          if sint (svc_handle target) < 0 then ((ERR_INVALID_PARAM, None), s1)
          else ProcessAddDeathRecipient E (sint (svc_handle target)) deathFunc args s1)"

definition RemoveDeathRecipient_c :: "lite_env \<Rightarrow> SvcIdentity \<Rightarrow> nat \<Rightarrow> lite_state \<Rightarrow> int \<times> lite_state" where
  "RemoveDeathRecipient_c E target cbId =
     with_skeleton E (\<lambda>s. if sint (svc_handle target) < 0 then (ERR_INVALID_PARAM, s)
       else ProcessRemoveDeathRecipient E (sint (svc_handle target)) cbId s)"

definition FreeBuffer_c :: "lite_env \<Rightarrow> ptr \<Rightarrow> lite_state \<Rightarrow> int \<times> lite_state" where
  "FreeBuffer_c E p s =
     (if p = nullptr then (ERR_INVALID_PARAM, s) else with_skeleton E (ProcessFreeBuffer E p) s)"

definition ReleaseSvc :: "lite_env \<Rightarrow> SvcIdentity \<Rightarrow> lite_state \<Rightarrow> int \<times> lite_state" where
  "ReleaseSvc E target =
     with_skeleton E (\<lambda>s. if sint (svc_handle target) \<le> 0 then (ERR_INVALID_PARAM, s)
       else DeleteHandle E (sint (svc_handle target)) s)"

end
