(* ===== verification/Lite_Skeleton_Proofs.thy ===== *)
theory Lite_Skeleton_Proofs
  imports Lite_Skeleton
begin

text \<open>
  The death callbacks and the thread pool of the C implementation: the counter of a callback record
  agrees with its slots in every reachable state, so that an obituary calls exactly the registered
  functions; threads in use and free places add up.
\<close>

section \<open>Records of callbacks\<close>

definition node_ok :: "DeathCallback \<Rightarrow> bool" where
  "node_ok n \<longleftrightarrow> length (dc_handler n) = 4 \<and> deathNum n = int (length (filter usedFlag (dc_handler n))) \<and>
     (\<forall>h \<in> set (dc_handler n). usedFlag h \<longrightarrow> dh_func h \<noteq> nullptr) \<and> 0 < dc_handle n"

definition lite_inv :: "lite_state \<Rightarrow> bool" where
  "lite_inv s \<longleftrightarrow> (\<forall>e \<in> set (ls_objects s). node_ok (snd e)) \<and> distinct (map (\<lambda>e. dc_handle (snd e)) (ls_objects s))"

lemma filter_at:
  assumes "i < length xs"
  shows "length (filter P xs) = length (filter P (take i xs)) + of_bool (P (xs ! i)) + length (filter P (drop (Suc i) xs))"
    "length (filter P (xs[i := y])) = length (filter P (take i xs)) + of_bool (P y) + length (filter P (drop (Suc i) xs))"
proof -
  have "filter P xs = filter P (take i xs @ xs ! i # drop (Suc i) xs)" using id_take_nth_drop [OF assms] by simp
  then show "length (filter P xs) = length (filter P (take i xs)) + of_bool (P (xs ! i)) + length (filter P (drop (Suc i) xs))" by simp
qed (simp add: upd_conv_take_nth_drop [OF assms])

lemma free_slot_Some: "free_slot hs = Some i \<Longrightarrow> i < length hs \<and> \<not> usedFlag (hs ! i)"
  by (induction hs arbitrary: i) (auto split: if_splits)

lemma free_slot_None: "free_slot hs = None \<Longrightarrow> \<forall>h \<in> set hs. usedFlag h"
  by (induction hs) (auto split: if_splits)

lemma in_updated: "h \<in> set (xs[i := y]) \<Longrightarrow> h = y \<or> h \<in> set xs"
  using set_update_subset_insert [of xs i y] by auto

lemma node_ok_set:
  assumes "node_ok n" "free_slot (dc_handler n) = Some i" "f \<noteq> nullptr"
  shows "node_ok (SetDeathHandlerPair i f args n)"
  using assms(1,3) free_slot_Some [OF assms(2)] filter_at [of i "dc_handler n" usedFlag]
  by (auto simp: node_ok_def SetDeathHandlerPair_def dest!: in_updated)

lemma node_ok_clear:
  assumes "node_ok n" "i < 4" "usedFlag (dc_handler n ! i)"
  shows "node_ok (n\<lparr>dc_handler := (dc_handler n)[i := (dc_handler n ! i)\<lparr>usedFlag := False, dh_func := nullptr\<rparr>], deathNum := deathNum n - 1\<rparr>)"
  using assms filter_at [of i "dc_handler n" usedFlag]
  by (auto simp: node_ok_def dest!: in_updated)

lemma node_ok_flags: "node_ok (n\<lparr>isRemoteDead := b\<rparr>) = node_ok n" "node_ok (n\<lparr>isNewHandler := b\<rparr>) = node_ok n"
  by (simp_all add: node_ok_def)

lemma node_ok_new: "0 < h \<Longrightarrow> node_ok (new_node h)"
  by (simp add: node_ok_def new_node_def)

section \<open>The list\<close>

lemma find_member: "find P xs = Some x \<Longrightarrow> x \<in> set xs \<and> P x"
  by (induction xs) (auto split: if_splits)

lemma find_node_Some: "find_node h s = Some (a, n) \<Longrightarrow> (a, n) \<in> set (ls_objects s) \<and> dc_handle n = h"
  unfolding find_node_def by (drule find_member) simp

lemma update_node_handles:
  "(\<And>n. dc_handle n = h \<Longrightarrow> dc_handle (f n) = h) \<Longrightarrow> map (\<lambda>e. dc_handle (snd e)) (update_node h f ns) = map (\<lambda>e. dc_handle (snd e)) ns"
  by (induction h f ns rule: update_node.induct) auto

lemma update_node_set: "e \<in> set (update_node h f ns) \<Longrightarrow> e \<in> set ns \<or> (\<exists>a n. (a, n) \<in> set ns \<and> dc_handle n = h \<and> e = (a, f n))"
  by (induction h f ns rule: update_node.induct) (auto split: if_splits)

lemma lite_inv_update:
  assumes "lite_inv s" "\<And>a n. (a, n) \<in> set (ls_objects s) \<Longrightarrow> dc_handle n = h \<Longrightarrow> node_ok (f n)" "\<And>n. dc_handle n = h \<Longrightarrow> dc_handle (f n) = h"
  shows "lite_inv (s\<lparr>ls_objects := update_node h f (ls_objects s)\<rparr>)"
  using assms(1,2) update_node_handles [of h f, OF assms(3)] by (auto simp: lite_inv_def dest!: update_node_set)

lemma delete_node_sub:
  "delete_node h ns = (b, ns') \<Longrightarrow> set ns' \<subseteq> set ns \<and> (distinct (map (\<lambda>e. dc_handle (snd e)) ns) \<longrightarrow> distinct (map (\<lambda>e. dc_handle (snd e)) ns'))"
proof (induction h ns arbitrary: b ns' rule: delete_node.induct)
  case (2 h a n ns)
  then show ?case by (cases "delete_node h ns") (force split: if_splits)
qed simp

lemma log_only [simp]:
  "ls_objects (snd (BinderWrite E c s)) = ls_objects s" "ls_pool (snd (BinderWrite E c s)) = ls_pool s"
  "ls_skeleton (snd (BinderWrite E c s)) = ls_skeleton s"
  by (simp_all add: BinderWrite_def)

lemmas driver_calls = AcquireHandle_def ReleaseHandle_def IpcAddDeathRecipient_def IpcRemoveDeathRecipient_def
  HandleDeadBinderDone_def IpcFreeBuffer_def

lemma lite_inv_log [simp]: "lite_inv (snd (BinderWrite E c s)) = lite_inv s"
  by (simp add: lite_inv_def)

section \<open>Reachable states\<close>

text \<open>
  The steps of a process: a proxy becomes known, a handle is released, callbacks are added and
  removed, the driver reports a death with the address of a record of the list, the table is
  cleared, threads come and go and their number is raised. Every step has its own environment.
\<close>

definition lite_start :: "SvcIdentity \<Rightarrow> lite_state" where
  "lite_start samgr = \<lparr>ls_skeleton = False, ls_objects = [], ls_pool = InitThreadPool 0, ls_samgr = samgr, ls_log = []\<rparr>"

inductive lite_step :: "lite_state \<Rightarrow> lite_state \<Rightarrow> bool" where
  create: "lite_step s (snd (GetCurrentSkeleton E s))"
| proxy: "ls_skeleton s \<Longrightarrow> lite_step s (OnFirstStrongRef E h s)"
| release: "ls_skeleton s \<Longrightarrow> lite_step s (snd (DeleteHandle E h s))"
| add: "lite_step s (snd (ProcessAddDeathRecipient E h f args s))"
| remove: "lite_step s (snd (ProcessRemoveDeathRecipient E h i s))"
| dead: "e \<in> set (ls_objects s) \<Longrightarrow> lite_step s (snd (HandleDeadBinder E (Some e) s))"
| reset: "lite_step s (ResetIpc s)"
| spawn: "lite_step s (snd (SpawnThread_c E proto s))"
| limit: "lite_step s (snd (SetMaxWorkThread_c E n s))"

inductive lite_reachable :: "lite_state \<Rightarrow> bool" where
  start: "lite_reachable (lite_start samgr)"
| step: "lite_reachable s \<Longrightarrow> lite_step s s' \<Longrightarrow> lite_reachable s'"

lemma lite_inv_objects: "ls_objects s' = ls_objects s \<Longrightarrow> lite_inv s' = lite_inv s"
  by (simp add: lite_inv_def)

lemma slot_available:
  assumes "node_ok n" "deathNum n \<noteq> 4"
  shows "\<exists>i < 4. free_slot (dc_handler n) = Some i"
proof -
  have "free_slot (dc_handler n) \<noteq> None"
  proof
    assume "free_slot (dc_handler n) = None"
    then have "filter usedFlag (dc_handler n) = dc_handler n" using free_slot_None by simp
    then show False using assms by (simp add: node_ok_def)
  qed
  then show ?thesis using free_slot_Some assms(1) by (fastforce simp: node_ok_def)
qed

lemma add_effect:
  assumes "ls_skeleton s" "f \<noteq> nullptr" "le_lock E" "find_node h s = Some (a, n)" "\<not> isRemoteDead n" "deathNum n \<noteq> 4"
    and "free_slot (dc_handler n) = Some i"
    and "n' = (SetDeathHandlerPair i f args n)\<lparr>isNewHandler := isNewHandler n \<and> deathNum n \<noteq> 0\<rparr>"
  shows "snd (fst (ProcessAddDeathRecipient E h f args s)) = Some i \<and>
    ls_objects (snd (ProcessAddDeathRecipient E h f args s)) = update_node h (\<lambda>_. n') (ls_objects s)"
proof (cases "deathNum n = 0 \<and> isNewHandler n")
  case True
  then have n': "n' = (SetDeathHandlerPair i f args n)\<lparr>isNewHandler := False\<rparr>" "deathNum (SetDeathHandlerPair i f args n) = 1"
    "isNewHandler (SetDeathHandlerPair i f args n)"
    using assms(8) by (simp_all add: SetDeathHandlerPair_def)
  show ?thesis
    using assms(1-7) n' by (cases "le_invoker E")
      (simp_all add: ProcessAddDeathRecipient_def CheckParam_def Let_def IpcAddDeathRecipient_def BinderWrite_def)
next
  case False
  then have n': "n' = SetDeathHandlerPair i f args n" "\<not> (deathNum (SetDeathHandlerPair i f args n) = 1 \<and> isNewHandler (SetDeathHandlerPair i f args n))"
    using assms(8) by (auto simp: SetDeathHandlerPair_def)
  then show ?thesis using assms(1-7) by (auto simp: ProcessAddDeathRecipient_def CheckParam_def Let_def)
qed

lemma add_refused:
  assumes "\<not> (ls_skeleton s \<and> f \<noteq> nullptr \<and> le_lock E \<and> (\<exists>a n. find_node h s = Some (a, n) \<and> \<not> isRemoteDead n \<and> deathNum n \<noteq> 4))"
  shows "snd (ProcessAddDeathRecipient E h f args s) = s \<and> snd (fst (ProcessAddDeathRecipient E h f args s)) = None"
  using assms by (auto simp: ProcessAddDeathRecipient_def CheckParam_def Let_def split: option.splits)

lemma add_keeps_inv:
  assumes "lite_inv s"
  shows "lite_inv (snd (ProcessAddDeathRecipient E h f args s))"
proof (cases "ls_skeleton s \<and> f \<noteq> nullptr \<and> le_lock E \<and> (\<exists>a n. find_node h s = Some (a, n) \<and> \<not> isRemoteDead n \<and> deathNum n \<noteq> 4)")
  case True
  then obtain a n where n: "find_node h s = Some (a, n)" "\<not> isRemoteDead n" "deathNum n \<noteq> 4" and c: "ls_skeleton s" "f \<noteq> nullptr" "le_lock E"
    by blast
  note m = find_node_Some [OF n(1)]
  have ok: "node_ok n" using assms m by (auto simp: lite_inv_def)
  obtain i where i: "free_slot (dc_handler n) = Some i" using slot_available [OF ok n(3)] by blast
  let ?n' = "(SetDeathHandlerPair i f args n)\<lparr>isNewHandler := isNewHandler n \<and> deathNum n \<noteq> 0\<rparr>"
  have "node_ok ?n'" "dc_handle ?n' = h" using node_ok_set [OF ok i c(2)] m by (simp_all add: node_ok_flags SetDeathHandlerPair_def)
  then have "lite_inv (s\<lparr>ls_objects := update_node h (\<lambda>_. ?n') (ls_objects s)\<rparr>)"
    using lite_inv_update [OF assms, of h "\<lambda>_. ?n'"] by simp
  then show ?thesis using add_effect [OF c n i refl, of args] by (simp add: lite_inv_def)
next
  case False
  then show ?thesis using add_refused assms by metis
qed

lemma remove_keeps_inv:
  assumes "lite_inv s"
  shows "lite_inv (snd (ProcessRemoveDeathRecipient E h i s))"
proof (cases "find_node h s")
  case (Some e)
  obtain a n where e: "e = (a, n)" by force
  note m = find_node_Some [OF Some [unfolded e]]
  have ok: "node_ok n" using assms m by (auto simp: lite_inv_def)
  have "lite_inv (s\<lparr>ls_objects := update_node h (\<lambda>_. n') (ls_objects s)\<rparr>)" if "node_ok n'" "dc_handle n' = h" for n'
    using lite_inv_update [OF assms, of h "\<lambda>_. n'"] that by simp
  then show ?thesis using Some e m assms node_ok_clear [OF ok] by (simp add: ProcessRemoveDeathRecipient_def)
qed (use assms in \<open>simp add: ProcessRemoveDeathRecipient_def\<close>)

lemma obituary_objects:
  "ls_objects (snd (HandleDeadBinder E (Some e) s)) = update_at (fst e) (\<lambda>n. n\<lparr>isRemoteDead := True\<rparr>) (ls_objects s)"
  by (simp add: HandleDeadBinder_def SendObituary_def Let_def driver_calls BinderWrite_def split: prod.splits)

lemma obituary_keeps_inv: "lite_inv s \<Longrightarrow> lite_inv (snd (HandleDeadBinder E (Some e) s))"
proof -
  assume a: "lite_inv s"
  have "map (\<lambda>e. dc_handle (snd e)) (update_at p (\<lambda>n. n\<lparr>isRemoteDead := True\<rparr>) ns) = map (\<lambda>e. dc_handle (snd e)) ns" for p ns
    by (auto simp: update_at_def)
  then show ?thesis using a by (auto simp: lite_inv_def obituary_objects) (auto simp: update_at_def node_ok_flags)
qed

lemma proxy_keeps_inv: "lite_inv s \<Longrightarrow> lite_inv (OnFirstStrongRef E h s)"
  by (auto simp: OnFirstStrongRef_def FirstAddObject_def driver_calls lite_inv_def node_ok_new split: option.splits)
    (auto simp: new_node_def)

lemma delete_keeps_inv: "lite_inv s \<Longrightarrow> lite_inv (snd (DeleteHandle E h s))"
  by (auto simp: DeleteHandle_def driver_calls lite_inv_def Let_def split: prod.splits bool.splits dest!: delete_node_sub)

lemma skeleton_keeps_inv: "lite_inv s \<Longrightarrow> lite_inv (snd (GetCurrentSkeleton E s))"
  by (auto simp: GetCurrentSkeleton_def IpcProcessSkeleton_def IpcSetMaxWorkThread_def lite_inv_def split: prod.splits bool.splits if_splits)

lemma lite_step_inv: "lite_step s s' \<Longrightarrow> lite_inv s \<Longrightarrow> lite_inv s'"
proof (induction rule: lite_step.induct)
  case (reset s)
  then show ?case by (simp add: ResetIpc_def DeleteAllNode_def lite_inv_def)
next
  case (spawn s E proto)
  then show ?case by (auto simp: SpawnThread_c_def lite_inv_def split: prod.splits)
next
  case (limit s E n)
  then show ?case by (auto simp: SetMaxWorkThread_c_def IpcSetMaxWorkThread_def lite_inv_def Let_def)
qed (simp_all add: skeleton_keeps_inv proxy_keeps_inv delete_keeps_inv add_keeps_inv remove_keeps_inv obituary_keeps_inv)

lemma reachable_lite_inv: "lite_reachable s \<Longrightarrow> lite_inv s"
proof (induction rule: lite_reachable.induct)
  case (start samgr)
  show ?case by (simp add: lite_start_def lite_inv_def)
qed (rule lite_step_inv)

section \<open>An example process\<close>

definition ready_env :: lite_env where
  "ready_env = \<lparr>le_lock = True, le_calloc = Some 8, le_invoker = True, le_connector = True, le_ioctl = (\<lambda>c. 0), le_create = True\<rparr>"

definition ready_process :: lite_state where
  "ready_process = snd (GetCurrentSkeleton ready_env (lite_start \<lparr>svc_handle = 0, svc_token = 0, svc_cookie = 0\<rparr>))"

lemma ready_process_state:
  "ls_skeleton ready_process" "ls_objects ready_process = []" "ls_log ready_process = [BINDER_SET_MAX_THREADS 4]"
  by (simp_all add: ready_process_def ready_env_def lite_start_def GetCurrentSkeleton_def IpcProcessSkeleton_def IpcSetMaxWorkThread_def)

lemma ready_process_reachable: "lite_reachable ready_process"
  unfolding ready_process_def by (rule lite_reachable.step [OF lite_reachable.start lite_step.create])

definition one_proxy :: lite_state where
  "one_proxy = OnFirstStrongRef ready_env 5 ready_process"

lemma one_proxy_state: "ls_skeleton one_proxy" "ls_objects one_proxy = [(8, new_node 5)]"
  using ready_process_state by (simp_all add: one_proxy_def OnFirstStrongRef_def FirstAddObject_def ready_env_def AcquireHandle_def BinderWrite_def)

lemma one_proxy_reachable: "lite_reachable one_proxy"
  unfolding one_proxy_def by (rule lite_reachable.step [OF ready_process_reachable lite_step.proxy [OF ready_process_state(1)]])

lemma new_node_slot: "free_slot (dc_handler (new_node h)) = Some 0"
  by (simp add: new_node_def numeral_eq_Suc)

section \<open>Obituaries\<close>

lemma collect_all:
  "\<forall>h \<in> set hs. usedFlag h \<longrightarrow> dh_func h \<noteq> nullptr \<Longrightarrow> int (length (filter usedFlag hs)) \<le> k \<Longrightarrow>
   collect k hs = map (\<lambda>h. (dh_func h, dh_args h)) (filter usedFlag hs)"
proof (induction hs arbitrary: k)
  case (Cons h hs)
  show ?case
  proof (cases "usedFlag h")
    case True
    then show ?thesis using Cons.IH [of "k - 1"] Cons.prems by auto
  next
    case False
    show ?thesis
    proof (cases "k \<le> 0")
      case True
      moreover have "int (length (filter usedFlag hs)) \<le> k" using Cons.prems(2) False by simp
      ultimately have "length (filter usedFlag hs) = 0" by linarith
      then have "filter usedFlag hs = []" by simp
      then show ?thesis using True False by simp
    next
      case k: False
      then show ?thesis using Cons.IH [of k] Cons.prems False by simp
    qed
  qed
qed simp



section \<open>Adding and removing\<close>

lemma find_update:
  assumes "find_node h s = Some (a, n)" "dc_handle n' = h"
  shows "find_node h (s\<lparr>ls_objects := update_node h (\<lambda>_. n') (ls_objects s)\<rparr>) = Some (a, n')"
proof -
  have "find (\<lambda>e. dc_handle (snd e) = h) (update_node h (\<lambda>_. n') ns) = Some (a, n')"
    if "find (\<lambda>e. dc_handle (snd e) = h) ns = Some (a, n)" for ns
    using that assms(2) by (induction ns) (auto split: if_splits)
  then show ?thesis using assms(1) by (simp add: find_node_def)
qed

lemma find_node_cong: "ls_objects s' = ls_objects s \<Longrightarrow> find_node h s' = find_node h s"
  by (simp add: find_node_def)

lemma skeleton_unchanged: "ls_skeleton (snd (ProcessAddDeathRecipient E h f args s)) = ls_skeleton s"
  by (simp add: ProcessAddDeathRecipient_def Let_def IpcAddDeathRecipient_def BinderWrite_def split: option.splits prod.splits)

text \<open>
  Removing a callback undoes adding it. Whenever adding a callback stores an identifier, this is
  a slot below 4 that was free, removing the identifier succeeds, and the record then has the same
  number of callbacks and the same functions in use as before.
\<close>

theorem death_recipient_roundtrip:
  assumes "lite_reachable s" "ProcessAddDeathRecipient E h f args s = ((r, Some i), s1)" "le_lock E'"
  shows "\<exists>a n n2 s2. find_node h s = Some (a, n) \<and> i < 4 \<and> \<not> usedFlag (dc_handler n ! i) \<and>
    ProcessRemoveDeathRecipient E' h i s1 = (ERR_NONE, s2) \<and> find_node h s2 = Some (a, n2) \<and> deathNum n2 = deathNum n \<and>
    \<not> usedFlag (dc_handler n2 ! i) \<and> (\<forall>j < 4. j \<noteq> i \<longrightarrow> dc_handler n2 ! j = dc_handler n ! j)"
proof -
  have c: "ls_skeleton s" "f \<noteq> nullptr" "le_lock E" "\<exists>a n. find_node h s = Some (a, n) \<and> \<not> isRemoteDead n \<and> deathNum n \<noteq> 4"
    using add_refused [of s f E h args] assms(2) by auto
  then obtain a n where n: "find_node h s = Some (a, n)" "\<not> isRemoteDead n" "deathNum n \<noteq> 4" by blast
  note m = find_node_Some [OF n(1)]
  have ok: "node_ok n" using reachable_lite_inv [OF assms(1)] m by (auto simp: lite_inv_def)
  obtain k where k: "k < 4" "free_slot (dc_handler n) = Some k" using slot_available [OF ok n(3)] by blast
  let ?n' = "(SetDeathHandlerPair k f args n)\<lparr>isNewHandler := isNewHandler n \<and> deathNum n \<noteq> 0\<rparr>"
  have e: "i = k" "ls_objects s1 = update_node h (\<lambda>_. ?n') (ls_objects s)"
    using add_effect [OF c(1-3) n k(2) refl, of args] assms(2) by simp_all
  have n': "dc_handle ?n' = h" "dc_handler ?n' = (dc_handler n)[k := \<lparr>usedFlag = True, dh_func = f, dh_args = args\<rparr>]"
    "deathNum ?n' = deathNum n + 1" "\<not> isRemoteDead ?n'" using m n(2) by (simp_all add: SetDeathHandlerPair_def)
  have f1: "find_node h s1 = Some (a, ?n')"
    using find_update [OF n(1) n'(1)] find_node_cong [of s1 "s\<lparr>ls_objects := update_node h (\<lambda>_. ?n') (ls_objects s)\<rparr>"] e(2) by simp
  let ?n2 = "?n'\<lparr>dc_handler := (dc_handler ?n')[k := (dc_handler ?n' ! k)\<lparr>usedFlag := False, dh_func := nullptr\<rparr>], deathNum := deathNum ?n' - 1\<rparr>"
  let ?s2 = "s1\<lparr>ls_objects := update_node h (\<lambda>_. ?n2) (ls_objects s1)\<rparr>"
  have l: "length (dc_handler n) = 4" using ok by (simp add: node_ok_def)
  have "ls_skeleton s1" using skeleton_unchanged [of E h f args s] assms(2) c(1) by simp
  then have "ProcessRemoveDeathRecipient E' h k s1 = (ERR_NONE, ?s2)"
    using f1 k(1) n'(2,4) l assms(3) by (simp add: ProcessRemoveDeathRecipient_def)
  moreover have "find_node h ?s2 = Some (a, ?n2)" by (rule find_update [OF f1]) (use n'(1) in simp)
  moreover have "deathNum ?n2 = deathNum n" "\<not> usedFlag (dc_handler ?n2 ! k)" "\<forall>j < 4. j \<noteq> k \<longrightarrow> dc_handler ?n2 ! j = dc_handler n ! j"
    using n'(2,3) k(1) l by simp_all
  ultimately show ?thesis
    using n(1) k e(1) free_slot_Some [OF k(2)] by blast
qed

theorem death_recipient_roundtrip_witness:
  "\<exists>r s1 s2. ProcessAddDeathRecipient ready_env 5 16 24 one_proxy = ((r, Some 0), s1) \<and>
     ProcessRemoveDeathRecipient ready_env 5 0 s1 = (ERR_NONE, s2)"
proof -
  have "find_node 5 one_proxy = Some (8, new_node 5)" using one_proxy_state by (simp add: find_node_def new_node_def)
  then have "snd (fst (ProcessAddDeathRecipient ready_env 5 16 24 one_proxy)) = Some 0"
    using add_effect [OF one_proxy_state(1), of 16 ready_env 5 8 "new_node 5" 0 _ 24] new_node_slot
    by (simp add: new_node_def ready_env_def)
  then obtain r s1 where "ProcessAddDeathRecipient ready_env 5 16 24 one_proxy = ((r, Some 0), s1)"
    by (cases "ProcessAddDeathRecipient ready_env 5 16 24 one_proxy") auto
  then show ?thesis
    using death_recipient_roundtrip [OF one_proxy_reachable, of ready_env 5 16 24 r 0 s1 ready_env] by (auto simp: ready_env_def)
qed

section \<open>What goes wrong\<close>

text \<open>
  A callback for an unknown handle is accepted and forgotten. The service manager has handle 0,
  for which the table never has a record: in every reachable state of an initialised process a
  request for a callback on it answers success, stores no identifier and registers nothing.
\<close>

theorem unknown_handle_accepted:
  assumes "lite_reachable s" "ls_skeleton s" "le_lock E" "f \<noteq> nullptr" "svc_handle target = 0"
  shows "AddDeathRecipient_c E target f args s = ((ERR_NONE, None), s)"
proof -
  have "find_node 0 s = None"
  proof (cases "find_node 0 s")
    case (Some e)
    obtain a n where "e = (a, n)" by force
    then have "(a, n) \<in> set (ls_objects s)" "dc_handle n = 0" using find_node_Some Some by blast+
    then show ?thesis using reachable_lite_inv [OF assms(1)] by (force simp: lite_inv_def node_ok_def)
  qed
  then show ?thesis
    using assms by (simp add: AddDeathRecipient_c_def GetCurrentSkeleton_def ProcessAddDeathRecipient_def CheckParam_def)
qed

text \<open>
  Releasing a handle leaves its death notification with the driver. After a handle has become
  known, got its first callback and was released, the record at address \<open>a\<close> is gone, but the driver
  still holds that address as the cookie of the notification it was asked for, and was not asked
  to clear it: the next death report makes the process use freed memory.
\<close>

theorem released_handle_keeps_notification:
  assumes "lite_reachable s" "ls_skeleton s" "find_node h s = None" "0 < h" "f \<noteq> nullptr"
    and "le_lock E" "le_invoker E" "le_calloc E = Some a" "a \<notin> fst ` set (ls_objects s)"
    and "s1 = OnFirstStrongRef E h s" "s2 = snd (ProcessAddDeathRecipient E h f args s1)" "DeleteHandle E h s2 = (r, s3)"
  shows "r = ERR_NONE \<and> a \<notin> fst ` set (ls_objects s3) \<and>
    ls_log s3 = [BC_RELEASE h, BC_REQUEST_DEATH_NOTIFICATION h a, BC_ACQUIRE h] @ ls_log s"
proof -
  have "\<not> (\<exists>e \<in> set (ls_objects s). dc_handle (snd e) = h)"
    using assms(3) unfolding find_node_def find_None_iff by blast
  then have s1: "s1 = s\<lparr>ls_objects := (a, new_node h) # ls_objects s, ls_log := BC_ACQUIRE h # ls_log s\<rparr>"
    using assms(4,6,7,8,10) by (auto simp: OnFirstStrongRef_def FirstAddObject_def AcquireHandle_def BinderWrite_def)
  have f1: "find_node h s1 = Some (a, new_node h)" by (simp add: s1 find_node_def new_node_def)
  note fs = new_node_slot [of h]
  let ?n' = "(SetDeathHandlerPair 0 f args (new_node h))\<lparr>isNewHandler := False\<rparr>"
  have s2: "s2 = s1\<lparr>ls_objects := (a, ?n') # ls_objects s, ls_log := BC_REQUEST_DEATH_NOTIFICATION h a # ls_log s1\<rparr>"
    using assms(2,5,6,7,11) f1 fs
    by (simp add: ProcessAddDeathRecipient_def CheckParam_def Let_def s1)
       (simp add: SetDeathHandlerPair_def new_node_def IpcAddDeathRecipient_def BinderWrite_def)
  have "dc_handle ?n' = h" by (simp add: SetDeathHandlerPair_def new_node_def)
  then show ?thesis
    using assms(6,7,9,12) s1 s2 by (auto simp: DeleteHandle_def ReleaseHandle_def BinderWrite_def Let_def split: if_splits)
qed

theorem unknown_handle_accepted_witness:
  "AddDeathRecipient_c ready_env \<lparr>svc_handle = 0, svc_token = 0, svc_cookie = 0\<rparr> 16 24 ready_process = ((ERR_NONE, None), ready_process)"
  by (rule unknown_handle_accepted [OF ready_process_reachable ready_process_state(1)]) (simp_all add: ready_env_def)

theorem released_handle_keeps_notification_witness:
  "\<exists>s3. DeleteHandle ready_env 5 (snd (ProcessAddDeathRecipient ready_env 5 16 24 (OnFirstStrongRef ready_env 5 ready_process))) = (ERR_NONE, s3) \<and>
     ls_log s3 = [BC_RELEASE 5, BC_REQUEST_DEATH_NOTIFICATION 5 8, BC_ACQUIRE 5, BINDER_SET_MAX_THREADS 4]"
proof -
  let ?s2 = "snd (ProcessAddDeathRecipient ready_env 5 16 24 (OnFirstStrongRef ready_env 5 ready_process))"
  have "find_node 5 ready_process = None" using ready_process_state by (simp add: find_node_def)
  then show ?thesis
    using released_handle_keeps_notification [OF ready_process_reachable ready_process_state(1), of 5 16 ready_env 8 _ ?s2 24
        "fst (DeleteHandle ready_env 5 ?s2)" "snd (DeleteHandle ready_env 5 ?s2)"] ready_process_state
    by (cases "DeleteHandle ready_env 5 ?s2") (simp add: ready_env_def)
qed

end
