(* ===== verification/Spec2Isabelle.thy ===== *)
theory Spec2Isabelle
  imports Buffer_Protocol Object_Lookup_Proofs Auth_Proofs Databus_Wire_Proofs Databus_Invoker_Proofs Object_Translation_Proofs
    Databus_Process_Proofs Binder_Identity_Proofs Object_Proxy_Proofs Object_Stub_Proofs Device_Invariant Payload_Statistics Parcel_Append
    Process_Skeleton_Proofs Thread_Pool_Proofs Session_Proofs Io_Objects_Proofs Lite_Skeleton_Proofs
begin

text \<open>
  Verification of the IPC framework: the core in C++ (\<open>src/ipc/native/src/core\<close>), which full
  devices use, and the implementation in C (\<open>src/ipc/native/c\<close>), which small devices use.

  \<^bold>\<open>The program.\<close> A process that takes part in inter-process communication has two singletons. The
  \<open>ProcessSkeleton\<close> keeps the table of remote objects (proxies and stubs by descriptor), the
  addresses of valid objects, the callers of the running threads and a few counters. The
  \<open>IPCProcessSkeleton\<close> keeps what communication with other devices needs: sessions by handle, stubs
  by index, the senders that wait for replies by sequence number, queues of received data per
  thread, raw data, callback stubs, and the grants that say which application of which device may
  call which stub over which socket. It owns the thread pool, whose work threads serve the binder
  driver or the databus sockets. The binder invoker of a thread exchanges commands with the driver:
  requests and replies, transactions for its stubs, references and death reports. The databus invoker sends and receives transactions over
  sockets: it collects outgoing bytes in the \<open>BufferObject\<close> of a session, flushes them, splits
  received bytes into packages and wakes the waiting sender of a reply. Remote objects in a
  message become flattened sessions when it is sent, and proxies of those sessions when it arrives.

  On every device a \<open>DBinderService\<close> negotiates with the services of other devices: it asks for a
  system ability, the other side loads it, lets its stub listen and answers, and the stub that
  stands for the ability keeps the answer as its session, until a service or device is reported gone.

  The implementation in C has one message buffer, \<open>IpcIo\<close>, with a cursor, a remaining size and a
  table of object offsets, a process skeleton with a list of remote objects and their death
  callbacks, and a pool of threads that serve the driver.

  \<^bold>\<open>Theories.\<close>

  \<^item> \<open>Ipc_Prelude\<close>: machine integers, results of the secure copy functions (\<open>libc\<close>, a parameter),
    finite maps as lists of pairs (\<open>omap\<close>, for \<open>std::map\<close> and \<open>std::unordered_map\<close>), shared lemmas.
    \<open>Ipc_Strings\<close>: decimal printing and reading with their round trips. \<open>Keyed_Table\<close>: the two
    interfaces of a keyed table (one refuses a second entry, one overwrites it) as locales, with
    the refinement of a run of calls to a partial map proved once.
  \<^item> \<open>Buffer_Object\<close>, \<open>Buffer_Object_Proofs\<close>: \<open>buffer_object.cpp\<close>, both directions of a session
    buffer as values of one record \<open>chan\<close>; \<open>MoveTransData2Buffer\<close>
    (\<open>dbinder_base_invoker_object.h\<close>) and \<open>SendData\<close> (\<open>dbinder_databus_invoker.cpp\<close>). The lemmas give
    size classes, expansion, and the contract of the update. \<open>Send_Queue\<close> is the interface of a
    queue of bytes as a locale and its interpretation on the send buffer; \<open>Buffer_Protocol\<close> has the
    steps that the locking protocol of the header allows, the invariant of all reachable buffers
    and the properties.
  \<^item> \<open>Process_Skeleton\<close>, \<open>Process_Skeleton_Proofs\<close>: \<open>process_skeleton.cpp\<close>. A call that waits for the
    object mutex has the result \<open>None\<close>.
  \<^item> \<open>Thread_Pool\<close>, \<open>Thread_Pool_Proofs\<close>: \<open>ipc_thread_pool.cpp\<close>, \<open>ipc_workthread.cpp\<close>; reachable
    pools and the budget of threads.
  \<^item> \<open>Skeleton_State\<close>: the record of \<open>IPCProcessSkeleton\<close>, with the objects it shares
    (sessions, waiting messages) in stores by address. \<open>Session_Tables\<close>, \<open>Session_Proofs\<close>: handles,
    stub indexes, sequence numbers, waiting threads, queues. \<open>Auth_Tables\<close>, \<open>Auth_Proofs\<close>: grants
    and authorisations. \<open>Object_Lookup\<close>, \<open>Object_Lookup_Proofs\<close>: proxies by handle, work threads
    and the session server. All model \<open>ipc_process_skeleton.cpp\<close>, with \<open>dbinder_session_object.cpp\<close>
    and \<open>comm_auth_info.cpp\<close>.
  \<^item> \<open>Databus_Wire\<close>, \<open>Databus_Wire_Proofs\<close>: the header of a transaction (\<open>sys_binder.h\<close>), its checks,
    the splitting of received bytes, flattened sessions and socket names
    (\<open>dbinder_databus_invoker.cpp\<close>, \<open>dbinder_base_invoker_interface.h\<close>, \<open>databus_socket_listener.cpp\<close>).
    \<open>Byte_Codec\<close>: little-endian integers in bytes, shared with the C message buffer.
  \<^item> \<open>Databus_Invoker\<close>, \<open>Databus_Invoker_Proofs\<close>: the rest of \<open>dbinder_databus_invoker.cpp\<close>, that is
    the thread's caller record, the check of the caller of a transaction against the grants, the
    identity that a service may reset and set again, and the dispatch of a received package.
  \<^item> \<open>Object_Translation\<close>, \<open>Object_Translation_Proofs\<close>: \<open>dbinder_base_invoker_object.h\<close>, the
    translation of the objects of a message on sending and on arrival. The lemmas say that no
    address of a stub leaves the process, that a stub that is sent has been announced first, and
    that a session from another device is checked before a proxy is made of it.
  \<^item> \<open>Databus_Process\<close>, \<open>Databus_Process_Proofs\<close>: the way of a transaction
    (\<open>dbinder_base_invoker_interface.h\<close>, \<open>dbinder_base_invoker_process.h\<close>), that is writing a request,
    the wait of its sender, the call of the stub on the other device, and the reply. The lemmas say that
    a call is answered once, that the reply reaches its sender, that the caller of the thread is the
    old one afterwards, and what goes wrong with refused calls and unchecked tables.
  \<^item> \<open>Binder_Invoker\<close>, \<open>Binder_Commands\<close>, \<open>Binder_Thread\<close>: \<open>binder_invoker.cpp\<close> with
    \<open>BinderConnector::WriteBinder\<close>; the command streams and the driver, the commands of the driver and
    the wait for a completion, and the life of a thread, the caller and objects in a parcel.
    \<open>Binder_Proofs\<close>: streams of complete commands, reading commands, reference counts.
    \<open>Binder_Call_Proofs\<close>: calls of stubs, that a wait returns, what failed writes and a closed driver
    do. \<open>Binder_Identity_Proofs\<close>: identities, objects and descriptors are read back.
  \<^item> \<open>Object_Proxy\<close>, \<open>Object_Proxy_Proofs\<close>: \<open>ipc_object_proxy.cpp\<close>. The state has the proxy, the process
    and the calls made so far. The lemmas say that the registrations with the driver follow the
    lists of recipients, that a death report reaches every recipient once, that the last reference
    releases the handle once, and that an initialisation succeeds as a whole or leaves a dead proxy.
  \<^item> \<open>Object_Stub\<close>, \<open>Object_Stub_Proofs\<close>: \<open>ipc_object_stub.cpp\<close> and the caller functions of
    \<open>ipc_skeleton.cpp\<close>. The lemmas say who may change authorisations and, over all runs of requests
    and connections (\<open>stub_step\<close>), that a stub which may be called from another device is held for
    it; the locale \<open>reference_ledger\<close> carries this from a step to a run.
  \<^item> \<open>Device_Listener\<close>, \<open>Device_Service\<close>, \<open>Device_Negotiation\<close>, \<open>Device_Stub\<close>: \<open>dbinder_service\<close>; the sockets and
    the message between devices, the tables, the negotiation and the death reports, and the stub.
    \<open>Device_Proofs\<close>: a served request gives a session, pending requests are answered once, what
    happens to tokens, refused loads and descriptors. \<open>Device_Registry\<close>, \<open>Device_Invariant\<close>: the invariant
    of the tables over all interleavings (\<open>device_step\<close>), and the report of a lost device as one
    removal.
  \<^item> \<open>Message_Parcel\<close>: \<open>message_parcel.cpp\<close>, with open descriptors, shared memory and mapped pages as
    state. \<open>Parcel_Proofs\<close>: what a parcel owns, and that its destructor gives it back after any run of
    operations (\<open>parcel_run\<close>). \<open>Parcel_Contents\<close>: raw data and proxies of other devices are read back,
    and what a second attempt to share raw data loses. \<open>Parcel_Append\<close>: a parcel that is appended to
    another shares no descriptor with it.
  \<^item> \<open>Payload_Statistics\<close>: \<open>ipc_payload_statistics_impl.cpp\<close>; the counters as a summary of the reports
    made, and when they are exact.
  \<^item> \<open>Io_Serializer\<close>, \<open>Io_Sequences\<close>, \<open>Io_Objects\<close>: \<open>serializer_inner.c\<close> and \<open>serializer.c\<close>, the
    buffer \<open>IpcIo\<close> with its reads and writes. \<open>Io_Proofs\<close> gives the invariant and the effect of each
    primitive; \<open>Io_Values\<close> states what a kind of value promises (locale \<open>serial_format\<close>: writing
    advances both cursors alike, reading gives the value back) and gets from it that a sequence of
    values is read back; \<open>Io_Objects_Proofs\<close> has the table of objects.
  \<^item> \<open>Lite_Skeleton\<close>, \<open>Lite_Skeleton_Proofs\<close>: \<open>ipc_process_skeleton.c\<close>, \<open>ipc_thread_pool.c\<close>,
    \<open>ipc_skeleton.c\<close> and the commands that \<open>ipc_invoker.c\<close> gives the driver; death recipients and
    the reference counts of handles.

  \<^bold>\<open>Conventions.\<close> Every operation is a function on the record of its component; what it may ask of
  the operating system, the allocator, the secure copy functions, the socket and existing objects
  is a parameter. Fixed-width integers are words where wrap-around can matter, and integers with
  their bounds proved otherwise. Pointers are numbers, 0 is null. An operation that takes a lock
  and releases it within is one step; waiting operations are split at the wait. Logging is left
  out. All loops are structural recursions or have a termination proof, except the two loops that
  may run as long as the driver keeps a thread busy: \<open>wait_loop\<close> and \<open>work_loop\<close> get a number of
  rounds and have the result \<open>None\<close> when it is used up. A result does not depend on the number
  (\<open>wait_loop_mono\<close>), and a wait needs as many rounds as the driver gives commands until the reply.

  \<^bold>\<open>Not modelled.\<close> The binder driver itself, the softbus socket library, the base class \<open>Parcel\<close>
  (it is part of another repository; \<open>Message_Parcel\<close> has its operations as a parameter), hidump, hitrace and logging, and the bindings for ArkTS,
  Cangjie and Rust, which convert values and call the core. The C implementation for LiteOS-M
  and the C library for other devices are left for later. The manifest lists all parts with the reason.
\<close>

end
